(* ===== verification/KcdPrelude.thy ===== *)
theory KcdPrelude
  imports Main "HOL-Library.Word"
begin

text \<open>
  Shared vocabulary of the development: Go's 64-bit integer arithmetic, the clock
  (\<open>time.Time\<close> and \<open>time.Duration\<close>), the generic invariant locale used for every
  step relation, and small list and map lemmas.

  A \<open>time.Duration\<close> is an \<open>int\<close> number of nanoseconds.  A \<open>time.Time\<close> is an optional
  number of nanoseconds: \<open>None\<close> is Go's zero \<open>time.Time\<close> (\<open>IsZero()\<close>), which lies
  two thousand years before any wall clock reading, so that \<open>time.Since\<close> of it saturates
  at the largest duration.
\<close>

named_theorems kcd_defs "definitions unfolded to reason about one operation"
named_theorems kcd_inv "preservation of a component's invariant, one fact per operation"

section \<open>64-bit integers\<close>

definition max_int64 :: int where
  "max_int64 = 9223372036854775807"

definition min_int64 :: int where
  "min_int64 = - 9223372036854775808"

text \<open>Wrap-around of a signed 64-bit result.\<close>

definition wrap64 :: "int \<Rightarrow> int" where
  "wrap64 x = (x + 9223372036854775808) mod 18446744073709551616 - 9223372036854775808"

text \<open>Saturation, as \<open>Time.Sub\<close> does it.\<close>

definition sat64 :: "int \<Rightarrow> int" where
  "sat64 x = max min_int64 (min max_int64 x)"

definition in_int64 :: "int \<Rightarrow> bool" where
  "in_int64 x \<longleftrightarrow> min_int64 \<le> x \<and> x \<le> max_int64"

lemma wrap64_id [simp]: "in_int64 x \<Longrightarrow> wrap64 x = x"
  by (simp add: in_int64_def wrap64_def min_int64_def max_int64_def)

lemma wrap64_range: "in_int64 (wrap64 x)"
  by (simp add: in_int64_def wrap64_def min_int64_def max_int64_def)

lemma sat64_id [simp]: "in_int64 x \<Longrightarrow> sat64 x = x"
  by (simp add: in_int64_def sat64_def min_int64_def max_int64_def)

section \<open>Time\<close>

type_synonym duration = int
type_synonym gtime = "int option"

definition millisecond :: duration where
  "millisecond = 1000000"

definition second :: duration where
  "second = 1000000000"

definition minute :: duration where
  "minute = 60 * second"

text \<open>\<open>time.Since(t)\<close> at the clock reading \<open>now\<close>.\<close>

definition time_since :: "int \<Rightarrow> gtime \<Rightarrow> duration" where
  "time_since now t = (case t of None \<Rightarrow> max_int64 | Some t0 \<Rightarrow> sat64 (now - t0))"

lemma time_since_zero [simp]: "time_since now None = max_int64"
  by (simp add: time_since_def)

lemma time_since_lt_iff:
  assumes "d \<le> max_int64"
  shows "time_since now (Some t) < d \<longleftrightarrow> now - t < d \<and> min_int64 < d"
  using assms by (auto simp: time_since_def sat64_def min_int64_def max_int64_def)

section \<open>Invariants of step relations\<close>

text \<open>
  One contract for every state machine of the development: a step relation and a predicate
  its steps keep.  The client fact is that runs keep it.
\<close>

locale invariant_system =
  fixes step :: "'s \<Rightarrow> 's \<Rightarrow> bool"
    and inv :: "'s \<Rightarrow> bool"
  assumes step_inv: "inv s \<Longrightarrow> step s t \<Longrightarrow> inv t"
begin

lemma run_inv: "step\<^sup>*\<^sup>* s t \<Longrightarrow> inv s \<Longrightarrow> inv t"
  by (induction rule: rtranclp_induct) (auto intro: step_inv)

lemma run_nonempty_inv: "step\<^sup>+\<^sup>+ s t \<Longrightarrow> inv s \<Longrightarrow> inv t"
  by (drule tranclp_into_rtranclp) (rule run_inv)

end

section \<open>Relations\<close>

lemma rtranclp_two_steps: "r a b \<Longrightarrow> r b c \<Longrightarrow> r\<^sup>*\<^sup>* a c"
  by (meson rtranclp.rtrancl_into_rtrancl rtranclp.rtrancl_refl)

end
