(* ===== verification/Json.thy ===== *)
theory Json
  imports Strconv
begin

text \<open>
  JSON values and the parts of \<open>encoding/json\<close> the packet bodies rely on.  A number keeps
  its literal text, because Go decides from the text whether it fits an integer field; an
  object is an association list in the order of the document, because duplicate keys
  overwrite each other in that order.

  Decoding into a struct field follows \<open>Unmarshal\<close>: \<open>null\<close> leaves the field unchanged, a
  value of the wrong type is an error, unknown keys are skipped, and a key matches a field
  by its folded name (\<open>fold_name\<close>: ASCII case, and the two non-ASCII runes that fold to
  ASCII letters).  Every error makes the whole decode \<open>None\<close>, since the callers drop the
  body then.
\<close>

datatype json =
    JNull
  | JBool bool
  | JNum string
  | JStr string
  | JArr "json list"
  | JObj "(string \<times> json) list"

definition lower :: "char \<Rightarrow> char" where
  "lower c = (if 65 \<le> byte c \<and> byte c \<le> 90 then char_of (byte c + 32) else c)"

fun fold_name :: "string \<Rightarrow> string" where
  "fold_name [] = []"
| "fold_name (c # s) =
     (case s of
        c1 # s1 \<Rightarrow>
          if byte c = 197 \<and> byte c1 = 191 then CHR ''s'' # fold_name s1
          else (case s1 of
                  c2 # s2 \<Rightarrow>
                    if byte c = 226 \<and> byte c1 = 132 \<and> byte c2 = 170 then CHR ''k'' # fold_name s2
                    else lower c # fold_name s
                | [] \<Rightarrow> lower c # fold_name s)
      | [] \<Rightarrow> [lower c])"

definition key_matches :: "string \<Rightarrow> string \<Rightarrow> bool" where
  "key_matches field key \<longleftrightarrow> fold_name field = fold_name key"

section \<open>Scalar fields\<close>

text \<open>Each takes the value the field has so far and returns the new one.\<close>

fun dec_bool :: "json \<Rightarrow> bool \<Rightarrow> bool option" where
  "dec_bool JNull old = Some old"
| "dec_bool (JBool b) old = Some b"
| "dec_bool _ old = None"

text \<open>An integer field accepts exactly the literals \<open>ParseInt\<close> accepts (no fraction, no exponent).\<close>

fun dec_int :: "json \<Rightarrow> int \<Rightarrow> int option" where
  "dec_int JNull old = Some old"
| "dec_int (JNum lit) old = atoi lit"
| "dec_int _ old = None"

fun dec_str :: "json \<Rightarrow> string \<Rightarrow> string option" where
  "dec_str JNull old = Some old"
| "dec_str (JStr s) old = Some s"
| "dec_str _ old = None"

fun dec_str_elems :: "json list \<Rightarrow> string list option" where
  "dec_str_elems [] = Some []"
| "dec_str_elems (j # js) =
     (case (dec_str j [], dec_str_elems js) of
        (Some s, Some ss) \<Rightarrow> Some (s # ss)
      | _ \<Rightarrow> None)"

fun dec_strs :: "json \<Rightarrow> string list \<Rightarrow> string list option" where
  "dec_strs JNull old = Some []"
| "dec_strs (JArr js) old = dec_str_elems js"
| "dec_strs _ old = None"

section \<open>Structs\<close>

text \<open>
  A struct decoder is a step function: it takes one key and value and the struct so far.
  \<open>dec_struct\<close> runs it over an object; a \<open>null\<close> document leaves the zero struct.
\<close>

fun dec_entries :: "(string \<Rightarrow> json \<Rightarrow> 'a \<Rightarrow> 'a option) \<Rightarrow> (string \<times> json) list \<Rightarrow> 'a \<Rightarrow> 'a option" where
  "dec_entries f [] a = Some a"
| "dec_entries f ((k, v) # es) a =
     (case f k v a of None \<Rightarrow> None | Some a' \<Rightarrow> dec_entries f es a')"

fun dec_struct :: "(string \<Rightarrow> json \<Rightarrow> 'a \<Rightarrow> 'a option) \<Rightarrow> json \<Rightarrow> 'a \<Rightarrow> 'a option" where
  "dec_struct f (JObj es) zero = dec_entries f es zero"
| "dec_struct f JNull zero = Some zero"
| "dec_struct f _ zero = None"

text \<open>
  \<open>json.RawMessage\<close> of a packet without a body is the empty text, on which \<open>Unmarshal\<close>
  fails with "unexpected end of JSON input".
\<close>

definition unmarshal_raw :: "(json \<Rightarrow> 'a option) \<Rightarrow> json option \<Rightarrow> 'a option" where
  "unmarshal_raw dec raw = (case raw of None \<Rightarrow> None | Some j \<Rightarrow> dec j)"

definition enc_int :: "int \<Rightarrow> json" where
  "enc_int i = JNum (show_int i)"

lemma dec_int_enc_int [simp]: "in_int64 i \<Longrightarrow> dec_int (enc_int i) old = Some i"
  by (simp add: enc_int_def atoi_show_int)

lemma dec_int_range: "in_int64 old \<Longrightarrow> dec_int j old = Some i \<Longrightarrow> in_int64 i"
  by (cases j) (auto dest: atoi_range)

lemma dec_str_elems_map [simp]: "dec_str_elems (map JStr ss) = Some ss"
  by (induction ss) auto

lemma dec_entries_append:
  "dec_entries f (xs @ ys) a =
     (case dec_entries f xs a of None \<Rightarrow> None | Some a' \<Rightarrow> dec_entries f ys a')"
  by (induction f xs a rule: dec_entries.induct) (auto split: option.splits)

text \<open>What every entry step keeps, the whole decode keeps.\<close>

definition dec_keeps :: "(string \<Rightarrow> json \<Rightarrow> 'a \<Rightarrow> 'a option) \<Rightarrow> ('a \<Rightarrow> bool) \<Rightarrow> bool" where
  "dec_keeps f P \<longleftrightarrow> (\<forall>k v a a'. P a \<longrightarrow> f k v a = Some a' \<longrightarrow> P a')"

lemma dec_entries_inv:
  "dec_keeps f P \<Longrightarrow> P a \<Longrightarrow> dec_entries f es a = Some a' \<Longrightarrow> P a'"
proof (induction es arbitrary: a)
  case (Cons e es)
  obtain k v where e: "e = (k, v)" by force
  then obtain b where b: "f k v a = Some b" "dec_entries f es b = Some a'"
    using Cons.prems(3) by (auto split: option.splits)
  then have "P b" using Cons.prems(1,2) by (auto simp: dec_keeps_def)
  then show ?case using Cons.IH Cons.prems(1) b(2) by blast
qed simp

lemma dec_struct_inv:
  "dec_keeps f P \<Longrightarrow> P zero \<Longrightarrow> dec_struct f j zero = Some a' \<Longrightarrow> P a'"
  by (cases j) (auto intro: dec_entries_inv)

end
