(* ===== verification/Packet.thy ===== *)
theory Packet
  imports Json
begin

text \<open>
  \<open>internal/protocol/packet.go\<close> and \<open>pair.go\<close>: the packet struct, the packet pool, and the
  newline-delimited framing with its size limit.

  The byte source is a \<open>bufio.Reader\<close>: the bytes still to come, how the stream ends, and
  the buffer size.  \<open>ReadSlice\<close> returns the bytes up to a newline, a full buffer, or what is
  left with the terminal error.  The framing loop is proved equal to a buffer-free
  specification (\<open>split_line\<close>), for every buffer size and limit.

  The JSON text of a whole packet is read and written by \<open>encoding/json\<close>; the two
  conversions are parameters (\<open>unmarshal\<close>, \<open>marshal\<close>) of the definitions that use them.
\<close>

section \<open>Packets\<close>

record packet =
  pk_id :: int
  pk_type :: string
  pk_body :: "json option"
  pk_payload_size :: int
  pk_transfer :: "int option"

definition zero_packet :: packet where
  "zero_packet = \<lparr>pk_id = 0, pk_type = [], pk_body = None, pk_payload_size = 0, pk_transfer = None\<rparr>"

definition MaxPacketSize :: int where
  "MaxPacketSize = 32 * 1024 * 1024"

definition MaxIdentityPacketSize :: int where
  "MaxIdentityPacketSize = 512 * 1024"

definition Reset :: "packet \<Rightarrow> packet" where
  "Reset p =
     p\<lparr>pk_id := 0, pk_type := [], pk_body := None, pk_payload_size := 0, pk_transfer := None\<rparr>"

text \<open>A nil body becomes the empty object.\<close>

definition NewPacket :: "int \<Rightarrow> string \<Rightarrow> json option \<Rightarrow> packet" where
  "NewPacket now_ms typ body =
     \<lparr>pk_id = now_ms, pk_type = typ,
      pk_body = Some (case body of None \<Rightarrow> JObj [] | Some j \<Rightarrow> j),
      pk_payload_size = 0, pk_transfer = None\<rparr>"

section \<open>The packet pool\<close>

record pool =
  pool_free :: "packet list"
  pool_acquires :: nat
  pool_misses :: nat

definition AcquirePacket :: "pool \<Rightarrow> packet \<times> pool" where
  "AcquirePacket pl =
     (let pl = pl\<lparr>pool_acquires := Suc (pool_acquires pl)\<rparr>
      in case pool_free pl of
           [] \<Rightarrow> (Reset zero_packet, pl\<lparr>pool_misses := Suc (pool_misses pl)\<rparr>)
         | p # ps \<Rightarrow> (Reset p, pl\<lparr>pool_free := ps\<rparr>))"

definition ReleasePacket :: "packet option \<Rightarrow> pool \<Rightarrow> pool" where
  "ReleasePacket p pl =
     (case p of None \<Rightarrow> pl | Some q \<Rightarrow> pl\<lparr>pool_free := Reset q # pool_free pl\<rparr>)"

definition PoolStats :: "pool \<Rightarrow> nat \<times> nat" where
  "PoolStats pl = (pool_acquires pl, pool_misses pl)"

definition pool_ok :: "pool \<Rightarrow> bool" where
  "pool_ok pl \<longleftrightarrow> pool_misses pl \<le> pool_acquires pl \<and> (\<forall>p \<in> set (pool_free pl). p = zero_packet)"

lemma Reset_zero [simp]: "Reset p = zero_packet"
  by (simp add: Reset_def zero_packet_def)

lemma AcquirePacket_zeroed: "fst (AcquirePacket pl) = zero_packet"
  by (simp add: AcquirePacket_def Let_def split: list.splits)

lemma AcquirePacket_ok [kcd_inv]: "pool_ok pl \<Longrightarrow> pool_ok (snd (AcquirePacket pl))"
  by (auto simp: AcquirePacket_def Let_def pool_ok_def split: list.splits)

lemma ReleasePacket_ok [kcd_inv]: "pool_ok pl \<Longrightarrow> pool_ok (ReleasePacket p pl)"
  by (auto simp: ReleasePacket_def pool_ok_def split: option.splits)

section \<open>The byte source\<close>

datatype stream_end = EndEOF | EndError

datatype slice_result = SliceOk | SliceFull | SliceEnd stream_end

record reader =
  rd_rest :: string
  rd_end :: stream_end
  rd_size :: nat

abbreviation newline :: char where
  "newline \<equiv> CHR 0x0A"

text \<open>\<open>bufio\<close> never uses a buffer below 16 bytes.\<close>

definition buf_size :: "reader \<Rightarrow> nat" where
  "buf_size r = max 16 (rd_size r)"

definition line_of :: "string \<Rightarrow> string" where
  "line_of s = takeWhile (\<lambda>c. c \<noteq> newline) s @ [newline]"

definition after_line :: "string \<Rightarrow> string" where
  "after_line s = tl (dropWhile (\<lambda>c. c \<noteq> newline) s)"

definition ReadSlice :: "reader \<Rightarrow> string \<times> slice_result \<times> reader" where
  "ReadSlice r =
     (let window = take (buf_size r) (rd_rest r)
      in if newline \<in> set window
         then (line_of window, SliceOk, r\<lparr>rd_rest := after_line (rd_rest r)\<rparr>)
         else if length (rd_rest r) \<ge> buf_size r
         then (window, SliceFull, r\<lparr>rd_rest := drop (buf_size r) (rd_rest r)\<rparr>)
         else (rd_rest r, SliceEnd (rd_end r), r\<lparr>rd_rest := []\<rparr>))"

lemma ReadSlice_full_shorter:
  "ReadSlice r = (chunk, SliceFull, r') \<Longrightarrow> length (rd_rest r') < length (rd_rest r)"
  by (auto simp: ReadSlice_def Let_def buf_size_def split: if_splits)

section \<open>Framing\<close>

datatype read_error =
    InvalidLimit int
  | PacketTooLarge
  | ReadFailed stream_end
  | Truncated
  | EmptyPacket
  | Unmarshal

function discardLoop :: "reader \<Rightarrow> reader" where
  "discardLoop r =
     (case ReadSlice r of
        (chunk, SliceOk, r') \<Rightarrow> r'
      | (chunk, SliceFull, r') \<Rightarrow>
          if chunk \<noteq> [] \<and> last chunk = newline then r' else discardLoop r'
      | (chunk, SliceEnd e, r') \<Rightarrow> r')"
  by pat_completeness auto
termination
  by (relation "measure (length \<circ> rd_rest)") (auto dest: ReadSlice_full_shorter [OF sym])

declare discardLoop.simps [simp del]

definition discardLine :: "reader \<Rightarrow> string \<Rightarrow> slice_result \<Rightarrow> reader" where
  "discardLine r chunk res =
     (if res = SliceOk \<or> (chunk \<noteq> [] \<and> last chunk = newline) then r else discardLoop r)"

function readLoop_line :: "reader \<Rightarrow> int \<Rightarrow> string \<Rightarrow> (read_error + string) \<times> reader" where
  "readLoop_line r mx line =
     (case ReadSlice r of
        (chunk, res, r') \<Rightarrow>
          if int (length chunk) > mx - int (length line)
          then (Inl PacketTooLarge, discardLine r' chunk res)
          else (case res of
                  SliceOk \<Rightarrow> (Inr (line @ chunk), r')
                | SliceFull \<Rightarrow> readLoop_line r' mx (line @ chunk)
                | SliceEnd EndEOF \<Rightarrow>
                    (if line @ chunk = [] then Inl (ReadFailed EndEOF) else Inl Truncated, r')
                | SliceEnd EndError \<Rightarrow> (Inl (ReadFailed EndError), r')))"
  by pat_completeness auto
termination
  by (relation "measure (\<lambda>(r, mx, line). length (rd_rest r))")
    (auto dest: ReadSlice_full_shorter [OF sym])

declare readLoop_line.simps [simp del]

definition readLineBounded :: "reader \<Rightarrow> int \<Rightarrow> (read_error + string) \<times> reader" where
  "readLineBounded r mx =
     (if mx \<le> 0 then (Inl (InvalidLimit mx), r) else readLoop_line r mx [])"

definition ReadPacketBounded ::
  "(string \<Rightarrow> packet option) \<Rightarrow> reader \<Rightarrow> int \<Rightarrow> (read_error + packet) \<times> reader" where
  "ReadPacketBounded unmarshal r mx =
     (case readLineBounded r mx of
        (Inl e, r') \<Rightarrow> (Inl e, r')
      | (Inr line, r') \<Rightarrow>
          if line = [] then (Inl EmptyPacket, r')
          else (case unmarshal line of
                  None \<Rightarrow> (Inl Unmarshal, r')
                | Some p \<Rightarrow> (Inr p, r')))"

definition ReadPacket :: "(string \<Rightarrow> packet option) \<Rightarrow> reader \<Rightarrow> (read_error + packet) \<times> reader" where
  "ReadPacket unmarshal r = ReadPacketBounded unmarshal r MaxPacketSize"

text \<open>\<open>json.Encoder.Encode\<close> appends a newline to the value's text.\<close>

definition WritePacket :: "(packet \<Rightarrow> string option) \<Rightarrow> packet \<Rightarrow> string option" where
  "WritePacket marshal p = (case marshal p of None \<Rightarrow> None | Some t \<Rightarrow> Some (t @ [newline]))"

section \<open>The framing without the buffer\<close>

definition split_line :: "string \<Rightarrow> stream_end \<Rightarrow> int \<Rightarrow> (read_error + string) \<times> string" where
  "split_line s e mx =
     (if newline \<in> set s
      then (if int (length (line_of s)) > mx then Inl PacketTooLarge else Inr (line_of s), after_line s)
      else if int (length s) > mx then (Inl PacketTooLarge, [])
      else (case e of
              EndEOF \<Rightarrow> if s = [] then Inl (ReadFailed EndEOF) else Inl Truncated
            | EndError \<Rightarrow> Inl (ReadFailed EndError), []))"

lemma line_after_line: "newline \<in> set s \<Longrightarrow> line_of s @ after_line s = s"
proof -
  assume "newline \<in> set s"
  then have "dropWhile (\<lambda>c. c \<noteq> newline) s \<noteq> []" by (auto simp: dropWhile_eq_Nil_conv)
  moreover have "hd (dropWhile (\<lambda>c. c \<noteq> newline) s) = newline"
    using hd_dropWhile [OF calculation] by simp
  ultimately have "dropWhile (\<lambda>c. c \<noteq> newline) s = newline # after_line s"
    by (metis after_line_def list.collapse)
  then show ?thesis
    using takeWhile_dropWhile_id [of "\<lambda>c. c \<noteq> newline" s] by (simp add: line_of_def)
qed

lemma line_of_append: "newline \<notin> set s \<Longrightarrow> line_of (s @ t) = s @ line_of t"
  by (induction s) (auto simp: line_of_def)

lemma after_line_append: "newline \<notin> set s \<Longrightarrow> after_line (s @ t) = after_line t"
  by (induction s) (auto simp: after_line_def)

lemma line_of_prefix: "newline \<in> set s \<Longrightarrow> line_of (s @ t) = line_of s"
  by (induction s) (auto simp: line_of_def)

lemma after_line_prefix: "newline \<in> set s \<Longrightarrow> after_line (s @ t) = after_line s @ t"
  by (induction s) (auto simp: after_line_def)

text \<open>The three outcomes of \<open>ReadSlice\<close>, as the loops below use them.\<close>

lemma ReadSlice_cases:
  obtains (line) "newline \<in> set (rd_rest r)"
      "ReadSlice r = (line_of (rd_rest r), SliceOk, r\<lparr>rd_rest := after_line (rd_rest r)\<rparr>)"
  | (full) chunk rest where "rd_rest r = chunk @ rest" "newline \<notin> set chunk" "chunk \<noteq> []"
      "ReadSlice r = (chunk, SliceFull, r\<lparr>rd_rest := rest\<rparr>)"
  | (ended) "newline \<notin> set (rd_rest r)"
      "ReadSlice r = (rd_rest r, SliceEnd (rd_end r), r\<lparr>rd_rest := []\<rparr>)"
proof -
  let ?w = "take (buf_size r) (rd_rest r)"
  have app: "rd_rest r = ?w @ drop (buf_size r) (rd_rest r)" by simp
  consider "newline \<in> set ?w"
    | "newline \<notin> set ?w" "length (rd_rest r) \<ge> buf_size r"
    | "newline \<notin> set ?w" "length (rd_rest r) < buf_size r"
    by linarith
  then show thesis
  proof cases
    case 1
    then have "newline \<in> set (rd_rest r)" by (auto dest: in_set_takeD)
    moreover have "line_of (rd_rest r) = line_of ?w"
      by (subst app) (rule line_of_prefix [OF 1])
    ultimately show thesis using 1 line by (simp add: ReadSlice_def)
  next
    case 2
    have "?w \<noteq> []" using 2(2) by (auto simp: buf_size_def)
    with 2 show thesis using full [of ?w "drop (buf_size r) (rd_rest r)"] by (simp add: ReadSlice_def)
  next
    case 3
    then show thesis using ended by (simp add: ReadSlice_def)
  qed
qed

lemma discardLoop_eq:
  "discardLoop r =
     r\<lparr>rd_rest := if newline \<in> set (rd_rest r) then after_line (rd_rest r) else []\<rparr>"
proof (induction r rule: discardLoop.induct)
  case (1 r)
  show ?case
  proof (cases r rule: ReadSlice_cases)
    case line
    then show ?thesis by (simp add: discardLoop.simps [of r])
  next
    case (full chunk rest)
    then have nl: "last chunk \<noteq> newline" using last_in_set [of chunk] by metis
    with 1 full have IH: "discardLoop (r\<lparr>rd_rest := rest\<rparr>) =
        r\<lparr>rd_rest := if newline \<in> set rest then after_line rest else []\<rparr>"
      by simp
    show ?thesis using full nl IH by (simp add: discardLoop.simps [of r] after_line_append)
  next
    case ended
    then show ?thesis by (simp add: discardLoop.simps [of r])
  qed
qed

lemma readLoop_line_eq:
  assumes "newline \<notin> set line" and "int (length line) \<le> mx"
  shows "readLoop_line r mx line =
     (case split_line (line @ rd_rest r) (rd_end r) mx of (res, rest) \<Rightarrow> (res, r\<lparr>rd_rest := rest\<rparr>))"
  using assms
proof (induction r mx line rule: readLoop_line.induct)
  case (1 r mx line)
  show ?case
  proof (cases r rule: ReadSlice_cases)
    case line
    then show ?thesis using 1(2)
      by (auto simp: readLoop_line.simps [of r] split_line_def discardLine_def line_of_append
          after_line_append)
  next
    case (full chunk rest)
    then have nl: "last chunk \<noteq> newline" using last_in_set [of chunk] by metis
    show ?thesis
    proof (cases "int (length chunk) > mx - int (length line)")
      case True
      then show ?thesis using 1(2) full nl
        by (auto simp: readLoop_line.simps [of r] split_line_def discardLine_def discardLoop_eq
            line_of_append after_line_append)
    next
      case False
      have "readLoop_line (r\<lparr>rd_rest := rest\<rparr>) mx (line @ chunk) =
         (case split_line ((line @ chunk) @ rest) (rd_end r) mx of
            (res, rest') \<Rightarrow> (res, r\<lparr>rd_rest := rest'\<rparr>))"
        using 1(1) [OF full(4) [symmetric] refl False refl] full(2) 1(2) False by simp
      then show ?thesis using full False by (simp add: readLoop_line.simps [of r])
    qed
  next
    case ended
    then show ?thesis using 1(2)
      by (auto simp: readLoop_line.simps [of r] split_line_def discardLine_def discardLoop_eq
          split: stream_end.splits)
  qed
qed

lemma readLineBounded_eq:
  assumes "0 < mx"
  shows "readLineBounded r mx =
     (case split_line (rd_rest r) (rd_end r) mx of (res, rest) \<Rightarrow> (res, r\<lparr>rd_rest := rest\<rparr>))"
  using assms by (simp add: readLineBounded_def readLoop_line_eq)

text \<open>
  C7. The framing loop implements its buffer-free specification, for every buffer size and every
  positive limit: a line of at most \<open>mx\<close> bytes (newline included) is returned whole; a longer
  one is reported as too large and discarded through its newline, so that the reader stands at
  the first byte of the next line; a stream that ends inside a line is a truncation error.
\<close>
theorem readLineBounded_frames:
  assumes "0 < mx"
  shows "fst (readLineBounded r mx) = fst (split_line (rd_rest r) (rd_end r) mx) \<and>
     rd_rest (snd (readLineBounded r mx)) = snd (split_line (rd_rest r) (rd_end r) mx)"
  using assms by (simp add: readLineBounded_eq split: prod.splits)

theorem readLineBounded_frames_witness:
  "(0::int) < 3 \<and>
   readLineBounded \<lparr>rd_rest = ''abcde'' @ [newline] @ ''f'', rd_end = EndEOF, rd_size = 0\<rparr> 3
     = (Inl PacketTooLarge, \<lparr>rd_rest = ''f'', rd_end = EndEOF, rd_size = 0\<rparr>)"
proof -
  let ?r = "\<lparr>rd_rest = ''abcde'' @ [newline] @ ''f'', rd_end = EndEOF, rd_size = 0\<rparr>"
  have "fst (readLineBounded ?r 3) = Inl PacketTooLarge \<and> rd_rest (snd (readLineBounded ?r 3)) = ''f''"
    using readLineBounded_frames [of 3 ?r] by (simp add: split_line_def line_of_def after_line_def)
  moreover have "rd_end (snd (readLineBounded ?r 3)) = EndEOF \<and> rd_size (snd (readLineBounded ?r 3)) = 0"
    by (simp add: readLineBounded_eq split: prod.splits)
  ultimately show ?thesis by (cases "readLineBounded ?r 3") simp
qed

text \<open>
  A packet written by \<open>WritePacket\<close> is read back by \<open>ReadPacketBounded\<close>, and the reader is
  left at the first byte after it, whatever follows on the stream and whatever the buffer size.
  The hypotheses are the contract of \<open>encoding/json\<close>: the text of a value holds no newline
  and decodes to the value.
\<close>
theorem write_read_packet:
  assumes "marshal p = Some t" and "newline \<notin> set t" and "unmarshal (t @ [newline]) = Some p"
    and "int (length t) < mx" and "WritePacket marshal p = Some w"
    and "rd_rest r = w @ tail"
  shows "ReadPacketBounded unmarshal r mx = (Inr p, r\<lparr>rd_rest := tail\<rparr>)"
proof -
  have w: "w = t @ [newline]" using assms(1,5) by (simp add: WritePacket_def)
  have "line_of (t @ newline # tail) = t @ [newline]"
    using assms(2) by (simp add: line_of_append) (simp add: line_of_def)
  moreover have "after_line (t @ newline # tail) = tail"
    using assms(2) by (simp add: after_line_append) (simp add: after_line_def)
  ultimately have "readLineBounded r mx = (Inr (t @ [newline]), r\<lparr>rd_rest := tail\<rparr>)"
    using assms(4,6) by (simp add: readLineBounded_eq split_line_def w)
  then show ?thesis using assms(3) by (simp add: ReadPacketBounded_def)
qed

theorem write_read_packet_witness:
  "ReadPacketBounded (\<lambda>l. if l = ''{}'' @ [newline] then Some zero_packet else None)
     \<lparr>rd_rest = ''{}'' @ [newline] @ ''x'', rd_end = EndEOF, rd_size = 4096\<rparr> 512
   = (Inr zero_packet, \<lparr>rd_rest = ''x'', rd_end = EndEOF, rd_size = 4096\<rparr>)"
  using write_read_packet [of "\<lambda>_. Some ''{}''" zero_packet "''{}''"
      "\<lambda>l. if l = ''{}'' @ [newline] then Some zero_packet else None" 512 "''{}'' @ [newline]"
      "\<lparr>rd_rest = ''{}'' @ [newline] @ ''x'', rd_end = EndEOF, rd_size = 4096\<rparr>" "''x''"]
  by (simp add: WritePacket_def)

text \<open>The branch for an empty line is never taken: a returned line ends in its newline.\<close>

lemma readLineBounded_not_Nil: "fst (readLineBounded r mx) \<noteq> Inr []"
proof (cases "0 < mx")
  case True
  then show ?thesis
    by (auto simp: readLineBounded_eq split_line_def line_of_def split: stream_end.splits)
qed (simp add: readLineBounded_def)

text \<open>
  A blank line is never reported as an empty packet: the returned line always holds its
  newline, so the "empty packet" branch of \<open>ReadPacketBounded\<close> is dead and a blank line
  surfaces as a JSON error, which the read loop tolerates.
\<close>
theorem empty_packet_unreachable: "fst (ReadPacketBounded unmarshal r mx) \<noteq> Inl EmptyPacket"
proof -
  obtain res r' where q: "readLineBounded r mx = (res, r')" by force
  have "res \<noteq> Inr []" using readLineBounded_not_Nil [of r mx] by (simp add: q)
  moreover have "res \<noteq> Inl EmptyPacket"
  proof (cases "0 < mx")
    case True
    then have "res = fst (split_line (rd_rest r) (rd_end r) mx)"
      using q by (simp add: readLineBounded_eq split: prod.splits)
    then show ?thesis by (auto simp: split_line_def split: stream_end.splits)
  next
    case False
    then show ?thesis using q by (auto simp: readLineBounded_def)
  qed
  ultimately show ?thesis
    by (auto simp: ReadPacketBounded_def q split: sum.splits option.splits)
qed

section \<open>Pair packets\<close>

definition TypePair :: string where
  "TypePair = ''kdeconnect.pair''"

definition PairAccept :: bool where
  "PairAccept = True"

definition PairReject :: bool where
  "PairReject = False"

record pair_body =
  pb_pair :: bool
  pb_timestamp :: int

definition zero_pair_body :: pair_body where
  "zero_pair_body = \<lparr>pb_pair = False, pb_timestamp = 0\<rparr>"

definition pair_body_field :: "string \<Rightarrow> json \<Rightarrow> pair_body \<Rightarrow> pair_body option" where
  "pair_body_field k v b =
     (if key_matches ''pair'' k then map_option (\<lambda>x. b\<lparr>pb_pair := x\<rparr>) (dec_bool v (pb_pair b))
      else if key_matches ''timestamp'' k
      then map_option (\<lambda>x. b\<lparr>pb_timestamp := x\<rparr>) (dec_int v (pb_timestamp b))
      else Some b)"

definition dec_pair_body :: "json \<Rightarrow> pair_body option" where
  "dec_pair_body j = dec_struct pair_body_field j zero_pair_body"

text \<open>\<open>omitempty\<close> drops a zero timestamp.\<close>

definition enc_pair_body :: "pair_body \<Rightarrow> json" where
  "enc_pair_body b =
     JObj ((''pair'', JBool (pb_pair b)) #
       (if pb_timestamp b = 0 then [] else [(''timestamp'', enc_int (pb_timestamp b))]))"

definition NewPairPacket :: "int \<Rightarrow> bool \<Rightarrow> int \<Rightarrow> packet" where
  "NewPairPacket now_ms pr ts =
     NewPacket now_ms TypePair (Some (enc_pair_body \<lparr>pb_pair = pr, pb_timestamp = ts\<rparr>))"

lemma fold_name_pair_fields:
  "key_matches ''pair'' ''pair''" "\<not> key_matches ''pair'' ''timestamp''"
  "key_matches ''timestamp'' ''timestamp''"
  by (simp_all add: key_matches_def lower_def)

text \<open>What the peer decodes from a pair packet is what was put in.\<close>

lemma dec_enc_pair_body:
  "in_int64 (pb_timestamp b) \<Longrightarrow> dec_pair_body (enc_pair_body b) = Some b"
  by (simp add: dec_pair_body_def enc_pair_body_def pair_body_field_def fold_name_pair_fields
      zero_pair_body_def)

lemma NewPairPacket_simps [simp]:
  "pk_type (NewPairPacket ms pr ts) = TypePair"
  "pk_body (NewPairPacket ms pr ts) = Some (enc_pair_body \<lparr>pb_pair = pr, pb_timestamp = ts\<rparr>)"
  by (simp_all add: NewPairPacket_def NewPacket_def)

end
