(* ===== verification/Utf8.thy ===== *)
theory Utf8
  imports Strconv
begin

text \<open>
  Go's \<open>unicode/utf8\<close>, as the identity code uses it: \<open>utf8_next\<close> is
  \<open>utf8.DecodeRune\<close> (an invalid or truncated sequence yields \<open>RuneError\<close> of width one),
  \<open>runes\<close> the loop \<open>for range s\<close> over a string with the width of each rune,
  \<open>utf8_enc\<close> is \<open>utf8.AppendRune\<close>.  Bytes are \<open>nat\<close>s below 256 and runes \<open>nat\<close>s;
  \<open>rune_error\<close> is U+FFFD.  The main facts: encoding then decoding is the identity on
  scalar values, and decoding only ever produces scalar values.
\<close>

definition rune_error :: nat where
  "rune_error = 65533"

definition scalar :: "nat \<Rightarrow> bool" where
  "scalar r \<longleftrightarrow> r < 55296 \<or> 57344 \<le> r \<and> r < 1114112"

definition cont :: "nat \<Rightarrow> bool" where
  "cont b \<longleftrightarrow> 128 \<le> b \<and> b < 192"

text \<open>The accepted range of the second byte depends on the first (\<open>acceptRanges\<close>).\<close>

definition second_ok :: "nat \<Rightarrow> nat \<Rightarrow> bool" where
  "second_ok b0 b1 \<longleftrightarrow>
     cont b1 \<and> (b0 = 224 \<longrightarrow> 160 \<le> b1) \<and> (b0 = 237 \<longrightarrow> b1 < 160)
     \<and> (b0 = 240 \<longrightarrow> 144 \<le> b1) \<and> (b0 = 244 \<longrightarrow> b1 < 144)"

fun utf8_next :: "nat list \<Rightarrow> nat \<times> nat" where
  "utf8_next [] = (rune_error, 0)"
| "utf8_next (b0 # bs) =
     (if b0 < 128 then (b0, 1)
      else if 194 \<le> b0 \<and> b0 < 224 then
        (case bs of
           b1 # _ \<Rightarrow> if cont b1 then ((b0 - 192) * 64 + (b1 - 128), 2) else (rune_error, 1)
         | [] \<Rightarrow> (rune_error, 1))
      else if 224 \<le> b0 \<and> b0 < 240 then
        (case bs of
           b1 # b2 # _ \<Rightarrow>
             if second_ok b0 b1 \<and> cont b2
             then ((b0 - 224) * 4096 + (b1 - 128) * 64 + (b2 - 128), 3)
             else (rune_error, 1)
         | _ \<Rightarrow> (rune_error, 1))
      else if 240 \<le> b0 \<and> b0 < 245 then
        (case bs of
           b1 # b2 # b3 # _ \<Rightarrow>
             if second_ok b0 b1 \<and> cont b2 \<and> cont b3
             then ((b0 - 240) * 262144 + (b1 - 128) * 4096 + (b2 - 128) * 64 + (b3 - 128), 4)
             else (rune_error, 1)
         | _ \<Rightarrow> (rune_error, 1))
      else (rune_error, 1))"

declare utf8_next.simps(2) [simp del]

function runes :: "nat list \<Rightarrow> (nat \<times> nat) list" where
  "runes [] = []"
| "runes (b # bs) =
     (let (r, w) = utf8_next (b # bs) in (r, w) # runes (drop (w - 1) bs))"
  by pat_completeness auto
termination
  by (relation "measure length") auto

definition utf8_enc :: "nat \<Rightarrow> nat list" where
  "utf8_enc r0 =
     (let r = (if scalar r0 then r0 else rune_error)
      in if r < 128 then [r]
         else if r < 2048 then [192 + r div 64, 128 + r mod 64]
         else if r < 65536 then [224 + r div 4096, 128 + r div 64 mod 64, 128 + r mod 64]
         else [240 + r div 262144, 128 + r div 4096 mod 64, 128 + r div 64 mod 64,
               128 + r mod 64])"

text \<open>Strings to bytes and back.\<close>

definition bytes_of :: "string \<Rightarrow> nat list" where
  "bytes_of s = map of_char s"

definition string_of :: "nat list \<Rightarrow> string" where
  "string_of bs = map char_of bs"

definition runes_of :: "string \<Rightarrow> nat list" where
  "runes_of s = map fst (runes (bytes_of s))"

definition string_of_runes :: "nat list \<Rightarrow> string" where
  "string_of_runes rs = string_of (concat (map utf8_enc rs))"

text \<open>\<open>utf8.ValidString\<close> and \<open>strings.ToValidUTF8(s, "")\<close>.\<close>

definition bad_rune :: "nat \<times> nat \<Rightarrow> bool" where
  "bad_rune rw \<longleftrightarrow> rw = (rune_error, 1)"

definition valid_string :: "string \<Rightarrow> bool" where
  "valid_string s \<longleftrightarrow> list_all (\<lambda>rw. \<not> bad_rune rw) (runes (bytes_of s))"

definition to_valid :: "string \<Rightarrow> string" where
  "to_valid s =
     string_of_runes (map fst (filter (\<lambda>rw. \<not> bad_rune rw) (runes (bytes_of s))))"

section \<open>Encoding then decoding\<close>

lemma bytes_of_string_of: "list_all (\<lambda>b. b < 256) bs \<Longrightarrow> bytes_of (string_of bs) = bs"
  by (induction bs) (auto simp: bytes_of_def string_of_def of_char_of)

lemma string_of_bytes_of [simp]: "string_of (bytes_of s) = s"
  by (simp add: bytes_of_def string_of_def comp_def)

lemma scalar_rune_error [simp]: "scalar rune_error"
  by (simp add: scalar_def rune_error_def)

lemma utf8_enc_not_Nil [simp]: "utf8_enc r \<noteq> []"
  by (simp add: utf8_enc_def Let_def)

lemma utf8_enc_bytes: "list_all (\<lambda>b. b < 256) (utf8_enc r)"
proof -
  define q where "q = (if scalar r then r else rune_error)"
  have q: "q < 1114112" by (simp add: q_def scalar_def rune_error_def)
  have m: "128 + m mod 64 < 256" for m :: nat
    using mod_less_divisor [of 64 m] by linarith
  have e: "utf8_enc r =
     (if q < 128 then [q]
      else if q < 2048 then [192 + q div 64, 128 + q mod 64]
      else if q < 65536 then [224 + q div 4096, 128 + q div 64 mod 64, 128 + q mod 64]
      else [240 + q div 262144, 128 + q div 4096 mod 64, 128 + q div 64 mod 64, 128 + q mod 64])"
    by (simp add: utf8_enc_def q_def)
  have d: "q < 2048 \<Longrightarrow> 192 + q div 64 < 256" "q < 65536 \<Longrightarrow> 224 + q div 4096 < 256"
    "240 + q div 262144 < 256"
    using q by auto
  show ?thesis unfolding e using m d by simp
qed

lemma div_4096: "(r::nat) div 4096 = r div 64 div 64"
  using div_mult2_eq [of r 64 64] by simp

lemma div_262144: "(r::nat) div 262144 = r div 4096 div 64"
  using div_mult2_eq [of r 4096 64] by simp

lemma join_64: "(q div 64) * 64 + q mod 64 = (q::nat)"
  by simp

lemma join_4096: "r div 4096 * 4096 + r div 64 mod 64 * 64 + r mod 64 = (r::nat)"
  using join_64 [of r] join_64 [of "r div 64"] by (simp only: div_4096)

lemma join_262144:
  "r div 262144 * 262144 + r div 4096 mod 64 * 4096 + r div 64 mod 64 * 64 + r mod 64 = (r::nat)"
  using join_4096 [of r] join_64 [of "r div 4096"] by (simp only: div_262144)

lemma utf8_next_enc2:
  assumes "128 \<le> r" "r < 2048"
  shows "utf8_next ((192 + r div 64) # (128 + r mod 64) # bs) = (r, 2)"
proof -
  have "194 \<le> 192 + r div 64" "192 + r div 64 < 224" using assms by auto
  then show ?thesis by (simp add: utf8_next.simps(2) cont_def)
qed

lemma utf8_next_enc3:
  assumes "2048 \<le> r" "r < 65536" "scalar r"
  shows "utf8_next ((224 + r div 4096) # (128 + r div 64 mod 64) # (128 + r mod 64) # bs) = (r, 3)"
proof -
  have a: "224 + r div 4096 < 240" using assms by auto
  note b = join_4096 [of r]
  have c: "second_ok (224 + r div 4096) (128 + r div 64 mod 64)"
  proof -
    have "32 \<le> r div 64 mod 64" if "r div 4096 = 0"
      using assms(1) that by (simp add: div_4096)
    moreover have "r div 64 mod 64 < 32" if "r div 4096 = 13"
    proof -
      have "r div 64 = 832 + r div 64 mod 64" using that join_64 [of "r div 64"] by (simp add: div_4096)
      moreover have "r < 55296"
      proof (rule ccontr)
        assume "\<not> r < 55296"
        with assms(3) have "57344 \<le> r" by (simp add: scalar_def)
        then have "14 \<le> r div 4096" by simp
        with that show False by simp
      qed
      ultimately show ?thesis by linarith
    qed
    ultimately show ?thesis using a by (auto simp: second_ok_def cont_def)
  qed
  show ?thesis using a b c by (simp add: utf8_next.simps(2) cont_def)
qed

lemma utf8_next_enc4:
  assumes "65536 \<le> r" "r < 1114112"
  shows "utf8_next ((240 + r div 262144) # (128 + r div 4096 mod 64) # (128 + r div 64 mod 64)
     # (128 + r mod 64) # bs) = (r, 4)"
proof -
  have a: "240 + r div 262144 < 245" using assms by auto
  note b = join_262144 [of r]
  have c: "second_ok (240 + r div 262144) (128 + r div 4096 mod 64)"
  proof -
    have "16 \<le> r div 4096 mod 64" if "r div 262144 = 0"
      using assms(1) that by (simp add: div_262144)
    moreover have "r div 4096 mod 64 < 16" if "r div 262144 = 4"
      using assms(2) that join_64 [of "r div 4096"] by (simp add: div_262144)
    ultimately show ?thesis by (auto simp: second_ok_def cont_def)
  qed
  show ?thesis using a b c by (simp add: utf8_next.simps(2) cont_def)
qed

lemma utf8_next_enc:
  assumes "scalar r"
  shows "utf8_next (utf8_enc r @ bs) = (r, length (utf8_enc r))"
proof -
  have r: "r < 1114112" using assms by (auto simp: scalar_def)
  consider "r < 128" | "128 \<le> r" "r < 2048" | "2048 \<le> r" "r < 65536" | "65536 \<le> r"
    by linarith
  then show ?thesis
  proof cases
    case 1
    then show ?thesis using assms by (simp add: utf8_enc_def utf8_next.simps(2))
  next
    case 2
    then show ?thesis using assms utf8_next_enc2 [of r bs] by (simp add: utf8_enc_def)
  next
    case 3
    then show ?thesis using assms utf8_next_enc3 [of r bs] by (simp add: utf8_enc_def)
  next
    case 4
    then show ?thesis using assms r utf8_next_enc4 [of r bs] by (simp add: utf8_enc_def)
  qed
qed

lemma runes_enc_append:
  assumes "scalar r"
  shows "runes (utf8_enc r @ bs) = (r, length (utf8_enc r)) # runes bs"
proof -
  obtain b cs where e: "utf8_enc r = b # cs" by (cases "utf8_enc r") auto
  then have "utf8_next (b # cs @ bs) = (r, Suc (length cs))"
    using utf8_next_enc [OF assms, of bs] by simp
  then show ?thesis by (simp add: e)
qed

lemma runes_concat_enc:
  "list_all scalar rs \<Longrightarrow>
     runes (concat (map utf8_enc rs)) = map (\<lambda>r. (r, length (utf8_enc r))) rs"
  by (induction rs) (auto simp: runes_enc_append)

lemma concat_enc_bytes: "list_all (\<lambda>b. b < 256) (concat (map utf8_enc rs))"
  by (induction rs) (auto simp: utf8_enc_bytes)

lemma runes_of_string_of_runes:
  "list_all scalar rs \<Longrightarrow> runes_of (string_of_runes rs) = rs"
  by (simp add: runes_of_def string_of_runes_def bytes_of_string_of [OF concat_enc_bytes]
      runes_concat_enc comp_def)

section \<open>Decoding yields scalar values\<close>

lemma utf8_next_width: "utf8_next (b # bs) = (r, w) \<Longrightarrow> 1 \<le> w \<and> w \<le> 4"
  by (auto simp: utf8_next.simps(2) split: if_splits list.splits)

lemma three_byte_scalar:
  assumes "224 \<le> b0" "b0 < 240" "second_ok b0 b1" "cont b2"
  shows "scalar ((b0 - 224) * 4096 + (b1 - 128) * 64 + (b2 - 128))"
proof -
  obtain x y z where e: "b0 = 224 + x" "b1 = 128 + y" "b2 = 128 + z"
    using assms by (auto simp: second_ok_def cont_def dest!: le_Suc_ex)
  have b: "x < 16" "y < 64" "z < 64" using assms by (auto simp: e second_ok_def cont_def)
  consider "x < 13" | "x = 13" | "13 < x" by linarith
  then show ?thesis
    using b assms(3) by cases (auto simp: e scalar_def second_ok_def)
qed

lemma four_byte_scalar:
  assumes "240 \<le> b0" "b0 < 245" "second_ok b0 b1" "cont b2" "cont b3"
  shows "scalar ((b0 - 240) * 262144 + (b1 - 128) * 4096 + (b2 - 128) * 64 + (b3 - 128))"
proof -
  obtain x y z u where e: "b0 = 240 + x" "b1 = 128 + y" "b2 = 128 + z" "b3 = 128 + u"
    using assms by (auto simp: second_ok_def cont_def dest!: le_Suc_ex)
  have b: "x < 5" "y < 64" "z < 64" "u < 64" using assms by (auto simp: e second_ok_def cont_def)
  consider "x = 0" | "0 < x" "x < 4" | "x = 4" using b by linarith
  then show ?thesis
    using b assms(3) by cases (auto simp: e scalar_def second_ok_def)
qed

lemma utf8_next_scalar: "scalar (fst (utf8_next bs))"
proof (cases bs)
  case (Cons b0 cs)
  have "scalar ((b0 - 192) * 64 + (b1 - 128))" if "b0 < 224" "cont b1" for b1
    using that by (auto simp: scalar_def cont_def)
  then show ?thesis
    unfolding Cons
    by (auto simp: utf8_next.simps(2) scalar_def [of b0] three_byte_scalar four_byte_scalar
        split: list.splits)
qed simp

lemma runes_scalar: "list_all (\<lambda>rw. scalar (fst rw)) (runes bs)"
proof (induction bs rule: runes.induct)
  case (2 b bs)
  obtain r w where rw: "utf8_next (b # bs) = (r, w)" by force
  moreover have "scalar r" using utf8_next_scalar [of "b # bs"] by (simp add: rw)
  ultimately show ?case using 2 by simp
qed simp

lemma runes_of_scalar: "list_all scalar (runes_of s)"
  using runes_scalar [of "bytes_of s"] by (simp add: runes_of_def list_all_iff)

lemma list_all_filter: "list_all P xs \<Longrightarrow> list_all P (filter Q xs)"
  by (simp add: list_all_iff)

lemma list_all_take: "list_all P xs \<Longrightarrow> list_all P (take n xs)"
  by (auto simp: list_all_iff dest: in_set_takeD)

text \<open>A string made of scalar runes is valid UTF-8.\<close>

lemma enc_width_not_bad: "\<not> bad_rune (r, length (utf8_enc r))"
  by (auto simp: bad_rune_def utf8_enc_def rune_error_def scalar_def)

lemma valid_string_of_runes:
  assumes "list_all scalar rs"
  shows "valid_string (string_of_runes rs)"
  using assms
  by (simp add: valid_string_def string_of_runes_def bytes_of_string_of [OF concat_enc_bytes]
      runes_concat_enc list_all_iff enc_width_not_bad)

section \<open>Decoding then encoding\<close>

lemma decompose_64:
  assumes "y < 64"
  shows "(x * 64 + y) div 64 = x" and "(x * 64 + y) mod 64 = (y::nat)"
  using assms by auto

text \<open>A rune that is not the mark of an invalid byte is encoded back to the bytes it came from.\<close>

lemma enc_utf8_next:
  assumes "utf8_next (b # bs) = (r, w)" and "\<not> bad_rune (r, w)"
  shows "utf8_enc r = take w (b # bs)"
proof -
  have sc: "scalar r" using utf8_next_scalar [of "b # bs"] assms(1) by simp
  consider (one) "b < 128" "r = b" "w = 1"
    | (two) b1 cs where "194 \<le> b" "b < 224" "bs = b1 # cs" "cont b1"
        "r = (b - 192) * 64 + (b1 - 128)" "w = 2"
    | (three) b1 b2 cs where "224 \<le> b" "b < 240" "bs = b1 # b2 # cs" "second_ok b b1" "cont b2"
        "r = (b - 224) * 4096 + (b1 - 128) * 64 + (b2 - 128)" "w = 3"
    | (four) b1 b2 b3 cs where "240 \<le> b" "b < 245" "bs = b1 # b2 # b3 # cs" "second_ok b b1"
        "cont b2" "cont b3"
        "r = (b - 240) * 262144 + (b1 - 128) * 4096 + (b2 - 128) * 64 + (b3 - 128)" "w = 4"
    using assms
    by (auto simp: utf8_next.simps(2) bad_rune_def split: if_splits list.splits)
  then show ?thesis
  proof cases
    case one
    then show ?thesis using sc by (simp add: utf8_enc_def)
  next
    case two
    obtain x y where e: "b = 192 + x" "b1 = 128 + y"
      using two by (auto simp: cont_def dest!: le_Suc_ex)
    have "y < 64" "2 \<le> x" "x < 32" using two by (auto simp: e cont_def)
    then show ?thesis using two sc by (simp add: e utf8_enc_def)
  next
    case three
    obtain x y z where e: "b = 224 + x" "b1 = 128 + y" "b2 = 128 + z"
      using three by (auto simp: second_ok_def cont_def dest!: le_Suc_ex)
    have b: "x < 16" "y < 64" "z < 64" "x = 0 \<longrightarrow> 32 \<le> y"
      using three by (auto simp: e second_ok_def cont_def)
    have r: "r = (x * 64 + y) * 64 + z" using three by (simp add: e)
    have rg: "2048 \<le> r" "r < 65536" using b by (cases x; simp add: r)+
    have q: "r div 64 = x * 64 + y" "r mod 64 = z"
      unfolding r by (rule decompose_64 [OF b(3)])+
    have q2: "r div 64 div 64 = x" "r div 64 mod 64 = y"
      unfolding q(1) by (rule decompose_64 [OF b(2)])+
    have "utf8_enc r = [224 + x, 128 + y, 128 + z]"
      using rg sc by (simp add: utf8_enc_def div_4096 q2 q(2))
    then show ?thesis using three(3,7) by (simp add: e)
  next
    case four
    obtain x y z u where e: "b = 240 + x" "b1 = 128 + y" "b2 = 128 + z" "b3 = 128 + u"
      using four by (auto simp: second_ok_def cont_def dest!: le_Suc_ex)
    have b: "x < 5" "y < 64" "z < 64" "u < 64" "x = 0 \<longrightarrow> 16 \<le> y"
      using four by (auto simp: e second_ok_def cont_def)
    have r: "r = ((x * 64 + y) * 64 + z) * 64 + u" using four by (simp add: e)
    have rg: "65536 \<le> r" using b by (cases x; simp add: r)
    have q: "r div 64 = (x * 64 + y) * 64 + z" "r mod 64 = u"
      unfolding r by (rule decompose_64 [OF b(4)])+
    have q2: "r div 64 div 64 = x * 64 + y" "r div 64 mod 64 = z"
      unfolding q(1) by (rule decompose_64 [OF b(3)])+
    have q3: "r div 64 div 64 div 64 = x" "r div 64 div 64 mod 64 = y"
      unfolding q2(1) by (rule decompose_64 [OF b(2)])+
    have "utf8_enc r = [240 + x, 128 + y, 128 + z, 128 + u]"
      using rg sc by (simp add: utf8_enc_def div_262144 div_4096 q3 q2(2) q(2))
    then show ?thesis using four(3,8) by (simp add: e)
  qed
qed

lemma concat_enc_runes:
  "list_all (\<lambda>rw. \<not> bad_rune rw) (runes bs)
     \<Longrightarrow> concat (map (\<lambda>rw. utf8_enc (fst rw)) (runes bs)) = bs"
proof (induction bs rule: runes.induct)
  case (2 b bs)
  obtain r w where rw: "utf8_next (b # bs) = (r, w)" by force
  have nb: "\<not> bad_rune (r, w)" using 2(2) by (simp add: rw)
  have IH: "concat (map (\<lambda>rw. utf8_enc (fst rw)) (runes (drop (w - 1) bs))) = drop (w - 1) bs"
    using 2(1) [OF rw [symmetric] refl] 2(2) by (simp add: rw)
  have "utf8_enc r = take w (b # bs)" using rw nb by (rule enc_utf8_next)
  moreover obtain w' where "w = Suc w'" using utf8_next_width [OF rw] by (cases w) auto
  ultimately show ?case using IH by (simp add: rw)
qed simp

lemma string_of_runes_of: "valid_string s \<Longrightarrow> string_of_runes (runes_of s) = s"
  using concat_enc_runes [of "bytes_of s"]
  by (simp add: valid_string_def string_of_runes_def runes_of_def comp_def)

end
