(* ===== verification/Identity.thy ===== *)
theory Identity
  imports Utf8 Packet
begin

text \<open>
  \<open>internal/protocol/identity.go\<close>, \<open>flexbool.go\<close>, \<open>flexint.go\<close> and \<open>ports.go\<close>: device
  identifiers, the sanitising of device names, and the body of an identity packet.
  The regular expressions are written out as the scanners they denote.
\<close>

section \<open>Device identifiers\<close>

definition ProtocolVersion :: int where
  "ProtocolVersion = 8"

definition TypeIdentity :: string where
  "TypeIdentity = ''kdeconnect.identity''"

definition device_id_char :: "char \<Rightarrow> bool" where
  "device_id_char c \<longleftrightarrow>
     (65 \<le> byte c \<and> byte c \<le> 90) \<or> (97 \<le> byte c \<and> byte c \<le> 122) \<or> is_digit c
     \<or> c = CHR ''_'' \<or> c = CHR ''-''"

definition ValidDeviceID :: "string \<Rightarrow> bool" where
  "ValidDeviceID s \<longleftrightarrow> 32 \<le> length s \<and> length s \<le> 38 \<and> list_all device_id_char s"

section \<open>Device names\<close>

definition MaxDeviceNameLength :: nat where
  "MaxDeviceNameLength = 32"

text \<open>The character class of \<open>invalidNameChars\<close>, by code point.\<close>

definition invalid_name_codes :: "nat list" where
  "invalid_name_codes =
     [96, 39, 34, 59, 58, 46, 33, 63, 40, 41, 91, 93, 60, 62, 36, 38, 124, 92, 42, 126, 35, 37,
      94, 123, 125, 61, 47]"

definition invalid_name_rune :: "nat \<Rightarrow> bool" where
  "invalid_name_rune r \<longleftrightarrow> r \<in> set invalid_name_codes"

text \<open>\<open>unicode.Cc\<close> and \<open>unicode.Cf\<close>.\<close>

definition is_cc :: "nat \<Rightarrow> bool" where
  "is_cc r \<longleftrightarrow> r < 32 \<or> 127 \<le> r \<and> r \<le> 159"

definition cf_ranges :: "(nat \<times> nat) list" where
  "cf_ranges =
     [(0xAD, 0xAD), (0x600, 0x605), (0x61C, 0x61C), (0x6DD, 0x6DD), (0x70F, 0x70F),
      (0x890, 0x891), (0x8E2, 0x8E2), (0x180E, 0x180E), (0x200B, 0x200F), (0x202A, 0x202E),
      (0x2060, 0x2064), (0x2066, 0x206F), (0xFEFF, 0xFEFF), (0xFFF9, 0xFFFB),
      (0x110BD, 0x110BD), (0x110CD, 0x110CD), (0x13430, 0x1343F), (0x1BCA0, 0x1BCA3),
      (0x1D173, 0x1D17A), (0xE0001, 0xE0001), (0xE0020, 0xE007F)]"

definition is_cf :: "nat \<Rightarrow> bool" where
  "is_cf r \<longleftrightarrow> list_ex (\<lambda>(lo, hi). lo \<le> r \<and> r \<le> hi) cf_ranges"

text \<open>
  \<open>strings.Map\<close> with a mapping that drops runes: an invalid byte reaches the mapping as
  \<open>RuneError\<close> and is written back as the three bytes of U+FFFD.
\<close>

definition stripControlRunes :: "string \<Rightarrow> string" where
  "stripControlRunes s = string_of_runes (filter (\<lambda>r. \<not> (is_cc r \<or> is_cf r)) (runes_of s))"

text \<open>
  \<open>invalidNameChars.ReplaceAllString(s, "")\<close>: the class holds ASCII characters only, so the
  scanner may work on bytes, and bytes outside it are copied unchanged.
\<close>

definition stripInvalidNameChars :: "string \<Rightarrow> string" where
  "stripInvalidNameChars s = filter (\<lambda>c. \<not> invalid_name_rune (byte c)) s"

definition rune_count :: "string \<Rightarrow> nat" where
  "rune_count s = length (runes_of s)"

definition truncateRunes :: "string \<Rightarrow> nat \<Rightarrow> string" where
  "truncateRunes s n =
     (let rs = runes_of s
      in if length rs \<le> n then s else string_of_runes (take n rs))"

fun containsBackslash :: "string \<Rightarrow> bool" where
  "containsBackslash [] = False"
| "containsBackslash (c # s) = (if byte c = 92 then True else containsBackslash s)"

text \<open>\<open>decimalEscape.ReplaceAllStringFunc\<close>: a backslash and three digits.\<close>

fun replace_escapes :: "string \<Rightarrow> string" where
  "replace_escapes (b # d0 # d1 # d2 # s) =
     (if byte b = 92 \<and> is_digit d0 \<and> is_digit d1 \<and> is_digit d2
      then let v = digit_val d0 * 100 + digit_val d1 * 10 + digit_val d2
           in (if v > 255 then [b, d0, d1, d2] else [char_of v]) @ replace_escapes s
      else b # replace_escapes (d0 # d1 # d2 # s))"
| "replace_escapes s = s"

definition DecodeDeviceName :: "string \<Rightarrow> string" where
  "DecodeDeviceName name =
     (if name = [] \<or> \<not> containsBackslash name then name
      else let decoded = replace_escapes name
           in if decoded = name then name
              else if \<not> valid_string decoded then to_valid decoded
              else decoded)"

definition SanitizeDeviceName :: "string \<Rightarrow> string" where
  "SanitizeDeviceName name =
     (let clean = DecodeDeviceName name;
          clean = stripControlRunes clean;
          clean = stripInvalidNameChars clean
      in if rune_count clean > MaxDeviceNameLength
         then truncateRunes clean MaxDeviceNameLength
         else clean)"

section \<open>Rendering a name\<close>

text \<open>
  \<open>ansiEscape\<close> has three alternatives, tried in order at each position: a CSI sequence, an
  OSC sequence, and a two-byte escape.  Each matcher returns what follows the match.
\<close>

definition csi_param :: "char \<Rightarrow> bool" where
  "csi_param c \<longleftrightarrow> is_digit c \<or> c = CHR '';'' \<or> c = CHR ''?''"

definition ascii_letter :: "char \<Rightarrow> bool" where
  "ascii_letter c \<longleftrightarrow> (65 \<le> byte c \<and> byte c \<le> 90) \<or> (97 \<le> byte c \<and> byte c \<le> 122)"

definition match_csi :: "string \<Rightarrow> string option" where
  "match_csi s =
     (case s of
        e # b # rest \<Rightarrow>
          if byte e = 27 \<and> b = CHR ''[''
          then (case dropWhile csi_param rest of
                  l # after \<Rightarrow> if ascii_letter l then Some after else None
                | [] \<Rightarrow> None)
          else None
      | _ \<Rightarrow> None)"

definition match_osc :: "string \<Rightarrow> string option" where
  "match_osc s =
     (case s of
        e # b # rest \<Rightarrow>
          if byte e = 27 \<and> b = CHR '']''
          then (case dropWhile (\<lambda>c. byte c \<noteq> 7 \<and> byte c \<noteq> 27) rest of
                  c # after \<Rightarrow>
                    if byte c = 7 then Some after
                    else (case after of
                            d # after2 \<Rightarrow> if byte d = 92 then Some after2 else None
                          | [] \<Rightarrow> None)
                | [] \<Rightarrow> None)
          else None
      | _ \<Rightarrow> None)"

definition match_esc2 :: "string \<Rightarrow> string option" where
  "match_esc2 s =
     (case s of
        e # b # rest \<Rightarrow> if byte e = 27 \<and> 64 \<le> byte b \<and> byte b \<le> 95 then Some rest else None
      | _ \<Rightarrow> None)"

definition match_ansi :: "string \<Rightarrow> string option" where
  "match_ansi s =
     (case match_csi s of
        Some r \<Rightarrow> Some r
      | None \<Rightarrow> (case match_osc s of Some r \<Rightarrow> Some r | None \<Rightarrow> match_esc2 s))"

lemma dropWhile_Cons_length: "dropWhile P xs = y # ys \<Longrightarrow> length ys < length xs"
  using length_dropWhile_le [of P xs] by simp

lemma match_csi_shorter: "match_csi (c # s) = Some r \<Longrightarrow> length r \<le> length s"
  by (auto simp: match_csi_def split: list.splits if_splits dest!: dropWhile_Cons_length)

lemma match_osc_shorter: "match_osc (c # s) = Some r \<Longrightarrow> length r \<le> length s"
  by (auto simp: match_osc_def split: list.splits if_splits dest!: dropWhile_Cons_length)

lemma match_esc2_shorter: "match_esc2 (c # s) = Some r \<Longrightarrow> length r \<le> length s"
  by (auto simp: match_esc2_def split: list.splits if_splits)

lemma match_ansi_shorter: "match_ansi (c # s) = Some r \<Longrightarrow> length r \<le> length s"
  unfolding match_ansi_def
  by (auto split: option.splits intro: match_csi_shorter match_osc_shorter match_esc2_shorter)

function strip_ansi :: "string \<Rightarrow> string" where
  "strip_ansi [] = []"
| "strip_ansi (c # s) =
     (case match_ansi (c # s) of
        Some r \<Rightarrow> strip_ansi r
      | None \<Rightarrow> c # strip_ansi s)"
  by pat_completeness auto
termination
  by (relation "measure length") (auto dest!: match_ansi_shorter)

definition DisplayName :: "string \<Rightarrow> string" where
  "DisplayName name =
     string_of_runes
       (map (\<lambda>r. if r = 13 \<or> r = 10 \<or> r = 9 then 32 else r) (runes_of (strip_ansi name)))"

section \<open>Sanitised names\<close>

definition name_rune_ok :: "nat \<Rightarrow> bool" where
  "name_rune_ok r \<longleftrightarrow> \<not> is_cc r \<and> \<not> is_cf r \<and> \<not> invalid_name_rune r"

lemma byte_char_of: "b < 256 \<Longrightarrow> byte (char_of b :: char) = b"
  by (simp add: of_char_of)

lemma invalid_name_rune_ascii: "invalid_name_rune r \<Longrightarrow> r < 128"
  by (auto simp: invalid_name_rune_def invalid_name_codes_def)

text \<open>The bytes of an encoded rune are the rune itself, or all above the ASCII range.\<close>

lemma utf8_enc_ascii: "scalar r \<Longrightarrow> r < 128 \<Longrightarrow> utf8_enc r = [r]"
  by (simp add: utf8_enc_def)

lemma utf8_enc_high: "scalar r \<Longrightarrow> 128 \<le> r \<Longrightarrow> b \<in> set (utf8_enc r) \<Longrightarrow> 128 \<le> b"
  by (auto simp: utf8_enc_def Let_def split: if_splits)

lemma filter_enc:
  assumes "scalar r" and "\<And>b. P b \<Longrightarrow> b < 128"
  shows "filter (\<lambda>b. \<not> P b) (utf8_enc r) = (if P r then [] else utf8_enc r)"
proof (cases "r < 128")
  case True
  then show ?thesis using assms(1) by (simp add: utf8_enc_ascii)
next
  case False
  then have "\<forall>b \<in> set (utf8_enc r). \<not> P b"
    using utf8_enc_high [OF assms(1)] assms(2) by fastforce
  with False show ?thesis using assms(2) by (auto intro: filter_True)
qed

lemma filter_concat_enc:
  assumes "list_all scalar rs" and "\<And>b. P b \<Longrightarrow> b < 128"
  shows "filter (\<lambda>b. \<not> P b) (concat (map utf8_enc rs)) =
     concat (map utf8_enc (filter (\<lambda>r. \<not> P r) rs))"
  using assms(1) by (induction rs) (simp_all add: filter_enc assms(2))

lemma filter_string_of:
  "list_all (\<lambda>b. b < 256) bs \<Longrightarrow>
     filter (\<lambda>c. Q (byte c)) (string_of bs) = string_of (filter Q bs)"
  by (induction bs) (auto simp: string_of_def byte_char_of)

lemma stripInvalid_runes:
  assumes "list_all scalar rs"
  shows "stripInvalidNameChars (string_of_runes rs) =
     string_of_runes (filter (\<lambda>r. \<not> invalid_name_rune r) rs)"
  using filter_string_of [OF concat_enc_bytes, where Q = "\<lambda>b. \<not> invalid_name_rune b"]
    filter_concat_enc [OF assms, where P = invalid_name_rune]
  by (simp add: stripInvalidNameChars_def string_of_runes_def invalid_name_rune_ascii)

lemma Sanitize_eq:
  "SanitizeDeviceName name =
     string_of_runes (take 32 (filter name_rune_ok (runes_of (DecodeDeviceName name))))"
proof -
  let ?f = "filter (\<lambda>r. \<not> (is_cc r \<or> is_cf r)) (runes_of (DecodeDeviceName name))"
  let ?g = "filter name_rune_ok (runes_of (DecodeDeviceName name))"
  have sf: "list_all scalar ?f" by (rule list_all_filter [OF runes_of_scalar])
  have sg: "list_all scalar ?g" by (rule list_all_filter [OF runes_of_scalar])
  have fg: "filter (\<lambda>r. \<not> invalid_name_rune r) ?f = ?g"
    unfolding filter_filter by (rule filter_cong) (auto simp: name_rune_ok_def)
  have "stripInvalidNameChars (stripControlRunes (DecodeDeviceName name)) = string_of_runes ?g"
    unfolding stripControlRunes_def stripInvalid_runes [OF sf] fg ..
  then show ?thesis
    by (simp add: SanitizeDeviceName_def Let_def rune_count_def truncateRunes_def
        MaxDeviceNameLength_def runes_of_string_of_runes [OF sg])
qed

lemma runes_of_Sanitize:
  "runes_of (SanitizeDeviceName name) =
     take 32 (filter name_rune_ok (runes_of (DecodeDeviceName name)))"
  unfolding Sanitize_eq
  by (rule runes_of_string_of_runes) (intro list_all_take list_all_filter runes_of_scalar)

text \<open>
  Whatever name a peer announces, the stored name is valid UTF-8 of at most 32 runes, and
  holds no control character, no invisible format character, and none of the shell, markup and
  path metacharacters.
\<close>
theorem sanitize_clean:
  "valid_string (SanitizeDeviceName name) \<and> rune_count (SanitizeDeviceName name) \<le> 32 \<and>
   list_all (\<lambda>r. \<not> is_cc r \<and> \<not> is_cf r \<and> \<not> invalid_name_rune r)
     (runes_of (SanitizeDeviceName name))"
proof (intro conjI)
  show "valid_string (SanitizeDeviceName name)"
    unfolding Sanitize_eq
    by (rule valid_string_of_runes) (intro list_all_take list_all_filter runes_of_scalar)
  show "rune_count (SanitizeDeviceName name) \<le> 32"
    by (simp add: rune_count_def runes_of_Sanitize)
  show "list_all (\<lambda>r. \<not> is_cc r \<and> \<not> is_cf r \<and> \<not> invalid_name_rune r)
      (runes_of (SanitizeDeviceName name))"
    unfolding runes_of_Sanitize
    by (auto simp: list_all_iff name_rune_ok_def dest!: in_set_takeD)
qed

lemma containsBackslash_iff: "containsBackslash s \<longleftrightarrow> (\<exists>c \<in> set s. byte c = 92)"
  by (induction s) auto

lemma low_byte_of_runes:
  assumes "list_all scalar rs" and "c \<in> set (string_of_runes rs)" and "byte c < 128"
  shows "byte c \<in> set rs"
proof -
  obtain r b where r: "r \<in> set rs" "b \<in> set (utf8_enc r)" "c = char_of b"
    using assms(2) by (auto simp: string_of_runes_def string_of_def)
  have "b < 256" using utf8_enc_bytes [of r] r(2) by (auto simp: list_all_iff)
  then have b: "byte c = b" by (simp add: r(3) byte_char_of)
  have sc: "scalar r" using assms(1) r(1) by (auto simp: list_all_iff)
  then have "r < 128" using utf8_enc_high [OF sc _ r(2)] assms(3) b by fastforce
  then show ?thesis using r(1,2) sc b by (simp add: utf8_enc_ascii)
qed

lemma Sanitize_low_byte:
  assumes "c \<in> set (SanitizeDeviceName name)" and "byte c < 128"
  shows "name_rune_ok (byte c)"
proof -
  have "byte c \<in> set (take 32 (filter name_rune_ok (runes_of (DecodeDeviceName name))))"
    using assms unfolding Sanitize_eq
    by (intro low_byte_of_runes list_all_take list_all_filter runes_of_scalar)
  then show ?thesis by (auto dest: in_set_takeD)
qed

lemma Sanitize_no_backslash: "\<not> containsBackslash (SanitizeDeviceName name)"
  by (auto simp: containsBackslash_iff name_rune_ok_def invalid_name_rune_def
      invalid_name_codes_def dest: Sanitize_low_byte)

lemma Sanitize_no_escape: "c \<in> set (SanitizeDeviceName name) \<Longrightarrow> byte c \<noteq> 27"
  using Sanitize_low_byte [of c name] by (auto simp: name_rune_ok_def is_cc_def)

text \<open>
  Sanitising is idempotent: a name read back from the state file, or sanitised again on a
  later announcement, is not changed any further.
\<close>
theorem sanitize_idempotent: "SanitizeDeviceName (SanitizeDeviceName name) = SanitizeDeviceName name"
proof -
  let ?rs = "take 32 (filter name_rune_ok (runes_of (DecodeDeviceName name)))"
  have "DecodeDeviceName (SanitizeDeviceName name) = SanitizeDeviceName name"
    by (simp add: DecodeDeviceName_def Sanitize_no_backslash)
  moreover have "filter name_rune_ok ?rs = ?rs"
    by (rule filter_True) (auto dest: in_set_takeD)
  ultimately show ?thesis
    by (simp add: Sanitize_eq [of "SanitizeDeviceName name"] runes_of_Sanitize) (simp add: Sanitize_eq)
qed

lemma match_ansi_no_escape: "byte c \<noteq> 27 \<Longrightarrow> match_ansi (c # s) = None"
  by (auto simp: match_ansi_def match_csi_def match_osc_def match_esc2_def split: list.splits)

lemma strip_ansi_no_escape: "\<forall>c \<in> set s. byte c \<noteq> 27 \<Longrightarrow> strip_ansi s = s"
  by (induction s) (auto simp: match_ansi_no_escape)

text \<open>
  A sanitised name reaches the terminal unchanged: it holds no escape sequence to strip and
  no line break or tab to replace, so storage and display agree.
\<close>
theorem display_of_sanitized: "DisplayName (SanitizeDeviceName name) = SanitizeDeviceName name"
proof -
  let ?s = "SanitizeDeviceName name"
  have "strip_ansi ?s = ?s" by (rule strip_ansi_no_escape) (auto dest: Sanitize_no_escape)
  moreover have "map (\<lambda>r. if r = 13 \<or> r = 10 \<or> r = 9 then 32 else r) (runes_of ?s) = runes_of ?s"
    unfolding runes_of_Sanitize
    by (rule map_idI) (auto simp: name_rune_ok_def is_cc_def dest!: in_set_takeD)
  ultimately show ?thesis
    using sanitize_clean [of name] by (simp add: DisplayName_def string_of_runes_of)
qed

abbreviation esc :: char where
  "esc \<equiv> CHR 0x1B"

text \<open>
  On a name that was not sanitised first, one pass of the escape stripper is not enough:
  removing an inner escape sequence joins its neighbours into a new one, here the colour
  sequence \<open>ESC [ 3 1 m\<close>, which reaches the terminal.
\<close>
theorem display_forges_escape:
  "DisplayName ([esc, esc] @ ''[m[31mroot'') = esc # ''[31mroot'' \<and>
   strip_ansi (DisplayName ([esc, esc] @ ''[m[31mroot'')) \<noteq> DisplayName ([esc, esc] @ ''[m[31mroot'')"
proof -
  have a: "strip_ansi ([esc, esc] @ ''[m[31mroot'') = esc # ''[31mroot''"
    by (simp add: match_ansi_def match_csi_def match_osc_def match_esc2_def csi_param_def
        is_digit_def ascii_letter_def)
  have d: "DisplayName ([esc, esc] @ ''[m[31mroot'') = esc # ''[31mroot''"
    unfolding DisplayName_def a
    by (simp add: runes_of_def bytes_of_def utf8_next.simps(2) string_of_runes_def utf8_enc_def
        scalar_def string_of_def char_of_def bit_0)
  show ?thesis unfolding d
    by (simp add: match_ansi_def match_csi_def match_osc_def match_esc2_def csi_param_def
        is_digit_def ascii_letter_def)
qed

section \<open>The identity body\<close>

text \<open>\<open>FlexInt\<close> takes an integer literal or a string holding one; \<open>null\<close> is an error here.\<close>

fun dec_flexint :: "json \<Rightarrow> int option" where
  "dec_flexint (JStr text) = atoi text"
| "dec_flexint (JNum lit) = atoi lit"
| "dec_flexint _ = None"

record identity_body =
  ib_device_id :: string
  ib_device_name :: string
  ib_device_type :: string
  ib_protocol_version :: int
  ib_tcp_port :: int
  ib_incoming :: "string list"
  ib_outgoing :: "string list"
  ib_target_id :: string
  ib_target_proto :: int

definition zero_identity_body :: identity_body where
  "zero_identity_body =
     \<lparr>ib_device_id = [], ib_device_name = [], ib_device_type = [], ib_protocol_version = 0,
      ib_tcp_port = 0, ib_incoming = [], ib_outgoing = [], ib_target_id = [], ib_target_proto = 0\<rparr>"

definition identity_field :: "string \<Rightarrow> json \<Rightarrow> identity_body \<Rightarrow> identity_body option" where
  "identity_field k v b =
     (if key_matches ''deviceId'' k
      then map_option (\<lambda>x. b\<lparr>ib_device_id := x\<rparr>) (dec_str v (ib_device_id b))
      else if key_matches ''deviceName'' k
      then map_option (\<lambda>x. b\<lparr>ib_device_name := x\<rparr>) (dec_str v (ib_device_name b))
      else if key_matches ''deviceType'' k
      then map_option (\<lambda>x. b\<lparr>ib_device_type := x\<rparr>) (dec_str v (ib_device_type b))
      else if key_matches ''protocolVersion'' k
      then map_option (\<lambda>x. b\<lparr>ib_protocol_version := x\<rparr>) (dec_int v (ib_protocol_version b))
      else if key_matches ''tcpPort'' k
      then map_option (\<lambda>x. b\<lparr>ib_tcp_port := x\<rparr>) (dec_int v (ib_tcp_port b))
      else if key_matches ''incomingCapabilities'' k
      then map_option (\<lambda>x. b\<lparr>ib_incoming := x\<rparr>) (dec_strs v (ib_incoming b))
      else if key_matches ''outgoingCapabilities'' k
      then map_option (\<lambda>x. b\<lparr>ib_outgoing := x\<rparr>) (dec_strs v (ib_outgoing b))
      else if key_matches ''targetDeviceId'' k
      then map_option (\<lambda>x. b\<lparr>ib_target_id := x\<rparr>) (dec_str v (ib_target_id b))
      else if key_matches ''targetProtocolVersion'' k
      then map_option (\<lambda>x. b\<lparr>ib_target_proto := x\<rparr>) (dec_flexint v)
      else Some b)"

definition dec_identity :: "json \<Rightarrow> identity_body option" where
  "dec_identity j = dec_struct identity_field j zero_identity_body"

definition enc_identity :: "identity_body \<Rightarrow> json" where
  "enc_identity b =
     JObj ([(''deviceId'', JStr (ib_device_id b)),
            (''deviceName'', JStr (ib_device_name b)),
            (''deviceType'', JStr (ib_device_type b)),
            (''protocolVersion'', enc_int (ib_protocol_version b)),
            (''tcpPort'', enc_int (ib_tcp_port b))]
       @ (if ib_incoming b = [] then []
          else [(''incomingCapabilities'', JArr (map JStr (ib_incoming b)))])
       @ (if ib_outgoing b = [] then []
          else [(''outgoingCapabilities'', JArr (map JStr (ib_outgoing b)))])
       @ (if ib_target_id b = [] then [] else [(''targetDeviceId'', JStr (ib_target_id b))])
       @ (if ib_target_proto b = 0 then []
          else [(''targetProtocolVersion'', enc_int (ib_target_proto b))]))"

definition NewIdentityPacket ::
  "int \<Rightarrow> string \<Rightarrow> string \<Rightarrow> string \<Rightarrow> int \<Rightarrow> string list \<Rightarrow> string list \<Rightarrow> packet" where
  "NewIdentityPacket now_ms deviceID deviceName deviceType tcpPort incoming outgoing =
     NewPacket now_ms TypeIdentity
       (Some (enc_identity
          \<lparr>ib_device_id = deviceID, ib_device_name = SanitizeDeviceName deviceName,
           ib_device_type = deviceType, ib_protocol_version = ProtocolVersion,
           ib_tcp_port = tcpPort, ib_incoming = incoming, ib_outgoing = outgoing,
           ib_target_id = [], ib_target_proto = 0\<rparr>))"

lemma key_matches_refl [simp]: "key_matches f f"
  by (simp add: key_matches_def)

lemmas identity_keys =
  key_matches_def lower_def fold_name.simps

lemma identity_field_known:
  "identity_field ''deviceId'' v b = map_option (\<lambda>x. b\<lparr>ib_device_id := x\<rparr>) (dec_str v (ib_device_id b))"
  "identity_field ''deviceName'' v b =
     map_option (\<lambda>x. b\<lparr>ib_device_name := x\<rparr>) (dec_str v (ib_device_name b))"
  "identity_field ''deviceType'' v b =
     map_option (\<lambda>x. b\<lparr>ib_device_type := x\<rparr>) (dec_str v (ib_device_type b))"
  "identity_field ''protocolVersion'' v b =
     map_option (\<lambda>x. b\<lparr>ib_protocol_version := x\<rparr>) (dec_int v (ib_protocol_version b))"
  "identity_field ''tcpPort'' v b = map_option (\<lambda>x. b\<lparr>ib_tcp_port := x\<rparr>) (dec_int v (ib_tcp_port b))"
  "identity_field ''incomingCapabilities'' v b =
     map_option (\<lambda>x. b\<lparr>ib_incoming := x\<rparr>) (dec_strs v (ib_incoming b))"
  "identity_field ''outgoingCapabilities'' v b =
     map_option (\<lambda>x. b\<lparr>ib_outgoing := x\<rparr>) (dec_strs v (ib_outgoing b))"
  "identity_field ''targetDeviceId'' v b =
     map_option (\<lambda>x. b\<lparr>ib_target_id := x\<rparr>) (dec_str v (ib_target_id b))"
  "identity_field ''targetProtocolVersion'' v b =
     map_option (\<lambda>x. b\<lparr>ib_target_proto := x\<rparr>) (dec_flexint v)"
  by (simp_all add: identity_field_def identity_keys)

lemma dec_enc_identity:
  assumes "in_int64 (ib_protocol_version b)" "in_int64 (ib_tcp_port b)" "in_int64 (ib_target_proto b)"
  shows "dec_identity (enc_identity b) = Some b"
proof -
  have f: "dec_flexint (enc_int (ib_target_proto b)) = Some (ib_target_proto b)"
    using assms(3) by (simp add: enc_int_def atoi_show_int)
  show ?thesis
    using assms(1,2) f
    by (simp add: dec_identity_def enc_identity_def identity_field_known zero_identity_body_def)
qed

text \<open>
  The identity a daemon announces is the one its peer decodes: every field of the body
  survives encoding and decoding, whatever strings it holds, and the announced name is already
  in sanitised form.
\<close>
theorem identity_roundtrip:
  assumes "in_int64 port"
  shows "unmarshal_raw dec_identity (pk_body (NewIdentityPacket ms did dname dtype port inc outg)) =
     Some \<lparr>ib_device_id = did, ib_device_name = SanitizeDeviceName dname, ib_device_type = dtype,
           ib_protocol_version = 8, ib_tcp_port = port, ib_incoming = inc, ib_outgoing = outg,
           ib_target_id = [], ib_target_proto = 0\<rparr>"
  using assms
  by (simp add: NewIdentityPacket_def NewPacket_def unmarshal_raw_def ProtocolVersion_def
      dec_enc_identity in_int64_def min_int64_def max_int64_def)

theorem identity_roundtrip_witness:
  "map_option ib_device_name (unmarshal_raw dec_identity
     (pk_body (NewIdentityPacket 0 ''id'' ''pc'' ''desktop'' 1716 [''a''] [])))
   = Some (SanitizeDeviceName ''pc'')"
  using identity_roundtrip [of 1716 0 "''id''" "''pc''" "''desktop''" "[''a'']" "[]"]
  by (simp add: in_int64_def min_int64_def max_int64_def)

section \<open>Ports\<close>

definition DefaultTCPPort :: int where
  "DefaultTCPPort = 1716"

definition TCPPortMin :: int where
  "TCPPortMin = 1716"

definition TCPPortMax :: int where
  "TCPPortMax = 1764"

end
