(* ===== verification/Backoff.thy ===== *)
theory Backoff
  imports KcdPrelude
begin

text \<open>
  The two exponential backoffs: \<open>netutil.ErrorBackoff\<close> (the accept and listener loops) and
  \<open>device.ReconnectBackoff\<close> (the reconnect loop).  The locale \<open>doubling_backoff\<close> states what
  both promise: a positive first delay that doubles up to a cap.  Its consequences (closed
  form, bound, monotonicity, the cap is reached) are proved once and hold of both by
  interpretation.
\<close>

section \<open>The contract\<close>

locale doubling_backoff =
  fixes delay :: "nat \<Rightarrow> duration"
    and cap :: duration
  assumes first_pos: "0 < delay 0"
    and first_le: "delay 0 \<le> cap"
    and doubles: "delay (Suc n) = min cap (2 * delay n)"
begin

lemma closed_form: "delay n = min cap (delay 0 * 2 ^ n)"
proof (induction n)
  case 0
  then show ?case using first_le by simp
next
  case (Suc n)
  have "0 < cap" using first_pos first_le by simp
  then show ?case using Suc by (simp add: doubles min_def)
qed

lemma bounded: "delay n \<le> cap"
  by (subst closed_form) simp

lemma positive: "0 < delay n"
  using first_pos first_le by (subst closed_form) (simp add: min_def)

lemma increasing: "delay n \<le> delay (Suc n)"
  using bounded [of n] positive [of n] by (simp add: doubles)

lemma mono_delay: "m \<le> n \<Longrightarrow> delay m \<le> delay n"
  by (rule lift_Suc_mono_le [of delay]) (auto intro: increasing)

lemma cap_reached: "\<exists>n. delay n = cap"
proof -
  have "int (nat cap) < 2 ^ nat cap"
    using of_nat_less_iff [of "nat cap" "2 ^ nat cap", where ?'a = int] less_exp [of "nat cap"] by simp
  then have c: "cap \<le> 2 ^ nat cap" using first_pos first_le by simp
  have "1 * 2 ^ nat cap \<le> delay 0 * 2 ^ nat cap"
    using first_pos by (intro mult_right_mono) auto
  then have "cap \<le> delay 0 * 2 ^ nat cap" using c by linarith
  then have "delay (nat cap) = cap" using closed_form [of "nat cap"] by (simp only: min_absorb1)
  then show ?thesis ..
qed

end

section \<open>Network error backoff\<close>

definition initialBackoff :: duration where
  "initialBackoff = 5 * millisecond"

definition maximumBackoff :: duration where
  "maximumBackoff = second"

definition ErrorBackoff_Reset :: "duration \<Rightarrow> duration" where
  "ErrorBackoff_Reset b = initialBackoff"

text \<open>
  \<open>Wait\<close> sleeps for the current delay; \<open>canceled\<close> says which arm of the \<open>select\<close> fired.  The
  result holds the answer, the next delay and how long the call was going to sleep.
\<close>

definition ErrorBackoff_Wait :: "bool \<Rightarrow> duration \<Rightarrow> bool \<times> duration \<times> duration" where
  "ErrorBackoff_Wait canceled b =
     (let d = (if b = 0 then initialBackoff else b)
      in if canceled then (False, d, d)
         else (True,
               if d < maximumBackoff
               then (let d2 = d * 2 in if d2 > maximumBackoff then maximumBackoff else d2)
               else d,
               d))"

text \<open>The time slept by the \<open>n\<close>-th consecutive wait, from a fresh or reset backoff.\<close>

fun error_delay_state :: "duration \<Rightarrow> nat \<Rightarrow> duration" where
  "error_delay_state b 0 = b"
| "error_delay_state b (Suc n) = fst (snd (ErrorBackoff_Wait False (error_delay_state b n)))"

definition error_delay :: "duration \<Rightarrow> nat \<Rightarrow> duration" where
  "error_delay b n = snd (snd (ErrorBackoff_Wait False (error_delay_state b n)))"

lemma backoff_consts: "initialBackoff = 5000000" "maximumBackoff = 1000000000"
  by (simp_all add: initialBackoff_def maximumBackoff_def millisecond_def second_def)

lemma error_delay_state_range:
  "b = 0 \<or> b = initialBackoff \<Longrightarrow> 0 \<le> error_delay_state b n \<and> error_delay_state b n \<le> maximumBackoff"
  by (induction n) (auto simp: ErrorBackoff_Wait_def backoff_consts Let_def)

lemma error_delay_doubles:
  assumes "b = 0 \<or> b = initialBackoff"
  shows "error_delay b (Suc n) = min maximumBackoff (2 * error_delay b n)"
  using error_delay_state_range [OF assms, of n]
  by (simp add: error_delay_def ErrorBackoff_Wait_def Let_def backoff_consts)

lemma error_delay_0: "b = 0 \<or> b = initialBackoff \<Longrightarrow> error_delay b 0 = initialBackoff"
  by (auto simp: error_delay_def ErrorBackoff_Wait_def Let_def)

interpretation fresh_error: doubling_backoff "error_delay 0" maximumBackoff
  by unfold_locales (simp_all add: error_delay_0 error_delay_doubles backoff_consts)

interpretation reset_error: doubling_backoff "error_delay (ErrorBackoff_Reset b)" maximumBackoff for b
  by unfold_locales
    (simp_all add: error_delay_0 error_delay_doubles ErrorBackoff_Reset_def backoff_consts)

text \<open>
  Repeated network errors wait 5 ms, 10 ms, 20 ms and so on up to one second, both from a
  fresh backoff and after a \<open>Reset\<close>: the \<open>n\<close>-th wait is \<open>5 ms * 2^n\<close> capped at a second, and the
  wait never shrinks.
\<close>
theorem error_backoff_delays:
  "error_delay 0 n = min second (5 * millisecond * 2 ^ n) \<and>
   error_delay (ErrorBackoff_Reset b) n = min second (5 * millisecond * 2 ^ n) \<and>
   error_delay 0 n \<le> error_delay 0 (Suc n)"
  using fresh_error.closed_form [of n] reset_error.closed_form [of b n] fresh_error.increasing [of n]
  by (simp add: error_delay_0 ErrorBackoff_Reset_def maximumBackoff_def initialBackoff_def)

section \<open>Reconnect backoff\<close>

definition reconnectBackoffBase :: duration where
  "reconnectBackoffBase = 2 * second"

text \<open>The loop, counting the iterations that are left; the doubling is 64-bit.\<close>

fun ReconnectBackoff_loop :: "nat \<Rightarrow> duration \<Rightarrow> duration \<Rightarrow> duration" where
  "ReconnectBackoff_loop 0 delay maxDuration = delay"
| "ReconnectBackoff_loop (Suc left) delay maxDuration =
     (if delay < maxDuration
      then (if delay > maxDuration div 2 then maxDuration
            else ReconnectBackoff_loop left (wrap64 (delay * 2)) maxDuration)
      else delay)"

definition ReconnectBackoff :: "int \<Rightarrow> duration \<Rightarrow> duration list \<Rightarrow> duration" where
  "ReconnectBackoff attempt maxDuration initial =
     (let base = (case initial of [] \<Rightarrow> reconnectBackoffBase
                  | i # _ \<Rightarrow> if i > 0 then i else reconnectBackoffBase)
      in if maxDuration \<le> 0 then 0
         else ReconnectBackoff_loop (nat attempt) (min base maxDuration) maxDuration)"

definition backoff_base :: "duration list \<Rightarrow> duration" where
  "backoff_base initial =
     (case initial of [] \<Rightarrow> 2 * second | i # _ \<Rightarrow> if i > 0 then i else 2 * second)"

lemma backoff_base_pos: "0 < backoff_base initial"
  by (auto simp: backoff_base_def second_def split: list.splits)

lemma ReconnectBackoff_loop_eq:
  assumes "0 < d" and "d \<le> mx" and "mx \<le> max_int64"
  shows "ReconnectBackoff_loop k d mx = min mx (d * 2 ^ k)"
  using assms
proof (induction k arbitrary: d)
  case (Suc k)
  have p: "(1::int) \<le> 2 ^ k" by simp
  consider "d = mx" | "d < mx" "d > mx div 2" | "d \<le> mx div 2" "d < mx"
    using Suc.prems by linarith
  then show ?case
  proof cases
    case 1
    have "1 \<le> (2::int) ^ Suc k" by (rule one_le_power) simp
    then have "mx * 1 \<le> mx * 2 ^ Suc k" using Suc.prems by (intro mult_left_mono) auto
    with 1 show ?thesis by simp
  next
    case 2
    have "2 * d * 1 \<le> 2 * d * 2 ^ k" using Suc.prems p by (intro mult_left_mono) auto
    moreover have "mx \<le> 2 * d" using 2 by linarith
    ultimately have "mx \<le> d * 2 ^ Suc k" by (simp add: mult.assoc mult.left_commute)
    then show ?thesis using 2 by simp
  next
    case 3
    have "2 * d \<le> mx" using 3 by linarith
    moreover from this have "wrap64 (d * 2) = 2 * d"
      using Suc.prems by (simp add: in_int64_def min_int64_def max_int64_def)
    ultimately show ?thesis using 3 Suc.IH [of "2 * d"] Suc.prems by simp
  qed
qed simp

lemma min_min_mult:
  fixes a b c :: int
  assumes "1 \<le> c" "0 < b"
  shows "min b (min a b * c) = min b (a * c)"
proof (cases "a \<le> b")
  case False
  have "b * 1 \<le> b * c" using assms by (intro mult_left_mono) auto
  moreover have "b * c \<le> a * c" using assms False by (intro mult_right_mono) auto
  ultimately show ?thesis using False by simp
qed (simp add: min_def)

lemma backoff_base_eq:
  "(case initial of [] \<Rightarrow> reconnectBackoffBase | i # _ \<Rightarrow> if i > 0 then i else reconnectBackoffBase)
     = backoff_base initial"
  by (cases initial) (simp_all add: backoff_base_def reconnectBackoffBase_def)

lemma ReconnectBackoff_eq:
  assumes "mx \<le> max_int64"
  shows "ReconnectBackoff attempt mx initial =
     (if mx \<le> 0 then 0 else min mx (backoff_base initial * 2 ^ nat attempt))"
proof (cases "mx \<le> 0")
  case False
  have "ReconnectBackoff attempt mx initial =
      ReconnectBackoff_loop (nat attempt) (min (backoff_base initial) mx) mx"
    using False by (simp add: ReconnectBackoff_def backoff_base_eq)
  also have "\<dots> = min mx (min (backoff_base initial) mx * 2 ^ nat attempt)"
    using False backoff_base_pos [of initial] assms by (intro ReconnectBackoff_loop_eq) auto
  also have "\<dots> = min mx (backoff_base initial * 2 ^ nat attempt)"
    using False by (intro min_min_mult) auto
  finally show ?thesis using False by simp
qed (simp add: ReconnectBackoff_def)

text \<open>
  The reconnect delay is \<open>base * 2^attempt\<close> capped at the maximum, for every attempt count
  and every maximum that is a valid duration: the early exit at half the maximum makes the
  64-bit doubling safe, so a large attempt count never wraps into a short or negative delay.
\<close>
theorem reconnect_backoff_closed_form:
  assumes "mx \<le> max_int64"
  shows "ReconnectBackoff attempt mx initial =
     (if mx \<le> 0 then 0 else min mx (backoff_base initial * 2 ^ nat attempt))"
  using assms by (rule ReconnectBackoff_eq)

theorem reconnect_backoff_closed_form_witness:
  "ReconnectBackoff 100 (60 * second) [] = 60 * second"
  using reconnect_backoff_closed_form [of "60 * second" 100 "[]"]
  by (simp add: max_int64_def second_def backoff_base_def)

text \<open>The reconnect loop's delays satisfy the contract for every positive maximum.\<close>

definition valid_max :: "duration \<Rightarrow> duration" where
  "valid_max mx = max 1 (min mx max_int64)"

lemma valid_max_range: "0 < valid_max mx" "valid_max mx \<le> max_int64"
  by (simp_all add: valid_max_def max_int64_def)

interpretation reconnect:
  doubling_backoff "\<lambda>n. ReconnectBackoff (int n) (valid_max mx) initial" "valid_max mx" for mx initial
proof unfold_locales
  have e: "ReconnectBackoff (int n) (valid_max mx) initial =
      min (valid_max mx) (backoff_base initial * 2 ^ n)" for n
    using valid_max_range [of mx] by (simp add: ReconnectBackoff_eq)
  show "0 < ReconnectBackoff (int 0) (valid_max mx) initial"
    using valid_max_range [of mx] backoff_base_pos [of initial] e [of 0] by simp
  show "ReconnectBackoff (int 0) (valid_max mx) initial \<le> valid_max mx"
    using e [of 0] by simp
  show "ReconnectBackoff (int (Suc n)) (valid_max mx) initial =
      min (valid_max mx) (2 * ReconnectBackoff (int n) (valid_max mx) initial)" for n
    unfolding e using valid_max_range [of mx] by (simp add: min_def)
qed

text \<open>
  However long a peer stays away, the reconnect delay keeps growing until it settles at the
  configured maximum: it never shrinks from one attempt to the next and reaches the maximum
  after finitely many attempts.
\<close>
theorem reconnect_backoff_settles:
  "ReconnectBackoff (int n) (valid_max mx) initial \<le> ReconnectBackoff (int (Suc n)) (valid_max mx) initial \<and>
   0 < ReconnectBackoff (int n) (valid_max mx) initial \<and>
   (\<exists>k. ReconnectBackoff (int k) (valid_max mx) initial = valid_max mx)"
  using reconnect.increasing [of n mx initial] reconnect.positive [of n mx initial]
    reconnect.cap_reached [of mx initial]
  by blast

end
