(* ===== verification/Events.thy ===== *)
theory Events
  imports KcdPrelude
begin

text \<open>
  \<open>internal/events/bus.go\<close>: the event bus.  The state holds the subscribers with their bounded
  channels, the sequence counter and the replay ring; each public method is one atomic step,
  as the bus mutex makes it.  The map of subscribers is iterated in no particular order, and
  each delivery touches one subscriber only, so \<open>Publish\<close> updates all of them pointwise.
  The payload is \<open>any\<close> in the code and a type parameter here.

  A sequence number is a \<open>uint64\<close>; the counter starts at zero and is modelled as a \<open>nat\<close>
  (it would take 2^64 events to wrap), while the client's \<open>since\<close> may be any \<open>uint64\<close>, so
  \<open>since + 1\<close> is taken modulo 2^64.
\<close>

type_synonym event_type = string

definition TypeDeviceAdded :: event_type where "TypeDeviceAdded = ''device.added''"
definition TypeDeviceRemoved :: event_type where "TypeDeviceRemoved = ''device.removed''"
definition TypeDeviceConnected :: event_type where "TypeDeviceConnected = ''device.connected''"
definition TypeDeviceDisconnected :: event_type where "TypeDeviceDisconnected = ''device.disconnected''"
definition TypePairRequested :: event_type where "TypePairRequested = ''pair.requested''"
definition TypePairAccepted :: event_type where "TypePairAccepted = ''pair.accepted''"
definition TypePairRejected :: event_type where "TypePairRejected = ''pair.rejected''"
definition TypeBatteryUpdate :: event_type where "TypeBatteryUpdate = ''battery.update''"
definition TypeSMSIncoming :: event_type where "TypeSMSIncoming = ''sms.incoming''"
definition TypeSMSAttachment :: event_type where "TypeSMSAttachment = ''sms.attachment''"
definition TypePrompt :: event_type where "TypePrompt = ''prompt''"

text \<open>Every known type, in the order of \<open>All\<close>.\<close>

definition AllTypes :: "event_type list" where
  "AllTypes =
     [''device.added'', ''device.removed'', ''device.connected'', ''device.disconnected'',
      ''pair.requested'', ''pair.accepted'', ''pair.rejected'',
      ''battery.update'', ''battery.threshold'',
      ''notification'', ''notification.canceled'',
      ''share.progress'', ''share.complete'', ''share.text'', ''share.url'',
      ''ping.received'', ''connectivity.update'',
      ''telephony.ringing'', ''telephony.missed'', ''telephony.talking'', ''telephony.canceled'',
      ''sftp.mount'', ''sftp.mounted'', ''sftp.unmounted'',
      ''runcommand.output'',
      ''volume.update'',
      ''lock.state'',
      ''sms.incoming'', ''sms.attachment'',
      ''ring.received'', ''contacts.updated'',
      ''mpris.update'', ''state.snapshot'', ''stream.gap'', ''prompt'',
      ''digitizer.session'']"

definition DefaultSubscriberCap :: nat where
  "DefaultSubscriberCap = 64"

definition WatchSubscriberCap :: nat where
  "WatchSubscriberCap = 256"

definition OptInOnly :: "event_type list" where
  "OptInOnly = [TypeSMSIncoming, TypeSMSAttachment, TypePrompt]"

definition eventReplayCapacity :: nat where
  "eventReplayCapacity = 256"

section \<open>State\<close>

record 'p event =
  ev_seq :: nat
  ev_type :: event_type
  ev_time :: int
  ev_device :: string
  ev_payload :: 'p

record 'p subscriber =
  sb_filters :: "event_type list"
  sb_cap :: nat
  sb_queue :: "'p event list"

record 'p bus =
  bus_subs :: "nat \<Rightarrow> 'p subscriber option"
  bus_next_id :: nat
  bus_hooks :: "nat list"
  bus_hook_calls :: "nat list"
  bus_seq :: nat
  bus_ring :: "'p event list"

definition NewBus :: "'p bus" where
  "NewBus = \<lparr>bus_subs = (\<lambda>_. None), bus_next_id = 0, bus_hooks = [], bus_hook_calls = [],
             bus_seq = 0, bus_ring = []\<rparr>"

section \<open>Operations\<close>

definition isOptInOnly :: "event_type \<Rightarrow> bool" where
  "isOptInOnly typ \<longleftrightarrow> typ = TypeSMSIncoming \<or> typ = TypeSMSAttachment \<or> typ = TypePrompt"

definition matchesFilters :: "event_type \<Rightarrow> event_type list \<Rightarrow> bool" where
  "matchesFilters typ filters =
     (if filters = [] then \<not> isOptInOnly typ else list_ex (\<lambda>f. f = typ) filters)"

definition matches :: "'p subscriber \<Rightarrow> event_type \<Rightarrow> bool" where
  "matches s typ =
     (if sb_filters s = [] then \<not> isOptInOnly typ else list_ex (\<lambda>f. f = typ) (sb_filters s))"

text \<open>Every registered hook runs once; a hook is known by its number.\<close>

definition notifyChange :: "'p bus \<Rightarrow> 'p bus" where
  "notifyChange b = b\<lparr>bus_hook_calls := bus_hook_calls b @ bus_hooks b\<rparr>"

definition OnSubscriberChange :: "nat \<Rightarrow> 'p bus \<Rightarrow> 'p bus" where
  "OnSubscriberChange fn b = b\<lparr>bus_hooks := bus_hooks b @ [fn]\<rparr>"

definition Subscribe :: "int \<Rightarrow> event_type list \<Rightarrow> 'p bus \<Rightarrow> nat \<times> 'p bus" where
  "Subscribe capacity filters b =
     (let id = Suc (bus_next_id b);
          cap = (if capacity \<le> 0 then DefaultSubscriberCap else nat capacity);
          b = b\<lparr>bus_next_id := id,
                bus_subs := (bus_subs b)(id \<mapsto> \<lparr>sb_filters = filters, sb_cap = cap, sb_queue = []\<rparr>)\<rparr>
      in (id, notifyChange b))"

definition unsubscribe :: "nat \<Rightarrow> 'p bus \<Rightarrow> 'p bus" where
  "unsubscribe sid b =
     (case bus_subs b sid of
        None \<Rightarrow> b
      | Some _ \<Rightarrow> notifyChange (b\<lparr>bus_subs := (bus_subs b)(sid := None)\<rparr>))"

text \<open>The scans stop at the first subscriber found; ids run from 1 to \<open>nextID\<close>.\<close>

definition HasSubscribers :: "event_type \<Rightarrow> 'p bus \<Rightarrow> bool" where
  "HasSubscribers typ b =
     list_ex (\<lambda>i. case bus_subs b i of None \<Rightarrow> False | Some s \<Rightarrow> matches s typ) [0..<Suc (bus_next_id b)]"

definition HasExplicitSubscribers :: "event_type \<Rightarrow> 'p bus \<Rightarrow> bool" where
  "HasExplicitSubscribers typ b =
     list_ex (\<lambda>i. case bus_subs b i of None \<Rightarrow> False
                 | Some s \<Rightarrow> list_ex (\<lambda>f. f = typ) (sb_filters s)) [0..<Suc (bus_next_id b)]"

text \<open>A send on a full channel takes the \<open>default\<close> arm: the event is dropped for that subscriber.\<close>

definition deliver :: "'p event \<Rightarrow> 'p subscriber \<Rightarrow> 'p subscriber" where
  "deliver ev s =
     (if matches s (ev_type ev)
      then (if length (sb_queue s) < sb_cap s then s\<lparr>sb_queue := sb_queue s @ [ev]\<rparr> else s)
      else s)"

definition Publish :: "event_type \<Rightarrow> string \<Rightarrow> 'p \<Rightarrow> int \<Rightarrow> 'p bus \<Rightarrow> 'p bus" where
  "Publish typ deviceID payload now b =
     (let ev = \<lparr>ev_seq = Suc (bus_seq b), ev_type = typ, ev_time = now, ev_device = deviceID,
                ev_payload = payload\<rparr>;
          ring = bus_ring b @ [ev];
          ring = (if length ring > eventReplayCapacity
                  then drop (length ring - eventReplayCapacity) ring else ring)
      in b\<lparr>bus_seq := Suc (bus_seq b), bus_ring := ring,
           bus_subs := (\<lambda>i. map_option (deliver ev) (bus_subs b i))\<rparr>)"

definition EventsSince :: "nat \<Rightarrow> event_type list \<Rightarrow> 'p bus \<Rightarrow> 'p event list \<times> bool" where
  "EventsSince since filters b =
     (case bus_ring b of
        [] \<Rightarrow> ([], False)
      | first # _ \<Rightarrow>
          if since = 0 then ([], False)
          else (filter (\<lambda>ev. \<not> (ev_seq ev \<le> since \<or> \<not> matchesFilters (ev_type ev) filters)) (bus_ring b),
                (since + 1) mod 2 ^ 64 < ev_seq first))"

text \<open>The reader of a subscriber's channel takes the oldest event.\<close>

definition Receive :: "nat \<Rightarrow> 'p bus \<Rightarrow> 'p event option \<times> 'p bus" where
  "Receive sid b =
     (case bus_subs b sid of
        None \<Rightarrow> (None, b)
      | Some s \<Rightarrow>
          (case sb_queue s of
             [] \<Rightarrow> (None, b)
           | ev # evs \<Rightarrow> (Some ev, b\<lparr>bus_subs := (bus_subs b)(sid \<mapsto> s\<lparr>sb_queue := evs\<rparr>)\<rparr>)))"

section \<open>Runs\<close>

datatype 'p bus_op =
    OpSubscribe int "event_type list"
  | OpUnsubscribe nat
  | OpPublish event_type string 'p int
  | OpReceive nat
  | OpHook nat

fun bus_step :: "'p bus_op \<Rightarrow> 'p bus \<Rightarrow> 'p bus" where
  "bus_step (OpSubscribe c fs) b = snd (Subscribe c fs b)"
| "bus_step (OpUnsubscribe i) b = unsubscribe i b"
| "bus_step (OpPublish t d p now) b = Publish t d p now b"
| "bus_step (OpReceive i) b = snd (Receive i b)"
| "bus_step (OpHook h) b = OnSubscriberChange h b"

fun bus_run :: "'p bus_op list \<Rightarrow> 'p bus \<Rightarrow> 'p bus" where
  "bus_run [] b = b"
| "bus_run (op # ops) b = bus_run ops (bus_step op b)"

text \<open>Everything published by a run, with its sequence numbers: the specification of the log.\<close>

fun published :: "'p bus_op list \<Rightarrow> nat \<Rightarrow> 'p event list" where
  "published [] n = []"
| "published (OpPublish t d p now # ops) n =
     \<lparr>ev_seq = Suc n, ev_type = t, ev_time = now, ev_device = d, ev_payload = p\<rparr> # published ops (Suc n)"
| "published (op # ops) n = published ops n"

section \<open>The bus invariant\<close>

text \<open>
  The ring holds the newest events with consecutive sequence numbers, and a subscriber's
  channel holds events it asked for, in increasing order, within its capacity.
\<close>

definition sub_ok :: "nat \<Rightarrow> 'p subscriber \<Rightarrow> bool" where
  "sub_ok n s \<longleftrightarrow>
     length (sb_queue s) \<le> sb_cap s \<and> sorted_wrt (<) (map ev_seq (sb_queue s)) \<and>
     (\<forall>ev \<in> set (sb_queue s). ev_seq ev \<le> n \<and> matches s (ev_type ev))"

definition bus_ok :: "'p bus \<Rightarrow> bool" where
  "bus_ok b \<longleftrightarrow>
     (\<forall>i s. bus_subs b i = Some s \<longrightarrow> 0 < i \<and> i \<le> bus_next_id b \<and> sub_ok (bus_seq b) s) \<and>
     length (bus_ring b) = min eventReplayCapacity (bus_seq b) \<and>
     map ev_seq (bus_ring b) = [Suc (bus_seq b) - length (bus_ring b)..<Suc (bus_seq b)]"

lemmas bus_op_defs [kcd_defs] =
  Subscribe_def unsubscribe_def Publish_def Receive_def OnSubscriberChange_def notifyChange_def

lemma matches_simps [simp]:
  "matches (s\<lparr>sb_queue := q\<rparr>) t = matches s t"
  by (simp add: matches_def)

lemma matches_eq: "matches s typ = matchesFilters typ (sb_filters s)"
  by (simp add: matches_def matchesFilters_def)

lemma bus_ok_NewBus: "bus_ok NewBus"
  by (simp add: bus_ok_def NewBus_def eventReplayCapacity_def)

lemma bus_ok_Subscribe [kcd_inv]: "bus_ok b \<Longrightarrow> bus_ok (snd (Subscribe c fs b))"
  by (fastforce simp: bus_ok_def Subscribe_def notifyChange_def Let_def sub_ok_def)

lemma bus_ok_unsubscribe [kcd_inv]: "bus_ok b \<Longrightarrow> bus_ok (unsubscribe i b)"
  by (auto simp: bus_ok_def unsubscribe_def notifyChange_def split: option.splits)

lemma bus_ok_hook [kcd_inv]: "bus_ok b \<Longrightarrow> bus_ok (OnSubscriberChange h b)"
  by (simp add: bus_ok_def OnSubscriberChange_def)

lemma sub_ok_deliver:
  assumes "sub_ok n s" and "ev_seq ev = Suc n"
  shows "sub_ok (Suc n) (deliver ev s)"
  using assms
  by (fastforce simp: sub_ok_def deliver_def sorted_wrt_append)

lemma ring_append:
  assumes "map ev_seq r = [Suc n - length r..<Suc n]" "length r \<le> n" "ev_seq ev = Suc n"
  shows "map ev_seq (r @ [ev]) = [Suc (Suc n) - length (r @ [ev])..<Suc (Suc n)]"
  using assms by (simp add: upt_Suc_append)

lemma ring_trim:
  assumes "map ev_seq r = [a..<b]" "k \<le> length r"
  shows "map ev_seq (drop k r) = [a + k..<b]"
  using assms by (simp flip: drop_map)

lemma bus_ok_Publish [kcd_inv]:
  assumes "bus_ok b"
  shows "bus_ok (Publish t d p now b)"
proof -
  let ?ev = "\<lparr>ev_seq = Suc (bus_seq b), ev_type = t, ev_time = now, ev_device = d, ev_payload = p\<rparr>"
  let ?r = "bus_ring b @ [?ev]"
  let ?b = "Publish t d p now b"
  have len: "length (bus_ring b) = min 256 (bus_seq b)"
    and seqs: "map ev_seq (bus_ring b) = [Suc (bus_seq b) - length (bus_ring b)..<Suc (bus_seq b)]"
    using assms by (auto simp: bus_ok_def eventReplayCapacity_def)
  have r: "map ev_seq ?r = [Suc (Suc (bus_seq b)) - length ?r..<Suc (Suc (bus_seq b))]"
    by (rule ring_append [OF seqs]) (simp_all add: len)
  have ring: "bus_ring ?b = drop (length ?r - 256) ?r"
    by (simp add: Publish_def Let_def eventReplayCapacity_def)
  have "length (bus_ring ?b) = min 256 (Suc (bus_seq b))" by (simp add: ring len)
  moreover have "map ev_seq (bus_ring ?b) =
      [Suc (Suc (bus_seq b)) - length (bus_ring ?b)..<Suc (Suc (bus_seq b))]"
  proof (cases "bus_seq b < 256")
    case True
    then have "length ?r - 256 = 0" by (simp add: len)
    then show ?thesis using r unfolding ring by (simp only: drop_0)
  next
    case False
    then have L: "length ?r = 257" and e: "Suc (Suc (bus_seq b)) - 257 + 1 = Suc (Suc (bus_seq b)) - 256"
      by (simp_all add: len)
    have ring1: "bus_ring ?b = drop 1 ?r" unfolding ring L by simp
    have "map ev_seq (drop 1 ?r) = [Suc (Suc (bus_seq b)) - 257 + 1..<Suc (Suc (bus_seq b))]"
      using ring_trim [OF r, of 1] L by (simp only: L)
    moreover have "length (drop 1 ?r) = 256" using L by simp
    ultimately show ?thesis unfolding ring1 by (simp only: e)
  qed
  moreover have "\<forall>i s. bus_subs ?b i = Some s \<longrightarrow>
      0 < i \<and> i \<le> bus_next_id ?b \<and> sub_ok (bus_seq ?b) s"
    using assms by (auto simp: bus_ok_def Publish_def Let_def intro: sub_ok_deliver)
  ultimately show ?thesis
    by (simp add: bus_ok_def eventReplayCapacity_def Publish_def Let_def)
qed

lemma bus_ok_Receive [kcd_inv]: "bus_ok b \<Longrightarrow> bus_ok (snd (Receive i b))"
  by (auto simp: bus_ok_def Receive_def sub_ok_def split: option.splits list.splits)
    (fastforce+)?

lemma bus_ok_step: "bus_ok b \<Longrightarrow> bus_ok (bus_step op b)"
  by (cases op) (simp_all add: kcd_inv)

interpretation bus_inv: invariant_system "\<lambda>b b'. \<exists>op. b' = bus_step op b" bus_ok
  by unfold_locales (auto intro: bus_ok_step)

lemma bus_run_steps: "(\<lambda>b b'. \<exists>op. b' = bus_step op b)\<^sup>*\<^sup>* b (bus_run ops b)"
proof (induction ops arbitrary: b)
  case (Cons op ops)
  have "(\<lambda>b b'. \<exists>op. b' = bus_step op b) b (bus_step op b)" by blast
  then show ?case using Cons.IH [of "bus_step op b"]
    by (simp add: converse_rtranclp_into_rtranclp)
qed simp

lemma bus_run_ok: "bus_ok b \<Longrightarrow> bus_ok (bus_run ops b)"
  by (rule bus_inv.run_inv [OF bus_run_steps])

section \<open>The ring against the log of everything published\<close>

definition log_ok :: "'p event list \<Rightarrow> 'p bus \<Rightarrow> bool" where
  "log_ok h b \<longleftrightarrow>
     bus_seq b = length h \<and> map ev_seq h = [1..<Suc (length h)] \<and>
     bus_ring b = drop (length h - eventReplayCapacity) h"

lemma log_ok_NewBus: "log_ok [] NewBus"
  by (simp add: log_ok_def NewBus_def)

lemma bus_seq_step:
  "(\<And>t d p now. op \<noteq> OpPublish t d p now) \<Longrightarrow>
     bus_seq (bus_step op b) = bus_seq b \<and> bus_ring (bus_step op b) = bus_ring b"
  by (cases op) (auto simp: kcd_defs Let_def split: option.splits list.splits)

lemma log_ok_other:
  "(\<And>t d p now. op \<noteq> OpPublish t d p now) \<Longrightarrow> log_ok h b \<Longrightarrow> log_ok h (bus_step op b)"
  using bus_seq_step [of op b] by (simp add: log_ok_def)

lemma log_ok_Publish:
  assumes "log_ok h b"
  shows "log_ok (h @ [\<lparr>ev_seq = Suc (bus_seq b), ev_type = t, ev_time = now, ev_device = d,
            ev_payload = p\<rparr>]) (Publish t d p now b)"
  using assms
proof (cases "length h < 256")
  case True
  then show ?thesis
    using assms by (auto simp: log_ok_def Publish_def Let_def eventReplayCapacity_def)
next
  case False
  then have "Suc (length h - 256) = length h - 255" by simp
  then show ?thesis
    using assms by (auto simp: log_ok_def Publish_def Let_def eventReplayCapacity_def)
qed

lemma log_ok_run:
  "log_ok h b \<Longrightarrow> log_ok (h @ published ops (bus_seq b)) (bus_run ops b)"
proof (induction ops arbitrary: h b)
  case (Cons op ops)
  show ?case
  proof (cases "\<exists>t d p now. op = OpPublish t d p now")
    case True
    then obtain t d p now where op: "op = OpPublish t d p now" by blast
    show ?thesis
      using Cons.IH [OF log_ok_Publish [OF Cons.prems, of t now d p]]
      by (simp add: op) (simp add: Publish_def Let_def)
  next
    case False
    then have no: "\<And>t d p now. op \<noteq> OpPublish t d p now" by blast
    then have "published (op # ops) n = published ops n" for n by (cases op) auto
    then show ?thesis
      using Cons.IH [OF log_ok_other [OF no Cons.prems]] bus_seq_step [OF no, of b] by simp
  qed
qed simp

lemma log_ok_history: "log_ok (published ops 0) (bus_run ops NewBus)"
  using log_ok_run [OF log_ok_NewBus, of ops] by (simp add: NewBus_def)

lemma log_seq_nth:
  assumes "map ev_seq h = [1..<Suc (length h)]" and "i < length h"
  shows "ev_seq (h ! i) = Suc i"
  using assms by (metis One_nat_def nth_map nth_upt plus_1_eq_Suc add_less_mono1 Suc_eq_plus1 add.commute)

text \<open>With increasing sequence numbers, an event is after \<open>since\<close> exactly by its position.\<close>

lemma log_take_old:
  assumes "map ev_seq h = [1..<Suc (length h)]" and "ev \<in> set (take k h)"
  shows "ev_seq ev \<le> k"
proof -
  obtain i where "i < length h" "i < k" "ev = h ! i"
    using assms(2) by (auto simp: in_set_conv_nth)
  then show ?thesis using log_seq_nth [OF assms(1)] by simp
qed

lemma log_drop_new:
  assumes "map ev_seq h = [1..<Suc (length h)]" and "ev \<in> set (drop k h)"
  shows "k < ev_seq ev"
proof -
  obtain i where i: "i < length h - k" "ev = h ! (k + i)"
    using assms(2) by (auto simp: in_set_conv_nth)
  then show ?thesis using log_seq_nth [OF assms(1), of "k + i"] by simp
qed

lemma EventsSince_log:
  assumes log: "log_ok h b" and since: "0 < since" "since + 1 < 2 ^ 64"
  shows "fst (EventsSince since fs b) =
      filter (\<lambda>ev. since < ev_seq ev \<and> matchesFilters (ev_type ev) fs) (bus_ring b)"
    and "snd (EventsSince since fs b) \<longleftrightarrow>
      (\<exists>ev \<in> set (take (length h - eventReplayCapacity) h). since < ev_seq ev)"
proof -
  let ?k = "length h - eventReplayCapacity"
  have seqs: "map ev_seq h = [1..<Suc (length h)]" and ring: "bus_ring b = drop ?k h"
    using log by (simp_all add: log_ok_def)
  show "fst (EventsSince since fs b) =
      filter (\<lambda>ev. since < ev_seq ev \<and> matchesFilters (ev_type ev) fs) (bus_ring b)"
    using since by (cases "bus_ring b") (auto simp: EventsSince_def intro!: filter_cong)
  show "snd (EventsSince since fs b) \<longleftrightarrow> (\<exists>ev \<in> set (take ?k h). since < ev_seq ev)"
  proof (cases "bus_ring b")
    case Nil
    then have "length h \<le> length h - 256"
      using ring by (metis drop_eq_Nil eventReplayCapacity_def)
    then have "length h = 0" by arith
    then have "h = []" by simp
    then show ?thesis using Nil by (simp add: EventsSince_def)
  next
    case (Cons e es)
    then have k: "?k < length h" using ring by (metis drop_all list.discI not_le)
    have "h ! ?k = e" using Cons ring k by (metis hd_drop_conv_nth list.sel(1))
    then have e: "ev_seq e = Suc ?k" using log_seq_nth [OF seqs k] by simp
    have gap: "snd (EventsSince since fs b) \<longleftrightarrow> since < ?k"
      using Cons since e by (simp add: EventsSince_def)
    show ?thesis
    proof (cases "since < ?k")
      case True
      then have "h ! (?k - 1) \<in> set (take ?k h)" "since < ev_seq (h ! (?k - 1))"
        using k log_seq_nth [OF seqs, of "?k - 1"] by (auto simp: in_set_conv_nth intro!: exI [of _ "?k - 1"])
      with True gap show ?thesis by blast
    next
      case False
      then show ?thesis using gap log_take_old [OF seqs] by fastforce
    qed
  qed
qed

lemma EventsSince_no_gap:
  assumes log: "log_ok h b" and since: "0 < since" "since + 1 < 2 ^ 64" and "\<not> snd (EventsSince since fs b)"
  shows "fst (EventsSince since fs b) = filter (\<lambda>ev. since < ev_seq ev \<and> matchesFilters (ev_type ev) fs) h"
proof -
  let ?k = "length h - eventReplayCapacity"
  let ?P = "\<lambda>ev. since < ev_seq ev \<and> matchesFilters (ev_type ev) fs"
  note es = EventsSince_log [OF log since]
  have "filter ?P (take ?k h) = []" using assms(4) es(2) by (auto simp: filter_empty_conv)
  moreover have "filter ?P h = filter ?P (take ?k h) @ filter ?P (drop ?k h)"
    by (simp flip: filter_append)
  ultimately show ?thesis using es(1) log by (simp add: log_ok_def)
qed

text \<open>
  C9. Replay is exact.  After any run of bus operations, a client that asks for the events
  after \<open>since\<close> is told of a gap exactly when an event after \<open>since\<close> has left the replay
  window; when there is no gap it receives precisely the matching events of the whole history
  with a larger sequence number, in order.
\<close>
theorem events_since_exact:
  assumes "0 < since" and "since + 1 < 2 ^ 64"
  shows "(snd (EventsSince since fs (bus_run ops NewBus)) \<longleftrightarrow>
      (\<exists>ev \<in> set (take (length (published ops 0) - 256) (published ops 0)). since < ev_seq ev)) \<and>
     (snd (EventsSince since fs (bus_run ops NewBus)) \<or>
      fst (EventsSince since fs (bus_run ops NewBus)) =
        filter (\<lambda>ev. since < ev_seq ev \<and> matchesFilters (ev_type ev) fs) (published ops 0))"
proof -
  have log: "log_ok (published ops 0) (bus_run ops NewBus)" by (rule log_ok_history)
  show ?thesis
    using EventsSince_log(2) [OF log assms, of fs] EventsSince_no_gap [OF log assms, of fs]
    by (auto simp: eventReplayCapacity_def)
qed

theorem events_since_exact_witness:
  "\<not> snd (EventsSince 1 [] (bus_run [OpPublish ''notification'' ''d'' () 5, OpPublish ''notification'' ''d'' () 6] NewBus)) \<and>
   map ev_time (fst (EventsSince 1 [] (bus_run
     [OpPublish ''notification'' ''d'' () 5, OpPublish ''notification'' ''d'' () 6] NewBus))) = [6]"
  using events_since_exact [of 1 "[]" "[OpPublish ''notification'' ''d'' () 5, OpPublish ''notification'' ''d'' () 6]"]
  by (auto simp: matchesFilters_def isOptInOnly_def TypeSMSIncoming_def TypeSMSAttachment_def TypePrompt_def)

text \<open>
  Subscribing is the permission: in every reachable bus, a subscriber's channel holds only
  events of types it asked for, and one that named no type never holds message bodies,
  attachments or prompts.  The channel never exceeds its capacity and keeps publication order.
\<close>
theorem subscriber_gets_only_its_types:
  assumes "bus_subs (bus_run ops NewBus) i = Some s" and "ev \<in> set (sb_queue s)"
  shows "matchesFilters (ev_type ev) (sb_filters s) \<and>
     (sb_filters s = [] \<longrightarrow> ev_type ev \<notin> set OptInOnly) \<and>
     length (sb_queue s) \<le> sb_cap s \<and> sorted_wrt (<) (map ev_seq (sb_queue s))"
proof -
  have "sub_ok (bus_seq (bus_run ops NewBus)) s"
    using bus_run_ok [OF bus_ok_NewBus, of ops] assms(1) by (auto simp: bus_ok_def)
  then show ?thesis
    using assms(2)
    by (auto simp: sub_ok_def matches_eq matchesFilters_def isOptInOnly_def OptInOnly_def)
qed

theorem subscriber_gets_only_its_types_witness:
  "matchesFilters ''notification'' []"
  using subscriber_gets_only_its_types
    [of "[OpSubscribe 0 [], OpPublish ''notification'' ''d'' () 5, OpPublish ''sms.incoming'' ''d'' () 6]" 1
      "\<lparr>sb_filters = [], sb_cap = 64, sb_queue = [\<lparr>ev_seq = 1, ev_type = ''notification'', ev_time = 5,
         ev_device = ''d'', ev_payload = ()\<rparr>]\<rparr>"
      "\<lparr>ev_seq = 1, ev_type = ''notification'', ev_time = 5, ev_device = ''d'', ev_payload = ()\<rparr>"]
  by (simp add: NewBus_def Subscribe_def Publish_def notifyChange_def deliver_def matches_def
      isOptInOnly_def TypeSMSIncoming_def TypeSMSAttachment_def TypePrompt_def DefaultSubscriberCap_def
      eventReplayCapacity_def Let_def)

text \<open>Delivery to one subscriber while its channel has room.\<close>

lemma deliver_list:
  "length (sb_queue s) + length (filter (\<lambda>ev. matches s (ev_type ev)) evs) \<le> sb_cap s \<Longrightarrow>
     fold deliver evs s = s\<lparr>sb_queue := sb_queue s @ filter (\<lambda>ev. matches s (ev_type ev)) evs\<rparr>"
  by (induction evs arbitrary: s) (auto simp: deliver_def)

end
