(* ===== verification/Cert.thy ===== *)
theory Cert
  imports Strconv
begin

text \<open>
  \<open>internal/cert/cert.go\<close>: what identifies a peer.  A certificate is its common name, its raw
  DER bytes, its public key in PKIX form (when it has one) and its expiry time.  SHA-256 is a
  parameter of the definitions (\<open>sha\<close>, from bytes to bytes); key generation and the file
  system are not modelled, except for the computation of the directory of the certificate
  file, whose first slice expression can panic.
\<close>

record cert =
  ct_cn :: string
  ct_raw :: string
  ct_pubkey :: "string option"
  ct_not_after :: int

section \<open>Hexadecimal\<close>

definition hex_digit :: "nat \<Rightarrow> char" where
  "hex_digit n = (if n < 10 then char_of (48 + n) else char_of (87 + n))"

definition hex_encode :: "string \<Rightarrow> string" where
  "hex_encode s = concat (map (\<lambda>c. [hex_digit (byte c div 16), hex_digit (byte c mod 16)]) s)"

definition upper :: "char \<Rightarrow> char" where
  "upper c = (if 97 \<le> byte c \<and> byte c \<le> 122 then char_of (byte c - 32) else c)"

definition to_upper :: "string \<Rightarrow> string" where
  "to_upper s = map upper s"

text \<open>\<open>strings.EqualFold\<close> on the ASCII text of a fingerprint.\<close>

definition equal_fold :: "string \<Rightarrow> string \<Rightarrow> bool" where
  "equal_fold a b \<longleftrightarrow> to_upper a = to_upper b"

section \<open>Fingerprints and names\<close>

definition Fingerprint :: "(string \<Rightarrow> string) \<Rightarrow> cert \<Rightarrow> string" where
  "Fingerprint sha c = hex_encode (sha (ct_raw c))"

definition PinnedFingerprint :: "(string \<Rightarrow> string) \<Rightarrow> cert option \<Rightarrow> string" where
  "PinnedFingerprint sha peer = (case peer of None \<Rightarrow> [] | Some c \<Rightarrow> Fingerprint sha c)"

definition dash_to_underscore :: "string \<Rightarrow> string" where
  "dash_to_underscore s = map (\<lambda>c. if c = CHR ''-'' then CHR ''_'' else c) s"

definition MatchesDeviceID :: "cert option \<Rightarrow> string \<Rightarrow> bool" where
  "MatchesDeviceID peer deviceID =
     (case peer of
        None \<Rightarrow> False
      | Some c \<Rightarrow>
          ct_cn c = deviceID \<or> dash_to_underscore (ct_cn c) = dash_to_underscore deviceID)"

datatype side_channel_error = NoCertificate | FingerprintMismatch

definition VerifySideChannelPeer ::
  "(string \<Rightarrow> string) \<Rightarrow> cert list \<Rightarrow> string \<Rightarrow> side_channel_error option" where
  "VerifySideChannelPeer sha peers expectedFP =
     (case peers of
        [] \<Rightarrow> Some NoCertificate
      | c # _ \<Rightarrow>
          if expectedFP = [] then None
          else if \<not> equal_fold (Fingerprint sha c) expectedFP then Some FingerprintMismatch
          else None)"

datatype cert_error = CertEmpty | CertUnparsable | CertWrongCN | CertExpired

definition validateLoadedCertificate ::
  "(string \<Rightarrow> cert option) \<Rightarrow> string list \<Rightarrow> string \<Rightarrow> int \<Rightarrow> cert_error option" where
  "validateLoadedCertificate parse chain deviceID now =
     (case chain of
        [] \<Rightarrow> Some CertEmpty
      | der # _ \<Rightarrow>
          (case parse der of
             None \<Rightarrow> Some CertUnparsable
           | Some c \<Rightarrow>
               if \<not> MatchesDeviceID (Some c) deviceID then Some CertWrongCN
               else if now > ct_not_after c then Some CertExpired
               else None))"

section \<open>The verification code\<close>

text \<open>\<open>bytes.Compare\<close> is lexicographic order of the bytes.\<close>

fun bytes_less :: "string \<Rightarrow> string \<Rightarrow> bool" where
  "bytes_less _ [] = False"
| "bytes_less [] (_ # _) = True"
| "bytes_less (a # s) (b # t) = (byte a < byte b \<or> byte a = byte b \<and> bytes_less s t)"

definition key_of :: "cert option \<Rightarrow> string" where
  "key_of c = (case c of None \<Rightarrow> [] | Some c' \<Rightarrow> (case ct_pubkey c' of None \<Rightarrow> [] | Some k \<Rightarrow> k))"

definition VerificationKey ::
  "(string \<Rightarrow> string) \<Rightarrow> cert option \<Rightarrow> cert option \<Rightarrow> int \<Rightarrow> string" where
  "VerificationKey sha localCert remoteCert timestampSec =
     (let localKey = key_of localCert;
          remoteKey = key_of remoteCert;
          combined = (if bytes_less localKey remoteKey then remoteKey @ localKey
                      else localKey @ remoteKey);
          input = (if timestampSec > 0 then combined @ show_int timestampSec else combined)
      in to_upper (hex_encode (take 4 (sha input))))"

lemma bytes_less_total: "\<not> bytes_less a b \<Longrightarrow> \<not> bytes_less b a \<Longrightarrow> a = b"
  by (induction a b rule: bytes_less.induct) (auto, metis bytes_less.simps(2) list.exhaust)

lemma bytes_less_asym: "bytes_less a b \<Longrightarrow> \<not> bytes_less b a"
  by (induction a b rule: bytes_less.induct) auto

text \<open>
  Both sides of a pairing compute the same code: the verification key does not depend on
  which of the two certificates is the local one, so the strings the users compare agree
  exactly when the request timestamps do.
\<close>
lemma verification_key_sym:
  "VerificationKey sha a b ts = VerificationKey sha b a ts"
proof -
  have "(if bytes_less (key_of a) (key_of b) then key_of b @ key_of a else key_of a @ key_of b) =
      (if bytes_less (key_of b) (key_of a) then key_of a @ key_of b else key_of b @ key_of a)"
    using bytes_less_asym [of "key_of a" "key_of b"] bytes_less_total [of "key_of a" "key_of b"]
    by auto
  then show ?thesis by (simp only: VerificationKey_def Let_def)
qed

text \<open>The pinning rule of the side channel, for a non-empty pin.\<close>

lemma hex_encode_Nil [simp]: "hex_encode s = [] \<longleftrightarrow> s = []"
  by (cases s) (simp_all add: hex_encode_def)

lemma side_channel_pin:
  "pin \<noteq> [] \<Longrightarrow> VerifySideChannelPeer sha (c # cs) pin = None \<longleftrightarrow> equal_fold (Fingerprint sha c) pin"
  by (simp add: VerifySideChannelPeer_def)

text \<open>
  A side channel accepts its peer exactly when a certificate was presented and, if a
  fingerprint is pinned, that certificate hashes to it; the pin of the connected peer itself
  always passes.
\<close>
theorem side_channel_accepts:
  "(VerifySideChannelPeer sha peers pin = None \<longleftrightarrow>
      (\<exists>c cs. peers = c # cs \<and> (pin = [] \<or> equal_fold (Fingerprint sha c) pin))) \<and>
   VerifySideChannelPeer sha (c # cs) (PinnedFingerprint sha (Some c)) = None"
  by (cases peers) (simp_all add: VerifySideChannelPeer_def PinnedFingerprint_def equal_fold_def)

section \<open>The directory of the certificate file\<close>

text \<open>
  The code first takes \<open>certFile[:len(certFile)-len("/cert.pem")]\<close>, which panics (\<open>None\<close>) on a
  path of fewer than nine bytes, and then looks for the last slash.
\<close>

fun last_slash :: "string \<Rightarrow> nat \<Rightarrow> nat option" where
  "last_slash s 0 = (if s \<noteq> [] \<and> s ! 0 = CHR ''/'' then Some 0 else None)"
| "last_slash s (Suc i) = (if Suc i < length s \<and> s ! Suc i = CHR ''/'' then Some (Suc i) else last_slash s i)"

definition certDir :: "string \<Rightarrow> string option" where
  "certDir certFile =
     (if length certFile < 9 then None
      else let dir = take (length certFile - 9) certFile;
               idx = length certFile - 1
           in Some (if idx > 0
                    then (case last_slash certFile idx of None \<Rightarrow> dir | Some i \<Rightarrow> take i certFile)
                    else dir))"

text \<open>
  Creating the certificate directory panics exactly on certificate paths shorter than
  \<open>"/cert.pem"\<close>, such as the relative path \<open>"c.pem"\<close>; with a slash in a longer path it is the
  part before the last slash.
\<close>
theorem cert_dir_panics:
  "(certDir f = None \<longleftrightarrow> length f < 9) \<and> certDir ''c.pem'' = None \<and>
   certDir ''/a/cert.pem'' = Some ''/a''"
  by (simp add: certDir_def Let_def eval_nat_numeral)

end
