(* ===== verification/Net.thy ===== *)
theory Net
  imports KcdPrelude
begin

text \<open>
  Addresses: a \<open>net.IP\<close> is its byte slice, the empty slice standing for \<open>nil\<close>, and
  \<open>ip_equal\<close> is \<open>IP.Equal\<close>, which identifies an IPv4 address with its IPv4-in-IPv6 form.
\<close>

type_synonym ip = "nat list"

definition v4_in_v6_prefix :: ip where
  "v4_in_v6_prefix = [0, 0, 0, 0, 0, 0, 0, 0, 0, 0, 255, 255]"

definition ip_equal :: "ip \<Rightarrow> ip \<Rightarrow> bool" where
  "ip_equal a b =
     (if length a = length b then a = b
      else if length a = 4 \<and> length b = 16 then take 12 b = v4_in_v6_prefix \<and> a = drop 12 b
      else if length a = 16 \<and> length b = 4 then take 12 a = v4_in_v6_prefix \<and> b = drop 12 a
      else False)"

lemma ip_equal_refl [simp]: "ip_equal a a"
  by (simp add: ip_equal_def)

lemma ip_equal_sym: "ip_equal a b \<longleftrightarrow> ip_equal b a"
  by (auto simp: ip_equal_def)

text \<open>Equality of addresses is equality of their 16-byte forms.\<close>

definition ip16 :: "ip \<Rightarrow> ip" where
  "ip16 a = (if length a = 4 then v4_in_v6_prefix @ a else a)"

lemma prefix_length [simp]: "length v4_in_v6_prefix = 12"
  by (simp add: v4_in_v6_prefix_def)

lemma prefix_append_eq:
  "v4_in_v6_prefix @ x = y \<longleftrightarrow> take 12 y = v4_in_v6_prefix \<and> x = drop 12 y"
  by (auto simp: append_eq_conv_conj)

lemma ip_equal_ip16: "ip_equal a b \<longleftrightarrow> ip16 a = ip16 b"
proof -
  consider "length a = 4" "length b = 4" | "length a = 4" "length b = 16"
    | "length a = 4" "length b \<noteq> 4" "length b \<noteq> 16"
    | "length a \<noteq> 4" "length b = 4" "length a = 16"
    | "length a \<noteq> 4" "length b = 4" "length a \<noteq> 16"
    | "length a \<noteq> 4" "length b \<noteq> 4" by blast
  then show ?thesis
  proof cases
    case 2
    then show ?thesis by (simp add: ip_equal_def ip16_def prefix_append_eq)
  next
    case 3
    then have "v4_in_v6_prefix @ a \<noteq> b" by auto
    with 3 show ?thesis by (simp add: ip_equal_def ip16_def)
  next
    case 4
    then show ?thesis by (simp add: ip_equal_def ip16_def) (metis prefix_append_eq)
  next
    case 5
    then have "a \<noteq> v4_in_v6_prefix @ b" by auto
    with 5 show ?thesis by (simp add: ip_equal_def ip16_def)
  qed (auto simp: ip_equal_def ip16_def)
qed

lemma ip_equal_trans: "ip_equal a b \<Longrightarrow> ip_equal b c \<Longrightarrow> ip_equal a c"
  by (simp add: ip_equal_ip16)

lemma ip_equal_nil [simp]: "ip_equal [] a \<longleftrightarrow> a = []" "ip_equal a [] \<longleftrightarrow> a = []"
  by (auto simp: ip_equal_def)

text \<open>\<open>validDialPort\<close> of the transport: a port a dial may target.\<close>

definition validDialPort :: "int \<Rightarrow> bool" where
  "validDialPort port \<longleftrightarrow> port > 0 \<and> port \<le> 65535"

end
