(* ===== verification/Device.thy ===== *)
theory Device
  imports Net Cert Identity Events
begin

text \<open>
  \<open>internal/device\<close>: the pairing state and its JSON form (\<open>state.go\<close>), the device object and
  its methods (\<open>device_core.go\<close>, \<open>device_discovery.go\<close>, \<open>device_telemetry.go\<close>) and the
  session (\<open>device_session.go\<close>).  Every method holds the device mutex for its whole effect on
  the object, so it is one function on the record; what it does outside the mutex (publishing,
  callbacks, closing sockets, starting the loops) is returned as a list of actions in order.
  The clock reading is an argument.
\<close>

section \<open>Pairing state\<close>

text \<open>\<open>PairingState\<close> is an integer: a state file may hold any number, kept as \<open>StateOther\<close>.\<close>

datatype pairing_state =
    StateUnknown
  | StatePairRequested
  | StatePairRequestedByPeer
  | StatePaired
  | StateUnpaired
  | StateOther int

fun state_of_int :: "int \<Rightarrow> pairing_state" where
  "state_of_int i =
     (if i = 0 then StateUnknown else if i = 1 then StatePairRequested
      else if i = 2 then StatePairRequestedByPeer else if i = 3 then StatePaired
      else if i = 4 then StateUnpaired else StateOther i)"

fun state_String :: "pairing_state \<Rightarrow> string" where
  "state_String StateUnknown = ''UNKNOWN''"
| "state_String StatePairRequested = ''PAIR_REQUESTED''"
| "state_String StatePairRequestedByPeer = ''PAIR_REQUESTED_BY_PEER''"
| "state_String StatePaired = ''PAIRED''"
| "state_String StateUnpaired = ''UNPAIRED''"
| "state_String (StateOther i) = ''INVALID''"

definition state_MarshalJSON :: "pairing_state \<Rightarrow> json" where
  "state_MarshalJSON s = JStr (state_String s)"

text \<open>
  The integer form is tried first; \<open>null\<close> unmarshals into an \<open>int\<close> without an error and leaves
  it zero.
\<close>

definition state_of_name :: "string \<Rightarrow> pairing_state" where
  "state_of_name s =
     (if s = ''UNKNOWN'' then StateUnknown
      else if s = ''PAIR_REQUESTED'' then StatePairRequested
      else if s = ''PAIR_REQUESTED_BY_PEER'' then StatePairRequestedByPeer
      else if s = ''PAIRED'' then StatePaired
      else if s = ''UNPAIRED'' then StateUnpaired
      else StateUnknown)"

definition state_UnmarshalJSON :: "json \<Rightarrow> pairing_state option" where
  "state_UnmarshalJSON j =
     (case dec_int j 0 of
        Some i \<Rightarrow> Some (state_of_int i)
      | None \<Rightarrow> map_option state_of_name (dec_str j []))"

lemma state_roundtrip: "(\<nexists>i. s = StateOther i) \<Longrightarrow> state_UnmarshalJSON (state_MarshalJSON s) = Some s"
  by (cases s) (simp_all add: state_UnmarshalJSON_def state_MarshalJSON_def state_of_name_def)

section \<open>The device object\<close>

record conn =
  cn_id :: nat
  cn_addr :: "ip option"
  cn_cert :: "cert option"

text \<open>Which of the callbacks of \<open>Connect\<close> are set.\<close>

record hooks =
  hk_dispatch :: bool
  hk_connect :: bool
  hk_disconnect :: bool

record device =
  dv_id :: string
  dv_name :: string
  dv_type :: string
  dv_incoming :: "string list"
  dv_outgoing :: "string list"
  dv_state :: pairing_state
  dv_cert_fp :: string
  dv_peer_proto :: int
  dv_last_seen :: gtime
  dv_last_ip :: ip
  dv_last_port :: int
  dv_discovery_ip :: ip
  dv_discovery_port :: int
  dv_pair_dial_requested :: bool
  dv_pair_intent_until :: int
  dv_last_discovery_dial :: gtime
  dv_ephemeral_dialed :: bool
  dv_conn :: "conn option"
  dv_send :: "packet list"
  dv_done :: bool
  dv_once :: bool
  dv_last_connect :: gtime
  dv_last_sighted_ip :: ip
  dv_battery_charge :: int
  dv_is_charging :: bool
  dv_battery_seen :: bool
  dv_last_battery_at :: gtime
  dv_reconnecting :: bool
  dv_reconnect_wake :: bool
  dv_reconnect_attempt :: int
  dv_connect_started :: gtime
  dv_hooks :: hooks
  dv_has_bus :: bool

definition no_hooks :: hooks where
  "no_hooks = \<lparr>hk_dispatch = False, hk_connect = False, hk_disconnect = False\<rparr>"

definition NewDevice :: "string \<Rightarrow> string \<Rightarrow> string \<Rightarrow> device" where
  "NewDevice id' name dtype =
     \<lparr>dv_id = id', dv_name = name, dv_type = dtype, dv_incoming = [], dv_outgoing = [],
      dv_state = StateUnpaired, dv_cert_fp = [], dv_peer_proto = ProtocolVersion,
      dv_last_seen = None, dv_last_ip = [], dv_last_port = 0, dv_discovery_ip = [],
      dv_discovery_port = 0, dv_pair_dial_requested = False, dv_pair_intent_until = 0,
      dv_last_discovery_dial = None, dv_ephemeral_dialed = False, dv_conn = None, dv_send = [],
      dv_done = False, dv_once = False, dv_last_connect = None, dv_last_sighted_ip = [],
      dv_battery_charge = 0, dv_is_charging = False, dv_battery_seen = False,
      dv_last_battery_at = None, dv_reconnecting = False, dv_reconnect_wake = False,
      dv_reconnect_attempt = 0, dv_connect_started = None, dv_hooks = no_hooks,
      dv_has_bus = False\<rparr>"

text \<open>\<open>DeviceInfo\<close>: the persistent view, which is also the payload of \<open>device.added\<close>.\<close>

record device_info =
  di_id :: string
  di_name :: string
  di_type :: string
  di_state :: pairing_state
  di_cert_fp :: string
  di_last_seen :: gtime
  di_connected :: bool
  di_last_ip :: string
  di_last_port :: int

text \<open>The payloads the modelled code publishes.\<close>

datatype payload = NoPayload | Json json | InfoOf device_info

text \<open>What a method does outside the mutex.\<close>

datatype dev_action =
    CloseConn nat
  | PublishEvent event_type payload
  | CallOnConnect
  | CallOnDisconnect
  | StartLoops nat

section \<open>Core methods (device_core.go)\<close>

definition SetBus :: "bool \<Rightarrow> device \<Rightarrow> device" where
  "SetBus b d = d\<lparr>dv_has_bus := b\<rparr>"

definition SetName :: "string \<Rightarrow> device \<Rightarrow> device" where
  "SetName n d = d\<lparr>dv_name := n\<rparr>"

text \<open>The wake channel has one slot; a poke on a full channel is dropped.\<close>

definition PokeReconnect :: "device \<Rightarrow> device" where
  "PokeReconnect d = d\<lparr>dv_reconnect_wake := True\<rparr>"

definition SetState :: "pairing_state \<Rightarrow> device \<Rightarrow> device" where
  "SetState s d =
     (let d = d\<lparr>dv_state := s\<rparr> in if s = StateUnpaired then PokeReconnect d else d)"

definition TransitionState :: "pairing_state \<Rightarrow> pairing_state \<Rightarrow> device \<Rightarrow> bool \<times> device" where
  "TransitionState expected next d =
     (if dv_state d \<noteq> expected then (False, d)
      else let d = d\<lparr>dv_state := next\<rparr>
           in (True, if next = StateUnpaired then PokeReconnect d else d))"

definition SetPeerProtocolVersion :: "int \<Rightarrow> device \<Rightarrow> device" where
  "SetPeerProtocolVersion version d =
     d\<lparr>dv_peer_proto := (if version \<le> 0 then ProtocolVersion else version)\<rparr>"

definition SetLastSeen :: "gtime \<Rightarrow> device \<Rightarrow> device" where
  "SetLastSeen t d = d\<lparr>dv_last_seen := t\<rparr>"

section \<open>Discovery methods (device_discovery.go)\<close>

definition SetDiscoveryAddr :: "ip \<Rightarrow> int \<Rightarrow> device \<Rightarrow> device" where
  "SetDiscoveryAddr addr port d = d\<lparr>dv_discovery_ip := addr, dv_discovery_port := port\<rparr>"

definition DiscoveryAddr :: "device \<Rightarrow> ip \<times> int" where
  "DiscoveryAddr d = (dv_discovery_ip d, dv_discovery_port d)"

definition pairDialIntentTTL :: duration where
  "pairDialIntentTTL = 5 * minute"

definition RequestPairDial :: "duration list \<Rightarrow> int \<Rightarrow> device \<Rightarrow> device" where
  "RequestPairDial intentTTL now d =
     (let ttl = (case intentTTL of [] \<Rightarrow> pairDialIntentTTL
                 | t # _ \<Rightarrow> if t > 0 then t else pairDialIntentTTL)
      in d\<lparr>dv_pair_dial_requested := True, dv_pair_intent_until := now + ttl\<rparr>)"

definition ConsumePairDial :: "device \<Rightarrow> bool \<times> device" where
  "ConsumePairDial d = (dv_pair_dial_requested d, d\<lparr>dv_pair_dial_requested := False\<rparr>)"

definition PairDialPending :: "device \<Rightarrow> bool" where
  "PairDialPending d = dv_pair_dial_requested d"

definition PairDialActive :: "int \<Rightarrow> device \<Rightarrow> bool" where
  "PairDialActive now d \<longleftrightarrow> dv_pair_intent_until d > now"

definition ClearPairDial :: "device \<Rightarrow> device" where
  "ClearPairDial d = d\<lparr>dv_pair_dial_requested := False, dv_pair_intent_until := 0\<rparr>"

definition SetLastPort :: "int \<Rightarrow> device \<Rightarrow> device" where
  "SetLastPort port d = d\<lparr>dv_last_port := port\<rparr>"

definition SetLastIP :: "ip \<Rightarrow> device \<Rightarrow> device" where
  "SetLastIP addr d = d\<lparr>dv_last_ip := addr\<rparr>"

definition ShouldDiscoveryDial :: "duration \<Rightarrow> int \<Rightarrow> device \<Rightarrow> bool \<times> device" where
  "ShouldDiscoveryDial minInterval now d =
     (if time_since now (dv_last_discovery_dial d) < minInterval then (False, d)
      else (True, d\<lparr>dv_last_discovery_dial := Some now\<rparr>))"

definition MarkEphemeralDialed :: "device \<Rightarrow> device" where
  "MarkEphemeralDialed d = d\<lparr>dv_ephemeral_dialed := True\<rparr>"

definition ClearEphemeral :: "device \<Rightarrow> device" where
  "ClearEphemeral d = d\<lparr>dv_ephemeral_dialed := False\<rparr>"

definition reconnectCooldown :: duration where
  "reconnectCooldown = 1 * second"

definition InCooldown :: "int \<Rightarrow> device \<Rightarrow> bool" where
  "InCooldown now d \<longleftrightarrow>
     dv_last_connect d \<noteq> None \<and> time_since now (dv_last_connect d) < reconnectCooldown"

text \<open>The deferred assignment of the sighting happens on every path.\<close>

definition NoteSighting :: "ip \<Rightarrow> device \<Rightarrow> bool \<times> device" where
  "NoteSighting sighted d =
     ((if dv_last_ip d = [] \<or> \<not> ip_equal (dv_last_ip d) sighted
       then ip_equal sighted (dv_last_sighted_ip d) else False),
      d\<lparr>dv_last_sighted_ip := sighted\<rparr>)"

definition TryReconnect :: "device \<Rightarrow> bool \<times> device" where
  "TryReconnect d = (\<not> dv_reconnecting d, d\<lparr>dv_reconnecting := True\<rparr>)"

definition ReconnectDone :: "device \<Rightarrow> device" where
  "ReconnectDone d = d\<lparr>dv_reconnecting := False\<rparr>"

definition SetReconnectAttempt :: "int \<Rightarrow> device \<Rightarrow> device" where
  "SetReconnectAttempt n d = d\<lparr>dv_reconnect_attempt := n\<rparr>"

definition ResetReconnectAttempt :: "device \<Rightarrow> device" where
  "ResetReconnectAttempt d = d\<lparr>dv_reconnect_attempt := 0\<rparr>"

definition ConnectionAge :: "int \<Rightarrow> device \<Rightarrow> duration" where
  "ConnectionAge now d =
     (if dv_connect_started d = None then 0 else time_since now (dv_connect_started d))"

section \<open>Telemetry methods (device_telemetry.go)\<close>

definition UpdateBattery :: "int \<Rightarrow> bool \<Rightarrow> int \<Rightarrow> device \<Rightarrow> device \<times> dev_action list" where
  "UpdateBattery charge charging now d =
     (d\<lparr>dv_battery_charge := charge, dv_is_charging := charging, dv_battery_seen := True,
        dv_last_battery_at := Some now\<rparr>,
      if dv_has_bus d
      then [PublishEvent TypeBatteryUpdate
              (Json (JObj [(''charge'', enc_int charge), (''charging'', JBool charging)]))]
      else [])"

definition GetBattery :: "device \<Rightarrow> int \<times> bool" where
  "GetBattery d = (dv_battery_charge d, dv_is_charging d)"

definition HasBattery :: "device \<Rightarrow> bool" where
  "HasBattery d = dv_battery_seen d"

definition BatteryAge :: "int \<Rightarrow> device \<Rightarrow> duration" where
  "BatteryAge now d = (if \<not> dv_battery_seen d then -1 else time_since now (dv_last_battery_at d))"

definition HasCapability :: "string \<Rightarrow> device \<Rightarrow> bool" where
  "HasCapability cap d \<longleftrightarrow>
     list_ex (\<lambda>c. c = cap) (dv_incoming d) \<or> list_ex (\<lambda>c. c = cap) (dv_outgoing d)"

definition RemoteIP :: "device \<Rightarrow> ip" where
  "RemoteIP d =
     (case dv_conn d of
        None \<Rightarrow> []
      | Some c \<Rightarrow> (case cn_addr c of None \<Rightarrow> [] | Some a \<Rightarrow> a))"

definition PeerCert :: "device \<Rightarrow> cert option" where
  "PeerCert d = (case dv_conn d of None \<Rightarrow> None | Some c \<Rightarrow> cn_cert c)"

section \<open>The session (device_session.go)\<close>

definition IsConnected :: "device \<Rightarrow> bool" where
  "IsConnected d \<longleftrightarrow> dv_conn d \<noteq> None"

text \<open>\<open>closeOnce.Do(close(done))\<close>.\<close>

definition close_done :: "device \<Rightarrow> device" where
  "close_done d = (if dv_once d then d else d\<lparr>dv_once := True, dv_done := True\<rparr>)"

definition device_view :: "device \<Rightarrow> payload" where
  "device_view d = Json (JObj [(''name'', JStr (dv_name d)), (''type'', JStr (dv_type d))])"

text \<open>
  \<open>Connect\<close> up to the \<open>onConnect\<close> callback, and after it.  The superseded session's channel is
  closed, and the new session starts with a fresh queue, channel and \<open>sync.Once\<close>.
\<close>

definition Connect_begin :: "conn \<Rightarrow> hooks \<Rightarrow> device \<Rightarrow> device \<times> dev_action list" where
  "Connect_begin c hk d =
     (let d = d\<lparr>dv_hooks := hk\<rparr>;
          old = dv_conn d;
          d = (case old of None \<Rightarrow> d | Some _ \<Rightarrow> close_done d);
          d = d\<lparr>dv_conn := Some c, dv_send := [], dv_done := False, dv_once := False\<rparr>
      in (d,
          (case old of None \<Rightarrow> [] | Some o' \<Rightarrow> [CloseConn (cn_id o')])
          @ (if dv_has_bus d then [PublishEvent TypeDeviceConnected (device_view d)] else [])
          @ (if hk_connect (dv_hooks d) then [CallOnConnect] else [])))"

definition Connect_finish :: "conn \<Rightarrow> int \<Rightarrow> device \<Rightarrow> device \<times> dev_action list" where
  "Connect_finish c now d =
     (let d = (case cn_addr c of None \<Rightarrow> d | Some a \<Rightarrow> d\<lparr>dv_last_ip := a\<rparr>);
          d = d\<lparr>dv_connect_started := Some now, dv_last_connect := Some now\<rparr>
      in (d, [StartLoops (cn_id c)]))"

definition Connect :: "conn \<Rightarrow> hooks \<Rightarrow> int \<Rightarrow> device \<Rightarrow> device \<times> dev_action list" where
  "Connect c hk now d =
     (let (d1, acts1) = Connect_begin c hk d;
          (d2, acts2) = Connect_finish c now d1
      in (d2, acts1 @ acts2))"

text \<open>The tail shared by \<open>Disconnect\<close> and \<open>disconnectConn\<close> once a live connection is found.\<close>

definition drop_conn :: "conn \<Rightarrow> device \<Rightarrow> device \<times> dev_action list" where
  "drop_conn c d =
     (let d = close_done (d\<lparr>dv_conn := None, dv_last_connect := None\<rparr>)
      in (d,
          [CloseConn (cn_id c)]
          @ (if hk_disconnect (dv_hooks d) then [CallOnDisconnect] else [])
          @ (if dv_has_bus d then [PublishEvent TypeDeviceDisconnected NoPayload] else [])))"

definition Disconnect :: "int \<Rightarrow> device \<Rightarrow> device \<times> dev_action list" where
  "Disconnect now d =
     (let d = d\<lparr>dv_last_seen := Some now\<rparr>
      in case dv_conn d of None \<Rightarrow> (d, []) | Some c \<Rightarrow> drop_conn c d)"

definition disconnectConn :: "nat \<Rightarrow> int \<Rightarrow> device \<Rightarrow> device \<times> dev_action list" where
  "disconnectConn cid now d =
     (case dv_conn d of
        None \<Rightarrow> (d, [])
      | Some c \<Rightarrow>
          if cn_id c \<noteq> cid then (d, [])
          else drop_conn c (d\<lparr>dv_last_seen := Some now\<rparr>))"

section \<open>Sending (io.go)\<close>

definition packetAllowed :: "pairing_state \<Rightarrow> string \<Rightarrow> bool" where
  "packetAllowed s typ \<longleftrightarrow> s = StatePaired \<or> typ = TypePair"

definition send_capacity :: nat where
  "send_capacity = 32"

datatype send_result = Queued | Dropped

text \<open>\<open>Send\<close> never reports an error: every refusal is a silent drop.\<close>

definition Send :: "packet \<Rightarrow> device \<Rightarrow> send_result \<times> device" where
  "Send p d =
     (if dv_conn d = None then (Dropped, d)
      else if \<not> packetAllowed (dv_state d) (pk_type p) then (Dropped, d)
      else if dv_done d then (Dropped, d)
      else if length (dv_send d) < send_capacity
      then (Queued, d\<lparr>dv_send := dv_send d @ [p]\<rparr>)
      else (Dropped, d))"

datatype write_result = WriteOk | WriteTimeout | WriteFailed

text \<open>
  One round of \<open>writerLoop\<close>: the packet taken off the queue is written, or dropped because
  the device is no longer paired or no longer connected; a write timeout ends the session.
\<close>

definition writer_step :: "write_result \<Rightarrow> int \<Rightarrow> device \<Rightarrow> packet option \<times> device \<times> dev_action list" where
  "writer_step res now d =
     (if dv_done d then (None, d, [])
      else case dv_send d of
        [] \<Rightarrow> (None, d, [])
      | p # q \<Rightarrow>
          let d = d\<lparr>dv_send := q\<rparr>
          in if \<not> packetAllowed (dv_state d) (pk_type p) then (None, d, [])
             else (case dv_conn d of
                     None \<Rightarrow> (None, d, [])
                   | Some c \<Rightarrow>
                       (case res of
                          WriteOk \<Rightarrow> (Some p, d, [])
                        | WriteFailed \<Rightarrow> (None, d, [])
                        | WriteTimeout \<Rightarrow>
                            let (d', acts) = disconnectConn (cn_id c) now d in (None, d', acts))))"

datatype read_reaction =
    DispatchPacket packet
  | DropPacket
  | KeepReading
  | EndSession

text \<open>
  One round of \<open>readLoop\<close>: an oversized or malformed packet is skipped, any other error ends
  the session; a packet reaches the plugins only for a paired device, except for identity and
  pair packets.
\<close>

definition read_step :: "read_error + packet \<Rightarrow> device \<Rightarrow> read_reaction" where
  "read_step r d =
     (case r of
        Inl PacketTooLarge \<Rightarrow> KeepReading
      | Inl Unmarshal \<Rightarrow> KeepReading
      | Inl _ \<Rightarrow> EndSession
      | Inr p \<Rightarrow>
          if hk_dispatch (dv_hooks d)
          then (if dv_state d \<noteq> StatePaired \<and> pk_type p \<noteq> TypeIdentity \<and> pk_type p \<noteq> TypePair
                then DropPacket else DispatchPacket p)
          else DropPacket)"

end
