(* ===== verification/DeviceProps.thy ===== *)
theory DeviceProps
  imports Device
begin

text \<open>
  Facts about the device object: the session invariant and its preservation by every method,
  the accounting of sessions over a whole run, and the packet gates.
\<close>

section \<open>The session invariant\<close>

text \<open>
  The \<open>done\<close> channel is closed exactly when the \<open>sync.Once\<close> has fired, a connected device has
  an open channel, and the queue respects the channel's capacity.
\<close>

definition device_ok :: "device \<Rightarrow> bool" where
  "device_ok d \<longleftrightarrow>
     dv_once d = dv_done d \<and> (IsConnected d \<longrightarrow> \<not> dv_done d) \<and>
     length (dv_send d) \<le> send_capacity"

datatype device_op =
    DoSetName string
  | DoSetState pairing_state
  | DoTransition pairing_state pairing_state
  | DoSetProto int
  | DoSetLastSeen gtime
  | DoSetDiscoveryAddr ip int
  | DoRequestPairDial "duration list" int
  | DoConsumePairDial
  | DoClearPairDial
  | DoShouldDiscoveryDial duration int
  | DoMarkEphemeral
  | DoClearEphemeral
  | DoNoteSighting ip
  | DoTryReconnect
  | DoReconnectDone
  | DoSetAttempt int
  | DoUpdateBattery int bool int
  | DoConnect conn hooks int
  | DoDisconnect int
  | DoDisconnectConn nat int
  | DoSend packet
  | DoWriterStep write_result int

fun device_step :: "device_op \<Rightarrow> device \<Rightarrow> device \<times> dev_action list" where
  "device_step (DoSetName n) d = (SetName n d, [])"
| "device_step (DoSetState s) d = (SetState s d, [])"
| "device_step (DoTransition e n) d = (snd (TransitionState e n d), [])"
| "device_step (DoSetProto v) d = (SetPeerProtocolVersion v d, [])"
| "device_step (DoSetLastSeen t) d = (SetLastSeen t d, [])"
| "device_step (DoSetDiscoveryAddr a p) d = (SetDiscoveryAddr a p d, [])"
| "device_step (DoRequestPairDial ttl now) d = (RequestPairDial ttl now d, [])"
| "device_step DoConsumePairDial d = (snd (ConsumePairDial d), [])"
| "device_step DoClearPairDial d = (ClearPairDial d, [])"
| "device_step (DoShouldDiscoveryDial m now) d = (snd (ShouldDiscoveryDial m now d), [])"
| "device_step DoMarkEphemeral d = (MarkEphemeralDialed d, [])"
| "device_step DoClearEphemeral d = (ClearEphemeral d, [])"
| "device_step (DoNoteSighting a) d = (snd (NoteSighting a d), [])"
| "device_step DoTryReconnect d = (snd (TryReconnect d), [])"
| "device_step DoReconnectDone d = (ReconnectDone d, [])"
| "device_step (DoSetAttempt n) d = (SetReconnectAttempt n d, [])"
| "device_step (DoUpdateBattery c ch now) d = UpdateBattery c ch now d"
| "device_step (DoConnect c hk now) d = Connect c hk now d"
| "device_step (DoDisconnect now) d = Disconnect now d"
| "device_step (DoDisconnectConn cid now) d = disconnectConn cid now d"
| "device_step (DoSend p) d = (snd (Send p d), [])"
| "device_step (DoWriterStep r now) d = (let (w, d', acts) = writer_step r now d in (d', acts))"

fun device_run :: "device_op list \<Rightarrow> device \<Rightarrow> device \<times> dev_action list" where
  "device_run [] d = (d, [])"
| "device_run (op # ops) d =
     (let (d1, a1) = device_step op d; (d2, a2) = device_run ops d1 in (d2, a1 @ a2))"

lemmas device_setters [kcd_defs] =
  SetBus_def SetName_def SetState_def TransitionState_def PokeReconnect_def
  SetPeerProtocolVersion_def SetLastSeen_def SetDiscoveryAddr_def RequestPairDial_def
  ConsumePairDial_def ClearPairDial_def SetLastPort_def SetLastIP_def ShouldDiscoveryDial_def
  MarkEphemeralDialed_def ClearEphemeral_def NoteSighting_def TryReconnect_def ReconnectDone_def
  SetReconnectAttempt_def ResetReconnectAttempt_def UpdateBattery_def

lemmas session_defs [kcd_defs] =
  Connect_def Connect_begin_def Connect_finish_def Disconnect_def disconnectConn_def drop_conn_def
  close_done_def IsConnected_def

text \<open>What the setters leave alone: the session part of the object.\<close>

definition session_part :: "device \<Rightarrow> conn option \<times> packet list \<times> bool \<times> bool" where
  "session_part d = (dv_conn d, dv_send d, dv_done d, dv_once d)"

fun is_setter :: "device_op \<Rightarrow> bool" where
  "is_setter (DoConnect _ _ _) = False"
| "is_setter (DoDisconnect _) = False"
| "is_setter (DoDisconnectConn _ _) = False"
| "is_setter (DoSend _) = False"
| "is_setter (DoWriterStep _ _) = False"
| "is_setter _ = True"

lemma setter_session_part: "is_setter op \<Longrightarrow> session_part (fst (device_step op d)) = session_part d"
  by (cases op) (simp_all add: session_part_def device_setters Let_def)

lemma device_ok_session_part: "session_part d' = session_part d \<Longrightarrow> device_ok d' = device_ok d"
  by (simp add: session_part_def device_ok_def IsConnected_def)

lemma device_ok_Connect [kcd_inv]: "device_ok d \<Longrightarrow> device_ok (fst (Connect c hk now d))"
  by (simp add: device_ok_def session_defs Let_def split: option.splits)

lemma device_ok_drop_conn: "device_ok d \<Longrightarrow> device_ok (fst (drop_conn c d))"
  by (auto simp: device_ok_def drop_conn_def close_done_def IsConnected_def Let_def)

lemma device_ok_last_seen [simp]: "device_ok (d\<lparr>dv_last_seen := t\<rparr>) = device_ok d"
  by (simp add: device_ok_def IsConnected_def)

lemma device_ok_Disconnect [kcd_inv]: "device_ok d \<Longrightarrow> device_ok (fst (Disconnect now d))"
  by (auto simp: Disconnect_def Let_def intro: device_ok_drop_conn split: option.splits)

lemma device_ok_disconnectConn [kcd_inv]: "device_ok d \<Longrightarrow> device_ok (fst (disconnectConn cid now d))"
  by (auto simp: disconnectConn_def intro: device_ok_drop_conn split: option.splits)

lemma device_ok_Send [kcd_inv]: "device_ok d \<Longrightarrow> device_ok (snd (Send p d))"
  by (simp add: Send_def device_ok_def IsConnected_def)

lemma device_ok_tail: "device_ok d \<Longrightarrow> dv_send d = p # q \<Longrightarrow> device_ok (d\<lparr>dv_send := q\<rparr>)"
  by (simp add: device_ok_def IsConnected_def)

text \<open>The outcomes of one writer round.\<close>

lemma writer_step_cases:
  obtains (idle) "writer_step r now d = (None, d, [])"
  | (drop) p q where "dv_send d = p # q" "writer_step r now d = (None, d\<lparr>dv_send := q\<rparr>, [])"
  | (wrote) p q c where "dv_send d = p # q" "dv_conn d = Some c" "packetAllowed (dv_state d) (pk_type p)"
      "r = WriteOk" "writer_step r now d = (Some p, d\<lparr>dv_send := q\<rparr>, [])"
  | (timeout) p q c where "dv_send d = p # q" "dv_conn d = Some c" "r = WriteTimeout"
      "writer_step r now d = (None, disconnectConn (cn_id c) now (d\<lparr>dv_send := q\<rparr>))"
proof (cases "dv_done d")
  case True
  then show thesis using idle by (simp add: writer_step_def)
next
  case open': False
  show thesis
  proof (cases "dv_send d")
    case Nil
    then show thesis using idle open' by (simp add: writer_step_def)
  next
    case (Cons p q)
    note w = writer_step_def [of r now d]
    show thesis
    proof (cases "packetAllowed (dv_state d) (pk_type p) \<and> dv_conn d \<noteq> None")
      case False
      then have "writer_step r now d = (None, d\<lparr>dv_send := q\<rparr>, [])"
        using open' Cons by (auto simp: w Let_def)
      then show thesis using drop Cons by blast
    next
      case True
      then obtain c where c: "dv_conn d = Some c" by blast
      show thesis
      proof (cases r)
        case WriteOk
        then have "writer_step r now d = (Some p, d\<lparr>dv_send := q\<rparr>, [])"
          using True open' Cons c by (simp add: writer_step_def Let_def)
        then show thesis using wrote [OF Cons c] True WriteOk by blast
      next
        case WriteTimeout
        then have "writer_step r now d = (None, disconnectConn (cn_id c) now (d\<lparr>dv_send := q\<rparr>))"
          using True open' Cons c by (simp add: writer_step_def Let_def split: prod.splits)
        then show thesis using timeout [OF Cons c WriteTimeout] by blast
      next
        case WriteFailed
        then have "writer_step r now d = (None, d\<lparr>dv_send := q\<rparr>, [])"
          using True open' Cons c by (simp add: writer_step_def Let_def)
        then show thesis using drop [OF Cons] by blast
      qed
    qed
  qed
qed

lemma device_ok_writer [kcd_inv]: "device_ok d \<Longrightarrow> device_ok (fst (snd (writer_step r now d)))"
  by (cases r now d rule: writer_step_cases)
    (simp_all add: device_ok_tail device_ok_disconnectConn)

lemma device_ok_step:
  assumes "device_ok d"
  shows "device_ok (fst (device_step op d))"
proof (cases "is_setter op")
  case True
  then show ?thesis using assms device_ok_session_part [OF setter_session_part] by blast
next
  case False
  then show ?thesis using assms
    by (cases op) (simp_all add: device_ok_Connect device_ok_Disconnect device_ok_disconnectConn
        device_ok_Send case_prod_beta device_ok_writer)
qed

interpretation device_inv: invariant_system "\<lambda>d d'. \<exists>op. d' = fst (device_step op d)" device_ok
  by unfold_locales (auto intro: device_ok_step)

lemma device_run_steps: "(\<lambda>d d'. \<exists>op. d' = fst (device_step op d))\<^sup>*\<^sup>* d (fst (device_run ops d))"
proof (induction ops arbitrary: d)
  case (Cons op ops)
  have "(\<lambda>d d'. \<exists>op. d' = fst (device_step op d)) d (fst (device_step op d))" by blast
  then show ?case using Cons.IH [of "fst (device_step op d)"]
    by (simp add: case_prod_beta converse_rtranclp_into_rtranclp)
qed simp

lemma device_ok_NewDevice: "device_ok (NewDevice i n t)"
  by (simp add: device_ok_def NewDevice_def IsConnected_def send_capacity_def)

text \<open>
  C4. Whatever sequence of methods runs on a device object, the session stays consistent: the
  \<open>done\<close> channel is closed at most once (the \<open>sync.Once\<close> guard and the channel agree), a
  connected device has an open channel and so a live writer, and at most 32 packets are queued.
\<close>
theorem device_session_invariant:
  "dv_once (fst (device_run ops (NewDevice i n t))) = dv_done (fst (device_run ops (NewDevice i n t))) \<and>
   (IsConnected (fst (device_run ops (NewDevice i n t))) \<longrightarrow>
      \<not> dv_done (fst (device_run ops (NewDevice i n t)))) \<and>
   length (dv_send (fst (device_run ops (NewDevice i n t)))) \<le> 32"
  using device_inv.run_inv [OF device_run_steps device_ok_NewDevice, of ops i n t]
  by (simp add: device_ok_def send_capacity_def)

theorem device_session_invariant_witness:
  "IsConnected (fst (device_run [DoConnect \<lparr>cn_id = 1, cn_addr = None, cn_cert = None\<rparr> no_hooks 0] (NewDevice [] [] []))) \<and>
   \<not> dv_done (fst (device_run [DoConnect \<lparr>cn_id = 1, cn_addr = None, cn_cert = None\<rparr> no_hooks 0] (NewDevice [] [] [])))"
  using device_session_invariant [of "[DoConnect \<lparr>cn_id = 1, cn_addr = None, cn_cert = None\<rparr> no_hooks 0]" "[]" "[]" "[]"]
  by (simp add: session_defs NewDevice_def no_hooks_def)

section \<open>Every session is closed exactly once\<close>

definition opened :: "dev_action list \<Rightarrow> nat" where
  "opened acts = length (filter (\<lambda>a. case a of StartLoops _ \<Rightarrow> True | _ \<Rightarrow> False) acts)"

definition closed :: "dev_action list \<Rightarrow> nat" where
  "closed acts = length (filter (\<lambda>a. case a of CloseConn _ \<Rightarrow> True | _ \<Rightarrow> False) acts)"

definition live :: "device \<Rightarrow> nat" where
  "live d = (if IsConnected d then 1 else 0)"

lemma count_simps [simp]:
  "opened [] = 0" "closed [] = 0"
  "opened (a @ b) = opened a + opened b" "closed (a @ b) = closed a + closed b"
  "opened (StartLoops c # a) = Suc (opened a)" "closed (StartLoops c # a) = closed a"
  "opened (CloseConn c # a) = opened a" "closed (CloseConn c # a) = Suc (closed a)"
  "opened (PublishEvent e j # a) = opened a" "closed (PublishEvent e j # a) = closed a"
  "opened (CallOnConnect # a) = opened a" "closed (CallOnConnect # a) = closed a"
  "opened (CallOnDisconnect # a) = opened a" "closed (CallOnDisconnect # a) = closed a"
  by (simp_all add: opened_def closed_def)

definition balanced :: "device \<Rightarrow> device \<times> dev_action list \<Rightarrow> bool" where
  "balanced d r \<longleftrightarrow> closed (snd r) + live (fst r) = opened (snd r) + live d"

lemma balanced_Connect: "balanced d (Connect c hk now d)"
  by (simp add: balanced_def session_defs live_def Let_def split: option.splits)

lemma balanced_drop_conn: "dv_conn d = Some c \<Longrightarrow> balanced d (drop_conn c d)"
  by (simp add: balanced_def session_defs live_def Let_def)

lemma live_last_seen [simp]: "live (d\<lparr>dv_last_seen := t\<rparr>) = live d"
  by (simp add: live_def IsConnected_def)

lemma live_tail [simp]: "live (d\<lparr>dv_send := q\<rparr>) = live d"
  by (simp add: live_def IsConnected_def)

lemma balanced_Disconnect: "balanced d (Disconnect now d)"
  using balanced_drop_conn [of "d\<lparr>dv_last_seen := Some now\<rparr>"]
  by (auto simp: Disconnect_def Let_def balanced_def split: option.splits)

lemma balanced_disconnectConn: "balanced d (disconnectConn cid now d)"
  using balanced_drop_conn [of "d\<lparr>dv_last_seen := Some now\<rparr>"]
  by (auto simp: disconnectConn_def balanced_def split: option.splits)

lemma balanced_writer: "balanced d (snd (writer_step r now d))"
proof (cases r now d rule: writer_step_cases)
  case (timeout p q c)
  then show ?thesis
    using balanced_disconnectConn [of "d\<lparr>dv_send := q\<rparr>" "cn_id c" now] by (simp add: balanced_def)
qed (simp_all add: balanced_def)

lemma setter_acts: "is_setter op \<Longrightarrow> opened (snd (device_step op d)) = 0 \<and> closed (snd (device_step op d)) = 0"
  by (cases op) (simp_all add: UpdateBattery_def)

lemma balanced_step: "balanced d (device_step op d)"
proof (cases "is_setter op")
  case True
  then have "dv_conn (fst (device_step op d)) = dv_conn d"
    using setter_session_part [of op d] by (simp add: session_part_def)
  with True show ?thesis
    using setter_acts [of op d] by (simp add: balanced_def live_def IsConnected_def)
next
  case False
  then show ?thesis
    using balanced_Connect balanced_Disconnect balanced_disconnectConn balanced_writer
    by (cases op) (simp_all add: case_prod_beta balanced_def Send_def live_def IsConnected_def)
qed

lemma balanced_run: "balanced d (device_run ops d)"
proof (induction ops arbitrary: d)
  case (Cons op ops)
  show ?case
    using balanced_step [of d op] Cons.IH [of "fst (device_step op d)"]
    by (simp add: balanced_def case_prod_beta)
qed (simp add: balanced_def)

text \<open>
  No connection leaks and none is closed twice: over any run of a device object, the number
  of sessions started equals the number of connections closed, plus one if the device is
  connected at the end.  Superseded, timed-out and explicitly dropped sessions are all counted.
\<close>
theorem sessions_closed_once:
  "opened (snd (device_run ops (NewDevice i n t))) =
     closed (snd (device_run ops (NewDevice i n t))) +
     (if IsConnected (fst (device_run ops (NewDevice i n t))) then 1 else 0)"
  using balanced_run [of "NewDevice i n t" ops]
  by (simp add: balanced_def live_def NewDevice_def IsConnected_def)

section \<open>Superseded sessions\<close>

text \<open>
  The death of a superseded session does not touch its successor: after a new connection
  replaced an old one, the old read loop's exit and an old write timeout change nothing and
  run no callback, while the current session's exit disconnects the device and tells the
  plugins once.
\<close>
theorem superseded_disconnect_ignored:
  assumes "cn_id old \<noteq> cn_id c"
  shows "disconnectConn (cn_id old) now' (fst (Connect c hk now d)) = (fst (Connect c hk now d), []) \<and>
     (let (d', acts) = disconnectConn (cn_id c) now' (fst (Connect c hk now d))
      in \<not> IsConnected d' \<and> dv_done d' \<and>
         (count_list acts CallOnDisconnect = (if hk_disconnect hk then 1 else 0)))"
  using assms by (auto simp: session_defs Let_def split: option.splits)

theorem superseded_disconnect_ignored_witness:
  "disconnectConn 1 9 (fst (Connect \<lparr>cn_id = 2, cn_addr = None, cn_cert = None\<rparr> no_hooks 0 (NewDevice [] [] [])))
     = (fst (Connect \<lparr>cn_id = 2, cn_addr = None, cn_cert = None\<rparr> no_hooks 0 (NewDevice [] [] [])), [])"
  using superseded_disconnect_ignored
    [of "\<lparr>cn_id = 1, cn_addr = None, cn_cert = None\<rparr>" "\<lparr>cn_id = 2, cn_addr = None, cn_cert = None\<rparr>"
      9 no_hooks 0 "NewDevice [] [] []"]
  by simp

section \<open>Packet gates\<close>

text \<open>
  An unpaired peer reaches nothing but pairing.  For a device in any state but \<open>PAIRED\<close>, the
  read loop hands the plugins identity and pair packets only, \<open>Send\<close> queues pair packets only,
  and the writer, which checks the state again when it takes a packet off the queue, writes
  pair packets only, also when the packet was queued while the device was still paired.
\<close>
theorem unpaired_gate:
  assumes "dv_state d \<noteq> StatePaired"
  shows "(read_step r d = DispatchPacket p \<longrightarrow> pk_type p = TypeIdentity \<or> pk_type p = TypePair) \<and>
     (fst (Send p d) = Queued \<longrightarrow> pk_type p = TypePair) \<and>
     (fst (writer_step w now d) = Some p \<longrightarrow> pk_type p = TypePair)"
proof (intro conjI impI)
  assume "fst (writer_step w now d) = Some p"
  then show "pk_type p = TypePair"
    using assms by (cases w now d rule: writer_step_cases) (auto simp: packetAllowed_def)
qed (use assms in \<open>auto simp: read_step_def Send_def packetAllowed_def
       split: sum.splits read_error.splits if_splits\<close>)

theorem unpaired_gate_witness:
  "fst (Send (NewPacket 0 ''kdeconnect.ping'' None)
      ((NewDevice [] [] [])\<lparr>dv_conn := Some \<lparr>cn_id = 1, cn_addr = None, cn_cert = None\<rparr>\<rparr>)) = Dropped"
proof -
  let ?d = "(NewDevice [] [] [])\<lparr>dv_conn := Some \<lparr>cn_id = 1, cn_addr = None, cn_cert = None\<rparr>\<rparr>"
  have "fst (Send (NewPacket 0 ''kdeconnect.ping'' None) ?d) \<noteq> Queued"
    using unpaired_gate [of ?d undefined "NewPacket 0 ''kdeconnect.ping'' None" WriteOk 0]
    by (auto simp: NewDevice_def NewPacket_def TypePair_def)
  then show ?thesis by (cases "fst (Send (NewPacket 0 ''kdeconnect.ping'' None) ?d)") auto
qed

section \<open>Sightings\<close>

text \<open>
  A single sighting never counts as a roam: the device is reported as roamed exactly when
  the same address, different from its last connected one, is sighted twice in a row, so a peer
  announcing from two interfaces alternately never resets the reconnect backoff.
\<close>
theorem roam_needs_two_sightings:
  assumes "b \<noteq> []"
  shows "fst (NoteSighting b (snd (NoteSighting a d))) \<longleftrightarrow>
     ip_equal a b \<and> \<not> ip_equal (dv_last_ip d) b"
  using assms ip_equal_sym [of a b] by (auto simp: NoteSighting_def)

theorem roam_needs_two_sightings_witness:
  "fst (NoteSighting [10, 0, 0, 2] (snd (NoteSighting [10, 0, 0, 2] (NewDevice [] [] [])))) \<and>
   \<not> fst (NoteSighting [10, 0, 0, 2] (snd (NoteSighting [10, 0, 0, 3] (NewDevice [] [] []))))"
  using roam_needs_two_sightings [of "[10, 0, 0, 2]" "[10, 0, 0, 2]" "NewDevice [] [] []"]
    roam_needs_two_sightings [of "[10, 0, 0, 2]" "[10, 0, 0, 3]" "NewDevice [] [] []"]
  by (simp add: NewDevice_def ip_equal_def)

end
