(* ===== verification/KeyedStore.thy ===== *)
theory KeyedStore
  imports KcdPrelude "HOL-Library.AList"
begin

text \<open>
  What the code relies on from its maps keyed by strings (Go's \<open>map\<close> and \<open>sync.Map\<close>): the
  interface as a locale, and association lists as the model.  The order of the list is the
  arbitrary order of \<open>range\<close> and \<open>Range\<close>.
\<close>

lemma find_append_case:
  "find P (xs @ ys) = (case find P xs of None \<Rightarrow> find P ys | Some x \<Rightarrow> Some x)"
  by (induction xs) auto

section \<open>The interface\<close>

locale keyed_store =
  fixes lookup :: "'m \<Rightarrow> 'k \<Rightarrow> 'v option"
    and store :: "'k \<Rightarrow> 'v \<Rightarrow> 'm \<Rightarrow> 'm"
    and delete :: "'k \<Rightarrow> 'm \<Rightarrow> 'm"
    and keys :: "'m \<Rightarrow> 'k list"
    and invar :: "'m \<Rightarrow> bool"
  assumes lookup_store: "lookup (store k v m) = (lookup m)(k \<mapsto> v)"
    and lookup_delete: "lookup (delete k m) = (lookup m)(k := None)"
    and keys_dom: "set (keys m) = dom (lookup m)"
    and keys_distinct: "invar m \<Longrightarrow> distinct (keys m)"
    and invar_store: "invar m \<Longrightarrow> invar (store k v m)"
    and invar_delete: "invar m \<Longrightarrow> invar (delete k m)"
begin

lemma lookup_delete_list:
  "lookup (fold delete ks m) k = (if k \<in> set ks then None else lookup m k)"
  by (induction ks arbitrary: m) (auto simp: lookup_delete)

lemma lookup_store_list:
  "lookup (fold (\<lambda>(k, v). store k v) kvs m) k =
     (case find (\<lambda>(k', v). k' = k) (rev kvs) of None \<Rightarrow> lookup m k | Some (_, v) \<Rightarrow> Some v)"
proof (induction kvs arbitrary: m)
  case (Cons e kvs)
  then show ?case
    by (cases e; cases "find (\<lambda>(k', v). k' = k) (rev kvs)")
      (auto simp: lookup_store find_append_case)
qed simp

lemma invar_delete_list: "invar m \<Longrightarrow> invar (fold delete ks m)"
  by (induction ks arbitrary: m) (auto intro: invar_delete)

lemma keys_store: "set (keys (store k v m)) = insert k (set (keys m))"
  by (auto simp: keys_dom lookup_store split: if_splits)

lemma length_keys_card: "invar m \<Longrightarrow> length (keys m) = card (dom (lookup m))"
  using keys_distinct [of m] keys_dom [of m] by (metis distinct_card)

end

definition map_keys :: "('k \<times> 'v) list \<Rightarrow> 'k list" where
  "map_keys al = map fst al"

definition map_invar :: "('k \<times> 'v) list \<Rightarrow> bool" where
  "map_invar al \<longleftrightarrow> distinct (map fst al)"

interpretation sync_map: keyed_store map_of AList.update AList.delete map_keys map_invar
  by unfold_locales
    (auto simp: update_conv delete_conv map_keys_def map_invar_def dom_map_of_conv_image_fst
      distinct_update intro: distinct_delete)

end
