(* ===== verification/DeviceRegistry.thy ===== *)
theory DeviceRegistry
  imports DeviceProps KeyedStore
begin

text \<open>
  \<open>internal/device/registry.go\<close>, \<open>registry_persistence.go\<close> and the device file of
  \<open>state.go\<close>.  Device objects live in a heap and are named by references, as the Go code holds
  pointers to them; the registry maps an identifier to a reference.  Its \<open>sync.Map\<close> is an
  association list whose order is the (arbitrary) order of \<open>Range\<close>.

  The textual forms of times and addresses are parameters: \<open>fmt_time\<close> and \<open>parse_time\<close> for
  \<open>time.Time\<close>, \<open>ip_string\<close> and \<open>parse_ip\<close> for \<open>net.IP\<close>.
\<close>

section \<open>The registry\<close>

record registry =
  rg_entries :: "(string \<times> nat) list"
  rg_heap :: "nat \<Rightarrow> device"
  rg_next :: nat
  rg_has_bus :: bool

type_synonym publication = "event_type \<times> string \<times> payload"

definition NewRegistry :: "bool \<Rightarrow> registry" where
  "NewRegistry has_bus =
     \<lparr>rg_entries = [], rg_heap = (\<lambda>_. NewDevice [] [] []), rg_next = 0, rg_has_bus = has_bus\<rparr>"

text \<open>Reading, updating and allocating an object.\<close>

definition dev_at :: "registry \<Rightarrow> nat \<Rightarrow> device" where
  "dev_at rg r = rg_heap rg r"

definition upd_dev :: "nat \<Rightarrow> (device \<Rightarrow> device) \<Rightarrow> registry \<Rightarrow> registry" where
  "upd_dev r f rg = rg\<lparr>rg_heap := (rg_heap rg)(r := f (rg_heap rg r))\<rparr>"

definition alloc_dev :: "device \<Rightarrow> registry \<Rightarrow> nat \<times> registry" where
  "alloc_dev d rg =
     (rg_next rg, rg\<lparr>rg_heap := (rg_heap rg)(rg_next rg := d), rg_next := Suc (rg_next rg)\<rparr>)"

definition Info :: "(ip \<Rightarrow> string) \<Rightarrow> device \<Rightarrow> device_info" where
  "Info ip_string d =
     \<lparr>di_id = dv_id d, di_name = dv_name d, di_type = dv_type d, di_state = dv_state d,
      di_cert_fp = dv_cert_fp d, di_last_seen = dv_last_seen d, di_connected = IsConnected d,
      di_last_ip = (if dv_last_ip d \<noteq> [] then ip_string (dv_last_ip d) else []),
      di_last_port = dv_last_port d\<rparr>"

definition reg_Add :: "(ip \<Rightarrow> string) \<Rightarrow> nat \<Rightarrow> registry \<Rightarrow> registry \<times> publication list" where
  "reg_Add ip_string r rg =
     (let rg = upd_dev r (SetBus (rg_has_bus rg)) rg;
          d = dev_at rg r;
          rg = rg\<lparr>rg_entries := AList.update (dv_id d) r (rg_entries rg)\<rparr>
      in (rg, if rg_has_bus rg then [(TypeDeviceAdded, dv_id d, InfoOf (Info ip_string d))] else []))"

definition reg_Remove :: "string \<Rightarrow> registry \<Rightarrow> registry \<times> publication list" where
  "reg_Remove i rg =
     (rg\<lparr>rg_entries := AList.delete i (rg_entries rg)\<rparr>,
      if rg_has_bus rg then [(TypeDeviceRemoved, i, NoPayload)] else [])"

definition reg_Get :: "string \<Rightarrow> registry \<Rightarrow> nat option" where
  "reg_Get i rg = map_of (rg_entries rg) i"

definition reg_List :: "registry \<Rightarrow> nat list" where
  "reg_List rg = map snd (rg_entries rg)"

definition reg_Connected :: "registry \<Rightarrow> nat list" where
  "reg_Connected rg = filter (\<lambda>r. IsConnected (dev_at rg r)) (reg_List rg)"

text \<open>The callback of \<open>Range\<close> returns false to stop early.\<close>

fun all_paired_loop :: "device list \<Rightarrow> bool \<Rightarrow> bool \<Rightarrow> bool \<times> bool" where
  "all_paired_loop [] hasPaired allConnected = (hasPaired, allConnected)"
| "all_paired_loop (d # ds) hasPaired allConnected =
     (if dv_state d = StatePaired
      then (if \<not> IsConnected d then (True, False) else all_paired_loop ds True allConnected)
      else all_paired_loop ds hasPaired allConnected)"

definition AllPairedDevicesConnected :: "registry \<Rightarrow> bool" where
  "AllPairedDevicesConnected rg =
     (let (hasPaired, allConnected) = all_paired_loop (map (dev_at rg) (reg_List rg)) False True
      in hasPaired \<and> allConnected)"

definition stale :: "duration \<Rightarrow> int \<Rightarrow> device \<Rightarrow> bool" where
  "stale threshold now d \<longleftrightarrow>
     \<not> (dv_state d = StatePaired \<or> IsConnected d) \<and>
     (dv_last_seen d = None \<or> time_since now (dv_last_seen d) > threshold)"

fun prune_loop :: "duration \<Rightarrow> int \<Rightarrow> (string \<times> nat) list \<Rightarrow> registry \<Rightarrow> nat \<Rightarrow> nat \<times> registry" where
  "prune_loop threshold now [] rg pruned = (pruned, rg)"
| "prune_loop threshold now ((k, r) # es) rg pruned =
     (if stale threshold now (dev_at rg r)
      then prune_loop threshold now es (rg\<lparr>rg_entries := AList.delete k (rg_entries rg)\<rparr>) (Suc pruned)
      else prune_loop threshold now es rg pruned)"

definition Prune :: "duration \<Rightarrow> int \<Rightarrow> registry \<Rightarrow> nat \<times> registry" where
  "Prune threshold now rg =
     (if threshold \<le> 0 then (0, rg) else prune_loop threshold now (rg_entries rg) rg 0)"

section \<open>The dial target of a stored device\<close>

definition DialTarget :: "(string \<Rightarrow> ip) \<Rightarrow> device_info \<Rightarrow> ip \<times> int" where
  "DialTarget parse_ip info =
     (let a = parse_ip (di_last_ip info)
      in if a = [] then ([], 0)
         else if di_last_port info \<le> 0 \<or> di_last_port info > 65535 then (a, 0)
         else (a, di_last_port info))"

section \<open>Saving and loading\<close>

text \<open>The JSON form of a \<open>DeviceInfo\<close>.\<close>

definition zero_info :: device_info where
  "zero_info =
     \<lparr>di_id = [], di_name = [], di_type = [], di_state = StateUnknown, di_cert_fp = [],
      di_last_seen = None, di_connected = False, di_last_ip = [], di_last_port = 0\<rparr>"

definition enc_info :: "(gtime \<Rightarrow> string) \<Rightarrow> device_info \<Rightarrow> json" where
  "enc_info fmt_time i =
     JObj ([(''id'', JStr (di_id i)), (''name'', JStr (di_name i)), (''type'', JStr (di_type i)),
            (''state'', state_MarshalJSON (di_state i)), (''cert_fp'', JStr (di_cert_fp i)),
            (''last_seen'', JStr (fmt_time (di_last_seen i))),
            (''connected'', JBool (di_connected i))]
       @ (if di_last_ip i = [] then [] else [(''last_ip'', JStr (di_last_ip i))])
       @ (if di_last_port i = 0 then [] else [(''last_port'', enc_int (di_last_port i))]))"

definition dec_time :: "(string \<Rightarrow> gtime option) \<Rightarrow> json \<Rightarrow> gtime \<Rightarrow> gtime option" where
  "dec_time parse_time j old =
     (case j of JNull \<Rightarrow> Some old | JStr s \<Rightarrow> parse_time s | _ \<Rightarrow> None)"

definition info_field ::
  "(string \<Rightarrow> gtime option) \<Rightarrow> string \<Rightarrow> json \<Rightarrow> device_info \<Rightarrow> device_info option" where
  "info_field parse_time k v b =
     (if key_matches ''id'' k then map_option (\<lambda>x. b\<lparr>di_id := x\<rparr>) (dec_str v (di_id b))
      else if key_matches ''name'' k then map_option (\<lambda>x. b\<lparr>di_name := x\<rparr>) (dec_str v (di_name b))
      else if key_matches ''type'' k then map_option (\<lambda>x. b\<lparr>di_type := x\<rparr>) (dec_str v (di_type b))
      else if key_matches ''state'' k
      then map_option (\<lambda>x. b\<lparr>di_state := x\<rparr>) (state_UnmarshalJSON v)
      else if key_matches ''cert_fp'' k
      then map_option (\<lambda>x. b\<lparr>di_cert_fp := x\<rparr>) (dec_str v (di_cert_fp b))
      else if key_matches ''last_seen'' k
      then map_option (\<lambda>x. b\<lparr>di_last_seen := x\<rparr>) (dec_time parse_time v (di_last_seen b))
      else if key_matches ''connected'' k
      then map_option (\<lambda>x. b\<lparr>di_connected := x\<rparr>) (dec_bool v (di_connected b))
      else if key_matches ''last_ip'' k
      then map_option (\<lambda>x. b\<lparr>di_last_ip := x\<rparr>) (dec_str v (di_last_ip b))
      else if key_matches ''last_port'' k
      then map_option (\<lambda>x. b\<lparr>di_last_port := x\<rparr>) (dec_int v (di_last_port b))
      else Some b)"

definition dec_info :: "(string \<Rightarrow> gtime option) \<Rightarrow> json \<Rightarrow> device_info option" where
  "dec_info parse_time j = dec_struct (info_field parse_time) j zero_info"

fun dec_infos :: "(string \<Rightarrow> gtime option) \<Rightarrow> json list \<Rightarrow> device_info list option" where
  "dec_infos parse_time [] = Some []"
| "dec_infos parse_time (j # js) =
     (case (dec_info parse_time j, dec_infos parse_time js) of
        (Some i, Some is) \<Rightarrow> Some (i # is)
      | _ \<Rightarrow> None)"

text \<open>The device file: absent, or a JSON document (\<open>None\<close> inside for a text that is not JSON).\<close>

type_synonym state_file = "json option option"

datatype load_error = ParseFailed

definition LoadDevices :: "(string \<Rightarrow> gtime option) \<Rightarrow> state_file \<Rightarrow> load_error + device_info list" where
  "LoadDevices parse_time f =
     (case f of
        None \<Rightarrow> Inr []
      | Some None \<Rightarrow> Inl ParseFailed
      | Some (Some JNull) \<Rightarrow> Inr []
      | Some (Some (JArr js)) \<Rightarrow>
          (case dec_infos parse_time js of None \<Rightarrow> Inl ParseFailed | Some is \<Rightarrow> Inr is)
      | Some (Some _) \<Rightarrow> Inl ParseFailed)"

definition saved_infos :: "(ip \<Rightarrow> string) \<Rightarrow> registry \<Rightarrow> device_info list" where
  "saved_infos ip_string rg = map (\<lambda>r. Info ip_string (dev_at rg r)) (reg_List rg)"

definition saved_document :: "(gtime \<Rightarrow> string) \<Rightarrow> (ip \<Rightarrow> string) \<Rightarrow> registry \<Rightarrow> json" where
  "saved_document fmt_time ip_string rg = JArr (map (enc_info fmt_time) (saved_infos ip_string rg))"

text \<open>One stored device, as \<open>Load\<close> turns it into an object.\<close>

definition restored_state :: "pairing_state \<Rightarrow> pairing_state" where
  "restored_state s =
     (if s = StateUnknown \<or> s = StatePairRequested \<or> s = StatePairRequestedByPeer
      then StateUnpaired else s)"

definition restore_device :: "(string \<Rightarrow> ip) \<Rightarrow> device_info \<Rightarrow> device" where
  "restore_device parse_ip info =
     (let d = NewDevice (di_id info) (SanitizeDeviceName (di_name info)) (di_type info);
          d = SetState (restored_state (di_state info)) d;
          d = d\<lparr>dv_cert_fp := di_cert_fp info\<rparr>;
          d = SetLastSeen (di_last_seen info) d;
          (a, port) = DialTarget parse_ip info
      in if a \<noteq> [] then SetLastPort port (SetLastIP a d) else d)"

fun load_infos ::
  "(string \<Rightarrow> ip) \<Rightarrow> (ip \<Rightarrow> string) \<Rightarrow> device_info list \<Rightarrow> registry \<Rightarrow> registry \<times> publication list" where
  "load_infos parse_ip ip_string [] rg = (rg, [])"
| "load_infos parse_ip ip_string (i # is) rg =
     (let (r, rg) = alloc_dev (restore_device parse_ip i) rg;
          (rg, pubs) = reg_Add ip_string r rg;
          (rg, pubs') = load_infos parse_ip ip_string is rg
      in (rg, pubs @ pubs'))"

definition reg_Load ::
  "(string \<Rightarrow> gtime option) \<Rightarrow> (string \<Rightarrow> ip) \<Rightarrow> (ip \<Rightarrow> string) \<Rightarrow> state_file \<Rightarrow> registry
     \<Rightarrow> load_error + (registry \<times> publication list)" where
  "reg_Load parse_time parse_ip ip_string f rg =
     (case LoadDevices parse_time f of
        Inl e \<Rightarrow> Inl e
      | Inr is \<Rightarrow> Inr (load_infos parse_ip ip_string is rg))"

section \<open>The crash-safe write\<close>

text \<open>
  \<open>SaveDevices\<close> as a sequence of file system calls.  The directory holds the device file and
  the temporary files; contents are abstract.  A fault says at which call the sequence stops:
  the call fails and the function returns its error (\<open>Fail\<close>), or the process dies during or
  right after the call (\<open>Crash\<close>).  A failing or interrupted write leaves a prefix of the data,
  whose length is the argument \<open>n\<close>.
\<close>

datatype save_call =
    SaveMkdir | SaveMarshal | SaveCreateTemp | SaveWrite | SaveSync | SaveClose | SaveRename
  | SaveOpenDir | SaveSyncDir

definition save_calls :: "save_call list" where
  "save_calls = [SaveMkdir, SaveMarshal, SaveCreateTemp, SaveWrite, SaveSync, SaveClose, SaveRename,
     SaveOpenDir, SaveSyncDir]"

datatype fault = NoFault | Fail save_call | Crash save_call

record dir_state =
  ds_file :: "string option"
  ds_temp :: "string option"

text \<open>A call that succeeds, and one that fails, on the directory.\<close>

fun do_call :: "string \<Rightarrow> save_call \<Rightarrow> dir_state \<Rightarrow> dir_state" where
  "do_call data SaveCreateTemp s = s\<lparr>ds_temp := Some []\<rparr>"
| "do_call data SaveWrite s = s\<lparr>ds_temp := Some data\<rparr>"
| "do_call data SaveRename s = s\<lparr>ds_file := ds_temp s, ds_temp := None\<rparr>"
| "do_call data _ s = s"

fun fail_call :: "string \<Rightarrow> nat \<Rightarrow> save_call \<Rightarrow> dir_state \<Rightarrow> dir_state" where
  "fail_call data n SaveWrite s = s\<lparr>ds_temp := Some (take n data)\<rparr>"
| "fail_call data n _ s = s"

text \<open>The deferred \<open>os.Remove\<close> of the temporary file runs on return, once it was created.\<close>

definition remove_temp :: "dir_state \<Rightarrow> dir_state" where
  "remove_temp s = s\<lparr>ds_temp := None\<rparr>"

datatype save_outcome = Saved | SaveFailed save_call | Died

fun run_calls :: "string \<Rightarrow> nat \<Rightarrow> fault \<Rightarrow> save_call list \<Rightarrow> dir_state \<Rightarrow> save_outcome \<times> dir_state" where
  "run_calls data n f [] s = (Saved, remove_temp s)"
| "run_calls data n f (c # cs) s =
     (if f = Fail c then (SaveFailed c, remove_temp (fail_call data n c s))
      else if f = Crash c then (Died, if c = SaveWrite then fail_call data n c s else do_call data c s)
      else run_calls data n f cs (do_call data c s))"

definition SaveDevices :: "string \<Rightarrow> nat \<Rightarrow> fault \<Rightarrow> dir_state \<Rightarrow> save_outcome \<times> dir_state" where
  "SaveDevices data n f s = run_calls data n f save_calls s"

section \<open>Facts\<close>

lemma upd_dev_simps [simp]:
  "rg_entries (upd_dev r f rg) = rg_entries rg" "rg_next (upd_dev r f rg) = rg_next rg"
  "rg_has_bus (upd_dev r f rg) = rg_has_bus rg"
  "dev_at (upd_dev r f rg) q = (if q = r then f (dev_at rg r) else dev_at rg q)"
  by (simp_all add: upd_dev_def dev_at_def)

lemma reg_Get_upd_dev [simp]: "reg_Get i (upd_dev r f rg) = reg_Get i rg"
  by (simp add: reg_Get_def)

lemma all_paired_loop_eq:
  "(let (p, a) = all_paired_loop ds h True in p \<and> a) \<longleftrightarrow>
     (h \<or> (\<exists>d \<in> set ds. dv_state d = StatePaired)) \<and>
     (\<forall>d \<in> set ds. dv_state d = StatePaired \<longrightarrow> IsConnected d)"
  by (induction ds arbitrary: h) auto

text \<open>
  The daemon counts everything as connected exactly when at least one paired device is
  known and every paired device has a live session, whatever the order in which the registry
  is traversed.
\<close>
theorem all_paired_connected_iff:
  "AllPairedDevicesConnected rg \<longleftrightarrow>
     (\<exists>r \<in> set (reg_List rg). dv_state (dev_at rg r) = StatePaired) \<and>
     (\<forall>r \<in> set (reg_List rg). dv_state (dev_at rg r) = StatePaired \<longrightarrow> IsConnected (dev_at rg r))"
  unfolding AllPairedDevicesConnected_def all_paired_loop_eq by auto

theorem all_paired_connected_iff_witness: "\<not> AllPairedDevicesConnected (NewRegistry True)"
  using all_paired_connected_iff [of "NewRegistry True"] by (simp add: reg_List_def NewRegistry_def)

lemma prune_loop_eq:
  "prune_loop t now es rg n =
     (n + length (filter (\<lambda>(k, r). stale t now (dev_at rg r)) es),
      rg\<lparr>rg_entries := fold AList.delete
            (map fst (filter (\<lambda>(k, r). stale t now (dev_at rg r)) es)) (rg_entries rg)\<rparr>)"
proof (induction es arbitrary: rg n)
  case (Cons e es)
  obtain k r where e: "e = (k, r)" by force
  have [simp]: "dev_at (rg\<lparr>rg_entries := x\<rparr>) q = dev_at rg q" for x q by (simp add: dev_at_def)
  show ?case by (simp add: e Cons.IH)
qed simp

lemma map_of_distinct_stale:
  assumes "distinct (map fst al)"
  shows "k \<in> set (map fst (filter (\<lambda>(k, r). P r) al)) \<longleftrightarrow> (\<exists>r. map_of al k = Some r \<and> P r)"
proof -
  have "k \<in> set (map fst (filter (\<lambda>(k, r). P r) al)) \<longleftrightarrow> (\<exists>r. (k, r) \<in> set al \<and> P r)" by force
  then show ?thesis using assms by (metis map_of_eq_Some_iff)
qed

text \<open>
  Pruning removes exactly the stale devices: afterwards an identifier resolves as before
  unless its device is neither paired nor connected and was never seen or not seen for longer
  than the threshold; a paired or connected device is never removed, the count is right, and a
  threshold of zero or less disables pruning.
\<close>
theorem prune_removes_stale:
  assumes "map_invar (rg_entries rg)"
  shows "reg_Get i (snd (Prune threshold now rg)) =
      (case reg_Get i rg of
         None \<Rightarrow> None
       | Some r \<Rightarrow> if threshold > 0 \<and> stale threshold now (dev_at rg r) then None else Some r) \<and>
     fst (Prune threshold now rg) =
       (if threshold > 0 then length (filter (\<lambda>r. stale threshold now (dev_at rg r)) (reg_List rg)) else 0) \<and>
     rg_heap (snd (Prune threshold now rg)) = rg_heap rg"
proof (cases "threshold \<le> 0")
  case True
  then show ?thesis by (simp add: Prune_def split: option.splits)
next
  case False
  let ?P = "\<lambda>r. stale threshold now (dev_at rg r)"
  let ?ks = "map fst (filter (\<lambda>(k, r). ?P r) (rg_entries rg))"
  have len: "length (filter (\<lambda>(k, r). ?P r) al) = length (filter ?P (map snd al))" for al :: "(string \<times> nat) list"
    by (induction al) auto
  have pr: "Prune threshold now rg =
      (length (filter ?P (reg_List rg)), rg\<lparr>rg_entries := fold AList.delete ?ks (rg_entries rg)\<rparr>)"
    using False by (simp add: Prune_def prune_loop_eq len reg_List_def)
  have "reg_Get i (snd (Prune threshold now rg)) = (if i \<in> set ?ks then None else reg_Get i rg)"
    using sync_map.lookup_delete_list [of ?ks "rg_entries rg" i] by (simp add: pr reg_Get_def)
  also have "\<dots> = (case reg_Get i rg of None \<Rightarrow> None | Some r \<Rightarrow> if ?P r then None else Some r)"
    using map_of_distinct_stale [OF assms [unfolded map_invar_def], of i ?P]
    by (cases "reg_Get i rg") (simp_all add: reg_Get_def)
  finally show ?thesis using False by (simp add: pr split: option.splits)
qed

theorem prune_removes_stale_witness:
  "let rg = fst (reg_Add (\<lambda>_. []) 0 (snd (alloc_dev (NewDevice ''a'' [] []) (NewRegistry False))))
   in reg_Get ''a'' rg = Some 0 \<and> reg_Get ''a'' (snd (Prune 5 100 rg)) = None"
proof -
  let ?rg = "fst (reg_Add (\<lambda>_. []) 0 (snd (alloc_dev (NewDevice ''a'' [] []) (NewRegistry False))))"
  have e: "rg_entries ?rg = [(''a'', 0)]" "dev_at ?rg 0 = NewDevice ''a'' [] []"
    by (simp_all add: reg_Add_def alloc_dev_def upd_dev_def dev_at_def NewRegistry_def NewDevice_def
        SetBus_def Let_def)
  then have "reg_Get ''a'' ?rg = Some 0" "stale 5 100 (dev_at ?rg 0)"
    by (simp_all add: reg_Get_def stale_def NewDevice_def IsConnected_def)
  then show ?thesis
    using prune_removes_stale [of ?rg "''a''" 5 100] e by (simp add: map_invar_def Let_def)
qed

section \<open>Restart\<close>

lemma info_field_known:
  "info_field pt ''id'' v b = map_option (\<lambda>x. b\<lparr>di_id := x\<rparr>) (dec_str v (di_id b))"
  "info_field pt ''name'' v b = map_option (\<lambda>x. b\<lparr>di_name := x\<rparr>) (dec_str v (di_name b))"
  "info_field pt ''type'' v b = map_option (\<lambda>x. b\<lparr>di_type := x\<rparr>) (dec_str v (di_type b))"
  "info_field pt ''state'' v b = map_option (\<lambda>x. b\<lparr>di_state := x\<rparr>) (state_UnmarshalJSON v)"
  "info_field pt ''cert_fp'' v b = map_option (\<lambda>x. b\<lparr>di_cert_fp := x\<rparr>) (dec_str v (di_cert_fp b))"
  "info_field pt ''last_seen'' v b = map_option (\<lambda>x. b\<lparr>di_last_seen := x\<rparr>) (dec_time pt v (di_last_seen b))"
  "info_field pt ''connected'' v b = map_option (\<lambda>x. b\<lparr>di_connected := x\<rparr>) (dec_bool v (di_connected b))"
  "info_field pt ''last_ip'' v b = map_option (\<lambda>x. b\<lparr>di_last_ip := x\<rparr>) (dec_str v (di_last_ip b))"
  "info_field pt ''last_port'' v b = map_option (\<lambda>x. b\<lparr>di_last_port := x\<rparr>) (dec_int v (di_last_port b))"
  by (simp_all add: info_field_def identity_keys)

text \<open>A stored state outside the five known ones is written as \<open>INVALID\<close> and read as unknown.\<close>

definition file_state :: "pairing_state \<Rightarrow> pairing_state" where
  "file_state s = (case s of StateOther _ \<Rightarrow> StateUnknown | _ \<Rightarrow> s)"

lemma state_file_roundtrip: "state_UnmarshalJSON (state_MarshalJSON s) = Some (file_state s)"
  by (cases s)
    (simp_all add: state_UnmarshalJSON_def state_MarshalJSON_def state_of_name_def file_state_def)

lemma dec_enc_info:
  assumes "parse_time (fmt_time (di_last_seen i)) = Some (di_last_seen i)" "in_int64 (di_last_port i)"
  shows "dec_info parse_time (enc_info fmt_time i) = Some (i\<lparr>di_state := file_state (di_state i)\<rparr>)"
  using assms
  by (simp add: dec_info_def enc_info_def info_field_known zero_info_def state_file_roundtrip dec_time_def)

lemma dec_enc_infos:
  assumes "\<forall>i \<in> set is. parse_time (fmt_time (di_last_seen i)) = Some (di_last_seen i) \<and> in_int64 (di_last_port i)"
  shows "dec_infos parse_time (map (enc_info fmt_time) is) =
     Some (map (\<lambda>i. i\<lparr>di_state := file_state (di_state i)\<rparr>) is)"
  using assms by (induction "is") (simp_all add: dec_enc_info)

lemma dial_address_keeps:
  "dv_id (SetLastPort q (SetLastIP a d)) = dv_id d" "dv_type (SetLastPort q (SetLastIP a d)) = dv_type d"
  "dv_name (SetLastPort q (SetLastIP a d)) = dv_name d"
  "dv_cert_fp (SetLastPort q (SetLastIP a d)) = dv_cert_fp d"
  "dv_last_seen (SetLastPort q (SetLastIP a d)) = dv_last_seen d"
  "dv_state (SetLastPort q (SetLastIP a d)) = dv_state d"
  by (simp_all add: device_setters)

lemma state_setters [simp]:
  "dv_id (SetState s d) = dv_id d" "dv_type (SetState s d) = dv_type d"
  "dv_name (SetState s d) = dv_name d" "dv_state (SetState s d) = s"
  by (simp_all add: device_setters Let_def)

lemma restore_device_simps [simp]:
  "dv_id (restore_device p i) = di_id i"
  "dv_type (restore_device p i) = di_type i"
  "dv_name (restore_device p i) = SanitizeDeviceName (di_name i)"
  "dv_cert_fp (restore_device p i) = di_cert_fp i"
  "dv_last_seen (restore_device p i) = di_last_seen i"
  "dv_state (restore_device p i) = restored_state (di_state i)"
  by (cases "DialTarget p i";
      simp add: restore_device_def Let_def dial_address_keeps SetLastSeen_def NewDevice_def)+

text \<open>Loading allocates one object per entry and leaves older objects alone.\<close>

lemma load_one:
  "dev_at (fst (reg_Add f (rg_next rg) (snd (alloc_dev d rg)))) q =
     (if q = rg_next rg then SetBus (rg_has_bus rg) d else dev_at rg q)"
  "reg_Get k (fst (reg_Add f (rg_next rg) (snd (alloc_dev d rg)))) =
     (if k = dv_id d then Some (rg_next rg) else reg_Get k rg)"
  "rg_next (fst (reg_Add f (rg_next rg) (snd (alloc_dev d rg)))) = Suc (rg_next rg)"
  "rg_has_bus (fst (reg_Add f (rg_next rg) (snd (alloc_dev d rg)))) = rg_has_bus rg"
  by (simp_all add: reg_Add_def alloc_dev_def Let_def dev_at_def upd_dev_def reg_Get_def update_conv
      SetBus_def)

lemma load_infos_Cons:
  "fst (load_infos p f (i # is) rg) =
     fst (load_infos p f is (fst (reg_Add f (rg_next rg) (snd (alloc_dev (restore_device p i) rg)))))"
  by (simp add: case_prod_beta) (simp add: alloc_dev_def)

lemma load_infos_other:
  "(q < rg_next rg \<longrightarrow> dev_at (fst (load_infos p f is rg)) q = dev_at rg q) \<and>
   (k \<notin> di_id ` set is \<longrightarrow> reg_Get k (fst (load_infos p f is rg)) = reg_Get k rg)"
proof (induction "is" arbitrary: rg)
  case (Cons i "is")
  show ?case
    using Cons.IH [of "fst (reg_Add f (rg_next rg) (snd (alloc_dev (restore_device p i) rg)))"]
    unfolding load_infos_Cons by (auto simp: load_one)
qed simp

lemma load_infos_each:
  assumes "distinct (map di_id is)" "i \<in> set is"
  shows "\<exists>r. reg_Get (di_id i) (fst (load_infos p f is rg)) = Some r \<and>
     dev_at (fst (load_infos p f is rg)) r = SetBus (rg_has_bus rg) (restore_device p i)"
  using assms
proof (induction "is" arbitrary: rg)
  case (Cons j "is")
  let ?rg = "fst (reg_Add f (rg_next rg) (snd (alloc_dev (restore_device p j) rg)))"
  show ?case
  proof (cases "i = j")
    case True
    then have "reg_Get (di_id i) (fst (load_infos p f is ?rg)) = Some (rg_next rg)"
      using Cons.prems(1) load_infos_other [of _ ?rg p f "is" "di_id i"] by (auto simp: load_one)
    moreover have "dev_at (fst (load_infos p f is ?rg)) (rg_next rg) =
        SetBus (rg_has_bus rg) (restore_device p i)"
      using load_infos_other [of "rg_next rg" ?rg p f "is"] True by (simp add: load_one)
    ultimately show ?thesis unfolding load_infos_Cons by blast
  next
    case False
    then show ?thesis
      using Cons.IH [of ?rg] Cons.prems unfolding load_infos_Cons by (simp add: load_one)
  qed
qed simp

text \<open>
  The registry is well formed when every identifier resolves to an object that carries it and
  the keys are distinct.
\<close>

definition registry_ok :: "registry \<Rightarrow> bool" where
  "registry_ok rg \<longleftrightarrow>
     map_invar (rg_entries rg) \<and>
     (\<forall>k r. (k, r) \<in> set (rg_entries rg) \<longrightarrow> dv_id (dev_at rg r) = k \<and> r < rg_next rg)"

text \<open>
  C11. A restart keeps every pairing and forgets every request.  Loading the file that \<open>Save\<close>
  wrote gives each known identifier an object with the same type, pinned certificate and last
  sighting and the sanitised name; a device in one of the two pending states, or in no known
  state, comes back as unpaired, and a paired one as paired.
\<close>
theorem save_load_restart:
  assumes "registry_ok rg" and "reg_Get k rg = Some r"
    and "\<forall>q \<in> set (reg_List rg). in_int64 (dv_last_port (dev_at rg q)) \<and>
      parse_time (fmt_time (dv_last_seen (dev_at rg q))) = Some (dv_last_seen (dev_at rg q))"
  shows "\<exists>rg' pubs r' d'.
     reg_Load parse_time parse_ip ip_string
       (Some (Some (saved_document fmt_time ip_string rg))) (NewRegistry has_bus) = Inr (rg', pubs) \<and>
     reg_Get k rg' = Some r' \<and> dev_at rg' r' = d' \<and>
     dv_id d' = k \<and> dv_type d' = dv_type (dev_at rg r) \<and>
     dv_name d' = SanitizeDeviceName (dv_name (dev_at rg r)) \<and>
     dv_cert_fp d' = dv_cert_fp (dev_at rg r) \<and>
     dv_last_seen d' = dv_last_seen (dev_at rg r) \<and>
     dv_state d' = (if dv_state (dev_at rg r) = StatePaired then StatePaired else StateUnpaired)"
proof -
  let ?g = "\<lambda>i. i\<lparr>di_state := file_state (di_state i)\<rparr>"
  let ?is = "map ?g (saved_infos ip_string rg)"
  let ?i = "?g (Info ip_string (dev_at rg r))"
  have dec: "LoadDevices parse_time (Some (Some (saved_document fmt_time ip_string rg))) = Inr ?is"
    using dec_enc_infos [of "saved_infos ip_string rg" parse_time fmt_time] assms(3)
    by (auto simp: LoadDevices_def saved_document_def saved_infos_def Info_def)
  have ids: "map di_id ?is = map fst (rg_entries rg)"
    using assms(1) by (auto simp: saved_infos_def Info_def registry_ok_def reg_List_def)
  have mem: "(k, r) \<in> set (rg_entries rg)" using assms(2) by (simp add: reg_Get_def map_of_SomeD)
  then have "?i \<in> set ?is" by (force simp: saved_infos_def reg_List_def)
  moreover have "distinct (map di_id ?is)"
    unfolding ids using assms(1) by (simp add: registry_ok_def map_invar_def)
  moreover have idk: "di_id ?i = k" using assms(1) mem by (auto simp: registry_ok_def Info_def)
  ultimately obtain r' where r': "reg_Get k (fst (load_infos parse_ip ip_string ?is (NewRegistry has_bus))) = Some r'"
    "dev_at (fst (load_infos parse_ip ip_string ?is (NewRegistry has_bus))) r' =
       SetBus (rg_has_bus (NewRegistry has_bus)) (restore_device parse_ip ?i)"
    using load_infos_each [of ?is ?i parse_ip ip_string "NewRegistry has_bus"] by auto
  let ?L = "load_infos parse_ip ip_string ?is (NewRegistry has_bus)"
  let ?d = "SetBus (rg_has_bus (NewRegistry has_bus)) (restore_device parse_ip ?i)"
  have "reg_Load parse_time parse_ip ip_string (Some (Some (saved_document fmt_time ip_string rg)))
      (NewRegistry has_bus) = Inr (fst ?L, snd ?L)"
    unfolding reg_Load_def dec by simp
  moreover have "dv_id ?d = k" using idk by (simp add: SetBus_def)
  moreover have "dv_type ?d = dv_type (dev_at rg r)" "dv_cert_fp ?d = dv_cert_fp (dev_at rg r)"
    "dv_name ?d = SanitizeDeviceName (dv_name (dev_at rg r))"
    "dv_last_seen ?d = dv_last_seen (dev_at rg r)"
    "dv_state ?d = restored_state (file_state (dv_state (dev_at rg r)))"
    by (simp_all add: SetBus_def Info_def)
  moreover have "restored_state (file_state s) = (if s = StatePaired then StatePaired else StateUnpaired)" for s
    by (cases s) (simp_all add: restored_state_def file_state_def)
  ultimately show ?thesis
    using r' by (intro exI [of _ "fst ?L"] exI [of _ "snd ?L"] exI [of _ r'] exI [of _ ?d]) simp
qed

theorem save_load_restart_witness:
  "let rg = fst (reg_Add (\<lambda>_. []) 0 (snd (alloc_dev (SetState StatePairRequested (NewDevice ''a'' ''n'' [])) (NewRegistry False))))
   in \<exists>rg' pubs r'.
     reg_Load (\<lambda>_. Some None) (\<lambda>_. []) (\<lambda>_. [])
       (Some (Some (saved_document (\<lambda>_. ''0001-01-01T00:00:00Z'') (\<lambda>_. []) rg))) (NewRegistry True) = Inr (rg', pubs) \<and>
     reg_Get ''a'' rg' = Some r' \<and> dv_state (dev_at rg' r') = StateUnpaired"
proof -
  let ?rg = "fst (reg_Add (\<lambda>_. []) 0 (snd (alloc_dev (SetState StatePairRequested (NewDevice ''a'' ''n'' [])) (NewRegistry False))))"
  have e: "rg_entries ?rg = [(''a'', 0)]" "rg_next ?rg = 1" "dv_id (dev_at ?rg 0) = ''a''"
    "dv_last_seen (dev_at ?rg 0) = None" "dv_last_port (dev_at ?rg 0) = 0"
    "dv_state (dev_at ?rg 0) = StatePairRequested"
    by (simp_all add: reg_Add_def alloc_dev_def upd_dev_def dev_at_def NewRegistry_def NewDevice_def
        SetBus_def SetState_def Let_def)
  show ?thesis
    using save_load_restart [of ?rg "''a''" 0 "\<lambda>_. Some None" "\<lambda>_. ''0001-01-01T00:00:00Z''"
        "\<lambda>_. []" "\<lambda>_. []" True] e
    by (simp add: Let_def registry_ok_def map_invar_def reg_Get_def reg_List_def in_int64_def
        max_int64_def min_int64_def) blast
qed

section \<open>Crash safety\<close>

text \<open>
  C10. A crash or an error while saving leaves the old device list or the new one, never a
  truncated file: whatever call fails or is interrupted, however much of the temporary file was
  written, the device file holds its old content or all of the new data; success means the new
  data, and every return (as opposed to a crash) removes the temporary file.
\<close>
theorem save_devices_atomic:
  "(ds_file (snd (SaveDevices data n f s)) = ds_file s \<or>
      ds_file (snd (SaveDevices data n f s)) = Some data) \<and>
   (fst (SaveDevices data n f s) = Saved \<longrightarrow> ds_file (snd (SaveDevices data n f s)) = Some data) \<and>
   (fst (SaveDevices data n f s) \<noteq> Died \<longrightarrow> ds_temp (snd (SaveDevices data n f s)) = None)"
proof (cases f)
  case (Fail c)
  then show ?thesis by (cases c) (simp_all add: SaveDevices_def save_calls_def remove_temp_def)
next
  case (Crash c)
  then show ?thesis by (cases c) (simp_all add: SaveDevices_def save_calls_def remove_temp_def)
qed (simp add: SaveDevices_def save_calls_def remove_temp_def)

theorem save_devices_atomic_witness:
  "ds_file (snd (SaveDevices ''new'' 1 (Crash SaveWrite) \<lparr>ds_file = Some ''old'', ds_temp = None\<rparr>)) = Some ''old''"
  using save_devices_atomic [of "''new''" 1 "Crash SaveWrite" "\<lparr>ds_file = Some ''old'', ds_temp = None\<rparr>"]
  by (simp add: SaveDevices_def save_calls_def)

end
