(* ===== verification/PluginRegistry.thy ===== *)
theory PluginRegistry
  imports DeviceRegistry
begin

text \<open>
  \<open>internal/plugin/registry.go\<close>: plugins register once, a packet is routed to the plugin that
  registered its type last, and a per-device policy gates both directions.  A plugin is its
  description (\<open>Name\<close>, \<open>IncomingTypes\<close>, \<open>OutgoingTypes\<close>, \<open>Timeout\<close>); what \<open>Handle\<close> does is an
  input of \<open>Dispatch\<close>, as the way the dispatched call ended.
\<close>

section \<open>State\<close>

record plugin =
  pl_name :: string
  pl_incoming :: "string list"
  pl_outgoing :: "string list"
  pl_timeout :: duration

type_synonym plugin_policy = "string \<Rightarrow> string \<Rightarrow> bool"

record plugin_registry =
  pr_plugins :: "(string \<times> plugin) list"
  pr_by_name :: "(string \<times> plugin) list"
  pr_list :: "plugin list"
  pr_policy :: "plugin_policy option"

definition NewPluginRegistry :: plugin_registry where
  "NewPluginRegistry = \<lparr>pr_plugins = [], pr_by_name = [], pr_list = [], pr_policy = None\<rparr>"

section \<open>Operations\<close>

definition SetDevicePluginPolicy :: "plugin_policy \<Rightarrow> plugin_registry \<Rightarrow> plugin_registry" where
  "SetDevicePluginPolicy policy r = r\<lparr>pr_policy := Some policy\<rparr>"

definition Register :: "plugin \<Rightarrow> plugin_registry \<Rightarrow> plugin_registry" where
  "Register p r =
     r\<lparr>pr_list := pr_list r @ [p],
       pr_by_name := AList.update (pl_name p) p (pr_by_name r),
       pr_plugins := fold (\<lambda>typ. AList.update typ p) (pl_incoming p) (pr_plugins r)\<rparr>"

definition policy_allows :: "plugin_policy option \<Rightarrow> string \<Rightarrow> string \<Rightarrow> bool" where
  "policy_allows policy device_id name =
     (case policy of None \<Rightarrow> True | Some allowed \<Rightarrow> allowed device_id name)"

definition defaultDispatchTimeout :: duration where
  "defaultDispatchTimeout = 15 * second"

text \<open>How the goroutine that runs \<open>Handle\<close> and the context raced.\<close>

datatype handle_outcome = HandleReturned "string option" | HandlePanicked | HandleTimedOut

text \<open>
  The plugin that handles the packet with its time limit, if any does, and the result: whether
  the caller may recycle the packet.
\<close>

definition Dispatch ::
  "plugin_registry \<Rightarrow> string \<Rightarrow> string \<Rightarrow> handle_outcome \<Rightarrow> (plugin \<times> duration) option \<times> bool" where
  "Dispatch r device_id typ outcome =
     (case map_of (pr_plugins r) typ of
        None \<Rightarrow> (None, True)
      | Some p \<Rightarrow>
          if \<not> policy_allows (pr_policy r) device_id (pl_name p) then (None, True)
          else let timeout = (if pl_timeout p = 0 then defaultDispatchTimeout else pl_timeout p)
               in (Some (p, timeout),
                   case outcome of
                     HandleReturned _ \<Rightarrow> True
                   | HandlePanicked \<Rightarrow> True
                   | HandleTimedOut \<Rightarrow> False))"

definition Capabilities :: "plugin_registry \<Rightarrow> string list \<times> string list" where
  "Capabilities r = (concat (map pl_incoming (pr_list r)), concat (map pl_outgoing (pr_list r)))"

definition GetByName :: "string \<Rightarrow> plugin_registry \<Rightarrow> plugin option" where
  "GetByName name r = map_of (pr_by_name r) name"

text \<open>\<open>policySender.Send\<close>: the plugin's view of the device.\<close>

definition policy_Send ::
  "plugin_policy option \<Rightarrow> string \<Rightarrow> packet \<Rightarrow> device \<Rightarrow> send_result \<times> device" where
  "policy_Send allowed name p d =
     (if \<not> policy_allows allowed (dv_id d) name then (Dropped, d) else Send p d)"

text \<open>
  \<open>OnConnect\<close> and \<open>OnDisconnect\<close>: every plugin's callback \<open>cb\<close> runs in registration order with
  its own sender; the callback and its sender act on the caller's state.
\<close>

fun notify_plugins ::
  "(plugin \<Rightarrow> plugin_policy option \<Rightarrow> 's \<Rightarrow> 's) \<Rightarrow> plugin_policy option \<Rightarrow> plugin list \<Rightarrow> 's \<Rightarrow> 's" where
  "notify_plugins cb policy [] s = s"
| "notify_plugins cb policy (p # ps) s = notify_plugins cb policy ps (cb p policy s)"

definition plugins_OnConnect ::
  "(plugin \<Rightarrow> plugin_policy option \<Rightarrow> 's \<Rightarrow> 's) \<Rightarrow> plugin_registry \<Rightarrow> 's \<Rightarrow> 's" where
  "plugins_OnConnect onConnect r s = notify_plugins onConnect (pr_policy r) (pr_list r) s"

definition plugins_OnDisconnect ::
  "(plugin \<Rightarrow> plugin_policy option \<Rightarrow> 's \<Rightarrow> 's) \<Rightarrow> plugin_registry \<Rightarrow> 's \<Rightarrow> 's" where
  "plugins_OnDisconnect onDisconnect r s = notify_plugins onDisconnect (pr_policy r) (pr_list r) s"

section \<open>Facts\<close>

definition register_all :: "plugin list \<Rightarrow> plugin_registry \<Rightarrow> plugin_registry" where
  "register_all ps r = fold Register ps r"

lemma register_type:
  "map_of (fold (\<lambda>typ. AList.update typ p) typs m) t =
     (if t \<in> set typs then Some p else map_of m t)"
  by (induction typs arbitrary: m) (auto simp: sync_map.lookup_store)

lemma Register_lookup:
  "map_of (pr_plugins (Register p r)) t =
     (if t \<in> set (pl_incoming p) then Some p else map_of (pr_plugins r) t)"
  "map_of (pr_by_name (Register p r)) n = (if n = pl_name p then Some p else map_of (pr_by_name r) n)"
  "pr_list (Register p r) = pr_list r @ [p]" "pr_policy (Register p r) = pr_policy r"
  by (simp_all add: Register_def register_type sync_map.lookup_store)

text \<open>The last registration of a type or of a name wins.\<close>

lemma register_all_lookup:
  "map_of (pr_plugins (register_all ps r)) t =
     (case find (\<lambda>p. t \<in> set (pl_incoming p)) (rev ps) of
        None \<Rightarrow> map_of (pr_plugins r) t | Some p \<Rightarrow> Some p)"
  "map_of (pr_by_name (register_all ps r)) n =
     (case find (\<lambda>p. n = pl_name p) (rev ps) of None \<Rightarrow> map_of (pr_by_name r) n | Some p \<Rightarrow> Some p)"
  "pr_list (register_all ps r) = pr_list r @ ps" "pr_policy (register_all ps r) = pr_policy r"
  by (induction ps arbitrary: r)
    (simp_all add: register_all_def Register_lookup find_append_case split: option.splits)

text \<open>
  A packet is handled by the last registered plugin that lists its type, when the device's
  policy allows that plugin, and by nobody otherwise; and the packet may be recycled unless that
  plugin's call timed out.
\<close>
theorem dispatch_routes:
  "Dispatch (SetDevicePluginPolicy policy (register_all ps NewPluginRegistry)) device_id typ outcome =
     (case find (\<lambda>p. typ \<in> set (pl_incoming p)) (rev ps) of
        Some p \<Rightarrow>
          if policy device_id (pl_name p)
          then (Some (p, if pl_timeout p = 0 then 15 * second else pl_timeout p), outcome \<noteq> HandleTimedOut)
          else (None, True)
      | None \<Rightarrow> (None, True))"
  by (simp add: Dispatch_def SetDevicePluginPolicy_def register_all_lookup NewPluginRegistry_def
      policy_allows_def defaultDispatchTimeout_def split: option.splits handle_outcome.splits)

end
