(* ===== verification/BundledPlugins.thy ===== *)
theory BundledPlugins
  imports PluginRegistry
begin

text \<open>
  The bundled plugins as the daemon registers them (\<open>internal/daemon/plugins.go\<close>), the
  descriptions in \<open>internal/plugins\<close>, and the per-device switch of
  \<open>internal/config/config.go\<close> that gates them.
\<close>

section \<open>Descriptions\<close>

definition PairPlugin :: plugin where
  "PairPlugin =
     \<lparr>pl_name = ''Pair'',
      pl_incoming = [TypePair],
      pl_outgoing = [TypePair],
      pl_timeout = 5 * second\<rparr>"

definition BatteryPlugin :: plugin where
  "BatteryPlugin =
     \<lparr>pl_name = ''Battery'',
      pl_incoming = [''kdeconnect.battery'', ''kdeconnect.battery.request''],
      pl_outgoing = [''kdeconnect.battery''],
      pl_timeout = 5 * second\<rparr>"

definition NotificationPlugin :: plugin where
  "NotificationPlugin =
     \<lparr>pl_name = ''Notification'',
      pl_incoming = [''kdeconnect.notification''],
      pl_outgoing = [''kdeconnect.notification.reply'', ''kdeconnect.notification.request'',
                     ''kdeconnect.notification.action''],
      pl_timeout = 5 * second\<rparr>"

definition ClipboardPlugin :: plugin where
  "ClipboardPlugin =
     \<lparr>pl_name = ''Clipboard'',
      pl_incoming = [''kdeconnect.clipboard'', ''kdeconnect.clipboard.connect'',
                     ''kdeconnect.clipboard.file''],
      pl_outgoing = [''kdeconnect.clipboard'', ''kdeconnect.clipboard.connect''],
      pl_timeout = 5 * second\<rparr>"

definition SharePlugin :: plugin where
  "SharePlugin =
     \<lparr>pl_name = ''Share'',
      pl_incoming = [''kdeconnect.share.request'', ''kdeconnect.share.request.update''],
      pl_outgoing = [''kdeconnect.share.request''],
      pl_timeout = 0\<rparr>"

definition RunCommandPlugin :: plugin where
  "RunCommandPlugin =
     \<lparr>pl_name = ''RunCommand'',
      pl_incoming = [''kdeconnect.runcommand.request'', ''kdeconnect.runcommand''],
      pl_outgoing = [''kdeconnect.runcommand'', ''kdeconnect.runcommand.output'',
                     ''kdeconnect.notification''],
      pl_timeout = 5 * second\<rparr>"

definition PingPlugin :: plugin where
  "PingPlugin =
     \<lparr>pl_name = ''Ping'',
      pl_incoming = [''kdeconnect.ping''],
      pl_outgoing = [''kdeconnect.ping''],
      pl_timeout = 5 * second\<rparr>"

definition TelephonyPlugin :: plugin where
  "TelephonyPlugin =
     \<lparr>pl_name = ''Telephony'',
      pl_incoming = [''kdeconnect.telephony''],
      pl_outgoing = [''kdeconnect.telephony.request_mute''],
      pl_timeout = 5 * second\<rparr>"

definition ConnectivityPlugin :: plugin where
  "ConnectivityPlugin =
     \<lparr>pl_name = ''Connectivity'',
      pl_incoming = [''kdeconnect.connectivity_report''],
      pl_outgoing = [''kdeconnect.connectivity_report.request''],
      pl_timeout = 5 * second\<rparr>"

definition MPRISPlugin :: plugin where
  "MPRISPlugin =
     \<lparr>pl_name = ''MPRIS'',
      pl_incoming = [''kdeconnect.mpris'', ''kdeconnect.mpris.request''],
      pl_outgoing = [''kdeconnect.mpris'', ''kdeconnect.mpris.request''],
      pl_timeout = 5 * second\<rparr>"

definition MousepadPlugin :: plugin where
  "MousepadPlugin =
     \<lparr>pl_name = ''Mousepad'',
      pl_incoming = [''kdeconnect.mousepad.request''],
      pl_outgoing = [''kdeconnect.mousepad.keyboardstate''],
      pl_timeout = 2 * second\<rparr>"

definition PresenterPlugin :: plugin where
  "PresenterPlugin =
     \<lparr>pl_name = ''Presenter'',
      pl_incoming = [''kdeconnect.presenter''],
      pl_outgoing = [],
      pl_timeout = 2 * second\<rparr>"

definition SftpPlugin :: plugin where
  "SftpPlugin =
     \<lparr>pl_name = ''SFTP'',
      pl_incoming = [''kdeconnect.sftp''],
      pl_outgoing = [''kdeconnect.sftp.request''],
      pl_timeout = 5 * second\<rparr>"

definition FindMyPhonePlugin :: plugin where
  "FindMyPhonePlugin =
     \<lparr>pl_name = ''FindMyPhone'',
      pl_incoming = [],
      pl_outgoing = [''kdeconnect.findmyphone.request''],
      pl_timeout = 5 * second\<rparr>"

definition FindThisDevicePlugin :: plugin where
  "FindThisDevicePlugin =
     \<lparr>pl_name = ''FindThisDevice'',
      pl_incoming = [''kdeconnect.findmyphone.request''],
      pl_outgoing = [],
      pl_timeout = 5 * second\<rparr>"

definition LockDevicePlugin :: plugin where
  "LockDevicePlugin =
     \<lparr>pl_name = ''LockDevice'',
      pl_incoming = [''kdeconnect.lock'', ''kdeconnect.lock.request''],
      pl_outgoing = [''kdeconnect.lock'', ''kdeconnect.lock.request''],
      pl_timeout = 5 * second\<rparr>"

definition SystemVolumePlugin :: plugin where
  "SystemVolumePlugin =
     \<lparr>pl_name = ''SystemVolume'',
      pl_incoming = [''kdeconnect.systemvolume.request''],
      pl_outgoing = [''kdeconnect.systemvolume''],
      pl_timeout = 5 * second\<rparr>"

definition SMSPlugin :: plugin where
  "SMSPlugin =
     \<lparr>pl_name = ''SMS'',
      pl_incoming = [''kdeconnect.sms.messages'', ''kdeconnect.sms.attachment_file''],
      pl_outgoing = [''kdeconnect.sms.request'', ''kdeconnect.sms.request_conversations'',
                     ''kdeconnect.sms.request_conversation'',
                     ''kdeconnect.sms.request_attachment''],
      pl_timeout = 5 * second\<rparr>"

definition ContactsPlugin :: plugin where
  "ContactsPlugin =
     \<lparr>pl_name = ''Contacts'',
      pl_incoming = [''kdeconnect.contacts.response_uids_timestamps'',
                     ''kdeconnect.contacts.response_vcards''],
      pl_outgoing = [''kdeconnect.contacts.request_all_uids_timestamps'',
                     ''kdeconnect.contacts.request_vcards_by_uid''],
      pl_timeout = 5 * second\<rparr>"

definition RemoteSystemVolumePlugin :: plugin where
  "RemoteSystemVolumePlugin =
     \<lparr>pl_name = ''RemoteSystemVolume'',
      pl_incoming = [''kdeconnect.systemvolume''],
      pl_outgoing = [''kdeconnect.systemvolume.request''],
      pl_timeout = 5 * second\<rparr>"

definition DigitizerPlugin :: plugin where
  "DigitizerPlugin =
     \<lparr>pl_name = ''Digitizer'',
      pl_incoming = [''kdeconnect.digitizer.session'', ''kdeconnect.digitizer''],
      pl_outgoing = [],
      pl_timeout = 5 * second\<rparr>"

lemmas plugin_descriptions =
  PairPlugin_def
  BatteryPlugin_def
  NotificationPlugin_def
  ClipboardPlugin_def
  SharePlugin_def
  RunCommandPlugin_def
  PingPlugin_def
  TelephonyPlugin_def
  ConnectivityPlugin_def
  MPRISPlugin_def
  MousepadPlugin_def
  PresenterPlugin_def
  SftpPlugin_def
  FindMyPhonePlugin_def
  FindThisDevicePlugin_def
  LockDevicePlugin_def
  SystemVolumePlugin_def
  SMSPlugin_def
  ContactsPlugin_def
  RemoteSystemVolumePlugin_def
  DigitizerPlugin_def

section \<open>Configuration switches\<close>

record plugin_config =
  pc_battery :: bool
  pc_clipboard :: bool
  pc_notification :: bool
  pc_share :: bool
  pc_runcommand :: bool
  pc_mpris :: bool
  pc_ping :: bool
  pc_telephony :: bool
  pc_connectivity :: bool
  pc_mousepad :: bool
  pc_sftp :: bool
  pc_findmyphone :: bool
  pc_lockdevice :: bool
  pc_systemvolume :: bool
  pc_pausemusic :: bool
  pc_sms :: bool
  pc_contacts :: bool
  pc_presenter :: bool
  pc_findthisdevice :: bool
  pc_remotesystemvolume :: bool
  pc_digitizer :: bool

text \<open>A device's section: its \<open>plugins\<close> table, absent or a map from names to switches.\<close>

record device_config =
  dc_plugins :: "(string \<times> bool) list option"

record config =
  cf_plugins :: plugin_config
  cf_devices :: "(string \<times> device_config) list"

definition globalPluginEnabled :: "plugin_config \<Rightarrow> string \<Rightarrow> bool" where
  "globalPluginEnabled p name =
     (case map_of
        [(''pair'', True),
         (''battery'', pc_battery p),
         (''clipboard'', pc_clipboard p),
         (''notification'', pc_notification p),
         (''share'', pc_share p),
         (''runcommand'', pc_runcommand p),
         (''mpris'', pc_mpris p),
         (''ping'', pc_ping p),
         (''telephony'', pc_telephony p),
         (''connectivity'', pc_connectivity p),
         (''mousepad'', pc_mousepad p),
         (''sftp'', pc_sftp p),
         (''findmyphone'', pc_findmyphone p),
         (''lockdevice'', pc_lockdevice p),
         (''systemvolume'', pc_systemvolume p),
         (''pausemusic'', pc_pausemusic p),
         (''sms'', pc_sms p),
         (''contacts'', pc_contacts p),
         (''presenter'', pc_presenter p),
         (''findthisdevice'', pc_findthisdevice p),
         (''remotesystemvolume'', pc_remotesystemvolume p),
         (''digitizer'', pc_digitizer p)] name of
        None \<Rightarrow> False
      | Some b \<Rightarrow> b)"

definition PluginEnabledForDevice :: "config \<Rightarrow> string \<Rightarrow> string \<Rightarrow> bool" where
  "PluginEnabledForDevice c device_id plugin_name =
     (if \<not> globalPluginEnabled (cf_plugins c) (map lower plugin_name) then False
      else case map_of (cf_devices c) device_id of
        None \<Rightarrow> True
      | Some override \<Rightarrow>
          (case dc_plugins override of
             None \<Rightarrow> True
           | Some switches \<Rightarrow>
               (case map_of switches (map lower plugin_name) of
                  None \<Rightarrow> True
                | Some enabled \<Rightarrow> enabled)))"

section \<open>Registration\<close>

text \<open>Each registration with the switch that guards it, in the order of the code.\<close>

definition bundled_table :: "plugin_config \<Rightarrow> (bool \<times> plugin) list" where
  "bundled_table c =
     [(True, PairPlugin),
      (pc_battery c, BatteryPlugin),
      (pc_notification c, NotificationPlugin),
      (pc_clipboard c, ClipboardPlugin),
      (pc_share c, SharePlugin),
      (pc_runcommand c, RunCommandPlugin),
      (pc_ping c, PingPlugin),
      (pc_telephony c, TelephonyPlugin),
      (pc_connectivity c, ConnectivityPlugin),
      (pc_mpris c, MPRISPlugin),
      (pc_mousepad c, MousepadPlugin),
      (pc_presenter c, PresenterPlugin),
      (pc_sftp c, SftpPlugin),
      (pc_findmyphone c, FindMyPhonePlugin),
      (pc_findthisdevice c, FindThisDevicePlugin),
      (pc_lockdevice c, LockDevicePlugin),
      (pc_systemvolume c, SystemVolumePlugin),
      (pc_sms c, SMSPlugin),
      (pc_contacts c, ContactsPlugin),
      (pc_remotesystemvolume c, RemoteSystemVolumePlugin),
      (pc_digitizer c, DigitizerPlugin)]"

definition bundled :: "plugin_config \<Rightarrow> plugin list" where
  "bundled c = map snd (filter fst (bundled_table c))"

definition setupPlugins :: "config \<Rightarrow> plugin_registry \<Rightarrow> plugin_registry" where
  "setupPlugins c r =
     SetDevicePluginPolicy (PluginEnabledForDevice c) (register_all (bundled (cf_plugins c)) r)"

lemma bundled_subset: "set (bundled c) \<subseteq> set (map snd (bundled_table c))"
  unfolding bundled_def by auto

lemma table_types_distinct: "distinct (concat (map pl_incoming (map snd (bundled_table c))))"
  by code_simp

text \<open>The names in lower case, which the switches are keyed by.\<close>

lemma plugin_keys:
  "map lower (pl_name PairPlugin) = ''pair''"
  "map lower (pl_name BatteryPlugin) = ''battery''"
  "map lower (pl_name NotificationPlugin) = ''notification''"
  "map lower (pl_name ClipboardPlugin) = ''clipboard''"
  "map lower (pl_name SharePlugin) = ''share''"
  "map lower (pl_name RunCommandPlugin) = ''runcommand''"
  "map lower (pl_name PingPlugin) = ''ping''"
  "map lower (pl_name TelephonyPlugin) = ''telephony''"
  "map lower (pl_name ConnectivityPlugin) = ''connectivity''"
  "map lower (pl_name MPRISPlugin) = ''mpris''"
  "map lower (pl_name MousepadPlugin) = ''mousepad''"
  "map lower (pl_name PresenterPlugin) = ''presenter''"
  "map lower (pl_name SftpPlugin) = ''sftp''"
  "map lower (pl_name FindMyPhonePlugin) = ''findmyphone''"
  "map lower (pl_name FindThisDevicePlugin) = ''findthisdevice''"
  "map lower (pl_name LockDevicePlugin) = ''lockdevice''"
  "map lower (pl_name SystemVolumePlugin) = ''systemvolume''"
  "map lower (pl_name SMSPlugin) = ''sms''"
  "map lower (pl_name ContactsPlugin) = ''contacts''"
  "map lower (pl_name RemoteSystemVolumePlugin) = ''remotesystemvolume''"
  "map lower (pl_name DigitizerPlugin) = ''digitizer''"
  by code_simp+

lemma switch_of:
  "globalPluginEnabled c ''pair'' = True"
  "globalPluginEnabled c ''battery'' = pc_battery c"
  "globalPluginEnabled c ''notification'' = pc_notification c"
  "globalPluginEnabled c ''clipboard'' = pc_clipboard c"
  "globalPluginEnabled c ''share'' = pc_share c"
  "globalPluginEnabled c ''runcommand'' = pc_runcommand c"
  "globalPluginEnabled c ''ping'' = pc_ping c"
  "globalPluginEnabled c ''telephony'' = pc_telephony c"
  "globalPluginEnabled c ''connectivity'' = pc_connectivity c"
  "globalPluginEnabled c ''mpris'' = pc_mpris c"
  "globalPluginEnabled c ''mousepad'' = pc_mousepad c"
  "globalPluginEnabled c ''presenter'' = pc_presenter c"
  "globalPluginEnabled c ''sftp'' = pc_sftp c"
  "globalPluginEnabled c ''findmyphone'' = pc_findmyphone c"
  "globalPluginEnabled c ''findthisdevice'' = pc_findthisdevice c"
  "globalPluginEnabled c ''lockdevice'' = pc_lockdevice c"
  "globalPluginEnabled c ''systemvolume'' = pc_systemvolume c"
  "globalPluginEnabled c ''sms'' = pc_sms c"
  "globalPluginEnabled c ''contacts'' = pc_contacts c"
  "globalPluginEnabled c ''remotesystemvolume'' = pc_remotesystemvolume c"
  "globalPluginEnabled c ''digitizer'' = pc_digitizer c"
  by code_simp+

lemma table_enabled:
  "list_all (\<lambda>(b, p). globalPluginEnabled c (map lower (pl_name p)) = b) (bundled_table c)"
  unfolding bundled_table_def list.pred_inject prod.case plugin_keys switch_of by simp

lemma distinct_concat_owner:
  "distinct (concat (map f xs)) \<Longrightarrow> x \<in> set xs \<Longrightarrow> y \<in> set xs \<Longrightarrow> t \<in> set (f x) \<Longrightarrow> t \<in> set (f y) \<Longrightarrow> x = y"
  by (induction xs) auto

lemma find_unique:
  assumes "x \<in> set xs" and "P x" and "\<forall>y \<in> set xs. P y \<longrightarrow> y = x"
  shows "find P xs = Some x"
proof (cases "find P xs")
  case None
  then show ?thesis using assms(1,2) by (auto simp: find_None_iff)
next
  case (Some y)
  then have "y \<in> set xs \<and> P y" by (auto simp: find_Some_iff)
  then show ?thesis using assms(3) Some by blast
qed

lemma bundled_globally_enabled:
  assumes "p \<in> set (bundled c)"
  shows "globalPluginEnabled c (map lower (pl_name p))"
proof -
  have "(True, p) \<in> set (bundled_table c)" using assms by (auto simp: bundled_def)
  then show ?thesis using table_enabled [of c] by (simp only: list_all_iff) fast
qed

lemma PairPlugin_bundled: "PairPlugin \<in> set (bundled c)"
proof -
  have "(True, PairPlugin) \<in> set (bundled_table c)" by (simp add: bundled_table_def)
  then show ?thesis unfolding bundled_def by force
qed

text \<open>Whatever is switched on, a type has one owner.\<close>

lemma bundled_owner:
  assumes "p \<in> set (bundled c)" and "typ \<in> set (pl_incoming p)"
  shows "find (\<lambda>q. typ \<in> set (pl_incoming q)) (rev (bundled c)) = Some p"
proof (rule find_unique)
  show "p \<in> set (rev (bundled c))" using assms(1) by simp
  show "typ \<in> set (pl_incoming p)" by (rule assms(2))
  show "\<forall>q \<in> set (rev (bundled c)). typ \<in> set (pl_incoming q) \<longrightarrow> q = p"
    using assms bundled_subset [of c]
      distinct_concat_owner [OF table_types_distinct [of c], of _ p "typ"] by (simp, blast)
qed

text \<open>
  C6. With the bundled plugins, whatever is switched on, no packet type has two owners: a
  packet of a type that a registered plugin lists is handled by exactly that plugin, unless the
  device's own section switches the plugin off; the global switches never refuse a registered
  plugin.
\<close>
theorem bundled_routing:
  assumes "p \<in> set (bundled (cf_plugins c))" and "typ \<in> set (pl_incoming p)"
  shows "map_option fst (fst (Dispatch (setupPlugins c NewPluginRegistry) device_id typ outcome)) =
    (if \<exists>dc switches. map_of (cf_devices c) device_id = Some dc \<and> dc_plugins dc = Some switches \<and>
          map_of switches (map lower (pl_name p)) = Some False
     then None else Some p)"
proof -
  note bundled_owner [OF assms]
  then show ?thesis
    using bundled_globally_enabled [OF assms(1)]
    by (auto simp: Dispatch_def setupPlugins_def SetDevicePluginPolicy_def register_all_lookup
        NewPluginRegistry_def policy_allows_def PluginEnabledForDevice_def Let_def
        split: option.splits)
qed

definition plugins_off :: plugin_config where
  "plugins_off =
     \<lparr>pc_battery = False, pc_clipboard = False, pc_notification = False, pc_share = False,
      pc_runcommand = False, pc_mpris = False, pc_ping = False, pc_telephony = False,
      pc_connectivity = False, pc_mousepad = False, pc_sftp = False, pc_findmyphone = False,
      pc_lockdevice = False, pc_systemvolume = False, pc_pausemusic = False, pc_sms = False,
      pc_contacts = False, pc_presenter = False, pc_findthisdevice = False,
      pc_remotesystemvolume = False, pc_digitizer = False\<rparr>"

theorem bundled_routing_witness:
  "map_option fst (fst (Dispatch (setupPlugins \<lparr>cf_plugins = plugins_off, cf_devices = []\<rparr> NewPluginRegistry)
     [] TypePair (HandleReturned None))) = Some PairPlugin"
  using bundled_routing [of PairPlugin "\<lparr>cf_plugins = plugins_off, cf_devices = []\<rparr>" TypePair "[]" "HandleReturned None"]
    PairPlugin_bundled [of plugins_off] by (simp add: PairPlugin_def)

text \<open>
  The pair plugin is registered and globally enabled under every configuration, but a
  device section can switch it off; then that device's pair and unpair packets are dropped
  without a reply.
\<close>
theorem pair_can_be_switched_off:
  "PairPlugin \<in> set (bundled pc) \<and> globalPluginEnabled pc (map lower (pl_name PairPlugin)) \<and>
   Dispatch (setupPlugins \<lparr>cf_plugins = pc,
       cf_devices = [(i, \<lparr>dc_plugins = Some [(''pair'', False)]\<rparr>)]\<rparr> NewPluginRegistry) i TypePair outcome =
     (None, True)"
proof -
  have "find (\<lambda>q. TypePair \<in> set (pl_incoming q)) (rev (bundled pc)) = Some PairPlugin"
    by (rule bundled_owner [OF PairPlugin_bundled]) (simp add: PairPlugin_def)
  then show ?thesis
    using PairPlugin_bundled [of pc] bundled_globally_enabled [OF PairPlugin_bundled, of pc] plugin_keys(1)
    by (simp add: Dispatch_def setupPlugins_def SetDevicePluginPolicy_def register_all_lookup
        NewPluginRegistry_def policy_allows_def PluginEnabledForDevice_def)
qed

end
