(* ===== verification/Pairing.thy ===== *)
theory Pairing
  imports BundledPlugins
begin

text \<open>
  The pair plugin (\<open>internal/plugins/pair\<close>): the state machine of a pairing, its timers and its
  events.  The plugin works on the devices of the registry, which it reaches by reference; every
  section of code under the plugin's mutex is one function here.  What it does to the rest of
  the daemon (saving the device file, the callbacks to the other plugins, the events) is a log.
  The hash of the verification code is the parameter \<open>sha\<close>; \<open>now\<close> is the clock in nanoseconds.
\<close>

section \<open>State\<close>

record pending_timer =
  pt_expected :: pairing_state
  pt_generation :: nat
  pt_delay :: duration

datatype pair_effect =
    StateSaved
  | PluginsOnPaired string
  | PluginsOnUnpaired string
  | TimerArmed string pending_timer
  | Emitted event_type string json

record pair_world =
  pw_registry :: registry
  pw_local_cert :: "cert option"
  pw_timeout_secs :: int
  pw_accept_requests :: string
  pw_on_state_changed :: bool
  pw_lifecycle :: bool
  pw_has_bus :: bool
  pw_stamp :: "string \<Rightarrow> int option"
  pw_timers :: "string \<Rightarrow> pending_timer option"
  pw_generation :: "string \<Rightarrow> nat option"
  pw_next_generation :: nat
  pw_log :: "pair_effect list"

definition NewPairPlugin :: "registry \<Rightarrow> cert option \<Rightarrow> int \<Rightarrow> string \<Rightarrow> bool \<Rightarrow> bool \<Rightarrow> pair_world" where
  "NewPairPlugin devices localCert timeout_secs accept_requests onStateChanged has_bus =
     \<lparr>pw_registry = devices, pw_local_cert = localCert, pw_timeout_secs = timeout_secs,
      pw_accept_requests = accept_requests, pw_on_state_changed = onStateChanged,
      pw_lifecycle = False, pw_has_bus = has_bus, pw_stamp = (\<lambda>_. None), pw_timers = (\<lambda>_. None),
      pw_generation = (\<lambda>_. None), pw_next_generation = 0, pw_log = []\<rparr>"

definition SetLifecycleCallbacks :: "pair_world \<Rightarrow> pair_world" where
  "SetLifecycleCallbacks w = w\<lparr>pw_lifecycle := True\<rparr>"

text \<open>Device access through the registry, and the log.\<close>

definition pw_dev :: "pair_world \<Rightarrow> nat \<Rightarrow> device" where
  "pw_dev w r = dev_at (pw_registry w) r"

definition on_dev :: "nat \<Rightarrow> (device \<Rightarrow> device) \<Rightarrow> pair_world \<Rightarrow> pair_world" where
  "on_dev r f w = w\<lparr>pw_registry := upd_dev r f (pw_registry w)\<rparr>"

definition note_effect :: "pair_effect \<Rightarrow> pair_world \<Rightarrow> pair_world" where
  "note_effect e w = w\<lparr>pw_log := pw_log w @ [e]\<rparr>"

definition pairingTimestampFor :: "string \<Rightarrow> pair_world \<Rightarrow> int" where
  "pairingTimestampFor i w = (case pw_stamp w i of None \<Rightarrow> 0 | Some t \<Rightarrow> t)"

definition set_stamp :: "string \<Rightarrow> int option \<Rightarrow> pair_world \<Rightarrow> pair_world" where
  "set_stamp i t w = w\<lparr>pw_stamp := (pw_stamp w)(i := t)\<rparr>"

definition emit :: "event_type \<Rightarrow> nat \<Rightarrow> string \<Rightarrow> pair_world \<Rightarrow> pair_world" where
  "emit typ r vKey w =
     (if \<not> pw_has_bus w then w
      else note_effect (Emitted typ (dv_id (pw_dev w r))
             (JObj ([(''name'', JStr (dv_name (pw_dev w r))), (''type'', JStr (dv_type (pw_dev w r)))]
                    @ (if vKey \<noteq> [] then [(''verificationKey'', JStr vKey)] else [])))) w)"

definition emitRejected :: "nat \<Rightarrow> string \<Rightarrow> pair_world \<Rightarrow> pair_world" where
  "emitRejected r reason w =
     (if \<not> pw_has_bus w then w
      else note_effect (Emitted TypePairRejected (dv_id (pw_dev w r))
             (JObj ([(''name'', JStr (dv_name (pw_dev w r))), (''type'', JStr (dv_type (pw_dev w r)))]
                    @ (if reason \<noteq> [] then [(''reason'', JStr reason)] else [])))) w)"

section \<open>Lifecycle (lifecycle.go)\<close>

definition defaultPendingPairTimeout :: duration where
  "defaultPendingPairTimeout = 30 * second"

definition androidOutgoingPairWait :: duration where
  "androidOutgoingPairWait = 30 * second"

definition androidIncomingPairWait :: duration where
  "androidIncomingPairWait = 25 * second"

definition pendingTimeout :: "int \<Rightarrow> pairing_state \<Rightarrow> duration" where
  "pendingTimeout timeout_secs state =
     (if timeout_secs \<le> 0 then defaultPendingPairTimeout
      else let maxSeconds = max_int64 div second;
               seconds = (if timeout_secs > maxSeconds then maxSeconds else timeout_secs);
               delay = wrap64 (seconds * second)
           in if state = StatePairRequested \<and> delay > androidOutgoingPairWait
              then androidOutgoingPairWait
              else if state = StatePairRequestedByPeer \<and> delay > androidIncomingPairWait
              then androidIncomingPairWait
              else delay)"

definition notifyStateChanged :: "nat \<Rightarrow> pairing_state \<Rightarrow> pairing_state \<Rightarrow> pair_world \<Rightarrow> pair_world" where
  "notifyStateChanged r previous next w =
     (let i = dv_id (pw_dev w r);
          w = (if pw_on_state_changed w then note_effect StateSaved w else w);
          w = (if previous = StatePaired \<and> next \<noteq> StatePaired \<and> pw_lifecycle w
               then note_effect (PluginsOnUnpaired i) w else w)
      in if previous \<noteq> StatePaired \<and> next = StatePaired \<and> pw_lifecycle w
         then note_effect (PluginsOnPaired i) w else w)"

definition cancelPendingTimerLocked :: "string \<Rightarrow> pair_world \<Rightarrow> pair_world" where
  "cancelPendingTimerLocked i w =
     w\<lparr>pw_timers := (pw_timers w)(i := None), pw_generation := (pw_generation w)(i := None)\<rparr>"

definition schedulePendingTimerLocked :: "string \<Rightarrow> pairing_state \<Rightarrow> pair_world \<Rightarrow> pair_world" where
  "schedulePendingTimerLocked i expected w =
     (let delay = pendingTimeout (pw_timeout_secs w) expected;
          generation = Suc (pw_next_generation w);
          timer = \<lparr>pt_expected = expected, pt_generation = generation, pt_delay = delay\<rparr>
      in note_effect (TimerArmed i timer)
           (w\<lparr>pw_next_generation := generation,
              pw_generation := (pw_generation w)(i \<mapsto> generation),
              pw_timers := (pw_timers w)(i \<mapsto> timer)\<rparr>))"

definition is_pending :: "pairing_state \<Rightarrow> bool" where
  "is_pending s \<longleftrightarrow> s = StatePairRequested \<or> s = StatePairRequestedByPeer"

definition updatePendingTimerLocked :: "nat \<Rightarrow> pairing_state \<Rightarrow> pair_world \<Rightarrow> pair_world" where
  "updatePendingTimerLocked r next w =
     (let i = dv_id (pw_dev w r);
          w = cancelPendingTimerLocked i w
      in if is_pending next then schedulePendingTimerLocked i next w else w)"

text \<open>\<open>dev.TransitionState\<close> on the registry's object.\<close>

definition transition :: "nat \<Rightarrow> pairing_state \<Rightarrow> pairing_state \<Rightarrow> pair_world \<Rightarrow> bool \<times> pair_world" where
  "transition r expected next w =
     (fst (TransitionState expected next (pw_dev w r)),
      on_dev r (\<lambda>d. snd (TransitionState expected next d)) w)"

text \<open>
  The loop of \<open>changeState\<close> retries when the state moved between reading it and the transition.
  Only sections under the plugin's mutex write the state, so the first round succeeds.
\<close>

definition changeState :: "nat \<Rightarrow> pairing_state \<Rightarrow> pair_world \<Rightarrow> pair_world" where
  "changeState r next w =
     (let previous = dv_state (pw_dev w r)
      in if previous = next then w
         else case transition r previous next w of
           (True, w) \<Rightarrow> notifyStateChanged r previous next (updatePendingTimerLocked r next w)
         | (False, w) \<Rightarrow> w)"

definition changeStateFrom :: "nat \<Rightarrow> pairing_state \<Rightarrow> pairing_state \<Rightarrow> pair_world \<Rightarrow> pair_world" where
  "changeStateFrom r expected next w =
     (case transition r expected next w of
        (False, w) \<Rightarrow> w
      | (True, w) \<Rightarrow> notifyStateChanged r expected next (updatePendingTimerLocked r next w))"

definition transitionPendingToPaired :: "nat \<Rightarrow> pair_world \<Rightarrow> bool \<times> pair_world" where
  "transitionPendingToPaired r w =
     (let previous = dv_state (pw_dev w r)
      in if previous \<noteq> StatePairRequested \<and> previous \<noteq> StatePairRequestedByPeer then (False, w)
         else case transition r previous StatePaired w of
           (False, w) \<Rightarrow> (False, w)
         | (True, w) \<Rightarrow>
             (True, notifyStateChanged r previous StatePaired
                      (cancelPendingTimerLocked (dv_id (pw_dev w r)) w)))"

definition stopPendingTimeout :: "nat \<Rightarrow> pairing_state \<Rightarrow> pair_world \<Rightarrow> bool \<times> pair_world" where
  "stopPendingTimeout r expected w =
     (if dv_state (pw_dev w r) \<noteq> expected then (False, w)
      else (True, cancelPendingTimerLocked (dv_id (pw_dev w r)) w))"

text \<open>
  Sending.  \<open>Device.Send\<close> returns no error on any path, so the branches of the code that handle
  one are kept behind \<open>send_failed\<close>.
\<close>

definition send_failed :: "send_result \<Rightarrow> bool" where
  "send_failed res = (case res of Queued \<Rightarrow> False | Dropped \<Rightarrow> False)"

definition send_to :: "nat \<Rightarrow> packet \<Rightarrow> pair_world \<Rightarrow> send_result \<times> pair_world" where
  "send_to r p w = (fst (Send p (pw_dev w r)), on_dev r (\<lambda>d. snd (Send p d)) w)"

definition sendPairReject :: "nat \<Rightarrow> int \<Rightarrow> pair_world \<Rightarrow> pair_world" where
  "sendPairReject r now w = snd (send_to r (NewPairPacket (now div millisecond) PairReject 0) w)"

definition clear_dials :: "nat \<Rightarrow> pair_world \<Rightarrow> pair_world" where
  "clear_dials r w = on_dev r ClearPairDial (on_dev r ClearEphemeral w)"

definition expirePending :: "string \<Rightarrow> pairing_state \<Rightarrow> nat \<Rightarrow> int \<Rightarrow> pair_world \<Rightarrow> pair_world" where
  "expirePending i expected generation now w =
     (if (case pw_generation w i of None \<Rightarrow> 0 | Some g \<Rightarrow> g) \<noteq> generation then w
      else case reg_Get i (pw_registry w) of
        None \<Rightarrow> cancelPendingTimerLocked i w
      | Some r \<Rightarrow>
          (case transition r expected StateUnpaired w of
             (False, w) \<Rightarrow> cancelPendingTimerLocked i w
           | (True, w) \<Rightarrow>
               emitRejected r ''timeout''
                 (sendPairReject r now
                   (clear_dials r
                     (notifyStateChanged r expected StateUnpaired
                       (set_stamp i None (cancelPendingTimerLocked i w)))))))"

section \<open>Local actions (actions.go)\<close>

datatype pair_error = NoPendingRequest | RequestExpired | PairSendFailed | BadPairBody

definition pairingDone :: "nat \<Rightarrow> pair_world \<Rightarrow> bool \<times> pair_world" where
  "pairingDone r w =
     (case transitionPendingToPaired r w of
        (False, w) \<Rightarrow> (False, w)
      | (True, w) \<Rightarrow>
          (True, emit TypePairAccepted r []
                   (set_stamp (dv_id (pw_dev w r)) None (on_dev r ClearPairDial w))))"

definition AcceptPairing :: "nat \<Rightarrow> int \<Rightarrow> pair_world \<Rightarrow> pair_error option \<times> pair_world" where
  "AcceptPairing r now w =
     (let state = dv_state (pw_dev w r)
      in if state \<noteq> StatePairRequestedByPeer \<and> state \<noteq> StatePairRequested
         then (Some NoPendingRequest, w)
         else case stopPendingTimeout r state w of
           (False, w) \<Rightarrow> (Some RequestExpired, w)
         | (True, w) \<Rightarrow>
             (case send_to r (NewPairPacket (now div millisecond) PairAccept 0) w of
                (res, w) \<Rightarrow>
                  if send_failed res
                  then (Some PairSendFailed, clear_dials r (changeStateFrom r state StateUnpaired w))
                  else (case pairingDone r w of
                          (False, w) \<Rightarrow> (Some RequestExpired, w)
                        | (True, w) \<Rightarrow> (None, w))))"

definition RequestPairing ::
  "(string \<Rightarrow> string) \<Rightarrow> nat \<Rightarrow> int \<Rightarrow> pair_world \<Rightarrow> (pair_error + string) \<times> pair_world" where
  "RequestPairing sha r now w =
     (if dv_state (pw_dev w r) = StatePaired then (Inr [], w)
      else if dv_state (pw_dev w r) = StatePairRequestedByPeer
      then (case AcceptPairing r now w of
              (None, w) \<Rightarrow> (Inr [], w)
            | (Some e, w) \<Rightarrow> (Inl e, w))
      else
        let timestamp = now div second;
            w = set_stamp (dv_id (pw_dev w r)) (Some timestamp) w
        in case send_to r (NewPairPacket (now div millisecond) PairAccept timestamp) w of
             (res, w) \<Rightarrow>
               if send_failed res then (Inl PairSendFailed, w)
               else
                 let key = (case PeerCert (pw_dev w r) of
                              None \<Rightarrow> []
                            | Some c \<Rightarrow> VerificationKey sha (pw_local_cert w) (Some c) timestamp)
                 in (Inr key, changeState r StatePairRequested w))"

text \<open>\<open>RejectPairing\<close> and \<open>Unpair\<close> differ in their log line only.\<close>

definition RejectPairing :: "nat \<Rightarrow> int \<Rightarrow> pair_world \<Rightarrow> pair_world" where
  "RejectPairing r now w =
     (let w = sendPairReject r now w;
          w = clear_dials r (changeState r StateUnpaired w)
      in set_stamp (dv_id (pw_dev w r)) None w)"

definition Unpair :: "nat \<Rightarrow> int \<Rightarrow> pair_world \<Rightarrow> pair_world" where
  "Unpair r now w =
     (let w = sendPairReject r now w;
          w = clear_dials r (changeState r StateUnpaired w)
      in set_stamp (dv_id (pw_dev w r)) None w)"

section \<open>Packets (handle.go)\<close>

definition AllowedTimestampDiff :: int where
  "AllowedTimestampDiff = 1800"

definition validateRequestTimestamp :: "nat \<Rightarrow> int \<Rightarrow> int \<Rightarrow> pair_world \<Rightarrow> bool \<times> pair_world" where
  "validateRequestTimestamp r timestamp now w =
     (if timestamp \<le> 0 \<and> dv_peer_proto (pw_dev w r) \<ge> ProtocolVersion
      then (False, sendPairReject r now w)
      else if timestamp \<le> 0 then (True, w)
      else let diff = now div second - timestamp
           in if diff < - AllowedTimestampDiff \<or> diff > AllowedTimestampDiff
              then (False, sendPairReject r now w)
              else (True, set_stamp (dv_id (pw_dev w r)) (Some timestamp) w))"

definition startIncomingRequest :: "(string \<Rightarrow> string) \<Rightarrow> nat \<Rightarrow> pair_world \<Rightarrow> pair_world" where
  "startIncomingRequest sha r w =
     (let vKey = (case PeerCert (pw_dev w r) of
                    None \<Rightarrow> []
                  | Some c \<Rightarrow> VerificationKey sha (pw_local_cert w) (Some c)
                                (pairingTimestampFor (dv_id (pw_dev w r)) w))
      in emit TypePairRequested r vKey (changeState r StatePairRequestedByPeer w))"

definition handlePairRequest ::
  "(string \<Rightarrow> string) \<Rightarrow> nat \<Rightarrow> pair_body \<Rightarrow> int \<Rightarrow> pair_world \<Rightarrow> pair_world" where
  "handlePairRequest sha r body now w =
     (let state = dv_state (pw_dev w r)
      in case state of
           StatePairRequested \<Rightarrow> snd (pairingDone r w)
         | StatePairRequestedByPeer \<Rightarrow> w
         | StateOther _ \<Rightarrow> w
         | _ \<Rightarrow>
             if state \<noteq> StateUnknown \<and> pw_accept_requests w = ''never'' then sendPairReject r now w
             else (case validateRequestTimestamp r (pb_timestamp body) now w of
                     (False, w) \<Rightarrow> w
                   | (True, w) \<Rightarrow> startIncomingRequest sha r w))"

definition handleUnpairRequest :: "nat \<Rightarrow> pair_world \<Rightarrow> pair_world" where
  "handleUnpairRequest r w =
     (let w = (case dv_state (pw_dev w r) of
                 StatePairRequested \<Rightarrow> emitRejected r [] (clear_dials r (changeState r StateUnpaired w))
               | StatePairRequestedByPeer \<Rightarrow>
                   emitRejected r [] (clear_dials r (changeState r StateUnpaired w))
               | StatePaired \<Rightarrow> clear_dials r (changeState r StateUnpaired w)
               | _ \<Rightarrow> w)
      in set_stamp (dv_id (pw_dev w r)) None w)"

definition pair_Handle ::
  "(string \<Rightarrow> string) \<Rightarrow> string \<Rightarrow> packet \<Rightarrow> int \<Rightarrow> pair_world \<Rightarrow> pair_error option \<times> pair_world" where
  "pair_Handle sha sender_id pkt now w =
     (case Option.bind (pk_body pkt) dec_pair_body of
        None \<Rightarrow> (Some BadPairBody, w)
      | Some body \<Rightarrow>
          (case reg_Get sender_id (pw_registry w) of
             None \<Rightarrow> (None, w)
           | Some r \<Rightarrow>
               (None, if pb_pair body then handlePairRequest sha r body now w
                      else handleUnpairRequest r w)))"

end
