(* ===== verification/PairingProps.thy ===== *)
theory PairingProps
  imports Pairing
begin

text \<open>
  The pairing state machine.  First the sections of code under the plugin's mutex as a step
  relation, with the invariant that ties timers, generations and states together: it holds for
  every interleaving of the sections, whatever goroutines run them.  Then the complete
  operations, each of which is a run of such steps, with the facts that need an operation to
  finish.
\<close>

section \<open>Frames\<close>

lemma pw_dev_simps [simp]:
  "pw_dev (on_dev r f w) q = (if q = r then f (pw_dev w r) else pw_dev w q)"
  "pw_dev (note_effect e w) q = pw_dev w q"
  "pw_dev (set_stamp i t w) q = pw_dev w q"
  "pw_dev (cancelPendingTimerLocked i w) q = pw_dev w q"
  "pw_dev (schedulePendingTimerLocked i s w) q = pw_dev w q"
  "pw_dev (updatePendingTimerLocked r s w) q = pw_dev w q"
  "pw_dev (notifyStateChanged r p n w) q = pw_dev w q"
  "pw_dev (emit typ r k w) q = pw_dev w q"
  "pw_dev (emitRejected r k w) q = pw_dev w q"
  by (simp_all add: pw_dev_def on_dev_def note_effect_def set_stamp_def cancelPendingTimerLocked_def
      schedulePendingTimerLocked_def updatePendingTimerLocked_def notifyStateChanged_def emit_def
      emitRejected_def Let_def)

lemma pw_get_simps [simp]:
  "reg_Get i (pw_registry (on_dev r f w)) = reg_Get i (pw_registry w)"
  "pw_registry (note_effect e w) = pw_registry w"
  "pw_registry (set_stamp j t w) = pw_registry w"
  "pw_registry (cancelPendingTimerLocked j w) = pw_registry w"
  "pw_registry (schedulePendingTimerLocked j s w) = pw_registry w"
  "pw_registry (updatePendingTimerLocked r s w) = pw_registry w"
  "pw_registry (notifyStateChanged r p n w) = pw_registry w"
  "pw_registry (emit typ r k w) = pw_registry w"
  "pw_registry (emitRejected r k w) = pw_registry w"
  by (simp_all add: on_dev_def note_effect_def set_stamp_def cancelPendingTimerLocked_def
      schedulePendingTimerLocked_def updatePendingTimerLocked_def notifyStateChanged_def emit_def
      emitRejected_def Let_def)

text \<open>The timer part of the world.\<close>

definition armed :: "pair_world \<Rightarrow> (string \<times> pending_timer) set" where
  "armed w = {(i, t). TimerArmed i t \<in> set (pw_log w)}"

definition timer_part where
  "timer_part w = (pw_timers w, pw_generation w, pw_next_generation w, armed w, pw_timeout_secs w)"

lemma timer_part_frame [simp]:
  "timer_part (on_dev r f w) = timer_part w"
  "timer_part (set_stamp i t w) = timer_part w"
  "timer_part (notifyStateChanged r p n w) = timer_part w"
  "timer_part (emit typ r k w) = timer_part w"
  "timer_part (emitRejected r k w) = timer_part w"
  by (auto simp: timer_part_def armed_def on_dev_def set_stamp_def notifyStateChanged_def emit_def
      emitRejected_def note_effect_def Let_def)

lemma timer_part_cancel:
  "timer_part (cancelPendingTimerLocked i w) =
     ((pw_timers w)(i := None), (pw_generation w)(i := None), pw_next_generation w, armed w, pw_timeout_secs w)"
  by (simp add: timer_part_def armed_def cancelPendingTimerLocked_def)

lemma timer_part_schedule:
  "timer_part (schedulePendingTimerLocked i s w) =
     (let t = \<lparr>pt_expected = s, pt_generation = Suc (pw_next_generation w),
               pt_delay = pendingTimeout (pw_timeout_secs w) s\<rparr>
      in ((pw_timers w)(i \<mapsto> t), (pw_generation w)(i \<mapsto> Suc (pw_next_generation w)),
          Suc (pw_next_generation w), insert (i, t) (armed w), pw_timeout_secs w))"
  by (auto simp: timer_part_def armed_def schedulePendingTimerLocked_def note_effect_def Let_def)

lemma timer_part_components:
  "timer_part w = (T, G, N, A, S) \<longleftrightarrow>
     pw_timers w = T \<and> pw_generation w = G \<and> pw_next_generation w = N \<and> armed w = A \<and> pw_timeout_secs w = S"
  by (simp add: timer_part_def)

section \<open>The invariant\<close>

text \<open>
  A live timer belongs to a device of the registry which is in the pending state the timer
  expects; its generation is the device's current one; generations are never reused; every
  timer was armed with the delay of its state.
\<close>

definition ids_ok :: "(string \<Rightarrow> nat option) \<Rightarrow> (nat \<Rightarrow> string) \<Rightarrow> bool" where
  "ids_ok lookup ids \<longleftrightarrow> (\<forall>i r. lookup i = Some r \<longrightarrow> ids r = i)"

definition match_ok where
  "match_ok lookup states T A \<longleftrightarrow>
     (\<forall>i t. T i = Some t \<longrightarrow> (i, t) \<in> A \<and> (\<exists>r. lookup i = Some r \<and> states r = pt_expected t))"

definition armed_ok :: "nat \<Rightarrow> (string \<times> pending_timer) set \<Rightarrow> int \<Rightarrow> bool" where
  "armed_ok N A S \<longleftrightarrow>
     (\<forall>i t. (i, t) \<in> A \<longrightarrow> 0 < pt_generation t \<and> pt_generation t \<le> N \<and>
        is_pending (pt_expected t) \<and> pt_delay t = pendingTimeout S (pt_expected t)) \<and>
     (\<forall>i t j u. (i, t) \<in> A \<longrightarrow> (j, u) \<in> A \<longrightarrow> pt_generation t = pt_generation u \<longrightarrow> i = j \<and> t = u)"

definition timers_ok ::
  "(string \<Rightarrow> nat option) \<Rightarrow> (nat \<Rightarrow> string) \<Rightarrow> (nat \<Rightarrow> pairing_state) \<Rightarrow>
   (string \<Rightarrow> pending_timer option) \<times> (string \<Rightarrow> nat option) \<times> nat \<times> (string \<times> pending_timer) set \<times> int \<Rightarrow> bool" where
  "timers_ok lookup ids states = (\<lambda>(T, G, N, A, S).
     ids_ok lookup ids \<and> match_ok lookup states T A \<and> (\<forall>i. G i = map_option pt_generation (T i)) \<and>
     armed_ok N A S)"

lemma match_ok_other:
  assumes "match_ok lookup states T A" "ids_ok lookup ids" "lookup i = Some r" "j \<noteq> i" "T j = Some u"
  shows "(j, u) \<in> A \<and> (\<exists>r'. lookup j = Some r' \<and> (states(r := s)) r' = pt_expected u)"
proof -
  obtain r' where "(j, u) \<in> A" "lookup j = Some r'" "states r' = pt_expected u"
    using assms(1,5) unfolding match_ok_def by blast
  moreover have "r' \<noteq> r" using assms(2,3,4) calculation(2) unfolding ids_ok_def by blast
  ultimately show ?thesis by auto
qed

lemma timers_ok_cancel:
  assumes "timers_ok lookup ids states (T, G, N, A, S)" and "lookup i = Some r"
  shows "timers_ok lookup ids (states(r := s)) (T(i := None), G(i := None), N, A, S)"
proof -
  have ids: "ids_ok lookup ids" and m: "match_ok lookup states T A"
    using assms(1) by (simp_all add: timers_ok_def)
  have "match_ok lookup (states(r := s)) (T(i := None)) A"
    unfolding match_ok_def using match_ok_other [OF m ids assms(2)] by (metis fun_upd_apply option.distinct(1))
  then show ?thesis using assms(1) by (simp add: timers_ok_def)
qed

lemma timers_ok_drop:
  assumes "timers_ok lookup ids states (T, G, N, A, S)"
  shows "timers_ok lookup ids states (T(i := None), G(i := None), N, A, S)"
proof -
  have "match_ok lookup states (T(i := None)) A"
    using assms by (simp add: timers_ok_def match_ok_def)
  then show ?thesis using assms by (simp add: timers_ok_def)
qed

lemma armed_ok_insert:
  assumes "armed_ok N A S" "is_pending s"
    and t: "t = \<lparr>pt_expected = s, pt_generation = Suc N, pt_delay = pendingTimeout S s\<rparr>"
  shows "armed_ok (Suc N) (insert (i, t) A) S"
proof -
  have old: "pt_generation u \<noteq> Suc N" if "(j, u) \<in> A" for j u
    using assms(1) that unfolding armed_ok_def by fastforce
  have "0 < pt_generation u \<and> pt_generation u \<le> Suc N \<and> is_pending (pt_expected u) \<and>
      pt_delay u = pendingTimeout S (pt_expected u)" if "(j, u) \<in> insert (i, t) A" for j u
    using assms that unfolding armed_ok_def by fastforce
  moreover have "j = k \<and> u = v"
    if "(j, u) \<in> insert (i, t) A" "(k, v) \<in> insert (i, t) A" "pt_generation u = pt_generation v" for j u k v
  proof (cases "(j, u) \<in> A \<and> (k, v) \<in> A")
    case True
    then show ?thesis using assms(1) that(3) unfolding armed_ok_def by blast
  next
    case False
    then show ?thesis using that old [of j u] old [of k v] by (auto simp: t)
  qed
  ultimately show ?thesis unfolding armed_ok_def by blast
qed

lemma timers_ok_arm:
  assumes ok: "timers_ok lookup ids states (T, G, N, A, S)" and l: "lookup i = Some r" and "is_pending s"
    and t: "t = \<lparr>pt_expected = s, pt_generation = Suc N, pt_delay = pendingTimeout S s\<rparr>"
  shows "timers_ok lookup ids (states(r := s)) (T(i \<mapsto> t), G(i \<mapsto> Suc N), Suc N, insert (i, t) A, S)"
proof -
  have ids: "ids_ok lookup ids" and m: "match_ok lookup states T A" and ar: "armed_ok N A S"
    using ok by (simp_all add: timers_ok_def)
  have "(j, u) \<in> insert (i, t) A \<and> (\<exists>r'. lookup j = Some r' \<and> (states(r := s)) r' = pt_expected u)"
    if "(T(i \<mapsto> t)) j = Some u" for j u
    using that match_ok_other [OF m ids l, of j u s] l by (cases "j = i") (auto simp: t)
  then have "match_ok lookup (states(r := s)) (T(i \<mapsto> t)) (insert (i, t) A)"
    unfolding match_ok_def by blast
  then show ?thesis
    using ok armed_ok_insert [OF ar assms(3) t] by (simp add: timers_ok_def) (simp add: t)
qed

definition pair_ok :: "pair_world \<Rightarrow> bool" where
  "pair_ok w \<longleftrightarrow>
     timers_ok (\<lambda>i. reg_Get i (pw_registry w)) (\<lambda>r. dv_id (pw_dev w r))
       (\<lambda>r. dv_state (pw_dev w r)) (timer_part w)"

text \<open>Device updates that leave the identity and the pairing state alone.\<close>

definition keeps_pairing :: "(device \<Rightarrow> device) \<Rightarrow> bool" where
  "keeps_pairing f \<longleftrightarrow> (\<forall>d. dv_id (f d) = dv_id d \<and> dv_state (f d) = dv_state d)"

lemma keeps_pairing_device [simp]:
  "keeps_pairing ClearPairDial" "keeps_pairing ClearEphemeral"
  "keeps_pairing (\<lambda>d. snd (Send p d))"
  by (simp_all add: keeps_pairing_def ClearPairDial_def ClearEphemeral_def Send_def)

lemma keeps_pairing_simps [simp]:
  "keeps_pairing f \<Longrightarrow> dv_id (f d) = dv_id d" "keeps_pairing f \<Longrightarrow> dv_state (f d) = dv_state d"
  by (simp_all add: keeps_pairing_def)

lemma dev_views_keep:
  assumes "keeps_pairing f"
  shows "(\<lambda>q. dv_id (pw_dev (on_dev r f w) q)) = (\<lambda>q. dv_id (pw_dev w q))"
    and "(\<lambda>q. dv_state (pw_dev (on_dev r f w) q)) = (\<lambda>q. dv_state (pw_dev w q))"
  using assms by (auto simp: fun_eq_iff)

lemma pair_ok_on_dev: "keeps_pairing f \<Longrightarrow> pair_ok (on_dev r f w) = pair_ok w"
  by (simp only: pair_ok_def dev_views_keep timer_part_frame pw_get_simps)

lemma pair_ok_frame:
  "pair_ok (set_stamp i t w) = pair_ok w" "pair_ok (notifyStateChanged r p n w) = pair_ok w"
  "pair_ok (emit typ r k w) = pair_ok w" "pair_ok (emitRejected r k w) = pair_ok w"
  by (simp_all add: pair_ok_def)

section \<open>The sections preserve the invariant\<close>

lemma on_dev_id [simp]: "on_dev r (\<lambda>d. d) w = w"
  by (simp add: on_dev_def upd_dev_def)

lemma upd_dev_cong: "f (dev_at g r) = h (dev_at g r) \<Longrightarrow> upd_dev r f g = upd_dev r h g"
  by (simp add: upd_dev_def dev_at_def)

text \<open>The transition as an update of one object, and its two outcomes.\<close>

lemma transition_ok:
  "dv_state (pw_dev w r) = e \<Longrightarrow> transition r e n w = (True, on_dev r (SetState n) w)"
  by (simp add: transition_def TransitionState_def on_dev_def pw_dev_def Let_def SetState_def
      cong: upd_dev_cong)

lemma transition_fail: "dv_state (pw_dev w r) \<noteq> e \<Longrightarrow> transition r e n w = (False, w)"
  by (simp add: transition_def TransitionState_def on_dev_def upd_dev_def pw_dev_def dev_at_def)

lemma changeState_eq:
  "changeState r n w =
     (if dv_state (pw_dev w r) = n then w
      else notifyStateChanged r (dv_state (pw_dev w r)) n
             (updatePendingTimerLocked r n (on_dev r (SetState n) w)))"
  by (simp add: changeState_def transition_ok Let_def)

lemma changeStateFrom_eq:
  "changeStateFrom r e n w =
     (if dv_state (pw_dev w r) \<noteq> e then w
      else notifyStateChanged r e n (updatePendingTimerLocked r n (on_dev r (SetState n) w)))"
  by (simp add: changeStateFrom_def transition_ok transition_fail)

lemma transitionPendingToPaired_eq:
  "transitionPendingToPaired r w =
     (if is_pending (dv_state (pw_dev w r))
      then (True, notifyStateChanged r (dv_state (pw_dev w r)) StatePaired
                    (cancelPendingTimerLocked (dv_id (pw_dev w r)) (on_dev r (SetState StatePaired) w)))
      else (False, w))"
  by (simp add: transitionPendingToPaired_def transition_ok is_pending_def Let_def)

lemma dev_views_set:
  "(\<lambda>q. dv_id (pw_dev (on_dev r (SetState s) w) q)) = (\<lambda>q. dv_id (pw_dev w q))"
  "(\<lambda>q. dv_state (pw_dev (on_dev r (SetState s) w) q)) = (\<lambda>q. dv_state (pw_dev w q))(r := s)"
  by (auto simp: fun_eq_iff)

lemma pair_ok_registered: "pair_ok w \<Longrightarrow> reg_Get i (pw_registry w) = Some r \<Longrightarrow> dv_id (pw_dev w r) = i"
  by (auto simp: pair_ok_def timers_ok_def ids_ok_def split: prod.splits)

lemma pair_ok_set_cancel:
  assumes "pair_ok w" "reg_Get i (pw_registry w) = Some r"
  shows "pair_ok (cancelPendingTimerLocked i (on_dev r (SetState s) w))"
  using timers_ok_cancel [OF assms(1) [unfolded pair_ok_def timer_part_def] assms(2), of s]
  by (simp only: pair_ok_def pw_dev_simps(4) pw_get_simps dev_views_set timer_part_cancel)
    (simp add: on_dev_def armed_def)

lemma timer_part_rearm:
  "timer_part (schedulePendingTimerLocked i s (cancelPendingTimerLocked i (on_dev r f w))) =
     ((pw_timers w)(i \<mapsto> \<lparr>pt_expected = s, pt_generation = Suc (pw_next_generation w),
                         pt_delay = pendingTimeout (pw_timeout_secs w) s\<rparr>),
      (pw_generation w)(i \<mapsto> Suc (pw_next_generation w)), Suc (pw_next_generation w),
      insert (i, \<lparr>pt_expected = s, pt_generation = Suc (pw_next_generation w),
                  pt_delay = pendingTimeout (pw_timeout_secs w) s\<rparr>) (armed w),
      pw_timeout_secs w)"
  by (simp add: timer_part_schedule Let_def) (simp add: cancelPendingTimerLocked_def armed_def on_dev_def)

lemma dev_views_rearm:
  "(\<lambda>q. dv_id (pw_dev (schedulePendingTimerLocked i s (cancelPendingTimerLocked i w)) q)) =
     (\<lambda>q. dv_id (pw_dev w q))"
  "(\<lambda>q. dv_state (pw_dev (schedulePendingTimerLocked i s (cancelPendingTimerLocked i w)) q)) =
     (\<lambda>q. dv_state (pw_dev w q))"
  by simp_all

lemma pair_ok_set_arm:
  assumes "pair_ok w" "reg_Get i (pw_registry w) = Some r" "is_pending s"
  shows "pair_ok (schedulePendingTimerLocked i s (cancelPendingTimerLocked i (on_dev r (SetState s) w)))"
  using timers_ok_arm [OF assms(1) [unfolded pair_ok_def timer_part_def] assms(2,3) refl]
  by (simp only: pair_ok_def dev_views_rearm dev_views_set timer_part_rearm pw_get_simps)

lemma pair_ok_update:
  assumes "pair_ok w" "reg_Get i (pw_registry w) = Some r"
  shows "pair_ok (updatePendingTimerLocked r s (on_dev r (SetState s) w))"
  using pair_ok_set_cancel [OF assms] pair_ok_set_arm [OF assms] pair_ok_registered [OF assms]
  by (simp add: updatePendingTimerLocked_def Let_def)

lemma pair_ok_changeState [kcd_inv]:
  "pair_ok w \<Longrightarrow> reg_Get i (pw_registry w) = Some r \<Longrightarrow> pair_ok (changeState r s w)"
  by (simp add: changeState_eq pair_ok_frame pair_ok_update)

lemma pair_ok_changeStateFrom [kcd_inv]:
  "pair_ok w \<Longrightarrow> reg_Get i (pw_registry w) = Some r \<Longrightarrow> pair_ok (changeStateFrom r e s w)"
  by (simp add: changeStateFrom_eq pair_ok_frame pair_ok_update)

lemma pair_ok_paired [kcd_inv]:
  "pair_ok w \<Longrightarrow> reg_Get i (pw_registry w) = Some r \<Longrightarrow> pair_ok (snd (transitionPendingToPaired r w))"
  using pair_ok_set_cancel pair_ok_registered
  by (simp add: transitionPendingToPaired_eq pair_ok_frame)

lemma pair_ok_cancel [kcd_inv]: "pair_ok w \<Longrightarrow> pair_ok (cancelPendingTimerLocked i w)"
  using timers_ok_drop [of _ _ _ "pw_timers w" "pw_generation w" "pw_next_generation w" "armed w" "pw_timeout_secs w"]
  by (simp add: pair_ok_def timer_part_cancel) (simp add: timer_part_def)

lemma pair_ok_stop [kcd_inv]: "pair_ok w \<Longrightarrow> pair_ok (snd (stopPendingTimeout r e w))"
  by (simp add: stopPendingTimeout_def pair_ok_cancel)

section \<open>Sections as steps\<close>

text \<open>
  One step is one section under the plugin's mutex, or one action outside it that leaves the
  pairing state alone: a device method, a stored time stamp, a log entry.
\<close>

definition is_arming :: "pair_effect \<Rightarrow> bool" where
  "is_arming e = (case e of TimerArmed _ _ \<Rightarrow> True | _ \<Rightarrow> False)"

inductive pair_step_on :: "string \<Rightarrow> nat \<Rightarrow> pair_world \<Rightarrow> pair_world \<Rightarrow> bool" for i r where
  change_step: "reg_Get i (pw_registry w) = Some r \<Longrightarrow> n \<noteq> StatePaired \<Longrightarrow>
     pair_step_on i r w (updatePendingTimerLocked r n (on_dev r (SetState n) w))"
| paired_step: "reg_Get i (pw_registry w) = Some r \<Longrightarrow> is_pending (dv_state (pw_dev w r)) \<Longrightarrow>
     pair_step_on i r w (cancelPendingTimerLocked i (on_dev r (SetState StatePaired) w))"
| expire_step: "reg_Get i (pw_registry w) = Some r \<Longrightarrow> pw_timers w i = Some t \<Longrightarrow>
     pair_step_on i r w (cancelPendingTimerLocked i (on_dev r (SetState StateUnpaired) w))"
| stop_step: "pair_step_on i r w (cancelPendingTimerLocked i w)"
| device_step: "keeps_pairing f \<Longrightarrow> pair_step_on i r w (on_dev r f w)"
| stamp_step: "pair_step_on i r w (set_stamp i t w)"
| note_step: "\<not> is_arming e \<Longrightarrow> pair_step_on i r w (note_effect e w)"

inductive_cases pair_step_onE: "pair_step_on i r w w'"

definition pair_step :: "pair_world \<Rightarrow> pair_world \<Rightarrow> bool" where
  "pair_step w w' \<longleftrightarrow> (\<exists>i r. pair_step_on i r w w')"

lemma pair_step_lookup: "pair_step_on i r w w' \<Longrightarrow> reg_Get j (pw_registry w') = reg_Get j (pw_registry w)"
  by (erule pair_step_onE) simp_all

lemma pair_ok_note: "\<not> is_arming e \<Longrightarrow> pair_ok (note_effect e w) = pair_ok w"
proof -
  assume "\<not> is_arming e"
  then have "timer_part (note_effect e w) = timer_part w"
    by (auto simp: timer_part_def armed_def note_effect_def is_arming_def)
  then show ?thesis by (simp add: pair_ok_def)
qed

lemma pair_ok_step_on:
  assumes "pair_ok w" and "pair_step_on i r w w'"
  shows "pair_ok w'"
  using assms(2)
proof (cases rule: pair_step_on.cases)
  case (change_step n)
  then show ?thesis using pair_ok_update [OF assms(1)] by simp
next
  case paired_step
  then show ?thesis using pair_ok_set_cancel [OF assms(1)] by simp
next
  case (expire_step t)
  then show ?thesis using pair_ok_set_cancel [OF assms(1)] by simp
qed (use assms(1) in \<open>simp_all add: pair_ok_cancel pair_ok_on_dev pair_ok_frame pair_ok_note\<close>)

lemma pair_ok_step: "pair_ok w \<Longrightarrow> pair_step w w' \<Longrightarrow> pair_ok w'"
  unfolding pair_step_def using pair_ok_step_on by blast

interpretation pair_inv: invariant_system pair_step pair_ok
  by unfold_locales (rule pair_ok_step)

lemma pair_ok_new:
  assumes "registry_ok rg"
  shows "pair_ok (NewPairPlugin rg c n a b h)"
proof -
  have "ids_ok (\<lambda>i. reg_Get i rg) (\<lambda>r. dv_id (dev_at rg r))"
    using assms by (auto simp: ids_ok_def registry_ok_def reg_Get_def dest: map_of_SomeD)
  then show ?thesis
    by (simp add: pair_ok_def timers_ok_def match_ok_def armed_ok_def timer_part_def armed_def
        NewPairPlugin_def pw_dev_def)
qed

lemma pair_ok_lifecycle: "pair_ok (SetLifecycleCallbacks w) = pair_ok w"
  by (simp add: pair_ok_def SetLifecycleCallbacks_def pw_dev_def timer_part_def armed_def)

section \<open>Becoming paired\<close>

text \<open>A step makes a device paired only out of a pending state.\<close>

lemma step_paired_from_pending:
  assumes "pair_step w w'" and "dv_state (pw_dev w' r) = StatePaired"
  shows "dv_state (pw_dev w r) = StatePaired \<or> is_pending (dv_state (pw_dev w r))"
proof -
  obtain i q where "pair_step_on i q w w'" using assms(1) unfolding pair_step_def by blast
  then show ?thesis using assms(2)
    by (cases rule: pair_step_on.cases) (auto split: if_splits)
qed

text \<open>A registry of one device, for the concrete instances.\<close>

definition one_device :: "device \<Rightarrow> registry" where
  "one_device d = \<lparr>rg_entries = [(dv_id d, 0)], rg_heap = (\<lambda>_. d), rg_next = 1, rg_has_bus = False\<rparr>"

lemma one_device_simps [simp]:
  "reg_Get i (one_device d) = (if i = dv_id d then Some 0 else None)" "dev_at (one_device d) q = d"
  by (simp_all add: one_device_def reg_Get_def dev_at_def)

lemma registry_ok_one [simp]: "registry_ok (one_device d)"
  by (simp add: registry_ok_def map_invar_def one_device_def dev_at_def)

definition lone_world :: "pairing_state \<Rightarrow> pair_world" where
  "lone_world s = NewPairPlugin (one_device (SetState s (NewDevice ''a'' [] []))) None 0 [] True True"

lemma lone_world_simps [simp]:
  "pw_registry (lone_world s) = one_device (SetState s (NewDevice ''a'' [] []))"
  "pw_dev (lone_world s) q = SetState s (NewDevice ''a'' [] [])"
  by (simp_all add: lone_world_def NewPairPlugin_def pw_dev_def)

lemma lone_world_ok: "pair_ok (lone_world s)"
  unfolding lone_world_def by (rule pair_ok_new) simp

lemma dv_id_NewDevice [simp]: "dv_id (NewDevice i n t) = i"
  by (simp add: NewDevice_def)

section \<open>Timers\<close>

lemma pendingTimeout_eq:
  assumes "is_pending s"
  shows "pendingTimeout n s =
    (if n \<le> 0 then 30 * second
     else min (n * second) (if s = StatePairRequested then 30 * second else 25 * second))"
proof (cases "n \<le> 0")
  case False
  let ?s = "if n > 9223372036 then 9223372036 else n"
  have w: "wrap64 (?s * 1000000000) = ?s * 1000000000"
    using False by (intro wrap64_id) (simp add: in_int64_def max_int64_def min_int64_def)
  have m: "max_int64 div 1000000000 = 9223372036" by (simp add: max_int64_def)
  have s: "second = 1000000000" by (simp add: second_def millisecond_def)
  show ?thesis
    using assms False
    unfolding pendingTimeout_def Let_def m s w defaultPendingPairTimeout_def
      androidOutgoingPairWait_def androidIncomingPairWait_def is_pending_def
    by (auto simp: min_def)
qed (simp add: pendingTimeout_def defaultPendingPairTimeout_def)

lemma pendingTimeout_bounds:
  "is_pending s \<Longrightarrow> 0 < pendingTimeout n s \<and> pendingTimeout n s \<le> 30 * second"
  by (auto simp: pendingTimeout_eq second_def millisecond_def min_def)

lemma update_arms:
  "is_pending s \<Longrightarrow> \<exists>t. pw_timers (updatePendingTimerLocked r s w) (dv_id (pw_dev w r)) = Some t \<and>
     TimerArmed (dv_id (pw_dev w r)) t \<in> set (pw_log (updatePendingTimerLocked r s w))"
  by (simp add: updatePendingTimerLocked_def schedulePendingTimerLocked_def note_effect_def Let_def)

end
