(* ===== verification/PairingOps.thy ===== *)
theory PairingOps
  imports PairingProps
begin

text \<open>
  The complete operations of the pair plugin: each is a run of the sections of
  \<open>PairingProps\<close> on its own device; runs of operations; and what each does to the state of its device.
\<close>

section \<open>Operations as runs of sections\<close>

abbreviation runs_on :: "string \<Rightarrow> nat \<Rightarrow> pair_world \<Rightarrow> pair_world \<Rightarrow> bool" where
  "runs_on i r \<equiv> (pair_step_on i r)\<^sup>*\<^sup>*"

lemma runs_on_lookup: "runs_on i r w u \<Longrightarrow> reg_Get j (pw_registry u) = reg_Get j (pw_registry w)"
  by (induction rule: rtranclp_induct) (simp_all add: pair_step_lookup)

lemma runs_on_steps: "runs_on i r w u \<Longrightarrow> pair_step\<^sup>*\<^sup>* w u"
proof (induction rule: rtranclp_induct)
  case (step u v)
  then have "pair_step u v" by (auto simp: pair_step_def)
  then show ?case using step by (meson rtranclp.rtrancl_into_rtrancl)
qed simp

lemma runs_on_then:
  "runs_on i r w u \<Longrightarrow> pair_step_on i r u v \<Longrightarrow> runs_on i r w v"
  by (rule rtranclp.rtrancl_into_rtrancl)

lemma runs_on_dev: "runs_on i r w u \<Longrightarrow> keeps_pairing f \<Longrightarrow> runs_on i r w (on_dev r f u)"
  by (blast intro: runs_on_then device_step)

lemma runs_on_stamp: "runs_on i r w u \<Longrightarrow> runs_on i r w (set_stamp i t u)"
  by (blast intro: runs_on_then stamp_step)

lemma runs_on_note: "runs_on i r w u \<Longrightarrow> \<not> is_arming e \<Longrightarrow> runs_on i r w (note_effect e u)"
  by (blast intro: runs_on_then note_step)

lemma runs_on_cancel: "runs_on i r w u \<Longrightarrow> runs_on i r w (cancelPendingTimerLocked i u)"
  by (blast intro: runs_on_then stop_step)

lemma runs_on_notify: "runs_on i r w u \<Longrightarrow> runs_on i r w (notifyStateChanged r p n u)"
  by (simp add: notifyStateChanged_def Let_def runs_on_note is_arming_def)

lemma runs_on_emit: "runs_on i r w u \<Longrightarrow> runs_on i r w (emit typ r k u)"
  by (simp add: emit_def runs_on_note is_arming_def)

lemma runs_on_rejected: "runs_on i r w u \<Longrightarrow> runs_on i r w (emitRejected r k u)"
  by (simp add: emitRejected_def runs_on_note is_arming_def)

lemma runs_on_clear: "runs_on i r w u \<Longrightarrow> runs_on i r w (clear_dials r u)"
  by (simp add: clear_dials_def runs_on_dev)

lemma runs_on_send: "runs_on i r w u \<Longrightarrow> runs_on i r w (snd (send_to r p u))"
  by (simp add: send_to_def runs_on_dev)

lemma runs_on_reject: "runs_on i r w u \<Longrightarrow> runs_on i r w (sendPairReject r now u)"
  by (simp add: sendPairReject_def runs_on_send)

lemma runs_on_change:
  assumes "runs_on i r w u" "reg_Get i (pw_registry w) = Some r" "n \<noteq> StatePaired"
  shows "runs_on i r w (changeState r n u)"
proof -
  have "pair_step_on i r u (updatePendingTimerLocked r n (on_dev r (SetState n) u))"
    using assms runs_on_lookup [OF assms(1)] by (intro change_step) simp_all
  then show ?thesis
    using assms(1) by (simp add: changeState_eq runs_on_notify runs_on_then)
qed

lemma runs_on_changeFrom:
  assumes "runs_on i r w u" "reg_Get i (pw_registry w) = Some r" "n \<noteq> StatePaired"
  shows "runs_on i r w (changeStateFrom r e n u)"
proof -
  have "pair_step_on i r u (updatePendingTimerLocked r n (on_dev r (SetState n) u))"
    using assms runs_on_lookup [OF assms(1)] by (intro change_step) simp_all
  then show ?thesis
    using assms(1) by (simp add: changeStateFrom_eq runs_on_notify runs_on_then)
qed

lemma runs_on_paired:
  assumes "runs_on i r w u" "reg_Get i (pw_registry w) = Some r" "dv_id (pw_dev u r) = i"
  shows "runs_on i r w (snd (transitionPendingToPaired r u))"
proof (cases "is_pending (dv_state (pw_dev u r))")
  case True
  then have "pair_step_on i r u (cancelPendingTimerLocked i (on_dev r (SetState StatePaired) u))"
    using assms runs_on_lookup [OF assms(1)] by (intro paired_step) simp_all
  then show ?thesis
    using assms True by (simp add: transitionPendingToPaired_eq runs_on_notify runs_on_then)
qed (use assms in \<open>simp add: transitionPendingToPaired_eq\<close>)

lemma runs_on_id: "runs_on i r w u \<Longrightarrow> dv_id (pw_dev u q) = dv_id (pw_dev w q)"
  by (induction rule: rtranclp_induct) (auto elim!: pair_step_onE split: if_splits)

lemmas runs_on_intros =
  runs_on_dev runs_on_stamp runs_on_cancel runs_on_notify runs_on_emit runs_on_rejected
  runs_on_clear runs_on_send runs_on_reject runs_on_change runs_on_changeFrom runs_on_paired

text \<open>What the operations read after a section.\<close>

lemma Send_keeps [simp]:
  "dv_id (snd (Send p d)) = dv_id d" "dv_state (snd (Send p d)) = dv_state d"
  by (simp_all add: Send_def)

lemma pair_views [simp]:
  "pw_dev (clear_dials r w) q = (if q = r then ClearPairDial (ClearEphemeral (pw_dev w r)) else pw_dev w q)"
  "dv_id (pw_dev (snd (send_to r p w)) q) = dv_id (pw_dev w q)"
  "dv_state (pw_dev (snd (send_to r p w)) q) = dv_state (pw_dev w q)"
  "dv_id (pw_dev (changeState r s w) q) = dv_id (pw_dev w q)"
  "dv_state (pw_dev (changeState r s w) q) = (if q = r then s else dv_state (pw_dev w q))"
  "dv_id (ClearPairDial d) = dv_id d" "dv_id (ClearEphemeral d) = dv_id d"
  "dv_state (ClearPairDial d) = dv_state d" "dv_state (ClearEphemeral d) = dv_state d"
  by (simp_all add: clear_dials_def send_to_def changeState_eq ClearPairDial_def ClearEphemeral_def)

lemma send_never_fails [simp]: "\<not> send_failed res"
  by (simp add: send_failed_def split: send_result.splits)

lemma pairingDone_eq:
  "pairingDone r w =
     (if is_pending (dv_state (pw_dev w r))
      then (True, emit TypePairAccepted r []
              (set_stamp (dv_id (pw_dev w r)) None
                (on_dev r ClearPairDial (snd (transitionPendingToPaired r w)))))
      else (False, w))"
  by (simp add: pairingDone_def transitionPendingToPaired_eq)

text \<open>In a sequential run the acceptance of a pending request succeeds.\<close>

lemma AcceptPairing_eq:
  "AcceptPairing r now w =
     (if is_pending (dv_state (pw_dev w r))
      then (None, snd (pairingDone r (snd (send_to r (NewPairPacket (now div millisecond) PairAccept 0)
              (cancelPendingTimerLocked (dv_id (pw_dev w r)) w)))))
      else (Some NoPendingRequest, w))"
proof (cases "is_pending (dv_state (pw_dev w r))")
  case True
  then show ?thesis
    by (auto simp: AcceptPairing_def stopPendingTimeout_def is_pending_def pairingDone_eq Let_def
        split: prod.splits)
       (simp_all add: prod_eq_iff)
qed (auto simp: AcceptPairing_def is_pending_def)

lemma runs_on_done:
  assumes "runs_on i r w u" "reg_Get i (pw_registry w) = Some r" "dv_id (pw_dev u r) = i"
  shows "runs_on i r w (snd (pairingDone r u))"
proof -
  have "dv_id (pw_dev (snd (transitionPendingToPaired r u)) r) = i"
    using runs_on_paired [OF assms] assms runs_on_id [of i r w] by metis
  then show ?thesis using assms
    by (simp add: pairingDone_eq runs_on_intros)
qed

lemma runs_on_accept:
  assumes "runs_on i r w u" "reg_Get i (pw_registry w) = Some r" "dv_id (pw_dev u r) = i"
  shows "runs_on i r w (snd (AcceptPairing r now u))"
  using assms by (simp add: AcceptPairing_eq runs_on_done runs_on_send runs_on_cancel)

text \<open>Every operation is a run of sections of its own device.\<close>

lemma RequestPairing_eq:
  "snd (RequestPairing sha r now w) =
     (if dv_state (pw_dev w r) = StatePaired then w
      else if dv_state (pw_dev w r) = StatePairRequestedByPeer then snd (AcceptPairing r now w)
      else changeState r StatePairRequested
             (snd (send_to r (NewPairPacket (now div millisecond) PairAccept (now div second))
               (set_stamp (dv_id (pw_dev w r)) (Some (now div second)) w))))"
  by (simp add: RequestPairing_def Let_def split: prod.splits option.splits)

lemma case_bool_pair:
  "(case x of (True, w) \<Rightarrow> f w | (False, w) \<Rightarrow> g w) = (if fst x then f (snd x) else g (snd x))"
  by (cases x) (simp split: bool.split)

lemma runs_on_ops:
  assumes g: "reg_Get i (pw_registry w) = Some r" and d: "dv_id (pw_dev w r) = i"
  shows "runs_on i r w (snd (AcceptPairing r now w))"
    and "runs_on i r w (snd (RequestPairing sha r now w))"
    and "runs_on i r w (RejectPairing r now w)"
    and "runs_on i r w (Unpair r now w)"
    and "runs_on i r w (handlePairRequest sha r body now w)"
    and "runs_on i r w (handleUnpairRequest r w)"
proof -
  have refl: "runs_on i r w w" by simp
  show acc: "runs_on i r w (snd (AcceptPairing r now w))" by (rule runs_on_accept [OF refl g d])
  show "runs_on i r w (snd (RequestPairing sha r now w))"
    using acc g d by (simp add: RequestPairing_eq runs_on_intros)
  show "runs_on i r w (RejectPairing r now w)" "runs_on i r w (Unpair r now w)"
    using g d by (simp_all add: RejectPairing_def Unpair_def Let_def sendPairReject_def runs_on_intros)
  show "runs_on i r w (handleUnpairRequest r w)"
    using g d by (cases "dv_state (pw_dev w r)")
      (simp_all add: handleUnpairRequest_def Let_def runs_on_intros)
  have "runs_on i r w (startIncomingRequest sha r u)" if "runs_on i r w u" for u
    using that g by (simp add: startIncomingRequest_def Let_def runs_on_intros)
  moreover have "runs_on i r w (snd (validateRequestTimestamp r ts now w))" for ts
    using g d by (simp add: validateRequestTimestamp_def Let_def runs_on_intros)
  ultimately have "runs_on i r w (case validateRequestTimestamp r ts now w of
      (False, w) \<Rightarrow> w | (True, w) \<Rightarrow> startIncomingRequest sha r w)" for ts
    by (simp add: case_bool_pair)
  then show "runs_on i r w (handlePairRequest sha r body now w)"
    using runs_on_done [OF refl g d] g d
    by (cases "dv_state (pw_dev w r)") (simp_all add: handlePairRequest_def Let_def runs_on_intros)
qed

section \<open>Isolation\<close>

lemma store_frames [simp]:
  "pw_timers (on_dev r f w) = pw_timers w" "pw_stamp (on_dev r f w) = pw_stamp w"
  "pw_timers (set_stamp i t w) = pw_timers w" "pw_stamp (set_stamp i t w) = (pw_stamp w)(i := t)"
  "pw_timers (note_effect e w) = pw_timers w" "pw_stamp (note_effect e w) = pw_stamp w"
  "pw_timers (cancelPendingTimerLocked i w) = (pw_timers w)(i := None)"
  "pw_stamp (cancelPendingTimerLocked i w) = pw_stamp w"
  "j \<noteq> dv_id (pw_dev w r) \<Longrightarrow> pw_timers (updatePendingTimerLocked r s w) j = pw_timers w j"
  "pw_stamp (updatePendingTimerLocked r s w) = pw_stamp w"
  by (simp_all add: on_dev_def set_stamp_def note_effect_def cancelPendingTimerLocked_def
      updatePendingTimerLocked_def schedulePendingTimerLocked_def Let_def)

lemma runs_on_isolated:
  assumes "runs_on i r w u" and "dv_id (pw_dev w r) = i"
  shows "(\<forall>q. q \<noteq> r \<longrightarrow> pw_dev u q = pw_dev w q) \<and>
    (\<forall>j. j \<noteq> i \<longrightarrow> pw_timers u j = pw_timers w j \<and> pw_stamp u j = pw_stamp w j)"
  using assms(1)
proof (induction rule: rtranclp_induct)
  case (step u v)
  have "dv_id (pw_dev u r) = i" using runs_on_id [OF step(1)] assms(2) by simp
  then show ?case using step(2,3) by (auto elim!: pair_step_onE)
qed simp

section \<open>Runs of operations\<close>

text \<open>
  What happens to the plugin: a user's command, a pair packet, a timer callback that was armed
  (it may run even after it was stopped), or any method of a device that leaves the pairing
  state alone.
\<close>

datatype pair_op =
    UserAccept string int
  | UserRequest string int
  | UserReject string int
  | UserUnpair string int
  | PeerPacket string packet int
  | TimerFires string pending_timer int
  | SessionOp string device_op

definition neutral :: "device_op \<Rightarrow> bool" where
  "neutral op = (case op of DoSetState _ \<Rightarrow> False | DoTransition _ _ \<Rightarrow> False | _ \<Rightarrow> True)"

definition on_registered :: "string \<Rightarrow> (nat \<Rightarrow> pair_world \<Rightarrow> pair_world) \<Rightarrow> pair_world \<Rightarrow> pair_world" where
  "on_registered i f w = (case reg_Get i (pw_registry w) of None \<Rightarrow> w | Some r \<Rightarrow> f r w)"

fun pair_op_step :: "(string \<Rightarrow> string) \<Rightarrow> pair_op \<Rightarrow> pair_world \<Rightarrow> pair_world" where
  "pair_op_step sha (UserAccept i now) w = on_registered i (\<lambda>r w. snd (AcceptPairing r now w)) w"
| "pair_op_step sha (UserRequest i now) w = on_registered i (\<lambda>r w. snd (RequestPairing sha r now w)) w"
| "pair_op_step sha (UserReject i now) w = on_registered i (\<lambda>r w. RejectPairing r now w) w"
| "pair_op_step sha (UserUnpair i now) w = on_registered i (\<lambda>r w. Unpair r now w) w"
| "pair_op_step sha (PeerPacket i p now) w = snd (pair_Handle sha i p now w)"
| "pair_op_step sha (TimerFires i t now) w =
     (if TimerArmed i t \<in> set (pw_log w)
      then expirePending i (pt_expected t) (pt_generation t) now w else w)"
| "pair_op_step sha (SessionOp i op) w =
     (if neutral op then on_registered i (\<lambda>r w. on_dev r (\<lambda>d. fst (device_step op d)) w) w else w)"

fun pair_op_run :: "(string \<Rightarrow> string) \<Rightarrow> pair_op list \<Rightarrow> pair_world \<Rightarrow> pair_world" where
  "pair_op_run sha [] w = w"
| "pair_op_run sha (op # ops) w = pair_op_run sha ops (pair_op_step sha op w)"

fun op_device :: "pair_op \<Rightarrow> string" where
  "op_device (UserAccept i _) = i"
| "op_device (UserRequest i _) = i"
| "op_device (UserReject i _) = i"
| "op_device (UserUnpair i _) = i"
| "op_device (PeerPacket i _ _) = i"
| "op_device (TimerFires i _ _) = i"
| "op_device (SessionOp i _) = i"

lemma session_keeps [simp]:
  "dv_id (fst (drop_conn c d)) = dv_id d" "dv_state (fst (drop_conn c d)) = dv_state d"
  by (simp_all add: drop_conn_def close_done_def Let_def)

lemma disconnectConn_keeps [simp]:
  "dv_id (fst (disconnectConn c now d)) = dv_id d" "dv_state (fst (disconnectConn c now d)) = dv_state d"
  by (simp_all add: disconnectConn_def split: option.splits)

lemma writer_keeps [simp]:
  "dv_id (fst (snd (writer_step r now d))) = dv_id d" "dv_state (fst (snd (writer_step r now d))) = dv_state d"
  by (cases r now d rule: writer_step_cases; simp)+

lemma Connect_keeps [simp]:
  "dv_id (fst (Connect c hk now d)) = dv_id d" "dv_state (fst (Connect c hk now d)) = dv_state d"
proof -
  have b: "dv_id (fst (Connect_begin c hk d)) = dv_id d" "dv_state (fst (Connect_begin c hk d)) = dv_state d"
    by (simp_all add: Connect_begin_def close_done_def Let_def split: option.splits)
  have f: "dv_id (fst (Connect_finish c now e)) = dv_id e" "dv_state (fst (Connect_finish c now e)) = dv_state e" for e
    by (simp_all add: Connect_finish_def Let_def split: option.splits)
  show "dv_id (fst (Connect c hk now d)) = dv_id d" "dv_state (fst (Connect c hk now d)) = dv_state d"
    by (simp_all add: Connect_def case_prod_beta b f)
qed

lemma Disconnect_keeps [simp]:
  "dv_id (fst (Disconnect now d)) = dv_id d" "dv_state (fst (Disconnect now d)) = dv_state d"
  by (simp_all add: Disconnect_def Let_def split: option.splits)

lemma neutral_op_keeps:
  "neutral op \<Longrightarrow> dv_id (fst (device_step op d)) = dv_id d"
  "neutral op \<Longrightarrow> dv_state (fst (device_step op d)) = dv_state d"
  by (cases op; simp add: neutral_def device_setters Let_def case_prod_beta)+

lemma neutral_keeps: "neutral op \<Longrightarrow> keeps_pairing (\<lambda>d. fst (device_step op d))"
  by (simp add: keeps_pairing_def neutral_op_keeps)

lemma live_generation:
  assumes "pair_ok w" "TimerArmed i t \<in> set (pw_log w)"
    and "(case pw_generation w i of None \<Rightarrow> 0 | Some g \<Rightarrow> g) = pt_generation t"
  shows "pw_timers w i = Some t"
proof -
  have m: "match_ok (\<lambda>i. reg_Get i (pw_registry w)) (\<lambda>r. dv_state (pw_dev w r)) (pw_timers w) (armed w)"
    and g: "pw_generation w i = map_option pt_generation (pw_timers w i)"
    and a: "armed_ok (pw_next_generation w) (armed w) (pw_timeout_secs w)"
    using assms(1) by (simp_all add: pair_ok_def timers_ok_def timer_part_def)
  have t: "(i, t) \<in> armed w" using assms(2) by (simp add: armed_def)
  then have "0 < pt_generation t" using a unfolding armed_ok_def by blast
  then obtain u where u: "pw_timers w i = Some u" "pt_generation u = pt_generation t"
    using assms(3) g by (cases "pw_timers w i") auto
  moreover have "(i, u) \<in> armed w" using m u(1) unfolding match_ok_def by blast
  ultimately show ?thesis using a t unfolding armed_ok_def by blast
qed

lemma live_timer_state:
  assumes "pair_ok w" "pw_timers w i = Some t"
  shows "pw_generation w i = Some (pt_generation t)"
    and "\<exists>r. reg_Get i (pw_registry w) = Some r \<and> dv_state (pw_dev w r) = pt_expected t"
  using assms by (auto simp: pair_ok_def timers_ok_def timer_part_def match_ok_def)

text \<open>The callback of a live timer.\<close>

lemma expire_live:
  assumes "pair_ok w" "pw_timers w i = Some t" "reg_Get i (pw_registry w) = Some r"
  shows "expirePending i (pt_expected t) (pt_generation t) now w =
     emitRejected r ''timeout'' (sendPairReject r now (clear_dials r
       (notifyStateChanged r (pt_expected t) StateUnpaired
         (set_stamp i None (cancelPendingTimerLocked i (on_dev r (SetState StateUnpaired) w))))))"
  using live_timer_state [OF assms(1,2)] assms(3) by (simp add: expirePending_def transition_ok)

lemma runs_on_expire:
  assumes "pair_ok w" "TimerArmed i t \<in> set (pw_log w)" "reg_Get i (pw_registry w) = Some r"
  shows "runs_on i r w (expirePending i (pt_expected t) (pt_generation t) now w)"
proof (cases "pw_timers w i = Some t")
  case True
  have "runs_on i r w (cancelPendingTimerLocked i (on_dev r (SetState StateUnpaired) w))"
    by (rule r_into_rtranclp, rule expire_step [OF assms(3) True])
  then show ?thesis
    by (simp add: expire_live [OF assms(1) True assms(3)] runs_on_intros)
next
  case False
  then have "(case pw_generation w i of None \<Rightarrow> 0 | Some g \<Rightarrow> g) \<noteq> pt_generation t"
    using live_generation [OF assms(1,2)] by blast
  then show ?thesis by (simp add: expirePending_def)
qed

lemma op_runs:
  assumes "pair_ok w"
  shows "(case reg_Get (op_device op) (pw_registry w) of
      None \<Rightarrow> \<forall>q. pair_op_step sha op w = w
    | Some r \<Rightarrow> runs_on (op_device op) r w (pair_op_step sha op w))"
proof (cases "reg_Get (op_device op) (pw_registry w)")
  case None
  have "pair_op_step sha op w = w"
  proof (cases op)
    case (TimerFires i t now)
    have "pw_timers w i \<noteq> Some t" using None TimerFires live_timer_state(2) [OF assms, of i t] by auto
    then show ?thesis using TimerFires live_generation [OF assms, of i t] by (auto simp: expirePending_def)
  qed (use None in \<open>auto simp: on_registered_def pair_Handle_def split: option.splits\<close>)
  then show ?thesis using None by simp
next
  case (Some r)
  have d: "dv_id (pw_dev w r) = op_device op" using pair_ok_registered [OF assms Some] .
  have "runs_on (op_device op) r w (pair_op_step sha op w)"
  proof (cases op)
    case (PeerPacket i p now)
    then show ?thesis using Some runs_on_ops [OF Some d]
      by (auto simp: pair_Handle_def split: option.splits)
  next
    case (TimerFires i t now)
    then show ?thesis using runs_on_expire [OF assms _ Some] by simp
  next
    case (SessionOp i op)
    then show ?thesis using Some by (auto simp: on_registered_def intro!: runs_on_dev neutral_keeps)
  qed (use Some runs_on_ops [OF Some d] in \<open>simp_all add: on_registered_def\<close>)
  then show ?thesis using Some by simp
qed

lemma op_pair_ok:
  assumes "pair_ok w" shows "pair_ok (pair_op_step sha op w)"
proof (cases "reg_Get (op_device op) (pw_registry w)")
  case None
  then show ?thesis using op_runs [OF assms, where op = op and sha = sha] assms by simp
next
  case (Some r)
  then show ?thesis
    using op_runs [OF assms, where op = op and sha = sha] pair_inv.run_inv [OF runs_on_steps assms] by simp
qed

lemma op_lookup:
  assumes "pair_ok w"
  shows "reg_Get j (pw_registry (pair_op_step sha op w)) = reg_Get j (pw_registry w)"
  using op_runs [OF assms, where op = op and sha = sha] runs_on_lookup by (auto split: option.splits)

lemma pair_run_ok: "pair_ok w \<Longrightarrow> pair_ok (pair_op_run sha ops w)"
  by (induction ops arbitrary: w) (simp_all add: op_pair_ok)

lemma pair_run_lookup:
  "pair_ok w \<Longrightarrow> reg_Get j (pw_registry (pair_op_run sha ops w)) = reg_Get j (pw_registry w)"
  by (induction ops arbitrary: w) (simp_all add: op_pair_ok op_lookup)

lemma op_isolated:
  assumes "pair_ok w" "reg_Get i (pw_registry w) = Some r" "op_device op \<noteq> i"
  shows "pw_dev (pair_op_step sha op w) r = pw_dev w r \<and>
    pw_timers (pair_op_step sha op w) i = pw_timers w i \<and> pw_stamp (pair_op_step sha op w) i = pw_stamp w i"
proof (cases "reg_Get (op_device op) (pw_registry w)")
  case None
  then show ?thesis using op_runs [OF assms(1), where op = op and sha = sha] by simp
next
  case (Some q)
  have q: "dv_id (pw_dev w q) = op_device op" "dv_id (pw_dev w r) = i"
    using pair_ok_registered [OF assms(1)] Some assms(2) by blast+
  then have "r \<noteq> q" using assms(3) by auto
  then show ?thesis
    using op_runs [OF assms(1), where op = op and sha = sha] Some
      runs_on_isolated [OF _ q(1), of "pair_op_step sha op w"] assms(3) by auto
qed

lemma op_other:
  "pair_ok w \<Longrightarrow> reg_Get i (pw_registry w) = Some r \<Longrightarrow> op_device op \<noteq> i \<Longrightarrow>
     pw_dev (pair_op_step sha op w) r = pw_dev w r"
  using op_isolated by blast

text \<open>
  Pairings are isolated: no sequence of operations for other devices (their packets, their
  timers, the user's commands on them) touches a device's object, its timer or its stored time
  stamp.
\<close>
theorem pairing_isolated:
  assumes "registry_ok rg" and "\<forall>op \<in> set ops. op_device op \<noteq> i"
    and "reg_Get i rg = Some r"
  shows "let w = NewPairPlugin rg c secs mode save bus; w' = pair_op_run sha ops w
         in pw_dev w' r = pw_dev w r \<and> pw_timers w' i = pw_timers w i \<and> pw_stamp w' i = pw_stamp w i"
proof -
  have "pw_dev (pair_op_run sha ops w) r = pw_dev w r \<and>
      pw_timers (pair_op_run sha ops w) i = pw_timers w i \<and>
      pw_stamp (pair_op_run sha ops w) i = pw_stamp w i"
    if "pair_ok w" "reg_Get i (pw_registry w) = Some r" for w
    using that assms(2)
  proof (induction ops arbitrary: w)
    case (Cons op ops)
    let ?v = "pair_op_step sha op w"
    have "pw_dev ?v r = pw_dev w r \<and> pw_timers ?v i = pw_timers w i \<and> pw_stamp ?v i = pw_stamp w i"
      using Cons.prems by (intro op_isolated) simp_all
    moreover have "pair_ok ?v" "reg_Get i (pw_registry ?v) = Some r"
      using Cons.prems op_pair_ok op_lookup by auto
    ultimately show ?case using Cons.IH [of ?v] Cons.prems(3) by simp
  qed simp
  from this [OF pair_ok_new [OF assms(1)]] show ?thesis
    using assms(3) by (simp add: Let_def NewPairPlugin_def)
qed

theorem pairing_isolated_witness:
  "pw_dev (pair_op_run (\<lambda>s. s) [UserRequest ''b'' 0, UserAccept ''b'' 1]
     (NewPairPlugin (one_device (NewDevice ''a'' [] [])) None 0 [] True True)) 0 = NewDevice ''a'' [] []"
  using pairing_isolated [of "one_device (NewDevice ''a'' [] [])"
      "[UserRequest ''b'' 0, UserAccept ''b'' 1]" "''a''" 0 None 0 "[]" True True "\<lambda>s. s"]
  by (simp add: Let_def) (simp add: NewPairPlugin_def pw_dev_def)

section \<open>What an operation does to the state\<close>

text \<open>
  The effect of the code on the pairing state alone, in short: a lemma for each operation below.  A pair packet carries its
  body, and whether the plugin would take a new request now.
\<close>

datatype pair_event =
    EvAccept
  | EvRequest
  | EvReject
  | EvUnpair
  | EvPeerPairs bool
  | EvPeerUnpairs
  | EvDeadline
  | EvOther

fun next_state :: "pair_event \<Rightarrow> pairing_state \<Rightarrow> pairing_state" where
  "next_state EvAccept s = (if is_pending s then StatePaired else s)"
| "next_state EvRequest s =
     (if s = StatePaired \<or> s = StatePairRequestedByPeer then StatePaired else StatePairRequested)"
| "next_state EvReject s = StateUnpaired"
| "next_state EvUnpair s = StateUnpaired"
| "next_state (EvPeerPairs admitted) s =
     (if s = StatePairRequested then StatePaired
      else if s \<noteq> StatePairRequestedByPeer \<and> (\<nexists>i. s = StateOther i) \<and> admitted
      then StatePairRequestedByPeer else s)"
| "next_state EvPeerUnpairs s = (if is_pending s \<or> s = StatePaired then StateUnpaired else s)"
| "next_state EvDeadline s = StateUnpaired"
| "next_state EvOther s = s"

definition admits :: "pair_world \<Rightarrow> nat \<Rightarrow> int \<Rightarrow> int \<Rightarrow> bool" where
  "admits w r timestamp now \<longleftrightarrow>
     (dv_state (pw_dev w r) = StateUnknown \<or> pw_accept_requests w \<noteq> ''never'') \<and>
     (if timestamp \<le> 0 then dv_peer_proto (pw_dev w r) < ProtocolVersion
      else \<bar>now div second - timestamp\<bar> \<le> 1800)"

fun event_of :: "pair_op \<Rightarrow> nat \<Rightarrow> pair_world \<Rightarrow> pair_event" where
  "event_of (UserAccept _ _) r w = EvAccept"
| "event_of (UserRequest _ _) r w = EvRequest"
| "event_of (UserReject _ _) r w = EvReject"
| "event_of (UserUnpair _ _) r w = EvUnpair"
| "event_of (PeerPacket _ p now) r w =
     (case Option.bind (pk_body p) dec_pair_body of
        None \<Rightarrow> EvOther
      | Some b \<Rightarrow> if pb_pair b then EvPeerPairs (admits w r (pb_timestamp b) now) else EvPeerUnpairs)"
| "event_of (TimerFires i t _) r w = (if pw_timers w i = Some t then EvDeadline else EvOther)"
| "event_of (SessionOp _ _) r w = EvOther"

lemma state_transition_paired:
  "dv_state (pw_dev (snd (transitionPendingToPaired r w)) r) =
     (if is_pending (dv_state (pw_dev w r)) then StatePaired else dv_state (pw_dev w r))"
  by (simp add: transitionPendingToPaired_eq)

lemma state_done [simp]:
  "dv_state (pw_dev (snd (pairingDone r w)) r) =
     (if is_pending (dv_state (pw_dev w r)) then StatePaired else dv_state (pw_dev w r))"
  by (simp add: pairingDone_eq state_transition_paired)

lemma state_reject [simp]: "dv_state (pw_dev (sendPairReject r now w) q) = dv_state (pw_dev w q)"
  by (simp add: sendPairReject_def)

lemma state_validate:
  "dv_state (pw_dev (snd (validateRequestTimestamp r ts now w)) q) = dv_state (pw_dev w q)"
  "fst (validateRequestTimestamp r ts now w) \<longleftrightarrow>
     (if ts \<le> 0 then dv_peer_proto (pw_dev w r) < ProtocolVersion else \<bar>now div second - ts\<bar> \<le> 1800)"
  by (auto simp: validateRequestTimestamp_def AllowedTimestampDiff_def Let_def)

lemma state_incoming: "dv_state (pw_dev (startIncomingRequest sha r w) r) = StatePairRequestedByPeer"
  by (simp add: startIncomingRequest_def Let_def)

lemma state_ops:
  "dv_state (pw_dev (snd (AcceptPairing r now w)) r) = next_state EvAccept (dv_state (pw_dev w r))"
  "dv_state (pw_dev (snd (RequestPairing sha r now w)) r) = next_state EvRequest (dv_state (pw_dev w r))"
  "dv_state (pw_dev (RejectPairing r now w) r) = StateUnpaired"
  "dv_state (pw_dev (Unpair r now w) r) = StateUnpaired"
  "dv_state (pw_dev (handleUnpairRequest r w) r) = next_state EvPeerUnpairs (dv_state (pw_dev w r))"
  "dv_state (pw_dev (handlePairRequest sha r b now w) r) =
     next_state (EvPeerPairs (admits w r (pb_timestamp b) now)) (dv_state (pw_dev w r))"
proof -
  show "dv_state (pw_dev (snd (AcceptPairing r now w)) r) = next_state EvAccept (dv_state (pw_dev w r))"
    by (simp add: AcceptPairing_eq)
  show "dv_state (pw_dev (snd (RequestPairing sha r now w)) r) = next_state EvRequest (dv_state (pw_dev w r))"
    by (auto simp: RequestPairing_eq AcceptPairing_eq is_pending_def)
  show "dv_state (pw_dev (RejectPairing r now w) r) = StateUnpaired"
    "dv_state (pw_dev (Unpair r now w) r) = StateUnpaired"
    by (simp_all add: RejectPairing_def Unpair_def Let_def)
  show "dv_state (pw_dev (handleUnpairRequest r w) r) = next_state EvPeerUnpairs (dv_state (pw_dev w r))"
    by (cases "dv_state (pw_dev w r)") (simp_all add: handleUnpairRequest_def is_pending_def Let_def)
  show "dv_state (pw_dev (handlePairRequest sha r b now w) r) =
     next_state (EvPeerPairs (admits w r (pb_timestamp b) now)) (dv_state (pw_dev w r))"
    by (cases "dv_state (pw_dev w r)")
      (simp_all add: handlePairRequest_def is_pending_def admits_def case_bool_pair state_validate
        state_incoming Let_def)
qed

lemma op_state:
  assumes "pair_ok w" and "reg_Get (op_device op) (pw_registry w) = Some r"
  shows "dv_state (pw_dev (pair_op_step sha op w) r) = next_state (event_of op r w) (dv_state (pw_dev w r))"
proof (cases op)
  case (PeerPacket i p now)
  then show ?thesis using assms(2) state_ops
    by (auto simp: pair_Handle_def split: option.splits)
next
  case (TimerFires i t now)
  show ?thesis
  proof (cases "pw_timers w i = Some t")
    case True
    then have "TimerArmed i t \<in> set (pw_log w)"
      using assms(1) by (auto simp: pair_ok_def timers_ok_def timer_part_def match_ok_def armed_def)
    then show ?thesis
      using TimerFires True assms(2) expire_live [OF assms(1) True] by simp
  next
    case False
    then have "TimerArmed i t \<in> set (pw_log w) \<Longrightarrow> expirePending i (pt_expected t) (pt_generation t) now w = w"
      using live_generation [OF assms(1), of i t] by (auto simp: expirePending_def)
    then show ?thesis using TimerFires False by simp
  qed
next
  case (SessionOp i op)
  then show ?thesis using assms(2) by (auto simp: on_registered_def neutral_op_keeps)
qed (use assms(2) in \<open>simp_all add: on_registered_def state_ops del: next_state.simps(1,2)\<close>)

end
