(* ===== verification/PairingProtocol.thy ===== *)
theory PairingProtocol
  imports PairingOps
begin

text \<open>
  What the pairing machine guarantees over whole runs: no device is paired without a local
  command, every request has a deadline, what happens at the deadline, and the exchange between
  two daemons.
\<close>

section \<open>Consent\<close>

text \<open>The states in which the local user has asked for a pairing.\<close>

definition consented :: "pairing_state \<Rightarrow> bool" where
  "consented s \<longleftrightarrow> s = StatePaired \<or> s = StatePairRequested"

fun local_command :: "pair_event \<Rightarrow> bool" where
  "local_command EvAccept = True"
| "local_command EvRequest = True"
| "local_command _ = False"

lemma next_state_consent:
  "\<not> consented s \<Longrightarrow> consented (next_state e s) \<Longrightarrow> local_command e"
  by (cases e) (auto simp: consented_def is_pending_def split: if_splits)

fun user_asks :: "string \<Rightarrow> pair_op \<Rightarrow> bool" where
  "user_asks i (UserAccept j _) = (i = j)"
| "user_asks i (UserRequest j _) = (i = j)"
| "user_asks i _ = False"

lemma event_user: "local_command (event_of op r w) \<Longrightarrow> user_asks (op_device op) op"
  by (cases op) (auto split: option.splits if_splits)

lemma consent_run:
  assumes "pair_ok w" "reg_Get i (pw_registry w) = Some r" "\<not> consented (dv_state (pw_dev w r))"
    and "\<forall>op \<in> set ops. \<not> user_asks i op"
  shows "\<not> consented (dv_state (pw_dev (pair_op_run sha ops w) r))"
  using assms
proof (induction ops arbitrary: w)
  case (Cons op ops)
  let ?v = "pair_op_step sha op w"
  have id: "dv_id (pw_dev w r) = i" using pair_ok_registered [OF Cons.prems(1,2)] .
  have "\<not> consented (dv_state (pw_dev ?v r))"
  proof (cases "op_device op = i")
    case True
    then have "dv_state (pw_dev ?v r) = next_state (event_of op r w) (dv_state (pw_dev w r))"
      using op_state [OF Cons.prems(1)] Cons.prems(2) by simp
    then show ?thesis
      using next_state_consent [OF Cons.prems(3)] event_user [of op r w] Cons.prems(4) True by auto
  next
    case False
    then show ?thesis using op_other [OF Cons.prems(1,2)] Cons.prems(3) by simp
  qed
  then show ?case using Cons op_pair_ok op_lookup by simp
qed simp

lemma next_state_peer:
  "s \<noteq> StatePaired \<Longrightarrow> s \<noteq> StatePairRequestedByPeer \<Longrightarrow>
     next_state e s \<in> {StatePaired, StatePairRequestedByPeer} \<Longrightarrow> e = EvAccept \<or> (\<exists>b. e = EvPeerPairs b)"
  by (cases e) (auto simp: is_pending_def split: if_splits)

fun peer_asks :: "string \<Rightarrow> pair_op \<Rightarrow> bool" where
  "peer_asks i (PeerPacket j p _) =
     (i = j \<and> (case Option.bind (pk_body p) dec_pair_body of None \<Rightarrow> False | Some b \<Rightarrow> pb_pair b))"
| "peer_asks i _ = False"

fun is_accept :: "pair_op \<Rightarrow> bool" where
  "is_accept (UserAccept _ _) = True"
| "is_accept _ = False"

lemma event_peer: "event_of op r w = EvPeerPairs b \<Longrightarrow> peer_asks (op_device op) op"
  by (cases op) (auto split: option.splits if_splits)

lemma event_accept: "event_of op r w = EvAccept \<Longrightarrow> is_accept op"
  by (cases op) (auto split: option.splits if_splits)

lemma peer_run:
  assumes "pair_ok w" "reg_Get i (pw_registry w) = Some r"
    and "dv_state (pw_dev w r) \<notin> {StatePaired, StatePairRequestedByPeer}"
    and "\<forall>op \<in> set ops. \<not> is_accept op \<and> \<not> peer_asks i op"
  shows "dv_state (pw_dev (pair_op_run sha ops w) r) \<notin> {StatePaired, StatePairRequestedByPeer}"
  using assms
proof (induction ops arbitrary: w)
  case (Cons op ops)
  let ?v = "pair_op_step sha op w"
  have "dv_state (pw_dev ?v r) \<notin> {StatePaired, StatePairRequestedByPeer}"
  proof (cases "op_device op = i")
    case True
    then have "dv_state (pw_dev ?v r) = next_state (event_of op r w) (dv_state (pw_dev w r))"
      using op_state [OF Cons.prems(1)] Cons.prems(2) by simp
    moreover have "event_of op r w \<noteq> EvAccept" "event_of op r w \<noteq> EvPeerPairs b" for b
      using event_accept event_peer Cons.prems(4) True by fastforce+
    ultimately show ?thesis
      using next_state_peer [of "dv_state (pw_dev w r)" "event_of op r w"] Cons.prems(3) by auto
  next
    case False
    then show ?thesis using op_other [OF Cons.prems(1,2)] Cons.prems(3) by simp
  qed
  then show ?case using Cons op_pair_ok op_lookup by simp
qed simp

text \<open>
  C3. No one pairs alone.  Starting from a device that is unpaired, whatever operations follow,
  it is paired afterwards only if the local user asked for it (by a request or by accepting);
  and as long as acceptance goes through the request command, which accepts when the peer has
  asked, only if the peer sent a pair packet too.
\<close>
theorem pairing_needs_both_sides:
  assumes "registry_ok rg" and "reg_Get i rg = Some r" and "dv_state (dev_at rg r) = StateUnpaired"
    and "dv_state (pw_dev (pair_op_run sha ops (NewPairPlugin rg c secs mode save bus)) r) = StatePaired"
  shows "(\<exists>op \<in> set ops. user_asks i op) \<and>
    ((\<exists>op \<in> set ops. is_accept op) \<or> (\<exists>op \<in> set ops. peer_asks i op))"
proof -
  let ?w = "NewPairPlugin rg c secs mode save bus"
  have w: "pair_ok ?w" "reg_Get i (pw_registry ?w) = Some r" "dv_state (pw_dev ?w r) = StateUnpaired"
    using pair_ok_new [OF assms(1)] assms(2,3) by (simp_all add: NewPairPlugin_def pw_dev_def)
  show ?thesis
    using consent_run [OF w(1,2), of ops sha] peer_run [OF w(1,2), of ops sha] w(3) assms(4)
    by (auto simp: consented_def)
qed

theorem pairing_needs_both_sides_witness:
  "\<exists>op \<in> set [UserRequest ''a'' 0, PeerPacket ''a'' (NewPairPacket 0 True 0) 1]. peer_asks ''a'' op"
proof -
  let ?ops = "[UserRequest ''a'' 0, PeerPacket ''a'' (NewPairPacket 0 True 0) 1]"
  let ?d = "NewDevice ''a'' [] []"
  let ?w = "NewPairPlugin (one_device ?d) None 0 [] True True"
  have d: "dv_state ?d = StateUnpaired" by (simp add: NewDevice_def)
  have w: "pair_ok ?w" "reg_Get ''a'' (pw_registry ?w) = Some 0" "pw_dev ?w 0 = ?d"
    using pair_ok_new by (simp_all add: NewPairPlugin_def pw_dev_def)
  let ?v = "pair_op_step (\<lambda>s. s) (UserRequest ''a'' 0) ?w"
  have v: "pair_ok ?v" "reg_Get ''a'' (pw_registry ?v) = Some 0"
    using op_pair_ok [OF w(1)] op_lookup [OF w(1)] w(2) by (simp_all only:)
  have s: "dv_state (pw_dev ?v 0) = StatePairRequested"
    using w d op_state [OF w(1), of "UserRequest ''a'' 0" 0 "\<lambda>s. s"] by simp
  have "in_int64 0" by (simp add: in_int64_def max_int64_def min_int64_def)
  then have "dv_state (pw_dev (pair_op_run (\<lambda>s. s) ?ops ?w) 0) = StatePaired"
    using op_state [OF v(1), of "PeerPacket ''a'' (NewPairPacket 0 True 0) 1" 0 "\<lambda>s. s"] v s
    by (simp add: dec_enc_pair_body)
  then show ?thesis
    using pairing_needs_both_sides [of "one_device ?d" "''a''" 0 "\<lambda>s. s" ?ops None 0 "[]" True True] d by simp
qed

text \<open>
  The acceptance itself does not check who asked: a device with an outgoing request of our
  own becomes paired when that request is accepted locally, with no packet from the peer.
\<close>
theorem own_request_can_be_accepted:
  assumes "dv_state (pw_dev w r) = StatePairRequested"
  shows "fst (AcceptPairing r now w) = None \<and>
    dv_state (pw_dev (snd (AcceptPairing r now w)) r) = StatePaired"
  using assms by (simp add: state_ops is_pending_def) (simp add: AcceptPairing_eq is_pending_def)

theorem own_request_can_be_accepted_witness:
  "dv_state (pw_dev (snd (AcceptPairing 0 7 (lone_world StatePairRequested))) 0) = StatePaired"
  using own_request_can_be_accepted [of "lone_world StatePairRequested" 0 7] by simp

section \<open>Deadlines\<close>

definition has_deadline :: "string \<Rightarrow> nat \<Rightarrow> pair_world \<Rightarrow> bool" where
  "has_deadline i r w \<longleftrightarrow> (is_pending (dv_state (pw_dev w r)) \<longrightarrow> pw_timers w i \<noteq> None)"

lemma timers_notify [simp]:
  "pw_timers (notifyStateChanged r p n w) = pw_timers w" "pw_timers (emit typ r k w) = pw_timers w"
  "pw_timers (sendPairReject r now w) = pw_timers w" "pw_timers (snd (send_to r q w)) = pw_timers w"
  by (simp_all add: notifyStateChanged_def emit_def sendPairReject_def send_to_def Let_def)

lemma has_deadline_change:
  "has_deadline i r w \<Longrightarrow> dv_id (pw_dev w r) = i \<Longrightarrow> has_deadline i r (changeState r s w)"
  using update_arms [of s r "on_dev r (SetState s) w"]
  by (auto simp: has_deadline_def changeState_eq)

lemma has_deadline_ops:
  assumes "has_deadline i r w" "dv_id (pw_dev w r) = i"
  shows "has_deadline i r (snd (AcceptPairing r now w))"
    and "has_deadline i r (snd (RequestPairing sha r now w))"
    and "has_deadline i r (RejectPairing r now w)"
    and "has_deadline i r (Unpair r now w)"
    and "has_deadline i r (handlePairRequest sha r b now w)"
    and "has_deadline i r (handleUnpairRequest r w)"
proof -
  have keep: "has_deadline i r (changeState r s (snd (send_to r p (set_stamp j t w))))" for p s j t
    using assms by (intro has_deadline_change) (simp_all add: has_deadline_def)
  show acc: "has_deadline i r (snd (AcceptPairing r now w))"
    using assms(1) by (auto simp: has_deadline_def state_ops is_pending_def)
  show "has_deadline i r (snd (RequestPairing sha r now w))"
    using assms(1) acc keep by (simp add: RequestPairing_eq)
  show "has_deadline i r (RejectPairing r now w)" "has_deadline i r (Unpair r now w)"
    by (simp_all add: has_deadline_def state_ops is_pending_def)
  show "has_deadline i r (handleUnpairRequest r w)"
    using assms(1)
    by (cases "dv_state (pw_dev w r)") (auto simp: has_deadline_def state_ops is_pending_def handleUnpairRequest_def)
  have "has_deadline i r (startIncomingRequest sha r u)"
    if "has_deadline i r u" "dv_id (pw_dev u r) = i" for u
    using has_deadline_change [OF that, of StatePairRequestedByPeer]
    by (simp add: startIncomingRequest_def Let_def has_deadline_def)
  moreover have "has_deadline i r (snd (validateRequestTimestamp r ts now w))" for ts
    using assms by (simp add: validateRequestTimestamp_def has_deadline_def Let_def)
  moreover have "dv_id (pw_dev (snd (validateRequestTimestamp r ts now w)) r) = i" for ts
    using assms by (simp add: validateRequestTimestamp_def sendPairReject_def Let_def)
  moreover have "has_deadline i r (snd (pairingDone r w))"
    by (simp add: has_deadline_def) (simp add: is_pending_def)
  moreover have "has_deadline i r (sendPairReject r now w)"
    using assms(1) by (simp add: has_deadline_def)
  ultimately show "has_deadline i r (handlePairRequest sha r b now w)"
    using assms
    by (cases "dv_state (pw_dev w r)")
      (simp_all add: handlePairRequest_def case_bool_pair Let_def)
qed

lemma live_timer_armed:
  assumes "pair_ok w" "pw_timers w i = Some t"
  shows "is_pending (pt_expected t) \<and> pt_delay t = pendingTimeout (pw_timeout_secs w) (pt_expected t)"
proof -
  have "match_ok (\<lambda>i. reg_Get i (pw_registry w)) (\<lambda>r. dv_state (pw_dev w r)) (pw_timers w) (armed w)"
    and a: "armed_ok (pw_next_generation w) (armed w) (pw_timeout_secs w)"
    using assms(1) by (simp_all add: pair_ok_def timers_ok_def timer_part_def)
  then have "(i, t) \<in> armed w" using assms(2) unfolding match_ok_def by blast
  then show ?thesis using a unfolding armed_ok_def by blast
qed

text \<open>Every operation keeps the deadline of its own device, and leaves the others alone.\<close>

definition deadlines :: "pair_world \<Rightarrow> bool" where
  "deadlines w \<longleftrightarrow> pair_ok w \<and> (\<forall>i r. reg_Get i (pw_registry w) = Some r \<longrightarrow> has_deadline i r w)"

lemma has_deadline_expire:
  assumes "pair_ok w" "reg_Get i (pw_registry w) = Some r" "has_deadline i r w"
  shows "has_deadline i r (pair_op_step sha (TimerFires i t now) w)"
proof (cases "pw_timers w i = Some t")
  case True
  have "dv_state (pw_dev (pair_op_step sha (TimerFires i t now) w) r) = StateUnpaired"
    using op_state [OF assms(1), of "TimerFires i t now" r sha] True assms(2) by simp
  then show ?thesis by (simp add: has_deadline_def is_pending_def)
next
  case False
  then show ?thesis
    using assms live_generation [OF assms(1), of i t] by (auto simp: expirePending_def)
qed

lemma deadlines_step:
  assumes "deadlines w" shows "deadlines (pair_op_step sha op w)"
proof -
  have ok: "pair_ok w" using assms by (simp add: deadlines_def)
  have "has_deadline i r (pair_op_step sha op w)" if g: "reg_Get i (pw_registry w) = Some r" for i r
  proof (cases "op_device op = i")
    case False
    then show ?thesis
      using op_isolated [OF ok g] assms g by (auto simp: deadlines_def has_deadline_def)
  next
    case True
    have h: "has_deadline i r w" and d: "dv_id (pw_dev w r) = i"
      using assms g pair_ok_registered [OF ok g] by (auto simp: deadlines_def)
    show ?thesis
    proof (cases op)
      case (PeerPacket j p now)
      then show ?thesis using True g h has_deadline_ops [OF h d]
        by (auto simp: pair_Handle_def split: option.splits)
    next
      case (TimerFires j t now)
      then show ?thesis using has_deadline_expire [OF ok g h] True by simp
    next
      case (SessionOp j op)
      then show ?thesis using True g h by (simp add: on_registered_def has_deadline_def neutral_op_keeps)
    qed (use True g has_deadline_ops [OF h d] in \<open>simp_all add: on_registered_def\<close>)
  qed
  then show ?thesis using op_pair_ok [OF ok] op_lookup [OF ok] by (simp add: deadlines_def)
qed

interpretation deadline_inv: invariant_system "\<lambda>w w'. \<exists>op. w' = pair_op_step sha op w" deadlines for sha
  by unfold_locales (auto intro: deadlines_step)

lemma pair_run_steps: "(\<lambda>w w'. \<exists>op. w' = pair_op_step sha op w)\<^sup>*\<^sup>* w (pair_op_run sha ops w)"
proof (induction ops arbitrary: w)
  case (Cons op ops)
  have "(\<lambda>w w'. \<exists>op. w' = pair_op_step sha op w) w (pair_op_step sha op w)" by blast
  then show ?case using Cons.IH [of "pair_op_step sha op w"] by (simp add: converse_rtranclp_into_rtranclp)
qed simp

lemma deadlines_new:
  assumes "registry_ok rg" and "\<forall>i r. reg_Get i rg = Some r \<longrightarrow> \<not> is_pending (dv_state (dev_at rg r))"
  shows "deadlines (NewPairPlugin rg c secs mode save bus)"
  using pair_ok_new [OF assms(1)] assms(2)
  by (simp add: deadlines_def has_deadline_def NewPairPlugin_def pw_dev_def)

text \<open>
  C38. No request stays open for ever: started on a registry without pending devices (as loading
  leaves it), after any operations a device waits for an answer exactly when its timer is
  running, and that timer was armed for the state the device is in, to fire within thirty
  seconds.
\<close>
theorem pending_iff_timer_running:
  assumes "registry_ok rg" and "\<forall>i r. reg_Get i rg = Some r \<longrightarrow> \<not> is_pending (dv_state (dev_at rg r))"
    and "reg_Get i rg = Some r"
  shows "let w = pair_op_run sha ops (NewPairPlugin rg c secs mode save bus)
     in is_pending (dv_state (pw_dev w r)) \<longleftrightarrow>
       (\<exists>t. pw_timers w i = Some t \<and> pt_expected t = dv_state (pw_dev w r) \<and> pt_delay t \<le> 30 * second)"
proof -
  let ?w = "pair_op_run sha ops (NewPairPlugin rg c secs mode save bus)"
  have dl: "deadlines ?w"
    by (rule deadline_inv.run_inv [OF pair_run_steps deadlines_new [OF assms(1,2)]])
  have ok: "pair_ok ?w" using dl by (simp add: deadlines_def)
  have g: "reg_Get i (pw_registry ?w) = Some r"
    using pair_run_lookup [OF pair_ok_new [OF assms(1)]] assms(3) by (simp add: NewPairPlugin_def)
  have live: "pt_expected t = dv_state (pw_dev ?w r) \<and> is_pending (pt_expected t) \<and> pt_delay t \<le> 30 * second"
    if "pw_timers ?w i = Some t" for t
  proof -
    have "is_pending (pt_expected t) \<and> pt_delay t = pendingTimeout (pw_timeout_secs ?w) (pt_expected t)"
      using live_timer_armed [OF ok that] by blast
    then show ?thesis
      using live_timer_state(2) [OF ok that] g pendingTimeout_bounds [of "pt_expected t" "pw_timeout_secs ?w"] by auto
  qed
  have "has_deadline i r ?w" using dl g by (simp add: deadlines_def)
  then show ?thesis using live by (auto simp: Let_def has_deadline_def)
qed

theorem pending_iff_timer_running_witness:
  "let w = pair_op_run (\<lambda>s. s) [UserRequest ''a'' 0] (NewPairPlugin (one_device (NewDevice ''a'' [] [])) None 0 [] True True)
   in \<exists>t. pw_timers w ''a'' = Some t \<and> pt_expected t = StatePairRequested"
proof -
  let ?d = "NewDevice ''a'' [] []"
  let ?n = "NewPairPlugin (one_device ?d) None 0 [] True True"
  have w: "pair_ok ?n" "reg_Get ''a'' (pw_registry ?n) = Some 0" "pw_dev ?n 0 = ?d"
    using pair_ok_new by (simp_all add: NewPairPlugin_def pw_dev_def)
  have d: "dv_state ?d = StateUnpaired" by (simp add: NewDevice_def)
  have "dv_state (pw_dev (pair_op_run (\<lambda>s. s) [UserRequest ''a'' 0] ?n) 0) = StatePairRequested"
    using w d op_state [OF w(1), of "UserRequest ''a'' 0" 0 "\<lambda>s. s"] by simp
  then show ?thesis
    using pending_iff_timer_running [of "one_device ?d" "''a''" 0 "\<lambda>s. s" "[UserRequest ''a'' 0]" None 0 "[]" True True] d
    by (auto simp: Let_def is_pending_def simp del: pair_op_run.simps)
qed

text \<open>
  At its deadline a request is withdrawn completely: the device is unpaired, its timer and
  time stamp are gone, both dial intents are dropped, a rejection is handed to the peer's
  session, the file is saved once and one \<open>pair.rejected\<close> event with reason \<open>timeout\<close> goes out.
\<close>
theorem deadline_withdraws_request:
  assumes "pair_ok w" and "pw_timers w i = Some t" and "reg_Get i (pw_registry w) = Some r"
  shows "let w' = expirePending i (pt_expected t) (pt_generation t) now w
     in pw_dev w' r = snd (Send (NewPairPacket (now div millisecond) PairReject 0)
            (ClearPairDial (ClearEphemeral (SetState StateUnpaired (pw_dev w r))))) \<and>
        pw_timers w' i = None \<and> pw_stamp w' i = None \<and>
        pw_log w' = pw_log w @ (if pw_on_state_changed w then [StateSaved] else [])
          @ (if pw_has_bus w
             then [Emitted TypePairRejected i
               (JObj [(''name'', JStr (dv_name (pw_dev w r))), (''type'', JStr (dv_type (pw_dev w r))),
                      (''reason'', JStr ''timeout'')])]
             else [])"
proof -
  have p: "is_pending (pt_expected t)"
    using live_timer_armed [OF assms(1,2)] by blast
  have keep: "dv_name (snd (Send q (ClearPairDial (ClearEphemeral (SetState s d))))) = dv_name d"
    "dv_type (snd (Send q (ClearPairDial (ClearEphemeral (SetState s d))))) = dv_type d" for q s d
    by (simp_all add: Send_def device_setters Let_def)
  note id = pair_ok_registered [OF assms(1,3)]
  show ?thesis
    unfolding Let_def expire_live [OF assms]
    using p id
    by (intro conjI)
      (simp_all add: sendPairReject_def send_to_def emitRejected_def clear_dials_def keep,
       auto simp: notifyStateChanged_def note_effect_def on_dev_def set_stamp_def is_pending_def
         cancelPendingTimerLocked_def Let_def)
qed

theorem deadline_withdraws_request_witness:
  "let w = updatePendingTimerLocked 0 StatePairRequested (on_dev 0 (SetState StatePairRequested) (lone_world StateUnpaired))
   in \<exists>t. pw_timers w ''a'' = Some t \<and>
        pw_timers (expirePending ''a'' (pt_expected t) (pt_generation t) 0 w) ''a'' = None"
proof -
  let ?w = "updatePendingTimerLocked 0 StatePairRequested (on_dev 0 (SetState StatePairRequested) (lone_world StateUnpaired))"
  obtain t where t: "pw_timers ?w ''a'' = Some t"
    using update_arms [of StatePairRequested 0 "on_dev 0 (SetState StatePairRequested) (lone_world StateUnpaired)"]
    by (auto simp: is_pending_def)
  have "pair_ok ?w" by (rule pair_ok_update [OF lone_world_ok, of "''a''"]) simp
  then show ?thesis
    using deadline_withdraws_request [of ?w "''a''" t 0 0] t by (simp add: Let_def)
qed

section \<open>Two daemons\<close>

text \<open>A live session with a peer that presented the certificate, and room in its queue.\<close>

definition session_with :: "pair_world \<Rightarrow> nat \<Rightarrow> cert \<Rightarrow> bool" where
  "session_with w r c \<longleftrightarrow>
     PeerCert (pw_dev w r) = Some c \<and> \<not> dv_done (pw_dev w r) \<and> length (dv_send (pw_dev w r)) < 31"

lemma Send_pair_queues:
  assumes "PeerCert d = Some c" "\<not> dv_done d" "length (dv_send d) < send_capacity" "pk_type p = TypePair"
  shows "Send p d = (Queued, d\<lparr>dv_send := dv_send d @ [p]\<rparr>)"
  using assms by (auto simp: Send_def PeerCert_def packetAllowed_def split: option.splits)

lemma set_state_fields [simp]:
  "dv_send (SetState s d) = dv_send d" "dv_done (SetState s d) = dv_done d"
  "dv_peer_proto (SetState s d) = dv_peer_proto d"
  "PeerCert (SetState s d) = PeerCert d"
  by (simp_all add: SetState_def PokeReconnect_def PeerCert_def Let_def)

lemma dev_change: "pw_dev (changeState r n w) r = (if dv_state (pw_dev w r) = n then pw_dev w r else SetState n (pw_dev w r))"
  by (simp add: changeState_eq)

lemma stamp_change [simp]: "pw_stamp (changeState r n w) = pw_stamp w"
  by (simp add: changeState_eq notifyStateChanged_def Let_def)

text \<open>The requester: what it shows, sends and remembers.\<close>

lemma request_effect:
  assumes "session_with w r c" "dv_state (pw_dev w r) = StateUnpaired"
  shows "fst (RequestPairing sha r now w) = Inr (VerificationKey sha (pw_local_cert w) (Some c) (now div second))"
    and "dv_send (pw_dev (snd (RequestPairing sha r now w)) r) =
      dv_send (pw_dev w r) @ [NewPairPacket (now div millisecond) PairAccept (now div second)]"
    and "dv_state (pw_dev (snd (RequestPairing sha r now w)) r) = StatePairRequested"
proof -
  let ?p = "NewPairPacket (now div millisecond) PairAccept (now div second)"
  have s: "Send ?p (pw_dev w r) = (Queued, (pw_dev w r)\<lparr>dv_send := dv_send (pw_dev w r) @ [?p]\<rparr>)"
    using assms(1) by (intro Send_pair_queues) (auto simp: session_with_def send_capacity_def)
  let ?u = "snd (send_to r ?p (set_stamp (dv_id (pw_dev w r)) (Some (now div second)) w))"
  have u: "pw_dev ?u r = (pw_dev w r)\<lparr>dv_send := dv_send (pw_dev w r) @ [?p]\<rparr>"
    "pw_local_cert ?u = pw_local_cert w"
    using s by (simp_all add: send_to_def) (simp add: on_dev_def set_stamp_def)
  have c: "PeerCert (pw_dev ?u r) = Some c"
    using assms(1) by (simp add: u session_with_def PeerCert_def)
  show "fst (RequestPairing sha r now w) = Inr (VerificationKey sha (pw_local_cert w) (Some c) (now div second))"
    using assms(2) c u(2)
    by (simp add: RequestPairing_def Let_def case_prod_beta)
  show "dv_send (pw_dev (snd (RequestPairing sha r now w)) r) = dv_send (pw_dev w r) @ [?p]"
    "dv_state (pw_dev (snd (RequestPairing sha r now w)) r) = StatePairRequested"
    using assms(2) u(1) by (simp_all add: RequestPairing_eq dev_change)
qed

text \<open>The answering side.\<close>

lemma incoming_effect:
  assumes "session_with w r c" "dv_state (pw_dev w r) = StateUnpaired" "pw_has_bus w"
    and "admits w r ts now" "0 < ts" "in_int64 ts" "reg_Get i (pw_registry w) = Some r" "dv_id (pw_dev w r) = i"
  shows "\<exists>payload. Emitted TypePairRequested i payload \<in> set (pw_log (snd (pair_Handle sha i (NewPairPacket ms PairAccept ts) now w))) \<and>
      (VerificationKey sha (pw_local_cert w) (Some c) ts \<noteq> [] \<longrightarrow>
       (\<exists>fields. payload = JObj fields \<and>
         (''verificationKey'', JStr (VerificationKey sha (pw_local_cert w) (Some c) ts)) \<in> set fields))"
    and "dv_state (pw_dev (snd (pair_Handle sha i (NewPairPacket ms PairAccept ts) now w)) r) = StatePairRequestedByPeer"
proof -
  let ?u = "set_stamp i (Some ts) w"
  have h: "snd (pair_Handle sha i (NewPairPacket ms PairAccept ts) now w) = startIncomingRequest sha r ?u"
    using assms by (simp add: pair_Handle_def dec_enc_pair_body handlePairRequest_def admits_def PairAccept_def
        validateRequestTimestamp_def AllowedTimestampDiff_def abs_le_iff Let_def)
  have k: "PeerCert (pw_dev ?u r) = Some c" "pairingTimestampFor (dv_id (pw_dev ?u r)) ?u = ts"
    "pw_local_cert ?u = pw_local_cert w"
    using assms(1,8) by (simp_all add: session_with_def pairingTimestampFor_def) (simp add: set_stamp_def)
  have b: "pw_has_bus (changeState r n ?u) = pw_has_bus w" for n
    by (simp add: changeState_eq notifyStateChanged_def note_effect_def updatePendingTimerLocked_def
        schedulePendingTimerLocked_def cancelPendingTimerLocked_def set_stamp_def on_dev_def Let_def)
  show "\<exists>payload. Emitted TypePairRequested i payload \<in> set (pw_log (snd (pair_Handle sha i (NewPairPacket ms PairAccept ts) now w))) \<and>
      (VerificationKey sha (pw_local_cert w) (Some c) ts \<noteq> [] \<longrightarrow>
       (\<exists>fields. payload = JObj fields \<and>
         (''verificationKey'', JStr (VerificationKey sha (pw_local_cert w) (Some c) ts)) \<in> set fields))"
    unfolding h startIncomingRequest_def Let_def k option.case emit_def b
    using assms(3,8) by (auto simp: note_effect_def)
  show "dv_state (pw_dev (snd (pair_Handle sha i (NewPairPacket ms PairAccept ts) now w)) r) = StatePairRequestedByPeer"
    unfolding h by (rule state_incoming)
qed

lemma accept_effect:
  assumes "session_with w r c" "is_pending (dv_state (pw_dev w r))"
  shows "dv_send (pw_dev (snd (AcceptPairing r now w)) r) =
     dv_send (pw_dev w r) @ [NewPairPacket (now div millisecond) PairAccept 0]"
proof -
  let ?p = "NewPairPacket (now div millisecond) PairAccept 0"
  have s: "Send ?p (pw_dev w r) = (Queued, (pw_dev w r)\<lparr>dv_send := dv_send (pw_dev w r) @ [?p]\<rparr>)"
    using assms(1) by (intro Send_pair_queues) (auto simp: session_with_def send_capacity_def)
  then show ?thesis
    using assms(2)
    by (simp add: AcceptPairing_eq pairingDone_eq transitionPendingToPaired_eq send_to_def ClearPairDial_def)
qed

lemma incoming_session:
  assumes "session_with w r c" "dv_state (pw_dev w r) = StateUnpaired"
    and "admits w r ts now" "0 < ts" "in_int64 ts" "reg_Get i (pw_registry w) = Some r" "dv_id (pw_dev w r) = i"
  shows "session_with (snd (pair_Handle sha i (NewPairPacket ms PairAccept ts) now w)) r c"
proof -
  have h: "snd (pair_Handle sha i (NewPairPacket ms PairAccept ts) now w) =
      startIncomingRequest sha r (set_stamp i (Some ts) w)"
    using assms by (simp add: pair_Handle_def dec_enc_pair_body handlePairRequest_def admits_def PairAccept_def
        validateRequestTimestamp_def AllowedTimestampDiff_def abs_le_iff Let_def)
  show ?thesis
    using assms(1,2) unfolding h by (simp add: session_with_def startIncomingRequest_def dev_change Let_def)
qed

lemma answer_effect:
  assumes "reg_Get i (pw_registry w) = Some r" "dv_state (pw_dev w r) = StatePairRequested" "in_int64 ts"
  shows "dv_state (pw_dev (snd (pair_Handle sha i (NewPairPacket ms PairAccept ts) now w)) r) = StatePaired"
  using assms state_ops(6)
  by (simp add: pair_Handle_def dec_enc_pair_body PairAccept_def del: next_state.simps) simp

lemma key_nonempty: "\<forall>s. length (sha s) = 32 \<Longrightarrow> VerificationKey sha a b ts \<noteq> []"
proof -
  assume "\<forall>s. length (sha s) = 32"
  then have "sha s \<noteq> []" for s by (metis list.size(3) zero_neq_numeral)
  then show ?thesis by (simp add: VerificationKey_def to_upper_def Let_def)
qed

lemma in_int64_0 [simp]: "in_int64 0"
  by (simp add: in_int64_def max_int64_def min_int64_def)

text \<open>
  Two daemons pair: if one requests, the other's user accepts the request it was shown, and
  the packets arrive, then both have the other paired, and the code the requester was given is
  the code the other side showed with the request.
\<close>
theorem two_daemons_pair:
  assumes sha: "\<forall>s. length (sha s) = 32"
    and a: "session_with wa ra certB" "pw_local_cert wa = Some certA" "dv_state (pw_dev wa ra) = StateUnpaired"
      "reg_Get idB (pw_registry wa) = Some ra"
    and b: "session_with wb rb certA" "pw_local_cert wb = Some certB" "dv_state (pw_dev wb rb) = StateUnpaired"
      "reg_Get idA (pw_registry wb) = Some rb" "dv_id (pw_dev wb rb) = idA" "pw_has_bus wb"
    and t: "0 < t1 div second" "in_int64 (t1 div second)" "admits wb rb (t1 div second) t2"
  shows "\<exists>key wa1 wa2 wb1 wb2 p q fields.
     RequestPairing sha ra t1 wa = (Inr key, wa1) \<and>
     p = last (dv_send (pw_dev wa1 ra)) \<and> wb1 = snd (pair_Handle sha idA p t2 wb) \<and>
     Emitted TypePairRequested idA (JObj fields) \<in> set (pw_log wb1) \<and>
     (''verificationKey'', JStr key) \<in> set fields \<and>
     AcceptPairing rb t3 wb1 = (None, wb2) \<and>
     q = last (dv_send (pw_dev wb2 rb)) \<and> wa2 = snd (pair_Handle sha idB q t4 wa1) \<and>
     dv_state (pw_dev wa2 ra) = StatePaired \<and> dv_state (pw_dev wb2 rb) = StatePaired"
proof -
  let ?ts = "t1 div second"
  let ?key = "VerificationKey sha (Some certA) (Some certB) ?ts"
  let ?p = "NewPairPacket (t1 div millisecond) PairAccept ?ts"
  let ?q = "NewPairPacket (t3 div millisecond) PairAccept 0"
  let ?wa1 = "snd (RequestPairing sha ra t1 wa)"
  let ?wb1 = "snd (pair_Handle sha idA ?p t2 wb)"
  let ?wb2 = "snd (AcceptPairing rb t3 ?wb1)"
  have req: "RequestPairing sha ra t1 wa = (Inr ?key, ?wa1)"
    using request_effect(1) [OF a(1,3)] a(2) by (simp add: prod_eq_iff)
  have p: "?p = last (dv_send (pw_dev ?wa1 ra))" using request_effect(2) [OF a(1,3)] by simp
  have key: "VerificationKey sha (pw_local_cert wb) (Some certA) ?ts = ?key"
    by (simp add: b(2) verification_key_sym)
  obtain fields where shown: "Emitted TypePairRequested idA (JObj fields) \<in> set (pw_log ?wb1)"
      "(''verificationKey'', JStr ?key) \<in> set fields"
    using incoming_effect(1) [OF b(1,3,6) t(3,1,2) b(4,5), where sha = sha and ms = "t1 div millisecond"]
      key_nonempty [OF sha, of "Some certA" "Some certB" ?ts] unfolding key by blast
  have pend: "dv_state (pw_dev ?wb1 rb) = StatePairRequestedByPeer"
    by (rule incoming_effect(2) [OF b(1,3,6) t(3,1,2) b(4,5)])
  have acc: "AcceptPairing rb t3 ?wb1 = (None, ?wb2)" "dv_state (pw_dev ?wb2 rb) = StatePaired"
    using pend state_ops(1) [of rb t3 ?wb1] by (simp_all add: AcceptPairing_eq is_pending_def)
  have q: "?q = last (dv_send (pw_dev ?wb2 rb))"
    using accept_effect [OF incoming_session [OF b(1,3) t(3,1,2) b(4,5)]] pend by (simp add: is_pending_def)
  have "reg_Get idB (pw_registry ?wa1) = Some ra"
    using a(3,4) by (simp add: RequestPairing_eq changeState_eq send_to_def)
  then have "dv_state (pw_dev (snd (pair_Handle sha idB ?q t4 ?wa1)) ra) = StatePaired"
    using request_effect(3) [OF a(1,3)] by (intro answer_effect) simp_all
  then show ?thesis using req p shown acc q by blast
qed

text \<open>A concrete pair of daemons.\<close>

definition demo_cert :: "string \<Rightarrow> cert" where
  "demo_cert k = \<lparr>ct_cn = k, ct_raw = k, ct_pubkey = Some k, ct_not_after = 0\<rparr>"

definition demo_device :: "string \<Rightarrow> string \<Rightarrow> device" where
  "demo_device i k = (NewDevice i [] [])\<lparr>dv_conn := Some \<lparr>cn_id = 1, cn_addr = None, cn_cert = Some (demo_cert k)\<rparr>\<rparr>"

definition demo_world :: "string \<Rightarrow> string \<Rightarrow> string \<Rightarrow> pair_world" where
  "demo_world own i k = NewPairPlugin (one_device (demo_device i k)) (Some (demo_cert own)) 0 ''ask'' True True"

lemma demo_world_facts:
  "session_with (demo_world own i k) 0 (demo_cert k)" "pw_local_cert (demo_world own i k) = Some (demo_cert own)"
  "dv_state (pw_dev (demo_world own i k) 0) = StateUnpaired" "reg_Get i (pw_registry (demo_world own i k)) = Some 0"
  "dv_id (pw_dev (demo_world own i k) 0) = i" "pw_has_bus (demo_world own i k)"
  "admits (demo_world own i k) 0 1 second"
  by (simp_all add: session_with_def demo_world_def demo_device_def NewPairPlugin_def pw_dev_def
      PeerCert_def NewDevice_def one_device_def reg_Get_def dev_at_def admits_def second_def millisecond_def)

theorem two_daemons_pair_witness:
  "\<exists>wa2 wb2. dv_state (pw_dev wa2 0) = StatePaired \<and> dv_state (pw_dev wb2 0) = StatePaired \<and>
     dv_state (pw_dev (demo_world ''A'' ''b'' ''B'') 0) = StateUnpaired"
proof -
  let ?wa = "demo_world ''A'' ''b'' ''B''" and ?wb = "demo_world ''B'' ''a'' ''A''"
  have t: "0 < second div second" "in_int64 (second div second)" "admits ?wb 0 (second div second) second"
    using demo_world_facts(7) by (simp_all add: second_def millisecond_def in_int64_def max_int64_def min_int64_def)
  obtain wa2 wb2 where "dv_state (pw_dev wa2 0) = StatePaired" "dv_state (pw_dev wb2 0) = StatePaired"
    using two_daemons_pair [where sha = "\<lambda>_. replicate 32 (CHR ''x'')" and idB = "''b''" and ?t3.0 = 0 and ?t4.0 = 0,
        OF _ demo_world_facts(1-4) demo_world_facts(1-6) t] by auto
  then show ?thesis using demo_world_facts(3) by blast
qed

end
