(* ===== verification/Handshake.thy ===== *)
theory Handshake
  imports DeviceRegistry
begin

text \<open>
  \<open>internal/daemon/transport_handshake.go\<close> and \<open>transport_dial.go\<close>: what happens to a
  connection after its TLS handshake, up to the session of the device, and what a dial does
  before it.  The network is an input: whether the deadline and the write succeeded, what was
  read, and the peer's certificate, which is part of the connection.
\<close>

section \<open>Checks on the identity\<close>

datatype handshake_error =
    DeadlineFailed
  | IdentitySendFailed
  | IdentityReadFailed read_error
  | NotIdentityPacket
  | MissingPreTLS
  | IdentityUndecodable
  | InvalidPeerID
  | IdentityChanged
  | WrongTarget
  | NoPeerCertificate
  | CertificateNameMismatch
  | LiveLinkMismatch
  | PinnedMismatch
  | PairingMismatch

definition check_identity ::
  "bool \<Rightarrow> bool \<Rightarrow> read_error + packet \<Rightarrow> identity_body option \<Rightarrow> string \<Rightarrow> cert option
     \<Rightarrow> handshake_error + (identity_body \<times> cert)" where
  "check_identity deadline_ok write_ok input preTLS expectedPeerID peerCert =
     (if \<not> deadline_ok then Inl DeadlineFailed
      else if \<not> write_ok then Inl IdentitySendFailed
      else case input of
        Inl e \<Rightarrow> Inl (IdentityReadFailed e)
      | Inr pkt \<Rightarrow>
          if pk_type pkt \<noteq> TypeIdentity then Inl NotIdentityPacket
          else case preTLS of
            None \<Rightarrow> Inl MissingPreTLS
          | Some pre \<Rightarrow>
              (case Option.bind (pk_body pkt) dec_identity of
                 None \<Rightarrow> Inl IdentityUndecodable
               | Some body \<Rightarrow>
                   if \<not> ValidDeviceID (ib_device_id body) then Inl InvalidPeerID
                   else if (ib_device_id pre \<noteq> [] \<and> ib_device_id body \<noteq> ib_device_id pre)
                     \<or> (ib_protocol_version pre > 0
                         \<and> ib_protocol_version body \<noteq> ib_protocol_version pre)
                   then Inl IdentityChanged
                   else if expectedPeerID \<noteq> [] \<and> ib_device_id body \<noteq> expectedPeerID
                   then Inl WrongTarget
                   else case peerCert of
                     None \<Rightarrow> Inl NoPeerCertificate
                   | Some crt \<Rightarrow>
                       if \<not> MatchesDeviceID (Some crt) (ib_device_id body)
                       then Inl CertificateNameMismatch
                       else Inr (body, crt)))"

section \<open>The device of the peer\<close>

text \<open>The known device gets the announced name; an unknown peer gets a new device.\<close>

definition peer_device ::
  "(ip \<Rightarrow> string) \<Rightarrow> identity_body \<Rightarrow> int \<Rightarrow> registry \<Rightarrow> nat \<times> registry \<times> publication list" where
  "peer_device ip_string body now rg =
     (let safeDeviceName = SanitizeDeviceName (ib_device_name body);
          (r, rg, pubs) =
            (case reg_Get (ib_device_id body) rg of
               None \<Rightarrow>
                 let (r, rg) = alloc_dev (NewDevice (ib_device_id body) safeDeviceName (ib_device_type body)) rg;
                     (rg, pubs) = reg_Add ip_string r rg
                 in (r, rg, pubs)
             | Some r \<Rightarrow> (r, upd_dev r (SetName safeDeviceName) rg, []));
          rg = upd_dev r (SetPeerProtocolVersion (ib_protocol_version body)) rg;
          rg = upd_dev r (SetLastSeen (Some now)) rg
      in (r, rg, pubs))"

text \<open>Pinning: the fingerprint of the device after the check, or the error.\<close>

definition check_pin ::
  "(string \<Rightarrow> string) \<Rightarrow> cert \<Rightarrow> device \<Rightarrow> handshake_error + string" where
  "check_pin sha crt d =
     (let certFP = Fingerprint sha crt
      in if (case PeerCert d of None \<Rightarrow> False | Some cur \<Rightarrow> Fingerprint sha cur \<noteq> certFP)
         then Inl LiveLinkMismatch
         else case dv_state d of
           StatePaired \<Rightarrow>
             if dv_cert_fp d \<noteq> [] \<and> dv_cert_fp d \<noteq> certFP then Inl PinnedMismatch
             else Inr (dv_cert_fp d)
         | StatePairRequested \<Rightarrow>
             if dv_cert_fp d = [] then Inr certFP
             else if dv_cert_fp d \<noteq> certFP then Inl PairingMismatch else Inr (dv_cert_fp d)
         | StatePairRequestedByPeer \<Rightarrow>
             if dv_cert_fp d = [] then Inr certFP
             else if dv_cert_fp d \<noteq> certFP then Inl PairingMismatch else Inr (dv_cert_fp d)
         | _ \<Rightarrow> Inr certFP)"

definition all_hooks :: hooks where
  "all_hooks = \<lparr>hk_dispatch = True, hk_connect = True, hk_disconnect = True\<rparr>"

definition accept_peer ::
  "identity_body \<Rightarrow> string \<Rightarrow> conn \<Rightarrow> int \<Rightarrow> device \<Rightarrow> device \<times> dev_action list" where
  "accept_peer body fp c now d =
     (let d = d\<lparr>dv_cert_fp := fp\<rparr>;
          d = (if validDialPort (ib_tcp_port body) then SetLastPort (ib_tcp_port body) d else d);
          d = d\<lparr>dv_incoming := ib_incoming body, dv_outgoing := ib_outgoing body\<rparr>
      in Connect c all_hooks now d)"

definition HandleNewConnection ::
  "(string \<Rightarrow> string) \<Rightarrow> (ip \<Rightarrow> string) \<Rightarrow> bool \<Rightarrow> bool \<Rightarrow> read_error + packet \<Rightarrow> identity_body option
     \<Rightarrow> string \<Rightarrow> conn \<Rightarrow> int \<Rightarrow> registry
     \<Rightarrow> (handshake_error + nat) \<times> registry \<times> publication list \<times> dev_action list" where
  "HandleNewConnection sha ip_string deadline_ok write_ok input preTLS expectedPeerID c now rg =
     (case check_identity deadline_ok write_ok input preTLS expectedPeerID (cn_cert c) of
        Inl e \<Rightarrow> (Inl e, rg, [], [])
      | Inr (body, crt) \<Rightarrow>
          let (r, rg, pubs) = peer_device ip_string body now rg
          in case check_pin sha crt (dev_at rg r) of
               Inl e \<Rightarrow> (Inl e, rg, pubs, [])
             | Inr fp \<Rightarrow>
                 let (d, acts) = accept_peer body fp c now (dev_at rg r)
                 in (Inr r, upd_dev r (\<lambda>_. d) rg, pubs, acts))"

section \<open>Callbacks of the session\<close>

text \<open>The plugins hear of a session only while the device is paired.\<close>

definition notifies_plugins :: "device \<Rightarrow> bool" where
  "notifies_plugins d \<longleftrightarrow> dv_state d = StatePaired"

text \<open>
  The disconnect callback after the plugins were told: the address of the reconnect loop it
  starts, if it starts one.
\<close>

definition on_disconnect :: "duration \<Rightarrow> int \<Rightarrow> device \<Rightarrow> ip option \<times> device" where
  "on_disconnect flapThreshold now d =
     (if dv_state d \<noteq> StatePaired then (None, d)
      else if dv_last_ip d = [] then (None, d)
      else
        let d = (if ConnectionAge now d \<ge> flapThreshold then ResetReconnectAttempt d else d);
            (started, d) = TryReconnect d
        in (if started then Some (dv_last_ip d) else None, d))"

section \<open>Dialling\<close>

datatype dial_refusal = InvalidTarget | InsideCooldown

record dial_plan =
  dp_ip :: ip
  dp_port :: int
  dp_identity :: packet
  dp_preTLS :: identity_body
  dp_expected :: string

text \<open>
  What \<open>Dial\<close> decides before the network: refuse, or connect there, send this identity and
  expect that peer.  \<open>myID\<close> is the decoded identity of the daemon.
\<close>

definition Dial ::
  "identity_body \<Rightarrow> registry \<Rightarrow> ip \<Rightarrow> int \<Rightarrow> string \<Rightarrow> int \<Rightarrow> bool \<Rightarrow> int \<Rightarrow> dial_refusal + dial_plan" where
  "Dial myID rg targetIP targetPort targetID targetProto force now =
     (if targetIP = [] \<or> \<not> validDialPort targetPort then Inl InvalidTarget
      else if \<not> force \<and> (case reg_Get targetID rg of None \<Rightarrow> False | Some r \<Rightarrow> InCooldown now (dev_at rg r))
      then Inl InsideCooldown
      else
        let proto = (if targetProto \<le> 0 \<or> targetProto > ProtocolVersion then ProtocolVersion else targetProto);
            preTlsId = zero_identity_body\<lparr>ib_device_id := ib_device_id myID,
              ib_device_name := ib_device_name myID, ib_device_type := ib_device_type myID,
              ib_protocol_version := ib_protocol_version myID, ib_tcp_port := ib_tcp_port myID,
              ib_target_id := targetID, ib_target_proto := proto\<rparr>
        in Inr \<lparr>dp_ip = targetIP, dp_port = targetPort,
                dp_identity = NewPacket (now div millisecond) TypeIdentity (Some (enc_identity preTlsId)),
                dp_preTLS = zero_identity_body\<lparr>ib_device_id := targetID, ib_protocol_version := proto\<rparr>,
                dp_expected = targetID\<rparr>)"

section \<open>Facts\<close>

lemma check_identity_Inr:
  "check_identity dl wr input pre expected crt = Inr (body, c) \<longleftrightarrow>
     dl \<and> wr \<and> crt = Some c \<and>
     (\<exists>pkt p. input = Inr pkt \<and> pk_type pkt = TypeIdentity \<and> pre = Some p \<and>
        Option.bind (pk_body pkt) dec_identity = Some body \<and> ValidDeviceID (ib_device_id body) \<and>
        (ib_device_id p = [] \<or> ib_device_id body = ib_device_id p) \<and>
        (ib_protocol_version p \<le> 0 \<or> ib_protocol_version body = ib_protocol_version p)) \<and>
     (expected = [] \<or> ib_device_id body = expected) \<and> MatchesDeviceID (Some c) (ib_device_id body)"
  by (auto simp: check_identity_def split: sum.splits option.splits if_splits)

lemma setters_keep_session [simp]:
  "dv_conn (SetName n d) = dv_conn d" "dv_conn (SetPeerProtocolVersion v d) = dv_conn d"
  "dv_conn (SetLastSeen t d) = dv_conn d" "dv_conn (SetBus b d) = dv_conn d"
  "dv_state (SetName n d) = dv_state d" "dv_state (SetPeerProtocolVersion v d) = dv_state d"
  "dv_state (SetLastSeen t d) = dv_state d" "dv_state (SetBus b d) = dv_state d"
  "dv_cert_fp (SetName n d) = dv_cert_fp d" "dv_cert_fp (SetPeerProtocolVersion v d) = dv_cert_fp d"
  "dv_cert_fp (SetLastSeen t d) = dv_cert_fp d" "dv_cert_fp (SetBus b d) = dv_cert_fp d"
  "dv_id (SetName n d) = dv_id d" "dv_id (SetPeerProtocolVersion v d) = dv_id d"
  "dv_id (SetLastSeen t d) = dv_id d" "dv_id (SetBus b d) = dv_id d"
  "dv_name (SetName n d) = n" "dv_name (SetPeerProtocolVersion v d) = dv_name d"
  "dv_name (SetLastSeen t d) = dv_name d"
  by (simp_all add: device_setters)

lemma peer_device_known:
  "reg_Get (ib_device_id body) rg = Some r \<Longrightarrow>
     peer_device ip_string body now rg =
       (r, upd_dev r (SetLastSeen (Some now)) (upd_dev r (SetPeerProtocolVersion (ib_protocol_version body))
            (upd_dev r (SetName (SanitizeDeviceName (ib_device_name body))) rg)), [])"
  by (simp add: peer_device_def Let_def)

text \<open>An existing object keeps its session, its state and its pin while the peer is looked up.\<close>

definition trust_part :: "device \<Rightarrow> pairing_state \<times> string \<times> conn option \<times> packet list \<times> bool \<times> bool" where
  "trust_part d = (dv_state d, dv_cert_fp d, session_part d)"

lemma trust_part_setters [simp]:
  "trust_part (SetName n d) = trust_part d" "trust_part (SetPeerProtocolVersion v d) = trust_part d"
  "trust_part (SetLastSeen t d) = trust_part d"
  by (simp_all add: trust_part_def session_part_def device_setters)

lemma alloc_dev_simps [simp]:
  "fst (alloc_dev d rg) = rg_next rg" "rg_next (snd (alloc_dev d rg)) = Suc (rg_next rg)"
  "dev_at (snd (alloc_dev d rg)) q = (if q = rg_next rg then d else dev_at rg q)"
  "rg_entries (snd (alloc_dev d rg)) = rg_entries rg" "rg_has_bus (snd (alloc_dev d rg)) = rg_has_bus rg"
  by (simp_all add: alloc_dev_def dev_at_def)

lemma dev_at_entries [simp]: "dev_at (rg\<lparr>rg_entries := x\<rparr>) q = dev_at rg q"
  by (simp add: dev_at_def)

lemma reg_Add_simps [simp]:
  "dev_at (fst (reg_Add f r rg)) q = (if q = r then SetBus (rg_has_bus rg) (dev_at rg r) else dev_at rg q)"
  "reg_Get i (fst (reg_Add f r rg)) = (if i = dv_id (dev_at rg r) then Some r else reg_Get i rg)"
  "rg_next (fst (reg_Add f r rg)) = rg_next rg"
  by (simp_all add: reg_Add_def Let_def reg_Get_def update_conv)

lemma peer_device_unknown:
  assumes "reg_Get (ib_device_id body) rg = None"
  shows "fst (peer_device ip_string body now rg) = rg_next rg"
    and "dev_at (fst (snd (peer_device ip_string body now rg))) q =
      (if q = rg_next rg
       then SetLastSeen (Some now) (SetPeerProtocolVersion (ib_protocol_version body)
              (SetBus (rg_has_bus rg) (NewDevice (ib_device_id body)
                 (SanitizeDeviceName (ib_device_name body)) (ib_device_type body))))
       else dev_at rg q)"
  using assms by (simp_all add: peer_device_def Let_def case_prod_beta)

lemma peer_device_trust:
  "q < rg_next rg \<or> reg_Get (ib_device_id body) rg \<noteq> None \<Longrightarrow>
     trust_part (dev_at (fst (snd (peer_device ip_string body now rg))) q) = trust_part (dev_at rg q)"
  by (cases "reg_Get (ib_device_id body) rg")
    (simp_all add: peer_device_known peer_device_unknown)

lemma Connect_session:
  "dv_conn (fst (Connect c hk now d)) = Some c" "dv_cert_fp (fst (Connect c hk now d)) = dv_cert_fp d"
  "dv_state (fst (Connect c hk now d)) = dv_state d" "dv_id (fst (Connect c hk now d)) = dv_id d"
proof -
  have b: "dv_conn (fst (Connect_begin c hk d)) = Some c"
    "dv_cert_fp (fst (Connect_begin c hk d)) = dv_cert_fp d"
    "dv_state (fst (Connect_begin c hk d)) = dv_state d" "dv_id (fst (Connect_begin c hk d)) = dv_id d"
    by (simp_all add: Connect_begin_def close_done_def Let_def split: option.splits)
  have f: "dv_conn (fst (Connect_finish c now e)) = dv_conn e"
    "dv_cert_fp (fst (Connect_finish c now e)) = dv_cert_fp e"
    "dv_state (fst (Connect_finish c now e)) = dv_state e" "dv_id (fst (Connect_finish c now e)) = dv_id e" for e
    by (simp_all add: Connect_finish_def Let_def split: option.splits)
  show "dv_conn (fst (Connect c hk now d)) = Some c" "dv_cert_fp (fst (Connect c hk now d)) = dv_cert_fp d"
    "dv_state (fst (Connect c hk now d)) = dv_state d" "dv_id (fst (Connect c hk now d)) = dv_id d"
    by (simp_all add: Connect_def case_prod_beta b f)
qed

lemma accept_peer_session:
  "dv_conn (fst (accept_peer body fp c now d)) = Some c" "dv_cert_fp (fst (accept_peer body fp c now d)) = fp"
  "dv_state (fst (accept_peer body fp c now d)) = dv_state d" "dv_id (fst (accept_peer body fp c now d)) = dv_id d"
  by (simp_all add: accept_peer_def Let_def Connect_session SetLastPort_def)

lemma check_pin_Inr:
  "check_pin sha crt d = Inr fp \<Longrightarrow>
     (\<forall>cur. PeerCert d = Some cur \<longrightarrow> Fingerprint sha cur = Fingerprint sha crt) \<and>
     (dv_state d \<in> {StatePaired, StatePairRequested, StatePairRequestedByPeer} \<longrightarrow> dv_cert_fp d \<noteq> [] \<longrightarrow>
        Fingerprint sha crt = dv_cert_fp d) \<and>
     (fp = Fingerprint sha crt \<or> dv_state d = StatePaired \<and> dv_cert_fp d = [] \<and> fp = [])"
  by (auto simp: check_pin_def Let_def split: pairing_state.splits if_splits option.splits)

text \<open>The successful handshake, taken apart.\<close>

lemma HandleNewConnection_Inr:
  assumes "HandleNewConnection sha ips dl wr input pre expected c now rg = (Inr r, rg', pubs, acts)"
  obtains body crt fp where
    "check_identity dl wr input pre expected (cn_cert c) = Inr (body, crt)"
    "r = fst (peer_device ips body now rg)"
    "check_pin sha crt (dev_at (fst (snd (peer_device ips body now rg))) r) = Inr fp"
    "dev_at rg' r = fst (accept_peer body fp c now (dev_at (fst (snd (peer_device ips body now rg))) r))"
  using assms
  by (auto simp: HandleNewConnection_def Let_def case_prod_beta split: sum.splits)

lemma trust_part_eqs:
  "trust_part d = trust_part e \<Longrightarrow> dv_state d = dv_state e \<and> dv_cert_fp d = dv_cert_fp e \<and> PeerCert d = PeerCert e"
  by (simp add: trust_part_def session_part_def PeerCert_def)

text \<open>
  C2. No handshake gives a device's session to another certificate.  When a connection is
  accepted, the peer proved the identifier it announced (its certificate carries it, and it is
  the one that was dialled); if the device was known, its live session and, in the paired and
  pending states, its pinned fingerprint belong to the same certificate; and the session of the
  device is then this connection, under the pinned fingerprint of that certificate, except for a
  paired device that never had one.
\<close>
theorem handshake_keeps_identity:
  assumes "HandleNewConnection sha ips dl wr input pre expected c now rg = (Inr r, rg', pubs, acts)"
  shows "\<exists>(body :: identity_body) crt. cn_cert c = Some crt \<and> ValidDeviceID (ib_device_id body) \<and>
     MatchesDeviceID (Some crt) (ib_device_id body) \<and> (expected = [] \<or> ib_device_id body = expected) \<and>
     (\<forall>q. reg_Get (ib_device_id body) rg = Some q \<longrightarrow> q = r \<and>
        (\<forall>cur. PeerCert (dev_at rg q) = Some cur \<longrightarrow> Fingerprint sha cur = Fingerprint sha crt) \<and>
        (dv_state (dev_at rg q) \<in> {StatePaired, StatePairRequested, StatePairRequestedByPeer} \<longrightarrow>
           dv_cert_fp (dev_at rg q) \<noteq> [] \<longrightarrow> Fingerprint sha crt = dv_cert_fp (dev_at rg q))) \<and>
     dv_conn (dev_at rg' r) = Some c \<and>
     (dv_cert_fp (dev_at rg' r) = Fingerprint sha crt \<or>
        dv_state (dev_at rg' r) = StatePaired \<and> dv_cert_fp (dev_at rg' r) = [])"
  using assms
proof (rule HandleNewConnection_Inr)
  fix body crt fp
  let ?rg = "fst (snd (peer_device ips body now rg))"
  assume id: "check_identity dl wr input pre expected (cn_cert c) = Inr (body, crt)"
    and r: "r = fst (peer_device ips body now rg)"
    and pin: "check_pin sha crt (dev_at ?rg r) = Inr fp"
    and dev: "dev_at rg' r = fst (accept_peer body fp c now (dev_at ?rg r))"
  have known: "q = r \<and> dv_state (dev_at ?rg r) = dv_state (dev_at rg q) \<and>
      dv_cert_fp (dev_at ?rg r) = dv_cert_fp (dev_at rg q) \<and> PeerCert (dev_at ?rg r) = PeerCert (dev_at rg q)"
    if "reg_Get (ib_device_id body) rg = Some q" for q
  proof -
    have "q = r" using that r by (simp add: peer_device_known)
    moreover have "trust_part (dev_at ?rg q) = trust_part (dev_at rg q)"
      using that by (intro peer_device_trust) simp
    ultimately show ?thesis using trust_part_eqs [of "dev_at ?rg q" "dev_at rg q"] by simp
  qed
  have announced: "cn_cert c = Some crt" "ValidDeviceID (ib_device_id body)"
    "MatchesDeviceID (Some crt) (ib_device_id body)" "expected = [] \<or> ib_device_id body = expected"
    using id unfolding check_identity_Inr by blast+
  note p = check_pin_Inr [OF pin]
  have kept: "\<forall>q. reg_Get (ib_device_id body) rg = Some q \<longrightarrow> q = r \<and>
      (\<forall>cur. PeerCert (dev_at rg q) = Some cur \<longrightarrow> Fingerprint sha cur = Fingerprint sha crt) \<and>
      (dv_state (dev_at rg q) \<in> {StatePaired, StatePairRequested, StatePairRequestedByPeer} \<longrightarrow>
         dv_cert_fp (dev_at rg q) \<noteq> [] \<longrightarrow> Fingerprint sha crt = dv_cert_fp (dev_at rg q))"
  proof (intro allI impI)
    fix q assume q: "reg_Get (ib_device_id body) rg = Some q"
    note k = known [OF q, THEN conjunct2, THEN conjunct1] known [OF q, THEN conjunct2, THEN conjunct2, THEN conjunct1]
      known [OF q, THEN conjunct2, THEN conjunct2, THEN conjunct2]
    show "q = r \<and> (\<forall>cur. PeerCert (dev_at rg q) = Some cur \<longrightarrow> Fingerprint sha cur = Fingerprint sha crt) \<and>
      (dv_state (dev_at rg q) \<in> {StatePaired, StatePairRequested, StatePairRequestedByPeer} \<longrightarrow>
         dv_cert_fp (dev_at rg q) \<noteq> [] \<longrightarrow> Fingerprint sha crt = dv_cert_fp (dev_at rg q))"
      using known [OF q, THEN conjunct1] p [unfolded k] by blast
  qed
  have "dv_conn (dev_at rg' r) = Some c" "dv_cert_fp (dev_at rg' r) = fp"
    "dv_state (dev_at rg' r) = dv_state (dev_at ?rg r)"
    by (simp_all only: dev accept_peer_session)
  moreover have "dv_cert_fp (dev_at rg' r) = Fingerprint sha crt \<or>
      dv_state (dev_at rg' r) = StatePaired \<and> dv_cert_fp (dev_at rg' r) = []"
    using p calculation by auto
  ultimately show ?thesis using announced kept by blast
qed

text \<open>
  A refused connection costs nothing that matters: whatever error ends the handshake, no
  known device loses its session, its queue, its pairing state or its pinned fingerprint, and
  nothing is closed.
\<close>
theorem refused_handshake_keeps_trust:
  assumes "HandleNewConnection sha ips dl wr input pre expected c now rg = (Inl e, rg', pubs, acts)"
    and "registry_ok rg" and "reg_Get i rg = Some q"
  shows "dv_state (dev_at rg' q) = dv_state (dev_at rg q) \<and> dv_cert_fp (dev_at rg' q) = dv_cert_fp (dev_at rg q) \<and>
     session_part (dev_at rg' q) = session_part (dev_at rg q) \<and> acts = []"
proof -
  have q: "q < rg_next rg" using assms(2,3) by (auto simp: registry_ok_def reg_Get_def dest: map_of_SomeD)
  have "trust_part (dev_at rg' q) = trust_part (dev_at rg q) \<and> acts = []"
    using assms(1) peer_device_trust [of q rg _ ips now] q
    by (auto simp: HandleNewConnection_def Let_def case_prod_beta split: sum.splits)
  then show ?thesis by (auto simp: trust_part_def)
qed

text \<open>
  The name is taken before the pin is checked: a connection that presents another
  certificate than the pinned one for a paired device is refused, but the device already carries
  the name, the protocol version and the sighting of the impostor.
\<close>
theorem impostor_renames_device:
  assumes "check_identity dl wr input pre expected (cn_cert c) = Inr (body, crt)"
    and "reg_Get (ib_device_id body) rg = Some r" and "dv_state (dev_at rg r) = StatePaired"
    and "PeerCert (dev_at rg r) = None" and "dv_cert_fp (dev_at rg r) \<noteq> []"
    and "dv_cert_fp (dev_at rg r) \<noteq> Fingerprint sha crt"
  shows "let (res, rg', pubs, acts) = HandleNewConnection sha ips dl wr input pre expected c now rg
     in res = Inl PinnedMismatch \<and> dv_name (dev_at rg' r) = SanitizeDeviceName (ib_device_name body) \<and>
        dv_last_seen (dev_at rg' r) = Some now"
proof -
  have "PeerCert (SetLastSeen t (SetPeerProtocolVersion v (SetName n d))) = PeerCert d" for t v n d
    by (simp add: device_setters PeerCert_def)
  moreover have "dv_last_seen (SetLastSeen t d) = t" for t d by (simp add: SetLastSeen_def)
  ultimately show ?thesis
    using assms
    by (simp add: HandleNewConnection_def peer_device_known check_pin_def Let_def)
qed

text \<open>
  A paired device without a pinned fingerprint (an old state file, or one edited by hand)
  accepts every certificate that carries its name, and is not pinned by doing so.
\<close>
theorem unpinned_pairing_accepts_any:
  assumes "check_identity dl wr input pre expected (cn_cert c) = Inr (body, crt)"
    and "reg_Get (ib_device_id body) rg = Some r" and "dv_state (dev_at rg r) = StatePaired"
    and "PeerCert (dev_at rg r) = None" and "dv_cert_fp (dev_at rg r) = []"
  shows "let (res, rg', pubs, acts) = HandleNewConnection sha ips dl wr input pre expected c now rg
     in res = Inr r \<and> dv_conn (dev_at rg' r) = Some c \<and> dv_cert_fp (dev_at rg' r) = []"
proof -
  have "PeerCert (SetLastSeen t (SetPeerProtocolVersion v (SetName n d))) = PeerCert d" for t v n d
    by (simp add: device_setters PeerCert_def)
  then show ?thesis
    using assms
    by (simp add: HandleNewConnection_def peer_device_known check_pin_def accept_peer_session
        case_prod_beta Let_def)
qed

text \<open>A concrete peer.\<close>

definition demo_id :: string where
  "demo_id = replicate 32 (CHR ''a'')"

definition demo_body :: identity_body where
  "demo_body = zero_identity_body\<lparr>ib_device_id := demo_id, ib_device_name := ''pc'', ib_tcp_port := 1716\<rparr>"

definition peer_cert :: "string \<Rightarrow> cert" where
  "peer_cert raw = \<lparr>ct_cn = demo_id, ct_raw = raw, ct_pubkey = None, ct_not_after = 0\<rparr>"

definition peer_conn :: "string \<Rightarrow> conn" where
  "peer_conn raw = \<lparr>cn_id = 7, cn_addr = None, cn_cert = Some (peer_cert raw)\<rparr>"

definition peer_packet :: packet where
  "peer_packet = NewPacket 0 TypeIdentity (Some (enc_identity demo_body))"

lemma demo_decodes: "dec_identity (enc_identity demo_body) = Some demo_body"
  by (rule dec_enc_identity) (simp_all add: demo_body_def zero_identity_body_def in_int64_def
      max_int64_def min_int64_def)

lemma peer_packet_decodes: "unmarshal_raw dec_identity (pk_body peer_packet) = Some demo_body"
  using demo_decodes by (simp add: peer_packet_def NewPacket_def unmarshal_raw_def)

lemma demo_valid [simp]: "ValidDeviceID demo_id" "ib_device_id demo_body = demo_id"
  by (simp_all add: ValidDeviceID_def demo_id_def device_id_char_def list_all_iff demo_body_def)

lemma demo_check:
  "check_identity True True (Inr peer_packet) (Some zero_identity_body) [] (cn_cert (peer_conn raw)) =
     Inr (demo_body, peer_cert raw)"
  using demo_decodes
  by (simp add: check_identity_Inr peer_conn_def peer_cert_def MatchesDeviceID_def peer_packet_def NewPacket_def)
    (simp add: demo_body_def zero_identity_body_def)

text \<open>A paired device of that identifier, disconnected, with a pin.\<close>

definition paired_device :: "string \<Rightarrow> registry" where
  "paired_device fp =
     \<lparr>rg_entries = [(demo_id, 0)],
      rg_heap = (\<lambda>_. (SetState StatePaired (NewDevice demo_id ''pc'' []))\<lparr>dv_cert_fp := fp\<rparr>),
      rg_next = 1, rg_has_bus = False\<rparr>"

lemma paired_device_facts:
  "reg_Get (ib_device_id demo_body) (paired_device fp) = Some 0"
  "dv_state (dev_at (paired_device fp) 0) = StatePaired"
  "PeerCert (dev_at (paired_device fp) 0) = None" "dv_cert_fp (dev_at (paired_device fp) 0) = fp"
  "registry_ok (paired_device fp)"
  by (simp_all add: paired_device_def reg_Get_def dev_at_def demo_body_def PeerCert_def registry_ok_def
      map_invar_def SetState_def NewDevice_def)

theorem impostor_renames_device_witness:
  "\<exists>rg' pubs acts. HandleNewConnection (\<lambda>s. s) (\<lambda>_. []) True True (Inr peer_packet) (Some zero_identity_body) []
      (peer_conn ''x'') 9 (paired_device ''00'') = (Inl PinnedMismatch, rg', pubs, acts) \<and>
     dv_last_seen (dev_at rg' 0) = Some 9"
proof -
  have "Fingerprint (\<lambda>s. s) (peer_cert ''x'') = ''78''" by code_simp
  then show ?thesis
    using impostor_renames_device [OF demo_check [of "''x''"] paired_device_facts(1-3) [of "''00''"],
        where sha = "\<lambda>s. s" and ips = "\<lambda>_. []" and now = 9]
    by (auto simp: paired_device_facts(4) Let_def split: prod.splits)
qed

theorem unpinned_pairing_accepts_any_witness:
  "\<exists>rg' pubs acts. HandleNewConnection (\<lambda>s. s) (\<lambda>_. []) True True (Inr peer_packet) (Some zero_identity_body) []
      (peer_conn ''x'') 9 (paired_device []) = (Inr 0, rg', pubs, acts) \<and> dv_cert_fp (dev_at rg' 0) = []"
  using unpinned_pairing_accepts_any [OF demo_check [of "''x''"] paired_device_facts(1-4),
      where sha = "\<lambda>s. s" and ips = "\<lambda>_. []" and now = 9]
  by (auto simp: Let_def split: prod.splits)

lemma demo_accept:
  "\<exists>rg' pubs acts. HandleNewConnection (\<lambda>s. s) (\<lambda>_. []) True True (Inr peer_packet) (Some zero_identity_body) []
      (peer_conn ''x'') 9 (paired_device ''78'') = (Inr 0, rg', pubs, acts)"
proof -
  have f: "Fingerprint (\<lambda>s. s) (peer_cert ''x'') = ''78''" by code_simp
  have "PeerCert (SetLastSeen t (SetPeerProtocolVersion v (SetName n d))) = PeerCert d" for t v n d
    by (simp add: device_setters PeerCert_def)
  then show ?thesis
    using paired_device_facts
    by (simp add: HandleNewConnection_def demo_check peer_device_known check_pin_def f case_prod_beta Let_def)
qed

theorem handshake_keeps_identity_witness:
  "\<exists>rg' pubs acts. HandleNewConnection (\<lambda>s. s) (\<lambda>_. []) True True (Inr peer_packet) (Some zero_identity_body) []
      (peer_conn ''x'') 9 (paired_device ''78'') = (Inr 0, rg', pubs, acts) \<and>
     dv_conn (dev_at rg' 0) = Some (peer_conn ''x'')"
proof -
  obtain rg' pubs acts where h: "HandleNewConnection (\<lambda>s. s) (\<lambda>_. []) True True (Inr peer_packet)
      (Some zero_identity_body) [] (peer_conn ''x'') 9 (paired_device ''78'') = (Inr 0, rg', pubs, acts)"
    using demo_accept by blast
  then show ?thesis using handshake_keeps_identity [OF h] by blast
qed

theorem refused_handshake_keeps_trust_witness:
  "\<exists>rg' pubs acts. HandleNewConnection (\<lambda>s. s) (\<lambda>_. []) False True (Inr peer_packet) (Some zero_identity_body) []
      (peer_conn ''x'') 9 (paired_device ''78'') = (Inl DeadlineFailed, rg', pubs, acts) \<and>
     dv_cert_fp (dev_at rg' 0) = ''78''"
proof -
  have h: "HandleNewConnection (\<lambda>s. s) (\<lambda>_. []) False True (Inr peer_packet) (Some zero_identity_body) []
      (peer_conn ''x'') 9 (paired_device ''78'') = (Inl DeadlineFailed, paired_device ''78'', [], [])"
    by (simp add: HandleNewConnection_def check_identity_def)
  show ?thesis
    using refused_handshake_keeps_trust [OF h paired_device_facts(5,1)] h paired_device_facts(4) by auto
qed

end
