(* ===== verification/Discovery.thy ===== *)
theory Discovery
  imports Handshake
begin

text \<open>
  \<open>internal/daemon/transport.go\<close>: what the daemon does with a sighting on the network and with
  an inbound connection before TLS, the binding of its port, and the throttle on connections to
  strangers.  \<open>pairingMode\<close> is what the broadcaster's \<open>IsRunning\<close> answered; everything started
  in the background (dials, the reconnect loop, the broadcast) is an action.
\<close>

section \<open>Rate limits\<close>

text \<open>
  The contract of a rate limiter: a refusal leaves the time of the last grant alone, a grant
  comes no sooner than \<open>gap\<close> after it.
\<close>

fun grant_times :: "('r \<Rightarrow> int \<Rightarrow> 's \<Rightarrow> bool \<times> 's) \<Rightarrow> ('r \<times> int) list \<Rightarrow> 's \<Rightarrow> int list" where
  "grant_times allow [] s = []"
| "grant_times allow ((r, t) # rs) s =
     (case allow r t s of (ok, s') \<Rightarrow> (if ok then [t] else []) @ grant_times allow rs s')"

locale rate_limiter =
  fixes allow :: "'r \<Rightarrow> int \<Rightarrow> 's \<Rightarrow> bool \<times> 's"
    and last_grant :: "'s \<Rightarrow> int option"
    and gap :: int
  assumes refused: "allow r t s = (False, s') \<Longrightarrow> last_grant s' = last_grant s"
    and granted: "allow r t s = (True, s') \<Longrightarrow>
      last_grant s' = Some t \<and> (case last_grant s of None \<Rightarrow> True | Some t0 \<Rightarrow> t - t0 \<ge> gap)"
    and gap_pos: "0 < gap"
begin

lemma grants_after:
  "(case last_grant s of None \<Rightarrow> True | Some t0 \<Rightarrow> \<forall>t \<in> set (grant_times allow rs s). t - t0 \<ge> gap) \<and>
   sorted_wrt (\<lambda>a b. b - a \<ge> gap) (grant_times allow rs s)"
proof (induction rs arbitrary: s)
  case (Cons q rs)
  obtain r t where q: "q = (r, t)" by force
  obtain ok s' where a: "allow r t s = (ok, s')" by force
  note ih = Cons.IH [of s']
  show ?case
  proof (cases ok)
    case True
    then have g: "last_grant s' = Some t" "case last_grant s of None \<Rightarrow> True | Some t0 \<Rightarrow> t - t0 \<ge> gap"
      using granted a by auto
    then have after: "\<forall>u \<in> set (grant_times allow rs s'). u - t \<ge> gap"
      and "sorted_wrt (\<lambda>a b. b - a \<ge> gap) (grant_times allow rs s')" using ih by auto
    moreover have "\<forall>u \<in> set (grant_times allow rs s'). u - t0 \<ge> gap" if "last_grant s = Some t0" for t0
    proof
      fix u assume "u \<in> set (grant_times allow rs s')"
      then have "u - t \<ge> gap" using after by blast
      moreover have "t - t0 \<ge> gap" using g(2) that by simp
      ultimately show "u - t0 \<ge> gap" using gap_pos by simp
    qed
    ultimately show ?thesis using True q a g by (auto split: option.splits)
  next
    case False
    then show ?thesis using refused ih q a by (auto split: option.splits)
  qed
qed (simp split: option.splits)

lemma grants_spaced: "sorted_wrt (\<lambda>a b. b - a \<ge> gap) (grant_times allow rs s)"
  using grants_after by blast

end

section \<open>The throttle on strangers\<close>

record throttle =
  th_global :: int
  th_by_ip :: "(string \<times> int) list"

definition new_throttle :: "int \<Rightarrow> throttle" where
  "new_throttle now = \<lparr>th_global = now - minute, th_by_ip = []\<rparr>"

definition allowEphemeralDial :: "string \<Rightarrow> int \<Rightarrow> throttle \<Rightarrow> bool \<times> throttle" where
  "allowEphemeralDial ip now th =
     (if now - th_global th < second then (False, th)
      else if (case map_of (th_by_ip th) ip of None \<Rightarrow> False | Some t \<Rightarrow> now - t < 5 * second)
      then (False, th)
      else (True,
        th\<lparr>th_global := now,
           th_by_ip := AList.update ip now (filter (\<lambda>(k, v). \<not> now - v > minute) (th_by_ip th))\<rparr>))"

interpretation ephemeral: rate_limiter allowEphemeralDial "\<lambda>th. Some (th_global th)" second
  by unfold_locales (auto simp: allowEphemeralDial_def second_def millisecond_def split: if_splits)

definition discoveryDialMinInterval :: duration where
  "discoveryDialMinInterval = 2 * second"

interpretation discovery_dial: rate_limiter
  "\<lambda>_ :: unit. ShouldDiscoveryDial discoveryDialMinInterval" dv_last_discovery_dial discoveryDialMinInterval
  by unfold_locales
    (auto simp: ShouldDiscoveryDial_def discoveryDialMinInterval_def time_since_lt_iff second_def
        millisecond_def max_int64_def min_int64_def split: if_splits option.splits)

section \<open>Sightings\<close>

definition shouldEphemeralClose :: "bool \<Rightarrow> int \<Rightarrow> device \<Rightarrow> bool" where
  "shouldEphemeralClose pairingMode now d =
     (if pairingMode then False
      else if \<not> dv_ephemeral_dialed d then False
      else if dv_state d \<noteq> StateUnpaired then False
      else if PairDialActive now d then False
      else True)"

datatype sighting_action =
    ClosedSession nat "dev_action list"
  | DialPeer ip int string int bool
  | SpawnReconnect nat ip
  | SyncBroadcast
  | ResetBroadcast

record disc_world =
  dw_registry :: registry
  dw_throttle :: throttle

definition dw_dev :: "disc_world \<Rightarrow> nat \<Rightarrow> device" where
  "dw_dev w r = dev_at (dw_registry w) r"

definition dw_on :: "nat \<Rightarrow> (device \<Rightarrow> device) \<Rightarrow> disc_world \<Rightarrow> disc_world" where
  "dw_on r f w = w\<lparr>dw_registry := upd_dev r f (dw_registry w)\<rparr>"

text \<open>The dial of a paired sighting, at most one every two seconds.\<close>

definition paired_dial :: "nat \<Rightarrow> ip \<Rightarrow> int \<Rightarrow> identity_body \<Rightarrow> int \<Rightarrow> disc_world \<Rightarrow> disc_world \<times> sighting_action list" where
  "paired_dial r ip tcpPort body now w =
     (let (ok, d) = ShouldDiscoveryDial discoveryDialMinInterval now (dw_dev w r);
          w = dw_on r (\<lambda>_. d) w;
          port = (if validDialPort (dv_last_port d) then dv_last_port d else tcpPort)
      in (w, if ok then [DialPeer ip port (ib_device_id body) (ib_protocol_version body) False] else []))"

text \<open>The sighting is noted; a roamed device restarts its backoff.\<close>

definition note_paired :: "ip \<Rightarrow> int \<Rightarrow> device \<Rightarrow> device" where
  "note_paired ip now d =
     (let (roamed, d) = NoteSighting ip (SetLastSeen (Some now) d)
      in if roamed then ResetReconnectAttempt d else d)"

text \<open>Dial only somewhere new: an unknown or other address, or one the live socket is not bound to.\<close>

definition paired_dials :: "nat \<Rightarrow> ip \<Rightarrow> int \<Rightarrow> identity_body \<Rightarrow> int \<Rightarrow> disc_world \<Rightarrow> disc_world \<times> sighting_action list" where
  "paired_dials r ip tcpPort body now w =
     (let lastIP = dv_last_ip (dw_dev w r)
      in if lastIP = [] \<or> \<not> ip_equal lastIP ip then paired_dial r ip tcpPort body now w
         else if IsConnected (dw_dev w r)
           \<and> (RemoteIP (dw_dev w r) = [] \<or> \<not> ip_equal (RemoteIP (dw_dev w r)) ip)
         then paired_dial r ip tcpPort body now w
         else (w, []))"

text \<open>Wake the parked reconnect loop, or start one.\<close>

definition paired_wake :: "bool \<Rightarrow> nat \<Rightarrow> ip \<Rightarrow> disc_world \<Rightarrow> disc_world \<times> sighting_action list" where
  "paired_wake sightingDriven r ip w =
     (if \<not> sightingDriven then (w, [])
      else let w = dw_on r PokeReconnect w
           in if \<not> IsConnected (dw_dev w r) \<and> fst (TryReconnect (dw_dev w r))
              then (dw_on r (\<lambda>d. ResetReconnectAttempt (snd (TryReconnect d))) w, [SpawnReconnect r ip])
              else (w, []))"

definition paired_sighting ::
  "bool \<Rightarrow> nat \<Rightarrow> ip \<Rightarrow> int \<Rightarrow> identity_body \<Rightarrow> int \<Rightarrow> disc_world \<Rightarrow> disc_world \<times> sighting_action list" where
  "paired_sighting sightingDriven r ip tcpPort body now w =
     (let w = dw_on r (note_paired ip now) w;
          (w, dials) = paired_dials r ip tcpPort body now w;
          (w, spawn) = paired_wake sightingDriven r ip w
      in (w, [SyncBroadcast, ResetBroadcast] @ dials @ spawn))"

text \<open>A sighting of a device that is not paired, known or not.\<close>

definition stranger_sighting ::
  "(ip \<Rightarrow> string) \<Rightarrow> bool \<Rightarrow> ip \<Rightarrow> int \<Rightarrow> identity_body \<Rightarrow> int \<Rightarrow> disc_world
     \<Rightarrow> disc_world \<times> publication list \<times> sighting_action list" where
  "stranger_sighting ip_string pairingMode ip tcpPort body now w =
     (let safeName = SanitizeDeviceName (ib_device_name body);
          (r, w, pubs) =
            (case reg_Get (ib_device_id body) (dw_registry w) of
               None \<Rightarrow>
                 let (r, rg) = alloc_dev (NewDevice (ib_device_id body) safeName (ib_device_type body)) (dw_registry w);
                     (rg, pubs) = reg_Add ip_string r rg
                 in (r, w\<lparr>dw_registry := rg\<rparr>, pubs)
             | Some r \<Rightarrow> (r, dw_on r (SetName safeName) w, []));
          w = dw_on r (SetDiscoveryAddr ip tcpPort) w;
          w = dw_on r (SetLastSeen (Some now)) w;
          dial = DialPeer ip tcpPort (ib_device_id body) (ib_protocol_version body)
      in if pairingMode then (w, pubs, [dial True])
         else if fst (ConsumePairDial (dw_dev w r))
         then (dw_on r (\<lambda>d. snd (ConsumePairDial d)) w, pubs, [dial True])
         else
           let w = dw_on r (\<lambda>d. snd (ConsumePairDial d)) w
           in if \<not> dv_ephemeral_dialed (dw_dev w r)
              then let w = dw_on r MarkEphemeralDialed w;
                       (ok, th) = allowEphemeralDial (ip_string ip) now (dw_throttle w);
                       w = w\<lparr>dw_throttle := th\<rparr>
                   in (w, pubs, if ok then [dial False] else [])
              else (w, pubs, []))"

definition onDeviceFound ::
  "string \<Rightarrow> bool \<Rightarrow> (ip \<Rightarrow> string) \<Rightarrow> bool \<Rightarrow> ip \<Rightarrow> int \<Rightarrow> packet \<Rightarrow> int \<Rightarrow> disc_world
     \<Rightarrow> disc_world \<times> publication list \<times> sighting_action list" where
  "onDeviceFound localID sightingDriven ip_string pairingMode ip tcpPort pkt now w =
     (case unmarshal_raw dec_identity (pk_body pkt) of
        None \<Rightarrow> (w, [], [])
      | Some body \<Rightarrow>
          if ib_device_id body = localID then (w, [], [])
          else if \<not> ValidDeviceID (ib_device_id body) then (w, [], [])
          else if \<not> validDialPort tcpPort then (w, [], [])
          else case reg_Get (ib_device_id body) (dw_registry w) of
            None \<Rightarrow> stranger_sighting ip_string pairingMode ip tcpPort body now w
          | Some r \<Rightarrow>
              if IsConnected (dw_dev w r) \<and> shouldEphemeralClose pairingMode now (dw_dev w r)
              then let (d, acts) = Disconnect now (dw_dev w r)
                   in (dw_on r (\<lambda>_. d) w, [], [ClosedSession r acts])
              else if IsConnected (dw_dev w r) \<and> dv_state (dw_dev w r) \<noteq> StatePaired then (w, [], [])
              else if dv_state (dw_dev w r) = StatePaired
              then let (w, acts) = paired_sighting sightingDriven r ip tcpPort body now w
                   in (w, [], acts)
              else stranger_sighting ip_string pairingMode ip tcpPort body now w)"

section \<open>Inbound connections\<close>

definition shouldRefuseInboundCooldown :: "identity_body \<Rightarrow> registry \<Rightarrow> bool \<Rightarrow> int \<Rightarrow> bool" where
  "shouldRefuseInboundCooldown identity rg pairingMode now =
     (if pairingMode then False
      else case reg_Get (ib_device_id identity) rg of
        None \<Rightarrow> False
      | Some r \<Rightarrow> InCooldown now (dev_at rg r))"

text \<open>
  The identity read before TLS, or \<open>None\<close> when the connection is dropped: what continues with
  the handshake as TLS client.
\<close>

definition accept_inbound ::
  "string \<Rightarrow> bool \<Rightarrow> read_error + packet \<Rightarrow> registry \<Rightarrow> int \<Rightarrow> identity_body option" where
  "accept_inbound localID pairingMode input rg now =
     (case input of
        Inl e \<Rightarrow> None
      | Inr pkt \<Rightarrow>
          (case unmarshal_raw dec_identity (pk_body pkt) of
             None \<Rightarrow> None
           | Some pre \<Rightarrow>
               if \<not> ValidDeviceID (ib_device_id pre) then None
               else if SanitizeDeviceName (ib_device_name pre) = [] then None
               else if ib_target_id pre \<noteq> [] \<and> ib_target_id pre \<noteq> localID then None
               else if shouldRefuseInboundCooldown pre rg pairingMode now then None
               else Some pre))"

section \<open>The listening port\<close>

text \<open>\<open>free\<close> tells whether a port can be bound; the result is the bound port.\<close>

fun try_ports :: "(int \<Rightarrow> bool) \<Rightarrow> int list \<Rightarrow> int option" where
  "try_ports free [] = None"
| "try_ports free (p # ps) = (if free p then Some p else try_ports free ps)"

definition bindTCPListener :: "(int \<Rightarrow> bool) \<Rightarrow> int \<Rightarrow> int option" where
  "bindTCPListener free configured =
     (if configured = 0 \<or> configured = DefaultTCPPort then try_ports free [TCPPortMin..TCPPortMax]
      else if free configured then Some configured else None)"

definition updateIdentityTCPPort :: "packet \<Rightarrow> int \<Rightarrow> packet option" where
  "updateIdentityTCPPort pkt port =
     (case pk_body pkt of
        None \<Rightarrow> Some pkt
      | Some j \<Rightarrow>
          (case dec_identity j of
             None \<Rightarrow> None
           | Some body \<Rightarrow> Some (pkt\<lparr>pk_body := Some (enc_identity (body\<lparr>ib_tcp_port := port\<rparr>))\<rparr>)))"

section \<open>The throttle is bounded\<close>

text \<open>The times of the table lie at least a second apart, none after the last grant.\<close>

definition throttle_ok :: "throttle \<Rightarrow> bool" where
  "throttle_ok th \<longleftrightarrow>
     distinct (map fst (th_by_ip th)) \<and>
     (\<forall>k v. (k, v) \<in> set (th_by_ip th) \<longrightarrow> v \<le> th_global th \<and> th_global th - v \<le> minute) \<and>
     (\<forall>k v k' v'. (k, v) \<in> set (th_by_ip th) \<longrightarrow> (k', v') \<in> set (th_by_ip th) \<longrightarrow> k \<noteq> k' \<longrightarrow> \<bar>v - v'\<bar> \<ge> second)"

lemma second_pos [simp]: "0 < second" by (simp add: second_def millisecond_def)

lemma distinct_keys_filter: "distinct (map fst al) \<Longrightarrow> distinct (map fst (filter P al))"
  by (induction al) auto

lemma update_mem:
  "distinct (map fst al) \<Longrightarrow> (k, v) \<in> set (AList.update i x al) \<longleftrightarrow> (if k = i then v = x else (k, v) \<in> set al)"
  using map_of_eq_Some_iff [of "AList.update i x al" k v] map_of_eq_Some_iff [of al k v]
    distinct_update [of al i x] by (auto simp: update_conv split: if_splits)

lemma throttle_ok_step:
  assumes "throttle_ok th" and "th_global th \<le> now"
  shows "throttle_ok (snd (allowEphemeralDial ip now th))"
proof (cases "fst (allowEphemeralDial ip now th)")
  case False
  then show ?thesis using assms(1) by (auto simp: allowEphemeralDial_def split: if_splits)
next
  case True
  let ?al = "filter (\<lambda>(k, v). \<not> now - v > minute) (th_by_ip th)"
  have d: "distinct (map fst ?al)" using assms(1) by (simp add: throttle_ok_def distinct_keys_filter)
  have gap: "now - th_global th \<ge> second" using True by (auto simp: allowEphemeralDial_def split: if_splits)
  have s: "snd (allowEphemeralDial ip now th) = th\<lparr>th_global := now, th_by_ip := AList.update ip now ?al\<rparr>"
    using True by (auto simp: allowEphemeralDial_def split: if_splits)
  have old: "v \<le> th_global th" "now - v \<le> minute" if "(k, v) \<in> set ?al" for k v
    using that assms(1) by (auto simp: throttle_ok_def)
  have recent: "\<forall>k v. (k, v) \<in> set (AList.update ip now ?al) \<longrightarrow> v \<le> now \<and> now - v \<le> minute"
  proof (intro allI impI)
    fix k v assume "(k, v) \<in> set (AList.update ip now ?al)"
    then have "v = now \<or> (k, v) \<in> set ?al" by (auto simp: update_mem [OF d] split: if_splits)
    then show "v \<le> now \<and> now - v \<le> minute"
    proof
      assume "v = now"
      then show ?thesis by (simp add: minute_def second_def millisecond_def)
    qed (use old [of k v] assms(2) in simp)
  qed
  have "\<forall>k v k' v'. (k, v) \<in> set (AList.update ip now ?al) \<longrightarrow> (k', v') \<in> set (AList.update ip now ?al) \<longrightarrow>
      k \<noteq> k' \<longrightarrow> \<bar>v - v'\<bar> \<ge> second"
  proof (intro allI impI)
    fix k v k' v'
    assume m: "(k, v) \<in> set (AList.update ip now ?al)" "(k', v') \<in> set (AList.update ip now ?al)" "k \<noteq> k'"
    consider "k = ip" "(k', v') \<in> set ?al" "v = now" | "k' = ip" "(k, v) \<in> set ?al" "v' = now"
      | "(k, v) \<in> set ?al" "(k', v') \<in> set ?al"
      using m by (auto simp: update_mem [OF d] split: if_splits)
    then show "\<bar>v - v'\<bar> \<ge> second"
    proof cases
      case 3
      then show ?thesis using assms(1) m(3) unfolding throttle_ok_def by auto
    qed (use old gap in force)+
  qed
  then show ?thesis
    using recent distinct_update [OF d] by (simp add: s throttle_ok_def)
qed

lemma spaced_card:
  assumes "finite V" and "\<forall>v \<in> V. hi - w * d \<le> v \<and> v \<le> hi" and "0 < (d :: int)" "0 \<le> w"
    and "\<forall>a \<in> V. \<forall>b \<in> V. a \<noteq> b \<longrightarrow> \<bar>a - b\<bar> \<ge> d"
  shows "int (card V) \<le> w + 1"
proof -
  have inj: "inj_on (\<lambda>v. (hi - v) div d) V"
  proof (rule inj_onI, rule ccontr)
    fix a b assume ab: "a \<in> V" "b \<in> V" "(hi - a) div d = (hi - b) div d" "a \<noteq> b"
    have "\<bar>a - b\<bar> < d"
      using ab(3) assms(3) by (smt (verit) pos_mod_bound pos_mod_sign minus_mult_div_eq_mod)
    then show False using ab assms(5) by fastforce
  qed
  have "(\<lambda>v. (hi - v) div d) ` V \<subseteq> {0..w}"
  proof
    fix x assume "x \<in> (\<lambda>v. (hi - v) div d) ` V"
    then obtain v where v: "v \<in> V" "x = (hi - v) div d" by blast
    then have "0 \<le> hi - v" "hi - v \<le> w * d" using assms(2) by auto
    then show "x \<in> {0..w}"
      using v(2) assms(3) by (auto simp: pos_imp_zdiv_nonneg_iff) (metis assms(3) nonzero_mult_div_cancel_right order_less_irrefl zdiv_mono1)
  qed
  then have "card ((\<lambda>v. (hi - v) div d) ` V) \<le> card {0..w}" by (rule card_mono [OF finite_atLeastAtMost_int])
  then show ?thesis using card_image [OF inj] assms(4) by simp
qed

lemma throttle_ok_size:
  assumes "throttle_ok th" shows "length (th_by_ip th) \<le> 61"
proof -
  let ?V = "snd ` set (th_by_ip th)"
  have inj: "inj_on snd (set (th_by_ip th))"
  proof (rule inj_onI)
    fix x y assume xy: "x \<in> set (th_by_ip th)" "y \<in> set (th_by_ip th)" "snd x = snd y"
    then have "fst x = fst y"
      using assms unfolding throttle_ok_def
      by (metis abs_zero diff_self not_less prod.collapse second_pos)
    then show "x = y" using xy(3) by (simp add: prod_eq_iff)
  qed
  have "distinct (th_by_ip th)" using assms by (simp add: throttle_ok_def distinct_map)
  then have "length (th_by_ip th) = card ?V" using card_image [OF inj] distinct_card by fastforce
  moreover have "int (card ?V) \<le> 60 + 1"
  proof (rule spaced_card [of _ "th_global th" 60 second])
    show "\<forall>v \<in> ?V. th_global th - 60 * second \<le> v \<and> v \<le> th_global th"
    proof
      fix v assume "v \<in> ?V"
      then obtain k where "(k, v) \<in> set (th_by_ip th)" by auto
      then have "v \<le> th_global th \<and> th_global th - v \<le> minute" using assms unfolding throttle_ok_def by blast
      then show "th_global th - 60 * second \<le> v \<and> v \<le> th_global th" by (simp add: minute_def)
    qed
    show "\<forall>a \<in> ?V. \<forall>b \<in> ?V. a \<noteq> b \<longrightarrow> \<bar>a - b\<bar> \<ge> second"
    proof (intro ballI impI)
      fix a b assume ab: "a \<in> ?V" "b \<in> ?V" "a \<noteq> b"
      then obtain k k' where "(k, a) \<in> set (th_by_ip th)" "(k', b) \<in> set (th_by_ip th)" by auto
      moreover from this have "k \<noteq> k'"
        using ab(3) assms by (metis throttle_ok_def map_of_eq_Some_iff option.inject)
      ultimately show "\<bar>a - b\<bar> \<ge> second" using assms unfolding throttle_ok_def by blast
    qed
  qed simp_all
  ultimately show ?thesis by simp
qed

fun throttle_run :: "(string \<times> int) list \<Rightarrow> throttle \<Rightarrow> throttle" where
  "throttle_run [] th = th"
| "throttle_run ((ip, now) # rs) th = throttle_run rs (snd (allowEphemeralDial ip now th))"

lemma throttle_global_mono: "th_global th \<le> now \<Longrightarrow> th_global (snd (allowEphemeralDial ip now th)) \<le> now"
  by (simp add: allowEphemeralDial_def)

lemma throttle_run_ok:
  assumes "throttle_ok th" and "th_global th \<le> t0" and "sorted (t0 # map snd rs)"
  shows "throttle_ok (throttle_run rs th)"
  using assms
proof (induction rs arbitrary: th t0)
  case (Cons q rs)
  obtain ip now where q: "q = (ip, now)" by force
  then have "th_global th \<le> now" using Cons.prems(2,3) by simp
  then show ?case
    using Cons.IH [of "snd (allowEphemeralDial ip now th)" now] Cons.prems q
      throttle_ok_step [OF Cons.prems(1)] throttle_global_mono by simp
qed simp

text \<open>
  C12. The throttle of unsolicited dials (which pairing mode does not ask): whatever addresses announce themselves, two dials that
  it grants are at least a second apart, and its table of addresses never holds more than 61 entries.
\<close>
theorem ephemeral_throttle:
  assumes "sorted (start # map snd rs)"
  shows "sorted_wrt (\<lambda>a b. b - a \<ge> second) (grant_times allowEphemeralDial rs (new_throttle start)) \<and>
     length (th_by_ip (throttle_run rs (new_throttle start))) \<le> 61"
proof -
  have "throttle_ok (new_throttle start)" by (simp add: throttle_ok_def new_throttle_def)
  moreover have "th_global (new_throttle start) \<le> start"
    by (simp add: new_throttle_def minute_def second_def millisecond_def)
  ultimately show ?thesis
    using throttle_ok_size [OF throttle_run_ok [OF _ _ assms]] ephemeral.grants_spaced by blast
qed

theorem ephemeral_throttle_witness:
  "sorted_wrt (\<lambda>a b. b - a \<ge> second)
     (grant_times allowEphemeralDial [(''a'', 0), (''b'', 1), (''c'', second)] (new_throttle 0))"
  using ephemeral_throttle [of 0 "[(''a'', 0), (''b'', 1), (''c'', second)]"]
  by (simp add: second_def millisecond_def)

section \<open>What a sighting can cause\<close>

lemma dw_simps [simp]:
  "dw_dev (dw_on r f w) q = (if q = r then f (dw_dev w r) else dw_dev w q)"
  "reg_Get i (dw_registry (dw_on r f w)) = reg_Get i (dw_registry w)"
  "dw_throttle (dw_on r f w) = dw_throttle w"
  "dw_dev (w\<lparr>dw_throttle := th\<rparr>) q = dw_dev w q"
  by (simp_all add: dw_dev_def dw_on_def)

lemma paired_dial_acts:
  "a \<in> set (snd (paired_dial r ip tcpPort body now w)) \<Longrightarrow>
     \<exists>port. a = DialPeer ip port (ib_device_id body) (ib_protocol_version body) False \<and>
       port = (if validDialPort (dv_last_port (dw_dev w r)) then dv_last_port (dw_dev w r) else tcpPort)"
  by (auto simp: paired_dial_def ShouldDiscoveryDial_def Let_def split: if_splits)

lemma paired_dial_keeps:
  "dv_reconnecting (dw_dev (fst (paired_dial r ip tcpPort body now w)) r) = dv_reconnecting (dw_dev w r)"
  "IsConnected (dw_dev (fst (paired_dial r ip tcpPort body now w)) r) = IsConnected (dw_dev w r)"
  "dv_state (dw_dev (fst (paired_dial r ip tcpPort body now w)) r) = dv_state (dw_dev w r)"
  by (simp_all add: paired_dial_def ShouldDiscoveryDial_def IsConnected_def Let_def split: prod.splits)

lemma note_paired_keeps [simp]:
  "dv_last_port (note_paired ip now d) = dv_last_port d" "dv_state (note_paired ip now d) = dv_state d"
  "dv_reconnecting (note_paired ip now d) = dv_reconnecting d" "IsConnected (note_paired ip now d) = IsConnected d"
  by (simp_all add: note_paired_def device_setters IsConnected_def Let_def)

lemma paired_dials_acts:
  "a \<in> set (snd (paired_dials r ip tcpPort body now w)) \<Longrightarrow>
     a = DialPeer ip (if validDialPort (dv_last_port (dw_dev w r)) then dv_last_port (dw_dev w r) else tcpPort)
           (ib_device_id body) (ib_protocol_version body) False"
  using paired_dial_acts [of a r ip tcpPort body now w]
  by (auto simp: paired_dials_def Let_def simp del: ip_equal_nil split: if_splits)

lemma paired_dials_keeps:
  "dv_reconnecting (dw_dev (fst (paired_dials r ip tcpPort body now w)) r) = dv_reconnecting (dw_dev w r)"
  "IsConnected (dw_dev (fst (paired_dials r ip tcpPort body now w)) r) = IsConnected (dw_dev w r)"
  "dv_state (dw_dev (fst (paired_dials r ip tcpPort body now w)) r) = dv_state (dw_dev w r)"
  by (simp_all add: paired_dials_def paired_dial_keeps Let_def)

lemma paired_wake_acts:
  "a \<in> set (snd (paired_wake sd r ip w)) \<Longrightarrow>
     a = SpawnReconnect r ip \<and> \<not> IsConnected (dw_dev w r) \<and> \<not> dv_reconnecting (dw_dev w r) \<and>
     dv_reconnecting (dw_dev (fst (paired_wake sd r ip w)) r)"
  by (auto simp: paired_wake_def PokeReconnect_def TryReconnect_def ResetReconnectAttempt_def
      IsConnected_def Let_def split: if_splits)

text \<open>The actions of a paired sighting.\<close>

lemma paired_sighting_acts:
  assumes "a \<in> set (snd (paired_sighting sd r ip tcpPort body now w))"
  shows "a = SyncBroadcast \<or> a = ResetBroadcast \<or>
    a = DialPeer ip (if validDialPort (dv_last_port (dw_dev w r)) then dv_last_port (dw_dev w r) else tcpPort)
          (ib_device_id body) (ib_protocol_version body) False \<or>
    a = SpawnReconnect r ip \<and> \<not> IsConnected (dw_dev w r) \<and> \<not> dv_reconnecting (dw_dev w r) \<and>
    dv_reconnecting (dw_dev (fst (paired_sighting sd r ip tcpPort body now w)) r)"
proof -
  let ?w = "dw_on r (note_paired ip now) w"
  let ?p = "paired_dials r ip tcpPort body now ?w"
  consider "a = SyncBroadcast" | "a = ResetBroadcast" | "a \<in> set (snd ?p)"
    | "a \<in> set (snd (paired_wake sd r ip (fst ?p)))"
    using assms by (auto simp: paired_sighting_def case_prod_beta Let_def)
  then show ?thesis
  proof cases
    case 3
    then show ?thesis using paired_dials_acts [OF 3] by simp
  next
    case 4
    then show ?thesis using paired_wake_acts [OF 4]
      by (simp add: paired_dials_keeps paired_sighting_def case_prod_beta Let_def)
  qed simp_all
qed

lemma stranger_acts:
  assumes "a \<in> set (snd (snd (stranger_sighting ips pm ip tcpPort body now w)))"
  shows "\<exists>force. a = DialPeer ip tcpPort (ib_device_id body) (ib_protocol_version body) force \<and>
    (force \<longrightarrow> pm \<or> (\<exists>r. reg_Get (ib_device_id body) (dw_registry w) = Some r \<and> PairDialPending (dw_dev w r)))"
proof (cases "reg_Get (ib_device_id body) (dw_registry w)")
  case None
  have new: "\<not> dv_pair_dial_requested (SetLastSeen s (SetDiscoveryAddr a p (SetBus b (NewDevice i n t))))"
    for s a p b i n t by (simp add: device_setters NewDevice_def)
  show ?thesis
    using assms None
    by (auto simp: stranger_sighting_def Let_def case_prod_beta ConsumePairDial_def
        dw_dev_def dw_on_def new split: if_splits)
next
  case (Some r)
  then show ?thesis
    using assms
    by (auto simp: stranger_sighting_def Let_def case_prod_beta ConsumePairDial_def SetLastSeen_def
        SetDiscoveryAddr_def SetName_def PairDialPending_def split: if_splits)
qed

text \<open>The limits on one action of a sighting.\<close>

definition action_limited ::
  "string \<Rightarrow> identity_body option \<Rightarrow> ip \<Rightarrow> int \<Rightarrow> bool \<Rightarrow> int \<Rightarrow> disc_world \<Rightarrow> disc_world \<Rightarrow> sighting_action \<Rightarrow> bool" where
  "action_limited localID announced ip tcpPort pm now w w' a = (case announced of None \<Rightarrow> False | Some body \<Rightarrow>
     ib_device_id body \<noteq> localID \<and> ValidDeviceID (ib_device_id body) \<and> validDialPort tcpPort \<and>
     (let known = reg_Get (ib_device_id body) (dw_registry w) in case a of
        DialPeer ip' port i proto force \<Rightarrow>
          ip' = ip \<and> validDialPort port \<and> i = ib_device_id body \<and> proto = ib_protocol_version body \<and>
          (case known of
             None \<Rightarrow> port = tcpPort \<and> (force \<longrightarrow> pm)
           | Some r \<Rightarrow>
               if dv_state (dw_dev w r) = StatePaired
               then \<not> force \<and> port = (if validDialPort (dv_last_port (dw_dev w r)) then dv_last_port (dw_dev w r) else tcpPort)
               else port = tcpPort \<and> (force \<longrightarrow> pm \<or> PairDialPending (dw_dev w r)))
      | SpawnReconnect r ip' \<Rightarrow>
          known = Some r \<and> ip' = ip \<and> dv_state (dw_dev w r) = StatePaired \<and> \<not> IsConnected (dw_dev w r) \<and>
          \<not> dv_reconnecting (dw_dev w r) \<and> dv_reconnecting (dw_dev w' r)
      | ClosedSession r _ \<Rightarrow> known = Some r \<and> IsConnected (dw_dev w r) \<and> shouldEphemeralClose pm now (dw_dev w r)
      | _ \<Rightarrow> known \<noteq> None))"

lemma onDeviceFound_cases:
  assumes "onDeviceFound localID sd ips pm ip tcpPort pkt now w = (w', pubs, acts)" and "a \<in> set acts"
  obtains (paired) body r where "unmarshal_raw dec_identity (pk_body pkt) = Some body" "ib_device_id body \<noteq> localID" "ValidDeviceID (ib_device_id body)"
      "validDialPort tcpPort" "reg_Get (ib_device_id body) (dw_registry w) = Some r"
      "dv_state (dw_dev w r) = StatePaired" "w' = fst (paired_sighting sd r ip tcpPort body now w)"
      "a \<in> set (snd (paired_sighting sd r ip tcpPort body now w))"
    | (stranger) body where "unmarshal_raw dec_identity (pk_body pkt) = Some body" "ib_device_id body \<noteq> localID" "ValidDeviceID (ib_device_id body)"
      "validDialPort tcpPort"
      "\<forall>r. reg_Get (ib_device_id body) (dw_registry w) = Some r \<longrightarrow> dv_state (dw_dev w r) \<noteq> StatePaired"
      "a \<in> set (snd (snd (stranger_sighting ips pm ip tcpPort body now w)))"
    | (closed) body r ds where "unmarshal_raw dec_identity (pk_body pkt) = Some body" "ib_device_id body \<noteq> localID"
      "ValidDeviceID (ib_device_id body)" "validDialPort tcpPort" "reg_Get (ib_device_id body) (dw_registry w) = Some r"
      "IsConnected (dw_dev w r)" "shouldEphemeralClose pm now (dw_dev w r)" "a = ClosedSession r ds"
proof (cases "unmarshal_raw dec_identity (pk_body pkt)")
  case None
  then show thesis using assms by (simp add: onDeviceFound_def)
next
  case (Some body)
  note f = onDeviceFound_def [of localID sd ips pm ip tcpPort pkt now w] Some
  show thesis
  proof (cases "ib_device_id body \<noteq> localID \<and> ValidDeviceID (ib_device_id body) \<and> validDialPort tcpPort")
    case False
    then show thesis using assms
      by (cases "ib_device_id body = localID"; cases "ValidDeviceID (ib_device_id body)") (simp_all add: f)
  next
    case True
    show thesis
    proof (cases "reg_Get (ib_device_id body) (dw_registry w)")
      case None
      then show thesis using stranger [of body] True assms f(2) by (simp add: f)
    next
      case found: (Some r)
      let ?d = "dw_dev w r"
      consider "IsConnected ?d \<and> shouldEphemeralClose pm now ?d"
        | "\<not> (IsConnected ?d \<and> shouldEphemeralClose pm now ?d)" "dv_state ?d = StatePaired"
        | "\<not> (IsConnected ?d \<and> shouldEphemeralClose pm now ?d)" "dv_state ?d \<noteq> StatePaired" "IsConnected ?d"
        | "\<not> IsConnected ?d" "dv_state ?d \<noteq> StatePaired" by blast
      then show thesis
      proof cases
        case 1
        then show thesis using closed [OF f(2) _ _ _ found] assms True found by (auto simp: f case_prod_beta)
      next
        case 2
        then show thesis using paired [of body r] assms True found f(2)
          by (cases "IsConnected ?d") (simp_all add: f case_prod_beta)
      next
        case 3
        then have "acts = []" using assms True found by (simp add: f)
        then show thesis using assms(2) by simp
      next
        case 4
        then show thesis using stranger [of body] assms True found f(2) by (simp add: f)
      qed
    qed
  qed
qed

text \<open>
  C8. What an unauthenticated announcement can cause is limited.  Every dial goes to the sighted address, for the announced
  identifier, which is well formed and not our own, and to the announced port, unless the device is paired and has an authenticated
  one; only pairing mode or a pending pair command forces a dial.  A reconnect loop is started only for the paired, disconnected
  device of that identifier that has none, which then counts as reconnecting, and only the session of the announced device can be
  closed, when it is one that may be.
\<close>
theorem sighting_actions_limited:
  assumes "onDeviceFound localID sd ips pm ip tcpPort pkt now w = (w', pubs, acts)"
  shows "\<forall>a \<in> set acts. action_limited localID (unmarshal_raw dec_identity (pk_body pkt)) ip tcpPort pm now w w' a"
proof
  fix a assume "a \<in> set acts"
  with assms show "action_limited localID (unmarshal_raw dec_identity (pk_body pkt)) ip tcpPort pm now w w' a"
  proof (cases rule: onDeviceFound_cases)
    case (paired body r)
    from paired_sighting_acts [OF paired(8)] show ?thesis
      using paired(1-7) by (elim disjE) (simp_all add: action_limited_def)
  next
    case (stranger body)
    obtain force where "a = DialPeer ip tcpPort (ib_device_id body) (ib_protocol_version body) force"
      "force \<longrightarrow> pm \<or> (\<exists>r. reg_Get (ib_device_id body) (dw_registry w) = Some r \<and> PairDialPending (dw_dev w r))"
      using stranger_acts [OF stranger(6)] by blast
    then show ?thesis using stranger(1-5) by (auto simp: action_limited_def split: option.splits)
  next
    case (closed body r ds)
    then show ?thesis by (simp add: action_limited_def)
  qed
qed

theorem sighting_actions_limited_witness:
  "\<exists>w'. onDeviceFound ''me'' True (\<lambda>_. []) True [] 1716 peer_packet 9
        \<lparr>dw_registry = NewRegistry False, dw_throttle = new_throttle 0\<rparr> =
      (w', [], [DialPeer [] 1716 demo_id 0 True]) \<and>
     action_limited ''me'' (Some demo_body) [] 1716 True 9 \<lparr>dw_registry = NewRegistry False, dw_throttle = new_throttle 0\<rparr> w'
       (DialPeer [] 1716 demo_id 0 True)"
proof -
  let ?w = "\<lparr>dw_registry = NewRegistry False, dw_throttle = new_throttle 0\<rparr>"
  have g: "reg_Get demo_id (NewRegistry False) = None" "demo_id \<noteq> ''me''" "validDialPort 1716"
      "ib_protocol_version demo_body = 0"
    by (simp_all add: reg_Get_def NewRegistry_def demo_id_def validDialPort_def demo_body_def
        zero_identity_body_def numeral_eq_Suc)
  have "\<exists>w'. onDeviceFound ''me'' True (\<lambda>_. []) True [] 1716 peer_packet 9 ?w =
      (w', [], [DialPeer [] 1716 demo_id 0 True])"
    using peer_packet_decodes g
    by (simp add: onDeviceFound_def stranger_sighting_def case_prod_beta Let_def reg_Add_def
        NewRegistry_def alloc_dev_def)
  then obtain w' where x: "onDeviceFound ''me'' True (\<lambda>_. []) True [] 1716 peer_packet 9 ?w =
      (w', [], [DialPeer [] 1716 demo_id 0 True])" by blast
  then show ?thesis using sighting_actions_limited [OF x] peer_packet_decodes by auto
qed

text \<open>
  A stranger gets one unsolicited dial per unpaired era, and spends it even when the
  throttle refuses: after the first sighting outside pairing mode the device is marked, and
  while it is, further sightings cause nothing.
\<close>
theorem stranger_gets_one_dial:
  assumes "unmarshal_raw dec_identity (pk_body pkt) = Some body" and "ib_device_id body \<noteq> localID"
    and "ValidDeviceID (ib_device_id body)" and "validDialPort tcpPort"
    and "reg_Get (ib_device_id body) (dw_registry w) = Some r" and "dv_state (dw_dev w r) = StateUnpaired"
    and "\<not> IsConnected (dw_dev w r)" and "\<not> PairDialPending (dw_dev w r)"
  shows "let (w', pubs, acts) = onDeviceFound localID sd ips False ip tcpPort pkt now w
     in dv_ephemeral_dialed (dw_dev w' r) \<and> pubs = [] \<and>
        acts = (if \<not> dv_ephemeral_dialed (dw_dev w r) \<and> fst (allowEphemeralDial (ips ip) now (dw_throttle w))
                then [DialPeer ip tcpPort (ib_device_id body) (ib_protocol_version body) False] else [])"
  using assms
  by (auto simp: onDeviceFound_def stranger_sighting_def Let_def case_prod_beta ConsumePairDial_def
      PairDialPending_def MarkEphemeralDialed_def SetName_def SetDiscoveryAddr_def SetLastSeen_def)

definition unpaired_world :: disc_world where
  "unpaired_world =
     \<lparr>dw_registry = (paired_device [])\<lparr>rg_heap := (\<lambda>_. NewDevice demo_id ''pc'' [])\<rparr>,
      dw_throttle = new_throttle 0\<rparr>"

theorem stranger_gets_one_dial_witness:
  "\<exists>w'. onDeviceFound ''me'' True (\<lambda>_. []) False [] 1716 peer_packet 0 unpaired_world =
     (w', [], [DialPeer [] 1716 demo_id 0 False])"
proof -
  have g: "reg_Get (ib_device_id demo_body) (dw_registry unpaired_world) = Some 0"
      "dw_dev unpaired_world 0 = NewDevice demo_id ''pc'' []" "dw_throttle unpaired_world = new_throttle 0"
    by (simp_all add: reg_Get_def dw_dev_def dev_at_def paired_device_def unpaired_world_def)
  have n: "dv_state (NewDevice demo_id ''pc'' []) = StateUnpaired" "\<not> IsConnected (NewDevice demo_id ''pc'' [])"
      "\<not> PairDialPending (NewDevice demo_id ''pc'' [])" "\<not> dv_ephemeral_dialed (NewDevice demo_id ''pc'' [])"
    by (simp_all add: NewDevice_def IsConnected_def PairDialPending_def)
  have d: "fst (allowEphemeralDial [] 0 (new_throttle 0))"
    by (simp add: allowEphemeralDial_def new_throttle_def minute_def second_def millisecond_def)
  have i: "ib_device_id demo_body \<noteq> ''me''" "validDialPort 1716" "ib_protocol_version demo_body = 0"
    by (simp_all add: demo_id_def validDialPort_def demo_body_def zero_identity_body_def numeral_eq_Suc)
  have "let (w', pubs, acts) = onDeviceFound ''me'' True (\<lambda>_. []) False [] 1716 peer_packet 0 unpaired_world
      in dv_ephemeral_dialed (dw_dev w' 0) \<and> pubs = [] \<and> acts = [DialPeer [] 1716 demo_id 0 False]"
    using stranger_gets_one_dial [OF peer_packet_decodes i(1) _ i(2) g(1), of True "\<lambda>_. []" "[]" 0]
    by (simp add: g n d i)
  then show ?thesis
    by (cases "onDeviceFound ''me'' True (\<lambda>_. []) False [] 1716 peer_packet 0 unpaired_world") auto
qed

end
