(* ===== verification/Broadcaster.thy ===== *)
theory Broadcaster
  imports DeviceRegistry Backoff
begin

text \<open>
  \<open>internal/discovery/broadcaster_controller.go\<close> and \<open>broadcaster.go\<close>: when the daemon announces
  itself over UDP and how often, and \<open>syncReconnectBroadcastUntil\<close> of \<open>internal/daemon/daemon.go\<close>,
  which decides from the registry whether the reconnect owner needs the broadcast.

  The methods of the controller hold its mutex, so each is one step.  A loop is a goroutine that
  runs \<open>Broadcaster.Run\<close> and then clears the \<open>running\<close> flag; it is named by a number, and so is
  the context it runs on.  The state lists the loops still running and the contexts cancelled.
\<close>

unbundle bit_operations_syntax

definition OwnerPairing :: string where
  "OwnerPairing = ''pairing''"

definition OwnerReconnect :: string where
  "OwnerReconnect = ''reconnect''"

record controller =
  bc_interval :: duration
  bc_idle :: duration
  bc_running :: bool
  bc_cancel :: "nat option"
  bc_owned :: "nat option"
  bc_owners :: "string list"
  bc_reset :: bool
  bc_browse :: bool
  bc_next :: nat
  bc_loops :: "nat list"
  bc_cancelled :: "nat list"
  bc_browsing :: "nat list"

definition defaultIdleInterval :: duration where
  "defaultIdleInterval = 60 * second"

definition NewBroadcasterController :: "duration \<Rightarrow> duration list \<Rightarrow> controller" where
  "NewBroadcasterController interval idleInterval =
     \<lparr>bc_interval = interval,
      bc_idle = (case idleInterval of [] \<Rightarrow> defaultIdleInterval
                 | i # _ \<Rightarrow> if i > 0 then i else defaultIdleInterval),
      bc_running = False, bc_cancel = None, bc_owned = None, bc_owners = [], bc_reset = False,
      bc_browse = False, bc_next = 0, bc_loops = [], bc_cancelled = [], bc_browsing = []\<rparr>"

section \<open>Operations\<close>

definition StartOwned :: "string \<Rightarrow> controller \<Rightarrow> controller" where
  "StartOwned owner bc =
     (let bc = bc\<lparr>bc_owners := List.insert owner (bc_owners bc)\<rparr>
      in if bc_running bc then bc
         else let g = bc_next bc;
                  bc = bc\<lparr>bc_cancel := Some g, bc_running := True, bc_owned := Some g,
                          bc_next := Suc g, bc_loops := g # bc_loops bc\<rparr>
              in if bc_browse bc then bc\<lparr>bc_browsing := g # bc_browsing bc\<rparr> else bc)"

definition StopOwned :: "string \<Rightarrow> controller \<Rightarrow> controller" where
  "StopOwned owner bc =
     (if owner \<notin> set (bc_owners bc) then bc
      else let bc = bc\<lparr>bc_owners := remove1 owner (bc_owners bc)\<rparr>
           in if bc_owners bc \<noteq> [] \<or> \<not> bc_running bc then bc
              else case bc_cancel bc of
                None \<Rightarrow> bc
              | Some g \<Rightarrow> bc\<lparr>bc_cancelled := g # bc_cancelled bc, bc_cancel := None, bc_running := False\<rparr>)"

definition bc_Start :: "controller \<Rightarrow> controller" where
  "bc_Start bc = StartOwned OwnerPairing bc"

definition bc_Stop :: "controller \<Rightarrow> controller" where
  "bc_Stop bc = StopOwned OwnerPairing bc"

definition SetBrowseStarter :: "bool \<Rightarrow> controller \<Rightarrow> controller" where
  "SetBrowseStarter starter bc =
     (let bc = bc\<lparr>bc_browse := starter\<rparr>
      in case bc_owned bc of
           None \<Rightarrow> bc
         | Some g \<Rightarrow> if bc_running bc \<and> starter then bc\<lparr>bc_browsing := g # bc_browsing bc\<rparr> else bc)"

text \<open>The reset channel holds one signal.\<close>

definition ResetBackoff :: "controller \<Rightarrow> controller" where
  "ResetBackoff bc = (if \<not> bc_running bc then bc else bc\<lparr>bc_reset := True\<rparr>)"

definition IsRunning :: "controller \<Rightarrow> bool" where
  "IsRunning bc = bc_running bc"

text \<open>The tail of the goroutine of a loop once \<open>Run\<close> returned: it clears the flag, whichever loop it was.\<close>

definition loop_exit :: "nat \<Rightarrow> controller \<Rightarrow> controller" where
  "loop_exit g bc =
     (if g \<in> set (bc_loops bc) then bc\<lparr>bc_loops := remove1 g (bc_loops bc), bc_running := False\<rparr> else bc)"

section \<open>The broadcast loop\<close>

definition maxReconnectInterval :: duration where
  "maxReconnectInterval = 15 * minute"

text \<open>
  One firing of the timer: the interval until the next and the new current interval.
  \<open>reduce\<close> is the answer of \<open>shouldReduce\<close> (false when there is none).
\<close>

definition fire :: "duration \<Rightarrow> bool \<Rightarrow> duration \<Rightarrow> duration \<times> duration" where
  "fire idle reduce current =
     (let reduced = (if idle \<le> 0 then defaultIdleInterval else idle)
      in if reduce then (reduced, current)
         else (current,
               if current < maxReconnectInterval
               then (let c = wrap64 (current * 2) in if c > maxReconnectInterval then maxReconnectInterval else c)
               else current))"

text \<open>What wakes the loop, and the waits it programs; a reset fires at once from the normal interval.\<close>

datatype beat = Reset_signal | Timer bool

fun Run_beats :: "duration \<Rightarrow> duration \<Rightarrow> beat list \<Rightarrow> duration \<Rightarrow> duration list" where
  "Run_beats normal idle [] current = []"
| "Run_beats normal idle (Reset_signal # bs) current = 0 # Run_beats normal idle bs normal"
| "Run_beats normal idle (Timer reduce # bs) current =
     (let (wait, c) = fire idle reduce current in wait # Run_beats normal idle bs c)"

text \<open>The directed broadcast address of an interface.\<close>

definition directed_broadcast :: "8 word list \<Rightarrow> 8 word list \<Rightarrow> 8 word list" where
  "directed_broadcast ip4 netmask = map (\<lambda>(a, m). a OR NOT m) (zip ip4 netmask)"

section \<open>Broadcast on behalf of offline paired devices\<close>

text \<open>The loop over the registry: earliest expiry, whether a broadcast is wanted, the controller.\<close>

fun sync_loop :: "duration \<Rightarrow> int \<Rightarrow> device list \<Rightarrow> gtime \<times> bool \<times> controller \<Rightarrow> gtime \<times> bool \<times> controller" where
  "sync_loop staleAfter now [] acc = acc"
| "sync_loop staleAfter now (d # ds) (earliest, wanted, bc) =
     sync_loop staleAfter now ds
       (if dv_state d = StatePaired \<and> \<not> IsConnected d
        then (if staleAfter > 0 \<and> dv_last_seen d \<noteq> None \<and> time_since now (dv_last_seen d) \<ge> staleAfter
              then (earliest, wanted, bc)
              else (case dv_last_seen d of
                      None \<Rightarrow> (earliest, True, StartOwned OwnerReconnect bc)
                    | Some t \<Rightarrow>
                        if staleAfter > 0
                        then let expires = t + staleAfter
                             in (case earliest of
                                   None \<Rightarrow> (Some expires, True, StartOwned OwnerReconnect bc)
                                 | Some e \<Rightarrow> (Some (if expires < e then expires else e), True,
                                              StartOwned OwnerReconnect bc))
                        else (earliest, True, StartOwned OwnerReconnect bc)))
        else (earliest, wanted, bc))"

definition syncReconnectBroadcastUntil ::
  "duration \<Rightarrow> int \<Rightarrow> registry \<Rightarrow> controller \<Rightarrow> gtime \<times> controller" where
  "syncReconnectBroadcastUntil staleAfter now rg bc =
     (let (earliest, wanted, bc) = sync_loop staleAfter now (map (dev_at rg) (reg_List rg)) (None, False, bc)
      in if \<not> wanted then (None, StopOwned OwnerReconnect bc) else (earliest, bc))"

text \<open>The timer that the daemon programs after a sync, if any.\<close>

definition reset_timer :: "duration \<Rightarrow> int \<Rightarrow> registry \<Rightarrow> controller \<Rightarrow> duration option \<times> controller" where
  "reset_timer staleAfter now rg bc =
     (let (expires, bc) = syncReconnectBroadcastUntil staleAfter now rg bc
      in (map_option (\<lambda>t. let delay = t - now in if delay < 0 then 0 else delay) expires, bc))"

section \<open>The controller never claims a broadcast that does not run\<close>

datatype bc_op = OpStart string | OpStop string | OpReset | OpTakeReset | OpBrowse bool | OpExit nat

fun bc_step :: "bc_op \<Rightarrow> controller \<Rightarrow> controller" where
  "bc_step (OpStart owner) bc = StartOwned owner bc"
| "bc_step (OpStop owner) bc = StopOwned owner bc"
| "bc_step OpReset bc = ResetBackoff bc"
| "bc_step OpTakeReset bc = bc\<lparr>bc_reset := False\<rparr>"
| "bc_step (OpBrowse starter) bc = SetBrowseStarter starter bc"
| "bc_step (OpExit g) bc = loop_exit g bc"

definition bc_run :: "bc_op list \<Rightarrow> controller \<Rightarrow> controller" where
  "bc_run ops bc = fold bc_step ops bc"

definition bc_ok :: "controller \<Rightarrow> bool" where
  "bc_ok bc \<longleftrightarrow>
     distinct (bc_owners bc) \<and> distinct (bc_loops bc) \<and>
     (\<forall>g \<in> set (bc_loops bc) \<union> set (bc_cancelled bc). g < bc_next bc) \<and>
     (bc_running bc \<longrightarrow> bc_owners bc \<noteq> [] \<and>
        (\<exists>g. bc_cancel bc = Some g \<and> bc_owned bc = Some g \<and> g \<in> set (bc_loops bc) \<and> g \<notin> set (bc_cancelled bc)))"

lemmas bc_op_defs = StartOwned_def StopOwned_def ResetBackoff_def SetBrowseStarter_def loop_exit_def Let_def

lemma list_insert_not_Nil [simp]: "List.insert x xs \<noteq> []"
  by (cases "x \<in> set xs") auto

lemma bc_ok_step: "bc_ok bc \<Longrightarrow> bc_ok (bc_step op bc)"
  by (cases op) (auto simp: bc_ok_def bc_op_defs less_Suc_eq in_set_insert split: option.splits)

interpretation bc_inv: invariant_system "\<lambda>s t. \<exists>op. t = bc_step op s" bc_ok
  by unfold_locales (auto intro: bc_ok_step)

lemma bc_run_steps: "(\<lambda>s t. \<exists>op. t = bc_step op s)\<^sup>*\<^sup>* bc (bc_run ops bc)"
  unfolding bc_run_def
  by (induction ops arbitrary: bc) (auto intro: converse_rtranclp_into_rtranclp)

lemma bc_ok_New: "bc_ok (NewBroadcasterController i idle)"
  by (simp add: bc_ok_def NewBroadcasterController_def)

text \<open>
  Whatever callers and loops do, in any order, a controller that reports a running
  broadcast has an owner for it and a loop that is alive on a context nobody cancelled.
\<close>
theorem running_broadcast_is_live:
  assumes "IsRunning (bc_run ops (NewBroadcasterController i idle))"
  shows "bc_owners (bc_run ops (NewBroadcasterController i idle)) \<noteq> [] \<and>
    (\<exists>g. g \<in> set (bc_loops (bc_run ops (NewBroadcasterController i idle))) \<and>
         g \<notin> set (bc_cancelled (bc_run ops (NewBroadcasterController i idle))))"
  using bc_inv.run_inv [OF bc_run_steps bc_ok_New, of ops i idle] assms
  by (auto simp: bc_ok_def IsRunning_def)

theorem running_broadcast_is_live_witness:
  "bc_owners (bc_run [OpStart OwnerPairing] (NewBroadcasterController 5 [])) \<noteq> []"
proof -
  have "IsRunning (bc_run [OpStart OwnerPairing] (NewBroadcasterController 5 []))"
    by (simp add: bc_run_def IsRunning_def StartOwned_def NewBroadcasterController_def)
  then show ?thesis using running_broadcast_is_live by blast
qed

section \<open>Ownership decides, unless a stopped loop ends late\<close>

text \<open>
  A run is orderly when a loop ends only after it was cancelled and before the next one starts.
\<close>

fun orderly_op :: "bc_op \<Rightarrow> controller \<Rightarrow> bool" where
  "orderly_op (OpExit g) bc \<longleftrightarrow> g \<in> set (bc_cancelled bc) \<and> \<not> bc_running bc"
| "orderly_op _ bc \<longleftrightarrow> True"

fun orderly :: "bc_op list \<Rightarrow> controller \<Rightarrow> bool" where
  "orderly [] bc \<longleftrightarrow> True"
| "orderly (op # ops) bc \<longleftrightarrow> orderly_op op bc \<and> orderly ops (bc_step op bc)"

definition owned_ok :: "controller \<Rightarrow> bool" where
  "owned_ok bc \<longleftrightarrow> bc_ok bc \<and> (bc_running bc \<longleftrightarrow> bc_owners bc \<noteq> []) \<and>
     (\<forall>g \<in> set (bc_loops bc). g \<notin> set (bc_cancelled bc) \<longrightarrow> bc_running bc \<and> bc_cancel bc = Some g)"

lemma owned_ok_step: "owned_ok bc \<Longrightarrow> orderly_op op bc \<Longrightarrow> owned_ok (bc_step op bc)"
proof -
  assume o: "owned_ok bc" "orderly_op op bc"
  then have "bc_ok (bc_step op bc)" by (simp add: owned_ok_def bc_ok_step)
  with o show "owned_ok (bc_step op bc)"
    by (cases op) (auto simp: owned_ok_def bc_op_defs bc_ok_def split: option.splits)
qed

interpretation owned_inv: invariant_system "\<lambda>s t. \<exists>op. orderly_op op s \<and> t = bc_step op s" owned_ok
  by unfold_locales (auto intro: owned_ok_step)

lemma orderly_run_steps:
  "orderly ops bc \<Longrightarrow> (\<lambda>s t. \<exists>op. orderly_op op s \<and> t = bc_step op s)\<^sup>*\<^sup>* bc (bc_run ops bc)"
  unfolding bc_run_def
  by (induction ops arbitrary: bc) (auto intro: converse_rtranclp_into_rtranclp)

lemma owned_ok_New: "owned_ok (NewBroadcasterController i idle)"
  using bc_ok_New [of i idle] by (simp add: owned_ok_def NewBroadcasterController_def)

text \<open>
  In orderly runs the broadcast is on exactly while somebody owns it, and every loop
  that nobody needs was told to stop.
\<close>
theorem broadcast_iff_owned:
  assumes "orderly ops (NewBroadcasterController i idle)"
  shows "(IsRunning (bc_run ops (NewBroadcasterController i idle)) \<longleftrightarrow>
      bc_owners (bc_run ops (NewBroadcasterController i idle)) \<noteq> []) \<and>
    (bc_owners (bc_run ops (NewBroadcasterController i idle)) = [] \<longrightarrow>
      set (bc_loops (bc_run ops (NewBroadcasterController i idle)))
        \<subseteq> set (bc_cancelled (bc_run ops (NewBroadcasterController i idle))))"
  using owned_inv.run_inv [OF orderly_run_steps [OF assms] owned_ok_New]
  by (auto simp: owned_ok_def IsRunning_def)

theorem broadcast_iff_owned_witness:
  "IsRunning (bc_run [OpStart OwnerPairing, OpStart OwnerReconnect, OpStop OwnerPairing]
     (NewBroadcasterController 5 [])) \<and>
   \<not> IsRunning (bc_run [OpStart OwnerPairing, OpStop OwnerPairing, OpExit 0] (NewBroadcasterController 5 []))"
  using broadcast_iff_owned [of "[OpStart OwnerPairing, OpStart OwnerReconnect, OpStop OwnerPairing]" 5 "[]"]
    broadcast_iff_owned [of "[OpStart OwnerPairing, OpStop OwnerPairing, OpExit 0]" 5 "[]"]
  by (simp add: bc_run_def bc_op_defs NewBroadcasterController_def OwnerPairing_def OwnerReconnect_def)

text \<open>
  A stopped loop that ends late clears the flag of its successor.  After that the last
  owner's stop no longer cancels anything: the loop goes on with no owner.
\<close>
theorem late_exit_leaks_loop:
  "let bc = bc_run [OpStart OwnerPairing, OpStop OwnerPairing, OpStart OwnerPairing, OpExit 0, OpStop OwnerPairing]
      (NewBroadcasterController i idle)
   in bc_owners bc = [] \<and> \<not> IsRunning bc \<and> 1 \<in> set (bc_loops bc) \<and> 1 \<notin> set (bc_cancelled bc)"
  by (simp add: bc_run_def bc_op_defs NewBroadcasterController_def IsRunning_def)

section \<open>How often\<close>

definition unreduced_wait :: "duration \<Rightarrow> duration \<Rightarrow> nat \<Rightarrow> duration" where
  "unreduced_wait idle normal n = (((\<lambda>c. snd (fire idle False c)) ^^ n) normal)"

lemma fire_doubles:
  "0 < c \<Longrightarrow> c \<le> maxReconnectInterval \<Longrightarrow>
     fire idle False c = (c, min maxReconnectInterval (2 * c))"
  by (simp add: fire_def maxReconnectInterval_def minute_def second_def in_int64_def max_int64_def min_int64_def)

lemma unreduced_wait_range:
  assumes "0 < normal" and "normal \<le> maxReconnectInterval"
  shows "0 < unreduced_wait idle normal n \<and> unreduced_wait idle normal n \<le> maxReconnectInterval"
  using assms
  by (induction n) (simp_all add: unreduced_wait_def fire_doubles maxReconnectInterval_def minute_def second_def)

lemma broadcast_backoff:
  assumes "0 < normal" and "normal \<le> maxReconnectInterval"
  shows "doubling_backoff (unreduced_wait idle normal) maxReconnectInterval"
proof
  show "unreduced_wait idle normal (Suc n) = min maxReconnectInterval (2 * unreduced_wait idle normal n)" for n
    using fire_doubles [of "unreduced_wait idle normal n" idle] unreduced_wait_range [OF assms, of idle n]
    by (simp add: unreduced_wait_def)
qed (use assms in \<open>simp_all add: unreduced_wait_def\<close>)

interpretation default_broadcast: doubling_backoff "unreduced_wait idle (30 * second)" maxReconnectInterval for idle
  by (rule broadcast_backoff) (simp_all add: maxReconnectInterval_def minute_def second_def)

lemma unreduced_wait_simps:
  "fst (fire idle False c) = c"
  "unreduced_wait idle c 0 = c"
  "unreduced_wait idle c (Suc k) = unreduced_wait idle (snd (fire idle False c)) k"
  by (simp_all add: fire_def unreduced_wait_def funpow_Suc_right del: funpow.simps)

lemma map_upt_Suc_front: "map f [0..<Suc n] = f 0 # map (\<lambda>k. f (Suc k)) [0..<n]"
  by (simp add: upt_conv_Cons map_Suc_upt [symmetric] del: upt_Suc)

lemma Run_beats_unreduced:
  "Run_beats normal idle (replicate n (Timer False) @ bs) c =
     map (unreduced_wait idle c) [0..<n] @ Run_beats normal idle bs (unreduced_wait idle c n)"
proof (induction n arbitrary: c)
  case (Suc n)
  show ?case using Suc [of "snd (fire idle False c)"]
    by (simp add: unreduced_wait_simps map_upt_Suc_front case_prod_beta Let_def del: upt_Suc)
qed (simp add: unreduced_wait_simps)

text \<open>
  With nobody connected the announcements thin out: the waits double from the configured
  interval up to a quarter of an hour, and a reset starts the series again at once.
\<close>
theorem broadcast_thins_out:
  assumes "0 < normal" and "normal \<le> maxReconnectInterval"
  shows "Run_beats normal idle (replicate n (Timer False) @ Reset_signal # replicate m (Timer False)) normal =
    map (\<lambda>k. min maxReconnectInterval (normal * 2 ^ k)) [0..<n] @ 0 #
    map (\<lambda>k. min maxReconnectInterval (normal * 2 ^ k)) [0..<m]"
proof -
  have w: "unreduced_wait idle normal = (\<lambda>k. min maxReconnectInterval (normal * 2 ^ k))"
    using doubling_backoff.closed_form [OF broadcast_backoff [OF assms]]
    by (simp add: fun_eq_iff unreduced_wait_simps)
  show ?thesis
    using Run_beats_unreduced [of normal idle m "[]"] by (simp add: Run_beats_unreduced w)
qed

theorem broadcast_thins_out_witness:
  "Run_beats (5 * minute) 0 [Timer False, Timer False, Timer False, Reset_signal, Timer False] (5 * minute) =
     [5 * minute, 10 * minute, 15 * minute, 0, 5 * minute]"
proof -
  have "0 < 5 * minute" "5 * minute \<le> maxReconnectInterval"
    by (simp_all add: maxReconnectInterval_def minute_def second_def)
  then show ?thesis
    using broadcast_thins_out [of "5 * minute" 0 3 1]
    by (simp add: numeral_3_eq_3 maxReconnectInterval_def minute_def second_def upt_rec)
qed

text \<open>The directed broadcast address is the last one of the interface's subnet.\<close>

lemma directed_broadcast_bits:
  assumes "length ip4 = length netmask"
  shows "map (\<lambda>(b, m). b AND m) (zip (directed_broadcast ip4 netmask) netmask) =
      map (\<lambda>(a, m). a AND m) (zip ip4 netmask) \<and>
    map (\<lambda>(b, m). b OR m) (zip (directed_broadcast ip4 netmask) netmask) = map (\<lambda>_. - 1) ip4"
  using assms
proof (induction ip4 netmask rule: list_induct2)
  case (Cons a as m ms)
  have "(a OR NOT m) AND m = a AND m" "(a OR NOT m) OR m = - 1"
    by (simp_all add: bit_eq_iff bit_simps, blast+)
  with Cons show ?case by (simp add: directed_broadcast_def)
qed (simp add: directed_broadcast_def)

section \<open>What a sync decides\<close>

text \<open>A device that needs the reconnect broadcast, and when that need ends by itself.\<close>

definition wants_broadcast :: "duration \<Rightarrow> int \<Rightarrow> device \<Rightarrow> bool" where
  "wants_broadcast staleAfter now d \<longleftrightarrow>
     dv_state d = StatePaired \<and> \<not> IsConnected d \<and>
     \<not> (staleAfter > 0 \<and> dv_last_seen d \<noteq> None \<and> time_since now (dv_last_seen d) \<ge> staleAfter)"

definition expiry :: "duration \<Rightarrow> device \<Rightarrow> int option" where
  "expiry staleAfter d = (if staleAfter > 0 then map_option (\<lambda>t. t + staleAfter) (dv_last_seen d) else None)"

fun earlier :: "int option \<Rightarrow> int option \<Rightarrow> int option" where
  "earlier None b = b"
| "earlier a None = a"
| "earlier (Some a) (Some b) = Some (min a b)"

lemma StartOwned_again [simp]: "StartOwned owner (StartOwned owner bc) = StartOwned owner bc"
  by (simp add: StartOwned_def Let_def)

lemma earlier_assoc: "earlier (earlier a b) c = earlier a (earlier b c)"
  by (cases a; cases b; cases c) (simp_all add: min.assoc)

lemma earlier_None [simp]: "earlier a None = a"
  by (cases a) simp_all

lemma sync_loop_Cons:
  "sync_loop staleAfter now (d # ds) (e, wanted, bc) =
     (if wants_broadcast staleAfter now d
      then sync_loop staleAfter now ds (earlier e (expiry staleAfter d), True, StartOwned OwnerReconnect bc)
      else sync_loop staleAfter now ds (e, wanted, bc))"
  by (cases e; cases "dv_last_seen d")
    (simp_all add: wants_broadcast_def expiry_def Let_def min_def not_le)

lemma sync_loop_result:
  "sync_loop staleAfter now ds (e, wanted, bc) =
     (foldl earlier e (map (expiry staleAfter) (filter (wants_broadcast staleAfter now) ds)),
      wanted \<or> (\<exists>d \<in> set ds. wants_broadcast staleAfter now d),
      if \<exists>d \<in> set ds. wants_broadcast staleAfter now d then StartOwned OwnerReconnect bc else bc)"
proof (induction ds arbitrary: e wanted bc)
  case (Cons d ds)
  show ?case unfolding sync_loop_Cons by (simp add: Cons.IH)
qed simp

lemma foldl_earlier_Some:
  "foldl earlier e xs = Some t \<Longrightarrow> e = Some t \<or> Some t \<in> set xs"
proof (induction xs arbitrary: e)
  case (Cons x xs)
  from Cons.IH [of "earlier e x"] Cons.prems have "earlier e x = Some t \<or> Some t \<in> set xs" by simp
  then show ?case by (cases e; cases x) (auto simp: min_def split: if_splits)
qed simp

lemma wants_expiry_future:
  assumes "wants_broadcast staleAfter now d" and "expiry staleAfter d = Some t" and "staleAfter \<le> max_int64"
  shows "now < t"
  using assms
  by (auto simp: wants_broadcast_def expiry_def time_since_def sat64_def split: if_splits)

lemma sync_eq:
  "syncReconnectBroadcastUntil staleAfter now rg bc =
     (if \<exists>r \<in> set (reg_List rg). wants_broadcast staleAfter now (dev_at rg r)
      then (foldl earlier None (map (expiry staleAfter)
              (filter (wants_broadcast staleAfter now) (map (dev_at rg) (reg_List rg)))),
            StartOwned OwnerReconnect bc)
      else (None, StopOwned OwnerReconnect bc))"
  by (simp add: syncReconnectBroadcastUntil_def sync_loop_result)

lemma owners_after:
  "set (bc_owners (StartOwned owner bc)) = insert owner (set (bc_owners bc))"
  "distinct (bc_owners bc) \<Longrightarrow> set (bc_owners (StopOwned owner bc)) = set (bc_owners bc) - {owner}"
proof -
  show "set (bc_owners (StartOwned owner bc)) = insert owner (set (bc_owners bc))"
    by (simp add: StartOwned_def Let_def)
  have "bc_owners (StopOwned owner bc) = remove1 owner (bc_owners bc)"
    by (simp add: StopOwned_def Let_def remove1_idem split: option.splits)
  then show "distinct (bc_owners bc) \<Longrightarrow> set (bc_owners (StopOwned owner bc)) = set (bc_owners bc) - {owner}"
    by simp
qed

text \<open>
  After a sync the reconnect owner holds the broadcast exactly when some paired device
  is offline and was seen recently enough (or never); other owners are untouched.  A timer for the
  next sync always lies in the future, so the daemon cannot spin on it.
\<close>
theorem sync_follows_registry:
  assumes "distinct (bc_owners bc)" and "staleAfter \<le> max_int64"
    and "reset_timer staleAfter now rg bc = (delay, bc')"
  shows "set (bc_owners bc') =
      (if \<exists>r \<in> set (reg_List rg). wants_broadcast staleAfter now (dev_at rg r)
       then insert OwnerReconnect (set (bc_owners bc)) else set (bc_owners bc) - {OwnerReconnect}) \<and>
    (\<forall>t. delay = Some t \<longrightarrow> 0 < t)"
proof -
  let ?w = "\<exists>r \<in> set (reg_List rg). wants_broadcast staleAfter now (dev_at rg r)"
  have b: "bc' = (if ?w then StartOwned OwnerReconnect bc else StopOwned OwnerReconnect bc)"
    using assms(3) by (auto simp: reset_timer_def sync_eq split: if_splits)
  have "0 < t" if d: "delay = Some t" for t
  proof -
    obtain e where e: "foldl earlier None (map (expiry staleAfter)
        (filter (wants_broadcast staleAfter now) (map (dev_at rg) (reg_List rg)))) = Some e"
      "t = (let k = e - now in if k < 0 then 0 else k)"
      using assms(3) d by (auto simp: reset_timer_def sync_eq split: if_splits)
    from foldl_earlier_Some [OF e(1)] have "now < e"
      using wants_expiry_future [OF _ _ assms(2)] by auto
    then show ?thesis using e(2) by simp
  qed
  then show ?thesis using owners_after(1) owners_after(2) [OF assms(1)] b by simp
qed

definition offline_pair :: registry where
  "offline_pair =
     \<lparr>rg_entries = [(''a'', 0)],
      rg_heap = (\<lambda>_. SetLastSeen (Some 100) (SetState StatePaired (NewDevice ''a'' ''pc'' []))),
      rg_next = 1, rg_has_bus = False\<rparr>"

theorem sync_follows_registry_witness:
  "OwnerReconnect \<in> set (bc_owners (snd (reset_timer 50 120 offline_pair (NewBroadcasterController 5 [])))) \<and>
   OwnerReconnect \<notin> set (bc_owners (snd (reset_timer 50 150 offline_pair (NewBroadcasterController 5 []))))"
proof -
  have d: "distinct (bc_owners (NewBroadcasterController 5 []))" by (simp add: NewBroadcasterController_def)
  have m: "(50::int) \<le> max_int64" by (simp add: max_int64_def)
  have w: "wants_broadcast 50 120 (dev_at offline_pair 0)" "\<not> wants_broadcast 50 150 (dev_at offline_pair 0)"
    by (simp_all add: wants_broadcast_def offline_pair_def dev_at_def SetLastSeen_def SetState_def NewDevice_def
        IsConnected_def time_since_def in_int64_def min_int64_def max_int64_def)
  have l: "reg_List offline_pair = [0]" by (simp add: offline_pair_def reg_List_def)
  show ?thesis
    using sync_follows_registry [OF d m, of 120 offline_pair "fst (reset_timer 50 120 offline_pair (NewBroadcasterController 5 []))"]
      sync_follows_registry [OF d m, of 150 offline_pair "fst (reset_timer 50 150 offline_pair (NewBroadcasterController 5 []))"]
    by (simp add: w l)
qed

end
