(* ===== verification/Reconnect.thy ===== *)
theory Reconnect
  imports Handshake Backoff
begin

text \<open>
  \<open>internal/daemon/transport_reconnect.go\<close>: the goroutine that redials a paired device.  Other
  goroutines change the device while it waits and dials, so a lap of the loop takes what it reads
  as its input: the device and the clock at the top, how the wait ended, the device and the clock after it, and
  both again after the dial.  \<open>ReconnectWithBackoff\<close> runs the loop over a list of laps; it is
  still running when the list is used up without a stop.
\<close>

definition reconnectTriggerMinGap :: duration where
  "reconnectTriggerMinGap = 5 * second"

record reconnect_cfg =
  rc_max_backoff :: duration
  rc_sighting_driven :: bool
  rc_fallback_max :: duration
  rc_stale_after :: duration
  rc_initial_backoff :: duration
  rc_tcp_port :: int

datatype wait_end = WaitCanceled | Woken | TimerFired

record lap =
  lp_canceled :: bool
  lp_dev :: device
  lp_now :: int
  lp_wait :: wait_end
  lp_dev_waited :: device
  lp_now_waited :: int
  lp_dev_dialled :: device
  lp_now_dialled :: int

text \<open>What one dial was: when it began and ended, whether a sighting caused it, and its target.\<close>

record dial =
  dl_start :: int
  dl_end :: int
  dl_triggered :: bool
  dl_ip :: ip
  dl_port :: int

datatype stop = Canceled | NoLongerPaired | AlreadyConnected | DeviceStale | SettledWhileWaiting | Succeeded

record loop_state =
  ls_attempt :: int
  ls_last_dial :: gtime

text \<open>\<open>reconnectPort\<close> prefers the port learned from the authenticated exchange.\<close>

definition reconnectPort :: "device \<Rightarrow> int \<Rightarrow> int" where
  "reconnectPort d fallback = (if validDialPort (dv_last_port d) then dv_last_port d else fallback)"

definition wait_cap :: "reconnect_cfg \<Rightarrow> duration" where
  "wait_cap cfg = (if rc_sighting_driven cfg then rc_fallback_max cfg else rc_max_backoff cfg)"

definition stale_after :: "reconnect_cfg \<Rightarrow> duration" where
  "stale_after cfg = (if rc_sighting_driven cfg then rc_stale_after cfg else 0)"

text \<open>The timer of a lap.\<close>

definition lap_backoff :: "reconnect_cfg \<Rightarrow> loop_state \<Rightarrow> duration" where
  "lap_backoff cfg s = ReconnectBackoff (ls_attempt s) (wait_cap cfg) [rc_initial_backoff cfg]"

section \<open>One lap\<close>

text \<open>The checks at the top of the loop.\<close>

definition lap_guard :: "reconnect_cfg \<Rightarrow> lap \<Rightarrow> stop option" where
  "lap_guard cfg l =
     (if lp_canceled l then Some Canceled
      else if dv_state (lp_dev l) \<noteq> StatePaired then Some NoLongerPaired
      else if IsConnected (lp_dev l) then Some AlreadyConnected
      else if rc_sighting_driven cfg \<and> time_since (lp_now l) (dv_last_seen (lp_dev l)) > stale_after cfg
      then Some DeviceStale
      else None)"

definition lap_dial :: "reconnect_cfg \<Rightarrow> ip \<Rightarrow> lap \<Rightarrow> dial" where
  "lap_dial cfg ip l =
     \<lparr>dl_start = lp_now_waited l, dl_end = lp_now_dialled l, dl_triggered = (lp_wait l = Woken),
      dl_ip = (let sighted = dv_last_sighted_ip (lp_dev_waited l) in if sighted \<noteq> [] then sighted else ip),
      dl_port = reconnectPort (lp_dev_waited l) (rc_tcp_port cfg)\<rparr>"

text \<open>Whether the loop stops, the dial if there was one, and the state for the next lap.\<close>

definition lap_step :: "reconnect_cfg \<Rightarrow> ip \<Rightarrow> lap \<Rightarrow> loop_state \<Rightarrow> stop option \<times> dial option \<times> loop_state" where
  "lap_step cfg ip l s =
     (case lap_guard cfg l of
        Some r \<Rightarrow> (Some r, None, s)
      | None \<Rightarrow>
          if lp_wait l = WaitCanceled then (Some Canceled, None, s)
          else if IsConnected (lp_dev_waited l) \<or> dv_state (lp_dev_waited l) \<noteq> StatePaired
          then (Some SettledWhileWaiting, None, s)
          else if lp_wait l = Woken \<and> time_since (lp_now_waited l) (ls_last_dial s) < reconnectTriggerMinGap
          then (None, None, s)
          else let s = s\<lparr>ls_last_dial := Some (lp_now_dialled l)\<rparr>
               in if IsConnected (lp_dev_dialled l) then (Some Succeeded, Some (lap_dial cfg ip l), s)
                  else (None, Some (lap_dial cfg ip l), s\<lparr>ls_attempt := ls_attempt s + 1\<rparr>))"

section \<open>The loop\<close>

fun reconnect_loop :: "reconnect_cfg \<Rightarrow> ip \<Rightarrow> lap list \<Rightarrow> loop_state \<Rightarrow> stop option \<times> dial list \<times> loop_state" where
  "reconnect_loop cfg ip [] s = (None, [], s)"
| "reconnect_loop cfg ip (l # ls) s =
     (case lap_step cfg ip l s of
        (Some r, d, s') \<Rightarrow> (Some r, (case d of None \<Rightarrow> [] | Some x \<Rightarrow> [x]), s')
      | (None, d, s') \<Rightarrow>
          (case reconnect_loop cfg ip ls s' of
             (r, ds, s'') \<Rightarrow> (r, (case d of None \<Rightarrow> ds | Some x \<Rightarrow> x # ds), s'')))"

text \<open>The counter is read once, when the goroutine starts.\<close>

definition ReconnectWithBackoff ::
  "reconnect_cfg \<Rightarrow> ip \<Rightarrow> device \<Rightarrow> lap list \<Rightarrow> stop option \<times> dial list \<times> loop_state" where
  "ReconnectWithBackoff cfg ip d laps =
     reconnect_loop cfg ip laps \<lparr>ls_attempt = dv_reconnect_attempt d, ls_last_dial = None\<rparr>"

text \<open>What the end of the loop leaves on the device: the counter after a success, and the flag cleared.\<close>

definition reconnect_finish :: "stop \<Rightarrow> loop_state \<Rightarrow> device \<Rightarrow> device" where
  "reconnect_finish r s d =
     ReconnectDone (if r = Succeeded then SetReconnectAttempt (ls_attempt s + 1) d else d)"

section \<open>Facts of a lap\<close>

lemma lap_step_dial:
  assumes "lap_step cfg ip l s = (r, Some d, s')"
  shows "d = lap_dial cfg ip l" and "dv_state (lp_dev_waited l) = StatePaired"
    and "\<not> IsConnected (lp_dev_waited l)" and "ls_last_dial s' = Some (dl_end d)"
    and "dl_triggered d \<Longrightarrow> time_since (dl_start d) (ls_last_dial s) \<ge> reconnectTriggerMinGap"
  using assms by (auto simp: lap_step_def lap_dial_def Let_def split: option.splits if_splits)

lemma lap_step_quiet:
  "lap_step cfg ip l s = (r, None, s') \<Longrightarrow> s' = s"
  by (auto simp: lap_step_def Let_def split: option.splits if_splits)

lemma lap_step_passes_guard: "lap_step cfg ip l s = (None, d, s') \<Longrightarrow> lap_guard cfg l = None"
  by (auto simp: lap_step_def Let_def split: option.splits)

lemma lap_step_attempt:
  "lap_step cfg ip l s = (r, d, s') \<Longrightarrow>
     ls_attempt s' = ls_attempt s + (if d = None \<or> r = Some Succeeded then 0 else 1) \<and>
     (r = Some Succeeded \<longrightarrow> d \<noteq> None) \<and> (d \<noteq> None \<longrightarrow> r = None \<or> r = Some Succeeded)"
  by (auto simp: lap_step_def Let_def lap_guard_def split: option.splits if_splits)

lemma reconnect_loop_Cons:
  "reconnect_loop cfg ip (l # ls) s =
     (let (r, d, s1) = lap_step cfg ip l s
      in if r = None
         then let (r', ds, s2) = reconnect_loop cfg ip ls s1
              in (r', (case d of None \<Rightarrow> ds | Some x \<Rightarrow> x # ds), s2)
         else (r, (case d of None \<Rightarrow> [] | Some x \<Rightarrow> [x]), s1))"
proof -
  obtain r1 d1 s1 where l: "lap_step cfg ip l s = (r1, d1, s1)" by (metis prod_cases3)
  obtain r2 ds2 s2 where rest: "reconnect_loop cfg ip ls s1 = (r2, ds2, s2)" by (metis prod_cases3)
  show ?thesis by (cases r1) (simp_all add: l rest)
qed

declare reconnect_loop.simps(2) [simp del]

section \<open>What is dialled\<close>

lemma reconnect_dials_from_laps:
  "reconnect_loop cfg ip laps s = (r, ds, s') \<Longrightarrow> d \<in> set ds \<Longrightarrow>
     \<exists>l \<in> set laps. d = lap_dial cfg ip l \<and> dv_state (lp_dev_waited l) = StatePaired \<and>
        \<not> IsConnected (lp_dev_waited l)"
proof (induction laps arbitrary: s r ds s')
  case (Cons l laps)
  obtain r1 d1 s1 where l: "lap_step cfg ip l s = (r1, d1, s1)" by (metis prod_cases3)
  obtain r2 ds2 s2 where rest: "reconnect_loop cfg ip laps s1 = (r2, ds2, s2)" by (metis prod_cases3)
  have "d \<in> set ds2 \<and> r1 = None \<or> d1 = Some d"
    using Cons.prems l rest by (auto simp: reconnect_loop_Cons split: if_splits option.splits)
  then show ?case
  proof
    assume "d1 = Some d"
    with lap_step_dial [of cfg ip l s r1 d s1] l show ?thesis by auto
  next
    assume "d \<in> set ds2 \<and> r1 = None"
    with Cons.IH [OF rest] show ?thesis by auto
  qed
qed simp

text \<open>
  The loop dials only a device that is paired and disconnected at that moment; the port is
  the authenticated one whenever it is valid.
\<close>
theorem reconnect_dials_offline_pairs:
  assumes "ReconnectWithBackoff cfg ip d0 laps = (r, dials, s)" and "d \<in> set dials"
  shows "\<exists>l \<in> set laps. dv_state (lp_dev_waited l) = StatePaired \<and> \<not> IsConnected (lp_dev_waited l) \<and>
    (validDialPort (dv_last_port (lp_dev_waited l)) \<longrightarrow> dl_port d = dv_last_port (lp_dev_waited l)) \<and>
    (dv_last_sighted_ip (lp_dev_waited l) = [] \<longrightarrow> dl_ip d = ip)"
  using reconnect_dials_from_laps [OF assms [unfolded ReconnectWithBackoff_def]]
  by (auto simp: lap_dial_def reconnectPort_def)

section \<open>How often\<close>

lemma reconnect_loop_spaced:
  "reconnect_loop cfg ip laps s = (r, ds, s') \<Longrightarrow>
     (case ds of [] \<Rightarrow> True | d # _ \<Rightarrow> dl_triggered d \<longrightarrow> time_since (dl_start d) (ls_last_dial s) \<ge> reconnectTriggerMinGap) \<and>
     (\<forall>i. Suc i < length ds \<longrightarrow> dl_triggered (ds ! Suc i) \<longrightarrow>
        time_since (dl_start (ds ! Suc i)) (Some (dl_end (ds ! i))) \<ge> reconnectTriggerMinGap)"
proof (induction laps arbitrary: s r ds s')
  case (Cons l laps)
  obtain r1 d1 s1 where l: "lap_step cfg ip l s = (r1, d1, s1)" by (metis prod_cases3)
  obtain r2 ds2 s2 where rest: "reconnect_loop cfg ip laps s1 = (r2, ds2, s2)" by (metis prod_cases3)
  have ds: "ds = (case d1 of None \<Rightarrow> [] | Some x \<Rightarrow> [x]) @ (if r1 = None then ds2 else [])"
    using Cons.prems l rest by (auto simp: reconnect_loop_Cons split: if_splits option.splits)
  note IH = Cons.IH [OF rest]
  show ?case
  proof (cases d1)
    case None
    then show ?thesis using IH ds lap_step_quiet [of cfg ip l s r1 s1] l by (cases "r1 = None") auto
  next
    case (Some x)
    note x = lap_step_dial [OF l [unfolded Some]]
    show ?thesis
    proof (cases "r1 = None")
      case False
      then have "ds = [x]" using ds Some by auto
      then show ?thesis using x(5) by simp
    next
      case True
      have "dl_triggered ((x # ds2) ! Suc i) \<longrightarrow>
          time_since (dl_start ((x # ds2) ! Suc i)) (Some (dl_end ((x # ds2) ! i))) \<ge> reconnectTriggerMinGap"
        if "Suc i < length (x # ds2)" for i
        using that IH x(4) by (cases i) (auto split: list.splits)
      then show ?thesis using ds Some True x(5) by simp
    qed
  qed
qed simp

lemma since_ge_iff: "d \<le> max_int64 \<Longrightarrow> min_int64 < d \<Longrightarrow> time_since now (Some t) \<ge> d \<longleftrightarrow> now - t \<ge> d"
  using time_since_lt_iff [of d now t] by auto

text \<open>
  A burst of sightings dials once: between the end of a dial and the start of the next one
  that a sighting causes lie at least five seconds.
\<close>
theorem sighting_dials_spaced:
  assumes "ReconnectWithBackoff cfg ip d0 laps = (r, dials, s)"
    and "Suc i < length dials" and "dl_triggered (dials ! Suc i)"
  shows "dl_start (dials ! Suc i) - dl_end (dials ! i) \<ge> 5 * second"
  using reconnect_loop_spaced [OF assms(1) [unfolded ReconnectWithBackoff_def]] assms(2,3)
  by (simp add: since_ge_iff reconnectTriggerMinGap_def second_def max_int64_def min_int64_def)

lemma reconnect_loop_attempts:
  "reconnect_loop cfg ip laps s = (r, ds, s') \<Longrightarrow>
     ls_attempt s + int (length ds) = (if r = Some Succeeded then ls_attempt s' + 1 else ls_attempt s')"
proof (induction laps arbitrary: s r ds s')
  case (Cons l laps)
  obtain r1 d1 s1 where l: "lap_step cfg ip l s = (r1, d1, s1)" by (metis prod_cases3)
  obtain r2 ds2 s2 where rest: "reconnect_loop cfg ip laps s1 = (r2, ds2, s2)" by (metis prod_cases3)
  show ?case
    using Cons.prems l Cons.IH [OF rest] rest lap_step_attempt [OF l]
    by (auto simp: reconnect_loop_Cons split: if_splits option.splits)
qed simp

text \<open>
  However the loop ends, the device may start another one; the counter it leaves after a
  success counts every dial since the loop began.
\<close>
theorem reconnect_counts_dials:
  assumes "ReconnectWithBackoff cfg ip d0 laps = (Some r, dials, s)"
  shows "\<not> dv_reconnecting (reconnect_finish r s d) \<and>
    dv_reconnect_attempt (reconnect_finish r s d) =
      (if r = Succeeded then dv_reconnect_attempt d0 + int (length dials) else dv_reconnect_attempt d)"
  using reconnect_loop_attempts [OF assms [unfolded ReconnectWithBackoff_def]]
  by (simp add: reconnect_finish_def ReconnectDone_def SetReconnectAttempt_def)

section \<open>When it stops\<close>

lemma reconnect_running_guards:
  "reconnect_loop cfg ip laps s = (None, ds, s') \<Longrightarrow> l \<in> set laps \<Longrightarrow> lap_guard cfg l = None"
proof (induction laps arbitrary: s ds s')
  case (Cons l0 laps)
  obtain r1 d1 s1 where l: "lap_step cfg ip l0 s = (r1, d1, s1)" by (metis prod_cases3)
  obtain r2 ds2 s2 where rest: "reconnect_loop cfg ip laps s1 = (r2, ds2, s2)" by (metis prod_cases3)
  have n: "r1 = None" "r2 = None"
    using Cons.prems(1) l rest by (auto simp: reconnect_loop_Cons split: if_splits)
  then show ?case
    using Cons.prems(2) lap_step_passes_guard [OF l [unfolded n]] Cons.IH [OF rest [unfolded n]] by auto
qed simp

text \<open>
  The loop of a silent device ends: when sightings drive it and the device was last seen at
  \<open>t0\<close>, laps whose clock grows by at least \<open>b\<close> each cannot go on past the horizon.
\<close>
theorem silent_reconnect_stops:
  assumes "rc_sighting_driven cfg" and "0 < b" and "rc_stale_after cfg < max_int64"
    and "\<forall>k < length laps. dv_last_seen (lp_dev (laps ! k)) = Some t0 \<and> lp_now (laps ! k) \<ge> t0 + int k * b"
    and "int (length laps) > rc_stale_after cfg div b + 1" and "0 \<le> rc_stale_after cfg"
  shows "fst (ReconnectWithBackoff cfg ip d0 laps) \<noteq> None"
proof
  assume "fst (ReconnectWithBackoff cfg ip d0 laps) = None"
  then obtain ds s' where run: "reconnect_loop cfg ip laps \<lparr>ls_attempt = dv_reconnect_attempt d0, ls_last_dial = None\<rparr> = (None, ds, s')"
    unfolding ReconnectWithBackoff_def by (metis prod.collapse)
  let ?k = "length laps - 1"
  have "0 \<le> rc_stale_after cfg div b" using assms(2,6) by (simp add: pos_imp_zdiv_nonneg_iff)
  then have len: "0 < length laps" "int ?k > rc_stale_after cfg div b" using assms(5) by linarith+
  then have k: "?k < length laps" by simp
  have "lap_guard cfg (laps ! ?k) = None" by (rule reconnect_running_guards [OF run]) (use k in simp)
  then have "time_since (lp_now (laps ! ?k)) (Some t0) \<le> rc_stale_after cfg"
    using assms(1,4) k by (simp add: lap_guard_def stale_after_def split: if_splits)
  then have "lp_now (laps ! ?k) - t0 \<le> rc_stale_after cfg"
    using assms(3) by (auto simp: time_since_def sat64_def)
  then have "int ?k * b \<le> rc_stale_after cfg" using assms(4) k by (smt (verit))
  from zdiv_mono1 [OF this assms(2)] have "int ?k \<le> rc_stale_after cfg div b" using assms(2) by simp
  then show False using len(2) by linarith
qed

section \<open>A reset does not reach a parked loop\<close>

definition reset_lap :: "lap \<Rightarrow> lap" where
  "reset_lap l =
     l\<lparr>lp_dev := ResetReconnectAttempt (lp_dev l), lp_dev_waited := ResetReconnectAttempt (lp_dev_waited l),
       lp_dev_dialled := ResetReconnectAttempt (lp_dev_dialled l)\<rparr>"

lemma reset_lap_step: "lap_step cfg ip (reset_lap l) s = lap_step cfg ip l s"
  by (simp add: lap_step_def lap_guard_def lap_dial_def reset_lap_def ResetReconnectAttempt_def
      reconnectPort_def IsConnected_def Let_def)

lemma reset_loop: "reconnect_loop cfg ip (map reset_lap laps) s = reconnect_loop cfg ip laps s"
  by (induction laps arbitrary: s) (simp_all add: reconnect_loop_Cons reset_lap_step split: prod.splits)

text \<open>
  A running loop keeps its own counter: resetting the counter of the device at any point of
  the loop changes neither its dials nor its backoff, and a success then overwrites the reset.
\<close>
theorem parked_loop_ignores_reset:
  "ReconnectWithBackoff cfg ip d0 (map reset_lap laps) = ReconnectWithBackoff cfg ip d0 laps"
  by (simp add: ReconnectWithBackoff_def reset_loop)

section \<open>Concrete runs\<close>

definition parked_pair :: device where
  "parked_pair = SetLastSeen (Some 0) (SetLastPort 1717 (SetState StatePaired (NewDevice ''a'' ''pc'' [])))"

definition demo_lap :: "wait_end \<Rightarrow> int \<Rightarrow> lap" where
  "demo_lap w now =
     \<lparr>lp_canceled = False, lp_dev = parked_pair, lp_now = now, lp_wait = w, lp_dev_waited = parked_pair,
      lp_now_waited = now, lp_dev_dialled = parked_pair, lp_now_dialled = now\<rparr>"

definition demo_cfg :: reconnect_cfg where
  "demo_cfg =
     \<lparr>rc_max_backoff = minute, rc_sighting_driven = True, rc_fallback_max = minute, rc_stale_after = minute,
      rc_initial_backoff = 0, rc_tcp_port = 1716\<rparr>"

lemma demo_lap_step:
  assumes "0 \<le> now" and "now \<le> minute"
  shows "lap_step demo_cfg ip (demo_lap w now) s =
    (if w = WaitCanceled then (Some Canceled, None, s)
     else if w = Woken \<and> time_since now (ls_last_dial s) < reconnectTriggerMinGap then (None, None, s)
     else (None, Some \<lparr>dl_start = now, dl_end = now, dl_triggered = (w = Woken), dl_ip = ip, dl_port = 1717\<rparr>,
           \<lparr>ls_attempt = ls_attempt s + 1, ls_last_dial = Some now\<rparr>))"
  using assms
  by (cases s) (simp add: lap_step_def lap_guard_def lap_dial_def demo_lap_def demo_cfg_def parked_pair_def stale_after_def
      reconnectPort_def validDialPort_def IsConnected_def SetLastSeen_def SetLastPort_def SetState_def
      NewDevice_def time_since_def sat64_def minute_def second_def min_int64_def max_int64_def Let_def)

lemma demo_run:
  "ReconnectWithBackoff demo_cfg [10, 0, 0, 9] parked_pair
     [demo_lap Woken 0, demo_lap Woken second, demo_lap Woken (6 * second)] =
   (None,
    [\<lparr>dl_start = 0, dl_end = 0, dl_triggered = True, dl_ip = [10, 0, 0, 9], dl_port = 1717\<rparr>,
     \<lparr>dl_start = 6 * second, dl_end = 6 * second, dl_triggered = True, dl_ip = [10, 0, 0, 9], dl_port = 1717\<rparr>],
    \<lparr>ls_attempt = 2, ls_last_dial = Some (6 * second)\<rparr>)"
  by (simp add: ReconnectWithBackoff_def reconnect_loop_Cons demo_lap_step reconnectTriggerMinGap_def
      time_since_def sat64_def minute_def second_def min_int64_def max_int64_def parked_pair_def NewDevice_def
      SetLastSeen_def SetLastPort_def SetState_def)

theorem reconnect_dials_offline_pairs_witness:
  "\<exists>l \<in> set [demo_lap Woken 0, demo_lap Woken second, demo_lap Woken (6 * second)].
     dv_state (lp_dev_waited l) = StatePaired"
  using reconnect_dials_offline_pairs [OF demo_run,
      of "\<lparr>dl_start = 0, dl_end = 0, dl_triggered = True, dl_ip = [10, 0, 0, 9], dl_port = 1717\<rparr>"]
  by auto

theorem sighting_dials_spaced_witness:
  "6 * second - 0 \<ge> 5 * second \<and>
   fst (snd (ReconnectWithBackoff demo_cfg [10, 0, 0, 9] parked_pair
     [demo_lap Woken 0, demo_lap Woken second, demo_lap Woken (6 * second)])) \<noteq> []"
  using sighting_dials_spaced [OF demo_run, of 0] by (simp add: demo_run)

theorem reconnect_counts_dials_witness:
  "\<not> dv_reconnecting (reconnect_finish Canceled \<lparr>ls_attempt = 1, ls_last_dial = Some 0\<rparr> parked_pair)"
proof -
  have "ReconnectWithBackoff demo_cfg [10, 0, 0, 9] parked_pair [demo_lap TimerFired 0, demo_lap WaitCanceled 0] =
    (Some Canceled, [\<lparr>dl_start = 0, dl_end = 0, dl_triggered = False, dl_ip = [10, 0, 0, 9], dl_port = 1717\<rparr>],
     \<lparr>ls_attempt = 1, ls_last_dial = Some 0\<rparr>)"
    by (simp add: ReconnectWithBackoff_def reconnect_loop_Cons demo_lap_step minute_def second_def
        parked_pair_def NewDevice_def SetLastSeen_def SetLastPort_def SetState_def)
  from reconnect_counts_dials [OF this] show ?thesis by simp
qed

theorem silent_reconnect_stops_witness:
  "fst (ReconnectWithBackoff demo_cfg [] parked_pair
     [demo_lap TimerFired 0, demo_lap TimerFired minute, demo_lap TimerFired (2 * minute)]) \<noteq> None"
  by (rule silent_reconnect_stops [of _ minute _ 0])
    (auto simp: demo_cfg_def demo_lap_def parked_pair_def SetLastSeen_def minute_def second_def max_int64_def
      less_Suc_eq numeral_3_eq_3 numeral_2_eq_2)

end
