(* ===== verification/ConfigSections.thy ===== *)
theory ConfigSections
  imports KcdPrelude
begin

text \<open>
  \<open>internal/config/plugins.go\<close> and \<open>runtime.go\<close>: the sections of the configuration file as
  records, their zero values, and the \<open>Defaults\<close> method of each.  A \<open>FlexDuration\<close> is a duration in nanoseconds.
\<close>

definition DefaultSidechannelPortMin :: int where
  "DefaultSidechannelPortMin = 1739"

definition DefaultSidechannelPortMax :: int where
  "DefaultSidechannelPortMax = 1764"

section \<open>The sections\<close>

record backends_config =
  bk_lock_command :: "string list"
  bk_unlock_command :: "string list"
  bk_clipboard_get :: "string list"
  bk_clipboard_set :: "string list"
  bk_volume :: string
  bk_notify :: string
  bk_sound_command :: "string list"
  bk_sound_file :: string

definition zero_backends_config :: backends_config where
  "zero_backends_config =
     \<lparr>bk_lock_command = [], bk_unlock_command = [], bk_clipboard_get = [], bk_clipboard_set = [],
      bk_volume = [], bk_notify = [], bk_sound_command = [], bk_sound_file = []\<rparr>"

record popups_config =
  pp_enabled :: bool
  pp_backend :: string
  pp_app_name :: string
  pp_battery :: bool
  pp_ping :: bool
  pp_telephony :: bool
  pp_sms :: bool
  pp_notifications :: bool
  pp_run_command :: bool

definition zero_popups_config :: popups_config where
  "zero_popups_config =
     \<lparr>pp_enabled = False, pp_backend = [], pp_app_name = [], pp_battery = False,
      pp_ping = False, pp_telephony = False, pp_sms = False, pp_notifications = False,
      pp_run_command = False\<rparr>"

record battery_config =
  bt_notify_low :: bool
  bt_notify_full :: bool
  bt_low_urgency :: string
  bt_full_urgency :: string
  bt_low_message :: string
  bt_full_message :: string

definition zero_battery_config :: battery_config where
  "zero_battery_config =
     \<lparr>bt_notify_low = False, bt_notify_full = False, bt_low_urgency = [], bt_full_urgency = [],
      bt_low_message = [], bt_full_message = []\<rparr>"

record notification_plugin_config =
  np_urgency :: string
  np_fetch_icons :: bool
  np_icon_cache_dir :: string
  np_max_body_length :: int
  np_expire_ms :: int
  np_expire :: duration
  np_skip_non_clearable :: bool
  np_replace_notifications :: bool
  np_show_icons :: bool
  np_cancel_grace_ms :: int
  np_cancel_grace :: duration

definition zero_notification_plugin_config :: notification_plugin_config where
  "zero_notification_plugin_config =
     \<lparr>np_urgency = [], np_fetch_icons = False, np_icon_cache_dir = [], np_max_body_length = 0,
      np_expire_ms = 0, np_expire = 0, np_skip_non_clearable = False, np_replace_notifications = False,
      np_show_icons = False, np_cancel_grace_ms = 0, np_cancel_grace = 0\<rparr>"

record lock_device_config =
  lk_allow_remote_unlock :: bool

definition zero_lock_device_config :: lock_device_config where
  "zero_lock_device_config =
     \<lparr>lk_allow_remote_unlock = False\<rparr>"

record clipboard_config =
  cb_receive :: bool
  cb_send :: bool
  cb_push_on_connect :: bool

definition zero_clipboard_config :: clipboard_config where
  "zero_clipboard_config =
     \<lparr>cb_receive = False, cb_send = False, cb_push_on_connect = False\<rparr>"

record share_config =
  sh_max_file_size :: int
  sh_port_min :: int
  sh_port_max :: int
  sh_accept_timeout_secs :: int
  sh_accept_timeout :: duration
  sh_auto_open :: bool
  sh_open_command :: string
  sh_overwrite :: bool
  sh_accept :: string
  sh_text_action :: string
  sh_url_action :: string

definition zero_share_config :: share_config where
  "zero_share_config =
     \<lparr>sh_max_file_size = 0, sh_port_min = 0, sh_port_max = 0, sh_accept_timeout_secs = 0,
      sh_accept_timeout = 0, sh_auto_open = False, sh_open_command = [], sh_overwrite = False,
      sh_accept = [], sh_text_action = [], sh_url_action = []\<rparr>"

record sftp_config =
  sf_mount_dir :: string
  sf_credentials_timeout_secs :: int
  sf_credentials_timeout :: duration
  sf_keepalive_interval_secs :: int
  sf_keepalive_interval :: duration
  sf_keepalive_count :: int
  sf_auto_open :: bool
  sf_open_command :: string
  sf_extra_sshfs_opts :: "string list"
  sf_read_only :: bool

definition zero_sftp_config :: sftp_config where
  "zero_sftp_config =
     \<lparr>sf_mount_dir = [], sf_credentials_timeout_secs = 0, sf_credentials_timeout = 0, sf_keepalive_interval_secs = 0,
      sf_keepalive_interval = 0, sf_keepalive_count = 0, sf_auto_open = False, sf_open_command = [],
      sf_extra_sshfs_opts = [], sf_read_only = False\<rparr>"

record ping_config =
  pg_app_name :: string
  pg_icon :: string
  pg_default_message :: string

definition zero_ping_config :: ping_config where
  "zero_ping_config =
     \<lparr>pg_app_name = [], pg_icon = [], pg_default_message = []\<rparr>"

record pairing_config =
  pr_timeout_secs :: int
  pr_timeout :: duration
  pr_intent_ttl :: string
  pr_listen_timeout :: string
  pr_accept_requests :: string
  pr_ask_fallback :: string

definition zero_pairing_config :: pairing_config where
  "zero_pairing_config =
     \<lparr>pr_timeout_secs = 0, pr_timeout = 0, pr_intent_ttl = [], pr_listen_timeout = [],
      pr_accept_requests = [], pr_ask_fallback = []\<rparr>"

record mousepad_config =
  mp_backend :: string

definition zero_mousepad_config :: mousepad_config where
  "zero_mousepad_config =
     \<lparr>mp_backend = []\<rparr>"

record sms_config =
  sm_notify_incoming :: bool
  sm_always_arm :: bool

definition zero_sms_config :: sms_config where
  "zero_sms_config =
     \<lparr>sm_notify_incoming = False, sm_always_arm = False\<rparr>"

record network_config =
  nw_dial_timeout :: string
  nw_handshake_timeout :: string
  nw_sidechannel_timeout :: string
  nw_transfer_idle_timeout :: string
  nw_keep_alive_idle :: string

definition zero_network_config :: network_config where
  "zero_network_config =
     \<lparr>nw_dial_timeout = [], nw_handshake_timeout = [], nw_sidechannel_timeout = [], nw_transfer_idle_timeout = [],
      nw_keep_alive_idle = []\<rparr>"

record reconnect_config =
  rn_initial_backoff :: string
  rn_max_backoff :: string
  rn_flap_threshold :: string
  rn_sighting_driven :: bool
  rn_fallback_max :: string
  rn_stale_after :: string

definition zero_reconnect_config :: reconnect_config where
  "zero_reconnect_config =
     \<lparr>rn_initial_backoff = [], rn_max_backoff = [], rn_flap_threshold = [], rn_sighting_driven = False,
      rn_fallback_max = [], rn_stale_after = []\<rparr>"

record discovery_config =
  dy_broadcast_interval :: string
  dy_broadcast_idle_interval :: string

definition zero_discovery_config :: discovery_config where
  "zero_discovery_config =
     \<lparr>dy_broadcast_interval = [], dy_broadcast_idle_interval = []\<rparr>"

record mpris_config =
  mr_poll_while_playing :: bool
  mr_position_interval :: string

definition zero_mpris_config :: mpris_config where
  "zero_mpris_config =
     \<lparr>mr_poll_while_playing = False, mr_position_interval = []\<rparr>"

record cache_config =
  ca_sms_attachments_dir :: string
  ca_album_art_dir :: string
  ca_contacts_dir :: string

definition zero_cache_config :: cache_config where
  "zero_cache_config =
     \<lparr>ca_sms_attachments_dir = [], ca_album_art_dir = [], ca_contacts_dir = []\<rparr>"

record hook_config =
  ho_command :: "string list"
  ho_devices :: "string list"
  ho_timeout :: duration
  ho_debounce :: duration

definition zero_hook_config :: hook_config where
  "zero_hook_config =
     \<lparr>ho_command = [], ho_devices = [], ho_timeout = 0, ho_debounce = 0\<rparr>"

section \<open>Defaults\<close>

definition BackendsConfig_Defaults :: "backends_config \<Rightarrow> backends_config" where
  "BackendsConfig_Defaults c =
     c\<lparr>bk_volume := ''auto'', bk_notify := ''auto''\<rparr>"

definition PopupsConfig_Defaults :: "popups_config \<Rightarrow> popups_config" where
  "PopupsConfig_Defaults c =
     c\<lparr>pp_enabled := True, pp_backend := ''auto'', pp_battery := True,
       pp_ping := True, pp_telephony := True, pp_sms := True,
       pp_notifications := True, pp_run_command := True\<rparr>"

definition BatteryConfig_Defaults :: "battery_config \<Rightarrow> battery_config" where
  "BatteryConfig_Defaults c =
     c\<lparr>bt_notify_low := True, bt_notify_full := True, bt_low_urgency := ''critical'',
       bt_full_urgency := ''normal'', bt_low_message := ''Battery low'', bt_full_message := ''Battery fully charged''\<rparr>"

definition NotificationPluginConfig_Defaults :: "notification_plugin_config \<Rightarrow> notification_plugin_config" where
  "NotificationPluginConfig_Defaults c =
     c\<lparr>np_fetch_icons := True, np_max_body_length := 0, np_expire_ms := (-1),
       np_replace_notifications := True, np_cancel_grace_ms := 1500\<rparr>"

definition ClipboardConfig_Defaults :: "clipboard_config \<Rightarrow> clipboard_config" where
  "ClipboardConfig_Defaults c =
     c\<lparr>cb_receive := True, cb_send := True, cb_push_on_connect := False\<rparr>"

definition ShareConfig_Defaults :: "share_config \<Rightarrow> share_config" where
  "ShareConfig_Defaults c =
     c\<lparr>sh_max_file_size := 1073741824, sh_port_min := DefaultSidechannelPortMin, sh_port_max := DefaultSidechannelPortMax,
       sh_accept_timeout_secs := 120, sh_open_command := ''xdg-open'', sh_accept := ''always'',
       sh_text_action := ''clipboard'', sh_url_action := ''open''\<rparr>"

definition SFTPConfig_Defaults :: "string \<Rightarrow> sftp_config \<Rightarrow> sftp_config" where
  "SFTPConfig_Defaults mountDir c =
     c\<lparr>sf_mount_dir := mountDir, sf_credentials_timeout_secs := 20, sf_keepalive_interval_secs := 15,
       sf_keepalive_count := 3, sf_auto_open := True, sf_open_command := ''xdg-open''\<rparr>"

definition PingConfig_Defaults :: "ping_config \<Rightarrow> ping_config" where
  "PingConfig_Defaults c =
     c\<lparr>pg_app_name := [], pg_icon := ''smartphone''\<rparr>"

definition PairingConfig_Defaults :: "pairing_config \<Rightarrow> pairing_config" where
  "PairingConfig_Defaults c =
     c\<lparr>pr_timeout_secs := 30, pr_intent_ttl := ''5m'', pr_listen_timeout := ''60s'',
       pr_accept_requests := ''ask'', pr_ask_fallback := ''reject''\<rparr>"

definition MousepadConfig_Defaults :: "mousepad_config \<Rightarrow> mousepad_config" where
  "MousepadConfig_Defaults c =
     c\<lparr>mp_backend := ''auto''\<rparr>"

definition SMSConfig_Defaults :: "sms_config \<Rightarrow> sms_config" where
  "SMSConfig_Defaults c =
     c\<lparr>sm_notify_incoming := True, sm_always_arm := False\<rparr>"

section \<open>Popups and notification filters\<close>

text \<open>Whether the popup policy lets a source through.\<close>

definition Allows :: "popups_config \<Rightarrow> string \<Rightarrow> bool" where
  "Allows c source =
     (if \<not> pp_enabled c then False
      else if source = ''battery'' then pp_battery c
      else if source = ''ping'' then pp_ping c
      else if source = ''telephony'' then pp_telephony c
      else if source = ''sms'' then pp_sms c
      else if source = ''notification'' then pp_notifications c
      else if source = ''runcommand'' then pp_run_command c
      else True)"

text \<open>The table of per-application actions; \<open>app_name\<close> is not one of them.\<close>

type_synonym notification_config = "(string \<times> string) list"

definition app_name_key :: string where "app_name_key = ''app_name''"

definition AppName :: "notification_config \<Rightarrow> string" where
  "AppName c =
     (case map_of c app_name_key of
        Some name \<Rightarrow> if name \<noteq> [] then name else ''KDE Connect''
      | None \<Rightarrow> ''KDE Connect'')"

definition Filters :: "notification_config \<Rightarrow> notification_config" where
  "Filters c = filter (\<lambda>(app, action). app \<noteq> app_name_key) c"

lemma Filters_lookup: "map_of (Filters c) app = (if app = app_name_key then None else map_of c app)"
  by (induction c) (auto simp: Filters_def)

end
