(* ===== verification/Paths.thy ===== *)
theory Paths
  imports KcdPrelude
begin

text \<open>
  Go's \<open>path/filepath\<close> on Unix, as the configuration, the share and the mount code use it:
  \<open>Clean\<close>, \<open>Join\<close>, \<open>Dir\<close>, \<open>Base\<close> and \<open>Ext\<close>.  \<open>Clean\<close> works on the list of components;
  the facts say what a cleaned path looks like.
\<close>

definition slash :: char where
  "slash = CHR ''/''"

section \<open>Components\<close>

fun split_on :: "'a \<Rightarrow> 'a list \<Rightarrow> 'a list list" where
  "split_on sep [] = [[]]"
| "split_on sep (c # s) =
     (if c = sep then [] # split_on sep s
      else (case split_on sep s of p # ps \<Rightarrow> (c # p) # ps | [] \<Rightarrow> [[c]]))"

fun join_with :: "'a list \<Rightarrow> 'a list list \<Rightarrow> 'a list" where
  "join_with sep [] = []"
| "join_with sep [p] = p"
| "join_with sep (p # q # ps) = p @ sep @ join_with sep (q # ps)"

lemma split_on_not_Nil [simp]: "split_on sep s \<noteq> []"
  by (cases s) (auto split: list.splits)

lemma join_split [simp]: "join_with [sep] (split_on sep s) = s"
proof (induction s)
  case (Cons c s)
  then show ?case by (cases "split_on sep s"; cases "tl (split_on sep s)") auto
qed simp

lemma split_no_sep: "\<forall>p \<in> set (split_on sep s). sep \<notin> set p"
  by (induction s) (auto split: list.splits)

lemma split_single: "sep \<notin> set p \<Longrightarrow> split_on sep p = [p]"
  by (induction p) auto

lemma split_append_sep: "sep \<notin> set p \<Longrightarrow> split_on sep (p @ sep # s) = p # split_on sep s"
  by (induction p) auto

lemma split_join:
  "ps \<noteq> [] \<Longrightarrow> (\<And>p. p \<in> set ps \<Longrightarrow> sep \<notin> set p) \<Longrightarrow> split_on sep (join_with [sep] ps) = ps"
  by (induction "[sep]" ps rule: join_with.induct) (auto simp: split_single split_append_sep)

section \<open>Clean\<close>

text \<open>One component; the output is kept in reverse.\<close>

definition dotdot :: string where "dotdot = ''..''"
definition dot :: string where "dot = ''.''"

definition clean_step :: "bool \<Rightarrow> string \<Rightarrow> string list \<Rightarrow> string list" where
  "clean_step rooted p out =
     (if p = [] \<or> p = dot then out
      else if p = dotdot
      then (case out of
              q # qs \<Rightarrow> if q \<noteq> dotdot then qs else if rooted then out else p # out
            | [] \<Rightarrow> if rooted then [] else [p])
      else p # out)"

definition clean_parts :: "bool \<Rightarrow> string list \<Rightarrow> string list" where
  "clean_parts rooted ps = rev (fold (clean_step rooted) ps [])"

definition is_rooted :: "string \<Rightarrow> bool" where
  "is_rooted s \<longleftrightarrow> s \<noteq> [] \<and> hd s = slash"

definition Clean :: "string \<Rightarrow> string" where
  "Clean s =
     (let ps = clean_parts (is_rooted s) (split_on slash s)
      in if is_rooted s then slash # join_with [slash] ps
         else if ps = [] then dot else join_with [slash] ps)"

definition Join :: "string list \<Rightarrow> string" where
  "Join ps = (let qs = filter (\<lambda>p. p \<noteq> []) ps in if qs = [] then [] else Clean (join_with [slash] qs))"

text \<open>The part before the last slash, the part after it, and the suffix from the last dot.\<close>

definition last_part :: "string \<Rightarrow> string" where
  "last_part s = last (split_on slash s)"

definition Dir :: "string \<Rightarrow> string" where
  "Dir s = Clean (take (length s - length (last_part s)) s)"

fun strip_slashes :: "string \<Rightarrow> string" where
  "strip_slashes s = rev (dropWhile (\<lambda>c. c = slash) (rev s))"

definition Base :: "string \<Rightarrow> string" where
  "Base s =
     (if s = [] then dot
      else let t = strip_slashes s
           in if last_part t = [] then [slash] else last_part t)"

definition Ext :: "string \<Rightarrow> string" where
  "Ext s =
     (let b = last_part s
      in if CHR ''.'' \<in> set b then CHR ''.'' # last (split_on (CHR ''.'') b) else [])"

section \<open>What a clean path looks like\<close>

definition plain_part :: "string \<Rightarrow> bool" where
  "plain_part p \<longleftrightarrow> p \<noteq> [] \<and> p \<noteq> dot \<and> p \<noteq> dotdot \<and> slash \<notin> set p"

lemma dots_no_slash [simp]: "slash \<notin> set dotdot" "slash \<notin> set dot" "dotdot \<noteq> []" "dot \<noteq> []" "dot \<noteq> dotdot" "dotdot \<noteq> dot"
  by (simp_all add: slash_def dotdot_def dot_def)

text \<open>A rooted path keeps no \<open>..\<close> at all; a relative one only at its front.\<close>

definition out_ok :: "bool \<Rightarrow> string list \<Rightarrow> bool" where
  "out_ok rooted out \<longleftrightarrow>
     (\<exists>k. list_all plain_part (take k out) \<and> list_all (\<lambda>p. p = dotdot) (drop k out) \<and>
          (rooted \<longrightarrow> drop k out = []))"

lemma out_ok_step:
  assumes "out_ok rooted out" and "slash \<notin> set p"
  shows "out_ok rooted (clean_step rooted p out)"
proof -
  obtain k where k: "list_all plain_part (take k out)" "list_all (\<lambda>p. p = dotdot) (drop k out)"
      "rooted \<longrightarrow> drop k out = []"
    using assms(1) by (auto simp: out_ok_def)
  consider "p = [] \<or> p = dot" | "p = dotdot" | "plain_part p"
    using assms(2) by (auto simp: plain_part_def)
  then show ?thesis
  proof cases
    case 1
    then show ?thesis using assms(1) by (simp add: clean_step_def)
  next
    case 2
    show ?thesis
    proof (cases out)
      case Nil
      then show ?thesis using 2
        by (auto simp: clean_step_def out_ok_def intro: exI [of _ 0])
    next
      case (Cons q qs)
      show ?thesis
      proof (cases "q = dotdot")
        case True
        then have "k = 0" using k(1) Cons by (cases k) (auto simp: plain_part_def)
        then show ?thesis using 2 True Cons k
          by (auto simp: clean_step_def out_ok_def intro!: exI [of _ 0])
      next
        case False
        then obtain j where "k = Suc j" using k(2) Cons by (cases k) auto
        then show ?thesis using 2 False Cons k
          by (auto simp: clean_step_def out_ok_def intro!: exI [of _ j])
      qed
    qed
  next
    case 3
    then have "clean_step rooted p out = p # out" by (auto simp: clean_step_def plain_part_def)
    then show ?thesis using 3 k by (auto simp: out_ok_def intro!: exI [of _ "Suc k"])
  qed
qed

lemma out_ok_fold: "out_ok rooted out \<Longrightarrow> \<forall>p \<in> set ps. slash \<notin> set p \<Longrightarrow> out_ok rooted (fold (clean_step rooted) ps out)"
  by (induction ps arbitrary: out) (auto intro: out_ok_step)

lemma rooted_parts_plain:
  assumes "\<forall>p \<in> set ps. slash \<notin> set p"
  shows "list_all plain_part (clean_parts True ps)"
proof -
  have "out_ok True []" by (simp add: out_ok_def)
  from out_ok_fold [OF this assms] obtain k where
    "list_all plain_part (take k (fold (clean_step True) ps []))" "drop k (fold (clean_step True) ps []) = []"
    by (auto simp: out_ok_def)
  then show ?thesis unfolding clean_parts_def
    by (metis append_take_drop_id append_Nil2 list_all_rev)
qed

lemma plain_fold: "list_all plain_part ps \<Longrightarrow> fold (clean_step rooted) ps out = rev ps @ out"
  by (induction ps arbitrary: out) (auto simp: clean_step_def plain_part_def)

lemma plain_parts_clean: "list_all plain_part ps \<Longrightarrow> clean_parts rooted ps = ps"
  by (simp add: clean_parts_def plain_fold)

text \<open>
  A cleaned absolute path climbs nowhere: its components are ordinary names, and
  joining an ordinary name to it only appends the name.
\<close>

lemma Clean_rooted:
  assumes "is_rooted s"
  shows "\<exists>ps. list_all plain_part ps \<and> Clean s = slash # join_with [slash] ps"
  using assms rooted_parts_plain [OF split_no_sep, of s] by (auto simp: Clean_def)

lemma Clean_plain_rooted:
  assumes "list_all plain_part ps"
  shows "Clean (slash # join_with [slash] ps) = slash # join_with [slash] ps"
proof -
  have "split_on slash (slash # join_with [slash] ps) = [] # split_on slash (join_with [slash] ps)" by simp
  moreover have "clean_parts True ([] # split_on slash (join_with [slash] ps)) = ps"
  proof (cases "ps = []")
    case True
    then show ?thesis by (simp add: clean_parts_def clean_step_def)
  next
    case False
    then have "split_on slash (join_with [slash] ps) = ps"
      using assms by (intro split_join) (auto simp: list_all_iff plain_part_def)
    then show ?thesis using plain_fold [OF assms, where rooted = True and out = "[]"]
      by (simp add: clean_parts_def clean_step_def)
  qed
  ultimately show ?thesis by (simp add: Clean_def is_rooted_def)
qed

lemma Clean_idem_rooted: "is_rooted s \<Longrightarrow> Clean (Clean s) = Clean s"
  using Clean_rooted Clean_plain_rooted by force

lemma join_with_snoc: "ps \<noteq> [] \<Longrightarrow> join_with sep (ps @ [p]) = join_with sep ps @ sep @ p"
  by (induction sep ps rule: join_with.induct) auto

lemma Join_dir_name:
  assumes "is_rooted dir" and "plain_part name"
  shows "\<exists>ps. list_all plain_part ps \<and> Clean dir = slash # join_with [slash] ps \<and>
    Join [dir, name] = slash # join_with [slash] (ps @ [name])"
proof -
  let ?ps = "clean_parts True (split_on slash dir)"
  have ps: "list_all plain_part ?ps" by (rule rooted_parts_plain [OF split_no_sep])
  have d: "Clean dir = slash # join_with [slash] ?ps" using assms(1) by (simp add: Clean_def)
  have n: "name \<noteq> []" "slash \<notin> set name" "dir \<noteq> []" using assms by (auto simp: plain_part_def is_rooted_def)
  have s: "split_on slash (dir @ slash # name) = split_on slash dir @ [name]"
    by (induction dir) (auto simp: split_single [OF n(2)] split: list.splits)
  have "clean_parts True (split_on slash dir @ [name]) = ?ps @ [name]"
    using assms(2) by (auto simp: clean_parts_def clean_step_def plain_part_def)
  then have "Join [dir, name] = slash # join_with [slash] (?ps @ [name])"
    using n assms(1) by (simp add: Join_def Clean_def is_rooted_def s)
  then show ?thesis using ps d by blast
qed

end
