(* ===== verification/PluginEnv.thy ===== *)
theory PluginEnv
  imports Device Utf8
begin

text \<open>
  What the plugins share: the effects a handler has on the world, decoders for the struct
  fields of packet bodies, and the string helpers of the standard library they use.

  A handler is a function from the plugin's state, the peer and the packet body to an error
  or success, the new state and the list of effects in the order of the code.  \<open>dev.Send\<close> never
  reports an error (\<open>Device.Send\<close> drops silently), so a send is an effect.  What runs in a
  goroutine of its own is wrapped in \<open>Spawned\<close>.
\<close>

section \<open>Effects\<close>

datatype effect =
    Publish event_type string json
  | SendPacket string json
  | RunCommand "string list"
  | DeviceBattery int bool
  | Spawned "effect list"

text \<open>The peer a packet came from, as far as the handlers look at it.\<close>

record peer =
  pe_id :: string
  pe_name :: string

text \<open>The bus is optional in every plugin.\<close>

definition publish :: "bool \<Rightarrow> event_type \<Rightarrow> string \<Rightarrow> json \<Rightarrow> effect list" where
  "publish has_bus typ device_id payload = (if has_bus then [Publish typ device_id payload] else [])"

text \<open>The packets that leave the plugin, and the commands it runs.\<close>

fun sent_of :: "effect \<Rightarrow> (string \<times> json) list" and sent_all :: "effect list \<Rightarrow> (string \<times> json) list" where
  "sent_of (SendPacket typ body) = [(typ, body)]"
| "sent_of (Spawned es) = sent_all es"
| "sent_of _ = []"
| "sent_all [] = []"
| "sent_all (e # es) = sent_of e @ sent_all es"

fun commands_of :: "effect \<Rightarrow> string list list" and commands_all :: "effect list \<Rightarrow> string list list" where
  "commands_of (RunCommand argv) = [argv]"
| "commands_of (Spawned es) = commands_all es"
| "commands_of _ = []"
| "commands_all [] = []"
| "commands_all (e # es) = commands_of e @ commands_all es"

lemma sent_all_append [simp]: "sent_all (xs @ ys) = sent_all xs @ sent_all ys"
  by (induction xs) auto

lemma commands_all_append [simp]: "commands_all (xs @ ys) = commands_all xs @ commands_all ys"
  by (induction xs) auto

lemma publish_effects [simp]:
  "sent_all (publish b t i p) = []" "commands_all (publish b t i p) = []"
  by (simp_all add: publish_def)

section \<open>Struct fields\<close>

text \<open>
  A struct is a list of fields: the name of the key and how its value changes the struct.
  Keys that match no field are skipped.
\<close>

type_synonym 'a field = "string \<times> (json \<Rightarrow> 'a \<Rightarrow> 'a option)"

definition dec_fields :: "'a field list \<Rightarrow> string \<Rightarrow> json \<Rightarrow> 'a \<Rightarrow> 'a option" where
  "dec_fields fs k v a =
     (case find (\<lambda>(n, _). key_matches n k) fs of None \<Rightarrow> Some a | Some (_, f) \<Rightarrow> f v a)"

definition fld :: "(json \<Rightarrow> 'v \<Rightarrow> 'v option) \<Rightarrow> ('a \<Rightarrow> 'v) \<Rightarrow> (('v \<Rightarrow> 'v) \<Rightarrow> 'a \<Rightarrow> 'a) \<Rightarrow> json \<Rightarrow> 'a \<Rightarrow> 'a option" where
  "fld dec get upd v a = map_option (\<lambda>x. upd (\<lambda>_. x) a) (dec v (get a))"

text \<open>A pointer field: \<open>null\<close> makes it \<open>nil\<close>, a value allocates it and decodes into the zero value.\<close>

definition dec_opt :: "(json \<Rightarrow> 'v \<Rightarrow> 'v option) \<Rightarrow> 'v \<Rightarrow> json \<Rightarrow> 'v option \<Rightarrow> 'v option option" where
  "dec_opt dec zero v old =
     (if v = JNull then Some None
      else map_option Some (dec v (case old of None \<Rightarrow> zero | Some x \<Rightarrow> x)))"

text \<open>
  A type error does not stop \<open>Unmarshal\<close>: it skips the value, goes on and reports the first error at the end.
  A caller that drops the error sees what the other fields decoded to.
\<close>

fun dec_entries_lenient :: "(string \<Rightarrow> json \<Rightarrow> 'a \<Rightarrow> 'a option) \<Rightarrow> (string \<times> json) list \<Rightarrow> 'a \<Rightarrow> 'a" where
  "dec_entries_lenient f [] a = a"
| "dec_entries_lenient f ((k, v) # es) a =
     dec_entries_lenient f es (case f k v a of None \<Rightarrow> a | Some a' \<Rightarrow> a')"

fun dec_lenient :: "(string \<Rightarrow> json \<Rightarrow> 'a \<Rightarrow> 'a option) \<Rightarrow> json option \<Rightarrow> 'a \<Rightarrow> 'a" where
  "dec_lenient f (Some (JObj es)) zero = dec_entries_lenient f es zero"
| "dec_lenient f _ zero = zero"

lemma dec_lenient_ok: "unmarshal_raw (\<lambda>j. dec_struct f j zero) raw = Some a \<Longrightarrow> dec_lenient f raw zero = a"
proof -
  have "dec_entries f es b = Some a \<Longrightarrow> dec_entries_lenient f es b = a" for es b
    by (induction f es b rule: dec_entries.induct) (auto split: option.splits)
  then show "unmarshal_raw (\<lambda>j. dec_struct f j zero) raw = Some a \<Longrightarrow> dec_lenient f raw zero = a"
    by (cases raw; cases "the raw") (auto simp: unmarshal_raw_def)
qed

section \<open>Numbers as \<open>float64\<close>\<close>

text \<open>
  The literal of a JSON number as mantissa and decimal exponent: an optional sign, digits, an
  optional fraction and an optional exponent.
\<close>

fun span_digits :: "string \<Rightarrow> string \<times> string" where
  "span_digits [] = ([], [])"
| "span_digits (c # s) = (if is_digit c then (let (d, r) = span_digits s in (c # d, r)) else ([], c # s))"

definition decimal :: "string \<Rightarrow> bool \<times> nat \<times> int" where
  "decimal lit =
     (let neg = (lit \<noteq> [] \<and> hd lit = CHR ''-'');
          (ip, r1) = span_digits (if neg then tl lit else lit);
          (fp, r2) = (case r1 of c # s \<Rightarrow> if c = CHR ''.'' then span_digits s else ([], r1) | [] \<Rightarrow> ([], []));
          ex = (case r2 of [] \<Rightarrow> 0
                | c # s \<Rightarrow> let e_neg = (s \<noteq> [] \<and> hd s = CHR ''-'');
                              ds = (if s \<noteq> [] \<and> (hd s = CHR ''-'' \<or> hd s = CHR ''+'') then tl s else s);
                              v = int (digits_val ds)
                          in if e_neg then - v else v)
      in (neg, digits_val (ip @ fp), ex - int (length fp)))"

text \<open>
  \<open>ParseFloat\<close> rounds to nearest: a magnitude of at most \<open>2^-1075\<close> becomes zero, and one of at least
  \<open>2^1024 - 2^970\<close> is out of range, which makes the whole decode fail.
\<close>

definition float_nonzero :: "string \<Rightarrow> bool option" where
  "float_nonzero lit =
     (let (_, m, e) = decimal lit
      in if (if e \<ge> 0 then m * 10 ^ nat e \<ge> 2 ^ 1024 - 2 ^ 970 else m \<ge> (2 ^ 1024 - 2 ^ 970) * 10 ^ nat (- e))
         then None
         else Some (if e \<ge> 0 then m \<noteq> 0 else m * 2 ^ 1075 > 10 ^ nat (- e)))"

section \<open>Strings\<close>

text \<open>\<open>unicode.IsSpace\<close> and \<open>strings.TrimSpace\<close>.\<close>

definition is_space_rune :: "nat \<Rightarrow> bool" where
  "is_space_rune r \<longleftrightarrow>
     r \<in> {9, 10, 11, 12, 13, 32, 133, 160, 5760, 8232, 8233, 8239, 8287, 12288} \<or> 8192 \<le> r \<and> r \<le> 8202"

text \<open>The bytes are cut at rune boundaries; what lies between the first and the last rune that is kept stays as it is.\<close>

fun drop_spaces :: "(nat \<times> nat) list \<Rightarrow> (nat \<times> nat) list" where
  "drop_spaces [] = []"
| "drop_spaces ((r, w) # rs) = (if is_space_rune r then drop_spaces rs else (r, w) # rs)"

definition TrimSpace :: "string \<Rightarrow> string" where
  "TrimSpace s =
     (let rs = runes (bytes_of s);
          left = drop_spaces rs;
          lead = sum_list (map snd rs) - sum_list (map snd left);
          kept = drop_spaces (rev left)
      in take (sum_list (map snd kept)) (drop lead s))"

text \<open>\<open>FlexBool.UnmarshalJSON\<close>: the words have no non-ASCII variants, so ASCII lower case decides.\<close>

fun dec_flexbool :: "json \<Rightarrow> bool \<Rightarrow> bool option" where
  "dec_flexbool (JBool b) old = Some b"
| "dec_flexbool (JNum lit) old = float_nonzero lit"
| "dec_flexbool (JStr t) old = (let s = map lower (TrimSpace t) in Some (s = ''true'' \<or> s = ''1''))"
| "dec_flexbool _ old = None"

definition has_prefix :: "string \<Rightarrow> string \<Rightarrow> bool" where
  "has_prefix p s \<longleftrightarrow> take (length p) s = p"

text \<open>\<open>omitempty\<close>: a field that is left out when it holds the zero value.\<close>

definition omit :: "bool \<Rightarrow> string \<Rightarrow> json \<Rightarrow> (string \<times> json) list" where
  "omit zero k v = (if zero then [] else [(k, v)])"

section \<open>Facts\<close>

lemma has_prefix_iff: "has_prefix p s \<longleftrightarrow> (\<exists>t. s = p @ t)"
  unfolding has_prefix_def by (metis append_eq_conv_conj)

text \<open>A boolean that was marshalled by a stock peer in any of its forms decodes to itself.\<close>

lemma flexbool_forms:
  "dec_flexbool (JBool b) old = Some b"
  "dec_flexbool (enc_int (if b then 1 else 0)) old = Some b"
  "dec_flexbool (JStr (if b then ''true'' else ''false'')) old = Some b"
proof -
  show "dec_flexbool (JBool b) old = Some b" by simp
  have d: "show_int 0 = ''0''" "show_int 1 = ''1''"
    by code_simp+
  have "float_nonzero ''0'' = Some False" "float_nonzero ''1'' = Some True"
    by (simp_all add: float_nonzero_def decimal_def is_digit_def digits_val_def digit_val_def)
  then show "dec_flexbool (enc_int (if b then 1 else 0)) old = Some b"
    by (simp add: enc_int_def d)
  show "dec_flexbool (JStr (if b then ''true'' else ''false'')) old = Some b"
    by (simp add: TrimSpace_def bytes_of_def runes.simps utf8_next.simps is_space_rune_def lower_def Let_def)
qed

end
