(* ===== verification/Config.thy ===== *)
theory Config
  imports BundledPlugins ConfigSections Paths PluginEnv
begin

text \<open>
  \<open>internal/config\<close>: the whole configuration, its defaults, loading, environment overrides, the
  aliases of durations, validation, the hints for unknown keys and the device identifier.

  The TOML library is a parameter: \<open>toml\<close> takes the text of a file and the configuration so far
  and gives the configuration with the keys of the file set, and the keys it did not know; it
  fails on a syntax or type error.  \<open>time.ParseDuration\<close> is a parameter as well
  (\<open>pd\<close>: the duration in nanoseconds or failure).  The environment is a record.
\<close>

section \<open>The configuration\<close>

record ipc_config =
  ip_read_only_socket :: string

definition zero_ipc_config :: ipc_config where
  "zero_ipc_config = \<lparr>ip_read_only_socket = []\<rparr>"

record run_command_config =
  rc_default_timeout :: duration

definition zero_run_command_config :: run_command_config where
  "zero_run_command_config = \<lparr>rc_default_timeout = 0\<rparr>"

definition RunCommandConfig_Defaults :: "run_command_config \<Rightarrow> run_command_config" where
  "RunCommandConfig_Defaults c = c\<lparr>rc_default_timeout := 15 * second\<rparr>"

text \<open>
  A warning names the file and the unknown key with its suggestion, if there is one, or says
  that the file sets another device ID than the one stored next to it.
\<close>

datatype warning =
    UnknownKey string string "string option"
  | DeviceIDOverride string

record full_config = config +
  fc_config_version :: int
  fc_device_id :: string
  fc_device_name :: string
  fc_device_type :: string
  fc_cert_file :: string
  fc_key_file :: string
  fc_socket_path :: string
  fc_state_dir :: string
  fc_cache_dir :: string
  fc_runtime_dir :: string
  fc_ipc :: ipc_config
  fc_download_dir :: string
  fc_tcp_port :: int
  fc_log_level :: string
  fc_network :: network_config
  fc_reconnect :: reconnect_config
  fc_discovery :: discovery_config
  fc_cache :: cache_config
  fc_commands :: "(string \<times> string) list"
  fc_commands_per_device :: "(string \<times> (string \<times> string) list) list"
  fc_hooks :: "(string \<times> hook_config) list"
  fc_run_command :: run_command_config
  fc_backends :: backends_config
  fc_notifications :: notification_config
  fc_popups :: popups_config
  fc_battery :: battery_config
  fc_mpris :: mpris_config
  fc_notification :: notification_plugin_config
  fc_lock_device :: lock_device_config
  fc_share :: share_config
  fc_sftp :: sftp_config
  fc_ping :: ping_config
  fc_clipboard :: clipboard_config
  fc_pairing :: pairing_config
  fc_mousepad :: mousepad_config
  fc_sms :: sms_config
  fc_prune_stale_threshold :: string
  fc_config_path :: string
  fc_warnings :: "warning list"

definition plugins_all :: "bool \<Rightarrow> plugin_config" where
  "plugins_all b =
     \<lparr>pc_battery = b, pc_clipboard = b, pc_notification = b, pc_share = b, pc_runcommand = b,
      pc_mpris = b, pc_ping = b, pc_telephony = b, pc_connectivity = b, pc_mousepad = b, pc_sftp = b,
      pc_findmyphone = b, pc_lockdevice = b, pc_systemvolume = b, pc_pausemusic = b, pc_sms = b,
      pc_contacts = b, pc_presenter = b, pc_findthisdevice = b, pc_remotesystemvolume = b,
      pc_digitizer = b\<rparr>"

text \<open>\<open>PluginConfig.Defaults\<close> switches everything on.\<close>

definition PluginConfig_Defaults :: "plugin_config \<Rightarrow> plugin_config" where
  "PluginConfig_Defaults p = plugins_all True"

definition zero_config :: full_config where
  "zero_config =
     \<lparr>cf_plugins = plugins_all False, cf_devices = [],
      fc_config_version = 0, fc_device_id = [], fc_device_name = [],
      fc_device_type = [], fc_cert_file = [], fc_key_file = [],
      fc_socket_path = [], fc_state_dir = [], fc_cache_dir = [],
      fc_runtime_dir = [], fc_ipc = zero_ipc_config, fc_download_dir = [],
      fc_tcp_port = 0, fc_log_level = [], fc_network = zero_network_config,
      fc_reconnect = zero_reconnect_config, fc_discovery = zero_discovery_config, fc_cache = zero_cache_config,
      fc_commands = [], fc_commands_per_device = [], fc_hooks = [],
      fc_run_command = zero_run_command_config, fc_backends = zero_backends_config, fc_notifications = [],
      fc_popups = zero_popups_config, fc_battery = zero_battery_config, fc_mpris = zero_mpris_config,
      fc_notification = zero_notification_plugin_config, fc_lock_device = zero_lock_device_config, fc_share = zero_share_config,
      fc_sftp = zero_sftp_config, fc_ping = zero_ping_config, fc_clipboard = zero_clipboard_config,
      fc_pairing = zero_pairing_config, fc_mousepad = zero_mousepad_config, fc_sms = zero_sms_config,
      fc_prune_stale_threshold = [], fc_config_path = [], fc_warnings = []\<rparr>"

section \<open>Paths\<close>

text \<open>\<open>os.Getenv\<close> gives the empty string for an unset variable.\<close>

record environment =
  en_vars :: "(string \<times> string) list"
  en_home :: string
  en_hostname :: string
  en_uid :: int

definition Getenv :: "environment \<Rightarrow> string \<Rightarrow> string" where
  "Getenv e k = (case map_of (en_vars e) k of None \<Rightarrow> [] | Some v \<Rightarrow> v)"

definition instance_rune :: "nat \<Rightarrow> bool" where
  "instance_rune r \<longleftrightarrow> 97 \<le> r \<and> r \<le> 122 \<or> 65 \<le> r \<and> r \<le> 90 \<or> 48 \<le> r \<and> r \<le> 57 \<or> r = 45 \<or> r = 95"

definition instanceDir :: "environment \<Rightarrow> string \<Rightarrow> string" where
  "instanceDir e base =
     (let inst = TrimSpace (Getenv e ''KCD_INSTANCE'')
      in if inst = [] then base
         else base @ ''-'' @ map (\<lambda>r. if instance_rune r then char_of r else CHR ''-'') (runes_of inst))"

definition xdg :: "environment \<Rightarrow> string \<Rightarrow> string \<Rightarrow> string" where
  "xdg e var fallback = (let v = Getenv e var in if v = [] then fallback else v)"

definition StateDir :: "environment \<Rightarrow> string" where
  "StateDir e = instanceDir e (Join [xdg e ''XDG_STATE_HOME'' (Join [en_home e, ''.local'', ''state'']), ''kcd''])"

definition default_StatePath :: "environment \<Rightarrow> string" where
  "default_StatePath e = Join [StateDir e, ''devices.json'']"

definition DefaultCacheDir :: "environment \<Rightarrow> string" where
  "DefaultCacheDir e = instanceDir e (Join [xdg e ''XDG_CACHE_HOME'' (Join [en_home e, ''.cache'']), ''kcd''])"

definition DefaultRuntimeDir :: "environment \<Rightarrow> string" where
  "DefaultRuntimeDir e =
     instanceDir e (Join [xdg e ''XDG_RUNTIME_DIR'' (Join [''/run/user'', show_int (en_uid e)]), ''kcd''])"

definition DefaultMountDir :: "environment \<Rightarrow> string" where
  "DefaultMountDir e =
     (let runtimeDir = Getenv e ''XDG_RUNTIME_DIR''
      in if runtimeDir \<noteq> [] then Join [runtimeDir, ''kcd'', ''mnt''] else Join [StateDir e, ''mnt''])"

definition DefaultConfigPath :: "environment \<Rightarrow> string" where
  "DefaultConfigPath e =
     Join [instanceDir e (Join [xdg e ''XDG_CONFIG_HOME'' (Join [en_home e, ''.config'']), ''kcd'']), ''kcd.toml'']"

definition DefaultSocketPath :: "environment \<Rightarrow> string" where
  "DefaultSocketPath e = Join [DefaultRuntimeDir e, ''kcd.sock'']"

definition configPath :: "environment \<Rightarrow> string \<Rightarrow> bool \<Rightarrow> string" where
  "configPath e filename isRuntime =
     (if isRuntime then Join [DefaultSocketPath e] else Join [Dir (DefaultConfigPath e), filename])"

definition deviceIDPath :: "string \<Rightarrow> string" where
  "deviceIDPath config_path = Join [Dir config_path, ''device_id'']"

definition StatePath :: "full_config \<Rightarrow> string" where
  "StatePath c = Join [fc_state_dir c, ''devices.json'']"

section \<open>Defaults\<close>

definition Defaults :: "environment \<Rightarrow> full_config" where
  "Defaults e =
     zero_config
       \<lparr>fc_config_version := 1,
        fc_device_name := (if en_hostname e = [] then ''kcd-desktop'' else en_hostname e),
        fc_device_type := ''desktop'',
        fc_cert_file := configPath e ''cert.pem'' False, fc_key_file := configPath e ''key.pem'' False,
        fc_socket_path := DefaultSocketPath e, fc_state_dir := StateDir e,
        fc_cache_dir := DefaultCacheDir e, fc_runtime_dir := DefaultRuntimeDir e,
        fc_download_dir := Join [en_home e, ''Downloads'', ''kcd''],
        fc_tcp_port := DefaultTCPPort, fc_log_level := ''info'',
        fc_network :=
          \<lparr>nw_dial_timeout = ''5s'', nw_handshake_timeout = ''10s'', nw_sidechannel_timeout = ''15s'',
           nw_transfer_idle_timeout = ''60s'', nw_keep_alive_idle = ''30s''\<rparr>,
        fc_reconnect :=
          \<lparr>rn_initial_backoff = ''2s'', rn_max_backoff = ''5m'', rn_flap_threshold = ''15s'',
           rn_sighting_driven = True, rn_fallback_max = ''1h'', rn_stale_after = ''24h''\<rparr>,
        fc_discovery := \<lparr>dy_broadcast_interval = ''30s'', dy_broadcast_idle_interval = ''60s''\<rparr>,
        cf_plugins := PluginConfig_Defaults (cf_plugins zero_config),
        fc_run_command := RunCommandConfig_Defaults zero_run_command_config,
        fc_backends := BackendsConfig_Defaults zero_backends_config,
        fc_battery := BatteryConfig_Defaults zero_battery_config,
        fc_mpris := \<lparr>mr_poll_while_playing = True, mr_position_interval = ''2s''\<rparr>,
        fc_notification := NotificationPluginConfig_Defaults zero_notification_plugin_config,
        fc_popups := PopupsConfig_Defaults zero_popups_config,
        fc_share := ShareConfig_Defaults zero_share_config,
        fc_sftp := SFTPConfig_Defaults (DefaultMountDir e) zero_sftp_config,
        fc_ping := PingConfig_Defaults zero_ping_config,
        fc_pairing := PairingConfig_Defaults zero_pairing_config,
        fc_mousepad := MousepadConfig_Defaults zero_mousepad_config,
        fc_clipboard := ClipboardConfig_Defaults zero_clipboard_config,
        fc_sms := SMSConfig_Defaults zero_sms_config,
        fc_prune_stale_threshold := ''15m''\<rparr>"

section \<open>Validation\<close>

type_synonym parse_duration = "string \<Rightarrow> duration option"

text \<open>\<open>config.Duration\<close> panics (\<open>None\<close>) on a value that does not parse.\<close>

definition Duration :: "parse_duration \<Rightarrow> string \<Rightarrow> duration option" where
  "Duration pd value = pd value"

datatype config_error =
    BadDuration string
  | NotPositive string
  | BackoffOrder
  | FallbackOrder
  | KeepAliveTooShort
  | BroadcastOrder
  | RunTimeoutNotPositive
  | HookWithoutCommand string
  | HookNegativeDuration string
  | BadVolumeBackend
  | BadNotifyBackend
  | BadPopupBackend
  | NoDeviceName
  | BadDeviceType
  | BadTCPPort
  | BadUrgency
  | SharePortRange
  | SharePortOrder
  | ShareSize
  | BadPruneThreshold
  | BadMousepadBackend

definition duration_settings :: "full_config \<Rightarrow> (string \<times> string) list" where
  "duration_settings c =
     [(''network.dial_timeout'', nw_dial_timeout (fc_network c)),
      (''network.handshake_timeout'', nw_handshake_timeout (fc_network c)),
      (''network.sidechannel_timeout'', nw_sidechannel_timeout (fc_network c)),
      (''network.transfer_idle_timeout'', nw_transfer_idle_timeout (fc_network c)),
      (''network.keepalive_idle'', nw_keep_alive_idle (fc_network c)),
      (''reconnect.initial_backoff'', rn_initial_backoff (fc_reconnect c)),
      (''reconnect.max_backoff'', rn_max_backoff (fc_reconnect c)),
      (''reconnect.flap_threshold'', rn_flap_threshold (fc_reconnect c)),
      (''reconnect.fallback_max'', rn_fallback_max (fc_reconnect c)),
      (''reconnect.stale_after'', rn_stale_after (fc_reconnect c)),
      (''discovery.broadcast_interval'', dy_broadcast_interval (fc_discovery c)),
      (''discovery.broadcast_idle_interval'', dy_broadcast_idle_interval (fc_discovery c)),
      (''pairing.intent_ttl'', pr_intent_ttl (fc_pairing c)),
      (''pairing.listen_timeout'', pr_listen_timeout (fc_pairing c)),
      (''mpris.position_interval'', mr_position_interval (fc_mpris c))]"

fun check_durations :: "parse_duration \<Rightarrow> (string \<times> string) list \<Rightarrow> config_error option" where
  "check_durations pd [] = None"
| "check_durations pd ((name, value) # ss) =
     (case pd value of
        None \<Rightarrow> Some (BadDuration name)
      | Some d \<Rightarrow> if d \<le> 0 then Some (NotPositive name) else check_durations pd ss)"

text \<open>The comparisons come after every setting parsed, so their defaults never matter.\<close>

definition dur :: "parse_duration \<Rightarrow> string \<Rightarrow> duration" where
  "dur pd value = (case Duration pd value of Some d \<Rightarrow> d | None \<Rightarrow> 0)"

definition validateDurations :: "parse_duration \<Rightarrow> full_config \<Rightarrow> config_error option" where
  "validateDurations pd c =
     (case check_durations pd (duration_settings c) of
        Some e \<Rightarrow> Some e
      | None \<Rightarrow>
          let r = fc_reconnect c
          in if dur pd (rn_max_backoff r) < dur pd (rn_initial_backoff r) then Some BackoffOrder
             else if rn_sighting_driven r \<and> dur pd (rn_fallback_max r) < dur pd (rn_max_backoff r)
             then Some FallbackOrder
             else if dur pd (nw_keep_alive_idle (fc_network c)) < 10 * second then Some KeepAliveTooShort
             else if dur pd (dy_broadcast_idle_interval (fc_discovery c)) < dur pd (dy_broadcast_interval (fc_discovery c))
             then Some BroadcastOrder
             else None)"

fun check_hooks :: "(string \<times> hook_config) list \<Rightarrow> config_error option" where
  "check_hooks [] = None"
| "check_hooks ((event, h) # hs) =
     (if event = [] \<or> ho_command h = [] \<or> hd (ho_command h) = [] then Some (HookWithoutCommand event)
      else if ho_timeout h < 0 \<or> ho_debounce h < 0 then Some (HookNegativeDuration event)
      else check_hooks hs)"

definition urgency_ok :: "string \<Rightarrow> bool" where
  "urgency_ok u \<longleftrightarrow> u = [] \<or> u \<in> {''low'', ''normal'', ''critical''}"

definition Validate :: "parse_duration \<Rightarrow> full_config \<Rightarrow> config_error option" where
  "Validate pd c =
     (case validateDurations pd c of
        Some e \<Rightarrow> Some e
      | None \<Rightarrow>
          if rc_default_timeout (fc_run_command c) \<le> 0 then Some RunTimeoutNotPositive
          else case check_hooks (fc_hooks c) of
            Some e \<Rightarrow> Some e
          | None \<Rightarrow>
              if bk_volume (fc_backends c) \<notin> {''auto'', ''pactl'', ''wpctl'', ''none''} then Some BadVolumeBackend
              else if bk_notify (fc_backends c) \<notin> {''auto'', ''notify-send'', ''dbus'', ''none''} then Some BadNotifyBackend
              else if pp_backend (fc_popups c) \<notin> {''auto'', ''notify-send'', ''dbus'', ''none''} then Some BadPopupBackend
              else if SanitizeDeviceName (fc_device_name c) = [] then Some NoDeviceName
              else if fc_device_type c \<notin> {''desktop'', ''laptop'', ''phone'', ''tablet'', ''tv''} then Some BadDeviceType
              else if fc_tcp_port c < TCPPortMin \<or> fc_tcp_port c > TCPPortMax then Some BadTCPPort
              else if \<not> urgency_ok (bt_low_urgency (fc_battery c)) \<or> \<not> urgency_ok (bt_full_urgency (fc_battery c))
              then Some BadUrgency
              else if sh_port_min (fc_share c) < 1 \<or> sh_port_min (fc_share c) > 65535
                \<or> sh_port_max (fc_share c) < 1 \<or> sh_port_max (fc_share c) > 65535 then Some SharePortRange
              else if sh_port_min (fc_share c) > sh_port_max (fc_share c) then Some SharePortOrder
              else if sh_max_file_size (fc_share c) \<le> 0 \<or> sh_max_file_size (fc_share c) > 2 ^ 50 then Some ShareSize
              else if fc_prune_stale_threshold c \<noteq> [] \<and> pd (fc_prune_stale_threshold c) = None
              then Some BadPruneThreshold
              else if mp_backend (fc_mousepad c) \<notin> {''auto'', ''ydotool'', ''xdotool'', ''uinput''}
              then Some BadMousepadBackend
              else None)"

section \<open>Duration aliases\<close>

text \<open>Go's integer division truncates towards zero.\<close>

definition trunc_div :: "int \<Rightarrow> int \<Rightarrow> int" where
  "trunc_div a b = (if (a < 0) = (b < 0) then \<bar>a\<bar> div \<bar>b\<bar> else - (\<bar>a\<bar> div \<bar>b\<bar>))"

text \<open>The alias and the count in its unit: a set alias wins, otherwise the count fills it.\<close>

definition dur_alias :: "duration \<Rightarrow> duration \<Rightarrow> int \<Rightarrow> duration \<times> int" where
  "dur_alias unit d count = (if d \<noteq> 0 then (d, trunc_div d unit) else (wrap64 (count * unit), count))"

definition normalizeDurationAliases :: "full_config \<Rightarrow> full_config" where
  "normalizeDurationAliases c =
     (let (a, asecs) = dur_alias second (sh_accept_timeout (fc_share c)) (sh_accept_timeout_secs (fc_share c));
          (t, tsecs) = dur_alias second (sf_credentials_timeout (fc_sftp c)) (sf_credentials_timeout_secs (fc_sftp c));
          (k, ksecs) = dur_alias second (sf_keepalive_interval (fc_sftp c)) (sf_keepalive_interval_secs (fc_sftp c));
          (p, psecs) = dur_alias second (pr_timeout (fc_pairing c)) (pr_timeout_secs (fc_pairing c));
          (x, xms) = dur_alias millisecond (np_expire (fc_notification c)) (np_expire_ms (fc_notification c));
          (g, gms) = dur_alias millisecond (np_cancel_grace (fc_notification c)) (np_cancel_grace_ms (fc_notification c))
      in c\<lparr>fc_share := (fc_share c)\<lparr>sh_accept_timeout := a, sh_accept_timeout_secs := asecs\<rparr>,
           fc_sftp := (fc_sftp c)\<lparr>sf_credentials_timeout := t, sf_credentials_timeout_secs := tsecs,
                                   sf_keepalive_interval := k, sf_keepalive_interval_secs := ksecs\<rparr>,
           fc_pairing := (fc_pairing c)\<lparr>pr_timeout := p, pr_timeout_secs := psecs\<rparr>,
           fc_notification := (fc_notification c)\<lparr>np_expire := x, np_expire_ms := xms,
                                                   np_cancel_grace := g, np_cancel_grace_ms := gms\<rparr>\<rparr>)"

section \<open>Unknown keys\<close>

text \<open>\<open>configKeyNames\<close> of the type \<open>Config\<close>: the keys that are neither tables of user entries nor lists.\<close>

definition configKeyNames :: "string list" where
  "configKeyNames =
     [''config_version'', ''device_id'', ''device_name'', ''device_type'',
      ''cert_file'', ''key_file'', ''socket_path'', ''state_dir'',
      ''cache_dir'', ''runtime_dir'', ''ipc'', ''ipc.readonly_socket'',
      ''download_dir'', ''tcp_port'', ''log_level'', ''network'',
      ''network.dial_timeout'', ''network.handshake_timeout'', ''network.sidechannel_timeout'', ''network.transfer_idle_timeout'',
      ''network.keepalive_idle'', ''reconnect'', ''reconnect.initial_backoff'', ''reconnect.max_backoff'',
      ''reconnect.flap_threshold'', ''reconnect.sighting_driven'', ''reconnect.fallback_max'', ''reconnect.stale_after'',
      ''discovery'', ''discovery.broadcast_interval'', ''discovery.broadcast_idle_interval'', ''cache'',
      ''cache.sms_attachments_dir'', ''cache.album_art_dir'', ''cache.contacts_dir'', ''plugins'',
      ''plugins.battery'', ''plugins.clipboard'', ''plugins.notification'', ''plugins.share'',
      ''plugins.runcommand'', ''plugins.mpris'', ''plugins.ping'', ''plugins.telephony'',
      ''plugins.connectivity'', ''plugins.mousepad'', ''plugins.sftp'', ''plugins.findmyphone'',
      ''plugins.lockdevice'', ''plugins.systemvolume'', ''plugins.pausemusic'', ''plugins.sms'',
      ''plugins.contacts'', ''plugins.presenter'', ''plugins.findthisdevice'', ''plugins.remotesystemvolume'',
      ''plugins.digitizer'', ''runcommand'', ''runcommand.default_timeout'', ''backends'',
      ''backends.volume'', ''backends.notify'', ''backends.sound_file'', ''popups'',
      ''popups.enabled'', ''popups.backend'', ''popups.app_name'', ''popups.battery'',
      ''popups.ping'', ''popups.telephony'', ''popups.sms'', ''popups.notifications'',
      ''popups.runcommand'', ''battery'', ''battery.notify_low'', ''battery.notify_full'',
      ''battery.low_urgency'', ''battery.full_urgency'', ''battery.low_message'', ''battery.full_message'',
      ''mpris'', ''mpris.poll_while_playing'', ''mpris.position_interval'', ''notification_plugin'',
      ''notification_plugin.urgency'', ''notification_plugin.fetch_icons'', ''notification_plugin.icon_cache_dir'', ''notification_plugin.max_body_length'',
      ''notification_plugin.expire_ms'', ''notification_plugin.expire'', ''notification_plugin.skip_non_clearable'', ''notification_plugin.replace_notifications'',
      ''notification_plugin.show_icons'', ''notification_plugin.cancel_grace_ms'', ''notification_plugin.cancel_grace'', ''lockdevice'',
      ''lockdevice.allow_remote_unlock'', ''share'', ''share.max_file_size'', ''share.port_min'',
      ''share.port_max'', ''share.accept_timeout_secs'', ''share.accept_timeout'', ''share.auto_open'',
      ''share.open_command'', ''share.overwrite'', ''share.accept'', ''share.text_action'',
      ''share.url_action'', ''sftp'', ''sftp.mount_dir'', ''sftp.credentials_timeout_secs'',
      ''sftp.credentials_timeout'', ''sftp.keepalive_interval_secs'', ''sftp.keepalive_interval'', ''sftp.keepalive_count'',
      ''sftp.auto_open'', ''sftp.open_command'', ''sftp.read_only'', ''ping'',
      ''ping.app_name'', ''ping.icon'', ''ping.default_message'', ''clipboard'',
      ''clipboard.receive'', ''clipboard.send'', ''clipboard.push_on_connect'', ''pairing'',
      ''pairing.timeout_secs'', ''pairing.timeout'', ''pairing.intent_ttl'', ''pairing.listen_timeout'',
      ''pairing.accept_requests'', ''pairing.ask_fallback'', ''mousepad'', ''mousepad.backend'',
      ''sms'', ''sms.notify_incoming'', ''sms.always_arm'', ''prune_stale_threshold'']"

text \<open>
  \<open>levenshtein\<close> row by row.  \<open>range\<close> over a string counts bytes, so the row index of a rune is
  its byte offset; the cells between the runes keep their initial zero.
\<close>

fun offsets :: "nat \<Rightarrow> (nat \<times> nat) list \<Rightarrow> (nat \<times> nat) list" where
  "offsets i [] = []"
| "offsets i ((r, w) # rs) = (i, r) # offsets (i + w) rs"

definition range_string :: "string \<Rightarrow> (nat \<times> nat) list" where
  "range_string s = offsets 0 (runes (bytes_of s))"

fun lev_row :: "nat \<Rightarrow> (nat \<times> nat) list \<Rightarrow> nat list \<Rightarrow> nat list \<Rightarrow> nat list" where
  "lev_row l [] prev cur = cur"
| "lev_row l ((j, r) # rs) prev cur =
     lev_row l rs prev
       (cur[j + 1 := min (cur ! j + 1) (min (prev ! (j + 1) + 1) (prev ! j + (if l \<noteq> r then 1 else 0)))])"

fun lev_rows :: "(nat \<times> nat) list \<Rightarrow> string \<Rightarrow> nat list \<Rightarrow> nat list" where
  "lev_rows [] right prev = prev"
| "lev_rows ((i, l) # ls) right prev =
     lev_rows ls right (lev_row l (range_string right) prev ((i + 1) # replicate (length right) 0))"

definition levenshtein :: "string \<Rightarrow> string \<Rightarrow> nat" where
  "levenshtein left right = lev_rows (range_string left) right [0..<length right + 1] ! length right"

fun nearest_loop :: "string \<Rightarrow> string list \<Rightarrow> string \<Rightarrow> nat \<Rightarrow> string \<times> nat" where
  "nearest_loop name [] best d = (best, d)"
| "nearest_loop name (c # cs) best d =
     (let distance = levenshtein name c
      in if distance < d then nearest_loop name cs c distance else nearest_loop name cs best d)"

definition nearestConfigKey :: "string \<Rightarrow> string" where
  "nearestConfigKey name =
     (let (best, d) = nearest_loop name configKeyNames [] (length name)
      in if d \<le> 2 \<or> d * 3 \<le> length name then best else [])"

definition unknownKeyWarnings :: "string \<Rightarrow> string list list \<Rightarrow> warning list" where
  "unknownKeyWarnings path keys =
     map (\<lambda>key. let name = join_with ''.'' key; suggestion = nearestConfigKey name
                in UnknownKey path name (if suggestion \<noteq> [] then Some suggestion else None)) keys"

section \<open>Validated settings never panic\<close>

lemma check_durations_None:
  "check_durations pd ss = None \<Longrightarrow> (name, value) \<in> set ss \<Longrightarrow> \<exists>d. pd value = Some d \<and> 0 < d"
  by (induction pd ss rule: check_durations.induct) (auto split: option.splits if_splits)

lemma first_error:
  "(if P then Some x else y) = None \<longleftrightarrow> \<not> P \<and> y = None"
  "(case r of Some e \<Rightarrow> Some e | None \<Rightarrow> y) = None \<longleftrightarrow> r = None \<and> y = None"
  by (auto split: option.splits)

lemma Validate_checks:
  assumes "Validate pd c = None"
  shows "validateDurations pd c = None" and "\<not> (fc_tcp_port c < TCPPortMin \<or> fc_tcp_port c > TCPPortMax)"
    and "\<not> (sh_port_min (fc_share c) < 1 \<or> sh_port_min (fc_share c) > 65535
                \<or> sh_port_max (fc_share c) < 1 \<or> sh_port_max (fc_share c) > 65535)"
    and "\<not> sh_port_min (fc_share c) > sh_port_max (fc_share c)"
    and "pp_backend (fc_popups c) \<in> {''auto'', ''notify-send'', ''dbus'', ''none''}"
proof -
  have "validateDurations pd c = None \<and>
      \<not> (fc_tcp_port c < TCPPortMin \<or> fc_tcp_port c > TCPPortMax) \<and>
      \<not> (sh_port_min (fc_share c) < 1 \<or> sh_port_min (fc_share c) > 65535
                \<or> sh_port_max (fc_share c) < 1 \<or> sh_port_max (fc_share c) > 65535) \<and>
      \<not> sh_port_min (fc_share c) > sh_port_max (fc_share c) \<and>
      \<not> pp_backend (fc_popups c) \<notin> {''auto'', ''notify-send'', ''dbus'', ''none''}"
    using assms unfolding Validate_def first_error
    apply (elim conjE)
    apply (intro conjI)
    apply assumption+
    done
  then show "validateDurations pd c = None" and "\<not> (fc_tcp_port c < TCPPortMin \<or> fc_tcp_port c > TCPPortMax)"
    and "\<not> (sh_port_min (fc_share c) < 1 \<or> sh_port_min (fc_share c) > 65535
                \<or> sh_port_max (fc_share c) < 1 \<or> sh_port_max (fc_share c) > 65535)"
    and "\<not> sh_port_min (fc_share c) > sh_port_max (fc_share c)"
    and "pp_backend (fc_popups c) \<in> {''auto'', ''notify-send'', ''dbus'', ''none''}"
    by simp_all
qed

lemmas Validate_durations = Validate_checks(1)

lemma validated_settings:
  assumes "Validate pd c = None" and "(name, value) \<in> set (duration_settings c)"
  shows "\<exists>d. Duration pd value = Some d \<and> 0 < d"
  using Validate_durations [OF assms(1)] check_durations_None [OF _ assms(2)]
  by (auto simp: validateDurations_def Duration_def split: option.splits)

text \<open>
  A configuration that passes validation can be used without a panic: every duration setting
  parses to a positive value, the limits of the backoffs are ordered, and the TCP port
  and the port range of the shares are usable.
\<close>
theorem validated_config_usable:
  assumes "Validate pd c = None"
  shows "(\<forall>(name, value) \<in> set (duration_settings c). \<exists>d. Duration pd value = Some d \<and> 0 < d) \<and>
    dur pd (rn_initial_backoff (fc_reconnect c)) \<le> dur pd (rn_max_backoff (fc_reconnect c)) \<and>
    TCPPortMin \<le> fc_tcp_port c \<and> fc_tcp_port c \<le> TCPPortMax \<and>
    1 \<le> sh_port_min (fc_share c) \<and> sh_port_min (fc_share c) \<le> sh_port_max (fc_share c) \<and>
    sh_port_max (fc_share c) \<le> 65535"
proof -
  have "\<forall>(name, value) \<in> set (duration_settings c). \<exists>d. Duration pd value = Some d \<and> 0 < d"
    using validated_settings [OF assms] by blast
  moreover have "dur pd (rn_initial_backoff (fc_reconnect c)) \<le> dur pd (rn_max_backoff (fc_reconnect c))"
    using Validate_durations [OF assms] unfolding validateDurations_def first_error Let_def
    by (elim conjE) linarith
  ultimately show ?thesis
    using Validate_checks(2-4) [OF assms] by simp
qed

definition small_environment :: environment where
  "small_environment = \<lparr>en_vars = [], en_home = ''/home/u'', en_hostname = ''pc'', en_uid = 1000\<rparr>"

definition small_durations :: parse_duration where
  "small_durations =
     map_of [(''2s'', 2 * second), (''5s'', 5 * second), (''10s'', 10 * second), (''15s'', 15 * second),
             (''30s'', 30 * second), (''60s'', 60 * second), (''2m'', 120 * second), (''5m'', 300 * second),
             (''15m'', 900 * second), (''1h'', 3600 * second), (''24h'', 86400 * second)]"

lemma small_defaults_durations: "validateDurations small_durations (Defaults e) = None"
  by (simp add: validateDurations_def duration_settings_def Defaults_def small_durations_def dur_def
      Duration_def Let_def second_def PairingConfig_Defaults_def)

lemma small_name_kept: "SanitizeDeviceName ''pc'' \<noteq> []"
  by (simp add: Sanitize_eq DecodeDeviceName_def runes_of_def bytes_of_def runes.simps utf8_next.simps
      name_rune_ok_def is_cc_def invalid_name_rune_def invalid_name_codes_def is_cf_def cf_ranges_def
      string_of_runes_def string_of_def utf8_enc_ascii)

lemma default_settings [simp]:
  "fc_run_command (Defaults e) = RunCommandConfig_Defaults zero_run_command_config"
  "fc_hooks (Defaults e) = []"
  "fc_backends (Defaults e) = BackendsConfig_Defaults zero_backends_config"
  "fc_popups (Defaults e) = PopupsConfig_Defaults zero_popups_config"
  "fc_device_name (Defaults e) = (if en_hostname e = [] then ''kcd-desktop'' else en_hostname e)"
  "fc_device_type (Defaults e) = ''desktop''"
  "fc_tcp_port (Defaults e) = DefaultTCPPort"
  "fc_battery (Defaults e) = BatteryConfig_Defaults zero_battery_config"
  "fc_share (Defaults e) = ShareConfig_Defaults zero_share_config"
  "fc_prune_stale_threshold (Defaults e) = ''15m''"
  "fc_mousepad (Defaults e) = MousepadConfig_Defaults zero_mousepad_config"
  by (simp_all add: Defaults_def zero_config_def)

lemma small_defaults_valid: "Validate small_durations (Defaults small_environment) = None"
  unfolding Validate_def small_defaults_durations default_settings
  by (simp add: small_environment_def small_name_kept small_durations_def
      RunCommandConfig_Defaults_def BackendsConfig_Defaults_def PopupsConfig_Defaults_def
      BatteryConfig_Defaults_def ShareConfig_Defaults_def MousepadConfig_Defaults_def zero_run_command_config_def
      second_def DefaultSidechannelPortMin_def DefaultSidechannelPortMax_def DefaultTCPPort_def TCPPortMin_def TCPPortMax_def urgency_ok_def)

theorem validated_config_usable_witness:
  "TCPPortMin \<le> fc_tcp_port (Defaults small_environment) \<and>
   fc_tcp_port (Defaults small_environment) \<le> TCPPortMax"
  using validated_config_usable [OF small_defaults_valid] by simp

section \<open>The hints are the closest keys\<close>

text \<open>
  The reference: \<open>edits xs ys n\<close> says that \<open>n\<close> insertions, deletions and replacements turn \<open>xs\<close>
  into \<open>ys\<close>.
\<close>

inductive edits :: "'a list \<Rightarrow> 'a list \<Rightarrow> nat \<Rightarrow> bool" where
  edits_nil: "edits [] [] 0"
| edits_keep: "edits xs ys n \<Longrightarrow> edits (xs @ [x]) (ys @ [x]) n"
| edits_replace: "edits xs ys n \<Longrightarrow> edits (xs @ [x]) (ys @ [y]) (Suc n)"
| edits_insert: "edits xs ys n \<Longrightarrow> edits xs (ys @ [y]) (Suc n)"
| edits_delete: "edits xs ys n \<Longrightarrow> edits (xs @ [x]) ys (Suc n)"

fun ed :: "'a list \<Rightarrow> 'a list \<Rightarrow> nat" where
  "ed [] ys = length ys"
| "ed (x # xs) [] = Suc (length xs)"
| "ed (x # xs) (y # ys) =
     min (ed (x # xs) ys + 1) (min (ed xs (y # ys) + 1) (ed xs ys + (if x \<noteq> y then 1 else 0)))"

lemma ed_Nil [simp]: "ed xs [] = length xs"
  by (cases xs) auto

lemma ed_steps: "ed xs (y # ys) \<le> Suc (ed xs ys)" "ed (x # xs) ys \<le> Suc (ed xs ys)"
  "ed (x # xs) (x # ys) \<le> ed xs ys" "ed (x # xs) (y # ys) \<le> Suc (ed xs ys)"
proof -
  show "ed xs (y # ys) \<le> Suc (ed xs ys)" by (cases xs) auto
  show "ed (x # xs) ys \<le> Suc (ed xs ys)" by (cases ys) auto
qed auto

lemma edits_ed: "edits xs ys n \<Longrightarrow> ed (rev xs) (rev ys) \<le> n"
proof (induction rule: edits.induct)
  case (edits_keep xs ys n x)
  then show ?case using ed_steps(3) [of x "rev xs" "rev ys"] by simp
next
  case (edits_replace xs ys n x y)
  then show ?case using ed_steps(4) [of x "rev xs" y "rev ys"] by simp
next
  case (edits_insert xs ys n y)
  then show ?case using ed_steps(1) [of "rev xs" y "rev ys"] by simp
next
  case (edits_delete xs ys n x)
  then show ?case using ed_steps(2) [of x "rev xs" "rev ys"] by simp
qed simp

lemma edits_insert_all: "edits [] (rev ys) (length ys)"
  by (induction ys) (auto intro: edits.intros)

lemma edits_delete_all: "edits (rev xs) [] (length xs)"
  by (induction xs) (auto intro: edits.intros)

lemma ed_edits: "edits (rev xs) (rev ys) (ed xs ys)"
proof (induction xs ys rule: ed.induct)
  case (1 ys)
  then show ?case by (simp add: edits_insert_all)
next
  case (2 x xs)
  show ?case using edits_delete_all [of "x # xs"] by simp
next
  case (3 x xs y ys)
  have "edits (rev (x # xs)) (rev (y # ys)) (ed (x # xs) ys + 1)"
    using edits_insert [OF "3.IH"(1)] by simp
  moreover have "edits (rev (x # xs)) (rev (y # ys)) (ed xs (y # ys) + 1)"
    using edits_delete [OF "3.IH"(2)] by simp
  moreover have "edits (rev (x # xs)) (rev (y # ys)) (ed xs ys + (if x \<noteq> y then 1 else 0))"
    using edits_replace [OF "3.IH"(3), of x y] edits_keep [OF "3.IH"(3), of x] by auto
  ultimately show ?case by (simp only: ed.simps min_def split: if_splits) auto
qed

text \<open>The rows of the table are the distances of the prefixes.\<close>

definition prefix_row :: "nat list \<Rightarrow> nat list \<Rightarrow> nat list" where
  "prefix_row xs r = map (\<lambda>k. ed xs (rev (take k r))) [0..<length r + 1]"

lemma lev_row_correct:
  assumes "length cur = length r + 1" and "j \<le> length r"
    and "\<And>k. k \<le> j \<Longrightarrow> cur ! k = ed (x # xs) (rev (take k r))"
  shows "lev_row x (zip [j..<length r] (drop j r)) (prefix_row xs r) cur = prefix_row (x # xs) r"
  using assms
proof (induction "length r - j" arbitrary: j cur)
  case 0
  then have "cur = prefix_row (x # xs) r"
    by (intro nth_equalityI) (auto simp: prefix_row_def simp del: upt_Suc)
  then show ?case using 0 by simp
next
  case (Suc m)
  then have j: "j < length r" by simp
  let ?c = "cur[j + 1 := min (cur ! j + 1) (min (prefix_row xs r ! (j + 1) + 1)
      (prefix_row xs r ! j + (if x \<noteq> r ! j then 1 else 0)))]"
  have split: "zip [j..<length r] (drop j r) = (j, r ! j) # zip [Suc j..<length r] (drop (Suc j) r)"
    using j by (simp add: upt_conv_Cons Cons_nth_drop_Suc [symmetric])
  have t: "take (j + 1) r = take j r @ [r ! j]" using j by (simp add: take_Suc_conv_app_nth)
  have new: "?c ! k = ed (x # xs) (rev (take k r))" if "k \<le> j + 1" for k
  proof (cases "k = j + 1")
    case True
    have "cur ! j = ed (x # xs) (rev (take j r))" using Suc.prems(3) by simp
    then show ?thesis using True j Suc.prems(1) t
      by (simp add: prefix_row_def nth_append del: upt_Suc)
  next
    case False
    then show ?thesis using Suc.prems(3) [of k] that by simp
  qed
  have "lev_row x (zip [Suc j..<length r] (drop (Suc j) r)) (prefix_row xs r) ?c = prefix_row (x # xs) r"
    by (rule Suc.hyps(1)) (use Suc.hyps(2) Suc.prems(1) j new in auto)
  then show ?case by (simp add: split)
qed

definition ascii :: "string \<Rightarrow> bool" where
  "ascii s \<longleftrightarrow> list_all (\<lambda>c. byte c < 128) s"

lemma ascii_runes: "ascii s \<Longrightarrow> runes (bytes_of s) = map (\<lambda>c. (byte c, 1)) s"
  by (induction s) (auto simp: ascii_def bytes_of_def runes.simps utf8_next.simps)

lemma ascii_offsets: "offsets i (map (\<lambda>c. (byte c, 1)) s) = zip [i..<i + length s] (map byte s)"
proof (induction s arbitrary: i)
  case (Cons c s)
  have "[i..<i + length (c # s)] = i # [Suc i..<Suc i + length s]" by (simp add: upt_conv_Cons del: upt_Suc)
  then show ?case using Cons [of "Suc i"] by (simp del: upt_Suc)
qed simp

lemma ascii_range: "ascii s \<Longrightarrow> range_string s = zip [0..<length s] (bytes_of s)"
  using ascii_offsets [of 0 s] by (simp add: range_string_def ascii_runes) (simp add: bytes_of_def)

lemma lev_rows_correct:
  assumes "ascii right"
  shows "lev_rows (zip [length xs..<length xs + length ls] ls) right (prefix_row xs (bytes_of right)) =
    prefix_row (rev ls @ xs) (bytes_of right)"
proof (induction ls arbitrary: xs)
  case (Cons l ls)
  let ?r = "bytes_of right"
  have n: "length ?r = length right" by (simp add: bytes_of_def)
  have row: "lev_row l (range_string right) (prefix_row xs ?r) ((length xs + 1) # replicate (length right) 0) =
      prefix_row (l # xs) ?r"
    using lev_row_correct [of "(length xs + 1) # replicate (length right) 0" ?r 0 l xs] assms n
    by (simp add: ascii_range)
  have "[length xs..<length xs + length (l # ls)] = length xs # [length (l # xs)..<length (l # xs) + length ls]"
    by (simp add: upt_conv_Cons del: upt_Suc)
  then show ?case using Cons.IH [of "l # xs"] row by (simp del: upt_Suc)
qed simp

text \<open>
  For keys of ASCII characters \<open>levenshtein\<close> is the edit distance: that many single-character
  edits turn one key into the other, and no fewer do.
\<close>
theorem levenshtein_is_edit_distance:
  assumes "ascii left" and "ascii right"
  shows "edits (bytes_of left) (bytes_of right) (levenshtein left right) \<and>
    (\<forall>n. edits (bytes_of left) (bytes_of right) n \<longrightarrow> levenshtein left right \<le> n)"
proof -
  have init: "[0..<length right + 1] = prefix_row [] (bytes_of right)"
    by (intro nth_equalityI) (auto simp: prefix_row_def bytes_of_def simp del: upt_Suc)
  have n: "length (bytes_of s) = length s" for s by (simp add: bytes_of_def)
  have "levenshtein left right = prefix_row (rev (bytes_of left)) (bytes_of right) ! length right"
    using lev_rows_correct [OF assms(2), of "[]" "bytes_of left"] assms(1)
    unfolding levenshtein_def init ascii_range [OF assms(1)] by (simp add: n)
  also have "\<dots> = ed (rev (bytes_of left)) (rev (bytes_of right))"
    by (simp add: prefix_row_def n del: upt_Suc)
  finally show ?thesis
    using ed_edits [of "rev (bytes_of left)" "rev (bytes_of right)"] edits_ed by auto
qed

theorem levenshtein_is_edit_distance_witness:
  "edits (bytes_of ''tcp_prt'') (bytes_of ''tcp_port'') (levenshtein ''tcp_prt'' ''tcp_port'')"
  using levenshtein_is_edit_distance [of "''tcp_prt''" "''tcp_port''"] by (simp add: ascii_def)

end
