(* ===== verification/AtomicFile.thy ===== *)
theory AtomicFile
  imports KcdPrelude
begin

text \<open>
  Replacing a file by a temporary file that is renamed into place, as \<open>internal/config\<close> does it in
  \<open>writeDeviceID\<close>, \<open>Save\<close> and \<open>WriteAPIDropIn\<close>.  Each of them is a list of file system calls; a
  call can fail (the function returns its error after the deferred \<open>os.Remove\<close> of the temporary
  file) or the process can die in it.  The locale states once what the order of the calls gives.
\<close>

datatype file_call = MkdirAll | CreateTemp | ChmodTemp | WriteTemp | SyncTemp | CloseTemp | RenameTemp

datatype file_fault = NoFileFault | CallFails file_call | DiesIn file_call

record file_state =
  fs_file :: "string option"
  fs_temp :: "string option"

datatype file_outcome = Written | FailedAt file_call | ProcessDied

fun file_call_ok :: "string \<Rightarrow> file_call \<Rightarrow> file_state \<Rightarrow> file_state" where
  "file_call_ok data CreateTemp s = s\<lparr>fs_temp := Some []\<rparr>"
| "file_call_ok data WriteTemp s = s\<lparr>fs_temp := Some data\<rparr>"
| "file_call_ok data RenameTemp s = s\<lparr>fs_file := fs_temp s, fs_temp := None\<rparr>"
| "file_call_ok data _ s = s"

text \<open>A write that fails or is interrupted leaves the first \<open>n\<close> bytes.\<close>

fun file_call_fails :: "string \<Rightarrow> nat \<Rightarrow> file_call \<Rightarrow> file_state \<Rightarrow> file_state" where
  "file_call_fails data n WriteTemp s = s\<lparr>fs_temp := Some (take n data)\<rparr>"
| "file_call_fails data n _ s = s"

definition drop_temp :: "file_state \<Rightarrow> file_state" where
  "drop_temp s = s\<lparr>fs_temp := None\<rparr>"

fun run_file_calls ::
  "string \<Rightarrow> nat \<Rightarrow> file_fault \<Rightarrow> file_call list \<Rightarrow> file_state \<Rightarrow> file_outcome \<times> file_state" where
  "run_file_calls data n f [] s = (Written, drop_temp s)"
| "run_file_calls data n f (c # cs) s =
     (if f = CallFails c then (FailedAt c, drop_temp (file_call_fails data n c s))
      else if f = DiesIn c
      then (ProcessDied, if c = WriteTemp then file_call_fails data n c s else file_call_ok data c s)
      else run_file_calls data n f cs (file_call_ok data c s))"

definition effectless :: "file_call list \<Rightarrow> bool" where
  "effectless cs \<longleftrightarrow> (\<forall>c \<in> set cs. c \<notin> {CreateTemp, WriteTemp, RenameTemp})"

text \<open>Whatever happens, the file holds the old or the new contents.\<close>

definition replaces :: "string \<Rightarrow> file_state \<Rightarrow> file_outcome \<times> file_state \<Rightarrow> bool" where
  "replaces data s r \<longleftrightarrow>
     fs_file (snd r) \<in> {fs_file s, Some data} \<and> (fst r = Written \<longrightarrow> fs_file (snd r) = Some data) \<and>
     (\<forall>c. fst r = FailedAt c \<longrightarrow> fs_file (snd r) = fs_file s) \<and>
     (fst r \<noteq> ProcessDied \<longrightarrow> fs_temp (snd r) = None)"

lemma drop_temp_simps [simp]: "fs_file (drop_temp s) = fs_file s" "fs_temp (drop_temp s) = None"
  by (simp_all add: drop_temp_def)

lemma effectless_ok:
  "c \<notin> {CreateTemp, WriteTemp, RenameTemp} \<Longrightarrow> file_call_ok data c s = s"
  "c \<notin> {CreateTemp, WriteTemp, RenameTemp} \<Longrightarrow> file_call_fails data n c s = s"
  by (cases c; simp)+

text \<open>Calls without effect may stand anywhere: a fault in them stops the sequence as it is.\<close>

lemma run_effectless:
  assumes "effectless cs"
  shows "run_file_calls data n f (cs @ ds) s = run_file_calls data n f ds s
    \<or> (\<exists>c \<in> set cs. f = CallFails c \<and> run_file_calls data n f (cs @ ds) s = (FailedAt c, drop_temp s))
    \<or> (\<exists>c \<in> set cs. f = DiesIn c \<and> run_file_calls data n f (cs @ ds) s = (ProcessDied, s))"
  using assms
proof (induction cs)
  case (Cons c cs)
  then have c: "c \<notin> {CreateTemp, WriteTemp, RenameTemp}" and "effectless cs"
    by (auto simp: effectless_def)
  with Cons.IH show ?case using effectless_ok [OF c] by auto
qed simp

locale atomic_replace =
  fixes calls :: "file_call list"
    and early prepare flush :: "file_call list"
  assumes order: "calls = early @ [CreateTemp] @ prepare @ [WriteTemp] @ flush @ [RenameTemp]"
    and plain: "effectless early" "effectless prepare" "effectless flush"
begin

lemma old_or_new: "replaces data s (run_file_calls data n f calls s)"
proof -
  let ?r = "[RenameTemp]" and ?s1 = "s\<lparr>fs_temp := Some []\<rparr>" and ?s2 = "s\<lparr>fs_temp := Some data\<rparr>"
  have rename: "replaces data s (run_file_calls data n f ?r ?s2)"
    by (auto simp: replaces_def)
  have flush: "replaces data s (run_file_calls data n f (flush @ ?r) ?s2)"
    using run_effectless [OF plain(3), of data n f ?r ?s2] rename by (auto simp: replaces_def)
  have written: "replaces data s (run_file_calls data n f (WriteTemp # flush @ ?r) ?s1)"
    using flush by (auto simp: replaces_def)
  have prep: "replaces data s (run_file_calls data n f (prepare @ WriteTemp # flush @ ?r) ?s1)"
    using run_effectless [OF plain(2), of data n f "WriteTemp # flush @ ?r" ?s1] written by (auto simp: replaces_def)
  have create: "replaces data s (run_file_calls data n f (CreateTemp # prepare @ WriteTemp # flush @ ?r) s)"
    using prep by (auto simp: replaces_def)
  show ?thesis
    using run_effectless [OF plain(1), of data n f "CreateTemp # prepare @ WriteTemp # flush @ ?r" s] create
    by (auto simp: order replaces_def)
qed

lemma all_succeed: "fs_file (snd (run_file_calls data n NoFileFault calls s)) = Some data
    \<and> fst (run_file_calls data n NoFileFault calls s) = Written"
proof -
  have skip: "effectless cs \<Longrightarrow> run_file_calls data n NoFileFault (cs @ ds) u = run_file_calls data n NoFileFault ds u"
    for cs ds u using run_effectless [of cs data n NoFileFault ds u] by auto
  show ?thesis by (simp add: order skip [OF plain(1)] skip [OF plain(2)] skip [OF plain(3)])
qed

end

end
