(* ===== verification/GoStrings.thy ===== *)
theory GoStrings
  imports PluginEnv
begin

text \<open>
  More of Go's \<open>strings\<close> package: \<open>Contains\<close>, \<open>ReplaceAll\<close>, \<open>Fields\<close>, \<open>Trim\<close> of a prefix or
  a suffix.  Strings are byte lists; \<open>Fields\<close> cuts at the space runes.
\<close>

fun contains :: "string \<Rightarrow> string \<Rightarrow> bool" where
  "contains sub [] = (sub = [])"
| "contains sub (c # s) = (has_prefix sub (c # s) \<or> contains sub s)"

definition suffix_of :: "string \<Rightarrow> string \<Rightarrow> bool" where
  "suffix_of t s \<longleftrightarrow> length t \<le> length s \<and> drop (length s - length t) s = t"

definition TrimPrefix :: "string \<Rightarrow> string \<Rightarrow> string" where
  "TrimPrefix p s = (if has_prefix p s then drop (length p) s else s)"

definition TrimSuffix :: "string \<Rightarrow> string \<Rightarrow> string" where
  "TrimSuffix t s = (if suffix_of t s then take (length s - length t) s else s)"

text \<open>The old text is not empty in the calls of the code.\<close>

function replace_all :: "string \<Rightarrow> string \<Rightarrow> string \<Rightarrow> string" where
  "replace_all old new s =
     (if s = [] \<or> old = [] then s
      else if has_prefix old s then new @ replace_all old new (drop (length old) s)
      else hd s # replace_all old new (tl s))"
  by pat_completeness auto
termination
  by (relation "measure (\<lambda>(old, new, s). length s)") auto

declare replace_all.simps [simp del]

fun cut_fields :: "(nat \<times> nat) list \<Rightarrow> string \<Rightarrow> string \<Rightarrow> string list" where
  "cut_fields [] s cur = (if cur = [] then [] else [cur])"
| "cut_fields ((r, w) # rs) s cur =
     (if is_space_rune r then (if cur = [] then [] else [cur]) @ cut_fields rs (drop w s) []
      else cut_fields rs (drop w s) (cur @ take w s))"

definition Fields :: "string \<Rightarrow> string list" where
  "Fields s = cut_fields (runes (bytes_of s)) s []"

section \<open>Facts\<close>

lemma contains_iff: "contains sub s \<longleftrightarrow> (\<exists>l r. s = l @ sub @ r)"
proof (induction s)
  case (Cons c s)
  show ?case
  proof
    assume "contains sub (c # s)"
    then consider "has_prefix sub (c # s)" | "contains sub s" by auto
    then show "\<exists>l r. c # s = l @ sub @ r"
    proof cases
      case 1
      then show ?thesis unfolding has_prefix_iff by (metis append_Nil)
    next
      case 2
      then show ?thesis using Cons by (metis append_Cons)
    qed
  next
    assume "\<exists>l r. c # s = l @ sub @ r"
    then obtain l r where "c # s = l @ sub @ r" by blast
    then have "has_prefix sub (c # s) \<or> (\<exists>l r. s = l @ sub @ r)"
      unfolding has_prefix_iff by (cases l) auto
    then show "contains sub (c # s)" using Cons by simp
  qed
qed auto

lemma suffix_of_iff: "suffix_of t s \<longleftrightarrow> (\<exists>r. s = r @ t)"
  unfolding suffix_of_def by (metis append_eq_conv_conj append_take_drop_id diff_add_inverse2
      length_append le_add2)

lemma TrimSuffix_append [simp]: "TrimSuffix t (s @ t) = s"
  by (simp add: TrimSuffix_def suffix_of_def)

lemma TrimPrefix_append [simp]: "TrimPrefix p (p @ s) = s"
  by (simp add: TrimPrefix_def has_prefix_def)

end
