(* ===== verification/ConfigLoad.thy ===== *)
theory ConfigLoad
  imports Config AtomicFile Identity GoStrings "HOL-Library.Char_ord" "HOL-Library.List_Lexorder"
begin

text \<open>
  \<open>internal/config\<close>: reading the configuration files in their order, the overrides from the
  environment, the device identifier and its file, the hook tables, and the lock of the state
  file.

  Parameters: \<open>toml\<close> decodes the text of a file into the configuration so far (and gives the
  keys it did not know), \<open>pd\<close> is \<open>time.ParseDuration\<close>, \<open>read\<close> the contents of a file, \<open>dir\<close> the
  entries of a directory.
\<close>

section \<open>Overrides from the environment\<close>

datatype env_setter =
    EnvStr "string \<Rightarrow> full_config \<Rightarrow> full_config"
  | EnvBool "bool \<Rightarrow> full_config \<Rightarrow> full_config"
  | EnvInt "int \<Rightarrow> full_config \<Rightarrow> full_config"
  | EnvUnsupported

datatype env_section = NotASection | Section "(string \<times> env_setter) list"

text \<open>
  The fields of \<open>Config\<close> by their TOML names, as reflection finds them.  A \<open>FlexDuration\<close> is an
  integer to reflection, so its override is a number of nanoseconds.
\<close>

definition env_table :: "(string \<times> env_section) list" where
  "env_table =
     [(''config_version'', NotASection),
      (''device_id'', NotASection),
      (''device_name'', NotASection),
      (''device_type'', NotASection),
      (''cert_file'', NotASection),
      (''key_file'', NotASection),
      (''socket_path'', NotASection),
      (''state_dir'', NotASection),
      (''cache_dir'', NotASection),
      (''runtime_dir'', NotASection),
      (''ipc'', Section
        [(''readonly_socket'', EnvStr (\<lambda>v. fc_ipc_update (ip_read_only_socket_update (\<lambda>_. v))))]),
      (''download_dir'', NotASection),
      (''tcp_port'', NotASection),
      (''log_level'', NotASection),
      (''network'', Section
        [(''dial_timeout'', EnvStr (\<lambda>v. fc_network_update (nw_dial_timeout_update (\<lambda>_. v)))),
         (''handshake_timeout'', EnvStr (\<lambda>v. fc_network_update (nw_handshake_timeout_update (\<lambda>_. v)))),
         (''sidechannel_timeout'', EnvStr (\<lambda>v. fc_network_update (nw_sidechannel_timeout_update (\<lambda>_. v)))),
         (''transfer_idle_timeout'', EnvStr (\<lambda>v. fc_network_update (nw_transfer_idle_timeout_update (\<lambda>_. v)))),
         (''keepalive_idle'', EnvStr (\<lambda>v. fc_network_update (nw_keep_alive_idle_update (\<lambda>_. v))))]),
      (''reconnect'', Section
        [(''initial_backoff'', EnvStr (\<lambda>v. fc_reconnect_update (rn_initial_backoff_update (\<lambda>_. v)))),
         (''max_backoff'', EnvStr (\<lambda>v. fc_reconnect_update (rn_max_backoff_update (\<lambda>_. v)))),
         (''flap_threshold'', EnvStr (\<lambda>v. fc_reconnect_update (rn_flap_threshold_update (\<lambda>_. v)))),
         (''sighting_driven'', EnvBool (\<lambda>v. fc_reconnect_update (rn_sighting_driven_update (\<lambda>_. v)))),
         (''fallback_max'', EnvStr (\<lambda>v. fc_reconnect_update (rn_fallback_max_update (\<lambda>_. v)))),
         (''stale_after'', EnvStr (\<lambda>v. fc_reconnect_update (rn_stale_after_update (\<lambda>_. v))))]),
      (''discovery'', Section
        [(''broadcast_interval'', EnvStr (\<lambda>v. fc_discovery_update (dy_broadcast_interval_update (\<lambda>_. v)))),
         (''broadcast_idle_interval'', EnvStr (\<lambda>v. fc_discovery_update (dy_broadcast_idle_interval_update (\<lambda>_. v))))]),
      (''cache'', Section
        [(''sms_attachments_dir'', EnvStr (\<lambda>v. fc_cache_update (ca_sms_attachments_dir_update (\<lambda>_. v)))),
         (''album_art_dir'', EnvStr (\<lambda>v. fc_cache_update (ca_album_art_dir_update (\<lambda>_. v)))),
         (''contacts_dir'', EnvStr (\<lambda>v. fc_cache_update (ca_contacts_dir_update (\<lambda>_. v))))]),
      (''plugins'', Section
        [(''battery'', EnvBool (\<lambda>v. cf_plugins_update (pc_battery_update (\<lambda>_. v)))),
         (''clipboard'', EnvBool (\<lambda>v. cf_plugins_update (pc_clipboard_update (\<lambda>_. v)))),
         (''notification'', EnvBool (\<lambda>v. cf_plugins_update (pc_notification_update (\<lambda>_. v)))),
         (''share'', EnvBool (\<lambda>v. cf_plugins_update (pc_share_update (\<lambda>_. v)))),
         (''runcommand'', EnvBool (\<lambda>v. cf_plugins_update (pc_runcommand_update (\<lambda>_. v)))),
         (''mpris'', EnvBool (\<lambda>v. cf_plugins_update (pc_mpris_update (\<lambda>_. v)))),
         (''ping'', EnvBool (\<lambda>v. cf_plugins_update (pc_ping_update (\<lambda>_. v)))),
         (''telephony'', EnvBool (\<lambda>v. cf_plugins_update (pc_telephony_update (\<lambda>_. v)))),
         (''connectivity'', EnvBool (\<lambda>v. cf_plugins_update (pc_connectivity_update (\<lambda>_. v)))),
         (''mousepad'', EnvBool (\<lambda>v. cf_plugins_update (pc_mousepad_update (\<lambda>_. v)))),
         (''sftp'', EnvBool (\<lambda>v. cf_plugins_update (pc_sftp_update (\<lambda>_. v)))),
         (''findmyphone'', EnvBool (\<lambda>v. cf_plugins_update (pc_findmyphone_update (\<lambda>_. v)))),
         (''lockdevice'', EnvBool (\<lambda>v. cf_plugins_update (pc_lockdevice_update (\<lambda>_. v)))),
         (''systemvolume'', EnvBool (\<lambda>v. cf_plugins_update (pc_systemvolume_update (\<lambda>_. v)))),
         (''pausemusic'', EnvBool (\<lambda>v. cf_plugins_update (pc_pausemusic_update (\<lambda>_. v)))),
         (''sms'', EnvBool (\<lambda>v. cf_plugins_update (pc_sms_update (\<lambda>_. v)))),
         (''contacts'', EnvBool (\<lambda>v. cf_plugins_update (pc_contacts_update (\<lambda>_. v)))),
         (''presenter'', EnvBool (\<lambda>v. cf_plugins_update (pc_presenter_update (\<lambda>_. v)))),
         (''findthisdevice'', EnvBool (\<lambda>v. cf_plugins_update (pc_findthisdevice_update (\<lambda>_. v)))),
         (''remotesystemvolume'', EnvBool (\<lambda>v. cf_plugins_update (pc_remotesystemvolume_update (\<lambda>_. v)))),
         (''digitizer'', EnvBool (\<lambda>v. cf_plugins_update (pc_digitizer_update (\<lambda>_. v))))]),
      (''commands'', NotASection),
      (''commands_per_device'', NotASection),
      (''hooks'', NotASection),
      (''runcommand'', Section
        [(''default_timeout'', EnvInt (\<lambda>v. fc_run_command_update (rc_default_timeout_update (\<lambda>_. v))))]),
      (''backends'', Section
        [(''lock_command'', EnvUnsupported),
         (''unlock_command'', EnvUnsupported),
         (''clipboard_get'', EnvUnsupported),
         (''clipboard_set'', EnvUnsupported),
         (''volume'', EnvStr (\<lambda>v. fc_backends_update (bk_volume_update (\<lambda>_. v)))),
         (''notify'', EnvStr (\<lambda>v. fc_backends_update (bk_notify_update (\<lambda>_. v)))),
         (''sound_command'', EnvUnsupported),
         (''sound_file'', EnvStr (\<lambda>v. fc_backends_update (bk_sound_file_update (\<lambda>_. v))))]),
      (''devices'', NotASection),
      (''notifications'', NotASection),
      (''popups'', Section
        [(''enabled'', EnvBool (\<lambda>v. fc_popups_update (pp_enabled_update (\<lambda>_. v)))),
         (''backend'', EnvStr (\<lambda>v. fc_popups_update (pp_backend_update (\<lambda>_. v)))),
         (''app_name'', EnvStr (\<lambda>v. fc_popups_update (pp_app_name_update (\<lambda>_. v)))),
         (''battery'', EnvBool (\<lambda>v. fc_popups_update (pp_battery_update (\<lambda>_. v)))),
         (''ping'', EnvBool (\<lambda>v. fc_popups_update (pp_ping_update (\<lambda>_. v)))),
         (''telephony'', EnvBool (\<lambda>v. fc_popups_update (pp_telephony_update (\<lambda>_. v)))),
         (''sms'', EnvBool (\<lambda>v. fc_popups_update (pp_sms_update (\<lambda>_. v)))),
         (''notifications'', EnvBool (\<lambda>v. fc_popups_update (pp_notifications_update (\<lambda>_. v)))),
         (''runcommand'', EnvBool (\<lambda>v. fc_popups_update (pp_run_command_update (\<lambda>_. v))))]),
      (''battery'', Section
        [(''notify_low'', EnvBool (\<lambda>v. fc_battery_update (bt_notify_low_update (\<lambda>_. v)))),
         (''notify_full'', EnvBool (\<lambda>v. fc_battery_update (bt_notify_full_update (\<lambda>_. v)))),
         (''low_urgency'', EnvStr (\<lambda>v. fc_battery_update (bt_low_urgency_update (\<lambda>_. v)))),
         (''full_urgency'', EnvStr (\<lambda>v. fc_battery_update (bt_full_urgency_update (\<lambda>_. v)))),
         (''low_message'', EnvStr (\<lambda>v. fc_battery_update (bt_low_message_update (\<lambda>_. v)))),
         (''full_message'', EnvStr (\<lambda>v. fc_battery_update (bt_full_message_update (\<lambda>_. v))))]),
      (''mpris'', Section
        [(''poll_while_playing'', EnvBool (\<lambda>v. fc_mpris_update (mr_poll_while_playing_update (\<lambda>_. v)))),
         (''position_interval'', EnvStr (\<lambda>v. fc_mpris_update (mr_position_interval_update (\<lambda>_. v))))]),
      (''notification_plugin'', Section
        [(''urgency'', EnvStr (\<lambda>v. fc_notification_update (np_urgency_update (\<lambda>_. v)))),
         (''fetch_icons'', EnvBool (\<lambda>v. fc_notification_update (np_fetch_icons_update (\<lambda>_. v)))),
         (''icon_cache_dir'', EnvStr (\<lambda>v. fc_notification_update (np_icon_cache_dir_update (\<lambda>_. v)))),
         (''max_body_length'', EnvInt (\<lambda>v. fc_notification_update (np_max_body_length_update (\<lambda>_. v)))),
         (''expire_ms'', EnvInt (\<lambda>v. fc_notification_update (np_expire_ms_update (\<lambda>_. v)))),
         (''expire'', EnvInt (\<lambda>v. fc_notification_update (np_expire_update (\<lambda>_. v)))),
         (''skip_non_clearable'', EnvBool (\<lambda>v. fc_notification_update (np_skip_non_clearable_update (\<lambda>_. v)))),
         (''replace_notifications'', EnvBool (\<lambda>v. fc_notification_update (np_replace_notifications_update (\<lambda>_. v)))),
         (''show_icons'', EnvBool (\<lambda>v. fc_notification_update (np_show_icons_update (\<lambda>_. v)))),
         (''cancel_grace_ms'', EnvInt (\<lambda>v. fc_notification_update (np_cancel_grace_ms_update (\<lambda>_. v)))),
         (''cancel_grace'', EnvInt (\<lambda>v. fc_notification_update (np_cancel_grace_update (\<lambda>_. v))))]),
      (''lockdevice'', Section
        [(''allow_remote_unlock'', EnvBool (\<lambda>v. fc_lock_device_update (lk_allow_remote_unlock_update (\<lambda>_. v))))]),
      (''share'', Section
        [(''max_file_size'', EnvInt (\<lambda>v. fc_share_update (sh_max_file_size_update (\<lambda>_. v)))),
         (''port_min'', EnvInt (\<lambda>v. fc_share_update (sh_port_min_update (\<lambda>_. v)))),
         (''port_max'', EnvInt (\<lambda>v. fc_share_update (sh_port_max_update (\<lambda>_. v)))),
         (''accept_timeout_secs'', EnvInt (\<lambda>v. fc_share_update (sh_accept_timeout_secs_update (\<lambda>_. v)))),
         (''accept_timeout'', EnvInt (\<lambda>v. fc_share_update (sh_accept_timeout_update (\<lambda>_. v)))),
         (''auto_open'', EnvBool (\<lambda>v. fc_share_update (sh_auto_open_update (\<lambda>_. v)))),
         (''open_command'', EnvStr (\<lambda>v. fc_share_update (sh_open_command_update (\<lambda>_. v)))),
         (''overwrite'', EnvBool (\<lambda>v. fc_share_update (sh_overwrite_update (\<lambda>_. v)))),
         (''accept'', EnvStr (\<lambda>v. fc_share_update (sh_accept_update (\<lambda>_. v)))),
         (''text_action'', EnvStr (\<lambda>v. fc_share_update (sh_text_action_update (\<lambda>_. v)))),
         (''url_action'', EnvStr (\<lambda>v. fc_share_update (sh_url_action_update (\<lambda>_. v))))]),
      (''sftp'', Section
        [(''mount_dir'', EnvStr (\<lambda>v. fc_sftp_update (sf_mount_dir_update (\<lambda>_. v)))),
         (''credentials_timeout_secs'', EnvInt (\<lambda>v. fc_sftp_update (sf_credentials_timeout_secs_update (\<lambda>_. v)))),
         (''credentials_timeout'', EnvInt (\<lambda>v. fc_sftp_update (sf_credentials_timeout_update (\<lambda>_. v)))),
         (''keepalive_interval_secs'', EnvInt (\<lambda>v. fc_sftp_update (sf_keepalive_interval_secs_update (\<lambda>_. v)))),
         (''keepalive_interval'', EnvInt (\<lambda>v. fc_sftp_update (sf_keepalive_interval_update (\<lambda>_. v)))),
         (''keepalive_count'', EnvInt (\<lambda>v. fc_sftp_update (sf_keepalive_count_update (\<lambda>_. v)))),
         (''auto_open'', EnvBool (\<lambda>v. fc_sftp_update (sf_auto_open_update (\<lambda>_. v)))),
         (''open_command'', EnvStr (\<lambda>v. fc_sftp_update (sf_open_command_update (\<lambda>_. v)))),
         (''extra_sshfs_opts'', EnvUnsupported),
         (''read_only'', EnvBool (\<lambda>v. fc_sftp_update (sf_read_only_update (\<lambda>_. v))))]),
      (''ping'', Section
        [(''app_name'', EnvStr (\<lambda>v. fc_ping_update (pg_app_name_update (\<lambda>_. v)))),
         (''icon'', EnvStr (\<lambda>v. fc_ping_update (pg_icon_update (\<lambda>_. v)))),
         (''default_message'', EnvStr (\<lambda>v. fc_ping_update (pg_default_message_update (\<lambda>_. v))))]),
      (''clipboard'', Section
        [(''receive'', EnvBool (\<lambda>v. fc_clipboard_update (cb_receive_update (\<lambda>_. v)))),
         (''send'', EnvBool (\<lambda>v. fc_clipboard_update (cb_send_update (\<lambda>_. v)))),
         (''push_on_connect'', EnvBool (\<lambda>v. fc_clipboard_update (cb_push_on_connect_update (\<lambda>_. v))))]),
      (''pairing'', Section
        [(''timeout_secs'', EnvInt (\<lambda>v. fc_pairing_update (pr_timeout_secs_update (\<lambda>_. v)))),
         (''timeout'', EnvInt (\<lambda>v. fc_pairing_update (pr_timeout_update (\<lambda>_. v)))),
         (''intent_ttl'', EnvStr (\<lambda>v. fc_pairing_update (pr_intent_ttl_update (\<lambda>_. v)))),
         (''listen_timeout'', EnvStr (\<lambda>v. fc_pairing_update (pr_listen_timeout_update (\<lambda>_. v)))),
         (''accept_requests'', EnvStr (\<lambda>v. fc_pairing_update (pr_accept_requests_update (\<lambda>_. v)))),
         (''ask_fallback'', EnvStr (\<lambda>v. fc_pairing_update (pr_ask_fallback_update (\<lambda>_. v))))]),
      (''mousepad'', Section
        [(''backend'', EnvStr (\<lambda>v. fc_mousepad_update (mp_backend_update (\<lambda>_. v))))]),
      (''sms'', Section
        [(''notify_incoming'', EnvBool (\<lambda>v. fc_sms_update (sm_notify_incoming_update (\<lambda>_. v)))),
         (''always_arm'', EnvBool (\<lambda>v. fc_sms_update (sm_always_arm_update (\<lambda>_. v))))]),
      (''prune_stale_threshold'', NotASection),
      (''-'', NotASection)]"

definition ParseBool :: "string \<Rightarrow> bool option" where
  "ParseBool s =
     (if s \<in> {''1'', ''t'', ''T'', ''TRUE'', ''true'', ''True''} then Some True
      else if s \<in> {''0'', ''f'', ''F'', ''FALSE'', ''false'', ''False''} then Some False
      else None)"

datatype env_error = NoSection string | UnknownSection string | UnknownEnvKey string string | BadValue string | UnsupportedType

fun setReflectValue :: "env_setter \<Rightarrow> string \<Rightarrow> full_config \<Rightarrow> env_error + full_config" where
  "setReflectValue (EnvStr f) raw c = Inr (f raw c)"
| "setReflectValue (EnvBool f) raw c = (case ParseBool raw of None \<Rightarrow> Inl (BadValue raw) | Some b \<Rightarrow> Inr (f b c))"
| "setReflectValue (EnvInt f) raw c = (case atoi raw of None \<Rightarrow> Inl (BadValue raw) | Some i \<Rightarrow> Inr (f i c))"
| "setReflectValue EnvUnsupported raw c = Inl UnsupportedType"

definition setEnvField :: "string \<Rightarrow> string \<Rightarrow> string \<Rightarrow> full_config \<Rightarrow> env_error + full_config" where
  "setEnvField sec key raw c =
     (case map_of env_table sec of
        None \<Rightarrow> Inl (UnknownSection sec)
      | Some NotASection \<Rightarrow> Inl (NoSection sec)
      | Some (Section ks) \<Rightarrow>
          (case map_of ks key of
             None \<Rightarrow> Inl (UnknownEnvKey sec key)
           | Some t \<Rightarrow> setReflectValue t raw c))"

text \<open>\<open>strings.SplitN(s, "__", 2)\<close>, \<open>None\<close> when the separator does not occur.\<close>

fun cut_underscores :: "string \<Rightarrow> (string \<times> string) option" where
  "cut_underscores (a # b # s) =
     (if a = CHR ''_'' \<and> b = CHR ''_'' then Some ([], s)
      else map_option (\<lambda>(l, r). (a # l, r)) (cut_underscores (b # s)))"
| "cut_underscores _ = None"

text \<open>
  The environment is given as names and values, cut at the first equals sign.  Names are taken
  to be ASCII, where \<open>strings.ToLower\<close> works byte by byte.
\<close>

definition is_override :: "string \<Rightarrow> bool" where
  "is_override name \<longleftrightarrow>
     has_prefix ''KCD_'' name \<and> name \<notin> {''KCD_CONFIG'', ''KCD_LOG_LEVEL'', ''KCD_INSTANCE''}"

fun applyEnvOverrides :: "(string \<times> string) list \<Rightarrow> full_config \<Rightarrow> (string \<times> env_error) + full_config" where
  "applyEnvOverrides [] c = Inr c"
| "applyEnvOverrides ((name, raw) # es) c =
     (if \<not> is_override name then applyEnvOverrides es c
      else case cut_underscores (map lower (drop 4 name)) of
        None \<Rightarrow> applyEnvOverrides es c
      | Some (sec, key) \<Rightarrow>
          (case setEnvField sec key raw c of
             Inl e \<Rightarrow> Inl (name, e)
           | Inr c \<Rightarrow> applyEnvOverrides es c))"

section \<open>Hook tables\<close>

datatype toml_value =
    TomlStr string
  | TomlStrs "string list"
  | TomlArr "toml_value list"
  | TomlTable "(string \<times> toml_value) list"
  | TomlOther

datatype hook_error = HookArgNotString | HookDeviceNotString | HookNotDuration | HookBadDuration | HookBadShape

definition FlexDuration_UnmarshalText :: "parse_duration \<Rightarrow> string \<Rightarrow> duration option" where
  "FlexDuration_UnmarshalText pd value =
     (case pd value of Some d \<Rightarrow> Some d | None \<Rightarrow> pd (value @ ''s''))"

fun toml_strings :: "toml_value list \<Rightarrow> string list option" where
  "toml_strings [] = Some []"
| "toml_strings (TomlStr s # vs) = map_option (Cons s) (toml_strings vs)"
| "toml_strings (_ # vs) = None"

definition hook_duration ::
  "parse_duration \<Rightarrow> (string \<times> toml_value) list \<Rightarrow> string \<Rightarrow> (duration \<Rightarrow> hook_config \<Rightarrow> hook_config)
     \<Rightarrow> hook_config \<Rightarrow> hook_error + hook_config" where
  "hook_duration pd t key put h =
     (case map_of t key of
        None \<Rightarrow> Inr h
      | Some (TomlStr text) \<Rightarrow>
          (case FlexDuration_UnmarshalText pd text of None \<Rightarrow> Inl HookBadDuration | Some d \<Rightarrow> Inr (put d h))
      | Some _ \<Rightarrow> Inl HookNotDuration)"

definition hook_devices :: "(string \<times> toml_value) list \<Rightarrow> hook_config \<Rightarrow> hook_error + hook_config" where
  "hook_devices t h =
     (case map_of t ''devices'' of
        Some (TomlArr ds) \<Rightarrow>
          (case toml_strings ds of
             None \<Rightarrow> Inl HookDeviceNotString
           | Some ss \<Rightarrow> Inr (h\<lparr>ho_devices := ho_devices h @ ss\<rparr>))
      | _ \<Rightarrow> Inr h)"

lemma map_of_smaller: "map_of t k = Some v \<Longrightarrow> size v < Suc (size_list (size_prod (\<lambda>_. 0) size) t)"
  by (induction t) (auto split: if_splits)

text \<open>A table may hold its command as a table again; the recursion follows it.\<close>

function HookConfig_UnmarshalTOML ::
  "parse_duration \<Rightarrow> toml_value \<Rightarrow> hook_config \<Rightarrow> hook_error + hook_config" where
  "HookConfig_UnmarshalTOML pd (TomlStrs v) h = Inr (h\<lparr>ho_command := v\<rparr>)"
| "HookConfig_UnmarshalTOML pd (TomlArr v) h =
     (case toml_strings v of None \<Rightarrow> Inl HookArgNotString | Some ss \<Rightarrow> Inr (h\<lparr>ho_command := ss\<rparr>))"
| "HookConfig_UnmarshalTOML pd (TomlTable t) h =
     (case (case map_of t ''command'' of
              None \<Rightarrow> Inr h
            | Some v \<Rightarrow> HookConfig_UnmarshalTOML pd v h) of
        Inl e \<Rightarrow> Inl e
      | Inr h \<Rightarrow>
          (case hook_devices t h of
             Inl e \<Rightarrow> Inl e
           | Inr h \<Rightarrow>
               (case hook_duration pd t ''timeout'' (\<lambda>d. ho_timeout_update (\<lambda>_. d)) h of
                  Inl e \<Rightarrow> Inl e
                | Inr h \<Rightarrow> hook_duration pd t ''debounce'' (\<lambda>d. ho_debounce_update (\<lambda>_. d)) h)))"
| "HookConfig_UnmarshalTOML pd (TomlStr s) h = Inl HookBadShape"
| "HookConfig_UnmarshalTOML pd TomlOther h = Inl HookBadShape"
  by pat_completeness auto
termination
  by (relation "measure (\<lambda>(_, v, _). size v)") (auto dest: map_of_smaller)

section \<open>Loading\<close>

datatype file_read = NotExist | ReadError | Contents string

type_synonym read_file = "string \<Rightarrow> file_read"
type_synonym read_dir = "string \<Rightarrow> (string \<times> bool) list option"
type_synonym toml_decode = "string \<Rightarrow> full_config \<Rightarrow> (full_config \<times> string list list) option"

text \<open>An entry is its name and whether it is a directory.\<close>

definition tomlFiles :: "read_dir \<Rightarrow> string \<Rightarrow> string list" where
  "tomlFiles dirs dir =
     (case dirs dir of
        None \<Rightarrow> []
      | Some entries \<Rightarrow>
          sort (map (\<lambda>(name, _). Join [dir, name])
                 (filter (\<lambda>(name, is_dir). \<not> is_dir \<and> suffix_of ''.toml'' name) entries)))"

definition configFiles :: "environment \<Rightarrow> read_dir \<Rightarrow> string \<Rightarrow> string list" where
  "configFiles e dirs path =
     (if path = DefaultConfigPath e then ''/etc/kcd/kcd.toml'' # tomlFiles dirs ''/etc/kcd/kcd.toml.d'' else [])
     @ path # tomlFiles dirs (Join [Dir path, ''kcd.toml.d''])"

datatype load_config_error =
    ConfigUnreadable string
  | ConfigSyntax string
  | EnvOverride string env_error
  | DeviceIDUnreadable
  | InvalidConfig config_error

fun load_files ::
  "toml_decode \<Rightarrow> read_file \<Rightarrow> string list \<Rightarrow> full_config \<Rightarrow> load_config_error + full_config" where
  "load_files toml read [] c = Inr c"
| "load_files toml read (f # fs) c =
     (case read f of
        NotExist \<Rightarrow> load_files toml read fs c
      | ReadError \<Rightarrow> Inl (ConfigUnreadable f)
      | Contents data \<Rightarrow>
          (case toml data c of
             None \<Rightarrow> Inl (ConfigSyntax f)
           | Some (c, undecoded) \<Rightarrow>
               load_files toml read fs (c\<lparr>fc_warnings := fc_warnings c @ unknownKeyWarnings f undecoded\<rparr>)))"

definition load_device_id :: "read_file \<Rightarrow> string \<Rightarrow> full_config \<Rightarrow> load_config_error + full_config" where
  "load_device_id read path c =
     (case read (deviceIDPath path) of
        Contents data \<Rightarrow>
          (let fileID = TrimSpace data
           in Inr (if fc_device_id c = [] then c\<lparr>fc_device_id := fileID\<rparr>
                   else if fileID \<noteq> [] \<and> fileID \<noteq> fc_device_id c
                   then c\<lparr>fc_warnings := fc_warnings c @ [DeviceIDOverride path]\<rparr>
                   else c))
      | NotExist \<Rightarrow> Inr c
      | ReadError \<Rightarrow> Inl DeviceIDUnreadable)"

definition Load ::
  "toml_decode \<Rightarrow> parse_duration \<Rightarrow> environment \<Rightarrow> read_dir \<Rightarrow> read_file \<Rightarrow> string
     \<Rightarrow> load_config_error + full_config" where
  "Load toml pd e dirs read path =
     (case load_files toml read (configFiles e dirs path) ((Defaults e)\<lparr>fc_config_path := path\<rparr>) of
        Inl err \<Rightarrow> Inl err
      | Inr c \<Rightarrow>
          (case applyEnvOverrides (en_vars e) c of
             Inl (name, err) \<Rightarrow> Inl (EnvOverride name err)
           | Inr c \<Rightarrow>
               (case load_device_id read path (normalizeDurationAliases c) of
                  Inl err \<Rightarrow> Inl err
                | Inr c \<Rightarrow> (case Validate pd c of Some err \<Rightarrow> Inl (InvalidConfig err) | None \<Rightarrow> Inr c))))"

section \<open>The device identifier\<close>

unbundle bit_operations_syntax

text \<open>\<open>random\<close> are the sixteen bytes of \<open>rand.Read\<close>, or its failure.\<close>

definition hex_digit :: "nat \<Rightarrow> char" where
  "hex_digit d = (if d < 10 then char_of (48 + d) else char_of (87 + d))"

definition hex_byte :: "nat \<Rightarrow> string" where
  "hex_byte b = [hex_digit (b div 16), hex_digit (b mod 16)]"

definition hex_bytes :: "nat list \<Rightarrow> string" where
  "hex_bytes bs = concat (map hex_byte bs)"

definition generateDeviceID :: "nat list option \<Rightarrow> string option" where
  "generateDeviceID random =
     (case random of
        None \<Rightarrow> None
      | Some bytes \<Rightarrow>
          let uuid = bytes[6 := ((bytes ! 6) AND 15) OR 64];
              uuid = uuid[8 := ((uuid ! 8) AND 63) OR 128];
              s = join_with ''-''
                    [hex_bytes (take 4 uuid), hex_bytes (take 2 (drop 4 uuid)), hex_bytes (take 2 (drop 6 uuid)),
                     hex_bytes (take 2 (drop 8 uuid)), hex_bytes (drop 10 uuid)]
          in Some (map (\<lambda>c. if c = CHR ''-'' then CHR ''_'' else c) s))"

definition write_id_calls :: "file_call list" where
  "write_id_calls = [MkdirAll, CreateTemp, ChmodTemp, WriteTemp, SyncTemp, CloseTemp, RenameTemp]"

definition writeDeviceID :: "nat \<Rightarrow> file_fault \<Rightarrow> string \<Rightarrow> file_state \<Rightarrow> file_outcome \<times> file_state" where
  "writeDeviceID n f ident s = run_file_calls (ident @ [newline]) n f write_id_calls s"

text \<open>The encoder of \<open>Save\<close> and of \<open>WriteAPIDropIn\<close> writes into the temporary file; \<open>data\<close> is what it writes.\<close>

definition save_config_calls :: "file_call list" where
  "save_config_calls = [MkdirAll, CreateTemp, WriteTemp, SyncTemp, CloseTemp, RenameTemp]"

definition Save :: "string \<Rightarrow> nat \<Rightarrow> file_fault \<Rightarrow> file_state \<Rightarrow> file_outcome \<times> file_state" where
  "Save data n f s = run_file_calls data n f save_config_calls s"

definition drop_in_calls :: "file_call list" where
  "drop_in_calls = [MkdirAll, CreateTemp, ChmodTemp, WriteTemp, SyncTemp, CloseTemp, RenameTemp]"

definition WriteAPIDropIn :: "string \<Rightarrow> nat \<Rightarrow> file_fault \<Rightarrow> file_state \<Rightarrow> file_outcome \<times> file_state" where
  "WriteAPIDropIn data n f s = run_file_calls data n f drop_in_calls s"

datatype ensure_error = IDFileUnreadable | NoRandomness | IDNotSaved file_call

text \<open>
  \<open>EnsureDeviceID\<close> on the file of the identifier: its contents are read from the directory state
  unless reading fails (\<open>unreadable\<close>).  The last component says that the process died.
\<close>

definition fresh_device_id ::
  "nat list option \<Rightarrow> nat \<Rightarrow> file_fault \<Rightarrow> string \<Rightarrow> full_config \<Rightarrow> file_state
     \<Rightarrow> ensure_error option \<times> full_config \<times> file_state \<times> bool" where
  "fresh_device_id random n f config_path c s =
     (case generateDeviceID random of
        None \<Rightarrow> (Some NoRandomness, c, s, False)
      | Some ident \<Rightarrow>
          let c = c\<lparr>fc_device_id := ident\<rparr>
          in if config_path = [] then (None, c, s, False)
             else case writeDeviceID n f ident s of
               (Written, s) \<Rightarrow> (None, c, s, False)
             | (FailedAt call, s) \<Rightarrow> (Some (IDNotSaved call), c, s, False)
             | (ProcessDied, s) \<Rightarrow> (None, c, s, True))"

definition EnsureDeviceID ::
  "nat list option \<Rightarrow> bool \<Rightarrow> nat \<Rightarrow> file_fault \<Rightarrow> string \<Rightarrow> full_config \<Rightarrow> file_state
     \<Rightarrow> ensure_error option \<times> full_config \<times> file_state \<times> bool" where
  "EnsureDeviceID random unreadable n f config_path c s =
     (if fc_device_id c \<noteq> [] then (None, c, s, False)
      else if config_path = [] then fresh_device_id random n f config_path c s
      else if unreadable then (Some IDFileUnreadable, c, s, False)
      else case fs_file s of
        None \<Rightarrow> fresh_device_id random n f config_path c s
      | Some data \<Rightarrow>
          (let ident = TrimSpace data
           in if ident \<noteq> [] then (None, c\<lparr>fc_device_id := ident\<rparr>, s, False)
              else fresh_device_id random n f config_path c s))"

section \<open>The lock of the state file\<close>

text \<open>
  \<open>flock\<close> locks belong to an open file: the table maps a path to the open file that holds its
  lock.  \<open>AcquireStateLock\<close> opens a new file \<open>fd\<close> each time.
\<close>

datatype lock_error = LockDirFailed | LockOpenFailed | ErrStateLocked | LockFailed

definition AcquireStateLock ::
  "bool \<Rightarrow> bool \<Rightarrow> bool \<Rightarrow> nat \<Rightarrow> string \<Rightarrow> (string \<rightharpoonup> nat) \<Rightarrow> (lock_error + nat) \<times> (string \<rightharpoonup> nat)" where
  "AcquireStateLock dir_ok open_ok flock_ok fd statePath locks =
     (let path = statePath @ ''.lock''
      in if \<not> dir_ok then (Inl LockDirFailed, locks)
         else if \<not> open_ok then (Inl LockOpenFailed, locks)
         else if \<not> flock_ok then (Inl LockFailed, locks)
         else if locks path \<noteq> None then (Inl ErrStateLocked, locks)
         else (Inr fd, locks(path \<mapsto> fd)))"

text \<open>Closing releases the lock of that open file, on whatever path it is; a \<open>nil\<close> lock has none.\<close>

definition StateLock_Close :: "nat option \<Rightarrow> (string \<rightharpoonup> nat) \<Rightarrow> (string \<rightharpoonup> nat)" where
  "StateLock_Close l locks =
     (case l of None \<Rightarrow> locks | Some fd \<Rightarrow> (\<lambda>p. if locks p = Some fd then None else locks p))"


section \<open>Facts about loading\<close>

lemma load_files_append:
  "load_files toml read (fs @ gs) c =
     (case load_files toml read fs c of Inl e \<Rightarrow> Inl e | Inr c \<Rightarrow> load_files toml read gs c)"
  by (induction toml read fs c rule: load_files.induct) (auto split: file_read.splits option.splits)

lemma applyEnvOverrides_append:
  "applyEnvOverrides (es @ fs) c =
     (case applyEnvOverrides es c of Inl e \<Rightarrow> Inl e | Inr c \<Rightarrow> applyEnvOverrides fs c)"
  by (induction es c rule: applyEnvOverrides.induct) (auto split: option.splits sum.splits)

text \<open>
  An override of a duration is read as a bare number of nanoseconds: \<open>KCD_PAIRING__TIMEOUT=30\<close>
  leaves a pairing timeout of zero seconds, and the form of the configuration file, \<open>30s\<close>, is
  refused.
\<close>
theorem env_duration_is_nanoseconds:
  "(\<exists>c'. applyEnvOverrides [(''KCD_PAIRING__TIMEOUT'', ''30'')] c = Inr c' \<and>
      pr_timeout_secs (fc_pairing (normalizeDurationAliases c')) = 0) \<and>
   applyEnvOverrides [(''KCD_PAIRING__TIMEOUT'', ''30s'')] c = Inl (''KCD_PAIRING__TIMEOUT'', BadValue ''30s'')"
proof -
  have low: "map lower (drop 4 ''KCD_PAIRING__TIMEOUT'') = ''pairing__timeout''"
    by code_simp
  have name: "is_override ''KCD_PAIRING__TIMEOUT''"
    "cut_underscores (map lower (drop 4 ''KCD_PAIRING__TIMEOUT'')) = Some (''pairing'', ''timeout'')"
    unfolding low by (simp_all add: is_override_def has_prefix_def)
  have field: "setEnvField ''pairing'' ''timeout'' raw c =
      setReflectValue (EnvInt (\<lambda>v. fc_pairing_update (pr_timeout_update (\<lambda>_. v)))) raw c" for raw
    by (simp add: setEnvField_def env_table_def)
  have "atoi ''30'' = Some 30" "atoi ''30s'' = None"
    by (simp_all add: atoi_def parse_nat_def is_digit_def digits_val_def digit_val_def in_int64_def
        min_int64_def max_int64_def)
  moreover have "applyEnvOverrides [(''KCD_PAIRING__TIMEOUT'', raw)] c =
      (case setReflectValue (EnvInt (\<lambda>v. fc_pairing_update (pr_timeout_update (\<lambda>_. v)))) raw c of
         Inl e \<Rightarrow> Inl (''KCD_PAIRING__TIMEOUT'', e) | Inr c \<Rightarrow> Inr c)" for raw
    unfolding applyEnvOverrides.simps name(2) option.case prod.case field using name(1) by simp
  ultimately show ?thesis
    by (simp add: normalizeDurationAliases_def dur_alias_def trunc_div_def second_def Let_def split_def)
qed

section \<open>The files are replaced atomically\<close>

interpretation id_file: atomic_replace write_id_calls "[MkdirAll]" "[ChmodTemp]" "[SyncTemp, CloseTemp]"
  by unfold_locales (auto simp: write_id_calls_def effectless_def)

interpretation config_file: atomic_replace save_config_calls "[MkdirAll]" "[]" "[SyncTemp, CloseTemp]"
  by unfold_locales (auto simp: save_config_calls_def effectless_def)

interpretation drop_in: atomic_replace drop_in_calls "[MkdirAll]" "[ChmodTemp]" "[SyncTemp, CloseTemp]"
  by unfold_locales (auto simp: drop_in_calls_def effectless_def)

text \<open>
  Writing the configuration, the device ID or a drop-in of the API replaces the file
  atomically: whichever call fails and wherever the process dies, the file holds its old or
  its complete new contents; an error leaves the old ones and no temporary file.
\<close>
theorem config_writes_atomic:
  "replaces data s (Save data n f s) \<and> replaces data s (WriteAPIDropIn data n f s) \<and>
   replaces (ident @ [newline]) s (writeDeviceID n f ident s)"
  unfolding Save_def WriteAPIDropIn_def writeDeviceID_def
  using config_file.old_or_new drop_in.old_or_new id_file.old_or_new by blast

section \<open>The device identifier\<close>

lemma hex_bytes_length [simp]: "length (hex_bytes bs) = 2 * length bs"
  by (induction bs) (auto simp: hex_bytes_def hex_byte_def)

definition id_char :: "char \<Rightarrow> bool" where
  "id_char c \<longleftrightarrow> 48 \<le> byte c \<and> byte c \<le> 57 \<or> 97 \<le> byte c \<and> byte c \<le> 102 \<or> c = CHR ''_''"

lemma hex_digit_char: "d < 16 \<Longrightarrow> id_char (hex_digit d)"
  by (auto simp: hex_digit_def id_char_def of_char_of)

lemma hex_bytes_chars: "list_all (\<lambda>b. b < 256) bs \<Longrightarrow> list_all id_char (hex_bytes bs)"
  by (induction bs) (auto simp: hex_bytes_def hex_byte_def intro!: hex_digit_char)

lemma and_low: "(x AND 15) < (16 :: nat)" "(x AND 63) < (64 :: nat)"
proof -
  have "x AND 15 = take_bit 4 x" "x AND 63 = take_bit 6 x" for x :: nat
    by (simp_all add: take_bit_eq_mask mask_eq_exp_minus_1)
  then show "(x AND 15) < 16" "(x AND 63) < 64"
    using take_bit_nat_less_exp [of 4 x] take_bit_nat_less_exp [of 6 x] by simp_all
qed

lemma or_bits:
  assumes "x < (16 :: nat)" and "y < (64 :: nat)"
  shows "(x OR 64) = 64 + x" and "(y OR 128) = 128 + y"
proof -
  have "x AND 64 = 0"
  proof -
    have "x = take_bit 4 x" using assms(1) by (simp add: take_bit_nat_eq_self)
    then have "x AND 64 = take_bit 4 x AND 64" by simp
    also have "\<dots> = x AND take_bit 4 64" by (simp add: take_bit_eq_mask ac_simps)
    finally show ?thesis by simp
  qed
  then show "(x OR 64) = 64 + x" using disjunctive_add_eq_or [of 64 x] by (simp add: ac_simps)
  have "y AND 128 = 0"
  proof -
    have "y = take_bit 6 y" using assms(2) by (simp add: take_bit_nat_eq_self)
    then have "y AND 128 = take_bit 6 y AND 128" by simp
    also have "\<dots> = y AND take_bit 6 128" by (simp add: take_bit_eq_mask ac_simps)
    finally show ?thesis by simp
  qed
  then show "(y OR 128) = 128 + y" using disjunctive_add_eq_or [of 128 y] by (simp add: ac_simps)
qed

text \<open>The identifier in its pieces.\<close>

definition id_pieces :: "nat list \<Rightarrow> string list" where
  "id_pieces bytes =
     (let uuid = bytes[6 := ((bytes ! 6) AND 15) OR 64];
          uuid = uuid[8 := ((uuid ! 8) AND 63) OR 128]
      in [hex_bytes (take 4 uuid), hex_bytes (take 2 (drop 4 uuid)), hex_bytes (take 2 (drop 6 uuid)),
          hex_bytes (take 2 (drop 8 uuid)), hex_bytes (drop 10 uuid)])"

lemma generateDeviceID_pieces:
  "generateDeviceID (Some bytes) =
     Some (map (\<lambda>c. if c = CHR ''-'' then CHR ''_'' else c) (join_with ''-'' (id_pieces bytes)))"
  by (simp add: generateDeviceID_def id_pieces_def Let_def)

lemma list_all_drop: "list_all P xs \<Longrightarrow> list_all P (drop n xs)"
  by (auto simp: list_all_iff dest: in_set_dropD)

lemma id_pieces_chars:
  assumes "length bytes = 16" and "list_all (\<lambda>b. b < 256) bytes"
  shows "list_all (\<lambda>p. list_all id_char p) (id_pieces bytes)"
proof -
  let ?u = "bytes[6 := ((bytes ! 6) AND 15) OR 64]"
  let ?v = "?u[8 := ((?u ! 8) AND 63) OR 128]"
  have "list_all (\<lambda>b. b < 256) ?v"
    using assms and_low [of "bytes ! 6"] and_low [of "?u ! 8"] or_bits(1) [OF and_low(1), of 0 "bytes ! 6"]
      or_bits(2) [OF _ and_low(2), of 0 "?u ! 8"]
    by (auto simp: list_all_length nth_list_update)
  then show ?thesis
    by (simp add: id_pieces_def Let_def hex_bytes_chars list_all_take list_all_drop
        del: take_update_cancel drop_update_cancel drop_update_swap)
qed

lemma id_char_plain: "id_char c \<Longrightarrow> c \<noteq> CHR ''-'' \<and> device_id_char c \<and> byte c < 128 \<and> \<not> is_space_rune (byte c)"
  by (auto simp: id_char_def device_id_char_def is_digit_def is_space_rune_def)

lemma generated_chars:
  assumes "length bytes = 16" and "list_all (\<lambda>b. b < 256) bytes" and "generateDeviceID (Some bytes) = Some s"
  shows "list_all id_char s" and "length s = 36"
proof -
  have "id_char (CHR ''_'')" by (simp add: id_char_def)
  moreover have "list_all id_char p" if "p \<in> set (id_pieces bytes)" for p
    using id_pieces_chars [OF assms(1,2)] that by (simp add: list_all_iff)
  moreover have "c = CHR ''-'' \<or> (\<exists>p \<in> set ps. c \<in> set p)" if "c \<in> set (join_with ''-'' ps)" for c ps
    using that by (induction "''-''" ps rule: join_with.induct) auto
  ultimately show "list_all id_char s"
    using assms(3) by (fastforce simp: generateDeviceID_pieces list_all_iff)
  show "length s = 36"
    using assms by (auto simp: generateDeviceID_pieces id_pieces_def Let_def)
qed

text \<open>
  C40. A generated identifier is one that peers accept: 36 characters of the alphabet of device IDs,
  with the version nibble of a random UUID at its place.
\<close>
theorem generated_id_valid:
  assumes "length bytes = 16" and "list_all (\<lambda>b. b < 256) bytes"
  shows "\<exists>s. generateDeviceID (Some bytes) = Some s \<and> ValidDeviceID s \<and> length s = 36 \<and> s ! 14 = CHR ''4''"
proof -
  obtain s where s: "generateDeviceID (Some bytes) = Some s" by (simp add: generateDeviceID_pieces)
  note chars = generated_chars [OF assms s]
  then have "ValidDeviceID s"
    using id_char_plain by (auto simp: ValidDeviceID_def list_all_iff)
  moreover have "s ! 14 = CHR ''4''"
  proof -
    let ?u = "bytes[6 := ((bytes ! 6) AND 15) OR 64]"
    let ?v = "?u[8 := ((?u ! 8) AND 63) OR 128]"
    have "take 2 (drop 6 ?v) = [?v ! 6, ?v ! 7]"
      using assms(1) by (simp add: numeral_2_eq_2 take_Suc_conv_app_nth)
    then have "hd (hex_bytes (take 2 (drop 6 ?v))) = hex_digit ((64 + ((bytes ! 6) AND 15)) div 16)"
      using assms(1) or_bits(1) [OF and_low(1), of 0 "bytes ! 6"] by (simp add: hex_bytes_def hex_byte_def)
    moreover have "(64 + ((bytes ! 6) AND 15)) div 16 = 4" using and_low(1) [of "bytes ! 6"] by simp
    moreover have "hex_digit 4 = CHR ''4''" by code_simp
    ultimately have "hex_bytes (take 2 (drop 6 ?v)) ! 0 = CHR ''4''"
      using assms(1) by (cases "hex_bytes (take 2 (drop 6 ?v))")
        (auto dest: arg_cong [where f = length])
    then show ?thesis
      using s assms(1) by (auto simp: generateDeviceID_pieces id_pieces_def Let_def nth_append)
  qed
  ultimately show ?thesis using s chars(2) by blast
qed

theorem generated_id_valid_witness:
  "\<exists>s. generateDeviceID (Some (replicate 16 255)) = Some s \<and> ValidDeviceID s \<and> length s = 36 \<and> s ! 14 = CHR ''4''"
  by (rule generated_id_valid) (simp_all add: list_all_iff)

text \<open>Trimming the line of the file gives the identifier back.\<close>

lemma drop_spaces_plain: "rs \<noteq> [] \<Longrightarrow> \<not> is_space_rune (fst (hd rs)) \<Longrightarrow> drop_spaces rs = rs"
  by (cases rs) auto

lemma TrimSpace_line:
  assumes "list_all id_char s" and "s \<noteq> []"
  shows "TrimSpace (s @ [newline]) = s"
proof -
  have rs: "runes (bytes_of (s @ [newline])) = map (\<lambda>c. (byte c, 1)) s @ [(10, 1)]"
    using assms(1) ascii_runes [of "s @ [newline]"] id_char_plain by (auto simp: ascii_def list_all_iff)
  have "\<not> is_space_rune (byte c)" if "c \<in> set s" for c
    using assms(1) that id_char_plain by (auto simp: list_all_iff)
  then have ends: "\<not> is_space_rune (byte (hd s))" "\<not> is_space_rune (byte (last s))"
    using assms(2) by simp_all
  have 1: "drop_spaces (map (\<lambda>c. (byte c, 1)) s @ [(10, 1)]) = map (\<lambda>c. (byte c, 1)) s @ [(10, 1)]"
    by (rule drop_spaces_plain) (use ends assms(2) in \<open>simp_all add: hd_append hd_map\<close>)
  have 2: "drop_spaces (rev (map (\<lambda>c. (byte c, 1)) s)) = rev (map (\<lambda>c. (byte c, 1)) s)"
    by (rule drop_spaces_plain) (use ends assms(2) in \<open>simp_all add: hd_rev last_map\<close>)
  have "is_space_rune 10" by (simp add: is_space_rune_def)
  moreover have "sum_list (map snd (rev (map (\<lambda>c. (byte c, 1 :: nat)) s))) = length s"
    by (simp add: sum_list_triv comp_def flip: rev_map)
  ultimately show ?thesis
    unfolding TrimSpace_def rs Let_def 1 by (simp add: 2 [simplified])
qed

lemma written_id_file:
  "fst (writeDeviceID n f ident s) = Written \<Longrightarrow> fs_file (snd (writeDeviceID n f ident s)) = Some (ident @ [newline])"
  using id_file.old_or_new [of "ident @ [newline]" s n f] by (simp add: writeDeviceID_def replaces_def)

lemma fresh_device_id_ok:
  assumes "fresh_device_id random n f path c s = (None, c', s', False)" and "path \<noteq> []"
  shows "\<exists>ident. generateDeviceID random = Some ident \<and> fc_device_id c' = ident \<and>
    fs_file s' = Some (ident @ [newline])"
proof -
  obtain ident where ident: "generateDeviceID random = Some ident"
    using assms(1) by (auto simp: fresh_device_id_def split: option.splits)
  then have w: "writeDeviceID n f ident s = (Written, s')" and "fc_device_id c' = ident"
    using assms by (auto simp: fresh_device_id_def Let_def split: prod.splits file_outcome.splits)
  with ident written_id_file [of n f ident s] show ?thesis by simp
qed

text \<open>
  The identifier survives a restart: once \<open>EnsureDeviceID\<close> has returned without an error, a later
  start over the same file gets the same identifier, whatever random bytes it would draw,
  through \<open>EnsureDeviceID\<close> as well as through \<open>Load\<close>.
\<close>
theorem device_id_survives_restart:
  assumes "EnsureDeviceID random False n f path c s = (None, c', s', False)"
    and "path \<noteq> []" and "fc_device_id c = []" and "fc_device_id c2 = []"
    and "random = Some bytes" and "length bytes = 16" and "list_all (\<lambda>b. b < 256) bytes"
  shows "(\<exists>c2'. EnsureDeviceID random2 False n2 f2 path c2 s' = (None, c2', s', False) \<and>
      fc_device_id c2' = fc_device_id c' \<and> fc_device_id c' \<noteq> []) \<and>
    (\<exists>data c2'. fs_file s' = Some data \<and> load_device_id (\<lambda>_. Contents data) path c2 = Inr c2' \<and>
      fc_device_id c2' = fc_device_id c')"
proof -
  obtain data where data: "fs_file s' = Some data" "TrimSpace data = fc_device_id c'" "fc_device_id c' \<noteq> []"
  proof (cases "\<exists>d. fs_file s = Some d \<and> TrimSpace d \<noteq> []")
    case True
    then show ?thesis using assms(1-3) that by (auto simp: EnsureDeviceID_def Let_def)
  next
    case False
    then have fresh: "fresh_device_id random n f path c s = (None, c', s', False)"
      using assms(1-3) by (auto simp: EnsureDeviceID_def Let_def split: option.splits)
    then obtain ident where ident: "generateDeviceID (Some bytes) = Some ident" "fc_device_id c' = ident"
      "fs_file s' = Some (ident @ [newline])"
      using fresh_device_id_ok [OF fresh assms(2)] assms(5) by auto
    then have "list_all id_char ident" "ident \<noteq> []" using generated_chars [OF assms(6,7) ident(1)] by auto
    then show ?thesis using that ident TrimSpace_line [of ident] by simp
  qed
  then have "\<exists>c2'. EnsureDeviceID random2 False n2 f2 path c2 s' = (None, c2', s', False) \<and>
      fc_device_id c2' = fc_device_id c' \<and> fc_device_id c' \<noteq> []"
    using assms(2,4) by (simp add: EnsureDeviceID_def)
  moreover have "\<exists>data c2'. fs_file s' = Some data \<and> load_device_id (\<lambda>_. Contents data) path c2 = Inr c2' \<and>
      fc_device_id c2' = fc_device_id c'"
    using data assms(4) by (simp add: load_device_id_def)
  ultimately show ?thesis by blast
qed

lemma first_start:
  assumes "generateDeviceID random = Some ident"
  shows "EnsureDeviceID random False 0 NoFileFault ''k.toml'' zero_config \<lparr>fs_file = None, fs_temp = None\<rparr> =
    (None, zero_config\<lparr>fc_device_id := ident\<rparr>, \<lparr>fs_file = Some (ident @ [newline]), fs_temp = None\<rparr>, False)"
  using assms by (simp add: EnsureDeviceID_def fresh_device_id_def writeDeviceID_def write_id_calls_def
      zero_config_def drop_temp_def)

theorem device_id_survives_restart_witness:
  "\<exists>ident c2'. EnsureDeviceID None False 0 NoFileFault ''k.toml'' zero_config
      \<lparr>fs_file = Some (ident @ [newline]), fs_temp = None\<rparr> =
    (None, c2', \<lparr>fs_file = Some (ident @ [newline]), fs_temp = None\<rparr>, False) \<and> fc_device_id c2' = ident"
proof -
  obtain ident where g: "generateDeviceID (Some (replicate 16 7)) = Some ident"
    by (simp add: generateDeviceID_pieces)
  have z: "fc_device_id zero_config = []" by (simp add: zero_config_def)
  show ?thesis
    using conjunct1 [OF device_id_survives_restart [OF first_start [OF g] _ z z refl, of None 0 NoFileFault]]
    by (intro exI [of _ ident]) (auto simp: list_all_iff)
qed

section \<open>Two daemons never hold the lock of a state file\<close>

text \<open>
  After a successful \<open>AcquireStateLock\<close> every further attempt on the same state file is refused,
  until the very lock that was handed out is closed; closing another one does not help.
\<close>
theorem state_lock_exclusive:
  assumes "AcquireStateLock a b g fd path locks = (Inr l, locks')" and "l \<noteq> other"
  shows "fst (AcquireStateLock a2 b2 g2 fd2 path (StateLock_Close (Some other) locks')) \<noteq> Inr l2 \<and>
    fst (AcquireStateLock True True True fd2 path (StateLock_Close (Some l) locks')) = Inr fd2"
  using assms by (auto simp: AcquireStateLock_def StateLock_Close_def Let_def split: if_splits)

theorem state_lock_exclusive_witness:
  "fst (AcquireStateLock True True True 2 ''d'' (StateLock_Close (Some 3) (Map.empty(''d.lock'' \<mapsto> 1)))) \<noteq> Inr 2"
  using state_lock_exclusive [of True True True 1 "''d''" Map.empty 1 "Map.empty(''d.lock'' \<mapsto> 1)" 3 True True True 2 2]
  by (simp add: AcquireStateLock_def)

end
