(* ===== verification/Audio.thy ===== *)
theory Audio
  imports GoStrings
begin

text \<open>
  \<open>internal/desktop/audio\<close>: the default sink through \<open>wpctl\<close> or \<open>pactl\<close>.  What a command prints
  (\<open>output\<close>, \<open>None\<close> when it fails) and whether a command succeeds (\<open>run\<close>) are inputs; the commands
  run are results.  \<open>parse_float\<close> is \<open>strconv.ParseFloat\<close>: the double \<open>m * 2^e\<close> as the pair \<open>(m, e)\<close>.
\<close>

datatype audio_backend = NoAudio | Wpctl | Pactl

definition audio_New :: "(string \<Rightarrow> bool) \<Rightarrow> audio_backend" where
  "audio_New found = (if found ''wpctl'' then Wpctl else if found ''pactl'' then Pactl else NoAudio)"

definition audio_Available :: "audio_backend \<Rightarrow> bool" where
  "audio_Available b \<longleftrightarrow> b \<noteq> NoAudio"

definition audio_Name :: "audio_backend \<Rightarrow> string" where
  "audio_Name b = (case b of NoAudio \<Rightarrow> [] | Wpctl \<Rightarrow> ''wpctl'' | Pactl \<Rightarrow> ''pactl'')"

definition wpctl_sink :: string where "wpctl_sink = ''@DEFAULT_AUDIO_SINK@''"
definition pactl_sink :: string where "pactl_sink = ''@DEFAULT_SINK@''"

section \<open>A double times one hundred\<close>

text \<open>The product of a double and 100 is rounded to 53 bits, ties to even; \<open>int\<close> truncates towards zero.\<close>

fun bitlen :: "nat \<Rightarrow> nat" where
  "bitlen n = (if n = 0 then 0 else Suc (bitlen (n div 2)))"

declare bitlen.simps [simp del]

definition round_half_even :: "nat \<Rightarrow> nat \<Rightarrow> nat" where
  "round_half_even a b =
     (let q = a div b; r = a mod b in if 2 * r > b \<or> 2 * r = b \<and> odd q then q + 1 else q)"

definition round53 :: "nat \<Rightarrow> nat" where
  "round53 n = (let k = bitlen n - 53 in round_half_even n (2 ^ k) * 2 ^ k)"

definition times100_trunc :: "int \<times> int \<Rightarrow> int" where
  "times100_trunc d =
     (let (m, e) = d;
          p = round53 (nat \<bar>m\<bar> * 100);
          v = (if e \<ge> 0 then p * 2 ^ nat e else p div 2 ^ nat (- e))
      in if m < 0 then - int v else int v)"

section \<open>Reading\<close>

type_synonym command_output = "string list \<Rightarrow> string option"

definition wpctl_Read :: "(string \<Rightarrow> (int \<times> int) option) \<Rightarrow> command_output \<Rightarrow> (int \<times> bool) option" where
  "wpctl_Read parse_float output =
     (case output [''wpctl'', ''get-volume'', wpctl_sink] of
        None \<Rightarrow> None
      | Some out \<Rightarrow>
          (let line = TrimSpace out;
               muted = contains ''[MUTED]'' line;
               parts = Fields (replace_all ''[MUTED]'' [] line)
           in case parts of
                _ # v # _ \<Rightarrow> map_option (\<lambda>d. (times100_trunc d, muted)) (parse_float v)
              | _ \<Rightarrow> None))"

fun first_percent :: "string list \<Rightarrow> int" where
  "first_percent [] = -1"
| "first_percent (f # fs) =
     (if suffix_of ''%'' f
      then (case atoi (TrimSuffix ''%'' f) of Some v \<Rightarrow> v | None \<Rightarrow> first_percent fs)
      else first_percent fs)"

definition pactl_Read :: "command_output \<Rightarrow> (int \<times> bool) option" where
  "pactl_Read output =
     (case output [''pactl'', ''get-sink-volume'', pactl_sink] of
        None \<Rightarrow> None
      | Some out \<Rightarrow>
          (let volume = first_percent (Fields out)
           in if volume < 0 then None
              else case output [''pactl'', ''get-sink-mute'', pactl_sink] of
                None \<Rightarrow> None
              | Some m \<Rightarrow> Some (volume, contains ''yes'' m)))"

definition audio_Read ::
  "(string \<Rightarrow> (int \<times> int) option) \<Rightarrow> command_output \<Rightarrow> audio_backend \<Rightarrow> (int \<times> bool) option" where
  "audio_Read parse_float output b =
     (case b of NoAudio \<Rightarrow> None | Wpctl \<Rightarrow> wpctl_Read parse_float output | Pactl \<Rightarrow> pactl_Read output)"

section \<open>Writing\<close>

text \<open>The result is success and the commands run, in order.\<close>

type_synonym run_result = "bool \<times> string list list"

definition volume_command :: "audio_backend \<Rightarrow> int \<Rightarrow> string list" where
  "volume_command b volume =
     (if b = Wpctl then [''wpctl'', ''set-volume'', wpctl_sink, show_int volume @ ''%'']
      else [''pactl'', ''set-sink-volume'', pactl_sink, show_int volume @ ''%''])"

definition mute_command :: "audio_backend \<Rightarrow> bool \<Rightarrow> string list" where
  "mute_command b muted =
     (if b = Wpctl then [''wpctl'', ''set-mute'', wpctl_sink, if muted then ''1'' else ''0'']
      else [''pactl'', ''set-sink-mute'', pactl_sink, if muted then ''true'' else ''false''])"

definition audio_SetMuted :: "(string list \<Rightarrow> bool) \<Rightarrow> bool \<Rightarrow> audio_backend \<Rightarrow> run_result" where
  "audio_SetMuted run muted b =
     (if b = NoAudio then (False, []) else (run (mute_command b muted), [mute_command b muted]))"

definition audio_SetVolume :: "(string list \<Rightarrow> bool) \<Rightarrow> int \<Rightarrow> audio_backend \<Rightarrow> run_result" where
  "audio_SetVolume run volume b =
     (if b = NoAudio then (False, [])
      else if volume < 0 \<or> volume > 100 then (False, [])
      else (run (volume_command b volume), [volume_command b volume]))"

definition audio_Set :: "(string list \<Rightarrow> bool) \<Rightarrow> int \<Rightarrow> bool \<Rightarrow> audio_backend \<Rightarrow> run_result" where
  "audio_Set run volume muted b =
     (if b = NoAudio then (False, [])
      else if volume < 0 \<or> volume > 100 then (False, [])
      else if \<not> run (volume_command b volume) then (False, [volume_command b volume])
      else (run (mute_command b muted), [volume_command b volume, mute_command b muted]))"

section \<open>Facts\<close>

text \<open>
  The double nearest to 0.29 is \<open>5224175567749775 / 2^54\<close>, and 100 times it rounds to just below
  29: a volume of 29 percent reads back as 28.
\<close>

lemma volume_29:
  "\<bar>100 * 5224175567749775 - 29 * 2 ^ 54 :: int\<bar> \<le> 50"
  "times100_trunc (5224175567749775, - 54) = 28"
proof -
  show "\<bar>100 * 5224175567749775 - 29 * 2 ^ 54 :: int\<bar> \<le> 50" by simp
  have len: "bitlen 522417556774977500 = 59" by (simp add: bitlen.simps)
  have "round53 522417556774977500 = 522417556774977472"
    by (simp add: round53_def len round_half_even_def)
  then show "times100_trunc (5224175567749775, - 54) = 28" by (simp add: times100_trunc_def)
qed

theorem wpctl_volume_truncates:
  assumes "parse_float ''0.29'' = Some (5224175567749775, - 54)"
    and "output [''wpctl'', ''get-volume'', wpctl_sink] = Some ''Volume: 0.29''"
  shows "audio_Read parse_float output Wpctl = Some (28, False)"
proof -
  have line: "TrimSpace ''Volume: 0.29'' = ''Volume: 0.29''"
    by (simp add: TrimSpace_def bytes_of_def runes.simps utf8_next.simps is_space_rune_def)
  have clean: "contains ''[MUTED]'' ''Volume: 0.29'' = False"
    "replace_all ''[MUTED]'' [] ''Volume: 0.29'' = ''Volume: 0.29''"
    by (simp_all add: has_prefix_def replace_all.simps)
  have parts: "Fields ''Volume: 0.29'' = [''Volume:'', ''0.29'']"
    by (simp add: Fields_def bytes_of_def runes.simps utf8_next.simps is_space_rune_def)
  show ?thesis
    by (simp add: audio_Read_def wpctl_Read_def assms line clean parts volume_29 del: contains.simps)
qed

theorem wpctl_volume_truncates_witness:
  "audio_Read [''0.29'' \<mapsto> (5224175567749775, - 54)]
     [[''wpctl'', ''get-volume'', wpctl_sink] \<mapsto> ''Volume: 0.29''] Wpctl = Some (28, False)"
  by (rule wpctl_volume_truncates) simp_all

end
