(* ===== verification/SmallPlugins.thy ===== *)
theory SmallPlugins
  imports PluginEnv ConfigSections KeyedStore
begin

text \<open>
  The plugins that keep little or no state: battery, ping, telephony, connectivity, find my
  phone and the lock of the session.  Each has its packet body as a record with a decoder, its
  handler and its outgoing operations.

  Files: \<open>internal/plugins/{battery,ping,telephony,connectivity,findmyphone,lockdevice}\<close>.  The
  arguments of a handler are whether there is a bus, the configuration, the peer and the body of
  the packet.  Commands that run asynchronously are effects; \<open>sysfs\<close> and \<open>loginctl\<close> are inputs.
\<close>

section \<open>Battery\<close>

record battery_body =
  bb_current_charge :: int
  bb_is_charging :: bool
  bb_threshold_event :: int
  bb_request :: bool

definition zero_battery_body :: battery_body where
  "zero_battery_body = \<lparr>bb_current_charge = 0, bb_is_charging = False, bb_threshold_event = 0, bb_request = False\<rparr>"

definition battery_fields :: "battery_body field list" where
  "battery_fields =
     [(''currentCharge'', fld dec_int bb_current_charge bb_current_charge_update),
      (''isCharging'', fld dec_bool bb_is_charging bb_is_charging_update),
      (''thresholdEvent'', fld dec_int bb_threshold_event bb_threshold_event_update),
      (''request'', fld dec_bool bb_request bb_request_update)]"

definition dec_battery :: "json option \<Rightarrow> battery_body option" where
  "dec_battery = unmarshal_raw (\<lambda>j. dec_struct (dec_fields battery_fields) j zero_battery_body)"

definition enc_battery :: "battery_body \<Rightarrow> json" where
  "enc_battery b =
     JObj ([(''currentCharge'', enc_int (bb_current_charge b)), (''isCharging'', JBool (bb_is_charging b)),
            (''thresholdEvent'', enc_int (bb_threshold_event b))] @ omit (\<not> bb_request b) ''request'' (JBool (bb_request b)))"

text \<open>\<open>types.go\<close>: the values of \<open>thresholdEvent\<close>.\<close>

definition thresholdNone :: int where "thresholdNone = 0"
definition thresholdLow :: int where "thresholdLow = 1"
definition thresholdFull :: int where "thresholdFull = 2"

definition powerSupplyRoots :: "string list" where
  "powerSupplyRoots = [''/sys/class/power_supply'', ''/sys/devices/platform/subsystem/power_supply'']"

text \<open>
  \<open>sysfs\<close> gives the entries of a root with the contents of their \<open>capacity\<close> and \<open>status\<close> files; a
  status that cannot be read is the empty text.
\<close>

type_synonym sysfs = "string \<Rightarrow> (string \<times> string option \<times> string) list option"

fun first_battery :: "(string \<times> string option \<times> string) list \<Rightarrow> (int \<times> bool) option" where
  "first_battery [] = None"
| "first_battery ((name, capRaw, statusRaw) # es) =
     (if \<not> has_prefix ''BAT'' name then first_battery es
      else case capRaw of
        None \<Rightarrow> first_battery es
      | Some raw \<Rightarrow>
          (case atoi (TrimSpace raw) of
             None \<Rightarrow> first_battery es
           | Some capacity \<Rightarrow> Some (capacity, TrimSpace statusRaw = ''Charging'')))"

fun search_roots :: "sysfs \<Rightarrow> string list \<Rightarrow> (int \<times> bool) option" where
  "search_roots fs [] = None"
| "search_roots fs (r # rs) =
     (case fs r of
        None \<Rightarrow> search_roots fs rs
      | Some es \<Rightarrow> (case first_battery es of Some b \<Rightarrow> Some b | None \<Rightarrow> search_roots fs rs))"

definition readLocalBattery :: "sysfs \<Rightarrow> (int \<times> bool) option" where
  "readLocalBattery fs = search_roots fs powerSupplyRoots"

definition battery_report :: "int \<Rightarrow> bool \<Rightarrow> json" where
  "battery_report charge charging =
     enc_battery (zero_battery_body\<lparr>bb_current_charge := charge, bb_is_charging := charging\<rparr>)"

definition sendLocalState :: "sysfs \<Rightarrow> effect list" where
  "sendLocalState fs =
     (case readLocalBattery fs of
        None \<Rightarrow> []
      | Some (charge, charging) \<Rightarrow> [SendPacket ''kdeconnect.battery'' (battery_report charge charging)])"

definition battery_OnConnect :: "sysfs \<Rightarrow> effect list" where
  "battery_OnConnect fs =
     (case readLocalBattery fs of
        None \<Rightarrow> []
      | Some (charge, charging) \<Rightarrow> [SendPacket ''kdeconnect.battery'' (battery_report charge charging)])"

definition battery_event :: "battery_body \<Rightarrow> json" where
  "battery_event b =
     JObj [(''charge'', enc_int (bb_current_charge b)), (''charging'', JBool (bb_is_charging b)),
           (''event'', enc_int (bb_threshold_event b))]"

definition handleThreshold ::
  "bool \<Rightarrow> battery_config \<Rightarrow> notification_config \<Rightarrow> peer \<Rightarrow> battery_body \<Rightarrow> effect list" where
  "handleThreshold has_bus cfg notifications dev body =
     (let (known, message, urgency) =
            (if bb_threshold_event body = thresholdLow
             then (True, if bt_notify_low cfg then (bt_low_message cfg, bt_low_urgency cfg) else ([], []))
             else if bb_threshold_event body = thresholdFull
             then (True, if bt_notify_full cfg then (bt_full_message cfg, bt_full_urgency cfg) else ([], []))
             else (False, [], []))
      in if \<not> known then []
         else (if message \<noteq> []
               then [Spawned [RunCommand [''notify-send'', ''-a'', AppName notifications, ''-u'', urgency,
                                          ''-i'', ''battery'', pe_name dev, message]]]
               else [])
              @ publish has_bus ''battery.threshold'' (pe_id dev) (battery_event body))"

text \<open>\<open>Left ()\<close> is the error of a body that does not decode.\<close>

definition battery_Handle ::
  "bool \<Rightarrow> sysfs \<Rightarrow> battery_config \<Rightarrow> notification_config \<Rightarrow> peer \<Rightarrow> string \<Rightarrow> json option
     \<Rightarrow> unit + effect list" where
  "battery_Handle has_bus fs cfg notifications dev typ raw =
     (if typ = ''kdeconnect.battery''
      then case dec_battery raw of
             None \<Rightarrow> Inl ()
           | Some body \<Rightarrow>
               if bb_request body then Inr (sendLocalState fs)
               else Inr (DeviceBattery (bb_current_charge body) (bb_is_charging body)
                         # (if bb_threshold_event body \<noteq> thresholdNone
                            then handleThreshold has_bus cfg notifications dev body else []))
      else if typ = ''kdeconnect.battery.request'' then Inr (sendLocalState fs)
      else Inr [])"

section \<open>Ping\<close>

definition ping_app_name :: "ping_config \<Rightarrow> notification_config \<Rightarrow> ping_config" where
  "ping_app_name cfg notifications =
     (if pg_app_name cfg = [] then cfg\<lparr>pg_app_name := AppName notifications\<rparr> else cfg)"

definition ping_fields :: "string field list" where
  "ping_fields = [(''message'', fld dec_str (\<lambda>m. m) (\<lambda>f. f))]"

text \<open>The error of decoding is dropped: what decoded before it counts.\<close>

definition ping_Handle :: "bool \<Rightarrow> ping_config \<Rightarrow> peer \<Rightarrow> json option \<Rightarrow> effect list" where
  "ping_Handle has_bus cfg dev raw =
     (let m = dec_lenient (dec_fields ping_fields) raw [];
          msg = (if m \<noteq> [] then m else if pg_default_message cfg \<noteq> [] then pg_default_message cfg else ''Ping!'')
      in publish has_bus ''ping.received'' (pe_id dev) (JObj [(''message'', JStr msg)])
         @ [Spawned [RunCommand [''notify-send'', ''-a'', pg_app_name cfg, ''-i'', pg_icon cfg,
                                 ''Ping from '' @ pe_name dev, msg]]])"

definition Ping :: "ping_config \<Rightarrow> string list \<Rightarrow> effect list" where
  "Ping cfg message =
     (let msg = (case message of
                   m # _ \<Rightarrow> if m \<noteq> [] then m
                             else if pg_default_message cfg \<noteq> [] then pg_default_message cfg else ''Ping!''
                 | [] \<Rightarrow> if pg_default_message cfg \<noteq> [] then pg_default_message cfg else ''Ping!'')
      in [SendPacket ''kdeconnect.ping'' (JObj [(''message'', JStr msg)])])"

section \<open>Telephony\<close>

record telephony_body =
  te_event :: string
  te_contact_name :: string
  te_phone_number :: string
  te_phone_thumbnail :: string
  te_is_cancel :: bool

definition zero_telephony_body :: telephony_body where
  "zero_telephony_body =
     \<lparr>te_event = [], te_contact_name = [], te_phone_number = [], te_phone_thumbnail = [], te_is_cancel = False\<rparr>"

definition telephony_fields :: "telephony_body field list" where
  "telephony_fields =
     [(''event'', fld dec_str te_event te_event_update),
      (''contactName'', fld dec_str te_contact_name te_contact_name_update),
      (''phoneNumber'', fld dec_str te_phone_number te_phone_number_update),
      (''phoneThumbnail'', fld dec_str te_phone_thumbnail te_phone_thumbnail_update),
      (''isCancel'', fld dec_flexbool te_is_cancel te_is_cancel_update)]"

definition dec_telephony :: "json option \<Rightarrow> telephony_body option" where
  "dec_telephony = unmarshal_raw (\<lambda>j. dec_struct (dec_fields telephony_fields) j zero_telephony_body)"

definition enc_telephony :: "telephony_body \<Rightarrow> json" where
  "enc_telephony b =
     JObj ([(''event'', JStr (te_event b)), (''contactName'', JStr (te_contact_name b)),
            (''phoneNumber'', JStr (te_phone_number b))]
           @ omit (te_phone_thumbnail b = []) ''phoneThumbnail'' (JStr (te_phone_thumbnail b))
           @ [(''isCancel'', JBool (te_is_cancel b))])"

text \<open>The titles begin with an emoji, U+1F4DE and U+274C in UTF-8.\<close>

definition ringing_title :: string where
  "ringing_title = [CHR 0xF0, CHR 0x9F, CHR 0x93, CHR 0x9E] @ '' Incoming Call''"

definition missed_title :: string where
  "missed_title = [CHR 0xE2, CHR 0x9D, CHR 0x8C] @ '' Missed Call''"

definition call_event :: "string \<Rightarrow> event_type option" where
  "call_event ev =
     (if ev = ''ringing'' then Some ''telephony.ringing''
      else if ev = ''talking'' then Some ''telephony.talking''
      else if ev \<in> {''missed'', ''missedCall''} then Some ''telephony.missed''
      else None)"

definition call_popup :: "notification_config \<Rightarrow> telephony_body \<Rightarrow> effect list" where
  "call_popup notifications body =
     (let caller = (if te_contact_name body = [] then te_phone_number body else te_contact_name body);
          popup = (\<lambda>urgency title message.
            [Spawned [RunCommand [''notify-send'', ''-a'', AppName notifications, ''-u'', urgency, title, message]]])
      in if te_is_cancel body then []
         else if te_event body = ''ringing'' then popup ''critical'' ringing_title (''Ringing: '' @ caller)
         else if te_event body \<in> {''missed'', ''missedCall''}
         then popup ''normal'' missed_title (''Missed call from '' @ caller)
         else [])"

definition telephony_Handle ::
  "bool \<Rightarrow> notification_config \<Rightarrow> peer \<Rightarrow> json option \<Rightarrow> unit + effect list" where
  "telephony_Handle has_bus notifications dev raw =
     (case dec_telephony raw of
        None \<Rightarrow> Inl ()
      | Some body \<Rightarrow>
          let tail = [Spawned (call_popup notifications body)]
          in if \<not> has_bus then Inr tail
             else if te_is_cancel body
             then Inr (Publish ''telephony.canceled'' (pe_id dev) (enc_telephony body) # tail)
             else case call_event (te_event body) of
               None \<Rightarrow> Inr []
             | Some typ \<Rightarrow> Inr (Publish typ (pe_id dev) (enc_telephony body) # tail))"

definition Mute :: "effect list" where
  "Mute = [SendPacket ''kdeconnect.telephony.request_mute'' (JObj [])]"

section \<open>Find my phone\<close>

definition findmyphone_Handle :: "peer \<Rightarrow> json option \<Rightarrow> effect list" where
  "findmyphone_Handle dev raw = []"

definition Ring :: "effect list" where
  "Ring = [SendPacket ''kdeconnect.findmyphone.request'' (JObj [])]"

section \<open>Connectivity\<close>

record signal_strength =
  sg_network_type :: string
  sg_network_detailed_type :: string
  sg_signal_strength :: int

definition zero_signal :: signal_strength where
  "zero_signal = \<lparr>sg_network_type = [], sg_network_detailed_type = [], sg_signal_strength = 0\<rparr>"

definition signal_fields :: "signal_strength field list" where
  "signal_fields =
     [(''networkType'', fld dec_str sg_network_type sg_network_type_update),
      (''networkDetailedType'', fld dec_str sg_network_detailed_type sg_network_detailed_type_update),
      (''signalStrength'', fld dec_int sg_signal_strength sg_signal_strength_update)]"

text \<open>A report is a map from the subscription to its signal; \<open>null\<close> makes it the empty map.\<close>

type_synonym connectivity_body = "(string \<times> signal_strength) list"

fun dec_signals :: "(string \<times> json) list \<Rightarrow> connectivity_body \<Rightarrow> connectivity_body option" where
  "dec_signals [] m = Some m"
| "dec_signals ((k, v) # es) m =
     (case dec_struct (dec_fields signal_fields) v zero_signal of
        None \<Rightarrow> None
      | Some s \<Rightarrow> dec_signals es (AList.update k s m))"

fun dec_signal_map :: "json \<Rightarrow> connectivity_body \<Rightarrow> connectivity_body option" where
  "dec_signal_map JNull m = Some []"
| "dec_signal_map (JObj es) m = dec_signals es m"
| "dec_signal_map _ m = None"

definition dec_connectivity :: "json option \<Rightarrow> connectivity_body option" where
  "dec_connectivity =
     unmarshal_raw (\<lambda>j. dec_struct (dec_fields [(''signalStrengths'', fld dec_signal_map (\<lambda>m. m) (\<lambda>f. f))]) j [])"

definition enc_signal :: "signal_strength \<Rightarrow> json" where
  "enc_signal s =
     JObj ([(''networkType'', JStr (sg_network_type s))]
           @ omit (sg_network_detailed_type s = []) ''networkDetailedType'' (JStr (sg_network_detailed_type s))
           @ [(''signalStrength'', enc_int (sg_signal_strength s))])"

definition enc_connectivity :: "connectivity_body \<Rightarrow> json" where
  "enc_connectivity b = JObj [(''signalStrengths'', JObj (map (\<lambda>(k, s). (k, enc_signal s)) b))]"

type_synonym reports = "(string \<times> connectivity_body) list"

definition connectivityEqual :: "connectivity_body \<Rightarrow> connectivity_body \<Rightarrow> bool" where
  "connectivityEqual a b \<longleftrightarrow> length a = length b \<and> list_all (\<lambda>(k, av). map_of b k = Some av) a"

definition shouldPublish :: "string \<Rightarrow> connectivity_body \<Rightarrow> reports \<Rightarrow> bool \<times> reports" where
  "shouldPublish deviceID body reports =
     (case map_of reports deviceID of
        Some last_report \<Rightarrow>
          if connectivityEqual last_report body then (False, reports)
          else (True, AList.update deviceID body reports)
      | None \<Rightarrow> (True, AList.update deviceID body reports))"

definition connectivity_Handle ::
  "bool \<Rightarrow> peer \<Rightarrow> json option \<Rightarrow> reports \<Rightarrow> (unit + effect list) \<times> reports" where
  "connectivity_Handle has_bus dev raw reports =
     (case dec_connectivity raw of
        None \<Rightarrow> (Inl (), reports)
      | Some body \<Rightarrow>
          let (yes, reports) = shouldPublish (pe_id dev) body reports
          in (Inr (if yes then publish has_bus ''connectivity.update'' (pe_id dev) (enc_connectivity body) else []),
              reports))"

definition Report :: "string \<Rightarrow> reports \<Rightarrow> connectivity_body option" where
  "Report deviceID reports = map_of reports deviceID"

definition ConnectivitySummary :: "string \<Rightarrow> reports \<Rightarrow> json option" where
  "ConnectivitySummary deviceID reports = map_option enc_connectivity (Report deviceID reports)"

definition Replay :: "string \<Rightarrow> reports \<Rightarrow> (event_type \<times> string \<times> json) list" where
  "Replay deviceID reports =
     (case Report deviceID reports of
        None \<Rightarrow> []
      | Some body \<Rightarrow> [(''connectivity.update'', deviceID, enc_connectivity body)])"

definition connectivity_OnDisconnect :: "peer \<Rightarrow> reports \<Rightarrow> reports" where
  "connectivity_OnDisconnect dev reports = AList.delete (pe_id dev) reports"

section \<open>The lock of the session\<close>

record lock_request =
  lr_request_locked :: "bool option"
  lr_set_locked :: "bool option"

definition lock_request_fields :: "lock_request field list" where
  "lock_request_fields =
     [(''requestLocked'', fld (dec_opt dec_bool False) lr_request_locked lr_request_locked_update),
      (''setLocked'', fld (dec_opt dec_bool False) lr_set_locked lr_set_locked_update)]"

definition dec_lock_request :: "json option \<Rightarrow> lock_request option" where
  "dec_lock_request =
     unmarshal_raw (\<lambda>j. dec_struct (dec_fields lock_request_fields) j \<lparr>lr_request_locked = None, lr_set_locked = None\<rparr>)"

definition dec_lock_state :: "json option \<Rightarrow> bool option option" where
  "dec_lock_state =
     unmarshal_raw (\<lambda>j. dec_struct (dec_fields [(''isLocked'', fld (dec_opt dec_bool False) (\<lambda>b. b) (\<lambda>f. f))]) j None)"

text \<open>\<open>hint\<close> is the output of \<open>loginctl show-session\<close>, \<open>None\<close> when the command fails.\<close>

definition getLocked :: "string option \<Rightarrow> bool" where
  "getLocked hint = (case hint of None \<Rightarrow> False | Some out \<Rightarrow> TrimSpace out = ''LockedHint=yes'')"

definition sendState :: "string \<Rightarrow> string option \<Rightarrow> effect list" where
  "sendState session_id hint =
     [RunCommand [''loginctl'', ''show-session'', if session_id = [] then ''auto'' else session_id, ''-p'', ''LockedHint''],
      SendPacket ''kdeconnect.lock'' (JObj [(''isLocked'', JBool (getLocked hint))])]"

definition applyRequest :: "string \<Rightarrow> string option \<Rightarrow> string \<Rightarrow> effect list" where
  "applyRequest session_id hint action = RunCommand [''loginctl'', action] # sendState session_id hint"

definition lock_Handle ::
  "bool \<Rightarrow> bool \<Rightarrow> string \<Rightarrow> string option \<Rightarrow> peer \<Rightarrow> string \<Rightarrow> json option \<Rightarrow> unit + effect list" where
  "lock_Handle allowRemoteUnlock has_bus session_id hint dev typ raw =
     (if typ = ''kdeconnect.lock''
      then case dec_lock_state raw of
             None \<Rightarrow> Inl ()
           | Some None \<Rightarrow> Inr []
           | Some (Some locked) \<Rightarrow>
               Inr (publish has_bus ''lock.state'' (pe_id dev) (JObj [(''isLocked'', JBool locked)]))
      else if typ \<noteq> ''kdeconnect.lock.request'' then Inr []
      else case dec_lock_request raw of
        None \<Rightarrow> Inl ()
      | Some body \<Rightarrow>
          if lr_request_locked body = Some True then Inr [Spawned (sendState session_id hint)]
          else case lr_set_locked body of
            None \<Rightarrow> Inr []
          | Some locked \<Rightarrow>
              if \<not> locked \<and> \<not> allowRemoteUnlock then Inr []
              else Inr [Spawned (applyRequest session_id hint (if locked then ''lock-session'' else ''unlock-session''))])"

definition Lock :: "effect list" where
  "Lock = [SendPacket ''kdeconnect.lock.request'' (JObj [(''setLocked'', JBool True)])]"

definition Unlock :: "effect list" where
  "Unlock = [SendPacket ''kdeconnect.lock.request'' (JObj [(''setLocked'', JBool False)])]"

section \<open>Facts\<close>

text \<open>
  A remote peer can unlock the session only where the configuration allows it: whatever packet
  arrives, the handler runs \<open>loginctl unlock-session\<close> at most for a request to unlock and with
  the permission set; a refused request has no effect at all.
\<close>
theorem unlock_needs_permission:
  assumes "lock_Handle allow has_bus session_id hint dev typ raw = Inr es"
    and "[''loginctl'', ''unlock-session''] \<in> set (commands_all es)"
  shows "allow \<and> typ = ''kdeconnect.lock.request'' \<and> (\<exists>b. dec_lock_request raw = Some b \<and> lr_set_locked b = Some False)"
  using assms by (auto simp: lock_Handle_def sendState_def applyRequest_def split: if_splits option.splits)

theorem unlock_needs_permission_witness:
  "\<exists>b. dec_lock_request (Some (JObj [(''setLocked'', JBool False)])) = Some b \<and> lr_set_locked b = Some False"
proof -
  have keys: "\<not> key_matches ''requestLocked'' ''setLocked''" "key_matches ''setLocked'' ''setLocked''"
    by code_simp+
  have dec: "dec_lock_request (Some (JObj [(''setLocked'', JBool False)])) =
      Some \<lparr>lr_request_locked = None, lr_set_locked = Some False\<rparr>"
    by (simp add: dec_lock_request_def unmarshal_raw_def dec_fields_def lock_request_fields_def fld_def
        dec_opt_def keys)
  show ?thesis
    using unlock_needs_permission [of True False "''1''" None "\<lparr>pe_id = ''p'', pe_name = ''P''\<rparr>"
        "''kdeconnect.lock.request''" "Some (JObj [(''setLocked'', JBool False)])"]
    by (simp add: lock_Handle_def dec applyRequest_def)
qed

fun battery_updates :: "effect list \<Rightarrow> (int \<times> bool) list" where
  "battery_updates [] = []"
| "battery_updates (DeviceBattery c h # es) = (c, h) # battery_updates es"
| "battery_updates (_ # es) = battery_updates es"

lemma no_battery_updates [simp]:
  "battery_updates (publish b t i p) = []" "battery_updates (sendLocalState fs) = []"
  by (simp_all add: publish_def sendLocalState_def split: option.splits prod.splits)

lemma threshold_no_updates [simp]: "battery_updates (handleThreshold b cfg n dev body) = []"
  by (auto simp: handleThreshold_def split: prod.splits)

text \<open>
  A request for the battery state never overwrites what is stored of the peer, and any other
  battery packet updates it exactly once.
\<close>
theorem battery_update_once:
  assumes "battery_Handle has_bus fs cfg notifications dev ''kdeconnect.battery'' raw = Inr es"
  shows "\<exists>b. dec_battery raw = Some b \<and>
    battery_updates es = (if bb_request b then [] else [(bb_current_charge b, bb_is_charging b)])"
  using assms by (cases "dec_battery raw") (auto simp: battery_Handle_def)

theorem battery_update_once_witness:
  "battery_Handle True (\<lambda>_. None) zero_battery_config [] \<lparr>pe_id = ''p'', pe_name = ''P''\<rparr> ''kdeconnect.battery''
     (Some (JObj [])) = Inr [DeviceBattery 0 False]"
proof -
  have dec: "dec_battery (Some (JObj [])) = Some zero_battery_body"
    by (simp add: dec_battery_def unmarshal_raw_def)
  show ?thesis
    using battery_update_once [of True "\<lambda>_. None" zero_battery_config "[]" "\<lparr>pe_id = ''p'', pe_name = ''P''\<rparr>" "Some (JObj [])"]
    by (simp add: battery_Handle_def dec zero_battery_body_def thresholdNone_def)
qed

section \<open>Reports are published when they change\<close>

lemma connectivityEqual_iff:
  assumes "distinct (map fst a)" and "distinct (map fst b)"
  shows "connectivityEqual a b \<longleftrightarrow> map_of a = map_of b"
proof
  assume eq: "connectivityEqual a b"
  then have sub: "map_of a k = Some v \<Longrightarrow> map_of b k = Some v" for k v
    by (auto simp: connectivityEqual_def list_all_iff dest: map_of_SomeD)
  then have "dom (map_of a) \<subseteq> dom (map_of b)" by blast
  moreover have "card (dom (map_of a)) = card (dom (map_of b))"
    using eq assms by (simp add: connectivityEqual_def dom_map_of_conv_image_fst distinct_card flip: set_map)
  ultimately have "dom (map_of a) = dom (map_of b)"
    by (intro card_subset_eq) (simp_all add: finite_dom_map_of)
  then show "map_of a = map_of b"
    using sub by (intro ext) (metis domD domIff not_None_eq)
next
  assume eq: "map_of a = map_of b"
  have "length a = card (dom (map_of a))" "length b = card (dom (map_of b))"
    using assms by (simp_all add: dom_map_of_conv_image_fst distinct_card flip: set_map)
  moreover have "map_of b k = Some v" if "(k, v) \<in> set a" for k v
    using that assms(1) by (simp flip: eq)
  ultimately show "connectivityEqual a b"
    using eq by (auto simp: connectivityEqual_def list_all_iff)
qed

lemma dec_signals_distinct: "dec_signals es m = Some b \<Longrightarrow> distinct (map fst m) \<Longrightarrow> distinct (map fst b)"
  by (induction es m rule: dec_signals.induct) (auto split: option.splits simp: distinct_update)

text \<open>The decoded reports of one peer, one after the other.\<close>

fun handle_reports :: "peer \<Rightarrow> connectivity_body list \<Rightarrow> reports \<Rightarrow> connectivity_body list \<times> reports" where
  "handle_reports dev [] rs = ([], rs)"
| "handle_reports dev (b # bs) rs =
     (let (yes, rs) = shouldPublish (pe_id dev) b rs; (out, rs) = handle_reports dev bs rs
      in (if yes then b # out else out, rs))"

lemma reports_from_last:
  assumes "map_of rs (pe_id dev) = Some r" and "\<forall>b \<in> set (r # bs). distinct (map fst b)"
  shows "map map_of (r # fst (handle_reports dev bs rs)) = remdups_adj (map map_of (r # bs))"
  using assms
proof (induction bs arbitrary: r rs)
  case (Cons b bs)
  show ?case
  proof (cases "map_of r = map_of b")
    case True
    then have "shouldPublish (pe_id dev) b rs = (False, rs)"
      using Cons.prems by (simp add: shouldPublish_def connectivityEqual_iff)
    then show ?thesis using True Cons.IH [OF Cons.prems(1)] Cons.prems(2) by (simp add: split_def Let_def)
  next
    case False
    then have "shouldPublish (pe_id dev) b rs = (True, AList.update (pe_id dev) b rs)"
      using Cons.prems by (simp add: shouldPublish_def connectivityEqual_iff)
    moreover have "map_of (AList.update (pe_id dev) b rs) (pe_id dev) = Some b"
      by (simp add: update_conv)
    ultimately show ?thesis
      using False Cons.IH [of "AList.update (pe_id dev) b rs" b] Cons.prems(2) by (simp add: split_def Let_def)
  qed
qed simp

text \<open>
  Of the reports a peer sends after it connects, those are published that differ from the one
  before: the published sequence is the received one without adjacent repetitions, as maps.
\<close>
theorem reports_published_on_change:
  assumes "Report (pe_id dev) rs = None" and "\<forall>b \<in> set bs. distinct (map fst b)"
  shows "map map_of (fst (handle_reports dev bs rs)) = remdups_adj (map map_of bs)"
proof (cases bs)
  case (Cons b cs)
  have "shouldPublish (pe_id dev) b rs = (True, AList.update (pe_id dev) b rs)"
    using assms(1) by (simp add: Report_def shouldPublish_def)
  moreover have "map_of (AList.update (pe_id dev) b rs) (pe_id dev) = Some b"
    by (simp add: update_conv)
  ultimately show ?thesis
    using reports_from_last [of "AList.update (pe_id dev) b rs" dev b cs] assms(2) Cons
    by (simp add: split_def Let_def)
qed simp

theorem reports_published_on_change_witness:
  "map map_of (fst (handle_reports \<lparr>pe_id = ''p'', pe_name = ''P''\<rparr> [[], [], [(''6'', zero_signal)]] [])) =
     [Map.empty, [''6'' \<mapsto> zero_signal]]"
  using reports_published_on_change [of "\<lparr>pe_id = ''p'', pe_name = ''P''\<rparr>" "[]" "[[], [], [(''6'', zero_signal)]]"]
  by (simp add: Report_def fun_eq_iff)

end
