(* ===== verification/VolumePlugins.thy ===== *)
theory VolumePlugins
  imports Audio SmallPlugins
begin

text \<open>
  The plugins around the sound: the volume of this computer (\<open>systemvolume\<close>), the volume of the
  peer (\<open>remotesystemvolume\<close>) and ringing this computer (\<open>findthisdevice\<close>).  The array of
  sinks is decoded anew for every key of the document that names it.
\<close>

section \<open>Sinks\<close>

record sink_info =
  sk_name :: string
  sk_description :: string
  sk_volume :: int
  sk_muted :: bool
  sk_max_volume :: int

definition zero_sink :: sink_info where
  "zero_sink = \<lparr>sk_name = [], sk_description = [], sk_volume = 0, sk_muted = False, sk_max_volume = 0\<rparr>"

definition sink_fields :: "sink_info field list" where
  "sink_fields =
     [(''name'', fld dec_str sk_name sk_name_update),
      (''description'', fld dec_str sk_description sk_description_update),
      (''volume'', fld dec_int sk_volume sk_volume_update),
      (''muted'', fld dec_bool sk_muted sk_muted_update),
      (''maxVolume'', fld dec_int sk_max_volume sk_max_volume_update)]"

definition enc_sink :: "sink_info \<Rightarrow> json" where
  "enc_sink s =
     JObj [(''name'', JStr (sk_name s)), (''description'', JStr (sk_description s)),
           (''volume'', enc_int (sk_volume s)), (''muted'', JBool (sk_muted s)),
           (''maxVolume'', enc_int (sk_max_volume s))]"

text \<open>A slice is \<open>nil\<close> (\<open>None\<close>) or a list; \<open>nil\<close> is encoded as \<open>null\<close>.\<close>

definition enc_sinks :: "sink_info list option \<Rightarrow> json" where
  "enc_sinks ss = (case ss of None \<Rightarrow> JNull | Some xs \<Rightarrow> JArr (map enc_sink xs))"

fun dec_sink_elems :: "json list \<Rightarrow> sink_info list option" where
  "dec_sink_elems [] = Some []"
| "dec_sink_elems (j # js) =
     (case (dec_struct (dec_fields sink_fields) j zero_sink, dec_sink_elems js) of
        (Some s, Some ss) \<Rightarrow> Some (s # ss)
      | _ \<Rightarrow> None)"

fun dec_sinks :: "json \<Rightarrow> sink_info list option \<Rightarrow> sink_info list option option" where
  "dec_sinks JNull old = Some None"
| "dec_sinks (JArr js) old = map_option Some (dec_sink_elems js)"
| "dec_sinks _ old = None"

section \<open>The volume of this computer\<close>

record sv_body =
  vb_request_sinks :: bool
  vb_name :: string
  vb_volume :: "int option"
  vb_muted :: "bool option"
  vb_enabled :: "bool option"
  vb_max_volume :: int

definition zero_sv_body :: sv_body where
  "zero_sv_body = \<lparr>vb_request_sinks = False, vb_name = [], vb_volume = None, vb_muted = None,
     vb_enabled = None, vb_max_volume = 0\<rparr>"

definition sv_fields :: "sv_body field list" where
  "sv_fields =
     [(''requestSinks'', fld dec_bool vb_request_sinks vb_request_sinks_update),
      (''name'', fld dec_str vb_name vb_name_update),
      (''volume'', fld (dec_opt dec_int 0) vb_volume vb_volume_update),
      (''muted'', fld (dec_opt dec_bool False) vb_muted vb_muted_update),
      (''enabled'', fld (dec_opt dec_bool False) vb_enabled vb_enabled_update),
      (''maxVolume'', fld dec_int vb_max_volume vb_max_volume_update)]"

definition dec_sv :: "json option \<Rightarrow> sv_body option" where
  "dec_sv = unmarshal_raw (\<lambda>j. dec_struct (dec_fields sv_fields) j zero_sv_body)"

text \<open>What the plugin sees of the sound system: its backend, the results of commands, what it reads.\<close>

record sound =
  so_backend :: audio_backend
  so_run :: "string list \<Rightarrow> bool"
  so_reading :: "(int \<times> bool) option"

definition getSinks :: "sound \<Rightarrow> sink_info list option" where
  "getSinks so =
     (case so_reading so of
        None \<Rightarrow> None
      | Some (volume, muted) \<Rightarrow>
          Some [\<lparr>sk_name = (if audio_Name (so_backend so) = ''wpctl'' then ''@DEFAULT_AUDIO_SINK@'' else ''@DEFAULT_SINK@''),
                 sk_description = ''Default Output'', sk_volume = volume, sk_muted = muted, sk_max_volume = 100\<rparr>])"

definition setVolumeStr :: "sound \<Rightarrow> string \<Rightarrow> bool \<Rightarrow> run_result" where
  "setVolumeStr so volume muted =
     (case atoi volume of
        None \<Rightarrow> (False, [])
      | Some v \<Rightarrow> audio_Set (so_run so) v muted (so_backend so))"

definition setVolume :: "sound \<Rightarrow> int \<Rightarrow> bool \<Rightarrow> run_result" where
  "setVolume so volume muted = setVolumeStr so (show_int volume) muted"

definition setVolumeOnly :: "sound \<Rightarrow> int \<Rightarrow> run_result" where
  "setVolumeOnly so volume = audio_SetVolume (so_run so) volume (so_backend so)"

definition setMutedOnly :: "sound \<Rightarrow> bool \<Rightarrow> run_result" where
  "setMutedOnly so muted = audio_SetMuted (so_run so) muted (so_backend so)"

definition sendSinks :: "sink_info list option \<Rightarrow> effect list" where
  "sendSinks sinks = [SendPacket ''kdeconnect.systemvolume'' (JObj [(''sinkList'', enc_sinks sinks)])]"

definition sv_apply :: "sound \<Rightarrow> sv_body \<Rightarrow> run_result" where
  "sv_apply so body =
     (case (vb_volume body, vb_muted body) of
        (Some v, Some m) \<Rightarrow> setVolume so v m
      | (Some v, None) \<Rightarrow> setVolumeOnly so v
      | (None, Some m) \<Rightarrow> setMutedOnly so m
      | (None, None) \<Rightarrow> (True, []))"

definition sv_event :: "sink_info list option \<Rightarrow> bool \<Rightarrow> string \<Rightarrow> effect list" where
  "sv_event sinks has_bus device_id =
     (case sinks of
        Some (s # _) \<Rightarrow>
          publish has_bus ''volume.update'' device_id
            (JObj [(''muted'', JBool (sk_muted s)), (''name'', JStr (sk_name s)), (''volume'', enc_int (sk_volume s))])
      | _ \<Rightarrow> [])"

definition sv_Handle :: "bool \<Rightarrow> sound \<Rightarrow> peer \<Rightarrow> json option \<Rightarrow> unit + effect list" where
  "sv_Handle has_bus so dev raw =
     (if \<not> audio_Available (so_backend so) then Inr []
      else case dec_sv raw of
        None \<Rightarrow> Inl ()
      | Some body \<Rightarrow>
          if vb_request_sinks body then Inr [Spawned (sendSinks (getSinks so))]
          else if vb_volume body = None \<and> vb_muted body = None
          then Inr (if vb_enabled body = Some True then [Spawned (sendSinks (getSinks so))] else [])
          else Inr [Spawned
            (let (ok, commands) = sv_apply so body; sinks = getSinks so
             in map RunCommand commands
                @ (if \<not> ok then [] else sv_event sinks has_bus (pe_id dev) @ sendSinks sinks))])"

definition sv_OnConnect :: "sound \<Rightarrow> effect list" where
  "sv_OnConnect so = (if \<not> audio_Available (so_backend so) then [] else [Spawned (sendSinks (getSinks so))])"

section \<open>The volume of the peer\<close>

record rv_body =
  rb_request_sinks :: bool
  rb_name :: string
  rb_volume :: "int option"
  rb_muted :: "bool option"
  rb_max_volume :: int
  rb_sink_list :: "sink_info list option"

definition zero_rv_body :: rv_body where
  "zero_rv_body = \<lparr>rb_request_sinks = False, rb_name = [], rb_volume = None, rb_muted = None,
     rb_max_volume = 0, rb_sink_list = None\<rparr>"

definition rv_fields :: "rv_body field list" where
  "rv_fields =
     [(''requestSinks'', fld dec_bool rb_request_sinks rb_request_sinks_update),
      (''name'', fld dec_str rb_name rb_name_update),
      (''volume'', fld (dec_opt dec_int 0) rb_volume rb_volume_update),
      (''muted'', fld (dec_opt dec_bool False) rb_muted rb_muted_update),
      (''maxVolume'', fld dec_int rb_max_volume rb_max_volume_update),
      (''sinkList'', fld dec_sinks rb_sink_list rb_sink_list_update)]"

definition dec_rv :: "json option \<Rightarrow> rv_body option" where
  "dec_rv = unmarshal_raw (\<lambda>j. dec_struct (dec_fields rv_fields) j zero_rv_body)"

definition enc_rv :: "rv_body \<Rightarrow> json" where
  "enc_rv b =
     JObj (omit (\<not> rb_request_sinks b) ''requestSinks'' (JBool True)
           @ omit (rb_name b = []) ''name'' (JStr (rb_name b))
           @ (case rb_volume b of None \<Rightarrow> [] | Some v \<Rightarrow> [(''volume'', enc_int v)])
           @ (case rb_muted b of None \<Rightarrow> [] | Some m \<Rightarrow> [(''muted'', JBool m)])
           @ omit (rb_max_volume b = 0) ''maxVolume'' (enc_int (rb_max_volume b))
           @ (case rb_sink_list b of Some (s # ss) \<Rightarrow> [(''sinkList'', enc_sinks (Some (s # ss)))] | _ \<Rightarrow> []))"

type_synonym sink_table = "(string \<times> sink_info list) list"

text \<open>The loop over the sinks changes the first one of that name.\<close>

fun update_sink :: "string \<Rightarrow> int option \<Rightarrow> bool option \<Rightarrow> sink_info list \<Rightarrow> bool \<times> sink_info list" where
  "update_sink name v m [] = (False, [])"
| "update_sink name v m (s # ss) =
     (if sk_name s = name
      then (True, (let s = (case v of Some x \<Rightarrow> s\<lparr>sk_volume := x\<rparr> | None \<Rightarrow> s)
                   in (case m of Some x \<Rightarrow> s\<lparr>sk_muted := x\<rparr> | None \<Rightarrow> s)) # ss)
      else (let (found, ss) = update_sink name v m ss in (found, s # ss)))"

text \<open>The event: the state of the sink when it is known, otherwise what the packet says.\<close>

definition rv_event :: "rv_body \<Rightarrow> sink_info option \<Rightarrow> json" where
  "rv_event body sink =
     JObj ((case sink of
              Some s \<Rightarrow> [(''muted'', JBool (sk_muted s))]
            | None \<Rightarrow> (case rb_muted body of Some m \<Rightarrow> [(''muted'', JBool m)] | None \<Rightarrow> []))
           @ [(''name'', JStr (rb_name body))]
           @ (case sink of
                Some s \<Rightarrow> [(''volume'', enc_int (sk_volume s))]
              | None \<Rightarrow> (case rb_volume body of Some v \<Rightarrow> [(''volume'', enc_int v)] | None \<Rightarrow> [])))"

definition rv_update :: "bool \<Rightarrow> peer \<Rightarrow> rv_body \<Rightarrow> sink_table \<Rightarrow> effect list \<times> sink_table" where
  "rv_update has_bus dev body table =
     (case map_of table (pe_id dev) of
        None \<Rightarrow> (publish has_bus ''volume.update'' (pe_id dev) (rv_event body None), table)
      | Some sinks \<Rightarrow>
          let (found, sinks) = update_sink (rb_name body) (rb_volume body) (rb_muted body) sinks;
              sink = (if found then find (\<lambda>s. sk_name s = rb_name body) sinks else None)
          in (publish has_bus ''volume.update'' (pe_id dev) (rv_event body sink),
              AList.update (pe_id dev) sinks table))"

definition rv_Handle :: "bool \<Rightarrow> peer \<Rightarrow> json option \<Rightarrow> sink_table \<Rightarrow> (unit + effect list) \<times> sink_table" where
  "rv_Handle has_bus dev raw table =
     (case dec_rv raw of
        None \<Rightarrow> (Inl (), table)
      | Some body \<Rightarrow>
          (case rb_sink_list body of
             Some sinks \<Rightarrow>
               (Inr (publish has_bus ''volume.update'' (pe_id dev) (JObj [(''sinks'', enc_sinks (Some sinks))])),
                AList.update (pe_id dev) sinks table)
           | None \<Rightarrow>
               if rb_name body = [] then (Inr [], table)
               else (let (es, table) = rv_update has_bus dev body table in (Inr es, table))))"

definition ListSinks :: "string \<Rightarrow> sink_table \<Rightarrow> sink_info list" where
  "ListSinks deviceID table = (case map_of table deviceID of None \<Rightarrow> [] | Some ss \<Rightarrow> ss)"

definition rv_SetVolume :: "string \<Rightarrow> int \<Rightarrow> effect list" where
  "rv_SetVolume sinkName volume =
     [SendPacket ''kdeconnect.systemvolume.request'' (enc_rv (zero_rv_body\<lparr>rb_name := sinkName, rb_volume := Some volume\<rparr>))]"

definition rv_SetMuted :: "string \<Rightarrow> bool \<Rightarrow> effect list" where
  "rv_SetMuted sinkName muted =
     [SendPacket ''kdeconnect.systemvolume.request'' (enc_rv (zero_rv_body\<lparr>rb_name := sinkName, rb_muted := Some muted\<rparr>))]"

definition RequestSinkList :: "effect list" where
  "RequestSinkList = [SendPacket ''kdeconnect.systemvolume.request'' (enc_rv (zero_rv_body\<lparr>rb_request_sinks := True\<rparr>))]"

definition rv_OnConnect :: "effect list" where
  "rv_OnConnect = [Spawned RequestSinkList]"

definition rv_OnDisconnect :: "peer \<Rightarrow> sink_table \<Rightarrow> sink_table" where
  "rv_OnDisconnect dev table = AList.delete (pe_id dev) table"

section \<open>Ringing this computer\<close>

definition sound_candidates :: "string list" where
  "sound_candidates =
     [''/usr/share/sounds/freedesktop/stereo/phone-incoming-call.oga'',
      ''/usr/share/sounds/Oxygen-Im-Phone-Ring.ogg'',
      ''/usr/share/sounds/freedesktop/stereo/alarm-clock-elapsed.oga'',
      ''/usr/share/sounds/freedesktop/stereo/complete.oga'']"

definition findSoundFile :: "(string \<Rightarrow> bool) \<Rightarrow> string" where
  "findSoundFile exists = (case find exists sound_candidates of None \<Rightarrow> [] | Some p \<Rightarrow> p)"

text \<open>Unmuting gives the commands it runs and those that restore the sound afterwards.\<close>

definition unmuteAudio :: "sound \<Rightarrow> string list list \<times> string list list" where
  "unmuteAudio so =
     (if \<not> audio_Available (so_backend so) then ([], [])
      else case so_reading so of
        None \<Rightarrow> ([], [])
      | Some (_, wasMuted) \<Rightarrow>
          if wasMuted
          then (snd (audio_SetMuted (so_run so) False (so_backend so)), snd (audio_SetMuted (so_run so) True (so_backend so)))
          else ([], []))"

fun try_players :: "(string list \<Rightarrow> bool) \<Rightarrow> string list list \<Rightarrow> string list list" where
  "try_players run [] = []"
| "try_players run (p # ps) = p # (if run p then [] else try_players run ps)"

definition playAlarm :: "(string \<Rightarrow> bool) \<Rightarrow> sound \<Rightarrow> string list list" where
  "playAlarm exists so =
     (let soundFile = findSoundFile exists
      in if soundFile = [] then []
         else let (unmute, restore) = unmuteAudio so
              in unmute @ try_players (so_run so) [[''paplay'', soundFile], [''play'', soundFile], [''aplay'', soundFile]]
                 @ restore)"

text \<open>The state is whether an alarm plays.  A request starts one unless it does; the alarm ends on its own.\<close>

datatype ring_step = RingRequest peer | RingDone peer

definition ring_Handle :: "bool \<Rightarrow> bool \<times> bool" where
  "ring_Handle playing = (if playing then (False, True) else (True, True))"

definition ring_finish :: "peer \<Rightarrow> effect list \<times> bool" where
  "ring_finish dev = ([Publish ''ring.received'' (pe_id dev) JNull], False)"

text \<open>The alarms that run, as the peers that started them.\<close>

inductive ring_run :: "peer list \<Rightarrow> bool \<Rightarrow> peer list \<Rightarrow> bool \<Rightarrow> bool" where
  ring_refl: "ring_run ps b ps b"
| ring_request: "ring_run ps b qs c \<Longrightarrow> ring_Handle c = (started, c') \<Longrightarrow>
    ring_run ps b (if started then dev # qs else qs) c'"
| ring_done: "ring_run ps b (ls @ dev # rs) c \<Longrightarrow> ring_finish dev = (es, c') \<Longrightarrow> ring_run ps b (ls @ rs) c'"

section \<open>Facts\<close>

lemma commands_RunCommand [simp]: "commands_all (map RunCommand cs) = cs"
  by (induction cs) auto

lemma sendSinks_commands [simp]: "commands_all (sendSinks sinks) = []"
  by (simp add: sendSinks_def)

lemma sv_event_commands [simp]: "commands_all (sv_event sinks b i) = []"
  by (auto simp: sv_event_def split: option.splits list.splits)

text \<open>The commands that a request to change the sound may run.\<close>

definition sound_command :: "audio_backend \<Rightarrow> string list \<Rightarrow> bool" where
  "sound_command b cmd \<longleftrightarrow>
     (\<exists>v. 0 \<le> v \<and> v \<le> 100 \<and> cmd = volume_command b v) \<or> (\<exists>m. cmd = mute_command b m)"

lemma sound_commandI [intro]:
  "\<not> v < 0 \<Longrightarrow> \<not> 100 < v \<Longrightarrow> sound_command b (volume_command b v)" "sound_command b (mute_command b m)"
  by (auto simp: sound_command_def intro!: exI [of _ v])

lemma sv_apply_commands: "cmd \<in> set (snd (sv_apply so body)) \<Longrightarrow> sound_command (so_backend so) cmd"
  by (auto simp: sv_apply_def setVolume_def setVolumeStr_def setVolumeOnly_def setMutedOnly_def audio_Set_def
      audio_SetVolume_def audio_SetMuted_def split: option.splits if_splits)

text \<open>
  Whatever a peer sends, the volume this computer is set to lies between 0 and 100 percent, and
  the only other commands run are those that switch the mute state.
\<close>
theorem remote_volume_in_range:
  assumes "sv_Handle has_bus so dev raw = Inr es" and "cmd \<in> set (commands_all es)"
  shows "sound_command (so_backend so) cmd"
  using assms sv_apply_commands [of cmd so]
  by (auto simp: sv_Handle_def split_def Let_def split: if_splits option.splits)

theorem remote_volume_in_range_witness:
  "sound_command Wpctl (mute_command Wpctl True)"
proof -
  let ?raw = "Some (JObj [(''muted'', JBool True)])"
    and ?so = "\<lparr>so_backend = Wpctl, so_run = \<lambda>_. True, so_reading = None\<rparr>"
  have keys: "\<not> key_matches ''requestSinks'' ''muted''" "\<not> key_matches ''name'' ''muted''"
    "\<not> key_matches ''volume'' ''muted''" "key_matches ''muted'' ''muted''"
    by code_simp+
  have dec: "dec_sv ?raw = Some (zero_sv_body\<lparr>vb_muted := Some True\<rparr>)"
    by (simp add: dec_sv_def unmarshal_raw_def dec_fields_def sv_fields_def fld_def dec_opt_def keys zero_sv_body_def)
  show ?thesis
    using remote_volume_in_range [of False ?so "\<lparr>pe_id = ''p'', pe_name = ''P''\<rparr>" ?raw _ "mute_command Wpctl True"]
    by (simp add: sv_Handle_def audio_Available_def dec zero_sv_body_def sv_apply_def setMutedOnly_def audio_SetMuted_def Let_def)
qed

text \<open>
  At most one alarm plays, however many requests arrive, and the flag says whether one does.
\<close>
theorem one_alarm:
  assumes "ring_run [] False ps playing"
  shows "length ps \<le> 1 \<and> (playing \<longleftrightarrow> ps \<noteq> [])"
proof -
  have "ring_run qs b ps playing \<Longrightarrow> qs = [] \<Longrightarrow> \<not> b \<Longrightarrow> length ps \<le> 1 \<and> (playing \<longleftrightarrow> ps \<noteq> [])" for qs b
    by (induction rule: ring_run.induct)
      (auto simp: ring_Handle_def ring_finish_def length_Suc_conv Cons_eq_append_conv split: if_splits)
  then show ?thesis using assms by blast
qed

theorem one_alarm_witness:
  "length [\<lparr>pe_id = ''p'', pe_name = ''P''\<rparr>] \<le> 1 \<and> (True \<longleftrightarrow> [\<lparr>pe_id = ''p'', pe_name = ''P''\<rparr>] \<noteq> [])"
proof (rule one_alarm)
  have "ring_Handle False = (True, True)" by (simp add: ring_Handle_def)
  from ring_request [OF ring_refl [of "[]" False] this, of "\<lparr>pe_id = ''p'', pe_name = ''P''\<rparr>"]
  show "ring_run [] False [\<lparr>pe_id = ''p'', pe_name = ''P''\<rparr>] True" by simp
qed

text \<open>
  An alarm on a muted computer unmutes it first and mutes it again at the end, whichever of the
  players works and even if none does.
\<close>
theorem alarm_restores_mute:
  assumes "findSoundFile exists \<noteq> []" and "audio_Available (so_backend so)" and "so_reading so = Some (v, True)"
  shows "\<exists>played. playAlarm exists so =
    mute_command (so_backend so) False # played @ [mute_command (so_backend so) True] \<and>
    played \<noteq> [] \<and> (\<forall>p \<in> set (butlast played). \<not> so_run so p)"
proof -
  let ?ps = "[[''paplay'', findSoundFile exists], [''play'', findSoundFile exists], [''aplay'', findSoundFile exists]]"
  have nonempty: "try_players run (p # ps) \<noteq> []" for run p ps
    by simp
  have tried: "\<forall>p \<in> set (butlast (try_players run ps)). \<not> run p" for run ps
    by (induction ps) simp_all
  have "unmuteAudio so = ([mute_command (so_backend so) False], [mute_command (so_backend so) True])"
    using assms(2,3) by (simp add: unmuteAudio_def audio_SetMuted_def audio_Available_def)
  then have "playAlarm exists so =
      mute_command (so_backend so) False # try_players (so_run so) ?ps @ [mute_command (so_backend so) True]"
    unfolding playAlarm_def Let_def using assms(1) by simp
  then show ?thesis using tried [of "so_run so" ?ps] nonempty by blast
qed

theorem alarm_restores_mute_witness:
  "\<exists>played. playAlarm (\<lambda>_. True) \<lparr>so_backend = Pactl, so_run = \<lambda>_. False, so_reading = Some (40, True)\<rparr> =
    mute_command Pactl False # played @ [mute_command Pactl True]"
  using alarm_restores_mute [of "\<lambda>_. True" "\<lparr>so_backend = Pactl, so_run = \<lambda>_. False, so_reading = Some (40, True)\<rparr>" 40]
  by (auto simp: findSoundFile_def sound_candidates_def audio_Available_def)

text \<open>An update of the peer's volume changes the named sink only.\<close>

lemma update_sink_names: "map sk_name (snd (update_sink name v m ss)) = map sk_name ss"
  by (induction name v m ss rule: update_sink.induct) (auto simp: Let_def split: option.splits prod.splits)

lemma update_sink_others:
  "filter (\<lambda>s. sk_name s \<noteq> name) (snd (update_sink name v m ss)) = filter (\<lambda>s. sk_name s \<noteq> name) ss"
  by (induction name v m ss rule: update_sink.induct) (auto simp: Let_def split: option.splits prod.splits)

lemma rv_update_others:
  "ListSinks i (snd (rv_update b dev body table)) =
     (if i = pe_id dev then snd (update_sink (rb_name body) (rb_volume body) (rb_muted body) (ListSinks i table))
      else ListSinks i table)"
  by (auto simp: rv_update_def ListSinks_def update_conv Let_def split: option.splits prod.splits)

end
