(* ===== verification/IpcProto.thy ===== *)
theory IpcProto
  imports PluginEnv KeyedStore
begin

text \<open>
  \<open>internal/ipc/proto.go\<close> and \<open>payload.go\<close>: the commands of the local protocol, the error codes, the
  request and the response, and the payloads, each a record with its decoder or its encoder.

  A pointer is an option.  A slice whose emptiness is not hidden by \<open>omitempty\<close> is an option as
  well, because \<open>nil\<close> is encoded as \<open>null\<close>.  A \<open>json.RawMessage\<close> is an optional document.
\<close>

section \<open>Fields\<close>

text \<open>\<open>ParseUint\<close> accepts no sign and 64 bits.\<close>

fun dec_uint :: "json \<Rightarrow> nat \<Rightarrow> nat option" where
  "dec_uint JNull old = Some old"
| "dec_uint (JNum lit) old =
     (case parse_nat lit of Some n \<Rightarrow> if n < 2 ^ 64 then Some n else None | None \<Rightarrow> None)"
| "dec_uint _ old = None"

definition enc_nat :: "nat \<Rightarrow> json" where
  "enc_nat n = JNum (show_nat n)"

definition dec_raw :: "json \<Rightarrow> json option \<Rightarrow> json option option" where
  "dec_raw j old = Some (Some j)"

fun dec_nstrs :: "json \<Rightarrow> string list option \<Rightarrow> string list option option" where
  "dec_nstrs JNull old = Some None"
| "dec_nstrs j old = map_option Some (dec_strs j [])"

definition enc_strs :: "string list \<Rightarrow> json" where
  "enc_strs ss = JArr (map JStr ss)"

definition enc_nstrs :: "string list option \<Rightarrow> json" where
  "enc_nstrs ss = (case ss of None \<Rightarrow> JNull | Some xs \<Rightarrow> enc_strs xs)"

fun dec_ints :: "json \<Rightarrow> int list \<Rightarrow> int list option" where
  "dec_ints JNull old = Some []"
| "dec_ints (JArr []) old = Some []"
| "dec_ints (JArr (j # js)) old =
     (case (dec_int j 0, dec_ints (JArr js) []) of (Some i, Some is) \<Rightarrow> Some (i # is) | _ \<Rightarrow> None)"
| "dec_ints _ old = None"

definition enc_ints :: "int list \<Rightarrow> json" where
  "enc_ints is = JArr (map enc_int is)"

definition enc_nlist :: "('a \<Rightarrow> json) \<Rightarrow> 'a list option \<Rightarrow> json" where
  "enc_nlist enc xs = (case xs of None \<Rightarrow> JNull | Some ys \<Rightarrow> JArr (map enc ys))"

definition enc_bool_map :: "(string \<times> bool) list \<Rightarrow> json" where
  "enc_bool_map m = JObj (map (\<lambda>(k, b). (k, JBool b)) m)"

definition enc_str_map :: "(string \<times> string) list \<Rightarrow> json" where
  "enc_str_map m = JObj (map (\<lambda>(k, s). (k, JStr s)) m)"

text \<open>A map of documents: later keys overwrite earlier ones.\<close>

fun dec_raw_map :: "json \<Rightarrow> (string \<times> json) list \<Rightarrow> (string \<times> json) list option" where
  "dec_raw_map JNull old = Some []"
| "dec_raw_map (JObj es) old = Some (fold (\<lambda>(k, v) m. AList.update k v m) es old)"
| "dec_raw_map _ old = None"

text \<open>\<open>json.Number\<close> keeps the literal; the empty one is written as zero.\<close>

definition enc_number :: "string \<Rightarrow> json" where
  "enc_number lit = JNum (if lit = [] then ''0'' else lit)"

section \<open>Commands and codes\<close>

definition APIVersion :: int where "APIVersion = 2"

definition CmdDevices :: string where "CmdDevices = ''devices''"
definition CmdPair :: string where "CmdPair = ''pair''"
definition CmdPairListen :: string where "CmdPairListen = ''pair_listen''"
definition CmdUnpair :: string where "CmdUnpair = ''unpair''"
definition CmdPing :: string where "CmdPing = ''ping''"
definition CmdBattery :: string where "CmdBattery = ''battery''"
definition CmdConnectivity :: string where "CmdConnectivity = ''connectivity''"
definition CmdClipboardPush :: string where "CmdClipboardPush = ''clipboard_push''"
definition CmdRunList :: string where "CmdRunList = ''run_list''"
definition CmdRunExec :: string where "CmdRunExec = ''run_exec''"
definition CmdShare :: string where "CmdShare = ''share''"
definition CmdConnect :: string where "CmdConnect = ''connect''"
definition CmdBroadcastStart :: string where "CmdBroadcastStart = ''broadcast_start''"
definition CmdBroadcastStop :: string where "CmdBroadcastStop = ''broadcast_stop''"
definition CmdWatch :: string where "CmdWatch = ''watch''"
definition CmdSftpMount :: string where "CmdSftpMount = ''sftp_mount''"
definition CmdSftpInfo :: string where "CmdSftpInfo = ''sftp_info''"
definition CmdSftpVolumes :: string where "CmdSftpVolumes = ''sftp_volumes''"
definition CmdNotifyReply :: string where "CmdNotifyReply = ''notify_reply''"
definition CmdNotifyDismiss :: string where "CmdNotifyDismiss = ''notify_dismiss''"
definition CmdNotifyAction :: string where "CmdNotifyAction = ''notify_action''"
definition CmdCallMute :: string where "CmdCallMute = ''call_mute''"
definition CmdFindMyPhone :: string where "CmdFindMyPhone = ''findmyphone''"
definition CmdLock :: string where "CmdLock = ''lock''"
definition CmdUnlock :: string where "CmdUnlock = ''unlock''"
definition CmdSendSMS :: string where "CmdSendSMS = ''send_sms''"
definition CmdSmsRequestConvs :: string where "CmdSmsRequestConvs = ''sms_request_conversations''"
definition CmdSmsRequestConv :: string where "CmdSmsRequestConv = ''sms_request_conversation''"
definition CmdSmsRequestAttachment :: string where "CmdSmsRequestAttachment = ''sms_request_attachment''"
definition CmdContactsSync :: string where "CmdContactsSync = ''contacts_sync''"
definition CmdContactsList :: string where "CmdContactsList = ''contacts_list''"
definition CmdContactsClear :: string where "CmdContactsClear = ''contacts_clear''"
definition CmdSftpMountLocal :: string where "CmdSftpMountLocal = ''sftp_mount_local''"
definition CmdSftpUnmount :: string where "CmdSftpUnmount = ''sftp_unmount''"
definition CmdStatus :: string where "CmdStatus = ''status''"
definition CmdMprisStatus :: string where "CmdMprisStatus = ''mpris_status''"
definition CmdMprisAction :: string where "CmdMprisAction = ''mpris_action''"
definition CmdMprisRemote :: string where "CmdMprisRemote = ''mpris_remote''"
definition CmdSftpBrowse :: string where "CmdSftpBrowse = ''sftp_browse''"
definition CmdRemoteVolumeList :: string where "CmdRemoteVolumeList = ''remote_volume_list''"
definition CmdRemoteVolumeSet :: string where "CmdRemoteVolumeSet = ''remote_volume_set''"
definition CmdRemoteVolumeMute :: string where "CmdRemoteVolumeMute = ''remote_volume_mute''"
definition CmdHello :: string where "CmdHello = ''hello''"
definition CmdConfigGet :: string where "CmdConfigGet = ''config_get''"
definition CmdConfigSchema :: string where "CmdConfigSchema = ''config_schema''"
definition CmdConfigSet :: string where "CmdConfigSet = ''config_set''"
definition CmdReload :: string where "CmdReload = ''reload''"
definition CmdPromptRespond :: string where "CmdPromptRespond = ''prompt_respond''"

definition CodeInvalidPayload :: string where "CodeInvalidPayload = ''invalid_payload''"
definition CodeUnknownCommand :: string where "CodeUnknownCommand = ''unknown_command''"
definition CodeDeviceNotFound :: string where "CodeDeviceNotFound = ''device_not_found''"
definition CodeDeviceNotConnected :: string where "CodeDeviceNotConnected = ''device_not_connected''"
definition CodeDeviceNotPaired :: string where "CodeDeviceNotPaired = ''device_not_paired''"
definition CodePluginDisabled :: string where "CodePluginDisabled = ''plugin_disabled''"
definition CodePluginDisabledDevice :: string where "CodePluginDisabledDevice = ''plugin_disabled_for_device''"
definition CodeTimeout :: string where "CodeTimeout = ''timeout''"
definition CodeBusy :: string where "CodeBusy = ''busy''"
definition CodeNotSupported :: string where "CodeNotSupported = ''not_supported''"
definition CodePermissionDenied :: string where "CodePermissionDenied = ''permission_denied''"
definition CodeInternal :: string where "CodeInternal = ''internal''"

section \<open>Requests and responses\<close>

record connect_payload =
  cp_ip :: string

definition zero_connect_payload :: connect_payload where
  "zero_connect_payload = \<lparr>cp_ip = []\<rparr>"

definition connect_payload_fields :: "connect_payload field list" where
  "connect_payload_fields =
     [(''ip'', fld dec_str cp_ip cp_ip_update)]"

definition dec_connect_payload :: "json \<Rightarrow> connect_payload \<Rightarrow> connect_payload option" where
  "dec_connect_payload j = dec_struct (dec_fields connect_payload_fields) j"

record ipc_request =
  rq_command :: string
  rq_id :: "json option"
  rq_payload :: "json option"

definition zero_ipc_request :: ipc_request where
  "zero_ipc_request = \<lparr>rq_command = [], rq_id = None, rq_payload = None\<rparr>"

definition ipc_request_fields :: "ipc_request field list" where
  "ipc_request_fields =
     [(''cmd'', fld dec_str rq_command rq_command_update),
      (''id'', fld dec_raw rq_id rq_id_update),
      (''payload'', fld dec_raw rq_payload rq_payload_update)]"

definition dec_ipc_request :: "json \<Rightarrow> ipc_request \<Rightarrow> ipc_request option" where
  "dec_ipc_request j = dec_struct (dec_fields ipc_request_fields) j"

record hello_payload =
  hp_client :: string
  hp_client_version :: string
  hp_api_versions :: "int list"
  hp_keep_alive :: bool

definition zero_hello_payload :: hello_payload where
  "zero_hello_payload = \<lparr>hp_client = [], hp_client_version = [], hp_api_versions = [], hp_keep_alive = False\<rparr>"

definition hello_payload_fields :: "hello_payload field list" where
  "hello_payload_fields =
     [(''client'', fld dec_str hp_client hp_client_update),
      (''clientVersion'', fld dec_str hp_client_version hp_client_version_update),
      (''apiVersions'', fld dec_ints hp_api_versions hp_api_versions_update),
      (''keepAlive'', fld dec_bool hp_keep_alive hp_keep_alive_update)]"

definition dec_hello_payload :: "json \<Rightarrow> hello_payload \<Rightarrow> hello_payload option" where
  "dec_hello_payload j = dec_struct (dec_fields hello_payload_fields) j"

record hello_response =
  hr_api_version :: int
  hr_daemon_version :: string
  hr_commands :: "string list option"
  hr_events :: "string list option"
  hr_opt_in_events :: "string list option"
  hr_plugins :: "(string \<times> bool) list"
  hr_features :: "string list option"

definition zero_hello_response :: hello_response where
  "zero_hello_response = \<lparr>hr_api_version = 0, hr_daemon_version = [], hr_commands = None, hr_events = None, hr_opt_in_events = None, hr_plugins = [], hr_features = None\<rparr>"

definition enc_hello_response :: "hello_response \<Rightarrow> json" where
  "enc_hello_response x =
     JObj ([(''apiVersion'', enc_int (hr_api_version x))]
           @ [(''daemonVersion'', JStr (hr_daemon_version x))]
           @ [(''commands'', enc_nstrs (hr_commands x))]
           @ [(''events'', enc_nstrs (hr_events x))]
           @ [(''optInEvents'', enc_nstrs (hr_opt_in_events x))]
           @ [(''plugins'', enc_bool_map (hr_plugins x))]
           @ [(''features'', enc_nstrs (hr_features x))])"

record config_get_payload =
  cg_keys :: "string list"

definition zero_config_get_payload :: config_get_payload where
  "zero_config_get_payload = \<lparr>cg_keys = []\<rparr>"

definition config_get_payload_fields :: "config_get_payload field list" where
  "config_get_payload_fields =
     [(''keys'', fld dec_strs cg_keys cg_keys_update)]"

definition dec_config_get_payload :: "json \<Rightarrow> config_get_payload \<Rightarrow> config_get_payload option" where
  "dec_config_get_payload j = dec_struct (dec_fields config_get_payload_fields) j"

record config_set_payload =
  cs_values :: "(string \<times> json) list"

definition zero_config_set_payload :: config_set_payload where
  "zero_config_set_payload = \<lparr>cs_values = []\<rparr>"

definition config_set_payload_fields :: "config_set_payload field list" where
  "config_set_payload_fields =
     [(''values'', fld dec_raw_map cs_values cs_values_update)]"

definition dec_config_set_payload :: "json \<Rightarrow> config_set_payload \<Rightarrow> config_set_payload option" where
  "dec_config_set_payload j = dec_struct (dec_fields config_set_payload_fields) j"

record reload_response =
  rl_applied :: "string list option"
  rl_restart_required :: "string list option"

definition zero_reload_response :: reload_response where
  "zero_reload_response = \<lparr>rl_applied = None, rl_restart_required = None\<rparr>"

definition enc_reload_response :: "reload_response \<Rightarrow> json" where
  "enc_reload_response x =
     JObj ([(''applied'', enc_nstrs (rl_applied x))]
           @ [(''restartRequired'', enc_nstrs (rl_restart_required x))])"

record prompt_respond_payload =
  prr_prompt_id :: string
  prr_choice :: string

definition zero_prompt_respond_payload :: prompt_respond_payload where
  "zero_prompt_respond_payload = \<lparr>prr_prompt_id = [], prr_choice = []\<rparr>"

definition prompt_respond_payload_fields :: "prompt_respond_payload field list" where
  "prompt_respond_payload_fields =
     [(''promptId'', fld dec_str prr_prompt_id prr_prompt_id_update),
      (''choice'', fld dec_str prr_choice prr_choice_update)]"

definition dec_prompt_respond_payload :: "json \<Rightarrow> prompt_respond_payload \<Rightarrow> prompt_respond_payload option" where
  "dec_prompt_respond_payload j = dec_struct (dec_fields prompt_respond_payload_fields) j"

record watch_payload =
  wp_events :: "string list"
  wp_since :: nat

definition zero_watch_payload :: watch_payload where
  "zero_watch_payload = \<lparr>wp_events = [], wp_since = 0\<rparr>"

definition watch_payload_fields :: "watch_payload field list" where
  "watch_payload_fields =
     [(''events'', fld dec_strs wp_events wp_events_update),
      (''since'', fld dec_uint wp_since wp_since_update)]"

definition dec_watch_payload :: "json \<Rightarrow> watch_payload \<Rightarrow> watch_payload option" where
  "dec_watch_payload j = dec_struct (dec_fields watch_payload_fields) j"

record ipc_response =
  rs_id :: "json option"
  rs_ok :: bool
  rs_error :: string
  rs_code :: string
  rs_details :: "json option"
  rs_data :: "json option"

definition zero_ipc_response :: ipc_response where
  "zero_ipc_response = \<lparr>rs_id = None, rs_ok = False, rs_error = [], rs_code = [], rs_details = None, rs_data = None\<rparr>"

definition enc_ipc_response :: "ipc_response \<Rightarrow> json" where
  "enc_ipc_response x =
     JObj ((case rs_id x of None \<Rightarrow> [] | Some j \<Rightarrow> [(''id'', j)])
           @ [(''ok'', JBool (rs_ok x))]
           @ omit (rs_error x = []) ''error'' (JStr (rs_error x))
           @ omit (rs_code x = []) ''code'' (JStr (rs_code x))
           @ (case rs_details x of None \<Rightarrow> [] | Some j \<Rightarrow> [(''details'', j)])
           @ (case rs_data x of None \<Rightarrow> [] | Some j \<Rightarrow> [(''data'', j)]))"

text \<open>\<open>Err\<close> with the details as key and value pairs; \<open>Fail\<close> is the older form without a code.\<close>

definition Err :: "string \<Rightarrow> string \<Rightarrow> (string \<times> string) list \<Rightarrow> ipc_response" where
  "Err code message details =
     zero_ipc_response\<lparr>rs_code := code, rs_error := message,
       rs_details := (if details = [] then None else Some (enc_str_map details))\<rparr>"

definition FailWith :: "string \<Rightarrow> ipc_response" where
  "FailWith message = zero_ipc_response\<lparr>rs_error := message\<rparr>"

definition okay :: ipc_response where
  "okay = zero_ipc_response\<lparr>rs_ok := True\<rparr>"

definition jsonOK :: "json \<Rightarrow> ipc_response" where
  "jsonOK v = zero_ipc_response\<lparr>rs_ok := True, rs_data := Some v\<rparr>"

record pair_listen_result =
  plr_device_id :: string
  plr_device_name :: string
  plr_verification_key :: string
  plr_fingerprint :: string

definition zero_pair_listen_result :: pair_listen_result where
  "zero_pair_listen_result = \<lparr>plr_device_id = [], plr_device_name = [], plr_verification_key = [], plr_fingerprint = []\<rparr>"

definition enc_pair_listen_result :: "pair_listen_result \<Rightarrow> json" where
  "enc_pair_listen_result x =
     JObj ([(''deviceId'', JStr (plr_device_id x))]
           @ [(''deviceName'', JStr (plr_device_name x))]
           @ omit (plr_verification_key x = []) ''verificationKey'' (JStr (plr_verification_key x))
           @ omit (plr_fingerprint x = []) ''fingerprint'' (JStr (plr_fingerprint x)))"

record pair_result =
  prs_verification_key :: string

definition zero_pair_result :: pair_result where
  "zero_pair_result = \<lparr>prs_verification_key = []\<rparr>"

definition enc_pair_result :: "pair_result \<Rightarrow> json" where
  "enc_pair_result x =
     JObj (omit (prs_verification_key x = []) ''verificationKey'' (JStr (prs_verification_key x)))"

record device_payload =
  dp_device_id :: string
  dp_key :: string

definition zero_device_payload :: device_payload where
  "zero_device_payload = \<lparr>dp_device_id = [], dp_key = []\<rparr>"

definition device_payload_fields :: "device_payload field list" where
  "device_payload_fields =
     [(''deviceId'', fld dec_str dp_device_id dp_device_id_update),
      (''key'', fld dec_str dp_key dp_key_update)]"

definition dec_device_payload :: "json \<Rightarrow> device_payload \<Rightarrow> device_payload option" where
  "dec_device_payload j = dec_struct (dec_fields device_payload_fields) j"

record pair_payload =
  pap_device_id :: string
  pap_reject :: bool

definition zero_pair_payload :: pair_payload where
  "zero_pair_payload = \<lparr>pap_device_id = [], pap_reject = False\<rparr>"

definition pair_payload_fields :: "pair_payload field list" where
  "pair_payload_fields =
     [(''deviceId'', fld dec_str pap_device_id pap_device_id_update),
      (''reject'', fld dec_bool pap_reject pap_reject_update)]"

definition dec_pair_payload :: "json \<Rightarrow> pair_payload \<Rightarrow> pair_payload option" where
  "dec_pair_payload j = dec_struct (dec_fields pair_payload_fields) j"

record share_payload =
  shp_device_id :: string
  shp_file_path :: string

definition zero_share_payload :: share_payload where
  "zero_share_payload = \<lparr>shp_device_id = [], shp_file_path = []\<rparr>"

definition share_payload_fields :: "share_payload field list" where
  "share_payload_fields =
     [(''deviceId'', fld dec_str shp_device_id shp_device_id_update),
      (''filePath'', fld dec_str shp_file_path shp_file_path_update)]"

definition dec_share_payload :: "json \<Rightarrow> share_payload \<Rightarrow> share_payload option" where
  "dec_share_payload j = dec_struct (dec_fields share_payload_fields) j"

record notify_reply_payload =
  nrp_device_id :: string
  nrp_reply_id :: string
  nrp_message :: string

definition zero_notify_reply_payload :: notify_reply_payload where
  "zero_notify_reply_payload = \<lparr>nrp_device_id = [], nrp_reply_id = [], nrp_message = []\<rparr>"

definition notify_reply_payload_fields :: "notify_reply_payload field list" where
  "notify_reply_payload_fields =
     [(''deviceId'', fld dec_str nrp_device_id nrp_device_id_update),
      (''replyId'', fld dec_str nrp_reply_id nrp_reply_id_update),
      (''message'', fld dec_str nrp_message nrp_message_update)]"

definition dec_notify_reply_payload :: "json \<Rightarrow> notify_reply_payload \<Rightarrow> notify_reply_payload option" where
  "dec_notify_reply_payload j = dec_struct (dec_fields notify_reply_payload_fields) j"

record notify_dismiss_payload =
  ndp_device_id :: string
  ndp_notification_id :: string

definition zero_notify_dismiss_payload :: notify_dismiss_payload where
  "zero_notify_dismiss_payload = \<lparr>ndp_device_id = [], ndp_notification_id = []\<rparr>"

definition notify_dismiss_payload_fields :: "notify_dismiss_payload field list" where
  "notify_dismiss_payload_fields =
     [(''deviceId'', fld dec_str ndp_device_id ndp_device_id_update),
      (''notificationId'', fld dec_str ndp_notification_id ndp_notification_id_update)]"

definition dec_notify_dismiss_payload :: "json \<Rightarrow> notify_dismiss_payload \<Rightarrow> notify_dismiss_payload option" where
  "dec_notify_dismiss_payload j = dec_struct (dec_fields notify_dismiss_payload_fields) j"

record notify_action_payload =
  nap_device_id :: string
  nap_notification_id :: string
  nap_key :: string
  nap_action :: string

definition zero_notify_action_payload :: notify_action_payload where
  "zero_notify_action_payload = \<lparr>nap_device_id = [], nap_notification_id = [], nap_key = [], nap_action = []\<rparr>"

definition notify_action_payload_fields :: "notify_action_payload field list" where
  "notify_action_payload_fields =
     [(''deviceId'', fld dec_str nap_device_id nap_device_id_update),
      (''notificationId'', fld dec_str nap_notification_id nap_notification_id_update),
      (''key'', fld dec_str nap_key nap_key_update),
      (''action'', fld dec_str nap_action nap_action_update)]"

definition dec_notify_action_payload :: "json \<Rightarrow> notify_action_payload \<Rightarrow> notify_action_payload option" where
  "dec_notify_action_payload j = dec_struct (dec_fields notify_action_payload_fields) j"

record sms_payload =
  smp_device_id :: string
  smp_phone_number :: string
  smp_message :: string
  smp_sub_id :: "int option"

definition zero_sms_payload :: sms_payload where
  "zero_sms_payload = \<lparr>smp_device_id = [], smp_phone_number = [], smp_message = [], smp_sub_id = None\<rparr>"

definition sms_payload_fields :: "sms_payload field list" where
  "sms_payload_fields =
     [(''deviceId'', fld dec_str smp_device_id smp_device_id_update),
      (''phoneNumber'', fld dec_str smp_phone_number smp_phone_number_update),
      (''message'', fld dec_str smp_message smp_message_update),
      (''subID'', fld (dec_opt dec_int 0) smp_sub_id smp_sub_id_update)]"

definition dec_sms_payload :: "json \<Rightarrow> sms_payload \<Rightarrow> sms_payload option" where
  "dec_sms_payload j = dec_struct (dec_fields sms_payload_fields) j"

record sms_conv_payload =
  scp_device_id :: string
  scp_thread_id :: int
  scp_range_start_timestamp :: "int option"
  scp_number_to_request :: "int option"

definition zero_sms_conv_payload :: sms_conv_payload where
  "zero_sms_conv_payload = \<lparr>scp_device_id = [], scp_thread_id = 0, scp_range_start_timestamp = None, scp_number_to_request = None\<rparr>"

definition sms_conv_payload_fields :: "sms_conv_payload field list" where
  "sms_conv_payload_fields =
     [(''deviceId'', fld dec_str scp_device_id scp_device_id_update),
      (''threadID'', fld dec_int scp_thread_id scp_thread_id_update),
      (''rangeStartTimestamp'', fld (dec_opt dec_int 0) scp_range_start_timestamp scp_range_start_timestamp_update),
      (''numberToRequest'', fld (dec_opt dec_int 0) scp_number_to_request scp_number_to_request_update)]"

definition dec_sms_conv_payload :: "json \<Rightarrow> sms_conv_payload \<Rightarrow> sms_conv_payload option" where
  "dec_sms_conv_payload j = dec_struct (dec_fields sms_conv_payload_fields) j"

record sms_attachment_payload =
  sap_device_id :: string
  sap_part_id :: int
  sap_unique_identifier :: string
  sap_thread_id :: "int option"

definition zero_sms_attachment_payload :: sms_attachment_payload where
  "zero_sms_attachment_payload = \<lparr>sap_device_id = [], sap_part_id = 0, sap_unique_identifier = [], sap_thread_id = None\<rparr>"

definition sms_attachment_payload_fields :: "sms_attachment_payload field list" where
  "sms_attachment_payload_fields =
     [(''deviceId'', fld dec_str sap_device_id sap_device_id_update),
      (''partID'', fld dec_int sap_part_id sap_part_id_update),
      (''uniqueIdentifier'', fld dec_str sap_unique_identifier sap_unique_identifier_update),
      (''threadID'', fld (dec_opt dec_int 0) sap_thread_id sap_thread_id_update)]"

definition dec_sms_attachment_payload :: "json \<Rightarrow> sms_attachment_payload \<Rightarrow> sms_attachment_payload option" where
  "dec_sms_attachment_payload j = dec_struct (dec_fields sms_attachment_payload_fields) j"

record status_battery =
  sba_charge :: int
  sba_charging :: bool
  sba_age_ms :: int

definition zero_status_battery :: status_battery where
  "zero_status_battery = \<lparr>sba_charge = 0, sba_charging = False, sba_age_ms = 0\<rparr>"

definition enc_status_battery :: "status_battery \<Rightarrow> json" where
  "enc_status_battery x =
     JObj ([(''charge'', enc_int (sba_charge x))]
           @ [(''charging'', JBool (sba_charging x))]
           @ [(''ageMs'', enc_int (sba_age_ms x))])"

record status_device =
  sd_id :: string
  sd_name :: string
  sd_type :: string
  sd_state :: string
  sd_connected :: bool
  sd_addr :: string
  sd_battery :: "status_battery option"
  sd_last_seen :: string

definition zero_status_device :: status_device where
  "zero_status_device = \<lparr>sd_id = [], sd_name = [], sd_type = [], sd_state = [], sd_connected = False, sd_addr = [], sd_battery = None, sd_last_seen = []\<rparr>"

definition enc_status_device :: "status_device \<Rightarrow> json" where
  "enc_status_device x =
     JObj ([(''id'', JStr (sd_id x))]
           @ [(''name'', JStr (sd_name x))]
           @ [(''type'', JStr (sd_type x))]
           @ [(''state'', JStr (sd_state x))]
           @ [(''connected'', JBool (sd_connected x))]
           @ omit (sd_addr x = []) ''addr'' (JStr (sd_addr x))
           @ (case sd_battery x of None \<Rightarrow> [] | Some v \<Rightarrow> [(''battery'', enc_status_battery v)])
           @ omit (sd_last_seen x = []) ''lastSeen'' (JStr (sd_last_seen x)))"

record status_response =
  sr_version :: string
  sr_started_at :: string
  sr_uptime_human :: string
  sr_socket_path :: string
  sr_config_path :: string
  sr_tcp_port :: int
  sr_plugins :: "string list option"
  sr_device_count :: int
  sr_connected_count :: int
  sr_devices :: "status_device list"

definition zero_status_response :: status_response where
  "zero_status_response = \<lparr>sr_version = [], sr_started_at = [], sr_uptime_human = [], sr_socket_path = [], sr_config_path = [], sr_tcp_port = 0, sr_plugins = None, sr_device_count = 0, sr_connected_count = 0, sr_devices = []\<rparr>"

definition enc_status_response :: "status_response \<Rightarrow> json" where
  "enc_status_response x =
     JObj ([(''version'', JStr (sr_version x))]
           @ [(''startedAt'', JStr (sr_started_at x))]
           @ [(''uptimeHuman'', JStr (sr_uptime_human x))]
           @ [(''socketPath'', JStr (sr_socket_path x))]
           @ [(''configPath'', JStr (sr_config_path x))]
           @ omit (sr_tcp_port x = 0) ''tcpPort'' (enc_int (sr_tcp_port x))
           @ [(''plugins'', enc_nstrs (sr_plugins x))]
           @ [(''deviceCount'', enc_int (sr_device_count x))]
           @ [(''connectedCount'', enc_int (sr_connected_count x))]
           @ omit (sr_devices x = []) ''devices'' ((\<lambda>xs. JArr (map enc_status_device xs)) (sr_devices x)))"

record storage_volume_response =
  svr_name :: string
  svr_path :: string

definition zero_storage_volume_response :: storage_volume_response where
  "zero_storage_volume_response = \<lparr>svr_name = [], svr_path = []\<rparr>"

definition enc_storage_volume_response :: "storage_volume_response \<Rightarrow> json" where
  "enc_storage_volume_response x =
     JObj ([(''name'', JStr (svr_name x))]
           @ [(''path'', JStr (svr_path x))])"

record sftp_info_payload =
  sip_device_id :: string
  sip_show_password :: bool

definition zero_sftp_info_payload :: sftp_info_payload where
  "zero_sftp_info_payload = \<lparr>sip_device_id = [], sip_show_password = False\<rparr>"

definition sftp_info_payload_fields :: "sftp_info_payload field list" where
  "sftp_info_payload_fields =
     [(''deviceId'', fld dec_str sip_device_id sip_device_id_update),
      (''showPassword'', fld dec_bool sip_show_password sip_show_password_update)]"

definition dec_sftp_info_payload :: "json \<Rightarrow> sftp_info_payload \<Rightarrow> sftp_info_payload option" where
  "dec_sftp_info_payload j = dec_struct (dec_fields sftp_info_payload_fields) j"

record sftp_info_response =
  sir_ip :: string
  sir_port :: string
  sir_user :: string
  sir_password :: string
  sir_path :: string
  sir_volumes :: "storage_volume_response list"
  sir_mounted :: bool
  sir_mount_point :: string

definition zero_sftp_info_response :: sftp_info_response where
  "zero_sftp_info_response = \<lparr>sir_ip = [], sir_port = [], sir_user = [], sir_password = [], sir_path = [], sir_volumes = [], sir_mounted = False, sir_mount_point = []\<rparr>"

definition enc_sftp_info_response :: "sftp_info_response \<Rightarrow> json" where
  "enc_sftp_info_response x =
     JObj ([(''ip'', JStr (sir_ip x))]
           @ [(''port'', enc_number (sir_port x))]
           @ [(''user'', JStr (sir_user x))]
           @ omit (sir_password x = []) ''password'' (JStr (sir_password x))
           @ [(''path'', JStr (sir_path x))]
           @ omit (sir_volumes x = []) ''volumes'' ((\<lambda>xs. JArr (map enc_storage_volume_response xs)) (sir_volumes x))
           @ [(''mounted'', JBool (sir_mounted x))]
           @ omit (sir_mount_point x = []) ''mountPoint'' (JStr (sir_mount_point x)))"

record sftp_mount_payload =
  smt_device_id :: string
  smt_read_only :: "bool option"

definition zero_sftp_mount_payload :: sftp_mount_payload where
  "zero_sftp_mount_payload = \<lparr>smt_device_id = [], smt_read_only = None\<rparr>"

definition sftp_mount_payload_fields :: "sftp_mount_payload field list" where
  "sftp_mount_payload_fields =
     [(''deviceId'', fld dec_str smt_device_id smt_device_id_update),
      (''readOnly'', fld (dec_opt dec_bool False) smt_read_only smt_read_only_update)]"

definition dec_sftp_mount_payload :: "json \<Rightarrow> sftp_mount_payload \<Rightarrow> sftp_mount_payload option" where
  "dec_sftp_mount_payload j = dec_struct (dec_fields sftp_mount_payload_fields) j"

record sftp_browse_payload =
  sbp_device_id :: string
  sbp_volume :: string
  sbp_read_only :: "bool option"

definition zero_sftp_browse_payload :: sftp_browse_payload where
  "zero_sftp_browse_payload = \<lparr>sbp_device_id = [], sbp_volume = [], sbp_read_only = None\<rparr>"

definition sftp_browse_payload_fields :: "sftp_browse_payload field list" where
  "sftp_browse_payload_fields =
     [(''deviceId'', fld dec_str sbp_device_id sbp_device_id_update),
      (''volume'', fld dec_str sbp_volume sbp_volume_update),
      (''readOnly'', fld (dec_opt dec_bool False) sbp_read_only sbp_read_only_update)]"

definition dec_sftp_browse_payload :: "json \<Rightarrow> sftp_browse_payload \<Rightarrow> sftp_browse_payload option" where
  "dec_sftp_browse_payload j = dec_struct (dec_fields sftp_browse_payload_fields) j"

record sftp_browse_response =
  sbr_path :: string
  sbr_volumes :: "storage_volume_response list"

definition zero_sftp_browse_response :: sftp_browse_response where
  "zero_sftp_browse_response = \<lparr>sbr_path = [], sbr_volumes = []\<rparr>"

definition enc_sftp_browse_response :: "sftp_browse_response \<Rightarrow> json" where
  "enc_sftp_browse_response x =
     JObj (omit (sbr_path x = []) ''path'' (JStr (sbr_path x))
           @ omit (sbr_volumes x = []) ''volumes'' ((\<lambda>xs. JArr (map enc_storage_volume_response xs)) (sbr_volumes x)))"

record mpris_player_info =
  mpi_display_name :: string
  mpi_bus_name :: string
  mpi_short_name :: string
  mpi_title :: string
  mpi_artist :: string
  mpi_album :: string
  mpi_playback_status :: string
  mpi_is_playing :: bool
  mpi_volume :: int
  mpi_pos :: int
  mpi_pos_anchor_ms :: int
  mpi_length :: int
  mpi_album_art_url :: string
  mpi_can_seek :: bool
  mpi_can_go_next :: bool
  mpi_can_go_previous :: bool
  mpi_can_play :: bool
  mpi_can_pause :: bool
  mpi_error :: string

definition zero_mpris_player_info :: mpris_player_info where
  "zero_mpris_player_info = \<lparr>mpi_display_name = [], mpi_bus_name = [], mpi_short_name = [], mpi_title = [], mpi_artist = [], mpi_album = [], mpi_playback_status = [], mpi_is_playing = False, mpi_volume = 0, mpi_pos = 0, mpi_pos_anchor_ms = 0, mpi_length = 0, mpi_album_art_url = [], mpi_can_seek = False, mpi_can_go_next = False, mpi_can_go_previous = False, mpi_can_play = False, mpi_can_pause = False, mpi_error = []\<rparr>"

definition enc_mpris_player_info :: "mpris_player_info \<Rightarrow> json" where
  "enc_mpris_player_info x =
     JObj ([(''displayName'', JStr (mpi_display_name x))]
           @ [(''busName'', JStr (mpi_bus_name x))]
           @ [(''shortName'', JStr (mpi_short_name x))]
           @ [(''title'', JStr (mpi_title x))]
           @ [(''artist'', JStr (mpi_artist x))]
           @ [(''album'', JStr (mpi_album x))]
           @ [(''playbackStatus'', JStr (mpi_playback_status x))]
           @ [(''isPlaying'', JBool (mpi_is_playing x))]
           @ [(''volume'', enc_int (mpi_volume x))]
           @ [(''pos'', enc_int (mpi_pos x))]
           @ omit (mpi_pos_anchor_ms x = 0) ''posAnchorMs'' (enc_int (mpi_pos_anchor_ms x))
           @ [(''length'', enc_int (mpi_length x))]
           @ [(''albumArtUrl'', JStr (mpi_album_art_url x))]
           @ [(''canSeek'', JBool (mpi_can_seek x))]
           @ [(''canGoNext'', JBool (mpi_can_go_next x))]
           @ [(''canGoPrevious'', JBool (mpi_can_go_previous x))]
           @ [(''canPlay'', JBool (mpi_can_play x))]
           @ [(''canPause'', JBool (mpi_can_pause x))]
           @ omit (mpi_error x = []) ''error'' (JStr (mpi_error x)))"

record mpris_status_response =
  msr_watcher_running :: bool
  msr_device_count :: int
  msr_players :: "mpris_player_info list option"
  msr_player_mappings :: "(string \<times> string) list"

definition zero_mpris_status_response :: mpris_status_response where
  "zero_mpris_status_response = \<lparr>msr_watcher_running = False, msr_device_count = 0, msr_players = None, msr_player_mappings = []\<rparr>"

definition enc_mpris_status_response :: "mpris_status_response \<Rightarrow> json" where
  "enc_mpris_status_response x =
     JObj ([(''watcherRunning'', JBool (msr_watcher_running x))]
           @ [(''deviceCount'', enc_int (msr_device_count x))]
           @ [(''players'', (enc_nlist enc_mpris_player_info) (msr_players x))]
           @ [(''playerMappings'', enc_str_map (msr_player_mappings x))])"

record mpris_action_payload =
  mac_device_id :: string
  mac_player :: string
  mac_action :: string
  mac_volume :: "int option"
  mac_seek :: "int option"
  mac_set_position :: "int option"

definition zero_mpris_action_payload :: mpris_action_payload where
  "zero_mpris_action_payload = \<lparr>mac_device_id = [], mac_player = [], mac_action = [], mac_volume = None, mac_seek = None, mac_set_position = None\<rparr>"

definition mpris_action_payload_fields :: "mpris_action_payload field list" where
  "mpris_action_payload_fields =
     [(''deviceId'', fld dec_str mac_device_id mac_device_id_update),
      (''player'', fld dec_str mac_player mac_player_update),
      (''action'', fld dec_str mac_action mac_action_update),
      (''volume'', fld (dec_opt dec_int 0) mac_volume mac_volume_update),
      (''seek'', fld (dec_opt dec_int 0) mac_seek mac_seek_update),
      (''setPosition'', fld (dec_opt dec_int 0) mac_set_position mac_set_position_update)]"

definition dec_mpris_action_payload :: "json \<Rightarrow> mpris_action_payload \<Rightarrow> mpris_action_payload option" where
  "dec_mpris_action_payload j = dec_struct (dec_fields mpris_action_payload_fields) j"

record mpris_remote_player =
  mrp_device_id :: string
  mrp_player :: string
  mrp_title :: string
  mrp_artist :: string
  mrp_album :: string
  mrp_album_art_url :: string
  mrp_url :: string
  mrp_length :: int
  mrp_pos :: int
  mrp_is_playing :: bool
  mrp_volume :: int
  mrp_playback_status :: string
  mrp_can_seek :: bool
  mrp_can_go_next :: bool
  mrp_can_go_previous :: bool
  mrp_can_play :: bool
  mrp_can_pause :: bool
  mrp_can_control :: bool

definition zero_mpris_remote_player :: mpris_remote_player where
  "zero_mpris_remote_player = \<lparr>mrp_device_id = [], mrp_player = [], mrp_title = [], mrp_artist = [], mrp_album = [], mrp_album_art_url = [], mrp_url = [], mrp_length = 0, mrp_pos = 0, mrp_is_playing = False, mrp_volume = 0, mrp_playback_status = [], mrp_can_seek = False, mrp_can_go_next = False, mrp_can_go_previous = False, mrp_can_play = False, mrp_can_pause = False, mrp_can_control = False\<rparr>"

definition enc_mpris_remote_player :: "mpris_remote_player \<Rightarrow> json" where
  "enc_mpris_remote_player x =
     JObj ([(''deviceId'', JStr (mrp_device_id x))]
           @ [(''player'', JStr (mrp_player x))]
           @ [(''title'', JStr (mrp_title x))]
           @ [(''artist'', JStr (mrp_artist x))]
           @ [(''album'', JStr (mrp_album x))]
           @ [(''albumArtUrl'', JStr (mrp_album_art_url x))]
           @ omit (mrp_url x = []) ''url'' (JStr (mrp_url x))
           @ [(''length'', enc_int (mrp_length x))]
           @ [(''pos'', enc_int (mrp_pos x))]
           @ [(''isPlaying'', JBool (mrp_is_playing x))]
           @ [(''volume'', enc_int (mrp_volume x))]
           @ [(''playbackStatus'', JStr (mrp_playback_status x))]
           @ [(''canSeek'', JBool (mrp_can_seek x))]
           @ [(''canGoNext'', JBool (mrp_can_go_next x))]
           @ [(''canGoPrevious'', JBool (mrp_can_go_previous x))]
           @ [(''canPlay'', JBool (mrp_can_play x))]
           @ [(''canPause'', JBool (mrp_can_pause x))]
           @ [(''canControl'', JBool (mrp_can_control x))])"

record mpris_remote_response =
  mrr_players :: "mpris_remote_player list option"

definition zero_mpris_remote_response :: mpris_remote_response where
  "zero_mpris_remote_response = \<lparr>mrr_players = None\<rparr>"

definition enc_mpris_remote_response :: "mpris_remote_response \<Rightarrow> json" where
  "enc_mpris_remote_response x =
     JObj ([(''players'', (enc_nlist enc_mpris_remote_player) (mrr_players x))])"

record contact_summary =
  cos_uid :: string
  cos_name :: string
  cos_phones :: "string list"
  cos_emails :: "string list"
  cos_timestamp :: int

definition zero_contact_summary :: contact_summary where
  "zero_contact_summary = \<lparr>cos_uid = [], cos_name = [], cos_phones = [], cos_emails = [], cos_timestamp = 0\<rparr>"

definition enc_contact_summary :: "contact_summary \<Rightarrow> json" where
  "enc_contact_summary x =
     JObj ([(''uid'', JStr (cos_uid x))]
           @ [(''name'', JStr (cos_name x))]
           @ omit (cos_phones x = []) ''phones'' (enc_strs (cos_phones x))
           @ omit (cos_emails x = []) ''emails'' (enc_strs (cos_emails x))
           @ [(''timestamp'', enc_int (cos_timestamp x))])"

record remote_volume_set_payload =
  rvs_device_id :: string
  rvs_name :: string
  rvs_volume :: int

definition zero_remote_volume_set_payload :: remote_volume_set_payload where
  "zero_remote_volume_set_payload = \<lparr>rvs_device_id = [], rvs_name = [], rvs_volume = 0\<rparr>"

definition remote_volume_set_payload_fields :: "remote_volume_set_payload field list" where
  "remote_volume_set_payload_fields =
     [(''deviceId'', fld dec_str rvs_device_id rvs_device_id_update),
      (''name'', fld dec_str rvs_name rvs_name_update),
      (''volume'', fld dec_int rvs_volume rvs_volume_update)]"

definition dec_remote_volume_set_payload :: "json \<Rightarrow> remote_volume_set_payload \<Rightarrow> remote_volume_set_payload option" where
  "dec_remote_volume_set_payload j = dec_struct (dec_fields remote_volume_set_payload_fields) j"

record remote_volume_mute_payload =
  rvm_device_id :: string
  rvm_name :: string
  rvm_muted :: bool

definition zero_remote_volume_mute_payload :: remote_volume_mute_payload where
  "zero_remote_volume_mute_payload = \<lparr>rvm_device_id = [], rvm_name = [], rvm_muted = False\<rparr>"

definition remote_volume_mute_payload_fields :: "remote_volume_mute_payload field list" where
  "remote_volume_mute_payload_fields =
     [(''deviceId'', fld dec_str rvm_device_id rvm_device_id_update),
      (''name'', fld dec_str rvm_name rvm_name_update),
      (''muted'', fld dec_bool rvm_muted rvm_muted_update)]"

definition dec_remote_volume_mute_payload :: "json \<Rightarrow> remote_volume_mute_payload \<Rightarrow> remote_volume_mute_payload option" where
  "dec_remote_volume_mute_payload j = dec_struct (dec_fields remote_volume_mute_payload_fields) j"

section \<open>The command of a payload that does not decode\<close>

text \<open>\<open>json.Unmarshal\<close> of a payload: the document is missing when the request has none.\<close>

definition payload_as :: "(json \<Rightarrow> 'a \<Rightarrow> 'a option) \<Rightarrow> 'a \<Rightarrow> json option \<Rightarrow> 'a option" where
  "payload_as dec zero raw = unmarshal_raw (\<lambda>j. dec j zero) raw"

end
