(* ===== verification/Ipc.thy ===== *)
theory Ipc
  imports IpcProto "HOL-Library.Multiset" "HOL-Library.Char_ord" "HOL-Library.List_Lexorder"
begin

text \<open>
  \<open>internal/ipc\<close>: the handler with its routes, the prompts, and the server: reading a request,
  the read-only tier, and the life of one connection as a step relation in which the requests of
  a keep-alive connection are answered by workers in any order.

  A route maps a request and the state of the daemon (a type variable) to a response, or \<open>None\<close>
  when it panics, and the new state.  \<open>parse\<close> is the JSON reader on one line.
\<close>

section \<open>Prompts\<close>

record prompt =
  pm_prompt_id :: string
  pm_device_id :: string
  pm_kind :: string
  pm_summary :: string
  pm_options :: "string list"
  pm_default :: string
  pm_expires_at :: gtime

text \<open>A waiter is the prompt and its channel of capacity one; \<open>pending\<close> maps a prompt ID to a waiter.\<close>

record prompt_waiter =
  wt_prompt :: prompt
  wt_choice :: "string option"

record prompt_manager =
  pm_waiters :: "nat \<Rightarrow> prompt_waiter option"
  pm_pending :: "(string \<times> nat) list"
  pm_next :: nat

definition NewPromptManager :: prompt_manager where
  "NewPromptManager = \<lparr>pm_waiters = Map.empty, pm_pending = [], pm_next = 0\<rparr>"

text \<open>
  \<open>Ask\<close> up to its \<open>select\<close>: without an explicit subscriber the default is the answer, otherwise the
  prompt is published and the caller waits on its waiter.
\<close>

definition Ask_begin :: "bool \<Rightarrow> prompt \<Rightarrow> prompt_manager \<Rightarrow> (string + nat) \<times> prompt_manager" where
  "Ask_begin has_subscribers p m =
     (if \<not> has_subscribers then (Inl (pm_default p), m)
      else (Inr (pm_next m),
            m\<lparr>pm_waiters := (pm_waiters m)(pm_next m \<mapsto> \<lparr>wt_prompt = p, wt_choice = None\<rparr>),
              pm_pending := AList.update (pm_prompt_id p) (pm_next m) (pm_pending m),
              pm_next := Suc (pm_next m)\<rparr>))"

text \<open>The \<open>select\<close> takes the choice if there is one, or the timer or the context ends the wait.\<close>

datatype ask_wakeup = GotChoice | TimerFired | ContextDone

definition Ask_select :: "ask_wakeup \<Rightarrow> nat \<Rightarrow> prompt_manager \<Rightarrow> (string \<times> prompt_manager) option" where
  "Ask_select ev w m =
     (case pm_waiters m w of
        None \<Rightarrow> None
      | Some wt \<Rightarrow>
          if ev = GotChoice
          then (case wt_choice wt of
                  None \<Rightarrow> None
                | Some c \<Rightarrow> Some (c, m\<lparr>pm_waiters := (pm_waiters m)(w \<mapsto> wt\<lparr>wt_choice := None\<rparr>)\<rparr>))
          else Some (pm_default (wt_prompt wt), m))"

text \<open>The deferred clean-up deletes whatever waiter the prompt ID has by then.\<close>

definition Ask_cleanup :: "nat \<Rightarrow> prompt_manager \<Rightarrow> prompt_manager" where
  "Ask_cleanup w m =
     (case pm_waiters m w of
        None \<Rightarrow> m
      | Some wt \<Rightarrow> m\<lparr>pm_pending := AList.delete (pm_prompt_id (wt_prompt wt)) (pm_pending m)\<rparr>)"

definition Respond :: "string \<Rightarrow> string \<Rightarrow> prompt_manager \<Rightarrow> bool \<times> prompt_manager" where
  "Respond promptID choice m =
     (case map_of (pm_pending m) promptID of
        None \<Rightarrow> (False, m)
      | Some w \<Rightarrow>
          (case pm_waiters m w of
             None \<Rightarrow> (False, m)
           | Some wt \<Rightarrow>
               if choice \<notin> set (pm_options (wt_prompt wt)) then (False, m)
               else if wt_choice wt \<noteq> None then (False, m)
               else (True, m\<lparr>pm_waiters := (pm_waiters m)(w \<mapsto> wt\<lparr>wt_choice := Some choice\<rparr>)\<rparr>)))"

definition Pending :: "prompt_manager \<Rightarrow> prompt list" where
  "Pending m = List.map_filter (\<lambda>(i, w). map_option wt_prompt (pm_waiters m w)) (pm_pending m)"

section \<open>The handler\<close>

type_synonym 'w route = "ipc_request \<Rightarrow> 'w \<Rightarrow> ipc_response option \<times> 'w"
type_synonym 'w routes = "(string \<times> 'w route) list"

definition handlePromptRespond :: "json option \<Rightarrow> prompt_manager \<Rightarrow> ipc_response \<times> prompt_manager" where
  "handlePromptRespond payload m =
     (case payload_as dec_prompt_respond_payload zero_prompt_respond_payload payload of
        None \<Rightarrow> (Err CodeInvalidPayload ''invalid prompt response'' [], m)
      | Some p \<Rightarrow>
          if prr_prompt_id p = [] \<or> prr_choice p = []
          then (Err CodeInvalidPayload ''invalid prompt response'' [], m)
          else (let (found, m) = Respond (prr_prompt_id p) (prr_choice p) m
                in (if found then okay
                    else Err CodeDeviceNotFound ''prompt not found'' [(''promptId'', prr_prompt_id p)], m)))"

text \<open>\<open>get\<close> and \<open>put\<close> reach the prompts in the state of the daemon.\<close>

definition NewHandler :: "('w \<Rightarrow> prompt_manager) \<Rightarrow> (prompt_manager \<Rightarrow> 'w \<Rightarrow> 'w) \<Rightarrow> 'w routes" where
  "NewHandler get put =
     [(CmdPromptRespond, \<lambda>req w. let (r, m) = handlePromptRespond (rq_payload req) (get w) in (Some r, put m w))]"

definition RegisterRoute :: "string \<Rightarrow> 'w route \<Rightarrow> 'w routes \<Rightarrow> 'w routes" where
  "RegisterRoute command fn routes = AList.update command fn routes"

definition Commands :: "'w routes \<Rightarrow> string list" where
  "Commands routes = sort (map fst routes)"

definition HandleRequest :: "'w routes \<Rightarrow> ipc_request \<Rightarrow> 'w \<Rightarrow> ipc_response option \<times> 'w" where
  "HandleRequest routes req w =
     (case map_of routes (rq_command req) of
        Some fn \<Rightarrow> fn req w
      | None \<Rightarrow> (Some (Err CodeUnknownCommand ''unknown command'' [(''command'', rq_command req)]), w))"

section \<open>The server\<close>

definition maxIPCLine :: nat where
  "maxIPCLine = 2 ^ 20"

definition readOnlyCommand :: "string \<Rightarrow> bool" where
  "readOnlyCommand command \<longleftrightarrow>
     command \<in> {CmdHello, CmdDevices, CmdStatus, CmdBattery, CmdConnectivity, CmdMprisStatus}"

definition watch_request :: "json option \<Rightarrow> watch_payload option" where
  "watch_request payload =
     (case payload of None \<Rightarrow> Some zero_watch_payload | Some j \<Rightarrow> dec_watch_payload j zero_watch_payload)"

definition watchIsReadOnly :: "json option \<Rightarrow> bool" where
  "watchIsReadOnly payload =
     (case watch_request payload of
        None \<Rightarrow> False
      | Some p \<Rightarrow> \<not> list_ex (\<lambda>typ. typ = TypeSMSIncoming \<or> typ = TypeSMSAttachment \<or> typ = TypePrompt) (wp_events p))"

text \<open>
  The rest of the stream after one line, \<open>None\<close> when the read fails: the stream ends (or its
  deadline passes) before the newline, or the line is too long.  \<open>ReadBytes\<close> collects the whole
  line before its length is looked at.
\<close>

definition line_length :: "string \<Rightarrow> nat" where
  "line_length s = length (takeWhile (\<lambda>c. c \<noteq> CHR 0x0A) s)"

definition readIPCLine :: "string \<Rightarrow> (string \<times> string) option" where
  "readIPCLine s =
     (if line_length s = length s then None
      else if line_length s + 1 > maxIPCLine then None
      else Some (take (line_length s + 1) s, drop (line_length s + 1) s))"

type_synonym parse_line = "string \<Rightarrow> json option"

definition read_request :: "parse_line \<Rightarrow> string \<Rightarrow> ipc_request option" where
  "read_request parse line = unmarshal_raw (\<lambda>j. dec_ipc_request j zero_ipc_request) (parse line)"

definition with_id :: "json option \<Rightarrow> ipc_response \<Rightarrow> ipc_response" where
  "with_id i r = r\<lparr>rs_id := i\<rparr>"

text \<open>One request: the read-only tier, the route, and the recovery from a panic.\<close>

definition answer :: "bool \<Rightarrow> 'w routes \<Rightarrow> ipc_request \<Rightarrow> 'w \<Rightarrow> ipc_response \<times> 'w" where
  "answer readOnly routes req w =
     (if readOnly \<and> \<not> readOnlyCommand (rq_command req)
      then (with_id (rq_id req)
              (Err CodePermissionDenied ''command is not available on read-only socket'' [(''command'', rq_command req)]), w)
      else (let (r, w) = HandleRequest routes req w
            in (with_id (rq_id req) (case r of Some r \<Rightarrow> r | None \<Rightarrow> Err CodeInternal ''internal error'' []), w)))"

definition hello_keeps_alive :: "ipc_request \<Rightarrow> bool" where
  "hello_keeps_alive req \<longleftrightarrow>
     rq_command req = CmdHello \<and> rq_payload req \<noteq> None \<and>
     (case payload_as dec_hello_payload zero_hello_payload (rq_payload req) of
        None \<Rightarrow> False | Some p \<Rightarrow> hp_keep_alive p)"

section \<open>A connection\<close>

text \<open>
  The unread input, the requests the workers still hold, what was written, and the state of the
  daemon.  \<open>cn_watching\<close> holds the payload once the connection turned into a watch, which is \<open>IpcWatch\<close>.
\<close>

datatype conn_phase = FirstRequest | KeepAlive | Draining | Closed

record 'w conn =
  cn_input :: string
  cn_phase :: conn_phase
  cn_workers :: "ipc_request list"
  cn_out :: "ipc_response list"
  cn_world :: 'w
  cn_watching :: "json option option"

definition open_conn :: "string \<Rightarrow> 'w \<Rightarrow> 'w conn" where
  "open_conn input w =
     \<lparr>cn_input = input, cn_phase = FirstRequest, cn_workers = [], cn_out = [], cn_world = w,
      cn_watching = None\<rparr>"

definition write_response :: "ipc_response \<Rightarrow> 'w conn \<Rightarrow> 'w conn" where
  "write_response r c = c\<lparr>cn_out := cn_out c @ [r]\<rparr>"

definition serve :: "bool \<Rightarrow> 'w routes \<Rightarrow> ipc_request \<Rightarrow> 'w conn \<Rightarrow> 'w conn" where
  "serve readOnly routes req c =
     (let (r, w) = answer readOnly routes req (cn_world c)
      in c\<lparr>cn_out := cn_out c @ [r], cn_world := w\<rparr>)"

definition first_request :: "bool \<Rightarrow> 'w routes \<Rightarrow> parse_line \<Rightarrow> 'w conn \<Rightarrow> 'w conn" where
  "first_request readOnly routes parse c =
     (case readIPCLine (cn_input c) of
        None \<Rightarrow> c\<lparr>cn_phase := Closed\<rparr>
      | Some (line, rest) \<Rightarrow>
          (let c = c\<lparr>cn_input := rest\<rparr>
           in case read_request parse line of
             None \<Rightarrow> write_response (Err CodeInvalidPayload ''malformed request'' [])
                       (c\<lparr>cn_phase := Closed\<rparr>)
           | Some req \<Rightarrow>
               if rq_command req = CmdWatch
               then (if readOnly \<and> \<not> watchIsReadOnly (rq_payload req)
                     then write_response (Err CodePermissionDenied ''read-only socket permits only non-opt-in watch events'' [])
                            (c\<lparr>cn_phase := Closed\<rparr>)
                     else c\<lparr>cn_phase := Closed, cn_watching := Some (rq_payload req)\<rparr>)
               else serve readOnly routes req
                      (c\<lparr>cn_phase := (if hello_keeps_alive req then KeepAlive else Closed)\<rparr>)))"

definition next_request :: "parse_line \<Rightarrow> 'w conn \<Rightarrow> 'w conn" where
  "next_request parse c =
     (case readIPCLine (cn_input c) of
        None \<Rightarrow> c\<lparr>cn_phase := Draining\<rparr>
      | Some (line, rest) \<Rightarrow>
          (let c = c\<lparr>cn_input := rest\<rparr>
           in case read_request parse line of
             None \<Rightarrow> write_response (Err CodeInvalidPayload ''malformed request'' [])
                       (c\<lparr>cn_phase := Draining\<rparr>)
           | Some req \<Rightarrow>
               if rq_command req = CmdWatch
               then write_response
                      (with_id (rq_id req) (Err CodeNotSupported ''watch is not supported on keep-alive connections'' []))
                      c
               else c\<lparr>cn_workers := cn_workers c @ [req]\<rparr>))"

definition run_worker :: "bool \<Rightarrow> 'w routes \<Rightarrow> nat \<Rightarrow> 'w conn \<Rightarrow> 'w conn" where
  "run_worker readOnly routes i c =
     serve readOnly routes (cn_workers c ! i)
       (c\<lparr>cn_workers := take i (cn_workers c) @ drop (Suc i) (cn_workers c)\<rparr>)"

inductive conn_step :: "bool \<Rightarrow> 'w routes \<Rightarrow> parse_line \<Rightarrow> 'w conn \<Rightarrow> 'w conn \<Rightarrow> bool"
  for readOnly routes parse where
  step_first: "cn_phase c = FirstRequest \<Longrightarrow>
    conn_step readOnly routes parse c (first_request readOnly routes parse c)"
| step_next: "cn_phase c = KeepAlive \<Longrightarrow> conn_step readOnly routes parse c (next_request parse c)"
| step_worker: "i < length (cn_workers c) \<Longrightarrow>
    conn_step readOnly routes parse c (run_worker readOnly routes i c)"
| step_close: "cn_phase c = Draining \<Longrightarrow> cn_workers c = [] \<Longrightarrow>
    conn_step readOnly routes parse c (c\<lparr>cn_phase := Closed\<rparr>)"

inductive_cases conn_stepE: "conn_step readOnly routes parse c d"

section \<open>Facts about connections\<close>

lemma readIPCLine_shorter: "readIPCLine s = Some (line, rest) \<Longrightarrow> length rest < length s"
proof -
  have "line_length s \<le> length s" by (simp add: line_length_def length_takeWhile_le)
  then show "readIPCLine s = Some (line, rest) \<Longrightarrow> length rest < length s"
    by (auto simp: readIPCLine_def split: if_splits)
qed

lemma answer_id [simp]: "rs_id (fst (answer ro routes req w)) = rq_id req"
  by (simp add: answer_def with_id_def Let_def split: prod.split)

lemma serve_simps [simp]:
  "cn_input (serve ro routes req c) = cn_input c" "cn_phase (serve ro routes req c) = cn_phase c"
  "cn_workers (serve ro routes req c) = cn_workers c" "cn_watching (serve ro routes req c) = cn_watching c"
  "cn_world (serve ro routes req c) = snd (answer ro routes req (cn_world c))"
  "map rs_id (cn_out (serve ro routes req c)) = map rs_id (cn_out c) @ [rq_id req]"
  using answer_id [of ro routes req "cn_world c"]
  by (cases "answer ro routes req (cn_world c)"; simp add: serve_def)+

lemma serve_ids [simp]:
  "image_mset rs_id (mset (cn_out (serve ro routes req c))) =
     add_mset (rq_id req) (image_mset rs_id (mset (cn_out c)))"
  unfolding mset_map [symmetric] serve_simps by simp

lemma write_response_simps [simp]:
  "cn_input (write_response r c) = cn_input c" "cn_phase (write_response r c) = cn_phase c"
  "cn_workers (write_response r c) = cn_workers c" "cn_watching (write_response r c) = cn_watching c"
  "cn_world (write_response r c) = cn_world c" "cn_out (write_response r c) = cn_out c @ [r]"
  by (simp_all add: write_response_def)

lemma error_ids [simp]: "rs_id (Err c m d) = None" "rs_id (with_id i r) = i"
  by (simp_all add: Err_def zero_ipc_response_def with_id_def)

subsection \<open>The read-only tier\<close>

text \<open>A property of the daemon's state that the routes of the reading commands keep.\<close>

definition reading_keeps :: "'w routes \<Rightarrow> ('w \<Rightarrow> bool) \<Rightarrow> bool" where
  "reading_keeps routes P \<longleftrightarrow>
     (\<forall>command fn req v. readOnlyCommand command \<longrightarrow> map_of routes command = Some fn \<longrightarrow> P v \<longrightarrow> P (snd (fn req v)))"

definition read_only_ok :: "('w \<Rightarrow> bool) \<Rightarrow> 'w conn \<Rightarrow> bool" where
  "read_only_ok P c \<longleftrightarrow> P (cn_world c) \<and> (\<forall>p. cn_watching c = Some p \<longrightarrow> watchIsReadOnly p)"

lemma answer_reading:
  "reading_keeps routes P \<Longrightarrow> P w \<Longrightarrow> P (snd (answer True routes req w))"
  by (auto simp: answer_def HandleRequest_def reading_keeps_def Let_def split: option.splits prod.split) (metis snd_conv)

lemma read_only_ok_step:
  "reading_keeps routes P \<Longrightarrow> read_only_ok P c \<Longrightarrow> conn_step True routes parse c d \<Longrightarrow> read_only_ok P d"
  by (auto simp: read_only_ok_def first_request_def next_request_def run_worker_def answer_reading Let_def
      split: option.splits if_splits elim!: conn_stepE)


lemma newline_line: "readIPCLine [CHR 0x0A] = Some ([CHR 0x0A], [])"
  by (simp add: readIPCLine_def line_length_def maxIPCLine_def)


subsection \<open>One answer for each request\<close>

text \<open>The lines that are read before the stream ends, and the IDs under which they are to be answered.\<close>

function ipc_lines :: "string \<Rightarrow> string list" where
  "ipc_lines s = (case readIPCLine s of None \<Rightarrow> [] | Some (line, rest) \<Rightarrow> line # ipc_lines rest)"
  by pat_completeness auto
termination
  by (relation "measure length") (auto simp: readIPCLine_shorter)

declare ipc_lines.simps [simp del]

lemma ipc_lines_unread: "readIPCLine s = None \<Longrightarrow> ipc_lines s = []"
  by (subst ipc_lines.simps) simp

lemma ipc_lines_read: "readIPCLine s = Some (l, rest) \<Longrightarrow> ipc_lines s = l # ipc_lines rest"
  by (subst ipc_lines.simps) simp

fun due_more :: "parse_line \<Rightarrow> string list \<Rightarrow> json option list" where
  "due_more parse [] = []"
| "due_more parse (l # ls) =
     (case read_request parse l of None \<Rightarrow> [None] | Some req \<Rightarrow> rq_id req # due_more parse ls)"

fun due_first :: "bool \<Rightarrow> parse_line \<Rightarrow> string list \<Rightarrow> json option list" where
  "due_first readOnly parse [] = []"
| "due_first readOnly parse (l # ls) =
     (case read_request parse l of
        None \<Rightarrow> [None]
      | Some req \<Rightarrow>
          if rq_command req = CmdWatch then (if readOnly \<and> \<not> watchIsReadOnly (rq_payload req) then [None] else [])
          else rq_id req # (if hello_keeps_alive req then due_more parse ls else []))"

definition still_due :: "bool \<Rightarrow> parse_line \<Rightarrow> 'w conn \<Rightarrow> json option list" where
  "still_due readOnly parse c =
     (case cn_phase c of
        FirstRequest \<Rightarrow> due_first readOnly parse (ipc_lines (cn_input c))
      | KeepAlive \<Rightarrow> due_more parse (ipc_lines (cn_input c))
      | _ \<Rightarrow> [])"

definition ids_ok :: "bool \<Rightarrow> parse_line \<Rightarrow> json option list \<Rightarrow> 'w conn \<Rightarrow> bool" where
  "ids_ok readOnly parse ids c \<longleftrightarrow>
     mset (map rs_id (cn_out c)) + mset (map rq_id (cn_workers c)) + mset (still_due readOnly parse c) = mset ids \<and>
     (cn_phase c \<in> {FirstRequest, Closed} \<longrightarrow> cn_workers c = [])"

lemma mset_remove_nth: "i < length xs \<Longrightarrow> mset (take i xs @ drop (Suc i) xs) + {#xs ! i#} = mset xs"
  by (subst (4) id_take_nth_drop [of i xs]) simp_all

lemma ids_ok_first:
  assumes "ids_ok ro parse ids c" "cn_phase c = FirstRequest"
  shows "ids_ok ro parse ids (first_request ro routes parse c)"
proof (cases "readIPCLine (cn_input c)")
  case None
  then show ?thesis using assms by (auto simp: ids_ok_def still_due_def first_request_def ipc_lines.simps [of "cn_input c"])
next
  case (Some x)
  then obtain l rest where "readIPCLine (cn_input c) = Some (l, rest)" by (cases x) simp
  then show ?thesis using assms
    by (cases "read_request parse l")
      (auto simp: ids_ok_def still_due_def first_request_def ipc_lines_read Let_def)
qed

lemma ids_ok_next:
  assumes "ids_ok ro parse ids c" "cn_phase c = KeepAlive"
  shows "ids_ok ro parse ids (next_request parse c)"
proof (cases "readIPCLine (cn_input c)")
  case None
  then show ?thesis using assms by (auto simp: ids_ok_def still_due_def next_request_def ipc_lines.simps [of "cn_input c"])
next
  case (Some x)
  then obtain l rest where "readIPCLine (cn_input c) = Some (l, rest)" by (cases x) simp
  then show ?thesis using assms
    by (cases "read_request parse l")
      (auto simp: ids_ok_def still_due_def next_request_def ipc_lines_read Let_def)
qed

lemma ids_ok_worker:
  assumes "ids_ok ro parse ids c" and i: "i < length (cn_workers c)"
  shows "ids_ok ro parse ids (run_worker ro routes i c)"
proof -
  let ?out = "mset (map rs_id (cn_out c))" and ?x = "rq_id (cn_workers c ! i)"
    and ?rest = "mset (map rq_id (take i (cn_workers c) @ drop (Suc i) (cn_workers c)))"
  have "?rest + {#?x#} = mset (map rq_id (cn_workers c))"
    using arg_cong [OF mset_remove_nth [OF i], of "image_mset rq_id"] by simp
  then have "?out + {#?x#} + ?rest + mset (still_due ro parse c) = mset ids"
    using assms(1) unfolding ids_ok_def by (metis add.assoc add.commute)
  moreover have "cn_phase c \<notin> {FirstRequest, Closed}" using assms by (auto simp: ids_ok_def)
  ultimately show ?thesis
    by (simp add: ids_ok_def run_worker_def still_due_def split: conn_phase.splits)
qed

lemma ids_ok_step: "ids_ok ro parse ids c \<Longrightarrow> conn_step ro routes parse c d \<Longrightarrow> ids_ok ro parse ids d"
proof (erule conn_stepE)
  assume "ids_ok ro parse ids c" "d = c\<lparr>cn_phase := Closed\<rparr>" "cn_phase c = Draining" "cn_workers c = []"
  then show ?thesis by (simp add: ids_ok_def still_due_def)
qed (auto intro: ids_ok_first ids_ok_next ids_ok_worker)

interpretation ids_inv: invariant_system "conn_step ro routes parse" "ids_ok ro parse ids" for ro routes parse ids
  by unfold_locales (rule ids_ok_step)

text \<open>
  C15. Every request that is read is answered exactly once: when the connection is over, the IDs of the responses are those that the
  input asks for, even if workers finish in another order.  A request is answered under its own ID; a line that is no request, and a
  watch that the read-only socket refuses, are answered without one, and a watch that is let through answers for itself.
\<close>
theorem requests_answered_once:
  assumes "(conn_step ro routes parse)\<^sup>*\<^sup>* (open_conn input w) c" and "cn_phase c = Closed"
  shows "mset (map rs_id (cn_out c)) = mset (due_first ro parse (ipc_lines input))"
proof -
  have "ids_ok ro parse (due_first ro parse (ipc_lines input)) (open_conn input w)"
    by (simp add: ids_ok_def still_due_def open_conn_def)
  from ids_inv.run_inv [OF assms(1) this] show ?thesis using assms(2) by (auto simp: ids_ok_def still_due_def)
qed

theorem requests_answered_once_witness:
  "mset (map rs_id (cn_out (first_request False [] (\<lambda>_. Some (JObj [(''id'', JStr ''7'')])) (open_conn [CHR 0x0A] ())))) = {#Some (JStr ''7'')#}"
proof -
  let ?p = "\<lambda>_ :: string. Some (JObj [(''id'', JStr ''7'')])"
  let ?c = "open_conn [CHR 0x0A] ()"
  have r: "read_request ?p [CHR 0x0A] = Some \<lparr>rq_command = [], rq_id = Some (JStr ''7''), rq_payload = None\<rparr>"
    by (simp add: read_request_def unmarshal_raw_def dec_ipc_request_def zero_ipc_request_def ipc_request_fields_def
        dec_raw_def dec_fields_def fld_def key_matches_def lower_def)
  have s: "(conn_step False [] ?p)\<^sup>*\<^sup>* ?c (first_request False [] ?p ?c)"
    by (intro r_into_rtranclp step_first) (simp add: open_conn_def)
  have "cn_phase (first_request False [] ?p ?c) = Closed"
    by (simp add: first_request_def open_conn_def newline_line r hello_keeps_alive_def CmdHello_def CmdWatch_def)
  from requests_answered_once [OF s this] show ?thesis
    by (simp add: ipc_lines.simps [of "[CHR 0x0A]"] newline_line r CmdWatch_def hello_keeps_alive_def CmdHello_def)
qed

section \<open>Facts about prompts\<close>

definition choices_ok :: "prompt_manager \<Rightarrow> bool" where
  "choices_ok m \<longleftrightarrow>
     (\<forall>w wt c. pm_waiters m w = Some wt \<longrightarrow> wt_choice wt = Some c \<longrightarrow> c \<in> set (pm_options (wt_prompt wt)))"

inductive prompt_step :: "prompt_manager \<Rightarrow> prompt_manager \<Rightarrow> bool" where
  ps_ask: "Ask_begin b p m = (r, m') \<Longrightarrow> prompt_step m m'"
| ps_select: "Ask_select ev w m = Some (c, m') \<Longrightarrow> prompt_step m m'"
| ps_cleanup: "prompt_step m (Ask_cleanup w m)"
| ps_respond: "Respond i c m = (b, m') \<Longrightarrow> prompt_step m m'"

lemma choices_ok_step: "choices_ok m \<Longrightarrow> prompt_step m m' \<Longrightarrow> choices_ok m'"
  by (erule prompt_step.cases)
    (auto simp: choices_ok_def Ask_begin_def Ask_select_def Ask_cleanup_def Respond_def
      split: option.splits if_splits)

interpretation prompts_inv: invariant_system prompt_step choices_ok
  by unfold_locales (rule choices_ok_step)

text \<open>A prompt is answered with one of its options or with its default, whatever clients send.\<close>
theorem prompt_answers_listed:
  assumes "prompt_step\<^sup>*\<^sup>* NewPromptManager m" and "Ask_select ev w m = Some (answer_text, m')"
    and "pm_waiters m w = Some wt"
  shows "answer_text \<in> insert (pm_default (wt_prompt wt)) (set (pm_options (wt_prompt wt)))"
proof -
  have "choices_ok NewPromptManager" by (simp add: choices_ok_def NewPromptManager_def)
  from prompts_inv.run_inv [OF assms(1) this] show ?thesis
    using assms(2,3) by (auto simp: Ask_select_def choices_ok_def split: option.splits if_splits)
qed

theorem prompt_answers_listed_witness:
  "''no'' \<in> insert ''no'' (set [''yes''])"
proof -
  let ?p = "\<lparr>pm_prompt_id = ''1'', pm_device_id = [], pm_kind = ''pair'', pm_summary = [], pm_options = [''yes''],
    pm_default = ''no'', pm_expires_at = None\<rparr>"
  let ?m = "snd (Ask_begin True ?p NewPromptManager)"
  have step: "prompt_step\<^sup>*\<^sup>* NewPromptManager ?m"
    by (rule r_into_rtranclp) (rule ps_ask [of True ?p _ "fst (Ask_begin True ?p NewPromptManager)"], simp)
  show ?thesis
    using prompt_answers_listed [OF step, of TimerFired 0 "''no''" ?m "\<lparr>wt_prompt = ?p, wt_choice = None\<rparr>"]
    by (simp add: Ask_begin_def Ask_select_def NewPromptManager_def)
qed

end
