(* ===== verification/IpcWatch.thy ===== *)
theory IpcWatch
  imports Ipc DeviceRegistry SmallPlugins
begin

text \<open>
  \<open>internal/ipc/snapshot.go\<close> and \<open>server_watch.go\<close>: the summary of a device, the snapshot of all of
  them, and what a watching client receives: the snapshot, the state of the connected devices,
  the replay of missed events and then the events of its subscription.

  What the plugins supply is given per plugin: the media state with its age, the connectivity,
  the mount point and the events to replay.
\<close>

section \<open>Summaries\<close>

record battery_status =
  bst_charge :: int
  bst_charging :: bool
  bst_battery_age_ms :: int

definition zero_battery_status :: battery_status where
  "zero_battery_status = \<lparr>bst_charge = 0, bst_charging = False, bst_battery_age_ms = 0\<rparr>"

definition enc_battery_status :: "battery_status \<Rightarrow> json" where
  "enc_battery_status x =
     JObj ([(''charge'', enc_int (bst_charge x))]
           @ [(''charging'', JBool (bst_charging x))]
           @ [(''batteryAgeMs'', enc_int (bst_battery_age_ms x))])"

record now_playing =
  npl_player :: string
  npl_title :: string
  npl_artist :: string
  npl_album :: string
  npl_album_art_url :: string
  npl_art_pending :: bool
  npl_url :: string
  npl_length :: int
  npl_pos :: int
  npl_pos_anchor_ms :: int
  npl_is_playing :: bool
  npl_volume :: int
  npl_can_control :: bool
  npl_can_go_next :: bool
  npl_can_go_previous :: bool
  npl_can_pause :: bool
  npl_can_play :: bool
  npl_can_seek :: bool
  npl_playback_status :: string
  npl_shuffle :: "bool option"
  npl_loop_status :: string

definition zero_now_playing :: now_playing where
  "zero_now_playing = \<lparr>npl_player = [], npl_title = [], npl_artist = [], npl_album = [], npl_album_art_url = [], npl_art_pending = False, npl_url = [], npl_length = 0, npl_pos = 0, npl_pos_anchor_ms = 0, npl_is_playing = False, npl_volume = 0, npl_can_control = False, npl_can_go_next = False, npl_can_go_previous = False, npl_can_pause = False, npl_can_play = False, npl_can_seek = False, npl_playback_status = [], npl_shuffle = None, npl_loop_status = []\<rparr>"

definition now_playing_fields :: "now_playing field list" where
  "now_playing_fields =
     [(''player'', fld dec_str npl_player npl_player_update),
      (''title'', fld dec_str npl_title npl_title_update),
      (''artist'', fld dec_str npl_artist npl_artist_update),
      (''album'', fld dec_str npl_album npl_album_update),
      (''albumArtUrl'', fld dec_str npl_album_art_url npl_album_art_url_update),
      (''artPending'', fld dec_bool npl_art_pending npl_art_pending_update),
      (''url'', fld dec_str npl_url npl_url_update),
      (''length'', fld dec_int npl_length npl_length_update),
      (''pos'', fld dec_int npl_pos npl_pos_update),
      (''posAnchorMs'', fld dec_int npl_pos_anchor_ms npl_pos_anchor_ms_update),
      (''isPlaying'', fld dec_bool npl_is_playing npl_is_playing_update),
      (''volume'', fld dec_int npl_volume npl_volume_update),
      (''canControl'', fld dec_bool npl_can_control npl_can_control_update),
      (''canGoNext'', fld dec_bool npl_can_go_next npl_can_go_next_update),
      (''canGoPrevious'', fld dec_bool npl_can_go_previous npl_can_go_previous_update),
      (''canPause'', fld dec_bool npl_can_pause npl_can_pause_update),
      (''canPlay'', fld dec_bool npl_can_play npl_can_play_update),
      (''canSeek'', fld dec_bool npl_can_seek npl_can_seek_update),
      (''playbackStatus'', fld dec_str npl_playback_status npl_playback_status_update),
      (''shuffle'', fld (dec_opt dec_bool False) npl_shuffle npl_shuffle_update),
      (''loopStatus'', fld dec_str npl_loop_status npl_loop_status_update)]"

definition dec_now_playing :: "json \<Rightarrow> now_playing \<Rightarrow> now_playing option" where
  "dec_now_playing j = dec_struct (dec_fields now_playing_fields) j"

definition enc_now_playing :: "now_playing \<Rightarrow> json" where
  "enc_now_playing x =
     JObj ([(''player'', JStr (npl_player x))]
           @ [(''title'', JStr (npl_title x))]
           @ [(''artist'', JStr (npl_artist x))]
           @ [(''album'', JStr (npl_album x))]
           @ [(''albumArtUrl'', JStr (npl_album_art_url x))]
           @ omit (\<not> npl_art_pending x) ''artPending'' (JBool (npl_art_pending x))
           @ omit (npl_url x = []) ''url'' (JStr (npl_url x))
           @ [(''length'', enc_int (npl_length x))]
           @ [(''pos'', enc_int (npl_pos x))]
           @ omit (npl_pos_anchor_ms x = 0) ''posAnchorMs'' (enc_int (npl_pos_anchor_ms x))
           @ [(''isPlaying'', JBool (npl_is_playing x))]
           @ [(''volume'', enc_int (npl_volume x))]
           @ [(''canControl'', JBool (npl_can_control x))]
           @ [(''canGoNext'', JBool (npl_can_go_next x))]
           @ [(''canGoPrevious'', JBool (npl_can_go_previous x))]
           @ [(''canPause'', JBool (npl_can_pause x))]
           @ [(''canPlay'', JBool (npl_can_play x))]
           @ [(''canSeek'', JBool (npl_can_seek x))]
           @ [(''playbackStatus'', JStr (npl_playback_status x))]
           @ (case npl_shuffle x of None \<Rightarrow> [] | Some v \<Rightarrow> [(''shuffle'', JBool v)])
           @ omit (npl_loop_status x = []) ''loopStatus'' (JStr (npl_loop_status x)))"

record media_state =
  mst_now_playing :: now_playing
  mst_media_age_ms :: int

record sftp_mount_state =
  sms_mounted :: bool
  sms_mount_point :: string

record device_summary =
  dsm_info :: device_info
  dsm_battery :: "battery_status option"
  dsm_media :: "media_state option"
  dsm_signal :: "connectivity_body option"
  dsm_sftp :: "sftp_mount_state option"

text \<open>A plugin without an interface supplies nothing.\<close>

record supplier =
  su_media :: "string \<Rightarrow> (json \<times> duration) option"
  su_connectivity :: "string \<Rightarrow> json option"
  su_mounted_path :: "string \<Rightarrow> string"
  su_replay :: "string \<Rightarrow> json event list"

text \<open>\<open>Duration.Milliseconds\<close> divides towards zero.\<close>

definition milliseconds :: "duration \<Rightarrow> int" where
  "milliseconds d = (if d < 0 then - (- d div millisecond) else d div millisecond)"

definition add_supplied :: "string \<Rightarrow> supplier \<Rightarrow> device_summary \<Rightarrow> device_summary" where
  "add_supplied i su ds =
     (let ds = (case su_media su i of
                  None \<Rightarrow> ds
                | Some (state, age) \<Rightarrow>
                    (case dec_now_playing state zero_now_playing of
                       None \<Rightarrow> ds
                     | Some np \<Rightarrow> ds\<lparr>dsm_media := Some \<lparr>mst_now_playing = np, mst_media_age_ms = milliseconds age\<rparr>\<rparr>));
          ds = (case su_connectivity su i of
                  None \<Rightarrow> ds
                | Some state \<Rightarrow>
                    (case dec_connectivity (Some state) of None \<Rightarrow> ds | Some sig \<Rightarrow> ds\<lparr>dsm_signal := Some sig\<rparr>))
      in if su_mounted_path su i \<noteq> []
         then ds\<lparr>dsm_sftp := Some \<lparr>sms_mounted = True, sms_mount_point = su_mounted_path su i\<rparr>\<rparr> else ds)"

definition summary_info :: "int \<Rightarrow> device \<Rightarrow> device_info" where
  "summary_info now d =
     \<lparr>di_id = dv_id d, di_name = dv_name d, di_type = dv_type d, di_state = dv_state d, di_cert_fp = [],
      di_last_seen = (if IsConnected d then Some now else dv_last_seen d), di_connected = IsConnected d,
      di_last_ip = [], di_last_port = 0\<rparr>"

definition SummarizeDevice :: "int \<Rightarrow> supplier list \<Rightarrow> device \<Rightarrow> device_summary" where
  "SummarizeDevice now plugins d =
     (let ds = \<lparr>dsm_info = summary_info now d,
                dsm_battery =
                  (if HasBattery d
                   then Some \<lparr>bst_charge = fst (GetBattery d), bst_charging = snd (GetBattery d),
                              bst_battery_age_ms = milliseconds (BatteryAge now d)\<rparr>
                   else None),
                dsm_media = None, dsm_signal = None, dsm_sftp = None\<rparr>
      in fold (add_supplied (dv_id d)) plugins ds)"

definition BuildSnapshot :: "int \<Rightarrow> supplier list \<Rightarrow> registry option \<Rightarrow> device_summary list" where
  "BuildSnapshot now plugins devices =
     (case devices of
        None \<Rightarrow> []
      | Some rg \<Rightarrow> map (\<lambda>r. SummarizeDevice now plugins (dev_at rg r)) (reg_List rg))"

section \<open>Watching\<close>

datatype watch_message =
    WatchResponse ipc_response
  | WatchSnapshot int "device_summary list"
  | WatchConnected int string string string
  | WatchBattery int string int bool int
  | WatchReplayed "json event"
  | WatchGap nat
  | WatchEvent "json event"

text \<open>The state of one connected device: its connection, its battery, and what plugins replay.\<close>

definition device_dump :: "int \<Rightarrow> supplier list \<Rightarrow> device \<Rightarrow> watch_message list" where
  "device_dump now plugins d =
     WatchConnected now (dv_id d) (dv_name d) (dv_type d)
     # (if HasBattery d
        then [WatchBattery now (dv_id d) (fst (GetBattery d)) (snd (GetBattery d)) (milliseconds (BatteryAge now d))]
        else [])
     @ map WatchReplayed (concat (map (\<lambda>su. su_replay su (dv_id d)) plugins))"

definition watch_prelude :: "int \<Rightarrow> supplier list \<Rightarrow> registry \<Rightarrow> watch_message list" where
  "watch_prelude now plugins rg =
     WatchResponse okay
     # WatchSnapshot now (BuildSnapshot now plugins (Some rg))
     # concat (map (\<lambda>r. device_dump now plugins (dev_at rg r)) (reg_Connected rg))"

text \<open>\<open>json.Unmarshal\<close> of the payload drops its error: what was decoded before it counts.\<close>

definition watch_payload_of :: "json option \<Rightarrow> watch_payload" where
  "watch_payload_of payload = dec_lenient (dec_fields watch_payload_fields) payload zero_watch_payload"

text \<open>The subscription, and the replay that follows it on the same bus or a later one.\<close>

definition watch_subscribe :: "watch_payload \<Rightarrow> json bus \<Rightarrow> nat \<times> json bus" where
  "watch_subscribe p b = Subscribe (int WatchSubscriberCap) (wp_events p) b"

definition watch_replay :: "watch_payload \<Rightarrow> json bus \<Rightarrow> watch_message list" where
  "watch_replay p b =
     (if wp_since p = 0 then []
      else let (replay, gap) = EventsSince (wp_since p) (wp_events p) b
           in (if gap then [WatchGap (wp_since p)] else []) @ map WatchEvent replay)"

text \<open>
  All that a client has been sent once \<open>received\<close> events were read from its channel.  A failing
  write ends the connection, so the client sees a prefix of it.
\<close>

definition handleWatch ::
  "int \<Rightarrow> supplier list \<Rightarrow> registry \<Rightarrow> json option \<Rightarrow> json bus option \<Rightarrow> json event list \<Rightarrow> watch_message list" where
  "handleWatch now plugins rg payload bus received =
     (case bus of
        None \<Rightarrow> [WatchResponse (FailWith ''event bus not enabled'')]
      | Some b \<Rightarrow>
          watch_prelude now plugins rg @ watch_replay (watch_payload_of payload) b @ map WatchEvent received)"

section \<open>Facts\<close>

lemma watch_payload_agrees:
  "watch_request payload = Some p \<Longrightarrow> watch_payload_of payload = p"
proof (cases payload)
  case (Some j)
  then show "watch_request payload = Some p \<Longrightarrow> ?thesis"
    unfolding watch_payload_of_def
    by (intro dec_lenient_ok) (simp add: watch_request_def dec_watch_payload_def unmarshal_raw_def)
qed (simp add: watch_request_def watch_payload_of_def)

lemma read_only_filters:
  assumes "watchIsReadOnly payload" and "matchesFilters typ (wp_events (watch_payload_of payload))"
  shows "typ \<notin> set OptInOnly"
  using assms watch_payload_agrees [of payload]
  by (auto simp: watchIsReadOnly_def matchesFilters_def isOptInOnly_def OptInOnly_def list_ex_iff
      split: option.splits if_splits)

lemma EventsSince_matching:
  "ev \<in> set (fst (EventsSince since fs b)) \<Longrightarrow> matchesFilters (ev_type ev) fs"
  by (auto simp: EventsSince_def split: list.splits if_splits)

lemma replay_matching:
  "WatchEvent ev \<in> set (watch_replay p b) \<Longrightarrow> matchesFilters (ev_type ev) (wp_events p)"
  by (rule EventsSince_matching [of _ "wp_since p" _ b]) (auto simp: watch_replay_def split_def Let_def split: if_splits)

lemma bus_step_filters:
  assumes "i \<le> bus_next_id b" and "bus_subs (bus_step op b) i = Some s'"
  shows "i \<le> bus_next_id (bus_step op b) \<and> (\<exists>s. bus_subs b i = Some s \<and> sb_filters s' = sb_filters s)"
  using assms
  by (cases op) (auto simp: kcd_defs Let_def deliver_def split: option.splits list.splits if_splits)

lemma bus_step_next: "i \<le> bus_next_id b \<Longrightarrow> i \<le> bus_next_id (bus_step op b)"
  by (cases op) (auto simp: kcd_defs Let_def split: option.splits list.splits)

lemma bus_run_filters:
  "i \<le> bus_next_id b \<Longrightarrow> bus_subs (bus_run ops b) i = Some s' \<Longrightarrow>
     \<exists>s. bus_subs b i = Some s \<and> sb_filters s' = sb_filters s"
proof (induction ops arbitrary: b)
  case (Cons op ops)
  then obtain s where "bus_subs (bus_step op b) i = Some s" "sb_filters s' = sb_filters s"
    using bus_step_next [OF Cons.prems(1), of op] by fastforce
  then show ?case using bus_step_filters [OF Cons.prems(1), of op s] by auto
qed simp

lemma watch_subscribe_sub:
  "watch_subscribe p b = (i, b') \<Longrightarrow>
     bus_subs b' i = Some \<lparr>sb_filters = wp_events p, sb_cap = 256, sb_queue = []\<rparr> \<and> i \<le> bus_next_id b' \<and>
     bus_seq b' = bus_seq b \<and> bus_ring b' = bus_ring b"
  by (auto simp: watch_subscribe_def Subscribe_def notifyChange_def Let_def WatchSubscriberCap_def)

text \<open>
  C18. A watch that the read-only socket lets through never carries message bodies, attachments or
  prompts: neither its replay nor anything its channel ever holds is of an opt-in type.
\<close>
theorem read_only_watch_no_secrets:
  assumes "watchIsReadOnly payload" and "p = watch_payload_of payload"
    and "watch_subscribe p (bus_run ops NewBus) = (i, b)" and "bus_subs (bus_run later b) i = Some s"
    and "WatchEvent ev \<in> set (watch_replay p (bus_run later b)) \<or> ev \<in> set (sb_queue s)"
  shows "ev_type ev \<notin> set OptInOnly"
proof -
  note sub = watch_subscribe_sub [OF assms(3)]
  have filters: "sb_filters s = wp_events p"
    using bus_run_filters [of i b later s] sub assms(4) by auto
  have "b = bus_step (OpSubscribe (int WatchSubscriberCap) (wp_events p)) (bus_run ops NewBus)"
    using assms(3) by (simp add: watch_subscribe_def)
  then have "bus_ok (bus_run later b)"
    using bus_run_ok [OF bus_run_ok [OF bus_ok_NewBus, of ops], of "[OpSubscribe (int WatchSubscriberCap) (wp_events p)]"]
    by (auto intro: bus_run_ok)
  then have "sub_ok (bus_seq (bus_run later b)) s" using assms(4) by (auto simp: bus_ok_def)
  then have "matchesFilters (ev_type ev) (wp_events p)"
    using assms(5) filters by (auto simp: sub_ok_def matches_eq dest: replay_matching)
  then show ?thesis using read_only_filters [OF assms(1)] assms(2) by simp
qed

section \<open>Resuming a watch\<close>

text \<open>Events published while a channel has room.\<close>

lemma publish_delivers:
  assumes "\<forall>op \<in> set ops. \<exists>t d p now. op = OpPublish t d p now" and "bus_subs b i = Some s"
    and "length (sb_queue s) + length (filter (\<lambda>ev. matches s (ev_type ev)) (published ops (bus_seq b))) \<le> sb_cap s"
  shows "bus_subs (bus_run ops b) i =
    Some (s\<lparr>sb_queue := sb_queue s @ filter (\<lambda>ev. matches s (ev_type ev)) (published ops (bus_seq b))\<rparr>)"
  using assms
proof (induction ops arbitrary: b s)
  case (Cons op ops)
  obtain t d p now where op: "op = OpPublish t d p now" using Cons.prems(1) by auto
  let ?ev = "\<lparr>ev_seq = Suc (bus_seq b), ev_type = t, ev_time = now, ev_device = d, ev_payload = p\<rparr>"
  let ?b = "bus_step op b"
  have sub: "bus_subs ?b i = Some (deliver ?ev s)" and seq: "bus_seq ?b = Suc (bus_seq b)"
    using Cons.prems(2) by (simp_all add: op Publish_def Let_def)
  have pub: "published (op # ops) (bus_seq b) = ?ev # published ops (Suc (bus_seq b))" by (simp add: op)
  have d: "deliver ?ev s = (if matches s t then s\<lparr>sb_queue := sb_queue s @ [?ev]\<rparr> else s)"
    using Cons.prems(3) unfolding pub by (simp add: deliver_def split: if_splits)
  have "bus_subs (bus_run ops ?b) i = Some ((deliver ?ev s)\<lparr>sb_queue := sb_queue (deliver ?ev s)
      @ filter (\<lambda>ev. matches (deliver ?ev s) (ev_type ev)) (published ops (bus_seq ?b))\<rparr>)"
    by (rule Cons.IH [OF _ sub]) (use Cons.prems in \<open>auto simp: pub seq d split: if_splits\<close>)
  then show ?case by (simp add: pub seq d)
qed simp

lemma published_append: "published (xs @ ys) n = published xs n @ published ys (bus_seq (bus_run xs b))"
  if "bus_seq b = n" for b :: "'p bus"
  using that
proof (induction xs arbitrary: n b)
  case (Cons op xs)
  show ?case
  proof (cases "\<exists>t d p now. op = OpPublish t d p now")
    case True
    then obtain t d p now where op: "op = OpPublish t d p now" by blast
    have "bus_seq (bus_step op b) = Suc n" using Cons.prems by (simp add: op Publish_def Let_def)
    from Cons.IH [OF this] show ?thesis by (simp add: op)
  next
    case False
    then have no: "\<And>t d p now. op \<noteq> OpPublish t d p now" by blast
    then have "published (op # zs) n = published zs n" for zs by (cases op) auto
    moreover have "bus_seq (bus_step op b) = n" using bus_seq_step [OF no, of b] Cons.prems by simp
    ultimately show ?thesis using Cons.IH [of "bus_step op b" n] by simp
  qed
qed simp

text \<open>
  C17. A resumed watch misses nothing: a client that reconnects with the last sequence number it saw and is told of no gap gets, in
  order, every matching event of the history after that number up to the replay, then every matching event published since its
  subscription (of which at most 256 wait before it reads its channel).  So the only events that come twice are those published
  between the subscription and the replay, two separate calls of the handler.
\<close>
theorem resumed_watch_complete:
  assumes "watch_subscribe p (bus_run ops NewBus) = (i, b)"
    and "0 < wp_since p" and "wp_since p + 1 < 2 ^ 64"
    and "\<not> snd (EventsSince (wp_since p) (wp_events p) (bus_run between b))"
    and "\<forall>op \<in> set (between @ later). \<exists>t d x now. op = OpPublish t d x now"
    and "length (filter (\<lambda>ev. matchesFilters (ev_type ev) (wp_events p)) (published (between @ later) (bus_seq b))) \<le> 256"
  shows "\<exists>s. bus_subs (bus_run (between @ later) b) i = Some s \<and>
    watch_replay p (bus_run between b) @ map WatchEvent (sb_queue s) =
      map WatchEvent (filter (\<lambda>ev. wp_since p < ev_seq ev \<and> matchesFilters (ev_type ev) (wp_events p)) (published (ops @ between) 0)
        @ filter (\<lambda>ev. matchesFilters (ev_type ev) (wp_events p))
            (drop (length (published ops 0)) (published (ops @ between @ later) 0)))"
proof -
  let ?fs = "wp_events p" and ?h = "published ops 0" and ?g = "published between (bus_seq b)"
    and ?l = "published (between @ later) (bus_seq b)"
  let ?s = "\<lparr>sb_filters = ?fs, sb_cap = 256, sb_queue = []\<rparr>"
  note sub = watch_subscribe_sub [OF assms(1)]
  have log: "log_ok ?h b" using log_ok_history [of ops] sub by (simp add: log_ok_def)
  have seq: "bus_seq (bus_run ops NewBus) = bus_seq b" using sub by simp
  have app: "published (ops @ xs) 0 = ?h @ published xs (bus_seq b)" for xs
    using published_append [of NewBus 0 ops xs] seq by (simp add: NewBus_def)
  have "log_ok (?h @ ?g) (bus_run between b)" using log_ok_run [OF log] .
  from EventsSince_no_gap [OF this assms(2,3,4)]
  have replay: "watch_replay p (bus_run between b) =
      map WatchEvent (filter (\<lambda>ev. wp_since p < ev_seq ev \<and> matchesFilters (ev_type ev) ?fs) (?h @ ?g))"
    using assms(2,4) by (simp add: watch_replay_def split_def Let_def)
  have m: "matches ?s x = matchesFilters x ?fs" for x by (simp add: matches_eq)
  have "bus_subs (bus_run (between @ later) b) i = Some (?s\<lparr>sb_queue := filter (\<lambda>ev. matchesFilters (ev_type ev) ?fs) ?l\<rparr>)"
    using publish_delivers [OF assms(5), of b i ?s] sub assms(6) by (simp add: m)
  then show ?thesis using replay app [of between] app [of "between @ later"] by simp
qed

theorem resumed_watch_complete_witness:
  "\<exists>i b s. watch_subscribe (zero_watch_payload\<lparr>wp_since := 1\<rparr>)
      (bus_run [OpPublish ''ping.received'' ''d'' JNull 5] NewBus) = (i, b) \<and>
    bus_subs (bus_run ([OpPublish ''ping.received'' ''d'' JNull 6] @ [OpPublish ''ping.received'' ''d'' JNull 7]) b) i = Some s"
proof -
  let ?p = "zero_watch_payload\<lparr>wp_since := 1\<rparr>" and ?b = "bus_run [OpPublish ''ping.received'' ''d'' JNull 5] NewBus"
    and ?g = "[OpPublish ''ping.received'' ''d'' JNull 6]" and ?l = "[OpPublish ''ping.received'' ''d'' JNull 7]"
  obtain i b where sub: "watch_subscribe ?p ?b = (i, b)" by fastforce
  have ring: "bus_ring b = bus_ring ?b" "bus_seq b = bus_seq ?b" using watch_subscribe_sub [OF sub] by simp_all
  have gap: "\<not> snd (EventsSince (wp_since ?p) (wp_events ?p) (bus_run ?g b))"
    using ring by (simp add: EventsSince_def Publish_def NewBus_def Let_def eventReplayCapacity_def)
  have len: "length (filter P (published (?g @ ?l) n)) \<le> 256" for P n
    using length_filter_le [of P "published (?g @ ?l) n"] by simp
  have "0 < wp_since ?p" "wp_since ?p + 1 < 2 ^ 64" by simp_all
  moreover have "\<forall>op \<in> set (?g @ ?l). \<exists>t d x now. op = OpPublish t d x now" by simp
  ultimately show ?thesis
    using resumed_watch_complete [OF sub _ _ gap _ len] sub by blast
qed

theorem read_only_watch_no_secrets_witness:
  "''ping.received'' \<notin> set OptInOnly"
proof -
  let ?b = "bus_run [] NewBus :: json bus"
  have sub: "watch_subscribe zero_watch_payload ?b = (fst (watch_subscribe zero_watch_payload ?b), snd (watch_subscribe zero_watch_payload ?b))"
    by simp
  note facts = watch_subscribe_sub [OF sub]
  let ?s = "\<lparr>sb_filters = [], sb_cap = 256, sb_queue = []\<rparr> :: json subscriber"
  have z: "wp_events zero_watch_payload = []" by (simp add: zero_watch_payload_def)
  have q: "bus_subs (bus_run [OpPublish ''ping.received'' ''d'' JNull 5] (snd (watch_subscribe zero_watch_payload ?b)))
      (fst (watch_subscribe zero_watch_payload ?b)) =
    Some (deliver \<lparr>ev_seq = Suc (bus_seq (snd (watch_subscribe zero_watch_payload ?b))), ev_type = ''ping.received'',
      ev_time = 5, ev_device = ''d'', ev_payload = JNull\<rparr> ?s)"
    using facts z by (simp add: Publish_def Let_def)
  have ro: "watchIsReadOnly None" by (simp add: watchIsReadOnly_def watch_request_def z)
  have p: "zero_watch_payload = watch_payload_of None" by (simp add: watch_payload_of_def)
  show ?thesis
    using read_only_watch_no_secrets [OF ro p sub q, of "\<lparr>ev_seq = Suc (bus_seq (snd (watch_subscribe zero_watch_payload ?b))),
        ev_type = ''ping.received'', ev_time = 5, ev_device = ''d'', ev_payload = JNull\<rparr>"]
    by (simp add: deliver_def matches_def isOptInOnly_def TypeSMSIncoming_def TypeSMSAttachment_def TypePrompt_def)
qed

end
