(* ===== verification/GoTime.thy ===== *)
theory GoTime
  imports PluginEnv
begin

text \<open>
  \<open>time.Duration.String\<close>: the form in which durations appear in messages and in the values of
  the configuration that clients read.
\<close>

text \<open>\<open>n\<close> digits with leading zeros, and the fraction without its trailing zeros.\<close>

definition pad_digits :: "nat \<Rightarrow> nat \<Rightarrow> string" where
  "pad_digits n v = replicate (n - length (show_nat v)) (CHR ''0'') @ show_nat v"

definition fraction :: "nat \<Rightarrow> nat \<Rightarrow> string" where
  "fraction n v =
     (let ds = rev (dropWhile (\<lambda>c. c = CHR ''0'') (rev (pad_digits n v)))
      in if v = 0 then [] else CHR ''.'' # ds)"

definition scaled :: "nat \<Rightarrow> nat \<Rightarrow> string" where
  "scaled n v = show_nat (v div 10 ^ n) @ fraction n (v mod 10 ^ n)"

text \<open>The micro sign is the two bytes of U+00B5.\<close>

definition duration_String :: "duration \<Rightarrow> string" where
  "duration_String d =
     (let u = nat \<bar>d\<bar>;
          secs = u div 10 ^ 9;
          mins = secs div 60;
          body =
            (if u = 0 then ''0s''
             else if u < 10 ^ 3 then show_nat u @ ''ns''
             else if u < 10 ^ 6 then scaled 3 u @ [char_of (194 :: nat), char_of (181 :: nat)] @ ''s''
             else if u < 10 ^ 9 then scaled 6 u @ ''ms''
             else (if mins \<ge> 60 then show_nat (mins div 60) @ ''h'' else [])
                  @ (if mins > 0 then show_nat (mins mod 60) @ ''m'' else [])
                  @ show_nat (secs mod 60) @ fraction 9 (u mod 10 ^ 9) @ ''s'')
      in if d < 0 then CHR ''-'' # body else body)"

end
