(* ===== verification/ConfigRoutes.thy ===== *)
theory ConfigRoutes
  imports ConfigLoad Ipc GoTime
begin

text \<open>
  The configuration routes of \<open>internal/daemon/ipc_routes.go\<close>: what a client may read, the schema it is
  told, and the few keys it may set.  A set goes into the drop-in file \<open>90-ipc.toml\<close> next to the
  configuration; the running configuration does not change.

  Go iterates over a map in any order, so the order of the requested keys is an argument.
\<close>

section \<open>Reading\<close>

text \<open>The values in the order in which a map is marshalled.\<close>

definition configAPIValues :: "full_config \<Rightarrow> (string \<times> json) list" where
  "configAPIValues c =
     [(''clipboard.receive'', JBool (cb_receive (fc_clipboard c))),
      (''clipboard.send'', JBool (cb_send (fc_clipboard c))),
      (''device_name'', JStr (fc_device_name c)),
      (''device_type'', JStr (fc_device_type c)),
      (''log_level'', JStr (fc_log_level c)),
      (''popups.backend'', JStr (pp_backend (fc_popups c))),
      (''popups.enabled'', JBool (pp_enabled (fc_popups c))),
      (''runcommand.default_timeout'', JStr (duration_String (rc_default_timeout (fc_run_command c)))),
      (''share.accept'', JStr (sh_accept (fc_share c))),
      (''share.text_action'', JStr (sh_text_action (fc_share c))),
      (''share.url_action'', JStr (sh_url_action (fc_share c)))]"

definition schema_entry :: "string \<Rightarrow> string \<Rightarrow> string list \<Rightarrow> bool \<Rightarrow> json" where
  "schema_entry key ty choices at_once =
     JObj ((if choices = [] then [] else [(''enum'', enc_strs choices)])
           @ [(''key'', JStr key), (''live'', JBool at_once), (''type'', JStr ty)])"

definition configAPISchema :: "json list" where
  "configAPISchema =
     [schema_entry ''log_level'' ''string'' [] True,
      schema_entry ''device_name'' ''string'' [] False,
      schema_entry ''device_type'' ''string'' [] False,
      schema_entry ''share.accept'' ''string'' [''always'', ''ask'', ''never''] False,
      schema_entry ''clipboard.receive'' ''bool'' [] False,
      schema_entry ''clipboard.send'' ''bool'' [] False,
      schema_entry ''popups.enabled'' ''bool'' [] False,
      schema_entry ''popups.backend'' ''string'' [''auto'', ''notify-send'', ''dbus'', ''none''] False,
      schema_entry ''ipc.readonly_socket'' ''string'' [] False]"

definition route_config_get :: "full_config \<Rightarrow> json option \<Rightarrow> ipc_response" where
  "route_config_get c payload =
     (case (case payload of None \<Rightarrow> Some zero_config_get_payload
            | Some j \<Rightarrow> dec_config_get_payload j zero_config_get_payload) of
        None \<Rightarrow> Err CodeInvalidPayload ''invalid payload'' []
      | Some p \<Rightarrow>
          jsonOK (JObj (if cg_keys p = [] then configAPIValues c
                        else filter (\<lambda>(k, v). k \<in> set (cg_keys p)) (configAPIValues c))))"

definition route_config_schema :: ipc_response where
  "route_config_schema = jsonOK (JArr configAPISchema)"

definition route_reload :: ipc_response where
  "route_reload =
     jsonOK (enc_reload_response \<lparr>rl_applied = Some [], rl_restart_required = Some [''config reload requires daemon SIGHUP'']\<rparr>)"

section \<open>Writing\<close>

datatype toml_value = TomlValue json | TomlSection "(string \<times> json) list"

datatype set_error = NotWritable string | InvalidValue string | NeedsString string | NeedsBool string

text \<open>\<open>quote\<close> is the verb \<open>%q\<close> of \<open>fmt\<close>, which needs the tables of printable characters.\<close>

fun set_error_text :: "(string \<Rightarrow> string) \<Rightarrow> set_error \<Rightarrow> string" where
  "set_error_text quote (NotWritable key) = ''configuration key '' @ quote key @ '' is not writable through IPC''"
| "set_error_text quote (InvalidValue key) = ''invalid value for '' @ key"
| "set_error_text quote (NeedsString key) = ''configuration key '' @ quote key @ '' requires a string''"
| "set_error_text quote (NeedsBool key) = ''configuration key '' @ quote key @ '' requires a boolean''"

datatype value_kind = StringValue | BoolValue

definition writable_keys :: "(string \<times> value_kind) list" where
  "writable_keys =
     [(''log_level'', StringValue), (''share.accept'', StringValue), (''clipboard.receive'', BoolValue),
      (''clipboard.send'', BoolValue), (''popups.enabled'', BoolValue), (''popups.backend'', StringValue),
      (''runcommand.default_timeout'', StringValue)]"

text \<open>Decoding into \<open>any\<close> makes every number a \<open>float64\<close>, which is the only way a well-formed value fails.\<close>

fun numbers_in_range :: "json \<Rightarrow> bool" where
  "numbers_in_range (JNum lit) \<longleftrightarrow> float_nonzero lit \<noteq> None"
| "numbers_in_range (JArr js) \<longleftrightarrow> list_all numbers_in_range js"
| "numbers_in_range (JObj es) \<longleftrightarrow> list_all (\<lambda>(k, v). numbers_in_range v) es"
| "numbers_in_range _ \<longleftrightarrow> True"

definition is_string :: "json \<Rightarrow> bool" where
  "is_string j = (case j of JStr s \<Rightarrow> True | _ \<Rightarrow> False)"

definition is_boolean :: "json \<Rightarrow> bool" where
  "is_boolean j = (case j of JBool b \<Rightarrow> True | _ \<Rightarrow> False)"

definition check_setting :: "string \<Rightarrow> json \<Rightarrow> set_error option" where
  "check_setting key v =
     (case map_of writable_keys key of
        None \<Rightarrow> Some (NotWritable key)
      | Some kind \<Rightarrow>
          if \<not> numbers_in_range v then Some (InvalidValue key)
          else case kind of
            StringValue \<Rightarrow> if is_string v then None else Some (NeedsString key)
          | BoolValue \<Rightarrow> if is_boolean v then None else Some (NeedsBool key))"

text \<open>\<open>strings.SplitN(key, ".", 2)\<close>: the key has a section when it has a dot.\<close>

definition split_key :: "string \<Rightarrow> (string \<times> string) option" where
  "split_key key =
     (let section = takeWhile (\<lambda>c. c \<noteq> CHR ''.'') key
      in if length section = length key then None else Some (section, drop (length section + 1) key))"

definition put_setting :: "string \<Rightarrow> json \<Rightarrow> (string \<times> toml_value) list \<Rightarrow> (string \<times> toml_value) list" where
  "put_setting key v result =
     (case split_key key of
        None \<Rightarrow> AList.update key (TomlValue v) result
      | Some (section, name) \<Rightarrow>
          (let old = (case map_of result section of Some (TomlSection s) \<Rightarrow> s | _ \<Rightarrow> [])
           in AList.update section (TomlSection (AList.update name v old)) result))"

fun writable_loop :: "(string \<times> json) list \<Rightarrow> (string \<times> toml_value) list \<Rightarrow> set_error + (string \<times> toml_value) list" where
  "writable_loop [] result = Inr result"
| "writable_loop ((key, v) # raw) result =
     (case check_setting key v of Some e \<Rightarrow> Inl e | None \<Rightarrow> writable_loop raw (put_setting key v result))"

definition configAPIWritableValues :: "(string \<times> json) list \<Rightarrow> set_error + (string \<times> toml_value) list" where
  "configAPIWritableValues raw = writable_loop raw []"

definition api_drop_in_path :: "full_config \<Rightarrow> string" where
  "api_drop_in_path c = Join [Dir (fc_config_path c), ''kcd.toml.d'', ''90-ipc.toml'']"

text \<open>
  The drop-in file is the file state; \<open>encode\<close> is the TOML encoder.  There is no response when the
  process dies while it writes.
\<close>

definition route_config_set ::
  "(string \<Rightarrow> string) \<Rightarrow> ((string \<times> toml_value) list \<Rightarrow> string) \<Rightarrow> ((string \<times> json) list \<Rightarrow> (string \<times> json) list)
     \<Rightarrow> nat \<Rightarrow> file_fault \<Rightarrow> json option \<Rightarrow> file_state \<Rightarrow> ipc_response option \<times> file_state" where
  "route_config_set quote encode order n f payload s =
     (case payload_as dec_config_set_payload zero_config_set_payload payload of
        None \<Rightarrow> (Some (Err CodeInvalidPayload ''invalid payload'' []), s)
      | Some p \<Rightarrow>
          (case configAPIWritableValues (order (cs_values p)) of
             Inl e \<Rightarrow> (Some (Err CodePermissionDenied (set_error_text quote e) []), s)
           | Inr values \<Rightarrow>
               (case WriteAPIDropIn (encode values) n f s of
                  (Written, s) \<Rightarrow> (Some okay, s)
                | (FailedAt c, s) \<Rightarrow> (Some (Err CodeInternal ''failed to write configuration'' []), s)
                | (ProcessDied, s) \<Rightarrow> (None, s))))"

section \<open>What a set writes\<close>

text \<open>A setting of a drop-in, found the way the configuration loader finds it.\<close>

definition setting :: "(string \<times> toml_value) list \<Rightarrow> string \<Rightarrow> json option" where
  "setting values key =
     (case split_key key of
        None \<Rightarrow> (case map_of values key of Some (TomlValue v) \<Rightarrow> Some v | _ \<Rightarrow> None)
      | Some (sect, name) \<Rightarrow> (case map_of values sect of Some (TomlSection s) \<Rightarrow> map_of s name | _ \<Rightarrow> None))"

lemma split_key_join: "split_key key = Some (sect, name) \<Longrightarrow> key = sect @ CHR ''.'' # name"
proof -
  assume a: "split_key key = Some (sect, name)"
  then have s: "sect = takeWhile (\<lambda>c. c \<noteq> CHR ''.'') key" "length sect \<noteq> length key"
    and n: "name = drop (length sect + 1) key"
    by (auto simp: split_key_def Let_def split: if_splits)
  have d: "drop (length sect) key = dropWhile (\<lambda>c. c \<noteq> CHR ''.'') key"
    unfolding s(1) by (simp add: dropWhile_eq_drop)
  have ne: "drop (length sect) key \<noteq> []"
    using s by (metis append_Nil2 d takeWhile_dropWhile_id)
  then have "hd (drop (length sect) key) = CHR ''.''" unfolding d using hd_dropWhile by blast
  then have "drop (length sect) key = CHR ''.'' # name"
    using ne n by (metis drop_Suc list.collapse tl_drop Suc_eq_plus1 drop_tl)
  then show "key = sect @ CHR ''.'' # name"
    using s(1) d takeWhile_dropWhile_id by metis
qed

fun kind_ok :: "string \<Rightarrow> toml_value \<Rightarrow> bool" where
  "kind_ok k (TomlValue v) \<longleftrightarrow> k = ''log_level''"
| "kind_ok k (TomlSection s) \<longleftrightarrow> k \<in> {''share'', ''clipboard'', ''popups'', ''runcommand''}"

definition kinds_ok :: "(string \<times> toml_value) list \<Rightarrow> bool" where
  "kinds_ok values \<longleftrightarrow> (\<forall>k v. map_of values k = Some v \<longrightarrow> kind_ok k v)"

lemma kinds_ok_update: "kinds_ok result \<Longrightarrow> kind_ok k v \<Longrightarrow> kinds_ok (AList.update k v result)"
  by (auto simp: kinds_ok_def update_conv')

lemma writable_split:
  assumes "map_of writable_keys key = Some kind"
  shows "split_key key = None \<and> key = ''log_level'' \<or>
    (\<exists>sect name. split_key key = Some (sect, name) \<and>
       sect \<in> {''share'', ''clipboard'', ''popups'', ''runcommand''})"
  using assms by (auto simp: writable_keys_def split_key_def split: if_splits)

lemma setting_put:
  assumes "kinds_ok result" and "map_of writable_keys key = Some kind"
  shows "setting (put_setting key v result) = (setting result)(key \<mapsto> v)" and "kinds_ok (put_setting key v result)"
proof -
  show "kinds_ok (put_setting key v result)"
    using writable_split [OF assms(2)] assms(1)
    by (auto simp: put_setting_def Let_def intro!: kinds_ok_update)
  show "setting (put_setting key v result) = (setting result)(key \<mapsto> v)"
  proof
    fix k
    show "setting (put_setting key v result) k = ((setting result)(key \<mapsto> v)) k"
    proof (cases "split_key key")
      case None
      then have key: "key = ''log_level''" using writable_split [OF assms(2)] by auto
      have "(case map_of result key of Some (TomlSection s) \<Rightarrow> map_of s n | _ \<Rightarrow> None) = None" for n
        using assms(1) key by (fastforce simp: kinds_ok_def split: option.splits toml_value.splits)
      then show ?thesis using None
        by (auto simp: setting_def put_setting_def update_conv' split: option.split prod.split)
    next
      case (Some sn)
      obtain sect name where sn: "split_key key = Some (sect, name)" using Some by (cases sn) auto
      then have sec: "sect \<in> {''share'', ''clipboard'', ''popups'', ''runcommand''}"
        using writable_split [OF assms(2)] by auto
      then have nv: "(case map_of result sect of Some (TomlValue v) \<Rightarrow> Some v | _ \<Rightarrow> None) = None"
        using assms(1) by (fastforce simp: kinds_ok_def split: option.splits toml_value.splits)
      show ?thesis
      proof (cases "split_key k")
        case None
        then show ?thesis using sn nv
          by (auto simp: setting_def put_setting_def update_conv' Let_def split: option.split toml_value.split)
      next
        case (Some sk)
        obtain s n where sk: "split_key k = Some (s, n)" using Some by (cases sk) auto
        have "(k = key) = (s = sect \<and> n = name)"
          using split_key_join [OF sn] split_key_join [OF sk] sn sk by auto
        then show ?thesis using sn sk
          by (auto simp: setting_def put_setting_def update_conv' Let_def split: option.split toml_value.split)
      qed
    qed
  qed
qed

lemma writable_loop_settings:
  "writable_loop raw result = Inr values \<Longrightarrow> kinds_ok result \<Longrightarrow>
     setting values = fold (\<lambda>(k, v) m. m(k \<mapsto> v)) raw (setting result) \<and>
     (\<forall>(k, v) \<in> set raw. check_setting k v = None)"
proof (induction raw result rule: writable_loop.induct)
  case (2 key v raw result)
  then obtain kind where kind: "map_of writable_keys key = Some kind" and c: "check_setting key v = None"
    by (auto simp: check_setting_def split: option.splits)
  show ?case
    using 2 c setting_put [OF 2(3) kind, of v] by auto
qed simp

lemma fold_map_upds: "distinct (map fst xs) \<Longrightarrow> fold (\<lambda>(k, v) m. m(k \<mapsto> v)) xs m = m ++ map_of xs"
proof (induction xs arbitrary: m)
  case (Cons x xs)
  obtain k v where x: "x = (k, v)" by (cases x) auto
  have "fold (\<lambda>(k, v) m. m(k \<mapsto> v)) (x # xs) m = fold (\<lambda>(k, v) m. m(k \<mapsto> v)) xs (m(k \<mapsto> v))"
    by (simp add: x)
  also have "\<dots> = m(k \<mapsto> v) ++ map_of xs"
    by (rule Cons.IH) (use Cons.prems in simp)
  also have "\<dots> = (m ++ map_of xs)(k \<mapsto> v)"
    using Cons.prems x by (intro map_add_upd_left) (simp add: dom_map_of_conv_image_fst)
  finally show ?case unfolding x map_of.simps fst_conv snd_conv map_add_upd .
qed simp

lemma dec_set_distinct:
  assumes "payload_as dec_config_set_payload zero_config_set_payload payload = Some p"
  shows "distinct (map fst (cs_values p))"
proof -
  have upd: "distinct (map fst m) \<Longrightarrow> distinct (map fst (fold (\<lambda>(k, v) m. AList.update k v m) es m))" for es m
    by (induction es arbitrary: m) (auto simp: distinct_update)
  have step: "dec_keeps (dec_fields config_set_payload_fields) (\<lambda>p. distinct (map fst (cs_values p)))"
    unfolding dec_keeps_def
  proof (intro allI impI)
    fix k v a a'
    assume a: "distinct (map fst (cs_values a))" "dec_fields config_set_payload_fields k v a = Some a'"
    show "distinct (map fst (cs_values a'))"
      using a upd by (cases v) (auto simp: dec_fields_def config_set_payload_fields_def fld_def split: if_splits)
  qed
  obtain j where j: "payload = Some j" "dec_config_set_payload j zero_config_set_payload = Some p"
    using assms by (auto simp: payload_as_def unmarshal_raw_def split: option.splits)
  show ?thesis
    by (rule dec_struct_inv [OF step _ j(2) [unfolded dec_config_set_payload_def]])
      (simp add: zero_config_set_payload_def)
qed

text \<open>
  C39. A set that reports success has written exactly the requested settings, each of them a key of the
  allow-list with a value of its type; any other outcome leaves the drop-in file as it was.
\<close>
theorem config_set_allow_listed:
  assumes "\<And>xs. mset (order xs) = mset xs"
    and "route_config_set quote encode order n f payload s = (Some r, s')"
  shows "if rs_ok r
    then \<exists>p values. payload_as dec_config_set_payload zero_config_set_payload payload = Some p \<and>
           fs_file s' = Some (encode values) \<and> setting values = map_of (cs_values p) \<and>
           (\<forall>(k, v) \<in> set (cs_values p). check_setting k v = None)
    else fs_file s' = fs_file s"
proof (cases "payload_as dec_config_set_payload zero_config_set_payload payload")
  case None
  then show ?thesis using assms(2) by (auto simp: route_config_set_def Err_def zero_ipc_response_def)
next
  case (Some p)
  show ?thesis
  proof (cases "configAPIWritableValues (order (cs_values p))")
    case (Inl e)
    then show ?thesis using assms(2) Some by (auto simp: route_config_set_def Err_def zero_ipc_response_def)
  next
    case (Inr vs)
    have d: "distinct (map fst (cs_values p))" by (rule dec_set_distinct [OF Some])
    have ms: "mset (map fst (order (cs_values p))) = mset (map fst (cs_values p))"
      using assms(1) [of "cs_values p"] by simp
    then have d': "distinct (map fst (order (cs_values p)))" using d mset_eq_imp_distinct_iff by blast
    have st: "set (order (cs_values p)) = set (cs_values p)"
      using assms(1) [of "cs_values p"] mset_eq_setD by blast
    have mo: "map_of (order (cs_values p)) = map_of (cs_values p)"
      by (rule map_of_inject_set [THEN iffD2]) (use d d' st in auto)
    have "setting [] = Map.empty" by (auto simp: setting_def fun_eq_iff split: option.split)
    then have sv: "setting vs = map_of (cs_values p)" "\<forall>(k, v) \<in> set (cs_values p). check_setting k v = None"
      using writable_loop_settings [OF Inr [unfolded configAPIWritableValues_def]] fold_map_upds [OF d', of Map.empty] mo st
      by (simp_all add: kinds_ok_def)
    have w: "replaces (encode vs) s (WriteAPIDropIn (encode vs) n f s)"
      unfolding WriteAPIDropIn_def by (rule drop_in.old_or_new)
    show ?thesis
      using assms(2) Some Inr sv w
      by (auto simp: route_config_set_def replaces_def okay_def Err_def zero_ipc_response_def
          split: prod.splits file_outcome.splits)
  qed
qed


definition demo_set :: json where
  "demo_set = JObj [(''values'', JObj [(''popups.backend'', JStr ''loud'')])]"

lemma demo_set_payload:
  "payload_as dec_config_set_payload zero_config_set_payload (Some demo_set) =
     Some \<lparr>cs_values = [(''popups.backend'', JStr ''loud'')]\<rparr>"
proof -
  have "key_matches ''values'' ''values''" by code_simp
  then show ?thesis
    by (simp add: payload_as_def unmarshal_raw_def demo_set_def dec_config_set_payload_def dec_fields_def
        config_set_payload_fields_def fld_def zero_config_set_payload_def)
qed

lemma demo_set_values:
  "configAPIWritableValues [(''popups.backend'', JStr ''loud'')] = Inr [(''popups'', TomlSection [(''backend'', JStr ''loud'')])]"
  by (simp add: configAPIWritableValues_def check_setting_def writable_keys_def is_string_def put_setting_def
      split_key_def)

lemma demo_set_response:
  "route_config_set quote (\<lambda>_. ''data'') (\<lambda>xs. xs) 0 NoFileFault (Some demo_set) \<lparr>fs_file = None, fs_temp = None\<rparr> =
     (Some okay, \<lparr>fs_file = Some ''data'', fs_temp = None\<rparr>)"
  by (simp add: route_config_set_def demo_set_payload demo_set_values WriteAPIDropIn_def drop_in_calls_def drop_temp_def)

theorem config_set_allow_listed_witness:
  "\<exists>p. payload_as dec_config_set_payload zero_config_set_payload (Some demo_set) = Some p \<and>
     (\<forall>(k, v) \<in> set (cs_values p). check_setting k v = None)"
  using config_set_allow_listed [OF refl demo_set_response] by (auto simp: okay_def zero_ipc_response_def)

text \<open>
  A set is not validated: the client gets success for \<open>loud\<close> as the popup backend, and no
  configuration with that value passes \<open>Validate\<close>, so the next start fails.
\<close>
theorem config_set_not_validated:
  "fst (route_config_set quote encode (\<lambda>xs. xs) 0 NoFileFault (Some demo_set) s) = Some okay \<and>
   Validate pd (c\<lparr>fc_popups := (fc_popups c)\<lparr>pp_backend := ''loud''\<rparr>\<rparr>) \<noteq> None"
proof -
  have "replaces d s (WriteAPIDropIn d 0 NoFileFault s) \<and> fst (WriteAPIDropIn d 0 NoFileFault s) = Written" for d
    using drop_in.all_succeed drop_in.old_or_new by (simp add: WriteAPIDropIn_def)
  then have "fst (route_config_set quote encode (\<lambda>xs. xs) 0 NoFileFault (Some demo_set) s) = Some okay"
    by (auto simp: route_config_set_def demo_set_payload demo_set_values split: prod.split file_outcome.split
        dest!: arg_cong [where f = fst])
  then show ?thesis by (auto simp: Validate_def split: option.split)
qed

end
