(* ===== verification/PairRoutes.thy ===== *)
theory PairRoutes
  imports PairingOps Handshake ConfigLoad Ipc GoTime
begin

text \<open>
  The pairing routes of the daemon: \<open>internal/daemon/ipc_routes_pair.go\<close> and \<open>pairdial.go\<close>.

  The world is that of the pairing plugin together with what the routes start or note down: dials that
  run on their own, contacts dropped, device actions, and every device list that was saved.  No
  response (\<open>None\<close>) is a panic, which the server turns into an internal error.
\<close>

section \<open>State\<close>

record pair_handler =
  ph_plugin :: bool
  ph_contacts :: bool
  ph_has_bus :: bool
  ph_can_save :: bool
  ph_prune :: duration
  ph_listen_timeout :: duration
  ph_dial_hook :: bool

record pair_dial =
  pd_device :: string
  pd_ip :: ip
  pd_port :: int

record route_world =
  rw_pair :: pair_world
  rw_forgotten :: "string list"
  rw_dials :: "pair_dial list"
  rw_actions :: "dev_action list"
  rw_saved :: "registry list"

definition rw_dev :: "route_world \<Rightarrow> nat \<Rightarrow> device" where
  "rw_dev w r = pw_dev (rw_pair w) r"

definition rw_Get :: "string \<Rightarrow> route_world \<Rightarrow> nat option" where
  "rw_Get i w = reg_Get i (pw_registry (rw_pair w))"

definition on_rw_dev :: "nat \<Rightarrow> (device \<Rightarrow> device) \<Rightarrow> route_world \<Rightarrow> route_world" where
  "on_rw_dev r f w = w\<lparr>rw_pair := on_dev r f (rw_pair w)\<rparr>"

definition defaultPairListenTimeout :: duration where
  "defaultPairListenTimeout = 60 * second"

text \<open>\<open>registerPairRoutes\<close> reads the timeout of the configuration; a bad one panics.\<close>

definition pair_listen_timeout :: "parse_duration \<Rightarrow> string option \<Rightarrow> duration option" where
  "pair_listen_timeout pd setting =
     (case setting of
        None \<Rightarrow> Some defaultPairListenTimeout
      | Some s \<Rightarrow>
          if s = [] then Some defaultPairListenTimeout
          else map_option (\<lambda>d. if d > 0 then d else defaultPairListenTimeout) (Duration pd s))"

section \<open>Helpers\<close>

text \<open>\<open>save_ok\<close> says whether the file could be written; the function saved prunes once more.\<close>

definition saveDevices :: "pair_handler \<Rightarrow> bool \<Rightarrow> int \<Rightarrow> route_world \<Rightarrow> bool \<times> route_world" where
  "saveDevices h save_ok now w =
     (if \<not> ph_can_save h then (True, w)
      else let rg = snd (Prune (ph_prune h) now (pw_registry (rw_pair w)));
               rg = snd (Prune (ph_prune h) now rg);
               w = w\<lparr>rw_pair := (rw_pair w)\<lparr>pw_registry := rg\<rparr>\<rparr>
           in (save_ok, if save_ok then w\<lparr>rw_saved := rw_saved w @ [rg]\<rparr> else w))"

definition forgetContacts :: "pair_handler \<Rightarrow> string \<Rightarrow> route_world \<Rightarrow> route_world" where
  "forgetContacts h i w = (if ph_contacts h then w\<lparr>rw_forgotten := rw_forgotten w @ [i]\<rparr> else w)"

definition disconnect_device :: "nat \<Rightarrow> int \<Rightarrow> route_world \<Rightarrow> route_world" where
  "disconnect_device r now w =
     (on_rw_dev r (\<lambda>d. fst (Disconnect now d)) w)\<lparr>rw_actions := rw_actions w @ snd (Disconnect now (rw_dev w r))\<rparr>"

definition pair_error_text :: "string \<Rightarrow> pair_error \<Rightarrow> string" where
  "pair_error_text i e =
     (case e of
        NoPendingRequest \<Rightarrow> ''pair: no pending request for device '' @ i
      | RequestExpired \<Rightarrow> ''pair: request expired for device '' @ i
      | PairSendFailed \<Rightarrow> ''send failed''
      | BadPairBody \<Rightarrow> ''bad body'')"

definition device_not_found :: "string \<Rightarrow> ipc_response" where
  "device_not_found i = Err CodeDeviceNotFound ''device not found'' [(''deviceId'', i)]"

definition invalid_payload :: ipc_response where
  "invalid_payload = Err CodeInvalidPayload ''invalid payload'' []"

section \<open>Dialling on request (pairdial.go)\<close>

text \<open>The hook: what it refuses, and the dial it starts on its own goroutine.\<close>

definition pair_dial_hook ::
  "parse_duration \<Rightarrow> pairing_config \<Rightarrow> int \<Rightarrow> string \<Rightarrow> int \<Rightarrow> route_world \<Rightarrow> string option option \<times> route_world" where
  "pair_dial_hook pd cfg tcp_port i now w =
     (case rw_Get i w of
        None \<Rightarrow> (Some (Some ''device not found''), w)
      | Some r \<Rightarrow>
          if dv_state (rw_dev w r) = StatePaired then (Some (Some ''device already paired''), w)
          else case Duration pd (pr_intent_ttl cfg) of
            None \<Rightarrow> (None, w)
          | Some ttl \<Rightarrow>
              (let w = on_rw_dev r (RequestPairDial [ttl] now) w;
                   (addr, port) = DiscoveryAddr (rw_dev w r)
               in if addr = [] then (Some (Some ''device address unknown yet, wait for discovery and retry''), w)
                  else (Some None, w\<lparr>rw_dials := rw_dials w
                          @ [\<lparr>pd_device = i, pd_ip = addr, pd_port = (if port = 0 then tcp_port else port)\<rparr>]\<rparr>)))"

text \<open>What the goroutine does once \<open>Dial\<close> has returned, on the device object it captured.\<close>

definition pair_dial_done :: "(string \<Rightarrow> string) \<Rightarrow> bool \<Rightarrow> nat \<Rightarrow> int \<Rightarrow> route_world \<Rightarrow> route_world" where
  "pair_dial_done sha plugin r now w =
     (if \<not> IsConnected (rw_dev w r) then w
      else let w = on_rw_dev r (\<lambda>d. snd (ConsumePairDial d)) w
           in if dv_state (rw_dev w r) = StatePairRequestedByPeer
              then (if plugin then w\<lparr>rw_pair := snd (AcceptPairing r now (rw_pair w))\<rparr> else w)
              else if dv_state (rw_dev w r) \<noteq> StatePaired
              then (if plugin then w\<lparr>rw_pair := snd (RequestPairing sha r now (rw_pair w))\<rparr> else w)
              else w)"

section \<open>The routes\<close>

definition handleUnpair ::
  "pair_handler \<Rightarrow> bool \<Rightarrow> json option \<Rightarrow> int \<Rightarrow> route_world \<Rightarrow> ipc_response \<times> route_world" where
  "handleUnpair h save_ok payload now w =
     (case payload_as dec_device_payload zero_device_payload payload of
        None \<Rightarrow> (invalid_payload, w)
      | Some p \<Rightarrow>
          (case rw_Get (dp_device_id p) w of
             None \<Rightarrow> (device_not_found (dp_device_id p), w)
           | Some r \<Rightarrow>
               if ph_plugin h
               then let w = w\<lparr>rw_pair := Unpair r now (rw_pair w)\<rparr>;
                        w = disconnect_device r now w
                    in (okay, forgetContacts h (dp_device_id p) w)
               else let w = w\<lparr>rw_pair := sendPairReject r now (rw_pair w)\<rparr>;
                        w = disconnect_device r now w;
                        w = w\<lparr>rw_pair := (rw_pair w)\<lparr>pw_registry := fst (reg_Remove (dp_device_id p) (pw_registry (rw_pair w)))\<rparr>\<rparr>;
                        w = forgetContacts h (dp_device_id p) w;
                        (saved, w) = saveDevices h save_ok now w
                    in (if saved then okay else FailWith ''failed to save device state'', w)))"

text \<open>With the plugin, on a connected device or without the hook.\<close>

definition pair_with_plugin ::
  "(string \<Rightarrow> string) \<Rightarrow> nat \<Rightarrow> string \<Rightarrow> int \<Rightarrow> route_world \<Rightarrow> ipc_response \<times> route_world" where
  "pair_with_plugin sha r i now w =
     (if dv_state (rw_dev w r) = StatePairRequestedByPeer
      then (case AcceptPairing r now (rw_pair w) of
              (Some e, pw) \<Rightarrow> (FailWith (''failed to accept pairing: '' @ pair_error_text i e), w\<lparr>rw_pair := pw\<rparr>)
            | (None, pw) \<Rightarrow> (okay, w\<lparr>rw_pair := pw\<rparr>))
      else (case RequestPairing sha r now (rw_pair w) of
              (Inl e, pw) \<Rightarrow> (FailWith (''failed to request pairing: '' @ pair_error_text i e), w\<lparr>rw_pair := pw\<rparr>)
            | (Inr key, pw) \<Rightarrow> (jsonOK (enc_pair_result \<lparr>prs_verification_key = key\<rparr>), w\<lparr>rw_pair := pw\<rparr>)))"

definition handlePair ::
  "parse_duration \<Rightarrow> pairing_config \<Rightarrow> int \<Rightarrow> (string \<Rightarrow> string) \<Rightarrow> pair_handler \<Rightarrow> bool \<Rightarrow> json option \<Rightarrow> int
     \<Rightarrow> route_world \<Rightarrow> ipc_response option \<times> route_world" where
  "handlePair pd cfg tcp_port sha h save_ok payload now w =
     (case payload_as dec_pair_payload zero_pair_payload payload of
        None \<Rightarrow> (Some invalid_payload, w)
      | Some p \<Rightarrow>
          if pap_reject p then map_prod Some id (handleUnpair h save_ok payload now w)
          else case rw_Get (pap_device_id p) w of
            None \<Rightarrow> (Some (device_not_found (pap_device_id p)), w)
          | Some r \<Rightarrow>
              if \<not> IsConnected (rw_dev w r) \<and> ph_dial_hook h
              then (case pair_dial_hook pd cfg tcp_port (dv_id (rw_dev w r)) now w of
                      (None, w) \<Rightarrow> (None, w)
                    | (Some (Some e), w) \<Rightarrow> (Some (FailWith e), w)
                    | (Some None, w) \<Rightarrow> (Some okay, w))
              else if ph_plugin h then map_prod Some id (pair_with_plugin sha r (dv_id (rw_dev w r)) now w)
              else case send_to r (NewPairPacket (now div millisecond) PairAccept 0) (rw_pair w) of
                (res, pw) \<Rightarrow>
                  if send_failed res then (Some (FailWith ''failed to send pair packet''), w\<lparr>rw_pair := pw\<rparr>)
                  else let w = on_rw_dev r (SetState StatePaired) (w\<lparr>rw_pair := pw\<rparr>);
                           (saved, w) = saveDevices h save_ok now w
                       in (Some (if saved then okay else FailWith ''failed to save device state''), w))"

text \<open>
  Waiting for a request: what the \<open>select\<close> sees first.  The event carries a device and, in its
  payload, the verification key.
\<close>

datatype listen_result = BusClosed | RequestSeen string json | ListenTimedOut

definition pairListenResult :: "device \<Rightarrow> string \<Rightarrow> ipc_response" where
  "pairListenResult d vKey =
     jsonOK (enc_pair_listen_result \<lparr>plr_device_id = dv_id d, plr_device_name = dv_name d,
       plr_verification_key = vKey, plr_fingerprint = dv_cert_fp d\<rparr>)"

definition verification_key_of :: "json \<Rightarrow> string" where
  "verification_key_of payload =
     (case payload of
        JObj es \<Rightarrow> (case map_of es ''verificationKey'' of Some (JStr k) \<Rightarrow> k | _ \<Rightarrow> [])
      | _ \<Rightarrow> [])"

definition listen_timeout_of :: "pair_handler \<Rightarrow> duration" where
  "listen_timeout_of h = (if ph_listen_timeout h \<le> 0 then defaultPairListenTimeout else ph_listen_timeout h)"

definition handlePairListen :: "pair_handler \<Rightarrow> listen_result \<Rightarrow> route_world \<Rightarrow> ipc_response" where
  "handlePairListen h wait w =
     (let rg = pw_registry (rw_pair w)
      in case find (\<lambda>r. dv_state (dev_at rg r) = StatePairRequestedByPeer) (reg_List rg) of
           Some r \<Rightarrow> pairListenResult (dev_at rg r) []
         | None \<Rightarrow>
             if \<not> ph_has_bus h \<or> \<not> ph_plugin h then FailWith ''pair listen requires event bus and pair plugin''
             else case wait of
               BusClosed \<Rightarrow> FailWith ''event bus closed''
             | RequestSeen i payload \<Rightarrow>
                 (case rw_Get i w of
                    None \<Rightarrow> FailWith ''device disappeared''
                  | Some r \<Rightarrow> pairListenResult (rw_dev w r) (verification_key_of payload))
             | ListenTimedOut \<Rightarrow>
                 FailWith (''timed out waiting for pair request ('' @ duration_String (listen_timeout_of h) @ '')''))"

section \<open>The routes are pairing operations\<close>

text \<open>
  What each route does to the pairing world, as operations of the machine of \<open>PairingOps\<close> on the
  device named in the request.
\<close>

definition unpair_ops :: "string \<Rightarrow> int \<Rightarrow> pair_op list" where
  "unpair_ops i now = [UserUnpair i now, SessionOp i (DoDisconnect now)]"

definition dial_ops :: "duration \<Rightarrow> string \<Rightarrow> int \<Rightarrow> pair_op list" where
  "dial_ops ttl i now = [SessionOp i (DoRequestPairDial [ttl] now)]"

definition done_ops :: "string \<Rightarrow> int \<Rightarrow> pairing_state \<Rightarrow> pair_op list" where
  "done_ops i now s =
     SessionOp i DoConsumePairDial
     # (if s = StatePairRequestedByPeer then [UserAccept i now] else if s \<noteq> StatePaired then [UserRequest i now] else [])"

lemma on_registered_Some: "reg_Get i (pw_registry w) = Some r \<Longrightarrow> on_registered i f w = f r w"
  by (simp add: on_registered_def)

lemma session_op_run:
  assumes "reg_Get i (pw_registry w) = Some r" and "neutral op"
  shows "pair_op_step sha (SessionOp i op) w = on_dev r (\<lambda>d. fst (device_step op d)) w"
  using assms by (simp add: on_registered_Some)

lemma unpair_run:
  assumes "pair_ok (rw_pair w)" and "rw_Get i w = Some r" and "ph_plugin h"
    and "payload_as dec_device_payload zero_device_payload payload = Some p" and "dp_device_id p = i"
  shows "rw_pair (snd (handleUnpair h save_ok payload now w)) = pair_op_run sha (unpair_ops i now) (rw_pair w)"
    and "fst (handleUnpair h save_ok payload now w) = okay"
    and "rw_forgotten (snd (handleUnpair h save_ok payload now w)) = rw_forgotten w @ (if ph_contacts h then [i] else [])"
proof -
  let ?v = "Unpair r now (rw_pair w)"
  have "pair_op_step sha (UserUnpair i now) (rw_pair w) = ?v"
    using assms(2) by (simp add: on_registered_Some rw_Get_def)
  moreover from this have "reg_Get i (pw_registry ?v) = Some r"
    using op_lookup [OF assms(1), of i sha "UserUnpair i now"] assms(2) by (simp add: rw_Get_def)
  ultimately have "pair_op_run sha (unpair_ops i now) (rw_pair w) = on_dev r (\<lambda>d. fst (Disconnect now d)) ?v"
    using session_op_run [of i ?v r "DoDisconnect now" sha] by (simp add: unpair_ops_def neutral_def)
  then show "rw_pair (snd (handleUnpair h save_ok payload now w)) = pair_op_run sha (unpair_ops i now) (rw_pair w)"
    using assms by (simp add: handleUnpair_def disconnect_device_def on_rw_dev_def forgetContacts_def Let_def)
  show "fst (handleUnpair h save_ok payload now w) = okay"
    "rw_forgotten (snd (handleUnpair h save_ok payload now w)) = rw_forgotten w @ (if ph_contacts h then [i] else [])"
    using assms by (simp_all add: handleUnpair_def disconnect_device_def on_rw_dev_def forgetContacts_def Let_def)
qed

lemma hook_run:
  assumes "rw_Get i w = Some r"
  shows "\<exists>ops \<in> {[]} \<union> range (\<lambda>ttl. dial_ops ttl i now).
    rw_pair (snd (pair_dial_hook pd cfg port i now w)) = pair_op_run sha ops (rw_pair w)"
proof -
  let ?w' = "snd (pair_dial_hook pd cfg port i now w)"
  have "rw_pair ?w' = rw_pair w \<or> (\<exists>ttl. rw_pair ?w' = on_dev r (RequestPairDial [ttl] now) (rw_pair w))"
    using assms by (auto simp: pair_dial_hook_def on_rw_dev_def Let_def split: option.split prod.split)
  moreover have "on_dev r (RequestPairDial [ttl] now) (rw_pair w) = pair_op_run sha (dial_ops ttl i now) (rw_pair w)" for ttl
    using assms session_op_run [of i "rw_pair w" r "DoRequestPairDial [ttl] now" sha]
    by (simp add: dial_ops_def rw_Get_def neutral_def)
  ultimately show ?thesis
    by (metis (no_types, lifting) UnI1 UnI2 insertI1 pair_op_run.simps(1) rangeI)
qed

lemma plugin_run:
  assumes "rw_Get i w = Some r"
  shows "\<exists>ops \<in> {[UserRequest i now]} \<union> (if dv_state (rw_dev w r) = StatePairRequestedByPeer then {[UserAccept i now]} else {}).
    rw_pair (snd (pair_with_plugin sha r i now w)) = pair_op_run sha ops (rw_pair w)"
  using assms
  by (auto simp: pair_with_plugin_def on_registered_Some rw_Get_def split: option.split sum.split prod.split)

text \<open>The goroutine of a dial, for a device that is still the registered one.\<close>

lemma dial_done_run:
  assumes "rw_Get i w = Some r" and "plugin" and "IsConnected (rw_dev w r)"
  shows "rw_pair (pair_dial_done sha plugin r now w) =
    pair_op_run sha (done_ops i now (dv_state (rw_dev w r))) (rw_pair w)"
proof -
  let ?v = "on_dev r (\<lambda>d. snd (ConsumePairDial d)) (rw_pair w)"
  have g: "reg_Get i (pw_registry ?v) = Some r" using assms(1) by (simp add: rw_Get_def)
  have s: "dv_state (pw_dev ?v r) = dv_state (rw_dev w r)" by (simp add: rw_dev_def ConsumePairDial_def)
  have "pair_op_step sha (SessionOp i DoConsumePairDial) (rw_pair w) = ?v"
    using session_op_run [of i "rw_pair w" r DoConsumePairDial sha] assms(1) by (simp add: rw_Get_def neutral_def)
  then show ?thesis
    using assms(2,3) g s
    by (simp add: pair_dial_done_def done_ops_def on_registered_Some on_rw_dev_def rw_dev_def Let_def
        del: pw_dev_simps)
qed

section \<open>Consent\<close>

text \<open>One route is a short run on one registered device.\<close>

definition pair_route_ops :: "pairing_state \<Rightarrow> string \<Rightarrow> int \<Rightarrow> pair_op list set" where
  "pair_route_ops s i now =
     {[], [UserRequest i now]} \<union> range (\<lambda>ttl. dial_ops ttl i now)
     \<union> (if s = StatePairRequestedByPeer then {[UserAccept i now]} else {})"

lemma handlePair_run:
  assumes "pair_ok (rw_pair w)" and "ph_plugin h"
    and "handlePair pd cfg port sha h save_ok payload now w = (resp, w')"
  shows "rw_pair w' = rw_pair w \<or>
    (\<exists>i r p. rw_Get i w = Some r \<and> payload_as dec_pair_payload zero_pair_payload payload = Some p \<and>
       (if pap_reject p then rw_pair w' = pair_op_run sha (unpair_ops i now) (rw_pair w)
        else pap_device_id p = i \<and>
          (\<exists>ops \<in> pair_route_ops (dv_state (rw_dev w r)) i now. rw_pair w' = pair_op_run sha ops (rw_pair w))))"
proof (cases "payload_as dec_pair_payload zero_pair_payload payload")
  case None
  then show ?thesis using assms(3) by (auto simp: handlePair_def)
next
  case (Some p)
  show ?thesis
  proof (cases "pap_reject p")
    case True
    then have w': "w' = snd (handleUnpair h save_ok payload now w)"
      using assms(3) Some by (auto simp: handlePair_def map_prod_def split: prod.splits)
    show ?thesis
    proof (cases "payload_as dec_device_payload zero_device_payload payload")
      case None
      then show ?thesis by (simp add: w' handleUnpair_def)
    next
      case (Some q)
      show ?thesis
      proof (cases "rw_Get (dp_device_id q) w")
        case None
        then show ?thesis using Some by (simp add: w' handleUnpair_def)
      next
        case (Some r)
        show ?thesis
          using unpair_run(1) [OF assms(1) Some assms(2) \<open>_ = Some q\<close> refl, of save_ok now sha] Some True \<open>_ = Some p\<close>
          unfolding w' by (intro disjI2 exI [of _ "dp_device_id q"] exI [of _ r] exI [of _ p]) simp
      qed
    qed
  next
    case False
    show ?thesis
    proof (cases "rw_Get (pap_device_id p) w")
      case None
      then show ?thesis using assms(3) Some False by (auto simp: handlePair_def)
    next
      case (Some r)
      have i: "dv_id (rw_dev w r) = pap_device_id p"
        using pair_ok_registered [OF assms(1)] Some by (simp add: rw_Get_def rw_dev_def)
      have "w' = snd (pair_dial_hook pd cfg port (pap_device_id p) now w) \<or>
          w' = snd (pair_with_plugin sha r (pap_device_id p) now w)"
        using assms(2,3) \<open>_ = Some p\<close> False Some i
        by (auto simp: handlePair_def map_prod_def split: if_splits prod.splits option.splits)
      then show ?thesis
        using hook_run [OF Some, of now pd cfg port sha] plugin_run [OF Some, of now sha] \<open>_ = Some p\<close> False Some
        by (auto simp: pair_route_ops_def split: if_splits)
    qed
  qed
qed


lemma run_other:
  "pair_ok u \<Longrightarrow> reg_Get j (pw_registry u) = Some q \<Longrightarrow> \<forall>op \<in> set ops. op_device op \<noteq> j \<Longrightarrow>
     pw_dev (pair_op_run sha ops u) q = pw_dev u q"
  by (induction ops arbitrary: u) (simp_all add: op_pair_ok op_lookup op_other)

lemma route_ops_device: "ops \<in> pair_route_ops s i now \<Longrightarrow> op \<in> set ops \<Longrightarrow> op_device op = i"
  "op \<in> set (unpair_ops i now) \<Longrightarrow> op_device op = i"
  by (auto simp: pair_route_ops_def dial_ops_def unpair_ops_def split: if_splits)

lemma route_state:
  assumes "pair_ok u" and "reg_Get i (pw_registry u) = Some r"
    and "ops \<in> pair_route_ops (dv_state (pw_dev u r)) i now"
    and "dv_state (pw_dev (pair_op_run sha ops u) r) = StatePaired"
  shows "dv_state (pw_dev u r) \<in> {StatePaired, StatePairRequestedByPeer}"
  using assms(3,4) op_state [OF assms(1), of "UserRequest i now" r sha]
    op_state [OF assms(1), of "SessionOp i (DoRequestPairDial [ttl] now)" r sha for ttl] assms(2)
  by (auto simp: pair_route_ops_def dial_ops_def simp del: pair_op_step.simps split: if_splits)

lemma unpair_state:
  assumes "pair_ok u" and "reg_Get i (pw_registry u) = Some r"
  shows "dv_state (pw_dev (pair_op_run sha (unpair_ops i now) u) r) = StateUnpaired"
    and "\<not> IsConnected (pw_dev (pair_op_run sha (unpair_ops i now) u) r)"
proof -
  let ?v = "pair_op_step sha (UserUnpair i now) u"
  have v: "pair_ok ?v" "reg_Get i (pw_registry ?v) = Some r"
    using op_pair_ok [OF assms(1)] op_lookup [OF assms(1)] assms(2) by metis+
  have run: "pair_op_run sha (unpair_ops i now) u = on_dev r (\<lambda>d. fst (Disconnect now d)) ?v"
    using session_op_run [OF v(2), of "DoDisconnect now" sha] by (simp add: unpair_ops_def neutral_def)
  have "dv_state (pw_dev ?v r) = StateUnpaired"
    using op_state [OF assms(1), of "UserUnpair i now" r sha] assms(2) by simp
  then show "dv_state (pw_dev (pair_op_run sha (unpair_ops i now) u) r) = StateUnpaired"
    unfolding run by simp
  show "\<not> IsConnected (pw_dev (pair_op_run sha (unpair_ops i now) u) r)"
    unfolding run by (simp add: session_defs Let_def split: option.split)
qed

lemma plugin_route_consent:
  assumes "pair_ok (rw_pair w)" and "ph_plugin h"
    and "handlePair pd cfg port sha h save_ok payload now w = (resp, w')"
    and "rw_Get j w = Some q" and "dv_state (rw_dev w' q) = StatePaired" and "dv_state (rw_dev w q) \<noteq> StatePaired"
  shows "dv_state (rw_dev w q) = StatePairRequestedByPeer \<and>
    (\<exists>p. payload_as dec_pair_payload zero_pair_payload payload = Some p \<and> pap_device_id p = j \<and> \<not> pap_reject p)"
proof -
  have q: "reg_Get j (pw_registry (rw_pair w)) = Some q" using assms(4) by (simp add: rw_Get_def)
  have moved: "rw_pair w' \<noteq> rw_pair w" using assms(5,6) by (auto simp: rw_dev_def)
  from handlePair_run [OF assms(1-3)] moved obtain i r p where i: "rw_Get i w = Some r"
    and p: "payload_as dec_pair_payload zero_pair_payload payload = Some p"
    and run: "if pap_reject p then rw_pair w' = pair_op_run sha (unpair_ops i now) (rw_pair w)
        else pap_device_id p = i \<and>
          (\<exists>ops \<in> pair_route_ops (dv_state (rw_dev w r)) i now. rw_pair w' = pair_op_run sha ops (rw_pair w))"
    by blast
  have g: "reg_Get i (pw_registry (rw_pair w)) = Some r" using i by (simp add: rw_Get_def)
  have ij: "i = j"
  proof (rule ccontr)
    assume "i \<noteq> j"
    then have "pw_dev (rw_pair w') q = pw_dev (rw_pair w) q"
      using run run_other [OF assms(1) q, where sha = sha] route_ops_device by (auto split: if_splits)
    then show False using assms(5,6) by (simp add: rw_dev_def)
  qed
  then have [simp]: "r = q" using g q by simp
  have rej: "\<not> pap_reject p" using run unpair_state(1) [OF assms(1) g] assms(5) by (auto simp: rw_dev_def)
  then obtain ops where ops: "ops \<in> pair_route_ops (dv_state (pw_dev (rw_pair w) r)) i now"
    "rw_pair w' = pair_op_run sha ops (rw_pair w)" using run by (auto simp: rw_dev_def)
  have "dv_state (pw_dev (rw_pair w) r) \<in> {StatePaired, StatePairRequestedByPeer}"
    by (rule route_state [OF assms(1) g ops(1)]) (use assms(5) ops(2) in \<open>simp add: rw_dev_def\<close>)
  then show ?thesis using assms(6) p rej run ij by (auto simp: rw_dev_def)
qed

text \<open>Without the plugin the routes are the fallbacks, which keep the states of the objects but for the one that is paired.\<close>

lemma Prune_dev_at [simp]: "dev_at (snd (Prune t now rg)) r = dev_at rg r"
proof -
  have "dev_at (snd (prune_loop t now es rg n)) r = dev_at rg r" for es rg n
    by (induction t now es rg n rule: prune_loop.induct) (simp_all add: dev_at_def)
  then show ?thesis by (simp add: Prune_def)
qed

lemma on_dev_state:
  "dv_state (pw_dev (on_dev r f w) q) = (if q = r then dv_state (f (pw_dev w r)) else dv_state (pw_dev w q))"
  by (simp add: on_dev_def pw_dev_def upd_dev_def dev_at_def)

lemma saveDevices_state: "rw_dev (snd (saveDevices h ok now w)) q = rw_dev w q"
  by (simp add: saveDevices_def rw_dev_def pw_dev_def Let_def)

lemma fallback_unpair_state:
  "\<not> ph_plugin h \<Longrightarrow> dv_state (rw_dev (snd (handleUnpair h ok payload now w)) q) = dv_state (rw_dev w q)"
  by (simp add: handleUnpair_def Let_def case_prod_beta saveDevices_state [unfolded rw_dev_def pw_dev_def dev_at_def] forgetContacts_def rw_dev_def
      disconnect_device_def on_rw_dev_def sendPairReject_def send_to_def on_dev_state reg_Remove_def pw_dev_def dev_at_def on_dev_def upd_dev_def
      split: option.split)

lemma hook_state: "dv_state (rw_dev (snd (pair_dial_hook pd cfg port i now w)) q) = dv_state (rw_dev w q)"
  by (auto simp: pair_dial_hook_def Let_def rw_dev_def on_rw_dev_def on_dev_state RequestPairDial_def
      split: option.splits if_splits prod.splits)

lemma fallback_pair_state:
  "q \<noteq> r \<Longrightarrow> dv_state (rw_dev (on_rw_dev r f (w\<lparr>rw_pair := snd (send_to r p (rw_pair w))\<rparr>)) q) = dv_state (rw_dev w q)"
  "dv_state (rw_dev (w\<lparr>rw_pair := snd (send_to r p (rw_pair w))\<rparr>) q) = dv_state (rw_dev w q)"
  by (simp_all add: rw_dev_def on_rw_dev_def send_to_def on_dev_state)

lemma fallback_route_consent:
  assumes "\<not> ph_plugin h" and "pair_ok (rw_pair w)"
    and "handlePair pd cfg port sha h save_ok payload now w = (resp, w')"
    and "rw_Get j w = Some q" and "dv_state (rw_dev w' q) \<noteq> dv_state (rw_dev w q)"
  shows "\<exists>p. payload_as dec_pair_payload zero_pair_payload payload = Some p \<and> pap_device_id p = j \<and> \<not> pap_reject p"
proof (cases "payload_as dec_pair_payload zero_pair_payload payload")
  case None
  then show ?thesis using assms by (simp add: handlePair_def)
next
  case (Some p)
  show ?thesis
  proof (cases "pap_reject p")
    case True
    then have "w' = snd (handleUnpair h save_ok payload now w)"
      using assms(3) Some by (auto simp: handlePair_def map_prod_def split: prod.splits)
    then show ?thesis using fallback_unpair_state [OF assms(1)] assms(5) by metis
  next
    case False
    show ?thesis
    proof (cases "rw_Get (pap_device_id p) w")
      case None
      then show ?thesis using assms(3,5) Some False by (auto simp: handlePair_def)
    next
      case (Some r)
      have id: "rw_Get (dv_id (rw_dev w r)) w = Some r" "dv_id (rw_dev w r) = pap_device_id p" "dv_id (rw_dev w q) = j"
        using pair_ok_registered [OF assms(2)] Some assms(4) by (auto simp: rw_Get_def rw_dev_def)
      have "q = r"
      proof (rule ccontr)
        assume qr: "q \<noteq> r"
        have "dv_state (rw_dev w' q) = dv_state (rw_dev w q)"
          using assms(1,3) Some False \<open>_ = Some p\<close> qr
          by (auto simp: handlePair_def case_prod_beta saveDevices_state hook_state fallback_pair_state Let_def
              split: if_splits option.splits)
        then show False using assms(5) by simp
      qed
      then show ?thesis using id \<open>_ = Some p\<close> False by simp
    qed
  qed
qed

text \<open>
  C19. A pair command pairs a device only on a command that names it and is no rejection, and, when the pair plugin is registered,
  only if the peer's own request was pending.  (Without the plugin the route's fallback pairs at once.)
\<close>
theorem pair_route_needs_consent:
  assumes "pair_ok (rw_pair w)"
    and "handlePair pd cfg port sha h save_ok payload now w = (resp, w')"
    and "rw_Get j w = Some q" and "dv_state (rw_dev w' q) = StatePaired" and "dv_state (rw_dev w q) \<noteq> StatePaired"
  shows "(ph_plugin h \<longrightarrow> dv_state (rw_dev w q) = StatePairRequestedByPeer) \<and>
    (\<exists>p. payload_as dec_pair_payload zero_pair_payload payload = Some p \<and> pap_device_id p = j \<and> \<not> pap_reject p)"
  using plugin_route_consent [OF assms(1) _ assms(2-5)] fallback_route_consent [OF _ assms(1-3)] assms(4,5)
  by (cases "ph_plugin h") auto

text \<open>
  Unpairing a device revokes its trust at once: the command succeeds, the device is unpaired and
  disconnected, no timer of it runs, its contacts are dropped when they are kept, and no other
  device is touched.
\<close>
theorem unpair_route_revokes:
  assumes "pair_ok (rw_pair w)" and "ph_plugin h" and "rw_Get i w = Some r"
    and "payload_as dec_device_payload zero_device_payload payload = Some p" and "dp_device_id p = i"
    and "handleUnpair h save_ok payload now w = (resp, w')"
  shows "resp = okay \<and> dv_state (rw_dev w' r) = StateUnpaired \<and> \<not> IsConnected (rw_dev w' r) \<and>
    pw_timers (rw_pair w') i = None \<and> (ph_contacts h \<longrightarrow> i \<in> set (rw_forgotten w')) \<and>
    (\<forall>j q. j \<noteq> i \<longrightarrow> rw_Get j w = Some q \<longrightarrow> rw_dev w' q = rw_dev w q)"
proof -
  note run = unpair_run [OF assms(1,3,2,4,5), of save_ok now, unfolded assms(6) snd_conv fst_conv]
  have g: "reg_Get i (pw_registry (rw_pair w)) = Some r" using assms(3) by (simp add: rw_Get_def)
  have st: "dv_state (rw_dev w' r) = StateUnpaired" "\<not> IsConnected (rw_dev w' r)"
    using unpair_state [OF assms(1) g, of "\<lambda>s. s" now] run(1) [of "\<lambda>s. s"] by (simp_all add: rw_dev_def)
  have ok: "pair_ok (rw_pair w')" unfolding run(1) [of "\<lambda>s. s"] by (rule pair_run_ok [OF assms(1)])
  have g': "reg_Get i (pw_registry (rw_pair w')) = Some r"
    unfolding run(1) [of "\<lambda>s. s"] using pair_run_lookup [OF assms(1)] g by simp
  have timer: "pw_timers (rw_pair w') i = None"
  proof (rule ccontr)
    assume "pw_timers (rw_pair w') i \<noteq> None"
    then obtain t where t: "pw_timers (rw_pair w') i = Some t" by blast
    then have "is_pending (pt_expected t)"
      using ok by (fastforce simp: pair_ok_def timers_ok_def timer_part_def match_ok_def armed_ok_def)
    then show False using live_timer_state [OF ok t] st(1) g' by (auto simp: rw_dev_def is_pending_def)
  qed
  have "pw_dev (rw_pair w') q = pw_dev (rw_pair w) q" if "j \<noteq> i" "rw_Get j w = Some q" for j q
    unfolding run(1) [of "\<lambda>s. s"]
    by (rule run_other [OF assms(1)]) (use that route_ops_device in \<open>auto simp: rw_Get_def\<close>)
  then show ?thesis using st timer run(2,3) by (auto simp: rw_dev_def)
qed

section \<open>Concrete runs\<close>

definition demo_handler :: pair_handler where
  "demo_handler = \<lparr>ph_plugin = True, ph_contacts = True, ph_has_bus = True, ph_can_save = True, ph_prune = 0,
     ph_listen_timeout = 0, ph_dial_hook = False\<rparr>"

definition demo_route_world :: "pairing_state \<Rightarrow> route_world" where
  "demo_route_world s = \<lparr>rw_pair = lone_world s, rw_forgotten = [], rw_dials = [], rw_actions = [], rw_saved = []\<rparr>"

definition demo_named :: json where
  "demo_named = JObj [(''deviceId'', JStr ''a'')]"

lemma demo_named_payloads:
  "payload_as dec_pair_payload zero_pair_payload (Some demo_named) = Some \<lparr>pap_device_id = ''a'', pap_reject = False\<rparr>"
  "payload_as dec_device_payload zero_device_payload (Some demo_named) = Some \<lparr>dp_device_id = ''a'', dp_key = []\<rparr>"
proof -
  have "key_matches ''deviceId'' ''deviceId''" by code_simp
  then show "payload_as dec_pair_payload zero_pair_payload (Some demo_named) = Some \<lparr>pap_device_id = ''a'', pap_reject = False\<rparr>"
    "payload_as dec_device_payload zero_device_payload (Some demo_named) = Some \<lparr>dp_device_id = ''a'', dp_key = []\<rparr>"
    by (simp_all add: payload_as_def unmarshal_raw_def demo_named_def dec_pair_payload_def dec_device_payload_def
        dec_fields_def pair_payload_fields_def device_payload_fields_def fld_def zero_pair_payload_def zero_device_payload_def)
qed

lemma demo_route_simps [simp]:
  "rw_Get i (demo_route_world s) = (if i = ''a'' then Some 0 else None)"
  "dv_state (rw_dev (demo_route_world s) 0) = s" "rw_pair (demo_route_world s) = lone_world s"
  "dv_id (rw_dev (demo_route_world s) 0) = ''a''"
  by (simp_all add: demo_route_world_def rw_Get_def rw_dev_def NewDevice_def SetState_def PokeReconnect_def Let_def)

lemma demo_accept_route:
  "dv_state (rw_dev (snd (handlePair pd cfg port sha demo_handler ok (Some demo_named) now
     (demo_route_world StatePairRequestedByPeer))) 0) = StatePaired"
proof -
  have "dv_state (pw_dev (snd (AcceptPairing 0 now (lone_world StatePairRequestedByPeer))) 0) = StatePaired"
    using state_ops(1) by (simp add: SetState_def PokeReconnect_def is_pending_def)
  moreover have "rw_pair (snd (pair_with_plugin sha 0 ''a'' now (demo_route_world StatePairRequestedByPeer))) =
      snd (AcceptPairing 0 now (lone_world StatePairRequestedByPeer))"
    by (simp add: pair_with_plugin_def split: prod.split option.split)
  ultimately show ?thesis
    by (simp add: handlePair_def demo_named_payloads demo_handler_def rw_dev_def [of "snd _"])
qed

theorem pair_route_needs_consent_witness:
  "\<exists>p. payload_as dec_pair_payload zero_pair_payload (Some demo_named) = Some p \<and>
     pap_device_id p = ''a'' \<and> \<not> pap_reject p"
  using pair_route_needs_consent [OF _ prod.collapse [symmetric] _ demo_accept_route, of "''a''"]
  by (simp add: lone_world_ok demo_handler_def)

theorem unpair_route_revokes_witness:
  "dv_state (rw_dev (snd (handleUnpair demo_handler True (Some demo_named) 0 (demo_route_world StatePaired))) 0) = StateUnpaired \<and>
   ''a'' \<in> set (rw_forgotten (snd (handleUnpair demo_handler True (Some demo_named) 0 (demo_route_world StatePaired))))"
  using unpair_route_revokes [OF _ _ _ demo_named_payloads(2) _ prod.collapse [symmetric],
      of "demo_route_world StatePaired" demo_handler "''a''" 0 True 0]
  by (simp add: lone_world_ok demo_handler_def)

section \<open>Dials\<close>

text \<open>
  A pair command starts at most one dial, and only to the named device while it is neither
  connected nor paired, at its discovered address, with the intent of the user recorded.
\<close>
theorem pair_route_dials:
  assumes "pair_ok (rw_pair w)" and "handlePair pd cfg port sha h save_ok payload now w = (resp, w')"
  shows "rw_dials w' = rw_dials w \<or>
    (\<exists>i r d. rw_Get i w = Some r \<and> rw_dials w' = rw_dials w @ [d] \<and> pd_device d = i \<and>
       pd_ip d = dv_discovery_ip (rw_dev w r) \<and> pd_ip d \<noteq> [] \<and>
       \<not> IsConnected (rw_dev w r) \<and> dv_state (rw_dev w r) \<noteq> StatePaired \<and>
       PairDialPending (rw_dev w' r) \<and> PairDialActive now (rw_dev w' r))"
proof -
  have unpair: "rw_dials (snd (handleUnpair h save_ok payload now w)) = rw_dials w"
    by (simp add: handleUnpair_def disconnect_device_def on_rw_dev_def forgetContacts_def saveDevices_def Let_def
        split: option.split)
  have plugin: "rw_dials (snd (pair_with_plugin sha r i now w)) = rw_dials w" for r i
    by (simp add: pair_with_plugin_def split: option.split prod.split sum.split)
  have hook: "rw_dials (snd (pair_dial_hook pd cfg port i now w)) = rw_dials w \<or>
     (\<exists>d. rw_dials (snd (pair_dial_hook pd cfg port i now w)) = rw_dials w @ [d] \<and> pd_device d = i \<and>
       pd_ip d = dv_discovery_ip (rw_dev w r) \<and> pd_ip d \<noteq> [] \<and> dv_state (rw_dev w r) \<noteq> StatePaired \<and>
       PairDialPending (rw_dev (snd (pair_dial_hook pd cfg port i now w)) r) \<and>
       PairDialActive now (rw_dev (snd (pair_dial_hook pd cfg port i now w)) r))"
    if "rw_Get i w = Some r" for i r
    using that
    by (auto simp: pair_dial_hook_def on_rw_dev_def rw_dev_def RequestPairDial_def DiscoveryAddr_def
        PairDialPending_def PairDialActive_def pairDialIntentTTL_def minute_def second_def Let_def
        split: option.split)
  show ?thesis
  proof (cases "payload_as dec_pair_payload zero_pair_payload payload")
    case None
    then show ?thesis using assms(2) by (auto simp: handlePair_def)
  next
    case (Some p)
    note p = this
    show ?thesis
    proof (cases "pap_reject p")
      case True
      then show ?thesis using assms(2) p unpair by (auto simp: handlePair_def map_prod_def split: prod.splits)
    next
      case False
      show ?thesis
      proof (cases "rw_Get (pap_device_id p) w")
        case None
        then show ?thesis using assms(2) p False by (auto simp: handlePair_def)
      next
        case (Some r)
        have i: "dv_id (rw_dev w r) = pap_device_id p"
          using pair_ok_registered [OF assms(1)] Some by (simp add: rw_Get_def rw_dev_def)
        show ?thesis
        proof (cases "\<not> IsConnected (rw_dev w r) \<and> ph_dial_hook h")
          case True
          then have "w' = snd (pair_dial_hook pd cfg port (pap_device_id p) now w)"
            using assms(2) p False Some i by (auto simp: handlePair_def split: prod.splits option.splits)
          then show ?thesis using hook [OF Some] True Some by blast
        next
          case False
          then have "w' = snd (pair_with_plugin sha r (pap_device_id p) now w) \<or> rw_dials w' = rw_dials w"
            using assms(2) p \<open>\<not> pap_reject p\<close> Some i
            by (auto simp: handlePair_def map_prod_def saveDevices_def on_rw_dev_def Let_def
                split: if_splits prod.splits)
          then show ?thesis using plugin by auto
        qed
      qed
    qed
  qed
qed

definition demo_seen_world :: route_world where
  "demo_seen_world = \<lparr>rw_pair = NewPairPlugin (one_device (SetDiscoveryAddr [10, 0, 0, 9] 1716 (NewDevice ''a'' [] [])))
     None 0 [] True True, rw_forgotten = [], rw_dials = [], rw_actions = [], rw_saved = []\<rparr>"

lemma demo_seen_simps [simp]:
  "rw_Get i demo_seen_world = (if i = ''a'' then Some 0 else None)" "rw_dials demo_seen_world = []"
  "rw_dev demo_seen_world q = SetDiscoveryAddr [10, 0, 0, 9] 1716 (NewDevice ''a'' [] [])"
  "pair_ok (rw_pair demo_seen_world)"
proof -
  show "rw_dev demo_seen_world q = SetDiscoveryAddr [10, 0, 0, 9] 1716 (NewDevice ''a'' [] [])"
    "rw_dials demo_seen_world = []"
    by (simp_all add: demo_seen_world_def rw_dev_def pw_dev_def NewPairPlugin_def)
  show "rw_Get i demo_seen_world = (if i = ''a'' then Some 0 else None)"
    by (simp add: demo_seen_world_def rw_Get_def NewPairPlugin_def NewDevice_def SetDiscoveryAddr_def)
  show "pair_ok (rw_pair demo_seen_world)"
    unfolding demo_seen_world_def route_world.simps by (rule pair_ok_new) simp
qed

theorem pair_route_dials_witness:
  "\<exists>d. rw_dials (snd (handlePair (\<lambda>_. Some 0) zero_pairing_config 1716 sha (demo_handler\<lparr>ph_dial_hook := True\<rparr>) True
      (Some demo_named) 0 demo_seen_world)) = [d] \<and> pd_device d = ''a'' \<and> pd_ip d = [10, 0, 0, 9]"
proof -
  let ?r = "handlePair (\<lambda>_. Some 0) zero_pairing_config 1716 sha (demo_handler\<lparr>ph_dial_hook := True\<rparr>) True
      (Some demo_named) 0 demo_seen_world"
  have "dv_conn (SetDiscoveryAddr [10, 0, 0, 9] 1716 (NewDevice ''a'' [] [])) = None"
    "dv_state (SetDiscoveryAddr [10, 0, 0, 9] 1716 (NewDevice ''a'' [] [])) \<noteq> StatePaired"
    "dv_id (SetDiscoveryAddr [10, 0, 0, 9] 1716 (NewDevice ''a'' [] [])) = ''a''"
    by (simp_all add: NewDevice_def SetDiscoveryAddr_def)
  then have "rw_dials (snd ?r) \<noteq> []"
    by (simp add: handlePair_def demo_named_payloads demo_handler_def IsConnected_def pair_dial_hook_def Duration_def
        on_rw_dev_def rw_dev_def [of "_\<lparr>rw_pair := _\<rparr>"] DiscoveryAddr_def RequestPairDial_def Let_def)
      (simp add: rw_dev_def [symmetric] SetDiscoveryAddr_def)
  then show ?thesis
    using pair_route_dials [OF _ prod.collapse [symmetric, of ?r]]
    by (auto simp: SetDiscoveryAddr_def split: if_splits)
qed

end
