(* ===== verification/StateManager.thy ===== *)
theory StateManager
  imports DeviceRegistry ConfigLoad
begin

text \<open>
  \<open>internal/daemon/state.go\<close>: the device list is loaded once, and from then on saved by one
  goroutine that takes requests from a channel with a single slot.  \<open>doc\<close> turns a registry into
  the text of the state file.
\<close>

section \<open>State\<close>

record state_manager =
  sm_registry :: registry
  sm_queue :: bool
  sm_dir :: dir_state
  sm_done :: bool
  sm_prune :: duration

definition prune_threshold :: "parse_duration \<Rightarrow> full_config \<Rightarrow> duration" where
  "prune_threshold pd c = (case pd (fc_prune_stale_threshold c) of Some d \<Rightarrow> d | None \<Rightarrow> 0)"

text \<open>
  The lock is opened, and closed again when the function returns.  A device file that cannot be read
  is only logged.
\<close>

definition initStateManager ::
  "(string \<Rightarrow> gtime option) \<Rightarrow> (string \<Rightarrow> ip) \<Rightarrow> (ip \<Rightarrow> string) \<Rightarrow> parse_duration \<Rightarrow> full_config
     \<Rightarrow> bool \<times> bool \<times> bool \<Rightarrow> nat \<Rightarrow> string \<Rightarrow> state_file \<Rightarrow> dir_state \<Rightarrow> int \<Rightarrow> registry \<Rightarrow> (string \<rightharpoonup> nat)
     \<Rightarrow> (lock_error + state_manager) \<times> (string \<rightharpoonup> nat)" where
  "initStateManager parse_time parse_ip ip_string pd c opens fd statePath file dir now devices locks =
     (case opens of (dir_ok, open_ok, flock_ok) \<Rightarrow>
       case AcquireStateLock dir_ok open_ok flock_ok fd statePath locks of
         (Inl e, locks) \<Rightarrow> (Inl e, locks)
       | (Inr l, locks) \<Rightarrow>
           (let rg = (case reg_Load parse_time parse_ip ip_string file devices of
                        Inl e \<Rightarrow> devices | Inr (rg, pubs) \<Rightarrow> rg);
                threshold = prune_threshold pd c;
                rg = snd (Prune threshold now rg)
            in (Inr \<lparr>sm_registry = rg, sm_queue = False, sm_dir = dir, sm_done = False, sm_prune = threshold\<rparr>,
                StateLock_Close (Some l) locks)))"

section \<open>Saving\<close>

definition requestSave :: "state_manager \<Rightarrow> state_manager" where
  "requestSave m = m\<lparr>sm_queue := True\<rparr>"

definition sm_saveDevices :: "(registry \<Rightarrow> string) \<Rightarrow> nat \<Rightarrow> fault \<Rightarrow> int \<Rightarrow> state_manager \<Rightarrow> save_outcome \<times> state_manager" where
  "sm_saveDevices doc n f now m =
     (let rg = snd (Prune (sm_prune m) now (sm_registry m));
          (out, dir) = SaveDevices (doc rg) n f (sm_dir m)
      in (out, m\<lparr>sm_registry := rg, sm_dir := dir\<rparr>))"

text \<open>The two branches of the loop.  An error is logged; the request is not put back.\<close>

definition save_requested :: "(registry \<Rightarrow> string) \<Rightarrow> nat \<Rightarrow> fault \<Rightarrow> int \<Rightarrow> state_manager \<Rightarrow> state_manager" where
  "save_requested doc n f now m =
     (if sm_done m \<or> \<not> sm_queue m then m else snd (sm_saveDevices doc n f now (m\<lparr>sm_queue := False\<rparr>)))"

definition save_on_stop :: "(registry \<Rightarrow> string) \<Rightarrow> nat \<Rightarrow> fault \<Rightarrow> int \<Rightarrow> state_manager \<Rightarrow> state_manager" where
  "save_on_stop doc n f now m =
     (if sm_done m then m else (snd (sm_saveDevices doc n f now m))\<lparr>sm_done := True\<rparr>)"

text \<open>
  The life of the manager: some component changes the registry, which by itself asks for nothing; a save is asked for; the goroutine
  serves a request; the daemon stops.  A save may fail.
\<close>

datatype sm_op = RegistryChanges registry | SaveAsked | ServeSave nat fault int | StopSaves nat fault int

fun sm_op_step :: "(registry \<Rightarrow> string) \<Rightarrow> sm_op \<Rightarrow> state_manager \<Rightarrow> state_manager" where
  "sm_op_step doc (RegistryChanges rg) m = m\<lparr>sm_registry := rg\<rparr>"
| "sm_op_step doc SaveAsked m = requestSave m"
| "sm_op_step doc (ServeSave n f now) m = save_requested doc n f now m"
| "sm_op_step doc (StopSaves n f now) m = save_on_stop doc n f now m"

definition sm_run :: "(registry \<Rightarrow> string) \<Rightarrow> sm_op list \<Rightarrow> state_manager \<Rightarrow> state_manager" where
  "sm_run doc ops m = fold (sm_op_step doc) ops m"

fun op_fault :: "sm_op \<Rightarrow> fault" where
  "op_fault (ServeSave n f now) = f"
| "op_fault (StopSaves n f now) = f"
| "op_fault _ = NoFault"

section \<open>No request is lost\<close>

definition file_current :: "(registry \<Rightarrow> string) \<Rightarrow> state_manager \<Rightarrow> bool" where
  "file_current doc m \<longleftrightarrow> ds_file (sm_dir m) = Some (doc (sm_registry m))"

lemma SaveDevices_ok: "fst (SaveDevices data n NoFault s) = Saved \<and> ds_file (snd (SaveDevices data n NoFault s)) = Some data"
  by (simp add: SaveDevices_def save_calls_def remove_temp_def)

lemma sm_save_current: "file_current doc (snd (sm_saveDevices doc n NoFault now m))"
  using SaveDevices_ok by (simp add: sm_saveDevices_def file_current_def Let_def split_def)

lemma sm_run_simps [simp]:
  "sm_run doc [] m = m" "sm_run doc (ops @ [op]) m = sm_op_step doc op (sm_run doc ops m)"
  by (simp_all add: sm_run_def)

text \<open>What is in the file was the registry at a time after the first of the operations.\<close>

definition served :: "(registry \<Rightarrow> string) \<Rightarrow> sm_op list \<Rightarrow> state_manager \<Rightarrow> bool" where
  "served doc ops m \<longleftrightarrow>
     (\<exists>before later. ops = before @ later \<and> before \<noteq> [] \<and>
        ds_file (sm_dir (sm_run doc ops m)) = Some (doc (sm_registry (sm_run doc before m))))"

lemma served_now: "file_current doc (sm_run doc (ops @ [op]) m) \<Longrightarrow> served doc (ops @ [op]) m"
  unfolding served_def file_current_def by (intro exI [of _ "ops @ [op]"] exI [of _ "[]"]) simp

lemma served_later:
  assumes "served doc ops m" and "sm_dir (sm_run doc (ops @ [op]) m) = sm_dir (sm_run doc ops m)"
  shows "served doc (ops @ [op]) m"
proof -
  obtain before later where "ops = before @ later" "before \<noteq> []"
      "ds_file (sm_dir (sm_run doc ops m)) = Some (doc (sm_registry (sm_run doc before m)))"
    using assms(1) unfolding served_def by blast
  then show ?thesis using assms(2) unfolding served_def by (intro exI [of _ before] exI [of _ "later @ [op]"]) simp
qed

lemma request_pending_or_served:
  assumes "\<forall>op \<in> set ops. op_fault op = NoFault" and "sm_queue m" and "\<not> sm_done m"
  shows "sm_queue (sm_run doc ops m) \<and> \<not> sm_done (sm_run doc ops m) \<or> served doc ops m"
  using assms(1)
proof (induction ops rule: rev_induct)
  case (snoc op ops)
  let ?m = "sm_run doc ops m"
  from snoc have IH: "sm_queue ?m \<and> \<not> sm_done ?m \<or> served doc ops m" by simp
  show ?case
  proof (cases op)
    case (ServeSave n f now)
    then have f: "f = NoFault" using snoc.prems by simp
    show ?thesis
    proof (cases "sm_done ?m \<or> \<not> sm_queue ?m")
      case True
      then show ?thesis using IH served_later [of doc ops m op] ServeSave by (auto simp: save_requested_def)
    next
      case False
      then have "file_current doc (sm_run doc (ops @ [op]) m)"
        using ServeSave f sm_save_current by (simp add: save_requested_def)
      then show ?thesis using served_now by blast
    qed
  next
    case (StopSaves n f now)
    then have f: "f = NoFault" using snoc.prems by simp
    show ?thesis
    proof (cases "sm_done ?m")
      case True
      then show ?thesis using IH served_later [of doc ops m op] StopSaves by (auto simp: save_on_stop_def)
    next
      case False
      then have "file_current doc (sm_run doc (ops @ [op]) m)"
        using StopSaves f sm_save_current [of doc n now ?m] by (simp add: save_on_stop_def file_current_def)
      then show ?thesis using served_now by blast
    qed
  qed (use IH served_later [of doc ops m op] in \<open>auto simp: requestSave_def\<close>)
qed (use assms(2,3) in simp)


definition fresh_manager :: state_manager where
  "fresh_manager = \<lparr>sm_registry = NewRegistry False, sm_queue = False, sm_dir = \<lparr>ds_file = None, ds_temp = None\<rparr>,
     sm_done = False, sm_prune = 0\<rparr>"


section \<open>The lock does not outlive the start\<close>

text \<open>
  The lock file is there so that two daemons do not write the same device state.  The first daemon releases
  it when \<open>initStateManager\<close> returns, so a second one starts on the same state while the first goes
  on saving.
\<close>
theorem two_daemons_share_state:
  assumes "initStateManager parse_time parse_ip ip_string pd c opens fd statePath file dir now devices locks
      = (Inr m, locks')"
  shows "\<exists>m2 locks2. initStateManager parse_time parse_ip ip_string pd c2 (True, True, True) fd2 statePath file2 dir2 now2
      devices2 locks' = (Inr m2, locks2)"
  using assms
  by (auto simp: initStateManager_def AcquireStateLock_def StateLock_Close_def Let_def split: prod.splits sum.splits if_splits)

theorem two_daemons_share_state_witness:
  "\<exists>m m2 locks locks2.
     initStateManager (\<lambda>_. None) (\<lambda>_. []) (\<lambda>_. []) (\<lambda>_. None) zero_config (True, True, True) 3 ''s'' None
       \<lparr>ds_file = None, ds_temp = None\<rparr> 0 (NewRegistry False) Map.empty = (Inr m, locks) \<and>
     initStateManager (\<lambda>_. None) (\<lambda>_. []) (\<lambda>_. []) (\<lambda>_. None) zero_config (True, True, True) 4 ''s'' None
       \<lparr>ds_file = None, ds_temp = None\<rparr> 0 (NewRegistry False) locks = (Inr m2, locks2)"
proof -
  let ?init = "initStateManager (\<lambda>_. None) (\<lambda>_. []) (\<lambda>_. []) (\<lambda>_. None) zero_config (True, True, True) 3 ''s'' None
       \<lparr>ds_file = None, ds_temp = None\<rparr> 0 (NewRegistry False) Map.empty"
  obtain m locks where m: "?init = (Inr m, locks)"
    by (simp add: initStateManager_def AcquireStateLock_def Let_def)
  then show ?thesis using two_daemons_share_state [OF m] by blast
qed

end
