(* ===== verification/FileNames.thy ===== *)
theory FileNames
  imports GoStrings Paths Identity
begin

text \<open>
  \<open>internal/fsutil/fsutil.go\<close>: file names that come from a peer, and the creation of a file under a name
  that is free.  The facts say what a hardened name can contain and where the file ends up.
\<close>

section \<open>Hardening a name\<close>

definition MaxFilenameBytes :: nat where
  "MaxFilenameBytes = 255"

definition DefaultFallbackFilename :: string where
  "DefaultFallbackFilename = ''downloaded_file''"

definition kept_rune :: "nat \<Rightarrow> bool" where
  "kept_rune r \<longleftrightarrow> \<not> (is_cc r \<or> r = 47 \<or> r = 92 \<or> r = 0)"

text \<open>The byte at which a name is cut: the largest start of a rune that is not beyond \<open>n\<close>.\<close>

fun rune_boundary :: "string \<Rightarrow> nat \<Rightarrow> nat" where
  "rune_boundary s 0 = 0"
| "rune_boundary s (Suc n) = (if cont (byte (s ! Suc n)) then rune_boundary s n else Suc n)"

definition bound_name :: "string \<Rightarrow> string" where
  "bound_name s =
     (if length s > MaxFilenameBytes then to_valid (take (rune_boundary s MaxFilenameBytes) s) else s)"

definition SanitizeFilename :: "string \<Rightarrow> string list \<Rightarrow> string" where
  "SanitizeFilename name fallback =
     (let fb = (case fallback of f # _ \<Rightarrow> if f \<noteq> [] then f else DefaultFallbackFilename | [] \<Rightarrow> DefaultFallbackFilename);
          name = map (\<lambda>c. if byte c = 92 then slash else c) name;
          name = Base name;
          name = string_of_runes (filter kept_rune (runes_of name));
          name = dropWhile (\<lambda>c. c = CHR ''.'') name;
          name = TrimSpace name;
          name = bound_name name
      in if name = [] \<or> name = dot \<or> name = dotdot then fb else name)"

section \<open>Creating a file under a free name\<close>

text \<open>
  The files by path.  \<open>refused\<close> says for which paths opening fails for another reason than an existing
  file.
\<close>

type_synonym files = "string \<rightharpoonup> string"

datatype create_error = CreateFailed | NamesExhausted

definition candidate :: "string \<Rightarrow> nat \<Rightarrow> string" where
  "candidate name counter =
     (let ext = Ext name
      in if counter = 0 then name else TrimSuffix ext name @ ''_'' @ show_nat counter @ ext)"

function create_loop ::
  "(string \<Rightarrow> bool) \<Rightarrow> string \<Rightarrow> string \<Rightarrow> nat \<Rightarrow> files \<Rightarrow> (create_error + string) \<times> files" where
  "create_loop refused dir name counter fs =
     (if counter \<ge> 10000 then (Inl NamesExhausted, fs)
      else let path = Join [dir, candidate name counter]
           in if fs path \<noteq> None then create_loop refused dir name (Suc counter) fs
              else if refused path then (Inl CreateFailed, fs)
              else (Inr path, fs(path \<mapsto> [])))"
  by pat_completeness auto
termination
  by (relation "measure (\<lambda>(refused, dir, name, counter, fs). 10000 - counter)") auto

declare create_loop.simps [simp del]

definition CreateUnique :: "(string \<Rightarrow> bool) \<Rightarrow> string \<Rightarrow> string \<Rightarrow> files \<Rightarrow> (create_error + string) \<times> files" where
  "CreateUnique refused dir name fs = create_loop refused dir (SanitizeFilename name []) 0 fs"

definition EnsureUnique :: "(string \<Rightarrow> bool) \<Rightarrow> string \<Rightarrow> string \<Rightarrow> files \<Rightarrow> (create_error + string) \<times> files" where
  "EnsureUnique refused dir name fs = CreateUnique refused dir name fs"

section \<open>What a hardened name contains\<close>

definition clean_char :: "char \<Rightarrow> bool" where
  "clean_char c \<longleftrightarrow> 32 \<le> byte c \<and> byte c \<noteq> 127 \<and> byte c \<noteq> 47 \<and> byte c \<noteq> 92"

lemma clean_char_slash: "clean_char c \<Longrightarrow> c \<noteq> slash"
  by (auto simp: clean_char_def slash_def)

lemma enc_kept_clean:
  assumes "kept_rune r"
  shows "\<forall>b \<in> set (utf8_enc r). b < 256 \<and> clean_char (char_of b)"
proof
  fix b assume b: "b \<in> set (utf8_enc r)"
  have lt: "b < 256" using utf8_enc_bytes [of r] b by (simp add: list_all_iff)
  have "128 \<le> b \<or> b = r \<and> r < 128"
    using b by (auto simp: utf8_enc_def Let_def rune_error_def scalar_def split: if_splits)
  moreover have "clean_char (char_of b)" if "128 \<le> b"
    using that lt by (auto simp: clean_char_def of_char_of)
  moreover have "clean_char (char_of b)" if "b = r" "r < 128"
    using that assms by (auto simp: clean_char_def kept_rune_def is_cc_def of_char_of)
  ultimately show "b < 256 \<and> clean_char (char_of b)" using lt by blast
qed

lemma kept_runes_clean: "list_all clean_char (string_of_runes (filter kept_rune rs))"
proof -
  have "\<forall>c \<in> set (string_of_runes (filter kept_rune rs)). clean_char c"
    using enc_kept_clean by (fastforce simp: string_of_runes_def string_of_def)
  then show ?thesis by (simp add: list_all_iff)
qed

lemma dropWhile_all: "list_all P s \<Longrightarrow> list_all P (dropWhile Q s)"
  by (auto simp: list_all_iff dest: set_dropWhileD)

lemma TrimSpace_all: "list_all P s \<Longrightarrow> list_all P (TrimSpace s)"
  by (auto simp: TrimSpace_def Let_def list_all_iff dest: in_set_takeD in_set_dropD)

text \<open>\<open>ToValidUTF8\<close> only removes bytes.\<close>

lemma good_runes_sub:
  "set (concat (map utf8_enc (map fst (filter (\<lambda>rw. \<not> bad_rune rw) (runes bs))))) \<subseteq> set bs \<and>
   length (concat (map utf8_enc (map fst (filter (\<lambda>rw. \<not> bad_rune rw) (runes bs))))) \<le> length bs"
proof (induction bs rule: runes.induct)
  case (2 b bs)
  obtain r w where rw: "utf8_next (b # bs) = (r, w)" by force
  then have w: "1 \<le> w" using utf8_next_width by blast
  let ?rest = "drop (w - 1) bs"
  note IH = 2 [OF rw [symmetric] refl]
  have rest: "set ?rest \<subseteq> set bs" "length ?rest \<le> length bs" by (auto dest: in_set_dropD)
  show ?case
  proof (cases "bad_rune (r, w)")
    case True
    then show ?thesis using IH rw rest by auto
  next
    case False
    have enc: "utf8_enc r = take w (b # bs)" by (rule enc_utf8_next [OF rw False])
    have "set (take w (b # bs)) \<subseteq> set (b # bs)" by (rule set_take_subset)
    moreover have "length (take w (b # bs)) + length ?rest \<le> length (b # bs)"
      using w by simp
    ultimately show ?thesis using IH rw rest False enc by (auto simp: Let_def)
  qed
qed simp

lemma to_valid_sub: "set (to_valid s) \<subseteq> set s" "length (to_valid s) \<le> length s"
proof -
  let ?bs = "concat (map utf8_enc (map fst (filter (\<lambda>rw. \<not> bad_rune rw) (runes (bytes_of s)))))"
  have "set ?bs \<subseteq> set (bytes_of s)" "length ?bs \<le> length (bytes_of s)"
    using good_runes_sub by blast+
  then show "set (to_valid s) \<subseteq> set s" "length (to_valid s) \<le> length s"
    by (auto simp: to_valid_def string_of_runes_def string_of_def bytes_of_def comp_def dest!: subsetD)
qed

lemma rune_boundary_le: "rune_boundary s n \<le> n"
  by (induction n) auto

lemma bound_name_sub: "list_all P s \<Longrightarrow> list_all P (bound_name s)" "length (bound_name s) \<le> MaxFilenameBytes"
proof -
  show "list_all P (bound_name s)" if "list_all P s"
    using that to_valid_sub(1) [of "take (rune_boundary s MaxFilenameBytes) s"]
    by (auto simp: bound_name_def list_all_iff dest: in_set_takeD)
  show "length (bound_name s) \<le> MaxFilenameBytes"
    using to_valid_sub(2) [of "take (rune_boundary s MaxFilenameBytes) s"] rune_boundary_le [of s MaxFilenameBytes]
    by (auto simp: bound_name_def)
qed

lemma SanitizeFilename_safe:
  "plain_part (SanitizeFilename name []) \<and> length (SanitizeFilename name []) \<le> MaxFilenameBytes \<and>
   list_all clean_char (SanitizeFilename name [])"
proof -
  define u where "u = string_of_runes (filter kept_rune
    (runes_of (Base (map (\<lambda>c. if byte c = 92 then slash else c) name))))"
  define v where "v = bound_name (TrimSpace (dropWhile (\<lambda>c. c = CHR ''.'') u))"
  have s: "SanitizeFilename name [] = (if v = [] \<or> v = dot \<or> v = dotdot then DefaultFallbackFilename else v)"
    by (simp add: SanitizeFilename_def v_def u_def Let_def)
  have "list_all clean_char u" unfolding u_def by (rule kept_runes_clean)
  then have v: "list_all clean_char v" unfolding v_def
    by (intro bound_name_sub TrimSpace_all dropWhile_all)
  have "list_all clean_char DefaultFallbackFilename" "plain_part DefaultFallbackFilename"
    "length DefaultFallbackFilename \<le> MaxFilenameBytes"
    by (simp_all add: DefaultFallbackFilename_def clean_char_def slash_def plain_part_def dot_def dotdot_def MaxFilenameBytes_def)
  moreover have "plain_part v" if "v \<noteq> []" "v \<noteq> dot" "v \<noteq> dotdot"
    using v that clean_char_slash by (auto simp: plain_part_def list_all_iff)
  ultimately show ?thesis using s v bound_name_sub(2) v_def by auto
qed

text \<open>
  C25. A name that a peer chose becomes one ordinary component: not empty, not \<open>.\<close> or \<open>..\<close>, without
  slash, backslash or ASCII control characters and of at most 255 bytes, so under a rooted
  directory it names a file directly in that directory.
\<close>
theorem filename_cannot_escape:
  assumes "is_rooted dir"
  shows "let n = SanitizeFilename name []
    in plain_part n \<and> length n \<le> 255 \<and> list_all clean_char n \<and>
       (\<exists>ps. Clean dir = slash # join_with [slash] ps \<and> Join [dir, n] = slash # join_with [slash] (ps @ [n]))"
  using SanitizeFilename_safe [of name] Join_dir_name [OF assms, of "SanitizeFilename name []"]
  by (auto simp: MaxFilenameBytes_def Let_def)

theorem filename_cannot_escape_witness:
  "plain_part (SanitizeFilename ''../../etc/passwd'' [])"
  using filename_cannot_escape [of "''/srv''" "''../../etc/passwd''"] by (simp add: is_rooted_def slash_def Let_def)

text \<open>
  The leading dots are removed before the leading spaces, so a space in front saves them: \<open> .bashrc\<close> becomes
  a hidden file although leading dots are to be dropped.
\<close>
theorem leading_dot_survives:
  "SanitizeFilename '' .bashrc'' [] = ''.bashrc''"
proof -
  have base: "Base '' .bashrc'' = '' .bashrc''" by (simp add: Base_def last_part_def slash_def)
  have rs: "runes_of '' .bashrc'' = [32, 46, 98, 97, 115, 104, 114, 99]"
    by (simp add: runes_of_def bytes_of_def runes.simps utf8_next.simps)
  have "filter kept_rune [32, 46, 98, 97, 115, 104, 114, 99] = [32, 46, 98, 97, 115, 104, 114, 99]"
    by (simp add: kept_rune_def is_cc_def)
  moreover have "string_of_runes [32, 46, 98, 97, 115, 104, 114, 99] = '' .bashrc''"
    unfolding rs [symmetric] by (rule string_of_runes_of)
      (simp add: valid_string_def bad_rune_def bytes_of_def runes.simps utf8_next.simps rune_error_def)
  ultimately have 1: "string_of_runes (filter kept_rune (runes_of '' .bashrc'')) = '' .bashrc''"
    unfolding rs by simp
  have 2: "TrimSpace '' .bashrc'' = ''.bashrc''"
    by (simp add: TrimSpace_def bytes_of_def runes.simps utf8_next.simps is_space_rune_def Let_def)
  show ?thesis
    by (simp add: SanitizeFilename_def base 1 2 bound_name_def MaxFilenameBytes_def dot_def dotdot_def Let_def)
qed


section \<open>A new file in the directory\<close>

lemma create_loop_fresh:
  "create_loop refused dir name k fs = (Inr path, fs') \<Longrightarrow>
     fs path = None \<and> fs' = fs(path \<mapsto> []) \<and> (\<exists>m. path = Join [dir, candidate name m])"
proof (induction refused dir name k fs rule: create_loop.induct)
  case (1 refused dir name k fs)
  then show ?case
    by (subst (asm) create_loop.simps) (auto simp: Let_def split: if_splits)
qed

lemma create_loop_fails: "create_loop refused dir name k fs = (Inl e, fs') \<Longrightarrow> fs' = fs"
proof (induction refused dir name k fs rule: create_loop.induct)
  case (1 refused dir name k fs)
  then show ?case
    by (subst (asm) create_loop.simps) (auto simp: Let_def split: if_splits)
qed

lemma split_sub: "p \<in> set (split_on sep s) \<Longrightarrow> set p \<subseteq> set s"
proof (induction s arbitrary: p)
  case (Cons c s)
  show ?case
  proof (cases "c = sep")
    case True
    then show ?thesis using Cons by auto
  next
    case False
    obtain q qs where q: "split_on sep s = q # qs" by (cases "split_on sep s") auto
    then have "p = c # q \<or> p \<in> set qs" using Cons.prems False by auto
    then show ?thesis using Cons.IH [of q] Cons.IH [of p] q by auto
  qed
qed simp

lemma candidate_plain:
  assumes "plain_part name" shows "plain_part (candidate name m)"
proof (cases "m = 0")
  case False
  let ?ext = "Ext name"
  let ?base = "TrimSuffix ?ext name"
  have ns: "slash \<notin> set name" using assms by (simp add: plain_part_def)
  then have last: "last_part name = name" by (simp add: last_part_def split_single)
  have ext: "slash \<notin> set ?ext"
  proof (cases "CHR ''.'' \<in> set name")
    case True
    have "set (last (split_on (CHR ''.'') name)) \<subseteq> set name"
    proof -
      have "last (split_on (CHR ''.'') name) \<in> set (split_on (CHR ''.'') name)" by simp
      moreover have "set p \<subseteq> set name" if "p \<in> set (split_on (CHR ''.'') name)" for p
        using that by (rule split_sub)
      ultimately show ?thesis by blast
    qed
    then show ?thesis using ns by (auto simp: Ext_def last Let_def slash_def)
  qed (simp add: Ext_def last)
  have base: "slash \<notin> set ?base" using ns by (auto simp: TrimSuffix_def dest: in_set_takeD)
  have digits: "slash \<notin> set (show_nat m)"
    using show_nat_digits [of m] by (auto simp: list_all_iff is_digit_def slash_def)
  have c: "candidate name m = ?base @ ''_'' @ show_nat m @ ?ext" using False by (simp add: candidate_def Let_def)
  have "CHR ''_'' \<in> set (candidate name m)" by (simp add: c)
  then have "candidate name m \<noteq> []" "candidate name m \<noteq> dot" "candidate name m \<noteq> dotdot"
    by (auto simp: dot_def dotdot_def)
  moreover have "slash \<notin> set (candidate name m)"
    using base digits ext by (simp add: c) (simp add: slash_def)
  ultimately show ?thesis by (simp add: plain_part_def)
qed (use assms in \<open>simp add: candidate_def\<close>)

text \<open>
  \<open>EnsureUnique\<close> never touches an existing file: the path it returns was free, the only change is an empty
  file there, and it lies directly in the directory whatever name was asked for.
\<close>
theorem unique_file_is_new:
  assumes "is_rooted dir" and "EnsureUnique refused dir name fs = (Inr path, fs')"
  shows "fs path = None \<and> fs' = fs(path \<mapsto> []) \<and>
    (\<exists>ps n. Clean dir = slash # join_with [slash] ps \<and> plain_part n \<and> path = slash # join_with [slash] (ps @ [n]))"
proof -
  obtain m where m: "fs path = None" "fs' = fs(path \<mapsto> [])" "path = Join [dir, candidate (SanitizeFilename name []) m]"
    using create_loop_fresh assms(2) unfolding EnsureUnique_def CreateUnique_def by blast
  moreover have "plain_part (candidate (SanitizeFilename name []) m)"
    using candidate_plain SanitizeFilename_safe by blast
  ultimately show ?thesis using Join_dir_name [OF assms(1)] by blast
qed

theorem unique_file_is_new_witness:
  "\<exists>path. EnsureUnique (\<lambda>_. False) ''/srv'' [] Map.empty = (Inr path, [path \<mapsto> []]) \<and> (Map.empty :: files) path = None"
proof -
  obtain path fs' where r: "EnsureUnique (\<lambda>_. False) ''/srv'' [] Map.empty = (Inr path, fs')"
    by (simp add: EnsureUnique_def CreateUnique_def create_loop.simps [of _ _ _ 0] Let_def)
  from unique_file_is_new [OF _ r] show ?thesis using r by (auto simp: is_rooted_def slash_def)
qed

section \<open>Names from identifiers\<close>

text \<open>
  \<open>ReplaceAllString\<close> with a class of single characters: every rune outside the ASCII characters that \<open>ok\<close> allows is
  replaced.
\<close>

definition replace_unsafe :: "(nat \<Rightarrow> bool) \<Rightarrow> string \<Rightarrow> string \<Rightarrow> string" where
  "replace_unsafe ok new s = concat (map (\<lambda>r. if ok r then [char_of r] else new) (runes_of s))"

text \<open>The characters of the class used for file names.\<close>

definition file_safe :: "nat \<Rightarrow> bool" where
  "file_safe r \<longleftrightarrow> 97 \<le> r \<and> r \<le> 122 \<or> 65 \<le> r \<and> r \<le> 90 \<or> 48 \<le> r \<and> r \<le> 57 \<or> r = 46 \<or> r = 95 \<or> r = 45"

text \<open>A name without a slash leaves its directory only when it is the parent itself.\<close>

definition confined_path :: "string \<Rightarrow> string \<Rightarrow> string option" where
  "confined_path dir name = (if Clean name = ''..'' then None else Some (Join [dir, name]))"

lemma replaced_chars:
  assumes "\<And>r. ok r \<Longrightarrow> r < 128" and "c \<in> set (replace_unsafe ok new s)"
  shows "ok (byte c) \<or> c \<in> set new"
proof -
  obtain r where c: "c \<in> set (if ok r then [char_of r] else new)"
    using assms(2) unfolding replace_unsafe_def set_concat set_map by blast
  show ?thesis
  proof (cases "ok r")
    case True
    then have "r < 256" using assms(1) [of r] by simp
    then show ?thesis using True c by simp
  qed (use c in simp)
qed

lemma replaced_no_slash:
  assumes "\<And>r. ok r \<Longrightarrow> r < 128 \<and> r \<noteq> 47" and "slash \<notin> set new"
  shows "slash \<notin> set (replace_unsafe ok new s)"
proof
  assume "slash \<in> set (replace_unsafe ok new s)"
  then have "ok (byte slash) \<or> slash \<in> set new" using assms(1) by (intro replaced_chars [of ok]) auto
  then have "ok 47" using assms(2) by (simp add: slash_def)
  then show False using assms(1) by blast
qed

lemma file_safe_ascii: "file_safe r \<Longrightarrow> r < 128 \<and> r \<noteq> 47"
  by (auto simp: file_safe_def)

lemma confined_plain:
  assumes "is_rooted dir" and "plain_part name" and "confined_path dir name = Some path"
  shows "\<exists>ps. Clean dir = slash # join_with [slash] ps \<and> path = slash # join_with [slash] (ps @ [name])"
  using Join_dir_name [OF assms(1,2)] assms(3) by (auto simp: confined_path_def split: if_splits)

lemma plain_with_ext:
  assumes "slash \<notin> set s" and "2 \<le> length ext" and "slash \<notin> set ext" and "ext \<noteq> dotdot"
  shows "plain_part (s @ ext)"
proof -
  have "s @ ext \<noteq> dot" using assms(2) by (auto simp: dot_def append_eq_Cons_conv)
  moreover have "s @ ext \<noteq> dotdot"
  proof
    assume e: "s @ ext = dotdot"
    then have "length (s @ ext) = 2" by (simp add: dotdot_def)
    then have "length s = 0" using assms(2) unfolding length_append by arith
    then have "s = []" by simp
    then show False using e assms(4) by simp
  qed
  ultimately show ?thesis using assms by (auto simp: plain_part_def)
qed

end
