(* ===== verification/PayloadTransfer.thy ===== *)
theory PayloadTransfer
  imports Packet Cert Net AtomicFile
begin

text \<open>
  Payload transfers and the plaintext start of a connection (\<open>internal/transport\<close>): \<open>sidechannel.go\<close>,
  \<open>receive.go\<close>, \<open>send.go\<close>, \<open>space.go\<close>, \<open>idleconn.go\<close>, \<open>plaintext.go\<close> and \<open>keepalive.go\<close>.

  The outcomes of dialling and of the TLS handshake are arguments, and so are the bytes the peer sends
  before its stream ends, in an end of file or in an error.
\<close>

section \<open>Connecting the side channel\<close>

definition DefaultKeepAliveIdle :: duration where
  "DefaultKeepAliveIdle = 30 * second"

definition keep_alive_idle :: "duration \<Rightarrow> duration" where
  "keep_alive_idle idle = (if idle \<le> 0 then DefaultKeepAliveIdle else idle)"

definition defaultSetupTimeout :: duration where
  "defaultSetupTimeout = 15 * second"

record sidechannel_options =
  so_timeout :: duration
  so_idle_timeout :: duration
  so_keep_alive_idle :: duration
  so_max_payload :: int
  so_port_min :: int
  so_port_max :: int

definition no_sidechannel_options :: sidechannel_options where
  "no_sidechannel_options = \<lparr>so_timeout = 0, so_idle_timeout = 0, so_keep_alive_idle = 0, so_max_payload = 0,
     so_port_min = 0, so_port_max = 0\<rparr>"

definition effective_options :: "sidechannel_options list \<Rightarrow> sidechannel_options" where
  "effective_options options =
     (let opts = (case options of o1 # _ \<Rightarrow> o1 | [] \<Rightarrow> no_sidechannel_options);
          opts = (if so_timeout opts \<le> 0 then opts\<lparr>so_timeout := defaultSetupTimeout\<rparr> else opts)
      in if so_keep_alive_idle opts \<le> 0 then opts\<lparr>so_keep_alive_idle := DefaultKeepAliveIdle\<rparr> else opts)"

datatype dial_error = BadPeerAddress | NoTLSConfig | DialFailed | HandshakeFailed | PeerRejected side_channel_error

text \<open>What the network answers: the dial, the handshake within the timeout, the certificates of the peer.\<close>

record dial_outcome =
  do_dialled :: bool
  do_handshake :: bool
  do_peers :: "cert list"

definition DialSidechannel ::
  "(string \<Rightarrow> string) \<Rightarrow> ip \<Rightarrow> int \<Rightarrow> bool \<Rightarrow> string \<Rightarrow> dial_outcome \<Rightarrow> sidechannel_options list
     \<Rightarrow> dial_error + sidechannel_options" where
  "DialSidechannel sha addr port has_tls expectedFP net options =
     (if addr = [] \<or> port < 1 \<or> port > 65535 then Inl BadPeerAddress
      else if \<not> has_tls then Inl NoTLSConfig
      else if \<not> do_dialled net then Inl DialFailed
      else if \<not> do_handshake net then Inl HandshakeFailed
      else if expectedFP = [] then Inr (effective_options options)
      else case VerifySideChannelPeer sha (do_peers net) expectedFP of
        Some e \<Rightarrow> Inl (PeerRejected e)
      | None \<Rightarrow> Inr (effective_options options))"

section \<open>Receiving into a file\<close>

text \<open>\<open>CheckFreeSpace\<close> computes with \<open>uint64\<close>: the product wraps around.\<close>

definition CheckFreeSpace :: "(int \<times> int) option \<Rightarrow> int \<Rightarrow> bool" where
  "CheckFreeSpace stat sz =
     (if sz < 0 then True
      else case stat of None \<Rightarrow> False | Some (bavail, bsize) \<Rightarrow> sz \<le> (bavail * bsize) mod 2 ^ 64)"

definition receive_calls :: "file_call list" where
  "receive_calls = [CreateTemp, ChmodTemp, WriteTemp, SyncTemp, CloseTemp, RenameTemp]"

datatype receive_error =
    BadSize | NoSpace | DialRefused dial_error | StreamBroken | TooLong | TooShort | FileTrouble file_call

datatype receive_result = Received int | NotReceived receive_error int | ReceiverDied

text \<open>
  The copy stops at the end of the stream or one byte past the limit; \<open>None\<close> is a complete payload.
\<close>

definition copied :: "string \<Rightarrow> int \<Rightarrow> string" where
  "copied stream limit = take (nat (limit + 1)) stream"

definition copy_error :: "string \<Rightarrow> bool \<Rightarrow> int \<Rightarrow> int \<Rightarrow> receive_error option" where
  "copy_error stream clean_end limit sz =
     (let n = int (length (copied stream limit))
      in if n \<le> limit \<and> \<not> clean_end then Some StreamBroken
         else if n > limit then Some TooLong
         else if sz \<ge> 0 \<and> n \<noteq> sz then Some TooShort
         else None)"

text \<open>A payload that is not complete ends the calls at the copy, unless an earlier call has failed.\<close>

definition receive_fault :: "receive_error option \<Rightarrow> file_fault \<Rightarrow> file_fault" where
  "receive_fault err f =
     (if err = None \<or> f \<in> {CallFails CreateTemp, DiesIn CreateTemp, CallFails ChmodTemp, DiesIn ChmodTemp,
          CallFails WriteTemp, DiesIn WriteTemp}
      then f else CallFails WriteTemp)"

definition ReceiveToFile ::
  "(string \<Rightarrow> string) \<Rightarrow> ip \<Rightarrow> int \<Rightarrow> int \<Rightarrow> bool \<Rightarrow> string \<Rightarrow> int \<Rightarrow> sidechannel_options \<Rightarrow> (int \<times> int) option
     \<Rightarrow> dial_outcome \<Rightarrow> string \<Rightarrow> bool \<Rightarrow> nat \<Rightarrow> file_fault \<Rightarrow> file_state \<Rightarrow> receive_result \<times> file_state" where
  "ReceiveToFile sha addr port sz has_tls expectedFP max_size opts stat net stream clean_end k f s =
     (if max_size \<le> 0 \<or> max_size > 2 ^ 50 \<or> sz < -1 \<or> sz > max_size then (NotReceived BadSize 0, s)
      else if sz \<ge> 0 \<and> \<not> CheckFreeSpace stat sz then (NotReceived NoSpace 0, s)
      else case DialSidechannel sha addr port has_tls expectedFP net [opts] of
        Inl e \<Rightarrow> (NotReceived (DialRefused e) 0, s)
      | Inr _ \<Rightarrow>
          (let limit = (if sz \<ge> 0 then sz else max_size);
               data = copied stream limit;
               err = copy_error stream clean_end limit sz
           in case run_file_calls data (if f = receive_fault err f then k else length data) (receive_fault err f) receive_calls s of
                (Written, s) \<Rightarrow> (Received (int (length data)), s)
              | (FailedAt c, s) \<Rightarrow>
                  (NotReceived (case err of None \<Rightarrow> FileTrouble c
                                | Some e \<Rightarrow> if f = receive_fault err f then FileTrouble c else e)
                     (if c \<in> {CreateTemp, ChmodTemp} then 0 else int (length data)), s)
              | (ProcessDied, s) \<Rightarrow> (ReceiverDied, s)))"

text \<open>The progress callback sees the running total.\<close>

definition progressWriter_Write :: "int \<Rightarrow> string \<Rightarrow> int \<Rightarrow> int \<times> (int \<times> int)" where
  "progressWriter_Write whole chunk current = (current + int (length chunk), (current + int (length chunk), whole))"

section \<open>Sending a file\<close>

text \<open>The first port of the range that can be bound.\<close>

definition ListenSidechannel :: "(int \<Rightarrow> bool) \<Rightarrow> int \<Rightarrow> int \<Rightarrow> int option" where
  "ListenSidechannel can_bind portMin portMax = find can_bind [portMin..portMax]"

datatype send_error =
    AcceptFailed | SendHandshakeFailed | UnexpectedPeer | PeerNotVerified side_channel_error | OpenFailed | StatFailed | SendBroken

text \<open>
  One connection is accepted.  \<open>contents\<close> is the file at the path when it is opened; the result also has
  the bytes that reached the peer.
\<close>

definition AcceptAndSend ::
  "(string \<Rightarrow> string) \<Rightarrow> bool \<Rightarrow> bool \<Rightarrow> cert list \<Rightarrow> string \<Rightarrow> string \<Rightarrow> string option \<Rightarrow> bool \<Rightarrow> nat option
     \<Rightarrow> send_error option \<times> string" where
  "AcceptAndSend sha accepted handshake peers expectedID expectedFP contents stat_ok breaks_after =
     (if \<not> accepted then (Some AcceptFailed, [])
      else if \<not> handshake then (Some SendHandshakeFailed, [])
      else if peers = [] \<or> \<not> MatchesDeviceID (Some (hd peers)) expectedID then (Some UnexpectedPeer, [])
      else case VerifySideChannelPeer sha peers expectedFP of
        Some e \<Rightarrow> (Some (PeerNotVerified e), [])
      | None \<Rightarrow>
          (case contents of
             None \<Rightarrow> (Some OpenFailed, [])
           | Some data \<Rightarrow>
               if \<not> stat_ok then (Some StatFailed, [])
               else case breaks_after of
                 Some n \<Rightarrow> (Some SendBroken, take n data)
               | None \<Rightarrow> (None, data)))"

section \<open>The idle timeout\<close>

record idle_conn =
  ic_idle :: duration
  ic_last_read :: int
  ic_last_write :: int
  ic_read_deadline :: int
  ic_write_deadline :: int

text \<open>No wrapper without an idle time.\<close>

definition WithIdleTimeout :: "duration \<Rightarrow> int \<Rightarrow> idle_conn option" where
  "WithIdleTimeout idle now =
     (if idle \<le> 0 then None
      else Some \<lparr>ic_idle = idle, ic_last_read = now, ic_last_write = now,
                 ic_read_deadline = now + idle, ic_write_deadline = now + idle\<rparr>)"

text \<open>What happens before the underlying read or write; \<open>ok\<close> says whether the deadline could be set.\<close>

definition idle_Read :: "int \<Rightarrow> bool \<Rightarrow> idle_conn \<Rightarrow> bool \<times> idle_conn" where
  "idle_Read now ok c =
     (if now - ic_last_read c \<ge> ic_idle c div 4
      then (let c = c\<lparr>ic_last_read := now\<rparr>
            in if ok then (True, c\<lparr>ic_read_deadline := now + ic_idle c\<rparr>) else (False, c))
      else (True, c))"

definition idle_Write :: "int \<Rightarrow> bool \<Rightarrow> idle_conn \<Rightarrow> bool \<times> idle_conn" where
  "idle_Write now ok c =
     (if now - ic_last_write c \<ge> ic_idle c div 4
      then (let c = c\<lparr>ic_last_write := now\<rparr>
            in if ok then (True, c\<lparr>ic_write_deadline := now + ic_idle c\<rparr>) else (False, c))
      else (True, c))"

section \<open>The plaintext packet before TLS\<close>

text \<open>
  \<open>buffered\<close> bytes of what follows the packet are in the reader; they are replayed before the rest of
  the connection.
\<close>

definition ReadPlaintextPacket ::
  "(string \<Rightarrow> packet option) \<Rightarrow> reader \<Rightarrow> nat \<Rightarrow> read_error + packet \<times> string" where
  "ReadPlaintextPacket unmarshal conn buffered =
     (case ReadPacketBounded unmarshal conn MaxIdentityPacketSize of
        (Inl e, r) \<Rightarrow> Inl e
      | (Inr p, r) \<Rightarrow>
          Inr (p, if buffered > 0 then take buffered (rd_rest r) @ drop buffered (rd_rest r) else rd_rest r))"

definition WritePlaintextPacket :: "(packet \<Rightarrow> string option) \<Rightarrow> packet \<Rightarrow> string option" where
  "WritePlaintextPacket marshal p = (case marshal p of None \<Rightarrow> None | Some t \<Rightarrow> Some (t @ [newline]))"

section \<open>Facts\<close>

interpretation received_file: atomic_replace receive_calls "[]" "[ChmodTemp]" "[SyncTemp, CloseTemp]"
  by unfold_locales (auto simp: receive_calls_def effectless_def)

lemma copy_complete:
  assumes "copy_error stream clean_end limit sz = None"
  shows "copied stream limit = stream \<and> int (length stream) \<le> limit \<and> (sz \<ge> 0 \<longrightarrow> int (length stream) = sz) \<and> clean_end"
proof -
  have n: "int (length (copied stream limit)) \<le> limit" and e: "clean_end"
    and sz: "sz \<ge> 0 \<longrightarrow> int (length (copied stream limit)) = sz"
    using assms by (auto simp: copy_error_def Let_def split: if_splits)
  then have "length stream \<le> nat (limit + 1)" by (auto simp: copied_def min_def split: if_splits)
  then have "copied stream limit = stream" by (simp add: copied_def)
  then show ?thesis using n sz e by simp
qed

lemma incomplete_not_written:
  assumes "err \<noteq> None"
  shows "fst (run_file_calls data n (receive_fault err f) receive_calls s) \<noteq> Written"
  using assms by (auto simp: receive_fault_def receive_calls_def split: file_fault.splits file_call.splits)

lemma receive_outcome:
  assumes "ReceiveToFile sha addr port sz has_tls fp mx opts stat net stream clean_end k f s = (res, s')"
  shows "(case res of
      Received n \<Rightarrow>
        fs_file s' = Some stream \<and> n = int (length stream) \<and> n \<le> mx \<and> (sz \<ge> 0 \<longrightarrow> n = sz) \<and> clean_end \<and>
        (fp \<noteq> [] \<longrightarrow> VerifySideChannelPeer sha (do_peers net) fp = None)
    | NotReceived e n \<Rightarrow> fs_file s' = fs_file s \<and> (fs_temp s = None \<longrightarrow> fs_temp s' = None)
    | ReceiverDied \<Rightarrow>
        fs_file s' = fs_file s \<or>
        fs_file s' = Some stream \<and> int (length stream) \<le> mx \<and> (sz \<ge> 0 \<longrightarrow> int (length stream) = sz))"
proof -
  let ?limit = "if sz \<ge> 0 then sz else mx"
  let ?data = "copied stream ?limit"
  let ?err = "copy_error stream clean_end ?limit sz"
  let ?k = "if f = receive_fault ?err f then k else length ?data"
  let ?run = "run_file_calls ?data ?k (receive_fault ?err f) receive_calls s"
  show ?thesis
  proof (cases "mx \<le> 0 \<or> mx > 2 ^ 50 \<or> sz < -1 \<or> sz > mx \<or> sz \<ge> 0 \<and> \<not> CheckFreeSpace stat sz")
    case True
    then show ?thesis using assms by (auto simp: ReceiveToFile_def split: if_splits)
  next
    case False
    show ?thesis
    proof (cases "DialSidechannel sha addr port has_tls fp net [opts]")
      case (Inl e)
      then show ?thesis using assms False by (auto simp: ReceiveToFile_def)
    next
      case (Inr o')
      then have peer: "fp \<noteq> [] \<Longrightarrow> VerifySideChannelPeer sha (do_peers net) fp = None"
        by (auto simp: DialSidechannel_def split: if_splits option.splits)
      have rep: "replaces ?data s ?run" by (rule received_file.old_or_new)
      have part: "?data = stream \<and> int (length stream) \<le> mx \<and> (sz \<ge> 0 \<longrightarrow> int (length stream) = sz) \<and> clean_end"
        if "?err = None"
        using copy_complete [OF that] False by auto
      have died: "fs_file (snd ?run) = fs_file s \<or> ?err = None \<and> fs_file (snd ?run) = Some ?data"
        if "fst ?run = ProcessDied"
        using that rep by (cases "?err = None")
          (auto simp: replaces_def receive_fault_def receive_calls_def split: if_splits)
      have r: "(res, s') = (case ?run of
                (Written, s) \<Rightarrow> (Received (int (length ?data)), s)
              | (FailedAt c, s) \<Rightarrow>
                  (NotReceived (case ?err of None \<Rightarrow> FileTrouble c
                                | Some e \<Rightarrow> if f = receive_fault ?err f then FileTrouble c else e)
                     (if c \<in> {CreateTemp, ChmodTemp} then 0 else int (length ?data)), s)
              | (ProcessDied, s) \<Rightarrow> (ReceiverDied, s))"
        using assms False Inr by (simp add: ReceiveToFile_def Let_def split: if_splits)
      show ?thesis
      proof (cases "fst ?run")
        case Written
        then have "?err = None" using incomplete_not_written by blast
        then show ?thesis using r Written rep part peer by (auto simp: replaces_def split: prod.splits)
      next
        case (FailedAt c)
        then show ?thesis using r rep by (auto simp: replaces_def split: prod.splits)
      next
        case ProcessDied
        then show ?thesis using r died part by (auto split: prod.splits)
      qed
    qed
  qed
qed

text \<open>
  C22. A payload is received whole or not at all.  Success means that the file holds exactly the bytes of the peer, no more
  than the limit and as many as were announced, from a peer whose certificate matches the pinned
  fingerprint when there is one; after an error the file is what it was and no temporary file is left,
  and even a crash leaves the old or a complete file.
\<close>
theorem receive_whole_or_nothing:
  assumes "ReceiveToFile sha addr port sz has_tls fp mx opts stat net stream clean_end k f s = (res, s')"
  shows "(case res of
      Received n \<Rightarrow>
        fs_file s' = Some stream \<and> n = int (length stream) \<and> n \<le> mx \<and> (sz \<ge> 0 \<longrightarrow> n = sz) \<and> clean_end \<and>
        (fp \<noteq> [] \<longrightarrow> VerifySideChannelPeer sha (do_peers net) fp = None)
    | NotReceived e n \<Rightarrow> fs_file s' = fs_file s \<and> (fs_temp s = None \<longrightarrow> fs_temp s' = None)
    | ReceiverDied \<Rightarrow>
        fs_file s' = fs_file s \<or>
        fs_file s' = Some stream \<and> int (length stream) \<le> mx \<and> (sz \<ge> 0 \<longrightarrow> int (length stream) = sz))"
  by (rule receive_outcome [OF assms])

theorem receive_whole_or_nothing_witness:
  "fs_file (snd (ReceiveToFile (\<lambda>s. s) [10, 0, 0, 9] 1739 3 True [] 10 no_sidechannel_options (Some (1, 4096))
     \<lparr>do_dialled = True, do_handshake = True, do_peers = []\<rparr> ''abc'' True 0 NoFileFault
     \<lparr>fs_file = None, fs_temp = None\<rparr>)) = Some ''abc''"
proof -
  let ?r = "ReceiveToFile (\<lambda>s. s) [10, 0, 0, 9] 1739 3 True [] 10 no_sidechannel_options (Some (1, 4096))
     \<lparr>do_dialled = True, do_handshake = True, do_peers = []\<rparr> ''abc'' True 0 NoFileFault \<lparr>fs_file = None, fs_temp = None\<rparr>"
  have "fst ?r = Received 3"
    by (simp add: ReceiveToFile_def CheckFreeSpace_def DialSidechannel_def copied_def copy_error_def
        receive_fault_def receive_calls_def Let_def)
  then show ?thesis using receive_whole_or_nothing [OF prod.collapse [symmetric, of ?r]] by simp
qed

section \<open>Idle connections\<close>

text \<open>Reads at the given times on a wrapped connection; the deadline that each read then waits for.\<close>

fun read_deadlines :: "int list \<Rightarrow> idle_conn \<Rightarrow> int list" where
  "read_deadlines [] c = []"
| "read_deadlines (now # ts) c = (let c = snd (idle_Read now True c) in ic_read_deadline c # read_deadlines ts c)"

lemma read_deadlines_window:
  assumes "ic_read_deadline c = ic_last_read c + ic_idle c" and "0 < ic_idle c"
    and "sorted (ic_last_read c # ts)"
  shows "list_all2 (\<lambda>now d. now + (ic_idle c - ic_idle c div 4) \<le> d \<and> d \<le> now + ic_idle c) ts (read_deadlines ts c)"
  using assms
proof (induction ts arbitrary: c)
  case (Cons now ts)
  let ?c = "snd (idle_Read now True c)"
  have c: "ic_idle ?c = ic_idle c" "ic_read_deadline ?c = ic_last_read ?c + ic_idle ?c"
    "ic_last_read ?c \<le> now" "now - ic_last_read ?c \<le> ic_idle c div 4"
    using Cons.prems by (auto simp: idle_Read_def Let_def)
  then have "sorted (ic_last_read ?c # ts)" using Cons.prems(3) by auto
  then have "list_all2 (\<lambda>now d. now + (ic_idle c - ic_idle c div 4) \<le> d \<and> d \<le> now + ic_idle c) ts (read_deadlines ts ?c)"
    using Cons.IH [of ?c] c Cons.prems(2) by simp
  then show ?case using c by (simp add: Let_def)
qed simp

text \<open>
  A wrapped connection tolerates silence for at least three quarters of its idle time and never for more
  than all of it, however many reads there are: every read waits until a deadline in that window after
  its own start.
\<close>
theorem idle_window:
  assumes "WithIdleTimeout idle t0 = Some c" and "sorted (t0 # ts)"
  shows "list_all2 (\<lambda>now d. now + (idle - idle div 4) \<le> d \<and> d \<le> now + idle) ts (read_deadlines ts c)"
  using assms read_deadlines_window [of c ts] by (auto simp: WithIdleTimeout_def split: if_splits)

theorem idle_window_witness:
  "\<exists>c. WithIdleTimeout 100 0 = Some c \<and>
     list_all2 (\<lambda>now d. now + 75 \<le> d \<and> d \<le> now + 100) [1, 30] (read_deadlines [1, 30] c)"
proof -
  obtain c where c: "WithIdleTimeout 100 0 = Some c" by (simp add: WithIdleTimeout_def)
  from idle_window [OF c, of "[1, 30]"] show ?thesis using c by simp
qed

section \<open>Handing the connection over to TLS\<close>

text \<open>
  The TLS handshake starts at the byte after the plaintext packet, wherever the reader's buffer ended:
  what was read ahead is replayed.
\<close>
theorem plaintext_handover:
  assumes "newline \<notin> set line" and "int (length line) < MaxIdentityPacketSize" and "unmarshal (line @ [newline]) = Some p"
  shows "ReadPlaintextPacket unmarshal \<lparr>rd_rest = line @ [newline] @ tls, rd_end = e, rd_size = bs\<rparr> buffered = Inr (p, tls)"
proof -
  have sp: "line_of (line @ newline # tls) = line @ [newline]" "after_line (line @ newline # tls) = tls"
    using assms(1) line_of_append [of line "newline # tls"] after_line_append [of line "newline # tls"]
    by (simp_all add: line_of_def [of "newline # tls"] after_line_def [of "newline # tls"])
  have "0 < MaxIdentityPacketSize" by (simp add: MaxIdentityPacketSize_def)
  then show ?thesis
    using assms(2,3) by (simp add: ReadPlaintextPacket_def ReadPacketBounded_def readLineBounded_eq split_line_def sp)
qed

theorem plaintext_handover_witness:
  "ReadPlaintextPacket (\<lambda>_. Some zero_packet) \<lparr>rd_rest = ''{}'' @ [newline] @ ''tls'', rd_end = EndEOF, rd_size = 16\<rparr> 2
     = Inr (zero_packet, ''tls'')"
  by (rule plaintext_handover) (simp_all add: MaxIdentityPacketSize_def)

end
