(* ===== verification/Share.thy ===== *)
theory Share
  imports PayloadTransfer FileNames ConfigSections
begin

text \<open>
  The share plugin (\<open>internal/plugins/share\<close>) and \<open>internal/desktop/clipboard/set.go\<close>: texts, links and files from a
  peer, and files sent to it.

  The files are a map from paths to contents.  \<open>url.Parse\<close> is a parameter that yields the scheme and the
  host.  A transfer runs in a goroutine of its own; its result is the argument of what follows it.
\<close>

section \<open>Packets\<close>

record share_body =
  shb_filename :: string
  shb_number_of_files :: int
  shb_total_payload_size :: int
  shb_last_modified :: int
  shb_creation_time :: int
  shb_text :: string
  shb_url :: string
  shb_open :: bool

definition zero_share_body :: share_body where
  "zero_share_body = \<lparr>shb_filename = [], shb_number_of_files = 0, shb_total_payload_size = 0, shb_last_modified = 0, shb_creation_time = 0, shb_text = [], shb_url = [], shb_open = False\<rparr>"

definition share_body_fields :: "share_body field list" where
  "share_body_fields =
     [(''filename'', fld dec_str shb_filename shb_filename_update),
      (''numberOfFiles'', fld dec_int shb_number_of_files shb_number_of_files_update),
      (''totalPayloadSize'', fld dec_int shb_total_payload_size shb_total_payload_size_update),
      (''lastModified'', fld dec_int shb_last_modified shb_last_modified_update),
      (''creationTime'', fld dec_int shb_creation_time shb_creation_time_update),
      (''text'', fld dec_str shb_text shb_text_update),
      (''url'', fld dec_str shb_url shb_url_update),
      (''open'', fld dec_bool shb_open shb_open_update)]"

definition dec_share_body :: "json \<Rightarrow> share_body \<Rightarrow> share_body option" where
  "dec_share_body j = dec_struct (dec_fields share_body_fields) j"

definition enc_share_body :: "share_body \<Rightarrow> json" where
  "enc_share_body x =
     JObj (omit (shb_filename x = []) ''filename'' (JStr (shb_filename x))
           @ omit (shb_number_of_files x = 0) ''numberOfFiles'' (enc_int (shb_number_of_files x))
           @ omit (shb_total_payload_size x = 0) ''totalPayloadSize'' (enc_int (shb_total_payload_size x))
           @ omit (shb_last_modified x = 0) ''lastModified'' (enc_int (shb_last_modified x))
           @ omit (shb_creation_time x = 0) ''creationTime'' (enc_int (shb_creation_time x))
           @ omit (shb_text x = []) ''text'' (JStr (shb_text x))
           @ omit (shb_url x = []) ''url'' (JStr (shb_url x))
           @ omit (\<not> shb_open x) ''open'' (JBool (shb_open x)))"

section \<open>What may be opened\<close>

text \<open>
  Lower case as far as it can give ASCII text: the Kelvin sign is the only character beyond ASCII that
  becomes an ASCII letter.
\<close>

fun lower_text :: "string \<Rightarrow> string" where
  "lower_text (c # c1 # c2 # s) =
     (if byte c = 226 \<and> byte c1 = 132 \<and> byte c2 = 170 then CHR ''k'' # lower_text s
      else lower c # lower_text (c1 # c2 # s))"
| "lower_text s = map lower s"

definition isOpenableURL :: "(string \<Rightarrow> (string \<times> string) option) \<Rightarrow> string \<Rightarrow> bool" where
  "isOpenableURL parse_url raw =
     (case parse_url (TrimSpace raw) of
        None \<Rightarrow> False
      | Some (scheme, host) \<Rightarrow> (scheme = ''http'' \<or> scheme = ''https'') \<and> host \<noteq> [])"

definition blockedAutoOpenExts :: "string list" where
  "blockedAutoOpenExts =
     [''.desktop'', ''.sh'', ''.bin'', ''.run'', ''.jar'', ''.py'', ''.pl'', ''.rb'', ''.php'', ''.js'',
      ''.exe'', ''.msi'', ''.bat'', ''.cmd'', ''.com'', ''.scr'', ''.ps1'', ''.vbs'', ''.vbe'', ''.jse'',
      ''.wsf'', ''.wsh'', ''.hta'', ''.lnk'', ''.gadget'']"

definition autoOpenBlocked :: "string \<Rightarrow> bool" where
  "autoOpenBlocked path \<longleftrightarrow> lower_text (Ext path) \<in> set blockedAutoOpenExts"

section \<open>Copying to the desktop clipboard\<close>

text \<open>The command that gets the text on its input, \<open>None\<close> when none is installed.\<close>

definition SetText_command :: "bool \<Rightarrow> (string \<Rightarrow> bool) \<Rightarrow> string list option" where
  "SetText_command wayland installed =
     (let argv = (if wayland \<and> installed ''wl-copy'' then [''wl-copy''] else [''xclip'', ''-selection'', ''clipboard'', ''-i''])
      in if installed (hd argv) then Some argv else None)"

definition SetText :: "bool \<Rightarrow> (string \<Rightarrow> bool) \<Rightarrow> effect list" where
  "SetText wayland installed =
     (case SetText_command wayland installed of None \<Rightarrow> [] | Some argv \<Rightarrow> [RunCommand argv])"

section \<open>Receiving\<close>

record share_env =
  se_cfg :: share_config
  se_dir :: string
  se_has_bus :: bool
  se_mkdir_ok :: bool
  se_refused :: "string \<Rightarrow> bool"
  se_sidechannel :: sidechannel_options
  se_wayland :: bool
  se_installed :: "string \<Rightarrow> bool"

record incoming =
  inc_body :: share_body
  inc_ip :: ip
  inc_port :: int
  inc_size :: int
  inc_dest :: string
  inc_fingerprint :: string

text \<open>The effects, the text on the input of the clipboard tool, and the transfer that starts.\<close>

record share_outcome =
  sho_effects :: "effect list"
  sho_clipboard :: "string option"
  sho_receive :: "incoming option"

definition nothing_shared :: share_outcome where
  "nothing_shared = \<lparr>sho_effects = [], sho_clipboard = None, sho_receive = None\<rparr>"

datatype share_error = ShareUnparsable | ShareTooLarge int | ShareNoDir | ShareNoName create_error | ShareNoPeerIP

definition share_text :: "share_env \<Rightarrow> peer \<Rightarrow> string \<Rightarrow> share_outcome" where
  "share_text env dev t =
     (let copied = (if sh_text_action (se_cfg env) = ''clipboard'' then SetText (se_wayland env) (se_installed env) else [])
      in nothing_shared\<lparr>sho_effects :=
             publish (se_has_bus env) ''share.text'' (pe_id dev) (JObj [(''text'', JStr t)])
             @ (if sh_text_action (se_cfg env) = ''clipboard'' then [Spawned copied] else []),
           sho_clipboard := (if copied = [] then None else Some t)\<rparr>)"

definition share_url :: "(string \<Rightarrow> (string \<times> string) option) \<Rightarrow> share_env \<Rightarrow> peer \<Rightarrow> string \<Rightarrow> share_outcome" where
  "share_url parse_url env dev u =
     nothing_shared\<lparr>sho_effects :=
       publish (se_has_bus env) ''share.url'' (pe_id dev) (JObj [(''url'', JStr u)])
       @ (if sh_url_action (se_cfg env) = ''open'' \<and> isOpenableURL parse_url u
          then [Spawned [RunCommand [''xdg-open'', u]]] else [])\<rparr>"

text \<open>The destination: a free name is taken first, also when overwriting is on.\<close>

definition share_destination :: "share_env \<Rightarrow> string \<Rightarrow> files \<Rightarrow> (share_error + string) \<times> files" where
  "share_destination env filename fs =
     (let safeName = SanitizeFilename filename []
      in if \<not> se_mkdir_ok env then (Inl ShareNoDir, fs)
         else case EnsureUnique (se_refused env) (se_dir env) safeName fs of
           (r, fs) \<Rightarrow>
             if sh_overwrite (se_cfg env) then (Inr (Join [se_dir env, safeName]), fs)
             else (case r of Inl e \<Rightarrow> Inl (ShareNoName e) | Inr path \<Rightarrow> Inr path, fs))"

definition share_file ::
  "share_env \<Rightarrow> ip \<Rightarrow> string \<Rightarrow> packet \<Rightarrow> share_body \<Rightarrow> files \<Rightarrow> (share_error + share_outcome) \<times> files" where
  "share_file env remote fp pkt body fs =
     (if pk_payload_size pkt < -1 \<or> pk_transfer pkt = None then (Inr nothing_shared, fs)
      else if pk_payload_size pkt > sh_max_file_size (se_cfg env) then (Inl (ShareTooLarge (pk_payload_size pkt)), fs)
      else case share_destination env (shb_filename body) fs of
        (Inl e, fs) \<Rightarrow> (Inl e, fs)
      | (Inr dest, fs) \<Rightarrow>
          if remote = [] then (Inl ShareNoPeerIP, fs)
          else (Inr (nothing_shared\<lparr>sho_receive := Some \<lparr>inc_body = body, inc_ip = remote,
                   inc_port = (case pk_transfer pkt of Some p \<Rightarrow> p | None \<Rightarrow> 0), inc_size = pk_payload_size pkt,
                   inc_dest = dest, inc_fingerprint = fp\<rparr>\<rparr>), fs))"

definition share_Handle ::
  "(string \<Rightarrow> (string \<times> string) option) \<Rightarrow> share_env \<Rightarrow> peer \<Rightarrow> ip \<Rightarrow> string \<Rightarrow> packet \<Rightarrow> files
     \<Rightarrow> (share_error + share_outcome) \<times> files" where
  "share_Handle parse_url env dev remote fp pkt fs =
     (if pk_type pkt = ''kdeconnect.share.request.update'' \<or> sh_accept (se_cfg env) = ''never''
      then (Inr nothing_shared, fs)
      else case unmarshal_raw (\<lambda>j. dec_share_body j zero_share_body) (pk_body pkt) of
        None \<Rightarrow> (Inl ShareUnparsable, fs)
      | Some body \<Rightarrow>
          if shb_text body \<noteq> [] \<and> pk_transfer pkt = None then (Inr (share_text env dev (shb_text body)), fs)
          else if shb_url body \<noteq> [] \<and> pk_transfer pkt = None then (Inr (share_url parse_url env dev (shb_url body)), fs)
          else share_file env remote fp pkt body fs)"

text \<open>\<open>ReceiveSideChannel\<close> over the files: the destination is one of them.\<close>

definition side_channel_limit :: "sidechannel_options \<Rightarrow> int" where
  "side_channel_limit opts = (if so_max_payload opts \<le> 0 then 1024 * 1024 * 1024 else so_max_payload opts)"

definition ReceiveSideChannel ::
  "(string \<Rightarrow> string) \<Rightarrow> bool \<Rightarrow> sidechannel_options \<Rightarrow> incoming \<Rightarrow> (int \<times> int) option \<Rightarrow> dial_outcome
     \<Rightarrow> string \<Rightarrow> bool \<Rightarrow> nat \<Rightarrow> file_fault \<Rightarrow> files \<Rightarrow> receive_result \<times> files" where
  "ReceiveSideChannel sha has_tls opts inc stat net stream clean_end k f fs =
     (case ReceiveToFile sha (inc_ip inc) (inc_port inc) (inc_size inc) has_tls (inc_fingerprint inc)
             (side_channel_limit opts) opts stat net stream clean_end k f
             \<lparr>fs_file = fs (inc_dest inc), fs_temp = None\<rparr> of
        (res, s) \<Rightarrow> (res, fs(inc_dest inc := fs_file s)))"

text \<open>After the transfer: the time stamp that is restored, and the effects.\<close>

definition AbsPath :: "string option \<Rightarrow> string \<Rightarrow> string" where
  "AbsPath cwd path =
     (if is_rooted path then Clean path else case cwd of None \<Rightarrow> path | Some d \<Rightarrow> Join [d, path])"

definition auto_open :: "share_env \<Rightarrow> string option \<Rightarrow> string \<Rightarrow> effect list" where
  "auto_open env cwd dest =
     (if \<not> sh_auto_open (se_cfg env) \<or> autoOpenBlocked dest then []
      else [Spawned [RunCommand [if sh_open_command (se_cfg env) = [] then ''xdg-open'' else sh_open_command (se_cfg env),
                                 AbsPath cwd dest]]])"

definition receive_finished ::
  "share_env \<Rightarrow> peer \<Rightarrow> string option \<Rightarrow> string \<Rightarrow> incoming \<Rightarrow> receive_result \<Rightarrow> int option \<times> effect list" where
  "receive_finished env dev cwd err_text inc res =
     (let file = JStr (shb_filename (inc_body inc))
      in case res of
        ReceiverDied \<Rightarrow> (None, [])
      | NotReceived e n \<Rightarrow>
          (None, publish (se_has_bus env) ''share.complete'' (pe_id dev)
             (JObj [(''error'', JStr err_text), (''file'', file), (''success'', JBool False)]))
      | Received n \<Rightarrow>
          (if shb_last_modified (inc_body inc) > 0 then Some (shb_last_modified (inc_body inc)) else None,
           publish (se_has_bus env) ''share.complete'' (pe_id dev) (JObj [(''file'', file), (''success'', JBool True)])
           @ auto_open env cwd (inc_dest inc)))"

section \<open>Progress\<close>

record throttle_state =
  thr_last :: gtime
  thr_pending :: int

definition throttle_Update ::
  "bool \<Rightarrow> string \<Rightarrow> string \<Rightarrow> int \<Rightarrow> int \<Rightarrow> int \<Rightarrow> throttle_state \<Rightarrow> effect list \<times> throttle_state" where
  "throttle_Update has_bus device_id filename whole now current t =
     (if \<not> has_bus then ([], t)
      else let t = t\<lparr>thr_pending := current\<rparr>
           in if time_since now (thr_last t) < 500 * millisecond then ([], t)
              else ([Publish ''share.progress'' device_id
                       (JObj [(''current'', enc_int (thr_pending t)), (''file'', JStr filename), (''total'', enc_int whole)])],
                    t\<lparr>thr_last := Some now\<rparr>))"

section \<open>Sending\<close>

datatype send_file_error = SendOpenFailed | SendStatFailed | SendDirectory | SendNoPort

text \<open>The offer that goes to the peer, the port that waits and for how long.\<close>

record file_offer =
  fo_packet :: packet
  fo_port :: int
  fo_timeout :: duration

definition SendFile ::
  "share_env \<Rightarrow> (int \<Rightarrow> bool) \<Rightarrow> int \<Rightarrow> string \<Rightarrow> bool \<Rightarrow> (bool \<times> int \<times> int) option \<Rightarrow> send_file_error + file_offer" where
  "SendFile env can_bind now_ms filePath opened stat =
     (if \<not> opened then Inl SendOpenFailed
      else case stat of
        None \<Rightarrow> Inl SendStatFailed
      | Some (is_dir, bytes, mtime) \<Rightarrow>
          if is_dir then Inl SendDirectory
          else case ListenSidechannel can_bind (sh_port_min (se_cfg env)) (sh_port_max (se_cfg env)) of
            None \<Rightarrow> Inl SendNoPort
          | Some port \<Rightarrow>
              (let body = zero_share_body\<lparr>shb_filename := Base filePath, shb_number_of_files := 1,
                     shb_total_payload_size := bytes, shb_last_modified := mtime, shb_creation_time := mtime\<rparr>;
                   pkt = NewPacket now_ms ''kdeconnect.share.request'' (Some (enc_share_body body));
                   wait = sh_accept_timeout_secs (se_cfg env) * second
               in Inr \<lparr>fo_packet = pkt\<lparr>pk_payload_size := bytes, pk_transfer := Some port\<rparr>, fo_port = port,
                       fo_timeout = (if wait = 0 then 2 * minute else wait)\<rparr>))"

text \<open>\<open>err\<close> is the error of \<open>AcceptAndSend\<close>, if any.\<close>

definition send_finished :: "share_env \<Rightarrow> peer \<Rightarrow> string \<Rightarrow> string option \<Rightarrow> effect list" where
  "send_finished env dev filePath err =
     publish (se_has_bus env) ''share.complete'' (pe_id dev)
       (JObj ((case err of None \<Rightarrow> [] | Some e \<Rightarrow> [(''error'', JStr e)])
              @ [(''file'', JStr (Base filePath)), (''success'', JBool (err = None))]))"

definition SendText :: "string \<Rightarrow> effect list" where
  "SendText t = [SendPacket ''kdeconnect.share.request'' (enc_share_body (zero_share_body\<lparr>shb_text := t\<rparr>))]"

definition SendURL :: "string \<Rightarrow> effect list" where
  "SendURL u = [SendPacket ''kdeconnect.share.request'' (enc_share_body (zero_share_body\<lparr>shb_url := u\<rparr>))]"

section \<open>What a peer can make run\<close>

lemma publish_plain [simp]: "RunCommand argv \<notin> set (publish b t i p)"
  by (simp add: publish_def)

lemma commands_Spawned [simp]: "commands_all [Spawned [RunCommand argv]] = [argv]"
  by simp

definition openable_link :: "(string \<Rightarrow> (string \<times> string) option) \<Rightarrow> share_env \<Rightarrow> string list \<Rightarrow> bool" where
  "openable_link parse_url env argv \<longleftrightarrow>
     sh_url_action (se_cfg env) = ''open'' \<and> (\<exists>u. argv = [''xdg-open'', u] \<and> isOpenableURL parse_url u)"

definition copying_tool :: "share_env \<Rightarrow> string list \<Rightarrow> bool" where
  "copying_tool env argv \<longleftrightarrow>
     sh_text_action (se_cfg env) = ''clipboard'' \<and> argv \<in> {[''wl-copy''], [''xclip'', ''-selection'', ''clipboard'', ''-i'']}"

lemma text_runs: "argv \<in> set (commands_all (sho_effects (share_text env dev t))) \<Longrightarrow> copying_tool env argv"
  by (auto simp: share_text_def SetText_def SetText_command_def nothing_shared_def copying_tool_def Let_def split: if_splits)

lemma link_runs: "argv \<in> set (commands_all (sho_effects (share_url parse_url env dev u))) \<Longrightarrow> openable_link parse_url env argv"
  by (auto simp: share_url_def nothing_shared_def openable_link_def split: if_splits)

lemma file_runs: "share_file env remote fp pkt body fs = (Inr out, fs') \<Longrightarrow> commands_all (sho_effects out) = []"
  by (auto simp: share_file_def nothing_shared_def split: if_splits sum.splits prod.splits)

lemma share_runs:
  assumes "share_Handle parse_url env dev remote fp pkt fs = (Inr out, fs')" and "argv \<in> set (commands_all (sho_effects out))"
  shows "copying_tool env argv \<or> openable_link parse_url env argv"
  using assms
  by (auto simp: share_Handle_def nothing_shared_def split: if_splits option.splits dest: text_runs link_runs file_runs)

text \<open>
  C24. A peer that shares something makes kcd run a program in three cases only.  A text goes to the clipboard tool, on its input and
  never as an argument, when the owner wants texts there; a link goes to \<open>xdg-open\<close> when the owner wants links opened and it is an
  http or https link with a host; and a received file goes to the configured opener (\<open>xdg-open\<close> when none is configured), with its
  path as the only argument, when automatic opening is on, the transfer succeeded and its extension is not one of the executable ones.
\<close>
theorem share_runs_only_safe:
  assumes "share_Handle parse_url env dev remote fp pkt fs = (Inr out, fs')"
  shows "(\<forall>argv \<in> set (commands_all (sho_effects out)).
      sh_text_action (se_cfg env) = ''clipboard'' \<and> argv \<in> {[''wl-copy''], [''xclip'', ''-selection'', ''clipboard'', ''-i'']} \<or>
      sh_url_action (se_cfg env) = ''open'' \<and> (\<exists>u scheme host. argv = [''xdg-open'', u] \<and>
        parse_url (TrimSpace u) = Some (scheme, host) \<and> scheme \<in> {''http'', ''https''} \<and> host \<noteq> [])) \<and>
    (\<forall>argv \<in> set (commands_all (snd (receive_finished env dev cwd err inc res))).
      sh_auto_open (se_cfg env) \<and> (\<exists>n. res = Received n) \<and> lower_text (Ext (inc_dest inc)) \<notin> set blockedAutoOpenExts \<and>
      argv = [if sh_open_command (se_cfg env) = [] then ''xdg-open'' else sh_open_command (se_cfg env), AbsPath cwd (inc_dest inc)])"
proof (intro conjI ballI)
  fix argv assume "argv \<in> set (commands_all (sho_effects out))"
  from share_runs [OF assms this] show "sh_text_action (se_cfg env) = ''clipboard'' \<and> argv \<in> {[''wl-copy''], [''xclip'', ''-selection'', ''clipboard'', ''-i'']} \<or>
      sh_url_action (se_cfg env) = ''open'' \<and> (\<exists>u scheme host. argv = [''xdg-open'', u] \<and>
        parse_url (TrimSpace u) = Some (scheme, host) \<and> scheme \<in> {''http'', ''https''} \<and> host \<noteq> [])"
    by (auto simp: copying_tool_def openable_link_def isOpenableURL_def split: option.splits)
qed (cases res; auto simp: receive_finished_def auto_open_def autoOpenBlocked_def Let_def split: if_splits)+

lemma no_transfer [simp]: "sho_receive (share_text env dev t) = None" "sho_receive (share_url parse_url env dev u) = None"
  by (simp_all add: share_text_def share_url_def nothing_shared_def Let_def)

section \<open>Where a file goes\<close>

text \<open>
  C23. A file of a peer lands directly in the download directory, whatever name the peer sent; without
  overwriting its path was free and has been claimed with an empty file, and no other existing file
  changes while the transfer runs, succeeds or fails.
\<close>
theorem share_lands_in_downloads:
  assumes "is_rooted (se_dir env)"
    and "share_Handle parse_url env dev remote fp pkt fs = (Inr out, fs')" and "sho_receive out = Some inc"
    and "ReceiveSideChannel sha has_tls opts inc stat net stream clean_end k f fs' = (res, fs2)"
  shows "(\<exists>ps n. Clean (se_dir env) = slash # join_with [slash] ps \<and> plain_part n \<and>
      inc_dest inc = slash # join_with [slash] (ps @ [n])) \<and>
    (\<not> sh_overwrite (se_cfg env) \<longrightarrow> fs (inc_dest inc) = None \<and> fs' (inc_dest inc) = Some []) \<and>
    (\<forall>path. path \<noteq> inc_dest inc \<longrightarrow> fs path \<noteq> None \<longrightarrow> fs2 path = fs path)"
proof -
  obtain body where sfile: "share_file env remote fp pkt body fs = (Inr out, fs')"
    using assms(2,3) by (auto simp: share_Handle_def nothing_shared_def split: if_splits option.splits)
  then obtain dest where dest: "share_destination env (shb_filename body) fs = (Inr dest, fs')" "inc_dest inc = dest"
    using assms(3) by (auto simp: share_file_def nothing_shared_def split: if_splits sum.splits prod.splits)
  let ?n = "SanitizeFilename (shb_filename body) []"
  obtain r fs1 where eu: "EnsureUnique (se_refused env) (se_dir env) ?n fs = (r, fs1)" by force
  then have loop: "create_loop (se_refused env) (se_dir env) (SanitizeFilename ?n []) 0 fs = (r, fs1)"
    by (simp add: EnsureUnique_def CreateUnique_def)
  have fs1: "fs1 = fs \<or> (\<exists>p. fs p = None \<and> fs1 = fs(p \<mapsto> []))"
  proof (cases r)
    case (Inl e)
    show ?thesis using create_loop_fails [OF loop [unfolded Inl]] by blast
  next
    case (Inr p)
    show ?thesis using create_loop_fresh [OF loop [unfolded Inr]] by blast
  qed
  have ov: "sh_overwrite (se_cfg env) \<Longrightarrow> dest = Join [se_dir env, ?n]"
    and new: "\<not> sh_overwrite (se_cfg env) \<Longrightarrow> r = Inr dest" and same: "fs' = fs1"
    using dest(1) eu by (auto simp: share_destination_def Let_def split: if_splits sum.splits)
  have direct: "\<exists>ps n. Clean (se_dir env) = slash # join_with [slash] ps \<and> plain_part n \<and>
      Join [se_dir env, m] = slash # join_with [slash] (ps @ [n])" if "plain_part m" for m
    using Join_dir_name [OF assms(1) that] that by auto
  have new': "fs dest = None \<and> fs' dest = Some []" and
    place: "\<exists>ps n. Clean (se_dir env) = slash # join_with [slash] ps \<and> plain_part n \<and> dest = slash # join_with [slash] (ps @ [n])"
    if no: "\<not> sh_overwrite (se_cfg env)"
  proof -
    obtain m where m: "fs dest = None" "fs1 = fs(dest \<mapsto> [])" "dest = Join [se_dir env, candidate (SanitizeFilename ?n []) m]"
      using create_loop_fresh [OF loop [unfolded new [OF no]]] by blast
    then show "fs dest = None \<and> fs' dest = Some []" using same by simp
    show "\<exists>ps n. Clean (se_dir env) = slash # join_with [slash] ps \<and> plain_part n \<and> dest = slash # join_with [slash] (ps @ [n])"
      unfolding m(3) by (rule direct, rule candidate_plain) (simp add: SanitizeFilename_safe)
  qed
  have "\<exists>ps n. Clean (se_dir env) = slash # join_with [slash] ps \<and> plain_part n \<and> dest = slash # join_with [slash] (ps @ [n])"
  proof (cases "sh_overwrite (se_cfg env)")
    case True
    show ?thesis unfolding ov [OF True] by (rule direct) (simp add: SanitizeFilename_safe)
  qed (rule place)
  moreover have "fs2 path = fs path" if "path \<noteq> dest" "fs path \<noteq> None" for path
    using assms(4) fs1 that dest(2) same by (auto simp: ReceiveSideChannel_def split: prod.splits)
  ultimately show ?thesis using new' dest(2) by auto
qed

text \<open>
  A transfer that fails leaves the claimed name behind as an empty file, which looks like a finished
  download.
\<close>
theorem failed_share_leaves_empty_file:
  assumes "\<not> sh_overwrite (se_cfg env)"
    and "share_Handle parse_url env dev remote fp pkt fs = (Inr out, fs')" and "sho_receive out = Some inc"
    and "ReceiveSideChannel sha has_tls opts inc stat net stream clean_end k f fs' = (NotReceived e n, fs2)"
  shows "fs (inc_dest inc) = None \<and> fs2 (inc_dest inc) = Some []"
proof -
  obtain body where sf: "share_file env remote fp pkt body fs = (Inr out, fs')"
    using assms(2,3) by (auto simp: share_Handle_def nothing_shared_def split: if_splits option.splits)
  then have dest: "share_destination env (shb_filename body) fs = (Inr (inc_dest inc), fs')"
    using assms(3) by (auto simp: share_file_def nothing_shared_def split: if_splits sum.splits prod.splits)
  then have "create_loop (se_refused env) (se_dir env) (SanitizeFilename (SanitizeFilename (shb_filename body) []) []) 0 fs
      = (Inr (inc_dest inc), fs')"
    using assms(1) by (auto simp: share_destination_def EnsureUnique_def CreateUnique_def Let_def split: if_splits sum.splits prod.splits)
  from create_loop_fresh [OF this] have new: "fs (inc_dest inc) = None" "fs' (inc_dest inc) = Some []" by auto
  obtain s where s: "ReceiveToFile sha (inc_ip inc) (inc_port inc) (inc_size inc) has_tls (inc_fingerprint inc)
      (side_channel_limit opts) opts stat net stream clean_end k f \<lparr>fs_file = fs' (inc_dest inc), fs_temp = None\<rparr>
      = (NotReceived e n, s)" "fs2 = fs'(inc_dest inc := fs_file s)"
    using assms(4) by (auto simp: ReceiveSideChannel_def split: prod.splits)
  from receive_outcome [OF s(1)] show ?thesis using s(2) new by simp
qed

section \<open>A concrete share\<close>

definition demo_share_env :: share_env where
  "demo_share_env = \<lparr>se_cfg = zero_share_config\<lparr>sh_max_file_size := 100, sh_url_action := ''open''\<rparr>, se_dir = ''/d'', se_has_bus = True,
     se_mkdir_ok = True, se_refused = (\<lambda>_. False), se_sidechannel = no_sidechannel_options,
     se_wayland = False, se_installed = (\<lambda>_. True)\<rparr>"

definition demo_file_packet :: packet where
  "demo_file_packet = \<lparr>pk_id = 0, pk_type = ''kdeconnect.share.request'', pk_body = Some JNull,
     pk_payload_size = 3, pk_transfer = Some 1739\<rparr>"

definition demo_link_packet :: packet where
  "demo_link_packet = \<lparr>pk_id = 0, pk_type = ''kdeconnect.share.request'',
     pk_body = Some (JObj [(''url'', JStr ''http://a'')]), pk_payload_size = 0, pk_transfer = None\<rparr>"

lemma demo_file_share:
  "\<exists>inc. share_Handle (\<lambda>_. None) demo_share_env dev [10, 0, 0, 9] [] demo_file_packet Map.empty =
     (Inr (nothing_shared\<lparr>sho_receive := Some inc\<rparr>), [inc_dest inc \<mapsto> []])"
  by (simp add: share_Handle_def demo_share_env_def demo_file_packet_def zero_share_config_def dec_share_body_def
      unmarshal_raw_def zero_share_body_def share_file_def share_destination_def EnsureUnique_def CreateUnique_def
      create_loop.simps [of _ _ _ 0] Let_def) (rule exI, rule conjI, rule refl, simp)

theorem share_lands_in_downloads_witness:
  "\<exists>inc. (\<exists>ps n. Clean ''/d'' = slash # join_with [slash] ps \<and> plain_part n \<and> inc_dest inc = slash # join_with [slash] (ps @ [n])) \<and>
     sho_receive (case fst (share_Handle (\<lambda>_. None) demo_share_env \<lparr>pe_id = [], pe_name = []\<rparr> [10, 0, 0, 9] [] demo_file_packet Map.empty)
                  of Inr out \<Rightarrow> out | Inl e \<Rightarrow> nothing_shared) = Some inc"
proof -
  obtain inc where h: "share_Handle (\<lambda>_. None) demo_share_env \<lparr>pe_id = [], pe_name = []\<rparr> [10, 0, 0, 9] [] demo_file_packet Map.empty =
     (Inr (nothing_shared\<lparr>sho_receive := Some inc\<rparr>), [inc_dest inc \<mapsto> []])"
    using demo_file_share by blast
  have "is_rooted (se_dir demo_share_env)" by (simp add: demo_share_env_def is_rooted_def slash_def)
  from share_lands_in_downloads [OF this h _ prod.collapse [symmetric]] show ?thesis
    using h by (simp add: demo_share_env_def)
qed

theorem failed_share_leaves_empty_file_witness:
  "\<exists>inc fs2. ReceiveSideChannel (\<lambda>s. s) False no_sidechannel_options inc None \<lparr>do_dialled = False, do_handshake = False, do_peers = []\<rparr>
      [] True 0 NoFileFault [inc_dest inc \<mapsto> []] = (NotReceived NoSpace 0, fs2) \<and> fs2 (inc_dest inc) = Some []"
proof -
  obtain inc where h: "share_Handle (\<lambda>_. None) demo_share_env \<lparr>pe_id = [], pe_name = []\<rparr> [10, 0, 0, 9] [] demo_file_packet Map.empty =
     (Inr (nothing_shared\<lparr>sho_receive := Some inc\<rparr>), [inc_dest inc \<mapsto> []])"
    using demo_file_share by blast
  have sz: "inc_size inc = 3" using h
    by (auto simp: share_Handle_def demo_share_env_def demo_file_packet_def zero_share_config_def dec_share_body_def nothing_shared_def
        unmarshal_raw_def zero_share_body_def share_file_def split: sum.splits prod.splits)
  obtain fs2 where r: "ReceiveSideChannel (\<lambda>s. s) False no_sidechannel_options inc None
      \<lparr>do_dialled = False, do_handshake = False, do_peers = []\<rparr> [] True 0 NoFileFault [inc_dest inc \<mapsto> []] = (NotReceived NoSpace 0, fs2)"
    by (simp add: ReceiveSideChannel_def ReceiveToFile_def sz CheckFreeSpace_def side_channel_limit_def no_sidechannel_options_def)
  have "\<not> sh_overwrite (se_cfg demo_share_env)" by (simp add: demo_share_env_def zero_share_config_def)
  from failed_share_leaves_empty_file [OF this h _ r] show ?thesis using r by auto
qed

theorem share_runs_only_safe_witness:
  "\<exists>out. share_Handle (\<lambda>_. Some (''http'', ''a'')) demo_share_env \<lparr>pe_id = [], pe_name = []\<rparr> [] [] demo_link_packet Map.empty
      = (Inr out, Map.empty) \<and> commands_all (sho_effects out) = [[''xdg-open'', ''http://a'']] \<and>
    (\<forall>argv \<in> set (commands_all (sho_effects out)). hd argv = ''xdg-open'')"
proof -
  have k: "key_matches ''url'' ''url''" "\<not> key_matches ''filename'' ''url''" "\<not> key_matches ''numberOfFiles'' ''url''"
    "\<not> key_matches ''totalPayloadSize'' ''url''" "\<not> key_matches ''lastModified'' ''url''"
    "\<not> key_matches ''creationTime'' ''url''" "\<not> key_matches ''text'' ''url''" by code_simp+
  obtain out where h: "share_Handle (\<lambda>_. Some (''http'', ''a'')) demo_share_env \<lparr>pe_id = [], pe_name = []\<rparr> [] [] demo_link_packet Map.empty
      = (Inr out, Map.empty)" "commands_all (sho_effects out) = [[''xdg-open'', ''http://a'']]"
    by (simp add: share_Handle_def demo_share_env_def demo_link_packet_def zero_share_config_def dec_share_body_def dec_fields_def
        unmarshal_raw_def zero_share_body_def share_body_fields_def k fld_def share_url_def isOpenableURL_def nothing_shared_def)
  from bspec [OF conjunct1 [OF share_runs_only_safe [OF h(1)]], of "[''xdg-open'', ''http://a'']"] show ?thesis
    using h by auto
qed

end
