(* ===== verification/Clipboard.thy ===== *)
theory Clipboard
  imports Share
begin

text \<open>
  The clipboard plugin (\<open>internal/plugins/clipboard\<close>): the choice of the clipboard tool, text and files
  that come from the phone, the push of the local clipboard, and the guards that keep a text from
  travelling back to where it came from.

  The environment of the desktop is a record of inputs; a command is its arguments with the display it
  gets and its standard input; what a tool prints is the input of the operation that runs it.  The plugin's
  mutex makes each of its critical sections atomic; an operation is their sequence.
\<close>

section \<open>The packet body\<close>

record clipboard_body =
  clb_content :: string
  clb_timestamp :: int

definition zero_clipboard_body :: clipboard_body where
  "zero_clipboard_body = \<lparr>clb_content = [], clb_timestamp = 0\<rparr>"

definition clipboard_body_fields :: "clipboard_body field list" where
  "clipboard_body_fields =
     [(''content'', fld dec_str clb_content clb_content_update),
      (''timestamp'', fld dec_int clb_timestamp clb_timestamp_update)]"

definition dec_clipboard_body :: "json \<Rightarrow> clipboard_body \<Rightarrow> clipboard_body option" where
  "dec_clipboard_body j = dec_struct (dec_fields clipboard_body_fields) j"

definition enc_clipboard_body :: "clipboard_body \<Rightarrow> json" where
  "enc_clipboard_body x =
     JObj ([(''content'', JStr (clb_content x))]
           @ omit (clb_timestamp x = 0) ''timestamp'' (enc_int (clb_timestamp x)))"
text \<open>The body of a file from the clipboard of the phone, as far as it is read.\<close>

definition dec_clip_file :: "json \<Rightarrow> string \<Rightarrow> string option" where
  "dec_clip_file = dec_struct (dec_fields [(''filename'', dec_str)])"

section \<open>The tools of the desktop\<close>

datatype clipboard_backend = BackendUnknown | BackendWayland | BackendX11

record clip_desktop =
  cd_runtime_dir :: string
  cd_wayland_display :: string
  cd_display :: string
  cd_exists :: "string \<Rightarrow> bool"
  cd_entries :: "(string \<times> bool) list option"
  cd_installed :: "string \<Rightarrow> bool"

text \<open>An entry of the runtime directory is its name and whether it is a directory.\<close>

definition wayland_entry :: "clip_desktop \<Rightarrow> string option" where
  "wayland_entry d =
     (case cd_entries d of
        None \<Rightarrow> None
      | Some es \<Rightarrow> map_option fst (find (\<lambda>(n, is_dir). \<not> is_dir \<and> has_prefix ''wayland-'' n \<and> cd_installed d ''wl-paste'') es))"

definition probeBackend :: "clip_desktop \<Rightarrow> clipboard_backend \<times> string" where
  "probeBackend d =
     (if cd_wayland_display d \<noteq> [] \<and> cd_runtime_dir d \<noteq> [] \<and>
         cd_exists d (Join [cd_runtime_dir d, cd_wayland_display d]) \<and> cd_installed d ''wl-paste''
      then (BackendWayland, cd_wayland_display d)
      else case (if cd_runtime_dir d = [] then None else wayland_entry d) of
        Some name \<Rightarrow> (BackendWayland, name)
      | None \<Rightarrow>
          if cd_display d \<noteq> [] \<and> cd_installed d ''xclip'' then (BackendX11, []) else (BackendUnknown, []))"

record clip_state =
  cl_push_on_connect :: bool
  cl_receive :: bool
  cl_send :: bool
  cl_last_timestamp :: int
  cl_local_changed_at :: int
  cl_backend :: clipboard_backend
  cl_wl_display :: string
  cl_last_content :: string
  cl_last_pushed :: string

definition NewClipboardPlugin :: "bool \<Rightarrow> clip_state" where
  "NewClipboardPlugin pushOnConnect =
     \<lparr>cl_push_on_connect = pushOnConnect, cl_receive = True, cl_send = True, cl_last_timestamp = 0,
      cl_local_changed_at = 0, cl_backend = BackendUnknown, cl_wl_display = [], cl_last_content = [],
      cl_last_pushed = []\<rparr>"

definition SetPolicy :: "bool \<Rightarrow> bool \<Rightarrow> clip_state \<Rightarrow> clip_state" where
  "SetPolicy receive send st = st\<lparr>cl_receive := receive, cl_send := send\<rparr>"

definition SetLocalChangedAt :: "int \<Rightarrow> clip_state \<Rightarrow> clip_state" where
  "SetLocalChangedAt ts st = st\<lparr>cl_local_changed_at := ts\<rparr>"

definition getBackend :: "clip_desktop \<Rightarrow> clip_state \<Rightarrow> (clipboard_backend \<times> string) \<times> clip_state" where
  "getBackend d st =
     (if cl_backend st \<noteq> BackendUnknown then ((cl_backend st, cl_wl_display st), st)
      else case probeBackend d of
        (b, disp) \<Rightarrow> ((b, disp), if b \<noteq> BackendUnknown then st\<lparr>cl_backend := b, cl_wl_display := disp\<rparr> else st))"

text \<open>A command: its arguments, the Wayland display that is added to its environment, its input.\<close>

record clip_command =
  cc_argv :: "string list"
  cc_display :: "string option"
  cc_stdin :: string

definition clipboardCmd :: "clip_desktop \<Rightarrow> string list \<Rightarrow> string \<Rightarrow> clip_state \<Rightarrow> clip_command \<times> clip_state" where
  "clipboardCmd d argv input st =
     (case getBackend d st of
        ((_, disp), st) \<Rightarrow>
          (\<lparr>cc_argv = argv, cc_display = (if disp = [] then None else Some disp), cc_stdin = input\<rparr>, st))"

definition capKillDelay :: "duration \<Rightarrow> duration" where
  "capKillDelay dly = (if dly \<le> 0 then second else dly)"

text \<open>The result of a tool: what it printed, or the text of the error.\<close>

datatype tool_result = ToolPrinted string | ToolFailed string

definition isNoSelection :: "string \<Rightarrow> bool" where
  "isNoSelection err =
     (let s = lower_text err
      in contains ''no selection'' s \<or> contains ''nothing is copied'' s \<or> contains ''no data'' s)"

definition paste_argv :: "clipboard_backend \<Rightarrow> string list option" where
  "paste_argv b =
     (case b of
        BackendWayland \<Rightarrow> Some [''wl-paste'', ''-n'']
      | BackendX11 \<Rightarrow> Some [''xclip'', ''-selection'', ''clipboard'', ''-o'']
      | BackendUnknown \<Rightarrow> None)"

definition readClipboard :: "clip_desktop \<Rightarrow> (string list \<Rightarrow> tool_result) \<Rightarrow> clip_state \<Rightarrow> string \<times> clip_state" where
  "readClipboard d run st =
     (case getBackend d st of
        ((b, _), st) \<Rightarrow>
          (case paste_argv b of
             None \<Rightarrow> ([], st)
           | Some argv \<Rightarrow> (case run argv of ToolFailed e \<Rightarrow> [] | ToolPrinted out \<Rightarrow> out, st)))"

section \<open>From the phone\<close>

definition maxClipboardFileSize :: int where
  "maxClipboardFileSize = 50 * 1024 * 1024"

text \<open>What a handler starts in the background: writing a text, or fetching a file first.\<close>

record clip_file =
  cf_name :: string
  cf_ip :: ip
  cf_port :: int
  cf_size :: int
  cf_fingerprint :: string

datatype clip_task = CopyText string | FetchFile clip_file

definition handleClipboardFile :: "ip \<Rightarrow> string \<Rightarrow> packet \<Rightarrow> clip_task option" where
  "handleClipboardFile remote fp pkt =
     (case pk_transfer pkt of
        None \<Rightarrow> None
      | Some port \<Rightarrow>
          if pk_payload_size pkt \<le> 0 \<or> pk_payload_size pkt > maxClipboardFileSize then None
          else case unmarshal_raw (\<lambda>j. dec_clip_file j []) (pk_body pkt) of
            None \<Rightarrow> None
          | Some name \<Rightarrow>
              if name = [] \<or> remote = [] then None
              else Some (FetchFile \<lparr>cf_name = name, cf_ip = remote, cf_port = port, cf_size = pk_payload_size pkt,
                           cf_fingerprint = fp\<rparr>))"

text \<open>
  The guards of a text, under the mutex.  \<open>now\<close> is the clock in milliseconds; the result is \<open>None\<close> when
  the text is dropped.
\<close>

definition accept_text :: "string \<Rightarrow> clipboard_body \<Rightarrow> int \<Rightarrow> clip_state \<Rightarrow> clip_state option" where
  "accept_text typ body now st =
     (if clb_content body = cl_last_content st then None
      else if typ = ''kdeconnect.clipboard.connect'' then
        (if clb_timestamp body = 0 \<or> clb_timestamp body < cl_local_changed_at st then None
         else Some (st\<lparr>cl_local_changed_at := clb_timestamp body, cl_last_content := clb_content body\<rparr>))
      else if clb_timestamp body > 0 \<and> clb_timestamp body < cl_last_timestamp st then None
      else Some (st\<lparr>cl_last_timestamp := (if clb_timestamp body > 0 then clb_timestamp body else cl_last_timestamp st),
                    cl_local_changed_at := now, cl_last_content := clb_content body\<rparr>))"

definition clip_Handle :: "ip \<Rightarrow> string \<Rightarrow> packet \<Rightarrow> int \<Rightarrow> clip_state \<Rightarrow> clip_task option \<times> clip_state" where
  "clip_Handle remote fp pkt now st =
     (if \<not> cl_receive st then (None, st)
      else if pk_type pkt = ''kdeconnect.clipboard.file'' then (handleClipboardFile remote fp pkt, st)
      else case unmarshal_raw (\<lambda>j. dec_clipboard_body j zero_clipboard_body) (pk_body pkt) of
        None \<Rightarrow> (None, st)
      | Some body \<Rightarrow>
          if clb_content body = [] then (None, st)
          else case accept_text (pk_type pkt) body now st of
            None \<Rightarrow> (None, st)
          | Some st \<Rightarrow> (Some (CopyText (clb_content body)), st))"

text \<open>The background part for a text: the command that writes it.\<close>

definition copy_text :: "clip_desktop \<Rightarrow> string \<Rightarrow> clip_state \<Rightarrow> clip_command option \<times> clip_state" where
  "copy_text d content st =
     (case getBackend d st of
        ((b, _), st) \<Rightarrow>
          (case b of
             BackendWayland \<Rightarrow> apfst Some (clipboardCmd d [''wl-copy'', ''-n''] content st)
           | BackendX11 \<Rightarrow> apfst Some (clipboardCmd d [''xclip'', ''-selection'', ''clipboard''] content st)
           | BackendUnknown \<Rightarrow> (None, st)))"

text \<open>
  The background part for a file: the transfer into a temporary file, which is removed in the end, and the
  command that gets its contents.  \<open>mime_type\<close> is the table of the system.
\<close>

definition copy_file ::
  "(string \<Rightarrow> string) \<Rightarrow> clip_desktop \<Rightarrow> string \<Rightarrow> string \<Rightarrow> clip_state \<Rightarrow> clip_command option \<times> clip_state" where
  "copy_file mime_type d name contents st =
     (let mt = (case mime_type (Ext name) of [] \<Rightarrow> ''application/octet-stream'' | m \<Rightarrow> m)
      in case getBackend d st of
        ((b, _), st) \<Rightarrow>
          (case b of
             BackendWayland \<Rightarrow> apfst Some (clipboardCmd d [''wl-copy'', ''-n'', ''--type'', mt] contents st)
           | BackendX11 \<Rightarrow> apfst Some (clipboardCmd d [''xclip'', ''-selection'', ''clipboard'', ''-t'', mt, ''-i''] contents st)
           | BackendUnknown \<Rightarrow> (None, st)))"

definition fetch_file ::
  "(string \<Rightarrow> string) \<Rightarrow> (string \<Rightarrow> string) \<Rightarrow> bool \<Rightarrow> sidechannel_options \<Rightarrow> bool \<Rightarrow> (int \<times> int) option \<Rightarrow> dial_outcome
     \<Rightarrow> string \<Rightarrow> bool \<Rightarrow> nat \<Rightarrow> file_fault \<Rightarrow> clip_desktop \<Rightarrow> clip_file \<Rightarrow> clip_state \<Rightarrow> clip_command option \<times> clip_state" where
  "fetch_file sha mime_type has_tls opts created stat net stream clean_end k f d job st =
     (if \<not> created then (None, st)
      else case ReceiveToFile sha (cf_ip job) (cf_port job) (cf_size job) has_tls (cf_fingerprint job)
             maxClipboardFileSize opts stat net stream clean_end k f \<lparr>fs_file = Some [], fs_temp = None\<rparr> of
        (Received n, s) \<Rightarrow>
          (case fs_file s of None \<Rightarrow> (None, st) | Some contents \<Rightarrow> copy_file mime_type d (cf_name job) contents st)
      | _ \<Rightarrow> (None, st))"

section \<open>To the phone\<close>

definition normClip :: "string \<Rightarrow> string" where
  "normClip s = rev (dropWhile (\<lambda>c. c = newline) (rev s))"

definition clipboard_packet :: "string \<Rightarrow> string \<Rightarrow> int \<Rightarrow> effect list" where
  "clipboard_packet typ content ts = [SendPacket typ (enc_clipboard_body \<lparr>clb_content = content, clb_timestamp = ts\<rparr>)]"

datatype push_error = NoClipboardTool | PushFailed string

definition Push :: "clip_desktop \<Rightarrow> (string list \<Rightarrow> tool_result) \<Rightarrow> int \<Rightarrow> clip_state \<Rightarrow> (push_error + effect list) \<times> clip_state" where
  "Push d run now st =
     (if \<not> cl_send st then (Inr [], st)
      else case getBackend d st of
        ((b, _), st) \<Rightarrow>
          (case paste_argv b of
             None \<Rightarrow> (Inl NoClipboardTool, st)
           | Some argv \<Rightarrow>
               (case run argv of
                  ToolFailed e \<Rightarrow> (if isNoSelection e then Inr [] else Inl (PushFailed e), st)
                | ToolPrinted content \<Rightarrow>
                    if content = [] then (Inr [], st)
                    else if normClip content = normClip (cl_last_content st) \<or> normClip content = normClip (cl_last_pushed st)
                    then (Inr [], st)
                    else (Inr (clipboard_packet ''kdeconnect.clipboard'' content 0),
                          st\<lparr>cl_last_pushed := content, cl_local_changed_at := now\<rparr>))))"

definition clip_OnConnect :: "clip_desktop \<Rightarrow> (string list \<Rightarrow> tool_result) \<Rightarrow> clip_state \<Rightarrow> effect list \<times> clip_state" where
  "clip_OnConnect d run st =
     (if \<not> cl_push_on_connect st \<or> \<not> cl_send st then ([], st)
      else case readClipboard d run st of
        (content, st) \<Rightarrow>
          if content = [] then ([], st)
          else (clipboard_packet ''kdeconnect.clipboard.connect'' content (cl_local_changed_at st),
                st\<lparr>cl_last_pushed := content\<rparr>))"

section \<open>Runs\<close>

datatype clip_op =
    Inbound ip string packet int
  | PushNow "string list \<Rightarrow> tool_result" int
  | ConnectNow "string list \<Rightarrow> tool_result"
  | PolicyNow bool bool

fun clip_step :: "clip_desktop \<Rightarrow> clip_op \<Rightarrow> clip_state \<Rightarrow> clip_state" where
  "clip_step d (Inbound remote fp pkt now) st = snd (clip_Handle remote fp pkt now st)"
| "clip_step d (PushNow run now) st = snd (Push d run now st)"
| "clip_step d (ConnectNow run) st = snd (clip_OnConnect d run st)"
| "clip_step d (PolicyNow r s) st = SetPolicy r s st"

definition clip_run :: "clip_desktop \<Rightarrow> clip_op list \<Rightarrow> clip_state \<Rightarrow> clip_state" where
  "clip_run d ops st = fold (clip_step d) ops st"

text \<open>The texts of the phone that a run writes to the local clipboard, and the stamps they came with.\<close>

fun text_taken :: "clip_op \<Rightarrow> clip_state \<Rightarrow> (string \<times> int) option" where
  "text_taken (Inbound remote fp pkt now) st =
     (case fst (clip_Handle remote fp pkt now st) of
        Some (CopyText t) \<Rightarrow>
          Some (t, if pk_type pkt = ''kdeconnect.clipboard.connect'' then 0
                   else case unmarshal_raw (\<lambda>j. dec_clipboard_body j zero_clipboard_body) (pk_body pkt) of
                     None \<Rightarrow> 0 | Some body \<Rightarrow> clb_timestamp body)
      | _ \<Rightarrow> None)"
| "text_taken _ st = None"

fun texts_taken :: "clip_desktop \<Rightarrow> clip_op list \<Rightarrow> clip_state \<Rightarrow> (string \<times> int) list" where
  "texts_taken d [] st = []"
| "texts_taken d (opr # ops) st =
     (case text_taken opr st of None \<Rightarrow> [] | Some x \<Rightarrow> [x]) @ texts_taken d ops (clip_step d opr st)"

section \<open>Facts\<close>

lemma getBackend_keeps:
  "getBackend d st = (r, st') \<Longrightarrow> cl_last_content st' = cl_last_content st \<and> cl_last_pushed st' = cl_last_pushed st
     \<and> cl_last_timestamp st' = cl_last_timestamp st \<and> cl_local_changed_at st' = cl_local_changed_at st
     \<and> cl_receive st' = cl_receive st \<and> cl_send st' = cl_send st"
  by (auto simp: getBackend_def split: if_splits prod.splits)

lemma Push_outcome:
  assumes "Push d run now st = (r, st')"
  shows "cl_last_content st' = cl_last_content st \<and> cl_last_timestamp st' = cl_last_timestamp st
    \<and> (r = Inr [] \<or> (\<exists>e. r = Inl e)
       \<or> (\<exists>content. r = Inr (clipboard_packet ''kdeconnect.clipboard'' content 0) \<and> content \<noteq> []
            \<and> normClip content \<noteq> normClip (cl_last_content st) \<and> normClip content \<noteq> normClip (cl_last_pushed st)
            \<and> cl_last_pushed st' = content))"
proof (cases "cl_send st")
  case True
  obtain b disp st1 where g: "getBackend d st = ((b, disp), st1)" by (metis prod.exhaust)
  show ?thesis using assms True getBackend_keeps[OF g] g
    by (auto simp: Push_def split: option.splits tool_result.splits if_splits)
qed (use assms in \<open>simp add: Push_def\<close>)

lemma OnConnect_keeps: "cl_last_content (snd (clip_OnConnect d run st)) = cl_last_content st
    \<and> cl_last_timestamp (snd (clip_OnConnect d run st)) = cl_last_timestamp st"
proof -
  obtain b disp st1 where g: "getBackend d st = ((b, disp), st1)" by (metis prod.exhaust)
  show ?thesis using getBackend_keeps[OF g] g
    by (auto simp: clip_OnConnect_def readClipboard_def split: option.splits tool_result.splits)
qed

lemma Handle_taken:
  assumes "clip_Handle remote fp pkt now st = (Some (CopyText t), st')"
  shows "cl_last_content st' = t \<and> t \<noteq> [] \<and> cl_receive st
    \<and> (\<exists>body. unmarshal_raw (\<lambda>j. dec_clipboard_body j zero_clipboard_body) (pk_body pkt) = Some body
         \<and> clb_content body = t \<and> accept_text (pk_type pkt) body now st = Some st')"
  using assms
  by (auto simp: clip_Handle_def accept_text_def handleClipboardFile_def split: if_splits option.splits)

lemma Handle_not_taken:
  assumes "clip_Handle remote fp pkt now st = (r, st')" and "\<forall>t. r \<noteq> Some (CopyText t)"
  shows "st' = st"
  using assms by (auto simp: clip_Handle_def split: if_splits option.splits)

lemma step_keeps_text: "text_taken opr st = None \<Longrightarrow> cl_last_content (clip_step d opr st) = cl_last_content st
    \<and> cl_last_timestamp (clip_step d opr st) = cl_last_timestamp st"
proof (cases opr)
  case (Inbound remote fp pkt now)
  assume "text_taken opr st = None"
  moreover obtain r st' where h: "clip_Handle remote fp pkt now st = (r, st')" by fastforce
  ultimately have "\<forall>t. r \<noteq> Some (CopyText t)" using Inbound by auto
  then show ?thesis using Handle_not_taken[OF h] h Inbound by simp
next
  case (PushNow run now)
  then show ?thesis using Push_outcome[of d run now st] by (metis clip_step.simps(2) prod.collapse)
next
  case (ConnectNow run)
  then show ?thesis using OnConnect_keeps by simp
qed (simp add: SetPolicy_def)

lemma step_takes_text:
  assumes "text_taken opr st = Some (t, ts)"
  shows "cl_last_content (clip_step d opr st) = t
    \<and> (if ts > 0 then cl_last_timestamp (clip_step d opr st) = ts \<and> cl_last_timestamp st \<le> ts
       else cl_last_timestamp (clip_step d opr st) = cl_last_timestamp st)"
proof (cases opr)
  case (Inbound remote fp pkt now)
  obtain r st' where h: "clip_Handle remote fp pkt now st = (r, st')" by fastforce
  then have "r = Some (CopyText t)"
    using assms Inbound by (auto split: option.splits clip_task.splits if_splits)
  note H = Handle_taken[OF h[unfolded this]]
  then obtain body where b: "unmarshal_raw (\<lambda>j. dec_clipboard_body j zero_clipboard_body) (pk_body pkt) = Some body"
    "accept_text (pk_type pkt) body now st = Some st'" by blast
  have "ts = (if pk_type pkt = ''kdeconnect.clipboard.connect'' then 0 else clb_timestamp body)"
    using assms Inbound h b(1) by (auto split: option.splits clip_task.splits if_splits)
  then show ?thesis using H b(2) Inbound h by (auto simp: accept_text_def split: if_splits)
qed (use assms in auto)

lemma run_keeps_last:
  "cl_last_content (clip_run d ops st) =
     (if texts_taken d ops st = [] then cl_last_content st else fst (last (texts_taken d ops st)))"
proof (induction ops arbitrary: st)
  case (Cons opr ops)
  have run: "clip_run d (opr # ops) st = clip_run d ops (clip_step d opr st)" by (simp add: clip_run_def)
  show ?case
  proof (cases "text_taken opr st")
    case None
    then show ?thesis using Cons[of "clip_step d opr st"] step_keeps_text[OF None, of d] by (simp add: run)
  next
    case (Some x)
    then show ?thesis using Cons[of "clip_step d opr st"] step_takes_text[of opr st "fst x" "snd x" d]
      by (simp add: run)
  qed
qed (simp add: clip_run_def)

text \<open>The stamps of ordinary texts, in the order they are taken.\<close>

definition stamps_taken :: "clip_desktop \<Rightarrow> clip_op list \<Rightarrow> clip_state \<Rightarrow> int list" where
  "stamps_taken d ops st = filter (\<lambda>ts. ts > 0) (map snd (texts_taken d ops st))"

lemma stamps_sorted: "sorted (stamps_taken d ops st) \<and> (\<forall>ts \<in> set (stamps_taken d ops st). cl_last_timestamp st \<le> ts)"
proof (induction ops arbitrary: st)
  case (Cons opr ops)
  show ?case
  proof (cases "text_taken opr st")
    case None
    then show ?thesis using Cons[of "clip_step d opr st"] step_keeps_text[OF None, of d] by (simp add: stamps_taken_def)
  next
    case (Some x)
    then show ?thesis using Cons[of "clip_step d opr st"] step_takes_text[of opr st "fst x" "snd x" d]
      by (fastforce simp: stamps_taken_def split: if_splits)
  qed
qed (simp add: stamps_taken_def)

section \<open>What the guards achieve\<close>

lemma sent_text_unique:
  "clipboard_packet typ content ts = clipboard_packet typ' content' ts' \<Longrightarrow> content = content'"
  by (simp add: clipboard_packet_def enc_clipboard_body_def omit_def split: if_splits)

lemma Push_prints:
  assumes "Push d run now st = (Inr (clipboard_packet typ content ts), st')"
  shows "\<exists>b argv. paste_argv b = Some argv \<and> run argv = ToolPrinted content"
  using assms
  by (auto simp: Push_def dest: sent_text_unique split: if_splits prod.splits option.splits tool_result.splits)
    (simp_all add: clipboard_packet_def)

text \<open>
  C26. Pushing never sends the text of the phone back: after any run of inbound packets, pushes, connections and policy changes, what a
  push sends is what \<open>wl-paste\<close> or \<open>xclip\<close> printed, and it is not the text that was last taken from the phone, whichever trailing
  newlines the tools added.  (Only \<open>Push\<close> compares: what is sent on connection is the clipboard as it is.)
\<close>
theorem clipboard_no_echo:
  assumes "texts_taken d ops st \<noteq> []"
    and "Push d run now (clip_run d ops st) = (Inr (clipboard_packet typ content ts), st')"
  shows "normClip content \<noteq> normClip (fst (last (texts_taken d ops st))) \<and>
    (\<exists>argv \<in> {[''wl-paste'', ''-n''], [''xclip'', ''-selection'', ''clipboard'', ''-o'']}. run argv = ToolPrinted content)"
proof
  show "normClip content \<noteq> normClip (fst (last (texts_taken d ops st)))"
    using Push_outcome [OF assms(2)] run_keeps_last [of d ops st] assms(1) sent_text_unique
    by (fastforce simp: clipboard_packet_def)
  show "\<exists>argv \<in> {[''wl-paste'', ''-n''], [''xclip'', ''-selection'', ''clipboard'', ''-o'']}. run argv = ToolPrinted content"
    using Push_prints [OF assms(2)] by (fastforce simp: paste_argv_def split: clipboard_backend.splits)
qed

text \<open>Texts with a stamp are written in the order of their stamps, whatever the network delivers.\<close>
theorem clipboard_never_goes_back:
  "sorted (stamps_taken d ops (NewClipboardPlugin pushOnConnect))"
  using stamps_sorted by blast

text \<open>
  A text that comes with a connection is written if and only if receiving is on, it is not the text written
  last and its stamp is neither zero nor older than the last local change.
\<close>
theorem connect_text_taken_iff:
  assumes "pk_type pkt = ''kdeconnect.clipboard.connect''"
    and "unmarshal_raw (\<lambda>j. dec_clipboard_body j zero_clipboard_body) (pk_body pkt) = Some body"
  shows "fst (clip_Handle remote fp pkt now st) = Some (CopyText (clb_content body)) \<longleftrightarrow>
    cl_receive st \<and> clb_content body \<noteq> [] \<and> clb_content body \<noteq> cl_last_content st
    \<and> clb_timestamp body \<noteq> 0 \<and> clb_timestamp body \<ge> cl_local_changed_at st"
  using assms by (auto simp: clip_Handle_def accept_text_def split: option.splits)

text \<open>
  The guard against echoes also swallows a real change: once a text of the phone is taken and another text is
  pushed from here, the phone's renewed copy of the first text is dropped although both clipboards hold
  the second one.  The clipboard here keeps the pushed text.
\<close>
theorem renewed_copy_dropped:
  assumes "clip_Handle remote fp pkt now st = (Some (CopyText t), st1)"
    and "Push d run now' st1 = (Inr effs, st2)"
    and "unmarshal_raw (\<lambda>j. dec_clipboard_body j zero_clipboard_body) (pk_body again) = Some \<lparr>clb_content = t, clb_timestamp = later\<rparr>"
    and "pk_type again \<noteq> ''kdeconnect.clipboard.file''"
  shows "clip_Handle remote fp again now'' st2 = (None, st2)"
proof -
  have "cl_last_content st2 = t"
    using Handle_taken[OF assms(1)] Push_outcome[OF assms(2)] by simp
  then show ?thesis using assms(3,4) by (simp add: clip_Handle_def accept_text_def)
qed

section \<open>Examples\<close>

definition demo_desktop :: clip_desktop where
  "demo_desktop = \<lparr>cd_runtime_dir = [], cd_wayland_display = [], cd_display = '':0'', cd_exists = (\<lambda>_. False),
     cd_entries = None, cd_installed = (\<lambda>t. t = ''xclip'')\<rparr>"

definition demo_clip :: "string \<Rightarrow> json \<Rightarrow> string \<Rightarrow> packet" where
  "demo_clip typ ts t = NewPacket 5 typ (Some (JObj [(''content'', JStr t), (''timestamp'', ts)]))"

lemma clip_keys:
  "key_matches ''content'' ''content''" "\<not> key_matches ''content'' ''timestamp''" "key_matches ''timestamp'' ''timestamp''"
  by code_simp+

lemma demo_clip_body:
  "dec_int ts 0 = Some n \<Longrightarrow>
   unmarshal_raw (\<lambda>j. dec_clipboard_body j zero_clipboard_body) (pk_body (demo_clip typ ts t)) = Some \<lparr>clb_content = t, clb_timestamp = n\<rparr>"
  by (simp add: demo_clip_def NewPacket_def unmarshal_raw_def dec_clipboard_body_def dec_fields_def clipboard_body_fields_def
      clip_keys fld_def zero_clipboard_body_def)

lemma demo_stamp: "dec_int (JNum ''7'') 0 = Some 7" "dec_int (JNum ''0'') 0 = Some 0"
  by code_simp+

definition demo_hello :: packet where "demo_hello = demo_clip ''kdeconnect.clipboard'' (JNum ''0'') ''hello''"
definition demo_prints :: "string list \<Rightarrow> tool_result" where "demo_prints _ = ToolPrinted ''world''"

lemma demo_handle:
  "clip_Handle [] [] demo_hello 3 (NewClipboardPlugin False) =
     (Some (CopyText ''hello''), (NewClipboardPlugin False)\<lparr>cl_local_changed_at := 3, cl_last_content := ''hello''\<rparr>)"
  unfolding clip_Handle_def demo_hello_def demo_clip_body[OF demo_stamp(2)]
  by (simp add: accept_text_def NewClipboardPlugin_def demo_clip_def NewPacket_def)

lemma demo_push:
  "Push demo_desktop demo_prints 4 ((NewClipboardPlugin False)\<lparr>cl_local_changed_at := 3, cl_last_content := ''hello''\<rparr>) =
     (Inr (clipboard_packet ''kdeconnect.clipboard'' ''world'' 0),
      (NewClipboardPlugin False)\<lparr>cl_local_changed_at := 4, cl_last_content := ''hello'', cl_backend := BackendX11,
        cl_last_pushed := ''world''\<rparr>)"
proof -
  have "normClip ''world'' = ''world''" "normClip ''hello'' = ''hello''" "normClip [] = []" by code_simp+
  then show ?thesis
    by (simp add: Push_def NewClipboardPlugin_def getBackend_def probeBackend_def demo_desktop_def paste_argv_def demo_prints_def)
qed

lemma demo_hello_facts:
  "unmarshal_raw (\<lambda>j. dec_clipboard_body j zero_clipboard_body) (pk_body demo_hello) = Some \<lparr>clb_content = ''hello'', clb_timestamp = 0\<rparr>"
  "pk_type demo_hello \<noteq> ''kdeconnect.clipboard.file''"
  unfolding demo_hello_def by (rule demo_clip_body[OF demo_stamp(2)]) (simp add: demo_clip_def NewPacket_def)

theorem clipboard_no_echo_witness:
  "normClip ''world'' \<noteq> normClip (fst (last (texts_taken demo_desktop [Inbound [] [] demo_hello 3] (NewClipboardPlugin False)))) \<and>
    (\<exists>argv \<in> {[''wl-paste'', ''-n''], [''xclip'', ''-selection'', ''clipboard'', ''-o'']}. demo_prints argv = ToolPrinted ''world'')"
  by (rule clipboard_no_echo [where now = 4]) (simp_all add: demo_handle clip_run_def demo_push)

theorem connect_text_taken_iff_witness:
  "fst (clip_Handle [] [] (demo_clip ''kdeconnect.clipboard.connect'' (JNum ''7'') ''hi'') 3 (NewClipboardPlugin False)) = Some (CopyText ''hi'')"
  using connect_text_taken_iff[of "demo_clip ''kdeconnect.clipboard.connect'' (JNum ''7'') ''hi''"
      "\<lparr>clb_content = ''hi'', clb_timestamp = 7\<rparr>" "[]" "[]" 3 "NewClipboardPlugin False"] demo_clip_body[OF demo_stamp(1)]
  by (simp add: NewClipboardPlugin_def demo_clip_def NewPacket_def)

theorem renewed_copy_dropped_witness:
  "\<exists>st2. snd (Push demo_desktop demo_prints 4 (snd (clip_Handle [] [] demo_hello 3 (NewClipboardPlugin False)))) = st2
     \<and> clip_Handle [] [] demo_hello 9 st2 = (None, st2)"
  using renewed_copy_dropped[OF demo_handle demo_push, where again=demo_hello and later=0 and now''=9]
  by (simp add: demo_handle demo_push demo_hello_facts)

end
