(* ===== verification/GoFloat.thy ===== *)
theory GoFloat
  imports Audio Complex_Main
begin

text \<open>
  Go's \<open>float64\<close>: the finite doubles are the rational numbers they stand for, the result of an operation is
  the exact result rounded to nearest with ties to even.  The sign of zero is not kept; none of the code
  here shows it.  \<open>conv\<close> is what the conversion to an integer gives for a value that the integer type
  does not hold, which Go leaves to the implementation.
\<close>

datatype go_float = Fin rat | PosInf | NegInf | NaN

definition pow2 :: "int \<Rightarrow> rat" where
  "pow2 e = (if e \<ge> 0 then 2 ^ nat e else 1 / 2 ^ nat (- e))"

definition round_int :: "rat \<Rightarrow> int" where
  "round_int r = (let f = \<lfloor>r\<rfloor>; d = r - of_int f in if d > 1 / 2 \<or> d = 1 / 2 \<and> odd f then f + 1 else f)"

text \<open>The exponent of the last bit of a double near \<open>r > 0\<close>; \<open>2 ^ (k - 1) < r < 2 ^ (k + 1)\<close>.\<close>

definition ulp_exp :: "rat \<Rightarrow> int" where
  "ulp_exp r =
     (let (p, q) = quotient_of r;
          k = int (bitlen (nat p)) - int (bitlen (nat q))
      in max (if r \<ge> pow2 k then k - 52 else k - 53) (- 1074))"

definition round_float :: "rat \<Rightarrow> go_float" where
  "round_float r =
     (if r = 0 then Fin 0
      else let u = pow2 (ulp_exp \<bar>r\<bar>); v = of_int (round_int (r / u)) * u
           in if v \<ge> 2 ^ 1024 then PosInf else if v \<le> - (2 ^ 1024) then NegInf else Fin v)"

definition float_of_int :: "int \<Rightarrow> go_float" where
  "float_of_int i = round_float (of_int i)"

fun float_add :: "go_float \<Rightarrow> go_float \<Rightarrow> go_float" where
  "float_add (Fin a) (Fin b) = round_float (a + b)"
| "float_add NaN b = NaN"
| "float_add a NaN = NaN"
| "float_add PosInf NegInf = NaN"
| "float_add NegInf PosInf = NaN"
| "float_add PosInf b = PosInf"
| "float_add NegInf b = NegInf"
| "float_add a PosInf = PosInf"
| "float_add a NegInf = NegInf"

fun float_neg :: "go_float \<Rightarrow> go_float" where
  "float_neg (Fin a) = Fin (- a)"
| "float_neg PosInf = NegInf"
| "float_neg NegInf = PosInf"
| "float_neg NaN = NaN"

definition float_sub :: "go_float \<Rightarrow> go_float \<Rightarrow> go_float" where
  "float_sub a b = float_add a (float_neg b)"

fun float_sign :: "go_float \<Rightarrow> int option" where
  "float_sign (Fin a) = Some (if a > 0 then 1 else if a < 0 then - 1 else 0)"
| "float_sign PosInf = Some 1"
| "float_sign NegInf = Some (- 1)"
| "float_sign NaN = None"

definition float_mul :: "go_float \<Rightarrow> go_float \<Rightarrow> go_float" where
  "float_mul x y =
     (case (x, y) of
        (Fin a, Fin b) \<Rightarrow> round_float (a * b)
      | _ \<Rightarrow> (case (float_sign x, float_sign y) of
                (Some s, Some t) \<Rightarrow> if s * t > 0 then PosInf else if s * t < 0 then NegInf else NaN
              | _ \<Rightarrow> NaN))"

fun float_less :: "go_float \<Rightarrow> go_float \<Rightarrow> bool" where
  "float_less (Fin a) (Fin b) \<longleftrightarrow> a < b"
| "float_less NegInf b \<longleftrightarrow> b \<noteq> NegInf \<and> b \<noteq> NaN"
| "float_less a PosInf \<longleftrightarrow> a \<noteq> PosInf \<and> a \<noteq> NaN"
| "float_less _ _ \<longleftrightarrow> False"

text \<open>Zero is equal to zero only; nothing is equal to \<open>NaN\<close>.\<close>

definition float_zero :: "go_float \<Rightarrow> bool" where
  "float_zero x \<longleftrightarrow> x = Fin 0"

definition trunc_rat :: "rat \<Rightarrow> int" where
  "trunc_rat r = (if r \<ge> 0 then \<lfloor>r\<rfloor> else - \<lfloor>- r\<rfloor>)"

definition int32_range :: "int \<Rightarrow> bool" where
  "int32_range i \<longleftrightarrow> - (2 ^ 31) \<le> i \<and> i < 2 ^ 31"

definition to_int32 :: "(go_float \<Rightarrow> int) \<Rightarrow> go_float \<Rightarrow> int" where
  "to_int32 conv x =
     (case x of
        Fin r \<Rightarrow> if int32_range (trunc_rat r) then trunc_rat r else conv x
      | _ \<Rightarrow> conv x)"

definition to_int64 :: "(go_float \<Rightarrow> int) \<Rightarrow> go_float \<Rightarrow> int" where
  "to_int64 conv x =
     (case x of
        Fin r \<Rightarrow> if - (2 ^ 63) \<le> trunc_rat r \<and> trunc_rat r < 2 ^ 63 then trunc_rat r else conv x
      | _ \<Rightarrow> conv x)"

text \<open>\<open>json.Unmarshal\<close> into a \<open>float64\<close>: a number out of range is an error.\<close>

definition literal_value :: "string \<Rightarrow> rat" where
  "literal_value lit =
     (let (neg, m, e) = decimal lit;
          v = (if e \<ge> 0 then of_nat m * 10 ^ nat e else of_nat m / 10 ^ nat (- e))
      in if neg then - v else v)"

fun dec_float :: "json \<Rightarrow> go_float \<Rightarrow> go_float option" where
  "dec_float JNull old = Some old"
| "dec_float (JNum lit) old = (case round_float (literal_value lit) of Fin r \<Rightarrow> Some (Fin r) | _ \<Rightarrow> None)"
| "dec_float _ old = None"

text \<open>\<open>strconv.FormatFloat(x, 'f', 0, 64)\<close>.\<close>

fun format_f0 :: "go_float \<Rightarrow> string" where
  "format_f0 (Fin r) = (if r < 0 \<and> round_int r = 0 then ''-0'' else show_int (round_int r))"
| "format_f0 PosInf = ''+Inf''"
| "format_f0 NegInf = ''-Inf''"
| "format_f0 NaN = ''NaN''"

section \<open>Exact results\<close>

lemma round_int_of_int [simp]: "round_int (of_int n) = n"
  by (simp add: round_int_def)

lemma pow2_pos [simp]: "0 < pow2 e"
  by (simp add: pow2_def)

lemma pow2_powi: "pow2 e = 2 powi e"
  by (simp add: pow2_def power_int_def inverse_eq_divide power_one_over)

lemma pow2_mono: "x \<le> y \<Longrightarrow> pow2 x \<le> pow2 y"
  by (simp add: pow2_powi power_int_increasing)

lemma bitlen_bounds: "0 < n \<Longrightarrow> 2 ^ (bitlen n - 1) \<le> n \<and> n < 2 ^ bitlen n \<and> 0 < bitlen n"
proof (induction n rule: bitlen.induct)
  case (1 n)
  show ?case
  proof (cases "n = 1")
    case False
    then have h: "0 < n div 2" using 1(2) by auto
    note IH = 1(1)[OF _ h]
    have "bitlen n = Suc (bitlen (n div 2))" using 1(2) by (subst bitlen.simps) simp
    moreover obtain k where "bitlen (n div 2) = Suc k" using IH 1(2) gr0_implies_Suc by blast
    moreover have "2 ^ k \<le> n div 2" "n div 2 < 2 * 2 ^ k" using IH 1(2) \<open>bitlen (n div 2) = Suc k\<close> by simp_all
    then have "2 * 2 ^ k \<le> n" "n < 2 * (2 * 2 ^ k)" by linarith+
    ultimately show ?thesis by simp
  next
    case True
    have "bitlen (Suc 0) = 1" by (simp add: bitlen.simps[of "Suc 0"] bitlen.simps[of 0])
    then show ?thesis using True by simp
  qed
qed

lemma quotient_bits:
  assumes "0 < r" and pq: "quotient_of r = (p, q)" and k: "k = int (bitlen (nat p)) - int (bitlen (nat q))"
  shows "pow2 (k - 1) < r"
proof -
  have q: "0 < q" and r: "r = of_int p / of_int q"
    using pq quotient_of_denom_pos quotient_of_div by blast+
  then have p: "0 < p" using assms(1) by (simp add: zero_less_divide_iff)
  let ?bp = "bitlen (nat p)" and ?bq = "bitlen (nat q)"
  have bp: "2 ^ (?bp - 1) \<le> nat p" "0 < ?bp" and bq: "nat q < 2 ^ ?bq" 
    using bitlen_bounds[of "nat p"] bitlen_bounds[of "nat q"] p q by (simp_all only: zero_less_nat_eq)
  have a: "(2::rat) ^ (?bp - 1) \<le> of_int p"
    using bp(1) p by (metis of_nat_le_iff of_nat_nat of_nat_numeral of_nat_power order_less_imp_le of_int_of_nat_eq)
  have b: "of_int q < (2::rat) ^ ?bq"
    using bq q by (metis of_nat_less_iff of_nat_nat of_nat_numeral of_nat_power order_less_imp_le of_int_of_nat_eq)
  have "pow2 (k - 1) = 2 ^ (?bp - 1) / 2 ^ ?bq"
  proof -
    have "k - 1 = int (?bp - 1) - int ?bq" using bp(2) by (simp add: k)
    then show ?thesis by (simp add: pow2_powi power_int_diff)
  qed
  also have "\<dots> < r"
    using a b q p unfolding r
    by (intro order.strict_trans2[OF divide_strict_left_mono[OF b] divide_right_mono[OF a]])
      (auto intro: divide_strict_left_mono)
  finally show ?thesis .
qed

lemma pow2_less: "pow2 x < pow2 y \<Longrightarrow> x < y"
  using pow2_mono by (meson leD leI)

lemma ulp_exp_bound:
  assumes "0 < r" and "r < pow2 (53 - j)" and "j \<le> 1074"
  shows "ulp_exp r \<le> - j"
proof -
  obtain p q where pq: "quotient_of r = (p, q)" by fastforce
  define k where "k = int (bitlen (nat p)) - int (bitlen (nat q))"
  have low: "pow2 (k - 1) < r" by (rule quotient_bits[OF assms(1) pq k_def])
  have "k - 1 < 53 - j" by (rule pow2_less) (use low assms(2) in linarith)
  moreover have "k < 53 - j" if "r \<ge> pow2 k" by (rule pow2_less) (use that assms(2) in linarith)
  ultimately show ?thesis using assms(3) by (auto simp: ulp_exp_def pq k_def[symmetric])
qed

text \<open>Above the smallest double, the last bit of a number is not larger than the number.\<close>

lemma ulp_exp_below:
  assumes "0 < r" and "pow2 (- 1074) \<le> r"
  shows "pow2 (ulp_exp r) \<le> r"
proof -
  obtain p q where pq: "quotient_of r = (p, q)" by fastforce
  define k where "k = int (bitlen (nat p)) - int (bitlen (nat q))"
  have low: "pow2 (k - 1) < r" by (rule quotient_bits[OF assms(1) pq k_def])
  have "ulp_exp r = - 1074 \<or> ulp_exp r \<le> k - 1" by (auto simp: ulp_exp_def pq k_def[symmetric])
  then show ?thesis using low assms(2) pow2_mono[of "ulp_exp r" "k - 1"] by auto
qed

lemma round_int_exact: "r = of_int n \<Longrightarrow> round_int r = n"
  by simp

text \<open>A multiple of \<open>2 ^ -j\<close> below \<open>2 ^ (53 - j)\<close> is a double, so it is not rounded.\<close>

lemma round_float_exact:
  assumes "\<bar>n\<bar> < 2 ^ 53" and "j \<le> 1074"
  shows "round_float (of_int n / 2 ^ j) = Fin (of_int n / 2 ^ j)"
proof (cases "n = 0")
  case False
  let ?r = "of_int n / 2 ^ j :: rat"
  define e where "e = ulp_exp \<bar>?r\<bar>"
  have r: "?r = of_int n * pow2 (- int j)" by (simp add: pow2_powi power_int_minus divide_inverse)
  have n: "\<bar>of_int n :: rat\<bar> < 2 ^ 53"
    using assms(1) by (metis of_int_abs of_int_less_iff of_int_numeral of_int_power)
  have "\<bar>?r\<bar> < pow2 (53 - int j)"
    using n by (simp add: pow2_powi power_int_diff abs_mult divide_strict_right_mono)
  then have "e \<le> - int j"
    unfolding e_def by (intro ulp_exp_bound) (use assms(2) False in \<open>auto simp: pow2_powi\<close>)
  then obtain d where d: "- int j = e + int d" by (metis zle_iff_zadd)
  have u: "?r / pow2 e = of_int (n * 2 ^ d)"
    unfolding r d by (simp add: pow2_powi power_int_add)
  have v: "of_int (round_int (?r / pow2 e)) * pow2 e = ?r"
    unfolding u by (simp only: round_int_of_int) (use u in \<open>simp add: pow2_powi field_simps\<close>)
  have "\<bar>?r\<bar> \<le> \<bar>of_int n\<bar>"
    using mult_left_mono[of 1 "2 ^ j :: rat" "\<bar>of_int n\<bar>"] by (simp add: field_simps)
  also have "\<dots> < 2 ^ 53" by (rule n)
  also have "\<dots> \<le> (2::rat) ^ 1024" by (rule power_increasing) simp_all
  finally have "\<bar>?r\<bar> < 2 ^ 1024" .
  then have "\<not> ?r \<ge> 2 ^ 1024" "\<not> ?r \<le> - (2 ^ 1024)" by linarith+
  moreover have "?r \<noteq> 0" using False by simp
  ultimately show ?thesis unfolding round_float_def Let_def e_def[symmetric] v by (simp only: if_False)
qed (simp add: round_float_def)

lemma round_float_int: "\<bar>n\<bar> < 2 ^ 53 \<Longrightarrow> round_float (of_int n) = Fin (of_int n)"
  using round_float_exact[of n 0] by simp

lemma float_add_int:
  "\<bar>m + n\<bar> < 2 ^ 53 \<Longrightarrow> float_add (Fin (of_int m)) (Fin (of_int n)) = Fin (of_int (m + n))"
  using round_float_int[of "m + n"] by simp

lemma trunc_rat_int [simp]: "trunc_rat (of_int n) = n"
  by (simp add: trunc_rat_def flip: of_int_minus)

end
