(* ===== verification/Mousepad.thy ===== *)
theory Mousepad
  imports GoFloat
begin

text \<open>
  The mousepad plugin (\<open>internal/plugins/mousepad\<close>): remote pointer and keyboard input.  Packets are
  queued, pointer movements are summed up, and one worker turns both into actions of the chosen tool:
  \<open>uinput\<close> devices, \<open>ydotool\<close> with its socket, or a running \<open>xdotool -\<close> that reads one command per line.

  The packages behind \<open>uinput\<close> are not part of the repository: a call on its devices is an action, a key code
  is the name of its constant.  What the tools answer is an input (\<open>input_env\<close>).
\<close>

section \<open>The packet body\<close>

record mousepad_body =
  mb_dx :: go_float
  mb_dy :: go_float
  mb_x :: go_float
  mb_y :: go_float
  mb_single_click :: bool
  mb_double_click :: bool
  mb_middle_click :: bool
  mb_right_click :: bool
  mb_single_hold :: bool
  mb_single_rel :: bool
  mb_scroll :: bool
  mb_key :: string
  mb_special_key :: int
  mb_shift :: bool
  mb_ctrl :: bool
  mb_alt :: bool
  mb_super :: bool

definition zero_mousepad_body :: mousepad_body where
  "zero_mousepad_body = \<lparr>mb_dx = Fin 0, mb_dy = Fin 0, mb_x = Fin 0, mb_y = Fin 0, mb_single_click = False, mb_double_click = False, mb_middle_click = False, mb_right_click = False, mb_single_hold = False, mb_single_rel = False, mb_scroll = False, mb_key = [], mb_special_key = 0, mb_shift = False, mb_ctrl = False, mb_alt = False, mb_super = False\<rparr>"

definition mousepad_body_fields :: "mousepad_body field list" where
  "mousepad_body_fields =
     [(''dx'', fld dec_float mb_dx mb_dx_update),
      (''dy'', fld dec_float mb_dy mb_dy_update),
      (''x'', fld dec_float mb_x mb_x_update),
      (''y'', fld dec_float mb_y mb_y_update),
      (''singleclick'', fld dec_bool mb_single_click mb_single_click_update),
      (''doubleclick'', fld dec_bool mb_double_click mb_double_click_update),
      (''middleclick'', fld dec_bool mb_middle_click mb_middle_click_update),
      (''rightclick'', fld dec_bool mb_right_click mb_right_click_update),
      (''singlehold'', fld dec_bool mb_single_hold mb_single_hold_update),
      (''singlerelease'', fld dec_bool mb_single_rel mb_single_rel_update),
      (''scroll'', fld dec_bool mb_scroll mb_scroll_update),
      (''key'', fld dec_str mb_key mb_key_update),
      (''specialKey'', fld dec_int mb_special_key mb_special_key_update),
      (''shift'', fld dec_bool mb_shift mb_shift_update),
      (''ctrl'', fld dec_bool mb_ctrl mb_ctrl_update),
      (''alt'', fld dec_bool mb_alt mb_alt_update),
      (''super'', fld dec_bool mb_super mb_super_update)]"

definition dec_mousepad_body :: "json \<Rightarrow> mousepad_body \<Rightarrow> mousepad_body option" where
  "dec_mousepad_body j = dec_struct (dec_fields mousepad_body_fields) j"

section \<open>Actions and tools\<close>

datatype input_action =
    MoveBy int int
  | Wheel int
  | LeftClick | RightClick | MiddleClick | LeftPress | LeftRelease
  | PressKey string | ReleaseKey string | TapKey string
  | XdoLine string
  | YdoEvents string
  | RunTool "string list"

record input_config =
  ic_use_uinput :: bool
  ic_use_ydotool :: bool
  ic_wayland :: bool

record input_env =
  ie_xdo_starts :: bool
  ie_xdo_writes :: "string \<Rightarrow> bool"
  ie_ydo_var :: string
  ie_uid :: nat
  ie_exists :: "string \<Rightarrow> bool"
  ie_ydo_dials :: "string \<Rightarrow> bool"
  ie_ydo_writes :: bool

text \<open>The open connections to the tools.\<close>

record input_state =
  is_xdo_open :: bool
  is_ydo_open :: bool

type_synonym input_op = "input_state \<Rightarrow> input_action list \<times> input_state"

definition act :: "input_action \<Rightarrow> input_op" where
  "act a st = ([a], st)"

fun in_turn :: "input_op list \<Rightarrow> input_op" where
  "in_turn [] st = ([], st)"
| "in_turn (f # fs) st = (case f st of (as, st) \<Rightarrow> case in_turn fs st of (bs, st) \<Rightarrow> (as @ bs, st))"

definition only_if :: "bool \<Rightarrow> input_op \<Rightarrow> input_op" where
  "only_if b f = (if b then f else Pair [])"

text \<open>\<open>uinput\<close> tells whether the virtual mouse and the virtual keyboard could be created.\<close>

definition NewMousepadPlugin :: "string \<Rightarrow> bool \<Rightarrow> bool \<Rightarrow> string \<Rightarrow> input_config" where
  "NewMousepadPlugin backend mouse_ok keyboard_ok wayland_display =
     (let uinput = (backend = ''auto'' \<or> backend = ''uinput'') \<and> mouse_ok \<and> keyboard_ok;
          ydotool = (if uinput then False
                     else if backend = ''ydotool'' then True
                     else if backend = ''xdotool'' then False
                     else wayland_display \<noteq> [])
      in \<lparr>ic_use_uinput = uinput, ic_use_ydotool = ydotool, ic_wayland = (wayland_display \<noteq> [])\<rparr>)"

definition runCmd :: "string list \<Rightarrow> input_op" where
  "runCmd argv = act (RunTool argv)"

fun join_words :: "string list \<Rightarrow> string" where
  "join_words [] = []"
| "join_words [w] = w"
| "join_words (w # ws) = w @ '' '' @ join_words ws"

definition sendXdotoolStream :: "input_env \<Rightarrow> string list \<Rightarrow> input_state \<Rightarrow> bool \<times> input_action list \<times> input_state" where
  "sendXdotoolStream env args st =
     (if \<not> is_xdo_open st \<and> \<not> ie_xdo_starts env then (False, [], st)
      else let line = join_words args @ [newline]
           in if ie_xdo_writes env line then (True, [XdoLine line], st\<lparr>is_xdo_open := True\<rparr>)
              else (False, [], st\<lparr>is_xdo_open := False\<rparr>))"

definition execXdotool :: "input_env \<Rightarrow> string list \<Rightarrow> input_op" where
  "execXdotool env args st =
     (case sendXdotoolStream env args st of
        (True, as, st) \<Rightarrow> (as, st)
      | (False, _, st) \<Rightarrow> runCmd (''xdotool'' # args) st)"

definition execYdotool :: "string list \<Rightarrow> input_op" where
  "execYdotool args = runCmd (''ydotool'' # args)"

text \<open>The events of the input layer, as bytes: 16 bytes of time, type, code and value, little endian.\<close>

fun le_bytes :: "nat \<Rightarrow> int \<Rightarrow> string" where
  "le_bytes 0 v = []"
| "le_bytes (Suc n) v = char_of (nat (v mod 256)) # le_bytes n (v div 256)"

definition input_event_bytes :: "int \<times> int \<times> int \<Rightarrow> string" where
  "input_event_bytes ev =
     (case ev of (typ, code, v) \<Rightarrow> le_bytes 8 0 @ le_bytes 8 0 @ le_bytes 2 typ @ le_bytes 2 code @ le_bytes 4 v)"

definition findYdotoolSocket :: "input_env \<Rightarrow> string" where
  "findYdotoolSocket env =
     (let user_sock = ''/run/user/'' @ show_nat (ie_uid env) @ ''/.ydotool_socket'';
          tmp_sock = ''/tmp/.ydotool_socket''
      in if ie_ydo_var env \<noteq> [] then ie_ydo_var env
         else if ie_exists env user_sock then user_sock
         else if ie_exists env tmp_sock then tmp_sock
         else [])"

definition sendYdotoolSocketMove :: "input_env \<Rightarrow> int \<Rightarrow> int \<Rightarrow> input_state \<Rightarrow> bool \<times> input_action list \<times> input_state" where
  "sendYdotoolSocketMove env dx dy st =
     (if \<not> is_ydo_open st \<and> (findYdotoolSocket env = [] \<or> \<not> ie_ydo_dials env (findYdotoolSocket env)) then (False, [], st)
      else if ie_ydo_writes env
      then (True, [YdoEvents (concat (map input_event_bytes [(2, 0, dx), (2, 1, dy), (0, 0, 0)]))], st\<lparr>is_ydo_open := True\<rparr>)
      else (False, [], st\<lparr>is_ydo_open := False\<rparr>))"

definition handleYdotoolMove :: "(go_float \<Rightarrow> int) \<Rightarrow> input_env \<Rightarrow> go_float \<Rightarrow> go_float \<Rightarrow> input_op" where
  "handleYdotoolMove conv env dx dy st =
     (case sendYdotoolSocketMove env (to_int32 conv dx) (to_int32 conv dy) st of
        (True, as, st) \<Rightarrow> (as, st)
      | (False, _, st) \<Rightarrow> runCmd [''ydotool'', ''mousemove'', ''-x'', format_f0 dx, ''-y'', format_f0 dy] st)"

section \<open>Keys\<close>

definition mapUinputKey :: "int \<Rightarrow> string option" where
  "mapUinputKey k = map_of
     [(1, ''KeyBackspace''), (2, ''KeyTab''), (3, ''KeyEnter''), (12, ''KeyEnter''), (4, ''KeyLeft''), (5, ''KeyUp''),
      (6, ''KeyRight''), (7, ''KeyDown''), (8, ''KeyPageup''), (9, ''KeyPagedown''), (10, ''KeyHome''), (11, ''KeyEnd''),
      (13, ''KeyDelete''), (14, ''KeyEsc''), (15, ''KeySysrq''), (16, ''KeyScrolllock''), (17, ''KeyLeftctrl''),
      (18, ''KeyLeftalt''), (19, ''KeyLeftshift''), (20, ''KeyLeftmeta''), (21, ''KeyF1''), (22, ''KeyF2''), (23, ''KeyF3''),
      (24, ''KeyF4''), (25, ''KeyF5''), (26, ''KeyF6''), (27, ''KeyF7''), (28, ''KeyF8''), (29, ''KeyF9''), (30, ''KeyF10''),
      (31, ''KeyF11''), (32, ''KeyF12'')] k"

definition mapSpecialKey :: "int \<Rightarrow> string" where
  "mapSpecialKey k =
     (case map_of
       [(1, ''BackSpace''), (2, ''Tab''), (3, ''Return''), (12, ''Return''), (4, ''Left''), (5, ''Up''), (6, ''Right''),
        (7, ''Down''), (8, ''Prior''), (9, ''Next''), (10, ''Home''), (11, ''End''), (13, ''Delete''), (14, ''Escape''),
        (15, ''Sys_Req''), (16, ''Scroll_Lock''), (17, ''Control_L''), (18, ''Alt_L''), (19, ''Shift_L''), (20, ''Super_L''),
        (21, ''F1''), (22, ''F2''), (23, ''F3''), (24, ''F4''), (25, ''F5''), (26, ''F6''), (27, ''F7''), (28, ''F8''),
        (29, ''F9''), (30, ''F10''), (31, ''F11''), (32, ''F12'')] k of
        None \<Rightarrow> [] | Some n \<Rightarrow> n)"

definition modifierNames :: "mousepad_body \<Rightarrow> string list" where
  "modifierNames b =
     (if mb_ctrl b then [''ctrl''] else []) @ (if mb_alt b then [''alt''] else [])
     @ (if mb_shift b then [''shift''] else []) @ (if mb_super b then [''super''] else [])"

definition modifierArgs :: "mousepad_body \<Rightarrow> string list" where
  "modifierArgs b = concat (map (\<lambda>m. [''-M'', m]) (modifierNames b))"

definition modifierReleaseArgs :: "mousepad_body \<Rightarrow> string list" where
  "modifierReleaseArgs b = concat (map (\<lambda>m. [''-m'', m]) (rev (modifierNames b)))"

definition modifiedKey :: "mousepad_body \<Rightarrow> string \<Rightarrow> string" where
  "modifiedKey b key = (if modifierNames b = [] then [] else fold (\<lambda>m k. m @ ''+'' @ k) (modifierNames b) key)"

definition execKeyFallback :: "input_env \<Rightarrow> input_config \<Rightarrow> string \<Rightarrow> mousepad_body \<Rightarrow> input_op" where
  "execKeyFallback env cfg keyName b =
     (if ic_wayland cfg then runCmd (''wtype'' # modifierArgs b @ [''-k'', keyName] @ modifierReleaseArgs b)
      else execXdotool env [''key'', if modifiedKey b keyName \<noteq> [] then modifiedKey b keyName else keyName])"

section \<open>One packet\<close>

definition by_tool :: "input_env \<Rightarrow> input_config \<Rightarrow> input_action list \<Rightarrow> string list \<Rightarrow> string list \<Rightarrow> input_op" where
  "by_tool env cfg uinput ydotool xdotool =
     (if ic_use_uinput cfg then in_turn (map act uinput)
      else if ic_use_ydotool cfg then execYdotool ydotool
      else execXdotool env xdotool)"

definition handleMove :: "(go_float \<Rightarrow> int) \<Rightarrow> input_env \<Rightarrow> input_config \<Rightarrow> mousepad_body \<Rightarrow> input_op" where
  "handleMove conv env cfg b =
     (if float_zero (mb_dx b) \<and> float_zero (mb_dy b) then Pair []
      else if mb_scroll b then
        (if float_less (Fin 0) (mb_dy b) then by_tool env cfg [Wheel (- 1)] [''mousescroll'', ''--'', ''0'', ''1''] [''click'', ''5'']
         else if float_less (mb_dy b) (Fin 0) then by_tool env cfg [Wheel 1] [''mousescroll'', ''--'', ''0'', ''-1''] [''click'', ''4'']
         else Pair [])
      else if ic_use_uinput cfg then act (MoveBy (to_int32 conv (mb_dx b)) (to_int32 conv (mb_dy b)))
      else if ic_use_ydotool cfg then handleYdotoolMove conv env (mb_dx b) (mb_dy b)
      else execXdotool env [''mousemove_relative'', ''--'', format_f0 (mb_dx b), format_f0 (mb_dy b)])"

text \<open>The four parts of \<open>handleEvent\<close>: buttons, modifiers down, the key, modifiers up.\<close>

definition mouse_buttons :: "input_env \<Rightarrow> input_config \<Rightarrow> mousepad_body \<Rightarrow> input_op list" where
  "mouse_buttons env cfg b =
     [only_if (mb_single_click b) (by_tool env cfg [LeftClick] [''click'', ''0xC0''] [''click'', ''1'']),
      only_if (mb_double_click b) (by_tool env cfg [LeftClick, LeftClick] [''click'', ''0xC0'', ''0xC0''] [''click'', ''--repeat'', ''2'', ''1'']),
      only_if (mb_right_click b) (by_tool env cfg [RightClick] [''click'', ''0xC1''] [''click'', ''3'']),
      only_if (mb_middle_click b) (by_tool env cfg [MiddleClick] [''click'', ''0xC2''] [''click'', ''2'']),
      only_if (mb_single_hold b) (by_tool env cfg [LeftPress] [''click'', ''0x40''] [''mousedown'', ''1'']),
      only_if (mb_single_rel b) (by_tool env cfg [LeftRelease] [''click'', ''0x80''] [''mouseup'', ''1''])]"

definition held_modifiers :: "mousepad_body \<Rightarrow> string list" where
  "held_modifiers b =
     (if mb_ctrl b then [''KeyLeftctrl''] else []) @ (if mb_alt b then [''KeyLeftalt''] else [])
     @ (if mb_shift b then [''KeyLeftshift''] else []) @ (if mb_super b then [''KeyLeftmeta''] else [])"

definition key_part :: "input_env \<Rightarrow> input_config \<Rightarrow> mousepad_body \<Rightarrow> input_op" where
  "key_part env cfg b =
     (if mb_special_key b \<noteq> 0 then
        (case (if ic_use_uinput cfg then mapUinputKey (mb_special_key b) else None) of
           Some k \<Rightarrow> act (TapKey k)
         | None \<Rightarrow> only_if (mapSpecialKey (mb_special_key b) \<noteq> []) (execKeyFallback env cfg (mapSpecialKey (mb_special_key b)) b))
      else if mb_key b \<noteq> [] then
        (if ic_wayland cfg then runCmd (''wtype'' # modifierArgs b @ [mb_key b] @ modifierReleaseArgs b)
         else if modifiedKey b (mb_key b) \<noteq> [] then execXdotool env [''key'', modifiedKey b (mb_key b)]
         else execXdotool env [''type'', ''--'', mb_key b])
      else Pair [])"

definition handleEvent :: "input_env \<Rightarrow> input_config \<Rightarrow> mousepad_body \<Rightarrow> input_op" where
  "handleEvent env cfg b =
     in_turn (mouse_buttons env cfg b
       @ (if ic_use_uinput cfg then map (act \<circ> PressKey) (held_modifiers b) else [])
       @ [key_part env cfg b]
       @ (if ic_use_uinput cfg then map (act \<circ> ReleaseKey) (rev (held_modifiers b)) else []))"

section \<open>The queue and the worker\<close>

record worker =
  wk_queue :: "mousepad_body list"
  wk_x :: go_float
  wk_y :: go_float
  wk_wake :: bool
  wk_timer_made :: bool
  wk_timer_at :: "int option"
  wk_last_flush :: gtime
  wk_input :: input_state

definition new_worker :: worker where
  "new_worker = \<lparr>wk_queue = [], wk_x = Fin 0, wk_y = Fin 0, wk_wake = False, wk_timer_made = False,
     wk_timer_at = None, wk_last_flush = None, wk_input = \<lparr>is_xdo_open = False, is_ydo_open = False\<rparr>\<rparr>"

definition is_pointer_move :: "mousepad_body \<Rightarrow> bool" where
  "is_pointer_move b \<longleftrightarrow>
     (\<not> float_zero (mb_dx b) \<or> \<not> float_zero (mb_dy b)) \<and> \<not> mb_scroll b \<and> \<not> mb_single_click b \<and> \<not> mb_double_click b \<and>
     \<not> mb_right_click b \<and> \<not> mb_middle_click b \<and> \<not> mb_single_hold b \<and> \<not> mb_single_rel b \<and> mb_key b = [] \<and>
     mb_special_key b = 0"

definition mousepad_Handle :: "json option \<Rightarrow> worker \<Rightarrow> bool \<times> worker" where
  "mousepad_Handle raw w =
     (case unmarshal_raw (\<lambda>j. dec_mousepad_body j zero_mousepad_body) raw of
        None \<Rightarrow> (False, w)
      | Some b \<Rightarrow>
          (True, (if is_pointer_move b then w\<lparr>wk_x := float_add (wk_x w) (mb_dx b), wk_y := float_add (wk_y w) (mb_dy b)\<rparr>
                  else w\<lparr>wk_queue := wk_queue w @ [b]\<rparr>)\<lparr>wk_wake := True\<rparr>))"

definition minMoveInterval :: duration where
  "minMoveInterval = 8 * millisecond"

definition pending_move :: "(go_float \<Rightarrow> int) \<Rightarrow> worker \<Rightarrow> bool" where
  "pending_move conv w \<longleftrightarrow> to_int32 conv (wk_x w) \<noteq> 0 \<or> to_int32 conv (wk_y w) \<noteq> 0"

definition flushMove :: "(go_float \<Rightarrow> int) \<Rightarrow> input_env \<Rightarrow> input_config \<Rightarrow> int \<Rightarrow> worker \<Rightarrow> input_action list \<times> worker" where
  "flushMove conv env cfg now w =
     (if \<not> pending_move conv w then ([], w)
      else let stepX = float_of_int (to_int32 conv (wk_x w)); stepY = float_of_int (to_int32 conv (wk_y w))
           in case handleMove conv env cfg (zero_mousepad_body\<lparr>mb_dx := stepX, mb_dy := stepY\<rparr>) (wk_input w) of
                (as, st) \<Rightarrow> (as, w\<lparr>wk_x := float_sub (wk_x w) stepX, wk_y := float_sub (wk_y w) stepY,
                                   wk_last_flush := Some now, wk_input := st\<rparr>))"

definition stop_timer :: "worker \<Rightarrow> worker" where
  "stop_timer w = (if wk_timer_made w then w\<lparr>wk_timer_at := None\<rparr> else w)"

definition work_event :: "(go_float \<Rightarrow> int) \<Rightarrow> input_env \<Rightarrow> input_config \<Rightarrow> int \<Rightarrow> mousepad_body \<Rightarrow> worker \<Rightarrow> input_action list \<times> worker" where
  "work_event conv env cfg now b w =
     (case flushMove conv env cfg now (stop_timer w) of
        (as, w) \<Rightarrow>
          (case (if mb_scroll b then handleMove conv env cfg b else handleEvent env cfg b) (wk_input w) of
             (bs, st) \<Rightarrow> (as @ bs, w\<lparr>wk_input := st\<rparr>)))"

fun work_events :: "(go_float \<Rightarrow> int) \<Rightarrow> input_env \<Rightarrow> input_config \<Rightarrow> int \<Rightarrow> mousepad_body list \<Rightarrow> worker \<Rightarrow> input_action list \<times> worker" where
  "work_events conv env cfg now [] w = ([], w)"
| "work_events conv env cfg now (b # bs) w =
     (case work_event conv env cfg now b w of
        (as, w) \<Rightarrow> case work_events conv env cfg now bs w of (cs, w) \<Rightarrow> (as @ cs, w))"

text \<open>
  With the queue empty, the movement that is left is flushed when the last flush is long enough ago; else the
  timer is set up, unless there has been one before.
\<close>

definition set_timer :: "(go_float \<Rightarrow> int) \<Rightarrow> int \<Rightarrow> worker \<Rightarrow> worker" where
  "set_timer conv now w =
     (if pending_move conv w \<and> \<not> wk_timer_made w
      then w\<lparr>wk_timer_made := True, wk_timer_at := Some (now + (minMoveInterval - time_since now (wk_last_flush w)))\<rparr>
      else w)"

definition settle :: "(go_float \<Rightarrow> int) \<Rightarrow> input_env \<Rightarrow> input_config \<Rightarrow> int \<Rightarrow> worker \<Rightarrow> input_action list \<times> worker" where
  "settle conv env cfg now w =
     (if \<not> pending_move conv w then ([], w)
      else if time_since now (wk_last_flush w) \<ge> minMoveInterval
      then (case flushMove conv env cfg now (stop_timer w) of (as, w) \<Rightarrow> (as, set_timer conv now w))
      else ([], set_timer conv now w))"

text \<open>What the worker does when it is woken up, and when its timer fires.\<close>

definition on_wake :: "(go_float \<Rightarrow> int) \<Rightarrow> input_env \<Rightarrow> input_config \<Rightarrow> int \<Rightarrow> worker \<Rightarrow> input_action list \<times> worker" where
  "on_wake conv env cfg now w =
     (if \<not> wk_wake w then ([], w)
      else case work_events conv env cfg now (wk_queue w) (w\<lparr>wk_wake := False, wk_queue := []\<rparr>) of
        (as, w) \<Rightarrow> case settle conv env cfg now w of (bs, w) \<Rightarrow> (as @ bs, w))"

definition on_timer :: "(go_float \<Rightarrow> int) \<Rightarrow> input_env \<Rightarrow> input_config \<Rightarrow> int \<Rightarrow> worker \<Rightarrow> input_action list \<times> worker" where
  "on_timer conv env cfg now w =
     (case wk_timer_at w of
        None \<Rightarrow> ([], w)
      | Some t \<Rightarrow> if now < t then ([], w) else flushMove conv env cfg now (w\<lparr>wk_timer_at := None\<rparr>))"

definition mousepad_Close :: "worker \<Rightarrow> worker" where
  "mousepad_Close w = w\<lparr>wk_input := \<lparr>is_xdo_open = False, is_ydo_open = False\<rparr>\<rparr>"

definition mousepad_OnConnect :: "effect list" where
  "mousepad_OnConnect = [SendPacket ''kdeconnect.mousepad.keyboardstate'' (JObj [(''state'', JBool True)])]"

section \<open>Sequences of actions\<close>

lemma in_turn_append:
  "in_turn (fs @ gs) st = (case in_turn fs st of (as, st) \<Rightarrow> case in_turn gs st of (bs, st) \<Rightarrow> (as @ bs, st))"
  by (induction fs arbitrary: st) (auto split: prod.splits)

lemma in_turn_acts: "in_turn (map (act \<circ> f) ks) st = (map f ks, st)"
  by (induction ks arbitrary: st) (simp_all add: act_def)

lemma in_turn_all:
  "\<forall>f \<in> set fs. \<forall>st. list_all P (fst (f st)) \<Longrightarrow> list_all P (fst (in_turn fs st))"
proof (induction fs arbitrary: st)
  case (Cons f fs)
  obtain as st1 where 1: "f st = (as, st1)" by fastforce
  obtain bs st2 where 2: "in_turn fs st1 = (bs, st2)" by fastforce
  have "list_all P as" using Cons.prems 1 by (metis fst_conv list.set_intros(1))
  moreover have "list_all P bs" using Cons.IH[of st1] Cons.prems 2 by (metis fst_conv list.set_intros(2))
  ultimately show ?case by (simp add: 1 2)
qed simp

text \<open>Actions that neither move the pointer nor hold a key.\<close>

fun quiet :: "input_action \<Rightarrow> bool" where
  "quiet (MoveBy _ _) = False"
| "quiet (PressKey _) = False"
| "quiet (ReleaseKey _) = False"
| "quiet _ = True"

lemma execXdotool_quiet: "list_all quiet (fst (execXdotool env args st))"
  by (auto simp: execXdotool_def sendXdotoolStream_def runCmd_def act_def Let_def)

lemma by_tool_quiet: "list_all quiet uinput \<Longrightarrow> list_all quiet (fst (by_tool env cfg uinput y x st))"
  using in_turn_acts[of id uinput st] execXdotool_quiet
  by (simp add: by_tool_def execYdotool_def runCmd_def act_def)

lemma mouse_buttons_quiet: "\<forall>f \<in> set (mouse_buttons env cfg b). \<forall>st. list_all quiet (fst (f st))"
  by (simp add: mouse_buttons_def only_if_def by_tool_quiet)

lemma key_part_quiet: "list_all quiet (fst (key_part env cfg b st))"
  by (auto simp: key_part_def only_if_def execKeyFallback_def execXdotool_quiet runCmd_def act_def split: option.splits)

lemma handleEvent_actions:
  "\<exists>as bs. list_all quiet as \<and> list_all quiet bs \<and>
     fst (handleEvent env cfg b st) =
       (if ic_use_uinput cfg
        then as @ map PressKey (held_modifiers b) @ bs @ map ReleaseKey (rev (held_modifiers b)) else as @ bs)"
proof -
  obtain as st1 where 1: "in_turn (mouse_buttons env cfg b) st = (as, st1)" by fastforce
  obtain bs st2 where 2: "key_part env cfg b st1 = (bs, st2)" by fastforce
  have "list_all quiet as" "list_all quiet bs"
    using in_turn_all[OF mouse_buttons_quiet, of env cfg b st] key_part_quiet[of env cfg b st1] 1 2 by simp_all
  then show ?thesis
    by (intro exI[of _ as] exI[of _ bs]) (simp add: handleEvent_def in_turn_append in_turn_acts 1 2)
qed

section \<open>Modifiers are released\<close>

text \<open>
  The keys that are down on a device after some actions, when the device takes them all: a press puts a key down, a release
  or a tap leaves it up, however often it was pressed.
\<close>

fun keys_down :: "input_action list \<Rightarrow> string set \<Rightarrow> string set" where
  "keys_down [] h = h"
| "keys_down (PressKey k # as) h = keys_down as (insert k h)"
| "keys_down (ReleaseKey k # as) h = keys_down as (h - {k})"
| "keys_down (TapKey k # as) h = keys_down as (h - {k})"
| "keys_down (_ # as) h = keys_down as h"

lemma keys_down_append: "keys_down (as @ bs) h = keys_down bs (keys_down as h)"
  by (induction as h rule: keys_down.induct) auto

lemma keys_down_quiet: "list_all quiet as \<Longrightarrow> keys_down as h \<subseteq> h"
  by (induction as h rule: keys_down.induct) auto

lemma keys_down_press: "keys_down (map PressKey ks) h = h \<union> set ks"
  by (induction ks arbitrary: h) auto

lemma keys_down_release: "keys_down (map ReleaseKey ks) h = h - set ks"
  by (induction ks arbitrary: h) auto

text \<open>
  C31. A keyboard or button packet never leaves a modifier key down on the virtual keyboard: when all its actions are taken, every key
  that is down was down before, and with the virtual devices the modifiers of the packet are up.
\<close>
theorem modifiers_released:
  "keys_down (fst (handleEvent env cfg b st)) h \<subseteq> h - (if ic_use_uinput cfg then set (held_modifiers b) else {})"
proof -
  obtain as bs where q: "list_all quiet as" "list_all quiet bs" and e: "fst (handleEvent env cfg b st) =
       (if ic_use_uinput cfg
        then as @ map PressKey (held_modifiers b) @ bs @ map ReleaseKey (rev (held_modifiers b)) else as @ bs)"
    using handleEvent_actions by blast
  show ?thesis
    using keys_down_quiet [OF q(1), of h] keys_down_quiet [OF q(2), of "keys_down as h"]
      keys_down_quiet [OF q(2), of "keys_down as h \<union> set (held_modifiers b)"]
    by (auto simp: e keys_down_append keys_down_press keys_down_release)
qed

section \<open>Movement is neither lost nor made up\<close>

fun moved :: "input_action list \<Rightarrow> int \<times> int" where
  "moved [] = (0, 0)"
| "moved (MoveBy x y # as) = (let (u, v) = moved as in (x + u, y + v))"
| "moved (_ # as) = moved as"

lemma moved_append: "moved (as @ bs) = (fst (moved as) + fst (moved bs), snd (moved as) + snd (moved bs))"
  by (induction as rule: moved.induct) (auto split: prod.splits)

lemma moved_other: "list_all (\<lambda>a. \<forall>x y. a \<noteq> MoveBy x y) as \<Longrightarrow> moved as = (0, 0)"
  by (induction as rule: moved.induct) auto

lemma moved_event:
  assumes "ic_use_uinput cfg"
  shows "moved (fst ((if mb_scroll b then handleMove conv env cfg b else handleEvent env cfg b) st)) = (0, 0)"
proof (cases "mb_scroll b")
  case True
  then show ?thesis using assms by (auto simp: handleMove_def by_tool_def act_def)
next
  case False
  obtain as bs where a: "list_all quiet as" "list_all quiet bs"
    "fst (handleEvent env cfg b st) = as @ map PressKey (held_modifiers b) @ bs @ map ReleaseKey (rev (held_modifiers b))"
    using handleEvent_actions[of env cfg b st] assms by auto
  have q: "list_all (\<lambda>a. \<forall>x y. a \<noteq> MoveBy x y) cs" if "list_all quiet cs" for cs
    using that by (induction cs) (auto elim: quiet.elims)
  have "moved (fst (handleEvent env cfg b st)) = (0, 0)"
    using q[OF a(1)] q[OF a(2)] by (intro moved_other) (auto simp: a(3) list_all_iff)
  then show ?thesis using False by simp
qed

text \<open>The movement that waits, when both sums are whole numbers that an \<open>int32\<close> holds.\<close>

definition waiting :: "worker \<Rightarrow> int \<times> int \<Rightarrow> bool" where
  "waiting w m \<longleftrightarrow> wk_x w = Fin (of_int (fst m)) \<and> wk_y w = Fin (of_int (snd m)) \<and> int32_range (fst m) \<and> int32_range (snd m)"

lemma waiting_int32:
  "waiting w m \<Longrightarrow> to_int32 conv (wk_x w) = fst m" "waiting w m \<Longrightarrow> to_int32 conv (wk_y w) = snd m"
  by (simp_all add: waiting_def to_int32_def)

lemma float_of_int32: "int32_range n \<Longrightarrow> float_of_int n = Fin (of_int n)"
  unfolding float_of_int_def by (rule round_float_int) (auto simp: int32_range_def)

lemma flush_moves:
  assumes "ic_use_uinput cfg" and "waiting w m" and "flushMove conv env cfg now w = (as, w')"
  shows "moved as = m \<and> waiting w' (0, 0) \<and> wk_queue w' = wk_queue w \<and> wk_wake w' = wk_wake w"
proof (cases "m = (0, 0)")
  case True
  then show ?thesis using assms(2,3) by (auto simp: flushMove_def pending_move_def waiting_int32)
next
  case False
  then have p: "pending_move conv w" using assms(2) by (auto simp: pending_move_def waiting_int32 prod_eq_iff)
  let ?b = "zero_mousepad_body\<lparr>mb_dx := Fin (of_int (fst m)), mb_dy := Fin (of_int (snd m))\<rparr>"
  have r: "int32_range (fst m)" "int32_range (snd m)" using assms(2) by (simp_all add: waiting_def)
  have "handleMove conv env cfg ?b (wk_input w) = ([MoveBy (fst m) (snd m)], wk_input w)"
    using False assms(1) r
    by (auto simp: handleMove_def float_zero_def act_def to_int32_def zero_mousepad_body_def prod_eq_iff)
  moreover have "float_sub (Fin (of_int n)) (Fin (of_int n)) = Fin 0" for n
    by (simp add: float_sub_def round_float_def)
  ultimately have "flushMove conv env cfg now w =
      ([MoveBy (fst m) (snd m)], w\<lparr>wk_x := Fin 0, wk_y := Fin 0, wk_last_flush := Some now\<rparr>)"
    using p assms(2) unfolding flushMove_def waiting_int32[OF assms(2)] float_of_int32[OF r(1)] float_of_int32[OF r(2)]
    by (simp add: waiting_def)
  then show ?thesis using assms(3) by (auto simp: waiting_def int32_range_def)
qed

lemma stop_timer_waiting [simp]:
  "waiting (stop_timer w) m = waiting w m" "wk_queue (stop_timer w) = wk_queue w" "wk_wake (stop_timer w) = wk_wake w"
  by (simp_all add: stop_timer_def waiting_def)

lemma set_timer_waiting [simp]: "waiting (set_timer conv now w) m = waiting w m"
  by (simp add: set_timer_def waiting_def)

lemma work_event_moves:
  assumes "ic_use_uinput cfg" and "waiting w m" and "work_event conv env cfg now b w = (as, w')"
  shows "moved as = m \<and> waiting w' (0, 0)"
proof -
  obtain bs w1 where f: "flushMove conv env cfg now (stop_timer w) = (bs, w1)" by fastforce
  obtain cs st where e: "(if mb_scroll b then handleMove conv env cfg b else handleEvent env cfg b) (wk_input w1) = (cs, st)"
    by fastforce
  have "moved bs = m \<and> waiting w1 (0, 0)" using flush_moves[OF assms(1) _ f] assms(2) by simp
  moreover have "moved cs = (0, 0)"
    using moved_event[OF assms(1), of b conv env "wk_input w1"] unfolding e by simp
  ultimately show ?thesis using assms(3) by (auto simp: work_event_def f e moved_append waiting_def)
qed

lemma work_events_moves:
  assumes "ic_use_uinput cfg" and "waiting w m" and "work_events conv env cfg now bs w = (as, w')"
  shows "\<exists>m'. waiting w' m' \<and> m = (fst (moved as) + fst m', snd (moved as) + snd m') \<and> m' \<in> {m, (0, 0)}"
  using assms(2,3)
proof (induction bs arbitrary: w m as)
  case (Cons b bs)
  obtain cs w1 where 1: "work_event conv env cfg now b w = (cs, w1)" by fastforce
  obtain ds where 2: "work_events conv env cfg now bs w1 = (ds, w')" and as: "as = cs @ ds"
    using Cons.prems(2) 1 by (auto split: prod.splits)
  have c: "moved cs = m" "waiting w1 (0, 0)" using work_event_moves[OF assms(1) Cons.prems(1) 1] by simp_all
  then show ?case using Cons.IH[OF c(2) 2] by (auto simp: as moved_append prod_eq_iff)
qed auto

lemma settle_moves:
  assumes "ic_use_uinput cfg" and "waiting w m" and "settle conv env cfg now w = (as, w')"
  shows "\<exists>m'. waiting w' m' \<and> m = (fst (moved as) + fst m', snd (moved as) + snd m') \<and> m' \<in> {m, (0, 0)}"
proof -
  obtain bs w1 where f: "flushMove conv env cfg now (stop_timer w) = (bs, w1)" by fastforce
  have "moved bs = m \<and> waiting w1 (0, 0)" using flush_moves[OF assms(1) _ f] assms(2) by simp
  then show ?thesis using assms(2,3)
    by (auto simp: settle_def f prod_eq_iff split: if_splits)
qed

text \<open>A run: packets that arrive, wake-ups and timers of the worker, in any order.\<close>

datatype worker_call = PacketOp "json option" | WakeOp int | TimerOp int

fun worker_op :: "(go_float \<Rightarrow> int) \<Rightarrow> input_env \<Rightarrow> input_config \<Rightarrow> worker_call \<Rightarrow> worker \<Rightarrow> input_action list \<times> worker" where
  "worker_op conv env cfg (PacketOp raw) w = ([], snd (mousepad_Handle raw w))"
| "worker_op conv env cfg (WakeOp now) w = on_wake conv env cfg now w"
| "worker_op conv env cfg (TimerOp now) w = on_timer conv env cfg now w"

fun worker_run :: "(go_float \<Rightarrow> int) \<Rightarrow> input_env \<Rightarrow> input_config \<Rightarrow> worker_call list \<Rightarrow> worker \<Rightarrow> input_action list \<times> worker" where
  "worker_run conv env cfg [] w = ([], w)"
| "worker_run conv env cfg (opr # ops) w =
     (case worker_op conv env cfg opr w of
        (as, w) \<Rightarrow> case worker_run conv env cfg ops w of (bs, w) \<Rightarrow> (as @ bs, w))"

definition packet_move :: "json option \<Rightarrow> go_float \<times> go_float" where
  "packet_move raw =
     (case unmarshal_raw (\<lambda>j. dec_mousepad_body j zero_mousepad_body) raw of
        None \<Rightarrow> (Fin 0, Fin 0)
      | Some b \<Rightarrow> if is_pointer_move b then (mb_dx b, mb_dy b) else (Fin 0, Fin 0))"

fun floor_float :: "go_float \<Rightarrow> int" where
  "floor_float (Fin r) = \<lfloor>r\<rfloor>"
| "floor_float _ = 0"

fun op_move :: "worker_call \<Rightarrow> int \<times> int" where
  "op_move (PacketOp raw) = (floor_float (fst (packet_move raw)), floor_float (snd (packet_move raw)))"
| "op_move _ = (0, 0)"

fun whole_move :: "worker_call \<Rightarrow> bool" where
  "whole_move (PacketOp raw) \<longleftrightarrow>
     packet_move raw = (Fin (of_int (fst (op_move (PacketOp raw)))), Fin (of_int (snd (op_move (PacketOp raw)))))"
| "whole_move _ \<longleftrightarrow> True"

definition total_x :: "worker_call list \<Rightarrow> int" where "total_x ops = sum_list (map (fst \<circ> op_move) ops)"
definition total_y :: "worker_call list \<Rightarrow> int" where "total_y ops = sum_list (map (snd \<circ> op_move) ops)"
definition span_x :: "worker_call list \<Rightarrow> int" where "span_x ops = sum_list (map (abs \<circ> fst \<circ> op_move) ops)"
definition span_y :: "worker_call list \<Rightarrow> int" where "span_y ops = sum_list (map (abs \<circ> snd \<circ> op_move) ops)"

lemma spans_nonneg: "0 \<le> span_x ops" "0 \<le> span_y ops"
  by (induction ops) (simp_all add: span_x_def span_y_def)

lemma Handle_moves:
  assumes "waiting w m" and "whole_move (PacketOp raw)"
    and "\<bar>fst m\<bar> + \<bar>fst (op_move (PacketOp raw))\<bar> < 2 ^ 31" and "\<bar>snd m\<bar> + \<bar>snd (op_move (PacketOp raw))\<bar> < 2 ^ 31"
  shows "waiting (snd (mousepad_Handle raw w)) (fst m + fst (op_move (PacketOp raw)), snd m + snd (op_move (PacketOp raw)))"
proof (cases "unmarshal_raw (\<lambda>j. dec_mousepad_body j zero_mousepad_body) raw")
  case None
  then show ?thesis using assms(1) by (simp add: mousepad_Handle_def packet_move_def)
next
  case (Some b)
  show ?thesis
  proof (cases "is_pointer_move b")
    case True
    let ?u = "fst (op_move (PacketOp raw))" and ?v = "snd (op_move (PacketOp raw))"
    have "mb_dx b = Fin (of_int ?u)" "mb_dy b = Fin (of_int ?v)"
      using assms(2) True Some by (simp_all add: packet_move_def)
    moreover have "float_add (Fin (of_int (fst m))) (Fin (of_int ?u)) = Fin (of_int (fst m + ?u))"
      "float_add (Fin (of_int (snd m))) (Fin (of_int ?v)) = Fin (of_int (snd m + ?v))"
      using assms(3,4) by (intro float_add_int; simp)+
    ultimately show ?thesis
      using assms(1,3,4) True Some unfolding mousepad_Handle_def waiting_def int32_range_def
      by (simp del: op_move.simps float_add.simps) linarith
  next
    case False
    then show ?thesis using assms(1) Some by (simp add: mousepad_Handle_def packet_move_def waiting_def)
  qed
qed

lemma op_moves:
  assumes "ic_use_uinput cfg" and "waiting w m" and "whole_move opr"
    and "\<bar>fst m\<bar> + \<bar>fst (op_move opr)\<bar> < 2 ^ 31" and "\<bar>snd m\<bar> + \<bar>snd (op_move opr)\<bar> < 2 ^ 31"
    and "worker_op conv env cfg opr w = (as, w')"
  shows "\<exists>m'. waiting w' m' \<and> (fst m + fst (op_move opr), snd m + snd (op_move opr)) = (fst (moved as) + fst m', snd (moved as) + snd m')
    \<and> \<bar>fst m'\<bar> \<le> \<bar>fst m\<bar> + \<bar>fst (op_move opr)\<bar> \<and> \<bar>snd m'\<bar> \<le> \<bar>snd m\<bar> + \<bar>snd (op_move opr)\<bar>"
proof -
  have unchanged: ?thesis if "as = []" "w' = w" "op_move opr = (0, 0)"
    using that assms(2) by (intro exI[of _ m]) simp
  show ?thesis
proof (cases opr)
  case (PacketOp raw)
  have "waiting w' (fst m + fst (op_move opr), snd m + snd (op_move opr))" "as = []"
    using Handle_moves[OF assms(2)] assms(3-6) unfolding PacketOp by (simp_all del: op_move.simps whole_move.simps) auto
  then show ?thesis by (intro exI[of _ "(fst m + fst (op_move opr), snd m + snd (op_move opr))"]) (simp add: abs_triangle_ineq)
next
  case (WakeOp now)
  show ?thesis
  proof (cases "wk_wake w")
    case True
    obtain bs w1 where 1: "work_events conv env cfg now (wk_queue w) (w\<lparr>wk_wake := False, wk_queue := []\<rparr>) = (bs, w1)" by fastforce
    obtain cs where 2: "settle conv env cfg now w1 = (cs, w')" and as: "as = bs @ cs"
      using assms(6) WakeOp True 1 by (auto simp: on_wake_def split: prod.splits)
    have "waiting (w\<lparr>wk_wake := False, wk_queue := []\<rparr>) m" using assms(2) by (simp add: waiting_def)
    from work_events_moves[OF assms(1) this 1] obtain m1 where m1: "waiting w1 m1"
      "m = (fst (moved bs) + fst m1, snd (moved bs) + snd m1)" "m1 \<in> {m, (0, 0)}" by blast
    from settle_moves[OF assms(1) m1(1) 2] obtain m2 where m2: "waiting w' m2"
      "m1 = (fst (moved cs) + fst m2, snd (moved cs) + snd m2)" "m2 \<in> {m1, (0, 0)}" by blast
    show ?thesis using m1(2,3) m2 WakeOp
      by (intro exI[of _ m2]) (auto simp: as moved_append prod_eq_iff)
  next
    case False
    then have "as = []" "w' = w" using assms(6) WakeOp by (auto simp: on_wake_def)
    then show ?thesis using assms(2) WakeOp by (intro exI[of _ m]) simp
  qed
next
  case (TimerOp now)
  then show ?thesis
  proof (cases "wk_timer_at w")
    case (Some t)
    show ?thesis
    proof (cases "now < t")
      case False
      have "waiting (w\<lparr>wk_timer_at := None\<rparr>) m" using assms(2) by (simp add: waiting_def)
      moreover have "flushMove conv env cfg now (w\<lparr>wk_timer_at := None\<rparr>) = (as, w')"
        using assms(6) TimerOp Some False by (simp add: on_timer_def)
      ultimately have "moved as = m \<and> waiting w' (0, 0)" using flush_moves[OF assms(1)] by blast
      then show ?thesis using TimerOp by (intro exI[of _ "(0, 0)"]) (simp add: prod_eq_iff)
    next
      case True
      have "as = []" "w' = w" "op_move opr = (0, 0)" using True assms(6) TimerOp Some by (auto simp: on_timer_def)
      then show ?thesis by (rule unchanged)
    qed
  next
    case None
    have "as = []" "w' = w" "op_move opr = (0, 0)" using None assms(6) TimerOp by (auto simp: on_timer_def)
    then show ?thesis by (rule unchanged)
  qed
  qed
qed

lemma run_moves:
  assumes "ic_use_uinput cfg" and "list_all whole_move ops" and "waiting w m"
    and "\<bar>fst m\<bar> + span_x ops < 2 ^ 31" and "\<bar>snd m\<bar> + span_y ops < 2 ^ 31"
    and "worker_run conv env cfg ops w = (as, w')"
  shows "\<exists>m'. waiting w' m' \<and> (fst m + total_x ops, snd m + total_y ops) = (fst (moved as) + fst m', snd (moved as) + snd m')"
  using assms(2-)
proof (induction ops arbitrary: w m as)
  case (Cons opr ops)
  obtain bs w1 where 1: "worker_op conv env cfg opr w = (bs, w1)" by fastforce
  obtain cs where 2: "worker_run conv env cfg ops w1 = (cs, w')" and as: "as = bs @ cs"
    using Cons.prems(5) 1 by (auto split: prod.splits)
  have span: "span_x (opr # ops) = \<bar>fst (op_move opr)\<bar> + span_x ops" "span_y (opr # ops) = \<bar>snd (op_move opr)\<bar> + span_y ops"
    "total_x (opr # ops) = fst (op_move opr) + total_x ops" "total_y (opr # ops) = snd (op_move opr) + total_y ops"
    by (simp_all add: span_x_def span_y_def total_x_def total_y_def)
  have small: "\<bar>fst m\<bar> + \<bar>fst (op_move opr)\<bar> < 2 ^ 31" "\<bar>snd m\<bar> + \<bar>snd (op_move opr)\<bar> < 2 ^ 31"
    using Cons.prems(3,4) spans_nonneg[of ops] unfolding span by linarith+
  obtain m1 where m1: "waiting w1 m1"
    "(fst m + fst (op_move opr), snd m + snd (op_move opr)) = (fst (moved bs) + fst m1, snd (moved bs) + snd m1)"
    "\<bar>fst m1\<bar> \<le> \<bar>fst m\<bar> + \<bar>fst (op_move opr)\<bar>" "\<bar>snd m1\<bar> \<le> \<bar>snd m\<bar> + \<bar>snd (op_move opr)\<bar>"
    using op_moves[OF assms(1) Cons.prems(2) _ small 1] Cons.prems(1) by auto
  have "\<bar>fst m1\<bar> + span_x ops < 2 ^ 31" "\<bar>snd m1\<bar> + span_y ops < 2 ^ 31"
    using m1(3,4) Cons.prems(3,4) unfolding span by linarith+
  from Cons.IH[OF _ m1(1) this 2] Cons.prems(1) obtain m' where "waiting w' m'"
    "(fst m1 + total_x ops, snd m1 + total_y ops) = (fst (moved cs) + fst m', snd (moved cs) + snd m')" by auto
  then show ?case using m1(2) by (intro exI[of _ m']) (simp add: as moved_append span)
qed (auto simp: total_x_def total_y_def)

text \<open>
  C30. Pointer movement is neither lost nor made up: in any interleaving of packets, wake-ups and timers, with the
  virtual mouse and deltas that are whole numbers whose sum an \<open>int32\<close> holds, what the mouse was moved by and what still
  waits add up to the sum of the deltas of the pointer packets.
\<close>
theorem movement_conserved:
  assumes "ic_use_uinput cfg" and "list_all whole_move ops" and "span_x ops < 2 ^ 31" and "span_y ops < 2 ^ 31"
    and "worker_run conv env cfg ops new_worker = (as, w)"
  shows "\<exists>m. waiting w m \<and> (total_x ops, total_y ops) = (fst (moved as) + fst m, snd (moved as) + snd m)"
  using run_moves[OF assms(1,2) _ _ _ assms(5), of "(0, 0)"] assms(3,4)
  by (simp add: waiting_def new_worker_def int32_range_def)

section \<open>The last movement of a gesture\<close>

text \<open>
  The timer of the worker works once.  After it has been set up before and has fired or was stopped, a movement
  that comes less than 8 ms after the last flush is neither flushed nor does it start the timer again: the
  pointer stops short until another packet arrives.
\<close>
theorem second_timer_never_starts:
  assumes "wk_timer_made w" and "wk_timer_at w = None" and "wk_wake w" and "wk_queue w = []" and "pending_move conv w"
    and "time_since now (wk_last_flush w) < minMoveInterval"
    and "on_wake conv env cfg now w = (as, w')"
  shows "as = [] \<and> pending_move conv w' \<and> (\<forall>later. on_wake conv env cfg later w' = ([], w') \<and> on_timer conv env cfg later w' = ([], w'))"
  using assms by (auto simp: on_wake_def settle_def set_timer_def on_timer_def pending_move_def)

section \<open>Text that is typed\<close>

fun lines_of :: "string \<Rightarrow> string list" where
  "lines_of [] = []"
| "lines_of (c # s) =
     (if c = newline then [] # lines_of s
      else (case lines_of s of [] \<Rightarrow> [[c]] | l # ls \<Rightarrow> (c # l) # ls))"

lemma lines_of_line: "newline \<notin> set l \<Longrightarrow> lines_of (l @ newline # s) = l # lines_of s"
  by (induction l) auto

text \<open>
  Text that a phone sends under X11 is written as it is into the input of \<open>xdotool -\<close>, which takes every line as a
  command.  A text with a newline therefore makes \<open>xdotool\<close> read a command that the phone has chosen.
\<close>
theorem typed_text_is_a_script:
  assumes "\<not> ic_use_uinput cfg" and "\<not> ic_use_ydotool cfg" and "\<not> ic_wayland cfg"
    and "is_xdo_open st \<or> ie_xdo_starts env" and "\<forall>line. ie_xdo_writes env line"
    and "newline \<notin> set t" and "newline \<notin> set command"
  shows "\<exists>text. fst (handleEvent env cfg (zero_mousepad_body\<lparr>mb_key := t @ newline # command\<rparr>) st) = [XdoLine text]
    \<and> lines_of text = [''type -- '' @ t, command]"
proof -
  let ?text = "''type -- '' @ t @ newline # command @ [newline]"
  have "fst (handleEvent env cfg (zero_mousepad_body\<lparr>mb_key := t @ newline # command\<rparr>) st) = [XdoLine ?text]"
    using assms(1-5)
    by (auto simp: handleEvent_def mouse_buttons_def only_if_def zero_mousepad_body_def key_part_def modifiedKey_def
        modifierNames_def execXdotool_def sendXdotoolStream_def Let_def)
  moreover have "lines_of ?text = [''type -- '' @ t, command]"
    using lines_of_line[of "''type -- '' @ t" "command @ [newline]"] lines_of_line[of command "[]"] assms(6,7) by simp
  ultimately show ?thesis by blast
qed

section \<open>Examples\<close>

definition demo_input_env :: input_env where
  "demo_input_env = \<lparr>ie_xdo_starts = True, ie_xdo_writes = (\<lambda>_. True), ie_ydo_var = [], ie_uid = 1000,
     ie_exists = (\<lambda>_. False), ie_ydo_dials = (\<lambda>_. False), ie_ydo_writes = False\<rparr>"

definition no_conv :: "go_float \<Rightarrow> int" where "no_conv _ = - (2 ^ 31)"

theorem typed_text_is_a_script_witness:
  "\<exists>text. fst (handleEvent demo_input_env (NewMousepadPlugin ''xdotool'' False False [])
       (zero_mousepad_body\<lparr>mb_key := ''a'' @ newline # ''exec reboot''\<rparr>) (wk_input new_worker)) = [XdoLine text]
    \<and> lines_of text = [''type -- '' @ ''a'', ''exec reboot'']"
  by (rule typed_text_is_a_script) (simp_all add: NewMousepadPlugin_def demo_input_env_def)

text \<open>Two movements with an idle second between them, then a third one right after the timer has fired.\<close>

definition demo_move :: "int \<Rightarrow> json option" where
  "demo_move i = Some (JObj [(''dx'', JNum (show_int i))])"

lemma demo_move_body:
  assumes "round_float (literal_value (show_int i)) = Fin (of_int i)"
  shows "unmarshal_raw (\<lambda>j. dec_mousepad_body j zero_mousepad_body) (demo_move i) = Some (zero_mousepad_body\<lparr>mb_dx := Fin (of_int i)\<rparr>)"
proof -
  have "key_matches ''dx'' ''dx''" by code_simp
  then show ?thesis using assms
    by (simp add: demo_move_def unmarshal_raw_def dec_mousepad_body_def dec_fields_def mousepad_body_fields_def fld_def)
qed

lemma demo_literal: "round_float (literal_value (show_int 4)) = Fin (of_int 4)"
proof -
  have "show_int 4 = ''4''" by code_simp
  moreover have "literal_value ''4'' = of_int 4"
    by (simp add: literal_value_def decimal_def is_digit_def digits_val_def digit_val_def)
  ultimately show ?thesis using round_float_int[of 4] by simp
qed

lemmas demo_move_4 = demo_move_body[OF demo_literal]

lemma demo_packet_move: "packet_move (demo_move 4) = (Fin 4, Fin 0)"
  unfolding packet_move_def demo_move_4
  by (simp add: is_pointer_move_def zero_mousepad_body_def float_zero_def)

theorem movement_conserved_witness:
  "\<exists>as w m. worker_run no_conv demo_input_env (NewMousepadPlugin ''auto'' True True [])
      [PacketOp (demo_move 4), WakeOp 5, PacketOp (demo_move 4), WakeOp 6] new_worker = (as, w) \<and>
    waiting w m \<and> (8, 0) = (fst (moved as) + fst m, snd (moved as) + snd m)"
proof -
  let ?ops = "[PacketOp (demo_move 4), WakeOp 5, PacketOp (demo_move 4), WakeOp 6]"
  obtain as w where r: "worker_run no_conv demo_input_env (NewMousepadPlugin ''auto'' True True []) ?ops new_worker = (as, w)"
    by fastforce
  have "total_x ?ops = 8" "total_y ?ops = 0" "span_x ?ops = 8" "span_y ?ops = 0" "list_all whole_move ?ops"
    by (simp_all add: total_x_def total_y_def span_x_def span_y_def demo_packet_move)
  then show ?thesis
    using movement_conserved[OF _ _ _ _ r] r by (auto simp: NewMousepadPlugin_def)
qed

definition second_move :: worker where
  "second_move = new_worker\<lparr>wk_timer_made := True, wk_wake := True, wk_x := Fin 4, wk_last_flush := Some 0\<rparr>"

theorem second_timer_never_starts_witness:
  "\<exists>w'. on_wake no_conv demo_input_env (NewMousepadPlugin ''auto'' True True []) 1 second_move = ([], w') \<and>
     pending_move no_conv w' \<and>
     (\<forall>later. on_wake no_conv demo_input_env (NewMousepadPlugin ''auto'' True True []) later w' = ([], w'))"
proof -
  obtain as w' where r: "on_wake no_conv demo_input_env (NewMousepadPlugin ''auto'' True True []) 1 second_move = (as, w')"
    by fastforce
  have "trunc_rat 4 = 4" using trunc_rat_int[of 4] by simp
  then have "pending_move no_conv second_move"
    by (simp add: pending_move_def second_move_def to_int32_def int32_range_def)
  then show ?thesis
    using second_timer_never_starts[OF _ _ _ _ _ _ r] r
    by (simp add: second_move_def new_worker_def minMoveInterval_def time_since_def millisecond_def sat64_def min_int64_def max_int64_def)
qed

end
