(* ===== verification/Presenter.thy ===== *)
theory Presenter
  imports Mousepad Paths
begin

text \<open>
  The presenter plugin (\<open>internal/plugins/presenter\<close>): the gyroscope of the phone moves the cursor.  The
  position is a pair of doubles between 0 and 1; the worker turns it into a pixel of the screen.
  \<open>scan_x11\<close> and \<open>scan_wlr\<close> are \<open>Sscanf\<close> with the two formats of \<open>getScreenSize\<close>.
\<close>

section \<open>Rounding stays below whole numbers\<close>

lemma round_int_le: "r \<le> of_int n \<Longrightarrow> round_int r \<le> n"
proof -
  assume le: "r \<le> of_int n"
  then have f: "\<lfloor>r\<rfloor> \<le> n" by (simp add: floor_le_iff less_le_trans)
  show "round_int r \<le> n"
  proof (cases "\<lfloor>r\<rfloor> = n")
    case True
    then have "r = of_int n" using le of_int_floor_le[of r] by simp
    then show ?thesis by simp
  next
    case False
    then show ?thesis using f by (simp add: round_int_def Let_def)
  qed
qed

lemma round_int_nonneg: "0 \<le> r \<Longrightarrow> 0 \<le> round_int r"
  by (simp add: round_int_def Let_def)

lemma round_float_between:
  assumes "0 \<le> r" and "r \<le> of_int n" and "n < 2 ^ 53"
  shows "\<exists>v. round_float r = Fin v \<and> 0 \<le> v \<and> v \<le> of_int n"
proof (cases "r = 0")
  case False
  then have pos: "0 < r" using assms(1) by simp
  define e where "e = ulp_exp r"
  have n: "(of_int n :: rat) < 2 ^ 53" using assms(3) by (metis of_int_less_iff of_int_numeral of_int_power)
  then have "r < pow2 (53 - 0)" using assms(2) by (simp add: pow2_def)
  then have "e \<le> 0" using ulp_exp_bound[OF pos, of 0] by (simp add: e_def)
  then obtain d where d: "e = - int d" by (metis neg_0_le_iff_le zero_le_imp_eq_int minus_minus)
  let ?v = "of_int (round_int (r / pow2 e)) * pow2 e"
  have inv: "pow2 e * 2 ^ d = 1" by (simp add: d pow2_def)
  have "r / pow2 e \<le> of_int (n * 2 ^ d)"
    using assms(2) inv by (simp add: divide_le_eq mult.assoc mult.commute[of "2 ^ d"])
  from round_int_le[OF this] have "of_int (round_int (r / pow2 e)) \<le> (of_int (n * 2 ^ d) :: rat)" by (simp only: of_int_le_iff)
  then have up: "?v \<le> of_int n"
    using mult_right_mono[of "of_int (round_int (r / pow2 e))" "of_int (n * 2 ^ d)" "pow2 e"] inv
    by (simp add: mult.assoc mult.commute[of "2 ^ d"] less_imp_le)
  have low: "0 \<le> ?v" using round_int_nonneg[of "r / pow2 e"] pos by (simp add: less_imp_le)
  have "?v < 2 ^ 53" using up n by linarith
  also have "\<dots> \<le> (2::rat) ^ 1024" by (rule power_increasing) simp_all
  finally have "\<not> ?v \<ge> 2 ^ 1024" by linarith
  moreover have "(0::rat) < 2 ^ 1024" by simp
  then have "\<not> ?v \<le> - (2 ^ 1024)" using low by linarith
  moreover have "\<bar>r\<bar> = r" using pos by simp
  ultimately have "round_float r = Fin ?v"
    using False unfolding round_float_def Let_def e_def by (simp only: if_False)
  then show ?thesis using up low by blast
next
  case True
  then show ?thesis using assms by (simp add: round_float_def)
qed

section \<open>The plugin\<close>

record presenter_body =
  pb_dx :: "go_float option"
  pb_dy :: "go_float option"
  pb_stop :: "bool option"

definition zero_presenter_body :: presenter_body where
  "zero_presenter_body = \<lparr>pb_dx = None, pb_dy = None, pb_stop = None\<rparr>"

definition presenter_body_fields :: "presenter_body field list" where
  "presenter_body_fields =
     [(''dx'', fld (dec_opt dec_float (Fin 0)) pb_dx pb_dx_update),
      (''dy'', fld (dec_opt dec_float (Fin 0)) pb_dy pb_dy_update),
      (''stop'', fld (dec_opt dec_bool False) pb_stop pb_stop_update)]"

definition dec_presenter_body :: "json \<Rightarrow> presenter_body \<Rightarrow> presenter_body option" where
  "dec_presenter_body j = dec_struct (dec_fields presenter_body_fields) j"

record presenter =
  pr_x :: go_float
  pr_y :: go_float
  pr_ratio :: go_float
  pr_width :: int
  pr_height :: int

fun first_scan :: "(string \<Rightarrow> (int \<times> int) option) \<Rightarrow> string list \<Rightarrow> (int \<times> int) option" where
  "first_scan scan [] = None"
| "first_scan scan (l # ls) = (case scan l of None \<Rightarrow> first_scan scan ls | Some s \<Rightarrow> Some s)"

definition x11_size :: "(string \<Rightarrow> (int \<times> int) option) \<Rightarrow> string \<Rightarrow> (int \<times> int) option" where
  "x11_size scan_x11 out = first_scan (\<lambda>l. if contains ''dimensions:'' l then scan_x11 l else None) (split_on newline out)"

definition wlr_size :: "(string \<Rightarrow> (int \<times> int) option) \<Rightarrow> string \<Rightarrow> (int \<times> int) option" where
  "wlr_size scan_wlr out =
     first_scan (\<lambda>l. let l = TrimSpace l in if contains ''x'' l \<and> suffix_of '' px'' l then scan_wlr l else None) (split_on newline out)"

definition getScreenSize ::
  "(string \<Rightarrow> (int \<times> int) option) \<Rightarrow> (string \<Rightarrow> (int \<times> int) option) \<Rightarrow> (string list \<Rightarrow> string option) \<Rightarrow> int \<times> int" where
  "getScreenSize scan_x11 scan_wlr output =
     (case (case output [''xdpyinfo''] of None \<Rightarrow> None | Some out \<Rightarrow> x11_size scan_x11 out) of
        Some s \<Rightarrow> s
      | None \<Rightarrow>
          (case (case output [''wlr-randr''] of None \<Rightarrow> None | Some out \<Rightarrow> wlr_size scan_wlr out) of
             Some s \<Rightarrow> s
           | None \<Rightarrow> (0, 0)))"

text \<open>The quotient of two whole numbers as a double.\<close>

definition float_ratio :: "int \<Rightarrow> int \<Rightarrow> go_float" where
  "float_ratio w h = round_float (of_int w / of_int h)"

definition NewPresenterPlugin :: "int \<times> int \<Rightarrow> presenter" where
  "NewPresenterPlugin screen =
     (let (w, h) = (if fst screen > 0 \<and> snd screen > 0 then screen else (1920, 1080))
      in \<lparr>pr_x = Fin (1 / 2), pr_y = Fin (1 / 2), pr_ratio = float_ratio w h, pr_width = w, pr_height = h\<rparr>)"

definition clamp01 :: "go_float \<Rightarrow> go_float" where
  "clamp01 x =
     (let x = (if float_less x (Fin 0) then Fin 0 else x)
      in if float_less (Fin 1) x then Fin 1 else x)"

definition presenter_move :: "presenter_body \<Rightarrow> presenter \<Rightarrow> presenter" where
  "presenter_move b p =
     (if pb_stop b = Some True then p\<lparr>pr_x := Fin (1 / 2), pr_y := Fin (1 / 2)\<rparr>
      else let x = (case pb_dx b of None \<Rightarrow> pr_x p | Some dx \<Rightarrow> float_add (pr_x p) dx);
               y = (case pb_dy b of None \<Rightarrow> pr_y p | Some dy \<Rightarrow> float_add (pr_y p) (float_mul dy (pr_ratio p)))
           in p\<lparr>pr_x := clamp01 x, pr_y := clamp01 y\<rparr>)"

definition presenter_Handle :: "json option \<Rightarrow> presenter \<Rightarrow> bool \<times> presenter" where
  "presenter_Handle raw p =
     (case unmarshal_raw (\<lambda>j. dec_presenter_body j zero_presenter_body) raw of
        None \<Rightarrow> (False, p)
      | Some b \<Rightarrow> (True, presenter_move b p))"

text \<open>The worker, once per wake-up: the pixel, and the commands that move the cursor there.\<close>

definition cursor_pixel :: "(go_float \<Rightarrow> int) \<Rightarrow> presenter \<Rightarrow> int \<times> int" where
  "cursor_pixel conv p =
     (to_int64 conv (float_mul (pr_x p) (float_of_int (pr_width p))),
      to_int64 conv (float_mul (pr_y p) (float_of_int (pr_height p))))"

definition moveCursor :: "(string list \<Rightarrow> bool) \<Rightarrow> int \<times> int \<Rightarrow> string list list" where
  "moveCursor run pixel =
     (let (x, y) = pixel;
          ydotool = [''ydotool'', ''mousemove'', ''--absolute'', ''-x'', show_int x, ''-y'', show_int y]
      in if run ydotool then [ydotool] else [ydotool, [''xdotool'', ''mousemove'', show_int x, show_int y]])"

section \<open>The cursor stays on the screen\<close>

definition unit_float :: "go_float \<Rightarrow> bool" where
  "unit_float x \<longleftrightarrow> (\<exists>r. x = Fin r \<and> 0 \<le> r \<and> r \<le> 1)"

definition presenter_ok :: "presenter \<Rightarrow> bool" where
  "presenter_ok p \<longleftrightarrow> unit_float (pr_x p) \<and> unit_float (pr_y p) \<and> 0 < pr_width p \<and> 0 < pr_height p"

lemma clamp01_unit: "x \<noteq> NaN \<Longrightarrow> unit_float (clamp01 x)"
  by (cases x) (auto simp: clamp01_def unit_float_def)

lemma round_float_number: "round_float r \<noteq> NaN"
  by (simp add: round_float_def Let_def)

lemma unit_add: "unit_float x \<Longrightarrow> d \<noteq> NaN \<Longrightarrow> float_add x d \<noteq> NaN"
  by (cases d) (auto simp: unit_float_def round_float_number)

text \<open>What a packet decodes to is finite, and the ratio is a positive number.\<close>

definition ratio_ok :: "go_float \<Rightarrow> bool" where
  "ratio_ok x \<longleftrightarrow> (\<exists>r. x = Fin r \<and> 0 < r)"

definition finite_body :: "presenter_body \<Rightarrow> bool" where
  "finite_body b \<longleftrightarrow> (\<forall>x. pb_dx b = Some x \<longrightarrow> (\<exists>r. x = Fin r)) \<and> (\<forall>x. pb_dy b = Some x \<longrightarrow> (\<exists>r. x = Fin r))"

lemma unit_half: "unit_float (Fin (1 / 2))"
  by (auto simp: unit_float_def intro: exI[of _ "1 / 2"])

lemma move_ok:
  assumes "presenter_ok p" and "ratio_ok (pr_ratio p)" and "finite_body b"
  shows "presenter_ok (presenter_move b p)"
proof -
  have "float_mul (Fin r) (pr_ratio p) \<noteq> NaN" for r
    using assms(2) by (auto simp: ratio_ok_def float_mul_def round_float_number)
  then have y: "\<forall>dy. pb_dy b = Some dy \<longrightarrow> float_mul dy (pr_ratio p) \<noteq> NaN"
    using assms(3) by (auto simp: finite_body_def)
  have x: "\<forall>dx. pb_dx b = Some dx \<longrightarrow> dx \<noteq> NaN" using assms(3) by (auto simp: finite_body_def)
  have u: "unit_float (pr_x p)" "unit_float (pr_y p)" using assms(1) by (simp_all add: presenter_ok_def)
  then have n: "pr_x p \<noteq> NaN" "pr_y p \<noteq> NaN" by (auto simp: unit_float_def)
  show ?thesis using assms(1) unit_half u n x y unit_add clamp01_unit
    by (auto simp: presenter_move_def presenter_ok_def Let_def split: option.splits)
qed

lemma dec_float_finite: "dec_float j (Fin a) = Some x \<Longrightarrow> \<exists>r. x = Fin r"
  by (cases j) (auto split: go_float.splits intro: sym)

lemma presenter_field_finite:
  assumes "finite_body b" and "dec_fields presenter_body_fields k v b = Some b'"
  shows "finite_body b'"
proof -
  have o: "dec_opt dec_float (Fin 0) v old = Some new \<Longrightarrow> \<forall>x. old = Some x \<longrightarrow> (\<exists>r. x = Fin r)
      \<Longrightarrow> \<forall>x. new = Some x \<longrightarrow> (\<exists>r. x = Fin r)" for old new
    using dec_float_finite by (fastforce simp: dec_opt_def split: if_splits option.splits)
  show ?thesis
    using assms o[of "pb_dx b"] o[of "pb_dy b"]
    by (auto simp: dec_fields_def presenter_body_fields_def fld_def finite_body_def split: if_splits option.splits)
qed

lemma presenter_body_finite:
  assumes "unmarshal_raw (\<lambda>j. dec_presenter_body j zero_presenter_body) raw = Some b"
  shows "finite_body b"
proof -
  have "dec_keeps (dec_fields presenter_body_fields) finite_body"
    unfolding dec_keeps_def using presenter_field_finite by blast
  moreover have "finite_body zero_presenter_body" by (simp add: finite_body_def zero_presenter_body_def)
  ultimately show ?thesis
    using assms dec_struct_inv by (fastforce simp: unmarshal_raw_def dec_presenter_body_def split: option.splits)
qed

lemma ratio_positive:
  assumes "0 < w" and "w < 2 ^ 31" and "0 < h" and "h < 2 ^ 31"
  shows "ratio_ok (float_ratio w h)"
proof -
  let ?r = "of_int w / of_int h :: rat"
  have hw: "(1::rat) \<le> of_int w" "(of_int w :: rat) \<le> of_int (2 ^ 31)" "(1::rat) \<le> of_int h" "(of_int h :: rat) \<le> of_int (2 ^ 31)"
    using assms by (simp_all del: of_int_power of_int_numeral)
  have pos: "0 < ?r" using assms by simp
  have up: "?r \<le> of_int (2 ^ 31)"
    using hw mult_mono[of "of_int w" "of_int (2 ^ 31)" 1 "of_int h :: rat"] by (simp add: divide_le_eq)
  have "1 / 2 ^ 31 \<le> ?r" using hw by (simp add: field_simps)
  moreover have "pow2 (- 1074) \<le> pow2 (- 31)" by (rule pow2_mono) simp
  moreover have "pow2 (- 31) = 1 / 2 ^ 31" by (simp add: pow2_def)
  ultimately have "pow2 (ulp_exp ?r) \<le> ?r" using ulp_exp_below[OF pos] by linarith
  then have "1 \<le> ?r / pow2 (ulp_exp ?r)" by (simp only: le_divide_eq pow2_pos if_True mult_1)
  then have "1 \<le> \<lfloor>?r / pow2 (ulp_exp ?r)\<rfloor>" by (simp only: le_floor_iff of_int_1)
  then have one: "1 \<le> round_int (?r / pow2 (ulp_exp ?r))" unfolding round_int_def Let_def by simp
  obtain v where v: "round_float ?r = Fin v" using round_float_between[OF less_imp_le[OF pos] up] by auto
  have "\<bar>?r\<bar> = ?r" "?r \<noteq> 0" using pos by (rule abs_of_pos, rule less_imp_neq[THEN not_sym])
  then have "v = of_int (round_int (?r / pow2 (ulp_exp ?r))) * pow2 (ulp_exp ?r)"
    using v unfolding round_float_def Let_def by (simp only: if_False split: if_splits) simp_all
  moreover have "0 < \<dots>" using one by (intro mult_pos_pos) simp_all
  ultimately show ?thesis using v by (simp add: ratio_ok_def float_ratio_def)
qed

lemma pixel_bounds:
  assumes "unit_float x" and "0 < n" and "n < 2 ^ 31"
  shows "0 \<le> to_int64 conv (float_mul x (float_of_int n)) \<and> to_int64 conv (float_mul x (float_of_int n)) \<le> n"
proof -
  obtain r where r: "x = Fin r" "0 \<le> r" "r \<le> 1" using assms(1) by (auto simp: unit_float_def)
  have n: "float_of_int n = Fin (of_int n)"
    unfolding float_of_int_def by (rule round_float_int) (use assms in simp)
  have pos: "0 \<le> r * of_int n" using r assms(2) by simp
  have "r * of_int n \<le> 1 * of_int n" using r assms(2) by (intro mult_right_mono) simp_all
  then have "r * of_int n \<le> of_int n" by simp
  from round_float_between[OF pos this] assms(3) obtain v where v: "round_float (r * of_int n) = Fin v" "0 \<le> v" "v \<le> of_int n"
    by auto
  have "0 \<le> \<lfloor>v\<rfloor>" "\<lfloor>v\<rfloor> \<le> n" using v(2,3) by (simp_all add: floor_le_iff less_le_trans)
  moreover from this have "trunc_rat v = \<lfloor>v\<rfloor>" "- (2 ^ 63) \<le> \<lfloor>v\<rfloor>" "\<lfloor>v\<rfloor> < 2 ^ 63"
  proof -
    have "(2::int) ^ 31 < 2 ^ 63" "- (2 ^ 63) \<le> (0::int)" by simp_all
    then show "- (2 ^ 63) \<le> \<lfloor>v\<rfloor>" "\<lfloor>v\<rfloor> < 2 ^ 63" using \<open>0 \<le> \<lfloor>v\<rfloor>\<close> \<open>\<lfloor>v\<rfloor> \<le> n\<close> assms(3) by linarith+
    show "trunc_rat v = \<lfloor>v\<rfloor>" using v(2) by (simp add: trunc_rat_def)
  qed
  ultimately show ?thesis by (simp only: r(1) n float_mul_def v(1) to_int64_def prod.case go_float.case if_True simp_thms)
qed

text \<open>A run of packets.\<close>

definition presenter_run :: "json option list \<Rightarrow> presenter \<Rightarrow> presenter" where
  "presenter_run raws p = fold (\<lambda>raw p. snd (presenter_Handle raw p)) raws p"

lemma run_ok: "presenter_ok p \<Longrightarrow> ratio_ok (pr_ratio p) \<Longrightarrow>
    presenter_ok (presenter_run raws p) \<and> pr_width (presenter_run raws p) = pr_width p \<and> pr_height (presenter_run raws p) = pr_height p"
proof (induction raws arbitrary: p)
  case (Cons raw raws)
  have "presenter_ok (snd (presenter_Handle raw p))"
    using Cons.prems move_ok presenter_body_finite by (auto simp: presenter_Handle_def split: option.splits)
  moreover have "pr_ratio (snd (presenter_Handle raw p)) = pr_ratio p" "pr_width (snd (presenter_Handle raw p)) = pr_width p"
    "pr_height (snd (presenter_Handle raw p)) = pr_height p"
    by (auto simp: presenter_Handle_def presenter_move_def Let_def split: option.splits)
  ultimately show ?case using Cons by (simp add: presenter_run_def)
qed (simp add: presenter_run_def)

text \<open>
  Whatever a phone sends, the cursor stays within the screen: after any run of packets both coordinates of the pixel
  lie between zero and the size of the screen.
\<close>
theorem cursor_on_screen:
  assumes "0 < w" and "w < 2 ^ 31" and "0 < h" and "h < 2 ^ 31"
    and "cursor_pixel conv (presenter_run raws (NewPresenterPlugin (w, h))) = (x, y)"
  shows "0 \<le> x \<and> x \<le> w \<and> 0 \<le> y \<and> y \<le> h"
proof -
  let ?p = "NewPresenterPlugin (w, h)"
  have "presenter_ok ?p" "pr_ratio ?p = float_ratio w h" "pr_width ?p = w" "pr_height ?p = h"
    using assms(1,3) by (simp_all add: NewPresenterPlugin_def presenter_ok_def unit_half)
  with run_ok[of ?p raws] ratio_positive[OF assms(1-4)] have "presenter_ok (presenter_run raws ?p)"
    "pr_width (presenter_run raws ?p) = w" "pr_height (presenter_run raws ?p) = h" by simp_all
  then show ?thesis
    using assms pixel_bounds[of "pr_x (presenter_run raws ?p)" w conv] pixel_bounds[of "pr_y (presenter_run raws ?p)" h conv]
    by (auto simp: cursor_pixel_def presenter_ok_def)
qed

theorem cursor_on_screen_witness:
  "\<exists>x y. cursor_pixel no_conv (presenter_run [None, Some JNull] (NewPresenterPlugin (1920, 1080))) = (x, y)
     \<and> 0 \<le> x \<and> x \<le> 1920 \<and> 0 \<le> y \<and> y \<le> 1080"
proof -
  obtain x y where c: "cursor_pixel no_conv (presenter_run [None, Some JNull] (NewPresenterPlugin (1920, 1080))) = (x, y)"
    by fastforce
  show ?thesis using cursor_on_screen[OF _ _ _ _ c] c by simp
qed

end
