(* ===== verification/Digitizer.thy ===== *)
theory Digitizer
  imports Mousepad
begin

text \<open>
  The digitizer plugin (\<open>internal/plugins/digitizer\<close>): a drawing tablet of the phone as a virtual input device.
  A session opens \<open>/dev/uinput\<close>, events become input events on it, and the end of the session or the
  connection closes it.  Whether a call on the device fails is an input.
\<close>

section \<open>Packet bodies\<close>

definition dec_int32 :: "json \<Rightarrow> int \<Rightarrow> int option" where
  "dec_int32 j old =
     (case dec_int j old of None \<Rightarrow> None | Some v \<Rightarrow> if int32_range v then Some v else None)"

record digitizer_session =
  ses_action :: string
  ses_width :: int
  ses_height :: int
  ses_resolution_x :: go_float
  ses_resolution_y :: go_float

definition zero_digitizer_session :: digitizer_session where
  "zero_digitizer_session = \<lparr>ses_action = [], ses_width = 0, ses_height = 0, ses_resolution_x = Fin 0, ses_resolution_y = Fin 0\<rparr>"

definition digitizer_session_fields :: "digitizer_session field list" where
  "digitizer_session_fields =
     [(''action'', fld dec_str ses_action ses_action_update),
      (''width'', fld dec_int32 ses_width ses_width_update),
      (''height'', fld dec_int32 ses_height ses_height_update),
      (''resolutionX'', fld dec_float ses_resolution_x ses_resolution_x_update),
      (''resolutionY'', fld dec_float ses_resolution_y ses_resolution_y_update)]"

definition dec_digitizer_session :: "json \<Rightarrow> digitizer_session \<Rightarrow> digitizer_session option" where
  "dec_digitizer_session j = dec_struct (dec_fields digitizer_session_fields) j"

record digitizer_body =
  dig_active :: "bool option"
  dig_touching :: "bool option"
  dig_tool :: string
  dig_x :: "go_float option"
  dig_y :: "go_float option"
  dig_pressure :: "go_float option"

definition zero_digitizer_body :: digitizer_body where
  "zero_digitizer_body = \<lparr>dig_active = None, dig_touching = None, dig_tool = [], dig_x = None, dig_y = None, dig_pressure = None\<rparr>"

definition digitizer_body_fields :: "digitizer_body field list" where
  "digitizer_body_fields =
     [(''active'', fld (dec_opt dec_bool False) dig_active dig_active_update),
      (''touching'', fld (dec_opt dec_bool False) dig_touching dig_touching_update),
      (''tool'', fld dec_str dig_tool dig_tool_update),
      (''x'', fld (dec_opt dec_float (Fin 0)) dig_x dig_x_update),
      (''y'', fld (dec_opt dec_float (Fin 0)) dig_y dig_y_update),
      (''pressure'', fld (dec_opt dec_float (Fin 0)) dig_pressure dig_pressure_update)]"

definition dec_digitizer_body :: "json \<Rightarrow> digitizer_body \<Rightarrow> digitizer_body option" where
  "dec_digitizer_body j = dec_struct (dec_fields digitizer_body_fields) j"


section \<open>The virtual device\<close>

text \<open>The constants of \<open>uinput.go\<close>.\<close>

definition uiDevCreate :: int where "uiDevCreate = 0x5501"
definition uiDevDestroy :: int where "uiDevDestroy = 0x5502"
definition uiSetEvBit :: int where "uiSetEvBit = 0x40045564"
definition uiSetKeyBit :: int where "uiSetKeyBit = 0x40045565"
definition uiSetAbsBit :: int where "uiSetAbsBit = 0x40045567"
definition evSyn :: int where "evSyn = 0"
definition evKey :: int where "evKey = 1"
definition evAbs :: int where "evAbs = 3"
definition btnToolPen :: int where "btnToolPen = 0x140"
definition btnToolRubber :: int where "btnToolRubber = 0x141"
definition btnTouch :: int where "btnTouch = 0x14a"
definition absX :: int where "absX = 0"
definition absY :: int where "absY = 1"
definition absPressure :: int where "absPressure = 0x18"
definition synReport :: int where "synReport = 0"
definition maxPressure :: int where "maxPressure = 4096"

datatype dev_call = OpenDev | Ioctl int int | WriteDev string | CloseDev

definition abs_array :: "(int \<times> int) list \<Rightarrow> string" where
  "abs_array vals = concat (map (\<lambda>i. le_bytes 4 (case map_of vals (int i) of None \<Rightarrow> 0 | Some v \<Rightarrow> v)) [0..<64])"

definition uinputUserDev :: "int \<Rightarrow> int \<Rightarrow> string" where
  "uinputUserDev width height =
     (let name = ''kcd-digitizer''
      in name @ replicate (80 - length name) (CHR 0x00)
         @ le_bytes 2 3 @ le_bytes 2 0x4711 @ le_bytes 2 0x0818 @ le_bytes 2 1
         @ le_bytes 4 0
         @ abs_array [(absX, width), (absY, height), (absPressure, maxPressure)]
         @ abs_array [] @ abs_array [] @ abs_array [])"

text \<open>The calls that set a tablet up; the first one that fails closes the file and ends them.\<close>

definition setup_calls :: "int \<Rightarrow> int \<Rightarrow> dev_call list" where
  "setup_calls width height =
     map (Ioctl uiSetEvBit) [evKey, evAbs, evSyn]
     @ map (Ioctl uiSetKeyBit) [btnToolPen, btnToolRubber, btnTouch]
     @ map (Ioctl uiSetAbsBit) [absX, absY, absPressure]
     @ [WriteDev (uinputUserDev width height), Ioctl uiDevCreate 0]"

fun run_setup :: "(dev_call \<Rightarrow> bool) \<Rightarrow> dev_call list \<Rightarrow> bool \<times> dev_call list" where
  "run_setup fails [] = (True, [])"
| "run_setup fails (c # cs) =
     (if fails c then (False, [c, CloseDev])
      else case run_setup fails cs of (ok, ds) \<Rightarrow> (ok, c # ds))"

definition createUinputTablet :: "(dev_call \<Rightarrow> bool) \<Rightarrow> int \<Rightarrow> int \<Rightarrow> bool \<times> dev_call list" where
  "createUinputTablet fails width height =
     (if fails OpenDev then (False, [OpenDev])
      else case run_setup fails (setup_calls width height) of (ok, cs) \<Rightarrow> (ok, OpenDev # cs))"

text \<open>The input events of one packet: type, code and value.\<close>

definition tool_events :: "digitizer_body \<Rightarrow> (int \<times> int \<times> int) list" where
  "tool_events b =
     (if dig_tool b = [] then []
      else if dig_tool b = ''Rubber'' then [(evKey, btnToolPen, 0), (evKey, btnToolRubber, 1)]
      else [(evKey, btnToolRubber, 0), (evKey, btnToolPen, 1)])"

definition active_events :: "digitizer_body \<Rightarrow> (int \<times> int \<times> int) list" where
  "active_events b =
     (case dig_active b of
        None \<Rightarrow> []
      | Some False \<Rightarrow> [(evKey, btnToolPen, 0), (evKey, btnToolRubber, 0), (evKey, btnTouch, 0), (evAbs, absPressure, 0)]
      | Some True \<Rightarrow> if dig_tool b = [] then [(evKey, btnToolPen, 1)] else [])"

definition clamp_pressure :: "int \<Rightarrow> int" where
  "clamp_pressure p = (if p < 0 then 0 else if p > maxPressure then maxPressure else p)"

definition tablet_events :: "(go_float \<Rightarrow> int) \<Rightarrow> digitizer_body \<Rightarrow> (int \<times> int \<times> int) list" where
  "tablet_events conv b =
     tool_events b @ active_events b
     @ (case dig_x b of None \<Rightarrow> [] | Some x \<Rightarrow> [(evAbs, absX, to_int32 conv x)])
     @ (case dig_y b of None \<Rightarrow> [] | Some y \<Rightarrow> [(evAbs, absY, to_int32 conv y)])
     @ (case dig_pressure b of
          None \<Rightarrow> []
        | Some p \<Rightarrow> [(evAbs, absPressure, clamp_pressure (to_int32 conv (float_mul p (float_of_int maxPressure))))])
     @ (case dig_touching b of None \<Rightarrow> [] | Some t \<Rightarrow> [(evKey, btnTouch, if t then 1 else 0)])
     @ [(evSyn, synReport, 0)]"

definition tablet_SendEvent :: "(go_float \<Rightarrow> int) \<Rightarrow> digitizer_body \<Rightarrow> dev_call" where
  "tablet_SendEvent conv b = WriteDev (concat (map input_event_bytes (tablet_events conv b)))"

definition tablet_Close :: "dev_call list" where
  "tablet_Close = [Ioctl uiDevDestroy 0, CloseDev]"

section \<open>Sessions\<close>

text \<open>Tablets get numbers in the order in which they are created; a call carries the number of its tablet.\<close>

record digitizer =
  dg_bus :: bool
  dg_sessions :: "string \<rightharpoonup> nat"
  dg_next :: nat

type_synonym tablet_calls = "(nat \<times> dev_call) list"

definition defaultWidth :: int where "defaultWidth = 1920"
definition defaultHeight :: int where "defaultHeight = 1080"

definition on_tablet :: "nat \<Rightarrow> dev_call list \<Rightarrow> tablet_calls" where
  "on_tablet t cs = map (Pair t) cs"

definition end_session :: "string \<Rightarrow> digitizer \<Rightarrow> tablet_calls \<times> digitizer" where
  "end_session dev_id dg =
     (case dg_sessions dg dev_id of
        None \<Rightarrow> ([], dg)
      | Some t \<Rightarrow> (on_tablet t tablet_Close, dg\<lparr>dg_sessions := (dg_sessions dg)(dev_id := None)\<rparr>))"

definition start_session :: "(dev_call \<Rightarrow> bool) \<Rightarrow> string \<Rightarrow> int \<Rightarrow> int \<Rightarrow> digitizer \<Rightarrow> tablet_calls \<times> effect list \<times> digitizer" where
  "start_session fails dev_id width height dg =
     (let width = (if width \<le> 0 then defaultWidth else width);
          height = (if height \<le> 0 then defaultHeight else height);
          t = dg_next dg
      in case createUinputTablet fails width height of
           (False, cs) \<Rightarrow> (on_tablet t cs, [], dg\<lparr>dg_next := Suc t\<rparr>)
         | (True, cs) \<Rightarrow>
             (on_tablet t cs,
              publish (dg_bus dg) ''digitizer.session'' dev_id
                (JObj [(''active'', JBool True), (''height'', enc_int height), (''width'', enc_int width)]),
              dg\<lparr>dg_next := Suc t, dg_sessions := (dg_sessions dg)(dev_id \<mapsto> t)\<rparr>))"

definition handleSession :: "(dev_call \<Rightarrow> bool) \<Rightarrow> string \<Rightarrow> digitizer_session \<Rightarrow> digitizer \<Rightarrow> tablet_calls \<times> effect list \<times> digitizer" where
  "handleSession fails dev_id body dg =
     (case end_session dev_id dg of
        (cs, dg) \<Rightarrow>
          if ses_action body = ''start'' then
            (case start_session fails dev_id (ses_width body) (ses_height body) dg of
               (ds, es, dg) \<Rightarrow> (cs @ ds, es, dg))
          else if ses_action body = ''end'' then
            (cs, publish (dg_bus dg) ''digitizer.session'' dev_id (JObj [(''active'', JBool False)]), dg)
          else (cs, [], dg))"

definition digitizer_Handle ::
  "(go_float \<Rightarrow> int) \<Rightarrow> (dev_call \<Rightarrow> bool) \<Rightarrow> string \<Rightarrow> packet \<Rightarrow> digitizer \<Rightarrow> bool \<times> tablet_calls \<times> effect list \<times> digitizer" where
  "digitizer_Handle conv fails dev_id pkt dg =
     (if pk_type pkt = ''kdeconnect.digitizer.session'' then
        (case unmarshal_raw (\<lambda>j. dec_digitizer_session j zero_digitizer_session) (pk_body pkt) of
           None \<Rightarrow> (False, [], [], dg)
         | Some body \<Rightarrow> (True, handleSession fails dev_id body dg))
      else if pk_type pkt = ''kdeconnect.digitizer'' then
        (case dg_sessions dg dev_id of
           None \<Rightarrow> (True, [], [], dg)
         | Some t \<Rightarrow>
             (case unmarshal_raw (\<lambda>j. dec_digitizer_body j zero_digitizer_body) (pk_body pkt) of
                None \<Rightarrow> (False, [], [], dg)
              | Some body \<Rightarrow> (True, on_tablet t [tablet_SendEvent conv body], [], dg)))
      else (True, [], [], dg))"

definition digitizer_OnDisconnect :: "string \<Rightarrow> digitizer \<Rightarrow> tablet_calls \<times> effect list \<times> digitizer" where
  "digitizer_OnDisconnect dev_id dg =
     (case dg_sessions dg dev_id of
        None \<Rightarrow> ([], [], dg)
      | Some t \<Rightarrow>
          (on_tablet t tablet_Close, publish (dg_bus dg) ''digitizer.session'' dev_id (JObj [(''active'', JBool False)]),
           dg\<lparr>dg_sessions := (dg_sessions dg)(dev_id := None)\<rparr>))"

section \<open>Runs\<close>

datatype tablet_op = TabletPacket "dev_call \<Rightarrow> bool" string packet | TabletGone string

fun tablet_step :: "(go_float \<Rightarrow> int) \<Rightarrow> tablet_op \<Rightarrow> digitizer \<Rightarrow> tablet_calls \<times> digitizer" where
  "tablet_step conv (TabletPacket fails dev_id pkt) dg =
     (case digitizer_Handle conv fails dev_id pkt dg of (ok, cs, es, dg) \<Rightarrow> (cs, dg))"
| "tablet_step conv (TabletGone dev_id) dg = (case digitizer_OnDisconnect dev_id dg of (cs, es, dg) \<Rightarrow> (cs, dg))"

fun tablet_run :: "(go_float \<Rightarrow> int) \<Rightarrow> tablet_op list \<Rightarrow> digitizer \<Rightarrow> tablet_calls \<times> digitizer" where
  "tablet_run conv [] dg = ([], dg)"
| "tablet_run conv (opr # ops) dg =
     (case tablet_step conv opr dg of (cs, dg) \<Rightarrow> case tablet_run conv ops dg of (ds, dg) \<Rightarrow> (cs @ ds, dg))"

text \<open>The files that some calls leave open; a call that fails to open leaves nothing.\<close>

fun open_files :: "(dev_call \<Rightarrow> bool) \<Rightarrow> dev_call list \<Rightarrow> bool \<Rightarrow> bool" where
  "open_files fails [] b = b"
| "open_files fails (c # cs) b =
     open_files fails cs (if c = OpenDev then \<not> fails c else if c = CloseDev then False else b)"

section \<open>No file is left open\<close>

lemma open_append: "open_files fails (cs @ ds) b = open_files fails ds (open_files fails cs b)"
  by (induction cs arbitrary: b) auto

lemma run_setup_open:
  "\<forall>c \<in> set cs. c \<noteq> OpenDev \<and> c \<noteq> CloseDev \<Longrightarrow> open_files fails (snd (run_setup fails cs)) b = (fst (run_setup fails cs) \<and> b)"
proof (induction cs arbitrary: b)
  case (Cons c cs)
  then have "c \<noteq> OpenDev" "c \<noteq> CloseDev" and "open_files fails (snd (run_setup fails cs)) b = (fst (run_setup fails cs) \<and> b)"
    by simp_all
  then show ?case by (simp add: case_prod_unfold)
qed simp

text \<open>
  A tablet that could not be set up leaves no open file behind, whichever call failed; one that could be set up holds
  exactly its own.
\<close>
theorem failed_tablet_is_closed:
  "open_files fails (snd (createUinputTablet fails width height)) False = fst (createUinputTablet fails width height)"
proof -
  have "\<forall>c \<in> set (setup_calls width height). c \<noteq> OpenDev \<and> c \<noteq> CloseDev" by (auto simp: setup_calls_def)
  from run_setup_open[OF this, of fails True] show ?thesis
    by (auto simp: createUinputTablet_def split: prod.splits)
qed

section \<open>Tablets and sessions\<close>

definition calls_of :: "nat \<Rightarrow> tablet_calls \<Rightarrow> dev_call list" where
  "calls_of t cs = map snd (filter (\<lambda>c. fst c = t) cs)"

text \<open>A tablet is released when its file was never opened or has been closed last.\<close>

definition released :: "tablet_calls \<Rightarrow> nat \<Rightarrow> bool" where
  "released cs t \<longleftrightarrow> calls_of t cs = [OpenDev] \<or> calls_of t cs \<noteq> [] \<and> last (calls_of t cs) = CloseDev"

definition tablets_ok :: "tablet_calls \<Rightarrow> digitizer \<Rightarrow> bool" where
  "tablets_ok cs dg \<longleftrightarrow>
     (\<forall>d t. dg_sessions dg d = Some t \<longrightarrow> t < dg_next dg \<and> CloseDev \<notin> set (calls_of t cs)) \<and>
     (\<forall>d d' t. dg_sessions dg d = Some t \<longrightarrow> dg_sessions dg d' = Some t \<longrightarrow> d = d') \<and>
     (\<forall>t < dg_next dg. t \<in> ran (dg_sessions dg) \<or> released cs t) \<and>
     (\<forall>c \<in> set cs. fst c < dg_next dg)"

lemma calls_of_append [simp]: "calls_of t (cs @ ds) = calls_of t cs @ calls_of t ds"
  by (simp add: calls_of_def)

lemma calls_of_tablet [simp]: "calls_of t (on_tablet u cs) = (if u = t then cs else [])"
  by (auto simp: calls_of_def on_tablet_def filter_map comp_def)

lemma calls_of_new: "\<forall>c \<in> set cs. fst c < n \<Longrightarrow> n \<le> t \<Longrightarrow> calls_of t cs = []"
  by (auto simp: calls_of_def filter_empty_conv)

lemma released_append: "released cs t \<Longrightarrow> calls_of t ds = [] \<Longrightarrow> released (cs @ ds) t"
  by (simp add: released_def)

lemma setup_failed: "run_setup fails cs = (False, ds) \<Longrightarrow> ds \<noteq> [] \<and> last ds = CloseDev"
  by (induction cs arbitrary: ds) (auto split: if_splits prod.splits)

lemma setup_done: "run_setup fails cs = (True, ds) \<Longrightarrow> ds = cs"
  by (induction cs arbitrary: ds) (auto split: if_splits prod.splits)

lemma create_failed: "createUinputTablet fails w h = (False, cs) \<Longrightarrow> cs = [OpenDev] \<or> cs \<noteq> [] \<and> last cs = CloseDev"
  using setup_failed by (fastforce simp: createUinputTablet_def split: if_splits prod.splits)

lemma create_done: "createUinputTablet fails w h = (True, cs) \<Longrightarrow> CloseDev \<notin> set cs"
  using setup_done by (fastforce simp: createUinputTablet_def setup_calls_def split: if_splits prod.splits)

lemma end_session_ok:
  assumes "tablets_ok cs dg" and "end_session d dg = (ds, dg')"
  shows "tablets_ok (cs @ ds) dg' \<and> dg_sessions dg' d = None"
proof (cases "dg_sessions dg d")
  case (Some t)
  then have ds: "ds = on_tablet t tablet_Close" "dg' = dg\<lparr>dg_sessions := (dg_sessions dg)(d := None)\<rparr>"
    using assms(2) by (auto simp: end_session_def)
  have t: "t < dg_next dg" and only: "\<And>d'. dg_sessions dg d' = Some t \<Longrightarrow> d' = d"
    using assms(1) Some unfolding tablets_ok_def by blast+
  have "released (cs @ ds) t" by (simp add: ds released_def tablet_Close_def)
  moreover have "u \<in> ran (dg_sessions dg') \<or> released (cs @ ds) u" if "u < dg_next dg" "u \<noteq> t" for u
  proof -
    have "calls_of u ds = []" using that(2) by (simp add: ds)
    moreover have "u \<in> ran (dg_sessions dg) \<or> released cs u" using assms(1) that(1) by (simp add: tablets_ok_def)
    moreover have "u \<in> ran (dg_sessions dg')" if "u \<in> ran (dg_sessions dg)"
    proof -
      from that obtain d' where d': "dg_sessions dg d' = Some u" unfolding ran_def by blast
      then have "d' \<noteq> d" using Some \<open>u \<noteq> t\<close> by auto
      then show ?thesis using d' by (auto simp: ds ran_def)
    qed
    ultimately show ?thesis using released_append by blast
  qed
  moreover have "\<forall>c \<in> set (cs @ ds). fst c < dg_next dg"
    using assms(1) t by (auto simp: tablets_ok_def ds on_tablet_def)
  moreover have "CloseDev \<notin> set (calls_of u (cs @ ds)) \<and> u < dg_next dg" if "dg_sessions dg' d' = Some u" for d' u
  proof -
    have "dg_sessions dg d' = Some u" "d' \<noteq> d" using that by (auto simp: ds split: if_splits)
    then show ?thesis using assms(1) only by (auto simp: tablets_ok_def ds)
  qed
  ultimately show ?thesis using assms(1) unfolding tablets_ok_def by (auto simp: ds split: if_splits)
qed (use assms in \<open>auto simp: end_session_def\<close>)

lemma start_session_ok:
  assumes "tablets_ok cs dg" and "dg_sessions dg d = None" and "start_session fails d w h dg = (ds, es, dg')"
  shows "tablets_ok (cs @ ds) dg'"
proof -
  let ?t = "dg_next dg"
  obtain ok xs where c: "createUinputTablet fails (if w \<le> 0 then defaultWidth else w) (if h \<le> 0 then defaultHeight else h) = (ok, xs)"
    by fastforce
  have ds: "ds = on_tablet ?t xs" and dg': "dg' = (if ok then dg\<lparr>dg_next := Suc ?t, dg_sessions := (dg_sessions dg)(d \<mapsto> ?t)\<rparr> else dg\<lparr>dg_next := Suc ?t\<rparr>)"
    using assms(3) by (auto simp: start_session_def c Let_def split: bool.splits if_splits)
  have new: "calls_of ?t cs = []" using assms(1) by (intro calls_of_new) (auto simp: tablets_ok_def)
  have mine: "if ok then CloseDev \<notin> set xs else released (cs @ ds) ?t"
  proof (cases ok)
    case True
    then show ?thesis using create_done c by simp
  next
    case False
    then show ?thesis using create_failed[of fails _ _ xs] c new by (simp add: ds released_def)
  qed
  have old: "u < ?t \<Longrightarrow> calls_of u ds = []" for u by (simp add: ds)
  have lt: "dg_sessions dg d' = Some u \<Longrightarrow> u < ?t \<and> CloseDev \<notin> set (calls_of u cs)" for d' u
    using assms(1) by (simp add: tablets_ok_def)
  have a: "dg_sessions dg' d' = Some u \<Longrightarrow> u < dg_next dg' \<and> CloseDev \<notin> set (calls_of u (cs @ ds))" for d' u
    using lt[of d' u] mine new old[of u] by (auto simp: dg' ds split: if_splits)
  have b: "dg_sessions dg' d1 = Some u \<Longrightarrow> dg_sessions dg' d2 = Some u \<Longrightarrow> d1 = d2" for d1 d2 u
    using assms(1) lt[of d1 u] lt[of d2 u] by (auto simp: dg' tablets_ok_def split: if_splits)
  have e: "u \<in> ran (dg_sessions dg') \<or> released (cs @ ds) u" if "u < dg_next dg'" for u
  proof (cases "u = ?t")
    case True
    then show ?thesis using mine by (auto simp: dg' ran_def split: if_splits)
  next
    case False
    then have "u < ?t" using that by (auto simp: dg' split: if_splits)
    then have "u \<in> ran (dg_sessions dg) \<or> released cs u" using assms(1) by (simp add: tablets_ok_def)
    moreover have "ran (dg_sessions dg) \<subseteq> ran (dg_sessions dg')"
      using assms(2) by (auto simp: dg' ran_def) (metis option.distinct(1))
    ultimately show ?thesis using released_append[OF _ old[OF \<open>u < ?t\<close>]] by blast
  qed
  have f: "\<forall>c \<in> set (cs @ ds). fst c < dg_next dg'"
    using assms(1) by (auto simp: tablets_ok_def ds dg' on_tablet_def less_Suc_eq)
  show ?thesis unfolding tablets_ok_def using a b e f by blast
qed

lemma event_ok:
  assumes "tablets_ok cs dg" and "dg_sessions dg d = Some t" and "c \<noteq> CloseDev"
  shows "tablets_ok (cs @ on_tablet t [c]) dg"
proof -
  have t: "t < dg_next dg" and in_use: "t \<in> ran (dg_sessions dg)" using assms by (auto simp: tablets_ok_def ran_def)
  have "released (cs @ on_tablet t [c]) u" if "released cs u" "u \<noteq> t" for u
    using that by (simp add: released_append)
  then have "u \<in> ran (dg_sessions dg) \<or> released (cs @ on_tablet t [c]) u" if "u < dg_next dg" for u
    using assms(1) in_use that by (cases "u = t") (auto simp: tablets_ok_def)
  moreover have "\<forall>c \<in> set (cs @ on_tablet t [c]). fst c < dg_next dg"
    using assms(1) t by (auto simp: tablets_ok_def on_tablet_def)
  moreover have "CloseDev \<notin> set (calls_of u (cs @ on_tablet t [c]))" if "dg_sessions dg d' = Some u" for d' u
    using assms(1,3) that by (simp add: tablets_ok_def)
  ultimately show ?thesis using assms(1) unfolding tablets_ok_def by blast
qed

lemma step_ok:
  assumes "tablets_ok cs dg" and "tablet_step conv opr dg = (ds, dg')"
  shows "tablets_ok (cs @ ds) dg'"
proof (cases opr)
  case (TabletGone d)
  then have "end_session d dg = (ds, dg')"
    using assms(2) by (auto simp: digitizer_OnDisconnect_def end_session_def split: option.splits)
  then show ?thesis using end_session_ok assms(1) by blast
next
  case (TabletPacket fails d pkt)
  have none: "tablets_ok (cs @ []) dg" using assms(1) by simp
  have session: "tablets_ok (cs @ ds) dg'" if "handleSession fails d body dg = (ds, es, dg')" for body es
  proof -
    obtain xs dg1 where 1: "end_session d dg = (xs, dg1)" by fastforce
    note ok1 = end_session_ok[OF assms(1) 1]
    obtain ys fs dg2 where 2: "start_session fails d (ses_width body) (ses_height body) dg1 = (ys, fs, dg2)"
      by (metis prod_cases3)
    have "tablets_ok ((cs @ xs) @ ys) dg2" by (rule start_session_ok[OF _ _ 2]) (use ok1 in auto)
    then show ?thesis using that ok1 by (auto simp: handleSession_def 1 2 split: if_splits)
  qed
  have event: "tablets_ok (cs @ on_tablet t [tablet_SendEvent conv body]) dg" if "dg_sessions dg d = Some t" for t body
    using event_ok[OF assms(1) that] by (simp add: tablet_SendEvent_def)
  show ?thesis using assms(2) TabletPacket session event none
    by (auto simp: digitizer_Handle_def split: if_splits option.splits prod.splits)
qed

lemma run_tablets_ok:
  "tablets_ok cs dg \<Longrightarrow> tablet_run conv ops dg = (ds, dg') \<Longrightarrow> tablets_ok (cs @ ds) dg'"
proof (induction ops arbitrary: cs dg ds)
  case (Cons opr ops)
  obtain xs dg1 where 1: "tablet_step conv opr dg = (xs, dg1)" by fastforce
  obtain ys where 2: "tablet_run conv ops dg1 = (ys, dg')" "ds = xs @ ys"
    using Cons.prems(2) 1 by (auto split: prod.splits)
  show ?case using Cons.IH[OF step_ok[OF Cons.prems(1) 1] 2(1)] 2(2) by simp
qed simp

definition no_tablets :: "bool \<Rightarrow> digitizer" where
  "no_tablets bus = \<lparr>dg_bus = bus, dg_sessions = Map.empty, dg_next = 0\<rparr>"

text \<open>
  C32. No tablet is leaked: after any sequence of packets and disconnections, with any calls on the device failing, every
  tablet that was ever created either belongs to the session of a device or has been released.
\<close>
theorem tablets_not_leaked:
  assumes "tablet_run conv ops (no_tablets bus) = (cs, dg)" and "t < dg_next dg"
  shows "(\<exists>d. dg_sessions dg d = Some t \<and> (\<forall>d'. dg_sessions dg d' = Some t \<longrightarrow> d' = d)) \<or> released cs t"
proof -
  have "tablets_ok [] (no_tablets bus)" by (simp add: tablets_ok_def no_tablets_def)
  from run_tablets_ok[OF this assms(1)] have ok: "tablets_ok cs dg" by simp
  then show ?thesis using assms(2) unfolding tablets_ok_def ran_def by blast
qed

section \<open>Events\<close>

text \<open>The pressure that the device reports lies between zero and its maximum, whatever the phone sends.\<close>
theorem pressure_in_range:
  assumes "(evAbs, absPressure, p) \<in> set (tablet_events conv b)"
  shows "0 \<le> p \<and> p \<le> maxPressure"
  using assms
  by (auto simp: tablet_events_def tool_events_def active_events_def clamp_pressure_def maxPressure_def
      evAbs_def evKey_def evSyn_def absPressure_def absX_def absY_def split: option.splits bool.splits if_splits)

section \<open>Examples\<close>

definition demo_session :: packet where
  "demo_session = NewPacket 1 ''kdeconnect.digitizer.session'' (Some (JObj [(''action'', JStr ''start'')]))"

lemma setup_works: "run_setup (\<lambda>_. False) cs = (True, cs)"
  by (induction cs) auto

lemma demo_tablet_run:
  "\<exists>cs. tablet_run no_conv [TabletPacket (\<lambda>_. False) ''phone'' demo_session] (no_tablets False) =
     (cs, \<lparr>dg_bus = False, dg_sessions = [''phone'' \<mapsto> 0], dg_next = 1\<rparr>)"
proof -
  have key: "key_matches ''action'' ''action''" by code_simp
  have "unmarshal_raw (\<lambda>j. dec_digitizer_session j zero_digitizer_session) (pk_body demo_session) =
      Some (zero_digitizer_session\<lparr>ses_action := ''start''\<rparr>)"
    by (simp add: demo_session_def NewPacket_def unmarshal_raw_def dec_digitizer_session_def dec_fields_def
        digitizer_session_fields_def key fld_def)
  then show ?thesis
    by (simp add: digitizer_Handle_def demo_session_def NewPacket_def handleSession_def end_session_def no_tablets_def
        start_session_def createUinputTablet_def setup_works Let_def)
qed

theorem tablets_not_leaked_witness:
  "\<exists>cs dg. tablet_run no_conv [TabletPacket (\<lambda>_. False) ''phone'' demo_session] (no_tablets False) = (cs, dg) \<and>
     ((\<exists>d. dg_sessions dg d = Some 0 \<and> (\<forall>d'. dg_sessions dg d' = Some 0 \<longrightarrow> d' = d)) \<or> released cs 0)"
proof -
  obtain cs where r: "tablet_run no_conv [TabletPacket (\<lambda>_. False) ''phone'' demo_session] (no_tablets False) =
     (cs, \<lparr>dg_bus = False, dg_sessions = [''phone'' \<mapsto> 0], dg_next = 1\<rparr>)" using demo_tablet_run by blast
  show ?thesis using tablets_not_leaked[OF r, of 0] r by simp
qed

theorem pressure_in_range_witness: "0 \<le> (0::int) \<and> 0 \<le> maxPressure"
  by (rule pressure_in_range[where b = "zero_digitizer_body\<lparr>dig_active := Some False\<rparr>" and conv = no_conv])
    (simp add: tablet_events_def active_events_def)

end
