(* ===== verification/RunCommand.thy ===== *)
theory RunCommand
  imports GoStrings Packet IpcProto "HOL-Library.List_Lexorder" "HOL-Library.Sublist"
begin

text \<open>
  The run-command plugin (\<open>internal/plugins/runcommand\<close>): commands of the configuration that a phone may start, their
  output in batches, and the list of commands of the phone.

  A command's process is an input: what it writes to its two pipes, the order in which the lines of the readers reach the
  channel, the wake-ups of the loop between them, and how it ends.  \<open>render\<close> and \<open>parse\<close> stand for the text of a document.
\<close>

section \<open>State\<close>

type_synonym command_table = "(string \<times> string) list"

record runcmd =
  rn_commands :: command_table
  rn_per_device :: "(string \<times> command_table) list"
  rn_pending :: "string \<rightharpoonup> (string \<times> string) list option"
  rn_running :: "(string \<times> int) list"
  rn_seq :: int
  rn_timeout :: duration

definition NewRunCommandPlugin :: "command_table \<Rightarrow> (string \<times> command_table) list \<Rightarrow> duration list \<Rightarrow> runcmd" where
  "NewRunCommandPlugin commands per_device options =
     \<lparr>rn_commands = commands, rn_per_device = per_device, rn_pending = Map.empty, rn_running = [], rn_seq = 0,
      rn_timeout = (case options of t # _ \<Rightarrow> if t > 0 then t else 15 * second | [] \<Rightarrow> 15 * second)\<rparr>"

definition SetCommands :: "command_table \<Rightarrow> (string \<times> command_table) list \<Rightarrow> runcmd \<Rightarrow> runcmd" where
  "SetCommands commands per_device st = st\<lparr>rn_commands := commands, rn_per_device := per_device\<rparr>"

definition device_table :: "runcmd \<Rightarrow> string \<Rightarrow> command_table" where
  "device_table st dev = (case map_of (rn_per_device st) dev of None \<Rightarrow> [] | Some t \<Rightarrow> t)"

definition lookup_command :: "runcmd \<Rightarrow> string \<Rightarrow> string \<Rightarrow> string option" where
  "lookup_command st dev key =
     (case map_of (device_table st dev) key of Some c \<Rightarrow> Some c | None \<Rightarrow> map_of (rn_commands st) key)"

text \<open>The execution number is a counter of 32 bits.\<close>

definition wrap32 :: "int \<Rightarrow> int" where
  "wrap32 i = (i + 2 ^ 31) mod 2 ^ 32 - 2 ^ 31"

definition nextExecID :: "runcmd \<Rightarrow> int \<times> runcmd" where
  "nextExecID st = (let i = wrap32 (rn_seq st + 1) in (i, st\<lparr>rn_seq := i\<rparr>))"

text \<open>The executions whose cancel function is called.\<close>

definition stopRunning :: "string \<Rightarrow> int \<Rightarrow> runcmd \<Rightarrow> (string \<times> int) list" where
  "stopRunning dev i st = filter (\<lambda>e. e = (dev, i)) (rn_running st)"

definition stopAll :: "string \<Rightarrow> runcmd \<Rightarrow> (string \<times> int) list \<times> runcmd" where
  "stopAll dev st =
     (filter (\<lambda>e. fst e = dev) (rn_running st), st\<lparr>rn_running := filter (\<lambda>e. fst e \<noteq> dev) (rn_running st)\<rparr>)"

section \<open>Output\<close>

definition PacketTypeOutput :: string where "PacketTypeOutput = ''kdeconnect.runcommand.output''"
definition streamMaxLines :: nat where "streamMaxLines = 2000"
definition streamMaxLineLen :: nat where "streamMaxLineLen = 1024"
definition streamMaxScanBuffer :: nat where "streamMaxScanBuffer = 1048576"
definition streamNotifMaxBytes :: nat where "streamNotifMaxBytes = 4000"

record output_stream =
  os_stdout :: "string list"
  os_stderr :: "string list"
  os_total :: nat
  os_notif :: "string list"
  os_notif_bytes :: nat
  os_dropped :: bool
  os_stopped :: bool

definition new_stream :: output_stream where
  "new_stream = \<lparr>os_stdout = [], os_stderr = [], os_total = 0, os_notif = [], os_notif_bytes = 0,
     os_dropped = False, os_stopped = False\<rparr>"

definition clip_line :: "string \<Rightarrow> string" where
  "clip_line l = (if length l > streamMaxLineLen then take streamMaxLineLen l @ ''...'' else l)"

definition stream_add :: "bool \<Rightarrow> string \<Rightarrow> output_stream \<Rightarrow> output_stream" where
  "stream_add is_err l s =
     (let l = clip_line l
      in if os_total s \<ge> streamMaxLines then s\<lparr>os_dropped := True\<rparr>
         else let s = s\<lparr>os_total := os_total s + 1\<rparr>;
                  s = (if is_err then s\<lparr>os_stderr := os_stderr s @ [l]\<rparr> else s\<lparr>os_stdout := os_stdout s @ [l]\<rparr>)
              in if os_notif_bytes s < streamNotifMaxBytes
                 then s\<lparr>os_notif := os_notif s @ [l], os_notif_bytes := os_notif_bytes s + length l + 1\<rparr>
                 else s)"

fun join_lines :: "string list \<Rightarrow> string" where
  "join_lines [] = []"
| "join_lines [l] = l"
| "join_lines (l # ls) = l @ newline # join_lines ls"

definition stream_summary :: "output_stream \<Rightarrow> string" where
  "stream_summary s = join_lines (os_notif s) @ (if os_dropped s then newline # ''...[output truncated]'' else [])"

definition stream_pending :: "output_stream \<Rightarrow> bool" where
  "stream_pending s \<longleftrightarrow> os_stdout s \<noteq> [] \<or> os_stderr s \<noteq> []"

definition stream_take :: "output_stream \<Rightarrow> (string list \<times> string list \<times> bool) \<times> output_stream" where
  "stream_take s = ((os_stdout s, os_stderr s, os_dropped s), s\<lparr>os_stdout := [], os_stderr := []\<rparr>)"

text \<open>Where an execution reports to: its device, number and key, and whether there is a bus with subscribers.\<close>

record execution =
  ex_device :: string
  ex_id :: int
  ex_key :: string
  ex_bus :: bool
  ex_watched :: bool

definition json_lines :: "string list \<Rightarrow> json" where
  "json_lines ls = JArr (map JStr ls)"

definition stream_send :: "execution \<Rightarrow> string list \<Rightarrow> string list \<Rightarrow> bool \<Rightarrow> effect list" where
  "stream_send x out err dropped =
     [SendPacket PacketTypeOutput
        (JObj [(''commandOutput'', JBool True), (''id'', enc_int (ex_id x)),
               (''stderr'', json_lines (err @ (if dropped then [''[output truncated: over 2000 lines]''] else []))),
               (''stdout'', json_lines out)])]"

definition stream_flush :: "execution \<Rightarrow> output_stream \<Rightarrow> effect list \<times> output_stream" where
  "stream_flush x s =
     (if \<not> stream_pending s then ([], s)
      else case stream_take s of
        ((out, err, dropped), s) \<Rightarrow>
          (stream_send x out err dropped
           @ publish (ex_bus x \<and> ex_watched x) ''runcommand.output'' (ex_device x)
               (JObj [(''id'', enc_int (ex_id x)), (''key'', JStr (ex_key x)), (''status'', JStr ''output''),
                      (''stderr'', enc_nstrs (if err = [] then None else Some err)),
                      (''stdout'', enc_nstrs (if out = [] then None else Some out)), (''truncated'', JBool dropped)]),
           s))"

definition publishLifecycle :: "execution \<Rightarrow> string \<Rightarrow> (string \<times> json) list \<Rightarrow> effect list" where
  "publishLifecycle x status extra =
     publish (ex_bus x) ''runcommand.output'' (ex_device x)
       (JObj ([(''id'', enc_int (ex_id x)), (''key'', JStr (ex_key x)), (''status'', JStr status)] @ extra))"

definition sendStarted :: "int \<Rightarrow> string \<Rightarrow> effect list" where
  "sendStarted i key =
     [SendPacket PacketTypeOutput (JObj [(''command'', JStr key), (''commandStarted'', JBool True), (''id'', enc_int i)])]"

definition finishOutput :: "string \<Rightarrow> int \<Rightarrow> bool \<Rightarrow> int \<Rightarrow> runcmd \<Rightarrow> effect list \<times> runcmd" where
  "finishOutput dev i success exit_code st =
     ([SendPacket PacketTypeOutput
         (JObj [(''commandFinished'', JBool True), (''exitCode'', enc_int exit_code), (''id'', enc_int i), (''success'', JBool success)])],
      st\<lparr>rn_running := filter (\<lambda>e. e \<noteq> (dev, i)) (rn_running st)\<rparr>)"

text \<open>
  A pipe is cut into lines; a carriage return before the newline is dropped.  A line that does not fit into the
  buffer ends the scan.
\<close>

definition drop_cr :: "string \<Rightarrow> string" where
  "drop_cr l = (if l \<noteq> [] \<and> last l = CHR 0x0D then butlast l else l)"

function scan_lines :: "string \<Rightarrow> string list" where
  "scan_lines s =
     (if s = [] then []
      else let l = takeWhile (\<lambda>c. c \<noteq> newline) s; r = dropWhile (\<lambda>c. c \<noteq> newline) s
           in if length l \<ge> streamMaxScanBuffer then []
              else drop_cr l # (if r = [] then [] else scan_lines (tl r)))"
  by pat_completeness auto
termination
proof (relation "measure length")
  fix s :: string and l r
  assume r: "r = dropWhile (\<lambda>c. c \<noteq> newline) s" "r \<noteq> []"
  have "length r \<le> length s" unfolding r(1) by (rule length_dropWhile_le)
  moreover have "0 < length r" using r(2) by simp
  ultimately have "length (tl r) < length s" unfolding length_tl by linarith
  then show "(tl r, s) \<in> measure length" by simp
qed simp

declare scan_lines.simps [simp del]

section \<open>The loop that reports the output\<close>

text \<open>
  One round drains the lines that are there, flushes, and waits for the next thing: a line, the ticker, or the end of the
  context.  The last round drains what is left when the channel is closed.
\<close>

type_synonym out_line = "bool \<times> string"

datatype out_wake = GotLine out_line | Ticked | ContextDone

definition drainLines :: "out_line list \<Rightarrow> output_stream \<Rightarrow> output_stream" where
  "drainLines ls s = fold (\<lambda>(e, l). stream_add e l) ls s"

fun output_wake :: "execution \<Rightarrow> out_wake \<Rightarrow> output_stream \<Rightarrow> effect list \<times> output_stream" where
  "output_wake x (GotLine l) s = ([], stream_add (fst l) (snd l) s)"
| "output_wake x Ticked s = stream_flush x s"
| "output_wake x ContextDone s = ([], s\<lparr>os_stopped := True\<rparr>)"

fun output_loop :: "execution \<Rightarrow> (out_line list \<times> out_wake) list \<Rightarrow> out_line list \<Rightarrow> output_stream \<Rightarrow> effect list \<times> output_stream" where
  "output_loop x [] rest s = stream_flush x (drainLines rest s)"
| "output_loop x ((ls, w) # rounds) rest s =
     (case stream_flush x (drainLines ls s) of
        (as, s) \<Rightarrow> case output_wake x w s of
          (bs, s) \<Rightarrow> case output_loop x rounds rest s of (cs, s) \<Rightarrow> (as @ bs @ cs, s))"

text \<open>
  How the process goes: a pipe or the start fails, or it runs.  A run is what is written to the pipes, whether the last writer
  closes them, whether the context ends before the readers do, the lines in the order in which they come, and the result.  A
  process that outlives its shell may hold the pipes open for ever.
\<close>

record process_run =
  pr_stdout :: string
  pr_stderr :: string
  pr_eof :: bool
  pr_cancelled :: bool
  pr_rounds :: "(out_line list \<times> out_wake) list"
  pr_rest :: "out_line list"
  pr_ok :: bool
  pr_code :: int

datatype process = NotStarted | Process process_run

text \<open>The readers end at the end of their pipes, or when the context ends and the read ends are closed.\<close>

definition pipes_end :: "process_run \<Rightarrow> bool" where
  "pipes_end r \<longleftrightarrow> pr_eof r \<or> pr_cancelled r"

fun wake_lines :: "out_wake \<Rightarrow> out_line list" where
  "wake_lines (GotLine l) = [l]"
| "wake_lines _ = []"

definition loop_lines :: "(out_line list \<times> out_wake) list \<Rightarrow> out_line list \<Rightarrow> out_line list" where
  "loop_lines rounds rest = concat (map (\<lambda>(ls, w). ls @ wake_lines w) rounds) @ rest"

definition lines_of :: "bool \<Rightarrow> out_line list \<Rightarrow> string list" where
  "lines_of is_err ls = map snd (filter (\<lambda>l. fst l = is_err) ls)"

text \<open>The lines of each pipe come in its order, all of them unless the context ends.\<close>

definition possible_run :: "process_run \<Rightarrow> bool" where
  "possible_run r \<longleftrightarrow>
     (let ls = loop_lines (pr_rounds r) (pr_rest r); out = scan_lines (pr_stdout r); err = scan_lines (pr_stderr r)
      in if pr_cancelled r then prefix (lines_of False ls) out \<and> prefix (lines_of True ls) err
         else ContextDone \<notin> snd ` set (pr_rounds r) \<and> lines_of False ls = out \<and> lines_of True ls = err)"

text \<open>The summary, the effects and the state; \<open>None\<close> when the loop waits for ever.\<close>

definition streamOutput :: "execution \<Rightarrow> process \<Rightarrow> runcmd \<Rightarrow> (string \<times> effect list \<times> runcmd) option" where
  "streamOutput x p st =
     (case p of
        NotStarted \<Rightarrow> (case finishOutput (ex_device x) (ex_id x) False (- 1) st of (es, st) \<Rightarrow> Some ([], es, st))
      | Process r \<Rightarrow>
          if \<not> pipes_end r then None
          else (case output_loop x (pr_rounds r) (pr_rest r) new_stream of
             (es, s) \<Rightarrow>
               (let success = (pr_ok r \<and> \<not> os_stopped s); summary = stream_summary s
                in case finishOutput (ex_device x) (ex_id x) success (pr_code r) st of
                     (fs, st) \<Rightarrow>
                       Some (summary,
                        publishLifecycle x ''started'' [] @ es
                        @ publishLifecycle x ''finished''
                            [(''exitCode'', enc_int (pr_code r)), (''output'', JStr summary), (''success'', JBool success)]
                        @ fs,
                        st))))"

fun rune_cut :: "string \<Rightarrow> nat \<Rightarrow> string" where
  "rune_cut s 0 = []"
| "rune_cut s (Suc n) = (if \<not> cont (byte (s ! Suc n)) then take (Suc n) s else rune_cut s n)"

definition truncateRuneSafe :: "string \<Rightarrow> nat \<Rightarrow> string" where
  "truncateRuneSafe s n = (if length s \<le> n then s else rune_cut s n)"

definition output_notification :: "int \<Rightarrow> string \<Rightarrow> string \<Rightarrow> effect list" where
  "output_notification nanos key text =
     (let t = TrimSpace text;
          t' = (if length t > streamNotifMaxBytes then truncateRuneSafe t streamNotifMaxBytes @ newline # ''...[output truncated]'' else t)
      in if t = [] then []
         else [SendPacket ''kdeconnect.notification''
                 (JObj [(''appName'', JStr (''Run: '' @ key)), (''id'', JStr (show_int nanos)), (''ticker'', JStr t')])])"

text \<open>The goroutine of an execution.\<close>

definition execute :: "execution \<Rightarrow> int \<Rightarrow> process \<Rightarrow> runcmd \<Rightarrow> (effect list \<times> runcmd) option" where
  "execute x nanos p st =
     map_option (\<lambda>(text, es, st). (sendStarted (ex_id x) (ex_key x) @ es @ output_notification nanos (ex_key x) text, st))
       (streamOutput x p (st\<lparr>rn_running := rn_running st @ [(ex_device x, ex_id x)]\<rparr>))"

section \<open>Requests of the phone\<close>

record run_request =
  rq_list :: bool
  rq_key :: string
  rq_stop :: bool
  rq_id :: "int option"

definition zero_run_request :: run_request where
  "zero_run_request = \<lparr>rq_list = False, rq_key = [], rq_stop = False, rq_id = None\<rparr>"

definition dec_i32 :: "json \<Rightarrow> int \<Rightarrow> int option" where
  "dec_i32 j old = (case dec_int j old of None \<Rightarrow> None | Some v \<Rightarrow> if wrap32 v = v then Some v else None)"

definition run_request_fields :: "run_request field list" where
  "run_request_fields =
     [(''requestCommandList'', fld dec_bool rq_list rq_list_update),
      (''key'', fld dec_str rq_key rq_key_update),
      (''stop'', fld dec_bool rq_stop rq_stop_update),
      (''id'', fld (dec_opt dec_i32 0) rq_id rq_id_update)]"

definition dec_run_request :: "json \<Rightarrow> run_request \<Rightarrow> run_request option" where
  "dec_run_request j = dec_struct (dec_fields run_request_fields) j"

text \<open>The merged table in the order of its keys, as \<open>Marshal\<close> writes a map.\<close>

definition merged_table :: "runcmd \<Rightarrow> string \<Rightarrow> command_table" where
  "merged_table st dev =
     (let all = fold (\<lambda>(k, v) m. AList.update k v m) (device_table st dev) (fold (\<lambda>(k, v) m. AList.update k v m) (rn_commands st) [])
      in sort_key (\<lambda>e. map byte (fst e)) all)"

definition SendCommandList :: "(json \<Rightarrow> string) \<Rightarrow> string \<Rightarrow> runcmd \<Rightarrow> effect list" where
  "SendCommandList render dev st =
     [SendPacket ''kdeconnect.runcommand''
        (JObj [(''canAddCommand'', JBool False),
               (''commandList'', JStr (render (JObj (map (\<lambda>(k, c). (k, JObj [(''command'', JStr c), (''name'', JStr k)])) (merged_table st dev)))))])]"

record run_outcome =
  ro_effects :: "effect list"
  ro_cancelled :: "(string \<times> int) list"
  ro_launch :: "(int \<times> string \<times> string) option"

definition no_outcome :: run_outcome where
  "no_outcome = \<lparr>ro_effects = [], ro_cancelled = [], ro_launch = None\<rparr>"

definition run_key :: "string \<Rightarrow> string \<Rightarrow> runcmd \<Rightarrow> run_outcome \<times> runcmd" where
  "run_key dev key st =
     (case lookup_command st dev key of
        None \<Rightarrow> (no_outcome, st)
      | Some c \<Rightarrow> (case nextExecID st of (i, st) \<Rightarrow> (no_outcome\<lparr>ro_launch := Some (i, key, c)\<rparr>, st)))"

definition run_OnDisconnect :: "string \<Rightarrow> runcmd \<Rightarrow> run_outcome \<times> runcmd" where
  "run_OnDisconnect dev st = (case stopAll dev st of (cs, st) \<Rightarrow> (no_outcome\<lparr>ro_cancelled := cs\<rparr>, st))"

section \<open>The list of the phone\<close>

definition dec_command_entry :: "json \<Rightarrow> string \<times> string \<Rightarrow> (string \<times> string) option" where
  "dec_command_entry j =
     dec_struct (dec_fields
       [(''name'', fld dec_str fst (\<lambda>f e. (f (fst e), snd e))), (''command'', fld dec_str snd (\<lambda>f e. (fst e, f (snd e))))]) j"

fun dec_entry_map :: "(string \<times> json) list \<Rightarrow> (string \<times> string \<times> string) list \<Rightarrow> (string \<times> string \<times> string) list option" where
  "dec_entry_map [] m = Some m"
| "dec_entry_map ((k, v) # es) m =
     (case dec_command_entry v ([], []) of None \<Rightarrow> None | Some e \<Rightarrow> dec_entry_map es (AList.update k e m))"

text \<open>Entries with the same name come in the order of the map, which Go does not fix; here it is that of the document.\<close>

definition parseCommandList :: "(string \<Rightarrow> json option) \<Rightarrow> string \<Rightarrow> (string \<times> string) list option" where
  "parseCommandList parse raw =
     (if raw = [] then Some []
      else case parse raw of
        Some (JObj es) \<Rightarrow>
          (case dec_entry_map es [] of
             None \<Rightarrow> None
           | Some m \<Rightarrow>
               Some (sort_key (\<lambda>c. map byte (fst c))
                 (map (\<lambda>(label, name, c). (if name = [] then label else name, c)) m)))
      | Some JNull \<Rightarrow> Some []
      | _ \<Rightarrow> None)"

definition deliverCommandList :: "string \<Rightarrow> (string \<times> string) list \<Rightarrow> runcmd \<Rightarrow> runcmd" where
  "deliverCommandList dev cs st =
     (case rn_pending st dev of
        Some None \<Rightarrow> st\<lparr>rn_pending := (rn_pending st)(dev \<mapsto> Some cs)\<rparr>
      | _ \<Rightarrow> st)"

definition handleListReply :: "(string \<Rightarrow> json option) \<Rightarrow> string \<Rightarrow> json option \<Rightarrow> runcmd \<Rightarrow> runcmd" where
  "handleListReply parse dev raw st =
     (case unmarshal_raw (\<lambda>j. dec_struct (dec_fields [(''commandList'', dec_str)]) j []) raw of
        None \<Rightarrow> st
      | Some txt \<Rightarrow> (case parseCommandList parse txt of None \<Rightarrow> st | Some cs \<Rightarrow> deliverCommandList dev cs st))"

text \<open>A request up to its wait, and its end: an answer that has come by then, or a timeout.\<close>

definition RequestList :: "string \<Rightarrow> runcmd \<Rightarrow> (string + effect list) \<times> runcmd" where
  "RequestList dev st =
     (if rn_pending st dev \<noteq> None
      then (Inl (''runcommand: a command list request for '' @ dev @ '' is already in flight''), st)
      else (Inr [SendPacket ''kdeconnect.runcommand.request'' (JObj [(''requestCommandList'', JBool True)])],
            st\<lparr>rn_pending := (rn_pending st)(dev \<mapsto> None)\<rparr>))"

definition RequestList_end :: "string \<Rightarrow> runcmd \<Rightarrow> (string \<times> string) list option \<times> runcmd" where
  "RequestList_end dev st =
     ((case rn_pending st dev of Some (Some cs) \<Rightarrow> Some cs | _ \<Rightarrow> None), st\<lparr>rn_pending := (rn_pending st)(dev := None)\<rparr>)"

definition run_Handle ::
  "(json \<Rightarrow> string) \<Rightarrow> (string \<Rightarrow> json option) \<Rightarrow> string \<Rightarrow> packet \<Rightarrow> runcmd \<Rightarrow> bool \<times> run_outcome \<times> runcmd" where
  "run_Handle render parse dev pkt st =
     (if pk_type pkt = ''kdeconnect.runcommand'' then (True, no_outcome, handleListReply parse dev (pk_body pkt) st)
      else case unmarshal_raw (\<lambda>j. dec_run_request j zero_run_request) (pk_body pkt) of
        None \<Rightarrow> (False, no_outcome, st)
      | Some rq \<Rightarrow>
          (True,
           (if rq_stop rq then
              (case rq_id rq of
                 Some i \<Rightarrow> (no_outcome\<lparr>ro_cancelled := stopRunning dev i st\<rparr>, st)
               | None \<Rightarrow> run_OnDisconnect dev st)
            else if rq_list rq then (no_outcome\<lparr>ro_effects := SendCommandList render dev st\<rparr>, st)
            else if rq_key rq \<noteq> [] then run_key dev (rq_key rq) st
            else (no_outcome, st))))"

section \<open>What is reported\<close>

text \<open>The lines of one stream in the packets of an execution.\<close>

definition truncation_note :: string where
  "truncation_note = ''[output truncated: over 2000 lines]''"

fun json_texts :: "json \<Rightarrow> string list" where
  "json_texts (JArr js) = concat (map (\<lambda>j. case j of JStr s \<Rightarrow> [s] | _ \<Rightarrow> []) js)"
| "json_texts _ = []"

definition packet_lines :: "bool \<Rightarrow> effect \<Rightarrow> string list" where
  "packet_lines is_err e =
     (case e of
        SendPacket _ (JObj es) \<Rightarrow>
          (case map_of es (if is_err then ''stderr'' else ''stdout'') of None \<Rightarrow> [] | Some j \<Rightarrow> json_texts j)
      | _ \<Rightarrow> [])"

definition reported :: "bool \<Rightarrow> effect list \<Rightarrow> string list" where
  "reported is_err es = concat (map (packet_lines is_err) es)"

definition of_stream :: "bool \<Rightarrow> out_line list \<Rightarrow> string list" where
  "of_stream is_err ls = map clip_line (lines_of is_err ls)"

definition buffered :: "bool \<Rightarrow> output_stream \<Rightarrow> string list" where
  "buffered is_err s = (if is_err then os_stderr s else os_stdout s)"

lemma json_texts_lines [simp]: "json_texts (json_lines ls) = ls"
  by (induction ls) (simp_all add: json_lines_def)

lemma reported_append [simp]: "reported b (as @ bs) = reported b as @ reported b bs"
  by (simp add: reported_def)

lemma reported_publish [simp]: "reported b (publish bus t i p) = []"
  by (simp add: reported_def publish_def packet_lines_def)

lemma of_stream_append [simp]: "of_stream b (ls @ ms) = of_stream b ls @ of_stream b ms" "of_stream b [] = []"
  by (simp_all add: of_stream_def lines_of_def)

text \<open>Room for \<open>n\<close> more lines, and nothing dropped so far.\<close>

definition room :: "nat \<Rightarrow> output_stream \<Rightarrow> bool" where
  "room n s \<longleftrightarrow> \<not> os_dropped s \<and> os_total s + n \<le> streamMaxLines"

lemma flush_reports:
  assumes "stream_flush x s = (es, s')" and "room n s"
  shows "reported b es = buffered b s" "buffered b s' = []" "room n s'"
  using assms
  by (auto simp: stream_flush_def stream_take_def stream_send_def reported_def packet_lines_def buffered_def room_def
      stream_pending_def publish_def split: if_splits)

lemma drain_buffered:
  "room (length ls + n) s \<Longrightarrow> buffered b (drainLines ls s) = buffered b s @ of_stream b ls \<and> room n (drainLines ls s)"
proof (induction ls arbitrary: s)
  case (Cons l ls)
  obtain e t where l: "l = (e, t)" by fastforce
  have "room (length ls + n) (stream_add e t s)" "buffered b (stream_add e t s) = buffered b s @ of_stream b [l]"
    using Cons.prems by (auto simp: room_def stream_add_def Let_def l buffered_def of_stream_def lines_of_def)
  then show ?case using Cons.IH [of "stream_add e t s"] of_stream_append(1) [of b "[l]" ls] by (simp add: drainLines_def l)
qed (simp add: drainLines_def)

lemma wake_reports:
  assumes "output_wake x w s = (es, s')" and "room (length (wake_lines w) + n) s"
  shows "reported b es @ buffered b s' = buffered b s @ of_stream b (wake_lines w) \<and> room n s'"
proof (cases w)
  case (GotLine l)
  have "s' = drainLines [l] s" "es = []" using assms GotLine by (auto simp: drainLines_def case_prod_beta)
  then show ?thesis using drain_buffered [of "[l]" n s b] assms(2) GotLine by (simp add: reported_def)
next
  case Ticked
  then have "stream_flush x s = (es, s')" "room n s" using assms by simp_all
  note F = flush_reports [OF this]
  show ?thesis using F(1,2) [of b] F(3) Ticked by simp
next
  case ContextDone
  then show ?thesis using assms by (auto simp: reported_def buffered_def room_def)
qed

lemma loop_reports:
  "output_loop x rounds rest s = (es, s') \<Longrightarrow> room (length (loop_lines rounds rest)) s \<Longrightarrow>
     reported b es = buffered b s @ of_stream b (loop_lines rounds rest)"
proof (induction rounds arbitrary: s es)
  case Nil
  then have d: "buffered b (drainLines rest s) = buffered b s @ of_stream b rest" "room 0 (drainLines rest s)"
    using drain_buffered [of rest 0 s b] by (simp_all add: loop_lines_def)
  have "stream_flush x (drainLines rest s) = (es, s')" using Nil(1) by simp
  from flush_reports(1) [OF this d(2)] show ?case using d(1) by (simp add: loop_lines_def)
next
  case (Cons r rounds)
  obtain ls w where r: "r = (ls, w)" by fastforce
  obtain as s1 where 1: "stream_flush x (drainLines ls s) = (as, s1)" by fastforce
  obtain bs s2 where 2: "output_wake x w s1 = (bs, s2)" by fastforce
  obtain cs where 3: "output_loop x rounds rest s2 = (cs, s')" and es: "es = as @ bs @ cs"
    using Cons.prems(1) r 1 2 by (auto split: prod.splits)
  let ?n = "length (loop_lines rounds rest)"
  have "room (length ls + (length (wake_lines w) + ?n)) s" using Cons.prems(2) by (simp add: r loop_lines_def)
  note D = drain_buffered [OF this, of b]
  note F = flush_reports [OF 1 conjunct2 [OF D]]
  note W = wake_reports [OF 2 F(3), of b]
  show ?case using D F(1,2) [of b] W Cons.IH [OF 3 conjunct2 [OF W]] by (simp add: es r loop_lines_def)
qed

lemma loop_lines_length:
  "length ls = length (lines_of False ls) + length (lines_of True ls)"
  by (induction ls) (auto simp: lines_of_def)

lemma possible_lines:
  assumes "possible_run r"
  shows "prefix (lines_of b (loop_lines (pr_rounds r) (pr_rest r))) (scan_lines (if b then pr_stderr r else pr_stdout r))"
    and "\<not> pr_cancelled r \<Longrightarrow>
      lines_of b (loop_lines (pr_rounds r) (pr_rest r)) = scan_lines (if b then pr_stderr r else pr_stdout r)"
  using assms by (auto simp: possible_run_def Let_def split: if_splits)

text \<open>
  C28. Nothing of the output is lost, doubled or put out of order: however the loop is woken up, when the two pipes hold at most 2000
  lines, the lines of a stream in the packets of an execution are lines that the scanner finds in its pipe, in order and from the
  first on, each cut to its limit, and all of them unless the execution is stopped or times out.  (The scanner ends at a line of
  1 MiB.)
\<close>
theorem output_is_complete:
  assumes "streamOutput x (Process r) st = Some (summary, es, st')" and "possible_run r"
    and "length (scan_lines (pr_stdout r)) + length (scan_lines (pr_stderr r)) \<le> streamMaxLines"
  shows "\<exists>ls. concat (map (packet_lines b) es) = map clip_line ls \<and>
    prefix ls (scan_lines (if b then pr_stderr r else pr_stdout r)) \<and>
    (\<not> pr_cancelled r \<longrightarrow> ls = scan_lines (if b then pr_stderr r else pr_stdout r))"
proof -
  let ?ls = "loop_lines (pr_rounds r) (pr_rest r)"
  obtain os s where l: "output_loop x (pr_rounds r) (pr_rest r) new_stream = (os, s)" by fastforce
  have f: "reported b (fst (finishOutput d i su c st)) = []" for d i su c
    by (simp add: finishOutput_def reported_def packet_lines_def)
  have "length ?ls \<le> streamMaxLines"
    using assms(3) possible_lines(1) [OF assms(2)] loop_lines_length [of ?ls] prefix_length_le
    by (smt (verit) add_mono le_trans)
  then have "room (length ?ls) new_stream" by (simp add: room_def new_stream_def)
  from loop_reports [OF l this, of b] have "reported b os = of_stream b ?ls" by (simp add: buffered_def new_stream_def)
  moreover have "reported b es = reported b os"
    using assms(1) f [of "ex_device x" "ex_id x" "pr_ok r \<and> \<not> os_stopped s" "pr_code r"]
    by (auto simp: streamOutput_def l Let_def publishLifecycle_def split: prod.splits if_splits)
  ultimately show ?thesis
    using possible_lines [OF assms(2), of b] by (auto simp: reported_def of_stream_def intro!: exI [of _ "lines_of b ?ls"])
qed

text \<open>The packets that end an execution, whichever number they carry.\<close>

fun is_finish :: "effect \<Rightarrow> bool" where
  "is_finish (SendPacket t (JObj ((k, v) # es))) \<longleftrightarrow> t = PacketTypeOutput \<and> k = ''commandFinished''"
| "is_finish _ \<longleftrightarrow> False"

definition finish_packet :: "int \<Rightarrow> bool \<Rightarrow> int \<Rightarrow> effect" where
  "finish_packet i success exit_code =
     SendPacket ''kdeconnect.runcommand.output''
       (JObj [(''commandFinished'', JBool True), (''exitCode'', enc_int exit_code), (''id'', enc_int i), (''success'', JBool success)])"

lemma is_finish_publish [simp]: "filter is_finish (publish bus t i p) = []"
  by (simp add: publish_def)

lemma flush_no_finish: "filter is_finish (fst (stream_flush x s)) = []"
  by (auto simp: stream_flush_def stream_take_def stream_send_def filter_empty_conv publish_def)

lemma wake_no_finish: "filter is_finish (fst (output_wake x w s)) = []"
  by (cases w) (simp_all add: flush_no_finish)

lemma loop_no_finish: "filter is_finish (fst (output_loop x rounds rest s)) = []"
proof (induction rounds arbitrary: s)
  case (Cons r rounds)
  then show ?case
    using flush_no_finish[of x] wake_no_finish[of x]
    by (cases r) (simp add: case_prod_beta)
qed (simp add: flush_no_finish)


section \<open>What a phone can start and stop\<close>

text \<open>
  C27. A phone starts nothing that the owner has not configured: what a packet launches is the command that the table of this device
  holds under the key of the packet, or the common table when the device's own has none, and the packet is neither a request to stop
  nor one for the list.
\<close>
theorem only_configured_commands:
  assumes "run_Handle render parse dev pkt st = (ok, out, st')" and "ro_launch out = Some (i, key, command)"
  shows "\<exists>rq. unmarshal_raw (\<lambda>j. dec_run_request j zero_run_request) (pk_body pkt) = Some rq \<and>
    rq_key rq = key \<and> key \<noteq> [] \<and> \<not> rq_stop rq \<and> \<not> rq_list rq \<and>
    (map_of (device_table st dev) key = Some command \<or>
     map_of (device_table st dev) key = None \<and> map_of (rn_commands st) key = Some command)"
  using assms
  by (auto simp: run_Handle_def run_key_def lookup_command_def no_outcome_def run_OnDisconnect_def
      split: if_splits option.splits prod.splits)

text \<open>A phone stops its own executions only.\<close>
theorem stops_own_executions:
  assumes "run_Handle render parse dev pkt st = (ok, out, st')" and "e \<in> set (ro_cancelled out)"
  shows "fst e = dev \<and> e \<in> set (rn_running st)"
  using assms
  by (auto simp: run_Handle_def run_key_def no_outcome_def run_OnDisconnect_def stopRunning_def stopAll_def
      split: if_splits option.splits prod.splits)

section \<open>Where the code and its comments part\<close>

text \<open>
  The note that the output was cut gets lost: when the 2000th line has just been sent and more lines follow, no packet tells
  the phone that lines are missing.
\<close>
theorem truncation_note_lost:
  assumes "length ls = streamMaxLines" and "later \<noteq> []" and "truncation_note \<notin> set (of_stream True ls)"
    and "output_loop x [(ls, Ticked)] later new_stream = (es, s)"
  shows "os_dropped s \<and> truncation_note \<notin> set (concat (map (packet_lines True) es))"
proof -
  have drain: "\<not> os_dropped (drainLines ks t) \<and> os_total (drainLines ks t) = os_total t + length ks
      \<and> os_stderr (drainLines ks t) = os_stderr t @ of_stream True ks"
    if "\<not> os_dropped t" "os_total t + length ks \<le> streamMaxLines" for ks t
    using that
  proof (induction ks arbitrary: t)
    case (Cons k ks)
    obtain e l where k: "k = (e, l)" by fastforce
    have "\<not> os_dropped (stream_add e l t)" "os_total (stream_add e l t) = Suc (os_total t)"
      "os_stderr (stream_add e l t) = os_stderr t @ of_stream True [k]"
      using Cons.prems by (auto simp: stream_add_def Let_def k of_stream_def lines_of_def)
    then show ?case using Cons.IH[of "stream_add e l t"] Cons.prems(2)
      by (simp add: drainLines_def k of_stream_def lines_of_def)
  qed (simp add: drainLines_def of_stream_def lines_of_def)
  let ?s1 = "drainLines ls new_stream"
  have 1: "\<not> os_dropped ?s1" "os_total ?s1 = streamMaxLines" "os_stderr ?s1 = of_stream True ls"
    using drain[of new_stream ls] assms(1) by (simp_all add: new_stream_def)
  obtain as s2 where f: "stream_flush x ?s1 = (as, s2)" by fastforce
  have 2: "os_total s2 = streamMaxLines" "\<not> os_dropped s2" "\<not> stream_pending s2"
    using f 1 by (auto simp: stream_flush_def stream_take_def stream_pending_def split: if_splits)
  have over: "drainLines ks t = (if ks = [] then t else t\<lparr>os_dropped := True\<rparr>)" if "os_total t = streamMaxLines" for ks t
    using that
  proof (induction ks arbitrary: t)
    case (Cons k ks)
    then show ?case using Cons.IH[of "t\<lparr>os_dropped := True\<rparr>"]
      by (cases k) (simp add: drainLines_def stream_add_def Let_def)
  qed (simp add: drainLines_def)
  have quiet: "stream_flush x t = ([], t)" if "\<not> stream_pending t" for t
    using that by (simp add: stream_flush_def)
  have 3: "drainLines later s2 = s2\<lparr>os_dropped := True\<rparr>" using over[OF 2(1)] assms(2) by simp
  have "es = as" "s = s2\<lparr>os_dropped := True\<rparr>"
    using assms(4) 2(3) quiet[of s2] quiet[of "s2\<lparr>os_dropped := True\<rparr>"] by (auto simp: f 3 stream_pending_def)
  moreover have "set (concat (map (packet_lines True) as)) \<subseteq> set (os_stderr ?s1)"
    using f 1(1) by (auto simp: stream_flush_def stream_take_def stream_send_def packet_lines_def publish_def split: if_splits)
  ultimately show ?thesis using assms(3) 1(3) by auto
qed

text \<open>
  A line that is longer than the buffer of the scanner ends the scan of its stream: nothing of it and nothing after it is
  reported, although such a line is meant to be cut.
\<close>
theorem long_line_ends_scan:
  assumes "newline \<notin> set l" and "length l \<ge> streamMaxScanBuffer"
  shows "scan_lines (l @ newline # later) = []"
proof -
  have "takeWhile (\<lambda>c. c \<noteq> newline) (l @ newline # later) = l"
    using assms(1) by (induction l) auto
  then show ?thesis using assms(2) by (simp add: scan_lines.simps)
qed

text \<open>
  One entry of the phone's list that is not an object loses the whole list, whatever the others are.
\<close>
theorem bad_entry_loses_list:
  assumes "parse raw = Some (JObj (es @ (k, JStr v) # fs))" and "raw \<noteq> []"
  shows "parseCommandList parse raw = None"
proof -
  have "dec_entry_map (es @ (k, JStr v) # fs) m = None" for m
    by (induction es arbitrary: m) (auto simp: dec_command_entry_def split: option.splits)
  then show ?thesis using assms by (simp add: parseCommandList_def)
qed

section \<open>Examples\<close>

definition demo_exec :: execution where
  "demo_exec = \<lparr>ex_device = ''phone'', ex_id = 1, ex_key = ''up'', ex_bus = True, ex_watched = False\<rparr>"

definition demo_run :: runcmd where
  "demo_run = NewRunCommandPlugin [(''up'', ''uptime'')] [] []"

definition demo_process :: process_run where
  "demo_process = \<lparr>pr_stdout = ''a'' @ newline # ''c'', pr_stderr = ''b'', pr_eof = True, pr_cancelled = False,
     pr_rounds = [([(False, ''a'')], Ticked)], pr_rest = [(True, ''b''), (False, ''c'')], pr_ok = True, pr_code = 0\<rparr>"

lemma demo_scan: "scan_lines (''a'' @ newline # ''c'') = [''a'', ''c'']" "scan_lines ''b'' = [''b'']"
proof -
  have "takeWhile (\<lambda>c. c \<noteq> newline) (''a'' @ newline # ''c'') = ''a''" "dropWhile (\<lambda>c. c \<noteq> newline) (''a'' @ newline # ''c'') = newline # ''c''"
    "takeWhile (\<lambda>c. c \<noteq> newline) ''c'' = ''c''" "dropWhile (\<lambda>c. c \<noteq> newline) ''c'' = []"
    "takeWhile (\<lambda>c. c \<noteq> newline) ''b'' = ''b''" "dropWhile (\<lambda>c. c \<noteq> newline) ''b'' = []" by code_simp+
  moreover have "drop_cr ''a'' = ''a''" "drop_cr ''b'' = ''b''" "drop_cr ''c'' = ''c''" by (simp_all add: drop_cr_def)
  ultimately show "scan_lines (''a'' @ newline # ''c'') = [''a'', ''c'']" "scan_lines ''b'' = [''b'']"
    by (simp_all add: scan_lines.simps streamMaxScanBuffer_def Let_def)
qed

lemma demo_possible: "possible_run demo_process"
  using demo_scan by (simp add: possible_run_def demo_process_def Let_def loop_lines_def lines_of_def)

theorem output_is_complete_witness:
  "\<exists>es. concat (map (packet_lines False) es) = [''a'', ''c'']"
proof -
  obtain y where "streamOutput demo_exec (Process demo_process) demo_run = Some y"
    by (simp add: streamOutput_def demo_process_def pipes_end_def case_prod_beta Let_def)
  then obtain summary es st' where r: "streamOutput demo_exec (Process demo_process) demo_run = Some (summary, es, st')"
    by (cases y) simp
  have scans: "scan_lines (pr_stdout demo_process) = [''a'', ''c'']" "scan_lines (pr_stderr demo_process) = [''b'']"
    using demo_scan by (simp_all add: demo_process_def)
  have "\<not> pr_cancelled demo_process" by (simp add: demo_process_def)
  moreover have "map clip_line [''a'', ''c''] = [''a'', ''c'']" by (simp add: clip_line_def streamMaxLineLen_def)
  ultimately show ?thesis
    using output_is_complete [OF r demo_possible, of False] scans by (auto simp: streamMaxLines_def)
qed


definition demo_key_request :: packet where
  "demo_key_request = NewPacket 1 ''kdeconnect.runcommand.request'' (Some (JObj [(''key'', JStr ''up'')]))"

definition demo_stop_request :: packet where
  "demo_stop_request = NewPacket 1 ''kdeconnect.runcommand.request'' (Some (JObj [(''stop'', JBool True)]))"

lemma demo_requests:
  "unmarshal_raw (\<lambda>j. dec_run_request j zero_run_request) (pk_body demo_key_request) = Some (zero_run_request\<lparr>rq_key := ''up''\<rparr>)"
  "unmarshal_raw (\<lambda>j. dec_run_request j zero_run_request) (pk_body demo_stop_request) = Some (zero_run_request\<lparr>rq_stop := True\<rparr>)"
proof -
  have k: "key_matches ''key'' ''key''" "\<not> key_matches ''requestCommandList'' ''key''"
    "key_matches ''stop'' ''stop''" "\<not> key_matches ''requestCommandList'' ''stop''" "\<not> key_matches ''key'' ''stop''"
    by code_simp+
  show "unmarshal_raw (\<lambda>j. dec_run_request j zero_run_request) (pk_body demo_key_request) = Some (zero_run_request\<lparr>rq_key := ''up''\<rparr>)"
    by (simp add: demo_key_request_def NewPacket_def unmarshal_raw_def dec_run_request_def dec_fields_def run_request_fields_def fld_def k)
  show "unmarshal_raw (\<lambda>j. dec_run_request j zero_run_request) (pk_body demo_stop_request) = Some (zero_run_request\<lparr>rq_stop := True\<rparr>)"
    by (simp add: demo_stop_request_def NewPacket_def unmarshal_raw_def dec_run_request_def dec_fields_def run_request_fields_def fld_def k)
qed

lemma demo_types: "pk_type demo_key_request \<noteq> ''kdeconnect.runcommand''" "pk_type demo_stop_request \<noteq> ''kdeconnect.runcommand''"
  by (simp_all add: demo_key_request_def demo_stop_request_def NewPacket_def)

theorem only_configured_commands_witness:
  "\<exists>rq. unmarshal_raw (\<lambda>j. dec_run_request j zero_run_request) (pk_body demo_key_request) = Some rq \<and>
    rq_key rq = ''up'' \<and> ''up'' \<noteq> [] \<and> \<not> rq_stop rq \<and> \<not> rq_list rq \<and>
    (map_of (device_table demo_run ''phone'') ''up'' = Some ''uptime'' \<or>
     map_of (device_table demo_run ''phone'') ''up'' = None \<and> map_of (rn_commands demo_run) ''up'' = Some ''uptime'')"
proof (rule only_configured_commands)
  show "run_Handle (\<lambda>_. []) (\<lambda>_. None) ''phone'' demo_key_request demo_run =
      (True, no_outcome\<lparr>ro_launch := Some (1, ''up'', ''uptime'')\<rparr>, demo_run\<lparr>rn_seq := 1\<rparr>)"
    unfolding run_Handle_def demo_requests using demo_types
    by (simp add: zero_run_request_def run_key_def lookup_command_def device_table_def demo_run_def NewRunCommandPlugin_def nextExecID_def wrap32_def)
qed (simp add: no_outcome_def)

theorem stops_own_executions_witness:
  "fst (''phone'', 3::int) = ''phone'' \<and> (''phone'', 3) \<in> set (rn_running (demo_run\<lparr>rn_running := [(''tablet'', 2), (''phone'', 3)]\<rparr>))"
proof (rule stops_own_executions)
  show "run_Handle (\<lambda>_. []) (\<lambda>_. None) ''phone'' demo_stop_request (demo_run\<lparr>rn_running := [(''tablet'', 2), (''phone'', 3)]\<rparr>) =
      (True, no_outcome\<lparr>ro_cancelled := [(''phone'', 3)]\<rparr>, demo_run\<lparr>rn_running := [(''tablet'', 2)]\<rparr>)"
    unfolding run_Handle_def demo_requests using demo_types
    by (simp add: zero_run_request_def run_OnDisconnect_def stopAll_def demo_run_def NewRunCommandPlugin_def)
qed (simp add: no_outcome_def)

theorem truncation_note_lost_witness:
  "\<exists>es s. output_loop demo_exec [(replicate 2000 (False, ''x''), Ticked)] [(False, ''y'')] new_stream = (es, s)
     \<and> os_dropped s \<and> truncation_note \<notin> set (concat (map (packet_lines True) es))"
proof -
  obtain es s where l: "output_loop demo_exec [(replicate 2000 (False, ''x''), Ticked)] [(False, ''y'')] new_stream = (es, s)"
    by (metis prod.exhaust)
  have "of_stream True (replicate n (False, ''x'')) = []" for n by (simp add: of_stream_def lines_of_def)
  then show ?thesis using truncation_note_lost[OF _ _ _ l] l by (simp only: length_replicate streamMaxLines_def) simp
qed

theorem long_line_ends_scan_witness: "scan_lines (replicate streamMaxScanBuffer (CHR ''x'') @ newline # ''next'') = []"
  by (rule long_line_ends_scan) (simp_all only: length_replicate set_replicate_conv_if order_refl, simp)

theorem bad_entry_loses_list_witness:
  "parseCommandList (\<lambda>_. Some (JObj ([(''a'', JNull)] @ (''b'', JStr ''ls'') # []))) ''{}'' = None"
  by (rule bad_entry_loses_list[where k = "''b''" and v = "''ls''" and fs = "[]"]) simp_all

end
