(* ===== verification/Contacts.thy ===== *)
theory Contacts
  imports GoFloat FileNames Packet IpcProto "HOL-Library.List_Lexorder"
begin

text \<open>
  The contacts plugin (\<open>internal/plugins/contacts\<close>): the address book of a phone, kept in a directory per device with
  one file per contact and an index.

  A directory is a record: the index as it would be loaded and the contact files by name.  The goroutine of a
  response is an operation of its own; the plugin's mutex makes it atomic.  Quoted-printable decoding
  (\<open>decode_qp\<close>) is the standard library's.
\<close>

section \<open>Names of files\<close>

definition sanitizeUID :: "string \<Rightarrow> string" where
  "sanitizeUID uid = replace_unsafe file_safe ''_'' uid"

definition cacheDir :: "string \<Rightarrow> string \<Rightarrow> string option" where
  "cacheDir baseDir dev =
     (let safe = sanitizeUID dev in if safe = [] then None else confined_path baseDir safe)"

definition contactPath :: "string \<Rightarrow> string \<Rightarrow> string option" where
  "contactPath dir uid =
     (let safe = sanitizeUID uid in if safe = [] then None else confined_path dir (safe @ ''.vcf''))"

section \<open>vCards\<close>

text \<open>
  Upper case as far as it can give ASCII text: the long s and the dotless i are the only letters beyond ASCII that
  become ASCII letters.
\<close>

fun upper_text :: "string \<Rightarrow> string" where
  "upper_text (c # c1 # s) =
     (if byte c = 197 \<and> byte c1 = 191 then CHR ''S'' # upper_text s
      else if byte c = 196 \<and> byte c1 = 177 then CHR ''I'' # upper_text s
      else (if 97 \<le> byte c \<and> byte c \<le> 122 then char_of (byte c - 32) else c) # upper_text (c1 # s))"
| "upper_text s = map (\<lambda>c. if 97 \<le> byte c \<and> byte c \<le> 122 then char_of (byte c - 32) else c) s"

text \<open>The text before and after the first separator, if there is one.\<close>

definition cut :: "char \<Rightarrow> string \<Rightarrow> (string \<times> string) option" where
  "cut sep s =
     (if sep \<in> set s then Some (takeWhile (\<lambda>c. c \<noteq> sep) s, tl (dropWhile (\<lambda>c. c \<noteq> sep) s)) else None)"

definition isQuotedPrintable :: "string \<Rightarrow> bool" where
  "isQuotedPrintable params =
     (\<exists>tok \<in> set (split_on (CHR '';'') params).
        case cut (CHR ''='') tok of
          None \<Rightarrow> False
        | Some (k, v) \<Rightarrow> TrimSpace k = ''ENCODING'' \<and> (TrimSpace v = ''QUOTED-PRINTABLE'' \<or> TrimSpace v = ''QP''))"

definition maxDisplayLen :: nat where "maxDisplayLen = 256"

definition display_rune :: "nat \<Rightarrow> bool" where
  "display_rune r \<longleftrightarrow> \<not> (r < 32 \<or> r = 127)"

definition cleanDisplayValue :: "string \<Rightarrow> string" where
  "cleanDisplayValue s = take maxDisplayLen (TrimSpace (string_of_runes (filter display_rune (runes_of s))))"

fun fuse_soft_breaks :: "string \<Rightarrow> string" where
  "fuse_soft_breaks (a # b # c # s) =
     (if a = CHR ''='' \<and> b = newline \<and> (c = CHR '' '' \<or> c = CHR 0x09) then fuse_soft_breaks s
      else a # fuse_soft_breaks (b # c # s))"
| "fuse_soft_breaks s = s"

text \<open>Continuation lines are appended to the line before them; empty lines are dropped.\<close>

fun unfold_lines :: "string list \<Rightarrow> string list \<Rightarrow> string list" where
  "unfold_lines [] acc = acc"
| "unfold_lines (l # ls) acc =
     (if l = [] then unfold_lines ls acc
      else if (hd l = CHR '' '' \<or> hd l = CHR 0x09) \<and> acc \<noteq> [] then unfold_lines ls (butlast acc @ [last acc @ tl l])
      else unfold_lines ls (acc @ [l]))"

definition vcard_lines :: "string \<Rightarrow> string list" where
  "vcard_lines vcard =
     unfold_lines (split_on newline (fuse_soft_breaks
       (replace_all [CHR 0x0D] [newline] (replace_all [CHR 0x0D, newline] [newline] vcard)))) []"

text \<open>A line as its field in upper case and its value.\<close>

definition vcard_field :: "(string \<Rightarrow> string option) \<Rightarrow> string \<Rightarrow> (string \<times> string) option" where
  "vcard_field decode_qp l =
     (case cut (CHR '':'') l of
        None \<Rightarrow> None
      | Some (name, rawValue) \<Rightarrow>
          (let (field, params) = (case cut (CHR '';'') (upper_text name) of None \<Rightarrow> (upper_text name, []) | Some fp \<Rightarrow> fp);
               rawValue = (if isQuotedPrintable params
                           then (case decode_qp rawValue of None \<Rightarrow> rawValue | Some d \<Rightarrow> d) else rawValue);
               v = cleanDisplayValue rawValue
           in if v = [] then None else Some (field, v)))"

definition parseVCard :: "(string \<Rightarrow> string option) \<Rightarrow> string \<Rightarrow> string \<times> string list \<times> string list" where
  "parseVCard decode_qp vcard =
     (let fs = List.map_filter (vcard_field decode_qp) (vcard_lines vcard);
          of_field = (\<lambda>f. map snd (filter (\<lambda>x. fst x = f) fs))
      in (case of_field ''FN'' of [] \<Rightarrow> [] | n # _ \<Rightarrow> n, of_field ''TEL'', of_field ''EMAIL''))"

section \<open>The cache of a device\<close>

record contact_entry =
  ce_timestamp :: int
  ce_fetched :: bool
  ce_name :: string
  ce_phones :: "string list"
  ce_emails :: "string list"

definition zero_contact_entry :: contact_entry where
  "zero_contact_entry = \<lparr>ce_timestamp = 0, ce_fetched = False, ce_name = [], ce_phones = [], ce_emails = []\<rparr>"

type_synonym contact_index = "(string \<times> contact_entry) list"

record contact_dir =
  cd_index :: "contact_index option"
  cd_cards :: "string \<rightharpoonup> string"

definition loadIndex :: "contact_dir \<Rightarrow> contact_index" where
  "loadIndex d = (case cd_index d of None \<Rightarrow> [] | Some idx \<Rightarrow> idx)"

text \<open>
  Marshalling turns bytes that are not UTF-8 into the replacement character.  When the file cannot be opened the old index
  stays; when writing fails it is cut short and loads as empty.
\<close>

datatype save_outcome = Saved | SaveNotOpened | SaveCutShort

definition json_text :: "string \<Rightarrow> string" where
  "json_text s = string_of_runes (runes_of s)"

definition marshalled_entry :: "contact_entry \<Rightarrow> contact_entry" where
  "marshalled_entry e =
     e\<lparr>ce_name := json_text (ce_name e), ce_phones := map json_text (ce_phones e), ce_emails := map json_text (ce_emails e)\<rparr>"

definition saveIndex :: "save_outcome \<Rightarrow> contact_index \<Rightarrow> contact_dir \<Rightarrow> contact_dir" where
  "saveIndex out idx d =
     (case out of
        Saved \<Rightarrow> d\<lparr>cd_index := Some (map (\<lambda>(u, e). (u, marshalled_entry e)) idx)\<rparr>
      | SaveNotOpened \<Rightarrow> d
      | SaveCutShort \<Rightarrow> d\<lparr>cd_index := None\<rparr>)"

text \<open>The caches by path.\<close>

type_synonym contact_caches = "string \<rightharpoonup> contact_dir"

definition cache_of :: "contact_caches \<Rightarrow> string \<Rightarrow> contact_dir" where
  "cache_of cs dir = (case cs dir of None \<Rightarrow> \<lparr>cd_index = None, cd_cards = Map.empty\<rparr> | Some d \<Rightarrow> d)"

definition contact_view :: "string \<times> contact_entry \<Rightarrow> contact_summary" where
  "contact_view = (\<lambda>(u, e). \<lparr>cos_uid = u, cos_name = ce_name e, cos_phones = ce_phones e, cos_emails = ce_emails e,
     cos_timestamp = ce_timestamp e\<rparr>)"

definition contacts_List :: "string \<Rightarrow> string \<Rightarrow> contact_caches \<Rightarrow> contact_summary list" where
  "contacts_List baseDir dev cs =
     (case cacheDir baseDir dev of
        None \<Rightarrow> []
      | Some dir \<Rightarrow>
          sort_key (\<lambda>c. [map byte (cos_name c), map byte (cos_uid c)])
            (map contact_view (filter (\<lambda>(u, e). ce_fetched e) (loadIndex (cache_of cs dir)))))"

definition under :: "string \<Rightarrow> string \<Rightarrow> bool" where
  "under dir path \<longleftrightarrow> path = dir \<or> has_prefix (dir @ ''/'') path"

definition ForgetDevice :: "string \<Rightarrow> string \<Rightarrow> contact_caches \<Rightarrow> bool \<times> contact_caches" where
  "ForgetDevice baseDir dev cs =
     (case cacheDir baseDir dev of
        None \<Rightarrow> (False, cs)
      | Some dir \<Rightarrow> (True, \<lambda>path. if under dir path then None else cs path))"

section \<open>Requests\<close>

definition contacts_prefix :: "string \<Rightarrow> string" where "contacts_prefix s = ''kdeconnect.contacts.'' @ s"

definition RequestSync :: "effect list" where
  "RequestSync = [SendPacket (contacts_prefix ''request_all_uids_timestamps'') (JObj [])]"

definition contacts_OnConnect :: "pairing_state \<Rightarrow> effect list" where
  "contacts_OnConnect state = (if state \<noteq> StatePaired then [] else RequestSync)"

text \<open>With a chunk size of zero the loop would not end; the code calls it with 100.\<close>

function chunkUIDs :: "string list \<Rightarrow> nat \<Rightarrow> string list list" where
  "chunkUIDs uids n = (if uids = [] \<or> n = 0 then [] else take n uids # chunkUIDs (drop n uids) n)"
  by pat_completeness auto
termination
  by (relation "measure (\<lambda>(uids, n). length uids)") auto

declare chunkUIDs.simps [simp del]

definition vcardChunkSize :: nat where "vcardChunkSize = 100"

text \<open>\<open>fails\<close> is the first chunk that cannot be sent; the chunks after it are not tried.\<close>

definition requestVCards :: "nat option \<Rightarrow> string list \<Rightarrow> effect list" where
  "requestVCards fails uids =
     (let ps = map (\<lambda>c. SendPacket (contacts_prefix ''request_vcards_by_uid'') (JObj [(''uids'', JArr (map JStr c))]))
                 (chunkUIDs uids vcardChunkSize)
      in case fails of None \<Rightarrow> ps | Some k \<Rightarrow> take (Suc k) ps)"

section \<open>The list of contacts\<close>

definition coerceTimestamp :: "(go_float \<Rightarrow> int) \<Rightarrow> json option \<Rightarrow> int" where
  "coerceTimestamp conv raw =
     (case raw of
        Some (JStr s) \<Rightarrow> (case atoi (TrimSpace s) of None \<Rightarrow> 0 | Some n \<Rightarrow> n)
      | Some (JNum lit) \<Rightarrow>
          (case round_float (literal_value lit) of
             Fin r \<Rightarrow> if r < 0 then 0 else to_int64 conv (Fin r)
           | _ \<Rightarrow> 0)
      | _ \<Rightarrow> 0)"

definition maxContactUIDs :: nat where "maxContactUIDs = 20000"

text \<open>A response: its keys (the last one of equal keys counts) and its list of contacts.\<close>

definition response_uids :: "json option \<Rightarrow> ((string \<rightharpoonup> json) \<times> string list) option" where
  "response_uids body =
     (case body of
        Some (JObj es) \<Rightarrow>
          (let raw = map_of (rev es)
           in case raw ''uids'' of
                None \<Rightarrow> None
              | Some j \<Rightarrow>
                  (case dec_strs j [] of
                     None \<Rightarrow> None
                   | Some uids \<Rightarrow> if length uids > maxContactUIDs then None else Some (raw, uids)))
      | _ \<Rightarrow> None)"

record uid_diff =
  ud_fetch :: "string list"
  ud_added :: nat
  ud_updated :: nat
  ud_index :: contact_index

definition diff_uid :: "(go_float \<Rightarrow> int) \<Rightarrow> (string \<rightharpoonup> json) \<Rightarrow> string \<Rightarrow> uid_diff \<Rightarrow> uid_diff" where
  "diff_uid conv raw uid d =
     (if uid = [] then d
      else let ts = coerceTimestamp conv (raw uid)
           in case map_of (ud_index d) uid of
                None \<Rightarrow>
                  d\<lparr>ud_fetch := ud_fetch d @ [uid], ud_added := ud_added d + 1,
                    ud_index := AList.update uid (zero_contact_entry\<lparr>ce_timestamp := ts\<rparr>) (ud_index d)\<rparr>
              | Some e \<Rightarrow>
                  (if ce_timestamp e \<noteq> ts then d\<lparr>ud_fetch := ud_fetch d @ [uid], ud_updated := ud_updated d + 1\<rparr> else d)
                  \<lparr>ud_index := AList.update uid (e\<lparr>ce_timestamp := ts\<rparr>) (ud_index d)\<rparr>)"

definition diff_uids :: "(go_float \<Rightarrow> int) \<Rightarrow> (string \<rightharpoonup> json) \<Rightarrow> string list \<Rightarrow> contact_index \<Rightarrow> uid_diff" where
  "diff_uids conv raw uids idx =
     fold (diff_uid conv raw) uids \<lparr>ud_fetch = [], ud_added = 0, ud_updated = 0, ud_index = idx\<rparr>"

text \<open>The contacts that the list does not name any more, unless the list is empty.\<close>

definition stale_uids :: "string list \<Rightarrow> contact_index \<Rightarrow> string list" where
  "stale_uids uids idx = (if uids = [] then [] else filter (\<lambda>u. u \<notin> set uids \<or> u = []) (map fst idx))"

definition remove_card :: "string \<Rightarrow> string \<Rightarrow> (string \<rightharpoonup> string) \<Rightarrow> (string \<rightharpoonup> string)" where
  "remove_card dir uid cards = (case contactPath dir uid of None \<Rightarrow> cards | Some path \<Rightarrow> cards(path := None))"

definition apply_uids ::
  "(go_float \<Rightarrow> int) \<Rightarrow> (string \<rightharpoonup> json) \<Rightarrow> string list \<Rightarrow> save_outcome \<Rightarrow> string \<Rightarrow> contact_dir \<Rightarrow> (uid_diff \<times> nat) \<times> contact_dir" where
  "apply_uids conv raw uids out dir d =
     (let df = diff_uids conv raw uids (loadIndex d);
          stale = stale_uids uids (ud_index df);
          d = d\<lparr>cd_cards := fold (remove_card dir) stale (cd_cards d)\<rparr>
      in ((df, length stale), saveIndex out (filter (\<lambda>(u, e). u \<notin> set stale) (ud_index df)) d))"

definition contacts_event :: "bool \<Rightarrow> string \<Rightarrow> (string \<times> json) list \<Rightarrow> effect list" where
  "contacts_event has_bus dev payload = publish has_bus ''contacts.updated'' dev (JObj payload)"

definition handleUIDsResponse ::
  "(go_float \<Rightarrow> int) \<Rightarrow> string \<Rightarrow> nat option \<Rightarrow> bool \<Rightarrow> bool \<Rightarrow> save_outcome \<Rightarrow> string \<Rightarrow> json option \<Rightarrow> contact_caches
     \<Rightarrow> effect list \<times> contact_caches" where
  "handleUIDsResponse conv baseDir fails has_bus mkdir_ok out dev body cs =
     (case (case response_uids body of
              None \<Rightarrow> (([], 0, 0, 0), cs)
            | Some (raw, uids) \<Rightarrow>
                (case cacheDir baseDir dev of
                   None \<Rightarrow> (([], 0, 0, 0), cs)
                 | Some dir \<Rightarrow>
                     if \<not> mkdir_ok then (([], 0, 0, 0), cs)
                     else case apply_uids conv raw uids out dir (cache_of cs dir) of
                       ((df, deleted), d) \<Rightarrow> ((ud_fetch df, ud_added df, ud_updated df, deleted), cs(dir \<mapsto> d)))) of
        ((fetch, added, updated, deleted), cs) \<Rightarrow>
          (requestVCards fails fetch
           @ contacts_event has_bus dev
               [(''added'', enc_nat added), (''deleted'', enc_nat deleted), (''pending'', enc_nat (length fetch)),
                (''phase'', JStr ''uids''), (''updated'', enc_nat updated)],
           cs))"

section \<open>The vCards\<close>

definition maxVCardBytes :: nat where "maxVCardBytes = 64 * 1024"
definition maxSyncBytes :: nat where "maxSyncBytes = 64 * 1024 * 1024"

record card_round =
  cr_stored :: nat
  cr_skipped :: nat
  cr_total :: nat
  cr_index :: contact_index
  cr_cards :: "string \<rightharpoonup> string"

text \<open>The cards are stored one after another; \<open>write_ok\<close> says for which paths writing works.\<close>

fun store_cards ::
  "(string \<Rightarrow> string option) \<Rightarrow> (string \<Rightarrow> bool) \<Rightarrow> string \<Rightarrow> (string \<rightharpoonup> json) \<Rightarrow> string list \<Rightarrow> card_round \<Rightarrow> card_round" where
  "store_cards decode_qp write_ok dir raw [] r = r"
| "store_cards decode_qp write_ok dir raw (uid # uids) r =
     (let go = store_cards decode_qp write_ok dir raw uids;
          skip = go (r\<lparr>cr_skipped := cr_skipped r + 1\<rparr>)
      in case (if uid = [] then None else raw uid) of
           None \<Rightarrow> go r
         | Some j \<Rightarrow>
             (case dec_str j [] of
                None \<Rightarrow> skip
              | Some vcard \<Rightarrow>
                  if length vcard > maxVCardBytes then skip
                  else if cr_total r + length vcard > maxSyncBytes then r\<lparr>cr_total := cr_total r + length vcard\<rparr>
                  else
                    (let r = r\<lparr>cr_total := cr_total r + length vcard\<rparr>; skip = go (r\<lparr>cr_skipped := cr_skipped r + 1\<rparr>)
                     in case contactPath dir uid of
                          None \<Rightarrow> skip
                        | Some path \<Rightarrow>
                            if \<not> write_ok path then skip
                            else (case parseVCard decode_qp vcard of
                              (name, phones, emails) \<Rightarrow>
                                (let e = (case map_of (cr_index r) uid of None \<Rightarrow> zero_contact_entry | Some e \<Rightarrow> e);
                                     e = e\<lparr>ce_fetched := True, ce_name := name, ce_phones := phones, ce_emails := emails\<rparr>
                                 in go (r\<lparr>cr_index := AList.update uid e (cr_index r), cr_cards := (cr_cards r)(path \<mapsto> vcard),
                                          cr_stored := cr_stored r + 1\<rparr>))))))"

definition apply_cards ::
  "(string \<Rightarrow> string option) \<Rightarrow> (string \<Rightarrow> bool) \<Rightarrow> (string \<rightharpoonup> json) \<Rightarrow> string list \<Rightarrow> save_outcome \<Rightarrow> string \<Rightarrow> contact_dir
     \<Rightarrow> (nat \<times> nat) \<times> contact_dir" where
  "apply_cards decode_qp write_ok raw uids out dir d =
     (let r = store_cards decode_qp write_ok dir raw uids
                \<lparr>cr_stored = 0, cr_skipped = 0, cr_total = 0, cr_index = loadIndex d, cr_cards = cd_cards d\<rparr>
      in ((cr_stored r, cr_skipped r), saveIndex out (cr_index r) (d\<lparr>cd_cards := cr_cards r\<rparr>)))"

definition handleVCardsResponse ::
  "(string \<Rightarrow> string option) \<Rightarrow> string \<Rightarrow> bool \<Rightarrow> bool \<Rightarrow> (string \<Rightarrow> bool) \<Rightarrow> save_outcome \<Rightarrow> string \<Rightarrow> json option \<Rightarrow> contact_caches
     \<Rightarrow> effect list \<times> contact_caches" where
  "handleVCardsResponse decode_qp baseDir has_bus mkdir_ok write_ok out dev body cs =
     (case response_uids body of
        None \<Rightarrow> ([], cs)
      | Some (raw, uids) \<Rightarrow>
          (case cacheDir baseDir dev of
             None \<Rightarrow> ([], cs)
           | Some dir \<Rightarrow>
               if \<not> mkdir_ok then ([], cs)
               else case apply_cards decode_qp write_ok raw uids out dir (cache_of cs dir) of
                 ((stored, skipped), d) \<Rightarrow>
                   (contacts_event has_bus dev
                      [(''phase'', JStr ''vcards''), (''skipped'', enc_nat skipped), (''stored'', enc_nat stored)],
                    cs(dir \<mapsto> d))))"

definition contacts_Handle ::
  "(go_float \<Rightarrow> int) \<Rightarrow> (string \<Rightarrow> string option) \<Rightarrow> string \<Rightarrow> nat option \<Rightarrow> bool \<Rightarrow> bool
     \<Rightarrow> (string \<Rightarrow> bool) \<Rightarrow> save_outcome \<Rightarrow> string \<Rightarrow> packet \<Rightarrow> contact_caches \<Rightarrow> effect list \<times> contact_caches" where
  "contacts_Handle conv decode_qp baseDir fails has_bus mkdir_ok write_ok out dev pkt cs =
     (if pk_type pkt = contacts_prefix ''response_uids_timestamps''
      then handleUIDsResponse conv baseDir fails has_bus mkdir_ok out dev (pk_body pkt) cs
      else if pk_type pkt = contacts_prefix ''response_vcards''
      then handleVCardsResponse decode_qp baseDir has_bus mkdir_ok write_ok out dev (pk_body pkt) cs
      else ([], cs))"

section \<open>What is asked for\<close>

text \<open>The first occurrences of a list, and the contacts that are new or changed.\<close>

definition first_occurrences :: "string list \<Rightarrow> string list" where
  "first_occurrences us = rev (remdups (rev us))"

definition needs_fetch :: "(go_float \<Rightarrow> int) \<Rightarrow> (string \<rightharpoonup> json) \<Rightarrow> contact_index \<Rightarrow> string \<Rightarrow> bool" where
  "needs_fetch conv raw idx u \<longleftrightarrow> u \<noteq> [] \<and>
     (case map_of idx u of None \<Rightarrow> True | Some e \<Rightarrow> ce_timestamp e \<noteq> coerceTimestamp conv (raw u))"

lemma first_occurrences_snoc:
  "first_occurrences (us @ [u]) = (if u \<in> set us then first_occurrences us else first_occurrences us @ [u])"
  by (simp add: first_occurrences_def)

lemma set_first_occurrences [simp]: "set (first_occurrences us) = set us"
  by (simp add: first_occurrences_def)

text \<open>What the round knows after some of the contacts.\<close>

definition diff_ok :: "(go_float \<Rightarrow> int) \<Rightarrow> (string \<rightharpoonup> json) \<Rightarrow> contact_index \<Rightarrow> string list \<Rightarrow> uid_diff \<Rightarrow> bool" where
  "diff_ok conv raw idx us d \<longleftrightarrow>
     ud_fetch d = filter (needs_fetch conv raw idx) (first_occurrences us) \<and>
     ud_added d + ud_updated d = length (ud_fetch d) \<and>
     (\<forall>u. map_of (ud_index d) u =
        (if u \<in> set us \<and> u \<noteq> []
         then Some ((case map_of idx u of None \<Rightarrow> zero_contact_entry | Some e \<Rightarrow> e)\<lparr>ce_timestamp := coerceTimestamp conv (raw u)\<rparr>)
         else map_of idx u))"

lemma diff_ok_step:
  assumes "diff_ok conv raw idx us d"
  shows "diff_ok conv raw idx (us @ [u]) (diff_uid conv raw u d)"
proof (cases "u = []")
  case True
  then show ?thesis using assms by (auto simp: diff_ok_def diff_uid_def first_occurrences_snoc needs_fetch_def)
next
  case False
  then show ?thesis
    using assms
    by (cases "u \<in> set us"; cases "map_of idx u")
      (auto simp: diff_ok_def diff_uid_def Let_def first_occurrences_snoc needs_fetch_def update_conv')
qed

lemma diff_uids_ok: "diff_ok conv raw idx us (diff_uids conv raw us idx)"
proof (induction us rule: rev_induct)
  case Nil
  then show ?case by (simp add: diff_ok_def diff_uids_def first_occurrences_def)
next
  case (snoc u us)
  then show ?case using diff_ok_step by (simp add: diff_uids_def)
qed

text \<open>
  The vCards asked for are those of the contacts in the phone's list that are new or whose time stamp has
  changed, each once and in the order of the list.
\<close>
theorem asks_for_what_changed:
  "ud_fetch (diff_uids conv raw uids idx) = filter (needs_fetch conv raw idx) (first_occurrences uids)"
  using diff_uids_ok by (simp add: diff_ok_def)

lemma concat_chunkUIDs: "0 < n \<Longrightarrow> concat (chunkUIDs uids n) = uids"
  by (induction uids n rule: chunkUIDs.induct) (subst chunkUIDs.simps, auto)

lemma chunkUIDs_sizes: "c \<in> set (chunkUIDs uids n) \<Longrightarrow> 0 < length c \<and> length c \<le> n"
proof (induction uids n rule: chunkUIDs.induct)
  case (1 uids n)
  then show ?case by (subst (asm) chunkUIDs.simps) (auto split: if_splits)
qed

text \<open>
  The requests split the contacts asked for into consecutive chunks of at least one and at most a hundred.
\<close>
theorem requests_are_chunks:
  "\<exists>chunks. requestVCards None uids =
      map (\<lambda>c. SendPacket ''kdeconnect.contacts.request_vcards_by_uid'' (JObj [(''uids'', JArr (map JStr c))])) chunks \<and>
    concat chunks = uids \<and> list_all (\<lambda>c. 0 < length c \<and> length c \<le> 100) chunks"
  by (rule exI [of _ "chunkUIDs uids vcardChunkSize"])
    (auto simp: requestVCards_def contacts_prefix_def concat_chunkUIDs vcardChunkSize_def list_all_iff dest: chunkUIDs_sizes)

section \<open>The index after a list\<close>

lemma map_of_marshalled:
  "map_of (map (\<lambda>(u, e). (u, f e)) idx) u = map_option f (map_of idx u)"
  by (induction idx) auto

lemma map_of_filter_keys:
  "map_of (filter (\<lambda>(u, e). P u) idx) u = (if P u then map_of idx u else None)"
  by (induction idx) auto

lemma index_after_list:
  assumes "apply_uids conv raw uids Saved dir d = ((df, n), d')"
  shows "map_of (loadIndex d') u =
    map_option marshalled_entry (if u \<in> set (stale_uids uids (ud_index (diff_uids conv raw uids (loadIndex d)))) then None
      else map_of (ud_index (diff_uids conv raw uids (loadIndex d))) u)"
  using assms
  by (auto simp: apply_uids_def Let_def saveIndex_def loadIndex_def map_of_marshalled map_of_filter_keys)

lemma index_timestamps:
  assumes "uids \<noteq> []" and "apply_uids conv raw uids Saved dir d = (r, d')"
  shows "map_option ce_timestamp (map_of (loadIndex d') u) =
    (if u \<in> set uids \<and> u \<noteq> [] then Some (coerceTimestamp conv (raw u)) else None)"
proof -
  obtain df n where r: "r = (df, n)" by force
  let ?i = "ud_index (diff_uids conv raw uids (loadIndex d))"
  have i: "map_of ?i u = (if u \<in> set uids \<and> u \<noteq> []
      then Some ((case map_of (loadIndex d) u of None \<Rightarrow> zero_contact_entry | Some e \<Rightarrow> e)
        \<lparr>ce_timestamp := coerceTimestamp conv (raw u)\<rparr>)
      else map_of (loadIndex d) u)"
    using diff_uids_ok [of conv raw "loadIndex d" uids] by (simp add: diff_ok_def)
  have s: "u \<in> set (stale_uids uids ?i) \<longleftrightarrow> (u \<notin> set uids \<or> u = []) \<and> map_of ?i u \<noteq> None"
    using assms(1) by (auto simp: stale_uids_def image_iff map_of_eq_None_iff)
  show ?thesis
    unfolding index_after_list [OF assms(2) [unfolded r]] s
    using i by (auto simp: marshalled_entry_def)
qed

lemma unsaved_index:
  assumes "apply_uids conv raw uids out dir d = (r, d')"
  shows "out = SaveNotOpened \<Longrightarrow> loadIndex d' = loadIndex d" "out = SaveCutShort \<Longrightarrow> loadIndex d' = []"
  using assms by (auto simp: apply_uids_def Let_def saveIndex_def loadIndex_def)



text \<open>
  The time stamp is recorded before the vCard has arrived: the same list again asks for nothing, so a contact
  whose vCard was lost (the connection broke, the file could not be written) stays missing until it changes on the phone.
\<close>
theorem lost_card_never_asked_again:
  assumes "apply_uids conv raw uids Saved dir d = (r, d')"
  shows "ud_fetch (diff_uids conv raw uids (loadIndex d')) = []"
proof -
  obtain df n where r: "r = (df, n)" by force
  have "\<not> needs_fetch conv raw (loadIndex d') u" if "u \<in> set uids" for u
  proof (cases "u = []")
    case False
    let ?i = "ud_index (diff_uids conv raw uids (loadIndex d))"
    have i: "map_of ?i u = Some ((case map_of (loadIndex d) u of None \<Rightarrow> zero_contact_entry | Some e \<Rightarrow> e)
        \<lparr>ce_timestamp := coerceTimestamp conv (raw u)\<rparr>)"
      using diff_uids_ok [of conv raw "loadIndex d" uids] that False by (simp add: diff_ok_def)
    have "u \<notin> set (stale_uids uids ?i)" using that False by (auto simp: stale_uids_def)
    then show ?thesis
      unfolding needs_fetch_def index_after_list [OF assms [unfolded r]] using i by (simp add: marshalled_entry_def)
  qed (simp add: needs_fetch_def)
  then show ?thesis using diff_uids_ok [of conv raw "loadIndex d'" uids] by (simp add: diff_ok_def)
qed

theorem lost_card_never_asked_again_witness:
  "ud_fetch (diff_uids (\<lambda>_. 0) [''a'' \<mapsto> JStr ''7''] [''a''] (loadIndex (snd
      (apply_uids (\<lambda>_. 0) [''a'' \<mapsto> JStr ''7''] [''a''] Saved ''/c'' \<lparr>cd_index = None, cd_cards = Map.empty\<rparr>)))) = []"
  by (rule lost_card_never_asked_again [OF prod.collapse [symmetric]])

section \<open>Files\<close>

lemma sanitizeUID_slash: "slash \<notin> set (sanitizeUID u)"
  using replaced_no_slash [of file_safe "''_''" u] file_safe_ascii by (simp add: sanitizeUID_def slash_def)

lemma contact_name_plain: "plain_part (sanitizeUID u @ ''.vcf'')"
  by (rule plain_with_ext) (simp_all add: sanitizeUID_slash, simp_all add: slash_def dotdot_def)

text \<open>
  Whatever identifier the phone gives a contact, its file lies directly in the directory of the phone.
\<close>
theorem contact_file_confined:
  assumes "is_rooted dir" and "contactPath dir uid = Some path"
  shows "\<exists>ps n. Clean dir = slash # join_with [slash] ps \<and> plain_part n \<and> path = slash # join_with [slash] (ps @ [n])"
proof -
  have "confined_path dir (sanitizeUID uid @ ''.vcf'') = Some path"
    using assms(2) by (simp add: contactPath_def Let_def split: if_splits)
  then show ?thesis using confined_plain [OF assms(1) contact_name_plain] contact_name_plain by blast
qed

text \<open>
  Two contacts whose identifiers differ only in characters that are replaced share one file: removing the one removes
  the card of the other.
\<close>
theorem sanitized_uids_collide:
  "contactPath dir ''a/b'' = contactPath dir ''a:b''"
proof -
  have "sanitizeUID ''a/b'' = sanitizeUID ''a:b''"
    by (simp add: sanitizeUID_def replace_unsafe_def runes_of_def bytes_of_def runes.simps utf8_next.simps file_safe_def)
  then show ?thesis by (simp add: contactPath_def)
qed

text \<open>
  Forgetting a device empties its list of contacts and removes every cache at or below its directory.
\<close>
theorem forgotten_device_has_no_contacts:
  assumes "cacheDir baseDir dev = Some dir"
  shows "let cs' = snd (ForgetDevice baseDir dev cs)
    in contacts_List baseDir dev cs' = [] \<and> (\<forall>path. under dir path \<longrightarrow> cs' path = None)"
  using assms by (simp add: ForgetDevice_def contacts_List_def cache_of_def loadIndex_def under_def Let_def)

section \<open>What is shown\<close>

lemma enc_display:
  assumes "display_rune r" and "b \<in> set (utf8_enc r)"
  shows "b < 256 \<and> 32 \<le> b \<and> b \<noteq> 127"
proof -
  have "b < 256" using utf8_enc_bytes [of r] assms(2) by (simp add: list_all_iff)
  moreover have "128 \<le> b \<or> b = r" using assms(2) by (auto simp: utf8_enc_def rune_error_def Let_def split: if_splits)
  ultimately show ?thesis using assms(1) by (auto simp: display_rune_def)
qed

text \<open>
  A value shown has at most 256 bytes, none of them a control character of ASCII.
\<close>
theorem display_value_clean:
  "length (cleanDisplayValue s) \<le> 256 \<and> list_all (\<lambda>c. 32 \<le> byte c \<and> byte c \<noteq> 127) (cleanDisplayValue s)"
proof -
  have "\<forall>c \<in> set (string_of_runes (filter display_rune (runes_of s))). 32 \<le> byte c \<and> byte c \<noteq> 127"
    using enc_display by (fastforce simp: string_of_runes_def string_of_def)
  then have "list_all (\<lambda>c. 32 \<le> byte c \<and> byte c \<noteq> 127) (string_of_runes (filter display_rune (runes_of s)))"
    by (simp add: list_all_iff)
  then show ?thesis
    using TrimSpace_all by (simp add: cleanDisplayValue_def maxDisplayLen_def list_all_take)
qed

text \<open>
  The one-character form of the escape sequence that starts a terminal command is a control character beyond ASCII:
  it stays in a contact's name.
\<close>
theorem terminal_escape_survives:
  "cleanDisplayValue (string_of_runes [0x9B, 50, 74]) = string_of_runes [0x9B, 50, 74]"
proof -
  have rs: "runes_of (string_of_runes [0x9B, 50, 74]) = [0x9B, 50, 74]"
    by (rule runes_of_string_of_runes) (simp add: scalar_def)
  have s: "string_of_runes [0x9B, 50, 74] = [CHR 0xC2, CHR 0x9B, CHR 0x32, CHR 0x4A]"
    by (simp add: string_of_runes_def string_of_def utf8_enc_def scalar_def) code_simp
  show ?thesis unfolding cleanDisplayValue_def rs
    by (simp add: display_rune_def maxDisplayLen_def s TrimSpace_def bytes_of_def runes.simps utf8_next.simps is_space_rune_def cont_def Let_def)
qed

end
