(* ===== verification/JsonLists.thy ===== *)
theory JsonLists
  imports PluginEnv
begin

text \<open>
  Slices of structs in packet bodies: every element is decoded into a zero value.  A slice that is left out of the
  output when it is empty does not tell the empty slice from \<open>nil\<close>, the others do.
\<close>

fun dec_elems :: "(json \<Rightarrow> 'a \<Rightarrow> 'a option) \<Rightarrow> 'a \<Rightarrow> json list \<Rightarrow> 'a list option" where
  "dec_elems dec zero [] = Some []"
| "dec_elems dec zero (j # js) =
     (case (dec j zero, dec_elems dec zero js) of
        (Some x, Some xs) \<Rightarrow> Some (x # xs)
      | _ \<Rightarrow> None)"

fun dec_list :: "(json \<Rightarrow> 'a \<Rightarrow> 'a option) \<Rightarrow> 'a \<Rightarrow> json \<Rightarrow> 'a list \<Rightarrow> 'a list option" where
  "dec_list dec zero JNull old = Some []"
| "dec_list dec zero (JArr js) old = dec_elems dec zero js"
| "dec_list dec zero _ old = None"

fun dec_nlist :: "(json \<Rightarrow> 'a \<Rightarrow> 'a option) \<Rightarrow> 'a \<Rightarrow> json \<Rightarrow> 'a list option \<Rightarrow> 'a list option option" where
  "dec_nlist dec zero JNull old = Some None"
| "dec_nlist dec zero (JArr js) old = map_option Some (dec_elems dec zero js)"
| "dec_nlist dec zero _ old = None"

lemma dec_elems_length: "dec_elems dec zero js = Some xs \<Longrightarrow> length xs = length js"
  by (induction js arbitrary: xs) (auto split: option.splits)

end
