(* ===== verification/Notification.thy ===== *)
theory Notification
  imports JsonLists FileNames PayloadTransfer ConfigSections
begin

text \<open>
  The notification plugin (\<open>internal/plugins/notification\<close>): notifications of the phone as events and popups, the
  icons they come with, the popups' identifiers, and the grace after a cancellation within which a
  repeated notification updates its popup in place.

  A popup is shown in the background: \<open>popup_begin\<close> is what happens before the tool runs, \<open>popup_end\<close> what happens
  with the identifier it prints.  A timer has a number; its callback is \<open>timer_fires\<close> followed by \<open>timer_done\<close>.
\<close>

section \<open>The packet body\<close>

record conversation_message =
  cvm_sender :: string
  cvm_content :: string

definition zero_conversation_message :: conversation_message where
  "zero_conversation_message = \<lparr>cvm_sender = [], cvm_content = []\<rparr>"

definition conversation_message_fields :: "conversation_message field list" where
  "conversation_message_fields =
     [(''sender'', fld dec_str cvm_sender cvm_sender_update),
      (''content'', fld dec_str cvm_content cvm_content_update)]"

definition dec_conversation_message :: "json \<Rightarrow> conversation_message \<Rightarrow> conversation_message option" where
  "dec_conversation_message j = dec_struct (dec_fields conversation_message_fields) j"

definition enc_conversation_message :: "conversation_message \<Rightarrow> json" where
  "enc_conversation_message x =
     JObj ([(''sender'', JStr (cvm_sender x))]
           @ [(''content'', JStr (cvm_content x))])"

record notification_body =
  nb_id :: string
  nb_app_name :: string
  nb_title :: string
  nb_text :: string
  nb_ticker :: string
  nb_time :: string
  nb_group_name :: string
  nb_actions :: "string list"
  nb_conversation :: "conversation_message list"
  nb_is_cancel :: bool
  nb_is_clearable :: bool
  nb_silent :: bool
  nb_request_reply_id :: string
  nb_payload_hash :: string

definition zero_notification_body :: notification_body where
  "zero_notification_body =
     \<lparr>nb_id = [], nb_app_name = [], nb_title = [], nb_text = [], nb_ticker = [],
       nb_time = [], nb_group_name = [], nb_actions = [], nb_conversation = [], 
      nb_is_cancel = False, nb_is_clearable = False, nb_silent = False, nb_request_reply_id = [], nb_payload_hash = []\<rparr>"

definition notification_body_fields :: "notification_body field list" where
  "notification_body_fields =
     [(''id'', fld dec_str nb_id nb_id_update),
      (''appName'', fld dec_str nb_app_name nb_app_name_update),
      (''title'', fld dec_str nb_title nb_title_update),
      (''text'', fld dec_str nb_text nb_text_update),
      (''ticker'', fld dec_str nb_ticker nb_ticker_update),
      (''time'', fld dec_str nb_time nb_time_update),
      (''groupName'', fld dec_str nb_group_name nb_group_name_update),
      (''actions'', fld dec_strs nb_actions nb_actions_update),
      (''conversation'', fld (dec_list dec_conversation_message zero_conversation_message) nb_conversation nb_conversation_update),
      (''isCancel'', fld dec_bool nb_is_cancel nb_is_cancel_update),
      (''isClearable'', fld dec_bool nb_is_clearable nb_is_clearable_update),
      (''silent'', fld dec_bool nb_silent nb_silent_update),
      (''requestReplyId'', fld dec_str nb_request_reply_id nb_request_reply_id_update),
      (''payloadHash'', fld dec_str nb_payload_hash nb_payload_hash_update)]"

definition dec_notification_body :: "json \<Rightarrow> notification_body \<Rightarrow> notification_body option" where
  "dec_notification_body j = dec_struct (dec_fields notification_body_fields) j"

section \<open>State\<close>

record notif_state =
  nt_cfg :: notification_plugin_config
  nt_popups :: popups_config
  nt_backend :: string
  nt_filters :: "notification_config option"
  nt_can_close :: bool
  nt_icon_dir :: string
  nt_has_tls :: bool
  nt_ids :: "string \<rightharpoonup> string"
  nt_pending :: "string \<rightharpoonup> nat"
  nt_timers :: "(nat \<times> string \<times> string) list"
  nt_next_timer :: nat

text \<open>\<open>help\<close> is what the tool prints about itself, \<open>icon_dir\<close> the directory that could be made for the icons.\<close>

definition newNotificationPlugin ::
  "notification_plugin_config \<Rightarrow> popups_config \<Rightarrow> string \<Rightarrow> bool \<Rightarrow> string option \<Rightarrow> string option \<Rightarrow> notif_state" where
  "newNotificationPlugin cfg popups backend has_tls help icon_dir =
     \<lparr>nt_cfg = cfg, nt_popups = popups, nt_backend = backend, nt_filters = None,
      nt_can_close = (case help of None \<Rightarrow> False | Some out \<Rightarrow> contains ''--print-id'' out),
      nt_icon_dir = (case icon_dir of None \<Rightarrow> [] | Some dir \<Rightarrow> dir), nt_has_tls = has_tls,
      nt_ids = Map.empty, nt_pending = Map.empty, nt_timers = [], nt_next_timer = 0\<rparr>"

definition SetFilters :: "notification_config option \<Rightarrow> notif_state \<Rightarrow> notif_state" where
  "SetFilters f st = st\<lparr>nt_filters := f\<rparr>"

definition resolveAction :: "string \<Rightarrow> notif_state \<Rightarrow> string" where
  "resolveAction app st =
     (case nt_filters st of
        None \<Rightarrow> ''show''
      | Some f \<Rightarrow>
          (case map_of f app of
             Some action \<Rightarrow> action
           | None \<Rightarrow> (case map_of f ''*'' of Some action \<Rightarrow> action | None \<Rightarrow> ''show'')))"

definition notifKey :: "string \<Rightarrow> string \<Rightarrow> string" where
  "notifKey dev i = dev @ ''|'' @ i"

text \<open>Stopping a timer whose callback has started does nothing.\<close>

definition stop_notif_timer :: "nat option \<Rightarrow> notif_state \<Rightarrow> notif_state" where
  "stop_notif_timer t st =
     (case t of None \<Rightarrow> st | Some n \<Rightarrow> st\<lparr>nt_timers := filter (\<lambda>x. fst x \<noteq> n) (nt_timers st)\<rparr>)"

definition notif_Close :: "notif_state \<Rightarrow> notif_state" where
  "notif_Close st = st\<lparr>nt_timers := filter (\<lambda>(n, k, want). nt_pending st k \<noteq> Some n) (nt_timers st)\<rparr>"

definition closeNotification :: "string \<Rightarrow> effect list" where
  "closeNotification desktopID =
     [Spawned [RunCommand [''gdbus'', ''call'', ''--session'', ''--dest'', ''org.freedesktop.Notifications'',
        ''--object-path'', ''/org/freedesktop/Notifications'',
        ''--method'', ''org.freedesktop.Notifications.CloseNotification'', desktopID]]]"

section \<open>Cancellations\<close>

definition cancel_popup :: "string \<Rightarrow> notif_state \<Rightarrow> effect list \<times> notif_state" where
  "cancel_popup key st =
     (case nt_ids st key of
        None \<Rightarrow> ([], st)
      | Some want \<Rightarrow>
          if np_cancel_grace_ms (nt_cfg st) > 0 then
            (let st = stop_notif_timer (nt_pending st key) st;
                 n = nt_next_timer st
             in ([], st\<lparr>nt_pending := (nt_pending st)(key \<mapsto> n), nt_timers := (n, key, want) # nt_timers st,
                        nt_next_timer := Suc n\<rparr>))
          else (closeNotification want, st\<lparr>nt_ids := (nt_ids st)(key := None)\<rparr>))"

text \<open>The callback of a timer: the popup is closed only when it is the one the timer was started for.\<close>

definition timer_fires :: "nat \<Rightarrow> notif_state \<Rightarrow> (string \<times> effect list) option \<times> notif_state" where
  "timer_fires n st =
     (case find (\<lambda>x. fst x = n) (nt_timers st) of
        None \<Rightarrow> (None, st)
      | Some (_, key, want) \<Rightarrow>
          (let cur = nt_ids st key;
               st = st\<lparr>nt_timers := filter (\<lambda>x. fst x \<noteq> n) (nt_timers st), nt_ids := (nt_ids st)(key := None)\<rparr>
           in (Some (key, if cur = Some want then closeNotification want else []), st)))"

definition timer_done :: "string \<Rightarrow> notif_state \<Rightarrow> notif_state" where
  "timer_done key st = st\<lparr>nt_pending := (nt_pending st)(key := None)\<rparr>"

section \<open>Popups\<close>

text \<open>The backend is fixed; \<open>None\<close> is no popup at all.\<close>

definition popup_backend :: "notif_state \<Rightarrow> string option" where
  "popup_backend st =
     (let b = (if nt_backend st = [] \<or> nt_backend st = ''auto'' then ''notify-send'' else nt_backend st)
      in if b = ''none'' then None else Some b)"

definition popup_icon :: "string \<Rightarrow> string \<Rightarrow> notif_state \<Rightarrow> string" where
  "popup_icon app icon st =
     (if \<not> np_show_icons (nt_cfg st) then []
      else let a = map lower (replace_all '' '' ''-'' app);
               a = (if icon \<noteq> [] then icon else a)
           in if a = [] then ''smartphone'' else a)"

text \<open>The options of the tool: the popup shown before for the same notification is replaced.\<close>

definition popup_tracked :: "string \<Rightarrow> notif_state \<Rightarrow> bool" where
  "popup_tracked i st \<longleftrightarrow> nt_can_close st \<and> i \<noteq> []"

definition popup_options :: "string \<Rightarrow> string \<Rightarrow> string \<Rightarrow> string \<Rightarrow> notif_state \<Rightarrow> string list" where
  "popup_options dev app i icon st =
     (let cfg = nt_cfg st
      in [''-a'', app]
         @ (if np_urgency cfg \<noteq> [] then [''-u'', np_urgency cfg] else [])
         @ (if np_expire_ms cfg \<ge> 0 then [''-t'', show_int (np_expire_ms cfg)] else [])
         @ [''-i'', popup_icon app icon st, ''-h'', ''string:x-dunst-stack-tag:kcd-'' @ app]
         @ (if popup_tracked i st \<and> np_replace_notifications cfg
            then (case nt_ids st (notifKey dev i) of
                    Some s \<Rightarrow> if s \<noteq> [] then [''-r'', s] else []
                  | None \<Rightarrow> [])
            else [])
         @ (if popup_tracked i st then [''--print-id''] else []))"

definition popup_begin :: "string \<Rightarrow> string \<Rightarrow> string \<Rightarrow> string \<Rightarrow> string \<Rightarrow> string \<Rightarrow> notif_state \<Rightarrow> string list option \<times> notif_state" where
  "popup_begin dev app i title text icon st =
     (case popup_backend st of
        None \<Rightarrow> (None, st)
      | Some backend \<Rightarrow>
          (Some (if backend = ''dbus''
                 then [''gdbus'', ''call'', ''--session'', ''--dest'', ''org.freedesktop.Notifications'',
                       ''--object-path'', ''/org/freedesktop/Notifications'', ''--method'',
                       ''org.freedesktop.Notifications.Notify'', app, ''0'', popup_icon app icon st, title, text,
                       ''[]'', ''{}'', ''-1'']
                 else ''notify-send'' # popup_options dev app i icon st @ [''--'', title, text]),
           if popup_tracked i st \<and> np_replace_notifications (nt_cfg st)
           then (stop_notif_timer (nt_pending st (notifKey dev i)) st)
                  \<lparr>nt_pending := (nt_pending st)(notifKey dev i := None)\<rparr>
           else st))"

text \<open>\<open>out\<close> is what the tool printed, if it succeeded.\<close>

definition popup_end :: "string \<Rightarrow> string \<Rightarrow> string option \<Rightarrow> notif_state \<Rightarrow> notif_state" where
  "popup_end dev i out st =
     (case out of
        Some s \<Rightarrow>
          if popup_tracked i st \<and> TrimSpace s \<noteq> []
          then st\<lparr>nt_ids := (nt_ids st)(notifKey dev i \<mapsto> TrimSpace s)\<rparr> else st
      | None \<Rightarrow> st)"

section \<open>Icons\<close>

definition app_safe :: "nat \<Rightarrow> bool" where
  "app_safe r \<longleftrightarrow> file_safe r \<or> r = 32"

definition sanitizeNotifID :: "string \<Rightarrow> string" where
  "sanitizeNotifID i = (let safe = replace_unsafe file_safe ''_'' i in if safe \<noteq> [] then safe else ''default'')"

definition hex_rune :: "char \<Rightarrow> bool" where
  "hex_rune c \<longleftrightarrow> 97 \<le> byte c \<and> byte c \<le> 102 \<or> 65 \<le> byte c \<and> byte c \<le> 70 \<or> is_digit c"

definition payloadHashPattern :: "string \<Rightarrow> bool" where
  "payloadHashPattern s \<longleftrightarrow> length s = 32 \<and> list_all hex_rune s"

definition icon_name :: "string \<Rightarrow> string \<Rightarrow> string \<Rightarrow> string option" where
  "icon_name app i hash =
     (if hash = [] then Some (replace_unsafe app_safe ''_'' app @ ''-'' @ sanitizeNotifID i @ ''.png'')
      else if \<not> payloadHashPattern hash then None
      else Some (map lower hash @ ''.png''))"

text \<open>The goroutine of a notification, and the popup it prepares.\<close>

record notif_task =
  tk_app :: string
  tk_id :: string
  tk_title :: string
  tk_text :: string
  tk_has_icon :: bool
  tk_ip :: ip
  tk_port :: int
  tk_size :: int
  tk_fingerprint :: string
  tk_hash :: string

text \<open>
  Where the icon is to be taken from: nowhere, a file that is there, or the phone.  \<open>exists\<close> is the file system.
\<close>

datatype icon_source = NoIcon | CachedIcon string | DownloadIcon string

definition icon_source :: "(string \<Rightarrow> bool) \<Rightarrow> notif_task \<Rightarrow> notif_state \<Rightarrow> icon_source" where
  "icon_source exists tk st =
     (if \<not> np_fetch_icons (nt_cfg st) \<or> \<not> nt_has_tls st \<or> nt_icon_dir st = [] then NoIcon
      else case icon_name (tk_app tk) (tk_id tk) (tk_hash tk) of
        None \<Rightarrow> NoIcon
      | Some name \<Rightarrow>
          (case confined_path (nt_icon_dir st) name of
             None \<Rightarrow> NoIcon
           | Some path \<Rightarrow>
               if \<not> tk_has_icon tk then (if exists path then CachedIcon path else NoIcon)
               else if tk_size tk \<le> 0 \<or> tk_size tk > 1024 * 1024 then NoIcon
               else DownloadIcon path))"

definition fetchIcon ::
  "(string \<Rightarrow> string) \<Rightarrow> (string \<Rightarrow> bool) \<Rightarrow> sidechannel_options \<Rightarrow> (int \<times> int) option \<Rightarrow> dial_outcome \<Rightarrow> string \<Rightarrow> bool
     \<Rightarrow> nat \<Rightarrow> file_fault \<Rightarrow> file_state \<Rightarrow> notif_task \<Rightarrow> notif_state \<Rightarrow> string" where
  "fetchIcon sha exists opts stat net stream clean_end k f fs tk st =
     (case icon_source exists tk st of
        NoIcon \<Rightarrow> []
      | CachedIcon path \<Rightarrow> path
      | DownloadIcon path \<Rightarrow>
          (case ReceiveToFile sha (tk_ip tk) (tk_port tk) (tk_size tk) (nt_has_tls st) (tk_fingerprint tk) (1024 * 1024)
             opts stat net stream clean_end k f fs of
             (Received _, _) \<Rightarrow> path
           | _ \<Rightarrow> []))"

section \<open>Notifications of the phone\<close>

definition ellipsis :: string where "ellipsis = [CHR 0xE2, CHR 0x80, CHR 0xA6]"

definition conversation_line :: "conversation_message \<Rightarrow> string option" where
  "conversation_line m =
     (if cvm_sender m \<noteq> [] then Some (cvm_sender m @ '': '' @ cvm_content m)
      else if cvm_content m \<noteq> [] then Some (cvm_content m) else None)"

definition popup_text :: "int \<Rightarrow> notification_body \<Rightarrow> string" where
  "popup_text max_len b =
     (let lines = List.map_filter conversation_line (nb_conversation b);
          text = (if lines \<noteq> [] then join_with [newline] lines else nb_text b)
      in if max_len > 0 \<and> int (length text) > max_len then take (nat max_len) text @ ellipsis
         else if max_len = 0 \<and> length text > 512 then take 512 text @ ellipsis
         else text)"

definition notification_payload :: "notification_body \<Rightarrow> json" where
  "notification_payload b =
     JObj (omit (nb_actions b = []) ''actions'' (JArr (map JStr (nb_actions b)))
       @ [(''appName'', JStr (nb_app_name b))]
       @ omit (nb_conversation b = []) ''conversation'' (JArr (map enc_conversation_message (nb_conversation b)))
       @ omit (nb_group_name b = []) ''groupName'' (JStr (nb_group_name b))
       @ [(''id'', JStr (nb_id b))]
       @ omit (nb_payload_hash b = []) ''payloadHash'' (JStr (nb_payload_hash b))
       @ omit (nb_request_reply_id b = []) ''requestReplyId'' (JStr (nb_request_reply_id b))
       @ omit (\<not> nb_silent b) ''silent'' (JBool True)
       @ [(''text'', JStr (nb_text b))]
       @ omit (nb_ticker b = []) ''ticker'' (JStr (nb_ticker b))
       @ omit (nb_time b = []) ''time'' (JStr (nb_time b))
       @ [(''title'', JStr (nb_title b))])"

definition notif_task :: "ip \<Rightarrow> string \<Rightarrow> packet \<Rightarrow> notification_body \<Rightarrow> notif_state \<Rightarrow> notif_task" where
  "notif_task remote fp pkt b st =
     (let has = pk_payload_size pkt > 0 \<and> pk_transfer pkt \<noteq> None
      in \<lparr>tk_app = replace_unsafe app_safe [] (nb_app_name b), tk_id = nb_id b,
          tk_title = (if nb_title b = [] \<and> nb_group_name b \<noteq> [] then nb_group_name b else nb_title b),
          tk_text = popup_text (np_max_body_length (nt_cfg st)) b,
          tk_has_icon = (has \<and> remote \<noteq> []), tk_ip = (if has then remote else []),
          tk_port = (if has then the (pk_transfer pkt) else 0), tk_size = pk_payload_size pkt,
          tk_fingerprint = (if has \<and> remote \<noteq> [] then fp else []), tk_hash = nb_payload_hash b\<rparr>)"

definition notif_Handle ::
  "bool \<Rightarrow> string \<Rightarrow> ip \<Rightarrow> string \<Rightarrow> packet \<Rightarrow> notif_state \<Rightarrow> (effect list \<times> notif_task option) option \<times> notif_state" where
  "notif_Handle has_bus dev remote fp pkt st =
     (case unmarshal_raw (\<lambda>j. dec_notification_body j zero_notification_body) (pk_body pkt) of
        None \<Rightarrow> (None, st)
      | Some b \<Rightarrow>
          if nb_is_cancel b then
            (let (es, st) = (if nb_id b = [] then ([], st) else cancel_popup (notifKey dev (nb_id b)) st)
             in (Some (es @ publish has_bus ''notification.canceled'' dev (JObj [(''id'', JStr (nb_id b))]), None), st))
          else if np_skip_non_clearable (nt_cfg st) \<and> \<not> nb_is_clearable b then (Some ([], None), st)
          else
            (Some (publish has_bus ''notification'' dev (notification_payload b),
                   if nb_silent b \<or> resolveAction (nb_app_name b) st = ''silent'' \<or> \<not> Allows (nt_popups st) ''notification''
                   then None else Some (notif_task remote fp pkt b st)), st))"

section \<open>Answers\<close>

definition RequestReply :: "string \<Rightarrow> string \<Rightarrow> effect list" where
  "RequestReply replyID message =
     [SendPacket ''kdeconnect.notification.reply'' (JObj [(''message'', JStr message), (''requestReplyId'', JStr replyID)])]"

definition TriggerAction :: "string \<Rightarrow> string \<Rightarrow> effect list" where
  "TriggerAction key action =
     [SendPacket ''kdeconnect.notification.action'' (JObj [(''action'', JStr action), (''key'', JStr key)])]"

definition Dismiss :: "string \<Rightarrow> string \<Rightarrow> notif_state \<Rightarrow> effect list \<times> notif_state" where
  "Dismiss dev i st =
     (let sent = [SendPacket ''kdeconnect.notification.request'' (JObj [(''cancel'', JStr i)])]
      in if i = [] then (sent, st)
         else case nt_ids st (notifKey dev i) of
           None \<Rightarrow> (sent, st)
         | Some s \<Rightarrow> (sent @ closeNotification s, st\<lparr>nt_ids := (nt_ids st)(notifKey dev i := None)\<rparr>))"

section \<open>Runs\<close>

text \<open>What changes the popups; the callback of a timer runs as a whole here.\<close>

datatype notif_op =
    CancelOp string string
  | TimerOp nat
  | PopupBegin string string string string string string
  | PopupEnd string string "string option"
  | DismissOp string string
  | FiltersOp "notification_config option"

fun notif_step :: "notif_op \<Rightarrow> notif_state \<Rightarrow> effect list \<times> notif_state" where
  "notif_step (CancelOp dev i) st = cancel_popup (notifKey dev i) st"
| "notif_step (TimerOp n) st =
     (case timer_fires n st of
        (None, st) \<Rightarrow> ([], st)
      | (Some (key, es), st) \<Rightarrow> (es, timer_done key st))"
| "notif_step (PopupBegin dev app i title text icon) st = ([], snd (popup_begin dev app i title text icon st))"
| "notif_step (PopupEnd dev i out) st = ([], popup_end dev i out st)"
| "notif_step (DismissOp dev i) st = Dismiss dev i st"
| "notif_step (FiltersOp f) st = ([], SetFilters f st)"

definition notif_run :: "notif_op list \<Rightarrow> notif_state \<Rightarrow> notif_state" where
  "notif_run ops st = fold (\<lambda>x st. snd (notif_step x st)) ops st"

text \<open>The popup an operation is about, and the popups it closes.\<close>

fun op_key :: "notif_op \<Rightarrow> notif_state \<Rightarrow> string option" where
  "op_key (CancelOp dev i) st = Some (notifKey dev i)"
| "op_key (DismissOp dev i) st = Some (notifKey dev i)"
| "op_key (TimerOp n) st = map_option (fst \<circ> snd) (find (\<lambda>x. fst x = n) (nt_timers st))"
| "op_key _ st = None"

definition closed_popups :: "effect list \<Rightarrow> string list" where
  "closed_popups es = map last (commands_all es)"

text \<open>The popups a run has shown, with the notification they stand for.\<close>

definition shown :: "notif_op list \<Rightarrow> (string \<times> string) set" where
  "shown ops = {(notifKey dev i, TrimSpace s) | dev i s. PopupEnd dev i (Some s) \<in> set ops}"

definition tracked_ok :: "(string \<times> string) set \<Rightarrow> notif_state \<Rightarrow> bool" where
  "tracked_ok ps st \<longleftrightarrow>
     (\<forall>k s. nt_ids st k = Some s \<longrightarrow> (k, s) \<in> ps \<and> s \<noteq> []) \<and>
     (\<forall>n k w. (n, k, w) \<in> set (nt_timers st) \<longrightarrow> (k, w) \<in> ps \<and> nt_pending st k = Some n)"

definition no_popups :: "notif_state \<Rightarrow> bool" where
  "no_popups st \<longleftrightarrow> nt_ids st = Map.empty \<and> nt_timers st = []"

section \<open>Facts\<close>

lemma closed_simps [simp]:
  "closed_popups [] = []" "closed_popups (closeNotification s) = [s]"
  "closed_popups (SendPacket typ body # es) = closed_popups es"
  by (simp_all add: closed_popups_def closeNotification_def)

lemma tracked_mono: "tracked_ok ps st \<Longrightarrow> ps \<subseteq> qs \<Longrightarrow> tracked_ok qs st"
  by (fastforce simp: tracked_ok_def)

lemma find_timer: "find (\<lambda>x. fst x = n) ts = Some (m, k, w) \<Longrightarrow> m = n \<and> (n, k, w) \<in> set ts"
  by (induction ts) (auto split: if_splits)

lemma tracked_cancel: "tracked_ok ps st \<Longrightarrow> tracked_ok ps (snd (cancel_popup k st))"
  by (auto simp: tracked_ok_def cancel_popup_def stop_notif_timer_def Let_def split: option.splits if_splits)

lemma tracked_timer:
  assumes "tracked_ok ps st"
  shows "tracked_ok ps (snd (notif_step (TimerOp n) st))"
proof (cases "find (\<lambda>x. fst x = n) (nt_timers st)")
  case None
  then show ?thesis using assms by (simp add: timer_fires_def)
next
  case (Some x)
  obtain k w where x: "x = (n, k, w)" "(n, k, w) \<in> set (nt_timers st)"
    using find_timer Some by (metis prod_cases3)
  have "nt_pending st k = Some n" using assms x(2) by (simp add: tracked_ok_def)
  then have "k' \<noteq> k" if "(m, k', w') \<in> set (nt_timers st)" "m \<noteq> n" for m k' w'
    using assms that by (auto simp: tracked_ok_def)
  then show ?thesis using assms Some x(1) by (auto simp: tracked_ok_def timer_fires_def timer_done_def Let_def)
qed

lemma popup_begin_state:
  "snd (popup_begin dev app i title text icon st) =
     (if popup_backend st \<noteq> None \<and> nt_can_close st \<and> i \<noteq> [] \<and> np_replace_notifications (nt_cfg st)
      then (stop_notif_timer (nt_pending st (notifKey dev i)) st)\<lparr>nt_pending := (nt_pending st)(notifKey dev i := None)\<rparr>
      else st)"
  by (auto simp: popup_begin_def popup_tracked_def split: option.splits)

lemma tracked_begin: "tracked_ok ps st \<Longrightarrow> tracked_ok ps (snd (popup_begin dev app i title text icon st))"
  unfolding popup_begin_state
  by (auto simp: tracked_ok_def stop_notif_timer_def split: option.splits)

lemma tracked_end:
  "tracked_ok ps st \<Longrightarrow> (\<And>s. out = Some s \<Longrightarrow> (notifKey dev i, TrimSpace s) \<in> ps) \<Longrightarrow> tracked_ok ps (popup_end dev i out st)"
  by (auto simp: tracked_ok_def popup_end_def split: option.splits)

lemma tracked_dismiss: "tracked_ok ps st \<Longrightarrow> tracked_ok ps (snd (Dismiss dev i st))"
  by (auto simp: tracked_ok_def Dismiss_def Let_def split: option.splits)

lemma tracked_step:
  assumes "tracked_ok ps st" and "shown [x] \<subseteq> ps"
  shows "tracked_ok ps (snd (notif_step x st))"
proof (cases x)
  case (PopupEnd dev i out)
  then have "\<And>s. out = Some s \<Longrightarrow> (notifKey dev i, TrimSpace s) \<in> ps" using assms(2) by (auto simp: shown_def)
  then show ?thesis using PopupEnd tracked_end [OF assms(1)] by simp
next
  case (FiltersOp f)
  then show ?thesis using assms(1) by (simp add: SetFilters_def tracked_ok_def)
next
  case (TimerOp n)
  then show ?thesis using tracked_timer [OF assms(1)] by simp
qed (use tracked_cancel tracked_begin tracked_dismiss assms(1) in simp_all)

lemma tracked_run: "no_popups st \<Longrightarrow> tracked_ok (shown ops) (notif_run ops st)"
proof (induction ops rule: rev_induct)
  case Nil
  then show ?case by (simp add: no_popups_def tracked_ok_def notif_run_def)
next
  case (snoc x ops)
  have "shown ops \<subseteq> shown (ops @ [x])" "shown [x] \<subseteq> shown (ops @ [x])" by (auto simp: shown_def)
  then show ?case using tracked_step tracked_mono snoc by (simp add: notif_run_def)
qed

lemma step_closes:
  assumes "tracked_ok ps st" and "s \<in> set (closed_popups (fst (notif_step x st)))"
  shows "\<exists>k. op_key x st = Some k \<and> (k, s) \<in> ps"
  using assms
  by (cases x)
    (auto simp: tracked_ok_def cancel_popup_def Dismiss_def timer_fires_def Let_def
      split: option.splits if_splits dest!: find_timer)

text \<open>
  A popup that is closed, by a cancellation, by the end of its grace or by a dismissal, is one that was shown for
  the same notification of the same device.
\<close>
theorem closes_own_popups_only:
  assumes "no_popups st" and "s \<in> set (closed_popups (fst (notif_step x (notif_run ops st))))"
  shows "\<exists>dev i out. op_key x (notif_run ops st) = Some (notifKey dev i) \<and> PopupEnd dev i (Some out) \<in> set ops \<and>
    s = TrimSpace out"
  using step_closes [OF tracked_run [OF assms(1)] assms(2)] by (auto simp: shown_def)

text \<open>Identifiers of devices hold no bar, so the key tells the devices apart.\<close>

lemma notifKey_eq:
  assumes "CHR ''|'' \<notin> set dev" and "CHR ''|'' \<notin> set dev'" and "notifKey dev i = notifKey dev' i'"
  shows "dev = dev' \<and> i = i'"
proof -
  have "takeWhile (\<lambda>c. c \<noteq> CHR ''|'') (notifKey dev i) = dev" "takeWhile (\<lambda>c. c \<noteq> CHR ''|'') (notifKey dev' i') = dev'"
    using assms(1,2) by (auto simp: notifKey_def takeWhile_append)
  then show ?thesis using assms(3) by (simp add: notifKey_def)
qed


text \<open>A plugin that tracks popups and has shown the popup \<open>7\<close> for the notification \<open>n\<close> of the phone \<open>d\<close>.\<close>

definition demo_notifier :: notif_state where
  "demo_notifier = newNotificationPlugin (zero_notification_plugin_config\<lparr>np_replace_notifications := True, np_cancel_grace_ms := 1500\<rparr>)
     zero_popups_config ''auto'' False (Some ''--print-id'') None"

lemma demo_trim: "TrimSpace ''7'' = ''7''"
  by (simp add: TrimSpace_def bytes_of_def runes.simps utf8_next.simps is_space_rune_def Let_def)

lemma demo_notifier_simps [simp]:
  "no_popups demo_notifier" "nt_can_close demo_notifier" "nt_cfg demo_notifier = zero_notification_plugin_config
     \<lparr>np_replace_notifications := True, np_cancel_grace_ms := 1500\<rparr>" "nt_backend demo_notifier = ''auto''"
  by (simp_all add: demo_notifier_def newNotificationPlugin_def no_popups_def contains.simps has_prefix_def)

lemma demo_shown:
  "notif_run [PopupEnd ''d'' ''n'' (Some ''7'')] demo_notifier =
     demo_notifier\<lparr>nt_ids := (nt_ids demo_notifier)(notifKey ''d'' ''n'' \<mapsto> ''7'')\<rparr>"
  by (simp add: notif_run_def popup_end_def popup_tracked_def demo_trim)


theorem closes_own_popups_only_witness:
  "\<exists>dev i out. op_key (DismissOp ''d'' ''n'') (notif_run [PopupEnd ''d'' ''n'' (Some ''7'')] demo_notifier) = Some (notifKey dev i) \<and>
    PopupEnd dev i (Some out) \<in> set [PopupEnd ''d'' ''n'' (Some ''7'')] \<and> ''7'' = TrimSpace out"
  by (rule closes_own_popups_only [OF demo_notifier_simps(1)]) (simp add: demo_shown Dismiss_def)

text \<open>
  Without replacement the grace loses track: when the notification comes again as a new popup, the callback neither
  closes the old popup nor keeps the identifier of the new one, which no later cancellation closes.
\<close>
theorem grace_loses_track:
  assumes "nt_timers st = []" and "np_cancel_grace_ms (nt_cfg st) > 0" and "nt_ids st (notifKey dev i) = Some old"
    and "\<not> np_replace_notifications (nt_cfg st)"
    and "nt_can_close st" and "i \<noteq> []" and "TrimSpace out \<noteq> []" and "TrimSpace out \<noteq> old"
    and "notif_run [CancelOp dev i, PopupBegin dev app i title body icon, PopupEnd dev i (Some out)] st = st1"
    and "notif_step (TimerOp (nt_next_timer st)) st1 = (es, st2)"
  shows "es = [] \<and> cancel_popup (notifKey dev i) st2 = ([], st2)"
proof -
  let ?k = "notifKey dev i" and ?n = "nt_next_timer st"
  have "snd (cancel_popup ?k st) = st\<lparr>nt_pending := (nt_pending st)(?k \<mapsto> ?n), nt_timers := [(?n, ?k, old)], nt_next_timer := Suc ?n\<rparr>"
    using assms(1-3) by (simp add: cancel_popup_def stop_notif_timer_def Let_def split: option.splits)
  then have st1: "st1 = st\<lparr>nt_pending := (nt_pending st)(?k \<mapsto> ?n), nt_timers := [(?n, ?k, old)], nt_next_timer := Suc ?n,
      nt_ids := (nt_ids st)(?k \<mapsto> TrimSpace out)\<rparr>"
    using assms(4-7,9) by (simp add: notif_run_def popup_begin_state popup_end_def popup_tracked_def)
  have "es = [] \<and> nt_ids st2 ?k = None"
    using assms(8,10) unfolding st1 by (auto simp: timer_fires_def timer_done_def Let_def)
  then show ?thesis by (simp add: cancel_popup_def)
qed

section \<open>What the phone controls\<close>

text \<open>
  The text of the phone comes after the end of the options, and the options do not depend on it.
\<close>
theorem text_is_no_option:
  assumes "popup_backend st \<noteq> Some ''dbus''" and "popup_backend st \<noteq> None"
  shows "\<exists>opts. \<forall>title body. fst (popup_begin dev app i title body icon st) = Some (opts @ [''--'', title, body])"
  using assms by (intro exI [of _ "''notify-send'' # popup_options dev app i icon st"]) (auto simp: popup_begin_def)

lemma app_safe_ascii: "app_safe r \<Longrightarrow> r < 128 \<and> r \<noteq> 47"
  by (auto simp: app_safe_def file_safe_def)

lemma lower_slash: "lower c = slash \<Longrightarrow> c = slash"
proof -
  assume l: "lower c = slash"
  show ?thesis
  proof (cases "65 \<le> byte c \<and> byte c \<le> 90")
    case True
    then have "byte (lower c) = byte c + 32" by (simp add: lower_def)
    then show ?thesis using True l by (simp add: slash_def)
  next
    case False
    then show ?thesis using l by (simp only: lower_def if_False)
  qed
qed

lemma icon_name_plain: "icon_name app i hash = Some name \<Longrightarrow> plain_part name"
proof -
  assume n: "icon_name app i hash = Some name"
  have slash_free: "slash \<notin> set (replace_unsafe app_safe ''_'' app)" "slash \<notin> set (sanitizeNotifID i)"
    using replaced_no_slash [of app_safe "''_''" app] replaced_no_slash [of file_safe "''_''" i] app_safe_ascii file_safe_ascii
    by (auto simp: sanitizeNotifID_def slash_def Let_def)
  have "\<not> hex_rune slash" by (simp add: hex_rune_def is_digit_def slash_def)
  then have "slash \<notin> set (map lower hash)" if "payloadHashPattern hash"
    using that by (auto simp: payloadHashPattern_def list_all_iff dest!: sym [THEN lower_slash])
  then show ?thesis
    using n slash_free plain_with_ext [of "replace_unsafe app_safe ''_'' app @ ''-'' @ sanitizeNotifID i" "''.png''"]
      plain_with_ext [of "map lower hash" "''.png''"]
    by (auto simp: icon_name_def slash_def dotdot_def split: if_splits)
qed

text \<open>
  Whatever application name, identifier and hash the phone sends, the icon is a file directly in the directory of
  the icons.
\<close>
theorem icon_confined:
  assumes "is_rooted (nt_icon_dir st)" and "icon_source exists tk st \<in> {CachedIcon path, DownloadIcon path}"
  shows "\<exists>ps n. Clean (nt_icon_dir st) = slash # join_with [slash] ps \<and> plain_part n \<and>
    path = slash # join_with [slash] (ps @ [n])"
proof -
  obtain name where "icon_name (tk_app tk) (tk_id tk) (tk_hash tk) = Some name"
    "confined_path (nt_icon_dir st) name = Some path"
    using assms(2) by (auto simp: icon_source_def split: if_splits option.splits)
  then show ?thesis using confined_plain [OF assms(1) icon_name_plain] icon_name_plain by blast
qed

text \<open>
  The filters decide about popups only: the event of a notification is published in any case, and a popup is
  prepared exactly when the phone did not mark it silent, the application's action is not silent and popups are allowed.
\<close>
theorem filters_decide_popups:
  assumes "unmarshal_raw (\<lambda>j. dec_notification_body j zero_notification_body) (pk_body pkt) = Some b"
    and "\<not> nb_is_cancel b" and "\<not> np_skip_non_clearable (nt_cfg st)"
  shows "\<exists>task. notif_Handle has_bus dev remote fp pkt st = (Some (publish has_bus ''notification'' dev (notification_payload b), task), st) \<and>
    (task \<noteq> None \<longleftrightarrow> \<not> nb_silent b \<and> resolveAction (nb_app_name b) st \<noteq> ''silent'' \<and> Allows (nt_popups st) ''notification'')"
  using assms by (simp add: notif_Handle_def)

text \<open>
  With the \<open>dbus\<close> backend a popup never replaces another one: the command does not depend on the popups shown before.
\<close>
theorem dbus_never_replaces:
  assumes "popup_backend st = Some ''dbus''"
  shows "fst (popup_begin dev app i title text icon (st\<lparr>nt_ids := ids\<rparr>)) = fst (popup_begin dev app i title text icon st)"
proof -
  have b: "popup_backend (st\<lparr>nt_ids := ids\<rparr>) = popup_backend st" by (simp add: popup_backend_def)
  show ?thesis using assms b by (simp add: popup_begin_def popup_icon_def)
qed

end
