(* ===== verification/Sms.thy ===== *)
theory Sms
  imports JsonLists FileNames PayloadTransfer ConfigSections
begin

text \<open>
  The SMS plugin (\<open>internal/plugins/sms\<close>): messages of the phone as events and popups, the requests for
  conversations and attachments, and the arming, which asks a phone once per connection to push its messages, and only
  while a client watches them.

  The devices are a list of identifiers; whether a device is connected and understands the request is known when the
  background task runs.  The clock is in milliseconds.
\<close>

section \<open>The packet bodies\<close>

record sms_address =
  sad_address :: string

definition zero_sms_address :: sms_address where
  "zero_sms_address = \<lparr>sad_address = []\<rparr>"

definition sms_address_fields :: "sms_address field list" where
  "sms_address_fields =
     [(''address'', fld dec_str sad_address sad_address_update)]"

definition dec_sms_address :: "json \<Rightarrow> sms_address \<Rightarrow> sms_address option" where
  "dec_sms_address j = dec_struct (dec_fields sms_address_fields) j"

record sms_attachment =
  sat_part_id :: int
  sat_mime_type :: string
  sat_encoded_thumbnail :: string
  sat_unique_identifier :: string

definition zero_sms_attachment :: sms_attachment where
  "zero_sms_attachment = \<lparr>sat_part_id = 0, sat_mime_type = [], sat_encoded_thumbnail = [], sat_unique_identifier = []\<rparr>"

definition sms_attachment_fields :: "sms_attachment field list" where
  "sms_attachment_fields =
     [(''part_id'', fld dec_int sat_part_id sat_part_id_update),
      (''mime_type'', fld dec_str sat_mime_type sat_mime_type_update),
      (''encoded_thumbnail'', fld dec_str sat_encoded_thumbnail sat_encoded_thumbnail_update),
      (''unique_identifier'', fld dec_str sat_unique_identifier sat_unique_identifier_update)]"

definition dec_sms_attachment :: "json \<Rightarrow> sms_attachment \<Rightarrow> sms_attachment option" where
  "dec_sms_attachment j = dec_struct (dec_fields sms_attachment_fields) j"

definition enc_sms_attachment :: "sms_attachment \<Rightarrow> json" where
  "enc_sms_attachment x =
     JObj ([(''part_id'', enc_int (sat_part_id x))]
           @ [(''mime_type'', JStr (sat_mime_type x))]
           @ omit (sat_encoded_thumbnail x = []) ''encoded_thumbnail'' (JStr (sat_encoded_thumbnail x))
           @ [(''unique_identifier'', JStr (sat_unique_identifier x))])"

record sms_message =
  smg_event :: int
  smg_body :: string
  smg_addresses :: "sms_address list option"
  smg_date :: int
  smg_type :: int
  smg_thread_id :: int
  smg_read :: bool
  smg_uid :: int
  smg_sub_id :: int
  smg_attachments :: "sms_attachment list"

definition zero_sms_message :: sms_message where
  "zero_sms_message =
     \<lparr>smg_event = 0, smg_body = [], smg_addresses = None, smg_date = 0, smg_type = 0,
      smg_thread_id = 0, smg_read = False, smg_uid = 0, smg_sub_id = 0, smg_attachments = []\<rparr>"

definition sms_message_fields :: "sms_message field list" where
  "sms_message_fields =
     [(''event'', fld dec_int smg_event smg_event_update),
      (''body'', fld dec_str smg_body smg_body_update),
      (''addresses'', fld (dec_nlist dec_sms_address zero_sms_address) smg_addresses smg_addresses_update),
      (''date'', fld dec_int smg_date smg_date_update),
      (''type'', fld dec_int smg_type smg_type_update),
      (''thread_id'', fld dec_int smg_thread_id smg_thread_id_update),
      (''read'', fld dec_flexbool smg_read smg_read_update),
      (''_id'', fld dec_int smg_uid smg_uid_update),
      (''sub_id'', fld dec_int smg_sub_id smg_sub_id_update),
      (''attachments'', fld (dec_list dec_sms_attachment zero_sms_attachment)
         smg_attachments smg_attachments_update)]"

definition dec_sms_message :: "json \<Rightarrow> sms_message \<Rightarrow> sms_message option" where
  "dec_sms_message j = dec_struct (dec_fields sms_message_fields) j"

record sms_messages_packet =
  smp_version :: int
  smp_messages :: "sms_message list option"

definition zero_sms_messages_packet :: sms_messages_packet where
  "zero_sms_messages_packet = \<lparr>smp_version = 0, smp_messages = None\<rparr>"

definition sms_messages_packet_fields :: "sms_messages_packet field list" where
  "sms_messages_packet_fields =
     [(''version'', fld dec_int smp_version smp_version_update),
      (''messages'', fld (dec_nlist dec_sms_message zero_sms_message) smp_messages smp_messages_update)]"

definition dec_sms_messages_packet :: "json \<Rightarrow> sms_messages_packet \<Rightarrow> sms_messages_packet option" where
  "dec_sms_messages_packet j = dec_struct (dec_fields sms_messages_packet_fields) j"

record attachment_file_body =
  afb_filename :: string
  afb_thread_id :: int

definition zero_attachment_file_body :: attachment_file_body where
  "zero_attachment_file_body = \<lparr>afb_filename = [], afb_thread_id = 0\<rparr>"

definition attachment_file_body_fields :: "attachment_file_body field list" where
  "attachment_file_body_fields =
     [(''filename'', fld dec_str afb_filename afb_filename_update),
      (''thread_id'', fld dec_int afb_thread_id afb_thread_id_update)]"

definition dec_attachment_file_body :: "json \<Rightarrow> attachment_file_body \<Rightarrow> attachment_file_body option" where
  "dec_attachment_file_body j = dec_struct (dec_fields attachment_file_body_fields) j"

section \<open>State\<close>

record sms_plugin =
  sp_cfg :: sms_config
  sp_has_bus :: bool
  sp_notifications :: notification_config
  sp_cache_dir :: string
  sp_devices :: "string list"
  sp_armed_at :: "string \<rightharpoonup> int"
  sp_threads :: "string \<rightharpoonup> int"

text \<open>\<open>temp_dir\<close> is the directory of the system for temporary files.\<close>

definition NewSMSPlugin :: "sms_config \<Rightarrow> bool \<Rightarrow> notification_config \<Rightarrow> string \<Rightarrow> string \<Rightarrow> sms_plugin" where
  "NewSMSPlugin cfg has_bus notifications cache_dir temp_dir =
     \<lparr>sp_cfg = cfg, sp_has_bus = has_bus, sp_notifications = notifications,
      sp_cache_dir = (if cache_dir = [] then Join [temp_dir, ''kcd'', ''sms-attachments''] else cache_dir),
      sp_devices = [], sp_armed_at = Map.empty, sp_threads = Map.empty\<rparr>"

section \<open>Requests\<close>

definition sms_prefix :: "string \<Rightarrow> string" where "sms_prefix s = ''kdeconnect.sms.'' @ s"

definition SendSMS :: "string \<Rightarrow> string \<Rightarrow> int option \<Rightarrow> effect list" where
  "SendSMS phoneNumber message subID =
     [SendPacket (sms_prefix ''request'') (JObj (
        [(''addresses'', JArr [JObj [(''address'', JStr phoneNumber)]]),
         (''messageBody'', JStr message),
         (''phoneNumber'', JStr phoneNumber)]
        @ (case subID of Some n \<Rightarrow> if n \<ge> 0 then [(''subID'', enc_int n)] else [] | None \<Rightarrow> [])
        @ [(''version'', enc_int 2)]))]"

definition RequestConversations :: "effect list" where
  "RequestConversations = [SendPacket (sms_prefix ''request_conversations'') (JObj [])]"

definition defaultNumberToRequest :: int where "defaultNumberToRequest = 500"

definition RequestConversation :: "int \<Rightarrow> int \<Rightarrow> int \<Rightarrow> effect list" where
  "RequestConversation threadID rangeStart num =
     [SendPacket (sms_prefix ''request_conversation'') (JObj (
        [(''numberToRequest'', enc_int (if num < 0 then defaultNumberToRequest else num))]
        @ (if rangeStart \<ge> 0 then [(''rangeStartTimestamp'', enc_int rangeStart)] else [])
        @ [(''threadID'', enc_int threadID)]))]"

definition RequestAttachment :: "int \<Rightarrow> string \<Rightarrow> int option \<Rightarrow> sms_plugin \<Rightarrow> effect list \<times> sms_plugin" where
  "RequestAttachment partID uniqueIdentifier threadID st =
     ([SendPacket (sms_prefix ''request_attachment'')
         (JObj [(''part_id'', enc_int partID), (''unique_identifier'', JStr uniqueIdentifier)])],
      case threadID of
        Some n \<Rightarrow> if n > 0 then st\<lparr>sp_threads := (sp_threads st)(uniqueIdentifier \<mapsto> n)\<rparr> else st
      | None \<Rightarrow> st)"

section \<open>Arming\<close>

definition sms_armed :: "'p bus \<Rightarrow> sms_plugin \<Rightarrow> bool" where
  "sms_armed b st \<longleftrightarrow> sm_always_arm (sp_cfg st) \<or> sp_has_bus st \<and> HasSubscribers TypeSMSIncoming b"

text \<open>
  The devices that are marked as armed now, and what the background task sends them: \<open>ready\<close> says which of them are
  connected and have the capability when it runs.  The map of devices is iterated in any order.
\<close>

definition syncArming :: "'p bus \<Rightarrow> int \<Rightarrow> sms_plugin \<Rightarrow> string list \<times> sms_plugin" where
  "syncArming b now st =
     (if \<not> sms_armed b st then ([], st)
      else let targets = filter (\<lambda>i. sp_armed_at st i = None) (sp_devices st)
           in (targets, st\<lparr>sp_armed_at := \<lambda>i. if i \<in> set targets then Some now else sp_armed_at st i\<rparr>))"

definition arming_requests :: "(string \<Rightarrow> bool) \<Rightarrow> string list \<Rightarrow> (string \<times> effect list) list" where
  "arming_requests ready targets = map (\<lambda>i. (i, RequestConversations)) (filter ready targets)"

definition sms_OnConnect :: "'p bus \<Rightarrow> int \<Rightarrow> string \<Rightarrow> sms_plugin \<Rightarrow> string list \<times> sms_plugin" where
  "sms_OnConnect b now dev st =
     syncArming b now (st\<lparr>sp_devices := List.insert dev (sp_devices st), sp_armed_at := (sp_armed_at st)(dev := None)\<rparr>)"

definition sms_OnDisconnect :: "string \<Rightarrow> sms_plugin \<Rightarrow> sms_plugin" where
  "sms_OnDisconnect dev st =
     st\<lparr>sp_devices := removeAll dev (sp_devices st), sp_armed_at := (sp_armed_at st)(dev := None)\<rparr>"

section \<open>Messages\<close>

definition maxSMSMessages :: nat where "maxSMSMessages = 1000"

definition shouldNotify :: "sms_message \<Rightarrow> bool \<Rightarrow> int \<Rightarrow> sms_plugin \<Rightarrow> bool" where
  "shouldNotify msg isArmed armAtMs st \<longleftrightarrow>
     sm_notify_incoming (sp_cfg st) \<and> isArmed \<and> smg_type msg = 1 \<and> smg_date msg \<ge> armAtMs"

definition sms_sender :: "sms_message \<Rightarrow> string" where
  "sms_sender msg = (case smg_addresses msg of Some (a # _) \<Rightarrow> sad_address a | _ \<Rightarrow> [])"

definition sms_event :: "sms_message \<Rightarrow> json" where
  "sms_event msg =
     JObj (omit (smg_attachments msg = []) ''attachments'' (JArr (map enc_sms_attachment (smg_attachments msg)))
       @ [(''body'', JStr (smg_body msg)), (''date'', enc_int (smg_date msg)), (''event'', enc_int (smg_event msg)),
          (''read'', JBool (smg_read msg)), (''sender'', JStr (sms_sender msg)), (''sub_id'', enc_int (smg_sub_id msg)),
          (''thread_id'', enc_int (smg_thread_id msg)), (''type'', enc_int (smg_type msg)),
          (''u_id'', enc_int (smg_uid msg))])"

definition sms_popup_text :: "sms_message \<Rightarrow> string" where
  "sms_popup_text msg =
     (if smg_body msg = [] \<and> smg_attachments msg \<noteq> [] then ''[Attachment]''
      else if length (smg_body msg) > 120 then take 120 (smg_body msg) @ [CHR 0xE2, CHR 0x80, CHR 0xA6]
      else smg_body msg)"

definition sms_popup :: "sms_message \<Rightarrow> sms_plugin \<Rightarrow> string list" where
  "sms_popup msg st =
     [''notify-send'', ''-a'', AppName (sp_notifications st), ''-i'', ''dialog-information'',
      ''SMS from '' @ sms_sender msg, sms_popup_text msg]"

definition handle_message :: "string \<Rightarrow> bool \<Rightarrow> int \<Rightarrow> sms_plugin \<Rightarrow> sms_message \<Rightarrow> effect list" where
  "handle_message dev isArmed armAtMs st msg =
     (if smg_body msg = [] \<and> smg_attachments msg = [] then []
      else publish (sp_has_bus st) TypeSMSIncoming dev (sms_event msg)
        @ (if shouldNotify msg isArmed armAtMs st then [Spawned [RunCommand (sms_popup msg st)]] else []))"

text \<open>A missing body is no error; the arm time of a device that is not armed is not looked at.\<close>

definition handleMessages :: "'p bus \<Rightarrow> string \<Rightarrow> packet \<Rightarrow> sms_plugin \<Rightarrow> effect list option" where
  "handleMessages b dev pkt st =
     (if pk_body pkt = None then Some []
      else case unmarshal_raw (\<lambda>j. dec_sms_messages_packet j zero_sms_messages_packet) (pk_body pkt) of
        None \<Rightarrow> None
      | Some batch \<Rightarrow>
          (let msgs = take maxSMSMessages (case smp_messages batch of None \<Rightarrow> [] | Some ms \<Rightarrow> ms);
               isArmed = (sp_armed_at st dev \<noteq> None \<and> sms_armed b st);
               armAtMs = (case sp_armed_at st dev of None \<Rightarrow> 0 | Some t \<Rightarrow> t)
           in Some (concat (map (handle_message dev isArmed armAtMs st) msgs))))"

section \<open>Attachments\<close>

definition maxSMSAttachmentBytes :: int where "maxSMSAttachmentBytes = 50 * 1024 * 1024"

definition cleanFilename :: "string \<Rightarrow> string" where
  "cleanFilename name = SanitizeFilename name [''downloaded_attachment'']"

record sms_download =
  sd_body :: attachment_file_body
  sd_dest :: string
  sd_ip :: ip
  sd_port :: int
  sd_size :: int
  sd_fingerprint :: string

text \<open>The result: an error, nothing to do, or the download that is started.\<close>

definition handleAttachmentFile :: "ip \<Rightarrow> string \<Rightarrow> packet \<Rightarrow> sms_plugin \<Rightarrow> unit + sms_download option" where
  "handleAttachmentFile remote fp pkt st =
     (if pk_body pkt = None then Inr None
      else case unmarshal_raw (\<lambda>j. dec_attachment_file_body j zero_attachment_file_body) (pk_body pkt) of
        None \<Rightarrow> Inl ()
      | Some body \<Rightarrow>
          if afb_filename body = [] then Inr None
          else (case pk_transfer pkt of
             None \<Rightarrow> Inr None
           | Some port \<Rightarrow>
               if port = 0 then Inr None
               else if remote = [] then Inl ()
               else Inr (Some \<lparr>sd_body = body, sd_dest = Join [sp_cache_dir st, cleanFilename (afb_filename body)],
                           sd_ip = remote, sd_port = port, sd_size = pk_payload_size pkt, sd_fingerprint = fp\<rparr>)))"

definition receiveAttachment ::
  "(string \<Rightarrow> string) \<Rightarrow> bool \<Rightarrow> sidechannel_options \<Rightarrow> (int \<times> int) option \<Rightarrow> dial_outcome \<Rightarrow> string \<Rightarrow> bool \<Rightarrow> nat
     \<Rightarrow> file_fault \<Rightarrow> sms_download \<Rightarrow> file_state \<Rightarrow> bool \<times> file_state" where
  "receiveAttachment sha has_tls opts stat net stream clean_end k f dl fs =
     (if sd_size dl \<le> 0 \<or> sd_size dl > maxSMSAttachmentBytes then (False, fs)
      else case ReceiveToFile sha (sd_ip dl) (sd_port dl) (sd_size dl) has_tls (sd_fingerprint dl) maxSMSAttachmentBytes
             opts stat net stream clean_end k f fs of
        (Received _, fs) \<Rightarrow> (True, fs)
      | (_, fs) \<Rightarrow> (False, fs))"

text \<open>The end of a download: the thread the attachment was asked for is looked up when the phone did not say.\<close>

definition attachment_received :: "bool \<Rightarrow> string \<Rightarrow> sms_download \<Rightarrow> sms_plugin \<Rightarrow> effect list \<times> sms_plugin" where
  "attachment_received ok dev dl st =
     (if \<not> ok then ([], st)
      else let name = afb_filename (sd_body dl);
               given = afb_thread_id (sd_body dl);
               thread = (if given = 0 then (case sp_threads st name of Some n \<Rightarrow> n | None \<Rightarrow> 0) else given)
           in (publish (sp_has_bus st) TypeSMSAttachment dev
                 (JObj [(''filename'', JStr name), (''path'', JStr (sd_dest dl)), (''thread_id'', enc_int thread)]),
               if given = 0 then st\<lparr>sp_threads := (sp_threads st)(name := None)\<rparr> else st))"

text \<open>The handler: messages, the start of a download, or nothing.\<close>

definition sms_Handle ::
  "'p bus \<Rightarrow> string \<Rightarrow> ip \<Rightarrow> string \<Rightarrow> packet \<Rightarrow> sms_plugin \<Rightarrow> unit + effect list \<times> sms_download option" where
  "sms_Handle b dev remote fp pkt st =
     (if pk_type pkt = sms_prefix ''messages'' then
        (case handleMessages b dev pkt st of None \<Rightarrow> Inl () | Some es \<Rightarrow> Inr (es, None))
      else if pk_type pkt = sms_prefix ''attachment_file'' then
        map_sum id (\<lambda>d. ([], d)) (handleAttachmentFile remote fp pkt st)
      else Inr ([], None))"

section \<open>Runs of the arming\<close>

text \<open>
  What happens to the plugin: connections, changes of the subscribers (the bus calls \<open>syncArming\<close> then), requests for
  attachments.
\<close>

datatype sms_op =
    DeviceUp string
  | DeviceDown string
  | SubscribersChanged
  | AttachmentAsked int string "int option"

fun sms_step :: "'p bus \<Rightarrow> int \<Rightarrow> sms_op \<Rightarrow> sms_plugin \<Rightarrow> string list \<times> sms_plugin" where
  "sms_step b now (DeviceUp dev) st = sms_OnConnect b now dev st"
| "sms_step b now (DeviceDown dev) st = ([], sms_OnDisconnect dev st)"
| "sms_step b now SubscribersChanged st = syncArming b now st"
| "sms_step b now (AttachmentAsked part u thread) st = ([], snd (RequestAttachment part u thread st))"

text \<open>The devices that are asked over a run; the bus and the clock change between the operations.\<close>

fun sms_asked :: "('p bus \<times> int \<times> sms_op) list \<Rightarrow> sms_plugin \<Rightarrow> string list" where
  "sms_asked [] st = []"
| "sms_asked ((b, now, x) # ops) st = (case sms_step b now x st of (targets, st) \<Rightarrow> targets @ sms_asked ops st)"

definition connects :: "string \<Rightarrow> ('p bus \<times> int \<times> sms_op) list \<Rightarrow> nat" where
  "connects dev ops = length (filter (\<lambda>(b, now, x). x = DeviceUp dev) ops)"

text \<open>
  A phone is asked to push its messages only while a client watches for them by that very name, unless the owner
  has set \<open>always_arm\<close>.
\<close>
theorem sms_asked_only_if_watched:
  assumes "dev \<in> set (fst (sms_step b now x st))" and "\<not> sm_always_arm (sp_cfg st)"
  shows "\<exists>i s. bus_subs b i = Some s \<and> TypeSMSIncoming \<in> set (sb_filters s)"
proof -
  have "sms_armed b (st\<lparr>sp_devices := ds, sp_armed_at := a\<rparr>) = sms_armed b st" for ds a by (simp add: sms_armed_def)
  then have "sms_armed b st"
    using assms(1) by (cases x) (auto simp: sms_OnConnect_def syncArming_def split: if_splits)
  then obtain i s where "bus_subs b i = Some s" "matches s TypeSMSIncoming"
    using assms(2) by (auto simp: sms_armed_def HasSubscribers_def list_ex_iff split: option.splits)
  moreover from this have "TypeSMSIncoming \<in> set (sb_filters s)"
    by (auto simp: matches_eq matchesFilters_def isOptInOnly_def OptInOnly_def list_ex_iff split: if_splits)
  ultimately show ?thesis by blast
qed

text \<open>Whether a device is still to be asked.\<close>

definition to_ask :: "string \<Rightarrow> sms_plugin \<Rightarrow> nat" where
  "to_ask dev st = (if dev \<in> set (sp_devices st) \<and> sp_armed_at st dev = None then 1 else 0)"

lemma sync_asked:
  assumes "distinct (sp_devices st)" and "syncArming b now st = (targets, st')"
  shows "distinct (sp_devices st') \<and> count_list targets dev + to_ask dev st' = to_ask dev st"
proof -
  have c: "distinct xs \<Longrightarrow> count_list xs dev = (if dev \<in> set xs then 1 else 0)" for xs :: "string list"
    by (induction xs) auto
  show ?thesis
    using assms by (auto simp: syncArming_def to_ask_def Let_def c split: if_splits)
qed

lemma step_asked:
  assumes "distinct (sp_devices st)" and "sms_step b now x st = (targets, st')"
  shows "distinct (sp_devices st') \<and>
    count_list targets dev + to_ask dev st' \<le> (if x = DeviceUp dev then 1 else 0) + to_ask dev st"
proof (cases x)
  case (DeviceUp d)
  let ?st = "st\<lparr>sp_devices := List.insert d (sp_devices st), sp_armed_at := (sp_armed_at st)(d := None)\<rparr>"
  have "distinct (sp_devices ?st)" using assms(1) by simp
  then have "distinct (sp_devices st') \<and> count_list targets dev + to_ask dev st' = to_ask dev ?st"
    by (rule sync_asked) (use assms(2) DeviceUp in \<open>simp add: sms_OnConnect_def\<close>)
  then show ?thesis using DeviceUp by (auto simp: to_ask_def)
next
  case SubscribersChanged
  then show ?thesis using sync_asked [OF assms(1)] assms(2) by fastforce
next
  case (DeviceDown d)
  then show ?thesis using assms by (auto simp: sms_OnDisconnect_def to_ask_def distinct_removeAll)
next
  case (AttachmentAsked part u thread)
  then show ?thesis using assms by (auto simp: RequestAttachment_def to_ask_def split: option.splits if_splits)
qed

lemma run_asked:
  assumes "distinct (sp_devices st)"
  shows "count_list (sms_asked ops st) dev \<le> connects dev ops + to_ask dev st"
  using assms
proof (induction ops st rule: sms_asked.induct)
  case (1 st)
  then show ?case by simp
next
  case (2 b now x ops st)
  obtain targets st' where s: "sms_step b now x st = (targets, st')" by force
  then show ?case using 2 step_asked [OF 2(2) s, of dev] by (auto simp: connects_def)
qed

text \<open>
  C33. However often watchers come and go, a phone is asked at most once for each time it connects.
\<close>
theorem asked_once_per_connection:
  "count_list (sms_asked ops (NewSMSPlugin cfg has_bus notifications cache_dir temp_dir)) dev \<le> connects dev ops"
  using run_asked [of "NewSMSPlugin cfg has_bus notifications cache_dir temp_dir" ops dev]
  by (simp add: NewSMSPlugin_def to_ask_def)

text \<open>
  A phone that was not ready when the background task ran, not connected yet or without the capability, counts as
  armed all the same: it is not asked again until it connects anew.
\<close>
theorem unready_phone_counts_as_armed:
  assumes "sms_armed b st" and "dev \<in> set (sp_devices st)" and "syncArming b now st = (targets, st')"
  shows "arming_requests (\<lambda>_. False) targets = [] \<and> dev \<notin> set (fst (syncArming b' now' st'))"
  using assms by (auto simp: arming_requests_def syncArming_def Let_def)

section \<open>Popups\<close>

lemma commands_messages:
  "commands_all (concat (map (handle_message dev a t st) ms)) =
     map (\<lambda>m. sms_popup m st)
       (filter (\<lambda>m. \<not> (smg_body m = [] \<and> smg_attachments m = []) \<and> shouldNotify m a t st) ms)"
  by (induction ms) (auto simp: handle_message_def)

text \<open>
  A popup appears exactly for the received messages, among the first thousand, that are not older than the arming
  of the phone, while popups for messages are on and somebody still watches; the history a phone sends when it is armed
  stays silent.
\<close>
theorem history_stays_silent:
  assumes "handleMessages b dev pkt st = Some es" and "cmd \<in> set (commands_all es)"
  shows "\<exists>msg t. cmd = sms_popup msg st \<and> sp_armed_at st dev = Some t \<and> smg_date msg \<ge> t \<and> smg_type msg = 1 \<and>
    sms_armed b st \<and> sm_notify_incoming (sp_cfg st)"
  using assms by (auto simp: handleMessages_def Let_def commands_messages shouldNotify_def split: if_splits option.splits)

text \<open>
  The text of a message is the last argument of the tool and nothing ends the options before it: a message that
  starts with a dash is taken as an option.
\<close>
theorem message_is_an_option:
  assumes "smg_body msg = CHR ''-'' # rest" and "length rest < 120" and "AppName (sp_notifications st) \<noteq> ''--''"
  shows "\<exists>args. sms_popup msg st = args @ [CHR ''-'' # rest] \<and> ''--'' \<notin> set args"
  using assms
  by (intro exI [of _ "butlast (sms_popup msg st)"]) (auto simp: sms_popup_def sms_popup_text_def)

text \<open>A plugin with one watcher, a device that is armed at time \<open>100\<close>, and a packet with one message.\<close>

definition demo_sms :: sms_plugin where
  "demo_sms = (NewSMSPlugin (SMSConfig_Defaults zero_sms_config) True [] ''/c'' ''/tmp'')
     \<lparr>sp_devices := [''d''], sp_armed_at := [''d'' \<mapsto> 100]\<rparr>"

definition demo_watched :: "unit bus" where
  "demo_watched = NewBus\<lparr>bus_next_id := 1,
     bus_subs := [1 \<mapsto> \<lparr>sb_filters = [TypeSMSIncoming], sb_cap = 8, sb_queue = []\<rparr>]\<rparr>"

definition demo_sms_packet :: packet where
  "demo_sms_packet = zero_packet\<lparr>pk_type := ''kdeconnect.sms.messages'', pk_body := Some (JObj [(''messages'', JArr
     [JObj [(''body'', JStr ''-hi''), (''type'', enc_int 1), (''date'', enc_int 200)]])])\<rparr>"

lemma demo_watched_armed: "sms_armed demo_watched st \<longleftrightarrow> sm_always_arm (sp_cfg st) \<or> sp_has_bus st"
  by (simp add: sms_armed_def demo_watched_def HasSubscribers_def NewBus_def matches_def TypeSMSIncoming_def)

lemma demo_messages:
  "map_option commands_all (handleMessages demo_watched ''d'' demo_sms_packet demo_sms) =
     Some [[''notify-send'', ''-a'', ''KDE Connect'', ''-i'', ''dialog-information'', ''SMS from '', ''-hi'']]"
  by code_simp

theorem history_stays_silent_witness:
  "\<exists>msg t. sp_armed_at demo_sms ''d'' = Some t \<and> smg_date msg \<ge> t \<and>
    [''notify-send'', ''-a'', ''KDE Connect'', ''-i'', ''dialog-information'', ''SMS from '', ''-hi''] = sms_popup msg demo_sms"
proof -
  obtain es where h: "handleMessages demo_watched ''d'' demo_sms_packet demo_sms = Some es"
    and c: "commands_all es = [[''notify-send'', ''-a'', ''KDE Connect'', ''-i'', ''dialog-information'', ''SMS from '', ''-hi'']]"
    using demo_messages by (auto simp: map_option_case split: option.splits)
  show ?thesis using history_stays_silent [OF h, of "hd (commands_all es)"] c by auto
qed

theorem sms_asked_only_if_watched_witness:
  "\<exists>i s. bus_subs demo_watched i = Some s \<and> TypeSMSIncoming \<in> set (sb_filters s)"
  by (rule sms_asked_only_if_watched [of "''e''" demo_watched 5 "DeviceUp ''e''" demo_sms])
    (simp_all add: sms_OnConnect_def syncArming_def demo_watched_armed demo_sms_def NewSMSPlugin_def SMSConfig_Defaults_def
      zero_sms_config_def Let_def)

section \<open>Files\<close>

lemma SanitizeFilename_plain: "f \<noteq> [] \<Longrightarrow> plain_part f \<Longrightarrow> plain_part (SanitizeFilename name [f])"
proof -
  assume f: "f \<noteq> []" "plain_part f"
  have "SanitizeFilename name [f] = SanitizeFilename name [] \<or> SanitizeFilename name [f] = f"
    using f(1) by (simp add: SanitizeFilename_def Let_def)
  then show ?thesis using f(2) SanitizeFilename_safe [of name] by auto
qed

text \<open>
  Whatever name a phone gives an attachment, it is received directly into the directory of the attachments.
\<close>
theorem attachment_confined:
  assumes "is_rooted (sp_cache_dir st)" and "handleAttachmentFile remote fp pkt st = Inr (Some dl)"
  shows "\<exists>ps n. Clean (sp_cache_dir st) = slash # join_with [slash] ps \<and> plain_part n \<and>
    sd_dest dl = slash # join_with [slash] (ps @ [n])"
proof -
  have d: "sd_dest dl = Join [sp_cache_dir st, cleanFilename (afb_filename (sd_body dl))]"
    using assms(2) by (auto simp: handleAttachmentFile_def split: if_splits option.splits)
  have "plain_part (cleanFilename (afb_filename (sd_body dl)))"
    unfolding cleanFilename_def by (rule SanitizeFilename_plain) (simp_all add: plain_part_def dot_def dotdot_def slash_def)
  then show ?thesis using Join_dir_name [OF assms(1)] d by metis
qed

text \<open>
  A download that succeeds has stored all of the announced bytes, at least one and at most fifty mebibytes, and one
  that fails has left the file as it was, unless the program died in it.
\<close>
theorem attachment_whole_or_nothing:
  assumes "receiveAttachment sha has_tls opts stat net stream clean_end k f dl fs = (ok, fs')"
  shows "if ok then fs_file fs' = Some stream \<and> int (length stream) = sd_size dl \<and> 0 < sd_size dl \<and> sd_size dl \<le> 52428800
    else fs_file fs' = fs_file fs \<or> fs_file fs' = Some stream"
proof (cases "sd_size dl \<le> 0 \<or> sd_size dl > maxSMSAttachmentBytes")
  case True
  then show ?thesis using assms by (auto simp: receiveAttachment_def)
next
  case False
  obtain res s where r: "ReceiveToFile sha (sd_ip dl) (sd_port dl) (sd_size dl) has_tls (sd_fingerprint dl)
      maxSMSAttachmentBytes opts stat net stream clean_end k f fs = (res, s)" by force
  show ?thesis
    using assms False r receive_outcome [OF r]
    by (auto simp: receiveAttachment_def maxSMSAttachmentBytes_def split: receive_result.splits)
qed

end
