(* ===== verification/Hooks.thy ===== *)
theory Hooks
  imports Events GoStrings ConfigSections
begin

text \<open>
  The hook runner (\<open>internal/hooks\<close>): commands of the user that run when an event is published, with parts of the event
  put into their arguments.

  The replacement of the payload parts is a loop that need not end: its result is \<open>None\<close> when it does not.  The
  runner is a step relation over its workers, of which there are at most four.
\<close>

section \<open>Arguments\<close>

text \<open>
  The payload of an event is an object only when it was published as a map of any values; \<open>render\<close> is
  \<open>json.Marshal\<close>.
\<close>

datatype hook_payload = AnyMap "(string \<times> json) list" | OtherPayload json

definition stringify :: "(json \<Rightarrow> string) \<Rightarrow> json \<Rightarrow> string" where
  "stringify render j = (case j of JStr s \<Rightarrow> s | _ \<Rightarrow> render j)"

definition payload_value :: "(json \<Rightarrow> string) \<Rightarrow> hook_payload \<Rightarrow> string \<Rightarrow> string" where
  "payload_value render p key =
     (case p of
        AnyMap m \<Rightarrow> (case map_of m key of Some j \<Rightarrow> stringify render j | None \<Rightarrow> [])
      | OtherPayload _ \<Rightarrow> [])"

text \<open>The text before and after the first occurrence.\<close>

fun cut_text :: "string \<Rightarrow> string \<Rightarrow> (string \<times> string) option" where
  "cut_text sub [] = (if sub = [] then Some ([], []) else None)"
| "cut_text sub (c # s) =
     (if has_prefix sub (c # s) then Some ([], drop (length sub) (c # s))
      else map_option (\<lambda>(l, r). (c # l, r)) (cut_text sub s))"

definition payload_mark :: string where "payload_mark = ''{payload.''"

text \<open>One lap: the text before the mark, the key and the text after it.\<close>

definition payload_part :: "string \<Rightarrow> (string \<times> string \<times> string) option" where
  "payload_part text =
     (case cut_text payload_mark text of
        None \<Rightarrow> None
      | Some (l, r) \<Rightarrow> (case cut_text ''}'' r of None \<Rightarrow> None | Some (key, r) \<Rightarrow> Some (l, key, r)))"

partial_function (option) replace_payload :: "(string \<Rightarrow> string) \<Rightarrow> string \<Rightarrow> string option" where
  "replace_payload val text =
     (case payload_part text of
        None \<Rightarrow> Some text
      | Some (l, key, r) \<Rightarrow> replace_payload val (l @ val key @ r))"

definition replacePayload :: "(json \<Rightarrow> string) \<Rightarrow> string \<Rightarrow> hook_payload \<Rightarrow> string option" where
  "replacePayload render text p = replace_payload (payload_value render p) text"

definition expand_arg :: "(json \<Rightarrow> string) \<Rightarrow> hook_payload event \<Rightarrow> string \<Rightarrow> string option" where
  "expand_arg render ev arg =
     (let arg = replace_all ''{event.type}'' (ev_type ev) arg;
          arg = replace_all ''{device.id}'' (ev_device ev) arg
      in if contains payload_mark arg then replacePayload render arg (ev_payload ev) else Some arg)"

fun expandCommand :: "(json \<Rightarrow> string) \<Rightarrow> hook_payload event \<Rightarrow> string list \<Rightarrow> string list option" where
  "expandCommand render ev [] = Some []"
| "expandCommand render ev (arg # args) =
     (case expand_arg render ev arg of
        None \<Rightarrow> None
      | Some a \<Rightarrow> map_option (\<lambda>as. a # as) (expandCommand render ev args))"

definition matchesDevice :: "string list \<Rightarrow> string \<Rightarrow> bool" where
  "matchesDevice devices dev \<longleftrightarrow> devices = [] \<or> dev \<in> set devices"

section \<open>The runner\<close>

record hook_runner =
  hr_hooks :: "(string \<times> hook_config) list"
  hr_has_bus :: bool
  hr_last :: "string \<rightharpoonup> int"

definition hooks_New :: "(string \<times> hook_config) list \<Rightarrow> bool \<Rightarrow> hook_runner" where
  "hooks_New hooks has_bus = \<lparr>hr_hooks = hooks, hr_has_bus = has_bus, hr_last = Map.empty\<rparr>"

text \<open>The subscription of a runner that has hooks: to exactly their event types.\<close>

definition hooks_Start :: "hook_runner \<Rightarrow> 'p bus \<Rightarrow> (nat \<times> 'p bus) option" where
  "hooks_Start r b =
     (if hr_hooks r = [] \<or> \<not> hr_has_bus r then None
      else Some (Subscribe (int WatchSubscriberCap) (map fst (hr_hooks r)) b))"

definition hook_key :: "hook_payload event \<Rightarrow> string" where
  "hook_key ev = ev_type ev @ [CHR 0x00] @ ev_device ev"

definition debounced :: "hook_payload event \<Rightarrow> duration \<Rightarrow> int \<Rightarrow> hook_runner \<Rightarrow> bool \<times> hook_runner" where
  "debounced ev d now r =
     (if d \<le> 0 then (False, r)
      else if (case hr_last r (hook_key ev) of None \<Rightarrow> False | Some t \<Rightarrow> now - t < d) then (True, r)
      else (False, r\<lparr>hr_last := (hr_last r)(hook_key ev \<mapsto> now)\<rparr>))"

definition hookDefaultTimeout :: duration where "hookDefaultTimeout = 10 * second"

record hook_command =
  hc_argv :: "string list"
  hc_env :: "string list"
  hc_stdin :: string
  hc_timeout :: duration

datatype hook_result = NotRun | Runs hook_command | NeverReturns

text \<open>What a worker does with its event; \<open>encode\<close> is the event as it is marshalled.\<close>

definition hook_command_of ::
  "(json \<Rightarrow> string) \<Rightarrow> (hook_payload event \<Rightarrow> string option) \<Rightarrow> hook_config \<Rightarrow> hook_payload event \<Rightarrow> hook_result" where
  "hook_command_of render encode h ev =
     (case expandCommand render ev (ho_command h) of
        None \<Rightarrow> NeverReturns
      | Some argv \<Rightarrow>
          if argv = [] \<or> hd argv = [] then NotRun
          else case encode ev of
            None \<Rightarrow> NotRun
          | Some payload \<Rightarrow>
              Runs \<lparr>hc_argv = argv, hc_env = [''KCD_EVENT_TYPE='' @ ev_type ev, ''KCD_DEVICE_ID='' @ ev_device ev],
                 hc_stdin = payload, hc_timeout = (if ho_timeout h \<le> 0 then hookDefaultTimeout else ho_timeout h)\<rparr>)"

definition hook_run ::
  "(json \<Rightarrow> string) \<Rightarrow> (hook_payload event \<Rightarrow> string option) \<Rightarrow> hook_payload event \<Rightarrow> int \<Rightarrow> hook_runner
     \<Rightarrow> hook_result \<times> hook_runner" where
  "hook_run render encode ev now r =
     (case map_of (hr_hooks r) (ev_type ev) of
        None \<Rightarrow> (NotRun, r)
      | Some h \<Rightarrow>
          if \<not> matchesDevice (ho_devices h) (ev_device ev) then (NotRun, r)
          else case debounced ev (ho_debounce h) now r of
            (True, r) \<Rightarrow> (NotRun, r)
          | (False, r) \<Rightarrow> (hook_command_of render encode h ev, r))"

section \<open>Workers\<close>

definition maxConcurrent :: nat where "maxConcurrent = 4"

datatype hook_worker = FreshWorker "hook_payload event" | Executing hook_command | Looping

record hook_pool =
  hp_runner :: hook_runner
  hp_workers :: "hook_worker list"

text \<open>
  Steps: an event arrives and gets a worker or, with all of them busy, is dropped; a worker decides; a command ends.
\<close>

inductive hook_step ::
  "(json \<Rightarrow> string) \<Rightarrow> (hook_payload event \<Rightarrow> string option) \<Rightarrow> hook_pool \<Rightarrow> hook_pool \<Rightarrow> bool"
  for render encode where
  arrive: "length (hp_workers p) < maxConcurrent \<Longrightarrow>
     hook_step render encode p (p\<lparr>hp_workers := FreshWorker ev # hp_workers p\<rparr>)"
| saturated: "length (hp_workers p) \<ge> maxConcurrent \<Longrightarrow> hook_step render encode p p"
| skips: "hp_workers p = ws @ FreshWorker ev # vs \<Longrightarrow> hook_run render encode ev now (hp_runner p) = (NotRun, r) \<Longrightarrow>
     hook_step render encode p (p\<lparr>hp_runner := r, hp_workers := ws @ vs\<rparr>)"
| executes: "hp_workers p = ws @ FreshWorker ev # vs \<Longrightarrow> hook_run render encode ev now (hp_runner p) = (Runs c, r) \<Longrightarrow>
     hook_step render encode p (p\<lparr>hp_runner := r, hp_workers := ws @ Executing c # vs\<rparr>)"
| loops: "hp_workers p = ws @ FreshWorker ev # vs \<Longrightarrow> hook_run render encode ev now (hp_runner p) = (NeverReturns, r) \<Longrightarrow>
     hook_step render encode p (p\<lparr>hp_runner := r, hp_workers := ws @ Looping # vs\<rparr>)"
| ends: "hp_workers p = ws @ Executing c # vs \<Longrightarrow> hook_step render encode p (p\<lparr>hp_workers := ws @ vs\<rparr>)"

definition hook_pool_new :: "hook_runner \<Rightarrow> hook_pool" where
  "hook_pool_new r = \<lparr>hp_runner = r, hp_workers = []\<rparr>"

section \<open>The end of the replacement\<close>

lemma cut_text_Some: "cut_text sub s = Some (l, r) \<Longrightarrow> s = l @ sub @ r"
proof (induction s arbitrary: l)
  case (Cons c s)
  show ?case
  proof (cases "has_prefix sub (c # s)")
    case True
    then have "sub @ drop (length sub) (c # s) = c # s"
      unfolding has_prefix_def by (metis append_take_drop_id)
    then show ?thesis using Cons.prems True by auto
  qed (use Cons in auto)
qed (auto split: if_splits)

lemma payload_part_Some: "payload_part s = Some (l, key, r) \<Longrightarrow> s = l @ payload_mark @ key @ ''}'' @ r"
  by (auto simp: payload_part_def split: option.splits dest!: cut_text_Some)

text \<open>The open braces of a text, which every lap diminishes when the values have none.\<close>

definition braces :: "string \<Rightarrow> nat" where
  "braces s = length (filter (\<lambda>c. c = CHR ''{'') s)"

lemma braces_append [simp]: "braces (s @ t) = braces s + braces t"
  by (simp add: braces_def)

lemma lap_braces: "payload_part s = Some (l, key, r) \<Longrightarrow> braces (val key) = 0 \<Longrightarrow> braces (l @ val key @ r) < braces s"
  by (drule payload_part_Some) (simp add: payload_mark_def, simp add: braces_def)

text \<open>
  When no value of the event has an open brace, putting the values into an argument ends.
\<close>
theorem replacement_ends:
  assumes "\<And>key. CHR ''{'' \<notin> set (payload_value render p key)"
  shows "\<exists>r. replacePayload render text p = Some r"
proof -
  have b: "braces (payload_value render p key) = 0" for key
    using assms by (auto simp: braces_def filter_empty_conv)
  have "\<exists>r. replace_payload (payload_value render p) t = Some r" for t
  proof (induction "braces t" arbitrary: t rule: less_induct)
    case less
    show ?case
    proof (cases "payload_part t")
      case None
      then show ?thesis by (simp add: replace_payload.simps)
    next
      case (Some x)
      obtain l key r where x: "x = (l, key, r)" by (metis prod_cases3)
      have "braces (l @ payload_value render p key @ r) < braces t"
        using lap_braces [where val = "payload_value render p"] Some x b by simp
      from less [OF this] show ?thesis using Some x by (subst replace_payload.simps) simp
    qed
  qed
  then show ?thesis by (simp add: replacePayload_def)
qed

text \<open>The least solution of the loop: a text whose lap leaves it as it is has no result.\<close>

lemma replace_payload_fixed:
  assumes "payload_part t = Some (l, key, r)" and "l @ val key @ r = t"
  shows "replace_payload val t = None"
proof -
  have "replace_payload v s = Some x \<Longrightarrow> v = val \<and> s = t \<longrightarrow> False" for v s x
  proof (rule replace_payload.raw_induct [of "\<lambda>v s x. v = val \<and> s = t \<longrightarrow> False"])
    show "v = val \<and> s = t \<longrightarrow> False"
      if "\<And>v s x. f v s = Some x \<Longrightarrow> v = val \<and> s = t \<longrightarrow> False"
        and "(case payload_part s of None \<Rightarrow> Some s | Some (l, key, r) \<Rightarrow> f v (l @ v key @ r)) = Some x" for f v s x
      using that assms by fastforce
  qed
  then show ?thesis by (cases "replace_payload val t") auto
qed

text \<open>
  The value is searched again: an event whose value names itself, such as a notification of a phone with the text
  \<open>{payload.text}\<close> under a hook that passes the text on, makes the loop run for ever.
\<close>
theorem self_naming_value_never_ends:
  assumes "CHR ''}'' \<notin> set key" and "payload_value render p key = payload_mark @ key @ ''}''"
  shows "replacePayload render (payload_mark @ key @ ''}'') p = None"
proof -
  have c: "cut_text ''}'' (k @ CHR ''}'' # s) = Some (k, s)" if "CHR ''}'' \<notin> set k" for k s
    using that by (induction k) (auto simp: has_prefix_def)
  have "cut_text payload_mark (payload_mark @ s) = Some ([], s)" for s
    by (cases "payload_mark @ s") (auto simp: payload_mark_def has_prefix_def)
  then have "payload_part (payload_mark @ key @ ''}'') = Some ([], key, [])"
    using c [OF assms(1), of "[]"] by (simp add: payload_part_def)
  then show ?thesis
    unfolding replacePayload_def by (rule replace_payload_fixed) (simp add: assms(2))
qed

section \<open>Arguments of a template\<close>

text \<open>A template without stray braces: literal text and named parts.\<close>

datatype piece = Literal string | Part string

fun piece_text :: "piece \<Rightarrow> string" where
  "piece_text (Literal s) = s"
| "piece_text (Part key) = payload_mark @ key @ ''}''"

fun piece_value :: "(string \<Rightarrow> string) \<Rightarrow> piece \<Rightarrow> string" where
  "piece_value val (Literal s) = s"
| "piece_value val (Part key) = val key"

fun piece_ok :: "piece \<Rightarrow> bool" where
  "piece_ok (Literal s) \<longleftrightarrow> CHR ''{'' \<notin> set s"
| "piece_ok (Part key) \<longleftrightarrow> CHR ''{'' \<notin> set key \<and> CHR ''}'' \<notin> set key"

lemma cut_skip: "CHR ''{'' \<notin> set l \<Longrightarrow> cut_text payload_mark (l @ s) = map_option (\<lambda>(a, r). (l @ a, r)) (cut_text payload_mark s)"
proof (induction l)
  case Nil
  then show ?case by (cases "cut_text payload_mark s") auto
next
  case (Cons c l)
  then have "\<not> has_prefix payload_mark (c # l @ s)" by (auto simp: has_prefix_def payload_mark_def)
  then show ?case using Cons by (cases "cut_text payload_mark s") auto
qed

lemma cut_key: "CHR ''}'' \<notin> set k \<Longrightarrow> cut_text ''}'' (k @ CHR ''}'' # s) = Some (k, s)"
  by (induction k) (auto simp: has_prefix_def)

lemma cut_mark: "cut_text payload_mark (payload_mark @ s) = Some ([], s)"
  by (cases "payload_mark @ s") (auto simp: payload_mark_def has_prefix_def)

lemma replace_pieces:
  assumes "\<And>key. CHR ''{'' \<notin> set (val key)" and "CHR ''{'' \<notin> set l" and "list_all piece_ok ps"
  shows "replace_payload val (l @ concat (map piece_text ps)) = Some (l @ concat (map (piece_value val) ps))"
  using assms(2,3)
proof (induction ps arbitrary: l)
  case Nil
  have "payload_part l = None" using cut_skip [of l "[]"] Nil by (simp add: payload_part_def payload_mark_def)
  then show ?case by (simp add: replace_payload.simps)
next
  case (Cons p ps)
  show ?case
  proof (cases p)
    case (Literal s)
    then show ?thesis using Cons.IH [of "l @ s"] Cons.prems by simp
  next
    case (Part key)
    let ?rest = "concat (map piece_text ps)"
    have "payload_part (l @ payload_mark @ key @ CHR ''}'' # ?rest) = Some (l, key, ?rest)"
      using cut_skip [of l "payload_mark @ key @ CHR ''}'' # ?rest"] cut_mark [of "key @ CHR ''}'' # ?rest"]
        cut_key [of key ?rest] Cons.prems Part
      by (simp add: payload_part_def)
    moreover have "replace_payload val ((l @ val key) @ ?rest) = Some ((l @ val key) @ concat (map (piece_value val) ps))"
      using Cons.prems assms(1) by (intro Cons.IH) auto
    ultimately show ?thesis using Part by (subst replace_payload.simps) simp
  qed
qed

text \<open>
  C36. For a template without stray braces and values without open braces the loop is the substitution of every named
  part by its value.
\<close>
theorem replacement_substitutes:
  assumes "list_all piece_ok ps" and "\<And>key. CHR ''{'' \<notin> set (payload_value render p key)"
  shows "replacePayload render (concat (map piece_text ps)) p = Some (concat (map (piece_value (payload_value render p)) ps))"
  using replace_pieces [where l = "[]" and ps = ps and val = "payload_value render p"] assms by (simp add: replacePayload_def)

section \<open>The pool\<close>

text \<open>
  At most four workers are there at any time.
\<close>
theorem at_most_four_hooks:
  assumes "(hook_step render encode)\<^sup>*\<^sup>* (hook_pool_new r) p"
  shows "length (hp_workers p) \<le> 4"
  using assms
proof (induction rule: rtranclp_induct)
  case base
  then show ?case by (simp add: hook_pool_new_def)
next
  case (step p q)
  from step(2,3) show ?case by (cases rule: hook_step.cases) (auto simp: maxConcurrent_def)
qed

text \<open>
  A worker that loops never comes free: after four such events no hook runs any more.
\<close>
theorem four_loops_end_the_hooks:
  assumes "hp_workers p = replicate 4 Looping" and "(hook_step render encode)\<^sup>*\<^sup>* p q"
  shows "hp_workers q = replicate 4 Looping"
  using assms(2)
proof (induction rule: rtranclp_induct)
  case (step q s)
  have "w = Looping" if "hp_workers q = ws @ w # vs" for ws w vs
  proof -
    have "w \<in> set (replicate 4 Looping)" using that step.IH by (metis in_set_conv_decomp)
    then show ?thesis by simp
  qed
  then have w: "hp_workers q \<noteq> ws @ FreshWorker ev # vs" "hp_workers q \<noteq> ws @ Executing c # vs" for ws ev c vs by blast+
  have full: "\<not> length (hp_workers q) < maxConcurrent" using step.IH by (simp add: maxConcurrent_def)
  from step(2) have "s = q"
  proof cases
    case arrive
    then show ?thesis using full by simp
  next
    case saturated
    then show ?thesis by simp
  qed (use w in blast)+
  then show ?case using step.IH by simp
qed (rule assms(1))

section \<open>Debouncing\<close>

text \<open>
  The events that start a command when the workers take them one after another, each with the time its worker read: time is
  read before the lock, so the times need not be in order.
\<close>

fun hook_starts ::
  "(json \<Rightarrow> string) \<Rightarrow> (hook_payload event \<Rightarrow> string option) \<Rightarrow> (hook_payload event \<times> int) list \<Rightarrow> hook_runner
     \<Rightarrow> (hook_payload event \<times> int) list" where
  "hook_starts render encode [] r = []"
| "hook_starts render encode ((ev, now) # evs) r =
     (case hook_run render encode ev now r of
        (res, r) \<Rightarrow> (if res = NotRun then [] else [(ev, now)]) @ hook_starts render encode evs r)"

definition starts_of :: "event_type \<Rightarrow> string \<Rightarrow> (hook_payload event \<times> int) list \<Rightarrow> int list" where
  "starts_of typ dev evs = map snd (filter (\<lambda>(ev, _). ev_type ev = typ \<and> ev_device ev = dev) evs)"

lemma debounced_last:
  assumes "debounced ev d now r = (skip, r')"
  shows "hr_hooks r' = hr_hooks r"
    and "hr_last r k = Some s \<Longrightarrow> \<exists>t. hr_last r' k = Some t \<and> s \<le> t"
    and "\<not> skip \<Longrightarrow> 0 < d \<Longrightarrow> hr_last r' (hook_key ev) = Some now \<and> (\<forall>s. hr_last r (hook_key ev) = Some s \<longrightarrow> d \<le> now - s)"
  using assms by (auto simp: debounced_def split: if_splits option.splits)

lemma hook_run_last:
  assumes "hook_run render encode ev now r = (res, r')"
  shows "hr_hooks r' = hr_hooks r"
    and "hr_last r k = Some s \<Longrightarrow> \<exists>t. hr_last r' k = Some t \<and> s \<le> t"
    and "res \<noteq> NotRun \<Longrightarrow> map_of (hr_hooks r) (ev_type ev) = Some h \<Longrightarrow> 0 < ho_debounce h \<Longrightarrow>
      hr_last r' (hook_key ev) = Some now \<and> (\<forall>s. hr_last r (hook_key ev) = Some s \<longrightarrow> ho_debounce h \<le> now - s)"
proof -
  note D = debounced_last [of ev "ho_debounce g" now r for g]
  show "hr_hooks r' = hr_hooks r"
    using assms D(1) by (auto simp: hook_run_def split: option.splits if_splits prod.splits bool.splits)
  show "hr_last r k = Some s \<Longrightarrow> \<exists>t. hr_last r' k = Some t \<and> s \<le> t"
    using assms D(2) by (fastforce simp: hook_run_def split: option.splits if_splits prod.splits bool.splits)
  show "res \<noteq> NotRun \<Longrightarrow> map_of (hr_hooks r) (ev_type ev) = Some h \<Longrightarrow> 0 < ho_debounce h \<Longrightarrow>
      hr_last r' (hook_key ev) = Some now \<and> (\<forall>s. hr_last r (hook_key ev) = Some s \<longrightarrow> ho_debounce h \<le> now - s)"
    using assms D(3) [of h] by (auto simp: hook_run_def split: if_splits prod.splits bool.splits)
qed

lemma starts_spaced:
  assumes "map_of (hr_hooks r) typ = Some h" and "0 < ho_debounce h"
  shows "sorted_wrt (\<lambda>s t. ho_debounce h \<le> t - s) (starts_of typ dev (hook_starts render encode evs r)) \<and>
    (\<forall>t \<in> set (starts_of typ dev (hook_starts render encode evs r)). \<forall>s.
       hr_last r (typ @ [CHR 0x00] @ dev) = Some s \<longrightarrow> ho_debounce h \<le> t - s)"
    (is "_ \<and> (\<forall>t \<in> _. \<forall>s. hr_last r ?k = _ \<longrightarrow> _)")
  using assms(1)
proof (induction evs arbitrary: r)
  case (Cons e evs)
  obtain ev now where e: "e = (ev, now)" by fastforce
  obtain res r' where run: "hook_run render encode ev now r = (res, r')" by fastforce
  note R = hook_run_last [OF run]
  let ?later = "starts_of typ dev (hook_starts render encode evs r')"
  have h': "map_of (hr_hooks r') typ = Some h" using R(1) Cons.prems by simp
  have later: "sorted_wrt (\<lambda>s t. ho_debounce h \<le> t - s) ?later"
    "\<forall>t \<in> set ?later. \<forall>s. hr_last r' ?k = Some s \<longrightarrow> ho_debounce h \<le> t - s"
    using Cons.IH [OF h'] by blast+
  have old: "\<forall>t \<in> set ?later. \<forall>s. hr_last r ?k = Some s \<longrightarrow> ho_debounce h \<le> t - s"
    using later(2) R(2) by fastforce
  show ?case
  proof (cases "res \<noteq> NotRun \<and> ev_type ev = typ \<and> ev_device ev = dev")
    case True
    then have "hook_key ev = ?k" by (simp add: hook_key_def)
    then have "hr_last r' ?k = Some now \<and> (\<forall>s. hr_last r ?k = Some s \<longrightarrow> ho_debounce h \<le> now - s)"
      using R(3) [of h] True Cons.prems assms(2) by simp
    moreover have "starts_of typ dev (hook_starts render encode (e # evs) r) = now # ?later"
      using True by (simp add: e run starts_of_def)
    ultimately show ?thesis using later old by auto
  next
    case False
    then have "starts_of typ dev (hook_starts render encode (e # evs) r) = ?later"
      by (auto simp: e run starts_of_def)
    then show ?thesis using later old by simp
  qed
qed (simp add: starts_of_def)

text \<open>
  C37. The commands of a hook do not run more often than its debounce allows: whatever events come in between, for other devices or
  other hooks, the events of one type and one device that start its command are at least its debounce apart, each at the time
  its worker checks the debounce.
\<close>
theorem debounced_runs_spaced:
  assumes "map_of hooks typ = Some h" and "0 < ho_debounce h"
  shows "sorted_wrt (\<lambda>s t. ho_debounce h \<le> t - s)
    (map snd (filter (\<lambda>(ev, _). ev_type ev = typ \<and> ev_device ev = dev)
       (hook_starts render encode evs (hooks_New hooks has_bus))))"
  using starts_spaced [of "hooks_New hooks has_bus" "typ" h dev render encode evs] assms
  by (simp add: hooks_New_def starts_of_def)

section \<open>Examples\<close>

theorem replacement_substitutes_witness:
  "replacePayload (\<lambda>_. []) (concat (map piece_text [Literal ''a '', Part ''k''])) (AnyMap [(''k'', JStr ''v'')]) = Some ''a v''"
  using replacement_substitutes [of "[Literal ''a '', Part ''k'']" "\<lambda>_. []" "AnyMap [(''k'', JStr ''v'')]"]
  by (simp add: payload_value_def stringify_def)

theorem replacement_ends_witness:
  "\<exists>r. replacePayload (\<lambda>_. []) ''{payload.{payload.k}}'' (AnyMap [(''k'', JStr ''v'')]) = Some r"
  by (rule replacement_ends) (simp add: payload_value_def stringify_def)

theorem self_naming_value_never_ends_witness:
  "replacePayload (\<lambda>_. []) (payload_mark @ ''text'' @ ''}'') (AnyMap [(''text'', JStr ''{payload.text}'')]) = None"
  by (rule self_naming_value_never_ends) (simp_all add: payload_value_def stringify_def payload_mark_def)

definition demo_hook :: hook_config where
  "demo_hook = \<lparr>ho_command = [''true''], ho_devices = [], ho_timeout = 0, ho_debounce = 5\<rparr>"

theorem debounced_runs_spaced_witness:
  "sorted_wrt (\<lambda>s t. ho_debounce demo_hook \<le> t - s)
    (map snd (filter (\<lambda>(ev, _). ev_type ev = ''a'' \<and> ev_device ev = ''d'')
       (hook_starts (\<lambda>_. []) (\<lambda>_. Some [])
          [(\<lparr>ev_seq = 1, ev_type = ''a'', ev_time = 0, ev_device = ''d'', ev_payload = AnyMap []\<rparr>, 1),
           (\<lparr>ev_seq = 2, ev_type = ''a'', ev_time = 0, ev_device = ''d'', ev_payload = AnyMap []\<rparr>, 3)] (hooks_New [(''a'', demo_hook)] True))))"
  by (rule debounced_runs_spaced) (simp_all add: demo_hook_def)

theorem at_most_four_hooks_witness:
  "length (hp_workers (hook_pool_new (hooks_New [] True))) \<le> 4"
  by (rule at_most_four_hooks [of "\<lambda>_. []" "\<lambda>_. None" "hooks_New [] True"]) simp

end
