(* ===== verification/DeviceRoutes.thy ===== *)
theory DeviceRoutes
  imports PairRoutes IpcWatch BundledPlugins Broadcaster SmallPlugins VolumePlugins Clipboard Contacts Notification Sms
begin

text \<open>
  The device routes of the IPC: \<open>internal/daemon/ipc_route_helpers.go\<close>, the rest of \<open>ipc_routes.go\<close> and the files
  \<open>ipc_routes_device.go\<close>, \<open>_comm.go\<close>, \<open>_battery.go\<close>, \<open>_clipboard.go\<close>, \<open>_connectivity.go\<close>, \<open>_contacts.go\<close>,
  \<open>_remotevolume.go\<close> and \<open>run_exec\<close> of \<open>_runcommand.go\<close>.

  The world is the registry of devices and the states of the plugins, with what the routes hand to devices
  (\<open>dev.Send\<close>, as the effects of the plugins' operations, by device) and the dials they start.  The fixed
  surroundings are a record.  The routes are registered in a handler of \<open>Ipc\<close> as the daemon does it.
\<close>

section \<open>World\<close>

record daemon_env =
  de_config :: full_config
  de_base_dir :: string
  de_parse_ip :: "string \<Rightarrow> ip"
  de_ip_text :: "ip \<Rightarrow> string"
  de_rfc3339 :: "int \<Rightarrow> string"
  de_time_text :: "gtime \<Rightarrow> string"
  de_version :: string
  de_started_at :: int
  de_suppliers :: "supplier list"

record daemon_world =
  dw_registry :: registry
  dw_plugins :: plugin_registry
  dw_now :: int
  dw_sent :: "(nat \<times> effect list) list"
  dw_dials :: "ip list"
  dw_broadcast :: controller
  dw_sms :: sms_plugin
  dw_notif :: notif_state
  dw_reports :: reports
  dw_sinks :: sink_table
  dw_contacts :: contact_caches
  dw_clip :: clip_state
  dw_desktop :: clip_desktop
  dw_paste :: "string list \<Rightarrow> tool_result"

definition send_effects :: "nat \<Rightarrow> effect list \<Rightarrow> daemon_world \<Rightarrow> daemon_world" where
  "send_effects r es w = w\<lparr>dw_sent := dw_sent w @ [(r, es)]\<rparr>"

section \<open>Helpers\<close>

definition plugin_disabled :: "string \<Rightarrow> ipc_response" where
  "plugin_disabled name = Err CodePluginDisabled (map lower name @ '' plugin not enabled'') [(''plugin'', name)]"

type_synonym 'p device_action = "'p \<Rightarrow> nat \<Rightarrow> daemon_world \<Rightarrow> ipc_response \<times> daemon_world"

text \<open>Decode, look the plugin up, look the device up, act; without a name no plugin is needed.\<close>

definition deviceRoute ::
  "(json \<Rightarrow> 'p \<Rightarrow> 'p option) \<Rightarrow> 'p \<Rightarrow> ('p \<Rightarrow> string) \<Rightarrow> string \<Rightarrow> 'p device_action \<Rightarrow> daemon_world route" where
  "deviceRoute dec zero device_id name act req w =
     (case payload_as dec zero (rq_payload req) of
        None \<Rightarrow> (Some invalid_payload, w)
      | Some p \<Rightarrow>
          if name \<noteq> [] \<and> GetByName name (dw_plugins w) = None then (Some (plugin_disabled name), w)
          else (case reg_Get (device_id p) (dw_registry w) of
             None \<Rightarrow> (Some (device_not_found (device_id p)), w)
           | Some r \<Rightarrow> (case act p r w of (resp, w) \<Rightarrow> (Some resp, w))))"

definition pluginRoute ::
  "(json \<Rightarrow> 'p \<Rightarrow> 'p option) \<Rightarrow> 'p \<Rightarrow> string \<Rightarrow> ('p \<Rightarrow> daemon_world \<Rightarrow> ipc_response \<times> daemon_world) \<Rightarrow> daemon_world route" where
  "pluginRoute dec zero name act req w =
     (case payload_as dec zero (rq_payload req) of
        None \<Rightarrow> (Some invalid_payload, w)
      | Some p \<Rightarrow>
          if GetByName name (dw_plugins w) = None then (Some (plugin_disabled name), w)
          else (case act p w of (resp, w) \<Rightarrow> (Some resp, w)))"

text \<open>Most routes send the packets of one plugin operation.\<close>

definition sends :: "('p \<Rightarrow> effect list) \<Rightarrow> 'p device_action" where
  "sends f p r w = (okay, send_effects r (f p) w)"

abbreviation device_payload_route :: "string \<Rightarrow> device_payload device_action \<Rightarrow> daemon_world route" where
  "device_payload_route \<equiv> deviceRoute dec_device_payload zero_device_payload dp_device_id"

section \<open>Devices\<close>

definition enc_device_summary :: "(gtime \<Rightarrow> string) \<Rightarrow> device_summary \<Rightarrow> json" where
  "enc_device_summary time_text s =
     (case enc_info time_text (dsm_info s) of
        JObj es \<Rightarrow>
          JObj (es
            @ (case dsm_battery s of None \<Rightarrow> [] | Some b \<Rightarrow> [(''battery'', enc_battery_status b)])
            @ (case dsm_media s of
                 None \<Rightarrow> []
               | Some m \<Rightarrow>
                   [(''media'', case enc_now_playing (mst_now_playing m) of
                       JObj fs \<Rightarrow> JObj (fs @ [(''mediaAgeMs'', enc_int (mst_media_age_ms m))]) | j \<Rightarrow> j)])
            @ (case dsm_signal s of None \<Rightarrow> [] | Some g \<Rightarrow> [(''signal'', enc_connectivity g)])
            @ (case dsm_sftp s of
                 None \<Rightarrow> []
               | Some f \<Rightarrow>
                   [(''sftp'', JObj ([(''mounted'', JBool (sms_mounted f))]
                       @ omit (sms_mount_point f = []) ''mountPoint'' (JStr (sms_mount_point f))))]))
      | j \<Rightarrow> j)"

definition route_devices :: "daemon_env \<Rightarrow> daemon_world route" where
  "route_devices e req w =
     (Some (jsonOK (JArr (map (\<lambda>r. enc_device_summary (de_time_text e)
                                  (SummarizeDevice (dw_now w) (de_suppliers e) (dev_at (dw_registry w) r)))
                            (reg_List (dw_registry w))))), w)"

definition route_ping :: "daemon_env \<Rightarrow> daemon_world route" where
  "route_ping e = device_payload_route ''Ping'' (sends (\<lambda>_. Ping (fc_ping (de_config e)) []))"

definition route_findmyphone :: "daemon_world route" where
  "route_findmyphone = device_payload_route ''FindMyPhone'' (sends (\<lambda>_. Ring))"

definition route_lock :: "daemon_world route" where
  "route_lock = device_payload_route ''LockDevice'' (sends (\<lambda>_. Lock))"

definition route_unlock :: "daemon_world route" where
  "route_unlock = device_payload_route ''LockDevice'' (sends (\<lambda>_. Unlock))"

definition route_battery :: "daemon_world route" where
  "route_battery =
     device_payload_route [] (\<lambda>p r w.
       let d = dev_at (dw_registry w) r
       in (if \<not> HasBattery d then FailWith ''no battery reading yet''
           else jsonOK (JObj [(''batteryAgeMs'', enc_int (milliseconds (BatteryAge (dw_now w) d))),
                              (''charge'', enc_int (fst (GetBattery d))), (''charging'', JBool (snd (GetBattery d)))]), w))"

definition route_connectivity :: "daemon_world route" where
  "route_connectivity =
     device_payload_route ''Connectivity'' (\<lambda>p r w.
       (case Report (dv_id (dev_at (dw_registry w) r)) (dw_reports w) of
          None \<Rightarrow> FailWith ''no connectivity data (device offline or never reported)''
        | Some report \<Rightarrow> jsonOK (enc_connectivity report), w))"

definition push_error_text :: "push_error \<Rightarrow> string" where
  "push_error_text x = (case x of NoClipboardTool \<Rightarrow> ''clipboard: no clipboard tool available'' | PushFailed s \<Rightarrow> s)"

definition route_clipboard_push :: "daemon_world route" where
  "route_clipboard_push =
     device_payload_route ''Clipboard'' (\<lambda>p r w.
       case Push (dw_desktop w) (dw_paste w) (dw_now w) (dw_clip w) of
         (Inl x, c) \<Rightarrow> (FailWith (''clipboard push failed: '' @ push_error_text x), w\<lparr>dw_clip := c\<rparr>)
       | (Inr es, c) \<Rightarrow> (okay, send_effects r es (w\<lparr>dw_clip := c\<rparr>)))"

text \<open>Executing a command of the phone needs no plugin.\<close>

definition route_run_exec :: "daemon_world route" where
  "route_run_exec =
     device_payload_route [] (sends (\<lambda>p. [SendPacket ''kdeconnect.runcommand.request'' (JObj [(''key'', JStr (dp_key p))])]))"

section \<open>Messages, calls and notifications\<close>

definition route_send_sms :: "daemon_world route" where
  "route_send_sms = deviceRoute dec_sms_payload zero_sms_payload smp_device_id ''SMS''
     (sends (\<lambda>p. SendSMS (smp_phone_number p) (smp_message p) (smp_sub_id p)))"

definition route_sms_conversations :: "daemon_world route" where
  "route_sms_conversations = device_payload_route ''SMS'' (sends (\<lambda>_. RequestConversations))"

definition route_sms_conversation :: "daemon_world route" where
  "route_sms_conversation = deviceRoute dec_sms_conv_payload zero_sms_conv_payload scp_device_id ''SMS''
     (sends (\<lambda>p. RequestConversation (scp_thread_id p)
        (case scp_range_start_timestamp p of None \<Rightarrow> -1 | Some t \<Rightarrow> t)
        (case scp_number_to_request p of None \<Rightarrow> -1 | Some n \<Rightarrow> n)))"

definition route_sms_attachment :: "daemon_world route" where
  "route_sms_attachment = deviceRoute dec_sms_attachment_payload zero_sms_attachment_payload sap_device_id ''SMS'' (\<lambda>p r w.
     case RequestAttachment (sap_part_id p) (sap_unique_identifier p) (sap_thread_id p) (dw_sms w) of
       (es, s) \<Rightarrow> (okay, send_effects r es (w\<lparr>dw_sms := s\<rparr>)))"

definition route_call_mute :: "daemon_world route" where
  "route_call_mute = device_payload_route ''Telephony'' (sends (\<lambda>_. Mute))"

definition route_notify_reply :: "daemon_world route" where
  "route_notify_reply = deviceRoute dec_notify_reply_payload zero_notify_reply_payload nrp_device_id ''Notification''
     (sends (\<lambda>p. RequestReply (nrp_reply_id p) (nrp_message p)))"

definition route_notify_dismiss :: "daemon_world route" where
  "route_notify_dismiss = deviceRoute dec_notify_dismiss_payload zero_notify_dismiss_payload ndp_device_id ''Notification'' (\<lambda>p r w.
     case Dismiss (dv_id (dev_at (dw_registry w) r)) (ndp_notification_id p) (dw_notif w) of
       (es, s) \<Rightarrow> (okay, send_effects r es (w\<lparr>dw_notif := s\<rparr>)))"

definition route_notify_action :: "daemon_world route" where
  "route_notify_action = deviceRoute dec_notify_action_payload zero_notify_action_payload nap_device_id ''Notification'' (\<lambda>p r w.
     let i = (if nap_key p = [] then nap_notification_id p else nap_key p)
     in if i = [] then (FailWith ''missing notification id'', w)
        else if nap_action p = [] then (FailWith ''missing action'', w)
        else (okay, send_effects r (TriggerAction i (nap_action p)) w))"

section \<open>Contacts and volumes\<close>

definition route_contacts_sync :: "daemon_world route" where
  "route_contacts_sync = device_payload_route ''Contacts'' (\<lambda>p r w.
     if \<not> IsConnected (dev_at (dw_registry w) r) then (FailWith ''device not connected'', w)
     else (okay, send_effects r RequestSync w))"

definition route_contacts_list :: "daemon_env \<Rightarrow> daemon_world route" where
  "route_contacts_list e = pluginRoute dec_device_payload zero_device_payload ''Contacts'' (\<lambda>p w.
     (jsonOK (JArr (map enc_contact_summary (contacts_List (de_base_dir e) (dp_device_id p) (dw_contacts w)))), w))"

definition forget_error_text :: "string \<Rightarrow> string" where
  "forget_error_text dev =
     (if sanitizeUID dev = [] then ''contacts: unusable device id'' else ''contacts: device dir escapes cache'')"

definition route_contacts_clear :: "daemon_env \<Rightarrow> daemon_world route" where
  "route_contacts_clear e = pluginRoute dec_device_payload zero_device_payload ''Contacts'' (\<lambda>p w.
     case ForgetDevice (de_base_dir e) (dp_device_id p) (dw_contacts w) of
       (True, cs) \<Rightarrow> (okay, w\<lparr>dw_contacts := cs\<rparr>)
     | (False, cs) \<Rightarrow> (FailWith (forget_error_text (dp_device_id p)), w))"

definition route_remote_volume_list :: "daemon_world route" where
  "route_remote_volume_list = pluginRoute dec_device_payload zero_device_payload ''RemoteSystemVolume'' (\<lambda>p w.
     (jsonOK (JArr (map enc_sink (ListSinks (dp_device_id p) (dw_sinks w)))), w))"

definition route_remote_volume_set :: "daemon_world route" where
  "route_remote_volume_set =
     deviceRoute dec_remote_volume_set_payload zero_remote_volume_set_payload rvs_device_id ''RemoteSystemVolume''
       (sends (\<lambda>p. rv_SetVolume (rvs_name p) (rvs_volume p)))"

definition route_remote_volume_mute :: "daemon_world route" where
  "route_remote_volume_mute =
     deviceRoute dec_remote_volume_mute_payload zero_remote_volume_mute_payload rvm_device_id ''RemoteSystemVolume''
       (sends (\<lambda>p. rv_SetMuted (rvm_name p) (rvm_muted p)))"

section \<open>The daemon\<close>

definition hello_plugins :: "string list" where
  "hello_plugins =
     [''Pair'', ''Battery'', ''Clipboard'', ''Notification'', ''Share'', ''RunCommand'', ''MPRIS'', ''Ping'', ''Telephony'',
      ''Connectivity'', ''Mousepad'', ''SFTP'', ''FindMyPhone'', ''LockDevice'', ''SystemVolume'', ''SMS'', ''Contacts'',
      ''Presenter'', ''FindThisDevice'', ''RemoteSystemVolume'']"

definition plugin_states :: "daemon_env \<Rightarrow> plugin_registry \<Rightarrow> (string \<times> bool) list" where
  "plugin_states e pr =
     fold (\<lambda>p. AList.update (pl_name p) True) (pr_list pr)
       (map (\<lambda>n. (n, PluginEnabledForDevice (config.truncate (de_config e)) [] n)) hello_plugins)"

text \<open>\<open>commands\<close> are the commands of the handler in the end; marshalling sorts the map.\<close>

definition route_hello :: "daemon_env \<Rightarrow> string list \<Rightarrow> daemon_world route" where
  "route_hello e commands req w =
     (case (case rq_payload req of None \<Rightarrow> Some zero_hello_payload
            | Some j \<Rightarrow> dec_hello_payload j zero_hello_payload) of
        None \<Rightarrow> (Some (FailWith ''invalid payload''), w)
      | Some p \<Rightarrow>
          (Some (jsonOK (enc_hello_response
             \<lparr>hr_api_version = APIVersion, hr_daemon_version = de_version e, hr_commands = Some commands,
              hr_events = Some AllTypes, hr_opt_in_events = Some OptInOnly,
              hr_plugins = sort_key (\<lambda>x. map byte (fst x)) (plugin_states e (dw_plugins w)),
              hr_features = Some [''errorCodes'', ''keepAlive'', ''watchResume'', ''prompts'', ''config'', ''schemas'']\<rparr>)), w))"

definition route_connect :: "daemon_env \<Rightarrow> daemon_world route" where
  "route_connect e req w =
     (case payload_as dec_connect_payload zero_connect_payload (rq_payload req) of
        None \<Rightarrow> (Some (FailWith ''invalid payload''), w)
      | Some p \<Rightarrow>
          (let addr = de_parse_ip e (cp_ip p)
           in if addr = [] then (Some (FailWith ''invalid IP address''), w)
              else (Some okay, w\<lparr>dw_dials := dw_dials w @ [addr]\<rparr>)))"

definition route_broadcast_start :: "daemon_world route" where
  "route_broadcast_start req w = (Some okay, w\<lparr>dw_broadcast := bc_Start (dw_broadcast w)\<rparr>)"

text \<open>The strangers that a closed pairing window drops.\<close>

definition lingering :: "int \<Rightarrow> device \<Rightarrow> bool" where
  "lingering now d \<longleftrightarrow> IsConnected d \<and> dv_state d = StateUnpaired \<and> \<not> PairDialActive now d"

definition drop_lingering :: "int \<Rightarrow> registry \<Rightarrow> registry" where
  "drop_lingering now rg =
     fold (\<lambda>r rg. if lingering now (dev_at rg r) then upd_dev r (\<lambda>d. fst (Disconnect now d)) rg else rg) (reg_List rg) rg"

definition route_broadcast_stop :: "daemon_world route" where
  "route_broadcast_stop req w =
     (Some okay, w\<lparr>dw_broadcast := bc_Stop (dw_broadcast w), dw_registry := drop_lingering (dw_now w) (dw_registry w)\<rparr>)"

definition status_entry :: "daemon_env \<Rightarrow> int \<Rightarrow> device \<Rightarrow> status_device" where
  "status_entry e now d =
     \<lparr>sd_id = dv_id d, sd_name = dv_name d, sd_type = dv_type d, sd_state = state_String (dv_state d),
      sd_connected = IsConnected d,
      sd_addr =
        (if RemoteIP d \<noteq> [] \<and> IsConnected d
         then de_ip_text e (RemoteIP d) @ (if dv_last_port d > 0 then '':'' @ show_int (dv_last_port d) else [])
         else if dv_last_ip d \<noteq> [] then de_ip_text e (dv_last_ip d) else []),
      sd_battery =
        (if HasBattery d
         then Some \<lparr>sba_charge = fst (GetBattery d), sba_charging = snd (GetBattery d),
                    sba_age_ms = milliseconds (BatteryAge now d)\<rparr>
         else None),
      sd_last_seen = (case dv_last_seen d of None \<Rightarrow> [] | Some t \<Rightarrow> de_rfc3339 e t)\<rparr>"

definition uptime_human :: "duration \<Rightarrow> string" where
  "uptime_human d = show_int (d div (60 * minute)) @ ''h '' @ show_int (d div minute mod 60) @ ''m''"

definition status_of :: "daemon_env \<Rightarrow> daemon_world \<Rightarrow> status_response" where
  "status_of e w =
     (let ds = map (dev_at (dw_registry w)) (reg_List (dw_registry w))
      in \<lparr>sr_version = de_version e, sr_started_at = de_rfc3339 e (de_started_at e),
          sr_uptime_human = uptime_human (dw_now w - de_started_at e),
          sr_socket_path = fc_socket_path (de_config e), sr_config_path = fc_config_path (de_config e),
          sr_tcp_port = fc_tcp_port (de_config e), sr_plugins = Some (map pl_name (pr_list (dw_plugins w))),
          sr_device_count = int (length ds), sr_connected_count = int (length (filter IsConnected ds)),
          sr_devices = map (status_entry e (dw_now w)) ds\<rparr>)"

definition route_status :: "daemon_env \<Rightarrow> daemon_world route" where
  "route_status e req w = (Some (jsonOK (enc_status_response (status_of e w))), w)"

section \<open>Registration\<close>

text \<open>The routes of the switched on plugins; these switches are read once, at the start.\<close>

definition registered_routes :: "daemon_env \<Rightarrow> (bool \<times> string \<times> daemon_world route) list" where
  "registered_routes e =
     (let p = cf_plugins (config.truncate (de_config e))
      in [(pc_battery p, CmdBattery, route_battery),
          (pc_connectivity p, CmdConnectivity, route_connectivity),
          (pc_clipboard p, CmdClipboardPush, route_clipboard_push),
          (pc_contacts p, CmdContactsSync, route_contacts_sync),
          (pc_contacts p, CmdContactsList, route_contacts_list e),
          (pc_contacts p, CmdContactsClear, route_contacts_clear e),
          (pc_runcommand p, CmdRunExec, route_run_exec),
          (pc_sms p, CmdSendSMS, route_send_sms),
          (pc_sms p, CmdSmsRequestConvs, route_sms_conversations),
          (pc_sms p, CmdSmsRequestConv, route_sms_conversation),
          (pc_sms p, CmdSmsRequestAttachment, route_sms_attachment),
          (pc_telephony p, CmdCallMute, route_call_mute),
          (pc_notification p, CmdNotifyReply, route_notify_reply),
          (pc_notification p, CmdNotifyDismiss, route_notify_dismiss),
          (pc_notification p, CmdNotifyAction, route_notify_action),
          (True, CmdDevices, route_devices e),
          (True, CmdPing, route_ping e),
          (pc_findmyphone p, CmdFindMyPhone, route_findmyphone),
          (pc_lockdevice p, CmdLock, route_lock),
          (pc_lockdevice p, CmdUnlock, route_unlock),
          (pc_remotesystemvolume p, CmdRemoteVolumeList, route_remote_volume_list),
          (pc_remotesystemvolume p, CmdRemoteVolumeSet, route_remote_volume_set),
          (pc_remotesystemvolume p, CmdRemoteVolumeMute, route_remote_volume_mute),
          (True, CmdConnect, route_connect e),
          (True, CmdBroadcastStart, route_broadcast_start),
          (True, CmdBroadcastStop, route_broadcast_stop),
          (True, CmdStatus, route_status e)])"

definition register_routes :: "daemon_env \<Rightarrow> daemon_world routes \<Rightarrow> daemon_world routes" where
  "register_routes e routes =
     fold (\<lambda>(on, command, f). if on then RegisterRoute command f else id) (registered_routes e) routes"

section \<open>What every route keeps\<close>

text \<open>
  A route sends to at most one device, a registered one, and then its answer is a success; an answer that is an error
  leaves the world as it was, but for the clipboard tool that the clipboard plugin may have found.
\<close>

definition sends_ok :: "ipc_response option \<Rightarrow> daemon_world \<Rightarrow> daemon_world \<Rightarrow> bool" where
  "sends_ok resp w w' \<longleftrightarrow>
     dw_sent w' = dw_sent w \<or>
     (\<exists>i r es. dw_sent w' = dw_sent w @ [(r, es)] \<and> reg_Get i (dw_registry w) = Some r \<and> resp = Some okay)"

definition same_but_tool :: "daemon_world \<Rightarrow> daemon_world \<Rightarrow> bool" where
  "same_but_tool w w' \<longleftrightarrow> (\<exists>b display. w' = w\<lparr>dw_clip := (dw_clip w)\<lparr>cl_backend := b, cl_wl_display := display\<rparr>\<rparr>)"

lemma same_but_tool_refl [simp]: "same_but_tool w w"
  unfolding same_but_tool_def by (intro exI [of _ "cl_backend (dw_clip w)"] exI [of _ "cl_wl_display (dw_clip w)"]) simp

lemma failed_Push_tool: "Push d run now (dw_clip w) = (Inl x, c) \<Longrightarrow> same_but_tool w (w\<lparr>dw_clip := c\<rparr>)"
proof -
  assume p: "Push d run now (dw_clip w) = (Inl x, c)"
  have "\<exists>b display. snd (getBackend d st) = st\<lparr>cl_backend := b, cl_wl_display := display\<rparr>" for st
  proof (cases "snd (getBackend d st) = st")
    case True
    then show ?thesis by (intro exI [of _ "cl_backend st"] exI [of _ "cl_wl_display st"]) simp
  next
    case False
    then show ?thesis by (auto simp: getBackend_def split: prod.splits if_splits)
  qed
  moreover have "c = snd (getBackend d (dw_clip w))"
    using p by (auto simp: Push_def split: if_splits prod.splits option.splits tool_result.splits)
  ultimately show ?thesis unfolding same_but_tool_def by metis
qed

definition error_ok :: "ipc_response option \<Rightarrow> daemon_world \<Rightarrow> daemon_world \<Rightarrow> bool" where
  "error_ok resp w w' \<longleftrightarrow>
     (\<exists>x. resp = Some x \<and> (rs_ok x \<or> same_but_tool w w'))"

definition route_ok :: "daemon_world route \<Rightarrow> bool" where
  "route_ok f \<longleftrightarrow> (\<forall>req w. case f req w of (resp, w') \<Rightarrow> sends_ok resp w w' \<and> error_ok resp w w')"

lemma route_okD: "route_ok f \<Longrightarrow> f req w = (resp, w') \<Longrightarrow> sends_ok resp w w'"
    "route_ok f \<Longrightarrow> f req w = (resp, w') \<Longrightarrow> error_ok resp w w'"
  by (auto simp: route_ok_def dest!: spec [of _ req] spec [of _ w])

definition action_ok :: "'p device_action \<Rightarrow> bool" where
  "action_ok act \<longleftrightarrow>
     (\<forall>p r w i. reg_Get i (dw_registry w) = Some r \<longrightarrow>
        (case act p r w of (resp, w') \<Rightarrow> sends_ok (Some resp) w w' \<and> error_ok (Some resp) w w'))"

lemma response_simps [simp]:
  "rs_ok okay" "\<not> rs_ok (FailWith s)" "\<not> rs_ok (Err c s d)" "rs_ok (jsonOK j)"
  by (simp_all add: okay_def FailWith_def Err_def jsonOK_def zero_ipc_response_def)

lemma same_world [simp]: "sends_ok resp w w" "error_ok (Some x) w w"
  by (simp_all add: sends_ok_def error_ok_def)

lemma deviceRoute_ok:
  assumes "action_ok act" shows "route_ok (deviceRoute dec zero device_id name act)"
  using assms
  by (fastforce simp: route_ok_def action_ok_def deviceRoute_def invalid_payload_def plugin_disabled_def device_not_found_def
      split: option.splits prod.splits)

lemma pluginRoute_ok:
  assumes "\<And>p w. case act p w of (resp, w') \<Rightarrow> dw_sent w' = dw_sent w \<and> error_ok (Some resp) w w'"
  shows "route_ok (pluginRoute dec zero name act)"
  using assms
  by (fastforce simp: route_ok_def sends_ok_def pluginRoute_def invalid_payload_def plugin_disabled_def split: option.splits prod.splits)

lemma sends_action_ok: "action_ok (sends f)"
  by (auto simp: action_ok_def sends_def send_effects_def sends_ok_def error_ok_def)

lemmas device_route_defs =
  route_ping_def route_findmyphone_def route_lock_def route_unlock_def route_battery_def route_connectivity_def
  route_clipboard_push_def route_run_exec_def route_send_sms_def route_sms_conversations_def route_sms_conversation_def
  route_sms_attachment_def route_call_mute_def route_notify_reply_def route_notify_dismiss_def route_notify_action_def
  route_contacts_sync_def route_remote_volume_set_def route_remote_volume_mute_def

lemma device_routes_ok:
  "route_ok (route_ping e)" "route_ok route_findmyphone" "route_ok route_lock" "route_ok route_unlock"
  "route_ok route_battery" "route_ok route_connectivity" "route_ok route_clipboard_push" "route_ok route_run_exec"
  "route_ok route_send_sms" "route_ok route_sms_conversations" "route_ok route_sms_conversation"
  "route_ok route_sms_attachment" "route_ok route_call_mute" "route_ok route_notify_reply"
  "route_ok route_notify_dismiss" "route_ok route_notify_action" "route_ok route_contacts_sync"
  "route_ok route_remote_volume_set" "route_ok route_remote_volume_mute"
  unfolding device_route_defs
  by (rule deviceRoute_ok, rule sends_action_ok
      | rule deviceRoute_ok,
        fastforce simp: action_ok_def send_effects_def sends_ok_def error_ok_def Let_def dest: failed_Push_tool split: option.splits prod.splits sum.splits if_splits)+

lemma plugin_routes_ok:
  "route_ok (route_contacts_list e)" "route_ok (route_contacts_clear e)" "route_ok route_remote_volume_list"
  unfolding route_contacts_list_def route_contacts_clear_def route_remote_volume_list_def
  by (rule pluginRoute_ok, auto simp: error_ok_def ForgetDevice_def split: option.splits)+

lemma daemon_routes_ok:
  "route_ok (route_devices e)" "route_ok (route_connect e)" "route_ok route_broadcast_start"
  "route_ok route_broadcast_stop" "route_ok (route_status e)"
  by (auto simp: route_ok_def route_devices_def route_connect_def route_broadcast_start_def route_broadcast_stop_def
      route_status_def sends_ok_def error_ok_def Let_def split: option.splits)

lemma table_ok: "(on, c, f) \<in> set (registered_routes e) \<Longrightarrow> route_ok f"
  by (auto simp: registered_routes_def Let_def device_routes_ok plugin_routes_ok daemon_routes_ok)

lemma table_commands: "distinct (map (fst \<circ> snd) (registered_routes e))"
  by (simp add: registered_routes_def Let_def CmdBattery_def CmdConnectivity_def CmdClipboardPush_def CmdContactsSync_def
      CmdContactsList_def CmdContactsClear_def CmdRunExec_def CmdSendSMS_def CmdSmsRequestConvs_def CmdSmsRequestConv_def
      CmdSmsRequestAttachment_def CmdCallMute_def CmdNotifyReply_def CmdNotifyDismiss_def CmdNotifyAction_def
      CmdDevices_def CmdPing_def CmdFindMyPhone_def CmdLock_def CmdUnlock_def CmdRemoteVolumeList_def
      CmdRemoteVolumeSet_def CmdRemoteVolumeMute_def CmdConnect_def CmdBroadcastStart_def CmdBroadcastStop_def CmdStatus_def)

lemma registered_lookup:
  "distinct (map (fst \<circ> snd) rs) \<Longrightarrow>
   map_of (fold (\<lambda>(on, c, f). if on then RegisterRoute c f else id) rs routes) c =
     (case find (\<lambda>(on, c', f). c' = c \<and> on) rs of Some (on, c', f) \<Rightarrow> Some f | None \<Rightarrow> map_of routes c)"
proof (induction rs arbitrary: routes)
  case (Cons x rs)
  obtain on c' f where x: "x = (on, c', f)" by (metis prod_cases3)
  have "find (\<lambda>(on, d, f). d = c' \<and> on) rs = None"
    using Cons.prems x by (force simp: find_None_iff)
  then show ?case using Cons x by (auto simp: RegisterRoute_def update_conv' split: option.splits)
qed simp

lemma find_command:
  "distinct (map (fst \<circ> snd) rs) \<Longrightarrow> (on, c, f) \<in> set rs \<Longrightarrow>
     find (\<lambda>(on', c', f'). c' = c \<and> on') rs = (if on then Some (on, c, f) else None)"
proof (induction rs)
  case (Cons x rs)
  show ?case
  proof (cases "x = (on, c, f)")
    case True
    then have "find (\<lambda>(on', c', f'). c' = c \<and> on') rs = None" using Cons.prems by (force simp: find_None_iff)
    then show ?thesis using True by auto
  next
    case False
    then have m: "(on, c, f) \<in> set rs" using Cons.prems by simp
    then have "c \<in> (fst \<circ> snd) ` set rs" by force
    then have "fst (snd x) \<noteq> c" using Cons.prems(1) by auto
    then show ?thesis using Cons m by (auto simp: case_prod_beta)
  qed
qed simp

lemma registered_ok:
  assumes "map_of (register_routes e []) c = Some f" shows "route_ok f"
proof -
  let ?find = "find (\<lambda>(on, c', f). c' = c \<and> on) (registered_routes e)"
  have l: "(case ?find of Some (on, c', f) \<Rightarrow> Some f | None \<Rightarrow> map_of [] c) = Some f"
    using assms registered_lookup [OF table_commands, of e "[]" c] by (simp add: register_routes_def)
  then obtain on c' where "?find = Some (on, c', f)" by (auto split: option.splits prod.splits)
  then have "(on, c', f) \<in> set (registered_routes e)" by (metis find_Some_iff nth_mem)
  then have "\<exists>on c. (on, c, f) \<in> set (registered_routes e)" by blast
  then show ?thesis using table_ok by blast
qed

text \<open>
  A command runs the route of its plugin when the plugin is switched on in the configuration, and is unknown when
  it is switched off.
\<close>
theorem switched_off_command_unknown:
  assumes "(on, rq_command req, f) \<in> set (registered_routes e)"
  shows "HandleRequest (register_routes e []) req w =
    (if on then f req w else (Some (Err CodeUnknownCommand ''unknown command'' [(''command'', rq_command req)]), w))"
  using registered_lookup [OF table_commands, of e "[]" "rq_command req"] find_command [OF table_commands assms]
  by (simp add: HandleRequest_def register_routes_def)



text \<open>A daemon with the default configuration, the ping plugin and one device.\<close>

definition demo_daemon_env :: daemon_env where
  "demo_daemon_env = \<lparr>de_config = zero_config, de_base_dir = ''/c'', de_parse_ip = (\<lambda>_. []), de_ip_text = (\<lambda>_. []),
     de_rfc3339 = (\<lambda>_. []), de_time_text = (\<lambda>_. []), de_version = ''1'', de_started_at = 0, de_suppliers = []\<rparr>"

definition demo_daemon :: daemon_world where
  "demo_daemon = \<lparr>dw_registry = one_device (NewDevice ''a'' [] []), dw_plugins = Register PingPlugin NewPluginRegistry,
     dw_now = 0, dw_sent = [], dw_dials = [], dw_broadcast = NewBroadcasterController 0 [],
     dw_sms = demo_sms, dw_notif = demo_notifier, dw_reports = [], dw_sinks = [], dw_contacts = Map.empty,
     dw_clip = NewClipboardPlugin False, dw_desktop = demo_desktop, dw_paste = demo_prints\<rparr>"

definition demo_ping :: ipc_request where
  "demo_ping = \<lparr>rq_command = CmdPing, rq_id = None, rq_payload = Some demo_named\<rparr>"

lemma demo_ping_registered: "map_of (register_routes demo_daemon_env []) CmdPing = Some (route_ping demo_daemon_env)"
proof -
  have i: "(True, CmdPing, route_ping demo_daemon_env) \<in> set (registered_routes demo_daemon_env)"
    by (simp add: registered_routes_def Let_def)
  show ?thesis
    using registered_lookup [OF table_commands, of demo_daemon_env "[]" CmdPing] find_command [OF table_commands i]
    by (simp add: register_routes_def)
qed

lemma demo_ping_route:
  "rq_command req = CmdPing \<Longrightarrow>
     HandleRequest (register_routes demo_daemon_env []) req w = route_ping demo_daemon_env req w"
  by (simp add: HandleRequest_def demo_ping_registered)

lemma demo_pinged:
  "route_ping demo_daemon_env demo_ping demo_daemon =
     (Some okay, send_effects 0 (Ping (fc_ping zero_config) []) demo_daemon)"
proof -
  have n: "GetByName ''Ping'' (dw_plugins demo_daemon) = Some PingPlugin"
    by (simp add: demo_daemon_def GetByName_def Register_def PingPlugin_def NewPluginRegistry_def)
  have "reg_Get ''a'' (dw_registry demo_daemon) = Some 0" by (simp add: demo_daemon_def NewDevice_def)
  then show ?thesis
    using n demo_named_payloads(2)
    by (simp add: route_ping_def deviceRoute_def demo_ping_def sends_def demo_daemon_env_def)
qed

lemma demo_sent: "dw_sent demo_daemon = []"
  by (simp add: demo_daemon_def)


theorem switched_off_command_unknown_witness:
  "HandleRequest (register_routes demo_daemon_env []) (demo_ping\<lparr>rq_command := CmdLock\<rparr>) demo_daemon =
     (Some (Err CodeUnknownCommand ''unknown command'' [(''command'', CmdLock)]), demo_daemon)"
proof -
  have "(False, CmdLock, route_lock) \<in> set (registered_routes demo_daemon_env)"
    by (simp add: registered_routes_def Let_def demo_daemon_env_def config.truncate_def zero_config_def plugins_all_def)
  then show ?thesis
    using switched_off_command_unknown [of False "demo_ping\<lparr>rq_command := CmdLock\<rparr>" route_lock demo_daemon_env demo_daemon] by simp
qed


section \<open>The end of a broadcast\<close>

lemma disconnected: "\<not> IsConnected (fst (Disconnect now d))"
  by (simp add: Disconnect_def IsConnected_def drop_conn_def close_done_def Let_def split: option.splits)

text \<open>
  Ending the broadcast disconnects exactly the connected devices that are unpaired and that nobody asked to dial;
  pairs, pending requests and wanted devices stay as they are.
\<close>
theorem broadcast_stop_drops_strangers_only:
  "dev_at (drop_lingering now rg) r =
     (if r \<in> set (reg_List rg) \<and> lingering now (dev_at rg r) then fst (Disconnect now (dev_at rg r)) else dev_at rg r)"
proof -
  let ?f = "\<lambda>r rg. if lingering now (dev_at rg r) then upd_dev r (\<lambda>d. fst (Disconnect now d)) rg else rg"
  have "dev_at (fold ?f rs rg) r =
      (if r \<in> set rs \<and> lingering now (dev_at rg r) then fst (Disconnect now (dev_at rg r)) else dev_at rg r)" for rs rg
  proof (induction rs arbitrary: rg)
    case (Cons q rs)
    have "\<not> lingering now (fst (Disconnect now d))" for d using disconnected by (simp add: lingering_def)
    moreover have "dev_at (upd_dev q g rg) r = (if r = q then g (dev_at rg q) else dev_at rg r)" for g
      by (simp add: upd_dev_def dev_at_def)
    ultimately show ?case by (auto simp: Cons.IH)
  qed simp
  then show ?thesis by (simp add: drop_lingering_def)
qed

section \<open>Where the code and the documents part\<close>

text \<open>
  The routes do not look at the switches of a device: a command for a device whose plugin is switched off is carried
  out, and the error \<open>plugin_disabled_for_device\<close> of the protocol never occurs.
\<close>
theorem route_ignores_device_policy:
  "fst (route_ping e req (w\<lparr>dw_plugins := SetDevicePluginPolicy policy (dw_plugins w)\<rparr>)) = fst (route_ping e req w) \<and>
   dw_sent (snd (route_ping e req (w\<lparr>dw_plugins := SetDevicePluginPolicy policy (dw_plugins w)\<rparr>))) = dw_sent (snd (route_ping e req w))"
  by (auto simp: route_ping_def deviceRoute_def sends_def send_effects_def GetByName_def SetDevicePluginPolicy_def
      split: option.splits)

text \<open>
  The identifier given to \<open>contacts_clear\<close> is not looked up: a dot is the directory of all caches, and the contacts
  of every device are removed.
\<close>
theorem dot_clears_every_device:
  assumes "GetByName ''Contacts'' (dw_plugins w) \<noteq> None" and "de_base_dir e = ''/c''"
    and "payload_as dec_device_payload zero_device_payload (rq_payload req) = Some \<lparr>dp_device_id = ''.'', dp_key = []\<rparr>"
  shows "fst (route_contacts_clear e req w) = Some okay \<and>
    dw_contacts (snd (route_contacts_clear e req w)) ''/c/0a1b'' = None"
proof -
  have "cacheDir ''/c'' ''.'' = Some ''/c''" by code_simp
  moreover have "under ''/c'' ''/c/0a1b''" by code_simp
  ultimately show ?thesis
    using assms by (auto simp: route_contacts_clear_def pluginRoute_def ForgetDevice_def split: option.splits)
qed

end
