(* ===== verification/SftpMounts.thy ===== *)
theory SftpMounts
  imports Share RunCommand
begin

text \<open>
  The parts of the SFTP plugin (\<open>internal/plugins/sftp\<close>) without state: where a mount lives, the mount table of the
  kernel, the arguments of \<open>sshfs\<close>, and the folders of the user that are often deleted as a whole.

  The text of \<open>/proc/mounts\<close> and of the user's \<open>user-dirs.dirs\<close> are arguments, \<open>None\<close> when they cannot be read;
  so are the working directory and the home directory.  \<open>net.ParseIP\<close> is the standard library's.
\<close>

section \<open>Relative paths\<close>

text \<open>\<open>filepath.Abs\<close> and \<open>filepath.Rel\<close>; the names of a clean path, none for the root.\<close>

definition Abs_path :: "string option \<Rightarrow> string \<Rightarrow> string option" where
  "Abs_path cwd p = (if is_rooted p then Some (Clean p) else map_option (\<lambda>d. Join [d, p]) cwd)"

definition path_parts :: "string \<Rightarrow> string list" where
  "path_parts p = filter (\<lambda>x. x \<noteq> []) (split_on slash (Clean p))"

fun drop_common :: "string list \<Rightarrow> string list \<Rightarrow> string list \<times> string list" where
  "drop_common (b # bs) (t # ts) = (if b = t then drop_common bs ts else (b # bs, t # ts))"
| "drop_common bs ts = (bs, ts)"

definition Rel :: "string \<Rightarrow> string \<Rightarrow> string option" where
  "Rel base targ =
     (if Clean base = Clean targ then Some dot
      else if is_rooted base \<noteq> is_rooted targ then None
      else case drop_common (if Clean base = dot then [] else path_parts base) (path_parts targ) of
        (bs, ts) \<Rightarrow> if bs = [dotdot] then None else Some (join_with [slash] (replicate (length bs) dotdot @ ts)))"

section \<open>Where a mount lives\<close>

definition confinedMountPath :: "string option \<Rightarrow> string \<Rightarrow> string \<Rightarrow> string" where
  "confinedMountPath cwd baseDir child =
     (case Abs_path cwd baseDir of
        None \<Rightarrow> []
      | Some base \<Rightarrow>
          let target = Join [base, child]
          in case Rel base target of
               None \<Rightarrow> []
             | Some rel \<Rightarrow> if rel = dotdot \<or> has_prefix (dotdot @ [slash]) rel \<or> is_rooted rel then [] else target)"

definition mount_name :: "string \<Rightarrow> string" where
  "mount_name dev = ''kcd-sftp-'' @ dev"

definition mountPointFor :: "sftp_config \<Rightarrow> string \<Rightarrow> string option \<Rightarrow> string \<Rightarrow> string" where
  "mountPointFor cfg default_dir cwd dev =
     confinedMountPath cwd (if sf_mount_dir cfg = [] then default_dir else sf_mount_dir cfg) (mount_name dev)"

definition legacyMountPointFor :: "string option \<Rightarrow> string option \<Rightarrow> string \<Rightarrow> string" where
  "legacyMountPointFor home cwd dev =
     (case home of
        None \<Rightarrow> []
      | Some h \<Rightarrow> confinedMountPath cwd (Join [h, ''Downloads'', ''kcd'', ''mnt'']) (mount_name dev))"

section \<open>The mount table of the kernel\<close>

text \<open>The lines of \<open>bufio.Scanner\<close>; one that does not fit into its buffer of 64 KiB ends the scan.\<close>

definition scanner_lines :: "string \<Rightarrow> string list" where
  "scanner_lines s =
     (let ls = split_on newline s
      in map drop_cr (takeWhile (\<lambda>l. length l < 65536) (if last ls = [] then butlast ls else ls)))"

definition octal_digit :: "char \<Rightarrow> bool" where
  "octal_digit c \<longleftrightarrow> 48 \<le> byte c \<and> byte c \<le> 55"

fun unescape_loop :: "string \<Rightarrow> string" where
  "unescape_loop (c # d1 # d2 # d3 # s) =
     (if c = CHR 0x5C \<and> octal_digit d1 \<and> octal_digit d2 \<and> octal_digit d3
      then char_of (((byte d1 - 48) * 64 + (byte d2 - 48) * 8 + (byte d3 - 48)) mod 256) # unescape_loop s
      else c # unescape_loop (d1 # d2 # d3 # s))"
| "unescape_loop s = s"

definition unescapeMountPath :: "string \<Rightarrow> string" where
  "unescapeMountPath s = (if CHR 0x5C \<in> set s then unescape_loop s else s)"

definition fuse_mounts :: "string \<Rightarrow> string list" where
  "fuse_mounts table =
     concat (map (\<lambda>line. case Fields line of
         _ # path # typ # _ \<Rightarrow> if has_prefix ''fuse'' typ then [unescapeMountPath path] else []
       | _ \<Rightarrow> []) (scanner_lines table))"

definition eachMount :: "string option \<Rightarrow> (string \<Rightarrow> bool) \<Rightarrow> string option" where
  "eachMount table match = (case table of None \<Rightarrow> None | Some t \<Rightarrow> find match (fuse_mounts t))"

definition mountExists :: "string option \<Rightarrow> string \<Rightarrow> bool" where
  "mountExists table path = (eachMount table (\<lambda>mp. mp = path) \<noteq> None)"

section \<open>The arguments of \<open>sshfs\<close>\<close>

text \<open>The body of a packet and its credentials.\<close>

definition drop_digits :: "string \<Rightarrow> string option" where
  "drop_digits s = (case span_digits s of (ds, r) \<Rightarrow> if ds = [] then None else Some r)"

definition number_fraction :: "string \<Rightarrow> string option" where
  "number_fraction s = (case s of c # cs \<Rightarrow> if c = CHR ''.'' then drop_digits cs else Some s | [] \<Rightarrow> Some s)"

definition number_exponent :: "string \<Rightarrow> string option" where
  "number_exponent s =
     (case s of
        [] \<Rightarrow> Some s
      | c # cs \<Rightarrow>
          if c = CHR ''e'' \<or> c = CHR ''E''
          then drop_digits (case cs of [] \<Rightarrow> [] | d # ds \<Rightarrow> if d = CHR ''+'' \<or> d = CHR ''-'' then ds else cs)
          else Some s)"

text \<open>A \<open>json.Number\<close> takes a number as it is written, or a string that is a number.\<close>

definition valid_number :: "string \<Rightarrow> bool" where
  "valid_number s =
     (let u = (case s of [] \<Rightarrow> [] | c # cs \<Rightarrow> if c = CHR ''-'' then cs else s)
      in u \<noteq> [] \<and>
         Option.bind (Option.bind (if hd u = CHR ''0'' then Some (tl u) else drop_digits u) number_fraction) number_exponent
           = Some [])"

fun dec_number :: "json \<Rightarrow> string \<Rightarrow> string option" where
  "dec_number JNull old = Some old"
| "dec_number (JNum lit) old = Some lit"
| "dec_number (JStr s) old = (if valid_number s then Some s else None)"
| "dec_number _ old = None"

record sftp_body =
  sfb_server_running :: "bool option"
  sfb_ip :: string
  sfb_port :: string
  sfb_user :: string
  sfb_password :: string
  sfb_path :: string
  sfb_multi_paths :: "string list"
  sfb_path_names :: "string list"
  sfb_error_message :: string

definition zero_sftp_body :: sftp_body where
  "zero_sftp_body = \<lparr>sfb_server_running = None, sfb_ip = [], sfb_port = [], sfb_user = [], sfb_password = [], sfb_path = [], sfb_multi_paths = [], sfb_path_names = [], sfb_error_message = []\<rparr>"

definition sftp_body_fields :: "sftp_body field list" where
  "sftp_body_fields =
     [(''serverRunning'', fld (dec_opt dec_bool False) sfb_server_running sfb_server_running_update),
      (''ip'', fld dec_str sfb_ip sfb_ip_update),
      (''port'', fld dec_number sfb_port sfb_port_update),
      (''user'', fld dec_str sfb_user sfb_user_update),
      (''password'', fld dec_str sfb_password sfb_password_update),
      (''path'', fld dec_str sfb_path sfb_path_update),
      (''multiPaths'', fld dec_strs sfb_multi_paths sfb_multi_paths_update),
      (''pathNames'', fld dec_strs sfb_path_names sfb_path_names_update),
      (''errorMessage'', fld dec_str sfb_error_message sfb_error_message_update)]"

definition dec_sftp_body :: "json \<Rightarrow> sftp_body \<Rightarrow> sftp_body option" where
  "dec_sftp_body j = dec_struct (dec_fields sftp_body_fields) j"

definition credentialsComplete :: "sftp_body \<Rightarrow> bool" where
  "credentialsComplete b =
     (case atoi (sfb_port b) of
        None \<Rightarrow> False
      | Some port \<Rightarrow> sfb_ip b \<noteq> [] \<and> port > 0 \<and> port \<le> 65535 \<and> sfb_user b \<noteq> [] \<and> sfb_password b \<noteq> [])"

definition ascii_alnum :: "char \<Rightarrow> bool" where
  "ascii_alnum c \<longleftrightarrow> is_digit c \<or> (65 \<le> byte c \<and> byte c \<le> 90) \<or> (97 \<le> byte c \<and> byte c \<le> 122)"

definition sshUserPattern :: "string \<Rightarrow> bool" where
  "sshUserPattern s =
     (case s of
        [] \<Rightarrow> False
      | c # cs \<Rightarrow> (ascii_alnum c \<or> c = CHR ''_'') \<and>
          list_all (\<lambda>x. ascii_alnum x \<or> x = CHR ''_'' \<or> x = CHR ''.'' \<or> x = CHR ''-'') cs)"

definition sshHostPattern :: "string \<Rightarrow> bool" where
  "sshHostPattern s =
     (s \<noteq> [] \<and> ascii_alnum (hd s) \<and> ascii_alnum (last s) \<and>
      list_all (\<lambda>x. ascii_alnum x \<or> x = CHR ''.'' \<or> x = CHR ''-'') s)"

datatype sshfs_refusal = SuspiciousUser | SuspiciousHost | InvalidHost | InvalidPort | SuspiciousPath

definition sshfs_options :: "int \<Rightarrow> int \<Rightarrow> int \<Rightarrow> int \<Rightarrow> int \<Rightarrow> string list \<Rightarrow> bool \<Rightarrow> string list" where
  "sshfs_options port uid gid interval cnt extra ro =
     [''-p'', show_int port, ''-s'', ''-F'', ''/dev/null'', ''-o'', ''password_stdin'', ''-o'', ''StrictHostKeyChecking=no'',
      ''-o'', ''UserKnownHostsFile=/dev/null'', ''-o'', ''reconnect'',
      ''-o'', ''ServerAliveInterval='' @ show_int interval, ''-o'', ''ServerAliveCountMax='' @ show_int cnt,
      ''-o'', ''auto_cache'', ''-o'', ''kernel_cache'', ''-o'', ''uid='' @ show_int uid, ''-o'', ''gid='' @ show_int gid]
     @ (if ro then [''-o'', ''ro''] else []) @ concat (map (\<lambda>opt. [''-o'', opt]) extra)"

definition buildSSHFSArgs ::
  "(string \<Rightarrow> ip option) \<Rightarrow> sftp_body \<Rightarrow> string \<Rightarrow> string \<Rightarrow> int \<Rightarrow> int \<Rightarrow> int \<Rightarrow> int \<Rightarrow> string list \<Rightarrow> bool \<Rightarrow>
     sshfs_refusal + string list" where
  "buildSSHFSArgs parse_ip b remotePath mountPoint uid gid interval cnt extra ro =
     (if \<not> sshUserPattern (sfb_user b) \<or> length (sfb_user b) > 64 then Inl SuspiciousUser
      else if sfb_ip b = [] \<or> has_prefix ''-'' (sfb_ip b) then Inl SuspiciousHost
      else if parse_ip (sfb_ip b) = None \<and> (\<not> sshHostPattern (sfb_ip b) \<or> length (sfb_ip b) > 253) then Inl InvalidHost
      else case atoi (TrimSpace (sfb_port b)) of
        None \<Rightarrow> Inl InvalidPort
      | Some port \<Rightarrow>
          if port < 1 \<or> port > 65535 then Inl InvalidPort
          else if remotePath = [] \<or> has_prefix ''-'' remotePath then Inl SuspiciousPath
          else Inr ([sfb_user b @ ''@'' @ sfb_ip b @ '':'' @ Clean remotePath, mountPoint]
                    @ sshfs_options port uid gid interval cnt extra ro))"

definition sshfsHint :: "string \<Rightarrow> string" where
  "sshfsHint msg =
     (if contains ''Operation not permitted'' msg \<or> contains ''user_allow_other'' msg \<or> contains ''Permission denied'' msg
      then ''Hint: FUSE requires user_allow_other in /etc/fuse.conf.'' @ newline #
           ''Run: sudo sed -i '' @ [CHR 0x27] @ ''s/^#user_allow_other/user_allow_other/'' @ [CHR 0x27] @ '' /etc/fuse.conf''
      else if contains ''sshfs: not found'' msg \<or> contains ''executable file not found'' msg
      then ''Hint: sshfs is not installed.'' @ newline #
           ''Install: sudo apt install sshfs  (or the equivalent for your distro)''
      else [])"

section \<open>Folders that are deleted as a whole\<close>

definition bulkDeletableDirs :: "(string \<times> string) list" where
  "bulkDeletableDirs =
     [(''XDG_DOWNLOAD_DIR'', ''Downloads''), (''XDG_DOCUMENTS_DIR'', ''Documents''), (''XDG_DESKTOP_DIR'', ''Desktop''),
      (''XDG_MUSIC_DIR'', ''Music''), (''XDG_PICTURES_DIR'', ''Pictures''), (''XDG_VIDEOS_DIR'', ''Videos'')]"

definition parseUserDirsLine :: "string option \<Rightarrow> string \<Rightarrow> (string \<times> string) option" where
  "parseUserDirsLine home line =
     (let l = TrimSpace line
      in if l = [] \<or> has_prefix ''#'' l then None
         else if CHR ''='' \<notin> set l then None
         else let key = TrimSpace (takeWhile (\<lambda>c. c \<noteq> CHR ''='') l);
                  value = TrimSpace (tl (dropWhile (\<lambda>c. c \<noteq> CHR ''='') l));
                  value = (if length value \<ge> 2 \<and> hd value = last value \<and> (hd value = CHR 0x22 \<or> hd value = CHR 0x27)
                    then butlast (tl value) else value)
              in if value = [] then None
                 else Some (key, case home of None \<Rightarrow> value | Some h \<Rightarrow> replace_all ''$HOME'' h value))"

definition userBulkDeletableDirs :: "string option \<Rightarrow> string option \<Rightarrow> string list" where
  "userBulkDeletableDirs home user_dirs =
     (case home of
        None \<Rightarrow> []
      | Some h \<Rightarrow>
          let configured = fold (\<lambda>line m. case parseUserDirsLine home line of None \<Rightarrow> m | Some (k, v) \<Rightarrow> m(k \<mapsto> v))
                (case user_dirs of None \<Rightarrow> [] | Some t \<Rightarrow> scanner_lines t) Map.empty
          in map (\<lambda>(key, name). case configured key of
                None \<Rightarrow> Clean (Join [h, name])
              | Some dir \<Rightarrow> Clean (if dir = [] then Join [h, name] else dir)) bulkDeletableDirs)"

text \<open>Whether the path is the directory itself or below it, as the code decides it.\<close>

definition isWithin :: "string \<Rightarrow> string \<Rightarrow> bool" where
  "isWithin dir path = (case Rel dir path of None \<Rightarrow> False | Some rel \<Rightarrow> rel = dot \<or> \<not> has_prefix dotdot rel)"

definition containingBulkDeletableDir :: "string option \<Rightarrow> string option \<Rightarrow> string option \<Rightarrow> string \<Rightarrow> string" where
  "containingBulkDeletableDir home user_dirs cwd path =
     (let abs = (case Abs_path cwd path of None \<Rightarrow> Clean path | Some a \<Rightarrow> a)
      in case find (\<lambda>dir. isWithin dir abs) (userBulkDeletableDirs home user_dirs) of None \<Rightarrow> [] | Some dir \<Rightarrow> dir)"

section \<open>Facts about paths\<close>

lemma path_parts_plain: "list_all plain_part ps \<Longrightarrow> path_parts (slash # join_with [slash] ps) = ps"
proof (cases "ps = []")
  case True
  then show ?thesis using Clean_plain_rooted [of "[]"] by (simp add: path_parts_def)
next
  case False
  assume ps: "list_all plain_part ps"
  then have "split_on slash (join_with [slash] ps) = ps"
    using False by (intro split_join) (auto simp: list_all_iff plain_part_def)
  moreover have "filter (\<lambda>x. x \<noteq> []) ps = ps" using ps by (auto simp: filter_id_conv list_all_iff plain_part_def)
  ultimately show ?thesis using Clean_plain_rooted [OF ps] by (simp add: path_parts_def)
qed

lemma rooted_path: "is_rooted p \<Longrightarrow> list_all plain_part (path_parts p) \<and> Clean p = slash # join_with [slash] (path_parts p)"
proof -
  assume "is_rooted p"
  then obtain ps where ps: "list_all plain_part ps" "Clean p = slash # join_with [slash] ps" using Clean_rooted by blast
  have "path_parts p = path_parts (Clean p)" using Clean_plain_rooted [OF ps(1)] ps(2) by (simp add: path_parts_def)
  also have "\<dots> = ps" unfolding ps(2) by (rule path_parts_plain [OF ps(1)])
  finally show ?thesis using ps by simp
qed

lemma rooted_slash [simp]: "is_rooted (slash # s)"
  by (simp add: is_rooted_def)

lemma dot_not_rooted [simp]: "\<not> is_rooted dot" "\<not> is_rooted dotdot"
  by (simp_all add: is_rooted_def dot_def dotdot_def slash_def)

lemma rooted_not_dot: "is_rooted p \<Longrightarrow> Clean p \<noteq> dot"
  using rooted_path [of p] by (auto simp: dot_def slash_def)

lemma drop_common_split:
  "drop_common bs ts = (bs', ts') \<Longrightarrow> \<exists>c. bs = c @ bs' \<and> ts = c @ ts'"
  by (induction bs ts arbitrary: bs' ts' rule: drop_common.induct) (auto split: if_splits intro: exI [of _ "[]"] exI [of _ "_ # _"])

lemma drop_common_prefix [simp]: "drop_common bs (bs @ ts) = ([], ts)"
  by (induction bs) auto

lemma climbing_path: "bs \<noteq> [] \<Longrightarrow> has_prefix dotdot (join_with [slash] (replicate (length bs) dotdot @ ts))"
  by (cases bs; cases "replicate (length (tl bs)) dotdot @ ts") (auto simp: has_prefix_iff)

lemma climbing_path_slash:
  "bs \<noteq> [] \<Longrightarrow> join_with [slash] (replicate (length bs) dotdot @ ts) = dotdot \<or>
    has_prefix (dotdot @ [slash]) (join_with [slash] (replicate (length bs) dotdot @ ts))"
  by (cases bs; cases "replicate (length (tl bs)) dotdot @ ts") (auto simp: has_prefix_iff)

lemma plain_prefix:
  assumes "list_all plain_part (t # ts)"
  shows "has_prefix dotdot (join_with [slash] (t # ts)) \<longleftrightarrow> has_prefix dotdot t" and "join_with [slash] (t # ts) \<noteq> dot"
proof -
  obtain c cs where t: "t = c # cs" using assms by (cases t) (auto simp: plain_part_def)
  have p: "t \<noteq> dot" "slash \<notin> set t" using assms by (auto simp: plain_part_def)
  show "has_prefix dotdot (join_with [slash] (t # ts)) \<longleftrightarrow> has_prefix dotdot t"
    using p by (cases ts; cases cs) (auto simp: t has_prefix_def dotdot_def dot_def slash_def)
  show "join_with [slash] (t # ts) \<noteq> dot"
    using p by (cases ts; cases cs) (auto simp: t dot_def slash_def)
qed

lemma Rel_rooted:
  assumes "is_rooted base" and "is_rooted targ"
  shows "Rel base targ = Some (case drop_common (path_parts base) (path_parts targ) of
    (bs, ts) \<Rightarrow> if bs = [] \<and> ts = [] then dot else join_with [slash] (replicate (length bs) dotdot @ ts))"
proof -
  note b = rooted_path [OF assms(1)] and t = rooted_path [OF assms(2)]
  obtain bs ts where d: "drop_common (path_parts base) (path_parts targ) = (bs, ts)" by force
  obtain c where c: "path_parts base = c @ bs" "path_parts targ = c @ ts" using drop_common_split [OF d] by blast
  have nd: "bs \<noteq> [dotdot]" using b c by (auto simp: plain_part_def)
  have same: "Clean base = Clean targ \<longleftrightarrow> bs = [] \<and> ts = []"
  proof
    assume "Clean base = Clean targ"
    then have "path_parts base = path_parts targ" by (simp add: path_parts_def)
    then show "bs = [] \<and> ts = []" using d drop_common_prefix [of "path_parts base" "[]"] by simp
  next
    assume "bs = [] \<and> ts = []"
    then show "Clean base = Clean targ" using b t c by simp
  qed
  show ?thesis
    unfolding Rel_def using assms rooted_not_dot [OF assms(1)] same nd by (auto simp: d)
qed

text \<open>A mount path never leaves the directory of the mounts, whatever the name that is appended.\<close>

lemma confined_below:
  assumes "is_rooted base" and "confinedMountPath cwd base child \<noteq> []"
  shows "\<exists>ts. path_parts (confinedMountPath cwd base child) = path_parts base @ ts \<and>
    is_rooted (confinedMountPath cwd base child)"
proof -
  let ?t = "Join [Clean base, child]"
  note b = rooted_path [OF assms(1)]
  have rc: "is_rooted (Clean base)" using b by simp
  have cc: "path_parts (Clean base) = path_parts base" using Clean_idem_rooted [OF assms(1)] by (simp add: path_parts_def)
  have rt: "is_rooted ?t"
  proof -
    have "\<exists>s. ?t = Clean (slash # s)" using b by (auto simp: Join_def is_rooted_def)
    then obtain s where "?t = Clean (slash # s)" by blast
    then show ?thesis using rooted_path [of "slash # s"] by simp
  qed
  obtain bs ts where d: "drop_common (path_parts base) (path_parts ?t) = (bs, ts)" by force
  have r: "Rel (Clean base) ?t = Some (if bs = [] \<and> ts = [] then dot else join_with [slash] (replicate (length bs) dotdot @ ts))"
    using Rel_rooted [OF rc rt] d cc by simp
  have v: "confinedMountPath cwd base child = ?t \<and> bs = []"
    using assms r climbing_path_slash [of bs ts]
    by (auto simp: confinedMountPath_def Abs_path_def Let_def split: if_splits)
  then show ?thesis using drop_common_split [OF d] rt by auto
qed

lemma mount_name_plain: "slash \<notin> set dev \<Longrightarrow> plain_part (mount_name dev)"
  by (simp add: plain_part_def mount_name_def dot_def dotdot_def slash_def)

text \<open>
  The mount point of a device is a directory of its own: directly in the configured directory, named after the device, so
  that two devices never share one.
\<close>
theorem mount_point_of_device:
  assumes "is_rooted base" and "slash \<notin> set dev"
  shows "confinedMountPath cwd base (mount_name dev) = slash # join_with [slash] (path_parts base @ [mount_name dev])"
proof -
  note b = rooted_path [OF assms(1)]
  have rc: "is_rooted (Clean base)" using b by simp
  have cc: "Clean (Clean base) = Clean base" "path_parts (Clean base) = path_parts base"
    using Clean_idem_rooted [OF assms(1)] by (simp_all add: path_parts_def)
  obtain ps where ps: "list_all plain_part ps" "Clean (Clean base) = slash # join_with [slash] ps"
    "Join [Clean base, mount_name dev] = slash # join_with [slash] (ps @ [mount_name dev])"
    using Join_dir_name [OF rc mount_name_plain [OF assms(2)]] by blast
  have e: "ps = path_parts base" using path_parts_plain [OF ps(1)] ps(2) cc by simp
  have t: "path_parts (slash # join_with [slash] (ps @ [mount_name dev])) = ps @ [mount_name dev]"
    using ps(1) mount_name_plain [OF assms(2)] by (intro path_parts_plain) auto
  have r: "Rel (Clean base) (Join [Clean base, mount_name dev]) = Some (mount_name dev)"
    using Rel_rooted [OF rc, of "Join [Clean base, mount_name dev]"] ps(3) t e cc by simp
  show ?thesis
    using assms r ps(3) e
    by (simp add: confinedMountPath_def Abs_path_def Let_def mount_name_def has_prefix_def dotdot_def slash_def is_rooted_def)
qed

corollary mount_points_distinct:
  assumes "is_rooted base" and "slash \<notin> set a" and "slash \<notin> set b"
    and "confinedMountPath cwd base (mount_name a) = confinedMountPath cwd base (mount_name b)"
  shows "a = b"
proof -
  have plain: "list_all plain_part (path_parts base @ [mount_name d])" if "slash \<notin> set d" for d
    using rooted_path [OF assms(1)] mount_name_plain [OF that] by simp
  have "slash # join_with [slash] (path_parts base @ [mount_name a]) = slash # join_with [slash] (path_parts base @ [mount_name b])"
    using assms(4) unfolding mount_point_of_device [OF assms(1,2)] mount_point_of_device [OF assms(1,3)] .
  from arg_cong [OF this, of path_parts] have "path_parts base @ [mount_name a] = path_parts base @ [mount_name b]"
    unfolding path_parts_plain [OF plain [OF assms(2)]] path_parts_plain [OF plain [OF assms(3)]] .
  then show ?thesis by (simp add: mount_name_def)
qed

section \<open>Facts about the folders of the user\<close>

text \<open>
  The test for a folder is right up to names that begin with two dots: the path is taken to be inside exactly when its
  components extend those of the folder and the next one does not begin so.
\<close>

theorem isWithin_spec:
  assumes "is_rooted dir" and "is_rooted path"
  shows "isWithin dir path \<longleftrightarrow>
    (\<exists>ts. path_parts path = path_parts dir @ ts \<and> (ts \<noteq> [] \<longrightarrow> \<not> has_prefix dotdot (hd ts)))"
proof -
  note p = rooted_path [OF assms(2)]
  obtain bs ts where d: "drop_common (path_parts dir) (path_parts path) = (bs, ts)" by force
  obtain c where c: "path_parts dir = c @ bs" "path_parts path = c @ ts" using drop_common_split [OF d] by blast
  have r: "Rel dir path = Some (if bs = [] \<and> ts = [] then dot else join_with [slash] (replicate (length bs) dotdot @ ts))"
    using Rel_rooted [OF assms] d by simp
  show ?thesis
  proof (cases "bs = []")
    case True
    then have "isWithin dir path \<longleftrightarrow> ts = [] \<or> \<not> has_prefix dotdot (hd ts)"
      using r p c plain_prefix [of "hd ts" "tl ts"] by (cases ts) (auto simp: isWithin_def)
    then show ?thesis using True c by auto
  next
    case False
    then have "\<not> isWithin dir path" using r climbing_path [OF False, of ts] by (simp add: isWithin_def) (auto simp: has_prefix_def dot_def dotdot_def)
    moreover have "path_parts path \<noteq> path_parts dir @ us" for us
      using d drop_common_prefix [of "path_parts dir" us] False by auto
    ultimately show ?thesis by simp
  qed
qed

text \<open>
  A folder whose name begins with two dots, such as \<open>..phone\<close>, does lie inside, but the code takes the relative path for
  one that climbs: the warning about the mount does not appear.
\<close>
theorem dotted_folder_not_seen:
  assumes "is_rooted dir" and "plain_part name" and "has_prefix dotdot name"
  shows "\<not> isWithin dir (Join [dir, name])"
proof -
  obtain ps where ps: "list_all plain_part ps" "Clean dir = slash # join_with [slash] ps"
      "Join [dir, name] = slash # join_with [slash] (ps @ [name])"
    using Join_dir_name [OF assms(1,2)] by blast
  have d: "path_parts dir = ps" using rooted_path [OF assms(1)] ps path_parts_plain by (metis list.inject)
  have "path_parts (Join [dir, name]) = ps @ [name]" using ps assms(2) by (simp add: path_parts_plain)
  then show ?thesis using isWithin_spec [OF assms(1), of "Join [dir, name]"] ps(3) d assms(3) by auto
qed

section \<open>Facts about the mount table and the arguments\<close>

text \<open>The kernel writes a blank, tab, newline or backslash of a path as three octal digits.\<close>

definition octal :: "nat \<Rightarrow> char" where
  "octal d = char_of (48 + d)"

definition kernel_escape :: "string \<Rightarrow> string" where
  "kernel_escape s =
     concat (map (\<lambda>c. if c = CHR '' '' \<or> c = CHR 0x09 \<or> c = newline \<or> c = CHR 0x5C
       then [CHR 0x5C, octal (byte c div 64), octal (byte c div 8 mod 8), octal (byte c mod 8)] else [c]) s)"

lemma unescape_plain: "CHR 0x5C \<notin> set s \<Longrightarrow> unescape_loop s = s"
  by (induction s rule: unescape_loop.induct) auto

lemma blank_codes: "char_of (32 :: nat) = CHR '' ''" "char_of (9 :: nat) = CHR 0x09" "char_of (10 :: nat) = newline"
    "char_of (92 :: nat) = CHR 0x5C"
  by code_simp+

text \<open>A mount point is read back from the table as it is.\<close>
theorem unescape_reads_back: "unescapeMountPath (kernel_escape s) = s"
proof -
  have step: "unescape_loop (c # u) = c # unescape_loop u" if "c \<noteq> CHR 0x5C" for c u
    using that by (cases "(c # u)" rule: unescape_loop.cases) auto
  have "unescape_loop (kernel_escape s) = s"
    by (induction s) (auto simp: kernel_escape_def step octal_digit_def octal_def blank_codes)
  then show ?thesis by (auto simp: unescapeMountPath_def unescape_plain)
qed

text \<open>
  Whatever a phone sends, \<open>sshfs\<close> gets no option from it: of the arguments only the first and the port depend on the
  packet; the first begins with a letter, digit or underscore, and the port is a number of a port.
\<close>
theorem sshfs_takes_no_option:
  assumes "buildSSHFSArgs parse_ip b remote mp uid gid interval cnt extra ro = Inr args"
  shows "\<exists>target port. args = target # mp # sshfs_options port uid gid interval cnt extra ro \<and>
    target = sfb_user b @ ''@'' @ sfb_ip b @ '':'' @ Clean remote \<and> \<not> has_prefix ''-'' target \<and> 1 \<le> port \<and> port \<le> 65535"
proof -
  have "\<not> has_prefix ''-'' (sfb_user b @ t)" if "sshUserPattern (sfb_user b)" for t
    using that by (auto simp: sshUserPattern_def has_prefix_def ascii_alnum_def is_digit_def split: list.splits)
  then show ?thesis using assms by (auto simp: buildSSHFSArgs_def split: if_splits option.splits)
qed

text \<open>
  An IPv6 address passes the check but is written without brackets: read up to its first colon, as \<open>sshfs\<close> reads it, the
  first argument names another host.
\<close>
theorem ipv6_host_is_cut:
  assumes "buildSSHFSArgs parse_ip b remote mp uid gid interval cnt extra ro = Inr args" and "CHR '':'' \<in> set (sfb_ip b)"
  shows "takeWhile (\<lambda>c. c \<noteq> CHR '':'') (tl (dropWhile (\<lambda>c. c \<noteq> CHR ''@'') (hd args))) \<noteq> sfb_ip b"
proof -
  have no_at: "CHR ''@'' \<notin> set (sfb_user b)" if "sshUserPattern (sfb_user b)"
    using that by (auto simp: sshUserPattern_def ascii_alnum_def is_digit_def list_all_iff split: list.splits)
  have "hd args = sfb_user b @ ''@'' @ sfb_ip b @ '':'' @ Clean remote" "CHR ''@'' \<notin> set (sfb_user b)"
    using assms(1) no_at by (auto simp: buildSSHFSArgs_def split: if_splits option.splits)
  then have "tl (dropWhile (\<lambda>c. c \<noteq> CHR ''@'') (hd args)) = sfb_ip b @ '':'' @ Clean remote"
    by (simp add: dropWhile_append2 dropWhile_append3 dropWhile_append)
  moreover have "CHR '':'' \<notin> set (takeWhile (\<lambda>c. c \<noteq> CHR '':'') u)" for u
    by (metis set_takeWhileD)
  ultimately show ?thesis using assms(2) by metis
qed

end
