(* ===== verification/Sftp.thy ===== *)
theory Sftp
  imports SftpMounts DeviceRoutes
begin

text \<open>
  The SFTP plugin (\<open>internal/plugins/sftp\<close>) and its routes (\<open>internal/daemon/ipc_routes_sftp.go\<close>): credentials of a phone
  and the mounts of its storage through \<open>sshfs\<close>.

  The kernel, the processes and the tools answer while an operation runs; their answers are the records
  \<open>mount_answers\<close> and \<open>unmount_answers\<close>, the mount table as a list of readings because it may change between two of them.
  What an operation does outside the state is a list of actions in the order of the code.
\<close>

section \<open>State\<close>

datatype sftp_result = Credentials sftp_body | PhoneFailed string

text \<open>A pending request is its channel, known by a number, with the result in its buffer of one.\<close>

record sftp_state =
  ss_body :: "string \<rightharpoonup> sftp_body"
  ss_pending :: "string \<rightharpoonup> nat \<times> sftp_result option"
  ss_next :: nat
  ss_mounts :: "string \<rightharpoonup> string"
  ss_read_only :: "string \<Rightarrow> bool"
  ss_pids :: "string \<rightharpoonup> int"
  ss_warned :: "string list"

record sftp_env =
  sx_cfg :: sftp_config
  sx_has_bus :: bool
  sx_default_dir :: string
  sx_home :: "string option"
  sx_cwd :: "string option"
  sx_uid :: int
  sx_gid :: int
  sx_user_dirs :: "string option"
  sx_parse_ip :: "string \<Rightarrow> ip option"

definition NewSftpPlugin :: sftp_state where
  "NewSftpPlugin =
     \<lparr>ss_body = Map.empty, ss_pending = Map.empty, ss_next = 0, ss_mounts = Map.empty, ss_read_only = (\<lambda>_. False),
      ss_pids = Map.empty, ss_warned = []\<rparr>"

datatype sftp_action =
    Does effect
  | Warns string string
  | MakesDir string
  | RemovesDir string
  | RunsSshfs "string list" string
  | Terminates int
  | Kills int
  | RunsTool "string list"

datatype sftp_error =
    AlreadyPending
  | SendFailed
  | PhoneError string
  | CredentialsTimedOut
  | UnsafeMountPath
  | CreateDirFailed
  | Refused sshfs_refusal
  | SshfsFailed string string string
  | NotMounted
  | StillMounted string string
  | NotReused

abbreviation says :: "sftp_env \<Rightarrow> event_type \<Rightarrow> string \<Rightarrow> (string \<times> json) list \<Rightarrow> sftp_action list" where
  "says env typ dev es \<equiv> map Does (publish (sx_has_bus env) typ dev (JObj es))"

section \<open>Packets of the phone\<close>

definition deliver_result :: "string \<Rightarrow> sftp_result \<Rightarrow> sftp_state \<Rightarrow> sftp_state" where
  "deliver_result dev res st =
     (case ss_pending st dev of
        Some (n, None) \<Rightarrow> st\<lparr>ss_pending := (ss_pending st)(dev \<mapsto> (n, Some res))\<rparr>
      | _ \<Rightarrow> st)"

definition buildVolumes :: "sftp_body \<Rightarrow> storage_volume_response list" where
  "buildVolumes b =
     map (\<lambda>i. \<lparr>svr_name = (if i < length (sfb_path_names b) then sfb_path_names b ! i else sfb_multi_paths b ! i),
                svr_path = sfb_multi_paths b ! i\<rparr>) [0..<length (sfb_multi_paths b)]"

definition credentials_payload :: "sftp_body \<Rightarrow> (string \<times> json) list" where
  "credentials_payload b =
     [(''uri'', JStr (''sftp://'' @ sfb_user b @ '':'' @ sfb_password b @ ''@'' @ sfb_ip b @ '':'' @ sfb_port b @ sfb_path b)),
      (''ip'', JStr (sfb_ip b)), (''port'', JStr (sfb_port b)), (''user'', JStr (sfb_user b)),
      (''password'', JStr (sfb_password b)), (''path'', JStr (sfb_path b))]
     @ (if sfb_multi_paths b = [] then []
        else [(''volumes'', JArr (map enc_storage_volume_response (buildVolumes b)))])"

definition sftp_Handle :: "sftp_env \<Rightarrow> string \<Rightarrow> packet \<Rightarrow> sftp_state \<Rightarrow> (sftp_action list \<times> sftp_state) option" where
  "sftp_Handle env dev pkt st =
     (case unmarshal_raw (\<lambda>j. dec_sftp_body j zero_sftp_body) (pk_body pkt) of
        None \<Rightarrow> None
      | Some b \<Rightarrow>
          if sfb_error_message b \<noteq> []
          then Some (says env ''sftp.mount'' dev [(''error'', JStr (sfb_error_message b))],
                     deliver_result dev (PhoneFailed (sfb_error_message b)) (st\<lparr>ss_body := (ss_body st)(dev := None)\<rparr>))
          else if \<not> credentialsComplete b then Some ([], st)
          else Some (says env ''sftp.mount'' dev (credentials_payload b),
                     deliver_result dev (Credentials b) (st\<lparr>ss_body := (ss_body st)(dev \<mapsto> b)\<rparr>)))"

section \<open>Asking for credentials\<close>

definition RequestMount :: effect where
  "RequestMount = SendPacket ''kdeconnect.sftp.request'' (JObj [(''startBrowsing'', JBool True)])"

text \<open>\<open>requestCredentials\<close> up to its wait: the number of the channel, or the error at once.\<close>

definition requestCredentials_begin ::
  "bool \<Rightarrow> string \<Rightarrow> sftp_state \<Rightarrow> (sftp_error + nat) \<times> sftp_action list \<times> sftp_state" where
  "requestCredentials_begin sent dev st =
     (if ss_pending st dev \<noteq> None then (Inl AlreadyPending, [], st)
      else let n = ss_next st;
               st = st\<lparr>ss_body := (ss_body st)(dev := None), ss_pending := (ss_pending st)(dev \<mapsto> (n, None)), ss_next := Suc n\<rparr>
           in if sent then (Inr n, [Does RequestMount], st)
              else (Inl SendFailed, [Does RequestMount], st\<lparr>ss_pending := (ss_pending st)(dev := None)\<rparr>))"

text \<open>Its end: the result in the channel, or the deadline; \<open>None\<close> while it still waits.\<close>

definition requestCredentials_end ::
  "bool \<Rightarrow> string \<Rightarrow> nat \<Rightarrow> sftp_state \<Rightarrow> ((sftp_error + sftp_body) \<times> sftp_state) option" where
  "requestCredentials_end timed_out dev n st =
     (let done = (case ss_pending st dev of
            Some (m, _) \<Rightarrow> if m = n then st\<lparr>ss_pending := (ss_pending st)(dev := None)\<rparr> else st | None \<Rightarrow> st);
          got = (case ss_pending st dev of Some (m, r) \<Rightarrow> if m = n then r else None | None \<Rightarrow> None)
      in if timed_out then Some (Inl CredentialsTimedOut, done)
         else case got of
           None \<Rightarrow> None
         | Some (PhoneFailed msg) \<Rightarrow> Some (Inl (PhoneError msg), done)
         | Some (Credentials b) \<Rightarrow> Some (Inr b, done))"

definition credentialsTimeout :: "sftp_config \<Rightarrow> duration" where
  "credentialsTimeout cfg =
     (if sf_credentials_timeout_secs cfg \<le> 0 then 20 * second else wrap64 (sf_credentials_timeout_secs cfg * second))"

definition clearPassword :: "string \<Rightarrow> string \<Rightarrow> sftp_state \<Rightarrow> sftp_state" where
  "clearPassword dev password st =
     (case ss_body st dev of
        Some b \<Rightarrow> if sfb_password b = password then st\<lparr>ss_body := (ss_body st)(dev \<mapsto> b\<lparr>sfb_password := []\<rparr>)\<rparr> else st
      | None \<Rightarrow> st)"

section \<open>What is mounted\<close>

definition adoptIfMounted :: "string option \<Rightarrow> string \<Rightarrow> string \<Rightarrow> sftp_state \<Rightarrow> string \<times> sftp_state" where
  "adoptIfMounted table dev mp st =
     (if mp = [] \<or> \<not> mountExists table mp then ([], st)
      else (mp, st\<lparr>ss_mounts := (ss_mounts st)(dev \<mapsto> mp)\<rparr>))"

text \<open>The table is read once for the configured place and once for the old one.\<close>

definition MountedPath ::
  "sftp_env \<Rightarrow> string option \<Rightarrow> string option \<Rightarrow> string \<Rightarrow> sftp_state \<Rightarrow> string \<times> sftp_state" where
  "MountedPath env table1 table2 dev st =
     (case ss_mounts st dev of
        Some mp \<Rightarrow> (mp, st)
      | None \<Rightarrow>
          let primary = mountPointFor (sx_cfg env) (sx_default_dir env) (sx_cwd env) dev;
              legacy = legacyMountPointFor (sx_home env) (sx_cwd env) dev
          in case adoptIfMounted table1 dev primary st of (mp, st) \<Rightarrow>
             if mp \<noteq> [] then (mp, st)
             else if legacy \<noteq> [] \<and> legacy \<noteq> primary then adoptIfMounted table2 dev legacy st
             else ([], st))"

definition IsMounted :: "sftp_env \<Rightarrow> string option \<Rightarrow> string option \<Rightarrow> string \<Rightarrow> sftp_state \<Rightarrow> bool" where
  "IsMounted env table1 table2 dev st = (fst (MountedPath env table1 table2 dev st) \<noteq> [])"

definition Volumes :: "string \<Rightarrow> sftp_state \<Rightarrow> storage_volume_response list" where
  "Volumes dev st = (case ss_body st dev of None \<Rightarrow> [] | Some b \<Rightarrow> buildVolumes b)"

definition sftp_Info ::
  "sftp_env \<Rightarrow> string option \<Rightarrow> string option \<Rightarrow> string \<Rightarrow> bool \<Rightarrow> sftp_state \<Rightarrow> sftp_info_response option \<times> sftp_state" where
  "sftp_Info env table1 table2 dev includePassword st =
     (case ss_body st dev of
        None \<Rightarrow> (None, st)
      | Some b \<Rightarrow>
          (case MountedPath env table1 table2 dev st of (mp, st') \<Rightarrow>
             (Some \<lparr>sir_ip = sfb_ip b, sir_port = sfb_port b, sir_user = sfb_user b,
                sir_password = (if includePassword then sfb_password b else []), sir_path = sfb_path b,
                sir_volumes = buildVolumes b, sir_mounted = (mp \<noteq> []), sir_mount_point = mp\<rparr>, st')))"

section \<open>Mounting\<close>

text \<open>The first process, in the order of the directory, whose command line mentions both the path and \<open>sshfs\<close>.\<close>

definition findSSHFSPID :: "string \<Rightarrow> (int \<times> string) list option \<Rightarrow> int option" where
  "findSSHFSPID mp procs =
     (case procs of
        None \<Rightarrow> None
      | Some ps \<Rightarrow> map_option fst (find (\<lambda>(pid, cmdline). contains mp cmdline \<and> contains ''sshfs'' cmdline) ps))"

definition autoOpen :: "sftp_config \<Rightarrow> string \<Rightarrow> sftp_action list" where
  "autoOpen cfg path =
     (if \<not> sf_auto_open cfg then []
      else [Does (Spawned [RunCommand [if sf_open_command cfg = [] then ''xdg-open'' else sf_open_command cfg, path]])])"

definition warnIfInBulkDeletableDir :: "sftp_env \<Rightarrow> string \<Rightarrow> sftp_state \<Rightarrow> sftp_action list \<times> sftp_state" where
  "warnIfInBulkDeletableDir env mp st =
     (let owner = containingBulkDeletableDir (sx_home env) (sx_user_dirs env) (sx_cwd env) mp
      in (if mp \<in> set (ss_warned st) \<or> owner = [] then [] else [Warns mp owner],
          st\<lparr>ss_warned := List.insert mp (ss_warned st)\<rparr>))"

definition mount_target :: "sftp_body \<Rightarrow> string \<Rightarrow> string" where
  "mount_target b volume =
     (if volume \<noteq> [] then volume
      else if sfb_multi_paths b \<noteq> [] then hd (sfb_multi_paths b)
      else if sfb_path b \<noteq> [] \<and> sfb_path b \<noteq> ''/'' then sfb_path b else [])"

text \<open>\<open>ma_sshfs\<close> is \<open>None\<close> when \<open>sshfs\<close> succeeds, otherwise its error and what it printed.\<close>

record mount_answers =
  ma_table1 :: "string option"
  ma_table2 :: "string option"
  ma_mkdir :: bool
  ma_sshfs :: "(string \<times> string) option"
  ma_procs :: "(int \<times> string) list option"

definition mounted_now :: "sftp_env \<Rightarrow> (int \<times> string) list option \<Rightarrow> string \<Rightarrow> string \<Rightarrow> bool \<Rightarrow> sftp_state \<Rightarrow> sftp_state" where
  "mounted_now env procs dev mp readOnly st =
     st\<lparr>ss_mounts := (ss_mounts st)(dev \<mapsto> mp), ss_read_only := (ss_read_only st)(dev := readOnly),
        ss_pids := (case findSSHFSPID mp procs of None \<Rightarrow> ss_pids st | Some pid \<Rightarrow> (ss_pids st)(dev \<mapsto> pid))\<rparr>"

definition mountWithBody ::
  "sftp_env \<Rightarrow> mount_answers \<Rightarrow> string \<Rightarrow> sftp_body \<Rightarrow> string \<Rightarrow> bool \<Rightarrow> sftp_state \<Rightarrow>
     (sftp_error + string) \<times> sftp_action list \<times> sftp_state" where
  "mountWithBody env a dev b volume readOnly st =
     (let cfg = sx_cfg env; mp = mountPointFor cfg (sx_default_dir env) (sx_cwd env) dev
      in if mp = [] then (Inl UnsafeMountPath, [], st)
         else case warnIfInBulkDeletableDir env mp st of (warns, st) \<Rightarrow>
         case MountedPath env (ma_table1 a) (ma_table2 a) dev st of (existing, st) \<Rightarrow>
         if existing \<noteq> [] then (Inr existing, warns @ autoOpen cfg existing, st)
         else if \<not> ma_mkdir a then (Inl CreateDirFailed, warns, st)
         else case buildSSHFSArgs (sx_parse_ip env) b (mount_target b volume) mp (sx_uid env) (sx_gid env)
                (sf_keepalive_interval_secs cfg) (sf_keepalive_count cfg) (sf_extra_sshfs_opts cfg) readOnly of
           Inl e \<Rightarrow> (Inl (Refused e), warns @ [MakesDir mp, RemovesDir mp], st)
         | Inr args \<Rightarrow>
             let acts = warns @ [MakesDir mp, RunsSshfs args (sfb_password b @ [newline])]
             in case ma_sshfs a of
                  Some (err, out) \<Rightarrow>
                    (Inl (SshfsFailed err (TrimSpace out) (sshfsHint (TrimSpace out))), acts @ [RemovesDir mp], st)
                | None \<Rightarrow>
                    (Inr mp,
                     acts @ says env ''sftp.mounted'' dev
                              ((''mountPoint'', JStr mp) # omit (volume = []) ''volume'' (JStr volume))
                          @ autoOpen cfg mp,
                     mounted_now env (ma_procs a) dev mp readOnly st))"

text \<open>Both entry points after their wait for the credentials; without a volume the second one only lists.\<close>

definition RequestAndMount_end ::
  "sftp_env \<Rightarrow> mount_answers \<Rightarrow> string \<Rightarrow> sftp_error + sftp_body \<Rightarrow> bool \<Rightarrow> sftp_state \<Rightarrow>
     (sftp_error + string) \<times> sftp_action list \<times> sftp_state" where
  "RequestAndMount_end env a dev creds readOnly st =
     (case creds of
        Inl e \<Rightarrow> (Inl e, [], st)
      | Inr b \<Rightarrow> (case mountWithBody env a dev b [] readOnly st of
          (r, acts, st) \<Rightarrow> (r, acts, clearPassword dev (sfb_password b) st)))"

definition RequestAndMountVolume_end ::
  "sftp_env \<Rightarrow> mount_answers \<Rightarrow> string \<Rightarrow> sftp_error + sftp_body \<Rightarrow> string \<Rightarrow> bool \<Rightarrow> sftp_state \<Rightarrow>
     (sftp_error + string \<times> storage_volume_response list) \<times> sftp_action list \<times> sftp_state" where
  "RequestAndMountVolume_end env a dev creds volume readOnly st =
     (case creds of
        Inl e \<Rightarrow> (Inl e, [], st)
      | Inr b \<Rightarrow>
          if volume = [] then (Inr ([], buildVolumes b), [], st)
          else (case mountWithBody env a dev b volume readOnly st of
            (r, acts, st) \<Rightarrow>
              (case r of Inl e \<Rightarrow> Inl e | Inr path \<Rightarrow> Inr (path, buildVolumes b), acts, clearPassword dev (sfb_password b) st)))"

definition MountLocally :: "sftp_error + string" where
  "MountLocally = Inl NotReused"

section \<open>Unmounting\<close>

text \<open>
  The four readings of the mount table, whether the directory of the mount is still there and can be removed, the
  processes, whether the signal is delivered and the process gone within three seconds, and the answers of the tool.
\<close>

record unmount_answers =
  ua_table1 :: "string option"
  ua_table2 :: "string option"
  ua_before :: "string option"
  ua_after :: "string option"
  ua_leftover :: bool
  ua_procs :: "(int \<times> string) list option"
  ua_signalled :: bool
  ua_exits :: bool
  ua_fusermount3 :: bool
  ua_tool :: "(string \<times> string) option"
  ua_lazy :: "string option"

definition forget_mount :: "string \<Rightarrow> sftp_state \<Rightarrow> sftp_state" where
  "forget_mount dev st =
     st\<lparr>ss_mounts := (ss_mounts st)(dev := None), ss_pids := (ss_pids st)(dev := None),
        ss_read_only := (ss_read_only st)(dev := False)\<rparr>"

definition finishUnmount :: "sftp_env \<Rightarrow> string \<Rightarrow> string \<Rightarrow> sftp_state \<Rightarrow> sftp_action list \<times> sftp_state" where
  "finishUnmount env dev mp st =
     (RemovesDir mp # says env ''sftp.unmounted'' dev [(''mountPoint'', JStr mp)], forget_mount dev st)"

definition removeLeftoverDir :: "bool \<Rightarrow> string \<Rightarrow> string \<Rightarrow> sftp_state \<Rightarrow> sftp_action list \<times> sftp_state" where
  "removeLeftoverDir leftover dev mp st = (if \<not> leftover then ([], st) else ([RemovesDir mp], forget_mount dev st))"

definition stop_sshfs :: "unmount_answers \<Rightarrow> string \<Rightarrow> int option \<Rightarrow> sftp_action list" where
  "stop_sshfs a mp tracked =
     (case (case tracked of Some pid \<Rightarrow> if pid = 0 then findSSHFSPID mp (ua_procs a) else Some pid
            | None \<Rightarrow> findSSHFSPID mp (ua_procs a)) of
        None \<Rightarrow> []
      | Some pid \<Rightarrow> Terminates pid # (if ua_signalled a \<and> \<not> ua_exits a then [Kills pid] else []))"

definition not_connected :: string where
  "not_connected = ''Transport endpoint is not connected''"

definition Unmount ::
  "sftp_env \<Rightarrow> unmount_answers \<Rightarrow> string \<Rightarrow> sftp_state \<Rightarrow> sftp_error option \<times> sftp_action list \<times> sftp_state" where
  "Unmount env a dev st =
     (case MountedPath env (ua_table1 a) (ua_table2 a) dev st of (mp, st) \<Rightarrow>
        if mp = []
        then (case removeLeftoverDir (ua_leftover a) dev
                 (mountPointFor (sx_cfg env) (sx_default_dir env) (sx_cwd env) dev) st of
              (acts, st) \<Rightarrow> (Some NotMounted, acts, st))
        else if \<not> mountExists (ua_before a) mp
        then (case finishUnmount env dev mp st of (acts, st) \<Rightarrow> (None, acts, st))
        else
          let stop = stop_sshfs a mp (ss_pids st dev);
              tool = (if ua_fusermount3 a then ''fusermount3'' else ''fusermount'');
              acts = stop @ [RunsTool [tool, ''-u'', mp]];
              released = (\<lambda>acts. case finishUnmount env dev mp st of (fin, st) \<Rightarrow> (None, acts @ fin, st))
          in case ua_tool a of
               None \<Rightarrow> released acts
             | Some (err, out) \<Rightarrow>
                 if \<not> mountExists (ua_after a) mp then released acts
                 else if contains not_connected (TrimSpace out)
                 then (case ua_lazy a of
                         None \<Rightarrow> released (acts @ [RunsTool [tool, ''-uz'', mp]])
                       | Some lazy \<Rightarrow> (Some (StillMounted mp (TrimSpace out @ '' (lazy unmount also failed: '' @ TrimSpace lazy @ '')'')),
                                        acts @ [RunsTool [tool, ''-uz'', mp]], st))
                 else (Some (StillMounted mp (TrimSpace out)), acts, st))"

definition sftp_OnDisconnect :: "sftp_env \<Rightarrow> unmount_answers \<Rightarrow> string \<Rightarrow> sftp_state \<Rightarrow> sftp_action list \<times> sftp_state" where
  "sftp_OnDisconnect env a dev st =
     (case MountedPath env (ua_table1 a) (ua_table2 a) dev st of (mp, st) \<Rightarrow>
        (case (if mp \<noteq> [] then Unmount env a dev st else (None, [], st)) of
           (_, acts, st) \<Rightarrow> (acts, st\<lparr>ss_body := (ss_body st)(dev := None)\<rparr>)))"

text \<open>The mounts at the beginning are released by a goroutine each; \<open>order\<close> is one in which they take effect.\<close>

fun UnmountAll :: "sftp_env \<Rightarrow> (string \<Rightarrow> unmount_answers) \<Rightarrow> string list \<Rightarrow> sftp_state \<Rightarrow> sftp_action list \<times> sftp_state" where
  "UnmountAll env a [] st = ([], st)"
| "UnmountAll env a (dev # order) st =
     (case Unmount env (a dev) dev st of (_, acts, st) \<Rightarrow>
        (case UnmountAll env a order st of (rest, st) \<Rightarrow> (acts @ rest, st)))"

section \<open>Routes\<close>

definition readOnlyFor :: "sftp_config \<Rightarrow> bool option \<Rightarrow> bool" where
  "readOnlyFor cfg override = (case override of Some b \<Rightarrow> b | None \<Rightarrow> sf_read_only cfg)"

text \<open>An index, then a name, then a path, then a path in any case; \<open>fold_eq\<close> is \<open>strings.EqualFold\<close>.\<close>

definition first_path :: "(storage_volume_response \<Rightarrow> bool) \<Rightarrow> storage_volume_response list \<Rightarrow> string option" where
  "first_path f vols = map_option svr_path (find f vols)"

definition resolveVolume :: "(string \<Rightarrow> string \<Rightarrow> bool) \<Rightarrow> string \<Rightarrow> storage_volume_response list \<Rightarrow> string" where
  "resolveVolume fold_eq arg vols =
     (case atoi arg of
        Some i \<Rightarrow>
          if 0 \<le> i \<and> i < int (length vols) then svr_path (vols ! nat i)
          else (case first_path (\<lambda>v. fold_eq (svr_name v) arg) vols of Some p \<Rightarrow> p
            | None \<Rightarrow> (case first_path (\<lambda>v. svr_path v = arg) vols of Some p \<Rightarrow> p
            | None \<Rightarrow> (case first_path (\<lambda>v. fold_eq (svr_path v) arg) vols of Some p \<Rightarrow> p | None \<Rightarrow> [])))
      | None \<Rightarrow> (case first_path (\<lambda>v. fold_eq (svr_name v) arg) vols of Some p \<Rightarrow> p
            | None \<Rightarrow> (case first_path (\<lambda>v. svr_path v = arg) vols of Some p \<Rightarrow> p
            | None \<Rightarrow> (case first_path (\<lambda>v. fold_eq (svr_path v) arg) vols of Some p \<Rightarrow> p | None \<Rightarrow> []))))"

type_synonym sftp_answer = "ipc_response \<times> sftp_action list \<times> sftp_state"

text \<open>The steps before a route's own work; a device is looked up where the payload names one to talk to.\<close>

definition sftp_plugin_route ::
  "(json \<Rightarrow> 'p \<Rightarrow> 'p option) \<Rightarrow> 'p \<Rightarrow> plugin_registry \<Rightarrow> ('p \<Rightarrow> sftp_state \<Rightarrow> sftp_answer) \<Rightarrow> ipc_request \<Rightarrow> sftp_state \<Rightarrow> sftp_answer" where
  "sftp_plugin_route dec zero plugins act req st =
     (case payload_as dec zero (rq_payload req) of
        None \<Rightarrow> (invalid_payload, [], st)
      | Some p \<Rightarrow> if GetByName ''SFTP'' plugins = None then (plugin_disabled ''SFTP'', [], st) else act p st)"

definition sftp_device_route ::
  "(json \<Rightarrow> 'p \<Rightarrow> 'p option) \<Rightarrow> 'p \<Rightarrow> ('p \<Rightarrow> string) \<Rightarrow> registry \<Rightarrow> plugin_registry \<Rightarrow> ('p \<Rightarrow> sftp_state \<Rightarrow> sftp_answer) \<Rightarrow>
     ipc_request \<Rightarrow> sftp_state \<Rightarrow> sftp_answer" where
  "sftp_device_route dec zero device_id rg plugins act =
     sftp_plugin_route dec zero plugins (\<lambda>p st.
       if reg_Get (device_id p) rg = None then (device_not_found (device_id p), [], st) else act p st)"

definition failure :: "string \<Rightarrow> ipc_response" where
  "failure msg = zero_ipc_response\<lparr>rs_error := msg\<rparr>"

definition route_sftp_info ::
  "sftp_env \<Rightarrow> string option \<Rightarrow> string option \<Rightarrow> string \<Rightarrow> plugin_registry \<Rightarrow> ipc_request \<Rightarrow> sftp_state \<Rightarrow> sftp_answer" where
  "route_sftp_info env table1 table2 no_credentials plugins =
     sftp_plugin_route dec_sftp_info_payload zero_sftp_info_payload plugins (\<lambda>p st.
       case sftp_Info env table1 table2 (sip_device_id p) (sip_show_password p) st of
         (None, st) \<Rightarrow> (failure no_credentials, [], st)
       | (Some info, st) \<Rightarrow> (jsonOK (enc_sftp_info_response info), [], st))"

definition route_sftp_volumes :: "string \<Rightarrow> plugin_registry \<Rightarrow> ipc_request \<Rightarrow> sftp_state \<Rightarrow> sftp_answer" where
  "route_sftp_volumes no_volumes plugins =
     sftp_plugin_route dec_device_payload zero_device_payload plugins (\<lambda>p st.
       case Volumes (dp_device_id p) st of
         [] \<Rightarrow> (failure no_volumes, [], st)
       | vols \<Rightarrow> (jsonOK (JArr (map enc_storage_volume_response vols)), [], st))"

definition route_sftp_mount :: "string option \<Rightarrow> registry \<Rightarrow> plugin_registry \<Rightarrow> ipc_request \<Rightarrow> sftp_state \<Rightarrow> sftp_answer" where
  "route_sftp_mount send_error rg plugins =
     sftp_device_route dec_sftp_mount_payload zero_sftp_mount_payload smt_device_id rg plugins (\<lambda>p st.
       (case send_error of None \<Rightarrow> okay | Some e \<Rightarrow> failure e, [Does RequestMount], st))"

text \<open>
  The two routes that mount: how they begin, and how they answer once the credentials are there or the wait is over.
  \<open>error_text\<close> gives the message of an error.
\<close>

definition mount_local_answer ::
  "(sftp_error \<Rightarrow> string) \<Rightarrow> sftp_env \<Rightarrow> mount_answers \<Rightarrow> string \<Rightarrow> bool option \<Rightarrow> sftp_error + sftp_body \<Rightarrow> sftp_state \<Rightarrow> sftp_answer" where
  "mount_local_answer error_text env a dev override creds st =
     (case RequestAndMount_end env a dev creds (readOnlyFor (sx_cfg env) override) st of (r, acts, st) \<Rightarrow>
        (case r of Inl e \<Rightarrow> failure (error_text e) | Inr path \<Rightarrow> jsonOK (JObj [(''path'', JStr path)]), acts, st))"

definition browse_volume :: "(string \<Rightarrow> string \<Rightarrow> bool) \<Rightarrow> string \<Rightarrow> string \<Rightarrow> sftp_state \<Rightarrow> string" where
  "browse_volume fold_eq dev volume st =
     (if volume = [] then []
      else case resolveVolume fold_eq volume (Volumes dev st) of [] \<Rightarrow> volume | path \<Rightarrow> path)"

definition browse_answer ::
  "(sftp_error \<Rightarrow> string) \<Rightarrow> sftp_env \<Rightarrow> mount_answers \<Rightarrow> string \<Rightarrow> string \<Rightarrow> bool option \<Rightarrow> sftp_error + sftp_body \<Rightarrow> sftp_state \<Rightarrow>
     sftp_answer" where
  "browse_answer error_text env a dev volume override creds st =
     (case RequestAndMountVolume_end env a dev creds volume (readOnlyFor (sx_cfg env) override) st of (r, acts, st) \<Rightarrow>
        (case r of
           Inl e \<Rightarrow> failure (error_text e)
         | Inr (path, vols) \<Rightarrow> jsonOK (enc_sftp_browse_response \<lparr>sbr_path = path, sbr_volumes = vols\<rparr>), acts, st))"

definition route_sftp_unmount ::
  "(sftp_error \<Rightarrow> string) \<Rightarrow> sftp_env \<Rightarrow> unmount_answers \<Rightarrow> plugin_registry \<Rightarrow> ipc_request \<Rightarrow> sftp_state \<Rightarrow> sftp_answer" where
  "route_sftp_unmount error_text env a plugins =
     sftp_plugin_route dec_device_payload zero_device_payload plugins (\<lambda>p st.
       case Unmount env a (dp_device_id p) st of (r, acts, st) \<Rightarrow>
         (case r of None \<Rightarrow> okay | Some e \<Rightarrow> failure (error_text e), acts, st))"

section \<open>Credentials\<close>

text \<open>What may happen between the beginning and the end of a wait.\<close>

datatype sftp_op =
    PhonePacket string packet
  | BeginRequest bool string
  | EndRequest bool string nat
  | DoMount mount_answers string sftp_body string bool
  | DoUnmount unmount_answers string
  | Disconnected unmount_answers string
  | PasswordUsed string string

fun sftp_step :: "sftp_env \<Rightarrow> sftp_op \<Rightarrow> sftp_state \<Rightarrow> sftp_state" where
  "sftp_step env (PhonePacket dev pkt) st = (case sftp_Handle env dev pkt st of None \<Rightarrow> st | Some (_, st') \<Rightarrow> st')"
| "sftp_step env (BeginRequest sent dev) st = snd (snd (requestCredentials_begin sent dev st))"
| "sftp_step env (EndRequest late dev n) st = (case requestCredentials_end late dev n st of None \<Rightarrow> st | Some (_, st') \<Rightarrow> st')"
| "sftp_step env (DoMount a dev b volume ro) st = snd (snd (mountWithBody env a dev b volume ro st))"
| "sftp_step env (DoUnmount a dev) st = snd (snd (Unmount env a dev st))"
| "sftp_step env (Disconnected a dev) st = snd (sftp_OnDisconnect env a dev st)"
| "sftp_step env (PasswordUsed dev pw) st = clearPassword dev pw st"

definition sftp_run :: "sftp_env \<Rightarrow> sftp_op list \<Rightarrow> sftp_state \<Rightarrow> sftp_state" where
  "sftp_run env ops st = fold (sftp_step env) ops st"

definition sent_credentials :: "string \<Rightarrow> sftp_body \<Rightarrow> sftp_op \<Rightarrow> bool" where
  "sent_credentials dev b op \<longleftrightarrow>
     (\<exists>pkt. op = PhonePacket dev pkt \<and> unmarshal_raw (\<lambda>j. dec_sftp_body j zero_sftp_body) (pk_body pkt) = Some b \<and>
        credentialsComplete b)"

lemma MountedPath_pending [simp]:
  "ss_pending (snd (MountedPath env t1 t2 dev st)) = ss_pending st" "ss_next (snd (MountedPath env t1 t2 dev st)) = ss_next st"
  "ss_body (snd (MountedPath env t1 t2 dev st)) = ss_body st"
  by (auto simp: MountedPath_def adoptIfMounted_def Let_def split: option.splits)

lemma MountedPath_frame:
  "MountedPath env t1 t2 dev st = (mp, st') \<Longrightarrow> ss_pending st' = ss_pending st \<and> ss_next st' = ss_next st \<and> ss_body st' = ss_body st"
  by (metis MountedPath_pending snd_conv)

lemma warn_state [simp]: "snd (warnIfInBulkDeletableDir env mp st) = st\<lparr>ss_warned := List.insert mp (ss_warned st)\<rparr>"
  by (simp add: warnIfInBulkDeletableDir_def Let_def)

lemma mountWithBody_pending [simp]:
  "ss_pending (snd (snd (mountWithBody env a dev b v ro st))) = ss_pending st \<and>
   ss_next (snd (snd (mountWithBody env a dev b v ro st))) = ss_next st"
proof -
  let ?mp = "mountPointFor (sx_cfg env) (sx_default_dir env) (sx_cwd env) dev"
  obtain w where w: "warnIfInBulkDeletableDir env ?mp st = (w, st\<lparr>ss_warned := List.insert ?mp (ss_warned st)\<rparr>)"
    by (metis prod.collapse warn_state)
  obtain e st' where m: "MountedPath env (ma_table1 a) (ma_table2 a) dev (st\<lparr>ss_warned := List.insert ?mp (ss_warned st)\<rparr>) = (e, st')"
    by force
  show ?thesis
    using MountedPath_frame [OF m]
    by (simp add: mountWithBody_def Let_def w m mounted_now_def split: sum.splits option.splits)
qed

lemma forget_pending [simp]: "ss_pending (forget_mount dev st) = ss_pending st" "ss_next (forget_mount dev st) = ss_next st"
    "ss_body (forget_mount dev st) = ss_body st"
  by (simp_all add: forget_mount_def)

lemma Unmount_pending [simp]:
  "ss_pending (snd (snd (Unmount env a dev st))) = ss_pending st \<and> ss_next (snd (snd (Unmount env a dev st))) = ss_next st"
proof -
  obtain mp st' where m: "MountedPath env (ua_table1 a) (ua_table2 a) dev st = (mp, st')" by force
  show ?thesis
    using MountedPath_frame [OF m]
    by (simp add: Unmount_def m Let_def removeLeftoverDir_def finishUnmount_def split: option.splits)
qed

lemma OnDisconnect_pending [simp]:
  "ss_pending (snd (sftp_OnDisconnect env a dev st)) = ss_pending st \<and> ss_next (snd (sftp_OnDisconnect env a dev st)) = ss_next st"
proof -
  obtain mp st' where m: "MountedPath env (ua_table1 a) (ua_table2 a) dev st = (mp, st')" by force
  obtain r acts st'' where u: "Unmount env a dev st' = (r, acts, st'')" by (metis prod.collapse)
  show ?thesis
    using MountedPath_frame [OF m] Unmount_pending [of env a dev st'] by (simp add: sftp_OnDisconnect_def m u)
qed

lemma clearPassword_pending [simp]: "ss_pending (clearPassword dev pw st) = ss_pending st" "ss_next (clearPassword dev pw st) = ss_next st"
  by (simp_all add: clearPassword_def split: option.splits)

text \<open>The wait of channel \<open>n\<close> holds only what the phone has sent since.\<close>

definition waits_for :: "string \<Rightarrow> nat \<Rightarrow> sftp_op list \<Rightarrow> sftp_state \<Rightarrow> bool" where
  "waits_for dev n ops st \<longleftrightarrow> n < ss_next st \<and>
     (\<forall>b. ss_pending st dev = Some (n, Some (Credentials b)) \<longrightarrow> (\<exists>op \<in> set ops. sent_credentials dev b op))"

lemma deliver_result_next [simp]: "ss_next (deliver_result dev r st) = ss_next st"
  by (simp add: deliver_result_def split: option.splits)

lemma waits_deliver:
  assumes "waits_for dev n ops st" and "\<And>b. r = Credentials b \<Longrightarrow> d = dev \<Longrightarrow> sent_credentials dev b op"
    and "ss_pending st' = ss_pending st" and "ss_next st' = ss_next st"
  shows "waits_for dev n (ops @ [op]) (deliver_result d r st')"
  using assms by (auto simp: waits_for_def deliver_result_def split: option.splits if_splits)

lemma waits_step: "waits_for dev n ops st \<Longrightarrow> waits_for dev n (ops @ [op]) (sftp_step env op st)"
proof (cases op)
  case (PhonePacket d pkt)
  assume w: "waits_for dev n ops st"
  show ?thesis
  proof (cases "unmarshal_raw (\<lambda>j. dec_sftp_body j zero_sftp_body) (pk_body pkt)")
    case None
    then show ?thesis using w PhonePacket by (auto simp: sftp_Handle_def waits_for_def)
  next
    case (Some b)
    have "waits_for dev n (ops @ [op]) (deliver_result d (PhoneFailed (sfb_error_message b)) (st\<lparr>ss_body := (ss_body st)(d := None)\<rparr>))"
      by (rule waits_deliver [OF w]) auto
    moreover have "waits_for dev n (ops @ [op]) (deliver_result d (Credentials b) (st\<lparr>ss_body := (ss_body st)(d \<mapsto> b)\<rparr>))" if "credentialsComplete b"
      by (rule waits_deliver [OF w]) (use that Some PhonePacket in \<open>auto simp: sent_credentials_def\<close>)
    moreover have "waits_for dev n (ops @ [op]) st" using w by (auto simp: waits_for_def)
    ultimately show ?thesis using Some PhonePacket by (simp add: sftp_Handle_def)
  qed
next
  case (BeginRequest sent d)
  assume "waits_for dev n ops st"
  then show ?thesis using BeginRequest by (auto simp: requestCredentials_begin_def Let_def waits_for_def)
next
  case (EndRequest late d m)
  assume w: "waits_for dev n ops st"
  show ?thesis
  proof (cases "requestCredentials_end late d m st")
    case None
    then show ?thesis using w EndRequest by (auto simp: waits_for_def)
  next
    case (Some x)
    then have "ss_next (snd x) = ss_next st \<and> (ss_pending (snd x) = ss_pending st \<or> ss_pending (snd x) = (ss_pending st)(d := None))"
      by (auto simp: requestCredentials_end_def Let_def split: if_splits option.splits sftp_result.splits)
    then show ?thesis using w EndRequest Some by (cases x) (auto simp: waits_for_def split: if_splits)
  qed
qed (auto simp: waits_for_def)

lemma waits_run: "waits_for dev n pre st \<Longrightarrow> waits_for dev n (pre @ ops) (sftp_run env ops st)"
proof (induction ops arbitrary: pre st)
  case (Cons op ops)
  then show ?case using Cons.IH [OF waits_step [OF Cons.prems, of op env]] by (simp add: sftp_run_def)
qed (simp add: sftp_run_def)

text \<open>
  A mount never uses old credentials: those that a request returns were sent by that device after the request began, and
  they are complete.
\<close>
theorem credentials_are_fresh:
  assumes "requestCredentials_begin True dev st = (Inr n, acts, st1)"
    and "requestCredentials_end late dev n (sftp_run env ops st1) = Some (Inr b, st2)"
  shows "\<exists>op \<in> set ops. sent_credentials dev b op"
proof -
  have "waits_for dev n [] st1"
    using assms(1) by (auto simp: requestCredentials_begin_def Let_def waits_for_def split: if_splits)
  from waits_run [OF this, of ops env] have "waits_for dev n ops (sftp_run env ops st1)" by simp
  moreover have "ss_pending (sftp_run env ops st1) dev = Some (n, Some (Credentials b))"
    using assms(2) by (auto simp: requestCredentials_end_def Let_def split: if_splits option.splits sftp_result.splits)
  ultimately show ?thesis by (simp add: waits_for_def)
qed

definition demo_sftp_body :: json where
  "demo_sftp_body = JObj
     [(''ip'', JStr ''10.0.0.9''), (''port'', JNum ''1739''), (''user'', JStr ''kde''), (''password'', JStr ''pw''), (''path'', JStr ''/s'')]"

definition demo_sftp_packet :: packet where
  "demo_sftp_packet = NewPacket 0 ''kdeconnect.sftp'' (Some demo_sftp_body)"

definition demo_credentials :: sftp_body where
  "demo_credentials = zero_sftp_body
     \<lparr>sfb_ip := ''10.0.0.9'', sfb_port := ''1739'', sfb_user := ''kde'', sfb_password := ''pw'', sfb_path := ''/s''\<rparr>"

definition demo_sftp_env :: sftp_env where
  "demo_sftp_env = \<lparr>sx_cfg = zero_sftp_config, sx_has_bus = True, sx_default_dir = ''/run/mnt'', sx_home = Some ''/h'',
     sx_cwd = Some ''/'', sx_uid = 1, sx_gid = 1, sx_user_dirs = None, sx_parse_ip = (\<lambda>_. Some [10, 0, 0, 9])\<rparr>"

lemma demo_sftp_decodes: "unmarshal_raw (\<lambda>j. dec_sftp_body j zero_sftp_body) (pk_body demo_sftp_packet) = Some demo_credentials"
  by code_simp

lemma demo_credentials_complete: "credentialsComplete demo_credentials" by code_simp

theorem credentials_are_fresh_witness: "\<exists>op \<in> set [PhonePacket ''a'' demo_sftp_packet]. sent_credentials ''a'' demo_credentials op"
proof -
  let ?b = "requestCredentials_begin True ''a'' NewSftpPlugin"
  let ?s = "sftp_run demo_sftp_env [PhonePacket ''a'' demo_sftp_packet] (snd (snd ?b))"
  have b: "?b = (Inr 0, fst (snd ?b), snd (snd ?b))" by (simp add: requestCredentials_begin_def NewSftpPlugin_def Let_def)
  have err: "sfb_error_message demo_credentials = []" by (simp add: demo_credentials_def zero_sftp_body_def)
  have p: "ss_pending ?s ''a'' = Some (0, Some (Credentials demo_credentials))"
    by (simp add: sftp_run_def sftp_Handle_def demo_sftp_decodes demo_credentials_complete err requestCredentials_begin_def
        NewSftpPlugin_def Let_def deliver_result_def)
  have e: "requestCredentials_end False ''a'' 0 ?s = Some (Inr demo_credentials, ?s\<lparr>ss_pending := (ss_pending ?s)(''a'' := None)\<rparr>)"
    by (simp only: requestCredentials_end_def p Let_def option.case prod.case sftp_result.case simp_thms if_True if_False)
  show ?thesis by (rule credentials_are_fresh [OF b e])
qed

section \<open>Mounts\<close>



text \<open>
  What an unmount reports is so: after success the mount is forgotten and was gone from the kernel's table or released by
  the tool; after a failure the kernel still lists it and it stays tracked, so that another attempt can release it.
\<close>
theorem unmount_report_is_true:
  assumes "Unmount env a dev st = (r, acts, st')" and "MountedPath env (ua_table1 a) (ua_table2 a) dev st = (mp, st1)"
  shows "case r of
      None \<Rightarrow> mp \<noteq> [] \<and> st' = forget_mount dev st1 \<and>
        (\<not> mountExists (ua_before a) mp \<or> \<not> mountExists (ua_after a) mp \<or> ua_tool a = None \<or> ua_lazy a = None)
    | Some e \<Rightarrow> if mp = [] then e = NotMounted
        else (\<exists>detail. e = StillMounted mp detail) \<and> mountExists (ua_before a) mp \<and> mountExists (ua_after a) mp \<and>
          st' = st1 \<and> ss_mounts st' dev = Some mp"
proof -
  have tracked: "ss_mounts st1 dev = Some mp" if "mp \<noteq> []"
    using assms(2) that by (auto simp: MountedPath_def adoptIfMounted_def Let_def split: option.splits if_splits)
  show ?thesis
    using assms tracked
    by (auto simp: Unmount_def Let_def finishUnmount_def removeLeftoverDir_def split: if_splits option.splits)
qed

definition demo_unmount :: unmount_answers where
  "demo_unmount = \<lparr>ua_table1 = None, ua_table2 = None, ua_before = None, ua_after = None, ua_leftover = False, ua_procs = None,
     ua_signalled = False, ua_exits = False, ua_fusermount3 = True, ua_tool = None, ua_lazy = None\<rparr>"

theorem unmount_report_is_true_witness:
  "snd (snd (Unmount demo_sftp_env demo_unmount ''a'' (NewSftpPlugin\<lparr>ss_mounts := [''a'' \<mapsto> ''/m'']\<rparr>)))
    = forget_mount ''a'' (NewSftpPlugin\<lparr>ss_mounts := [''a'' \<mapsto> ''/m'']\<rparr>)"
proof -
  let ?s = "NewSftpPlugin\<lparr>ss_mounts := [''a'' \<mapsto> ''/m'']\<rparr>"
  let ?u = "Unmount demo_sftp_env demo_unmount ''a'' ?s"
  have m: "MountedPath demo_sftp_env (ua_table1 demo_unmount) (ua_table2 demo_unmount) ''a'' ?s = (''/m'', ?s)"
    by (simp add: MountedPath_def)
  have gone: "\<not> mountExists (ua_before demo_unmount) mp" for mp by (simp add: demo_unmount_def mountExists_def eachMount_def)
  have "?u = (None, fst (snd ?u), snd (snd ?u))"
    by (simp add: Unmount_def m gone finishUnmount_def)
  from unmount_report_is_true [OF this m] show ?thesis by simp
qed

text \<open>
  The plugin keeps the path of a mount without asking the kernel again: a mount that was released outside of kcd is
  reported as mounted, and another request to mount succeeds without running \<open>sshfs\<close>, whichever volume and mode it
  asks for.
\<close>
theorem remembered_mount_is_returned:
  assumes "ss_mounts st dev = Some mp" and "mp \<noteq> []"
    and "mountPointFor (sx_cfg env) (sx_default_dir env) (sx_cwd env) dev \<noteq> []"
  shows "fst (mountWithBody env a dev b volume readOnly st) = Inr mp \<and>
    (\<forall>args inp. RunsSshfs args inp \<notin> set (fst (snd (mountWithBody env a dev b volume readOnly st))))"
  using assms by (auto simp: mountWithBody_def warnIfInBulkDeletableDir_def Let_def MountedPath_def autoOpen_def)

text \<open>
  The root of the phone's file system is not to be mounted; it is when the phone lists it as its first volume.
\<close>
theorem root_volume_is_mounted:
  "mount_target (b\<lparr>sfb_multi_paths := ''/'' # ps, sfb_path := ''/''\<rparr>) [] = ''/''"
  by (simp add: mount_target_def)

lemma contains_middle: "contains x (p @ x @ q)"
  by (auto simp: contains_iff)

text \<open>
  The process of a mount is found by a part of its command line: the process of a device whose name extends the name of
  another one is taken for the other's, and is the one that is terminated.
\<close>
theorem longer_name_is_signalled:
  assumes "mp' = mp @ rest" and "cmdline = pre @ mp' @ post" and "contains ''sshfs'' cmdline"
  shows "stop_sshfs (a\<lparr>ua_procs := Some ((pid, cmdline) # ps)\<rparr>) mp None
    = Terminates pid # (if ua_signalled a \<and> \<not> ua_exits a then [Kills pid] else [])"
  using assms contains_middle [of mp pre "rest @ post"] by (simp add: stop_sshfs_def findSSHFSPID_def)

text \<open>
  The credentials of a phone are published with the password under a type that is not opt-in: a client of the read-only
  socket, which may not even ask for \<open>sftp_info\<close>, gets the password from a watch without filters.
\<close>
theorem password_reaches_read_only_watch:
  assumes "sx_has_bus env" and "sftp_Handle env dev pkt st = Some (acts, st')"
    and "unmarshal_raw (\<lambda>j. dec_sftp_body j zero_sftp_body) (pk_body pkt) = Some b"
    and "sfb_error_message b = []" and "credentialsComplete b"
  shows "\<exists>typ es. Does (Publish typ dev (JObj es)) \<in> set acts \<and> (''password'', JStr (sfb_password b)) \<in> set es \<and>
    watchIsReadOnly None \<and> matchesFilters typ (wp_events (watch_payload_of None))"
proof -
  have "watchIsReadOnly None \<and> wp_events (watch_payload_of None) = []" by code_simp
  moreover have "matchesFilters ''sftp.mount'' []" by code_simp
  ultimately show ?thesis using assms by (auto simp: sftp_Handle_def publish_def credentials_payload_def)
qed

end
