(* ===== verification/MprisState.thy ===== *)
theory MprisState
  imports SftpMounts DeviceRoutes Hooks "HOL-Library.Word"
begin

unbundle bit_operations_syntax

text \<open>
  The parts of the MPRIS plugin (\<open>internal/plugins/mpris\<close>) without the plugin's own state: packets, the properties of
  players on D-Bus, what counts as a change, the list of players, and the cache for album art.

  A value on D-Bus is a \<open>variant\<close>.  A type assertion without a check panics on another type; such a function returns
  \<open>None\<close> then.  The state of a player here extends what is sent by the identity of its track.
\<close>

section \<open>Packets\<close>

record mpris_request =
  mq_request_player_list :: bool
  mq_request_now_playing :: bool
  mq_request_volume :: bool
  mq_player :: string
  mq_action :: string
  mq_set_volume :: "int option"
  mq_seek :: "int option"
  mq_set_position :: "int option"
  mq_set_shuffle :: "bool option"
  mq_set_loop_status :: string
  mq_album_art_url :: string
  mq_transferring_album_art :: bool
  mq_player_list :: "string list option"
  mq_title :: string
  mq_artist :: string
  mq_album :: string
  mq_url :: string
  mq_length :: int
  mq_pos :: int
  mq_is_playing :: bool
  mq_volume :: int
  mq_can_control :: bool
  mq_can_go_next :: bool
  mq_can_go_previous :: bool
  mq_can_pause :: bool
  mq_can_play :: bool
  mq_can_seek :: bool
  mq_playback_status :: string
  mq_shuffle :: "bool option"
  mq_loop_status :: string

definition zero_mpris_request :: mpris_request where
  "zero_mpris_request = \<lparr>mq_request_player_list = False, mq_request_now_playing = False,
     mq_request_volume = False, mq_player = [], mq_action = [], mq_set_volume = None, mq_seek = None,
     mq_set_position = None, mq_set_shuffle = None, mq_set_loop_status = [], mq_album_art_url = [],
     mq_transferring_album_art = False, mq_player_list = None, mq_title = [], mq_artist = [], mq_album = [],
     mq_url = [], mq_length = 0, mq_pos = 0, mq_is_playing = False, mq_volume = 0, mq_can_control = False,
     mq_can_go_next = False, mq_can_go_previous = False, mq_can_pause = False, mq_can_play = False,
     mq_can_seek = False, mq_playback_status = [], mq_shuffle = None, mq_loop_status = []\<rparr>"

definition mpris_request_fields :: "mpris_request field list" where
  "mpris_request_fields =
     [(''requestPlayerList'', fld dec_bool mq_request_player_list mq_request_player_list_update),
      (''requestNowPlaying'', fld dec_bool mq_request_now_playing mq_request_now_playing_update),
      (''requestVolume'', fld dec_bool mq_request_volume mq_request_volume_update),
      (''player'', fld dec_str mq_player mq_player_update),
      (''action'', fld dec_str mq_action mq_action_update),
      (''setVolume'', fld (dec_opt dec_int 0) mq_set_volume mq_set_volume_update),
      (''Seek'', fld (dec_opt dec_int 0) mq_seek mq_seek_update),
      (''SetPosition'', fld (dec_opt dec_int 0) mq_set_position mq_set_position_update),
      (''setShuffle'', fld (dec_opt dec_bool False) mq_set_shuffle mq_set_shuffle_update),
      (''setLoopStatus'', fld dec_str mq_set_loop_status mq_set_loop_status_update),
      (''albumArtUrl'', fld dec_str mq_album_art_url mq_album_art_url_update),
      (''transferringAlbumArt'', fld dec_bool mq_transferring_album_art mq_transferring_album_art_update),
      (''playerList'', fld dec_nstrs mq_player_list mq_player_list_update),
      (''title'', fld dec_str mq_title mq_title_update),
      (''artist'', fld dec_str mq_artist mq_artist_update),
      (''album'', fld dec_str mq_album mq_album_update),
      (''url'', fld dec_str mq_url mq_url_update),
      (''length'', fld dec_int mq_length mq_length_update),
      (''pos'', fld dec_int mq_pos mq_pos_update),
      (''isPlaying'', fld dec_bool mq_is_playing mq_is_playing_update),
      (''volume'', fld dec_int mq_volume mq_volume_update),
      (''canControl'', fld dec_bool mq_can_control mq_can_control_update),
      (''canGoNext'', fld dec_bool mq_can_go_next mq_can_go_next_update),
      (''canGoPrevious'', fld dec_bool mq_can_go_previous mq_can_go_previous_update),
      (''canPause'', fld dec_bool mq_can_pause mq_can_pause_update),
      (''canPlay'', fld dec_bool mq_can_play mq_can_play_update),
      (''canSeek'', fld dec_bool mq_can_seek mq_can_seek_update),
      (''playbackStatus'', fld dec_str mq_playback_status mq_playback_status_update),
      (''shuffle'', fld (dec_opt dec_bool False) mq_shuffle mq_shuffle_update),
      (''loopStatus'', fld dec_str mq_loop_status mq_loop_status_update)]"

definition dec_mpris_request :: "json \<Rightarrow> mpris_request \<Rightarrow> mpris_request option" where
  "dec_mpris_request j = dec_struct (dec_fields mpris_request_fields) j"

definition enc_mpris_request :: "mpris_request \<Rightarrow> json" where
  "enc_mpris_request x =
     JObj (omit (\<not> mq_request_player_list x) ''requestPlayerList'' (JBool (mq_request_player_list x))
           @ omit (\<not> mq_request_now_playing x) ''requestNowPlaying'' (JBool (mq_request_now_playing x))
           @ omit (\<not> mq_request_volume x) ''requestVolume'' (JBool (mq_request_volume x))
           @ omit (mq_player x = []) ''player'' (JStr (mq_player x))
           @ omit (mq_action x = []) ''action'' (JStr (mq_action x))
           @ (case mq_set_volume x of None \<Rightarrow> [] | Some v \<Rightarrow> [(''setVolume'', enc_int v)])
           @ (case mq_seek x of None \<Rightarrow> [] | Some v \<Rightarrow> [(''Seek'', enc_int v)])
           @ (case mq_set_position x of None \<Rightarrow> [] | Some v \<Rightarrow> [(''SetPosition'', enc_int v)])
           @ (case mq_set_shuffle x of None \<Rightarrow> [] | Some v \<Rightarrow> [(''setShuffle'', JBool v)])
           @ omit (mq_set_loop_status x = []) ''setLoopStatus'' (JStr (mq_set_loop_status x))
           @ omit (mq_album_art_url x = []) ''albumArtUrl'' (JStr (mq_album_art_url x))
           @ omit (\<not> mq_transferring_album_art x) ''transferringAlbumArt'' (JBool (mq_transferring_album_art x))
           @ omit (mq_player_list x = None \<or> mq_player_list x = Some []) ''playerList'' (enc_nstrs (mq_player_list x))
           @ omit (mq_title x = []) ''title'' (JStr (mq_title x))
           @ omit (mq_artist x = []) ''artist'' (JStr (mq_artist x))
           @ omit (mq_album x = []) ''album'' (JStr (mq_album x))
           @ omit (mq_url x = []) ''url'' (JStr (mq_url x))
           @ omit (mq_length x = 0) ''length'' (enc_int (mq_length x))
           @ omit (mq_pos x = 0) ''pos'' (enc_int (mq_pos x))
           @ omit (\<not> mq_is_playing x) ''isPlaying'' (JBool (mq_is_playing x))
           @ omit (mq_volume x = 0) ''volume'' (enc_int (mq_volume x))
           @ omit (\<not> mq_can_control x) ''canControl'' (JBool (mq_can_control x))
           @ omit (\<not> mq_can_go_next x) ''canGoNext'' (JBool (mq_can_go_next x))
           @ omit (\<not> mq_can_go_previous x) ''canGoPrevious'' (JBool (mq_can_go_previous x))
           @ omit (\<not> mq_can_pause x) ''canPause'' (JBool (mq_can_pause x))
           @ omit (\<not> mq_can_play x) ''canPlay'' (JBool (mq_can_play x))
           @ omit (\<not> mq_can_seek x) ''canSeek'' (JBool (mq_can_seek x))
           @ omit (mq_playback_status x = []) ''playbackStatus'' (JStr (mq_playback_status x))
           @ (case mq_shuffle x of None \<Rightarrow> [] | Some v \<Rightarrow> [(''shuffle'', JBool v)])
           @ omit (mq_loop_status x = []) ''loopStatus'' (JStr (mq_loop_status x)))"

section \<open>Properties of a player\<close>

datatype variant =
    VStr string
  | VPath string
  | VInt64 int
  | VInt32 int
  | VDouble go_float
  | VBool bool
  | VStrs "string list"
  | VMap "(string \<times> variant) list"

type_synonym props = "(string \<times> variant) list"

fun as_str :: "variant \<Rightarrow> string option" where
  "as_str (VStr s) = Some s" | "as_str _ = None"
fun as_int64 :: "variant \<Rightarrow> int option" where
  "as_int64 (VInt64 i) = Some i" | "as_int64 _ = None"
fun as_double :: "variant \<Rightarrow> go_float option" where
  "as_double (VDouble x) = Some x" | "as_double _ = None"
fun as_bool :: "variant \<Rightarrow> bool option" where
  "as_bool (VBool b) = Some b" | "as_bool _ = None"
fun as_map :: "variant \<Rightarrow> props option" where
  "as_map (VMap m) = Some m" | "as_map _ = None"

record player_state = now_playing +
  npl_track_id :: string

text \<open>A property that is there and has the wrong type is a panic.\<close>

definition set_prop :: "string \<Rightarrow> (variant \<Rightarrow> 'v option) \<Rightarrow> ('v \<Rightarrow> 's \<Rightarrow> 's) \<Rightarrow> props \<Rightarrow> 's option \<Rightarrow> 's option" where
  "set_prop key as upd ps st =
     Option.bind st (\<lambda>s. case map_of ps key of None \<Rightarrow> Some s | Some v \<Rightarrow> map_option (\<lambda>x. upd x s) (as v))"

definition set_status :: "string \<Rightarrow> player_state \<Rightarrow> player_state" where
  "set_status v s = s\<lparr>npl_playback_status := v, npl_is_playing := (v = ''Playing'')\<rparr>"

definition set_volume :: "(go_float \<Rightarrow> int) \<Rightarrow> go_float \<Rightarrow> player_state \<Rightarrow> player_state" where
  "set_volume conv x s = s\<lparr>npl_volume := to_int64 conv (float_mul x (Fin 100))\<rparr>"

text \<open>Division of Go's integers truncates.\<close>

definition div1000 :: "int \<Rightarrow> int" where
  "div1000 i = (if i < 0 then - ((- i) div 1000) else i div 1000)"

definition hex_val :: "char \<Rightarrow> nat option" where
  "hex_val c =
     (if is_digit c then Some (byte c - 48)
      else if 65 \<le> byte c \<and> byte c \<le> 70 then Some (byte c - 55)
      else if 97 \<le> byte c \<and> byte c \<le> 102 then Some (byte c - 87) else None)"

text \<open>\<open>url.PathUnescape\<close>.\<close>

fun PathUnescape :: "string \<Rightarrow> string option" where
  "PathUnescape [] = Some []"
| "PathUnescape (c # s) =
     (if c = CHR ''%''
      then (case s of
          h # l # r \<Rightarrow> (case (hex_val h, hex_val l) of
              (Some a, Some b) \<Rightarrow> map_option ((#) (char_of (16 * a + b))) (PathUnescape r) | _ \<Rightarrow> None)
        | _ \<Rightarrow> None)
      else map_option ((#) c) (PathUnescape s))"

definition track_id_of :: "props \<Rightarrow> player_state \<Rightarrow> player_state" where
  "track_id_of meta s =
     (case map_of meta ''mpris:trackid'' of
        Some (VPath v) \<Rightarrow> s\<lparr>npl_track_id := v\<rparr> | Some (VStr v) \<Rightarrow> s\<lparr>npl_track_id := v\<rparr> | _ \<Rightarrow> s)"

definition artists_of :: "props \<Rightarrow> player_state \<Rightarrow> player_state" where
  "artists_of meta s =
     (case map_of meta ''xesam:artist'' of Some (VStrs as) \<Rightarrow> s\<lparr>npl_artist := join_with '', '' as\<rparr> | _ \<Rightarrow> s)"

definition length_of :: "props \<Rightarrow> player_state \<Rightarrow> player_state" where
  "length_of meta s = (case map_of meta ''mpris:length'' of Some (VInt64 l) \<Rightarrow> s\<lparr>npl_length := div1000 l\<rparr> | _ \<Rightarrow> s)"

definition url_of :: "props \<Rightarrow> player_state \<Rightarrow> player_state" where
  "url_of meta s =
     (case map_of meta ''xesam:url'' of
        Some (VStr u) \<Rightarrow>
          let s = s\<lparr>npl_url := u\<rparr>
          in if npl_title s = [] \<and> has_prefix ''file://'' u
             then (case PathUnescape (TrimPrefix ''file://'' u) of
                     None \<Rightarrow> s
                   | Some p \<Rightarrow>
                       let s = s\<lparr>npl_title := Base p\<rparr>
                       in if npl_album s = [] then s\<lparr>npl_album := Base (Dir p)\<rparr> else s)
             else s
      | _ \<Rightarrow> s)"

definition fillMetadataFromMap :: "props \<Rightarrow> player_state \<Rightarrow> player_state option" where
  "fillMetadataFromMap meta s =
     map_option (\<lambda>s. let s = url_of meta (length_of meta s)
        in if npl_title s = [] then s\<lparr>npl_title := ''Unknown Media''\<rparr> else s)
       (set_prop ''mpris:artUrl'' as_str (\<lambda>v. npl_album_art_url_update (\<lambda>_. v)) meta
         (set_prop ''xesam:album'' as_str (\<lambda>v. npl_album_update (\<lambda>_. v)) meta
           (map_option (artists_of meta)
             (set_prop ''xesam:title'' as_str (\<lambda>v. npl_title_update (\<lambda>_. v)) meta (Some (track_id_of meta s))))))"

definition fill_metadata :: "props \<Rightarrow> player_state option \<Rightarrow> player_state option" where
  "fill_metadata ps st =
     Option.bind st (\<lambda>s. case Option.bind (map_of ps ''Metadata'') as_map of None \<Rightarrow> Some s | Some meta \<Rightarrow> fillMetadataFromMap meta s)"

definition new_player_state :: "string \<Rightarrow> player_state" where
  "new_player_state name =
     now_playing.extend (zero_now_playing\<lparr>npl_player := name, npl_can_control := True, npl_volume := -1\<rparr>)
       (player_state.fields [])"

abbreviation set_flag :: "string \<Rightarrow> ((bool \<Rightarrow> bool) \<Rightarrow> player_state \<Rightarrow> player_state) \<Rightarrow> props \<Rightarrow> player_state option \<Rightarrow> player_state option" where
  "set_flag key upd \<equiv> set_prop key as_bool (\<lambda>b. upd (\<lambda>_. b))"

definition buildNowPlaying :: "(go_float \<Rightarrow> int) \<Rightarrow> props \<Rightarrow> string \<Rightarrow> player_state option" where
  "buildNowPlaying conv ps name =
     fill_metadata ps
       (set_flag ''CanPlay'' npl_can_play_update ps
         (set_flag ''CanPause'' npl_can_pause_update ps
           (set_flag ''CanGoPrevious'' npl_can_go_previous_update ps
             (set_flag ''CanGoNext'' npl_can_go_next_update ps
               (set_flag ''CanSeek'' npl_can_seek_update ps
                 (set_prop ''LoopStatus'' as_str (\<lambda>v. npl_loop_status_update (\<lambda>_. v)) ps
                   (set_prop ''Shuffle'' as_bool (\<lambda>b. npl_shuffle_update (\<lambda>_. Some b)) ps
                     (set_prop ''Position'' as_int64 (\<lambda>i. npl_pos_update (\<lambda>_. div1000 i)) ps
                       (set_prop ''Volume'' as_double (set_volume conv) ps
                         (set_prop ''PlaybackStatus'' as_str set_status ps (Some (new_player_state name))))))))))))"

definition fillChangedProps :: "(go_float \<Rightarrow> int) \<Rightarrow> props \<Rightarrow> player_state \<Rightarrow> player_state option" where
  "fillChangedProps conv ps s =
     set_prop ''Shuffle'' as_bool (\<lambda>b. npl_shuffle_update (\<lambda>_. Some b)) ps
       (set_prop ''LoopStatus'' as_str (\<lambda>v. npl_loop_status_update (\<lambda>_. v)) ps
         (set_flag ''CanSeek'' npl_can_seek_update ps
           (set_flag ''CanGoPrevious'' npl_can_go_previous_update ps
             (set_flag ''CanGoNext'' npl_can_go_next_update ps
               (set_flag ''CanPause'' npl_can_pause_update ps
                 (set_flag ''CanPlay'' npl_can_play_update ps
                   (set_prop ''Volume'' as_double (set_volume conv) ps
                     (set_prop ''PlaybackStatus'' as_str set_status ps (fill_metadata ps (Some s))))))))))"

section \<open>What counts as a change\<close>

definition positionDriftToleranceMs :: int where "positionDriftToleranceMs = 3000"

definition positionDrifted :: "int \<Rightarrow> player_state \<Rightarrow> player_state \<Rightarrow> bool" where
  "positionDrifted now_ms s prev =
     (if npl_is_playing s \<and> npl_is_playing prev \<and> npl_pos_anchor_ms prev > 0
      then let expected = wrap64 (npl_pos prev + wrap64 (now_ms - npl_pos_anchor_ms prev));
               drift = wrap64 (npl_pos s - expected);
               drift = (if drift < 0 then wrap64 (- drift) else drift)
           in drift > positionDriftToleranceMs
      else npl_pos s \<noteq> npl_pos prev)"

definition localStateChanged :: "int \<Rightarrow> player_state \<Rightarrow> player_state option \<Rightarrow> bool" where
  "localStateChanged now_ms s cached =
     (case cached of
        None \<Rightarrow> True
      | Some prev \<Rightarrow>
          npl_playback_status s \<noteq> npl_playback_status prev \<or> npl_title s \<noteq> npl_title prev \<or> npl_artist s \<noteq> npl_artist prev \<or>
          npl_album s \<noteq> npl_album prev \<or> npl_album_art_url s \<noteq> npl_album_art_url prev \<or> npl_volume s \<noteq> npl_volume prev \<or>
          npl_is_playing s \<noteq> npl_is_playing prev \<or> positionDrifted now_ms s prev)"

definition shouldPublishRemoteState :: "now_playing option \<Rightarrow> now_playing \<Rightarrow> bool" where
  "shouldPublishRemoteState cached s =
     (case cached of
        None \<Rightarrow> True
      | Some prev \<Rightarrow>
          npl_player prev \<noteq> npl_player s \<or> npl_title prev \<noteq> npl_title s \<or> npl_artist prev \<noteq> npl_artist s \<or>
          npl_album prev \<noteq> npl_album s \<or> npl_album_art_url prev \<noteq> npl_album_art_url s \<or>
          npl_playback_status prev \<noteq> npl_playback_status s \<or> npl_is_playing prev \<noteq> npl_is_playing s \<or>
          npl_volume prev \<noteq> npl_volume s)"

section \<open>Players on the bus\<close>

record player_entry =
  py_bus :: string
  py_short :: string
  py_identity :: string

definition mprisBusPrefix :: string where "mprisBusPrefix = ''org.mpris.MediaPlayer2.''"

definition foreign_player :: "string \<Rightarrow> bool" where
  "foreign_player name \<longleftrightarrow> has_prefix mprisBusPrefix name \<and> \<not> has_prefix (mprisBusPrefix @ ''kdeconnect.'') name \<and>
     name \<noteq> ''org.mpris.MediaPlayer2.playerctld''"

definition short_name :: "string \<Rightarrow> string" where
  "short_name name =
     (let short = TrimPrefix mprisBusPrefix name in case cut_text ''.instance'' short of None \<Rightarrow> short | Some (b, _) \<Rightarrow> b)"

text \<open>\<open>identity\<close> is what the player answers, if it does.\<close>

definition resolveIdentity :: "(string \<Rightarrow> string option) \<Rightarrow> string \<Rightarrow> player_entry" where
  "resolveIdentity identity name =
     \<lparr>py_bus = name, py_short = short_name name,
      py_identity = (case identity name of None \<Rightarrow> short_name name | Some i \<Rightarrow> if i = [] then short_name name else i)\<rparr>"

definition numbered :: "string \<Rightarrow> nat \<Rightarrow> string" where
  "numbered base n = base @ '' ['' @ show_nat n @ '']''"

lemma show_nat_inj: "show_nat a = show_nat b \<Longrightarrow> a = b"
  by (metis digits_val_show_nat)

lemma numbered_inj: "numbered base a = numbered base b \<Longrightarrow> a = b"
  by (auto simp: numbered_def dest: show_nat_inj)

lemma finite_numbers: "finite {m. numbered base m \<in> set seen}"
proof -
  have "inj_on (numbered base) {m. numbered base m \<in> set seen}" by (rule inj_onI) (rule numbered_inj)
  moreover have "finite (numbered base ` {m. numbered base m \<in> set seen})" by (rule finite_subset [of _ "set seen"]) auto
  ultimately show ?thesis by (rule finite_imageD [rotated])
qed

text \<open>The loop that numbers a name until it is not taken.\<close>

function free_number :: "string list \<Rightarrow> string \<Rightarrow> nat \<Rightarrow> nat" where
  "free_number seen base n = (if numbered base n \<in> set seen then free_number seen base (Suc n) else n)"
  by pat_completeness auto
termination
proof (relation "measure (\<lambda>(seen, base, n). card {m. n \<le> m \<and> numbered base m \<in> set seen})")
  fix seen base n
  assume taken: "numbered base n \<in> set seen"
  have "{m. Suc n \<le> m \<and> numbered base m \<in> set seen} \<subset> {m. n \<le> m \<and> numbered base m \<in> set seen}"
  proof (rule psubsetI)
    show "{m. Suc n \<le> m \<and> numbered base m \<in> set seen} \<noteq> {m. n \<le> m \<and> numbered base m \<in> set seen}"
      using taken by (metis (mono_tags, lifting) mem_Collect_eq not_less_eq_eq order_refl)
  qed auto
  moreover have "finite {m. n \<le> m \<and> numbered base m \<in> set seen}"
    by (rule finite_subset [OF _ finite_numbers [of base seen]]) auto
  ultimately show "((seen, base, Suc n), seen, base, n) \<in> measure (\<lambda>(seen, base, n). card {m. n \<le> m \<and> numbered base m \<in> set seen})"
    by (simp add: psubset_card_mono)
qed simp

declare free_number.simps [simp del]

definition free_name :: "string list \<Rightarrow> string \<Rightarrow> string" where
  "free_name seen base = (if base \<in> set seen then numbered base (free_number seen base 2) else base)"

text \<open>\<open>seen\<close> are the names given so far, the last one first.\<close>

fun name_players :: "string list \<Rightarrow> player_entry list \<Rightarrow> player_entry list" where
  "name_players seen [] = []"
| "name_players seen (e # es) =
     (let n = free_name seen (py_identity e) in e\<lparr>py_identity := n\<rparr> # name_players (n # seen) es)"

definition plasma_covers :: "string list \<Rightarrow> player_entry list \<Rightarrow> bool" where
  "plasma_covers words es \<longleftrightarrow>
     (\<exists>e \<in> set es. has_prefix ''org.mpris.MediaPlayer2.plasma-browser-integration'' (py_bus e) \<and> (\<exists>w \<in> set words. contains w (py_bus e)))"

text \<open>\<open>names\<close> is the list of names on the bus, \<open>None\<close> when it cannot be had.\<close>

definition listPlayersDBus :: "(string \<Rightarrow> string option) \<Rightarrow> string list option \<Rightarrow> player_entry list option" where
  "listPlayersDBus identity names =
     map_option (\<lambda>ns.
       let all = map (resolveIdentity identity) (filter foreign_player ns);
           firefox = plasma_covers [''Firefox''] all;
           chrome = plasma_covers [''Chrome'', ''Chromium''] all
       in name_players [] (filter (\<lambda>e. \<not> (firefox \<and> has_prefix ''org.mpris.MediaPlayer2.firefox'' (py_bus e)) \<and>
                                       \<not> (chrome \<and> has_prefix ''org.mpris.MediaPlayer2.chromium'' (py_bus e))) all)) names"

text \<open>What is on the bus and not tracked, and what is tracked and no more on the bus (by bus name).\<close>

definition diffTracked :: "player_entry list \<Rightarrow> (string \<times> string) list \<Rightarrow> player_entry list \<times> string list" where
  "diffTracked es tracked =
     (filter (\<lambda>e. map_of tracked (py_bus e) = None) es,
      filter (\<lambda>b. b \<notin> py_bus ` set es) (map fst tracked))"

section \<open>Actions\<close>

definition canonicalActions :: "(string \<times> string) list" where
  "canonicalActions =
     [(''play'', ''Play''), (''pause'', ''Pause''), (''playpause'', ''PlayPause''), (''next'', ''Next''),
      (''previous'', ''Previous''), (''stop'', ''Stop'')]"

definition CanonicalAction :: "string \<Rightarrow> string" where
  "CanonicalAction action = (case map_of canonicalActions (lower_text action) of Some c \<Rightarrow> c | None \<Rightarrow> action)"

section \<open>Album art\<close>

definition maxAlbumArtBytes :: int where "maxAlbumArtBytes = 5 * 1024 * 1024"
definition maxArtDimension :: int where "maxArtDimension = 2048"
definition maxArtPixels :: int where "maxArtPixels = 2048 * 2048"
definition maxArtCacheFiles :: nat where "maxArtCacheFiles = 500"

text \<open>The text before the last occurrence.\<close>

fun before_last :: "string \<Rightarrow> string \<Rightarrow> string option" where
  "before_last sub [] = None"
| "before_last sub (c # s) =
     (case before_last sub s of Some b \<Rightarrow> Some (c # b) | None \<Rightarrow> if has_prefix sub (c # s) then Some [] else None)"

definition cleanArtURL :: "string \<Rightarrow> string option" where
  "cleanArtURL raw =
     (if \<not> has_prefix ''file://'' raw then None
      else let clean = (case before_last ''?t='' raw of None \<Rightarrow> raw | Some b \<Rightarrow> b)
           in Option.bind (PathUnescape (TrimPrefix ''file://'' clean)) (\<lambda>p. if is_rooted (Clean p) then Some (Clean p) else None))"

definition isSafeCacheKey :: "string \<Rightarrow> bool" where
  "isSafeCacheKey key \<longleftrightarrow> key \<noteq> [] \<and> length key \<le> 64 \<and> list_all (\<lambda>c. ascii_alnum c \<or> c = CHR ''-'' \<or> c = CHR ''_'') key"

definition fnv1a :: "string \<Rightarrow> 32 word" where
  "fnv1a s = foldl (\<lambda>h c. (h XOR of_nat (byte c)) * 16777619) 2166136261 s"

text \<open>\<open>art_hash\<close> reads the parameter \<open>kdeArtHash\<close> of a URL, empty when there is none, \<open>None\<close> when it is no URL.\<close>

definition art_Key :: "(string \<Rightarrow> string option) \<Rightarrow> string \<Rightarrow> string" where
  "art_Key art_hash raw =
     (case art_hash raw of
        Some h \<Rightarrow> if isSafeCacheKey h then h else show_nat (unat (fnv1a raw))
      | None \<Rightarrow> show_nat (unat (fnv1a raw)))"

definition safePath :: "string \<Rightarrow> string \<Rightarrow> string \<Rightarrow> string option" where
  "safePath dir key ext =
     (let dst = Join [dir, key @ ext]
      in case Rel dir dst of
           None \<Rightarrow> None
         | Some rel \<Rightarrow> if has_prefix dotdot rel \<or> is_rooted rel \<or> Dir rel \<noteq> dot then None else Some dst)"

record art_cache =
  ac_dir :: string
  ac_resolved :: "string \<rightharpoonup> string"

text \<open>A cache directory with too many files is emptied when the cache is made; what stays of \<open>entries\<close> (name, directory).\<close>

definition purgeArtCacheDir :: "(string \<times> bool) list option \<Rightarrow> (string \<Rightarrow> bool) \<Rightarrow> (string \<times> bool) list" where
  "purgeArtCacheDir entries removed =
     (case entries of
        None \<Rightarrow> []
      | Some es \<Rightarrow> if length es \<le> maxArtCacheFiles then es else filter (\<lambda>(name, is_dir). is_dir \<or> \<not> removed name) es)"

definition art_dir :: "string option \<Rightarrow> string \<Rightarrow> string list \<Rightarrow> string" where
  "art_dir user_cache tmp given =
     (if given \<noteq> [] \<and> hd given \<noteq> [] then hd given
      else Join [case user_cache of None \<Rightarrow> Join [tmp, ''kcd-cache''] | Some b \<Rightarrow> if b = [] then Join [tmp, ''kcd-cache''] else b,
                 ''kcd'', ''art''])"

definition NewArtCache :: "string option \<Rightarrow> string \<Rightarrow> string list \<Rightarrow> art_cache" where
  "NewArtCache user_cache tmp given = \<lparr>ac_dir = art_dir user_cache tmp given, ac_resolved = Map.empty\<rparr>"

text \<open>\<open>glob\<close> gives the files that match a pattern, \<open>None\<close> for a bad pattern.\<close>

definition art_Resolve ::
  "(string \<Rightarrow> string option) \<Rightarrow> (string \<Rightarrow> string list option) \<Rightarrow> string \<Rightarrow> art_cache \<Rightarrow> string \<times> art_cache" where
  "art_Resolve art_hash glob raw c =
     (if \<not> has_prefix ''kdeconnect:/'' raw then ([], c)
      else case ac_resolved c raw of
        Some path \<Rightarrow> (path, c)
      | None \<Rightarrow>
          (case Option.bind (safePath (ac_dir c) (art_Key art_hash raw) ''.*'') glob of
             Some (m # ms) \<Rightarrow> (''file://'' @ m, c\<lparr>ac_resolved := (ac_resolved c)(raw \<mapsto> ''file://'' @ m)\<rparr>)
           | _ \<Rightarrow> ([], c)))"

text \<open>
  What the image library says: the dimensions in the header, whether the image decodes, the new encoding, and whether
  the file could be opened, written and closed.
\<close>

record image_answers =
  im_size :: "(int \<times> int) option"
  im_decodes :: bool
  im_jpeg :: string
  im_opens :: bool
  im_encodes :: bool
  im_closes :: bool

definition art_Commit ::
  "(string \<Rightarrow> string option) \<Rightarrow> image_answers \<Rightarrow> string \<Rightarrow> art_cache \<Rightarrow> files \<Rightarrow> string option \<times> art_cache \<times> files" where
  "art_Commit art_hash a raw c fs =
     (case im_size a of
        None \<Rightarrow> (None, c, fs)
      | Some (w, h) \<Rightarrow>
          if w \<le> 0 \<or> h \<le> 0 \<or> w > maxArtDimension \<or> h > maxArtDimension \<or> w * h > maxArtPixels then (None, c, fs)
          else if \<not> im_decodes a then (None, c, fs)
          else (case safePath (ac_dir c) (art_Key art_hash raw) ''.jpg'' of
             None \<Rightarrow> (None, c, fs)
           | Some dst \<Rightarrow>
               if \<not> im_opens a then (None, c, fs)
               else if \<not> im_encodes a \<or> \<not> im_closes a then (None, c, fs(dst := None))
               else (Some (''file://'' @ dst), c\<lparr>ac_resolved := (ac_resolved c)(raw \<mapsto> ''file://'' @ dst)\<rparr>, fs(dst \<mapsto> im_jpeg a))))"

section \<open>Facts\<close>

lemma free_number_fresh: "numbered base (free_number seen base n) \<notin> set seen"
  by (induction seen base n rule: free_number.induct) (subst free_number.simps, simp)

lemma free_name_fresh: "free_name seen base \<notin> set seen"
  by (simp add: free_name_def free_number_fresh)

text \<open>No two players are tracked under the same name: the names that are given are distinct and new.\<close>
theorem player_names_distinct:
  "distinct (map py_identity (name_players seen es)) \<and> set (map py_identity (name_players seen es)) \<inter> set seen = {}"
proof (induction seen es rule: name_players.induct)
  case (2 seen e es)
  then show ?case using free_name_fresh [of seen "py_identity e"] by (auto simp: Let_def)
qed simp

text \<open>
  A property of a player with another type than expected panics: a player that gives its volume as an integer ends the
  goroutine that reads it, and with it the daemon.
\<close>
theorem integer_volume_panics:
  assumes "map_of ps ''Volume'' = Some (VInt32 v)"
  shows "buildNowPlaying conv ps name = None" and "fillChangedProps conv ps s = None"
proof -
  have none: "set_prop key as upd ps None = None" for key and as :: "variant \<Rightarrow> 'v option" and upd by (simp add: set_prop_def)
  have "set_prop ''Volume'' as_double (set_volume conv) ps st = None" for st
    using assms by (cases st) (simp_all add: set_prop_def)
  then show "buildNowPlaying conv ps name = None" "fillChangedProps conv ps s = None"
    by (simp_all add: buildNowPlaying_def fillChangedProps_def set_prop_def fill_metadata_def)
qed

text \<open>
  Steady playback is silent: a reading whose position is where the cached one has moved to, give or take three
  seconds, is no change.
\<close>
theorem steady_playback_is_silent:
  assumes "npl_is_playing prev" and "npl_pos_anchor_ms prev > 0"
    and "s = prev\<lparr>npl_pos := npl_pos prev + (now_ms - npl_pos_anchor_ms prev) + d\<rparr>" and "\<bar>d\<bar> \<le> 3000"
    and "in_int64 (npl_pos prev + (now_ms - npl_pos_anchor_ms prev))" and "in_int64 (now_ms - npl_pos_anchor_ms prev)"
  shows "\<not> localStateChanged now_ms s (Some prev)"
proof -
  have id: "wrap64 i = i" if "in_int64 i" for i using that by (rule wrap64_id)
  have small: "in_int64 d" "in_int64 (- d)" using assms(4) by (auto simp: in_int64_def min_int64_def max_int64_def)
  show ?thesis using assms small
    by (auto simp: localStateChanged_def positionDrifted_def positionDriftToleranceMs_def Let_def id)
qed

lemma art_Key_chars: "art_Key art_hash raw \<noteq> [] \<and> list_all (\<lambda>c. ascii_alnum c \<or> c = CHR ''-'' \<or> c = CHR ''_'') (art_Key art_hash raw)"
proof -
  have "list_all (\<lambda>c. ascii_alnum c \<or> c = CHR ''-'' \<or> c = CHR ''_'') (show_nat n)" for n
    using show_nat_digits [of n] by (auto simp: list_all_iff ascii_alnum_def)
  then show ?thesis by (auto simp: art_Key_def isSafeCacheKey_def show_nat_not_Nil split: option.splits)
qed

lemma art_file_plain: "plain_part (art_Key art_hash raw @ ''.jpg'')"
proof -
  have "slash \<notin> set (art_Key art_hash raw)"
    using art_Key_chars [of art_hash raw] by (auto simp: list_all_iff ascii_alnum_def is_digit_def slash_def)
  then show ?thesis by (auto simp: plain_part_def slash_def dot_def dotdot_def)
qed

text \<open>
  Album art of a phone touches one file directly in the cache directory, named by letters, digits, dashes and underscores,
  and only when it is an image of at most 2048 by 2048 pixels; what is stored is the new encoding, not the bytes of
  the phone.
\<close>
theorem art_stays_in_cache:
  assumes "is_rooted (ac_dir c)" and "art_Commit art_hash a raw c fs = (r, c', fs')" and "fs' path \<noteq> fs path"
  shows "path = slash # join_with [slash] (path_parts (ac_dir c) @ [art_Key art_hash raw @ ''.jpg'']) \<and>
    (\<exists>w h. im_size a = Some (w, h) \<and> 0 < w \<and> w \<le> 2048 \<and> 0 < h \<and> h \<le> 2048) \<and> fs' path \<in> {None, Some (im_jpeg a)}"
proof -
  obtain ps where ps: "list_all plain_part ps" "Clean (ac_dir c) = slash # join_with [slash] ps"
      "Join [ac_dir c, art_Key art_hash raw @ ''.jpg''] = slash # join_with [slash] (ps @ [art_Key art_hash raw @ ''.jpg''])"
    using Join_dir_name [OF assms(1) art_file_plain] by blast
  have e: "ps = path_parts (ac_dir c)" using rooted_path [OF assms(1)] ps path_parts_plain by (metis list.inject)
  let ?p = "safePath (ac_dir c) (art_Key art_hash raw) ''.jpg''"
  have dst: "?p = None \<or> ?p = Some (Join [ac_dir c, art_Key art_hash raw @ ''.jpg''])"
    by (simp add: safePath_def Let_def split: option.split)
  obtain w h where im: "im_size a = Some (w, h)" using assms(2,3) by (cases "im_size a") (auto simp: art_Commit_def)
  have ok: "\<not> (w \<le> 0 \<or> h \<le> 0 \<or> w > maxArtDimension \<or> h > maxArtDimension \<or> w * h > maxArtPixels)"
  proof
    assume bad: "w \<le> 0 \<or> h \<le> 0 \<or> w > maxArtDimension \<or> h > maxArtDimension \<or> w * h > maxArtPixels"
    have "art_Commit art_hash a raw c fs = (None, c, fs)"
      unfolding art_Commit_def im option.case prod.case by (rule if_P [OF bad])
    then show False using assms(2,3) by simp
  qed
  have commit: "art_Commit art_hash a raw c fs =
      (if \<not> im_decodes a then (None, c, fs)
       else case ?p of None \<Rightarrow> (None, c, fs) | Some dst \<Rightarrow>
         if \<not> im_opens a then (None, c, fs)
         else if \<not> im_encodes a \<or> \<not> im_closes a then (None, c, fs(dst := None))
         else (Some (''file://'' @ dst), c\<lparr>ac_resolved := (ac_resolved c)(raw \<mapsto> ''file://'' @ dst)\<rparr>, fs(dst \<mapsto> im_jpeg a)))"
    unfolding art_Commit_def im option.case prod.case by (rule if_not_P [OF ok])
  have size: "0 < w \<and> w \<le> 2048 \<and> 0 < h \<and> h \<le> 2048" using ok by (simp add: maxArtDimension_def not_le not_less)
  obtain d where d: "?p = Some d" using assms(2,3) unfolding commit by (cases ?p) (auto split: if_splits)
  have "path = d \<and> fs' path \<in> {None, Some (im_jpeg a)}"
    using assms(2,3) unfolding commit d option.case by (auto split: if_splits)
  then show ?thesis using dst d ps(3) e im size by auto
qed

theorem art_stays_in_cache_witness:
  "''/c/7.jpg'' = slash # join_with [slash] (path_parts ''/c'' @ [art_Key (\<lambda>_. Some ''7'') ''kdeconnect:/a'' @ ''.jpg''])"
proof -
  let ?c = "\<lparr>ac_dir = ''/c'', ac_resolved = Map.empty\<rparr>"
  let ?a = "\<lparr>im_size = Some (1, 1), im_decodes = True, im_jpeg = ''j'', im_opens = True, im_encodes = True, im_closes = True\<rparr>"
  let ?r = "art_Commit (\<lambda>_. Some ''7'') ?a ''kdeconnect:/a'' ?c Map.empty"
  have k: "art_Key (\<lambda>_. Some ''7'') ''kdeconnect:/a'' = ''7''" by code_simp
  have s: "safePath ''/c'' ''7'' ''.jpg'' = Some ''/c/7.jpg''" by code_simp
  have root: "is_rooted (ac_dir ?c)" by code_simp
  have r: "?r = (fst ?r, fst (snd ?r), snd (snd ?r))" by simp
  have ch: "snd (snd ?r) ''/c/7.jpg'' \<noteq> (Map.empty :: files) ''/c/7.jpg''"
    by (simp add: art_Commit_def maxArtDimension_def maxArtPixels_def k s)
  show ?thesis using conjunct1 [OF art_stays_in_cache [OF root r ch]] unfolding art_cache.select_convs .
qed

end
