(* ===== verification/Mpris.thy ===== *)
theory Mpris
  imports MprisState PayloadTransfer
begin

text \<open>
  The MPRIS plugin (\<open>internal/plugins/mpris\<close>): the players of this computer shown to phones and controlled by them, and the
  players of phones shown here.

  A D-Bus call answers through the environment; reading a player may fail or panic.  What happens outside is a list of
  actions; a goroutine that is started is an action, its body an operation of its own.  An operation under the plugin's
  mutex is atomic, and so is storing a state and broadcasting it, because the broadcast stamps the stored object.
\<close>

section \<open>State\<close>

record tracked_player =
  tp_bus :: string
  tp_unique :: string
  tp_display :: string
  tp_short :: string

record position_tracker =
  rt_position :: int
  rt_at :: int
  rt_playing :: bool

text \<open>
  Times are nanoseconds.  \<open>ml_pollers\<close> are the goroutines of the position poller that have not returned, each with its generation
  and whether its context is cancelled.  The generation is a counter of 64 bits, taken not to run over.
\<close>

record mpris_state =
  ml_devices :: "string list"
  ml_players :: "(string \<times> tracked_player) list"
  ml_last_tracks :: "string \<rightharpoonup> string"
  ml_last_states :: "string \<rightharpoonup> player_state"
  ml_art_requests :: "string \<rightharpoonup> int"
  ml_remote :: "(string \<times> now_playing) list"
  ml_remote_times :: "string \<rightharpoonup> int"
  ml_trackers :: "string \<rightharpoonup> position_tracker"
  ml_call_paused :: "string list"
  ml_cache :: art_cache
  ml_reconcile :: bool
  ml_poll :: bool
  ml_poll_gen :: nat
  ml_pollers :: "(nat \<times> bool) list"
  ml_remote_poll :: bool
  ml_owners :: "string \<rightharpoonup> string"

record mpris_env =
  me_cfg :: mpris_config
  me_pause_music :: bool
  me_dbus :: bool
  me_has_bus :: bool
  me_now :: int
  me_connected :: "string \<Rightarrow> bool"
  me_read :: "string \<Rightarrow> props option"
  me_call :: "string \<Rightarrow> string \<Rightarrow> bool"
  me_fold_eq :: "string \<Rightarrow> string \<Rightarrow> bool"
  me_conv :: "go_float \<Rightarrow> int"
  me_art_hash :: "string \<Rightarrow> string option"
  me_glob :: "string \<Rightarrow> string list option"

datatype goroutine =
    SendsArt string string string
  | ReceivesArt string string string int int
  | RequestsArt string string string
  | AsksPlayer string string
  | BroadcastsPlayers "string list"
  | ControlsPlayer string string "int option" "int option" "int option" "bool option" string

datatype mpris_action =
    ToPhone string string json
  | Announces string now_playing
  | Calls string string "variant list"
  | Starts goroutine

definition NewMPRISPlugin :: "art_cache \<Rightarrow> mpris_state" where
  "NewMPRISPlugin cache =
     \<lparr>ml_devices = [], ml_players = [], ml_last_tracks = Map.empty, ml_last_states = Map.empty, ml_art_requests = Map.empty,
      ml_remote = [], ml_remote_times = Map.empty, ml_trackers = Map.empty, ml_call_paused = [], ml_cache = cache,
      ml_reconcile = False, ml_poll = False, ml_poll_gen = 0, ml_pollers = [], ml_remote_poll = False, ml_owners = Map.empty\<rparr>"

definition now_ms :: "mpris_env \<Rightarrow> int" where
  "now_ms env = me_now env div millisecond"

definition requestReconcile :: "mpris_state \<Rightarrow> mpris_state" where
  "requestReconcile st = st\<lparr>ml_reconcile := True\<rparr>"

section \<open>Players of this computer\<close>

definition resolvePlayer :: "mpris_env \<Rightarrow> string \<Rightarrow> mpris_state \<Rightarrow> tracked_player option" where
  "resolvePlayer env name st =
     (if name = [] then None
      else find (\<lambda>p. tp_display p = name \<or> tp_short p = name \<or> me_fold_eq env (tp_short p) name) (map snd (ml_players st)))"

datatype reading = Unreadable | Panics | Playing_state player_state

definition playerStateDBus :: "mpris_env \<Rightarrow> string \<Rightarrow> string \<Rightarrow> reading" where
  "playerStateDBus env bus name =
     (if \<not> me_dbus env then Unreadable
      else case me_read env bus of
        None \<Rightarrow> Unreadable
      | Some ps \<Rightarrow> (case buildNowPlaying (me_conv env) ps name of None \<Rightarrow> Panics | Some s \<Rightarrow> Playing_state s))"

definition playerState :: "mpris_env \<Rightarrow> string \<Rightarrow> mpris_state \<Rightarrow> reading" where
  "playerState env name st =
     (case resolvePlayer env name st of None \<Rightarrow> Unreadable | Some p \<Rightarrow> playerStateDBus env (tp_bus p) name)"

text \<open>Every connected device gets the packet.\<close>

definition to_connected :: "mpris_env \<Rightarrow> mpris_state \<Rightarrow> json \<Rightarrow> mpris_action list" where
  "to_connected env st body = map (\<lambda>d. ToPhone d ''kdeconnect.mpris'' body) (filter (me_connected env) (ml_devices st))"

definition stamped :: "mpris_env \<Rightarrow> player_state \<Rightarrow> player_state" where
  "stamped env s = s\<lparr>npl_pos_anchor_ms := now_ms env\<rparr>"

definition mpris_broadcast :: "mpris_env \<Rightarrow> player_state \<Rightarrow> mpris_state \<Rightarrow> mpris_action list" where
  "mpris_broadcast env s st = to_connected env st (enc_now_playing (now_playing.truncate (stamped env s)))"

definition player_list_body :: "mpris_state \<Rightarrow> json" where
  "player_list_body st =
     JObj [(''playerList'', JArr (map (JStr \<circ> fst) (ml_players st))), (''supportAlbumArtPayload'', JBool True)]"

definition sendPlayerList :: "string \<Rightarrow> mpris_state \<Rightarrow> mpris_action list" where
  "sendPlayerList dev st =
     [Starts (BroadcastsPlayers (map fst (ml_players st))), ToPhone dev ''kdeconnect.mpris'' (player_list_body st)]"

definition sendPlayerListBroadcast :: "mpris_env \<Rightarrow> mpris_state \<Rightarrow> mpris_action list" where
  "sendPlayerListBroadcast env st = to_connected env st (player_list_body st)"

text \<open>The goroutine that broadcasts each player; \<open>None\<close> is a panic.\<close>

fun broadcast_players :: "mpris_env \<Rightarrow> string list \<Rightarrow> mpris_state \<Rightarrow> mpris_action list option" where
  "broadcast_players env [] st = Some []"
| "broadcast_players env (n # ns) st =
     (case playerState env n st of
        Panics \<Rightarrow> None
      | Unreadable \<Rightarrow> broadcast_players env ns st
      | Playing_state s \<Rightarrow> map_option ((@) (mpris_broadcast env s st)) (broadcast_players env ns st))"

section \<open>The position poller\<close>

definition armPlayingPollerLocked :: "mpris_state \<Rightarrow> mpris_state" where
  "armPlayingPollerLocked st =
     (if ml_poll st then st
      else st\<lparr>ml_poll := True, ml_poll_gen := Suc (ml_poll_gen st), ml_pollers := (Suc (ml_poll_gen st), False) # ml_pollers st\<rparr>)"

definition stopPlayingPollerLocked :: "mpris_state \<Rightarrow> mpris_state" where
  "stopPlayingPollerLocked st =
     (if \<not> ml_poll st then st
      else st\<lparr>ml_poll := False, ml_pollers := map (\<lambda>(g, c). (g, c \<or> g = ml_poll_gen st)) (ml_pollers st)\<rparr>)"

definition syncPlayingPollerLocked :: "mpris_config \<Rightarrow> mpris_state \<Rightarrow> mpris_state" where
  "syncPlayingPollerLocked cfg st =
     (if \<not> mr_poll_while_playing cfg \<or> ml_players st = [] then stopPlayingPollerLocked st else armPlayingPollerLocked st)"

definition finishPlayingPoller :: "nat \<Rightarrow> mpris_state \<Rightarrow> mpris_state" where
  "finishPlayingPoller gen st =
     st\<lparr>ml_pollers := filter (\<lambda>(g, c). g \<noteq> gen) (ml_pollers st), ml_poll := (ml_poll st \<and> ml_poll_gen st \<noteq> gen)\<rparr>"

definition maxConsecutiveReadFailures :: nat where "maxConsecutiveReadFailures = 5"

text \<open>The loop of one poller over what its ticks report (playing, answered): whether and after how many ticks it returns.\<close>

fun poller_returns :: "nat \<Rightarrow> (bool \<times> bool) list \<Rightarrow> nat option" where
  "poller_returns failures [] = None"
| "poller_returns failures ((playing, answered) # ticks) =
     (if playing then map_option Suc (poller_returns 0 ticks)
      else if answered then Some 1
      else if Suc failures \<ge> maxConsecutiveReadFailures then Some 1
      else map_option Suc (poller_returns (Suc failures) ticks))"

definition storeLocalState :: "mpris_env \<Rightarrow> string \<Rightarrow> player_state \<Rightarrow> mpris_state \<Rightarrow> mpris_state" where
  "storeLocalState env name s st = syncPlayingPollerLocked (me_cfg env) (st\<lparr>ml_last_states := (ml_last_states st)(name \<mapsto> s)\<rparr>)"

definition store_and_broadcast :: "mpris_env \<Rightarrow> string \<Rightarrow> player_state \<Rightarrow> mpris_state \<Rightarrow> mpris_action list \<times> mpris_state" where
  "store_and_broadcast env name s st = (mpris_broadcast env s st, storeLocalState env name (stamped env s) st)"

text \<open>One pass over some players: a reading that has changed is stored and broadcast.\<close>

fun poll_players :: "mpris_env \<Rightarrow> string list \<Rightarrow> mpris_state \<Rightarrow> (bool \<times> bool \<times> mpris_action list \<times> mpris_state) option" where
  "poll_players env [] st = Some (False, True, [], st)"
| "poll_players env (n # ns) st =
     (case playerState env n st of
        Panics \<Rightarrow> None
      | Unreadable \<Rightarrow> map_option (\<lambda>(p, c, acts, st). (p, False, acts, st)) (poll_players env ns st)
      | Playing_state s \<Rightarrow>
          (case (if localStateChanged (now_ms env) s (ml_last_states st n) then store_and_broadcast env n s st else ([], st)) of
             (acts, st) \<Rightarrow> map_option (\<lambda>(p, c, acts', st). (p \<or> npl_is_playing s, c, acts @ acts', st)) (poll_players env ns st)))"

definition pollPlayingPlayers :: "mpris_env \<Rightarrow> mpris_state \<Rightarrow> (bool \<times> bool \<times> mpris_action list \<times> mpris_state) option" where
  "pollPlayingPlayers env st = poll_players env (map (tp_display \<circ> snd) (ml_players st)) st"

definition refreshTrackedStates :: "mpris_env \<Rightarrow> mpris_state \<Rightarrow> (mpris_action list \<times> mpris_state) option" where
  "refreshTrackedStates env st =
     (if \<not> me_dbus env then Some ([], st)
      else map_option (\<lambda>(p, c, acts, st). (acts, st)) (poll_players env (map fst (ml_players st)) st))"

section \<open>Players that come and go\<close>

definition addPlayer :: "mpris_env \<Rightarrow> string \<Rightarrow> string \<Rightarrow> string \<Rightarrow> string \<Rightarrow> mpris_state \<Rightarrow> (mpris_action list \<times> mpris_state) option" where
  "addPlayer env bus unique display short st =
     (let st = st\<lparr>ml_players := AList.update display
              \<lparr>tp_bus = bus, tp_unique = unique, tp_display = display, tp_short = short\<rparr> (ml_players st)\<rparr>
      in case playerState env display st of
           Panics \<Rightarrow> None
         | Unreadable \<Rightarrow> Some (sendPlayerListBroadcast env st, st)
         | Playing_state s \<Rightarrow> (case store_and_broadcast env display s st of
             (acts, st) \<Rightarrow> Some (acts @ sendPlayerListBroadcast env st, st)))"

definition removePlayer :: "mpris_env \<Rightarrow> string \<Rightarrow> mpris_state \<Rightarrow> mpris_action list \<times> mpris_state" where
  "removePlayer env display st =
     (let st = syncPlayingPollerLocked (me_cfg env)
            (st\<lparr>ml_players := AList.delete display (ml_players st), ml_last_tracks := (ml_last_tracks st)(display := None),
                ml_last_states := (ml_last_states st)(display := None)\<rparr>)
      in (sendPlayerListBroadcast env st, st))"

text \<open>The names that the reconciliation adds; \<open>owner\<close> answers who owns a bus name.\<close>

fun add_players :: "mpris_env \<Rightarrow> (string \<Rightarrow> string option) \<Rightarrow> player_entry list \<Rightarrow> mpris_state \<Rightarrow> (mpris_action list \<times> mpris_state) option" where
  "add_players env owner [] st = Some ([], st)"
| "add_players env owner (e # es) st =
     (case owner (py_bus e) of
        None \<Rightarrow> add_players env owner es st
      | Some o' \<Rightarrow>
          if o' = [] then add_players env owner es st
          else (case addPlayer env (py_bus e) o' (py_identity e) (py_short e)
                  (st\<lparr>ml_owners := (ml_owners st)(o' \<mapsto> py_identity e)\<rparr>) of
             None \<Rightarrow> None
           | Some (acts, st) \<Rightarrow> map_option (\<lambda>(acts', st). (acts @ acts', st)) (add_players env owner es st)))"

fun drop_players :: "mpris_env \<Rightarrow> (string \<times> string) list \<Rightarrow> string list \<Rightarrow> mpris_state \<Rightarrow> mpris_action list \<times> mpris_state" where
  "drop_players env tracked [] st = ([], st)"
| "drop_players env tracked (b # bs) st =
     (case map_of tracked b of
        None \<Rightarrow> drop_players env tracked bs st
      | Some display \<Rightarrow>
          (case map_of (ml_players st) display of
             None \<Rightarrow> drop_players env tracked bs st
           | Some p \<Rightarrow>
               if tp_bus p \<noteq> b then drop_players env tracked bs st
               else (case removePlayer env display st of (acts, st) \<Rightarrow>
                 let st = st\<lparr>ml_owners := (\<lambda>o'. if ml_owners st o' = Some display \<and> map_of (ml_players st) display = None then None
                        else ml_owners st o')\<rparr>
                 in (case drop_players env tracked bs st of (acts', st) \<Rightarrow> (acts @ acts', st)))))"

definition reconcilePlayers ::
  "mpris_env \<Rightarrow> (string \<Rightarrow> string option) \<Rightarrow> player_entry list option \<Rightarrow> mpris_state \<Rightarrow> (mpris_action list \<times> mpris_state) option" where
  "reconcilePlayers env owner entries st =
     (if \<not> me_dbus env then Some ([], st)
      else case entries of
        None \<Rightarrow> Some ([], st)
      | Some es \<Rightarrow>
          let tracked = map (\<lambda>(display, p). (tp_bus p, display)) (ml_players st);
              (add, drop) = diffTracked es tracked
          in if add = [] \<and> drop = [] then refreshTrackedStates env st
             else Option.bind (add_players env owner add st) (\<lambda>(acts, st).
               case drop_players env tracked drop st of (acts', st) \<Rightarrow>
                 map_option (\<lambda>(acts'', st). (acts @ acts' @ acts'', st)) (refreshTrackedStates env st)))"

section \<open>Signals\<close>

datatype signal_kind = SignalNone | SignalNameOwnerChanged | SignalSeeked | SignalPropertiesChanged

definition classifySignal :: "string \<Rightarrow> signal_kind" where
  "classifySignal name =
     (if name = ''org.freedesktop.DBus.NameOwnerChanged'' then SignalNameOwnerChanged
      else if name = ''org.mpris.MediaPlayer2.Player.Seeked'' then SignalSeeked
      else if name = ''org.freedesktop.DBus.Properties.PropertiesChanged'' then SignalPropertiesChanged
      else SignalNone)"

definition handleNameOwnerChanged ::
  "mpris_env \<Rightarrow> (string \<Rightarrow> string option) \<Rightarrow> string \<Rightarrow> string \<Rightarrow> string \<Rightarrow> mpris_state \<Rightarrow> (mpris_action list \<times> mpris_state) option" where
  "handleNameOwnerChanged env identity name oldOwner newOwner st =
     (if \<not> foreign_player name then Some ([], st)
      else
        let (acts, st) =
              (if oldOwner = [] then ([], st)
               else case (case ml_owners st oldOwner of None \<Rightarrow> ([], st) | Some display \<Rightarrow> removePlayer env display st) of
                 (acts, st) \<Rightarrow> (acts, st\<lparr>ml_owners := (ml_owners st)(oldOwner := None)\<rparr>))
        in if newOwner = [] then Some (acts, st)
           else let e = resolveIdentity identity name
                in map_option (\<lambda>(acts', st). (acts @ acts', st))
                     (addPlayer env (py_bus e) newOwner (py_identity e) (py_short e)
                       (st\<lparr>ml_owners := (ml_owners st)(newOwner \<mapsto> py_identity e)\<rparr>)))"

definition handleSeeked :: "mpris_env \<Rightarrow> string \<Rightarrow> variant list \<Rightarrow> mpris_state \<Rightarrow> mpris_action list \<times> mpris_state" where
  "handleSeeked env sender body st =
     (case body of
        [] \<Rightarrow> ([], st)
      | v # vs \<Rightarrow>
          (case ml_owners st sender of
             None \<Rightarrow> ([], requestReconcile st)
           | Some display \<Rightarrow>
               (case v of
                  VInt64 pos \<Rightarrow> (to_connected env st (JObj [(''player'', JStr display), (''pos'', enc_int (div1000 pos))]), st)
                | _ \<Rightarrow> ([], st))))"

definition relevant_keys :: "string list" where
  "relevant_keys =
     [''Metadata'', ''PlaybackStatus'', ''Volume'', ''CanPlay'', ''CanPause'', ''CanGoNext'', ''CanGoPrevious'', ''CanSeek'',
      ''LoopStatus'', ''Shuffle'']"

text \<open>The position is asked for by a method \<open>Get\<close> of the interface of players; what it answers, in microseconds.\<close>

definition queryPositionAndCanSeek :: "mpris_env \<Rightarrow> int option \<Rightarrow> bool option \<Rightarrow> int \<times> bool" where
  "queryPositionAndCanSeek env position seekable =
     (if \<not> me_dbus env then (0, False)
      else (case position of None \<Rightarrow> 0 | Some i \<Rightarrow> div1000 i, case seekable of None \<Rightarrow> False | Some b \<Rightarrow> b))"

text \<open>The art of a new track is marked with the time, as text in \<open>stamp\<close>.\<close>

definition track_art :: "string \<Rightarrow> string \<Rightarrow> props \<Rightarrow> player_state \<Rightarrow> mpris_state \<Rightarrow> (player_state \<times> mpris_state) option" where
  "track_art stamp display changed s st =
     (case Option.bind (Option.bind (map_of changed ''Metadata'') as_map) (\<lambda>m. map_of m ''mpris:artUrl'') of
        None \<Rightarrow> Some (s, st)
      | Some v \<Rightarrow>
          map_option (\<lambda>raw.
            if ml_last_tracks st display = Some raw then (s, st)
            else (if has_prefix ''file://'' raw then s\<lparr>npl_album_art_url := raw @ ''?t='' @ stamp\<rparr> else s,
                  st\<lparr>ml_last_tracks := (ml_last_tracks st)(display \<mapsto> raw)\<rparr>)) (as_str v))"

definition handlePropertiesChanged ::
  "mpris_env \<Rightarrow> string \<Rightarrow> int option \<Rightarrow> bool option \<Rightarrow> string \<Rightarrow> variant list \<Rightarrow> mpris_state \<Rightarrow> (mpris_action list \<times> mpris_state) option" where
  "handlePropertiesChanged env stamp position seekable sender body st =
     (let display = (case ml_owners st sender of
            Some d \<Rightarrow> d | None \<Rightarrow> (case resolvePlayer env sender st of Some p \<Rightarrow> tp_display p | None \<Rightarrow> []))
      in if display = [] then Some ([], requestReconcile st)
         else case body of
           iface # v # vs \<Rightarrow>
             (case (as_str iface, as_map v) of
                (Some i, Some changed) \<Rightarrow>
                  if i \<noteq> ''org.mpris.MediaPlayer2.Player'' \<or> \<not> (\<exists>k \<in> set relevant_keys. map_of changed k \<noteq> None) then Some ([], st)
                  else (case resolvePlayer env display st of
                     None \<Rightarrow> Some ([], st)
                   | Some p \<Rightarrow>
                       Option.bind (fillChangedProps (me_conv env) changed
                           (case ml_last_states st display of None \<Rightarrow> new_player_state display | Some s \<Rightarrow> s)) (\<lambda>s.
                         map_option (\<lambda>(s, st).
                           case queryPositionAndCanSeek env position seekable of (pos, can_seek) \<Rightarrow>
                             store_and_broadcast env display (s\<lparr>npl_pos := pos, npl_can_seek := can_seek\<rparr>) st)
                         (track_art stamp display changed s st)))
              | _ \<Rightarrow> Some ([], st))
         | _ \<Rightarrow> Some ([], st))"

section \<open>Control by a phone\<close>

text \<open>\<open>float64(v) / 100\<close>.\<close>

definition percent :: "int \<Rightarrow> go_float" where
  "percent v = (case float_of_int v of Fin r \<Rightarrow> round_float (r / 100) | x \<Rightarrow> x)"

definition player_actions :: "string list" where
  "player_actions = [''Play'', ''Pause'', ''PlayPause'', ''Next'', ''Previous'', ''Stop'']"

definition set_property :: "string \<Rightarrow> string \<Rightarrow> variant \<Rightarrow> mpris_action" where
  "set_property bus name v =
     Calls bus ''org.freedesktop.DBus.Properties.Set'' [VStr ''org.mpris.MediaPlayer2.Player'', VStr name, v]"

definition action_calls :: "string \<Rightarrow> string \<Rightarrow> int option \<Rightarrow> int option \<Rightarrow> reading \<Rightarrow> int option \<Rightarrow> bool option \<Rightarrow> string \<Rightarrow> mpris_action list" where
  "action_calls bus action seek setPos track volume shuffle loop =
     (if action \<in> set player_actions then [Calls bus (''org.mpris.MediaPlayer2.Player.'' @ action) []] else [])
     @ (case seek of None \<Rightarrow> [] | Some i \<Rightarrow> [Calls bus ''org.mpris.MediaPlayer2.Player.Seek'' [VInt64 i]])
     @ (case (setPos, track) of
          (Some i, Playing_state s) \<Rightarrow>
            if npl_track_id s = [] then []
            else [Calls bus ''org.mpris.MediaPlayer2.Player.SetPosition'' [VPath (npl_track_id s), VInt64 (wrap64 (i * 1000))]]
        | _ \<Rightarrow> [])
     @ (case volume of None \<Rightarrow> [] | Some v \<Rightarrow> [set_property bus ''Volume'' (VDouble (percent v))])
     @ (case shuffle of None \<Rightarrow> [] | Some b \<Rightarrow> [set_property bus ''Shuffle'' (VBool b)])
     @ (if loop = [] then [] else [set_property bus ''LoopStatus'' (VStr loop)])"

text \<open>The player is read for the identity of the track, and again, in \<open>after\<close>, when everything is done.\<close>

definition handleAction ::
  "mpris_env \<Rightarrow> mpris_env \<Rightarrow> string \<Rightarrow> string \<Rightarrow> int option \<Rightarrow> int option \<Rightarrow> int option \<Rightarrow> bool option \<Rightarrow> string \<Rightarrow> mpris_state \<Rightarrow>
     mpris_action list option" where
  "handleAction env after player action seek setPos volume shuffle loop st =
     (case resolvePlayer env player st of
        None \<Rightarrow> Some []
      | Some p \<Rightarrow>
          if \<not> me_dbus env then Some []
          else let track = playerState env player st; final = playerState after player st
               in if (setPos \<noteq> None \<and> track = Panics) \<or> final = Panics then None
                  else Some (action_calls (tp_bus p) action seek setPos track volume shuffle loop
                    @ (case final of Playing_state s \<Rightarrow> mpris_broadcast after s st | _ \<Rightarrow> [])))"

section \<open>Calls\<close>

text \<open>Ringing pauses what is playing, once; the players are remembered, and resumed when the call is over.\<close>

fun pause_players :: "mpris_env \<Rightarrow> (string \<times> tracked_player) list \<Rightarrow> (mpris_action list \<times> string list) option" where
  "pause_players env [] = Some ([], [])"
| "pause_players env ((name, p) # ps) =
     (case playerStateDBus env (tp_bus p) name of
        Panics \<Rightarrow> None
      | Unreadable \<Rightarrow> pause_players env ps
      | Playing_state s \<Rightarrow>
          if \<not> npl_is_playing s then pause_players env ps
          else map_option (\<lambda>(acts, paused).
                 (Calls (tp_bus p) ''org.mpris.MediaPlayer2.Player.Pause'' [] # acts,
                  (if me_call env (tp_bus p) ''org.mpris.MediaPlayer2.Player.Pause'' then [name] else []) @ paused))
               (pause_players env ps))"

definition pauseAllPlayers :: "mpris_env \<Rightarrow> mpris_state \<Rightarrow> (mpris_action list \<times> mpris_state) option" where
  "pauseAllPlayers env st =
     (if ml_call_paused st \<noteq> [] then Some ([], st)
      else map_option (\<lambda>(acts, paused). (acts, st\<lparr>ml_call_paused := paused\<rparr>)) (pause_players env (ml_players st)))"

definition resumePausedPlayers :: "mpris_state \<Rightarrow> mpris_action list \<times> mpris_state" where
  "resumePausedPlayers st =
     (concat (map (\<lambda>name. case map_of (ml_players st) name of
         None \<Rightarrow> [] | Some p \<Rightarrow> [Calls (tp_bus p) ''org.mpris.MediaPlayer2.Player.Play'' []]) (ml_call_paused st)),
      st\<lparr>ml_call_paused := []\<rparr>)"

definition handleTelephonyEvent :: "mpris_env \<Rightarrow> event_type \<Rightarrow> mpris_state \<Rightarrow> (mpris_action list \<times> mpris_state) option" where
  "handleTelephonyEvent env typ st =
     (if typ = ''telephony.ringing'' \<or> typ = ''telephony.talking'' then pauseAllPlayers env st
      else if typ = ''telephony.canceled'' then Some (resumePausedPlayers st) else Some ([], st))"

section \<open>Players of a phone\<close>

definition resolveArtURL :: "mpris_env \<Rightarrow> string \<Rightarrow> art_cache \<Rightarrow> string \<times> art_cache" where
  "resolveArtURL env raw c =
     (if raw = [] then (raw, c)
      else case art_Resolve (me_art_hash env) (me_glob env) raw c of (p, c) \<Rightarrow> (if p = [] then raw else p, c))"

definition markArtPending :: "now_playing \<Rightarrow> now_playing" where
  "markArtPending np =
     (if has_prefix ''kdeconnect:'' (npl_album_art_url np) then np\<lparr>npl_album_art_url := [], npl_art_pending := True\<rparr> else np)"

text \<open>A cached state as it is served: art that can be loaded or is pending, and the position moved on while it plays.\<close>

definition served_state :: "mpris_env \<Rightarrow> string \<Rightarrow> now_playing \<Rightarrow> mpris_state \<Rightarrow> now_playing \<times> mpris_state" where
  "served_state env dev np st =
     (case resolveArtURL env (npl_album_art_url np) (ml_cache st) of (url, c) \<Rightarrow>
        let np = markArtPending (np\<lparr>npl_album_art_url := url\<rparr>)
        in (case ml_trackers st dev of
              Some t \<Rightarrow> if rt_playing t
                then np\<lparr>npl_pos := wrap64 (rt_position t + (me_now env - rt_at t) div millisecond)\<rparr> else np
            | None \<Rightarrow> np,
            st\<lparr>ml_cache := c\<rparr>))"

definition RemoteState :: "mpris_env \<Rightarrow> string \<Rightarrow> mpris_state \<Rightarrow> now_playing option \<times> mpris_state" where
  "RemoteState env dev st =
     (case map_of (ml_remote st) dev of
        None \<Rightarrow> (None, st)
      | Some np \<Rightarrow> (case served_state env dev np st of (np, st) \<Rightarrow> (Some np, st)))"

definition RemoteStateAge :: "mpris_env \<Rightarrow> string \<Rightarrow> mpris_state \<Rightarrow> duration" where
  "RemoteStateAge env dev st =
     (case ml_remote_times st dev of None \<Rightarrow> 365 * 24 * 60 * minute | Some t \<Rightarrow> me_now env - t)"

fun served_states :: "mpris_env \<Rightarrow> (string \<times> now_playing) list \<Rightarrow> mpris_state \<Rightarrow> (string \<times> now_playing) list \<times> mpris_state" where
  "served_states env [] st = ([], st)"
| "served_states env ((dev, np) # rest) st =
     (case served_state env dev np st of (np, st) \<Rightarrow>
        (case served_states env rest st of (nps, st) \<Rightarrow> ((dev, np) # nps, st)))"

definition RemoteStates :: "mpris_env \<Rightarrow> mpris_state \<Rightarrow> (string \<times> now_playing) list \<times> mpris_state" where
  "RemoteStates env st = served_states env (ml_remote st) st"

definition ActivePlayers :: "mpris_state \<Rightarrow> string list" where
  "ActivePlayers st = remdups (filter (\<lambda>n. n \<noteq> []) (map (npl_player \<circ> snd) (ml_remote st)))"

definition MediaSummary :: "mpris_env \<Rightarrow> string \<Rightarrow> mpris_state \<Rightarrow> (now_playing \<times> duration) option \<times> mpris_state" where
  "MediaSummary env dev st =
     (case RemoteState env dev st of (np, st) \<Rightarrow> (map_option (\<lambda>np. (np, RemoteStateAge env dev st)) np, st))"

definition mpris_Replay :: "mpris_env \<Rightarrow> string \<Rightarrow> mpris_state \<Rightarrow> (event_type \<times> string \<times> now_playing) list \<times> mpris_state" where
  "mpris_Replay env dev st =
     (if RemoteStateAge env dev st \<ge> 10 * second then ([], st)
      else case RemoteState env dev st of (np, st) \<Rightarrow>
        (case np of None \<Rightarrow> [] | Some np \<Rightarrow> [(''mpris.update'', dev, np)], st))"

definition ask :: "string \<Rightarrow> mpris_request \<Rightarrow> mpris_action" where
  "ask dev b = ToPhone dev ''kdeconnect.mpris.request'' (enc_mpris_request b)"

definition requestPlayerList :: "string \<Rightarrow> mpris_action" where
  "requestPlayerList dev = ask dev (zero_mpris_request\<lparr>mq_request_player_list := True\<rparr>)"

definition requestPlayerStatus :: "string \<Rightarrow> string \<Rightarrow> mpris_action" where
  "requestPlayerStatus dev player =
     ask dev (zero_mpris_request\<lparr>mq_player := player, mq_request_now_playing := True, mq_request_volume := True\<rparr>)"

definition RequestState :: "string \<Rightarrow> string \<Rightarrow> mpris_action" where
  "RequestState dev player = (if player = [] then requestPlayerList dev else requestPlayerStatus dev player)"

text \<open>Three requests after a connection, as long as the device is connected before each.\<close>

definition requestPlayerListPeriodic :: "string \<Rightarrow> bool list \<Rightarrow> mpris_action list" where
  "requestPlayerListPeriodic dev alive = map (\<lambda>_. requestPlayerList dev) (takeWhile id (take 3 alive))"

text \<open>A relative seek is turned into a position, or refused without one.\<close>

definition seek_target :: "now_playing \<Rightarrow> int \<Rightarrow> int" where
  "seek_target np seek =
     (let pos = max (wrap64 (npl_pos np + seek)) 0 in if npl_length np > 0 then min pos (npl_length np) else pos)"

definition SendAction ::
  "mpris_env \<Rightarrow> string \<Rightarrow> string \<Rightarrow> string \<Rightarrow> int option \<Rightarrow> int option \<Rightarrow> int option \<Rightarrow> mpris_state \<Rightarrow>
     mpris_request option \<times> mpris_state" where
  "SendAction env dev player action seek setPosition volume st =
     (let body = zero_mpris_request\<lparr>mq_player := player, mq_action := CanonicalAction action, mq_set_volume := volume\<rparr>
      in case (setPosition, seek) of
           (None, Some s) \<Rightarrow>
             (case RemoteState env dev st of
                (None, st) \<Rightarrow> (None, st)
              | (Some np, st) \<Rightarrow> (Some (body\<lparr>mq_set_position := Some (seek_target np s)\<rparr>), st))
         | _ \<Rightarrow> (Some (body\<lparr>mq_set_position := setPosition\<rparr>), st))"

definition syncRemotePoller :: "bool \<Rightarrow> mpris_state \<Rightarrow> mpris_state" where
  "syncRemotePoller watched st = st\<lparr>ml_remote_poll := watched\<rparr>"

definition pollRemoteStates :: "bool \<Rightarrow> mpris_env \<Rightarrow> mpris_state \<Rightarrow> mpris_action list" where
  "pollRemoteStates watched env st =
     (if \<not> watched then []
      else concat (map (\<lambda>dev. case map_of (ml_remote st) dev of
          None \<Rightarrow> []
        | Some np \<Rightarrow> if npl_player np = [] \<or> \<not> npl_is_playing np then [] else [requestPlayerStatus dev (npl_player np)])
        (filter (me_connected env) (ml_devices st))))"

section \<open>Transfers of album art\<close>

text \<open>\<open>file\<close> is what \<open>Lstat\<close> finds: whether it is a regular file, and its size.\<close>

datatype art_refusal = NotAFileURL | UnknownPlayer | NotAdvertised | ArtMissing | ArtNotRegular | ArtTooLarge

definition authorizeOutboundArt ::
  "mpris_env \<Rightarrow> (string \<Rightarrow> (bool \<times> int) option) \<Rightarrow> string list \<Rightarrow> string \<Rightarrow> string \<Rightarrow> mpris_state \<Rightarrow> art_refusal + string" where
  "authorizeOutboundArt env file order player url st =
     (case cleanArtURL url of
        None \<Rightarrow> Inl NotAFileURL
      | Some req \<Rightarrow>
          (case (if player = [] then Some order else map_option (\<lambda>p. [tp_display p]) (resolvePlayer env player st)) of
             None \<Rightarrow> Inl UnknownPlayer
           | Some names \<Rightarrow>
               (case find (\<lambda>n. case ml_last_states st n of None \<Rightarrow> False
                     | Some s \<Rightarrow> npl_album_art_url s \<noteq> [] \<and> cleanArtURL (npl_album_art_url s) = Some req) names of
                  None \<Rightarrow> Inl NotAdvertised
                | Some n \<Rightarrow>
                    (case file req of
                       None \<Rightarrow> Inl ArtMissing
                     | Some (regular, nbytes) \<Rightarrow>
                         if \<not> regular then Inl ArtNotRegular
                         else if nbytes > maxAlbumArtBytes then Inl ArtTooLarge else Inr req))))"

text \<open>A request key is let through again only after the gap.\<close>

definition art_throttle :: "duration \<Rightarrow> string \<Rightarrow> int \<Rightarrow> mpris_state \<Rightarrow> bool \<times> mpris_state" where
  "art_throttle gap key now st =
     (case ml_art_requests st key of
        Some t \<Rightarrow> if now - t < gap then (False, st) else (True, st\<lparr>ml_art_requests := (ml_art_requests st)(key \<mapsto> now)\<rparr>)
      | None \<Rightarrow> (True, st\<lparr>ml_art_requests := (ml_art_requests st)(key \<mapsto> now)\<rparr>))"

text \<open>The file is offered on a side channel; \<open>openable\<close> is its size when it can be opened, \<open>port\<close> the port that could be had.\<close>

definition sendAlbumArt ::
  "mpris_env \<Rightarrow> (string \<Rightarrow> (bool \<times> int) option) \<Rightarrow> string list \<Rightarrow> int option \<Rightarrow> int option \<Rightarrow> string \<Rightarrow> string \<Rightarrow> string \<Rightarrow> mpris_state \<Rightarrow>
     (string \<times> int \<times> int \<times> json) option \<times> mpris_state" where
  "sendAlbumArt env file order openable port dev player url st =
     (case authorizeOutboundArt env file order player url st of
        Inl _ \<Rightarrow> (None, st)
      | Inr path \<Rightarrow>
          (case art_throttle (5 * second) (dev @ ''|'' @ url) (me_now env) st of (ok, st) \<Rightarrow>
             if \<not> ok then (None, st)
             else (case (openable, port) of
                 (Some nbytes, Some prt) \<Rightarrow>
                   (Some (path, nbytes, prt, JObj [(''transferringAlbumArt'', JBool True), (''player'', JStr player), (''albumArtUrl'', JStr url)]), st)
               | _ \<Rightarrow> (None, st))))"

definition requestAlbumArt :: "mpris_env \<Rightarrow> string \<Rightarrow> string \<Rightarrow> string \<Rightarrow> mpris_state \<Rightarrow> mpris_action list \<times> mpris_state" where
  "requestAlbumArt env dev player url st =
     (if player = [] \<or> url = [] then ([], st)
      else case art_throttle (10 * second) (''req|'' @ dev @ ''|'' @ url) (me_now env) st of (ok, st) \<Rightarrow>
        (if ok then [ask dev (zero_mpris_request\<lparr>mq_player := player, mq_album_art_url := url\<rparr>)] else [], st))"

definition stampAlbumArt :: "mpris_env \<Rightarrow> string \<Rightarrow> string \<Rightarrow> string \<Rightarrow> string \<Rightarrow> mpris_state \<Rightarrow> mpris_action list" where
  "stampAlbumArt env dev player url file_url st =
     (case map_of (ml_remote st) dev of
        None \<Rightarrow> []
      | Some np \<Rightarrow>
          if npl_album_art_url np \<noteq> url \<or> npl_player np \<noteq> player then []
          else if me_has_bus env then [Announces dev (np\<lparr>npl_album_art_url := file_url\<rparr>)] else [])"

text \<open>\<open>received\<close> says whether the bytes arrived in the temporary file, \<open>img\<close> what the image library finds in them.\<close>

definition receiveAlbumArt ::
  "mpris_env \<Rightarrow> bool \<Rightarrow> image_answers \<Rightarrow> string \<Rightarrow> string \<Rightarrow> string \<Rightarrow> int \<Rightarrow> mpris_state \<Rightarrow> files \<Rightarrow>
     mpris_action list \<times> mpris_state \<times> files" where
  "receiveAlbumArt env received img dev player url nbytes st fs =
     (if nbytes \<le> 0 \<or> nbytes > maxAlbumArtBytes \<or> \<not> received then ([], st, fs)
      else case art_Commit (me_art_hash env) img url (ml_cache st) fs of
        (None, c, fs) \<Rightarrow> ([], st\<lparr>ml_cache := c\<rparr>, fs)
      | (Some file_url, c, fs) \<Rightarrow> (stampAlbumArt env dev player url file_url st, st\<lparr>ml_cache := c\<rparr>, fs))"

section \<open>Packets\<close>

definition remote_playing :: "mpris_env \<Rightarrow> mpris_request \<Rightarrow> now_playing" where
  "remote_playing env b =
     zero_now_playing\<lparr>npl_player := mq_player b, npl_title := mq_title b, npl_artist := mq_artist b, npl_album := mq_album b,
       npl_album_art_url := mq_album_art_url b, npl_url := mq_url b, npl_length := mq_length b, npl_pos := mq_pos b,
       npl_is_playing := mq_is_playing b, npl_volume := mq_volume b, npl_can_control := mq_can_control b,
       npl_can_go_next := mq_can_go_next b, npl_can_go_previous := mq_can_go_previous b, npl_can_pause := mq_can_pause b,
       npl_can_play := mq_can_play b, npl_can_seek := mq_can_seek b, npl_playback_status := mq_playback_status b,
       npl_shuffle := mq_shuffle b, npl_loop_status := mq_loop_status b, npl_pos_anchor_ms := now_ms env\<rparr>"

definition forget_remote :: "string \<Rightarrow> mpris_state \<Rightarrow> mpris_state" where
  "forget_remote dev st =
     st\<lparr>ml_remote := AList.delete dev (ml_remote st), ml_remote_times := (ml_remote_times st)(dev := None),
        ml_trackers := (ml_trackers st)(dev := None)\<rparr>"

definition remote_list :: "mpris_env \<Rightarrow> string \<Rightarrow> string list \<Rightarrow> mpris_state \<Rightarrow> mpris_action list \<times> mpris_state" where
  "remote_list env dev players st =
     (let pruned = (case map_of (ml_remote st) dev of None \<Rightarrow> False | Some np \<Rightarrow> npl_player np \<notin> set players)
      in ((if pruned \<and> me_has_bus env then [Announces dev zero_now_playing] else [])
            @ map (\<lambda>p. Starts (AsksPlayer dev p)) players,
          if pruned then forget_remote dev st else st))"

text \<open>What is published of a new state: art that is in the cache, or none and pending.\<close>

definition published_state :: "mpris_env \<Rightarrow> now_playing \<Rightarrow> art_cache \<Rightarrow> now_playing \<times> art_cache" where
  "published_state env np c =
     (case art_Resolve (me_art_hash env) (me_glob env) (npl_album_art_url np) c of (p, c) \<Rightarrow>
        (if p \<noteq> [] then np\<lparr>npl_album_art_url := p\<rparr>
         else if has_prefix ''kdeconnect:'' (npl_album_art_url np) then np\<lparr>npl_album_art_url := [], npl_art_pending := True\<rparr>
         else np, c))"

definition remote_update :: "mpris_env \<Rightarrow> string \<Rightarrow> mpris_request \<Rightarrow> mpris_state \<Rightarrow> mpris_action list \<times> mpris_state" where
  "remote_update env dev b st =
     (let np = remote_playing env b;
          publishes = shouldPublishRemoteState (map_of (ml_remote st) dev) np;
          st = st\<lparr>ml_trackers := (ml_trackers st)(dev \<mapsto> \<lparr>rt_position = mq_pos b, rt_at = me_now env, rt_playing = mq_is_playing b\<rparr>),
                  ml_remote := AList.update dev np (ml_remote st), ml_remote_times := (ml_remote_times st)(dev \<mapsto> me_now env)\<rparr>;
          (missing, c) = (case art_Resolve (me_art_hash env) (me_glob env) (npl_album_art_url np) (ml_cache st) of
              (p, c) \<Rightarrow> (p = [], c));
          asks = (if missing then [Starts (RequestsArt dev (npl_player np) (npl_album_art_url np))] else [])
      in if publishes \<and> me_has_bus env
         then (case published_state env np c of (pub, c) \<Rightarrow> (asks @ [Announces dev pub], st\<lparr>ml_cache := c\<rparr>))
         else (asks, st\<lparr>ml_cache := c\<rparr>))"

definition wants_control :: "mpris_request \<Rightarrow> bool" where
  "wants_control b \<longleftrightarrow> mq_action b \<noteq> [] \<or> mq_seek b \<noteq> None \<or> mq_set_position b \<noteq> None \<or> mq_set_volume b \<noteq> None \<or>
     mq_set_shuffle b \<noteq> None \<or> mq_set_loop_status b \<noteq> []"

definition tells_state :: "mpris_request \<Rightarrow> bool" where
  "tells_state b \<longleftrightarrow> mq_title b \<noteq> [] \<or> mq_artist b \<noteq> [] \<or> mq_album b \<noteq> [] \<or> mq_is_playing b \<or> mq_playback_status b \<noteq> []"

definition mpris_Handle :: "mpris_env \<Rightarrow> string \<Rightarrow> packet \<Rightarrow> mpris_state \<Rightarrow> bool \<times> mpris_action list \<times> mpris_state" where
  "mpris_Handle env dev pkt st =
     (let st = st\<lparr>ml_devices := List.insert dev (ml_devices st)\<rparr>;
          request = (pk_type pkt = ''kdeconnect.mpris.request''); update = (pk_type pkt = ''kdeconnect.mpris'')
      in case unmarshal_raw (\<lambda>j. dec_mpris_request j zero_mpris_request) (pk_body pkt) of
           None \<Rightarrow> (False, [], st)
         | Some b \<Rightarrow>
             if \<not> request \<and> \<not> update then (True, [], st)
             else if request \<and> has_prefix ''file://'' (mq_album_art_url b)
             then (True, [Starts (SendsArt dev (mq_player b) (mq_album_art_url b))], st)
             else if update \<and> mq_transferring_album_art b \<and> pk_payload_size pkt > 0 \<and> pk_transfer pkt \<noteq> None
             then (True, [Starts (ReceivesArt dev (mq_player b) (mq_album_art_url b) (pk_payload_size pkt) (the (pk_transfer pkt)))], st)
             else if request \<and> mq_request_player_list b then (True, sendPlayerList dev st, requestReconcile st)
             else if update \<and> mq_player_list b \<noteq> None
             then (case remote_list env dev (the (mq_player_list b)) st of (acts, st) \<Rightarrow> (True, acts, st))
             else if mq_player b = [] then (True, [], st)
             else if mq_request_now_playing b \<or> mq_request_volume b then (True, [Starts (BroadcastsPlayers [mq_player b])], st)
             else if request \<and> wants_control b
             then (True, [Starts (ControlsPlayer (mq_player b) (mq_action b) (mq_seek b) (mq_set_position b) (mq_set_volume b)
                           (mq_set_shuffle b) (mq_set_loop_status b))], st)
             else if update \<and> tells_state b then (case remote_update env dev b st of (acts, st) \<Rightarrow> (True, acts, st))
             else (True, [], st))"

definition mpris_OnConnect :: "mpris_state \<Rightarrow> mpris_state" where
  "mpris_OnConnect st = requestReconcile st"

definition mpris_OnDisconnect :: "string \<Rightarrow> mpris_state \<Rightarrow> mpris_state" where
  "mpris_OnDisconnect dev st = forget_remote dev (st\<lparr>ml_devices := filter (\<lambda>d. d \<noteq> dev) (ml_devices st)\<rparr>)"

section \<open>Status\<close>

record debug_player_info =
  dbp_display_name :: string
  dbp_bus_name :: string
  dbp_short_name :: string
  dbp_title :: string
  dbp_artist :: string
  dbp_album :: string
  dbp_playback_status :: string
  dbp_is_playing :: bool
  dbp_volume :: int
  dbp_pos :: int
  dbp_pos_anchor_ms :: int
  dbp_length :: int
  dbp_album_art_url :: string
  dbp_can_seek :: bool
  dbp_can_go_next :: bool
  dbp_can_go_previous :: bool
  dbp_can_play :: bool
  dbp_can_pause :: bool
  dbp_error :: string

definition zero_debug_player_info :: debug_player_info where
  "zero_debug_player_info = \<lparr>dbp_display_name = [], dbp_bus_name = [], dbp_short_name = [], dbp_title = [],
     dbp_artist = [], dbp_album = [], dbp_playback_status = [], dbp_is_playing = False, dbp_volume = 0, dbp_pos = 0,
     dbp_pos_anchor_ms = 0, dbp_length = 0, dbp_album_art_url = [], dbp_can_seek = False, dbp_can_go_next = False,
     dbp_can_go_previous = False, dbp_can_play = False, dbp_can_pause = False, dbp_error = []\<rparr>"

definition enc_debug_player_info :: "debug_player_info \<Rightarrow> json" where
  "enc_debug_player_info x =
     JObj ([(''displayName'', JStr (dbp_display_name x))]
           @ [(''busName'', JStr (dbp_bus_name x))]
           @ [(''shortName'', JStr (dbp_short_name x))]
           @ [(''title'', JStr (dbp_title x))]
           @ [(''artist'', JStr (dbp_artist x))]
           @ [(''album'', JStr (dbp_album x))]
           @ [(''playbackStatus'', JStr (dbp_playback_status x))]
           @ [(''isPlaying'', JBool (dbp_is_playing x))]
           @ omit (dbp_volume x = 0) ''volume'' (enc_int (dbp_volume x))
           @ [(''pos'', enc_int (dbp_pos x))]
           @ omit (dbp_pos_anchor_ms x = 0) ''posAnchorMs'' (enc_int (dbp_pos_anchor_ms x))
           @ [(''length'', enc_int (dbp_length x))]
           @ [(''albumArtUrl'', JStr (dbp_album_art_url x))]
           @ [(''canSeek'', JBool (dbp_can_seek x))]
           @ [(''canGoNext'', JBool (dbp_can_go_next x))]
           @ [(''canGoPrevious'', JBool (dbp_can_go_previous x))]
           @ [(''canPlay'', JBool (dbp_can_play x))]
           @ [(''canPause'', JBool (dbp_can_pause x))]
           @ omit (dbp_error x = []) ''error'' (JStr (dbp_error x)))"


record debug_status =
  dbs_watcher_running :: bool
  dbs_device_count :: int
  dbs_players :: "debug_player_info list option"
  dbs_player_mappings :: "(string \<times> string) list"

definition zero_debug_status :: debug_status where
  "zero_debug_status = \<lparr>dbs_watcher_running = False, dbs_device_count = 0, dbs_players = None,
     dbs_player_mappings = []\<rparr>"

definition enc_debug_status :: "debug_status \<Rightarrow> json" where
  "enc_debug_status x =
     JObj ([(''watcherRunning'', JBool (dbs_watcher_running x))]
           @ [(''deviceCount'', enc_int (dbs_device_count x))]
           @ [(''players'', (enc_nlist enc_debug_player_info) (dbs_players x))]
           @ [(''playerMappings'', enc_str_map (dbs_player_mappings x))])"


definition debug_info :: "mpris_env \<Rightarrow> string \<Rightarrow> tracked_player \<Rightarrow> mpris_state \<Rightarrow> debug_player_info option" where
  "debug_info env error_text p st =
     (let i = zero_debug_player_info\<lparr>dbp_display_name := tp_display p, dbp_bus_name := tp_bus p, dbp_short_name := tp_short p\<rparr>
      in case playerState env (tp_display p) st of
           Panics \<Rightarrow> None
         | Unreadable \<Rightarrow> Some (i\<lparr>dbp_error := error_text\<rparr>)
         | Playing_state s \<Rightarrow>
             Some (i\<lparr>dbp_title := npl_title s, dbp_artist := npl_artist s, dbp_album := npl_album s,
               dbp_playback_status := npl_playback_status s, dbp_is_playing := npl_is_playing s, dbp_volume := npl_volume s,
               dbp_pos := npl_pos s, dbp_length := npl_length s, dbp_album_art_url := npl_album_art_url s,
               dbp_can_seek := npl_can_seek s, dbp_can_go_next := npl_can_go_next s, dbp_can_go_previous := npl_can_go_previous s,
               dbp_can_play := npl_can_play s, dbp_can_pause := npl_can_pause s,
               dbp_pos_anchor_ms := (case ml_last_states st (tp_display p) of None \<Rightarrow> 0 | Some c \<Rightarrow> npl_pos_anchor_ms c)\<rparr>))"

definition DebugStatus :: "mpris_env \<Rightarrow> bool \<Rightarrow> string \<Rightarrow> mpris_state \<Rightarrow> debug_status option" where
  "DebugStatus env watching error_text st =
     (let infos = map (\<lambda>(n, p). debug_info env error_text p st) (ml_players st)
      in if None \<in> set infos then None
         else Some \<lparr>dbs_watcher_running = watching, dbs_device_count = int (length (ml_devices st)),
                dbs_players = (if infos = [] then None else Some (map the infos)),
                dbs_player_mappings = map (\<lambda>(n, p). (tp_display p, tp_bus p)) (ml_players st)\<rparr>)"

end
