(* ===== verification/MprisProps.thy ===== *)
theory MprisProps
  imports Mpris
begin

text \<open>
  What the MPRIS plugin guarantees: the position poller over all interleavings, what a phone can read and control, what is
  announced to clients, and where the code falls short.
\<close>

section \<open>The position poller\<close>

text \<open>
  The handle is set exactly while a poller runs that is not cancelled, it is the one of the latest generation, and there is
  at most one.
\<close>

definition poller_ok :: "mpris_state \<Rightarrow> bool" where
  "poller_ok st \<longleftrightarrow>
     (ml_poll st \<longrightarrow> (ml_poll_gen st, False) \<in> set (ml_pollers st)) \<and>
     (\<forall>(g, c) \<in> set (ml_pollers st). g \<le> ml_poll_gen st \<and> (\<not> c \<longrightarrow> ml_poll st \<and> g = ml_poll_gen st)) \<and>
     distinct (map fst (ml_pollers st))"

definition same_poller :: "mpris_state \<Rightarrow> mpris_state \<Rightarrow> bool" where
  "same_poller st st' \<longleftrightarrow> ml_poll st' = ml_poll st \<and> ml_poll_gen st' = ml_poll_gen st \<and> ml_pollers st' = ml_pollers st"

lemma poller_ok_same: "same_poller st st' \<Longrightarrow> poller_ok st \<Longrightarrow> poller_ok st'"
  by (simp add: same_poller_def poller_ok_def)

lemma poller_ok_arm: "poller_ok st \<Longrightarrow> poller_ok (armPlayingPollerLocked st)"
  by (fastforce simp: poller_ok_def armPlayingPollerLocked_def)

lemma poller_ok_stop:
  assumes "poller_ok st" shows "poller_ok (stopPlayingPollerLocked st)"
proof (cases "ml_poll st")
  case True
  let ?f = "\<lambda>(g, c). (g, c \<or> g = ml_poll_gen st)"
  have m: "map fst (map ?f (ml_pollers st)) = map fst (ml_pollers st)" by (simp add: split_def)
  have e: "\<forall>(g, c) \<in> set (map ?f (ml_pollers st)). g \<le> ml_poll_gen st \<and> c"
    using assms by (auto simp: poller_ok_def)
  show ?thesis unfolding poller_ok_def
  proof (intro conjI)
    show "distinct (map fst (ml_pollers (stopPlayingPollerLocked st)))"
      using assms True by (simp add: poller_ok_def stopPlayingPollerLocked_def m del: map_map)
  qed (use e True in \<open>auto simp: stopPlayingPollerLocked_def\<close>)
qed (use assms in \<open>simp add: stopPlayingPollerLocked_def\<close>)

lemma poller_ok_sync: "poller_ok st \<Longrightarrow> poller_ok (syncPlayingPollerLocked cfg st)"
  by (simp add: syncPlayingPollerLocked_def poller_ok_arm poller_ok_stop)

lemma poller_ok_finish:
  assumes "poller_ok st" shows "poller_ok (finishPlayingPoller gen st)"
proof -
  have "distinct (map fst (filter (\<lambda>(g, c). g \<noteq> gen) (ml_pollers st)))"
    using assms by (auto simp: poller_ok_def intro: distinct_map_filter)
  then show ?thesis using assms by (fastforce simp: poller_ok_def finishPlayingPoller_def)
qed

lemma poller_ok_store: "poller_ok st \<Longrightarrow> poller_ok (storeLocalState env name s st)"
  unfolding storeLocalState_def by (rule poller_ok_sync) (simp add: poller_ok_def)

lemma poller_ok_store_broadcast: "store_and_broadcast env n s st = (acts, st') \<Longrightarrow> poller_ok st \<Longrightarrow> poller_ok st'"
  by (auto simp: store_and_broadcast_def intro: poller_ok_store)

lemma poller_ok_remove: "poller_ok st \<Longrightarrow> poller_ok (snd (removePlayer env display st))"
  unfolding removePlayer_def Let_def snd_conv by (rule poller_ok_sync) (simp add: poller_ok_def)

lemma poller_ok_add:
  assumes "addPlayer env bus unique display short st = Some (acts, st')" and "poller_ok st"
  shows "poller_ok st'"
proof -
  let ?st = "st\<lparr>ml_players := AList.update display
      \<lparr>tp_bus = bus, tp_unique = unique, tp_display = display, tp_short = short\<rparr> (ml_players st)\<rparr>"
  have "poller_ok ?st" using assms(2) by (simp add: poller_ok_def)
  then show ?thesis using assms(1)
    by (auto simp: addPlayer_def Let_def store_and_broadcast_def split: reading.splits intro: poller_ok_store)
qed

lemma poller_ok_poll:
  "poll_players env ns st = Some (p, c, acts, st') \<Longrightarrow> poller_ok st \<Longrightarrow> poller_ok st'"
proof (induction env ns st arbitrary: p c acts st' rule: poll_players.induct)
  case (2 env n ns st)
  show ?case
  proof (cases "playerState env n st")
    case Unreadable
    then show ?thesis using "2.IH"(1) "2.prems" by auto
  next
    case (Playing_state s)
    obtain acts1 st1 where s: "(if localStateChanged (now_ms env) s (ml_last_states st n)
        then store_and_broadcast env n s st else ([], st)) = (acts1, st1)" by force
    then have ok: "poller_ok st1" using "2.prems"(2) by (auto intro: poller_ok_store_broadcast split: if_splits)
    show ?thesis using "2.IH"(2) [OF Playing_state s [symmetric] _ ok] "2.prems"(1) Playing_state s by auto
  qed (use "2.prems" in simp)
qed simp

text \<open>Everything that reaches the poller: players that come, go and change, a pass of a poller, and its return.\<close>

inductive mpris_step :: "mpris_state \<Rightarrow> mpris_state \<Rightarrow> bool" where
  Added: "addPlayer env bus unique display short st = Some (acts, st') \<Longrightarrow> mpris_step st st'"
| Removed: "mpris_step st (snd (removePlayer env display st))"
| Stored: "mpris_step st (storeLocalState env name s st)"
| Polled: "poll_players env ns st = Some (p, c, acts, st') \<Longrightarrow> mpris_step st st'"
| Returned: "mpris_step st (finishPlayingPoller gen st)"
| Handled: "mpris_step st (snd (snd (mpris_Handle env dev pkt st)))"
| Left: "mpris_step st (mpris_OnDisconnect dev st)"
| Elsewhere: "same_poller st st' \<Longrightarrow> mpris_step st st'"

lemma Handle_same: "same_poller st (snd (snd (mpris_Handle env dev pkt st)))"
proof -
  have frame: "same_poller st (st\<lparr>ml_devices := ds\<rparr>)" "same_poller st (requestReconcile (st\<lparr>ml_devices := ds\<rparr>))"
      "same_poller st (snd (remote_list env dev ps (st\<lparr>ml_devices := ds\<rparr>)))"
      "same_poller st (snd (remote_update env dev b (st\<lparr>ml_devices := ds\<rparr>)))" for ds ps b
    by (simp_all add: same_poller_def requestReconcile_def remote_list_def forget_remote_def remote_update_def Let_def split_def)
  show ?thesis unfolding mpris_Handle_def Let_def by (simp add: split_def frame split: option.split)
qed

lemma poller_ok_step: "mpris_step st st' \<Longrightarrow> poller_ok st \<Longrightarrow> poller_ok st'"
proof (induction rule: mpris_step.induct)
  case (Left st dev)
  then show ?case by (simp add: mpris_OnDisconnect_def forget_remote_def poller_ok_def)
qed (auto intro: poller_ok_add poller_ok_remove poller_ok_store poller_ok_poll poller_ok_finish poller_ok_same Handle_same)

interpretation poller_inv: invariant_system mpris_step poller_ok
  by unfold_locales (rule poller_ok_step)

text \<open>One player on a desktop whose position is polled.\<close>

definition one_player_env :: mpris_env where
  "one_player_env = \<lparr>me_cfg = \<lparr>mr_poll_while_playing = True, mr_position_interval = ''2s''\<rparr>, me_pause_music = False, me_dbus = True,
     me_has_bus = True, me_now = 0, me_connected = (\<lambda>_. True), me_read = (\<lambda>_. Some [(''PlaybackStatus'', VStr ''Playing'')]),
     me_call = (\<lambda>_ _. True), me_fold_eq = (=), me_conv = (\<lambda>_. 0), me_art_hash = (\<lambda>_. None), me_glob = (\<lambda>_. None)\<rparr>"

definition one_player_state :: mpris_state where
  "one_player_state = snd (the (addPlayer one_player_env ''b'' '':1'' ''VLC'' ''vlc'' (NewMPRISPlugin \<lparr>ac_dir = ''/c'', ac_resolved = Map.empty\<rparr>)))"

lemma one_player_added:
  "\<exists>acts. addPlayer one_player_env ''b'' '':1'' ''VLC'' ''vlc'' (NewMPRISPlugin \<lparr>ac_dir = ''/c'', ac_resolved = Map.empty\<rparr>)
     = Some (acts, one_player_state)"
proof -
  let ?x = "addPlayer one_player_env ''b'' '':1'' ''VLC'' ''vlc'' (NewMPRISPlugin \<lparr>ac_dir = ''/c'', ac_resolved = Map.empty\<rparr>)"
  have "?x \<noteq> None" by code_simp
  then show ?thesis unfolding one_player_state_def by (metis option.collapse prod.collapse)
qed

text \<open>
  However players come, go and change while pollers run and return: there is never more than one position poller that is not
  cancelled, and the plugin holds its handle exactly as long.
\<close>
theorem one_live_poller:
  assumes "mpris_step\<^sup>*\<^sup>* (NewMPRISPlugin cache) st"
  shows "filter (\<lambda>(g, c). \<not> c) (ml_pollers st) = (if ml_poll st then [(ml_poll_gen st, False)] else [])"
proof -
  have "poller_ok (NewMPRISPlugin cache)" by (simp add: poller_ok_def NewMPRISPlugin_def)
  then have ok: "poller_ok st" using assms by (rule poller_inv.run_inv [rotated])
  let ?live = "filter (\<lambda>(g, c). \<not> c) (ml_pollers st)"
  have live: "set ?live = (if ml_poll st then {(ml_poll_gen st, False)} else {})"
    using ok by (auto simp: poller_ok_def)
  have d: "distinct ?live" using ok by (auto simp: poller_ok_def distinct_map intro: distinct_filter)
  have "?live = [(ml_poll_gen st, False)]" if "ml_poll st"
  proof -
    have "length ?live = card (set ?live)" using distinct_card [OF d] by simp
    then have "length ?live = 1" using live that by simp
    then show ?thesis using live that by (cases ?live) auto
  qed
  moreover have "?live = []" if "\<not> ml_poll st" using live that by (metis set_empty)
  ultimately show ?thesis by simp
qed

theorem one_live_poller_witness: "filter (\<lambda>(g, c). \<not> c) (ml_pollers one_player_state) = [(1, False)]"
proof -
  let ?new = "NewMPRISPlugin \<lparr>ac_dir = ''/c'', ac_resolved = Map.empty\<rparr>"
  obtain acts where "addPlayer one_player_env ''b'' '':1'' ''VLC'' ''vlc'' ?new = Some (acts, one_player_state)"
    using one_player_added by blast
  then have run: "mpris_step\<^sup>*\<^sup>* ?new one_player_state" by (intro r_into_rtranclp mpris_step.Added)
  have "ml_poll one_player_state \<and> ml_poll_gen one_player_state = 1" by code_simp
  then show ?thesis using one_live_poller [OF run] by simp
qed

text \<open>
  A wake-up is lost between the decision of a poller to return and its return: a player that starts to play then finds the
  handle still set and starts nothing, and the return clears the handle.  No poller runs while the player plays.
\<close>
theorem playing_player_not_polled:
  assumes "poller_ok st" and "ml_poll st" and "ml_players st \<noteq> []" and "mr_poll_while_playing (me_cfg env)"
  shows "let st' = finishPlayingPoller (ml_poll_gen st) (storeLocalState env name s st)
    in ml_last_states st' name = Some s \<and> \<not> ml_poll st' \<and> (\<forall>(g, c) \<in> set (ml_pollers st'). c)"
  using assms
  by (auto simp: storeLocalState_def syncPlayingPollerLocked_def armPlayingPollerLocked_def finishPlayingPoller_def poller_ok_def Let_def)

text \<open>A poller that sees no player playing returns after at most five ticks.\<close>
theorem idle_poller_returns:
  assumes "list_all (\<lambda>(playing, answered). \<not> playing) ticks" and "length ticks \<ge> 5"
  shows "\<exists>n \<le> 5. poller_returns 0 ticks = Some n"
proof -
  have gen: "f + length ts \<ge> 5 \<Longrightarrow> f \<le> 4 \<Longrightarrow> list_all (\<lambda>(p, c). \<not> p) ts \<Longrightarrow> \<exists>n. n + f \<le> 5 \<and> poller_returns f ts = Some n" for f ts
  proof (induction f ts rule: poller_returns.induct)
    case (2 f p c ts)
    show ?case
    proof (cases "c \<or> Suc f \<ge> 5")
      case True
      then show ?thesis using "2.prems" by (auto simp: maxConsecutiveReadFailures_def)
    next
      case False
      then obtain n where "n + Suc f \<le> 5" "poller_returns (Suc f) ts = Some n"
        using "2.IH"(2) "2.prems" by (fastforce simp: maxConsecutiveReadFailures_def)
      then show ?thesis using False "2.prems" by (auto simp: maxConsecutiveReadFailures_def)
    qed
  qed simp
  show ?thesis using gen [of 0 ticks] assms by auto
qed

theorem idle_poller_returns_witness: "\<exists>n \<le> 5. poller_returns 0 (replicate 5 (False, False)) = Some n"
  by (rule idle_poller_returns) (simp_all add: list_all_iff)

section \<open>What a phone can do\<close>

text \<open>
  A phone gets no file but album art: what is sent is a regular file of at most five megabytes that a player of this
  computer advertises at that moment.
\<close>
theorem phone_reads_advertised_art:
  assumes "authorizeOutboundArt env file order player url st = Inr path"
  shows "\<exists>n s bytes. ml_last_states st n = Some s \<and> cleanArtURL (npl_album_art_url s) = Some path \<and>
    is_rooted path \<and> file path = Some (True, bytes) \<and> bytes \<le> 5 * 1024 * 1024"
proof -
  obtain req names n where r: "cleanArtURL url = Some req"
      "find (\<lambda>n. case ml_last_states st n of None \<Rightarrow> False
         | Some s \<Rightarrow> npl_album_art_url s \<noteq> [] \<and> cleanArtURL (npl_album_art_url s) = Some req) names = Some n"
      "req = path" "\<exists>bytes. file path = Some (True, bytes) \<and> bytes \<le> maxAlbumArtBytes"
    using assms unfolding authorizeOutboundArt_def by (auto split: option.splits prod.splits if_splits)
  moreover have "is_rooted path" using r(1,3) by (auto simp: cleanArtURL_def Let_def bind_eq_Some_conv split: if_splits)
  ultimately show ?thesis
    by (auto simp: find_Some_iff maxAlbumArtBytes_def split: option.splits)
qed

definition playback_call :: "string \<Rightarrow> variant list \<Rightarrow> bool" where
  "playback_call method args \<longleftrightarrow>
     (\<exists>a \<in> set (player_actions @ [''Seek'', ''SetPosition'']). method = ''org.mpris.MediaPlayer2.Player.'' @ a) \<or>
     method = ''org.freedesktop.DBus.Properties.Set'' \<and>
       (\<exists>name v. name \<in> {''Volume'', ''Shuffle'', ''LoopStatus''} \<and> args = [VStr ''org.mpris.MediaPlayer2.Player'', VStr name, v])"

definition playback_on :: "string \<Rightarrow> mpris_action \<Rightarrow> bool" where
  "playback_on bus x \<longleftrightarrow> (\<exists>method args. x = Calls bus method args \<and> playback_call method args)"

lemma playback_call_action: "a \<in> set player_actions \<Longrightarrow> playback_on bus (Calls bus (''org.mpris.MediaPlayer2.Player.'' @ a) args)"
  by (auto simp: playback_on_def playback_call_def)

lemma playback_call_seek:
  "playback_on bus (Calls bus ''org.mpris.MediaPlayer2.Player.Seek'' args)"
  "playback_on bus (Calls bus ''org.mpris.MediaPlayer2.Player.SetPosition'' args)"
  by (auto simp: playback_on_def playback_call_def)

lemma playback_call_set:
  "name \<in> {''Volume'', ''Shuffle'', ''LoopStatus''} \<Longrightarrow> playback_on bus (set_property bus name v)"
  by (auto simp: playback_on_def playback_call_def set_property_def)

lemma action_calls_playback: "list_all (playback_on bus) (action_calls bus action seek setPos track volume shuffle loop)"
  unfolding action_calls_def list_all_append
  by (intro conjI; simp split: option.split reading.split add: playback_call_action [simplified] playback_call_seek playback_call_set)

text \<open>
  Control by a phone is limited to the players that are tracked and to the methods and properties of playback: whatever
  text it sends as the action, nothing else is called.
\<close>
theorem phone_control_limited:
  assumes "handleAction env after player action seek setPos volume shuffle loop st = Some acts"
    and "Calls bus method args \<in> set acts"
  shows "bus \<in> tp_bus ` snd ` set (ml_players st) \<and> playback_call method args"
proof -
  obtain p where p: "resolvePlayer env player st = Some p"
    using assms by (cases "resolvePlayer env player st") (auto simp: handleAction_def)
  then have known: "p \<in> snd ` set (ml_players st)" by (auto simp: resolvePlayer_def find_Some_iff split: if_splits)
  have nb: "Calls bus method args \<notin> set (mpris_broadcast e s st)" for e s by (auto simp: mpris_broadcast_def to_connected_def)
  have "Calls bus method args \<in> set (action_calls (tp_bus p) action seek setPos (playerState env player st) volume shuffle loop)"
    using assms nb unfolding handleAction_def p option.case Let_def by (auto split: if_splits reading.splits)
  then have "playback_on (tp_bus p) (Calls bus method args)" using action_calls_playback by (metis list_all_iff)
  then show ?thesis using known by (auto simp: playback_on_def)
qed

theorem phone_control_limited_witness:
  "playback_call ''org.mpris.MediaPlayer2.Player.Next'' []"
proof -
  let ?x = "handleAction one_player_env (one_player_env\<lparr>me_dbus := False\<rparr>) ''vlc'' ''Next'' None None None None [] one_player_state"
  have x: "?x = Some [Calls ''b'' ''org.mpris.MediaPlayer2.Player.Next'' []]" by code_simp
  show ?thesis using conjunct2 [OF phone_control_limited [OF x, of "''b''"]] by simp
qed

text \<open>
  A relative seek never leaves this computer as one: it becomes a position between the beginning and, where it is known, the
  end of the track, or is refused.
\<close>
theorem seek_becomes_position:
  assumes "SendAction env dev player action seek setPosition volume st = (Some b, st')"
  shows "mq_seek b = None \<and> (setPosition = None \<and> seek = Some s \<longrightarrow>
    (\<exists>np p. fst (RemoteState env dev st) = Some np \<and> mq_set_position b = Some p \<and> 0 \<le> p \<and>
       (npl_length np > 0 \<longrightarrow> p \<le> npl_length np)))"
  using assms
  by (auto simp: SendAction_def seek_target_def zero_mpris_request_def Let_def split: option.splits prod.splits)

section \<open>What is announced to clients\<close>

definition cache_ok :: "art_cache \<Rightarrow> bool" where
  "cache_ok c \<longleftrightarrow> (\<forall>raw p. ac_resolved c raw = Some p \<longrightarrow> has_prefix ''file://'' p)"

lemma cache_ok_resolve: "art_Resolve h g raw c = (p, c') \<Longrightarrow> cache_ok c \<Longrightarrow> cache_ok c' \<and> (p = [] \<or> has_prefix ''file://'' p)"
  by (auto simp: art_Resolve_def cache_ok_def has_prefix_def split: if_splits option.splits list.splits)

lemma cache_ok_commit: "art_Commit h a raw c fs = (r, c', fs') \<Longrightarrow> cache_ok c \<Longrightarrow> cache_ok c'"
  by (auto simp: art_Commit_def cache_ok_def has_prefix_def split: if_splits option.splits prod.splits)

lemma no_two_schemes: "has_prefix ''file://'' p \<Longrightarrow> \<not> has_prefix ''kdeconnect:'' p"
  by (cases p) (auto simp: has_prefix_def)

text \<open>
  Album art that is announced can be loaded by the client: the address that only the phone understands is never among it,
  it is replaced by a file of the cache or left out and marked as pending.
\<close>
theorem announced_art_is_loadable:
  assumes "cache_ok c" and "published_state env np c = (pub, c')"
  shows "\<not> has_prefix ''kdeconnect:'' (npl_album_art_url pub) \<and>
    (npl_album_art_url pub = [] \<and> npl_album_art_url np \<noteq> [] \<longrightarrow> npl_art_pending pub)"
proof -
  obtain p c1 where r: "art_Resolve (me_art_hash env) (me_glob env) (npl_album_art_url np) c = (p, c1)" by force
  have "p = [] \<or> has_prefix ''file://'' p" using cache_ok_resolve [OF r assms(1)] by simp
  moreover have "\<not> has_prefix ''kdeconnect:'' []" by (simp add: has_prefix_def)
  ultimately show ?thesis using assms(2) r no_two_schemes unfolding published_state_def by (auto split: if_splits)
qed

section \<open>Where the code falls short\<close>

text \<open>
  Two players of one name on different buses: the one that leaves is removed by its display name, so that the other, which
  is still there, is removed from the list.
\<close>
theorem leaving_player_evicts_twin:
  assumes "foreign_player b1" and "u1 \<noteq> []" and "ml_owners st u1 = Some n"
    and "map_of (ml_players st) n = Some p" and "tp_bus p \<noteq> b1"
  shows "\<exists>acts st'. handleNameOwnerChanged env identity b1 u1 [] st = Some (acts, st') \<and> map_of (ml_players st') n = None"
proof -
  have "map_of (ml_players (snd (removePlayer env n st))) n = None"
    by (simp add: removePlayer_def Let_def syncPlayingPollerLocked_def armPlayingPollerLocked_def stopPlayingPollerLocked_def delete_conv)
  then show ?thesis using assms by (auto simp: handleNameOwnerChanged_def split_def)
qed

text \<open>
  The position is asked for by a method that players do not have.  With no answer every change of a property resets the
  position to the beginning, whatever the player was at.
\<close>
theorem change_resets_position:
  assumes "handlePropertiesChanged env stamp None seekable sender body st = Some (acts, st')"
    and "ml_last_states st' n \<noteq> ml_last_states st n"
  shows "\<exists>s. ml_last_states st' n = Some s \<and> npl_pos s = 0"
proof -
  have store: "ml_last_states (storeLocalState env n s st) = (ml_last_states st)(n \<mapsto> s)" for n s and st :: mpris_state
    by (simp add: storeLocalState_def syncPlayingPollerLocked_def armPlayingPollerLocked_def stopPlayingPollerLocked_def)
  have art: "track_art stamp d ch s st = Some (s', st1) \<Longrightarrow> ml_last_states st1 = ml_last_states st" for d ch s s' and st1 st :: mpris_state
    by (auto simp: track_art_def split: option.splits if_splits)
  show ?thesis using assms
    by (auto simp: handlePropertiesChanged_def requestReconcile_def store_and_broadcast_def queryPositionAndCanSeek_def stamped_def store Let_def
        bind_eq_Some_conv dest!: art split: if_splits option.splits list.splits)
qed

end
