(* ===== verification/MprisRoutes.thy ===== *)
theory MprisRoutes
  imports MprisProps RunCommand Share
begin

text \<open>
  The routes of the media players (\<open>internal/daemon/ipc_routes_mpris.go\<close>), the route that sends a file and the one that asks
  for the commands of a phone.  A route whose operation waits has a beginning and an answer.
\<close>

section \<open>Media players\<close>

definition connected_devices :: "registry \<Rightarrow> device list" where
  "connected_devices rg = filter IsConnected (map (dev_at rg) (reg_List rg))"

text \<open>Looking a state up may fill the cache of album art.\<close>

fun first_with_media :: "mpris_env \<Rightarrow> device list \<Rightarrow> mpris_state \<Rightarrow> string \<times> mpris_state" where
  "first_with_media env [] st = ([], st)"
| "first_with_media env (d # ds) st =
     (case RemoteState env (dv_id d) st of (np, st) \<Rightarrow> if np \<noteq> None then (dv_id d, st) else first_with_media env ds st)"

definition mpris_target :: "mpris_env \<Rightarrow> registry \<Rightarrow> string \<Rightarrow> mpris_state \<Rightarrow> string \<times> mpris_state" where
  "mpris_target env rg given st =
     (if given \<noteq> [] then (given, st)
      else case first_with_media env (connected_devices rg) st of (target, st) \<Rightarrow>
        (if target \<noteq> [] then target else (case connected_devices rg of [] \<Rightarrow> [] | d # ds \<Rightarrow> dv_id d), st))"

definition mpris_player :: "mpris_env \<Rightarrow> string \<Rightarrow> string \<Rightarrow> mpris_state \<Rightarrow> string \<times> mpris_state" where
  "mpris_player env target given st =
     (if given \<noteq> [] then (given, st)
      else case RemoteState env target st of (np, st) \<Rightarrow> (case np of None \<Rightarrow> [] | Some np \<Rightarrow> npl_player np, st))"

definition no_position_text :: "string \<Rightarrow> string" where
  "no_position_text player =
     ''cannot apply a relative seek for '' @ player @ '': no playback position known yet (the phone has not reported one, ''
     @ ''or it was cleared by a disconnect); retry, or pass an absolute setPosition''"

text \<open>\<open>send_error\<close> is the error of the connection, if any.\<close>

definition route_mpris_action ::
  "string option \<Rightarrow> mpris_env \<Rightarrow> registry \<Rightarrow> plugin_registry \<Rightarrow> ipc_request \<Rightarrow> mpris_state \<Rightarrow>
     ipc_response \<times> mpris_action list \<times> mpris_state" where
  "route_mpris_action send_error env rg plugins req st =
     (case payload_as dec_mpris_action_payload zero_mpris_action_payload (rq_payload req) of
        None \<Rightarrow> (invalid_payload, [], st)
      | Some p \<Rightarrow>
          if GetByName ''MPRIS'' plugins = None then (plugin_disabled ''MPRIS'', [], st)
          else (case mpris_target env rg (mac_device_id p) st of (target, st) \<Rightarrow>
            if target = [] then (FailWith ''no connected device found'', [], st)
            else if reg_Get target rg = None then (FailWith (''device '' @ target @ '' not found''), [], st)
            else (case mpris_player env target (mac_player p) st of (player, st) \<Rightarrow>
              if player = [] then (FailWith ''no player known for this device; specify --player'', [], st)
              else (case SendAction env target player (mac_action p) (mac_seek p) (mac_set_position p) (mac_volume p) st of
                  (None, st) \<Rightarrow> (FailWith (no_position_text player), [], st)
                | (Some b, st) \<Rightarrow>
                    (case send_error of
                       Some e \<Rightarrow> (FailWith e, [], st)
                     | None \<Rightarrow> (okay, [ToPhone target ''kdeconnect.mpris.request'' (enc_mpris_request b)], st))))))"

definition remote_player :: "string \<Rightarrow> now_playing \<Rightarrow> mpris_remote_player" where
  "remote_player dev np =
     \<lparr>mrp_device_id = dev, mrp_player = npl_player np, mrp_title = npl_title np, mrp_artist = npl_artist np,
      mrp_album = npl_album np, mrp_album_art_url = npl_album_art_url np, mrp_url = npl_url np, mrp_length = npl_length np,
      mrp_pos = npl_pos np, mrp_is_playing = npl_is_playing np, mrp_volume = npl_volume np,
      mrp_playback_status = npl_playback_status np, mrp_can_seek = npl_can_seek np, mrp_can_go_next = npl_can_go_next np,
      mrp_can_go_previous = npl_can_go_previous np, mrp_can_play = npl_can_play np, mrp_can_pause = npl_can_pause np,
      mrp_can_control = npl_can_control np\<rparr>"

definition route_mpris_remote ::
  "mpris_env \<Rightarrow> registry \<Rightarrow> plugin_registry \<Rightarrow> ipc_request \<Rightarrow> mpris_state \<Rightarrow> ipc_response \<times> mpris_action list \<times> mpris_state" where
  "route_mpris_remote env rg plugins req st =
     (if GetByName ''MPRIS'' plugins = None then (FailWith ''mpris plugin not enabled'', [], st)
      else let st = requestReconcile st;
               asks = map (\<lambda>d. RequestState (dv_id d) []) (connected_devices rg)
           in (case RemoteStates env st of (states, st) \<Rightarrow>
                (jsonOK (enc_mpris_remote_response \<lparr>mrr_players = Some (map (\<lambda>(dev, np). remote_player dev np) states)\<rparr>), asks, st)))"

text \<open>\<open>error_text\<close> is what a player that cannot be read is reported with; \<open>None\<close> is a panic.\<close>

definition route_mpris_status ::
  "mpris_env \<Rightarrow> bool \<Rightarrow> string \<Rightarrow> plugin_registry \<Rightarrow> ipc_request \<Rightarrow> mpris_state \<Rightarrow> ipc_response option" where
  "route_mpris_status env watching error_text plugins req st =
     (if GetByName ''MPRIS'' plugins = None then Some (FailWith ''mpris plugin not enabled'')
      else map_option (\<lambda>s. jsonOK (enc_debug_status s)) (DebugStatus env watching error_text st))"

section \<open>Sending a file\<close>

definition send_error_text :: "(send_file_error \<Rightarrow> string) \<Rightarrow> send_file_error \<Rightarrow> string" where
  "send_error_text os_text e =
     (case e of
        SendOpenFailed \<Rightarrow> ''share: open file: '' @ os_text e
      | SendStatFailed \<Rightarrow> ''share: stat file: '' @ os_text e
      | SendDirectory \<Rightarrow> ''share: directory transfer is not supported''
      | SendNoPort \<Rightarrow> os_text e)"

text \<open>The answer, and the offer with the device that gets it; \<open>file\<close> says of a path whether it opens and what it is.\<close>

definition route_share ::
  "(send_file_error \<Rightarrow> string) \<Rightarrow> share_env \<Rightarrow> (int \<Rightarrow> bool) \<Rightarrow> int \<Rightarrow> (string \<Rightarrow> bool \<times> (bool \<times> int \<times> int) option) \<Rightarrow>
     registry \<Rightarrow> plugin_registry \<Rightarrow> ipc_request \<Rightarrow> ipc_response \<times> (nat \<times> file_offer) option" where
  "route_share os_text env can_bind now file rg plugins req =
     (case payload_as dec_share_payload zero_share_payload (rq_payload req) of
        None \<Rightarrow> (invalid_payload, None)
      | Some p \<Rightarrow>
          if GetByName ''Share'' plugins = None then (plugin_disabled ''Share'', None)
          else (case reg_Get (shp_device_id p) rg of
             None \<Rightarrow> (device_not_found (shp_device_id p), None)
           | Some r \<Rightarrow>
               (case SendFile env can_bind now (shp_file_path p) (fst (file (shp_file_path p))) (snd (file (shp_file_path p))) of
                  Inl e \<Rightarrow> (FailWith (''share failed: '' @ send_error_text os_text e), None)
                | Inr offer \<Rightarrow> (okay, Some (r, offer)))))"

section \<open>The commands of a phone\<close>

definition enc_run_command :: "string \<times> string \<Rightarrow> json" where
  "enc_run_command c = JObj [(''name'', JStr (fst c)), (''command'', JStr (snd c))]"

text \<open>An answer at once, or the packets that are sent before the wait.\<close>

definition run_list_begin ::
  "registry \<Rightarrow> plugin_registry \<Rightarrow> ipc_request \<Rightarrow> runcmd \<Rightarrow> (ipc_response + nat \<times> effect list) \<times> runcmd" where
  "run_list_begin rg plugins req st =
     (case payload_as dec_device_payload zero_device_payload (rq_payload req) of
        None \<Rightarrow> (Inl invalid_payload, st)
      | Some p \<Rightarrow>
          if GetByName ''RunCommand'' plugins = None then (Inl (plugin_disabled ''RunCommand''), st)
          else (case reg_Get (dp_device_id p) rg of
             None \<Rightarrow> (Inl (device_not_found (dp_device_id p)), st)
           | Some r \<Rightarrow>
               (case RequestList (dv_id (dev_at rg r)) st of
                  (Inl e, st) \<Rightarrow> (Inl (FailWith e), st)
                | (Inr es, st) \<Rightarrow> (Inr (r, es), st))))"

definition run_list_answer :: "string \<Rightarrow> string \<Rightarrow> runcmd \<Rightarrow> ipc_response \<times> runcmd" where
  "run_list_answer late dev st =
     (case RequestList_end dev st of
        (None, st) \<Rightarrow> (FailWith late, st)
      | (Some cs, st) \<Rightarrow> (jsonOK (JArr (map enc_run_command cs)), st))"

section \<open>Facts\<close>

lemma RemoteState_present: "fst (RemoteState env dev st) = None \<longleftrightarrow> map_of (ml_remote st) dev = None"
  by (simp add: RemoteState_def split: option.split prod.split)

lemma served_state_frame: "ml_remote (snd (served_state env dev np st)) = ml_remote st"
  by (simp add: served_state_def Let_def split: prod.split)

lemma RemoteState_frame: "ml_remote (snd (RemoteState env dev st)) = ml_remote st"
  using served_state_frame by (auto simp: RemoteState_def split: option.split prod.split) (metis snd_conv)

lemma first_with_media_finds:
  "\<forall>d \<in> set ds. dv_id d \<noteq> [] \<Longrightarrow>
   fst (first_with_media env ds st) =
     (case find (\<lambda>d. map_of (ml_remote st) (dv_id d) \<noteq> None) ds of None \<Rightarrow> [] | Some d \<Rightarrow> dv_id d)"
proof (induction ds arbitrary: st)
  case (Cons d ds)
  obtain np st1 where r: "RemoteState env (dv_id d) st = (np, st1)" by force
  then have "np = None \<longleftrightarrow> map_of (ml_remote st) (dv_id d) = None" "ml_remote st1 = ml_remote st"
    using RemoteState_present [of env "dv_id d" st] RemoteState_frame [of env "dv_id d" st] by simp_all
  then show ?case using Cons.IH [of st1] Cons.prems r by auto
qed simp

text \<open>
  Control without a named device goes to a connected device, to one that has reported a player where there is one.
\<close>
theorem media_control_finds_device:
  assumes "\<forall>d \<in> set (connected_devices rg). dv_id d \<noteq> []" and "fst (mpris_target env rg [] st) = target" and "target \<noteq> []"
  shows "\<exists>d \<in> set (connected_devices rg). dv_id d = target \<and>
    (map_of (ml_remote st) target = None \<longrightarrow> (\<forall>d \<in> set (connected_devices rg). map_of (ml_remote st) (dv_id d) = None))"
proof (cases "find (\<lambda>d. map_of (ml_remote st) (dv_id d) \<noteq> None) (connected_devices rg)")
  case None
  then have "fst (first_with_media env (connected_devices rg) st) = []"
    using first_with_media_finds [OF assms(1)] by simp
  then show ?thesis using assms(2,3) None
    by (auto simp: mpris_target_def find_None_iff split: prod.splits list.splits)
next
  case (Some d)
  then have "fst (first_with_media env (connected_devices rg) st) = dv_id d"
    using first_with_media_finds [OF assms(1)] by simp
  moreover have "d \<in> set (connected_devices rg)" "map_of (ml_remote st) (dv_id d) \<noteq> None"
    using Some by (auto simp: find_Some_iff)
  ultimately show ?thesis using assms by (auto simp: mpris_target_def split: prod.splits)
qed

text \<open>A file is offered only after a success, to a registered device, and with its size and a port of the configured range.\<close>
theorem shared_file_is_offered_truly:
  assumes "route_share os_text env can_bind now file rg plugins req = (resp, Some (r, offer))"
  shows "\<exists>path dev mtime. rs_ok resp \<and> reg_Get dev rg = Some r \<and>
    file path = (True, Some (False, pk_payload_size (fo_packet offer), mtime)) \<and> pk_transfer (fo_packet offer) = Some (fo_port offer)"
proof -
  obtain p where p: "payload_as dec_share_payload zero_share_payload (rq_payload req) = Some p" "reg_Get (shp_device_id p) rg = Some r"
      "SendFile env can_bind now (shp_file_path p) (fst (file (shp_file_path p))) (snd (file (shp_file_path p))) = Inr offer"
      "resp = okay"
    using assms unfolding route_share_def by (auto split: option.splits if_splits sum.splits)
  obtain bytes mtime where "file (shp_file_path p) = (True, Some (False, bytes, mtime))" "pk_payload_size (fo_packet offer) = bytes"
      "pk_transfer (fo_packet offer) = Some (fo_port offer)"
    using p(3) by (cases "file (shp_file_path p)") (auto simp: SendFile_def Let_def split: if_splits option.splits)
  then show ?thesis using p by auto
qed

text \<open>
  Two clients that ask for the commands of one phone at the same time: the second is told so and does not disturb the first,
  who gets what the phone answers.
\<close>
theorem command_list_reaches_first_client:
  assumes "RequestList dev st = (Inr es, st1)"
  shows "fst (RequestList dev st1) = Inl (''runcommand: a command list request for '' @ dev @ '' is already in flight'') \<and>
    fst (run_list_answer late dev (deliverCommandList dev cs (snd (RequestList dev st1)))) = jsonOK (JArr (map enc_run_command cs))"
proof -
  have "rn_pending st1 dev = Some None" using assms by (auto simp: RequestList_def split: if_splits)
  then show ?thesis by (simp add: RequestList_def run_list_answer_def RequestList_end_def deliverCommandList_def)
qed

end
