(* ===== verification/ClientProto.thy ===== *)
theory ClientProto
  imports MprisRoutes
begin

text \<open>
  The other side of the local protocol (\<open>internal/ipc/proto.go\<close> as \<open>pkg/client\<close> uses it): requests and payloads as the client
  writes them, responses as it reads them, and that each side reads what the other wrote.
\<close>

section \<open>Fields\<close>

definition enc_raw_map :: "(string \<times> json) list \<Rightarrow> json" where
  "enc_raw_map m = JObj m"

text \<open>A map of values: later keys overwrite earlier ones.\<close>

fun dec_map_entries :: "(json \<Rightarrow> 'v \<Rightarrow> 'v option) \<Rightarrow> 'v \<Rightarrow> (string \<times> json) list \<Rightarrow> (string \<times> 'v) list \<Rightarrow> (string \<times> 'v) list option" where
  "dec_map_entries dec zero [] m = Some m"
| "dec_map_entries dec zero ((k, j) # es) m =
     (case dec j zero of None \<Rightarrow> None | Some v \<Rightarrow> dec_map_entries dec zero es (AList.update k v m))"

fun dec_bool_map :: "json \<Rightarrow> (string \<times> bool) list \<Rightarrow> (string \<times> bool) list option" where
  "dec_bool_map JNull old = Some []"
| "dec_bool_map (JObj es) old = dec_map_entries dec_bool False es old"
| "dec_bool_map _ old = None"

fun dec_text_map :: "json \<Rightarrow> (string \<times> string) list \<Rightarrow> (string \<times> string) list option" where
  "dec_text_map JNull old = Some []"
| "dec_text_map (JObj es) old = dec_map_entries dec_str [] es old"
| "dec_text_map _ old = None"

section \<open>Requests as they are written\<close>

definition enc_connect_payload :: "connect_payload \<Rightarrow> json" where
  "enc_connect_payload x =
     JObj ([(''ip'', JStr (cp_ip x))])"

definition enc_ipc_request :: "ipc_request \<Rightarrow> json" where
  "enc_ipc_request x =
     JObj ([(''cmd'', JStr (rq_command x))]
           @ (case ipc_request.rq_id x of None \<Rightarrow> [] | Some j \<Rightarrow> [(''id'', j)])
           @ (case rq_payload x of None \<Rightarrow> [] | Some j \<Rightarrow> [(''payload'', j)]))"

definition enc_hello_payload :: "hello_payload \<Rightarrow> json" where
  "enc_hello_payload x =
     JObj (omit (hp_client x = []) ''client'' (JStr (hp_client x))
           @ omit (hp_client_version x = []) ''clientVersion'' (JStr (hp_client_version x))
           @ omit (hp_api_versions x = []) ''apiVersions'' (enc_ints (hp_api_versions x))
           @ omit (\<not> hp_keep_alive x) ''keepAlive'' (JBool (hp_keep_alive x)))"

definition enc_config_set_payload :: "config_set_payload \<Rightarrow> json" where
  "enc_config_set_payload x =
     JObj ([(''values'', enc_raw_map (cs_values x))])"

definition enc_prompt_respond_payload :: "prompt_respond_payload \<Rightarrow> json" where
  "enc_prompt_respond_payload x =
     JObj ([(''promptId'', JStr (prr_prompt_id x))]
           @ [(''choice'', JStr (prr_choice x))])"

definition enc_watch_payload :: "watch_payload \<Rightarrow> json" where
  "enc_watch_payload x =
     JObj (omit (wp_events x = []) ''events'' (enc_strs (wp_events x))
           @ omit (wp_since x = 0) ''since'' (enc_nat (wp_since x)))"

definition enc_device_payload :: "device_payload \<Rightarrow> json" where
  "enc_device_payload x =
     JObj ([(''deviceId'', JStr (dp_device_id x))]
           @ omit (dp_key x = []) ''key'' (JStr (dp_key x)))"

definition enc_share_payload :: "share_payload \<Rightarrow> json" where
  "enc_share_payload x =
     JObj ([(''deviceId'', JStr (shp_device_id x))]
           @ [(''filePath'', JStr (shp_file_path x))])"

definition enc_notify_reply_payload :: "notify_reply_payload \<Rightarrow> json" where
  "enc_notify_reply_payload x =
     JObj ([(''deviceId'', JStr (nrp_device_id x))]
           @ [(''replyId'', JStr (nrp_reply_id x))]
           @ [(''message'', JStr (nrp_message x))])"

definition enc_notify_dismiss_payload :: "notify_dismiss_payload \<Rightarrow> json" where
  "enc_notify_dismiss_payload x =
     JObj ([(''deviceId'', JStr (ndp_device_id x))]
           @ [(''notificationId'', JStr (ndp_notification_id x))])"

definition enc_notify_action_payload :: "notify_action_payload \<Rightarrow> json" where
  "enc_notify_action_payload x =
     JObj ([(''deviceId'', JStr (nap_device_id x))]
           @ omit (nap_notification_id x = []) ''notificationId'' (JStr (nap_notification_id x))
           @ omit (nap_key x = []) ''key'' (JStr (nap_key x))
           @ [(''action'', JStr (nap_action x))])"

definition enc_sms_payload :: "sms_payload \<Rightarrow> json" where
  "enc_sms_payload x =
     JObj ([(''deviceId'', JStr (smp_device_id x))]
           @ [(''phoneNumber'', JStr (smp_phone_number x))]
           @ [(''message'', JStr (smp_message x))]
           @ (case smp_sub_id x of None \<Rightarrow> [] | Some v \<Rightarrow> [(''subID'', enc_int v)]))"

definition enc_sms_conv_payload :: "sms_conv_payload \<Rightarrow> json" where
  "enc_sms_conv_payload x =
     JObj ([(''deviceId'', JStr (scp_device_id x))]
           @ [(''threadID'', enc_int (scp_thread_id x))]
           @ (case scp_range_start_timestamp x of None \<Rightarrow> [] | Some v \<Rightarrow> [(''rangeStartTimestamp'', enc_int v)])
           @ (case scp_number_to_request x of None \<Rightarrow> [] | Some v \<Rightarrow> [(''numberToRequest'', enc_int v)]))"

definition enc_sms_attachment_payload :: "sms_attachment_payload \<Rightarrow> json" where
  "enc_sms_attachment_payload x =
     JObj ([(''deviceId'', JStr (sap_device_id x))]
           @ [(''partID'', enc_int (sap_part_id x))]
           @ [(''uniqueIdentifier'', JStr (sap_unique_identifier x))]
           @ (case sap_thread_id x of None \<Rightarrow> [] | Some v \<Rightarrow> [(''threadID'', enc_int v)]))"

definition enc_sftp_info_payload :: "sftp_info_payload \<Rightarrow> json" where
  "enc_sftp_info_payload x =
     JObj ([(''deviceId'', JStr (sip_device_id x))]
           @ omit (\<not> sip_show_password x) ''showPassword'' (JBool (sip_show_password x)))"

definition enc_sftp_mount_payload :: "sftp_mount_payload \<Rightarrow> json" where
  "enc_sftp_mount_payload x =
     JObj ([(''deviceId'', JStr (smt_device_id x))]
           @ (case smt_read_only x of None \<Rightarrow> [] | Some v \<Rightarrow> [(''readOnly'', JBool v)]))"

definition enc_sftp_browse_payload :: "sftp_browse_payload \<Rightarrow> json" where
  "enc_sftp_browse_payload x =
     JObj ([(''deviceId'', JStr (sbp_device_id x))]
           @ omit (sbp_volume x = []) ''volume'' (JStr (sbp_volume x))
           @ (case sbp_read_only x of None \<Rightarrow> [] | Some v \<Rightarrow> [(''readOnly'', JBool v)]))"

definition enc_mpris_action_payload :: "mpris_action_payload \<Rightarrow> json" where
  "enc_mpris_action_payload x =
     JObj ([(''deviceId'', JStr (mac_device_id x))]
           @ omit (mac_player x = []) ''player'' (JStr (mac_player x))
           @ omit (mac_action x = []) ''action'' (JStr (mac_action x))
           @ (case mac_volume x of None \<Rightarrow> [] | Some v \<Rightarrow> [(''volume'', enc_int v)])
           @ (case mac_seek x of None \<Rightarrow> [] | Some v \<Rightarrow> [(''seek'', enc_int v)])
           @ (case mac_set_position x of None \<Rightarrow> [] | Some v \<Rightarrow> [(''setPosition'', enc_int v)]))"

definition enc_remote_volume_set_payload :: "remote_volume_set_payload \<Rightarrow> json" where
  "enc_remote_volume_set_payload x =
     JObj ([(''deviceId'', JStr (rvs_device_id x))]
           @ [(''name'', JStr (rvs_name x))]
           @ [(''volume'', enc_int (rvs_volume x))])"

definition enc_remote_volume_mute_payload :: "remote_volume_mute_payload \<Rightarrow> json" where
  "enc_remote_volume_mute_payload x =
     JObj ([(''deviceId'', JStr (rvm_device_id x))]
           @ [(''name'', JStr (rvm_name x))]
           @ [(''muted'', JBool (rvm_muted x))])"

section \<open>Responses as they are read\<close>

definition hello_response_fields :: "hello_response field list" where
  "hello_response_fields =
     [(''apiVersion'', fld dec_int hr_api_version hr_api_version_update),
      (''daemonVersion'', fld dec_str hr_daemon_version hr_daemon_version_update),
      (''commands'', fld dec_nstrs hr_commands hr_commands_update),
      (''events'', fld dec_nstrs hr_events hr_events_update),
      (''optInEvents'', fld dec_nstrs hr_opt_in_events hr_opt_in_events_update),
      (''plugins'', fld dec_bool_map hr_plugins hr_plugins_update),
      (''features'', fld dec_nstrs hr_features hr_features_update)]"

definition dec_hello_response :: "json \<Rightarrow> hello_response \<Rightarrow> hello_response option" where
  "dec_hello_response j = dec_struct (dec_fields hello_response_fields) j"

definition ipc_response_fields :: "ipc_response field list" where
  "ipc_response_fields =
     [(''id'', fld dec_raw rs_id rs_id_update),
      (''ok'', fld dec_bool rs_ok rs_ok_update),
      (''error'', fld dec_str rs_error rs_error_update),
      (''code'', fld dec_str rs_code rs_code_update),
      (''details'', fld dec_raw rs_details rs_details_update),
      (''data'', fld dec_raw rs_data rs_data_update)]"

definition dec_ipc_response :: "json \<Rightarrow> ipc_response \<Rightarrow> ipc_response option" where
  "dec_ipc_response j = dec_struct (dec_fields ipc_response_fields) j"

definition pair_listen_result_fields :: "pair_listen_result field list" where
  "pair_listen_result_fields =
     [(''deviceId'', fld dec_str plr_device_id plr_device_id_update),
      (''deviceName'', fld dec_str plr_device_name plr_device_name_update),
      (''verificationKey'', fld dec_str plr_verification_key plr_verification_key_update),
      (''fingerprint'', fld dec_str plr_fingerprint plr_fingerprint_update)]"

definition dec_pair_listen_result :: "json \<Rightarrow> pair_listen_result \<Rightarrow> pair_listen_result option" where
  "dec_pair_listen_result j = dec_struct (dec_fields pair_listen_result_fields) j"

definition pair_result_fields :: "pair_result field list" where
  "pair_result_fields =
     [(''verificationKey'', fld dec_str prs_verification_key prs_verification_key_update)]"

definition dec_pair_result :: "json \<Rightarrow> pair_result \<Rightarrow> pair_result option" where
  "dec_pair_result j = dec_struct (dec_fields pair_result_fields) j"

definition status_battery_fields :: "status_battery field list" where
  "status_battery_fields =
     [(''charge'', fld dec_int sba_charge sba_charge_update),
      (''charging'', fld dec_bool sba_charging sba_charging_update),
      (''ageMs'', fld dec_int sba_age_ms sba_age_ms_update)]"

definition dec_status_battery :: "json \<Rightarrow> status_battery \<Rightarrow> status_battery option" where
  "dec_status_battery j = dec_struct (dec_fields status_battery_fields) j"

definition status_device_fields :: "status_device field list" where
  "status_device_fields =
     [(''id'', fld dec_str sd_id sd_id_update),
      (''name'', fld dec_str sd_name sd_name_update),
      (''type'', fld dec_str sd_type sd_type_update),
      (''state'', fld dec_str sd_state sd_state_update),
      (''connected'', fld dec_bool sd_connected sd_connected_update),
      (''addr'', fld dec_str sd_addr sd_addr_update),
      (''battery'', fld (dec_opt dec_status_battery zero_status_battery) sd_battery sd_battery_update),
      (''lastSeen'', fld dec_str sd_last_seen sd_last_seen_update)]"

definition dec_status_device :: "json \<Rightarrow> status_device \<Rightarrow> status_device option" where
  "dec_status_device j = dec_struct (dec_fields status_device_fields) j"

definition status_response_fields :: "status_response field list" where
  "status_response_fields =
     [(''version'', fld dec_str sr_version sr_version_update),
      (''startedAt'', fld dec_str sr_started_at sr_started_at_update),
      (''uptimeHuman'', fld dec_str sr_uptime_human sr_uptime_human_update),
      (''socketPath'', fld dec_str sr_socket_path sr_socket_path_update),
      (''configPath'', fld dec_str sr_config_path sr_config_path_update),
      (''tcpPort'', fld dec_int sr_tcp_port sr_tcp_port_update),
      (''plugins'', fld dec_nstrs sr_plugins sr_plugins_update),
      (''deviceCount'', fld dec_int sr_device_count sr_device_count_update),
      (''connectedCount'', fld dec_int sr_connected_count sr_connected_count_update),
      (''devices'', fld (dec_list dec_status_device zero_status_device) sr_devices sr_devices_update)]"

definition dec_status_response :: "json \<Rightarrow> status_response \<Rightarrow> status_response option" where
  "dec_status_response j = dec_struct (dec_fields status_response_fields) j"

definition storage_volume_response_fields :: "storage_volume_response field list" where
  "storage_volume_response_fields =
     [(''name'', fld dec_str svr_name svr_name_update),
      (''path'', fld dec_str svr_path svr_path_update)]"

definition dec_storage_volume_response :: "json \<Rightarrow> storage_volume_response \<Rightarrow> storage_volume_response option" where
  "dec_storage_volume_response j = dec_struct (dec_fields storage_volume_response_fields) j"

definition sftp_info_response_fields :: "sftp_info_response field list" where
  "sftp_info_response_fields =
     [(''ip'', fld dec_str sir_ip sir_ip_update),
      (''port'', fld dec_number sir_port sir_port_update),
      (''user'', fld dec_str sir_user sir_user_update),
      (''password'', fld dec_str sir_password sir_password_update),
      (''path'', fld dec_str sir_path sir_path_update),
      (''volumes'', fld (dec_list dec_storage_volume_response zero_storage_volume_response) sir_volumes sir_volumes_update),
      (''mounted'', fld dec_bool sir_mounted sir_mounted_update),
      (''mountPoint'', fld dec_str sir_mount_point sir_mount_point_update)]"

definition dec_sftp_info_response :: "json \<Rightarrow> sftp_info_response \<Rightarrow> sftp_info_response option" where
  "dec_sftp_info_response j = dec_struct (dec_fields sftp_info_response_fields) j"

definition sftp_browse_response_fields :: "sftp_browse_response field list" where
  "sftp_browse_response_fields =
     [(''path'', fld dec_str sbr_path sbr_path_update),
      (''volumes'', fld (dec_list dec_storage_volume_response zero_storage_volume_response) sbr_volumes sbr_volumes_update)]"

definition dec_sftp_browse_response :: "json \<Rightarrow> sftp_browse_response \<Rightarrow> sftp_browse_response option" where
  "dec_sftp_browse_response j = dec_struct (dec_fields sftp_browse_response_fields) j"

definition mpris_player_info_fields :: "mpris_player_info field list" where
  "mpris_player_info_fields =
     [(''displayName'', fld dec_str mpi_display_name mpi_display_name_update),
      (''busName'', fld dec_str mpi_bus_name mpi_bus_name_update),
      (''shortName'', fld dec_str mpi_short_name mpi_short_name_update),
      (''title'', fld dec_str mpi_title mpi_title_update),
      (''artist'', fld dec_str mpi_artist mpi_artist_update),
      (''album'', fld dec_str mpi_album mpi_album_update),
      (''playbackStatus'', fld dec_str mpi_playback_status mpi_playback_status_update),
      (''isPlaying'', fld dec_bool mpi_is_playing mpi_is_playing_update),
      (''volume'', fld dec_int mpi_volume mpi_volume_update),
      (''pos'', fld dec_int mpi_pos mpi_pos_update),
      (''posAnchorMs'', fld dec_int mpi_pos_anchor_ms mpi_pos_anchor_ms_update),
      (''length'', fld dec_int mpi_length mpi_length_update),
      (''albumArtUrl'', fld dec_str mpi_album_art_url mpi_album_art_url_update),
      (''canSeek'', fld dec_bool mpi_can_seek mpi_can_seek_update),
      (''canGoNext'', fld dec_bool mpi_can_go_next mpi_can_go_next_update),
      (''canGoPrevious'', fld dec_bool mpi_can_go_previous mpi_can_go_previous_update),
      (''canPlay'', fld dec_bool mpi_can_play mpi_can_play_update),
      (''canPause'', fld dec_bool mpi_can_pause mpi_can_pause_update),
      (''error'', fld dec_str mpi_error mpi_error_update)]"

definition dec_mpris_player_info :: "json \<Rightarrow> mpris_player_info \<Rightarrow> mpris_player_info option" where
  "dec_mpris_player_info j = dec_struct (dec_fields mpris_player_info_fields) j"

definition mpris_status_response_fields :: "mpris_status_response field list" where
  "mpris_status_response_fields =
     [(''watcherRunning'', fld dec_bool msr_watcher_running msr_watcher_running_update),
      (''deviceCount'', fld dec_int msr_device_count msr_device_count_update),
      (''players'', fld (dec_nlist dec_mpris_player_info zero_mpris_player_info) msr_players msr_players_update),
      (''playerMappings'', fld dec_text_map msr_player_mappings msr_player_mappings_update)]"

definition dec_mpris_status_response :: "json \<Rightarrow> mpris_status_response \<Rightarrow> mpris_status_response option" where
  "dec_mpris_status_response j = dec_struct (dec_fields mpris_status_response_fields) j"

definition mpris_remote_player_fields :: "mpris_remote_player field list" where
  "mpris_remote_player_fields =
     [(''deviceId'', fld dec_str mrp_device_id mrp_device_id_update),
      (''player'', fld dec_str mrp_player mrp_player_update),
      (''title'', fld dec_str mrp_title mrp_title_update),
      (''artist'', fld dec_str mrp_artist mrp_artist_update),
      (''album'', fld dec_str mrp_album mrp_album_update),
      (''albumArtUrl'', fld dec_str mrp_album_art_url mrp_album_art_url_update),
      (''url'', fld dec_str mrp_url mrp_url_update),
      (''length'', fld dec_int mrp_length mrp_length_update),
      (''pos'', fld dec_int mrp_pos mrp_pos_update),
      (''isPlaying'', fld dec_bool mrp_is_playing mrp_is_playing_update),
      (''volume'', fld dec_int mrp_volume mrp_volume_update),
      (''playbackStatus'', fld dec_str mrp_playback_status mrp_playback_status_update),
      (''canSeek'', fld dec_bool mrp_can_seek mrp_can_seek_update),
      (''canGoNext'', fld dec_bool mrp_can_go_next mrp_can_go_next_update),
      (''canGoPrevious'', fld dec_bool mrp_can_go_previous mrp_can_go_previous_update),
      (''canPlay'', fld dec_bool mrp_can_play mrp_can_play_update),
      (''canPause'', fld dec_bool mrp_can_pause mrp_can_pause_update),
      (''canControl'', fld dec_bool mrp_can_control mrp_can_control_update)]"

definition dec_mpris_remote_player :: "json \<Rightarrow> mpris_remote_player \<Rightarrow> mpris_remote_player option" where
  "dec_mpris_remote_player j = dec_struct (dec_fields mpris_remote_player_fields) j"

definition mpris_remote_response_fields :: "mpris_remote_response field list" where
  "mpris_remote_response_fields =
     [(''players'', fld (dec_nlist dec_mpris_remote_player zero_mpris_remote_player) mrr_players mrr_players_update)]"

definition dec_mpris_remote_response :: "json \<Rightarrow> mpris_remote_response \<Rightarrow> mpris_remote_response option" where
  "dec_mpris_remote_response j = dec_struct (dec_fields mpris_remote_response_fields) j"

definition contact_summary_fields :: "contact_summary field list" where
  "contact_summary_fields =
     [(''uid'', fld dec_str cos_uid cos_uid_update),
      (''name'', fld dec_str cos_name cos_name_update),
      (''phones'', fld dec_strs cos_phones cos_phones_update),
      (''emails'', fld dec_strs cos_emails cos_emails_update),
      (''timestamp'', fld dec_int cos_timestamp cos_timestamp_update)]"

definition dec_contact_summary :: "json \<Rightarrow> contact_summary \<Rightarrow> contact_summary option" where
  "dec_contact_summary j = dec_struct (dec_fields contact_summary_fields) j"

section \<open>What is written is read\<close>

lemmas codec = payload_as_def unmarshal_raw_def dec_fields_def fld_def omit_def dec_opt_def key_matches_def lower_def

lemma connect_payload_roundtrip: "payload_as dec_connect_payload zero_connect_payload (Some (enc_connect_payload p)) = Some p"
  by (simp add: codec dec_connect_payload_def connect_payload_fields_def enc_connect_payload_def zero_connect_payload_def split: option.split)

lemma prompt_respond_payload_roundtrip: "payload_as dec_prompt_respond_payload zero_prompt_respond_payload (Some (enc_prompt_respond_payload p)) = Some p"
  by (simp add: codec dec_prompt_respond_payload_def prompt_respond_payload_fields_def enc_prompt_respond_payload_def zero_prompt_respond_payload_def split: option.split)

lemma device_payload_roundtrip: "payload_as dec_device_payload zero_device_payload (Some (enc_device_payload p)) = Some p"
  by (simp add: codec dec_device_payload_def device_payload_fields_def enc_device_payload_def zero_device_payload_def split: option.split)

lemma share_payload_roundtrip: "payload_as dec_share_payload zero_share_payload (Some (enc_share_payload p)) = Some p"
  by (simp add: codec dec_share_payload_def share_payload_fields_def enc_share_payload_def zero_share_payload_def split: option.split)

lemma notify_reply_payload_roundtrip: "payload_as dec_notify_reply_payload zero_notify_reply_payload (Some (enc_notify_reply_payload p)) = Some p"
  by (simp add: codec dec_notify_reply_payload_def notify_reply_payload_fields_def enc_notify_reply_payload_def zero_notify_reply_payload_def split: option.split)

lemma notify_dismiss_payload_roundtrip: "payload_as dec_notify_dismiss_payload zero_notify_dismiss_payload (Some (enc_notify_dismiss_payload p)) = Some p"
  by (simp add: codec dec_notify_dismiss_payload_def notify_dismiss_payload_fields_def enc_notify_dismiss_payload_def zero_notify_dismiss_payload_def split: option.split)

lemma notify_action_payload_roundtrip: "payload_as dec_notify_action_payload zero_notify_action_payload (Some (enc_notify_action_payload p)) = Some p"
  by (simp add: codec dec_notify_action_payload_def notify_action_payload_fields_def enc_notify_action_payload_def zero_notify_action_payload_def split: option.split)

lemma sftp_info_payload_roundtrip: "payload_as dec_sftp_info_payload zero_sftp_info_payload (Some (enc_sftp_info_payload p)) = Some p"
  by (simp add: codec dec_sftp_info_payload_def sftp_info_payload_fields_def enc_sftp_info_payload_def zero_sftp_info_payload_def split: option.split)

lemma sftp_mount_payload_roundtrip: "payload_as dec_sftp_mount_payload zero_sftp_mount_payload (Some (enc_sftp_mount_payload p)) = Some p"
  by (simp add: codec dec_sftp_mount_payload_def sftp_mount_payload_fields_def enc_sftp_mount_payload_def zero_sftp_mount_payload_def split: option.split)

lemma sftp_browse_payload_roundtrip: "payload_as dec_sftp_browse_payload zero_sftp_browse_payload (Some (enc_sftp_browse_payload p)) = Some p"
  by (simp add: codec dec_sftp_browse_payload_def sftp_browse_payload_fields_def enc_sftp_browse_payload_def zero_sftp_browse_payload_def split: option.split)

lemma remote_volume_mute_payload_roundtrip: "payload_as dec_remote_volume_mute_payload zero_remote_volume_mute_payload (Some (enc_remote_volume_mute_payload p)) = Some p"
  by (simp add: codec dec_remote_volume_mute_payload_def remote_volume_mute_payload_fields_def enc_remote_volume_mute_payload_def zero_remote_volume_mute_payload_def split: option.split)

lemma enc_int_not_null [simp]: "enc_int i \<noteq> JNull"
  by (simp add: enc_int_def)

lemma sms_payload_roundtrip:
  "pred_option in_int64 (smp_sub_id p) \<Longrightarrow>
   payload_as dec_sms_payload zero_sms_payload (Some (enc_sms_payload p)) = Some p"
  by (cases "smp_sub_id p";
      simp add: codec dec_sms_payload_def sms_payload_fields_def enc_sms_payload_def zero_sms_payload_def)

lemma sms_conv_payload_roundtrip:
  "in_int64 (scp_thread_id p) \<Longrightarrow> pred_option in_int64 (scp_range_start_timestamp p) \<Longrightarrow> pred_option in_int64 (scp_number_to_request p) \<Longrightarrow>
   payload_as dec_sms_conv_payload zero_sms_conv_payload (Some (enc_sms_conv_payload p)) = Some p"
  by (cases "scp_range_start_timestamp p"; cases "scp_number_to_request p";
      simp add: codec dec_sms_conv_payload_def sms_conv_payload_fields_def enc_sms_conv_payload_def zero_sms_conv_payload_def)

lemma sms_attachment_payload_roundtrip:
  "in_int64 (sap_part_id p) \<Longrightarrow> pred_option in_int64 (sap_thread_id p) \<Longrightarrow>
   payload_as dec_sms_attachment_payload zero_sms_attachment_payload (Some (enc_sms_attachment_payload p)) = Some p"
  by (cases "sap_thread_id p";
      simp add: codec dec_sms_attachment_payload_def sms_attachment_payload_fields_def enc_sms_attachment_payload_def zero_sms_attachment_payload_def)

lemma mpris_action_payload_roundtrip:
  "pred_option in_int64 (mac_volume p) \<Longrightarrow> pred_option in_int64 (mac_seek p) \<Longrightarrow> pred_option in_int64 (mac_set_position p) \<Longrightarrow>
   payload_as dec_mpris_action_payload zero_mpris_action_payload (Some (enc_mpris_action_payload p)) = Some p"
  by (cases "mac_volume p"; cases "mac_seek p"; cases "mac_set_position p";
      simp add: codec dec_mpris_action_payload_def mpris_action_payload_fields_def enc_mpris_action_payload_def zero_mpris_action_payload_def)

lemma remote_volume_set_payload_roundtrip:
  "in_int64 (rvs_volume p) \<Longrightarrow>
   payload_as dec_remote_volume_set_payload zero_remote_volume_set_payload (Some (enc_remote_volume_set_payload p)) = Some p"
  by (simp add: codec dec_remote_volume_set_payload_def remote_volume_set_payload_fields_def enc_remote_volume_set_payload_def zero_remote_volume_set_payload_def split: option.split)

lemma ipc_request_roundtrip: "dec_ipc_request (enc_ipc_request q) zero_ipc_request = Some q"
  by (simp add: codec dec_raw_def dec_ipc_request_def ipc_request_fields_def enc_ipc_request_def zero_ipc_request_def split: option.split)

lemma ipc_response_roundtrip: "dec_ipc_response (enc_ipc_response r) zero_ipc_response = Some r"
  by (simp add: codec dec_raw_def dec_ipc_response_def ipc_response_fields_def enc_ipc_response_def zero_ipc_response_def split: option.split)

lemma pair_result_roundtrip: "dec_lenient (dec_fields pair_result_fields) (Some (enc_pair_result r)) zero_pair_result = r"
  by (simp add: codec pair_result_fields_def enc_pair_result_def zero_pair_result_def)

lemma pair_listen_result_roundtrip:
  "dec_lenient (dec_fields pair_listen_result_fields) (Some (enc_pair_listen_result r)) zero_pair_listen_result = r"
  by (simp add: codec pair_listen_result_fields_def enc_pair_listen_result_def zero_pair_listen_result_def)

end
