(* ===== verification/Client.thy ===== *)
theory Client
  imports ClientProto Ipc
begin

text \<open>
  The client library (\<open>pkg/client\<close>): one call over a connection of its own, a session that keeps its connection, and a watch.

  What the connection does is in \<open>wire\<close>: the errors, and the line that arrives within a deadline.  \<open>wi_parse\<close> is the reading of
  JSON text.  A call gives the request that was written, if one was, and the result.
\<close>

section \<open>Errors\<close>

datatype client_error =
    NotRunning string
  | MarshalPayload string
  | WriteRequest string
  | ReadResponse string
  | UnmarshalResponse
  | Coded string string "json option"
  | DaemonError string
  | DecodeResult string
  | StreamEnded string
  | Cancelled

datatype sentinel =
    ErrInvalidPayload | ErrDeviceNotFound | ErrDeviceNotConnected | ErrDeviceNotPaired | ErrPluginDisabled
  | ErrPluginDisabledForDevice | ErrTimeout | ErrBusy | ErrNotSupported | ErrPermissionDenied | ErrInternal

definition known_codes :: "(string \<times> sentinel) list" where
  "known_codes =
     [(''invalid_payload'', ErrInvalidPayload), (''device_not_found'', ErrDeviceNotFound),
      (''device_not_connected'', ErrDeviceNotConnected), (''device_not_paired'', ErrDeviceNotPaired),
      (''plugin_disabled'', ErrPluginDisabled), (''plugin_disabled_for_device'', ErrPluginDisabledForDevice),
      (''timeout'', ErrTimeout), (''busy'', ErrBusy), (''not_supported'', ErrNotSupported),
      (''permission_denied'', ErrPermissionDenied), (''internal'', ErrInternal)]"

text \<open>The target is \<open>None\<close> when it is none of the errors of the package, as \<open>nil\<close> is for an unknown code.\<close>

definition Error_Is :: "string \<Rightarrow> sentinel option \<Rightarrow> bool" where
  "Error_Is code target \<longleftrightarrow> map_of known_codes code = target"

section \<open>A call\<close>

record client =
  kc_timeout :: duration
  kc_pair_listen_timeout :: duration
  kc_sftp_timeout :: duration

definition NewClient :: client where
  "NewClient = \<lparr>kc_timeout = 0, kc_pair_listen_timeout = 0, kc_sftp_timeout = 0\<rparr>"

record wire =
  wi_dial :: "string option"
  wi_write :: "string option"
  wi_line :: "duration \<Rightarrow> string option"
  wi_read_error :: string
  wi_parse :: "string \<Rightarrow> json option"

datatype payload = NoPayload | Payload json | Unmarshallable string

type_synonym 'a called = "ipc_request option \<times> (client_error + 'a)"

definition read_response :: "(string \<Rightarrow> json option) \<Rightarrow> string \<Rightarrow> client_error + ipc_response" where
  "read_response parse line =
     (case unmarshal_raw (\<lambda>j. dec_ipc_response j zero_ipc_response) (parse line) of
        None \<Rightarrow> Inl UnmarshalResponse
      | Some r \<Rightarrow>
          if rs_ok r then Inr r
          else if rs_code r \<noteq> [] then Inl (Coded (rs_code r) (rs_error r) (rs_details r))
          else Inl (DaemonError (rs_error r)))"

fun payload_json :: "payload \<Rightarrow> json option" where
  "payload_json (Payload j) = Some j"
| "payload_json _ = None"

definition callWithTimeout :: "wire \<Rightarrow> string \<Rightarrow> payload \<Rightarrow> duration \<Rightarrow> ipc_response called" where
  "callWithTimeout w command payload timeout =
     (case wi_dial w of
        Some e \<Rightarrow> (None, Inl (NotRunning e))
      | None \<Rightarrow>
          (case payload of
             Unmarshallable e \<Rightarrow> (None, Inl (MarshalPayload e))
           | _ \<Rightarrow>
               (case wi_write w of
                  Some e \<Rightarrow> (None, Inl (WriteRequest e))
                | None \<Rightarrow>
                    (Some \<lparr>rq_command = command, rq_id = None, rq_payload = payload_json payload\<rparr>,
                     case wi_line w timeout of
                       None \<Rightarrow> Inl (ReadResponse (wi_read_error w)) | Some line \<Rightarrow> read_response (wi_parse w) line))))"

definition Call :: "client \<Rightarrow> wire \<Rightarrow> string \<Rightarrow> payload \<Rightarrow> ipc_response called" where
  "Call c w command payload =
     callWithTimeout w command payload (if kc_timeout c \<le> 0 then 5 * second else kc_timeout c)"

text \<open>What becomes of the result: nothing, a value decoded from the data with an error, or one decoded as far as it goes.\<close>

definition result :: "(ipc_response \<Rightarrow> client_error + 'a) \<Rightarrow> ipc_response called \<Rightarrow> 'a called" where
  "result f x = (fst x, case snd x of Inl e \<Rightarrow> Inl e | Inr r \<Rightarrow> f r)"

abbreviation done_with :: "ipc_response called \<Rightarrow> unit called" where
  "done_with \<equiv> result (\<lambda>_. Inr ())"

definition decoded :: "string \<Rightarrow> (json \<Rightarrow> 'a option) \<Rightarrow> ipc_response \<Rightarrow> client_error + 'a" where
  "decoded what dec r = (case unmarshal_raw dec (rs_data r) of None \<Rightarrow> Inl (DecodeResult what) | Some x \<Rightarrow> Inr x)"

definition lenient :: "'a field list \<Rightarrow> 'a \<Rightarrow> ipc_response \<Rightarrow> client_error + 'a" where
  "lenient fs zero r = Inr (dec_lenient (dec_fields fs) (rs_data r) zero)"

definition lenient_list :: "'a field list \<Rightarrow> 'a \<Rightarrow> ipc_response \<Rightarrow> client_error + 'a list" where
  "lenient_list fs zero r =
     Inr (case rs_data r of Some (JArr js) \<Rightarrow> map (\<lambda>j. dec_lenient (dec_fields fs) (Some j) zero) js | _ \<Rightarrow> [])"

definition for_device :: "string \<Rightarrow> payload" where
  "for_device dev = Payload (enc_device_payload (zero_device_payload\<lparr>dp_device_id := dev\<rparr>))"

abbreviation device_call :: "client \<Rightarrow> wire \<Rightarrow> string \<Rightarrow> string \<Rightarrow> unit called" where
  "device_call c w command dev \<equiv> done_with (Call c w command (for_device dev))"

definition Client_Hello :: "client \<Rightarrow> wire \<Rightarrow> hello_response called" where
  "Client_Hello c w =
     result (decoded ''decode hello response'' (\<lambda>j. dec_hello_response j zero_hello_response))
       (Call c w CmdHello (Payload (enc_hello_payload (zero_hello_payload\<lparr>hp_client := ''pkg/client'', hp_api_versions := [APIVersion]\<rparr>))))"

text \<open>A value that cannot be marshalled is left out.\<close>

definition marshalConfigValues :: "(string \<times> payload) list \<Rightarrow> (string \<times> json) list" where
  "marshalConfigValues values = List.map_filter (\<lambda>(k, v). map_option (Pair k) (payload_json v)) values"

definition Client_ConfigSet :: "client \<Rightarrow> wire \<Rightarrow> (string \<times> payload) list \<Rightarrow> unit called" where
  "Client_ConfigSet c w values =
     done_with (Call c w CmdConfigSet (Payload (enc_config_set_payload (zero_config_set_payload\<lparr>cs_values := marshalConfigValues values\<rparr>))))"

section \<open>Devices and pairing\<close>

definition Client_Connect :: "client \<Rightarrow> wire \<Rightarrow> string \<Rightarrow> unit called" where
  "Client_Connect c w addr = done_with (Call c w CmdConnect (Payload (enc_connect_payload (zero_connect_payload\<lparr>cp_ip := addr\<rparr>))))"

definition dec_devices :: "(string \<Rightarrow> gtime option) \<Rightarrow> json \<Rightarrow> device_info list option" where
  "dec_devices parse_time j = (case j of JNull \<Rightarrow> Some [] | JArr js \<Rightarrow> dec_infos parse_time js | _ \<Rightarrow> None)"

definition Client_Devices :: "(string \<Rightarrow> gtime option) \<Rightarrow> client \<Rightarrow> wire \<Rightarrow> device_info list called" where
  "Client_Devices parse_time c w = result (decoded ''decode devices'' (dec_devices parse_time)) (Call c w CmdDevices NoPayload)"

definition Client_PairListen :: "client \<Rightarrow> wire \<Rightarrow> pair_listen_result called" where
  "Client_PairListen c w =
     result (lenient pair_listen_result_fields zero_pair_listen_result)
       (Call (c\<lparr>kc_timeout := (if kc_pair_listen_timeout c \<le> 0 then 70 * second else kc_pair_listen_timeout c)\<rparr>) w CmdPairListen NoPayload)"

definition Client_Pair :: "client \<Rightarrow> wire \<Rightarrow> string \<Rightarrow> string called" where
  "Client_Pair c w dev =
     result (\<lambda>r. map_sum id prs_verification_key (lenient pair_result_fields zero_pair_result r)) (Call c w CmdPair (for_device dev))"

definition Client_Unpair :: "client \<Rightarrow> wire \<Rightarrow> string \<Rightarrow> unit called" where
  "Client_Unpair c w dev = device_call c w CmdUnpair dev"

definition Client_BroadcastStart :: "client \<Rightarrow> wire \<Rightarrow> unit called" where
  "Client_BroadcastStart c w = done_with (Call c w CmdBroadcastStart NoPayload)"

definition Client_BroadcastStop :: "client \<Rightarrow> wire \<Rightarrow> unit called" where
  "Client_BroadcastStop c w = done_with (Call c w CmdBroadcastStop NoPayload)"

definition Client_Status :: "client \<Rightarrow> wire \<Rightarrow> status_response called" where
  "Client_Status c w =
     result (decoded [] (\<lambda>j. dec_status_response j zero_status_response)) (Call c w CmdStatus NoPayload)"

definition Client_Connectivity :: "client \<Rightarrow> wire \<Rightarrow> string \<Rightarrow> json option called" where
  "Client_Connectivity c w dev = result (\<lambda>r. Inr (rs_data r)) (Call c w CmdConnectivity (for_device dev))"

section \<open>Actions\<close>

definition Client_Ping :: "client \<Rightarrow> wire \<Rightarrow> string \<Rightarrow> unit called" where
  "Client_Ping c w dev = device_call c w CmdPing dev"

definition battery_data_fields :: "(int \<times> bool) field list" where
  "battery_data_fields =
     [(''charge'', \<lambda>j (ch, on). map_option (\<lambda>i. (i, on)) (dec_int j ch)),
      (''charging'', \<lambda>j (ch, on). map_option (\<lambda>b. (ch, b)) (dec_bool j on))]"

definition Client_Battery :: "client \<Rightarrow> wire \<Rightarrow> string \<Rightarrow> (int \<times> bool) called" where
  "Client_Battery c w dev =
     result (decoded [] (\<lambda>j. dec_struct (dec_fields battery_data_fields) j (0, False))) (Call c w CmdBattery (for_device dev))"

definition Client_ClipboardPush :: "client \<Rightarrow> wire \<Rightarrow> string \<Rightarrow> unit called" where
  "Client_ClipboardPush c w dev = device_call c w CmdClipboardPush dev"

definition remote_command_fields :: "(string \<times> string) field list" where
  "remote_command_fields =
     [(''name'', \<lambda>j (n, x). map_option (\<lambda>s. (s, x)) (dec_str j n)),
      (''command'', \<lambda>j (n, x). map_option (\<lambda>s. (n, s)) (dec_str j x))]"

definition Client_RunList :: "client \<Rightarrow> wire \<Rightarrow> string \<Rightarrow> (string \<times> string) list called" where
  "Client_RunList c w dev = result (lenient_list remote_command_fields ([], [])) (Call c w CmdRunList (for_device dev))"

definition Client_RunExec :: "client \<Rightarrow> wire \<Rightarrow> string \<Rightarrow> string \<Rightarrow> unit called" where
  "Client_RunExec c w dev key =
     done_with (Call c w CmdRunExec (Payload (enc_device_payload (zero_device_payload\<lparr>dp_device_id := dev, dp_key := key\<rparr>))))"

definition Client_ShareFile :: "client \<Rightarrow> wire \<Rightarrow> string \<Rightarrow> string \<Rightarrow> unit called" where
  "Client_ShareFile c w dev path =
     done_with (Call c w CmdShare (Payload (enc_share_payload \<lparr>shp_device_id = dev, shp_file_path = path\<rparr>)))"

definition Client_NotifyReply :: "client \<Rightarrow> wire \<Rightarrow> string \<Rightarrow> string \<Rightarrow> string \<Rightarrow> unit called" where
  "Client_NotifyReply c w dev reply message =
     done_with (Call c w CmdNotifyReply (Payload (enc_notify_reply_payload
       (zero_notify_reply_payload\<lparr>nrp_device_id := dev, nrp_reply_id := reply, nrp_message := message\<rparr>))))"

definition Client_NotifyDismiss :: "client \<Rightarrow> wire \<Rightarrow> string \<Rightarrow> string \<Rightarrow> unit called" where
  "Client_NotifyDismiss c w dev notification =
     done_with (Call c w CmdNotifyDismiss (Payload (enc_notify_dismiss_payload
       (zero_notify_dismiss_payload\<lparr>ndp_device_id := dev, ndp_notification_id := notification\<rparr>))))"

definition Client_NotifyAction :: "client \<Rightarrow> wire \<Rightarrow> string \<Rightarrow> string \<Rightarrow> string \<Rightarrow> unit called" where
  "Client_NotifyAction c w dev notification action =
     done_with (Call c w CmdNotifyAction (Payload (enc_notify_action_payload
       (zero_notify_action_payload\<lparr>nap_device_id := dev, nap_notification_id := notification, nap_action := action\<rparr>))))"

definition Client_CallMute :: "client \<Rightarrow> wire \<Rightarrow> string \<Rightarrow> unit called" where
  "Client_CallMute c w dev = device_call c w CmdCallMute dev"

definition Client_FindMyPhone :: "client \<Rightarrow> wire \<Rightarrow> string \<Rightarrow> unit called" where
  "Client_FindMyPhone c w dev = device_call c w CmdFindMyPhone dev"

definition Client_Lock :: "client \<Rightarrow> wire \<Rightarrow> string \<Rightarrow> unit called" where
  "Client_Lock c w dev = device_call c w CmdLock dev"

definition Client_Unlock :: "client \<Rightarrow> wire \<Rightarrow> string \<Rightarrow> unit called" where
  "Client_Unlock c w dev = device_call c w CmdUnlock dev"

definition Client_PromptRespond :: "client \<Rightarrow> wire \<Rightarrow> string \<Rightarrow> string \<Rightarrow> unit called" where
  "Client_PromptRespond c w prompt choice =
     done_with (Call c w CmdPromptRespond (Payload (enc_prompt_respond_payload
       (zero_prompt_respond_payload\<lparr>prr_prompt_id := prompt, prr_choice := choice\<rparr>))))"

section \<open>Media and volumes\<close>

definition Client_MprisStatus :: "client \<Rightarrow> wire \<Rightarrow> mpris_status_response called" where
  "Client_MprisStatus c w =
     result (decoded ''decode mpris status'' (\<lambda>j. dec_mpris_status_response j zero_mpris_status_response)) (Call c w CmdMprisStatus NoPayload)"

abbreviation mpris_call :: "client \<Rightarrow> wire \<Rightarrow> mpris_action_payload \<Rightarrow> unit called" where
  "mpris_call c w p \<equiv> done_with (Call c w CmdMprisAction (Payload (enc_mpris_action_payload p)))"

definition Client_MprisAction :: "client \<Rightarrow> wire \<Rightarrow> string \<Rightarrow> string \<Rightarrow> string \<Rightarrow> unit called" where
  "Client_MprisAction c w dev player action =
     mpris_call c w (zero_mpris_action_payload\<lparr>mac_device_id := dev, mac_player := player, mac_action := action\<rparr>)"

definition Client_MprisVolume :: "client \<Rightarrow> wire \<Rightarrow> string \<Rightarrow> string \<Rightarrow> int \<Rightarrow> unit called" where
  "Client_MprisVolume c w dev player volume =
     mpris_call c w (zero_mpris_action_payload\<lparr>mac_device_id := dev, mac_player := player, mac_volume := Some volume\<rparr>)"

definition Client_MprisSeek :: "client \<Rightarrow> wire \<Rightarrow> string \<Rightarrow> string \<Rightarrow> int \<Rightarrow> unit called" where
  "Client_MprisSeek c w dev player seek =
     mpris_call c w (zero_mpris_action_payload\<lparr>mac_device_id := dev, mac_player := player, mac_seek := Some seek\<rparr>)"

definition Client_MprisRemote :: "client \<Rightarrow> wire \<Rightarrow> mpris_remote_response called" where
  "Client_MprisRemote c w =
     result (decoded ''decode mpris remote'' (\<lambda>j. dec_mpris_remote_response j zero_mpris_remote_response)) (Call c w CmdMprisRemote NoPayload)"

definition Client_RemoteVolumeList :: "client \<Rightarrow> wire \<Rightarrow> string \<Rightarrow> json option called" where
  "Client_RemoteVolumeList c w dev = result (\<lambda>r. Inr (rs_data r)) (Call c w CmdRemoteVolumeList (for_device dev))"

definition Client_RemoteVolumeSet :: "client \<Rightarrow> wire \<Rightarrow> string \<Rightarrow> string \<Rightarrow> int \<Rightarrow> unit called" where
  "Client_RemoteVolumeSet c w dev sink volume =
     done_with (Call c w CmdRemoteVolumeSet (Payload (JObj [(''deviceId'', JStr dev), (''name'', JStr sink), (''volume'', enc_int volume)])))"

definition Client_RemoteVolumeMute :: "client \<Rightarrow> wire \<Rightarrow> string \<Rightarrow> string \<Rightarrow> bool \<Rightarrow> unit called" where
  "Client_RemoteVolumeMute c w dev sink muted =
     done_with (Call c w CmdRemoteVolumeMute (Payload (JObj [(''deviceId'', JStr dev), (''name'', JStr sink), (''muted'', JBool muted)])))"

section \<open>Files of a phone\<close>

definition sftpTimeout :: "client \<Rightarrow> duration" where
  "sftpTimeout c = (if kc_sftp_timeout c > 0 then kc_sftp_timeout c else 60 * second)"

definition Client_SftpMount :: "client \<Rightarrow> wire \<Rightarrow> string \<Rightarrow> bool option \<Rightarrow> unit called" where
  "Client_SftpMount c w dev read_only =
     done_with (Call c w CmdSftpMount (Payload (enc_sftp_mount_payload \<lparr>smt_device_id = dev, smt_read_only = read_only\<rparr>)))"

definition Client_SftpInfo :: "client \<Rightarrow> wire \<Rightarrow> string \<Rightarrow> bool \<Rightarrow> sftp_info_response called" where
  "Client_SftpInfo c w dev show_password =
     result (lenient sftp_info_response_fields zero_sftp_info_response)
       (Call c w CmdSftpInfo (Payload (enc_sftp_info_payload \<lparr>sip_device_id = dev, sip_show_password = show_password\<rparr>)))"

definition Client_SftpVolumes :: "client \<Rightarrow> wire \<Rightarrow> string \<Rightarrow> storage_volume_response list called" where
  "Client_SftpVolumes c w dev =
     result (lenient_list storage_volume_response_fields zero_storage_volume_response) (Call c w CmdSftpVolumes (for_device dev))"

definition Client_SftpMountLocal :: "client \<Rightarrow> wire \<Rightarrow> string \<Rightarrow> bool option \<Rightarrow> string called" where
  "Client_SftpMountLocal c w dev read_only =
     result (lenient [(''path'', dec_str)] [])
       (callWithTimeout w CmdSftpMountLocal (Payload (enc_sftp_mount_payload \<lparr>smt_device_id = dev, smt_read_only = read_only\<rparr>))
         (sftpTimeout c))"

definition Client_SftpUnmount :: "client \<Rightarrow> wire \<Rightarrow> string \<Rightarrow> unit called" where
  "Client_SftpUnmount c w dev = device_call c w CmdSftpUnmount dev"

definition Client_SftpBrowse ::
  "client \<Rightarrow> wire \<Rightarrow> string \<Rightarrow> string \<Rightarrow> bool option \<Rightarrow> (string \<times> storage_volume_response list) called" where
  "Client_SftpBrowse c w dev volume read_only =
     result (\<lambda>r. map_sum id (\<lambda>b. (sbr_path b, sbr_volumes b)) (lenient sftp_browse_response_fields zero_sftp_browse_response r))
       (callWithTimeout w CmdSftpBrowse
         (Payload (enc_sftp_browse_payload \<lparr>sbp_device_id = dev, sbp_volume = volume, sbp_read_only = read_only\<rparr>)) (sftpTimeout c))"

section \<open>Messages and contacts\<close>

definition Client_SendSMS :: "client \<Rightarrow> wire \<Rightarrow> string \<Rightarrow> string \<Rightarrow> string \<Rightarrow> int list \<Rightarrow> unit called" where
  "Client_SendSMS c w dev phone message sub =
     done_with (Call c w CmdSendSMS (Payload (enc_sms_payload
       \<lparr>smp_device_id = dev, smp_phone_number = phone, smp_message = message,
        smp_sub_id = (case sub of [] \<Rightarrow> None | i # is \<Rightarrow> Some i)\<rparr>)))"

definition Client_SmsRequestConversations :: "client \<Rightarrow> wire \<Rightarrow> string \<Rightarrow> unit called" where
  "Client_SmsRequestConversations c w dev = device_call c w CmdSmsRequestConvs dev"

definition Client_SmsRequestConversationRange ::
  "client \<Rightarrow> wire \<Rightarrow> string \<Rightarrow> int \<Rightarrow> int option \<Rightarrow> int option \<Rightarrow> unit called" where
  "Client_SmsRequestConversationRange c w dev thread range_start number =
     done_with (Call c w CmdSmsRequestConv (Payload (enc_sms_conv_payload
       \<lparr>scp_device_id = dev, scp_thread_id = thread, scp_range_start_timestamp = range_start, scp_number_to_request = number\<rparr>)))"

definition Client_SmsRequestConversation :: "client \<Rightarrow> wire \<Rightarrow> string \<Rightarrow> int \<Rightarrow> unit called" where
  "Client_SmsRequestConversation c w dev thread = Client_SmsRequestConversationRange c w dev thread None None"

definition Client_SmsRequestAttachment :: "client \<Rightarrow> wire \<Rightarrow> string \<Rightarrow> int \<Rightarrow> string \<Rightarrow> int list \<Rightarrow> unit called" where
  "Client_SmsRequestAttachment c w dev part unique thread =
     done_with (Call c w CmdSmsRequestAttachment (Payload (enc_sms_attachment_payload
       \<lparr>sap_device_id = dev, sap_part_id = part, sap_unique_identifier = unique,
        sap_thread_id = (case thread of [] \<Rightarrow> None | i # is \<Rightarrow> Some i)\<rparr>)))"

definition Client_ContactsSync :: "client \<Rightarrow> wire \<Rightarrow> string \<Rightarrow> unit called" where
  "Client_ContactsSync c w dev = device_call c w CmdContactsSync dev"

definition Client_ContactsList :: "client \<Rightarrow> wire \<Rightarrow> string \<Rightarrow> contact_summary list called" where
  "Client_ContactsList c w dev =
     result (decoded ''decode contacts'' (\<lambda>j. dec_list dec_contact_summary zero_contact_summary j [])) (Call c w CmdContactsList (for_device dev))"

definition Client_ContactsClear :: "client \<Rightarrow> wire \<Rightarrow> string \<Rightarrow> unit called" where
  "Client_ContactsClear c w dev = device_call c w CmdContactsClear dev"

section \<open>A session\<close>

text \<open>
  The number of the next request and what the reader holds.  What arrives before a deadline is in \<open>ss_arrives\<close>: a read that
  finds no end of a line fails and drops what it had.
\<close>

record session =
  ks_next :: nat
  ks_buffer :: string

record session_wire =
  ss_write :: "string option"
  ss_arrives :: string
  ss_read_error :: string
  ss_parse :: "string \<Rightarrow> json option"

definition ReadBytes :: "string \<Rightarrow> string option \<times> string" where
  "ReadBytes s =
     (if newline \<in> set s then (Some (takeWhile (\<lambda>c. c \<noteq> newline) s @ [newline]), tl (dropWhile (\<lambda>c. c \<noteq> newline) s)) else (None, []))"

definition session_request :: "nat \<Rightarrow> string \<Rightarrow> json option \<Rightarrow> ipc_request" where
  "session_request i command payload = \<lparr>rq_command = command, rq_id = Some (JNum (show_nat i)), rq_payload = payload\<rparr>"

definition session_read :: "session_wire \<Rightarrow> session \<Rightarrow> (client_error + ipc_response) \<times> session" where
  "session_read w s =
     (case ReadBytes (ks_buffer s @ ss_arrives w) of
        (None, rest) \<Rightarrow> (Inl (ReadResponse (ss_read_error w)), s\<lparr>ks_buffer := rest\<rparr>)
      | (Some line, rest) \<Rightarrow> (read_response (ss_parse w) line, s\<lparr>ks_buffer := rest\<rparr>))"

definition session_write :: "session_wire \<Rightarrow> nat \<Rightarrow> string \<Rightarrow> payload \<Rightarrow> client_error + ipc_request" where
  "session_write w i command payload =
     (case payload of
        Unmarshallable e \<Rightarrow> Inl (MarshalPayload e)
      | _ \<Rightarrow> (case ss_write w of Some e \<Rightarrow> Inl (WriteRequest e) | None \<Rightarrow> Inr (session_request i command (payload_json payload))))"

definition OpenKeepAlive :: "string option \<Rightarrow> session_wire \<Rightarrow> client_error + session" where
  "OpenKeepAlive dial w =
     (case dial of
        Some e \<Rightarrow> Inl (NotRunning e)
      | None \<Rightarrow>
          (case session_write w 1 CmdHello (Payload (enc_hello_payload (zero_hello_payload\<lparr>hp_keep_alive := True\<rparr>))) of
             Inl e \<Rightarrow> Inl e
           | Inr _ \<Rightarrow> (case session_read w \<lparr>ks_next = 2, ks_buffer = []\<rparr> of (Inl e, _) \<Rightarrow> Inl e | (Inr _, s) \<Rightarrow> Inr s)))"

definition Session_Call :: "session_wire \<Rightarrow> string \<Rightarrow> payload \<Rightarrow> session \<Rightarrow> ipc_response called \<times> session" where
  "Session_Call w command payload s =
     (let i = ks_next s; s = s\<lparr>ks_next := (ks_next s + 1) mod 2 ^ 64\<rparr>
      in case session_write w i command payload of
           Inl e \<Rightarrow> ((None, Inl e), s)
         | Inr req \<Rightarrow> (case session_read w s of (r, s) \<Rightarrow> ((Some req, r), s)))"

section \<open>A watch\<close>

definition dec_event :: "(string \<Rightarrow> int option) \<Rightarrow> json \<Rightarrow> json event option" where
  "dec_event parse_time j =
     dec_struct (dec_fields
       [(''seq'', fld dec_uint ev_seq ev_seq_update), (''type'', fld dec_str ev_type ev_type_update),
        (''timestamp'', fld (\<lambda>j old. case j of JNull \<Rightarrow> Some old | JStr s \<Rightarrow> parse_time s | _ \<Rightarrow> None) ev_time ev_time_update),
        (''deviceId'', fld dec_str ev_device ev_device_update), (''payload'', fld (\<lambda>j old. Some j) ev_payload ev_payload_update)]) j
       \<lparr>ev_seq = 0, ev_type = [], ev_time = 0, ev_device = [], ev_payload = JNull\<rparr>"

text \<open>
  The answer to the request, and then the lines: one that is no event is skipped.  \<open>ended\<close> is how the stream ends: the error of
  the read, or none when the caller has cancelled.
\<close>

definition WatchSince ::
  "wire \<Rightarrow> (string \<Rightarrow> int option) \<Rightarrow> string list \<Rightarrow> nat \<Rightarrow> string option \<Rightarrow> string list \<Rightarrow> string option \<Rightarrow>
     ipc_request option \<times> json event list \<times> client_error" where
  "WatchSince w parse_time fs since reply lines ended =
     (case wi_dial w of
        Some e \<Rightarrow> (None, [], NotRunning e)
      | None \<Rightarrow>
          (case wi_write w of
             Some e \<Rightarrow> (None, [], WriteRequest e)
           | None \<Rightarrow>
               (Some \<lparr>rq_command = CmdWatch, rq_id = None,
                  rq_payload = Some (enc_watch_payload (zero_watch_payload\<lparr>wp_events := fs, wp_since := since\<rparr>))\<rparr>,
                (case reply of
                   None \<Rightarrow> ([], ReadResponse (wi_read_error w))
                 | Some line \<Rightarrow>
                     (case unmarshal_raw (\<lambda>j. dec_ipc_response j zero_ipc_response) (wi_parse w line) of
                        None \<Rightarrow> ([], UnmarshalResponse)
                      | Some r \<Rightarrow>
                          if \<not> rs_ok r then ([], DaemonError (rs_error r))
                          else (List.map_filter (\<lambda>l. Option.bind (wi_parse w l) (dec_event parse_time)) lines,
                                case ended of None \<Rightarrow> Cancelled | Some e \<Rightarrow> StreamEnded e))))))"

section \<open>Facts\<close>

lemma split_at_newline:
  "newline \<notin> set xs \<Longrightarrow> takeWhile (\<lambda>c. c \<noteq> newline) (xs @ newline # ys) = xs \<and> dropWhile (\<lambda>c. c \<noteq> newline) (xs @ newline # ys) = newline # ys"
  by (induction xs) auto

text \<open>A call is answered by the route of its command, with the payload that was given, and its answer is read as it was meant.\<close>
theorem call_reaches_route:
  assumes "\<And>j. wi_parse w (render j) = Some j" and "wi_dial w = None" and "wi_write w = None" and "\<forall>e. p \<noteq> Unmarshallable e"
    and "req = \<lparr>rq_command = command, rq_id = None, rq_payload = payload_json p\<rparr>"
    and "wi_line w timeout = Some (render (enc_ipc_response (fst (answer ro routes req world))))"
  shows "callWithTimeout w command p timeout = (Some req,
    let r = fst (answer ro routes req world) in
      if rs_ok r then Inr r else Inl (if rs_code r \<noteq> [] then Coded (rs_code r) (rs_error r) (rs_details r) else DaemonError (rs_error r)))"
  using assms ipc_response_roundtrip
  by (cases p) (simp_all add: callWithTimeout_def read_response_def unmarshal_raw_def Let_def)

text \<open>
  The answer of a request that was waited for too long is given to the next one: what arrives is not compared with the number of
  the request.
\<close>
theorem late_answer_goes_to_next_call:
  assumes "ks_buffer s = []" and "ss_write w1 = None" and "newline \<notin> set (ss_arrives w1)"
    and "ss_write w2 = None" and "ss_arrives w2 = late @ newline # rest" and "newline \<notin> set late"
    and "ss_parse w2 (late @ [newline]) = Some (enc_ipc_response r)" and "rs_ok r"
  shows "snd (fst (Session_Call w2 command2 (Payload j2) (snd (Session_Call w1 command1 (Payload j1) s)))) = Inr r"
proof -
  have line: "ReadBytes (late @ newline # rest) = (Some (late @ [newline]), rest)"
    using split_at_newline [OF assms(6)] by (simp add: ReadBytes_def)
  have "ReadBytes (ss_arrives w1) = (None, [])" using assms(3) by (simp add: ReadBytes_def)
  then show ?thesis using assms line ipc_response_roundtrip [of r]
    by (simp add: Session_Call_def session_write_def session_read_def read_response_def unmarshal_raw_def Let_def)
qed

text \<open>
  The list of a phone's commands is waited for five seconds by a client that sets no deadline, and for ten by the daemon: an
  answer of the phone in between is lost.
\<close>
theorem run_list_gives_up_early:
  assumes "wi_dial w = None" and "wi_write w = None" and "\<And>t. wi_line w t = (if 5 * second < t then Some line else None)"
  shows "snd (Client_RunList NewClient w dev) = Inl (ReadResponse (wi_read_error w))"
  using assms by (simp add: Client_RunList_def result_def Call_def callWithTimeout_def NewClient_def for_device_def second_def)

text \<open>
  A relative seek that a client asks for arrives at the phone as a position: through the request that is written, the route and
  the plugin.
\<close>
theorem seek_reaches_phone:
  assumes "fst (Client_MprisSeek c w dev player seek) = Some req" and "in_int64 seek" and "dev \<noteq> []" and "player \<noteq> []"
    and "GetByName ''MPRIS'' plugins \<noteq> None" and "reg_Get dev rg \<noteq> None" and "fst (RemoteState env dev st) = Some np"
  shows "fst (snd (route_mpris_action None env rg plugins req st)) =
    [ToPhone dev ''kdeconnect.mpris.request'' (enc_mpris_request
       (zero_mpris_request\<lparr>mq_player := player, mq_set_position := Some (seek_target np seek)\<rparr>))]"
proof -
  let ?p = "zero_mpris_action_payload\<lparr>mac_device_id := dev, mac_player := player, mac_seek := Some seek\<rparr>"
  have req: "rq_payload req = Some (enc_mpris_action_payload ?p)"
    using assms(1) by (auto simp: Client_MprisSeek_def result_def Call_def callWithTimeout_def split: option.splits)
  have "payload_as dec_mpris_action_payload zero_mpris_action_payload (rq_payload req) = Some ?p"
    unfolding req by (rule mpris_action_payload_roundtrip) (simp_all add: zero_mpris_action_payload_def assms(2))
  moreover have "CanonicalAction [] = []" by (simp add: CanonicalAction_def canonicalActions_def)
  moreover obtain st' where "RemoteState env dev st = (Some np, st')" using assms(7) by (cases "RemoteState env dev st") simp
  ultimately show ?thesis using assms(3-6)
    by (simp add: route_mpris_action_def mpris_target_def mpris_player_def SendAction_def zero_mpris_action_payload_def
        zero_mpris_request_def)
qed

end
