(* ===== verification/GoFmt.thy ===== *)
theory GoFmt
  imports GoFloat GoStrings Paths "HOL-Library.AList" "HOL-Library.List_Lexorder"
begin

text \<open>
  What \<open>fmt\<close> prints for a value decoded from JSON into \<open>any\<close>: a number is a \<open>float64\<close>, an object a map, an array a slice.
  A floating-point number is printed with the fewest digits that read back as it (\<open>strconv\<close> with precision -1); zero has
  no sign here.
\<close>

section \<open>Floating-point text\<close>

definition ten_to :: "int \<Rightarrow> rat" where
  "ten_to e = (if e \<ge> 0 then 10 ^ nat e else 1 / 10 ^ nat (- e))"

text \<open>The exponent of the first digit of a positive number.\<close>

definition dec_exponent :: "rat \<Rightarrow> int" where
  "dec_exponent r =
     (let (p, q) = quotient_of r; k = int (length (show_nat (nat p))) - int (length (show_nat (nat q)))
      in if r \<ge> ten_to k then k else k - 1)"

text \<open>The nearest number of \<open>n\<close> digits that rounds to \<open>r\<close>, as digits and scale, trying more digits until one does.\<close>

definition digits_at :: "rat \<Rightarrow> int \<Rightarrow> int option" where
  "digits_at r scale =
     (let lo = \<lfloor>r / ten_to scale\<rfloor>; hi = lo + 1;
          ok = (\<lambda>d. round_float (of_int d * ten_to scale) = Fin r)
      in if ok lo \<and> ok hi then Some (if r / ten_to scale - of_int lo < of_int hi - r / ten_to scale then lo else hi)
         else if ok lo then Some lo else if ok hi then Some hi else None)"

fun shortest_from :: "nat \<Rightarrow> nat \<Rightarrow> rat \<Rightarrow> int \<times> int" where
  "shortest_from 0 n r = (\<lfloor>r / ten_to (dec_exponent r - 16)\<rfloor>, dec_exponent r - 16)"
| "shortest_from (Suc fuel) n r =
     (let scale = dec_exponent r - int n in case digits_at r scale of Some d \<Rightarrow> (d, scale) | None \<Rightarrow> shortest_from fuel (Suc n) r)"

text \<open>The digits without zeros at the end, and the exponent of the first one; seventeen digits always suffice.\<close>

fun drop_zeros :: "string \<Rightarrow> string" where
  "drop_zeros s = rev (dropWhile (\<lambda>c. c = CHR ''0'') (rev s))"

definition shortest :: "rat \<Rightarrow> string \<times> int" where
  "shortest r =
     (case shortest_from 17 0 r of (d, scale) \<Rightarrow>
        let s = show_nat (nat d) in (drop_zeros s, scale + int (length s) - 1))"

definition format_e :: "bool \<Rightarrow> string \<Rightarrow> int \<Rightarrow> string" where
  "format_e two_digits ds e =
     take 1 ds @ (if length ds > 1 then CHR ''.'' # drop 1 ds else []) @ ''e'' @ (if e < 0 then ''-'' else ''+'')
     @ (let x = show_nat (nat \<bar>e\<bar>) in if two_digits \<and> length x < 2 then CHR ''0'' # x else x)"

definition format_plain :: "string \<Rightarrow> int \<Rightarrow> string" where
  "format_plain ds e =
     (if e < 0 then ''0.'' @ replicate (nat (- e) - 1) (CHR ''0'') @ ds
      else let n = nat e + 1
           in if length ds \<le> n then ds @ replicate (n - length ds) (CHR ''0'') else take n ds @ CHR ''.'' # drop n ds)"

definition signed :: "(rat \<Rightarrow> string) \<Rightarrow> rat \<Rightarrow> string" where
  "signed f r = (if r = 0 then ''0'' else if r < 0 then CHR ''-'' # f (- r) else f r)"

text \<open>\<open>%v\<close> writes an exponent below -4 and from 6 on, \<open>encoding/json\<close> below -6 and from 21 on.\<close>

definition float_v :: "rat \<Rightarrow> string" where
  "float_v = signed (\<lambda>r. case shortest r of (ds, e) \<Rightarrow> if e < -4 \<or> e \<ge> 6 then format_e True ds e else format_plain ds e)"

definition float_json :: "rat \<Rightarrow> string" where
  "float_json = signed (\<lambda>r. case shortest r of (ds, e) \<Rightarrow> if e < -6 \<or> e \<ge> 21 then format_e (e \<ge> 0) ds e else format_plain ds e)"

definition number_of :: "string \<Rightarrow> rat" where
  "number_of lit = (case round_float (literal_value lit) of Fin r \<Rightarrow> r | _ \<Rightarrow> 0)"

section \<open>Verbs\<close>

text \<open>A map is printed by its keys; of a key that comes twice the last value counts.\<close>

definition map_entries :: "(string \<times> 'v) list \<Rightarrow> (string \<times> 'v) list" where
  "map_entries es = sort_key (\<lambda>e. map byte (fst e)) (fold (\<lambda>(k, v). AList.update k v) es [])"

definition spaced :: "string list \<Rightarrow> string" where
  "spaced = join_with '' ''"

fun fmt_v :: "json \<Rightarrow> string" where
  "fmt_v JNull = ''<nil>''"
| "fmt_v (JBool b) = (if b then ''true'' else ''false'')"
| "fmt_v (JNum lit) = float_v (number_of lit)"
| "fmt_v (JStr s) = s"
| "fmt_v (JArr js) = ''['' @ spaced (map fmt_v js) @ '']''"
| "fmt_v (JObj es) = ''map['' @ spaced (map (\<lambda>(k, s). k @ '':'' @ s) (map_entries (map (\<lambda>(k, j). (k, fmt_v j)) es))) @ '']''"

definition bad_verb :: "string \<Rightarrow> json \<Rightarrow> string" where
  "bad_verb typ j = ''%!s('' @ typ @ ''='' @ fmt_v j @ '')''"

text \<open>\<open>%s\<close>; \<open>nil\<close> at the top is a bad verb, inside it is printed as itself.\<close>

fun fmt_s :: "json \<Rightarrow> string" where
  "fmt_s JNull = ''<nil>''"
| "fmt_s (JBool b) = bad_verb ''bool'' (JBool b)"
| "fmt_s (JNum lit) = bad_verb ''float64'' (JNum lit)"
| "fmt_s (JStr s) = s"
| "fmt_s (JArr js) = ''['' @ spaced (map fmt_s js) @ '']''"
| "fmt_s (JObj es) = ''map['' @ spaced (map (\<lambda>(k, s). k @ '':'' @ s) (map_entries (map (\<lambda>(k, j). (k, fmt_s j)) es))) @ '']''"

definition verb_s :: "json \<Rightarrow> string" where
  "verb_s j = (if j = JNull then ''%!s(<nil>)'' else fmt_s j)"

text \<open>\<open>%-8s\<close> counts runes.\<close>

definition pad_right :: "nat \<Rightarrow> string \<Rightarrow> string" where
  "pad_right n s = s @ replicate (n - length (runes_of s)) (CHR '' '')"

text \<open>A value that is marshalled again, as \<open>encoding/json\<close> writes it.\<close>

fun reencode :: "json \<Rightarrow> json" where
  "reencode (JNum lit) = JNum (float_json (number_of lit))"
| "reencode (JArr js) = JArr (map reencode js)"
| "reencode (JObj es) = JObj (map_entries (map (\<lambda>(k, j). (k, reencode j)) es))"
| "reencode j = j"

section \<open>Facts\<close>

lemma length_show_nat: "10 ^ k \<le> n \<Longrightarrow> k < length (show_nat n)"
proof (induction k arbitrary: n)
  case 0
  then show ?case using show_nat_not_Nil [of n] by simp
next
  case (Suc k)
  then have "10 ^ k \<le> n div 10" by (simp add: less_eq_div_iff_mult_less_eq mult.commute)
  moreover have "\<not> n < 10" using Suc.prems by (simp add: not_less) (metis le_trans mult_le_mono2 mult_1_right one_le_power numeral_nat(7) one_le_numeral)
  ultimately show ?case using Suc.IH [of "n div 10"] by (simp add: show_nat.simps [of n])
qed

lemma show_nat_lower: "0 < n \<Longrightarrow> 10 ^ (length (show_nat n) - 1) \<le> n"
proof (induction n rule: show_nat.induct)
  case (1 n)
  show ?case
  proof (cases "n < 10")
    case False
    then have "10 ^ (length (show_nat (n div 10)) - 1) \<le> n div 10" using 1 by simp
    then have "10 ^ (length (show_nat (n div 10)) - 1) * 10 \<le> n" by linarith
    moreover have "10 ^ length (show_nat (n div 10)) = 10 ^ (length (show_nat (n div 10)) - 1) * (10 :: nat)"
      using show_nat_not_Nil by (cases "show_nat (n div 10)") (auto simp: mult.commute)
    ultimately show ?thesis using False by (simp add: show_nat.simps [of n])
  qed (use 1 in \<open>simp add: show_nat.simps [of n]\<close>)
qed

lemma dec_exponent_nat:
  assumes "10 ^ 6 \<le> n" shows "6 \<le> dec_exponent (of_nat n) \<and> ten_to (dec_exponent (of_nat n)) \<le> of_nat n"
proof -
  have q: "quotient_of (of_nat n) = (int n, 1)" using quotient_of_int [of "int n"] by simp
  have one: "length (show_nat 1) = 1" by (subst show_nat.simps) simp
  have len: "6 < length (show_nat n)" using length_show_nat [OF assms] .
  have "10 ^ (length (show_nat n) - 1) \<le> n" using assms by (intro show_nat_lower) simp
  then have le: "(10 :: rat) ^ (length (show_nat n) - 1) \<le> of_nat n" by (metis of_nat_le_iff of_nat_numeral of_nat_power)
  have k: "int (length (show_nat n)) - 1 = int (length (show_nat n) - 1)" using len by simp
  have "ten_to (int (length (show_nat n)) - 1) \<le> of_nat n" using le unfolding k by (simp add: ten_to_def)
  then have "dec_exponent (of_nat n) = int (length (show_nat n) - 1)"
    using one unfolding dec_exponent_def q Let_def prod.case by (simp add: k)
  moreover have "ten_to (int (length (show_nat n) - 1)) \<le> of_nat n" using le by (simp add: ten_to_def)
  ultimately show ?thesis using len by simp
qed

lemma ten_to_powi: "ten_to e = 10 powi e"
  by (simp add: ten_to_def power_int_def inverse_eq_divide power_one_over)

lemma digits_at_floor: "digits_at r scale = Some d \<Longrightarrow> \<lfloor>r / ten_to scale\<rfloor> \<le> d"
  by (auto simp: digits_at_def Let_def split: if_splits)

lemma enough_digits:
  assumes "ten_to e \<le> r" and "\<lfloor>r / ten_to (e - int m)\<rfloor> \<le> d"
  shows "0 < d \<and> e \<le> (e - int m) + int (length (show_nat (nat d))) - 1"
proof -
  have "ten_to e = ten_to (e - int m) * 10 ^ m" by (simp add: ten_to_powi power_int_diff)
  moreover have "0 < ten_to (e - int m)" by (simp add: ten_to_powi)
  ultimately have "of_int (10 ^ m) \<le> r / ten_to (e - int m)" using assms(1) by (simp add: le_divide_eq mult.commute)
  then have le: "10 ^ m \<le> d" using assms(2) by (meson le_floor_iff order_trans)
  then have "10 ^ m \<le> nat d" by (metis nat_int nat_mono of_nat_numeral of_nat_power)
  moreover have "0 < d" using le by (meson less_le_trans zero_less_numeral zero_less_power)
  ultimately show ?thesis using length_show_nat [of m "nat d"] by simp
qed

lemma shortest_exponent:
  assumes "ten_to (dec_exponent r) \<le> r" and "shortest r = (ds, e)"
  shows "dec_exponent r \<le> e"
proof -
  have gen: "shortest_from fuel m r = (d, scale) \<Longrightarrow> m + fuel = 17 \<Longrightarrow> dec_exponent r \<le> scale + int (length (show_nat (nat d))) - 1"
    for fuel m d scale
  proof (induction fuel arbitrary: m)
    case 0
    then show ?case using enough_digits [OF assms(1), of 16] by auto
  next
    case (Suc fuel)
    show ?case
    proof (cases "digits_at r (dec_exponent r - int m)")
      case None
      then show ?thesis using Suc.prems Suc.IH [of "Suc m"] by (simp add: Let_def)
    next
      case (Some x)
      then show ?thesis using Suc.prems enough_digits [OF assms(1) digits_at_floor [OF Some]] by (simp add: Let_def)
    qed
  qed
  obtain d scale where s: "shortest_from 17 0 r = (d, scale)" by force
  then show ?thesis using gen [OF s] assms(2) by (simp add: shortest_def Let_def)
qed

text \<open>A number from a million on is printed with an exponent.\<close>

lemma millions_have_exponent:
  assumes "number_of lit = of_nat n" and "10 ^ 6 \<le> n" shows "CHR ''e'' \<in> set (fmt_v (JNum lit))"
proof -
  obtain ds e where s: "shortest (of_nat n) = (ds, e)" by force
  have "6 \<le> e" using dec_exponent_nat [OF assms(2)] shortest_exponent [OF _ s] by fastforce
  moreover have "n \<noteq> 0" using assms(2) by (metis not_numeral_le_zero power_eq_0_iff zero_neq_numeral le_zero_eq)
  ultimately show ?thesis using s assms(1) by (simp add: float_v_def signed_def format_e_def)
qed

end
