(* ===== verification/EventFormat.thy ===== *)
theory EventFormat
  imports GoFmt Client
begin

text \<open>
  How the command line prints events and reports: \<open>cmd/kcd/format_event.go\<close> and \<open>cmd/kcd/cli_connectivity.go\<close>.

  The payload of an event comes from the stream of the daemon, so it is JSON that was decoded into \<open>any\<close>: a number is a
  \<open>float64\<close>, and the other widths that the code accepts do not occur.  \<open>conv\<close> is the conversion of a number that no
  integer holds.
\<close>

section \<open>Text\<close>

text \<open>The ellipsis and the symbols in UTF-8.\<close>

definition ellipsis :: string where "ellipsis = [CHR 0xE2, CHR 0x80, CHR 0xA6]"
definition stop_sign :: string where "stop_sign = [CHR 0xE2, CHR 0x8F, CHR 0xB9]"
definition play_sign :: string where "play_sign = [CHR 0xE2, CHR 0x96, CHR 0xB6]"
definition pause_sign :: string where "pause_sign = [CHR 0xE2, CHR 0x8F, CHR 0xB8]"
definition full_dot :: string where "full_dot = [CHR 0xE2, CHR 0x97, CHR 0x8F]"
definition empty_dot :: string where "empty_dot = [CHR 0xE2, CHR 0x97, CHR 0x8B]"

definition truncate_text :: "string \<Rightarrow> nat \<Rightarrow> string" where
  "truncate_text s n = (if length s > n then take (n - 1) s @ ellipsis else s)"

definition oneLine :: "string \<Rightarrow> string" where
  "oneLine s = join_with '' '' (Fields s)"

definition brief :: "string \<Rightarrow> nat \<Rightarrow> string" where
  "brief s n = oneLine (truncate_text s n)"

section \<open>Payloads\<close>

text \<open>The assertion to a map gives the empty one for another payload; of a key that comes twice the last value counts.\<close>

type_synonym payload_map = "(string \<times> json) list"

definition as_map_payload :: "json \<Rightarrow> payload_map" where
  "as_map_payload j = (case j of JObj es \<Rightarrow> rev es | _ \<Rightarrow> [])"

definition at_key :: "payload_map \<Rightarrow> string \<Rightarrow> json" where
  "at_key p key = (case map_of p key of None \<Rightarrow> JNull | Some j \<Rightarrow> j)"

definition str :: "payload_map \<Rightarrow> string \<Rightarrow> string" where
  "str p key = (case at_key p key of JStr s \<Rightarrow> s | _ \<Rightarrow> [])"

definition num :: "(go_float \<Rightarrow> int) \<Rightarrow> payload_map \<Rightarrow> string \<Rightarrow> int option" where
  "num conv p key = (case at_key p key of JNum lit \<Rightarrow> Some (to_int64 conv (Fin (number_of lit))) | _ \<Rightarrow> None)"

definition num0 :: "(go_float \<Rightarrow> int) \<Rightarrow> payload_map \<Rightarrow> string \<Rightarrow> int" where
  "num0 conv p key = (case num conv p key of None \<Rightarrow> 0 | Some i \<Rightarrow> i)"

definition is_true :: "payload_map \<Rightarrow> string \<Rightarrow> bool" where
  "is_true p key \<longleftrightarrow> at_key p key = JBool True"

text \<open>\<open>%s\<close> and \<open>%v\<close> of a key.\<close>

abbreviation s_of :: "payload_map \<Rightarrow> string \<Rightarrow> string" where "s_of p key \<equiv> verb_s (at_key p key)"
abbreviation v_of :: "payload_map \<Rightarrow> string \<Rightarrow> string" where "v_of p key \<equiv> fmt_v (at_key p key)"

section \<open>Connectivity\<close>

definition signalDots :: "int \<Rightarrow> string" where
  "signalDots level =
     (let n = nat (min 4 (max 0 level)) in concat (replicate n full_dot) @ concat (replicate (4 - n) empty_dot))"

text \<open>\<open>EqualFold\<close> with an ASCII text.\<close>

definition formatSIMStatus :: "string \<Rightarrow> int \<Rightarrow> string" where
  "formatSIMStatus network level =
     (if level \<le> 0 then ''No service''
      else pad_right 8 (if network = [] \<or> fold_name network = ''unknown'' then ''Cellular'' else network) @ '' '' @ signalDots level)"

definition sim_line :: "string \<times> signal_strength \<Rightarrow> string" where
  "sim_line x =
     (case x of (k, sig) \<Rightarrow> ''SIM '' @ k @ '': '' @ formatSIMStatus
        (if sg_network_detailed_type sig = [] then sg_network_type sig else sg_network_detailed_type sig) (sg_signal_strength sig))"

definition formatConnectivity :: "connectivity_body \<Rightarrow> string list" where
  "formatConnectivity body =
     (if body = [] then [''No SIM or cellular data available'']
      else let sorted = sort_key (\<lambda>x. map byte (fst x)) body
           in map sim_line (filter (\<lambda>x. fst x = ''0'') sorted @ filter (\<lambda>x. fst x \<noteq> ''0'') sorted))"

section \<open>Details\<close>

definition runCommandLabel :: "payload_map \<Rightarrow> string" where
  "runCommandLabel p = (if str p ''key'' \<noteq> [] then brief (str p ''key'') 40 else ''#'' @ v_of p ''id'')"

definition text_lines :: "string \<Rightarrow> json list \<Rightarrow> string list" where
  "text_lines tag js =
     List.map_filter (\<lambda>j. case j of JStr s \<Rightarrow> if s = [] then None else Some (tag @ '': '' @ oneLine s) | _ \<Rightarrow> None) js"

definition runCommandLines :: "json \<Rightarrow> string \<Rightarrow> string" where
  "runCommandLines raw tag = (case raw of JArr js \<Rightarrow> join_with '' | '' (text_lines tag js) | _ \<Rightarrow> [])"

definition runCommandDetail :: "payload_map \<Rightarrow> string" where
  "runCommandDetail p =
     (case at_key p ''stdout'' of
        JArr js \<Rightarrow>
          join_with '' | '' (filter (\<lambda>s. s \<noteq> []) [runCommandLines (JArr js) ''out'', runCommandLines (at_key p ''stderr'') ''err''])
      | _ \<Rightarrow>
          if str p ''status'' = ''started'' then ''running''
          else if brief (str p ''output'') 200 \<noteq> [] then brief (str p ''output'') 200
          else if is_true p ''success'' then ''ok'' else ''failed'')"

definition volumeSuffix :: "payload_map \<Rightarrow> string" where
  "volumeSuffix p = (if str p ''volume'' \<noteq> [] then '' ('' @ str p ''volume'' @ '')'' else [])"

definition callerLabel :: "telephony_body \<Rightarrow> string" where
  "callerLabel b =
     (if te_contact_name b \<noteq> []
      then (if te_phone_number b \<noteq> [] then brief (te_contact_name b) 32 @ '' ('' @ te_phone_number b @ '')''
            else brief (te_contact_name b) 40)
      else te_phone_number b)"

definition telephonyLabel :: "event_type \<Rightarrow> string" where
  "telephonyLabel typ =
     (if typ = ''telephony.ringing'' then ''incoming call'' else if typ = ''telephony.talking'' then ''call answered''
      else if typ = ''telephony.missed'' then ''missed call'' else ''call ended'')"

definition chargingSuffix :: "payload_map \<Rightarrow> string" where
  "chargingSuffix p = (if is_true p ''charging'' then '' (charging)'' else [])"

definition contactDelta :: "(go_float \<Rightarrow> int) \<Rightarrow> payload_map \<Rightarrow> string" where
  "contactDelta conv p =
     (let parts = concat (map (\<lambda>key. let n = num0 conv p key in if n > 0 then [show_int n @ '' '' @ key] else [])
            [''added'', ''updated'', ''deleted'', ''pending''])
      in if parts = [] then ''no changes'' else join_with '', '' parts)"

definition sink_label :: "sink_info \<Rightarrow> string" where
  "sink_label s =
     (if brief (sk_name s) 28 \<noteq> [] then brief (sk_name s) 28
      else if sk_description s \<noteq> [] then sk_description s else ''stream'')"

definition sink_part :: "sink_info \<Rightarrow> string" where
  "sink_part s = (if sk_muted s then sink_label s @ '' (muted)'' else sink_label s @ '' '' @ show_int (sk_volume s) @ ''%'')"

definition maxSinks :: nat where "maxSinks = 3"

definition sinkSummary :: "json \<Rightarrow> string" where
  "sinkSummary raw =
     (case dec_sinks (reencode raw) None of
        None \<Rightarrow> ''unknown''
      | Some None \<Rightarrow> ''no streams''
      | Some (Some []) \<Rightarrow> ''no streams''
      | Some (Some sinks) \<Rightarrow>
          join_with '', '' (map sink_part (take maxSinks sinks)
            @ (if length sinks > maxSinks then [''+'' @ show_int (int (length sinks - maxSinks)) @ '' more''] else [])))"

section \<open>Events\<close>

definition named :: "string \<Rightarrow> string \<Rightarrow> string" where
  "named dev rest = ''['' @ dev @ ''] '' @ rest @ [newline]"

definition mpris_line :: "string \<Rightarrow> payload_map \<Rightarrow> string" where
  "mpris_line dev p =
     named dev ((if is_true p ''isPlaying'' then play_sign else if str p ''playbackStatus'' = ''Paused'' then pause_sign else stop_sign)
       @ '' '' @ str p ''player'' @ (if str p ''title'' \<noteq> [] then '' - '' @ str p ''title'' else [])
       @ (if str p ''artist'' \<noteq> [] then '' ('' @ str p ''artist'' @ '')'' else []))"

definition volume_line :: "string \<Rightarrow> payload_map \<Rightarrow> string" where
  "volume_line dev p =
     (if map_of p ''sinks'' \<noteq> None then named dev (''volume: '' @ sinkSummary (at_key p ''sinks''))
      else let name = brief (if str p ''name'' = [] then ''output'' else str p ''name'') 40
           in named dev (''volume: '' @ name @
                (if is_true p ''muted'' then '' (muted)''
                 else if map_of p ''volume'' \<noteq> None then '' '' @ v_of p ''volume'' @ ''%''
                 else if map_of p ''muted'' \<noteq> None then '' (unmuted)'' else '' updated'')))"

definition contacts_line :: "(go_float \<Rightarrow> int) \<Rightarrow> string \<Rightarrow> payload_map \<Rightarrow> string" where
  "contacts_line conv dev p =
     named dev (''contacts: '' @
       (if str p ''phase'' = ''vcards''
        then show_int (num0 conv p ''stored'') @ '' saved''
          @ (if num0 conv p ''skipped'' = 0 then [] else '', '' @ show_int (num0 conv p ''skipped'') @ '' skipped'')
        else contactDelta conv p))"

definition added_name :: "json \<Rightarrow> string" where
  "added_name j = (case j of JStr s \<Rightarrow> s | _ \<Rightarrow> str (as_map_payload j) ''name'')"

definition formatEvent :: "(go_float \<Rightarrow> int) \<Rightarrow> json event \<Rightarrow> string" where
  "formatEvent conv ev =
     (let p = as_map_payload (ev_payload ev); dev = ev_device ev; typ = ev_type ev; bare = named dev typ
      in if typ = ''battery.update''
         then named dev (''battery: '' @ v_of p ''charge'' @ ''% (charging: '' @ v_of p ''charging'' @ '')'')
         else if typ = ''battery.threshold''
         then named dev (''battery '' @ (if num conv p ''event'' = Some 1 then ''low'' else ''full'') @ '': '' @ v_of p ''charge'' @ ''%''
                @ chargingSuffix p)
         else if typ = ''notification'' then named dev (''notification: '' @ s_of p ''appName'' @ '' - '' @ s_of p ''title'')
         else if typ = ''notification.canceled'' then named dev (''notification cancelled: '' @ s_of p ''id'')
         else if typ = ''share.progress''
         then CHR 0x0D # ''['' @ dev @ ''] transfer: '' @ s_of p ''file'' @ ''... '' @ v_of p ''current'' @ ''/'' @ v_of p ''total'' @ '' bytes''
         else if typ = ''share.complete'' then newline # named dev (''transfer complete: '' @ s_of p ''file'')
         else if typ = ''share.text'' then named dev (''share text: '' @ s_of p ''text'')
         else if typ = ''share.url'' then named dev (''share url: '' @ s_of p ''url'')
         else if typ = ''sftp.mount'' then named dev (''SFTP credentials received: '' @ s_of p ''uri'')
         else if typ = ''sftp.mounted'' then named dev (''SFTP mounted at '' @ s_of p ''mountPoint'' @ volumeSuffix p)
         else if typ = ''sftp.unmounted'' then named dev (''SFTP unmounted (was '' @ s_of p ''mountPoint'' @ '')'')
         else if typ = ''pair.requested''
         then named dev (''pair request from '' @ s_of p ''name'' @ '' ('' @ s_of p ''type'' @ ''). code: '' @ v_of p ''verificationKey'')
         else if typ = ''pair.accepted'' then named dev (''paired with '' @ s_of p ''name'')
         else if typ = ''pair.rejected'' then named dev (''pair rejected or cancelled by '' @ s_of p ''name'')
         else if typ = ''mpris.update'' then mpris_line dev p
         else if typ = ''sms.incoming'' then named dev (''sms from '' @ s_of p ''sender'' @ '': '' @ brief (str p ''body'') 72)
         else if typ = ''sms.attachment'' then named dev (''sms attachment saved: '' @ brief (str p ''filename'') 48)
         else if typ = ''ping.received'' then named dev (''ping: '' @ brief (str p ''message'') 60)
         else if typ = ''connectivity.update''
         then (case dec_connectivity (Some (reencode (ev_payload ev))) of
                 None \<Rightarrow> bare | Some body \<Rightarrow> named dev (''connectivity: '' @ join_with '', '' (formatConnectivity body)))
         else if typ \<in> {''telephony.ringing'', ''telephony.talking'', ''telephony.missed'', ''telephony.canceled''}
         then (case dec_telephony (Some (reencode (ev_payload ev))) of
                 None \<Rightarrow> bare
               | Some b \<Rightarrow> named dev (telephonyLabel typ @ (if callerLabel b = [] then [] else '': '' @ callerLabel b)))
         else if typ = ''volume.update'' then volume_line dev p
         else if typ = ''runcommand.output'' then named dev (''runcommand '' @ runCommandLabel p @ '': '' @ runCommandDetail p)
         else if typ = ''contacts.updated'' then contacts_line conv dev p
         else if typ = ''device.added''
         then (if added_name (ev_payload ev) = [] then bare else named dev (''device.added: '' @ brief (added_name (ev_payload ev)) 40))
         else if typ = ''device.connected''
         then (if str p ''name'' = [] \<and> str p ''type'' = [] then bare
               else named dev (''device.connected: '' @ brief (str p ''name'') 32 @ '' ('' @ str p ''type'' @ '')''))
         else bare)"

section \<open>One line per event\<close>

lemma rune_bytes_no_newline:
  assumes "utf8_next (b # bs) = (r, w)" and "r \<noteq> 10" shows "10 \<notin> set (take w (b # bs))"
proof (cases "b < 128")
  case False
  then show ?thesis using assms
    by (auto simp: utf8_next.simps(2) cont_def second_ok_def take_Cons' split: if_splits list.splits)
qed (use assms in \<open>auto simp: utf8_next.simps(2)\<close>)

lemma cut_fields_no_newline:
  "bs = bytes_of s \<Longrightarrow> newline \<notin> set cur \<Longrightarrow> newline \<notin> set (concat (cut_fields (runes bs) s cur))"
proof (induction bs arbitrary: s cur rule: runes.induct)
  case (2 b bs)
  obtain r w where n: "utf8_next (b # bs) = (r, w)" by force
  then have w: "1 \<le> w" using utf8_next_width by blast
  then have d: "drop (w - 1) bs = bytes_of (drop w s)"
    using "2.prems"(1) by (cases w; cases s) (auto simp: bytes_of_def drop_map)
  have "newline \<notin> set (take w s)" if "r \<noteq> 10"
  proof -
    have "10 \<notin> set (bytes_of (take w s))"
      using rune_bytes_no_newline [OF n that] unfolding "2.prems"(1) by (simp add: bytes_of_def take_map)
    moreover have "byte newline = 10" by simp
    ultimately show ?thesis by (force simp: bytes_of_def)
  qed
  then have tok: "newline \<notin> set (cur @ take w s)" if "\<not> is_space_rune r" using that "2.prems"(2) by (auto simp: is_space_rune_def)
  show ?case
  proof (cases "is_space_rune r")
    case True
    then show ?thesis using "2.IH" [OF n [symmetric] refl d, of "[]"] "2.prems"(2) n by simp
  next
    case False
    then show ?thesis using "2.IH" [OF n [symmetric] refl d tok] n by simp
  qed
qed simp

lemma join_no_newline: "newline \<notin> set sep \<Longrightarrow> newline \<notin> set (concat ps) \<Longrightarrow> newline \<notin> set (join_with sep ps)"
  by (induction sep ps rule: join_with.induct) auto

lemma oneLine_no_newline: "newline \<notin> set (oneLine s)"
  unfolding oneLine_def Fields_def by (rule join_no_newline) (use cut_fields_no_newline [of "bytes_of s" s "[]"] in simp_all)

lemma brief_no_newline: "newline \<notin> set (brief s n)"
  by (simp add: brief_def oneLine_no_newline)

text \<open>Whatever text a phone sends with a ping, the event stays one line of the stream.\<close>
theorem ping_is_one_line:
  assumes "ev_type ev = ''ping.received''" and "newline \<notin> set (ev_device ev)"
  shows "\<exists>line. formatEvent conv ev = line @ [newline] \<and> newline \<notin> set line"
  using assms brief_no_newline [of "str (as_map_payload (ev_payload ev)) ''message''" 60]
  by (simp add: formatEvent_def named_def Let_def)

text \<open>The title of a notification is printed as it came: a line break in it breaks the line of the event in two.\<close>
theorem notification_breaks_line:
  assumes "ev_type ev = ''notification''" and "at_key (as_map_payload (ev_payload ev)) ''title'' = JStr title"
    and "newline \<in> set title"
  shows "\<exists>line. formatEvent conv ev = line @ [newline] \<and> newline \<in> set line"
  using assms by (simp add: formatEvent_def named_def verb_s_def Let_def)

text \<open>The shortening of a text can make it longer, by the length of the mark.\<close>
theorem truncation_can_lengthen:
  assumes "0 < n" and "length s = n + 1"
  shows "length (truncate_text s n) = n + 2"
  using assms by (simp add: truncate_text_def ellipsis_def)

section \<open>Progress of a transfer\<close>

lemma decimal_show_nat: "decimal (show_nat n) = (False, n, 0)"
proof -
  have d: "list_all is_digit s \<Longrightarrow> span_digits s = (s, [])" for s by (induction s) auto
  have "hd (show_nat n) \<noteq> CHR ''-''" using show_nat_hd [of n] by (auto simp: is_digit_def)
  then show ?thesis using show_nat_digits [of n] by (simp add: decimal_def d digits_val_show_nat Let_def)
qed

lemma number_of_enc: "n < 2 ^ 53 \<Longrightarrow> number_of (show_nat n) = of_nat n"
  using round_float_int [of "int n"] by (simp add: number_of_def literal_value_def decimal_show_nat)

text \<open>
  The sizes of a transfer are integers of the daemon and come as floating-point numbers to the client: from a million bytes on
  the progress is printed with an exponent.
\<close>
theorem progress_has_exponent:
  assumes "ev_type ev = ''share.progress''" and "at_key (as_map_payload (ev_payload ev)) ''total'' = enc_int (int n)"
    and "10 ^ 6 \<le> n" and "n < 2 ^ 53"
  shows "\<exists>before total. formatEvent conv ev = before @ ''/'' @ total @ '' bytes'' \<and> CHR ''e'' \<in> set total"
proof -
  have "enc_int (int n) = JNum (show_nat n)" by (simp add: enc_int_def show_int_def)
  then have "CHR ''e'' \<in> set (fmt_v (at_key (as_map_payload (ev_payload ev)) ''total''))"
    using millions_have_exponent [OF number_of_enc [OF assms(4)] assms(3)] assms(2) by simp
  moreover have "\<exists>before. formatEvent conv ev = before @ ''/'' @ fmt_v (at_key (as_map_payload (ev_payload ev)) ''total'') @ '' bytes''"
    using assms(1) by (simp add: formatEvent_def Let_def)
  ultimately show ?thesis by blast
qed

end
