(* ===== verification/Cli.thy ===== *)
theory Cli
  imports EventFormat Sftp PairRoutes
begin

text \<open>
  The command line (\<open>cmd/kcd\<close>) on top of the client library: deadlines, the device that is meant, pairing, media control, files,
  messages and contacts.

  A command takes its arguments, the client and the wires of its calls, one for each call; it gives the requests that were
  written, the lines that it prints and its error.  Flags are arguments of their own.
\<close>

section \<open>Commands\<close>

datatype cli_error = Says string | Of client_error | Wrapped string client_error

type_synonym outcome = "ipc_request list \<times> string list \<times> cli_error option"

definition prints :: "string list \<Rightarrow> outcome" where
  "prints ls = ([], ls, None)"

definition fails :: "string \<Rightarrow> outcome" where
  "fails msg = ([], [], Some (Says msg))"

definition requests_of :: "'a called \<Rightarrow> ipc_request list" where
  "requests_of x = (case fst x of None \<Rightarrow> [] | Some r \<Rightarrow> [r])"

definition before :: "ipc_request list \<Rightarrow> string list \<Rightarrow> outcome \<Rightarrow> outcome" where
  "before reqs ls out = (case out of (rs, ps, e) \<Rightarrow> (reqs @ rs, ls @ ps, e))"

definition calls :: "'a called \<Rightarrow> ('a \<Rightarrow> outcome) \<Rightarrow> outcome" where
  "calls x f = (case snd x of Inl e \<Rightarrow> (requests_of x, [], Some (Of e)) | Inr a \<Rightarrow> before (requests_of x) [] (f a))"

definition arg :: "string list \<Rightarrow> nat \<Rightarrow> string" where
  "arg args i = (if i < length args then args ! i else [])"

definition needs :: "nat \<Rightarrow> string list \<Rightarrow> string \<Rightarrow> outcome \<Rightarrow> outcome" where
  "needs n args missing out = (if length args < n then fails missing else out)"

definition simple :: "unit called \<Rightarrow> string \<Rightarrow> outcome" where
  "simple x ok = calls x (\<lambda>_. prints (if ok = [] then [] else [ok]))"

section \<open>Deadlines\<close>

definition max_duration :: duration where "max_duration = 2 ^ 63 - 1"

definition sftpCredentialDeadline :: "int \<Rightarrow> duration" where
  "sftpCredentialDeadline seconds =
     (let s = (if seconds \<le> 0 then 20 else seconds)
      in if s > max_duration div second - 10 then max_duration else s * second + 10 * second)"

definition pairListenDeadline :: "duration \<Rightarrow> duration" where
  "pairListenDeadline timeout = (if timeout > max_duration - 10 * second then max_duration else wrap64 (timeout + 10 * second))"

text \<open>\<open>None\<close> is the panic on a duration that does not parse.\<close>

definition getClient :: "parse_duration \<Rightarrow> full_config \<Rightarrow> client option" where
  "getClient pd cfg =
     map_option (\<lambda>d. \<lparr>kc_timeout = 5 * second, kc_pair_listen_timeout = pairListenDeadline d,
        kc_sftp_timeout = sftpCredentialDeadline (sf_credentials_timeout_secs (fc_sftp cfg))\<rparr>)
       (Duration pd (pr_listen_timeout (fc_pairing cfg)))"

section \<open>Devices\<close>

definition resolveDeviceID :: "string list \<Rightarrow> device_info list called \<Rightarrow> (string \<Rightarrow> outcome) \<Rightarrow> outcome" where
  "resolveDeviceID args devices f =
     (case args of
        a # as \<Rightarrow> f a
      | [] \<Rightarrow> calls devices (\<lambda>ds.
          case map di_id (filter (\<lambda>d. di_connected d \<and> di_state d = StatePaired) ds) of
            [] \<Rightarrow> fails (''no paired connected devices found '' @ [CHR 0xE2, CHR 0x80, CHR 0x94] @ '' pass a device ID'')
          | [i] \<Rightarrow> f i
          | is \<Rightarrow> fails (''multiple devices connected ('' @ join_with '', '' (sort_key (map byte) is) @ '') ''
                     @ [CHR 0xE2, CHR 0x80, CHR 0x94] @ '' pass a device ID'')))"

definition device_action :: "string list \<Rightarrow> device_info list called \<Rightarrow> (string \<Rightarrow> unit called) \<Rightarrow> string \<Rightarrow> outcome" where
  "device_action args devices fn ok = resolveDeviceID args devices (\<lambda>i. simple (fn i) ok)"

definition filterDevices :: "device_info list \<Rightarrow> bool \<Rightarrow> bool \<Rightarrow> device_info list" where
  "filterDevices ds paired connected_only =
     (if \<not> paired \<and> \<not> connected_only then ds
      else filter (\<lambda>d. di_state d = StatePaired \<and> (connected_only \<longrightarrow> di_connected d)) ds)"

definition device_row :: "device_info \<Rightarrow> string" where
  "device_row d =
     pad_right 36 (di_id d) @ '' '' @ pad_right 20 (DisplayName (di_name d)) @ '' '' @ pad_right 10 (di_type d) @ '' ''
     @ pad_right 10 (state_String (di_state d)) @ '' '' @ (if di_connected d then ''true'' else ''false'')"

definition device_table :: "device_info list \<Rightarrow> string list" where
  "device_table ds =
     (if ds = [] then [''No devices found.'']
      else (pad_right 36 ''DEVICE ID'' @ '' '' @ pad_right 20 ''NAME'' @ '' '' @ pad_right 10 ''TYPE'' @ '' '' @ pad_right 10 ''STATE'' @ '' CONNECTED'')
           # replicate 99 (CHR ''-'') # map device_row ds)"

section \<open>Pairing\<close>

definition normalizeFingerprint :: "string \<Rightarrow> string" where
  "normalizeFingerprint fp = lower_text (replace_all '' '' [] (replace_all '':'' [] fp))"

definition checkPairCandidate :: "string \<Rightarrow> bool \<Rightarrow> pair_listen_result \<Rightarrow> string list \<Rightarrow> string option" where
  "checkPairCandidate expected known_only r known =
     (let got = normalizeFingerprint (plr_fingerprint r)
      in if expected \<noteq> [] \<and> (got = [] \<or> got \<noteq> normalizeFingerprint expected)
         then Some ''candidate fingerprint does not match --expected-fingerprint''
         else if known_only \<and> plr_device_id r \<notin> set known
         then Some (''candidate '' @ plr_device_id r @ '' is not in the known-devices file (--known-only)'')
         else None)"

definition loadKnownDeviceIDs :: "(string \<Rightarrow> gtime option) \<Rightarrow> state_file \<Rightarrow> string list" where
  "loadKnownDeviceIDs parse_time f = (case LoadDevices parse_time f of Inl _ \<Rightarrow> [] | Inr infos \<Rightarrow> map di_id infos)"

text \<open>The text of an error; \<open>jt\<close> is that of the JSON library.\<close>

fun error_text :: "string \<Rightarrow> client_error \<Rightarrow> string" where
  "error_text jt (NotRunning e) = ''kcd daemon not running or socket error: '' @ e"
| "error_text jt (MarshalPayload e) = ''marshal payload: '' @ e"
| "error_text jt (WriteRequest e) = ''write request: '' @ e"
| "error_text jt (ReadResponse e) = ''read response: '' @ e"
| "error_text jt UnmarshalResponse = ''unmarshal response: '' @ jt"
| "error_text jt (Coded code msg details) = msg"
| "error_text jt (DaemonError msg) = ''daemon error: '' @ msg"
| "error_text jt (DecodeResult what) = (if what = [] then jt else what @ '': '' @ jt)"
| "error_text jt (StreamEnded e) = ''stream read error: '' @ e"
| "error_text jt Cancelled = ''context canceled''"

record pair_flags =
  pf_yes :: bool
  pf_expected :: string
  pf_known_only :: bool

definition pair_notice :: "pair_listen_result \<Rightarrow> string list" where
  "pair_notice r =
     [[], ''Incoming pair request from:'', ''  Device: '' @ DisplayName (plr_device_name r) @ '' ('' @ plr_device_id r @ '')'']
     @ (if plr_verification_key r = [] then [] else [''  Verification code: '' @ plr_verification_key r])"

definition paired_text :: "pair_listen_result \<Rightarrow> string" where
  "paired_text r = ''Paired with '' @ DisplayName (plr_device_name r) @ '' ('' @ plr_device_id r @ '')''"

definition accept_candidate :: "client \<Rightarrow> wire \<Rightarrow> pair_listen_result \<Rightarrow> outcome" where
  "accept_candidate c w r =
     (case Client_Pair c w (plr_device_id r) of
        x \<Rightarrow> (case snd x of
           Inl e \<Rightarrow> (requests_of x, [], Some (Wrapped ''failed to accept pairing'' e))
         | Inr _ \<Rightarrow> (requests_of x, [paired_text r], None)))"

definition refuse_candidate :: "client \<Rightarrow> wire \<Rightarrow> pair_listen_result \<Rightarrow> string list \<Rightarrow> outcome" where
  "refuse_candidate c w r ls = (requests_of (Client_Unpair c w (plr_device_id r)), ls, None)"

text \<open>
  What one round of listening brings: the wire of the call, the word that is read at a prompt, and the wire of what follows.
  The list ends when the user cancels.
\<close>

record pair_round =
  pa_listen :: wire
  pa_answer :: string
  pa_then :: wire

text \<open>\<open>yes\<close> in any case and with space around it.\<close>

definition says_yes :: "string \<Rightarrow> bool" where
  "says_yes s \<longleftrightarrow> TrimSpace (lower_text s) \<in> {''y'', ''yes''}"

fun pair_listen_loop :: "string \<Rightarrow> client \<Rightarrow> pair_flags \<Rightarrow> string list \<Rightarrow> pair_round list \<Rightarrow> outcome" where
  "pair_listen_loop jt c fl known [] = prints [[], ''Cancelled'']"
| "pair_listen_loop jt c fl known (rd # rds) =
     (let x = Client_PairListen c (pa_listen rd)
      in case snd x of
           Inl e \<Rightarrow>
             if contains ''timed out'' (error_text jt e)
             then before (requests_of x) [''No pair requests yet, still listening'' @ ellipsis @ '' (Ctrl+C to cancel)'']
                    (pair_listen_loop jt c fl known rds)
             else (requests_of x, [], Some (Of e))
         | Inr r \<Rightarrow>
             before (requests_of x) (pair_notice r)
              (let refusal = checkPairCandidate (pf_expected fl) (pf_known_only fl) r known
               in if pf_yes fl
                  then (case refusal of
                      Some why \<Rightarrow>
                        (case refuse_candidate c (pa_then rd) r [''Refusing candidate: '' @ why, ''Still listening'' @ ellipsis @ '' (Ctrl+C to cancel)''] of
                           (rs, ls, _) \<Rightarrow> before rs ls (pair_listen_loop jt c fl known rds))
                    | None \<Rightarrow> accept_candidate c (pa_then rd) r)
                  else if says_yes (pa_answer rd)
                  then (case refusal of
                      Some why \<Rightarrow> refuse_candidate c (pa_then rd) r [''Refusing candidate: '' @ why]
                    | None \<Rightarrow> accept_candidate c (pa_then rd) r)
                  else refuse_candidate c (pa_then rd) r [''Rejected pairing with '' @ DisplayName (plr_device_name r)]))"

text \<open>Listening begins with the broadcast and ends with stopping it.\<close>

definition cli_pair_listen :: "string \<Rightarrow> client \<Rightarrow> wire \<Rightarrow> wire \<Rightarrow> pair_flags \<Rightarrow> string list \<Rightarrow> pair_round list \<Rightarrow> outcome" where
  "cli_pair_listen jt c start stop fl known rds =
     before [] [''Listening for pair requests'' @ ellipsis @ '' (Ctrl+C to cancel)'']
      (let x = Client_BroadcastStart c start
       in case snd x of
            Inl e \<Rightarrow> (requests_of x, [], Some (Wrapped ''failed to start broadcast'' e))
          | Inr _ \<Rightarrow> (case before (requests_of x) [] (pair_listen_loop jt c fl (if pf_known_only fl then known else []) rds) of
              (rs, ls, e) \<Rightarrow> (rs @ requests_of (Client_BroadcastStop c stop), ls, e)))"

definition cli_pair_device :: "client \<Rightarrow> wire \<Rightarrow> string \<Rightarrow> outcome" where
  "cli_pair_device c w dev =
     calls (Client_Pair c w dev) (\<lambda>key. prints ((''Pair request sent / accepted for '' @ dev)
       # (if key = [] then [] else [''Verification code: '' @ key,
            ''Compare it with the code shown on the device. If they differ, cancel and unpair.''])))"

definition checkAdvertiseOnly :: "string list \<Rightarrow> bool \<Rightarrow> string option" where
  "checkAdvertiseOnly args yes =
     (if args \<noteq> [] then Some ''pair: --advertise-only takes no device ID''
      else if yes then Some ''pair: --advertise-only never accepts, so it cannot be combined with --yes'' else None)"

definition advertiseUntil :: "client \<Rightarrow> wire \<Rightarrow> wire \<Rightarrow> bool \<Rightarrow> outcome" where
  "advertiseUntil c start stop json =
     (let x = Client_BroadcastStart c start
      in case snd x of
           Inl e \<Rightarrow> (requests_of x, [], Some (Wrapped ''failed to start broadcast'' e))
         | Inr _ \<Rightarrow>
             (requests_of x @ requests_of (Client_BroadcastStop c stop),
              (if json then [''{\"advertising\":true}'', ''{\"advertising\":false}'']
               else [''Advertising for pairing requests. Nothing will be accepted; Ctrl+C to stop.'', [], ''Stopped advertising'']), None))"

definition cli_pair ::
  "string \<Rightarrow> client \<Rightarrow> wire \<Rightarrow> wire \<Rightarrow> bool \<Rightarrow> bool \<Rightarrow> pair_flags \<Rightarrow> string list \<Rightarrow> string list \<Rightarrow> pair_round list \<Rightarrow> outcome" where
  "cli_pair jt c start stop advertise_only json fl known args rds =
     (if advertise_only
      then (case checkAdvertiseOnly args (pf_yes fl) of Some e \<Rightarrow> fails e | None \<Rightarrow> advertiseUntil c start stop json)
      else (case args of dev # as \<Rightarrow> cli_pair_device c start dev | [] \<Rightarrow> cli_pair_listen jt c start stop fl known rds))"

definition cli_unpair :: "client \<Rightarrow> wire \<Rightarrow> string list \<Rightarrow> outcome" where
  "cli_unpair c w args = needs 1 args ''missing device ID'' (simple (Client_Unpair c w (arg args 0)) ''Unpaired successfully'')"

section \<open>What pairing from the command line guarantees\<close>

lemma called_command:
  "r \<in> set (requests_of (Client_PairListen c w)) \<Longrightarrow> rq_command r = CmdPairListen"
  "r \<in> set (requests_of (Client_Unpair c w dev)) \<Longrightarrow> rq_command r = CmdUnpair"
  "r \<in> set (requests_of (Client_BroadcastStart c w)) \<Longrightarrow> rq_command r = CmdBroadcastStart"
  "r \<in> set (requests_of (Client_BroadcastStop c w)) \<Longrightarrow> rq_command r = CmdBroadcastStop"
  "r \<in> set (requests_of (Client_Pair c w dev)) \<Longrightarrow> rq_command r = CmdPair \<and> rq_payload r = payload_json (for_device dev)"
  by (auto simp: requests_of_def Client_PairListen_def Client_Unpair_def Client_BroadcastStart_def Client_BroadcastStop_def
      Client_Pair_def result_def Call_def callWithTimeout_def for_device_def split: option.splits)

lemma command_names_differ:
  "CmdPairListen \<noteq> CmdPair" "CmdUnpair \<noteq> CmdPair" "CmdBroadcastStart \<noteq> CmdPair" "CmdBroadcastStop \<noteq> CmdPair"
  by (simp_all add: CmdPairListen_def CmdUnpair_def CmdPair_def CmdBroadcastStart_def CmdBroadcastStop_def)

text \<open>A candidate that may be accepted with the flags.\<close>

definition acceptable :: "pair_flags \<Rightarrow> string list \<Rightarrow> pair_listen_result \<Rightarrow> bool" where
  "acceptable fl known r \<longleftrightarrow>
     (pf_expected fl \<noteq> [] \<longrightarrow> normalizeFingerprint (plr_fingerprint r) = normalizeFingerprint (pf_expected fl) \<and>
        normalizeFingerprint (plr_fingerprint r) \<noteq> []) \<and>
     (pf_known_only fl \<longrightarrow> plr_device_id r \<in> set known)"

lemma checkPairCandidate_acceptable:
  "checkPairCandidate (pf_expected fl) (pf_known_only fl) r known = None \<longleftrightarrow> acceptable fl known r"
  by (auto simp: checkPairCandidate_def acceptable_def Let_def)

definition pairs_only :: "pair_flags \<Rightarrow> string list \<Rightarrow> client \<Rightarrow> pair_round list \<Rightarrow> ipc_request list \<Rightarrow> bool" where
  "pairs_only fl known c rds rs \<longleftrightarrow>
     (\<forall>q \<in> set rs. rq_command q = CmdPair \<longrightarrow>
        (\<exists>rd \<in> set rds. \<exists>r. snd (Client_PairListen c (pa_listen rd)) = Inr r \<and> acceptable fl known r \<and>
           (pf_yes fl \<or> says_yes (pa_answer rd)) \<and> rq_payload q = payload_json (for_device (plr_device_id r))))"

lemma pairs_only_other: "\<forall>q \<in> set rs. rq_command q \<noteq> CmdPair \<Longrightarrow> pairs_only fl known c rds rs"
  by (auto simp: pairs_only_def)

lemma pairs_only_append: "pairs_only fl known c rds (xs @ ys) \<longleftrightarrow> pairs_only fl known c rds xs \<and> pairs_only fl known c rds ys"
  by (auto simp: pairs_only_def)

lemma pairs_only_more: "pairs_only fl known c rds rs \<Longrightarrow> pairs_only fl known c (rd # rds) rs"
  by (fastforce simp: pairs_only_def)

lemma pairs_only_calls:
  "pairs_only fl known c rds (requests_of (Client_PairListen c w))"
  "pairs_only fl known c rds (requests_of (Client_Unpair c w dev))"
  "pairs_only fl known c rds (requests_of (Client_BroadcastStart c w))"
  "pairs_only fl known c rds (requests_of (Client_BroadcastStop c w))"
  by (rule pairs_only_other; use command_names_differ in \<open>auto dest: called_command\<close>)+

lemma fst_before: "fst (before rs ls out) = rs @ fst out"
  by (simp add: before_def split: prod.split)

lemma pairs_only_accept:
  assumes "snd (Client_PairListen c (pa_listen rd)) = Inr r" and "acceptable fl known r" and "pf_yes fl \<or> says_yes (pa_answer rd)"
  shows "pairs_only fl known c (rd # rds) (fst (accept_candidate c w r))"
proof -
  have "fst (accept_candidate c w r) = requests_of (Client_Pair c w (plr_device_id r))"
    by (simp add: accept_candidate_def split: sum.split)
  then show ?thesis using assms by (auto simp: pairs_only_def dest: called_command(5))
qed

lemma pair_listen_loop_pairs_only: "pairs_only fl known c rds (fst (pair_listen_loop jt c fl known rds))"
proof (induction jt c fl known rds rule: pair_listen_loop.induct)
  case (2 jt c fl known rd rds)
  let ?x = "Client_PairListen c (pa_listen rd)"
  show ?case
  proof (cases "snd ?x")
    case (Inl e)
    then show ?thesis using "2.IH"(1) [OF refl Inl] pairs_only_more
      by (auto simp: fst_before pairs_only_append pairs_only_calls Let_def)
  next
    case (Inr r)
    have refuse: "pairs_only fl known c rds' (fst (refuse_candidate c w r ls))" for rds' w ls
      by (simp add: refuse_candidate_def pairs_only_calls)
    have again: "pf_yes fl \<Longrightarrow> checkPairCandidate (pf_expected fl) (pf_known_only fl) r known = Some why \<Longrightarrow>
        pairs_only fl known c (rd # rds) (fst (pair_listen_loop jt c fl known rds))" for why
      using "2.IH"(2) [OF refl Inr refl] pairs_only_more by (auto simp: refuse_candidate_def)
    show ?thesis
    proof (cases "checkPairCandidate (pf_expected fl) (pf_known_only fl) r known")
      case None
      then have "acceptable fl known r" by (simp add: checkPairCandidate_acceptable)
      then show ?thesis using Inr None pairs_only_accept [OF Inr] refuse
        by (simp add: fst_before pairs_only_append pairs_only_calls Let_def)
    next
      case (Some why)
      then show ?thesis using Inr again [OF _ Some] refuse
        by (simp add: fst_before pairs_only_append pairs_only_calls Let_def split: prod.split)
          (metis fst_conv)
    qed
  qed
qed (simp add: prints_def pairs_only_def)

lemma cli_pair_listen_pairs_only:
  "pairs_only fl (if pf_known_only fl then known else []) c rds (fst (cli_pair_listen jt c start stop fl known rds))"
proof (cases "snd (Client_BroadcastStart c start)")
  case (Inl e)
  then show ?thesis by (simp add: cli_pair_listen_def fst_before pairs_only_calls)
next
  case (Inr u)
  have "fst (cli_pair_listen jt c start stop fl known rds) =
      requests_of (Client_BroadcastStart c start)
      @ fst (pair_listen_loop jt c fl (if pf_known_only fl then known else []) rds) @ requests_of (Client_BroadcastStop c stop)"
    using Inr by (simp add: cli_pair_listen_def before_def split: prod.split)
  then show ?thesis by (simp add: pairs_only_append pairs_only_calls pair_listen_loop_pairs_only)
qed

text \<open>
  Listening for requests pairs with nobody but a candidate that was reported, that the user or \<open>--yes\<close> accepts, and that
  satisfies the restrictions: the certificate whose fingerprint is expected, a device that was known before.
\<close>
theorem listening_pairs_only_accepted:
  assumes "q \<in> set (fst (cli_pair_listen jt c start stop fl known rds))" and "rq_command q = CmdPair"
  shows "\<exists>rd \<in> set rds. \<exists>r. snd (Client_PairListen c (pa_listen rd)) = Inr r \<and> (pf_yes fl \<or> says_yes (pa_answer rd)) \<and>
    rq_payload q = payload_json (for_device (plr_device_id r)) \<and> (pf_known_only fl \<longrightarrow> plr_device_id r \<in> set known) \<and>
    (pf_expected fl \<noteq> [] \<longrightarrow> normalizeFingerprint (plr_fingerprint r) = normalizeFingerprint (pf_expected fl) \<and>
       normalizeFingerprint (plr_fingerprint r) \<noteq> [])"
proof -
  let ?known = "if pf_known_only fl then known else []"
  have "pairs_only fl ?known c rds (fst (cli_pair_listen jt c start stop fl known rds))"
    by (rule cli_pair_listen_pairs_only)
  then show ?thesis using assms unfolding pairs_only_def acceptable_def by (metis (full_types))
qed

text \<open>A daemon that gives the same answer to every request.\<close>

definition answering :: "ipc_response \<Rightarrow> wire" where
  "answering r = \<lparr>wi_dial = None, wi_write = None, wi_line = (\<lambda>_. Some []), wi_read_error = [],
     wi_parse = (\<lambda>_. Some (enc_ipc_response r))\<rparr>"

definition demo_candidate :: pair_listen_result where
  "demo_candidate = \<lparr>plr_device_id = ''d'', plr_device_name = ''n'', plr_verification_key = [], plr_fingerprint = ''AA:BB''\<rparr>"

definition demo_round :: pair_round where
  "demo_round = \<lparr>pa_listen = answering (jsonOK (enc_pair_listen_result demo_candidate)), pa_answer = [],
     pa_then = answering (jsonOK (enc_pair_result zero_pair_result))\<rparr>"

lemma answering_call:
  "rs_ok r \<Longrightarrow> callWithTimeout (answering r) command NoPayload t = (Some \<lparr>rq_command = command, rq_id = None, rq_payload = None\<rparr>, Inr r)"
  "rs_ok r \<Longrightarrow> callWithTimeout (answering r) command (Payload j) t = (Some \<lparr>rq_command = command, rq_id = None, rq_payload = Some j\<rparr>, Inr r)"
  using ipc_response_roundtrip [of r] by (simp_all add: callWithTimeout_def answering_def read_response_def unmarshal_raw_def)

theorem listening_pairs_only_accepted_witness:
  "\<exists>rd \<in> {demo_round}. \<exists>r. snd (Client_PairListen NewClient (pa_listen rd)) = Inr r \<and>
     normalizeFingerprint (plr_fingerprint r) = ''aabb''"
proof -
  let ?fl = "\<lparr>pf_yes = True, pf_expected = ''aabb'', pf_known_only = False\<rparr>"
  let ?q = "\<lparr>rq_command = CmdPair, rq_id = None, rq_payload = payload_json (for_device ''d'')\<rparr>"
  have fp: "normalizeFingerprint ''AA:BB'' = ''aabb''" "normalizeFingerprint ''aabb'' = ''aabb''" by code_simp+
  have listen: "snd (Client_PairListen NewClient (pa_listen demo_round)) = Inr demo_candidate"
    using pair_listen_result_roundtrip [of demo_candidate]
    by (simp add: Client_PairListen_def Call_def demo_round_def result_def answering_call lenient_def jsonOK_def zero_ipc_response_def)
  have ok: "checkPairCandidate ''aabb'' False demo_candidate [] = None"
    by (simp add: checkPairCandidate_def demo_candidate_def fp)
  have start: "snd (Client_BroadcastStart NewClient (answering okay)) = Inr ()"
    by (simp add: Client_BroadcastStart_def Call_def result_def answering_call okay_def zero_ipc_response_def)
  have pair: "Client_Pair NewClient (pa_then demo_round) ''d'' = (Some ?q, Inr (prs_verification_key zero_pair_result))"
    using pair_result_roundtrip [of zero_pair_result]
    by (simp add: Client_Pair_def Call_def demo_round_def result_def answering_call lenient_def jsonOK_def zero_ipc_response_def for_device_def)
  have "?q \<in> set (fst (accept_candidate NewClient (pa_then demo_round) demo_candidate))"
    by (simp add: accept_candidate_def demo_candidate_def pair requests_of_def)
  then have "?q \<in> set (fst (pair_listen_loop [] NewClient ?fl [] [demo_round]))"
    by (simp add: listen ok fst_before Let_def)
  then have q: "?q \<in> set (fst (cli_pair_listen [] NewClient (answering okay) (answering okay) ?fl [] [demo_round]))"
    using start by (simp add: cli_pair_listen_def before_def split_def del: pair_listen_loop.simps)
  show ?thesis using listening_pairs_only_accepted [OF q] by (auto simp: fp)
qed

section \<open>Deadlines of client and daemon\<close>

text \<open>
  A client that waits for the files of a phone outlasts the daemon that waits for the phone, for every setting, also for one
  that overflows the daemon's duration.
\<close>
theorem client_outlasts_credentials:
  assumes "in_int64 (sf_credentials_timeout_secs cfg)"
  shows "credentialsTimeout cfg \<le> sftpCredentialDeadline (sf_credentials_timeout_secs cfg) \<and>
    0 < sftpCredentialDeadline (sf_credentials_timeout_secs cfg) \<and> in_int64 (sftpCredentialDeadline (sf_credentials_timeout_secs cfg))"
proof -
  have "in_int64 (wrap64 i)" for i by (rule wrap64_range)
  then have w: "wrap64 i \<le> max_duration" for i by (simp add: max_duration_def in_int64_def max_int64_def)
  have id: "in_int64 i \<Longrightarrow> wrap64 i = i" for i by (rule wrap64_id)
  show ?thesis
    using w id [of "sf_credentials_timeout_secs cfg * second"]
    by (auto simp: credentialsTimeout_def sftpCredentialDeadline_def Let_def max_duration_def second_def in_int64_def
        min_int64_def max_int64_def)
qed

theorem client_outlasts_credentials_witness:
  "credentialsTimeout (zero_sftp_config\<lparr>sf_credentials_timeout_secs := 10000000000\<rparr>) \<le> sftpCredentialDeadline 10000000000"
  using client_outlasts_credentials [of "zero_sftp_config\<lparr>sf_credentials_timeout_secs := 10000000000\<rparr>"]
  by (simp add: in_int64_def min_int64_def max_int64_def)

lemma check_durations_positive:
  "check_durations pd ss = None \<Longrightarrow> (name, value) \<in> set ss \<Longrightarrow> \<exists>d. pd value = Some d \<and> 0 < d"
  by (induction pd ss rule: check_durations.induct) (auto split: option.splits if_splits)

text \<open>
  A client that listens for a pairing request outlasts the daemon's wait, by ten seconds unless no longer duration exists.
\<close>
theorem client_outlasts_pair_listen:
  assumes "pd [] = None" and "Validate pd cfg = None" and "getClient pd cfg = Some c"
    and "pair_listen_timeout pd (Some (pr_listen_timeout (fc_pairing cfg))) = Some d" and "in_int64 d"
  shows "d + 10 * second \<le> kc_pair_listen_timeout c \<or> kc_pair_listen_timeout c = max_duration"
proof -
  let ?s = "pr_listen_timeout (fc_pairing cfg)"
  have "check_durations pd (duration_settings cfg) = None"
    using assms(2) by (auto simp: Validate_def validateDurations_def split: option.splits)
  moreover have "(''pairing.listen_timeout'', ?s) \<in> set (duration_settings cfg)" by (simp add: duration_settings_def)
  ultimately obtain t where t: "pd ?s = Some t" "0 < t" using check_durations_positive by blast
  then have "?s \<noteq> []" using assms(1) by auto
  then have d: "d = t" using assms(4) t by (simp add: pair_listen_timeout_def Duration_def)
  have "kc_pair_listen_timeout c = pairListenDeadline t" using assms(3) t by (auto simp: getClient_def Duration_def)
  moreover have "t \<le> max_duration - 10 * second \<Longrightarrow> wrap64 (t + 10 * second) = t + 10 * second"
    using t(2) by (intro wrap64_id) (simp add: in_int64_def max_duration_def second_def min_int64_def max_int64_def)
  ultimately show ?thesis using d by (simp add: pairListenDeadline_def)
qed

end
