(* ===== verification/CliMedia.thy ===== *)
theory CliMedia
  imports Cli
begin

text \<open>
  The media player commands (\<open>cmd/kcd/cli_mpris.go\<close> and \<open>cli_mpris_format.go\<close>).

  \<open>render\<close> is the text of a JSON document, \<open>quote\<close> the verb \<open>%q\<close>, \<open>pd\<close> is \<open>time.ParseDuration\<close> in nanoseconds, \<open>pf\<close> is
  \<open>strconv.ParseFloat\<close> and \<open>conv\<close> the conversion of a float out of range, as elsewhere.
\<close>

section \<open>Seeking\<close>

definition dash :: string where "dash = [CHR 0xE2, CHR 0x80, CHR 0x94]"

definition shortID :: "string \<Rightarrow> string" where
  "shortID i = (if length i > 12 then take 12 i @ ellipsis else i)"

definition two_digits :: "int \<Rightarrow> string" where
  "two_digits n = (if n < 10 then CHR ''0'' # show_int n else show_int n)"

definition formatMs :: "int \<Rightarrow> string" where
  "formatMs ms =
     (if ms < 0 then ''??:??'' else show_int (ms div 1000 div 60) @ '':'' @ two_digits (ms div 1000 mod 60))"

definition parseDuration :: "parse_duration \<Rightarrow> (string \<Rightarrow> go_float option) \<Rightarrow> (go_float \<Rightarrow> int) \<Rightarrow> string \<Rightarrow> int option" where
  "parseDuration pd pf conv s =
     (case pd s of
        Some d \<Rightarrow> Some (milliseconds d)
      | None \<Rightarrow> (case pf s of Some x \<Rightarrow> Some (to_int64 conv (float_mul x (Fin 1000))) | None \<Rightarrow> None))"

definition parseSeek :: "parse_duration \<Rightarrow> (string \<Rightarrow> go_float option) \<Rightarrow> (go_float \<Rightarrow> int) \<Rightarrow> string \<Rightarrow> string + int" where
  "parseSeek pd pf conv s =
     (let r = (if has_prefix ''+'' s \<or> has_prefix ''-'' s
               then map_option (\<lambda>d. if has_prefix ''-'' s then wrap64 (- d) else d) (parseDuration pd pf conv (tl s))
               else parseDuration pd pf conv s)
      in case r of None \<Rightarrow> Inl s | Some d \<Rightarrow> Inr d)"

record seek_args =
  sa_device :: string
  sa_player :: string
  sa_offset :: string

datatype seek_error = SeekHelp | NeedsValue string | UnknownFlag string | MissingOffset

definition firstNonEmpty :: "string \<Rightarrow> string \<Rightarrow> string" where
  "firstNonEmpty cur v = (if cur \<noteq> [] then cur else v)"

definition isNegativeOffset :: "string \<Rightarrow> bool" where
  "isNegativeOffset a = (case a of c # d # s \<Rightarrow> c = CHR ''-'' \<and> is_digit d | _ \<Rightarrow> False)"

definition add_offset :: "string \<Rightarrow> seek_args \<Rightarrow> seek_args" where
  "add_offset a out = out\<lparr>sa_offset := firstNonEmpty (sa_offset out) a\<rparr>"

text \<open>The cases of the switch, in their order.\<close>

datatype seek_word = OffsetWord | EndOfFlags | HelpWord | PlayerNext | PlayerWord string | DeviceNext | DeviceWord string | BadFlag

definition classify_word :: "bool \<Rightarrow> string \<Rightarrow> seek_word" where
  "classify_word flags_done a =
     (if flags_done \<or> a = [] then OffsetWord
      else if a = ''--'' then EndOfFlags
      else if a = ''-h'' \<or> a = ''--help'' then HelpWord
      else if a = ''-p'' \<or> a = ''--player'' then PlayerNext
      else if has_prefix ''--player='' a then PlayerWord (drop 9 a)
      else if isNegativeOffset a then OffsetWord
      else if a = ''--device'' then DeviceNext
      else if has_prefix ''--device='' a then DeviceWord (drop 9 a)
      else if has_prefix ''-'' a then BadFlag
      else OffsetWord)"

fun split_seek :: "bool \<Rightarrow> seek_args \<Rightarrow> string list \<Rightarrow> seek_error + seek_args" where
  "split_seek flags_done out [] = (if sa_offset out = [] then Inl MissingOffset else Inr out)"
| "split_seek flags_done out (a # as) =
     (case classify_word flags_done a of
        OffsetWord \<Rightarrow> split_seek flags_done (add_offset a out) as
      | EndOfFlags \<Rightarrow> split_seek True out as
      | HelpWord \<Rightarrow> Inl SeekHelp
      | PlayerNext \<Rightarrow> (case as of [] \<Rightarrow> Inl (NeedsValue a) | v # as' \<Rightarrow> split_seek flags_done (out\<lparr>sa_player := v\<rparr>) as')
      | PlayerWord v \<Rightarrow> split_seek flags_done (out\<lparr>sa_player := v\<rparr>) as
      | DeviceNext \<Rightarrow> (case as of [] \<Rightarrow> Inl (NeedsValue a) | v # as' \<Rightarrow> split_seek flags_done (out\<lparr>sa_device := v\<rparr>) as')
      | DeviceWord v \<Rightarrow> split_seek flags_done (out\<lparr>sa_device := v\<rparr>) as
      | BadFlag \<Rightarrow> Inl (UnknownFlag a))"

definition splitSeekArgs :: "string list \<Rightarrow> seek_error + seek_args" where
  "splitSeekArgs args = split_seek False \<lparr>sa_device = [], sa_player = [], sa_offset = []\<rparr> args"

definition seek_error_text :: "(string \<Rightarrow> string) \<Rightarrow> seek_error \<Rightarrow> string" where
  "seek_error_text quote e =
     (case e of
        SeekHelp \<Rightarrow> ''seek: help requested''
      | NeedsValue a \<Rightarrow> ''seek: '' @ a @ '' requires a value''
      | UnknownFlag a \<Rightarrow> ''seek: unknown flag '' @ quote a @ '' (use '' @ quote ''kcd mpris seek -10s'' @ '' alone, or -- -10s, for a backward seek)''
      | MissingOffset \<Rightarrow> ''seek: missing offset argument'')"

text \<open>Asking for help shows the help, which is not modelled.\<close>

definition cli_mpris_seek ::
  "(string \<Rightarrow> string) \<Rightarrow> parse_duration \<Rightarrow> (string \<Rightarrow> go_float option) \<Rightarrow> (go_float \<Rightarrow> int) \<Rightarrow> client \<Rightarrow> wire \<Rightarrow>
     string list \<Rightarrow> outcome" where
  "cli_mpris_seek quote pd pf conv c w args =
     (case splitSeekArgs args of
        Inl SeekHelp \<Rightarrow> prints []
      | Inl e \<Rightarrow> fails (seek_error_text quote e)
      | Inr o' \<Rightarrow>
          (case parseSeek pd pf conv (sa_offset o') of
             Inl s \<Rightarrow> fails (''seek: invalid offset '' @ quote s)
           | Inr seek \<Rightarrow> simple (Client_MprisSeek c w (sa_device o') (sa_player o') seek) []))"

section \<open>Media players\<close>

definition actionDeviceID :: "string list \<Rightarrow> string \<Rightarrow> string" where
  "actionDeviceID args flag = (case args of a # as \<Rightarrow> a | [] \<Rightarrow> flag)"

definition actionCmd :: "string \<Rightarrow> client \<Rightarrow> wire \<Rightarrow> string list \<Rightarrow> string \<Rightarrow> string \<Rightarrow> outcome" where
  "actionCmd action c w args device player = simple (Client_MprisAction c w (actionDeviceID args device) player action) []"

definition remote_players :: "mpris_remote_response \<Rightarrow> mpris_remote_player list" where
  "remote_players r = (case mrr_players r of None \<Rightarrow> [] | Some ps \<Rightarrow> ps)"

definition remotePlayerPlaying :: "mpris_remote_response called \<Rightarrow> string \<Rightarrow> string \<Rightarrow> bool" where
  "remotePlayerPlaying remote dev player =
     (case snd remote of
        Inl _ \<Rightarrow> True
      | Inr r \<Rightarrow>
          (case find (\<lambda>p. (dev = [] \<or> mrp_device_id p = dev) \<and> (player = [] \<or> mrp_player p = player)) (remote_players r) of
             None \<Rightarrow> True | Some p \<Rightarrow> mrp_is_playing p))"

definition skipCmd :: "string \<Rightarrow> client \<Rightarrow> wire \<Rightarrow> wire \<Rightarrow> wire \<Rightarrow> string list \<Rightarrow> string \<Rightarrow> string \<Rightarrow> outcome" where
  "skipCmd action c w1 w2 w3 args device player =
     (let dev = actionDeviceID args device; remote = Client_MprisRemote c w1
      in before (requests_of remote) []
           (calls (Client_MprisAction c w2 dev player action) (\<lambda>_.
              if \<not> remotePlayerPlaying remote dev player then prints []
              else simple (Client_MprisAction c w3 dev player ''Play'') [])))"

definition play_state :: "mpris_remote_player \<Rightarrow> string" where
  "play_state p = (if mrp_is_playing p then ''playing'' else if mrp_playback_status p = ''Paused'' then ''paused'' else ''stopped'')"

fun list_lines :: "string list \<Rightarrow> mpris_remote_player list \<Rightarrow> string list" where
  "list_lines seen [] = []"
| "list_lines seen (p # ps) =
     (if mrp_player p \<in> set seen then list_lines seen ps
      else (mrp_player p @ '' ('' @ play_state p @ '') - '' @ mrp_title p) # list_lines (mrp_player p # seen) ps)"

definition players_json :: "mpris_remote_player list option \<Rightarrow> json" where
  "players_json ps = enc_nlist enc_mpris_remote_player ps"

definition mpris_failed :: "mpris_remote_response called \<Rightarrow> (mpris_remote_response \<Rightarrow> outcome) \<Rightarrow> outcome" where
  "mpris_failed x f =
     (case snd x of Inl e \<Rightarrow> (requests_of x, [], Some (Wrapped ''mpris'' e)) | Inr r \<Rightarrow> before (requests_of x) [] (f r))"

definition cli_mpris_list :: "(json \<Rightarrow> string) \<Rightarrow> client \<Rightarrow> wire \<Rightarrow> bool \<Rightarrow> outcome" where
  "cli_mpris_list render c w json =
     mpris_failed (Client_MprisRemote c w) (\<lambda>r.
       if json then prints [render (players_json (mrr_players r))]
       else if remote_players r = [] then prints [''No remote media players found'']
       else prints (list_lines [] (remote_players r)))"

definition play_icon :: "mpris_remote_player \<Rightarrow> string" where
  "play_icon p = (if mrp_is_playing p then play_sign else if mrp_playback_status p = ''Paused'' then pause_sign else stop_sign)"

definition status_lines :: "mpris_remote_player \<Rightarrow> string list" where
  "status_lines p =
     [''['' @ shortID (mrp_device_id p) @ ''] '' @ play_icon p @ '' '' @ mrp_player p @ '' - '' @ mrp_title p]
     @ (if mrp_artist p = [] \<and> mrp_album p = [] then []
        else [''  '' @ mrp_artist p @ (if mrp_album p = [] then [] else '' '' @ dash @ '' '' @ mrp_album p)])
     @ [''  '' @ formatMs (mrp_pos p) @ '' / '' @ formatMs (mrp_length p) @ ''  vol:'' @ show_int (mrp_volume p) @ ''%'', []]"

definition cli_mpris_status :: "(json \<Rightarrow> string) \<Rightarrow> client \<Rightarrow> wire \<Rightarrow> string \<Rightarrow> bool \<Rightarrow> outcome" where
  "cli_mpris_status render c w device json =
     mpris_failed (Client_MprisRemote c w) (\<lambda>r.
       let chosen = filter (\<lambda>p. device = [] \<or> mrp_device_id p = device) (remote_players r)
       in if remote_players r = [] then prints [''No remote media players found'']
          else if json
          then prints [render (players_json (if device = [] then mrr_players r else if chosen = [] then None else Some chosen))]
          else prints (concat (map status_lines chosen)))"

definition cli_mpris_volume :: "client \<Rightarrow> wire \<Rightarrow> string list \<Rightarrow> string \<Rightarrow> string \<Rightarrow> outcome" where
  "cli_mpris_volume c w args device player =
     needs 1 args ''volume: missing volume argument (0-100)''
       (case atoi (arg args 0) of
          None \<Rightarrow> fails ''volume: must be 0-100''
        | Some v \<Rightarrow> if v < 0 \<or> v > 100 then fails ''volume: must be 0-100'' else simple (Client_MprisVolume c w device player v) [])"


definition cli_mpris_raw :: "(json \<Rightarrow> string) \<Rightarrow> client \<Rightarrow> wire \<Rightarrow> outcome" where
  "cli_mpris_raw render c w = calls (Client_MprisStatus c w) (\<lambda>s. prints [render (enc_mpris_status_response s)])"

section \<open>Facts\<close>

lemma add_offset_device [simp]: "sa_device (add_offset a out) = sa_device out"
  by (simp add: add_offset_def)

lemma bad_flag: "classify_word flags_done a = BadFlag \<Longrightarrow> has_prefix ''-'' a \<and> \<not> isNegativeOffset a"
  unfolding classify_word_def by (simp only: seek_word.distinct split: if_splits) simp_all

lemma digit_is_no_letter: "is_digit d \<Longrightarrow> d \<noteq> CHR ''-'' \<and> d \<noteq> CHR ''h'' \<and> d \<noteq> CHR ''p''"
  by (auto simp: is_digit_def)

lemma classify_negative:
  assumes "isNegativeOffset a"
  shows "classify_word flags_done a = OffsetWord \<and> a \<noteq> []"
proof -
  obtain d s where a: "a = CHR ''-'' # d # s" "is_digit d"
    using assms by (auto simp: isNegativeOffset_def split: list.splits)
  then show ?thesis using assms digit_is_no_letter [OF a(2)] by (auto simp: classify_word_def has_prefix_iff)
qed

lemma split_seek_unknown:
  "split_seek flags_done out args = Inl (UnknownFlag a) \<Longrightarrow> a \<in> set args \<and> (\<exists>f. classify_word f a = BadFlag)"
proof (induction flags_done out args rule: split_seek.induct)
  case (2 flags_done out b bs)
  then show ?case by (cases "classify_word flags_done b"; cases bs) auto
qed (simp split: if_splits)

lemma split_seek_offset:
  "split_seek flags_done out args = Inr r \<Longrightarrow> sa_offset r \<noteq> [] \<and> (sa_offset out \<noteq> [] \<longrightarrow> sa_offset r = sa_offset out)"
proof (induction flags_done out args rule: split_seek.induct)
  case (2 flags_done out b bs)
  have keep: "sa_offset out \<noteq> [] \<Longrightarrow> sa_offset (add_offset b out) = sa_offset out"
    by (simp add: add_offset_def firstNonEmpty_def)
  show ?case using 2 keep by (cases "classify_word flags_done b"; cases bs) auto
qed (simp split: if_splits)

text \<open>An argument that the seek command rejects as a flag is one of its arguments and is not an offset to go back.\<close>
theorem rejected_flag_is_no_offset:
  assumes "splitSeekArgs args = Inl (UnknownFlag a)"
  shows "a \<in> set args \<and> has_prefix ''-'' a \<and> \<not> isNegativeOffset a"
  using assms split_seek_unknown bad_flag unfolding splitSeekArgs_def by blast

text \<open>The offset of a seek is the one that comes first, also one with a minus sign.\<close>
theorem first_offset_counts:
  assumes "isNegativeOffset a" and "splitSeekArgs (a # as) = Inr r"
  shows "sa_offset r = a"
proof -
  have a: "classify_word False a = OffsetWord" "a \<noteq> []" using classify_negative [OF assms(1)] by simp_all
  then have "split_seek False (add_offset a \<lparr>sa_device = [], sa_player = [], sa_offset = []\<rparr>) as = Inr r"
    using assms by (simp add: splitSeekArgs_def)
  from split_seek_offset [OF this] show ?thesis
    using a(2) by (auto simp: add_offset_def firstNonEmpty_def)
qed

lemma seconds_in_milliseconds:
  assumes "n < 2 ^ 40" and "pd s = None" and "pf s = Some (Fin (of_nat n))"
  shows "parseDuration pd pf conv s = Some (1000 * int n)"
proof -
  have i: "int n < 2 ^ 40" using assms(1) by (simp add: zless_nat_eq_int_zless)
  have "of_nat n * (1000 :: rat) = of_int (1000 * int n)" by simp
  then have "float_mul (Fin (of_nat n)) (Fin 1000) = Fin (of_int (1000 * int n))"
    using round_float_int [of "1000 * int n"] i by (simp add: float_mul_def mult.commute)
  moreover have "to_int64 conv (Fin (of_int (1000 * int n))) = 1000 * int n"
    unfolding to_int64_def using i by (simp only: go_float.case trunc_rat_int) simp
  ultimately show ?thesis using assms by (simp add: parseDuration_def)
qed

text \<open>A number of seconds with a minus sign goes back by that many seconds, in the request that the daemon gets.\<close>
theorem seconds_seek_backwards:
  assumes "n < 2 ^ 40" and "pd (show_nat n) = None" and "pf (show_nat n) = Some (Fin (of_nat n))"
  shows "cli_mpris_seek quote pd pf conv c w [''-'' @ show_nat n] = simple (Client_MprisSeek c w [] [] (- 1000 * int n)) []"
proof -
  obtain d ds where d: "show_nat n = d # ds" "is_digit d"
    using show_nat_hd [of n] show_nat_not_Nil [of n] by (cases "show_nat n") auto
  have neg: "isNegativeOffset (''-'' @ show_nat n)" using d by (simp add: isNegativeOffset_def)
  have seconds_fit: "in_int64 (- (1000 * int n))"
    using assms(1) by (simp add: in_int64_def min_int64_def max_int64_def)
  have "splitSeekArgs [''-'' @ show_nat n] = Inr \<lparr>sa_device = [], sa_player = [], sa_offset = ''-'' @ show_nat n\<rparr>"
    using classify_negative [OF neg] by (simp add: splitSeekArgs_def add_offset_def firstNonEmpty_def)
  moreover have "wrap64 (- (1000 * int n)) = - 1000 * int n"
    using seconds_fit by (simp add: wrap64_id)
  then have "parseSeek pd pf conv (''-'' @ show_nat n) = Inr (- 1000 * int n)"
    using seconds_in_milliseconds [where s = "show_nat n" and pd = pd and pf = pf and conv = conv and n = n] assms by (simp add: parseSeek_def has_prefix_def)
  ultimately show ?thesis by (simp add: cli_mpris_seek_def)
qed

text \<open>
  Skipping a track does not start a player that was not playing: one control is sent at most, when the daemon says that the player
  is not playing.
\<close>
theorem skip_wakes_no_paused_player:
  assumes "snd (Client_MprisRemote c w1) = Inr r"
    and "find (\<lambda>p. (actionDeviceID args device = [] \<or> mrp_device_id p = actionDeviceID args device)
                  \<and> (player = [] \<or> mrp_player p = player)) (remote_players r) = Some p"
    and "\<not> mrp_is_playing p"
  shows "fst (skipCmd action c w1 w2 w3 args device player) =
    requests_of (Client_MprisRemote c w1) @ requests_of (Client_MprisAction c w2 (actionDeviceID args device) player action)"
  using assms
  by (auto simp: skipCmd_def remotePlayerPlaying_def calls_def before_def prints_def Let_def split: sum.splits)

end
