(* ===== verification/CliCommands.thy ===== *)
theory CliCommands
  imports CliMedia
begin

text \<open>
  The other commands of \<open>cmd/kcd\<close>: the files of a phone, messages, contacts, commands, volumes, the status, the watch and the
  checks of \<open>kcd doctor\<close> (\<open>internal/doctor\<close>).

  \<open>render\<close> is the text of a JSON document, \<open>raw\<close> the text of a value as it came, \<open>jt\<close> the text of an error of \<open>encoding/json\<close> and
  \<open>quote\<close> the verb \<open>%q\<close>.
\<close>

section \<open>Numbers\<close>

text \<open>\<open>strconv.ParseInt\<close> with the text of its error.\<close>

definition number_error :: "(string \<Rightarrow> string) \<Rightarrow> string \<Rightarrow> string" where
  "number_error quote s =
     ''strconv.ParseInt: parsing '' @ quote s @ '': ''
     @ (if parse_nat (if has_prefix ''+'' s \<or> has_prefix ''-'' s then tl s else s) = None then ''invalid syntax''
        else ''value out of range'')"

text \<open>
  \<open>fmt.Sscanf\<close> with \<open>%d\<close>: spaces, a sign and as many digits as there are; what follows is not looked at.  A line end among the
  spaces is an error.
\<close>

fun after_spaces :: "nat list \<Rightarrow> nat list option" where
  "after_spaces [] = Some []"
| "after_spaces (r # rs) = (if r = 10 then None else if is_space_rune r then after_spaces rs else Some (r # rs))"

definition scan_int :: "string \<Rightarrow> int option" where
  "scan_int s =
     (case after_spaces (runes_of s) of
        None \<Rightarrow> None
      | Some rs \<Rightarrow>
          let ds = (if rs \<noteq> [] \<and> hd rs \<in> {43, 45} then tl rs else rs);
              digits = takeWhile (\<lambda>r. 48 \<le> r \<and> r \<le> 57) ds;
              sign = (if rs \<noteq> [] \<and> hd rs = 45 then ''-'' else [])
          in if digits = [] then None else atoi (sign @ map char_of digits))"

section \<open>Files of a phone\<close>

definition readOnlyOverride :: "bool \<Rightarrow> bool \<Rightarrow> bool option" where
  "readOnlyOverride ro no_ro = (if ro then Some True else if no_ro then Some False else None)"

definition missing_device :: string where "missing_device = ''missing device ID''"

definition cli_sftp_request :: "client \<Rightarrow> wire \<Rightarrow> string list \<Rightarrow> outcome" where
  "cli_sftp_request c w args = needs 1 args missing_device
     (simple (Client_SftpMount c w (arg args 0) None) ''SFTP mount requested. Run 'kcd sftp info' or 'kcd watch' to see details.'')"

definition info_lines :: "bool \<Rightarrow> sftp_info_response \<Rightarrow> string list" where
  "info_lines show_password i =
     [''IP:       '' @ sir_ip i, ''Port:     '' @ sir_port i, ''User:     '' @ sir_user i,
      ''Password: '' @ (if show_password then sir_password i else ''*******''), ''Path:     '' @ sir_path i,
      if sir_mounted i then ''Mounted:  yes ('' @ sir_mount_point i @ '')'' else ''Mounted:  no'']
     @ (if sir_volumes i = [] then []
        else [] # ''Storage volumes:'' # map (\<lambda>v. ''  '' @ svr_name v @ ''  '' @ svr_path v) (sir_volumes i))"

definition cli_sftp_info :: "(json \<Rightarrow> string) \<Rightarrow> client \<Rightarrow> wire \<Rightarrow> string list \<Rightarrow> bool \<Rightarrow> bool \<Rightarrow> outcome" where
  "cli_sftp_info render c w args json show_password =
     needs 1 args missing_device
       (calls (Client_SftpInfo c w (arg args 0) show_password) (\<lambda>i.
          prints (if json then [render (enc_sftp_info_response i)] else info_lines show_password i)))"

definition cli_sftp_volumes :: "(json \<Rightarrow> string) \<Rightarrow> client \<Rightarrow> wire \<Rightarrow> string list \<Rightarrow> bool \<Rightarrow> outcome" where
  "cli_sftp_volumes render c w args json =
     needs 1 args missing_device
       (calls (Client_SftpVolumes c w (arg args 0)) (\<lambda>vs.
          prints (if json then [render (JArr (map enc_storage_volume_response vs))]
                  else if vs = [] then [''No volumes available. Try 'kcd sftp request' first.'']
                  else (pad_right 20 ''NAME'' @ '' PATH'') # map (\<lambda>v. pad_right 20 (svr_name v) @ '' '' @ svr_path v) vs)))"

definition requesting :: string where
  "requesting = ''Requesting SFTP credentials from phone (waiting up to 20s)'' @ ellipsis"

definition cli_sftp_mount :: "client \<Rightarrow> wire \<Rightarrow> string list \<Rightarrow> bool \<Rightarrow> bool \<Rightarrow> outcome" where
  "cli_sftp_mount c w args ro no_ro =
     needs 1 args missing_device
       (before [] [requesting]
         (calls (Client_SftpMountLocal c w (arg args 0) (readOnlyOverride ro no_ro)) (\<lambda>path. prints [''Mounted at: '' @ path])))"

definition cli_sftp_unmount :: "client \<Rightarrow> wire \<Rightarrow> string list \<Rightarrow> outcome" where
  "cli_sftp_unmount c w args = needs 1 args missing_device (simple (Client_SftpUnmount c w (arg args 0)) ''Unmounted successfully.'')"

definition volume_row :: "nat \<times> storage_volume_response \<Rightarrow> string" where
  "volume_row x = ''  '' @ show_nat (fst x) @ ''. '' @ pad_right 30 (svr_name (snd x)) @ '' '' @ svr_path (snd x)"

definition cli_sftp_browse :: "client \<Rightarrow> wire \<Rightarrow> string list \<Rightarrow> bool \<Rightarrow> bool \<Rightarrow> outcome" where
  "cli_sftp_browse c w args ro no_ro =
     needs 1 args missing_device
       (before [] [requesting]
         (calls (Client_SftpBrowse c w (arg args 0) (arg args 1) (readOnlyOverride ro no_ro)) (\<lambda>(path, vs).
            prints (if path \<noteq> [] then [''Mounted at: '' @ path]
                    else if vs = [] then [''No storage volumes reported by device.'']
                    else ''Available volumes:'' # map volume_row (enumerate 0 vs)
                         @ [[], ''Mount a volume: kcd sftp browse <device-id> <index|name|path>'']))))"

section \<open>Messages\<close>

definition cli_sms_send :: "client \<Rightarrow> wire \<Rightarrow> string list \<Rightarrow> int option \<Rightarrow> outcome" where
  "cli_sms_send c w args sub =
     needs 3 args ''missing device ID, phone number, or message''
       (simple (Client_SendSMS c w (arg args 0) (arg args 1) (arg args 2) (case sub of None \<Rightarrow> [] | Some i \<Rightarrow> [i])) ''SMS request sent'')"

definition cli_sms_conversations :: "client \<Rightarrow> wire \<Rightarrow> string list \<Rightarrow> outcome" where
  "cli_sms_conversations c w args = needs 1 args missing_device
     (simple (Client_SmsRequestConversations c w (arg args 0))
        ''Conversation list requested. Use `kcd watch --events sms.incoming` to see results.'')"

definition sms_requested :: string where
  "sms_requested = ''Conversation requested. Use `kcd watch --events sms.incoming` to see results.''"

text \<open>A flag that is given with zero is not a flag that is missing.\<close>

definition runSmsConversation :: "(string \<Rightarrow> string) \<Rightarrow> client \<Rightarrow> wire \<Rightarrow> string list \<Rightarrow> int option \<Rightarrow> int option \<Rightarrow> outcome" where
  "runSmsConversation quote c w args before_ms limit =
     needs 2 args ''missing device ID or thread ID''
       (case atoi (arg args 1) of
          None \<Rightarrow> fails (''invalid thread ID: '' @ number_error quote (arg args 1))
        | Some thread \<Rightarrow>
            if before_ms \<noteq> None \<and> the before_ms < 0
            then fails (''invalid --before '' @ show_int (the before_ms) @ '': ms epoch, must not be negative'')
            else if limit \<noteq> None \<and> the limit < 0
            then fails (''invalid --limit '' @ show_int (the limit) @ '': must not be negative'')
            else simple (Client_SmsRequestConversationRange c w (arg args 0) thread before_ms limit) sms_requested)"

definition cli_sms_attachment :: "(string \<Rightarrow> string) \<Rightarrow> client \<Rightarrow> wire \<Rightarrow> string list \<Rightarrow> int option \<Rightarrow> outcome" where
  "cli_sms_attachment quote c w args thread =
     needs 3 args ''missing device ID, part ID, or unique identifier''
       (case atoi (arg args 1) of
          None \<Rightarrow> fails (''invalid part ID: '' @ number_error quote (arg args 1))
        | Some part \<Rightarrow>
            simple (Client_SmsRequestAttachment c w (arg args 0) part (arg args 2) (case thread of None \<Rightarrow> [] | Some i \<Rightarrow> [i]))
              ''Attachment requested. File will arrive via `kcd watch --events sms.attachment`.'')"

section \<open>Contacts\<close>

definition cli_contacts_sync :: "client \<Rightarrow> wire \<Rightarrow> device_info list called \<Rightarrow> string list \<Rightarrow> outcome" where
  "cli_contacts_sync c w devices args =
     device_action args devices (Client_ContactsSync c w)
       ''Contacts sync requested. Use `kcd watch --events contacts.updated` to see results.''"

definition cli_contacts_list ::
  "(json \<Rightarrow> string) \<Rightarrow> client \<Rightarrow> wire \<Rightarrow> device_info list called \<Rightarrow> string list \<Rightarrow> bool \<Rightarrow> outcome" where
  "cli_contacts_list render c w devices args json =
     resolveDeviceID args devices (\<lambda>dev. calls (Client_ContactsList c w dev) (\<lambda>cs.
       prints (if cs = [] then [''No cached contacts. Run `kcd contacts sync <device-id>` first.'']
               else if json then [render (JArr (map enc_contact_summary cs))]
               else map (\<lambda>ct. pad_right 30 (cos_name ct) @ '' '' @ join_with '', '' (cos_phones ct)) cs)))"

text \<open>What is counted is the list before it is cleared.\<close>

definition cli_contacts_clear :: "client \<Rightarrow> wire \<Rightarrow> wire \<Rightarrow> device_info list called \<Rightarrow> string list \<Rightarrow> outcome" where
  "cli_contacts_clear c w1 w2 devices args =
     resolveDeviceID args devices (\<lambda>dev. calls (Client_ContactsList c w1 dev) (\<lambda>cs.
       simple (Client_ContactsClear c w2 dev)
         (''Cleared '' @ show_nat (length cs) @ '' cached contact(s) for '' @ dev @ ''.'')))"

section \<open>Device commands\<close>

definition battery_json :: "(json \<Rightarrow> string) \<Rightarrow> string \<Rightarrow> int \<Rightarrow> bool \<Rightarrow> string" where
  "battery_json render dev charge charging =
     render (JObj [(''charge'', enc_int charge), (''charging'', JBool charging), (''deviceId'', JStr dev)])"

definition runBattery ::
  "(json \<Rightarrow> string) \<Rightarrow> client \<Rightarrow> wire \<Rightarrow> device_info list called \<Rightarrow> string list \<Rightarrow> bool \<Rightarrow> outcome" where
  "runBattery render c w devices args json =
     resolveDeviceID args devices (\<lambda>dev. calls (Client_Battery c w dev) (\<lambda>(charge, charging).
       prints [if json then battery_json render dev charge charging
               else ''Battery: '' @ show_int charge @ ''% ('' @ (if charging then ''charging'' else ''discharging'') @ '')'']))"

definition cli_connectivity ::
  "(json option \<Rightarrow> string) \<Rightarrow> string \<Rightarrow> client \<Rightarrow> wire \<Rightarrow> device_info list called \<Rightarrow> string list \<Rightarrow> bool \<Rightarrow> outcome" where
  "cli_connectivity raw jt c w devices args json =
     resolveDeviceID args devices (\<lambda>dev. calls (Client_Connectivity c w dev) (\<lambda>j.
       if json then prints [raw j]
       else case dec_connectivity j of
              None \<Rightarrow> fails (''decode connectivity report: '' @ jt)
            | Some body \<Rightarrow> prints (formatConnectivity body)))"

definition cli_call_mute :: "client \<Rightarrow> wire \<Rightarrow> string list \<Rightarrow> outcome" where
  "cli_call_mute c w args = needs 1 args missing_device (simple (Client_CallMute c w (arg args 0)) ''Call mute requested'')"

definition cli_notify_action :: "client \<Rightarrow> wire \<Rightarrow> string list \<Rightarrow> outcome" where
  "cli_notify_action c w args =
     needs 3 args ''missing device ID, notification ID, or action''
       (simple (Client_NotifyAction c w (arg args 0) (arg args 1) (arg args 2)) ''Notification action sent'')"

definition cli_reply :: "client \<Rightarrow> wire \<Rightarrow> string list \<Rightarrow> outcome" where
  "cli_reply c w args =
     needs 3 args ''missing device ID, reply ID, or message''
       (simple (Client_NotifyReply c w (arg args 0) (arg args 1) (arg args 2)) ''Notification reply sent'')"

definition cli_dismiss :: "client \<Rightarrow> wire \<Rightarrow> string list \<Rightarrow> outcome" where
  "cli_dismiss c w args =
     needs 2 args ''missing device ID or notification ID''
       (simple (Client_NotifyDismiss c w (arg args 0) (arg args 1)) ''Notification dismissed'')"

definition cli_run_list :: "client \<Rightarrow> wire \<Rightarrow> string list \<Rightarrow> outcome" where
  "cli_run_list c w args =
     needs 1 args missing_device (calls (Client_RunList c w (arg args 0)) (\<lambda>cs.
       prints (if cs = [] then [''No commands available on this device.''] else map (\<lambda>(n, cmd). n @ [char_of (9 :: nat)] @ cmd) cs)))"

definition cli_run_exec :: "client \<Rightarrow> wire \<Rightarrow> string list \<Rightarrow> outcome" where
  "cli_run_exec c w args =
     needs 2 args ''missing device ID or command key''
       (simple (Client_RunExec c w (arg args 0) (arg args 1)) ''Command execution requested'')"

text \<open>\<open>filepath.Abs\<close>, with the working directory when there is one; \<open>is_dir\<close> is what the file system says of a path.\<close>

definition abs_path :: "string + string \<Rightarrow> string \<Rightarrow> string + string" where
  "abs_path cwd p = (if is_rooted p then Inr (Clean p) else case cwd of Inl e \<Rightarrow> Inl e | Inr d \<Rightarrow> Inr (Join [d, p]))"

definition cli_share :: "string + string \<Rightarrow> (string \<Rightarrow> bool) \<Rightarrow> client \<Rightarrow> wire \<Rightarrow> string list \<Rightarrow> outcome" where
  "cli_share cwd is_dir c w args =
     needs 2 args ''missing device ID or file path''
       (case abs_path cwd (arg args 1) of
          Inl e \<Rightarrow> fails (''invalid file path: '' @ e)
        | Inr path \<Rightarrow>
            if is_dir path then fails ''share: directory transfer is not supported''
            else simple (Client_ShareFile c w (arg args 0) path) ''File share requested'')"

definition cli_clipboard :: "client \<Rightarrow> wire \<Rightarrow> device_info list called \<Rightarrow> string list \<Rightarrow> outcome" where
  "cli_clipboard c w devices args =
     resolveDeviceID args devices (\<lambda>dev. simple (Client_ClipboardPush c w dev) (''Clipboard pushed to '' @ dev))"

definition cli_connect :: "client \<Rightarrow> wire \<Rightarrow> string list \<Rightarrow> outcome" where
  "cli_connect c w args =
     needs 1 args ''missing IP address'' (simple (Client_Connect c w (arg args 0)) ''Connection request sent to daemon.'')"

definition sink_row :: "sink_info \<Rightarrow> string" where
  "sink_row s = sk_name s @ ''  '' @ show_int (sk_volume s) @ ''%'' @ (if sk_muted s then '' (MUTED)'' else [])"

definition cli_volume_list ::
  "(json option \<Rightarrow> string) \<Rightarrow> string \<Rightarrow> client \<Rightarrow> wire \<Rightarrow> device_info list called \<Rightarrow> string list \<Rightarrow> bool \<Rightarrow> outcome" where
  "cli_volume_list raw jt c w devices args json =
     resolveDeviceID args devices (\<lambda>dev. calls (Client_RemoteVolumeList c w dev) (\<lambda>j.
       if json then prints [raw j]
       else case unmarshal_raw (\<lambda>j. dec_list (dec_struct (dec_fields sink_fields)) zero_sink j []) j of
              None \<Rightarrow> fails (''decode sinks: '' @ jt)
            | Some sinks \<Rightarrow>
                prints (if sinks = [] then [''No sinks known '' @ dash @ '' connect to the device first.''] else map sink_row sinks)))"

definition cli_volume_set :: "client \<Rightarrow> wire \<Rightarrow> string list \<Rightarrow> outcome" where
  "cli_volume_set c w args =
     needs 3 args ''usage: kcd volume set <device-id> <sink-name> <0-100>''
       (case scan_int (arg args 2) of
          None \<Rightarrow> fails ''volume must be 0-100''
        | Some v \<Rightarrow>
            if v < 0 \<or> v > 100 then fails ''volume must be 0-100''
            else simple (Client_RemoteVolumeSet c w (arg args 0) (arg args 1) v) ''Volume set.'')"

definition cli_volume_mute :: "client \<Rightarrow> wire \<Rightarrow> string list \<Rightarrow> outcome" where
  "cli_volume_mute c w args =
     needs 3 args ''usage: kcd volume mute <device-id> <sink-name> <true|false>''
       (let muted = (arg args 2 = ''true'')
        in simple (Client_RemoteVolumeMute c w (arg args 0) (arg args 1) muted)
             (''Sink '' @ (if muted then ''muted'' else ''unmuted'') @ ''.''))"

section \<open>Facts\<close>

lemma ascii_digits: "char_of (53 :: nat) = CHR ''5''" "char_of (48 :: nat) = CHR ''0''"
  by code_simp+

text \<open>A volume is read from the digits in front: what follows them is not an error.\<close>
theorem volume_reads_prefix: "scan_int ''50abc'' = Some 50"
  by (simp add: scan_int_def runes_of_def bytes_of_def runes.simps utf8_next.simps is_space_rune_def atoi_def parse_nat_def
      is_digit_def digits_val_def digit_val_def in_int64_def min_int64_def max_int64_def ascii_digits Let_def)

text \<open>No list of requests of a message thread has a negative bound in it: such a flag ends the command before anything is written.\<close>
theorem negative_window_not_sent:
  assumes "before_ms = Some b" and "b < 0"
  shows "fst (runSmsConversation quote c w args before_ms limit) = []"
  using assms by (simp add: runSmsConversation_def needs_def fails_def split: option.splits)

text \<open>The password of a phone's files is not printed unless it was asked for.\<close>
theorem password_masked:
  "info_lines False i = info_lines False (i\<lparr>sir_password := p\<rparr>)"
  by (simp add: info_lines_def)

end
