(* ===== verification/CliStatus.thy ===== *)
theory CliStatus
  imports CliCommands
begin

text \<open>
  What \<open>cmd/kcd\<close> tells of the daemon: the status, the watch with its reconnection, the version, the configuration, the D-Bus
  adapter, and the checks of \<open>kcd doctor\<close> (\<open>internal/doctor\<close>).
\<close>

section \<open>The status\<close>

definition shortDeviceID :: "string \<Rightarrow> string" where
  "shortDeviceID i =
     (let head = takeWhile (\<lambda>c. c \<noteq> CHR ''_'') i
      in if head \<noteq> [] \<and> head \<noteq> i then head else if length i > 8 then take 8 i else i)"

definition formatStatusBattery :: "status_battery option \<Rightarrow> string" where
  "formatStatusBattery b =
     (case b of None \<Rightarrow> dash | Some b \<Rightarrow> show_int (sba_charge b) @ ''%'' @ (if sba_charging b then ''+'' else []))"

text \<open>\<open>parse\<close> is \<open>time.Parse\<close> of RFC 3339, \<open>date\<close> the date of a time in its zone.\<close>

definition formatSeenAge :: "(string \<Rightarrow> int option) \<Rightarrow> (string \<Rightarrow> string) \<Rightarrow> int \<Rightarrow> string \<Rightarrow> string" where
  "formatSeenAge parse date now ts =
     (if ts = [] then ''never''
      else case parse ts of
             None \<Rightarrow> ts
           | Some t \<Rightarrow>
               (let d = time_since now (Some t)
                in if d < 0 then ''now''
                   else if d < minute then show_int (d div second) @ ''s ago''
                   else if d < 60 * minute then show_int (d div minute) @ ''m ago''
                   else if d < 24 * (60 * minute) then show_int (d div (60 * minute)) @ ''h ago''
                   else date ts))"

definition orDash :: "string \<Rightarrow> string" where
  "orDash s = (if s = [] then dash else s)"

definition status_row :: "(string \<Rightarrow> int option) \<Rightarrow> (string \<Rightarrow> string) \<Rightarrow> int \<Rightarrow> status_device \<Rightarrow> string list" where
  "status_row parse date now d =
     [sd_name d, shortDeviceID (sd_id d), sd_type d, sd_state d, orDash (sd_addr d), formatStatusBattery (sd_battery d),
      formatSeenAge parse date now (sd_last_seen d)]"

text \<open>
  \<open>text/tabwriter\<close> for rows of equally many cells, none of which has a tab or a line end in it: a column is as wide as its
  widest cell, in runes, and two spaces; the last cell of a row is not padded.
\<close>

definition column_width :: "string list list \<Rightarrow> nat \<Rightarrow> nat" where
  "column_width rows k = Max (set (map (\<lambda>r. length (runes_of (r ! k))) rows)) + 2"

definition tab_row :: "string list list \<Rightarrow> string list \<Rightarrow> string" where
  "tab_row rows r =
     concat (map (\<lambda>k. if Suc k = length r then r ! k else pad_right (column_width rows k) (r ! k)) [0..<length r])"

definition status_heading :: "string list" where
  "status_heading = [''NAME'', ''ID'', ''TYPE'', ''STATE'', ''ADDR'', ''BATTERY'', ''LAST SEEN'']"

definition formatStatus :: "(string \<Rightarrow> int option) \<Rightarrow> (string \<Rightarrow> string) \<Rightarrow> int \<Rightarrow> status_response \<Rightarrow> string list" where
  "formatStatus parse date now st =
     [''kcd '' @ sr_version st @ '' (up '' @ sr_uptime_human st @ '')'', [], ''Socket:   '' @ sr_socket_path st,
      ''Config:   '' @ sr_config_path st]
     @ (if sr_tcp_port st > 0 then [''Listen:   tcp :'' @ show_int (sr_tcp_port st)] else [])
     @ [[], ''Devices:  '' @ show_int (sr_device_count st) @ '' known, '' @ show_int (sr_connected_count st) @ '' connected'']
     @ (if sr_devices st = [] then []
        else (let rows = status_heading # map (status_row parse date now) (sr_devices st) in map (tab_row rows) rows))
     @ [[], ''Plugins ('' @ show_nat (length (case sr_plugins st of None \<Rightarrow> [] | Some ps \<Rightarrow> ps)) @ ''): ''
            @ join_with '', '' (case sr_plugins st of None \<Rightarrow> [] | Some ps \<Rightarrow> ps)]"

definition cli_status ::
  "(json \<Rightarrow> string) \<Rightarrow> (string \<Rightarrow> int option) \<Rightarrow> (string \<Rightarrow> string) \<Rightarrow> int \<Rightarrow> client \<Rightarrow> wire \<Rightarrow> bool \<Rightarrow> outcome" where
  "cli_status render parse date now c w json =
     calls (Client_Status c w) (\<lambda>st. prints (if json then [render (enc_status_response st)] else formatStatus parse date now st))"

section \<open>The watch\<close>

text \<open>
  One round of the loop: whether the user has stopped it before, what came of \<open>Client.Watch\<close> and how long that took, and whether
  the user stops it during the wait that follows.
\<close>

record watch_round =
  wr_stopped :: bool
  wr_end :: client_error
  wr_lasted :: duration
  wr_interrupted :: bool

datatype watch_step = Reports client_error duration | Sleeps duration

definition initial_wait :: duration where "initial_wait = second"
definition maximum_wait :: duration where "maximum_wait = 30 * second"

fun watch_loop :: "duration \<Rightarrow> watch_round list \<Rightarrow> watch_step list" where
  "watch_loop wait [] = []"
| "watch_loop wait (r # rs) =
     (if wr_stopped r \<or> wr_end r = Cancelled then []
      else (let slept = (if wr_lasted r > 5 * second then initial_wait else wait)
            in [Reports (wr_end r) wait, Sleeps slept]
               @ (if wr_interrupted r then []
                  else watch_loop (if slept * 2 > maximum_wait then maximum_wait else slept * 2) rs)))"

text \<open>\<open>marshal\<close> is the JSON text of an event.\<close>

definition event_line :: "(json event \<Rightarrow> string) \<Rightarrow> (go_float \<Rightarrow> int) \<Rightarrow> bool \<Rightarrow> json event \<Rightarrow> string" where
  "event_line marshal conv json ev = (if json then marshal ev @ [newline] else formatEvent conv ev)"

section \<open>Versions\<close>

definition version_plugins :: "string list" where
  "version_plugins = hello_plugins @ [''Digitizer'']"

definition version_opt_in :: "event_type list" where
  "version_opt_in = [TypeSMSIncoming, TypeSMSAttachment]"

text \<open>What is said to be the version and the commands of the daemon is that of the program that is run.\<close>

definition cli_version ::
  "(json \<Rightarrow> string) \<Rightarrow> (load_config_error \<Rightarrow> string) \<Rightarrow> string \<Rightarrow> string \<Rightarrow> string list \<Rightarrow> load_config_error + full_config \<Rightarrow>
     bool \<Rightarrow> outcome" where
  "cli_version render load_text version app_version app_commands loaded json =
     (if \<not> json then prints [app_version]
      else case loaded of
             Inl e \<Rightarrow> fails (load_text e)
           | Inr cfg \<Rightarrow>
               prints [render (enc_hello_response
                 \<lparr>hr_api_version = APIVersion, hr_daemon_version = version, hr_commands = Some app_commands,
                  hr_events = Some AllTypes, hr_opt_in_events = Some version_opt_in,
                  hr_plugins = sort_key (\<lambda>x. map byte (fst x))
                    (map (\<lambda>n. (n, PluginEnabledForDevice (config.truncate cfg) [] n)) version_plugins),
                  hr_features = Some [''errorCodes'', ''keepAlive'', ''watchResume'', ''prompts'', ''config'', ''schemas'']\<rparr>)])"

section \<open>The D-Bus adapter\<close>

definition dbus_IsDaemonRunning :: "client \<Rightarrow> wire \<Rightarrow> bool" where
  "dbus_IsDaemonRunning c w = (case snd (Client_Status c w) of Inl _ \<Rightarrow> False | Inr _ \<Rightarrow> True)"

definition dbus_Devices :: "client \<Rightarrow> wire \<Rightarrow> string list called" where
  "dbus_Devices c w =
     result (decoded [] (\<lambda>j. dec_list (dec_struct (dec_fields [(''id'', \<lambda>j old. dec_str j old)])) [] j []))
       (Call c w CmdDevices NoPayload)"

section \<open>The configuration\<close>

definition config_paths :: "string \<Rightarrow> string list" where
  "config_paths path = [path, Clean (path @ ''.d'')]"

definition config_check ::
  "(load_config_error \<Rightarrow> string) \<Rightarrow> (config_error \<Rightarrow> string) \<Rightarrow> parse_duration \<Rightarrow> load_config_error + full_config \<Rightarrow> outcome" where
  "config_check load_text validate_text pd loaded =
     (case loaded of
        Inl e \<Rightarrow> fails (load_text e)
      | Inr cfg \<Rightarrow> (case Validate pd cfg of Some e \<Rightarrow> fails (validate_text e) | None \<Rightarrow> prints [''configuration is valid'']))"

section \<open>The doctor\<close>

record check =
  ck_name :: string
  ck_detail :: string
  ck_pass :: bool

text \<open>What the checks look at: \<open>de_load\<close> is the configuration at the default path, as text of an error or as values.\<close>

record doctor_env =
  dc_env :: environment
  dc_load :: "string + full_config"
  dc_answers :: "string \<Rightarrow> bool"
  dc_installed :: "string \<Rightarrow> bool"
  dc_udp :: "int \<Rightarrow> string option"
  dc_tcp :: "int \<Rightarrow> string option"
  dc_exists :: "string \<Rightarrow> bool"

definition passed :: "string \<Rightarrow> check" where
  "passed name = \<lparr>ck_name = name, ck_detail = [], ck_pass = True\<rparr>"

definition failed_check :: "string \<Rightarrow> string \<Rightarrow> check" where
  "failed_check name detail = \<lparr>ck_name = name, ck_detail = detail, ck_pass = False\<rparr>"

definition configuredTCPPort :: "doctor_env \<Rightarrow> int" where
  "configuredTCPPort e =
     (case dc_load e of
        Inl _ \<Rightarrow> DefaultTCPPort
      | Inr cfg \<Rightarrow> if fc_tcp_port cfg = 0 then DefaultTCPPort else fc_tcp_port cfg)"

definition checkDaemon :: "doctor_env \<Rightarrow> check" where
  "checkDaemon e =
     (let path = DefaultSocketPath (dc_env e)
      in if dc_answers e path then passed ''daemon running''
         else failed_check ''daemon running'' (''daemon not reachable at '' @ path))"

definition checkBin :: "doctor_env \<Rightarrow> string \<Rightarrow> string \<Rightarrow> string \<Rightarrow> check" where
  "checkBin e name bin hint = (if dc_installed e bin then passed name else failed_check name hint)"

definition checkAny :: "doctor_env \<Rightarrow> string \<Rightarrow> string \<Rightarrow> string list \<Rightarrow> check" where
  "checkAny e name hint bins = (if \<exists>b \<in> set bins. dc_installed e b then passed name else failed_check name hint)"

definition check_port :: "string \<Rightarrow> (int \<Rightarrow> string option) \<Rightarrow> bool \<Rightarrow> int \<Rightarrow> check" where
  "check_port proto listen running port =
     (let name = ''port '' @ show_int port @ ''/'' @ proto @ '' open''
      in if running then passed name
         else case listen port of None \<Rightarrow> passed name | Some err \<Rightarrow> failed_check name (''port is blocked or in use: '' @ err))"

definition checkUDPPort :: "doctor_env \<Rightarrow> bool \<Rightarrow> int \<Rightarrow> check" where
  "checkUDPPort e = check_port ''udp'' (dc_udp e)"

definition checkTCPPort :: "doctor_env \<Rightarrow> bool \<Rightarrow> int \<Rightarrow> check" where
  "checkTCPPort e = check_port ''tcp'' (dc_tcp e)"

definition checkConfigFile :: "doctor_env \<Rightarrow> check" where
  "checkConfigFile e =
     (let path = DefaultConfigPath (dc_env e)
      in if dc_exists e path then passed ''config file readable''
         else failed_check ''config file readable'' (''not found at '' @ path @ '' (using defaults)''))"

definition checkCertFile :: "doctor_env \<Rightarrow> check" where
  "checkCertFile e =
     (case dc_load e of
        Inl err \<Rightarrow> failed_check ''cert file exists'' (''could not load config: '' @ err)
      | Inr cfg \<Rightarrow>
          if dc_exists e (fc_cert_file cfg) then passed ''cert file exists''
          else failed_check ''cert file exists'' (''not found at '' @ fc_cert_file cfg @ '' (will be generated on first daemon start)''))"

definition doctor_Run :: "doctor_env \<Rightarrow> check list" where
  "doctor_Run e =
     (let d = checkDaemon e
      in [d, checkBin e ''notify-send'' ''notify-send'' ''install libnotify-bin'',
          checkAny e ''wl-copy / xclip'' ''install wl-clipboard (Wayland) or xclip (X11)'' [''wl-copy'', ''xclip''],
          checkBin e ''sshfs'' ''sshfs'' ''install sshfs'',
          checkAny e ''ydotool / xdotool'' ''install ydotool (Wayland) or xdotool (X11)'' [''ydotool'', ''xdotool'']]
         @ (if Getenv (dc_env e) ''WAYLAND_DISPLAY'' = [] then []
            else [checkBin e ''wtype'' ''wtype'' ''install wtype for Wayland keyboard input''])
         @ [checkUDPPort e (ck_pass d) 1716, checkTCPPort e (ck_pass d) (configuredTCPPort e), checkConfigFile e, checkCertFile e])"

definition tick_mark :: string where "tick_mark = [CHR 0xE2, CHR 0x9C, CHR 0x93]"
definition cross_mark :: string where "cross_mark = [CHR 0xE2, CHR 0x9C, CHR 0x97]"

definition check_line :: "bool \<Rightarrow> check \<Rightarrow> string" where
  "check_line color ch =
     (let esc = char_of (27 :: nat); mark = (\<lambda>c m. if color then [esc] @ c @ m @ [esc] @ ''[0m'' else m)
      in if ck_pass ch then mark ''[32m'' tick_mark @ '' '' @ ck_name ch
         else mark ''[31m'' cross_mark @ '' '' @ ck_name ch @ '' '' @ dash @ '' '' @ ck_detail ch)"

text \<open>The lines, and whether the program ends with the exit code 1.\<close>

definition cli_doctor :: "doctor_env \<Rightarrow> string list \<times> bool" where
  "cli_doctor e =
     (let color = (Getenv (dc_env e) ''TERM'' \<noteq> [] \<and> Getenv (dc_env e) ''NO_COLOR'' = []); cs = doctor_Run e;
          failed = (\<exists>ch \<in> set cs. \<not> ck_pass ch)
      in (map (check_line color) cs @ [[], if failed then ''Some checks failed.'' else ''All checks passed.''], failed))"

section \<open>Facts\<close>

definition wait_ok :: "duration \<Rightarrow> bool" where
  "wait_ok d \<longleftrightarrow> initial_wait \<le> d \<and> d \<le> maximum_wait"

lemma watch_loop_waits: "wait_ok wait \<Longrightarrow> Sleeps d \<in> set (watch_loop wait rs) \<Longrightarrow> wait_ok d"
proof (induction wait rs rule: watch_loop.induct)
  case (2 wait r rs)
  define slept where "slept = (if wr_lasted r > 5 * second then initial_wait else wait)"
  have s: "wait_ok slept" using 2(2) by (simp add: slept_def wait_ok_def initial_wait_def maximum_wait_def second_def)
  have n: "wait_ok (if slept * 2 > maximum_wait then maximum_wait else slept * 2)"
    using s by (simp add: wait_ok_def initial_wait_def maximum_wait_def second_def)
  show ?case using 2(1) [OF _ slept_def _ n] 2(3) s by (auto simp: Let_def slept_def [symmetric] split: if_splits)
qed simp

text \<open>A watch that has lost the daemon waits for one second at least and for thirty at most before it tries again.\<close>
theorem watch_waits_bounded:
  assumes "Sleeps d \<in> set (watch_loop initial_wait rs)"
  shows "second \<le> d \<and> d \<le> 30 * second"
  using watch_loop_waits [OF _ assms] by (simp add: wait_ok_def initial_wait_def maximum_wait_def second_def)

theorem watch_waits_bounded_witness:
  "second \<le> 2 * second \<and> 2 * second \<le> 30 * second"
  by (rule watch_waits_bounded [where rs = "[\<lparr>wr_stopped = False, wr_end = UnmarshalResponse, wr_lasted = 0, wr_interrupted = False\<rparr>,
      \<lparr>wr_stopped = False, wr_end = UnmarshalResponse, wr_lasted = 0, wr_interrupted = False\<rparr>]"])
    (simp add: Let_def initial_wait_def maximum_wait_def second_def)

text \<open>After a long connection the wait that is announced is not the one that follows.\<close>
theorem announced_wait_differs:
  assumes "wr_lasted r > 5 * second" and "\<not> wr_stopped r" and "wr_end r \<noteq> Cancelled"
  shows "take 2 (watch_loop maximum_wait (r # rs)) = [Reports (wr_end r) (30 * second), Sleeps second]"
  using assms by (simp add: Let_def initial_wait_def maximum_wait_def)

text \<open>The checks do not depend on the socket that is configured: a daemon that listens there counts as not running.\<close>
theorem doctor_ignores_configured_socket:
  "doctor_Run (e\<lparr>dc_load := Inr (cfg\<lparr>fc_socket_path := p\<rparr>)\<rparr>) = doctor_Run (e\<lparr>dc_load := Inr (cfg\<lparr>fc_socket_path := q\<rparr>)\<rparr>)"
  by (simp add: doctor_Run_def checkDaemon_def checkBin_def checkAny_def checkUDPPort_def checkTCPPort_def checkConfigFile_def
      checkCertFile_def configuredTCPPort_def Let_def)

text \<open>The version names no event that needs no subscription, but leaves out one that does.\<close>
theorem version_forgets_prompts:
  "OptInOnly = version_opt_in @ [TypePrompt] \<and> TypePrompt \<notin> set version_opt_in"
  by (rule conjI, simp only: version_opt_in_def OptInOnly_def append.simps,
      simp add: version_opt_in_def TypeSMSIncoming_def TypeSMSAttachment_def TypePrompt_def)

text \<open>The exit code says whether every check has passed, and the last line says the same.\<close>
theorem doctor_exit_is_true:
  "snd (cli_doctor e) = (\<not> list_all ck_pass (doctor_Run e)) \<and>
   last (fst (cli_doctor e)) = (if list_all ck_pass (doctor_Run e) then ''All checks passed.'' else ''Some checks failed.'')"
  by (simp add: cli_doctor_def Let_def list_all_iff)

end
