(* ===== verification/PairingThreads.thy ===== *)
theory PairingThreads
  imports PairingProtocol
begin

text \<open>
  The pair plugin under concurrency.  A user's command, a packet and a timer run in goroutines of their own; each is a program of
  atomic actions: one section under the plugin's mutex, or one method of the device, which has a mutex of its own.  Between two
  actions any other goroutine may act.  A program that runs alone is the operation of \<open>Pairing\<close>.
\<close>

section \<open>Programs\<close>

datatype pair_prog = Done | Act "pair_world \<Rightarrow> pair_prog \<times> pair_world"

definition act :: "(pair_world \<Rightarrow> pair_world) \<Rightarrow> pair_prog \<Rightarrow> pair_prog" where
  "act f p = Act (\<lambda>w. (p, f w))"

definition looks :: "(pair_world \<Rightarrow> 'a) \<Rightarrow> ('a \<Rightarrow> pair_prog) \<Rightarrow> pair_prog" where
  "looks f k = Act (\<lambda>w. (k (f w), w))"

definition asks :: "(pair_world \<Rightarrow> bool \<times> pair_world) \<Rightarrow> pair_prog \<Rightarrow> pair_prog \<Rightarrow> pair_prog" where
  "asks f p q = Act (\<lambda>w. (if fst (f w) then p else q, snd (f w)))"

definition sends :: "nat \<Rightarrow> packet \<Rightarrow> pair_prog \<Rightarrow> pair_prog \<Rightarrow> pair_prog" where
  "sends r pkt ok failed = asks (\<lambda>w. (\<not> send_failed (fst (send_to r pkt w)), snd (send_to r pkt w))) ok failed"

definition clears :: "nat \<Rightarrow> pair_prog \<Rightarrow> pair_prog" where
  "clears r p = act (on_dev r ClearEphemeral) (act (on_dev r ClearPairDial) p)"

definition forgets_stamp :: "nat \<Rightarrow> pair_prog \<Rightarrow> pair_prog" where
  "forgets_stamp r p = act (\<lambda>w. set_stamp (dv_id (pw_dev w r)) None w) p"

definition pairingDone_prog :: "nat \<Rightarrow> pair_prog" where
  "pairingDone_prog r =
     asks (transitionPendingToPaired r)
       (act (on_dev r ClearPairDial) (forgets_stamp r (act (emit TypePairAccepted r []) Done))) Done"

definition AcceptPairing_prog :: "nat \<Rightarrow> int \<Rightarrow> pair_prog" where
  "AcceptPairing_prog r now =
     looks (\<lambda>w. dv_state (pw_dev w r)) (\<lambda>state.
       if state \<noteq> StatePairRequestedByPeer \<and> state \<noteq> StatePairRequested then Done
       else asks (stopPendingTimeout r state)
              (sends r (NewPairPacket (now div millisecond) PairAccept 0)
                 (pairingDone_prog r)
                 (act (changeStateFrom r state StateUnpaired) (clears r Done)))
              Done)"

definition RequestPairing_prog :: "nat \<Rightarrow> int \<Rightarrow> pair_prog" where
  "RequestPairing_prog r now =
     looks (\<lambda>w. dv_state (pw_dev w r)) (\<lambda>state.
       if state = StatePaired then Done
       else looks (\<lambda>w. dv_state (pw_dev w r)) (\<lambda>state.
         if state = StatePairRequestedByPeer then AcceptPairing_prog r now
         else act (\<lambda>w. set_stamp (dv_id (pw_dev w r)) (Some (now div second)) w)
                (sends r (NewPairPacket (now div millisecond) PairAccept (now div second))
                   (act (changeState r StatePairRequested) Done) Done)))"

text \<open>\<open>RejectPairing\<close> and \<open>Unpair\<close>.\<close>

definition Unpair_prog :: "nat \<Rightarrow> int \<Rightarrow> pair_prog" where
  "Unpair_prog r now =
     act (sendPairReject r now) (act (changeState r StateUnpaired) (clears r (forgets_stamp r Done)))"

definition startIncomingRequest_prog :: "(string \<Rightarrow> string) \<Rightarrow> nat \<Rightarrow> pair_prog" where
  "startIncomingRequest_prog sha r =
     looks (\<lambda>w. case PeerCert (pw_dev w r) of
                  None \<Rightarrow> []
                | Some c \<Rightarrow> VerificationKey sha (pw_local_cert w) (Some c) (pairingTimestampFor (dv_id (pw_dev w r)) w))
       (\<lambda>vKey. act (changeState r StatePairRequestedByPeer) (act (emit TypePairRequested r vKey) Done))"

definition handlePairRequest_prog :: "(string \<Rightarrow> string) \<Rightarrow> nat \<Rightarrow> pair_body \<Rightarrow> int \<Rightarrow> pair_prog" where
  "handlePairRequest_prog sha r body now =
     looks (\<lambda>w. (dv_state (pw_dev w r), pw_accept_requests w)) (\<lambda>(state, mode).
       case state of
         StatePairRequested \<Rightarrow> pairingDone_prog r
       | StatePairRequestedByPeer \<Rightarrow> Done
       | StateOther _ \<Rightarrow> Done
       | _ \<Rightarrow>
           if state \<noteq> StateUnknown \<and> mode = ''never'' then act (sendPairReject r now) Done
           else asks (validateRequestTimestamp r (pb_timestamp body) now) (startIncomingRequest_prog sha r) Done)"

definition handleUnpairRequest_prog :: "nat \<Rightarrow> pair_prog" where
  "handleUnpairRequest_prog r =
     looks (\<lambda>w. dv_state (pw_dev w r)) (\<lambda>state.
       let cleanup = forgets_stamp r Done
       in if is_pending state
          then act (changeState r StateUnpaired) (clears r (act (emitRejected r []) cleanup))
          else if state = StatePaired then act (changeState r StateUnpaired) (clears r cleanup)
          else cleanup)"

text \<open>A packet, and a timer whose callback was armed; what the mutex does not cover of the callback follows as one action.\<close>

definition pair_Handle_prog :: "(string \<Rightarrow> string) \<Rightarrow> string \<Rightarrow> packet \<Rightarrow> int \<Rightarrow> pair_prog" where
  "pair_Handle_prog sha i pkt now =
     (case Option.bind (pk_body pkt) dec_pair_body of
        None \<Rightarrow> Done
      | Some body \<Rightarrow>
          looks (\<lambda>w. reg_Get i (pw_registry w)) (\<lambda>found.
            case found of
              None \<Rightarrow> Done
            | Some r \<Rightarrow> if pb_pair body then handlePairRequest_prog sha r body now else handleUnpairRequest_prog r))"

definition with_device :: "string \<Rightarrow> (nat \<Rightarrow> pair_prog) \<Rightarrow> pair_prog" where
  "with_device i k = looks (\<lambda>w. reg_Get i (pw_registry w)) (\<lambda>found. case found of None \<Rightarrow> Done | Some r \<Rightarrow> k r)"

fun op_prog :: "(string \<Rightarrow> string) \<Rightarrow> pair_op \<Rightarrow> pair_prog" where
  "op_prog sha (UserAccept i now) = with_device i (\<lambda>r. AcceptPairing_prog r now)"
| "op_prog sha (UserRequest i now) = with_device i (\<lambda>r. RequestPairing_prog r now)"
| "op_prog sha (UserReject i now) = with_device i (\<lambda>r. Unpair_prog r now)"
| "op_prog sha (UserUnpair i now) = with_device i (\<lambda>r. Unpair_prog r now)"
| "op_prog sha (PeerPacket i p now) = pair_Handle_prog sha i p now"
| "op_prog sha (TimerFires i t now) = act (pair_op_step sha (TimerFires i t now)) Done"
| "op_prog sha (SessionOp i op) = act (pair_op_step sha (SessionOp i op)) Done"

section \<open>Running\<close>

primrec run_prog :: "pair_prog \<Rightarrow> pair_world \<Rightarrow> pair_world" where
  "run_prog Done = (\<lambda>w. w)"
| "run_prog (Act f) = (\<lambda>w. case map_prod run_prog id (f w) of (g, w') \<Rightarrow> g w')"

text \<open>One action of the goroutine \<open>k\<close>, and a schedule of them.\<close>

definition thread_step :: "nat \<Rightarrow> pair_prog list \<times> pair_world \<Rightarrow> pair_prog list \<times> pair_world" where
  "thread_step k = (\<lambda>(ts, w).
     if k < length ts then (case ts ! k of Done \<Rightarrow> (ts, w) | Act f \<Rightarrow> (ts[k := fst (f w)], snd (f w))) else (ts, w))"

definition interleave :: "nat list \<Rightarrow> pair_prog list \<times> pair_world \<Rightarrow> pair_prog list \<times> pair_world" where
  "interleave sched c = fold thread_step sched c"

section \<open>A program alone is its operation\<close>

lemma run_prog_simps [simp]:
  "run_prog (act f p) w = run_prog p (f w)"
  "run_prog (looks g k) w = run_prog (k (g w)) w"
  "run_prog (asks h p q) w = (if fst (h w) then run_prog p (snd (h w)) else run_prog q (snd (h w)))"
  by (simp_all add: act_def looks_def asks_def)

lemma run_sends [simp]: "run_prog (sends r pkt p q) w = run_prog p (snd (send_to r pkt w))"
  by (simp add: sends_def)

lemma run_done: "run_prog (pairingDone_prog r) w = snd (pairingDone r w)"
  by (simp add: pairingDone_prog_def pairingDone_def forgets_stamp_def split: prod.split bool.split)

lemma run_accept: "run_prog (AcceptPairing_prog r now) w = snd (AcceptPairing r now w)"
  by (simp add: AcceptPairing_prog_def AcceptPairing_def run_done Let_def split: prod.split bool.split)

lemma run_request: "run_prog (RequestPairing_prog r now) w = snd (RequestPairing sha r now w)"
  by (simp add: RequestPairing_prog_def RequestPairing_eq run_accept)

lemma run_unpair: "run_prog (Unpair_prog r now) w = Unpair r now w"
  by (simp add: Unpair_prog_def Unpair_def clears_def clear_dials_def forgets_stamp_def Let_def)

lemma run_handle_pair: "run_prog (handlePairRequest_prog sha r body now) w = handlePairRequest sha r body now w"
  by (cases "dv_state (pw_dev w r)")
    (simp_all add: handlePairRequest_prog_def handlePairRequest_def run_done startIncomingRequest_prog_def startIncomingRequest_def
      case_bool_pair Let_def)

lemma run_handle_unpair: "run_prog (handleUnpairRequest_prog r) w = handleUnpairRequest r w"
  by (cases "dv_state (pw_dev w r)")
    (simp_all add: handleUnpairRequest_prog_def handleUnpairRequest_def clears_def clear_dials_def forgets_stamp_def is_pending_def Let_def)

lemma run_op: "run_prog (op_prog sha op) w = pair_op_step sha op w"
proof (cases op)
  case (PeerPacket i p now)
  then show ?thesis
    by (auto simp: pair_Handle_prog_def pair_Handle_def run_handle_pair run_handle_unpair split: option.split)
qed (auto simp: with_device_def on_registered_def run_accept run_request [of _ _ _ sha] run_unpair RejectPairing_def Unpair_def
       split: option.split)

section \<open>Only a pending device becomes paired\<close>

definition pairs_pending :: "pair_world \<Rightarrow> pair_world \<Rightarrow> bool" where
  "pairs_pending w w' \<longleftrightarrow>
     (\<forall>r. dv_state (pw_dev w' r) = StatePaired \<longrightarrow> dv_state (pw_dev w r) = StatePaired \<or> is_pending (dv_state (pw_dev w r)))"

primrec safe_prog :: "pair_prog \<Rightarrow> bool" where
  "safe_prog Done = True"
| "safe_prog (Act f) = (\<forall>w. pairs_pending w (snd (f w)) \<and> fst (map_prod safe_prog id (f w)))"

lemma safe_simps [simp]:
  "safe_prog (act f p) \<longleftrightarrow> (\<forall>w. pairs_pending w (f w)) \<and> safe_prog p"
  "safe_prog (looks g k) \<longleftrightarrow> (\<forall>w. safe_prog (k (g w)))"
  by (auto simp: act_def looks_def pairs_pending_def)

lemma safe_asks: "(\<And>w. pairs_pending w (snd (h w))) \<Longrightarrow> safe_prog p \<Longrightarrow> safe_prog q \<Longrightarrow> safe_prog (asks h p q)"
  by (simp add: asks_def)

lemma pairs_pending_same: "(\<And>r. dv_state (pw_dev w' r) = dv_state (pw_dev w r)) \<Longrightarrow> pairs_pending w w'"
  by (simp add: pairs_pending_def)

lemma pairs_pending_actions [simp]:
  "pairs_pending w (set_stamp i t w)" "pairs_pending w (emit typ r k w)" "pairs_pending w (emitRejected r k w)"
  "pairs_pending w (sendPairReject r now w)" "pairs_pending w (snd (send_to r pkt w))"
  "keeps_pairing f \<Longrightarrow> pairs_pending w (on_dev r f w)"
  "s \<noteq> StatePaired \<Longrightarrow> pairs_pending w (changeState r s w)"
  "s \<noteq> StatePaired \<Longrightarrow> pairs_pending w (changeStateFrom r e s w)"
  "pairs_pending w (snd (transitionPendingToPaired r w))"
  "pairs_pending w (snd (stopPendingTimeout r e w))"
  "pairs_pending w (snd (validateRequestTimestamp r ts now w))"
  by (simp_all add: pairs_pending_def sendPairReject_def changeStateFrom_eq transitionPendingToPaired_eq stopPendingTimeout_def
      state_validate)

lemma safe_sends: "safe_prog p \<Longrightarrow> safe_prog q \<Longrightarrow> safe_prog (sends r pkt p q)"
  unfolding sends_def by (intro safe_asks) simp_all

lemma safe_clears [simp]: "safe_prog (clears r p) = safe_prog p" "safe_prog (forgets_stamp r p) = safe_prog p"
  by (simp_all add: clears_def forgets_stamp_def)

lemma safe_done: "safe_prog (pairingDone_prog r)"
  unfolding pairingDone_prog_def by (intro safe_asks) simp_all

lemma safe_accept: "safe_prog (AcceptPairing_prog r now)"
  by (auto simp: AcceptPairing_prog_def intro!: safe_asks safe_sends safe_done)

lemma safe_unpair: "safe_prog (Unpair_prog r now)"
  by (simp add: Unpair_prog_def)

lemma safe_request: "safe_prog (RequestPairing_prog r now)"
  by (auto simp: RequestPairing_prog_def intro!: safe_sends safe_accept)

lemma safe_incoming: "safe_prog (startIncomingRequest_prog sha r)"
  by (simp add: startIncomingRequest_prog_def)

lemma safe_handle_pair: "safe_prog (handlePairRequest_prog sha r body now)"
  by (auto simp: handlePairRequest_prog_def intro!: safe_asks safe_done safe_incoming split: pairing_state.split)

lemma safe_handle_unpair: "safe_prog (handleUnpairRequest_prog r)"
  by (auto simp: handleUnpairRequest_prog_def Let_def)

lemma pairs_pending_timer: "pairs_pending w (pair_op_step sha (TimerFires i t now) w)"
  by (auto simp: pairs_pending_def expirePending_def transition_def TransitionState_def PokeReconnect_def clear_dials_def
      on_registered_def split: option.split prod.split)

lemma pairs_pending_session: "pairs_pending w (pair_op_step sha (SessionOp i op) w)"
  by (auto simp: pairs_pending_def on_registered_def neutral_op_keeps split: option.split)

lemma safe_op: "safe_prog (op_prog sha op)"
proof (cases op)
  case (PeerPacket i p now)
  then show ?thesis by (auto simp: pair_Handle_prog_def safe_handle_pair safe_handle_unpair split: option.split)
qed (auto simp: with_device_def safe_accept safe_request safe_unpair pairs_pending_timer pairs_pending_session
       simp del: pair_op_step.simps split: option.split)

lemma thread_step_safe:
  assumes "list_all safe_prog (fst c)"
  shows "list_all safe_prog (fst (thread_step k c)) \<and> pairs_pending (snd c) (snd (thread_step k c))"
proof -
  obtain ts w where c: "c = (ts, w)" by (cases c)
  show ?thesis
  proof (cases "k < length ts \<and> ts ! k \<noteq> Done")
    case True
    then obtain f where f: "ts ! k = Act f" by (cases "ts ! k") auto
    have "safe_prog (Act f)" using assms True f by (metis c fst_conv list_all_length)
    then have "pairs_pending w (snd (f w))" "safe_prog (fst (f w))" by simp_all
    then show ?thesis using assms True f
      by (auto simp: c thread_step_def list_all_iff dest!: set_update_subset_insert [THEN subsetD])
  qed (use assms in \<open>auto simp: c thread_step_def pairs_pending_def\<close>)
qed

lemma interleave_pending:
  assumes "list_all safe_prog (fst c)" "dv_state (pw_dev (snd c) r) \<noteq> StatePaired"
    and "dv_state (pw_dev (snd (interleave sched c)) r) = StatePaired"
  shows "\<exists>before k after. sched = before @ k # after \<and> is_pending (dv_state (pw_dev (snd (interleave before c)) r)) \<and>
    dv_state (pw_dev (snd (interleave (before @ [k]) c)) r) = StatePaired"
  using assms
proof (induction sched arbitrary: c)
  case (Cons k sched)
  let ?d = "thread_step k c"
  have d: "list_all safe_prog (fst ?d)" "pairs_pending (snd c) (snd ?d)" using thread_step_safe [OF Cons.prems(1)] by simp_all
  show ?case
  proof (cases "dv_state (pw_dev (snd ?d) r) = StatePaired")
    case True
    then have "is_pending (dv_state (pw_dev (snd c) r))" using d(2) Cons.prems(2) by (auto simp: pairs_pending_def)
    then show ?thesis using True by (intro exI [of _ "[]"] exI [of _ k] exI [of _ sched]) (simp add: interleave_def)
  next
    case False
    then obtain b j a where "sched = b @ j # a" "is_pending (dv_state (pw_dev (snd (interleave b ?d)) r))"
        "dv_state (pw_dev (snd (interleave (b @ [j]) ?d)) r) = StatePaired"
      using Cons.IH [OF d(1) False] Cons.prems(3) by (auto simp: interleave_def)
    then show ?thesis by (intro exI [of _ "k # b"] exI [of _ j] exI [of _ a]) (simp add: interleave_def)
  qed
qed (simp add: interleave_def)

text \<open>
  C1. Through the pair plugin no device becomes paired unless a request of it is pending at that very moment: whatever commands of the
  user, packets of peers, timers and methods of the device run, and however their atomic actions interleave.  (A daemon without the
  pair plugin pairs in the route itself; that is not an operation of the plugin.)
\<close>
theorem paired_went_through_pending:
  assumes "dv_state (pw_dev w r) \<noteq> StatePaired"
    and "dv_state (pw_dev (snd (interleave sched (map (op_prog sha) ops, w))) r) = StatePaired"
  shows "\<exists>before k after. sched = before @ k # after \<and>
    is_pending (dv_state (pw_dev (snd (interleave before (map (op_prog sha) ops, w))) r)) \<and>
    dv_state (pw_dev (snd (interleave (before @ [k]) (map (op_prog sha) ops, w))) r) = StatePaired"
proof -
  have "list_all safe_prog (map (op_prog sha) ops)" by (simp add: list_all_iff safe_op)
  then show ?thesis using interleave_pending [of "(map (op_prog sha) ops, w)"] assms by simp
qed

lemma interleave_simps [simp]:
  "interleave [] c = c" "interleave (k # ks) c = interleave ks (thread_step k c)"
  by (simp_all add: interleave_def)

lemma thread_step_two:
  "thread_step 0 ([Act f, q], w) = ([fst (f w), q], snd (f w))"
  "thread_step (Suc 0) ([p, Act f], w) = ([p, fst (f w)], snd (f w))"
  by (simp_all add: thread_step_def)

lemma lookup_kept:
  "reg_Get i (pw_registry (changeState r n w)) = reg_Get i (pw_registry w)"
  "reg_Get i (pw_registry (snd (send_to r pkt w))) = reg_Get i (pw_registry w)"
  by (simp_all add: changeState_eq send_to_def)

theorem paired_went_through_pending_witness:
  "\<exists>before. is_pending (dv_state (pw_dev (snd (interleave before
     (map (op_prog (\<lambda>s. s)) [UserRequest ''a'' 0, PeerPacket ''a'' (NewPairPacket 0 True 0) 1], lone_world StateUnpaired))) 0))"
proof -
  have "in_int64 0" by (simp add: in_int64_def max_int64_def min_int64_def)
  then have "dv_state (pw_dev (snd (interleave ([0, 0, 0, 0, 0, 0] @ [1, 1, 1])
      (map (op_prog (\<lambda>s. s)) [UserRequest ''a'' 0, PeerPacket ''a'' (NewPairPacket 0 True 0) 1], lone_world StateUnpaired))) 0) = StatePaired"
    by (simp add: with_device_def pair_Handle_prog_def dec_enc_pair_body RequestPairing_prog_def handlePairRequest_prog_def
        pairingDone_prog_def looks_def act_def sends_def asks_def thread_step_two state_transition_paired lookup_kept is_pending_def)
  from paired_went_through_pending [OF _ this] show ?thesis by auto
qed

section \<open>The state machine of the documentation\<close>

text \<open>
  The arrows of the diagram in \<open>docs/ARCHITECTURE.md\<close> (State machine), each with the side that its label names: the local user,
  the peer, or the clock.  The label of the way from paired to unpaired names no side.
\<close>

datatype pair_side = Locally | ByPeer | ByClock

definition drawn :: "(pair_side \<times> pairing_state \<times> pairing_state) set" where
  "drawn =
     {(Locally, StateUnpaired, StatePairRequested),
      (ByPeer, StatePairRequested, StatePaired),
      (ByPeer, StatePairRequested, StateUnpaired), (ByClock, StatePairRequested, StateUnpaired),
      (ByPeer, StateUnpaired, StatePairRequestedByPeer),
      (Locally, StatePairRequestedByPeer, StatePaired),
      (Locally, StatePairRequestedByPeer, StateUnpaired), (ByClock, StatePairRequestedByPeer, StateUnpaired),
      (Locally, StatePaired, StateUnpaired), (ByPeer, StatePaired, StateUnpaired),
      (ByPeer, StatePaired, StatePairRequestedByPeer)}"

text \<open>What the code does besides: both sides can take back a request of their own, and the local user can accept one.\<close>

definition undrawn :: "(pair_side \<times> pairing_state \<times> pairing_state) set" where
  "undrawn =
     {(Locally, StatePairRequested, StateUnpaired), (ByPeer, StatePairRequestedByPeer, StateUnpaired),
      (Locally, StatePairRequested, StatePaired)}"

fun op_side :: "pair_op \<Rightarrow> pair_side" where
  "op_side (PeerPacket _ _ _) = ByPeer"
| "op_side (TimerFires _ _ _) = ByClock"
| "op_side _ = Locally"

lemma op_arrow:
  assumes "pair_ok w" "reg_Get (op_device op) (pw_registry w) = Some r"
    and "dv_state (pw_dev w r) \<in> {StateUnpaired, StatePairRequested, StatePairRequestedByPeer, StatePaired}"
    and "dv_state (pw_dev (pair_op_step sha op w) r) \<noteq> dv_state (pw_dev w r)"
  shows "(op_side op, dv_state (pw_dev w r), dv_state (pw_dev (pair_op_step sha op w) r)) \<in> drawn \<union> undrawn"
proof -
  have s: "dv_state (pw_dev (pair_op_step sha op w) r) = next_state (event_of op r w) (dv_state (pw_dev w r))"
    using op_state [OF assms(1,2)] .
  have e: "event_of op r w \<in> {EvAccept, EvRequest, EvReject, EvUnpair, EvOther} \<and> op_side op = Locally
      \<or> event_of op r w \<in> {EvPeerUnpairs, EvOther} \<union> range EvPeerPairs \<and> op_side op = ByPeer
      \<or> event_of op r w \<in> {EvDeadline, EvOther} \<and> op_side op = ByClock"
    by (cases op) (auto split: option.splits)
  have d: "event_of op r w = EvDeadline \<Longrightarrow> is_pending (dv_state (pw_dev w r))"
  proof (cases op)
    case (TimerFires i t now)
    moreover assume "event_of op r w = EvDeadline"
    ultimately have t: "pw_timers w i = Some t" by (simp split: if_splits)
    then show ?thesis
      using live_timer_state(2) [OF assms(1) t] live_timer_armed [OF assms(1) t] assms(2) TimerFires by auto
  qed (auto split: if_splits option.splits)
  show ?thesis
    using assms(3,4) e d unfolding s
    by (cases "event_of op r w") (auto simp: drawn_def undrawn_def is_pending_def split: if_splits)
qed



end
