(* ===== verification/Spec2Isabelle.thy ===== *)
theory Spec2Isabelle
  imports Packet Identity Backoff Events Cert Net DeviceProps DeviceRegistry PluginRegistry
    BundledPlugins PairingProtocol Handshake Discovery
    Broadcaster Reconnect ConfigLoad VolumePlugins Ipc IpcWatch
    ConfigRoutes PairRoutes StateManager FileNames PayloadTransfer Share Clipboard Presenter Digitizer RunCommand
    Contacts
    Notification
    Sms
    Hooks
    DeviceRoutes
    SftpMounts
    Sftp
    MprisState
    Mpris
    MprisProps
    MprisRoutes
    ClientProto
    Client
    GoFmt
    EventFormat
    Cli
    CliMedia
    CliCommands
    CliStatus
    PairingThreads
begin

text \<open>
  Verification of kcd, a KDE Connect daemon for Linux written in Go.

  \<^bold>\<open>The program.\<close>  A daemon (\<open>cmd/kcd\<close>, \<open>internal/daemon\<close>) finds phones on the network (\<open>internal/discovery\<close>), makes
  TLS connections to them (\<open>internal/daemon/transport*.go\<close>, \<open>internal/cert\<close>), keeps a registry of devices
  (\<open>internal/device\<close>), pairs with them (\<open>internal/plugins/pair\<close>) and hands the packets of paired devices
  (\<open>internal/protocol\<close>) to plugins (\<open>internal/plugin\<close>, \<open>internal/plugins\<close>).  Plugins publish on an event bus
  (\<open>internal/events\<close>), run tools of the desktop and move payloads over side channels (\<open>internal/transport\<close>).  Clients on
  the same computer talk to the daemon over a socket (\<open>internal/ipc\<close>, the routes in \<open>internal/daemon/ipc_route*.go\<close>).
  The configuration (\<open>internal/config\<close>) switches plugins per device and is reloaded while the daemon runs.

  \<^bold>\<open>How code becomes a model.\<close>  A struct is a record with the names of its fields behind a short prefix, a body of a packet
  is a record with a decoder over JSON values (\<open>Json\<close>, \<open>JsonLists\<close>; the names, the leniency and the errors of
  \<open>encoding/json\<close> per field).  A method is a function from the old state to its result and the new state; what
  it does to the world is a list of effects in the order of the code (\<open>PluginEnv\<close>).  A critical section under a mutex is one
  atomic step; goroutines, timers and the network are steps that may come in any order, so that a statement over all
  runs is one over all interleavings.  A handler that waits (for a dial, a tool, a timer) is cut into its
  sections there.  Errors are values (\<open>Inl\<close>, \<open>None\<close>, constructors of their own); a panic is a branch too.  Times are
  numbers of nanoseconds with the overflow of \<open>int64\<close> written out where the code can reach it.  Strings are lists of
  bytes in UTF-8.  Loops are structural recursions or have their measure; the one loop of the program that may really run
  for ever (\<open>Hooks.replacePayload\<close>) is a \<open>partial_function\<close> with both halves proved: when it ends, and that it may not.

  What is not under \<open>src/\<close> is an argument: SHA-256, X.509, the JSON and TOML text parsers, the time zone and duration parsers, the
  answers of the kernel, of the network and of tools.  No law is assumed of them beyond the premises a theorem shows.

  \<^bold>\<open>Foundations.\<close>  \<open>KcdPrelude\<close> (clock, 64-bit arithmetic, the locale \<open>invariant_system\<close>: a predicate that every step keeps
  holds on every run), \<open>KeyedStore\<close> (the laws of a map, interpreted on the association lists that stand for \<open>sync.Map\<close>),
  \<open>AtomicFile\<close> (a file replaced through a temporary one, with a fault at any call; locale \<open>atomic_replace\<close>), \<open>Utf8\<close>, \<open>Strconv\<close>,
  \<open>GoStrings\<close>, \<open>GoTime\<close>, \<open>GoFloat\<close> (doubles as rationals with rounding to even), \<open>Paths\<close> (\<open>filepath.Clean\<close>, \<open>Join\<close>, \<open>Rel\<close>),
  \<open>Json\<close>, \<open>JsonLists\<close>, \<open>PluginEnv\<close>.

  \<^bold>\<open>Protocol and trust.\<close>
  \<^item> \<open>Packet\<close>, \<open>Identity\<close>: \<open>internal/protocol\<close>.  Framing of lines with the size limit of each packet, the packet pool, device IDs,
    names, identity packets.  The reader delivers exactly the lines and drops the rest of oversized ones; encode and decode are inverse.
  \<^item> \<open>Cert\<close>, \<open>Net\<close>, \<open>Handshake\<close>: \<open>cert.go\<close>, \<open>transport_handshake.go\<close>, \<open>transport_dial.go\<close>.  A handshake never changes the
    certificate pinned for a paired device and a refused one leaves trust as it was.
  \<^item> \<open>Device\<close>, \<open>DeviceProps\<close>, \<open>DeviceRegistry\<close>, \<open>StateManager\<close>: \<open>internal/device\<close>, \<open>internal/daemon/state.go\<close>.  The
    session of a device (connection, writer queue, \<open>done\<close> channel, \<open>sync.Once\<close>) with its invariant; the state file, its
    atomic replacement and its round trip through a restart; a save that was asked for is pending or on disk, if writing succeeds.
  \<^item> \<open>Pairing\<close>, \<open>PairingProps\<close>, \<open>PairingOps\<close>, \<open>PairingProtocol\<close>, \<open>PairingThreads\<close>: \<open>internal/plugins/pair\<close>.  The operations of the
    plugin; the sections as a step relation with the invariant that ties timers, generations and states; what an operation does to
    the state of its device; over runs of operations: no pairing without both sides, and a request is pending exactly while its
    timer runs.  \<open>PairingThreads\<close> cuts the operations into programs of atomic actions and interleaves them, and compares the
    states they go through with the state machine in \<open>docs/ARCHITECTURE.md\<close>.
  \<^item> \<open>Discovery\<close>, \<open>Reconnect\<close>, \<open>Broadcaster\<close>, \<open>Backoff\<close>: \<open>transport.go\<close>, \<open>transport_reconnect.go\<close>, \<open>internal/discovery\<close>,
    \<open>internal/netutil\<close>.  What a sighting may cause, the limits on dials (locale \<open>rate_limiter\<close>), the redial loop and its end, who owns
    the broadcast loop, the closed form of the backoffs (locale \<open>doubling_backoff\<close>).

  \<^bold>\<open>Plugins.\<close>
  \<^item> \<open>PluginRegistry\<close>, \<open>BundledPlugins\<close>: routing of packets by type under the policy of each device, and the bundled plugins.
  \<^item> \<open>SmallPlugins\<close> (battery, ping, telephony, connectivity, find my phone, lock), \<open>Audio\<close> and \<open>VolumePlugins\<close> (sinks and volume).
  \<^item> \<open>FileNames\<close>, \<open>PayloadTransfer\<close>, \<open>Share\<close>: names a peer chose, payloads received whole or not at all, shared files, links and texts.
  \<^item> \<open>Clipboard\<close>, \<open>Contacts\<close>, \<open>Notification\<close>, \<open>Sms\<close>: what phone and desktop exchange; pushes that send no text of the
    phone back, one request per connection, an index that follows the phone, popups that are updated in place.
  \<^item> \<open>Mousepad\<close>, \<open>Presenter\<close>, \<open>Digitizer\<close>: remote input; movement is conserved, keys are released, devices are not leaked.
  \<^item> \<open>RunCommand\<close>: only configured commands run; the lines of their pipes are reported in order, and every execution that ends is
    reported as finished once.
  \<^item> \<open>SftpMounts\<close>, \<open>Sftp\<close>: \<open>internal/plugins/sftp\<close> and its routes.  Paths, mount tables and arguments of \<open>sshfs\<close>; credentials that are
    asked for and waited for, mounts, volumes, unmounts and what they report.
  \<^item> \<open>MprisState\<close>, \<open>Mpris\<close>, \<open>MprisProps\<close>: \<open>internal/plugins/mpris\<close>.  The players of both sides, what the phone may control, album art in its
    cache, and the poller of playing media, whose steps keep one live poller (interpretation \<open>poller_inv\<close>).
  \<^item> \<open>Hooks\<close>: \<open>internal/hooks\<close>, the user's commands on events, their pool, debounce and text substitution.

  \<^bold>\<open>Configuration and local protocol.\<close>
  \<^item> \<open>ConfigSections\<close>, \<open>Config\<close>, \<open>ConfigLoad\<close>, \<open>ConfigRoutes\<close>: \<open>internal/config\<close> and its routes.  Defaults, files and drop-ins, the
    environment, validation, the hint for a misspelt key (against the recursive edit distance), what a client may set.
  \<^item> \<open>Events\<close>: \<open>internal/events\<close>.  Subscribers with bounded channels, the replay ring, what a resumed reader gets.
  \<^item> \<open>IpcProto\<close>, \<open>Ipc\<close>, \<open>IpcWatch\<close>: \<open>internal/ipc\<close>.  The connection as a step relation with its workers, the read-only socket, watches
    and snapshots, prompts.  The loop of a watch is not part of the step relation: \<open>IpcWatch\<close> says what a watch has been sent.
  \<^item> \<open>PairRoutes\<close>, \<open>DeviceRoutes\<close>, \<open>MprisRoutes\<close>: the routes of \<open>internal/daemon\<close>.  A route that waits for the phone has a beginning and
    an end.
  \<^item> \<open>ClientProto\<close>, \<open>Client\<close>: \<open>pkg/client\<close>, the requests, answers, watches and the persistent connection of a client.
  \<^item> \<open>GoFmt\<close>, \<open>EventFormat\<close>, \<open>Cli\<close>, \<open>CliMedia\<close>, \<open>CliCommands\<close>, \<open>CliStatus\<close>: \<open>cmd/kcd\<close>.  The commands over the answers of the daemon, what they
    print, and the printing of events.

  \<^bold>\<open>Bounds.\<close>  The sizes of the code are the sizes of the model: the replay ring and the channels of the bus, the queue of a
  session, four workers of the hooks, 2000 lines of output, 255 bytes of a file name.  One definition uses
  fuel: \<open>GoFmt.shortest_from\<close> tries at most the 17 digits that are enough for every double.

  \<^bold>\<open>Not modelled.\<close>  Sockets, mDNS, netlink, D-Bus and uinput themselves, key generation and X.509 parsing, logging, the start of
  processes, and of the command line the parsing of its arguments, its help, shell completion and the service installer: they are
  input and output around the logic, present here as the outcomes and effects of the operations that use them.
\<close>

end
